(* ===== verification/Prelude.thy ===== *)
theory Prelude
  imports
    Main
    "HOL-Library.Monad_Syntax"
    "HOL-Library.Finite_Map"
    "HOL-Library.Char_ord"
    "HOL-Library.List_Lexorder"
begin

text \<open>
  The prelude of the development: Go errors as values, the text formatting the code uses in its
  messages (\<open>%q\<close>, \<open>%d\<close>), integer parsing, and the small program logic the component theories share.

  A Go function that changes state becomes a function from the state to an optional pair of its
  result and the new state. The value \<open>None\<close> is a run-time panic (a nil dereference, a slice out of
  range); a Go \<open>error\<close> is an ordinary result, \<open>Inl\<close> of a \<open>goerr\<close>.
  \<open>ensures m Q\<close> says that if \<open>m\<close> does not panic its result and state satisfy \<open>Q\<close>;
  \<open>returns m Q\<close> says in addition that it does not panic.
\<close>

named_theorems wp \<open>equations that compute the weakest precondition of a program\<close>
named_theorems unfold_op \<open>definitions of the operations that wp proofs unfold\<close>
named_theorems log_intro \<open>what an operation may append to the log of effects\<close>

section \<open>Go errors\<close>

datatype status_reason =
  StatusNotFound | StatusAlreadyExists | StatusConflict | StatusOther string

datatype grpc_code =
    codes_OK | codes_Canceled | codes_Unknown | codes_InvalidArgument | codes_DeadlineExceeded
  | codes_NotFound | codes_AlreadyExists | codes_PermissionDenied | codes_ResourceExhausted
  | codes_FailedPrecondition | codes_Aborted | codes_OutOfRange | codes_Unimplemented
  | codes_Internal | codes_Unavailable | codes_DataLoss | codes_Unauthenticated

text \<open>
  The errors the code tells apart: API machinery status errors (by reason), gRPC status errors (by
  code), the \<open>controllerUpdateError\<close> of the common controller, and every other error, which is only
  its text.
\<close>

datatype goerr =
    APIStatus status_reason string
  | GRPCStatus grpc_code string
  | ControllerUpdateError string
  | Errorf string

fun grpc_code_name :: "grpc_code \<Rightarrow> string" where
  "grpc_code_name codes_OK = ''OK''"
| "grpc_code_name codes_Canceled = ''Canceled''"
| "grpc_code_name codes_Unknown = ''Unknown''"
| "grpc_code_name codes_InvalidArgument = ''InvalidArgument''"
| "grpc_code_name codes_DeadlineExceeded = ''DeadlineExceeded''"
| "grpc_code_name codes_NotFound = ''NotFound''"
| "grpc_code_name codes_AlreadyExists = ''AlreadyExists''"
| "grpc_code_name codes_PermissionDenied = ''PermissionDenied''"
| "grpc_code_name codes_ResourceExhausted = ''ResourceExhausted''"
| "grpc_code_name codes_FailedPrecondition = ''FailedPrecondition''"
| "grpc_code_name codes_Aborted = ''Aborted''"
| "grpc_code_name codes_OutOfRange = ''OutOfRange''"
| "grpc_code_name codes_Unimplemented = ''Unimplemented''"
| "grpc_code_name codes_Internal = ''Internal''"
| "grpc_code_name codes_Unavailable = ''Unavailable''"
| "grpc_code_name codes_DataLoss = ''DataLoss''"
| "grpc_code_name codes_Unauthenticated = ''Unauthenticated''"

text \<open>The method \<open>Error()\<close>.\<close>

fun err_text :: "goerr \<Rightarrow> string" where
  "err_text (APIStatus r t) = t"
| "err_text (GRPCStatus c t) = ''rpc error: code = '' @ grpc_code_name c @ '' desc = '' @ t"
| "err_text (ControllerUpdateError t) = t"
| "err_text (Errorf t) = t"

fun IsNotFound :: "goerr \<Rightarrow> bool" where
  "IsNotFound (APIStatus StatusNotFound t) = True"
| "IsNotFound _ = False"

fun IsAlreadyExists :: "goerr \<Rightarrow> bool" where
  "IsAlreadyExists (APIStatus StatusAlreadyExists t) = True"
| "IsAlreadyExists _ = False"

fun IsConflict :: "goerr \<Rightarrow> bool" where
  "IsConflict (APIStatus StatusConflict t) = True"
| "IsConflict _ = False"

section \<open>Formatting and parsing\<close>

definition hexDigit :: "nat \<Rightarrow> char" where
  "hexDigit n = ''0123456789abcdef'' ! (n mod 16)"

text \<open>
  \<open>strconv.Quote\<close> byte by byte: the escapes of ASCII. Bytes from 0x80 on belong to the UTF-8 encoding
  of a rune and are copied, as Go copies the printable runes.
\<close>

definition quoteChar :: "char \<Rightarrow> string" where
  "quoteChar c =
    (let n = of_char c :: nat in
     if n = 34 then [CHR 0x5C, CHR 0x22]
     else if n = 92 then [CHR 0x5C, CHR 0x5C]
     else if n = 7 then [CHR 0x5C, CHR ''a'']
     else if n = 8 then [CHR 0x5C, CHR ''b'']
     else if n = 12 then [CHR 0x5C, CHR ''f'']
     else if n = 10 then [CHR 0x5C, CHR ''n'']
     else if n = 13 then [CHR 0x5C, CHR ''r'']
     else if n = 9 then [CHR 0x5C, CHR ''t'']
     else if n = 11 then [CHR 0x5C, CHR ''v'']
     else if n < 32 \<or> n = 127 then [CHR 0x5C, CHR ''x'', hexDigit (n div 16), hexDigit n]
     else [c])"

definition goQuote :: "string \<Rightarrow> string" where
  "goQuote s = CHR 0x22 # concat (map quoteChar s) @ [CHR 0x22]"

fun joinWith :: "string \<Rightarrow> string list \<Rightarrow> string" where
  "joinWith sep [] = []"
| "joinWith sep [x] = x"
| "joinWith sep (x # y # xs) = x @ sep @ joinWith sep (y # xs)"

text \<open>\<open>%q\<close> of a slice of strings.\<close>

definition goQuoteList :: "string list \<Rightarrow> string" where
  "goQuoteList xs = ''['' @ joinWith '' '' (map goQuote xs) @ '']''"

text \<open>\<open>%s\<close> of one.\<close>

definition goStrings :: "string list \<Rightarrow> string" where
  "goStrings xs = ''['' @ joinWith '' '' xs @ '']''"

text \<open>\<open>fmt.Sprintf\<close> with its verbs filled in: the pieces of a message, put together.\<close>

definition sprint :: "string list \<Rightarrow> string" where
  "sprint parts = concat parts"

text \<open>Decimal notation of a natural number, \<open>%d\<close>.\<close>

fun natText :: "nat \<Rightarrow> string" where
  "natText n = (if n < 10 then [char_of (48 + n)] else natText (n div 10) @ [char_of (48 + n mod 10)])"

declare natText.simps [simp del]

definition digitVal :: "char \<Rightarrow> int option" where
  "digitVal c = (let n = of_char c :: int in if 48 \<le> n \<and> n \<le> 57 then Some (n - 48) else None)"

fun parseDigits :: "int \<Rightarrow> string \<Rightarrow> int option" where
  "parseDigits acc [] = Some acc"
| "parseDigits acc (c # cs) =
    (case digitVal c of None \<Rightarrow> None | Some d \<Rightarrow> parseDigits (10 * acc + d) cs)"

text \<open>A number that outgrows 64 bits is out of range at once, whatever characters follow.\<close>

fun outgrows :: "int \<Rightarrow> string \<Rightarrow> bool" where
  "outgrows acc [] = False"
| "outgrows acc (c # cs) =
    (case digitVal c of None \<Rightarrow> False
     | Some d \<Rightarrow> 10 * acc + d > 18446744073709551615 \<or> outgrows (10 * acc + d) cs)"

definition parseIntErr :: "string \<Rightarrow> string \<Rightarrow> goerr" where
  "parseIntErr s why = Errorf (''strconv.ParseInt: parsing '' @ goQuote s @ '': '' @ why)"

text \<open>\<open>strconv.ParseInt(s, 10, 64)\<close>: an optional sign, at least one digit, the range of \<open>int64\<close>.\<close>

definition ParseInt64 :: "string \<Rightarrow> goerr + int" where
  "ParseInt64 s =
    (let (neg, ds) = (case s of [] \<Rightarrow> (False, [])
                      | c # cs \<Rightarrow> if c = CHR ''-'' then (True, cs)
                                  else if c = CHR ''+'' then (False, cs) else (False, s)) in
     if ds = [] then Inl (parseIntErr s ''invalid syntax'')
     else case parseDigits 0 ds of
       None \<Rightarrow> Inl (parseIntErr s (if outgrows 0 ds then ''value out of range'' else ''invalid syntax''))
     | Some n \<Rightarrow>
        if \<not> neg \<and> n \<ge> 9223372036854775808 \<or> neg \<and> n > 9223372036854775808
        then Inl (parseIntErr s ''value out of range'')
        else Inr (if neg then - n else n))"

section \<open>Finite maps\<close>

lemma fmap_eq_iff:
  "m = n \<longleftrightarrow> (\<forall>k v. fmlookup m k = Some v \<longleftrightarrow> fmlookup n k = Some v)"
proof
  assume *: "\<forall>k v. fmlookup m k = Some v \<longleftrightarrow> fmlookup n k = Some v"
  show "m = n"
  proof (rule fmap_ext)
    fix k show "fmlookup m k = fmlookup n k" using * by (cases "fmlookup n k") (auto, metis option.exhaust)
  qed
qed simp

lemma fold_fmupd_lookup:
  "distinct (map fst xs) \<Longrightarrow>
   fmlookup (fold (\<lambda>(k, v). fmupd k v) xs acc) k =
     (case map_of xs k of None \<Rightarrow> fmlookup acc k | Some v \<Rightarrow> Some v)"
proof (induction xs arbitrary: acc)
  case (Cons x xs)
  obtain a b where x: "x = (a, b)" by (cases x)
  have "k = a \<Longrightarrow> map_of xs k = None" using Cons.prems x by (simp add: map_of_eq_None_iff)
  then show ?case using Cons x by (cases "k = a") (simp_all split: option.splits)
qed simp

section \<open>Programs\<close>

definition ensures :: "('a \<times> 's) option \<Rightarrow> ('a \<Rightarrow> 's \<Rightarrow> bool) \<Rightarrow> bool" where
  "ensures m Q = (case m of None \<Rightarrow> True | Some (r, s) \<Rightarrow> Q r s)"

definition returns :: "('a \<times> 's) option \<Rightarrow> ('a \<Rightarrow> 's \<Rightarrow> bool) \<Rightarrow> bool" where
  "returns m Q = (case m of None \<Rightarrow> False | Some (r, s) \<Rightarrow> Q r s)"

lemma ensures_None [wp, simp]: "ensures None Q"
  by (simp add: ensures_def)

lemma ensures_Some [wp, simp]: "ensures (Some (r, s)) Q = Q r s"
  by (simp add: ensures_def)

lemma ensures_Some_prod: "ensures (Some p) Q = Q (fst p) (snd p)"
  by (simp add: ensures_def split: prod.split)

lemma ensures_bind [wp, simp]:
  "ensures (Option.bind m k) Q = ensures m (\<lambda>r s. ensures (k (r, s)) Q)"
  by (simp add: ensures_def split: Option.bind_splits option.splits)

lemma ensures_option_bind: "(\<And>x. m = Some x \<Longrightarrow> ensures (k x) Q) \<Longrightarrow> ensures (Option.bind m k) Q"
  by (cases m) simp_all

lemma ensures_if [wp]:
  "ensures (if b then m else n) Q = ((b \<longrightarrow> ensures m Q) \<and> (\<not> b \<longrightarrow> ensures n Q))"
  by simp

lemma ensures_mono:
  "ensures m P \<Longrightarrow> (\<And>r s. P r s \<Longrightarrow> Q r s) \<Longrightarrow> ensures m Q"
  by (auto simp: ensures_def split: option.splits)

lemma ensures_conj:
  "ensures m (\<lambda>r s. P r s \<and> Q r s) = (ensures m P \<and> ensures m Q)"
  by (auto simp: ensures_def split: option.splits)

lemma ensuresD: "ensures m Q \<Longrightarrow> m = Some (r, s) \<Longrightarrow> Q r s"
  by (simp add: ensures_def)

lemma ensuresI: "(\<And>r s. m = Some (r, s) \<Longrightarrow> Q r s) \<Longrightarrow> ensures m Q"
  by (auto simp: ensures_def split: option.splits)

lemma returns_None [wp, simp]: "\<not> returns None Q"
  by (simp add: returns_def)

lemma returns_Some [wp, simp]: "returns (Some (r, s)) Q = Q r s"
  by (simp add: returns_def)

lemma returns_bind [wp, simp]:
  "returns (Option.bind m k) Q = returns m (\<lambda>r s. returns (k (r, s)) Q)"
  by (simp add: returns_def split: Option.bind_splits option.splits)

lemma returns_mono:
  "returns m P \<Longrightarrow> (\<And>r s. P r s \<Longrightarrow> Q r s) \<Longrightarrow> returns m Q"
  by (auto simp: returns_def split: option.splits)

lemma returns_not_None: "returns m Q \<Longrightarrow> m \<noteq> None"
  by (cases m) (simp_all add: returns_def)

lemma returns_imp_ensures: "returns m Q \<Longrightarrow> ensures m Q"
  by (cases m) (simp_all add: returns_def ensures_def)

lemma returns_iff: "returns m Q = (m \<noteq> None \<and> ensures m Q)"
  by (auto simp: returns_def ensures_def split: option.splits)

lemma not_None_returns: "m \<noteq> None = returns m (\<lambda>_ _. True)"
  by (auto simp: returns_def split: option.splits)

lemma map_sum_Inr: "map_sum f g x = Inr y \<longleftrightarrow> (\<exists>z. x = Inr z \<and> y = g z)"
  by (cases x) auto

end
