(* ===== verification/ApiTypes.thy ===== *)
theory ApiTypes
  imports Prelude
begin

text \<open>
  The API objects: \<open>client/apis/volumesnapshot/v1\<close>, \<open>client/apis/volumegroupsnapshot/v1\<close> and the parts
  of the Kubernetes core types the controllers read. A Go pointer is an \<open>option\<close> (\<open>nil\<close> is \<open>None\<close>), a
  map of strings a finite map (a nil map and an empty one are the same value, as they are in the
  serialized objects), a time a number of nanoseconds since the Unix epoch.

  The type metadata (\<open>Kind\<close>, \<open>APIVersion\<close>) of an object is its record type.
\<close>

type_synonym Time = int
type_synonym strmap = "(string, string) fmap"

section \<open>Object metadata and core types\<close>

record OwnerReference =
  or_APIVersion :: string
  or_Kind :: string
  or_Name :: string
  or_UID :: string

record ObjectMeta =
  Name :: string
  Namespace :: string
  UID :: string
  ResourceVersion :: string
  DeletionTimestamp :: "Time option"
  Finalizers :: "string list"
  Annotations :: strmap
  Labels :: strmap
  OwnerReferences :: "OwnerReference list"
  ManagedFields :: "string list"

definition emptyMeta :: ObjectMeta where
  "emptyMeta = \<lparr>Name = [], Namespace = [], UID = [], ResourceVersion = [],
     DeletionTimestamp = None, Finalizers = [], Annotations = fmempty, Labels = fmempty,
     OwnerReferences = [], ManagedFields = []\<rparr>"

record ObjectReference =
  ref_Kind :: string
  ref_Namespace :: string
  ref_Name :: string
  ref_UID :: string
  ref_APIVersion :: string
  ref_ResourceVersion :: string
  ref_FieldPath :: string

record SecretReference =
  sec_Name :: string
  sec_Namespace :: string

record Quantity =
  q_nano :: int
  q_Format :: string

definition NewQuantity :: "int \<Rightarrow> string \<Rightarrow> Quantity" where
  "NewQuantity n f = \<lparr>q_nano = n * 10 ^ 9, q_Format = f\<rparr>"

definition quantity_IsZero :: "Quantity \<Rightarrow> bool" where
  "quantity_IsZero q = (q_nano q = 0)"

definition BinarySI :: string where
  "BinarySI = ''BinarySI''"

datatype PVCPhase = ClaimPending | ClaimBound | ClaimLost | OtherPhase string

record TypedLocalObjectReference =
  ds_APIGroup :: "string option"
  ds_Kind :: string
  ds_Name :: string

record PersistentVolumeClaim =
  pvc_meta :: ObjectMeta
  pvc_DataSource :: "TypedLocalObjectReference option"
  pvc_VolumeName :: string
  pvc_Phase :: PVCPhase

record CSIPersistentVolumeSource =
  csi_Driver :: string
  csi_VolumeHandle :: string

text \<open>A node selector is matched by a library and otherwise only passed on: it is opaque text here.\<close>

datatype NodeSelector = NodeSelector string

record PersistentVolume =
  pv_meta :: ObjectMeta
  pv_CSI :: "CSIPersistentVolumeSource option"
  pv_ClaimRef :: "ObjectReference option"
  pv_VolumeMode :: "string option"
  pv_NodeAffinity :: "NodeSelector option option"

record Node =
  node_meta :: ObjectMeta

section \<open>Volume snapshots\<close>

datatype DeletionPolicy =
  VolumeSnapshotContentDelete | VolumeSnapshotContentRetain | OtherDeletionPolicy string

record VolumeSnapshotError =
  err_Time :: "Time option"
  err_Message :: "string option"

record VolumeSnapshotSource =
  PersistentVolumeClaimName :: "string option"
  VolumeSnapshotContentName :: "string option"

record VolumeSnapshotSpec =
  vss_Source :: VolumeSnapshotSource
  vss_VolumeSnapshotClassName :: "string option"

record VolumeSnapshotStatus =
  BoundVolumeSnapshotContentName :: "string option"
  CreationTime :: "Time option"
  ReadyToUse :: "bool option"
  RestoreSize :: "Quantity option"
  Error :: "VolumeSnapshotError option"
  VolumeGroupSnapshotName :: "string option"

record VolumeSnapshot =
  vs_meta :: ObjectMeta
  vs_Spec :: VolumeSnapshotSpec
  vs_Status :: "VolumeSnapshotStatus option"

record VolumeSnapshotClass =
  vsclass_meta :: ObjectMeta
  vsclass_Driver :: string
  vsclass_Parameters :: strmap
  vsclass_DeletionPolicy :: DeletionPolicy

record VolumeSnapshotContentSource =
  VolumeHandle :: "string option"
  SnapshotHandle :: "string option"

record VolumeSnapshotContentSpec =
  VolumeSnapshotRef :: ObjectReference
  spec_DeletionPolicy :: DeletionPolicy
  spec_Driver :: string
  spec_VolumeSnapshotClassName :: "string option"
  spec_Source :: VolumeSnapshotContentSource
  SourceVolumeMode :: "string option"

record VolumeSnapshotContentStatus =
  cs_SnapshotHandle :: "string option"
  cs_CreationTime :: "int option"
  cs_RestoreSize :: "int option"
  cs_ReadyToUse :: "bool option"
  cs_Error :: "VolumeSnapshotError option"
  cs_VolumeGroupSnapshotHandle :: "string option"

record VolumeSnapshotContent =
  vsc_meta :: ObjectMeta
  vsc_Spec :: VolumeSnapshotContentSpec
  vsc_Status :: "VolumeSnapshotContentStatus option"

section \<open>Volume group snapshots\<close>

record LabelSelector =
  MatchLabels :: strmap
  MatchExpressions :: "(string \<times> string \<times> string list) list"

record VolumeGroupSnapshotSource =
  vgs_Selector :: "LabelSelector option"
  VolumeGroupSnapshotContentName :: "string option"

record VolumeGroupSnapshotSpec =
  vgs_Source :: VolumeGroupSnapshotSource
  VolumeGroupSnapshotClassName :: "string option"

record VolumeGroupSnapshotStatus =
  BoundVolumeGroupSnapshotContentName :: "string option"
  gs_CreationTime :: "Time option"
  gs_ReadyToUse :: "bool option"
  gs_Error :: "VolumeSnapshotError option"

record VolumeGroupSnapshot =
  vgs_meta :: ObjectMeta
  vgs_Spec :: VolumeGroupSnapshotSpec
  vgs_Status :: "VolumeGroupSnapshotStatus option"

record VolumeGroupSnapshotClass =
  vgsclass_meta :: ObjectMeta
  vgsclass_Driver :: string
  vgsclass_Parameters :: strmap
  vgsclass_DeletionPolicy :: DeletionPolicy

record GroupSnapshotHandles =
  gh_VolumeGroupSnapshotHandle :: string
  gh_VolumeSnapshotHandles :: "string list"

record VolumeGroupSnapshotContentSource =
  VolumeHandles :: "string list"
  gsrc_GroupSnapshotHandles :: "GroupSnapshotHandles option"

record VolumeGroupSnapshotContentSpec =
  VolumeGroupSnapshotRef :: ObjectReference
  gspec_DeletionPolicy :: DeletionPolicy
  gspec_Driver :: string
  gspec_VolumeGroupSnapshotClassName :: "string option"
  gspec_Source :: VolumeGroupSnapshotContentSource

record VolumeSnapshotInfo =
  vsi_VolumeHandle :: string
  vsi_SnapshotHandle :: string
  vsi_CreationTime :: "int option"
  vsi_ReadyToUse :: "bool option"
  vsi_RestoreSize :: "int option"

record VolumeGroupSnapshotContentStatus =
  gcs_VolumeGroupSnapshotHandle :: "string option"
  gcs_CreationTime :: "Time option"
  gcs_ReadyToUse :: "bool option"
  gcs_Error :: "VolumeSnapshotError option"
  VolumeSnapshotInfoList :: "VolumeSnapshotInfo list"

record VolumeGroupSnapshotContent =
  vgsc_meta :: ObjectMeta
  vgsc_Spec :: VolumeGroupSnapshotContentSpec
  vgsc_Status :: "VolumeGroupSnapshotContentStatus option"

section \<open>Accessors the code uses through embedding\<close>

text \<open>\<open>ObjectMeta\<close> is embedded in the objects: \<open>snapshot.Name\<close> is \<open>snapshot.ObjectMeta.Name\<close>.\<close>

abbreviation vs_Name :: "VolumeSnapshot \<Rightarrow> string" where "vs_Name v \<equiv> Name (vs_meta v)"
abbreviation vs_Namespace :: "VolumeSnapshot \<Rightarrow> string" where "vs_Namespace v \<equiv> Namespace (vs_meta v)"
abbreviation vs_UID :: "VolumeSnapshot \<Rightarrow> string" where "vs_UID v \<equiv> UID (vs_meta v)"
abbreviation vsc_Name :: "VolumeSnapshotContent \<Rightarrow> string" where "vsc_Name c \<equiv> Name (vsc_meta c)"
abbreviation vgs_Name :: "VolumeGroupSnapshot \<Rightarrow> string" where "vgs_Name g \<equiv> Name (vgs_meta g)"
abbreviation vgs_Namespace :: "VolumeGroupSnapshot \<Rightarrow> string" where "vgs_Namespace g \<equiv> Namespace (vgs_meta g)"
abbreviation vgs_UID :: "VolumeGroupSnapshot \<Rightarrow> string" where "vgs_UID g \<equiv> UID (vgs_meta g)"
abbreviation vgsc_Name :: "VolumeGroupSnapshotContent \<Rightarrow> string" where "vgsc_Name c \<equiv> Name (vgsc_meta c)"
abbreviation pvc_Name :: "PersistentVolumeClaim \<Rightarrow> string" where "pvc_Name p \<equiv> Name (pvc_meta p)"

text \<open>\<open>snapshot.Spec.Source.PersistentVolumeClaimName\<close> and its like.\<close>

abbreviation vs_PVCName :: "VolumeSnapshot \<Rightarrow> string option" where
  "vs_PVCName v \<equiv> PersistentVolumeClaimName (vss_Source (vs_Spec v))"

abbreviation vs_ContentName :: "VolumeSnapshot \<Rightarrow> string option" where
  "vs_ContentName v \<equiv> VolumeSnapshotContentName (vss_Source (vs_Spec v))"

abbreviation vs_ClassName :: "VolumeSnapshot \<Rightarrow> string option" where
  "vs_ClassName v \<equiv> vss_VolumeSnapshotClassName (vs_Spec v)"

abbreviation vsc_Ref :: "VolumeSnapshotContent \<Rightarrow> ObjectReference" where
  "vsc_Ref c \<equiv> VolumeSnapshotRef (vsc_Spec c)"

abbreviation vsc_VolumeHandle :: "VolumeSnapshotContent \<Rightarrow> string option" where
  "vsc_VolumeHandle c \<equiv> VolumeHandle (spec_Source (vsc_Spec c))"

abbreviation vsc_SnapshotHandle :: "VolumeSnapshotContent \<Rightarrow> string option" where
  "vsc_SnapshotHandle c \<equiv> SnapshotHandle (spec_Source (vsc_Spec c))"

abbreviation vsc_Policy :: "VolumeSnapshotContent \<Rightarrow> DeletionPolicy" where
  "vsc_Policy c \<equiv> spec_DeletionPolicy (vsc_Spec c)"

text \<open>The same of the group objects.\<close>

abbreviation vgs_ContentName :: "VolumeGroupSnapshot \<Rightarrow> string option" where
  "vgs_ContentName g \<equiv> VolumeGroupSnapshotContentName (vgs_Source (vgs_Spec g))"

abbreviation vgs_ClassName :: "VolumeGroupSnapshot \<Rightarrow> string option" where
  "vgs_ClassName g \<equiv> VolumeGroupSnapshotClassName (vgs_Spec g)"

abbreviation vgsc_Ref :: "VolumeGroupSnapshotContent \<Rightarrow> ObjectReference" where
  "vgsc_Ref c \<equiv> VolumeGroupSnapshotRef (vgsc_Spec c)"

abbreviation vgsc_VolumeHandles :: "VolumeGroupSnapshotContent \<Rightarrow> string list" where
  "vgsc_VolumeHandles c \<equiv> VolumeHandles (gspec_Source (vgsc_Spec c))"

abbreviation vgsc_Handles :: "VolumeGroupSnapshotContent \<Rightarrow> GroupSnapshotHandles option" where
  "vgsc_Handles c \<equiv> gsrc_GroupSnapshotHandles (gspec_Source (vgsc_Spec c))"

abbreviation vgsc_Policy :: "VolumeGroupSnapshotContent \<Rightarrow> DeletionPolicy" where
  "vgsc_Policy c \<equiv> gspec_DeletionPolicy (vgsc_Spec c)"

section \<open>Zero values and metadata helpers\<close>

text \<open>The empty objects a typed client returns beside an error, and the zero status structures.\<close>

definition emptyStatus :: VolumeSnapshotStatus where
  "emptyStatus = \<lparr>BoundVolumeSnapshotContentName = None, CreationTime = None, ReadyToUse = None,
     RestoreSize = None, Error = None, VolumeGroupSnapshotName = None\<rparr>"

definition emptyContentStatus :: VolumeSnapshotContentStatus where
  "emptyContentStatus = \<lparr>cs_SnapshotHandle = None, cs_CreationTime = None, cs_RestoreSize = None,
     cs_ReadyToUse = None, cs_Error = None, cs_VolumeGroupSnapshotHandle = None\<rparr>"

definition emptyVolumeSnapshot :: VolumeSnapshot where
  "emptyVolumeSnapshot = \<lparr>vs_meta = emptyMeta,
     vs_Spec = \<lparr>vss_Source = \<lparr>PersistentVolumeClaimName = None, VolumeSnapshotContentName = None\<rparr>,
       vss_VolumeSnapshotClassName = None\<rparr>, vs_Status = None\<rparr>"

definition emptyRef :: ObjectReference where
  "emptyRef = \<lparr>ref_Kind = [], ref_Namespace = [], ref_Name = [], ref_UID = [],
     ref_APIVersion = [], ref_ResourceVersion = [], ref_FieldPath = []\<rparr>"

definition emptyVolumeSnapshotContent :: VolumeSnapshotContent where
  "emptyVolumeSnapshotContent = \<lparr>vsc_meta = emptyMeta,
     vsc_Spec = \<lparr>VolumeSnapshotRef = emptyRef, spec_DeletionPolicy = OtherDeletionPolicy [],
       spec_Driver = [], spec_VolumeSnapshotClassName = None,
       spec_Source = \<lparr>VolumeHandle = None, SnapshotHandle = None\<rparr>, SourceVolumeMode = None\<rparr>,
     vsc_Status = None\<rparr>"

definition emptyGroupStatus :: VolumeGroupSnapshotStatus where
  "emptyGroupStatus = \<lparr>BoundVolumeGroupSnapshotContentName = None, gs_CreationTime = None,
     gs_ReadyToUse = None, gs_Error = None\<rparr>"

definition emptyGroupContentStatus :: VolumeGroupSnapshotContentStatus where
  "emptyGroupContentStatus = \<lparr>gcs_VolumeGroupSnapshotHandle = None, gcs_CreationTime = None,
     gcs_ReadyToUse = None, gcs_Error = None, VolumeSnapshotInfoList = []\<rparr>"

definition emptyVolumeGroupSnapshot :: VolumeGroupSnapshot where
  "emptyVolumeGroupSnapshot = \<lparr>vgs_meta = emptyMeta,
     vgs_Spec = \<lparr>vgs_Source = \<lparr>vgs_Selector = None, VolumeGroupSnapshotContentName = None\<rparr>,
       VolumeGroupSnapshotClassName = None\<rparr>, vgs_Status = None\<rparr>"

definition emptyVolumeGroupSnapshotContent :: VolumeGroupSnapshotContent where
  "emptyVolumeGroupSnapshotContent = \<lparr>vgsc_meta = emptyMeta,
     vgsc_Spec = \<lparr>VolumeGroupSnapshotRef = emptyRef, gspec_DeletionPolicy = OtherDeletionPolicy [],
       gspec_Driver = [], gspec_VolumeGroupSnapshotClassName = None,
       gspec_Source = \<lparr>VolumeHandles = [], gsrc_GroupSnapshotHandles = None\<rparr>\<rparr>, vgsc_Status = None\<rparr>"

text \<open>\<open>metav1.HasAnnotation\<close> and \<open>metav1.SetMetaDataAnnotation\<close>.\<close>

definition HasAnnotation :: "ObjectMeta \<Rightarrow> string \<Rightarrow> bool" where
  "HasAnnotation m ann = (fmlookup (Annotations m) ann \<noteq> None)"

definition SetMetaDataAnnotation :: "ObjectMeta \<Rightarrow> string \<Rightarrow> string \<Rightarrow> ObjectMeta" where
  "SetMetaDataAnnotation m ann v = m\<lparr>Annotations := fmupd ann v (Annotations m)\<rparr>"

text \<open>Reading a key of a Go map: the zero value when the key is absent.\<close>

definition mapGet :: "strmap \<Rightarrow> string \<Rightarrow> string" where
  "mapGet m k = (case fmlookup m k of None \<Rightarrow> [] | Some v \<Rightarrow> v)"

lemma HasAnnotation_Set [simp]: "HasAnnotation (SetMetaDataAnnotation m a v) a"
  by (simp add: HasAnnotation_def SetMetaDataAnnotation_def)

lemma HasAnnotation_Set_other [simp]:
  "a \<noteq> b \<Longrightarrow> HasAnnotation (SetMetaDataAnnotation m a v) b = HasAnnotation m b"
  by (simp add: HasAnnotation_def SetMetaDataAnnotation_def)

lemma SetMetaDataAnnotation_sel [simp]:
  "Name (SetMetaDataAnnotation m a v) = Name m"
  "Namespace (SetMetaDataAnnotation m a v) = Namespace m"
  "UID (SetMetaDataAnnotation m a v) = UID m"
  "DeletionTimestamp (SetMetaDataAnnotation m a v) = DeletionTimestamp m"
  "Finalizers (SetMetaDataAnnotation m a v) = Finalizers m"
  by (simp_all add: SetMetaDataAnnotation_def)

end
