(* ===== verification/Utils.thy ===== *)
theory Utils
  imports ApiTypes
begin

text \<open>
  The package \<open>pkg/utils\<close>: names of finalizers and annotations, object keys, the deletion-secret
  templates of a snapshot class (with \<open>os.Expand\<close> and the DNS name checks they use), the predicates on
  snapshots and contents, the update filter of the content informer and the JSON patch operations.
\<close>

section \<open>Strings of the standard library\<close>

text \<open>\<open>strings.Split(s, c)\<close> for a separator of one character.\<close>

fun splitOn :: "char \<Rightarrow> string \<Rightarrow> string list" where
  "splitOn c [] = [[]]"
| "splitOn c (x # xs) =
    (if x = c then [] # splitOn c xs
     else case splitOn c xs of [] \<Rightarrow> [[x]] | y # ys \<Rightarrow> (x # y) # ys)"

definition HasPrefix :: "string \<Rightarrow> string \<Rightarrow> bool" where
  "HasPrefix s p = (take (length p) s = p)"

definition isDigit :: "char \<Rightarrow> bool" where
  "isDigit c = (let n = of_char c :: nat in 48 \<le> n \<and> n \<le> 57)"

definition isLower :: "char \<Rightarrow> bool" where
  "isLower c = (let n = of_char c :: nat in 97 \<le> n \<and> n \<le> 122)"

definition isUpper :: "char \<Rightarrow> bool" where
  "isUpper c = (let n = of_char c :: nat in 65 \<le> n \<and> n \<le> 90)"

text \<open>\<open>os.Expand\<close>: the names a shell would see after a dollar sign.\<close>

definition isShellSpecialVar :: "char \<Rightarrow> bool" where
  "isShellSpecialVar c = (c \<in> set ''*#$@!?-'' \<or> isDigit c)"

definition isAlphaNum :: "char \<Rightarrow> bool" where
  "isAlphaNum c = (c = CHR ''_'' \<or> isDigit c \<or> isLower c \<or> isUpper c)"

text \<open>\<open>getShellName\<close>: the name at the start of the text after \<open>$\<close> and how many characters it takes.\<close>

definition getShellName :: "string \<Rightarrow> string \<times> nat" where
  "getShellName s =
    (case s of
       [] \<Rightarrow> ([], 0)
     | c # cs \<Rightarrow>
        if c = CHR ''{'' then
          (if length s > 2 \<and> isShellSpecialVar (s ! 1) \<and> s ! 2 = CHR ''}'' then ([s ! 1], 3)
           else let name = takeWhile (\<lambda>x. x \<noteq> CHR ''}'') cs in
             if length name = length cs then ([], 1)
             else if name = [] then ([], 2)
             else (name, length name + 2))
        else if isShellSpecialVar c then ([c], 1)
        else let name = takeWhile isAlphaNum s in (name, length name))"

text \<open>The expanded text, and the names that were looked up on the way.\<close>

function Expand :: "(string \<Rightarrow> string) \<Rightarrow> string \<Rightarrow> string \<times> string list" where
  "Expand m [] = ([], [])"
| "Expand m (c # cs) =
    (if c = CHR ''$'' \<and> cs \<noteq> [] then
       let (name, w) = getShellName cs; (rest, seen) = Expand m (drop w cs) in
         if name = [] \<and> w > 0 then (rest, seen)
         else if name = [] then (c # rest, seen)
         else (m name @ rest, name # seen)
     else let (rest, seen) = Expand m cs in (c # rest, seen))"
  by pat_completeness auto
termination by (relation "measure (\<lambda>(m, s). length s)") auto

section \<open>DNS names\<close>

definition dnsAlnum :: "char \<Rightarrow> bool" where
  "dnsAlnum c = (isLower c \<or> isDigit c)"

definition dns1123LabelMatch :: "string \<Rightarrow> bool" where
  "dns1123LabelMatch s = (s \<noteq> [] \<and> dnsAlnum (hd s) \<and> dnsAlnum (last s) \<and>
     list_all (\<lambda>c. dnsAlnum c \<or> c = CHR ''-'') s)"

text \<open>\<open>len(validation.IsDNS1123Label(s)) == 0\<close> and the same for \<open>IsDNS1123Subdomain\<close>.\<close>

definition IsDNS1123Label :: "string \<Rightarrow> bool" where
  "IsDNS1123Label s = (length s \<le> 63 \<and> dns1123LabelMatch s)"

definition IsDNS1123Subdomain :: "string \<Rightarrow> bool" where
  "IsDNS1123Subdomain s = (length s \<le> 253 \<and> list_all dns1123LabelMatch (splitOn CHR ''.'' s))"

section \<open>Constants\<close>

definition csiParameterPrefix :: string where
  "csiParameterPrefix = ''csi.storage.k8s.io/''"
definition PrefixedSnapshotterSecretNameKey :: string where
  "PrefixedSnapshotterSecretNameKey = csiParameterPrefix @ ''snapshotter-secret-name''"
definition PrefixedSnapshotterSecretNamespaceKey :: string where
  "PrefixedSnapshotterSecretNamespaceKey = csiParameterPrefix @ ''snapshotter-secret-namespace''"
definition PrefixedGroupSnapshotterSecretNameKey :: string where
  "PrefixedGroupSnapshotterSecretNameKey = csiParameterPrefix @ ''group-snapshotter-secret-name''"
definition PrefixedGroupSnapshotterSecretNamespaceKey :: string where
  "PrefixedGroupSnapshotterSecretNamespaceKey =
     csiParameterPrefix @ ''group-snapshotter-secret-namespace''"
definition PrefixedSnapshotterListSecretNameKey :: string where
  "PrefixedSnapshotterListSecretNameKey = csiParameterPrefix @ ''snapshotter-list-secret-name''"
definition PrefixedSnapshotterListSecretNamespaceKey :: string where
  "PrefixedSnapshotterListSecretNamespaceKey =
     csiParameterPrefix @ ''snapshotter-list-secret-namespace''"
definition PrefixedGroupSnapshotterGetSecretNameKey :: string where
  "PrefixedGroupSnapshotterGetSecretNameKey =
     csiParameterPrefix @ ''group-snapshotter-get-secret-name''"
definition PrefixedGroupSnapshotterGetSecretNamespaceKey :: string where
  "PrefixedGroupSnapshotterGetSecretNamespaceKey =
     csiParameterPrefix @ ''group-snapshotter-get-secret-namespace''"
definition PrefixedVolumeSnapshotNameKey :: string where
  "PrefixedVolumeSnapshotNameKey = csiParameterPrefix @ ''volumesnapshot/name''"
definition PrefixedVolumeSnapshotNamespaceKey :: string where
  "PrefixedVolumeSnapshotNamespaceKey = csiParameterPrefix @ ''volumesnapshot/namespace''"
definition PrefixedVolumeSnapshotContentNameKey :: string where
  "PrefixedVolumeSnapshotContentNameKey = csiParameterPrefix @ ''volumesnapshotcontent/name''"
definition PrefixedVolumeGroupSnapshotNameKey :: string where
  "PrefixedVolumeGroupSnapshotNameKey = csiParameterPrefix @ ''volumegroupsnapshot/name''"
definition PrefixedVolumeGroupSnapshotNamespaceKey :: string where
  "PrefixedVolumeGroupSnapshotNamespaceKey = csiParameterPrefix @ ''volumegroupsnapshot/namespace''"
definition PrefixedVolumeGroupSnapshotContentNameKey :: string where
  "PrefixedVolumeGroupSnapshotContentNameKey = csiParameterPrefix @ ''volumegroupsnapshotcontent/name''"

definition VolumeSnapshotContentFinalizer :: string where
  "VolumeSnapshotContentFinalizer =
     ''snapshot.storage.kubernetes.io/volumesnapshotcontent-bound-protection''"
definition VolumeSnapshotBoundFinalizer :: string where
  "VolumeSnapshotBoundFinalizer = ''snapshot.storage.kubernetes.io/volumesnapshot-bound-protection''"
definition VolumeSnapshotAsSourceFinalizer :: string where
  "VolumeSnapshotAsSourceFinalizer =
     ''snapshot.storage.kubernetes.io/volumesnapshot-as-source-protection''"
definition VolumeSnapshotInGroupFinalizer :: string where
  "VolumeSnapshotInGroupFinalizer =
     ''snapshot.storage.kubernetes.io/volumesnapshot-in-group-protection''"
definition PVCFinalizer :: string where
  "PVCFinalizer = ''snapshot.storage.kubernetes.io/pvc-as-source-protection''"
definition VolumeGroupSnapshotContentFinalizer :: string where
  "VolumeGroupSnapshotContentFinalizer =
     ''groupsnapshot.storage.kubernetes.io/volumegroupsnapshotcontent-bound-protection''"
definition VolumeGroupSnapshotBoundFinalizer :: string where
  "VolumeGroupSnapshotBoundFinalizer =
     ''groupsnapshot.storage.kubernetes.io/volumegroupsnapshot-bound-protection''"

definition IsDefaultSnapshotClassAnnotation :: string where
  "IsDefaultSnapshotClassAnnotation = ''snapshot.storage.kubernetes.io/is-default-class''"
definition IsDefaultGroupSnapshotClassAnnotation :: string where
  "IsDefaultGroupSnapshotClassAnnotation = ''groupsnapshot.storage.kubernetes.io/is-default-class''"
definition AnnVolumeSnapshotBeingDeleted :: string where
  "AnnVolumeSnapshotBeingDeleted = ''snapshot.storage.kubernetes.io/volumesnapshot-being-deleted''"
definition AnnVolumeSnapshotBeingCreated :: string where
  "AnnVolumeSnapshotBeingCreated = ''snapshot.storage.kubernetes.io/volumesnapshot-being-created''"
definition AnnVolumeGroupSnapshotBeingCreated :: string where
  "AnnVolumeGroupSnapshotBeingCreated =
     ''groupsnapshot.storage.kubernetes.io/volumegroupsnapshot-being-created''"
definition AnnVolumeGroupSnapshotBeingDeleted :: string where
  "AnnVolumeGroupSnapshotBeingDeleted =
     ''groupsnapshot.storage.kubernetes.io/volumegroupsnapshot-being-deleted''"
definition AnnDeletionSecretRefName :: string where
  "AnnDeletionSecretRefName = ''snapshot.storage.kubernetes.io/deletion-secret-name''"
definition AnnDeletionSecretRefNamespace :: string where
  "AnnDeletionSecretRefNamespace = ''snapshot.storage.kubernetes.io/deletion-secret-namespace''"
definition AnnDeletionGroupSecretRefName :: string where
  "AnnDeletionGroupSecretRefName = ''groupsnapshot.storage.kubernetes.io/deletion-secret-name''"
definition AnnDeletionGroupSecretRefNamespace :: string where
  "AnnDeletionGroupSecretRefNamespace =
     ''groupsnapshot.storage.kubernetes.io/deletion-secret-namespace''"
definition VolumeGroupSnapshotHandleAnnotation :: string where
  "VolumeGroupSnapshotHandleAnnotation = ''groupsnapshot.storage.k8s.io/volumeGroupSnapshotHandle''"
definition VolumeSnapshotContentManagedByLabel :: string where
  "VolumeSnapshotContentManagedByLabel = ''snapshot.storage.kubernetes.io/managed-by''"

text \<open>The finalizers of a snapshot are pairwise different, and so are the annotations of a content.\<close>

lemma finalizers_distinct [simp]:
  "VolumeSnapshotAsSourceFinalizer \<noteq> VolumeSnapshotBoundFinalizer"
  "VolumeSnapshotBoundFinalizer \<noteq> VolumeSnapshotAsSourceFinalizer"
  "VolumeSnapshotAsSourceFinalizer \<noteq> VolumeSnapshotInGroupFinalizer"
  "VolumeSnapshotInGroupFinalizer \<noteq> VolumeSnapshotAsSourceFinalizer"
  "VolumeSnapshotBoundFinalizer \<noteq> VolumeSnapshotInGroupFinalizer"
  "VolumeSnapshotInGroupFinalizer \<noteq> VolumeSnapshotBoundFinalizer"
  by (simp_all add: VolumeSnapshotAsSourceFinalizer_def VolumeSnapshotBoundFinalizer_def
      VolumeSnapshotInGroupFinalizer_def)

lemma annotations_distinct [simp]:
  "AnnVolumeSnapshotBeingCreated \<noteq> AnnVolumeSnapshotBeingDeleted"
  "AnnVolumeSnapshotBeingDeleted \<noteq> AnnVolumeSnapshotBeingCreated"
  "AnnDeletionSecretRefName \<noteq> AnnDeletionSecretRefNamespace"
  "AnnDeletionSecretRefNamespace \<noteq> AnnDeletionSecretRefName"
  by (simp_all add: AnnVolumeSnapshotBeingCreated_def AnnVolumeSnapshotBeingDeleted_def
      AnnDeletionSecretRefName_def AnnDeletionSecretRefNamespace_def)

section \<open>Slices, maps and keys\<close>

definition MapContainsKey :: "strmap \<Rightarrow> string \<Rightarrow> bool" where
  "MapContainsKey m s = (fmlookup m s \<noteq> None)"

text \<open>\<open>slices.Contains\<close>.\<close>

definition Contains :: "string list \<Rightarrow> string \<Rightarrow> bool" where
  "Contains xs s = (s \<in> set xs)"

text \<open>The loop of \<open>RemoveString\<close>: it appends to \<open>newSlice\<close> every item that is not \<open>s\<close>.\<close>

fun RemoveString_loop :: "string list \<Rightarrow> string \<Rightarrow> string list \<Rightarrow> string list" where
  "RemoveString_loop newSlice s [] = newSlice"
| "RemoveString_loop newSlice s (item # items) =
    (if item = s then RemoveString_loop newSlice s items
     else RemoveString_loop (newSlice @ [item]) s items)"

definition RemoveString :: "string list \<Rightarrow> string \<Rightarrow> string list" where
  "RemoveString slice s = RemoveString_loop [] s slice"

lemma RemoveString_loop_filter: "RemoveString_loop acc s xs = acc @ filter (\<lambda>x. x \<noteq> s) xs"
  by (induction xs arbitrary: acc) auto

lemma RemoveString_filter: "RemoveString xs s = filter (\<lambda>x. x \<noteq> s) xs"
  by (simp add: RemoveString_def RemoveString_loop_filter)

lemma set_RemoveString [simp]: "set (RemoveString xs s) = set xs - {s}"
  by (auto simp: RemoveString_filter)

text \<open>\<open>cache.MetaNamespaceKeyFunc\<close> and \<open>cache.SplitMetaNamespaceKey\<close> of client-go.\<close>

definition MetaNamespaceKey :: "string \<Rightarrow> string \<Rightarrow> string" where
  "MetaNamespaceKey namespace name = (if namespace \<noteq> [] then namespace @ ''/'' @ name else name)"

definition SplitMetaNamespaceKey :: "string \<Rightarrow> goerr + string \<times> string" where
  "SplitMetaNamespaceKey key =
    (case splitOn CHR ''/'' key of
       [name] \<Rightarrow> Inr ([], name)
     | [namespace, name] \<Rightarrow> Inr (namespace, name)
     | _ \<Rightarrow> Inl (Errorf (sprint [''unexpected key format: '', goQuote key])))"

definition keyFunc :: "ObjectMeta \<Rightarrow> string" where
  "keyFunc m = MetaNamespaceKey (Namespace m) (Name m)"

lemma keyFunc_SetMetaDataAnnotation [simp]: "keyFunc (SetMetaDataAnnotation m a v) = keyFunc m"
  by (simp add: keyFunc_def)

definition SnapshotKey :: "VolumeSnapshot \<Rightarrow> string" where
  "SnapshotKey vs = vs_Namespace vs @ ''/'' @ vs_Name vs"

definition SnapshotRefKey :: "ObjectReference \<Rightarrow> string" where
  "SnapshotRefKey vsref = ref_Namespace vsref @ ''/'' @ ref_Name vsref"

definition GroupSnapshotKey :: "VolumeGroupSnapshot \<Rightarrow> string" where
  "GroupSnapshotKey vgs = Namespace (vgs_meta vgs) @ ''/'' @ vgs_Name vgs"

definition GroupSnapshotRefKey :: "ObjectReference \<Rightarrow> string" where
  "GroupSnapshotRefKey vgsref = ref_Namespace vgsref @ ''/'' @ ref_Name vgsref"

definition GetDynamicSnapshotContentNameForSnapshot :: "VolumeSnapshot \<Rightarrow> string" where
  "GetDynamicSnapshotContentNameForSnapshot snapshot = ''snapcontent-'' @ vs_UID snapshot"

definition GetDynamicSnapshotContentNameForGroupSnapshot :: "VolumeGroupSnapshot \<Rightarrow> string" where
  "GetDynamicSnapshotContentNameForGroupSnapshot gs = ''groupsnapcontent-'' @ UID (vgs_meta gs)"

lemma splitOn_no_sep [simp]: "c \<notin> set xs \<Longrightarrow> splitOn c xs = [xs]"
  by (induction xs) auto

lemma splitOn_append_sep:
  "c \<notin> set xs \<Longrightarrow> splitOn c (xs @ c # ys) = xs # splitOn c ys"
  by (induction xs) auto

lemma SnapshotKey_keyFunc:
  "vs_Namespace vs \<noteq> [] \<Longrightarrow> SnapshotKey vs = keyFunc (vs_meta vs)"
  by (simp add: SnapshotKey_def keyFunc_def MetaNamespaceKey_def)

lemma splitOn_join:
  "splitOn c xs \<noteq> []"
  by (cases xs) (auto split: list.splits)

lemma Split_Meta:
  assumes "CHR ''/'' \<notin> set ns" "CHR ''/'' \<notin> set nm"
  shows "SplitMetaNamespaceKey (MetaNamespaceKey ns nm) = Inr (ns, nm)"
proof (cases "ns = []")
  case True
  then show ?thesis using assms by (simp add: MetaNamespaceKey_def SplitMetaNamespaceKey_def)
next
  case False
  then have "MetaNamespaceKey ns nm = ns @ CHR ''/'' # nm" by (simp add: MetaNamespaceKey_def)
  then show ?thesis using assms by (simp add: SplitMetaNamespaceKey_def splitOn_append_sep)
qed

section \<open>Default classes\<close>

definition IsVolumeSnapshotClassDefaultAnnotation :: "ObjectMeta \<Rightarrow> bool" where
  "IsVolumeSnapshotClassDefaultAnnotation obj =
     (mapGet (Annotations obj) IsDefaultSnapshotClassAnnotation = ''true'')"

definition IsVolumeGroupSnapshotClassDefaultAnnotation :: "ObjectMeta \<Rightarrow> bool" where
  "IsVolumeGroupSnapshotClassDefaultAnnotation obj =
     (mapGet (Annotations obj) IsDefaultGroupSnapshotClassAnnotation = ''true'')"

section \<open>Secrets of a snapshot class\<close>

record secretParamsMap =
  sp_name :: string
  secretNameKey :: string
  secretNamespaceKey :: string

definition SnapshotterSecretParams :: secretParamsMap where
  "SnapshotterSecretParams = \<lparr>sp_name = ''Snapshotter'',
     secretNameKey = PrefixedSnapshotterSecretNameKey,
     secretNamespaceKey = PrefixedSnapshotterSecretNamespaceKey\<rparr>"

definition GroupSnapshotterSecretParams :: secretParamsMap where
  "GroupSnapshotterSecretParams = \<lparr>sp_name = ''GroupSnapshotter'',
     secretNameKey = PrefixedGroupSnapshotterSecretNameKey,
     secretNamespaceKey = PrefixedGroupSnapshotterSecretNamespaceKey\<rparr>"

definition SnapshotterListSecretParams :: secretParamsMap where
  "SnapshotterListSecretParams = \<lparr>sp_name = ''SnapshotterList'',
     secretNameKey = PrefixedSnapshotterListSecretNameKey,
     secretNamespaceKey = PrefixedSnapshotterListSecretNamespaceKey\<rparr>"

definition GroupSnapshotterGetSecretParams :: secretParamsMap where
  "GroupSnapshotterGetSecretParams = \<lparr>sp_name = ''GroupSnapshotterGet'',
     secretNameKey = PrefixedGroupSnapshotterGetSecretNameKey,
     secretNamespaceKey = PrefixedGroupSnapshotterGetSecretNamespaceKey\<rparr>"

text \<open>The pair of templates; both empty when the class names no secret.\<close>

definition verifyAndGetSecretNameAndNamespaceTemplate ::
  "secretParamsMap \<Rightarrow> strmap \<Rightarrow> goerr + string \<times> string" where
  "verifyAndGetSecretNameAndNamespaceTemplate secret params =
    (let nameT = fmlookup params (secretNameKey secret);
         nsT = fmlookup params (secretNamespaceKey secret);
         numName = (if nameT = None then 0 else 1 :: nat);
         numNamespace = (if nsT = None then 0 else 1 :: nat);
         nameTemplate = mapGet params (secretNameKey secret);
         namespaceTemplate = mapGet params (secretNamespaceKey secret) in
     if numName \<noteq> numNamespace then
       Inl (Errorf (sprint [''either name and namespace for '', sp_name secret,
         '' secrets specified, Both must be specified'']))
     else if numName = 1 then
       (if nameTemplate = [] \<or> namespaceTemplate = [] then
          Inl (Errorf (sprint [sp_name secret,
            '' secrets specified in parameters but value of either namespace or name is empty'']))
        else Inr (nameTemplate, namespaceTemplate))
     else if numName = 0 then Inr ([], [])
     else Inl (Errorf ''unknown error with getting secret name and namespace templates''))"

definition resolveTemplate :: "string \<Rightarrow> strmap \<Rightarrow> goerr + string" where
  "resolveTemplate template params =
    (let (resolved, tokens) = Expand (mapGet params) template;
         missingParams = filter (\<lambda>k. fmlookup params k = None) tokens in
     if missingParams \<noteq> [] then
       Inl (Errorf (sprint [''invalid tokens: '', goQuoteList (sort (remdups missingParams))]))
     else Inr resolved)"

text \<open>
  The part \<open>GetSecretReference\<close> and \<open>GetGroupSnapshotSecretReference\<close> have in common once the two
  token maps are built: the namespace is resolved and checked first, then the name.
\<close>

definition resolveSecretReference ::
  "string \<Rightarrow> string \<Rightarrow> strmap \<Rightarrow> strmap \<Rightarrow> goerr + SecretReference option" where
  "resolveSecretReference nameTemplate namespaceTemplate namespaceParams nameParams =
    (case resolveTemplate namespaceTemplate namespaceParams of
       Inl e \<Rightarrow> Inl (Errorf (sprint [''error resolving value '',
         goQuote namespaceTemplate, '': '', err_text e]))
     | Inr resolvedNamespace \<Rightarrow>
        if \<not> IsDNS1123Label resolvedNamespace then
          (if namespaceTemplate \<noteq> resolvedNamespace then
             Inl (Errorf (sprint [goQuote namespaceTemplate, '' resolved to '',
               goQuote resolvedNamespace, '' which is not a valid namespace name'']))
           else Inl (Errorf (sprint [goQuote namespaceTemplate, '' is not a valid namespace name''])))
        else case resolveTemplate nameTemplate nameParams of
          Inl e \<Rightarrow> Inl (Errorf (sprint [''error resolving value '', goQuote nameTemplate,
            '': '', err_text e]))
        | Inr resolvedName \<Rightarrow>
           if \<not> IsDNS1123Subdomain resolvedName then
             (if nameTemplate \<noteq> resolvedName then
                Inl (Errorf (sprint [goQuote nameTemplate, '' resolved to '', goQuote resolvedName,
                  '' which is not a valid secret name'']))
              else Inl (Errorf (sprint [goQuote nameTemplate, '' is not a valid secret name''])))
           else Inr (Some \<lparr>sec_Name = resolvedName, sec_Namespace = resolvedNamespace\<rparr>))"

definition GetSecretReference ::
  "secretParamsMap \<Rightarrow> strmap \<Rightarrow> string \<Rightarrow> VolumeSnapshot option
    \<Rightarrow> goerr + SecretReference option" where
  "GetSecretReference secretParams classParams snapContentName snapshot =
    (case verifyAndGetSecretNameAndNamespaceTemplate secretParams classParams of
       Inl e \<Rightarrow> Inl (Errorf (sprint [''failed to get name and namespace template from params: '',
         err_text e]))
     | Inr (nameTemplate, namespaceTemplate) \<Rightarrow>
        if nameTemplate = [] \<and> namespaceTemplate = [] then Inr None
        else
          let base = fmupd ''volumesnapshotcontent.name'' snapContentName fmempty;
              namespaceParams = (case snapshot of None \<Rightarrow> base
                | Some vs \<Rightarrow> fmupd ''volumesnapshot.namespace'' (vs_Namespace vs) base);
              nameParams = (case snapshot of None \<Rightarrow> base
                | Some vs \<Rightarrow> fmupd ''volumesnapshot.namespace'' (vs_Namespace vs)
                    (fmupd ''volumesnapshot.name'' (vs_Name vs) base))
          in resolveSecretReference nameTemplate namespaceTemplate namespaceParams nameParams)"

definition GetGroupSnapshotSecretReference ::
  "secretParamsMap \<Rightarrow> strmap \<Rightarrow> string \<Rightarrow> VolumeGroupSnapshot option
    \<Rightarrow> goerr + SecretReference option" where
  "GetGroupSnapshotSecretReference secretParams classParams groupSnapContentName groupSnapshot =
    (case verifyAndGetSecretNameAndNamespaceTemplate secretParams classParams of
       Inl e \<Rightarrow> Inl (Errorf (sprint [''failed to get name and namespace template from params: '',
         err_text e]))
     | Inr (nameTemplate, namespaceTemplate) \<Rightarrow>
        if nameTemplate = [] \<and> namespaceTemplate = [] then Inr None
        else
          let base = fmupd ''volumegroupsnapshotcontent.name'' groupSnapContentName fmempty;
              namespaceParams = (case groupSnapshot of None \<Rightarrow> base
                | Some vgs \<Rightarrow> fmupd ''volumegroupsnapshot.namespace'' (Namespace (vgs_meta vgs)) base);
              nameParams = (case groupSnapshot of None \<Rightarrow> base
                | Some vgs \<Rightarrow> fmupd ''volumegroupsnapshot.namespace'' (Namespace (vgs_meta vgs))
                    (fmupd ''volumegroupsnapshot.name'' (vgs_Name vgs) base))
          in resolveSecretReference nameTemplate namespaceTemplate namespaceParams nameParams)"

section \<open>Parameters passed to the driver\<close>

definition isKnownPrefixedParameter :: "string \<Rightarrow> bool" where
  "isKnownPrefixedParameter k = (k \<in> set
     [PrefixedSnapshotterSecretNameKey, PrefixedSnapshotterSecretNamespaceKey,
      PrefixedSnapshotterListSecretNameKey, PrefixedSnapshotterListSecretNamespaceKey,
      PrefixedGroupSnapshotterGetSecretNameKey, PrefixedGroupSnapshotterGetSecretNamespaceKey,
      PrefixedGroupSnapshotterSecretNameKey, PrefixedGroupSnapshotterSecretNamespaceKey])"

text \<open>
  \<open>RemovePrefixedParameters\<close> ranges over a map. The order of a range over a map is chosen by the Go
  runtime; the entries are an argument here, in the order in which the loop meets them.
\<close>

fun RemovePrefixedParameters_loop ::
  "(string \<times> string) list \<Rightarrow> strmap \<Rightarrow> goerr + strmap" where
  "RemovePrefixedParameters_loop [] newParam = Inr newParam"
| "RemovePrefixedParameters_loop ((k, v) # rest) newParam =
    (if HasPrefix k csiParameterPrefix then
       (if isKnownPrefixedParameter k then RemovePrefixedParameters_loop rest newParam
        else Inl (Errorf (sprint [''found unknown parameter key '', [CHR 0x22], k, [CHR 0x22],
          '' with reserved namespace '', csiParameterPrefix])))
     else RemovePrefixedParameters_loop rest (fmupd k v newParam))"

definition RemovePrefixedParameters :: "(string \<times> string) list \<Rightarrow> goerr + strmap" where
  "RemovePrefixedParameters entries = RemovePrefixedParameters_loop entries fmempty"

definition deprecationWarning :: "string \<Rightarrow> string \<Rightarrow> string \<Rightarrow> string" where
  "deprecationWarning deprecatedParam newParam removalVersion =
    (let removalVersion = (if removalVersion = [] then ''a future release'' else removalVersion);
         newParamPhrase = (if length newParam \<noteq> 0
           then '', please use '' @ [CHR 0x22] @ newParam @ [CHR 0x22] @ '' instead'' else [])
     in [CHR 0x22] @ deprecatedParam @ [CHR 0x22] @ '' is deprecated and will be removed in '' @
        removalVersion @ newParamPhrase)"

section \<open>Predicates on snapshots and contents\<close>

definition NeedToAddContentFinalizer :: "VolumeSnapshotContent \<Rightarrow> bool" where
  "NeedToAddContentFinalizer content =
    (DeletionTimestamp (vsc_meta content) = None \<and>
     \<not> Contains (Finalizers (vsc_meta content)) VolumeSnapshotContentFinalizer)"

definition NeedToAddGroupSnapshotContentFinalizer :: "VolumeGroupSnapshotContent \<Rightarrow> bool" where
  "NeedToAddGroupSnapshotContentFinalizer content =
    (DeletionTimestamp (vgsc_meta content) = None \<and>
     \<not> Contains (Finalizers (vgsc_meta content)) VolumeGroupSnapshotContentFinalizer)"

definition IsSnapshotDeletionCandidate :: "VolumeSnapshot \<Rightarrow> bool" where
  "IsSnapshotDeletionCandidate snapshot =
    (DeletionTimestamp (vs_meta snapshot) \<noteq> None \<and>
     (Contains (Finalizers (vs_meta snapshot)) VolumeSnapshotAsSourceFinalizer \<or>
      Contains (Finalizers (vs_meta snapshot)) VolumeSnapshotBoundFinalizer))"

definition IsGroupSnapshotDeletionCandidate :: "VolumeGroupSnapshot \<Rightarrow> bool" where
  "IsGroupSnapshotDeletionCandidate groupSnapshot =
    (DeletionTimestamp (vgs_meta groupSnapshot) \<noteq> None \<and>
     Contains (Finalizers (vgs_meta groupSnapshot)) VolumeGroupSnapshotBoundFinalizer)"

definition NeedToAddSnapshotAsSourceFinalizer :: "VolumeSnapshot \<Rightarrow> bool" where
  "NeedToAddSnapshotAsSourceFinalizer snapshot =
    (DeletionTimestamp (vs_meta snapshot) = None \<and>
     \<not> Contains (Finalizers (vs_meta snapshot)) VolumeSnapshotAsSourceFinalizer)"

definition IsBoundVolumeSnapshotContentNameSet :: "VolumeSnapshot \<Rightarrow> bool" where
  "IsBoundVolumeSnapshotContentNameSet snapshot =
    (case vs_Status snapshot of
       None \<Rightarrow> False
     | Some st \<Rightarrow> (case BoundVolumeSnapshotContentName st of None \<Rightarrow> False | Some n \<Rightarrow> n \<noteq> []))"

definition NeedToAddSnapshotBoundFinalizer :: "VolumeSnapshot \<Rightarrow> bool" where
  "NeedToAddSnapshotBoundFinalizer snapshot =
    (DeletionTimestamp (vs_meta snapshot) = None \<and>
     \<not> Contains (Finalizers (vs_meta snapshot)) VolumeSnapshotBoundFinalizer \<and>
     IsBoundVolumeSnapshotContentNameSet snapshot)"

definition IsBoundVolumeGroupSnapshotContentNameSet :: "VolumeGroupSnapshot \<Rightarrow> bool" where
  "IsBoundVolumeGroupSnapshotContentNameSet groupSnapshot =
    (case vgs_Status groupSnapshot of
       None \<Rightarrow> False
     | Some st \<Rightarrow> (case BoundVolumeGroupSnapshotContentName st of None \<Rightarrow> False | Some n \<Rightarrow> n \<noteq> []))"

definition NeedToAddGroupSnapshotBoundFinalizer :: "VolumeGroupSnapshot \<Rightarrow> bool" where
  "NeedToAddGroupSnapshotBoundFinalizer groupSnapshot =
    (DeletionTimestamp (vgs_meta groupSnapshot) = None \<and>
     \<not> Contains (Finalizers (vgs_meta groupSnapshot)) VolumeGroupSnapshotBoundFinalizer \<and>
     IsBoundVolumeGroupSnapshotContentNameSet groupSnapshot)"

definition IsVolumeSnapshotRefSet :: "VolumeSnapshot \<Rightarrow> VolumeSnapshotContent \<Rightarrow> bool" where
  "IsVolumeSnapshotRefSet snapshot content =
    (ref_Name (vsc_Ref content) = vs_Name snapshot \<and>
     ref_Namespace (vsc_Ref content) = vs_Namespace snapshot \<and>
     ref_UID (vsc_Ref content) = vs_UID snapshot)"

definition IsVolumeGroupSnapshotRefSet ::
  "VolumeGroupSnapshot \<Rightarrow> VolumeGroupSnapshotContent \<Rightarrow> bool" where
  "IsVolumeGroupSnapshotRefSet groupSnapshot content =
    (let ref = VolumeGroupSnapshotRef (vgsc_Spec content) in
     ref_Name ref = vgs_Name groupSnapshot \<and>
     ref_Namespace ref = Namespace (vgs_meta groupSnapshot) \<and>
     ref_UID ref = UID (vgs_meta groupSnapshot))"

definition IsSnapshotReady :: "VolumeSnapshot \<Rightarrow> bool" where
  "IsSnapshotReady snapshot =
    (case vs_Status snapshot of
       None \<Rightarrow> False
     | Some st \<Rightarrow> (case ReadyToUse st of None \<Rightarrow> False | Some b \<Rightarrow> b))"

definition IsSnapshotCreated :: "VolumeSnapshot \<Rightarrow> bool" where
  "IsSnapshotCreated snapshot =
    (case vs_Status snapshot of None \<Rightarrow> False | Some st \<Rightarrow> CreationTime st \<noteq> None)"

definition IsGroupSnapshotReady :: "VolumeGroupSnapshot \<Rightarrow> bool" where
  "IsGroupSnapshotReady groupSnapshot =
    (case vgs_Status groupSnapshot of
       None \<Rightarrow> False
     | Some st \<Rightarrow> (case gs_ReadyToUse st of None \<Rightarrow> False | Some b \<Rightarrow> b))"

definition IsGroupSnapshotCreated :: "VolumeGroupSnapshot \<Rightarrow> bool" where
  "IsGroupSnapshotCreated groupSnapshot =
    (case vgs_Status groupSnapshot of None \<Rightarrow> False | Some st \<Rightarrow> gs_CreationTime st \<noteq> None)"

section \<open>Group membership\<close>

definition groupSnapshotAPIVersion :: string where
  "groupSnapshotAPIVersion = ''groupsnapshot.storage.k8s.io/v1''"

text \<open>The loop over the owner references: the name of the first volume group snapshot among them.\<close>

fun firstGroupOwner :: "OwnerReference list \<Rightarrow> string" where
  "firstGroupOwner [] = []"
| "firstGroupOwner (owner # owners) =
    (if or_Kind owner = ''VolumeGroupSnapshot'' \<and> or_APIVersion owner = groupSnapshotAPIVersion
     then or_Name owner else firstGroupOwner owners)"

definition getVolumeGroupSnapshotParentObjectName :: "VolumeSnapshot \<Rightarrow> string" where
  "getVolumeGroupSnapshotParentObjectName snapshot =
     firstGroupOwner (OwnerReferences (vs_meta snapshot))"

definition IsVolumeGroupSnapshotMember :: "VolumeSnapshot \<Rightarrow> bool" where
  "IsVolumeGroupSnapshotMember snapshot =
     (length (getVolumeGroupSnapshotParentObjectName snapshot) > 0)"

definition VolumeSnapshotParentGroupKeyFuncByComponents :: "string \<Rightarrow> string \<Rightarrow> string" where
  "VolumeSnapshotParentGroupKeyFuncByComponents namespace name = namespace @ ''^'' @ name"

definition VolumeSnapshotParentGroupKeyFunc :: "VolumeSnapshot \<Rightarrow> string" where
  "VolumeSnapshotParentGroupKeyFunc snapshot =
    (let parentName = getVolumeGroupSnapshotParentObjectName snapshot in
     if length parentName = 0 then []
     else VolumeSnapshotParentGroupKeyFuncByComponents (vs_Namespace snapshot) parentName)"

definition NeedToAddVolumeGroupSnapshotOwnership :: "VolumeSnapshot \<Rightarrow> bool" where
  "NeedToAddVolumeGroupSnapshotOwnership snapshot =
    (if length (getVolumeGroupSnapshotParentObjectName snapshot) > 0 then False
     else case vs_Status snapshot of
       None \<Rightarrow> False
     | Some st \<Rightarrow> (case VolumeGroupSnapshotName st of None \<Rightarrow> False | Some n \<Rightarrow> length n \<noteq> 0))"

definition BuildVolumeGroupSnapshotOwnerReference :: "VolumeGroupSnapshot \<Rightarrow> OwnerReference" where
  "BuildVolumeGroupSnapshotOwnerReference parentGroup =
    \<lparr>or_APIVersion = groupSnapshotAPIVersion, or_Kind = ''VolumeGroupSnapshot'',
     or_Name = vgs_Name parentGroup, or_UID = UID (vgs_meta parentGroup)\<rparr>"

text \<open>The index keys of persistent volumes (\<open>pvs.go\<close>).\<close>

definition PersistentVolumeKeyFuncByCSIDriverHandle :: "string \<Rightarrow> string \<Rightarrow> string" where
  "PersistentVolumeKeyFuncByCSIDriverHandle driverName volumeHandle =
     driverName @ ''^'' @ volumeHandle"

definition PersistentVolumeKeyFunc :: "PersistentVolume option \<Rightarrow> string" where
  "PersistentVolumeKeyFunc pv =
    (case pv of None \<Rightarrow> []
     | Some p \<Rightarrow> (case pv_CSI p of None \<Rightarrow> []
        | Some csi \<Rightarrow> PersistentVolumeKeyFuncByCSIDriverHandle (csi_Driver csi) (csi_VolumeHandle csi)))"

section \<open>The update filter of the content informer\<close>

definition sidecarControlledContentAnnotations :: "string list" where
  "sidecarControlledContentAnnotations = [AnnVolumeSnapshotBeingCreated]"

text \<open>
  The loop over the annotations of the sidecar: each takes the value it has in the old object. A nil
  map of old annotations makes the code delete every one of them, which is what the loop does when no
  key is present.
\<close>

definition sanitizeAnnotations :: "strmap \<Rightarrow> strmap \<Rightarrow> strmap" where
  "sanitizeAnnotations oldA newA =
    fold (\<lambda>annotation m. case fmlookup oldA annotation of
            Some v \<Rightarrow> fmupd annotation v m | None \<Rightarrow> fmdrop annotation m)
      sidecarControlledContentAnnotations newA"

definition ShouldEnqueueContentChange ::
  "VolumeSnapshotContent \<Rightarrow> VolumeSnapshotContent \<Rightarrow> bool" where
  "ShouldEnqueueContentChange old new =
    (if ResourceVersion (vsc_meta old) = ResourceVersion (vsc_meta new) then True
     else
       let m = vsc_meta new;
           sanitized = new\<lparr>vsc_meta := m\<lparr>ResourceVersion := ResourceVersion (vsc_meta old),
                             ManagedFields := ManagedFields (vsc_meta old),
                             Finalizers := Finalizers (vsc_meta old),
                             Annotations := sanitizeAnnotations (Annotations (vsc_meta old))
                                              (Annotations m)\<rparr>,
                           vsc_Status := vsc_Status old\<rparr>
       in old \<noteq> sanitized)"

section \<open>JSON patch operations\<close>

datatype PatchValue =
    PVString string
  | PVStrings "string list"
  | PVMap strmap
  | PVOwners "OwnerReference list"
  | PVSnapshotStatus VolumeSnapshotStatus
  | PVContentStatus VolumeSnapshotContentStatus
  | PVError VolumeSnapshotError
  | PVGroupContentStatus VolumeGroupSnapshotContentStatus
  | PVInfos "VolumeSnapshotInfo list"
  | PVTime Time
  | PVInt int
  | PVBool bool
  | PVNone

record PatchOp =
  Op :: string
  Path :: string
  Value :: PatchValue

definition patchOp :: "string \<Rightarrow> string \<Rightarrow> PatchValue \<Rightarrow> PatchOp" where
  "patchOp op path v = \<lparr>Op = op, Path = path, Value = v\<rparr>"

section \<open>Properties\<close>

text \<open>An object key and the pair of names it was built from determine each other: splitting the key
  of an object gives its namespace and its name back, so two objects share a key only when they share
  both, and the key of a snapshot reference is the key of the snapshot it names.\<close>

theorem snapshot_keys_roundtrip:
  assumes "CHR ''/'' \<notin> set (vs_Namespace vs)" "CHR ''/'' \<notin> set (vs_Name vs)"
    and "vs_Namespace vs \<noteq> []"
  shows "SplitMetaNamespaceKey (SnapshotKey vs) = Inr (vs_Namespace vs, vs_Name vs) \<and>
    SplitMetaNamespaceKey (keyFunc (vs_meta vs)) = Inr (vs_Namespace vs, vs_Name vs) \<and>
    (ref_Namespace ref = vs_Namespace vs \<and> ref_Name ref = vs_Name vs
       \<longrightarrow> SnapshotRefKey ref = SnapshotKey vs)"
  using assms Split_Meta[of "vs_Namespace vs" "vs_Name vs"] SnapshotKey_keyFunc[of vs]
  by (simp add: keyFunc_def SnapshotRefKey_def SnapshotKey_def)

definition demoSnapshot :: VolumeSnapshot where
  "demoSnapshot = emptyVolumeSnapshot\<lparr>vs_meta := emptyMeta\<lparr>Name := ''snap1'', Namespace := ''ns1'',
     UID := ''uid1'', ResourceVersion := ''7''\<rparr>\<rparr>"

theorem snapshot_keys_roundtrip_witness:
  "SplitMetaNamespaceKey (SnapshotKey demoSnapshot) = Inr (''ns1'', ''snap1'')"
  using snapshot_keys_roundtrip[of demoSnapshot emptyRef]
  by (simp add: demoSnapshot_def emptyVolumeSnapshot_def emptyMeta_def)

lemma sanitize_lookup:
  "fmlookup (sanitizeAnnotations oldA newA) k =
    (if k = AnnVolumeSnapshotBeingCreated then fmlookup oldA k else fmlookup newA k)"
  by (simp add: sanitizeAnnotations_def sidecarControlledContentAnnotations_def split: option.splits)

lemma sanitize_eq_iff:
  "sanitizeAnnotations oldA newA = oldA \<longleftrightarrow>
    (\<forall>k. k \<noteq> AnnVolumeSnapshotBeingCreated \<longrightarrow> fmlookup newA k = fmlookup oldA k)"
  by (metis fmap_ext sanitize_lookup)

text \<open>A content update is dropped by the informer filter exactly when the resource version changed and
  everything outside the status, the managed fields, the finalizers and the annotation owned by the
  sidecar is unchanged; in particular a change of the being-deleted annotation is always enqueued.\<close>

theorem ShouldEnqueueContentChange_iff:
  "\<not> ShouldEnqueueContentChange old new \<longleftrightarrow>
    ResourceVersion (vsc_meta old) \<noteq> ResourceVersion (vsc_meta new) \<and>
    vsc_Spec old = vsc_Spec new \<and>
    (let m = vsc_meta old; m' = vsc_meta new in
      Name m = Name m' \<and> Namespace m = Namespace m' \<and> UID m = UID m' \<and>
      DeletionTimestamp m = DeletionTimestamp m' \<and> Labels m = Labels m' \<and>
      OwnerReferences m = OwnerReferences m' \<and>
      {(k, v). fmlookup (Annotations m) k = Some v \<and> k \<noteq> AnnVolumeSnapshotBeingCreated} =
      {(k, v). fmlookup (Annotations m') k = Some v \<and> k \<noteq> AnnVolumeSnapshotBeingCreated})"
proof -
  have ann: "({(k, v). fmlookup A k = Some v \<and> k \<noteq> c} = {(k, v). fmlookup B k = Some v \<and> k \<noteq> c})
      \<longleftrightarrow> (\<forall>k. k \<noteq> c \<longrightarrow> fmlookup B k = fmlookup A k)" for A B :: strmap and c
    by (auto simp: set_eq_iff) (metis option.exhaust)+
  show ?thesis
    by (cases old; cases new; cases "vsc_meta old"; cases "vsc_meta new")
      (auto simp: ShouldEnqueueContentChange_def Let_def ann sanitize_eq_iff[symmetric])
qed

lemma resolveTemplate_cong:
  "fmlookup params = fmlookup params' \<Longrightarrow> resolveTemplate t params = resolveTemplate t params'"
  by (simp add: fmlookup_inject)

lemma Expand_plain: "CHR ''$'' \<notin> set t \<Longrightarrow> Expand m t = (t, [])"
  by (induction t) auto

lemma resolveSecretReference_valid:
  "resolveSecretReference nt nst p q = Inr (Some ref) \<Longrightarrow>
   IsDNS1123Label (sec_Namespace ref) \<and> IsDNS1123Subdomain (sec_Name ref) \<and>
   resolveTemplate nst p = Inr (sec_Namespace ref) \<and> resolveTemplate nt q = Inr (sec_Name ref)"
  by (auto simp: resolveSecretReference_def split: sum.splits if_splits)

text \<open>The deletion secret of a snapshot is always a well-formed reference, and the namespace it is
  looked up in never depends on the name of the snapshot, which its user chooses: two snapshots of one
  namespace, whatever their names, resolve to secrets of the same namespace. Templates without a
  dollar sign are used as they are.\<close>

theorem GetSecretReference_namespace_safe:
  assumes "GetSecretReference secret params content (Some vs) = Inr (Some ref)"
    and "GetSecretReference secret params content (Some vs') = Inr (Some ref')"
    and "vs_Namespace vs = vs_Namespace vs'"
  shows "sec_Namespace ref = sec_Namespace ref' \<and>
    IsDNS1123Label (sec_Namespace ref) \<and> IsDNS1123Subdomain (sec_Name ref) \<and>
    (CHR ''$'' \<notin> set (mapGet params (secretNamespaceKey secret))
       \<longrightarrow> sec_Namespace ref = mapGet params (secretNamespaceKey secret))"
proof -
  let ?v = "verifyAndGetSecretNameAndNamespaceTemplate secret params"
  obtain nt nst where v: "?v = Inr (nt, nst)" and ne: "\<not> (nt = [] \<and> nst = [])"
    using assms(1) by (auto simp: GetSecretReference_def split: sum.splits if_splits)
  have nst: "nst = mapGet params (secretNamespaceKey secret)"
    using v ne by (auto simp: verifyAndGetSecretNameAndNamespaceTemplate_def Let_def
        split: if_splits)
  have plain: "CHR ''$'' \<notin> set nst \<Longrightarrow> resolveTemplate nst p = Inr nst" for p
    by (simp add: resolveTemplate_def Expand_plain)
  show ?thesis
    using assms v ne plain nst
    by (auto simp: GetSecretReference_def Let_def dest!: resolveSecretReference_valid
        split: sum.splits if_splits)
qed

definition demoParams :: strmap where
  "demoParams = fmap_of_list [(PrefixedSnapshotterSecretNameKey, ''s-${volumesnapshot.name}''),
     (PrefixedSnapshotterSecretNamespaceKey, ''${volumesnapshot.namespace}'')]"

lemma demo_GetSecretReference:
  "GetSecretReference SnapshotterSecretParams demoParams ''c'' (Some demoSnapshot) =
    Inr (Some \<lparr>sec_Name = ''s-snap1'', sec_Namespace = ''ns1''\<rparr>)"
  by code_simp

theorem GetSecretReference_namespace_safe_witness:
  "IsDNS1123Label ''ns1'' \<and> IsDNS1123Subdomain ''s-snap1''"
  using GetSecretReference_namespace_safe[OF demo_GetSecretReference demo_GetSecretReference refl]
  by simp

lemma RemovePrefixedParameters_loop_iff:
  "RemovePrefixedParameters_loop entries acc = Inr m \<longleftrightarrow>
    (\<forall>k \<in> fst ` set entries. HasPrefix k csiParameterPrefix \<longrightarrow> isKnownPrefixedParameter k) \<and>
    m = fold (\<lambda>(k, v). fmupd k v)
          (filter (\<lambda>kv. \<not> HasPrefix (fst kv) csiParameterPrefix) entries) acc"
  by (induction entries acc rule: RemovePrefixedParameters_loop.induct) auto

text \<open>The parameters handed to the driver do not depend on the order in which Go ranges over the
  parameter map: for every order of the same entries the filter fails exactly when some reserved key is
  not one of the eight known ones, and otherwise keeps exactly the entries whose key is not reserved.\<close>

theorem RemovePrefixedParameters_spec:
  assumes "distinct (map fst entries)"
  shows "RemovePrefixedParameters entries = Inr m \<longleftrightarrow>
    (\<forall>k \<in> fst ` set entries. HasPrefix k csiParameterPrefix \<longrightarrow> isKnownPrefixedParameter k) \<and>
    (\<forall>k v. fmlookup m k = Some v \<longleftrightarrow> (k, v) \<in> set entries \<and> \<not> HasPrefix k csiParameterPrefix)"
proof -
  let ?kept = "filter (\<lambda>kv. \<not> HasPrefix (fst kv) csiParameterPrefix) entries"
  let ?m = "fold (\<lambda>(k, v). fmupd k v) ?kept fmempty"
  have d: "distinct (map fst ?kept)" using assms by (simp add: distinct_map_filter)
  have look: "fmlookup ?m k = map_of ?kept k" for k
    by (simp add: fold_fmupd_lookup[OF d] split: option.splits)
  have "m = ?m \<longleftrightarrow> (\<forall>k v. fmlookup m k = Some v \<longleftrightarrow> map_of ?kept k = Some v)"
    unfolding look[symmetric] by (rule fmap_eq_iff)
  also have "\<dots> \<longleftrightarrow> (\<forall>k v. fmlookup m k = Some v \<longleftrightarrow>
      (k, v) \<in> set entries \<and> \<not> HasPrefix k csiParameterPrefix)"
    by (simp add: map_of_eq_Some_iff[OF d])
  finally show ?thesis
    by (simp only: RemovePrefixedParameters_def RemovePrefixedParameters_loop_iff)
qed

definition demoEntries :: "(string \<times> string) list" where
  "demoEntries = [(PrefixedSnapshotterSecretNameKey, ''x''), (''type'', ''fast'')]"

lemma demo_entries_distinct: "distinct (map fst demoEntries)"
  by code_simp

theorem RemovePrefixedParameters_spec_witness:
  "RemovePrefixedParameters demoEntries = Inr (fmap_of_list [(''type'', ''fast'')]) \<and>
   (''type'', ''fast'') \<in> set demoEntries"
proof -
  have "RemovePrefixedParameters demoEntries = Inr (fmap_of_list [(''type'', ''fast'')])"
    by code_simp
  moreover from this have "\<forall>k v. fmlookup (fmap_of_list [(''type'', ''fast'')]) k = Some v \<longleftrightarrow>
      (k, v) \<in> set demoEntries \<and> \<not> HasPrefix k csiParameterPrefix"
    using RemovePrefixedParameters_spec[OF demo_entries_distinct, of "fmap_of_list [(''type'', ''fast'')]"]
    by blast
  then have "fmlookup (fmap_of_list [(''type'', ''fast'')]) ''type'' = Some ''fast'' \<longleftrightarrow>
      (''type'', ''fast'') \<in> set demoEntries \<and> \<not> HasPrefix ''type'' csiParameterPrefix"
    by blast
  ultimately show ?thesis by simp
qed

end
