(* ===== verification/Metrics.thy ===== *)
theory Metrics
  imports ApiTypes
begin

text \<open>
  The package \<open>pkg/metrics\<close>: the cache of operations in flight of \<open>operationMetricsManager\<close>, the gauge
  that counts them and the latency observations it emits. The current time is an argument. The
  Prometheus registry and the HTTP endpoint are not modelled; an observation is an element of a list.

  The locale \<open>metrics_manager\<close> states the contract of the interface \<open>MetricsManager\<close> as its comments
  give it; the controllers rely on nothing else.
\<close>

section \<open>Data\<close>

record OperationKey =
  op_Name :: string
  ResourceID :: string

record OperationValue =
  op_Driver :: string
  SnapshotType :: string
  startTime :: Time

record observation =
  o_driver :: string
  o_operation :: string
  o_type :: string
  o_status :: string
  o_duration :: int

record operationMetricsManager =
  op_cache :: "(OperationKey, OperationValue) fmap"
  opInFlight :: nat
  opLatencyMetrics :: "observation list"

definition CreateSnapshotOperationName :: string where
  "CreateSnapshotOperationName = ''CreateSnapshot''"
definition CreateSnapshotAndReadyOperationName :: string where
  "CreateSnapshotAndReadyOperationName = ''CreateSnapshotAndReady''"
definition DeleteSnapshotOperationName :: string where
  "DeleteSnapshotOperationName = ''DeleteSnapshot''"
definition CreateGroupSnapshotOperationName :: string where
  "CreateGroupSnapshotOperationName = ''CreateGroupSnapshot''"
definition CreateGroupSnapshotAndReadyOperationName :: string where
  "CreateGroupSnapshotAndReadyOperationName = ''CreateGroupSnapshotAndReady''"
definition DeleteGroupSnapshotOperationName :: string where
  "DeleteGroupSnapshotOperationName = ''DeleteGroupSnapshot''"
definition DynamicSnapshotType :: string where
  "DynamicSnapshotType = ''dynamic''"
definition PreProvisionedSnapshotType :: string where
  "PreProvisionedSnapshotType = ''pre-provisioned''"
definition SnapshotStatusTypeUnknown :: string where
  "SnapshotStatusTypeUnknown = ''unknown''"
definition SnapshotStatusTypeSuccess :: string where
  "SnapshotStatusTypeSuccess = ''success''"
definition SnapshotStatusTypeCancel :: string where
  "SnapshotStatusTypeCancel = ''cancel''"
definition unknownDriverName :: string where
  "unknownDriverName = ''unknown''"

section \<open>Operations\<close>

definition NewOperationKey :: "string \<Rightarrow> string \<Rightarrow> OperationKey" where
  "NewOperationKey name snapshotUID = \<lparr>op_Name = name, ResourceID = snapshotUID\<rparr>"

definition NewOperationValue :: "string \<Rightarrow> string \<Rightarrow> OperationValue" where
  "NewOperationValue driver snapshotType =
    \<lparr>op_Driver = (if driver = [] then unknownDriverName else driver),
     SnapshotType = snapshotType, startTime = 0\<rparr>"

definition NewMetricsManager :: operationMetricsManager where
  "NewMetricsManager = \<lparr>op_cache = fmempty, opInFlight = 0, opLatencyMetrics = []\<rparr>"

text \<open>\<open>opMgr.opInFlight.Set(float64(len(opMgr.cache)))\<close>.\<close>

definition setInFlight :: "operationMetricsManager \<Rightarrow> operationMetricsManager" where
  "setInFlight m = m\<lparr>opInFlight := fcard (fmdom (op_cache m))\<rparr>"

definition OperationStart ::
  "OperationKey \<Rightarrow> OperationValue \<Rightarrow> Time \<Rightarrow> operationMetricsManager \<Rightarrow> operationMetricsManager" where
  "OperationStart key val now m =
    setInFlight (if fmlookup (op_cache m) key = None
      then m\<lparr>op_cache := fmupd key (val\<lparr>startTime := now\<rparr>) (op_cache m)\<rparr> else m)"

definition DropOperation :: "OperationKey \<Rightarrow> operationMetricsManager \<Rightarrow> operationMetricsManager" where
  "DropOperation op m = setInFlight (m\<lparr>op_cache := fmdrop op (op_cache m)\<rparr>)"

definition recordCancelMetricLocked ::
  "OperationValue \<Rightarrow> OperationKey \<Rightarrow> int \<Rightarrow> operationMetricsManager \<Rightarrow> operationMetricsManager" where
  "recordCancelMetricLocked val key duration m =
    m\<lparr>opLatencyMetrics := opLatencyMetrics m @
        [\<lparr>o_driver = op_Driver val, o_operation = op_Name key, o_type = SnapshotType val,
          o_status = SnapshotStatusTypeCancel, o_duration = duration\<rparr>],
      op_cache := fmdrop key (op_cache m)\<rparr>"

text \<open>The lookup of a pending create operation and its cancellation.\<close>

definition cancelIfPending ::
  "OperationKey \<Rightarrow> int \<Rightarrow> operationMetricsManager \<Rightarrow> operationMetricsManager" where
  "cancelIfPending key duration m =
    (case fmlookup (op_cache m) key of
       None \<Rightarrow> m | Some obj \<Rightarrow> recordCancelMetricLocked obj key duration m)"

text \<open>
  The body that \<open>RecordMetrics\<close> and \<open>RecordVolumeGroupSnapshotMetrics\<close> share: they differ in the three
  operation names.
\<close>

definition recordWith ::
  "string \<Rightarrow> string \<Rightarrow> string \<Rightarrow> OperationKey \<Rightarrow> string option \<Rightarrow> string \<Rightarrow> Time
    \<Rightarrow> operationMetricsManager \<Rightarrow> operationMetricsManager" where
  "recordWith deleteName createName readyName opKey opStatus driverName now m =
    (case fmlookup (op_cache m) opKey of
       None \<Rightarrow> m
     | Some opVal \<Rightarrow>
        let status = (case opStatus of None \<Rightarrow> SnapshotStatusTypeUnknown | Some st \<Rightarrow> st);
            driverName = (if driverName = [] \<or> driverName = unknownDriverName
                          then op_Driver opVal else driverName);
            operationDuration = now - startTime opVal;
            m1 = m\<lparr>opLatencyMetrics := opLatencyMetrics m @
              [\<lparr>o_driver = driverName, o_operation = op_Name opKey, o_type = SnapshotType opVal,
                o_status = status, o_duration = operationDuration\<rparr>]\<rparr>;
            m2 = (if op_Name opKey = deleteName then
                    cancelIfPending (NewOperationKey readyName (ResourceID opKey)) operationDuration
                      (cancelIfPending (NewOperationKey createName (ResourceID opKey))
                        operationDuration m1)
                  else m1)
        in setInFlight (m2\<lparr>op_cache := fmdrop opKey (op_cache m2)\<rparr>))"

definition RecordMetrics ::
  "OperationKey \<Rightarrow> string option \<Rightarrow> string \<Rightarrow> Time
    \<Rightarrow> operationMetricsManager \<Rightarrow> operationMetricsManager" where
  "RecordMetrics = recordWith DeleteSnapshotOperationName CreateSnapshotOperationName
     CreateSnapshotAndReadyOperationName"

definition RecordVolumeGroupSnapshotMetrics ::
  "OperationKey \<Rightarrow> string option \<Rightarrow> string \<Rightarrow> Time
    \<Rightarrow> operationMetricsManager \<Rightarrow> operationMetricsManager" where
  "RecordVolumeGroupSnapshotMetrics = recordWith DeleteGroupSnapshotOperationName
     CreateGroupSnapshotOperationName CreateGroupSnapshotAndReadyOperationName"

section \<open>The contract\<close>

text \<open>
  What the comments of the interface promise, for the keys that are not deletions: starting an
  operation that is in flight changes nothing, recording one that is not started changes nothing, and
  recording one that is adds one observation and ends it.
\<close>

locale metrics_manager =
  fixes start :: "OperationKey \<Rightarrow> OperationValue \<Rightarrow> Time \<Rightarrow> 's \<Rightarrow> 's"
    and drop_op :: "OperationKey \<Rightarrow> 's \<Rightarrow> 's"
    and record_op :: "OperationKey \<Rightarrow> string option \<Rightarrow> string \<Rightarrow> Time \<Rightarrow> 's \<Rightarrow> 's"
    and pending :: "'s \<Rightarrow> OperationKey \<Rightarrow> OperationValue option"
    and observed :: "'s \<Rightarrow> observation list"
    and final_key :: "OperationKey \<Rightarrow> bool"
  assumes pending_start:
      "pending (start k v t s) = (case pending s k of
         None \<Rightarrow> (pending s)(k \<mapsto> v\<lparr>startTime := t\<rparr>) | Some _ \<Rightarrow> pending s)"
    and observed_start: "observed (start k v t s) = observed s"
    and pending_drop: "pending (drop_op k s) = (pending s)(k := None)"
    and observed_drop: "observed (drop_op k s) = observed s"
    and record_absent: "pending s k = None \<Longrightarrow> record_op k st d t s = s"
    and pending_record: "pending s k \<noteq> None \<Longrightarrow> \<not> final_key k
      \<Longrightarrow> pending (record_op k st d t s) = (pending s)(k := None)"
    and observed_record: "pending s k = Some v \<Longrightarrow> \<not> final_key k
      \<Longrightarrow> map o_duration (observed (record_op k st d t s)) =
          map o_duration (observed s) @ [t - startTime v]"
begin

lemma pending_restart:
  "pending s k = Some v \<Longrightarrow> pending (fold (\<lambda>(v', t). start k v' t) vs s) k = Some v"
  by (induction vs arbitrary: s) (auto simp: pending_start)

lemma observed_restart:
  "observed (fold (\<lambda>(v', t). start k v' t) vs s) = observed s"
  by (induction vs arbitrary: s) (auto simp: observed_start)

text \<open>The latency of an operation is measured from its first start, however often it is restarted.\<close>

lemma latency_from_first_start:
  assumes "pending s k = None" "\<not> final_key k"
  shows "map o_duration (observed (record_op k st d t
      (fold (\<lambda>(v', t'). start k v' t') ((v, t0) # vs) s))) =
    map o_duration (observed s) @ [t - t0]"
proof -
  let ?s1 = "start k v t0 s"
  have "pending ?s1 k = Some (v\<lparr>startTime := t0\<rparr>)" by (simp add: pending_start assms)
  then have "pending (fold (\<lambda>(v', t'). start k v' t') vs ?s1) k = Some (v\<lparr>startTime := t0\<rparr>)"
    by (rule pending_restart)
  then show ?thesis
    using assms(2) by (simp add: observed_record observed_restart observed_start)
qed

text \<open>An operation is observed at most once for each start.\<close>

lemma record_twice:
  assumes "\<not> final_key k"
  shows "record_op k st' d' t' (record_op k st d t s) = record_op k st d t s"
proof (cases "pending s k")
  case None
  then show ?thesis by (simp add: record_absent)
next
  case (Some v)
  then have "pending (record_op k st d t s) k = None" using assms by (simp add: pending_record)
  then show ?thesis by (rule record_absent)
qed

end

definition isDeleteKey :: "OperationKey \<Rightarrow> bool" where
  "isDeleteKey k = (op_Name k = DeleteSnapshotOperationName)"

lemma setInFlight_sel [simp]:
  "op_cache (setInFlight m) = op_cache m"
  "opLatencyMetrics (setInFlight m) = opLatencyMetrics m"
  "opInFlight (setInFlight m) = fcard (fmdom (op_cache m))"
  by (simp_all add: setInFlight_def)

interpretation mm: metrics_manager OperationStart DropOperation RecordMetrics
  "\<lambda>m. fmlookup (op_cache m)" opLatencyMetrics isDeleteKey
  by unfold_locales
    (auto simp: OperationStart_def DropOperation_def RecordMetrics_def recordWith_def
      isDeleteKey_def Let_def fun_eq_iff split: option.splits)

section \<open>Properties\<close>

datatype metricsCall =
    MStart OperationKey OperationValue Time
  | MDrop OperationKey
  | MRecord OperationKey "string option" string Time
  | MRecordGroup OperationKey "string option" string Time

fun metricsStep :: "metricsCall \<Rightarrow> operationMetricsManager \<Rightarrow> operationMetricsManager" where
  "metricsStep (MStart k v t) m = OperationStart k v t m"
| "metricsStep (MDrop k) m = DropOperation k m"
| "metricsStep (MRecord k st d t) m = RecordMetrics k st d t m"
| "metricsStep (MRecordGroup k st d t) m = RecordVolumeGroupSnapshotMetrics k st d t m"

lemma gauge_recordWith:
  "opInFlight m = fcard (fmdom (op_cache m)) \<Longrightarrow>
   opInFlight (recordWith dn cn rn k st d t m) = fcard (fmdom (op_cache (recordWith dn cn rn k st d t m)))"
  by (simp add: recordWith_def Let_def split: option.splits)

lemma gauge_step:
  "opInFlight m = fcard (fmdom (op_cache m)) \<Longrightarrow>
   opInFlight (metricsStep c m) = fcard (fmdom (op_cache (metricsStep c m)))"
  by (cases c) (simp_all add: OperationStart_def DropOperation_def RecordMetrics_def
      RecordVolumeGroupSnapshotMetrics_def gauge_recordWith)

text \<open>After any sequence of calls the gauge of operations in flight equals the number of operations
  the manager has cached, deletions that cancel other operations included.\<close>

theorem inFlight_gauge_exact:
  "opInFlight (fold metricsStep calls NewMetricsManager) =
     fcard (fmdom (op_cache (fold metricsStep calls NewMetricsManager)))"
proof -
  have "opInFlight m = fcard (fmdom (op_cache m)) \<Longrightarrow>
      opInFlight (fold metricsStep calls m) = fcard (fmdom (op_cache (fold metricsStep calls m)))" for m
    by (induction calls arbitrary: m) (simp_all add: gauge_step)
  then show ?thesis by (simp add: NewMetricsManager_def)
qed

text \<open>A controller may start the same operation on every sync: once it records it, exactly one
  observation is added, its duration is measured from the first start, and recording it again adds
  nothing. (Deletions also cancel the creations of their snapshot; see the next property.)\<close>

theorem latency_recorded_once_from_first_start:
  assumes "fmlookup (op_cache m) k = None" and "op_Name k \<noteq> DeleteSnapshotOperationName"
    and "m1 = fold (\<lambda>(v', t'). OperationStart k v' t') ((v, t0) # restarts) m"
  shows "map o_duration (opLatencyMetrics (RecordMetrics k st d t m1)) =
      map o_duration (opLatencyMetrics m) @ [t - t0] \<and>
    RecordMetrics k st' d' t' (RecordMetrics k st d t m1) = RecordMetrics k st d t m1"
  using assms(1,2) unfolding assms(3) isDeleteKey_def[symmetric]
  by (intro conjI mm.latency_from_first_start mm.record_twice)

lemma cancelIfPending_lookup:
  "fmlookup (op_cache (cancelIfPending k d m)) k' = (if k' = k then None else fmlookup (op_cache m) k')"
  by (simp add: cancelIfPending_def recordCancelMetricLocked_def split: option.splits)

lemma cancelIfPending_status:
  "map o_status (opLatencyMetrics (cancelIfPending k d m)) = map o_status (opLatencyMetrics m) @
     (if fmlookup (op_cache m) k = None then [] else [SnapshotStatusTypeCancel])"
  by (simp add: cancelIfPending_def recordCancelMetricLocked_def split: option.splits)

lemma snapshot_keys_distinct [simp]:
  "NewOperationKey CreateSnapshotOperationName u \<noteq> NewOperationKey CreateSnapshotAndReadyOperationName u'"
  "NewOperationKey CreateSnapshotAndReadyOperationName u \<noteq> NewOperationKey CreateSnapshotOperationName u'"
  "NewOperationKey DeleteSnapshotOperationName u \<noteq> NewOperationKey CreateSnapshotOperationName u'"
  "NewOperationKey DeleteSnapshotOperationName u \<noteq> NewOperationKey CreateSnapshotAndReadyOperationName u'"
  by (simp_all add: NewOperationKey_def CreateSnapshotOperationName_def
      CreateSnapshotAndReadyOperationName_def DeleteSnapshotOperationName_def)

text \<open>Recording the deletion of a snapshot ends every operation of that snapshot: nothing of it stays
  in flight, each creation still pending is reported as cancelled exactly once, after the observation
  of the deletion itself, and the operations of other snapshots are untouched.\<close>

theorem delete_cancels_pending_creations:
  assumes "fmlookup (op_cache m) (NewOperationKey DeleteSnapshotOperationName uid) \<noteq> None"
    and "m' = RecordMetrics (NewOperationKey DeleteSnapshotOperationName uid) (Some st) d t m"
    and "ck = NewOperationKey CreateSnapshotOperationName uid"
    and "rk = NewOperationKey CreateSnapshotAndReadyOperationName uid"
  shows "(\<forall>k. fmlookup (op_cache m') k =
       (if k \<in> {NewOperationKey DeleteSnapshotOperationName uid, ck, rk} then None
        else fmlookup (op_cache m) k)) \<and>
    map o_status (opLatencyMetrics m') = map o_status (opLatencyMetrics m) @ st #
      (if fmlookup (op_cache m) ck = None then [] else [SnapshotStatusTypeCancel]) @
      (if fmlookup (op_cache m) rk = None then [] else [SnapshotStatusTypeCancel])"
proof -
  have n: "op_Name (NewOperationKey a u) = a" "ResourceID (NewOperationKey a u) = u" for a u
    by (simp_all add: NewOperationKey_def)
  show ?thesis
    using assms(1) unfolding assms(2-4)
    by (auto simp: RecordMetrics_def recordWith_def Let_def n cancelIfPending_lookup
        cancelIfPending_status)
qed

definition demoKey :: "string \<Rightarrow> OperationKey" where
  "demoKey name = NewOperationKey name ''uid1''"

definition demoMetrics :: operationMetricsManager where
  "demoMetrics = OperationStart (demoKey DeleteSnapshotOperationName) (NewOperationValue ''drv'' ''dynamic'') 5
     (OperationStart (demoKey CreateSnapshotOperationName) (NewOperationValue ''drv'' ''dynamic'') 3
        NewMetricsManager)"

theorem latency_recorded_once_from_first_start_witness:
  "map o_duration (opLatencyMetrics (RecordMetrics (demoKey CreateSnapshotOperationName) None [] 30
     (OperationStart (demoKey CreateSnapshotOperationName) (NewOperationValue [] []) 20
       (OperationStart (demoKey CreateSnapshotOperationName) (NewOperationValue [] []) 10
         NewMetricsManager)))) = [20]"
  using latency_recorded_once_from_first_start[of NewMetricsManager
      "demoKey CreateSnapshotOperationName" _ "NewOperationValue [] []" 10
      "[(NewOperationValue [] [], 20)]" None "[]" 30, OF _ _ refl]
  by (simp add: NewMetricsManager_def demoKey_def NewOperationKey_def CreateSnapshotOperationName_def
      DeleteSnapshotOperationName_def)

theorem delete_cancels_pending_creations_witness:
  "map o_status (opLatencyMetrics (RecordMetrics (NewOperationKey DeleteSnapshotOperationName ''uid1'')
      (Some ''success'') [] 9 demoMetrics)) = [''success'', ''cancel'']"
proof -
  have "fmlookup (op_cache demoMetrics) (NewOperationKey DeleteSnapshotOperationName ''uid1'') \<noteq> None"
    and "fmlookup (op_cache demoMetrics) (NewOperationKey CreateSnapshotOperationName ''uid1'') \<noteq> None"
    and "fmlookup (op_cache demoMetrics) (NewOperationKey CreateSnapshotAndReadyOperationName ''uid1'') = None"
    and "opLatencyMetrics demoMetrics = []"
    by code_simp+
  then show ?thesis
    using delete_cancels_pending_creations[of demoMetrics "''uid1''" _ "''success''" "[]" 9,
        OF _ refl refl refl]
    by (simp add: SnapshotStatusTypeCancel_def)
qed

end
