(* ===== verification/Runtime.thy ===== *)
theory Runtime
  imports Utils Metrics
begin

text \<open>
  What the controllers run on. The record \<open>env\<close> is everything outside this repository: the API server
  and its typed clients, the informer listers, the CSI driver, the clock and the flags of the process.
  Each operation is an arbitrary function of a world \<open>'w\<close> of its own, so a theorem about the model
  holds for every behaviour of the server, every answer of a cache that lags behind it, and every
  interference of other clients between two calls.

  The record \<open>st\<close> is the state of a controller process: the world, the four object caches, the metrics
  manager, and the log of the effects it has issued, in order. The log is how the theorems speak about
  what the code does to the outside: a write to the API server, an event, a work queue operation or a
  CSI call is appended when it is issued, whatever its outcome.
\<close>

section \<open>Cached objects\<close>

text \<open>The object caches hold values of the empty interface type: any of the four kinds.\<close>

datatype obj =
    ObjVS VolumeSnapshot
  | ObjVSC VolumeSnapshotContent
  | ObjVGS VolumeGroupSnapshot
  | ObjVGSC VolumeGroupSnapshotContent

fun objMeta :: "obj \<Rightarrow> ObjectMeta" where
  "objMeta (ObjVS x) = vs_meta x"
| "objMeta (ObjVSC x) = vsc_meta x"
| "objMeta (ObjVGS x) = vgs_meta x"
| "objMeta (ObjVGSC x) = vgsc_meta x"

type_synonym store = "string \<Rightarrow> obj option"

section \<open>The effects\<close>

datatype queue = QSnapshot | QContent | QGroupSnapshot | QGroupContent

datatype event_type = EventTypeNormal | EventTypeWarning

record CreateSnapshotRequest =
  SourceVolumeId :: string
  req_Name :: string
  Parameters :: strmap
  Secrets :: strmap

record csi_Snapshot =
  SnapshotId :: string
  csi_SourceVolumeId :: string
  SizeBytes :: int
  csi_CreationTime :: "Time option"
  csi_ReadyToUse :: bool
  GroupSnapshotId :: string

record CreateVolumeGroupSnapshotRequest =
  gr_Name :: string
  SourceVolumeIds :: "string list"
  gr_Secrets :: strmap
  gr_Parameters :: strmap

record csi_VolumeGroupSnapshot =
  cg_GroupSnapshotId :: string
  cg_Snapshots :: "csi_Snapshot list"
  cg_CreationTime :: "Time option"
  cg_ReadyToUse :: bool

datatype action =
    UpdateVS VolumeSnapshot
  | UpdateStatusVS VolumeSnapshot
  | PatchVS string string "PatchOp list" "string list"
  | CreateVSC VolumeSnapshotContent
  | UpdateStatusVSC VolumeSnapshotContent
  | PatchVSC string "PatchOp list" "string list"
  | DeleteVSC string
  | UpdatePVC PersistentVolumeClaim
  | Event obj event_type string string
  | QueueAdd queue string
  | QueueAddRateLimited queue string
  | QueueForget queue string
  | QueueDone queue string
  | CSICreateSnapshot CreateSnapshotRequest
  | CSIDeleteSnapshot string strmap
  | CSIListSnapshots string strmap
  | CreateVS VolumeSnapshot
  | DeleteVS string string
  | UpdateVGS VolumeGroupSnapshot
  | UpdateStatusVGS VolumeGroupSnapshot
  | PatchVGS string string "PatchOp list" "string list"
  | CreateVGSC VolumeGroupSnapshotContent
  | UpdateStatusVGSC VolumeGroupSnapshotContent
  | PatchVGSC string "PatchOp list" "string list"
  | DeleteVGSC string
  | CSICreateGroupSnapshot CreateVolumeGroupSnapshotRequest
  | CSIDeleteGroupSnapshot string "string list" strmap
  | CSIGetGroupSnapshot string "string list" strmap

text \<open>The sub-resources of a patch: the object itself or its status.\<close>

definition plainOrStatus :: "string list \<Rightarrow> bool" where
  "plainOrStatus q \<longleftrightarrow> q = [] \<or> q = [''status'']"

lemma plainOrStatus_simps [simp]: "plainOrStatus []" "plainOrStatus [''status'']"
  by (simp_all add: plainOrStatus_def)

section \<open>The environment\<close>

text \<open>
  A lister or client call returns an error or a result, and the next world. The typed client returns
  an empty object beside an error; the places that use it say so.
\<close>

record 'w env =
  api_GetVS :: "string \<Rightarrow> string \<Rightarrow> 'w \<Rightarrow> (goerr + VolumeSnapshot) \<times> 'w"
  api_UpdateVS :: "VolumeSnapshot \<Rightarrow> 'w \<Rightarrow> (goerr + VolumeSnapshot) \<times> 'w"
  api_UpdateStatusVS :: "VolumeSnapshot \<Rightarrow> 'w \<Rightarrow> (goerr + VolumeSnapshot) \<times> 'w"
  api_PatchVS :: "string \<Rightarrow> string \<Rightarrow> PatchOp list \<Rightarrow> string list \<Rightarrow> 'w \<Rightarrow> (goerr + VolumeSnapshot) \<times> 'w"
  api_GetVSC :: "string \<Rightarrow> 'w \<Rightarrow> (goerr + VolumeSnapshotContent) \<times> 'w"
  api_CreateVSC :: "VolumeSnapshotContent \<Rightarrow> 'w \<Rightarrow> (goerr + VolumeSnapshotContent) \<times> 'w"
  api_UpdateStatusVSC :: "VolumeSnapshotContent \<Rightarrow> 'w \<Rightarrow> (goerr + VolumeSnapshotContent) \<times> 'w"
  api_PatchVSC :: "string \<Rightarrow> PatchOp list \<Rightarrow> string list \<Rightarrow> 'w \<Rightarrow> (goerr + VolumeSnapshotContent) \<times> 'w"
  api_DeleteVSC :: "string \<Rightarrow> 'w \<Rightarrow> goerr option \<times> 'w"
  api_GetPVC :: "string \<Rightarrow> string \<Rightarrow> 'w \<Rightarrow> (goerr + PersistentVolumeClaim) \<times> 'w"
  api_UpdatePVC :: "PersistentVolumeClaim \<Rightarrow> 'w \<Rightarrow> (goerr + PersistentVolumeClaim) \<times> 'w"
  api_GetPV :: "string \<Rightarrow> 'w \<Rightarrow> (goerr + PersistentVolume) \<times> 'w"
  api_GetSecret :: "string \<Rightarrow> string \<Rightarrow> 'w \<Rightarrow> (goerr + strmap) \<times> 'w"
  lister_GetVS :: "string \<Rightarrow> string \<Rightarrow> 'w \<Rightarrow> (goerr + VolumeSnapshot) \<times> 'w"
  lister_ListVS :: "string option \<Rightarrow> 'w \<Rightarrow> (goerr + VolumeSnapshot list) \<times> 'w"
  lister_GetVSC :: "string \<Rightarrow> 'w \<Rightarrow> (goerr + VolumeSnapshotContent) \<times> 'w"
  lister_ListVSC :: "'w \<Rightarrow> (goerr + VolumeSnapshotContent list) \<times> 'w"
  lister_GetClass :: "string \<Rightarrow> 'w \<Rightarrow> (goerr + VolumeSnapshotClass) \<times> 'w"
  lister_ListClass :: "'w \<Rightarrow> (goerr + VolumeSnapshotClass list) \<times> 'w"
  lister_GetPVC :: "string \<Rightarrow> string \<Rightarrow> 'w \<Rightarrow> (goerr + PersistentVolumeClaim) \<times> 'w"
  lister_ListPVC :: "string \<Rightarrow> 'w \<Rightarrow> (goerr + PersistentVolumeClaim list) \<times> 'w"
  lister_GetVGS :: "string \<Rightarrow> string \<Rightarrow> 'w \<Rightarrow> (goerr + VolumeGroupSnapshot) \<times> 'w"
  lister_GetGroupClass :: "string \<Rightarrow> 'w \<Rightarrow> (goerr + VolumeGroupSnapshotClass) \<times> 'w"
  lister_GetVGSC :: "string \<Rightarrow> 'w \<Rightarrow> (goerr + VolumeGroupSnapshotContent) \<times> 'w"
  lister_ListGroupClass :: "'w \<Rightarrow> (goerr + VolumeGroupSnapshotClass list) \<times> 'w"
  lister_ListVGSC :: "'w \<Rightarrow> (goerr + VolumeGroupSnapshotContent list) \<times> 'w"
  lister_ListNodes :: "'w \<Rightarrow> (goerr + Node list) \<times> 'w"
  matchNodeSelectorTerms :: "Node \<Rightarrow> NodeSelector option \<Rightarrow> bool"
  time_Now :: "'w \<Rightarrow> Time \<times> 'w"
  range_order :: "strmap \<Rightarrow> 'w \<Rightarrow> (string \<times> string) list \<times> 'w"
  shared_write_VSC :: "VolumeSnapshotContent \<Rightarrow> 'w \<Rightarrow> 'w"
  csi_GetDriverName :: "'w \<Rightarrow> (goerr + string) \<times> 'w"
  csi_CreateSnapshot :: "CreateSnapshotRequest \<Rightarrow> 'w \<Rightarrow> (goerr + csi_Snapshot option) \<times> 'w"
  csi_DeleteSnapshot :: "string \<Rightarrow> strmap \<Rightarrow> 'w \<Rightarrow> goerr option \<times> 'w"
  csi_ControllerGetCapabilities :: "'w \<Rightarrow> (goerr + string list) \<times> 'w"
  csi_ListSnapshots :: "string \<Rightarrow> strmap \<Rightarrow> 'w \<Rightarrow> (goerr + csi_Snapshot option list) \<times> 'w"
  api_CreateVS :: "VolumeSnapshot \<Rightarrow> 'w \<Rightarrow> (goerr + VolumeSnapshot) \<times> 'w"
  api_DeleteVS :: "string \<Rightarrow> string \<Rightarrow> 'w \<Rightarrow> goerr option \<times> 'w"
  api_ListPVC :: "string \<Rightarrow> strmap \<Rightarrow> 'w \<Rightarrow> (goerr + PersistentVolumeClaim list) \<times> 'w"
  api_GetVGS :: "string \<Rightarrow> string \<Rightarrow> 'w \<Rightarrow> (goerr + VolumeGroupSnapshot) \<times> 'w"
  api_UpdateVGS :: "VolumeGroupSnapshot \<Rightarrow> 'w \<Rightarrow> (goerr + VolumeGroupSnapshot) \<times> 'w"
  api_UpdateStatusVGS :: "VolumeGroupSnapshot \<Rightarrow> 'w \<Rightarrow> (goerr + VolumeGroupSnapshot) \<times> 'w"
  api_PatchVGS :: "string \<Rightarrow> string \<Rightarrow> PatchOp list \<Rightarrow> string list \<Rightarrow> 'w \<Rightarrow> (goerr + VolumeGroupSnapshot) \<times> 'w"
  api_GetVGSC :: "string \<Rightarrow> 'w \<Rightarrow> (goerr + VolumeGroupSnapshotContent) \<times> 'w"
  api_CreateVGSC :: "VolumeGroupSnapshotContent \<Rightarrow> 'w \<Rightarrow> (goerr + VolumeGroupSnapshotContent) \<times> 'w"
  api_UpdateStatusVGSC :: "VolumeGroupSnapshotContent \<Rightarrow> 'w \<Rightarrow> (goerr + VolumeGroupSnapshotContent) \<times> 'w"
  api_PatchVGSC :: "string \<Rightarrow> PatchOp list \<Rightarrow> string list \<Rightarrow> 'w \<Rightarrow> (goerr + VolumeGroupSnapshotContent) \<times> 'w"
  api_DeleteVGSC :: "string \<Rightarrow> 'w \<Rightarrow> goerr option \<times> 'w"
  pvIndexer_ByIndex :: "string \<Rightarrow> 'w \<Rightarrow> (goerr + PersistentVolume list) \<times> 'w"
  snapshotIndexer_ByIndex :: "string \<Rightarrow> 'w \<Rightarrow> (goerr + VolumeSnapshot list) \<times> 'w"
  shared_write_VGSC :: "VolumeGroupSnapshotContent \<Rightarrow> 'w \<Rightarrow> 'w"
  FormatLabelSelector :: "LabelSelector \<Rightarrow> string"
  csi_CreateVolumeGroupSnapshot :: "CreateVolumeGroupSnapshotRequest \<Rightarrow> 'w \<Rightarrow> (goerr + csi_VolumeGroupSnapshot option) \<times> 'w"
  csi_DeleteVolumeGroupSnapshot :: "string \<Rightarrow> string list \<Rightarrow> strmap \<Rightarrow> 'w \<Rightarrow> goerr option \<times> 'w"
  csi_GetVolumeGroupSnapshot :: "string \<Rightarrow> string list \<Rightarrow> strmap \<Rightarrow> 'w \<Rightarrow> (goerr + csi_VolumeGroupSnapshot option) \<times> 'w"
  enableDistributedSnapshotting :: bool
  preventVolumeModeConversion :: bool
  enableVolumeGroupSnapshots :: bool
  extraCreateMetadata :: bool
  ctrl_driverName :: string
  snapshotNamePrefix :: string
  snapshotNameUUIDLength :: int
  groupSnapshotNamePrefix :: string
  groupSnapshotNameUUIDLength :: int

section \<open>The state of a controller process\<close>

record 'w st =
  world :: 'w
  snapshotStore :: store
  contentStore :: store
  groupSnapshotStore :: store
  groupSnapshotContentStore :: store
  metricsManager :: operationMetricsManager
  log :: "action list"

definition initialState :: "'w \<Rightarrow> 'w st" where
  "initialState w = \<lparr>world = w, snapshotStore = Map.empty, contentStore = Map.empty,
     groupSnapshotStore = Map.empty, groupSnapshotContentStore = Map.empty,
     metricsManager = NewMetricsManager, log = []\<rparr>"

text \<open>The three primitive steps: a call that only reads, one that is logged first, a logged effect.\<close>

definition call :: "('w \<Rightarrow> 'r \<times> 'w) \<Rightarrow> 'w st \<Rightarrow> ('r \<times> 'w st) option" where
  "call f s = (let (r, w) = f (world s) in Some (r, s\<lparr>world := w\<rparr>))"

definition act :: "action \<Rightarrow> ('w \<Rightarrow> 'r \<times> 'w) \<Rightarrow> 'w st \<Rightarrow> ('r \<times> 'w st) option" where
  "act a f s = call f (s\<lparr>log := log s @ [a]\<rparr>)"

definition emit :: "action \<Rightarrow> 'w st \<Rightarrow> 'w st" where
  "emit a s = s\<lparr>log := log s @ [a]\<rparr>"

definition withMetrics ::
  "'w env \<Rightarrow> (Time \<Rightarrow> operationMetricsManager \<Rightarrow> operationMetricsManager) \<Rightarrow> 'w st
    \<Rightarrow> (unit \<times> 'w st) option" where
  "withMetrics E f s =
    do { (now, s) \<leftarrow> call (time_Now E) s;
         Some ((), s\<lparr>metricsManager := f now (metricsManager s)\<rparr>) }"

lemma ensures_call: "ensures (call f s) Q = Q (fst (f (world s))) (s\<lparr>world := snd (f (world s))\<rparr>)"
  by (simp add: call_def split: prod.split)

lemma ensures_act:
  "ensures (act a f s) Q = Q (fst (f (world s))) (s\<lparr>log := log s @ [a], world := snd (f (world s))\<rparr>)"
  by (simp add: act_def call_def split: prod.split)

lemma withMetrics_run:
  "\<exists>s2. withMetrics E f s = Some ((), s2) \<and> log s2 = log s \<and> contentStore s2 = contentStore s \<and>
     snapshotStore s2 = snapshotStore s"
  by (simp add: withMetrics_def call_def split: prod.split)

definition isEvent :: "action \<Rightarrow> bool" where
  "isEvent a = (case a of Event _ _ _ _ \<Rightarrow> True | _ \<Rightarrow> False)"

lemma isEvent_Event [simp]: "isEvent (Event a b c d)"
  by (simp add: isEvent_def)

text \<open>The operations on the work queue that only a worker issues.\<close>

definition notWorker :: "action \<Rightarrow> bool" where
  "notWorker a = (\<forall>q k. a \<noteq> QueueAddRateLimited q k \<and> a \<noteq> QueueForget q k \<and> a \<noteq> QueueDone q k)"

lemma notWorker_simps [simp]:
  "notWorker (UpdateVS v)" "notWorker (UpdateStatusVS v)" "notWorker (PatchVS n m p q)"
  "notWorker (CreateVSC c)" "notWorker (PatchVSC n p q)" "notWorker (UpdatePVC x)" "notWorker (DeleteVSC n)"
  "notWorker (Event ob t m m')" "notWorker (QueueAdd qu k)"
  "notWorker (UpdateStatusVSC c)" "notWorker (CSICreateSnapshot req)" "notWorker (CSIDeleteSnapshot h cr)"
  "notWorker (CSIListSnapshots h cr)" "notWorker (CreateVS v)" "notWorker (DeleteVS n m)"
  "notWorker (UpdateVGS g)" "notWorker (UpdateStatusVGS g)" "notWorker (PatchVGS n m p q)"
  "notWorker (CreateVGSC gc)" "notWorker (UpdateStatusVGSC gc)" "notWorker (PatchVGSC n p q)"
  "notWorker (DeleteVGSC n)" "notWorker (CSICreateGroupSnapshot greq)"
  "notWorker (CSIDeleteGroupSnapshot h ids cr)" "notWorker (CSIGetGroupSnapshot h ids cr)"
  by (simp_all add: notWorker_def)

section \<open>Conflicts\<close>

text \<open>
  \<open>retry.RetryOnConflict(retry.DefaultRetry, fn)\<close>: five attempts; the result of the last one when all
  of them conflict.
\<close>

fun RetryOnConflict_steps ::
  "nat \<Rightarrow> ('s \<Rightarrow> (goerr option \<times> 's) option) \<Rightarrow> 's \<Rightarrow> (goerr option \<times> 's) option" where
  "RetryOnConflict_steps 0 fn s = Some (Some (Errorf ''timed out waiting for the condition''), s)"
| "RetryOnConflict_steps (Suc steps) fn s =
    do { (r, s) \<leftarrow> fn s;
         case r of
           None \<Rightarrow> Some (None, s)
         | Some e \<Rightarrow> if IsConflict e \<and> steps > 0 then RetryOnConflict_steps steps fn s
                     else Some (Some e, s) }"

definition RetryOnConflict ::
  "('s \<Rightarrow> (goerr option \<times> 's) option) \<Rightarrow> 's \<Rightarrow> (goerr option \<times> 's) option" where
  "RetryOnConflict = RetryOnConflict_steps 5"

section \<open>The object caches\<close>

text \<open>
  \<open>utils.StoreObjectUpdate\<close>: the result and the new store. The accessor and key errors of the source
  cannot occur for the four kinds of objects.
\<close>

definition StoreObjectUpdate :: "store \<Rightarrow> obj \<Rightarrow> string \<Rightarrow> (goerr + bool) \<times> store" where
  "StoreObjectUpdate store obj className =
    (let objName = keyFunc (objMeta obj) in
     case store objName of
       None \<Rightarrow> (Inr True, store(objName \<mapsto> obj))
     | Some oldObj \<Rightarrow>
        (case ParseInt64 (ResourceVersion (objMeta obj)) of
           Inl e \<Rightarrow> (Inl (Errorf (sprint [''error parsing ResourceVersion '',
             goQuote (ResourceVersion (objMeta obj)), '' of '', className, '' '', goQuote objName,
             '': '', err_text e])), store)
         | Inr objResourceVersion \<Rightarrow>
            (case ParseInt64 (ResourceVersion (objMeta oldObj)) of
               Inl e \<Rightarrow> (Inl (Errorf (sprint [''error parsing old ResourceVersion '',
                 goQuote (ResourceVersion (objMeta oldObj)), '' of '', className, '' '',
                 goQuote objName, '': '', err_text e])), store)
             | Inr oldObjResourceVersion \<Rightarrow>
                if oldObjResourceVersion > objResourceVersion then (Inr False, store)
                else (Inr True, store(objName \<mapsto> obj)))))"

definition storeSnapshotUpdate :: "obj \<Rightarrow> 'w st \<Rightarrow> ((goerr + bool) \<times> 'w st) option" where
  "storeSnapshotUpdate snapshot s =
    (let (r, store) = StoreObjectUpdate (snapshotStore s) snapshot ''snapshot''
     in Some (r, s\<lparr>snapshotStore := store\<rparr>))"

definition storeContentUpdate :: "obj \<Rightarrow> 'w st \<Rightarrow> ((goerr + bool) \<times> 'w st) option" where
  "storeContentUpdate content s =
    (let (r, store) = StoreObjectUpdate (contentStore s) content ''content''
     in Some (r, s\<lparr>contentStore := store\<rparr>))"

definition storeGroupSnapshotUpdate :: "obj \<Rightarrow> 'w st \<Rightarrow> ((goerr + bool) \<times> 'w st) option" where
  "storeGroupSnapshotUpdate groupsnapshot s =
    (let (r, store) = StoreObjectUpdate (groupSnapshotStore s) groupsnapshot ''groupsnapshot''
     in Some (r, s\<lparr>groupSnapshotStore := store\<rparr>))"

definition storeGroupSnapshotContentUpdate :: "obj \<Rightarrow> 'w st \<Rightarrow> ((goerr + bool) \<times> 'w st) option" where
  "storeGroupSnapshotContentUpdate groupsnapshotcontent s =
    (let (r, store) = StoreObjectUpdate (groupSnapshotContentStore s) groupsnapshotcontent
                        ''groupsnapshotcontent''
     in Some (r, s\<lparr>groupSnapshotContentStore := store\<rparr>))"

text \<open>One listing stored object by object. An error of a single update is only logged.\<close>

fun storeAll :: "(obj \<Rightarrow> 'w st \<Rightarrow> ((goerr + bool) \<times> 'w st) option) \<Rightarrow> obj list \<Rightarrow> 'w st \<Rightarrow> 'w st option" where
  "storeAll upd [] s = Some s"
| "storeAll upd (x # xs) s = do { (_, s) \<leftarrow> upd x s; storeAll upd xs s }"

text \<open>What an informer hands to a handler: an object, or the tombstone of one whose deletion it missed.\<close>

datatype informer_obj = InformerObj obj | DeletedFinalStateUnknown string "obj option"

text \<open>The unwrapped object; a tombstone without one stays what it is, and no type assertion matches it.\<close>

fun unwrapTombstone :: "informer_obj \<Rightarrow> obj option" where
  "unwrapTombstone (InformerObj x) = Some x"
| "unwrapTombstone (DeletedFinalStateUnknown key x) = x"

text \<open>
  The contract of a versioned cache, as the comment of \<open>StoreObjectUpdate\<close> gives it: an accepted object
  becomes the entry of its key, a rejected one changes nothing, and an entry with a readable version is
  replaced only by an object whose version is not older.
\<close>

locale versioned_cache =
  fixes upd :: "'s \<Rightarrow> 'o \<Rightarrow> bool \<times> 's"
    and look :: "'s \<Rightarrow> 'k \<Rightarrow> 'o option"
    and key :: "'o \<Rightarrow> 'k"
    and version :: "'o \<Rightarrow> int option"
  assumes accepted: "upd s x = (True, s') \<Longrightarrow> look s' = (look s)(key x \<mapsto> x)"
    and rejected: "upd s x = (False, s') \<Longrightarrow> look s' = look s"
    and fresh: "look s (key x) = None \<Longrightarrow> fst (upd s x)"
    and newer: "upd s x = (True, s') \<Longrightarrow> look s (key x) = Some old \<Longrightarrow>
      \<exists>v v'. version old = Some v \<and> version x = Some v' \<and> v \<le> v'"
begin

definition updates :: "'o list \<Rightarrow> 's \<Rightarrow> 's" where
  "updates xs s = fold (\<lambda>x s. snd (upd s x)) xs s"

lemma step_not_older:
  assumes "look s k = Some old" "version old = Some v"
  shows "\<exists>new v'. look (snd (upd s x)) k = Some new \<and> version new = Some v' \<and> v \<le> v'"
proof (cases "upd s x")
  case (Pair acc s')
  show ?thesis
  proof (cases acc)
    case True
    then show ?thesis using Pair assms accepted[of s x s'] newer[of s x s' old] by fastforce
  next
    case False
    then show ?thesis using Pair assms rejected[of s x s'] by auto
  qed
qed

lemma updates_not_older:
  assumes "look s k = Some old" "version old = Some v"
  shows "\<exists>new v'. look (updates xs s) k = Some new \<and> version new = Some v' \<and> v \<le> v'"
  using assms
proof (induction xs arbitrary: s old v)
  case (Cons x xs)
  obtain new v' where 1: "look (snd (upd s x)) k = Some new" "version new = Some v'" "v \<le> v'"
    using step_not_older[OF Cons.prems] by blast
  show ?case using Cons.IH[OF 1(1,2)] 1(3) by (fastforce simp: updates_def)
qed (simp add: updates_def)

text \<open>An entry is always one of the objects the cache was given under that key, or the initial one.\<close>

lemma updates_entry:
  assumes "look (updates xs s) k = Some x"
  shows "look s k = Some x \<or> (x \<in> set xs \<and> key x = k)"
  using assms
proof (induction xs arbitrary: s)
  case (Cons y ys)
  obtain acc s' where u: "upd s y = (acc, s')" by (cases "upd s y")
  have "look s' k = Some x \<or> (x \<in> set ys \<and> key x = k)"
    using Cons by (simp add: updates_def u)
  then show ?case
    using accepted[of s y s'] rejected[of s y s'] u by (cases acc) (auto split: if_splits)
qed (simp add: updates_def)

end

definition objVersion :: "obj \<Rightarrow> int option" where
  "objVersion x = (case ParseInt64 (ResourceVersion (objMeta x)) of Inl _ \<Rightarrow> None | Inr v \<Rightarrow> Some v)"

definition storeAccept :: "store \<Rightarrow> obj \<Rightarrow> bool \<times> store" where
  "storeAccept store x = (let (r, store') = StoreObjectUpdate store x ''content'' in
     (case r of Inl _ \<Rightarrow> False | Inr b \<Rightarrow> b, store'))"

lemma StoreObjectUpdate_cases:
  "StoreObjectUpdate store x cn = (r, store') \<Longrightarrow>
   (r = Inr True \<and> store' = store(keyFunc (objMeta x) \<mapsto> x) \<and>
     (\<forall>old. store (keyFunc (objMeta x)) = Some old \<longrightarrow>
        (\<exists>v v'. objVersion old = Some v \<and> objVersion x = Some v' \<and> v \<le> v'))) \<or>
   (r \<noteq> Inr True \<and> store' = store \<and> store (keyFunc (objMeta x)) \<noteq> None)"
  by (auto simp: StoreObjectUpdate_def objVersion_def Let_def
      split: option.splits sum.splits if_splits)

interpretation vc: versioned_cache storeAccept "\<lambda>s k. s k" "\<lambda>x. keyFunc (objMeta x)" objVersion
proof unfold_locales
  fix s x s' old
  show "storeAccept s x = (True, s') \<Longrightarrow> s' = s(keyFunc (objMeta x) \<mapsto> x)"
    using StoreObjectUpdate_cases[of s x "''content''"]
    by (auto simp: storeAccept_def split: prod.splits sum.splits)
  show "storeAccept s x = (False, s') \<Longrightarrow> s' = s"
    using StoreObjectUpdate_cases[of s x "''content''"]
    by (auto simp: storeAccept_def split: prod.splits sum.splits)
  show "s (keyFunc (objMeta x)) = None \<Longrightarrow> fst (storeAccept s x)"
    using StoreObjectUpdate_cases[of s x "''content''"]
    by (auto simp: storeAccept_def split: prod.splits sum.splits)
  show "storeAccept s x = (True, s') \<Longrightarrow> s (keyFunc (objMeta x)) = Some old \<Longrightarrow>
      \<exists>v v'. objVersion old = Some v \<and> objVersion x = Some v' \<and> v \<le> v'"
    using StoreObjectUpdate_cases[of s x "''content''"]
    by (auto simp: storeAccept_def split: prod.splits sum.splits)
qed

text \<open>The caches never go back in time: once a key holds an object with a readable resource version,
  every sequence of updates, whatever objects arrive in whatever order, leaves under that key an object
  whose version is not older, and every entry is the initial one or an object given under its own key.\<close>

theorem cache_never_goes_back:
  assumes "store k = Some old" and "objVersion old = Some v"
  shows "\<exists>new v'. fold (\<lambda>x s. snd (StoreObjectUpdate s x ''content'')) xs store k = Some new \<and>
    objVersion new = Some v' \<and> v \<le> v' \<and> (new = old \<or> (new \<in> set xs \<and> keyFunc (objMeta new) = k))"
proof -
  have u: "fold (\<lambda>x s. snd (StoreObjectUpdate s x ''content'')) xs store = vc.updates xs store"
    unfolding vc.updates_def
    by (rule fold_cong) (simp_all add: storeAccept_def fun_eq_iff split: prod.split)
  obtain new v' where n: "vc.updates xs store k = Some new" "objVersion new = Some v'" "v \<le> v'"
    using vc.updates_not_older[where s = store and k = k, OF assms] by blast
  show ?thesis using n vc.updates_entry[OF n(1)] assms(1) unfolding u by auto
qed

definition demoOlder :: VolumeSnapshot where
  "demoOlder = demoSnapshot\<lparr>vs_meta := (vs_meta demoSnapshot)\<lparr>ResourceVersion := ''3''\<rparr>\<rparr>"

definition demoStore :: store where
  "demoStore = [''ns1/snap1'' \<mapsto> ObjVS demoSnapshot]"

theorem cache_never_goes_back_witness:
  "\<exists>new v'. fold (\<lambda>x s. snd (StoreObjectUpdate s x ''content'')) [ObjVS demoOlder] demoStore
      ''ns1/snap1'' = Some new \<and> objVersion new = Some v' \<and> 7 \<le> v'"
proof -
  have v: "objVersion (ObjVS demoSnapshot) = Some 7" by code_simp
  have k: "demoStore ''ns1/snap1'' = Some (ObjVS demoSnapshot)" by (simp add: demoStore_def)
  show ?thesis using cache_never_goes_back[where store = demoStore and k = "''ns1/snap1''", OF k v, of "[ObjVS demoOlder]"] by blast
qed

section \<open>Patches and credentials\<close>

text \<open>\<open>utils.PatchVolumeSnapshotContent\<close> and \<open>utils.PatchVolumeSnapshot\<close>: on an error the object passed in.\<close>

definition PatchVolumeSnapshotContent ::
  "'w env \<Rightarrow> VolumeSnapshotContent \<Rightarrow> PatchOp list \<Rightarrow> string list \<Rightarrow> 'w st
    \<Rightarrow> ((VolumeSnapshotContent \<times> goerr option) \<times> 'w st) option" where
  "PatchVolumeSnapshotContent E existing patch subresources s =
    do { (r, s) \<leftarrow> act (PatchVSC (vsc_Name existing) patch subresources)
                    (api_PatchVSC E (vsc_Name existing) patch subresources) s;
         case r of
           Inl err \<Rightarrow> Some ((existing, Some err), s)
         | Inr newSnapshotContent \<Rightarrow> Some ((newSnapshotContent, None), s) }"

definition PatchVolumeSnapshot ::
  "'w env \<Rightarrow> VolumeSnapshot \<Rightarrow> PatchOp list \<Rightarrow> string list \<Rightarrow> 'w st
    \<Rightarrow> ((VolumeSnapshot \<times> goerr option) \<times> 'w st) option" where
  "PatchVolumeSnapshot E existing patch subresources s =
    do { (r, s) \<leftarrow> act (PatchVS (vs_Namespace existing) (vs_Name existing) patch subresources)
                    (api_PatchVS E (vs_Namespace existing) (vs_Name existing) patch subresources) s;
         case r of
           Inl err \<Rightarrow> Some ((existing, Some err), s)
         | Inr newSnapshot \<Rightarrow> Some ((newSnapshot, None), s) }"

text \<open>\<open>utils.PatchVolumeGroupSnapshotContent\<close> and \<open>utils.PatchVolumeGroupSnapshot\<close>.\<close>

definition PatchVolumeGroupSnapshotContent ::
  "'w env \<Rightarrow> VolumeGroupSnapshotContent \<Rightarrow> PatchOp list \<Rightarrow> string list \<Rightarrow> 'w st
    \<Rightarrow> ((VolumeGroupSnapshotContent \<times> goerr option) \<times> 'w st) option" where
  "PatchVolumeGroupSnapshotContent E existing patch subresources s =
    do { (r, s) \<leftarrow> act (PatchVGSC (vgsc_Name existing) patch subresources)
                    (api_PatchVGSC E (vgsc_Name existing) patch subresources) s;
         case r of
           Inl err \<Rightarrow> Some ((existing, Some err), s)
         | Inr newGroupSnapshotContent \<Rightarrow> Some ((newGroupSnapshotContent, None), s) }"

definition PatchVolumeGroupSnapshot ::
  "'w env \<Rightarrow> VolumeGroupSnapshot \<Rightarrow> PatchOp list \<Rightarrow> string list \<Rightarrow> 'w st
    \<Rightarrow> ((VolumeGroupSnapshot \<times> goerr option) \<times> 'w st) option" where
  "PatchVolumeGroupSnapshot E existing patch subresources s =
    do { (r, s) \<leftarrow> act (PatchVGS (vgs_Namespace existing) (vgs_Name existing) patch subresources)
                    (api_PatchVGS E (vgs_Namespace existing) (vgs_Name existing) patch subresources) s;
         case r of
           Inl err \<Rightarrow> Some ((existing, Some err), s)
         | Inr newGroupSnapshot \<Rightarrow> Some ((newGroupSnapshot, None), s) }"

text \<open>\<open>utils.GetCredentials\<close>; no reference means no credentials. A nil map is the empty one.\<close>

definition GetCredentials ::
  "'w env \<Rightarrow> SecretReference option \<Rightarrow> 'w st \<Rightarrow> ((goerr + strmap) \<times> 'w st) option" where
  "GetCredentials E ref s =
    (case ref of
       None \<Rightarrow> Some (Inr fmempty, s)
     | Some ref \<Rightarrow>
        do { (r, s) \<leftarrow> call (api_GetSecret E (sec_Namespace ref) (sec_Name ref)) s;
             case r of
               Inl err \<Rightarrow> Some (Inl (Errorf (sprint [''error getting secret '',
                 sec_Name ref, '' in namespace '', sec_Namespace ref, '': '', err_text err])), s)
             | Inr data \<Rightarrow> Some (Inr data, s) })"

text \<open>The error both controllers wrap an API server error in.\<close>

definition controllerUpdateFailMsg :: string where
  "controllerUpdateFailMsg = ''snapshot controller failed to update''"

definition newControllerUpdateError :: "string \<Rightarrow> string \<Rightarrow> goerr" where
  "newControllerUpdateError name message =
     ControllerUpdateError (sprint [controllerUpdateFailMsg, '' '', name, '' on API server: '', message])"

lemma newControllerUpdateError_not_Conflict [simp]:
  "\<not> IsConflict (newControllerUpdateError n m)" "\<not> IsNotFound (newControllerUpdateError n m)"
  by (simp_all add: newControllerUpdateError_def)

section \<open>What an operation may do\<close>

text \<open>
  A state predicate that survives every answer of the environment, every logged effect a client allows
  and every update of the caches a client names. The lemmas of the component theories show, inside
  this locale, that an operation keeps any such predicate when its effects are allowed; each
  interpretation turns all of them into facts about one question, such as which effects an
  operation can issue, or that it leaves a cache alone.
\<close>

text \<open>A cache changes by one entry at a time: a key is dropped, or an object of one kind is put under its own key.\<close>

definition storeStep :: "(obj \<Rightarrow> bool) \<Rightarrow> store \<Rightarrow> store \<Rightarrow> bool" where
  "storeStep kind st st' \<longleftrightarrow>
     st' = st \<or> (\<exists>k. st' = st(k := None)) \<or> (\<exists>x. kind x \<and> st' = st(keyFunc (objMeta x) \<mapsto> x))"

lemma storeStep_drop [simp, intro]: "storeStep kind st (st(k := None))"
  by (auto simp: storeStep_def)

lemma storeStep_put: "kind x \<Longrightarrow> keyFunc (objMeta x) = k \<Longrightarrow> storeStep kind st (st(k \<mapsto> x))"
  by (auto simp: storeStep_def)

lemma storeStep_same [simp]: "storeStep kind st st"
  by (simp add: storeStep_def)

lemma StoreObjectUpdate_step: "kind x \<Longrightarrow> storeStep kind st (snd (StoreObjectUpdate st x n))"
  by (auto simp: StoreObjectUpdate_def storeStep_def Let_def split: option.splits sum.splits if_splits)

text \<open>The content cache of the sidecar also receives group contents: that is a cache operation of its own here.\<close>

datatype cache = CSnapshot | CContent | CStrayContent | CGroupSnapshot | CGroupSnapshotContent

fun isVS :: "obj \<Rightarrow> bool" where "isVS (ObjVS x) = True" | "isVS _ = False"
fun isVSC :: "obj \<Rightarrow> bool" where "isVSC (ObjVSC x) = True" | "isVSC _ = False"
fun isVGS :: "obj \<Rightarrow> bool" where "isVGS (ObjVGS x) = True" | "isVGS _ = False"
fun isVGSC :: "obj \<Rightarrow> bool" where "isVGSC (ObjVGSC x) = True" | "isVGSC _ = False"

locale effects =
  fixes I :: "'w st \<Rightarrow> bool" and ok :: "action \<Rightarrow> bool" and touch :: "cache \<Rightarrow> bool"
  assumes I_world: "I s \<Longrightarrow> I (s\<lparr>world := w\<rparr>)"
    and I_log: "ok a \<Longrightarrow> I s \<Longrightarrow> I (s\<lparr>log := log s @ [a]\<rparr>)"
    and I_metrics: "I s \<Longrightarrow> I (s\<lparr>metricsManager := m\<rparr>)"
    and I_snapshot: "touch CSnapshot \<Longrightarrow> storeStep isVS (snapshotStore s) c \<Longrightarrow> I s \<Longrightarrow> I (s\<lparr>snapshotStore := c\<rparr>)"
    and I_content: "touch CContent \<Longrightarrow> storeStep isVSC (contentStore s) c \<Longrightarrow> I s \<Longrightarrow> I (s\<lparr>contentStore := c\<rparr>)"
    and I_strayContent: "touch CStrayContent \<Longrightarrow> storeStep isVGSC (contentStore s) c \<Longrightarrow> I s \<Longrightarrow>
      I (s\<lparr>contentStore := c\<rparr>)"
    and I_group: "touch CGroupSnapshot \<Longrightarrow> storeStep isVGS (groupSnapshotStore s) c \<Longrightarrow> I s \<Longrightarrow> I (s\<lparr>groupSnapshotStore := c\<rparr>)"
    and I_groupContent: "touch CGroupSnapshotContent \<Longrightarrow> storeStep isVGSC (groupSnapshotContentStore s) c \<Longrightarrow> I s \<Longrightarrow> I (s\<lparr>groupSnapshotContentStore := c\<rparr>)"
begin

lemma keepI: "ensures m (\<lambda>_ s'. I s') \<Longrightarrow> (\<And>r s'. I s' \<Longrightarrow> Q r s') \<Longrightarrow> ensures m Q"
  by (rule ensures_mono)

lemma call_I: "I s \<Longrightarrow> (\<And>r s'. I s' \<Longrightarrow> Q r s') \<Longrightarrow> ensures (call f s) Q"
  by (simp add: call_def I_world split: prod.split)

lemma act_I: "ok a \<Longrightarrow> I s \<Longrightarrow> (\<And>r s'. I s' \<Longrightarrow> Q r s') \<Longrightarrow> ensures (act a f s) Q"
  by (simp add: act_def call_I I_log)

lemma emit_I: "ok a \<Longrightarrow> I s \<Longrightarrow> I (emit a s)"
  by (simp add: emit_def I_log)

lemma withMetrics_I: "I s \<Longrightarrow> (\<And>r s'. I s' \<Longrightarrow> Q r s') \<Longrightarrow> ensures (withMetrics E f s) Q"
  by (simp add: withMetrics_def call_I I_metrics)

lemma storeSnapshotUpdate_I:
  "touch CSnapshot \<Longrightarrow> I s \<Longrightarrow> (\<And>r s'. I s' \<Longrightarrow> Q r s') \<Longrightarrow>
   ensures (storeSnapshotUpdate (ObjVS v) s) Q"
  by (simp add: storeSnapshotUpdate_def case_prod_beta I_snapshot StoreObjectUpdate_step)

lemma storeContentUpdate_I:
  "touch CContent \<Longrightarrow> I s \<Longrightarrow> (\<And>r s'. I s' \<Longrightarrow> Q r s') \<Longrightarrow>
   ensures (storeContentUpdate (ObjVSC c) s) Q"
  by (simp add: storeContentUpdate_def case_prod_beta I_content StoreObjectUpdate_step)

lemma storeStrayContentUpdate_I:
  "touch CStrayContent \<Longrightarrow> I s \<Longrightarrow> (\<And>r s'. I s' \<Longrightarrow> Q r s') \<Longrightarrow>
   ensures (storeContentUpdate (ObjVGSC gc) s) Q"
  by (simp add: storeContentUpdate_def case_prod_beta I_strayContent StoreObjectUpdate_step)

lemma storeGroupSnapshotUpdate_I:
  "touch CGroupSnapshot \<Longrightarrow> I s \<Longrightarrow> (\<And>r s'. I s' \<Longrightarrow> Q r s') \<Longrightarrow>
   ensures (storeGroupSnapshotUpdate (ObjVGS g) s) Q"
  by (simp add: storeGroupSnapshotUpdate_def case_prod_beta I_group StoreObjectUpdate_step)

lemma storeGroupSnapshotContentUpdate_I:
  "touch CGroupSnapshotContent \<Longrightarrow> I s \<Longrightarrow> (\<And>r s'. I s' \<Longrightarrow> Q r s') \<Longrightarrow>
   ensures (storeGroupSnapshotContentUpdate (ObjVGSC gc) s) Q"
  by (simp add: storeGroupSnapshotContentUpdate_def case_prod_beta I_groupContent StoreObjectUpdate_step)

lemma PatchVolumeSnapshotContent_I:
  "ok (PatchVSC (vsc_Name x) p sub) \<Longrightarrow> I s \<Longrightarrow> (\<And>r s'. I s' \<Longrightarrow> Q r s') \<Longrightarrow>
   ensures (PatchVolumeSnapshotContent E x p sub s) Q"
  by (auto simp: PatchVolumeSnapshotContent_def intro!: act_I split: sum.split)

lemma PatchVolumeSnapshot_I:
  "ok (PatchVS (vs_Namespace x) (vs_Name x) p sub) \<Longrightarrow> I s \<Longrightarrow> (\<And>r s'. I s' \<Longrightarrow> Q r s') \<Longrightarrow>
   ensures (PatchVolumeSnapshot E x p sub s) Q"
  by (auto simp: PatchVolumeSnapshot_def intro!: act_I split: sum.split)

lemma PatchVolumeGroupSnapshotContent_I:
  "ok (PatchVGSC (vgsc_Name x) p sub) \<Longrightarrow> I s \<Longrightarrow> (\<And>r s'. I s' \<Longrightarrow> Q r s') \<Longrightarrow>
   ensures (PatchVolumeGroupSnapshotContent E x p sub s) Q"
  by (auto simp: PatchVolumeGroupSnapshotContent_def intro!: act_I split: sum.split)

lemma PatchVolumeGroupSnapshot_I:
  "ok (PatchVGS (vgs_Namespace x) (vgs_Name x) p sub) \<Longrightarrow> I s \<Longrightarrow> (\<And>r s'. I s' \<Longrightarrow> Q r s') \<Longrightarrow>
   ensures (PatchVolumeGroupSnapshot E x p sub s) Q"
  by (auto simp: PatchVolumeGroupSnapshot_def intro!: act_I split: sum.split)

lemma GetCredentials_I:
  "I s \<Longrightarrow> (\<And>r s'. I s' \<Longrightarrow> Q r s') \<Longrightarrow> ensures (GetCredentials E ref s) Q"
  by (auto simp: GetCredentials_def intro!: call_I split: sum.split option.split)

lemma RetryOnConflict_steps_I:
  assumes "\<And>s Q. I s \<Longrightarrow> (\<And>r s'. I s' \<Longrightarrow> Q r s') \<Longrightarrow> ensures (fn s) Q"
  shows "I s \<Longrightarrow> (\<And>r s'. I s' \<Longrightarrow> Q r s') \<Longrightarrow> ensures (RetryOnConflict_steps n fn s) Q"
proof (induction n arbitrary: s)
  case (Suc n)
  show ?case
    by (simp, rule assms[OF Suc.prems(1)]) (auto split: option.split intro: Suc)
qed simp

lemma RetryOnConflict_I:
  assumes "\<And>s Q. I s \<Longrightarrow> (\<And>r s'. I s' \<Longrightarrow> Q r s') \<Longrightarrow> ensures (fn s) Q"
  shows "I s \<Longrightarrow> (\<And>r s'. I s' \<Longrightarrow> Q r s') \<Longrightarrow> ensures (RetryOnConflict fn s) Q"
  unfolding RetryOnConflict_def by (rule RetryOnConflict_steps_I[OF assms])

lemmas basic_I = call_I act_I withMetrics_I storeSnapshotUpdate_I storeContentUpdate_I
  storeGroupSnapshotUpdate_I storeGroupSnapshotContentUpdate_I PatchVolumeSnapshotContent_I
  PatchVolumeSnapshot_I PatchVolumeGroupSnapshotContent_I PatchVolumeGroupSnapshot_I GetCredentials_I emit_I

end

text \<open>The first use: the log is extended by allowed effects only.\<close>

definition onlyNew :: "(action \<Rightarrow> bool) \<Rightarrow> action list \<Rightarrow> 'w st \<Rightarrow> bool" where
  "onlyNew ok l0 s = (\<exists>new. log s = l0 @ new \<and> list_all ok new)"

interpretation only: effects "onlyNew ok l0" ok "\<lambda>_. True" for ok l0
  by unfold_locales (auto simp: onlyNew_def)

lemma onlyNew_refl: "onlyNew ok (log s) s"
  by (simp add: onlyNew_def)

lemma onlyNew_trans: "onlyNew ok l s \<Longrightarrow> onlyNew ok (log s) s' \<Longrightarrow> onlyNew ok l s'"
  by (auto simp: onlyNew_def)

lemma onlyNew_mono: "onlyNew ok l s \<Longrightarrow> (\<And>a. ok a \<Longrightarrow> ok' a) \<Longrightarrow> onlyNew ok' l s"
  by (auto simp: onlyNew_def list_all_iff)

lemma onlyNew_nothing: "onlyNew (\<lambda>_. False) l s = (log s = l)"
  by (auto simp: onlyNew_def list_all_iff)

text \<open>The second: an operation leaves a cache as it is.\<close>

interpretation sameContents: effects "\<lambda>s. contentStore s = c" "\<lambda>_. True" "\<lambda>x. x \<noteq> CContent \<and> x \<noteq> CStrayContent" for c
  by unfold_locales auto

interpretation sameSnapshots: effects "\<lambda>s. snapshotStore s = c" "\<lambda>_. True" "\<lambda>x. x \<noteq> CSnapshot" for c
  by unfold_locales auto

section \<open>An environment in which nothing exists\<close>

text \<open>Every read fails with a not-found error and every write succeeds; the witnesses add what they need.\<close>

definition notFound :: goerr where
  "notFound = APIStatus StatusNotFound ''not found''"

definition nullEnv :: "unit env" where
  "nullEnv = \<lparr>api_GetVS = (\<lambda>_ _ w. (Inl notFound, w)), api_UpdateVS = (\<lambda>v w. (Inr v, w)),
     api_UpdateStatusVS = (\<lambda>v w. (Inr v, w)), api_PatchVS = (\<lambda>_ _ _ _ w. (Inl notFound, w)),
     api_GetVSC = (\<lambda>_ w. (Inl notFound, w)), api_CreateVSC = (\<lambda>c w. (Inr c, w)),
     api_UpdateStatusVSC = (\<lambda>c w. (Inr c, w)), api_PatchVSC = (\<lambda>_ _ _ w. (Inl notFound, w)),
     api_DeleteVSC = (\<lambda>_ w. (None, w)), api_GetPVC = (\<lambda>_ _ w. (Inl notFound, w)),
     api_UpdatePVC = (\<lambda>p w. (Inr p, w)), api_GetPV = (\<lambda>_ w. (Inl notFound, w)),
     api_GetSecret = (\<lambda>_ _ w. (Inl notFound, w)), lister_GetVS = (\<lambda>_ _ w. (Inl notFound, w)),
     lister_ListVS = (\<lambda>_ w. (Inr [], w)), lister_GetVSC = (\<lambda>_ w. (Inl notFound, w)),
     lister_ListVSC = (\<lambda>w. (Inr [], w)), lister_GetClass = (\<lambda>_ w. (Inl notFound, w)),
     lister_ListClass = (\<lambda>w. (Inr [], w)), lister_GetPVC = (\<lambda>_ _ w. (Inl notFound, w)),
     lister_ListPVC = (\<lambda>_ w. (Inr [], w)), lister_GetVGS = (\<lambda>_ _ w. (Inl notFound, w)),
     lister_GetGroupClass = (\<lambda>_ w. (Inl notFound, w)), lister_GetVGSC = (\<lambda>_ w. (Inl notFound, w)), lister_ListGroupClass = (\<lambda>w. (Inr [], w)),
     lister_ListVGSC = (\<lambda>w. (Inr [], w)),
     lister_ListNodes = (\<lambda>w. (Inr [], w)),
     matchNodeSelectorTerms = (\<lambda>_ _. False), time_Now = (\<lambda>w. (0, w)),
     range_order = (\<lambda>m w. (sorted_list_of_fmap m, w)), shared_write_VSC = (\<lambda>_ w. w),
     csi_GetDriverName = (\<lambda>w. (Inr ''drv'', w)),
     csi_CreateSnapshot = (\<lambda>_ w. (Inl (GRPCStatus codes_Internal ''no''), w)),
     csi_DeleteSnapshot = (\<lambda>_ _ w. (None, w)),
     csi_ControllerGetCapabilities = (\<lambda>w. (Inr [], w)),
     csi_ListSnapshots = (\<lambda>_ _ w. (Inr [], w)),
     api_CreateVS = (\<lambda>v w. (Inr v, w)), api_DeleteVS = (\<lambda>_ _ w. (None, w)),
     api_ListPVC = (\<lambda>_ _ w. (Inr [], w)), api_GetVGS = (\<lambda>_ _ w. (Inl notFound, w)),
     api_UpdateVGS = (\<lambda>g w. (Inr g, w)), api_UpdateStatusVGS = (\<lambda>g w. (Inr g, w)),
     api_PatchVGS = (\<lambda>_ _ _ _ w. (Inl notFound, w)), api_GetVGSC = (\<lambda>_ w. (Inl notFound, w)),
     api_CreateVGSC = (\<lambda>c w. (Inr c, w)), api_UpdateStatusVGSC = (\<lambda>c w. (Inr c, w)),
     api_PatchVGSC = (\<lambda>_ _ _ w. (Inl notFound, w)), api_DeleteVGSC = (\<lambda>_ w. (None, w)),
     pvIndexer_ByIndex = (\<lambda>_ w. (Inr [], w)), snapshotIndexer_ByIndex = (\<lambda>_ w. (Inr [], w)),
     shared_write_VGSC = (\<lambda>_ w. w), FormatLabelSelector = (\<lambda>_. ''<none>''),
     csi_CreateVolumeGroupSnapshot = (\<lambda>_ w. (Inl (GRPCStatus codes_Internal ''no''), w)),
     csi_DeleteVolumeGroupSnapshot = (\<lambda>_ _ _ w. (None, w)),
     csi_GetVolumeGroupSnapshot = (\<lambda>_ _ _ w. (Inl (GRPCStatus codes_Internal ''no''), w)),
     enableDistributedSnapshotting = False, preventVolumeModeConversion = False,
     enableVolumeGroupSnapshots = False, extraCreateMetadata = False, ctrl_driverName = ''drv'',
     snapshotNamePrefix = ''snapshot'', snapshotNameUUIDLength = -1,
     groupSnapshotNamePrefix = ''groupsnapshot'', groupSnapshotNameUUIDLength = -1\<rparr>"

end
