(* ===== verification/CommonFinalizers.thy ===== *)
theory CommonFinalizers
  imports Runtime
begin

text \<open>
  The finalizers the common controller keeps on claims, contents and snapshots
  (\<open>pkg/common-controller/snapshot_controller.go\<close>): when a source claim is in use, how its finalizer is
  added and removed, and how the finalizers of contents and snapshots are added and removed.
\<close>

section \<open>The source claim\<close>

definition getClaimFromVolumeSnapshot ::
  "'w env \<Rightarrow> VolumeSnapshot \<Rightarrow> 'w st \<Rightarrow> ((goerr + PersistentVolumeClaim) \<times> 'w st) option" where
  "getClaimFromVolumeSnapshot E snapshot s =
    (case vs_PVCName snapshot of
       None \<Rightarrow> Some (Inl (Errorf ''the snapshot source PVC name is not specified''), s)
     | Some pvcName \<Rightarrow>
        if pvcName = [] then
          Some (Inl (Errorf (sprint [''the PVC name is not specified in snapshot '',
            SnapshotKey snapshot])), s)
        else do {
          (r, s) \<leftarrow> call (lister_GetPVC E (vs_Namespace snapshot) pvcName) s;
          case r of
            Inl err \<Rightarrow> Some (Inl (Errorf (sprint [''failed to retrieve PVC '', pvcName,
              '' from the lister: '', goQuote (err_text err)])), s)
          | Inr pvc \<Rightarrow> Some (Inr pvc, s) })"

text \<open>The loop of \<open>isPVCBeingUsed\<close> over the snapshots of the namespace.\<close>

fun pvcUsedBy ::
  "PersistentVolumeClaim \<Rightarrow> VolumeSnapshot \<Rightarrow> bool \<Rightarrow> VolumeSnapshot list \<Rightarrow> bool" where
  "pvcUsedBy pvc snapshot skipCurrentSnapshot [] = False"
| "pvcUsedBy pvc snapshot skipCurrentSnapshot (snap # snaps) =
    (if skipCurrentSnapshot \<and> vs_Name snap = vs_Name snapshot then
       pvcUsedBy pvc snapshot skipCurrentSnapshot snaps
     else if vs_PVCName snap = None \<and> vs_ContentName snap \<noteq> None then
       pvcUsedBy pvc snapshot skipCurrentSnapshot snaps
     else if vs_PVCName snap = Some (pvc_Name pvc) \<and> \<not> IsSnapshotReady snap then True
     else pvcUsedBy pvc snapshot skipCurrentSnapshot snaps)"

definition isPVCBeingUsed ::
  "'w env \<Rightarrow> PersistentVolumeClaim \<Rightarrow> VolumeSnapshot \<Rightarrow> bool \<Rightarrow> 'w st \<Rightarrow> (bool \<times> 'w st) option" where
  "isPVCBeingUsed E pvc snapshot skipCurrentSnapshot s =
    do { (r, s) \<leftarrow> call (lister_ListVS E (Some (vs_Namespace snapshot))) s;
         case r of
           Inl err \<Rightarrow> Some (False, s)
         | Inr snapshots \<Rightarrow> Some (pvcUsedBy pvc snapshot skipCurrentSnapshot snapshots, s) }"

definition ensurePVCFinalizer ::
  "'w env \<Rightarrow> VolumeSnapshot \<Rightarrow> 'w st \<Rightarrow> (goerr option \<times> 'w st) option" where
  "ensurePVCFinalizer E snapshot s =
    (if vs_PVCName snapshot = None then Some (None, s)
     else do {
       (r, s) \<leftarrow> getClaimFromVolumeSnapshot E snapshot s;
       case r of
         Inl err \<Rightarrow> Some (Some (newControllerUpdateError (vs_Name snapshot)
           ''cannot get claim from snapshot''), s)
       | Inr pvc \<Rightarrow>
          if Contains (Finalizers (pvc_meta pvc)) PVCFinalizer then Some (None, s)
          else if DeletionTimestamp (pvc_meta pvc) \<noteq> None then
            Some (Some (newControllerUpdateError (pvc_Name pvc)
              ''cannot add finalizer on claim because it is being deleted''), s)
          else
            let pvcClone = pvc\<lparr>pvc_meta := (pvc_meta pvc)\<lparr>Finalizers :=
                             Finalizers (pvc_meta pvc) @ [PVCFinalizer]\<rparr>\<rparr> in
            do { (r, s) \<leftarrow> act (UpdatePVC pvcClone) (api_UpdatePVC E pvcClone) s;
                 case r of
                   Inl err \<Rightarrow> Some (Some (newControllerUpdateError (pvc_Name pvcClone) (err_text err)), s)
                 | Inr _ \<Rightarrow> Some (None, s) } })"

text \<open>One attempt of the retried closure of \<open>removePVCFinalizer\<close>.\<close>

definition removePVCFinalizer_attempt ::
  "'w env \<Rightarrow> PersistentVolumeClaim \<Rightarrow> 'w st \<Rightarrow> (goerr option \<times> 'w st) option" where
  "removePVCFinalizer_attempt E pvc s =
    do { (r, s) \<leftarrow> call (api_GetPVC E (Namespace (pvc_meta pvc)) (pvc_Name pvc)) s;
         case r of
           Inl err \<Rightarrow> Some (Some err, s)
         | Inr newPvc \<Rightarrow>
            let newPvc = newPvc\<lparr>pvc_meta := (pvc_meta newPvc)\<lparr>Finalizers :=
                           RemoveString (Finalizers (pvc_meta newPvc)) PVCFinalizer\<rparr>\<rparr> in
            do { (r, s) \<leftarrow> act (UpdatePVC newPvc) (api_UpdatePVC E newPvc) s;
                 case r of
                   Inl err \<Rightarrow> Some (Some err, s)
                 | Inr _ \<Rightarrow> Some (None, s) } }"

definition removePVCFinalizer ::
  "'w env \<Rightarrow> PersistentVolumeClaim \<Rightarrow> 'w st \<Rightarrow> (goerr option \<times> 'w st) option" where
  "removePVCFinalizer E pvc s =
    do { (r, s) \<leftarrow> RetryOnConflict (removePVCFinalizer_attempt E pvc) s;
         case r of
           Some err \<Rightarrow> Some (Some (newControllerUpdateError (pvc_Name pvc) (err_text err)), s)
         | None \<Rightarrow> Some (None, s) }"

definition checkandRemovePVCFinalizer ::
  "'w env \<Rightarrow> VolumeSnapshot \<Rightarrow> bool \<Rightarrow> 'w st \<Rightarrow> (goerr option \<times> 'w st) option" where
  "checkandRemovePVCFinalizer E snapshot skipCurrentSnapshot s =
    (if vs_PVCName snapshot = None then Some (None, s)
     else do {
       (r, s) \<leftarrow> getClaimFromVolumeSnapshot E snapshot s;
       case r of
         Inl err \<Rightarrow> Some (None, s)
       | Inr pvc \<Rightarrow>
          if Contains (Finalizers (pvc_meta pvc)) PVCFinalizer then
            do { (inUse, s) \<leftarrow> isPVCBeingUsed E pvc snapshot skipCurrentSnapshot s;
                 if \<not> inUse then removePVCFinalizer E pvc s else Some (None, s) }
          else Some (None, s) })"

section \<open>Contents and snapshots\<close>

definition addContentFinalizer ::
  "'w env \<Rightarrow> VolumeSnapshotContent \<Rightarrow> 'w st \<Rightarrow> (goerr option \<times> 'w st) option" where
  "addContentFinalizer E content s =
    (let patches = (if length (Finalizers (vsc_meta content)) > 0
           then [patchOp ''add'' ''/metadata/finalizers/-'' (PVString VolumeSnapshotContentFinalizer)]
           else [patchOp ''add'' ''/metadata/finalizers'' (PVStrings [VolumeSnapshotContentFinalizer])]) in
     do { ((newContent, err), s) \<leftarrow> PatchVolumeSnapshotContent E content patches [] s;
          case err of
            Some err \<Rightarrow> Some (Some (newControllerUpdateError (vsc_Name content) (err_text err)), s)
          | None \<Rightarrow>
             do { (_, s) \<leftarrow> storeContentUpdate (ObjVSC newContent) s; Some (None, s) } })"

definition addSnapshotFinalizer ::
  "'w env \<Rightarrow> VolumeSnapshot \<Rightarrow> bool \<Rightarrow> bool \<Rightarrow> 'w st \<Rightarrow> (goerr option \<times> 'w st) option" where
  "addSnapshotFinalizer E snapshot addSourceFinalizer addBoundFinalizer s =
    do { ((updatedSnapshot, err), s) \<leftarrow>
           (if length (Finalizers (vs_meta snapshot)) = 0 then
              let snapshotClone = snapshot\<lparr>vs_meta := (vs_meta snapshot)\<lparr>Finalizers :=
                    (if addSourceFinalizer then [VolumeSnapshotAsSourceFinalizer] else []) @
                    (if addBoundFinalizer then [VolumeSnapshotBoundFinalizer] else [])\<rparr>\<rparr> in
              do { (r, s) \<leftarrow> act (UpdateVS snapshotClone) (api_UpdateVS E snapshotClone) s;
                   case r of
                     Inl err \<Rightarrow> Some ((emptyVolumeSnapshot, Some err), s)
                   | Inr updated \<Rightarrow> Some ((updated, None), s) }
            else
              PatchVolumeSnapshot E snapshot
                ((if addSourceFinalizer then [patchOp ''add'' ''/metadata/finalizers/-''
                    (PVString VolumeSnapshotAsSourceFinalizer)] else []) @
                 (if addBoundFinalizer then [patchOp ''add'' ''/metadata/finalizers/-''
                    (PVString VolumeSnapshotBoundFinalizer)] else [])) [] s);
         case err of
           Some err \<Rightarrow> Some (Some (newControllerUpdateError (SnapshotKey snapshot) (err_text err)), s)
         | None \<Rightarrow>
            do { (_, s) \<leftarrow> storeSnapshotUpdate (ObjVS updatedSnapshot) s; Some (None, s) } }"

text \<open>The snapshot that \<open>removeSnapshotFinalizer\<close> sends to the API server.\<close>

definition withoutFinalizers :: "VolumeSnapshot \<Rightarrow> bool \<Rightarrow> bool \<Rightarrow> bool \<Rightarrow> VolumeSnapshot" where
  "withoutFinalizers snapshot removeSource removeBound removeGroup =
    (let f0 = Finalizers (vs_meta snapshot);
         f1 = (if removeSource then RemoveString f0 VolumeSnapshotAsSourceFinalizer else f0);
         f2 = (if removeBound then RemoveString f1 VolumeSnapshotBoundFinalizer else f1);
         f3 = (if removeGroup then RemoveString f2 VolumeSnapshotInGroupFinalizer else f2)
     in snapshot\<lparr>vs_meta := (vs_meta snapshot)\<lparr>Finalizers := f3\<rparr>\<rparr>)"

definition removeSnapshotFinalizer ::
  "'w env \<Rightarrow> VolumeSnapshot \<Rightarrow> bool \<Rightarrow> bool \<Rightarrow> bool \<Rightarrow> 'w st \<Rightarrow> (goerr option \<times> 'w st) option" where
  "removeSnapshotFinalizer E snapshot removeSource removeBound removeGroup s =
    (if \<not> removeSource \<and> \<not> removeBound \<and> \<not> removeGroup then Some (None, s)
     else do {
       (err, s) \<leftarrow> checkandRemovePVCFinalizer E snapshot True s;
       case err of
         Some err \<Rightarrow>
           let s = emit (Event (ObjVS snapshot) EventTypeWarning ''ErrorPVCFinalizer''
                     ''Error check and remove PVC Finalizer for VolumeSnapshot'') s in
           Some (Some (newControllerUpdateError (vs_Name snapshot) (err_text err)), s)
       | None \<Rightarrow>
           let snapshotClone = withoutFinalizers snapshot removeSource removeBound removeGroup in
           do { (r, s) \<leftarrow> act (UpdateVS snapshotClone) (api_UpdateVS E snapshotClone) s;
                case r of
                  Inl err \<Rightarrow> Some (Some (newControllerUpdateError (vs_Name snapshot) (err_text err)), s)
                | Inr newSnapshot \<Rightarrow>
                   do { (_, s) \<leftarrow> storeSnapshotUpdate (ObjVS newSnapshot) s; Some (None, s) } } })"

section \<open>What these operations do\<close>

context effects
begin

lemma getClaimFromVolumeSnapshot_I:
  "I s \<Longrightarrow> (\<And>r s'. I s' \<Longrightarrow> Q r s') \<Longrightarrow> ensures (getClaimFromVolumeSnapshot E v s) Q"
  by (auto simp: getClaimFromVolumeSnapshot_def intro!: call_I split: sum.split option.split)

lemma isPVCBeingUsed_I:
  "I s \<Longrightarrow> (\<And>r s'. I s' \<Longrightarrow> Q r s') \<Longrightarrow> ensures (isPVCBeingUsed E p v b s) Q"
  by (auto simp: isPVCBeingUsed_def intro!: call_I split: sum.split)

lemma ensurePVCFinalizer_I:
  assumes "\<And>p. ok (UpdatePVC p)" "I s" "\<And>r s'. I s' \<Longrightarrow> Q r s'"
  shows "ensures (ensurePVCFinalizer E v s) Q"
  by (rule keepI[OF _ assms(3)], insert assms(1-2), auto simp: ensurePVCFinalizer_def Let_def
      intro!: getClaimFromVolumeSnapshot_I act_I split: sum.split)

lemma removePVCFinalizer_I:
  assumes "\<And>p. PVCFinalizer \<notin> set (Finalizers (pvc_meta p)) \<Longrightarrow> ok (UpdatePVC p)" "I s" "\<And>r s'. I s' \<Longrightarrow> Q r s'"
  shows "ensures (removePVCFinalizer E p s) Q"
  unfolding removePVCFinalizer_def ensures_bind
proof (rule RetryOnConflict_I)
  fix s and Q :: "goerr option \<Rightarrow> 'w st \<Rightarrow> bool" assume "I s" "\<And>r s'. I s' \<Longrightarrow> Q r s'"
  then show "ensures (removePVCFinalizer_attempt E p s) Q"
    using assms(1) by (auto simp: removePVCFinalizer_attempt_def Let_def intro!: call_I act_I split: sum.split)
qed (use assms in \<open>auto split: option.split\<close>)

lemma checkandRemovePVCFinalizer_I:
  assumes "\<And>p. PVCFinalizer \<notin> set (Finalizers (pvc_meta p)) \<Longrightarrow> ok (UpdatePVC p)" "I s" "\<And>r s'. I s' \<Longrightarrow> Q r s'"
  shows "ensures (checkandRemovePVCFinalizer E v b s) Q"
  by (rule keepI[OF _ assms(3)], insert assms(1-2), auto simp: checkandRemovePVCFinalizer_def Let_def
      intro!: getClaimFromVolumeSnapshot_I isPVCBeingUsed_I removePVCFinalizer_I split: sum.split)

lemma addContentFinalizer_I:
  assumes "\<And>p. ok (PatchVSC (vsc_Name c) p [])" "touch CContent" "I s" "\<And>r s'. I s' \<Longrightarrow> Q r s'"
  shows "ensures (addContentFinalizer E c s) Q"
  by (rule keepI[OF _ assms(4)], insert assms(1-3), auto simp: addContentFinalizer_def Let_def
      intro!: PatchVolumeSnapshotContent_I storeContentUpdate_I split: option.split)

lemma addSnapshotFinalizer_I:
  assumes "\<And>v. ok (UpdateVS v)" "\<And>n m p. ok (PatchVS n m p [])" "touch CSnapshot" "I s"
    "\<And>r s'. I s' \<Longrightarrow> Q r s'"
  shows "ensures (addSnapshotFinalizer E v a b s) Q"
  by (rule keepI[OF _ assms(5)], insert assms(1-4), auto simp: addSnapshotFinalizer_def Let_def
      intro!: act_I PatchVolumeSnapshot_I storeSnapshotUpdate_I split: option.split sum.split)

lemma removeSnapshotFinalizer_I:
  assumes "\<And>p. PVCFinalizer \<notin> set (Finalizers (pvc_meta p)) \<Longrightarrow> ok (UpdatePVC p)"
    "ok (UpdateVS (withoutFinalizers v a b c))" "\<And>t r m. ok (Event (ObjVS v) t r m)" "touch CSnapshot"
    "I s" "\<And>r s'. I s' \<Longrightarrow> Q r s'"
  shows "ensures (removeSnapshotFinalizer E v a b c s) Q"
  by (rule keepI[OF _ assms(6)], insert assms(1-5), auto simp: removeSnapshotFinalizer_def Let_def
      intro!: checkandRemovePVCFinalizer_I act_I emit_I storeSnapshotUpdate_I
      split: option.split sum.split)

end

lemma pvcUsedBy_iff:
  "pvcUsedBy pvc snapshot skip snaps \<longleftrightarrow>
    (\<exists>snap \<in> set snaps. vs_PVCName snap = Some (pvc_Name pvc) \<and> \<not> IsSnapshotReady snap \<and>
       \<not> (skip \<and> vs_Name snap = vs_Name snapshot))"
  by (induction snaps) auto

text \<open>The retried closure adds at most one effect for each attempt.\<close>

lemma Retry_log:
  assumes "\<And>s. ensures (fn s) (\<lambda>_ s'. \<exists>new. log s' = log s @ new \<and> length new \<le> 1 \<and> list_all ok new)"
  shows "ensures (RetryOnConflict_steps n fn s)
    (\<lambda>_ s'. \<exists>new. log s' = log s @ new \<and> length new \<le> n \<and> list_all ok new)"
proof (induction n arbitrary: s)
  case (Suc n)
  have *: "ensures (RetryOnConflict_steps n fn s1)
      (\<lambda>_ s'. \<exists>new. log s' = log s @ new \<and> length new \<le> Suc n \<and> list_all ok new)"
    if "\<exists>new. log s1 = log s @ new \<and> length new \<le> 1 \<and> list_all ok new" for s1
    using Suc.IH[of s1] by (rule ensures_mono) (use that in force)
  show ?case
    by (simp, rule ensures_mono[OF assms[of s]]) (use * in \<open>force split: option.split\<close>)
qed simp

lemma removePVCFinalizer_log:
  "ensures (removePVCFinalizer E p s) (\<lambda>_ s'. \<exists>new. log s' = log s @ new \<and> length new \<le> 5 \<and>
     list_all (\<lambda>a. \<exists>q. a = UpdatePVC q \<and> PVCFinalizer \<notin> set (Finalizers (pvc_meta q))) new)"
  unfolding removePVCFinalizer_def ensures_bind RetryOnConflict_def
  by (rule ensures_mono[OF Retry_log[where ok =
        "\<lambda>a. \<exists>q. a = UpdatePVC q \<and> PVCFinalizer \<notin> set (Finalizers (pvc_meta q))"]])
    (auto simp: removePVCFinalizer_attempt_def Let_def ensures_call ensures_act split: sum.split option.split)


definition demoPVC :: PersistentVolumeClaim where
  "demoPVC = \<lparr>pvc_meta = emptyMeta\<lparr>Name := ''claim1'', Namespace := ''ns1'',
     Finalizers := [PVCFinalizer]\<rparr>, pvc_DataSource = None, pvc_VolumeName = ''pv1'',
     pvc_Phase = ClaimBound\<rparr>"

definition demoFromPVC :: VolumeSnapshot where
  "demoFromPVC = demoSnapshot\<lparr>vs_Spec := \<lparr>vss_Source = \<lparr>PersistentVolumeClaimName = Some ''claim1'',
     VolumeSnapshotContentName = None\<rparr>, vss_VolumeSnapshotClassName = None\<rparr>\<rparr>"

definition demoClaimEnv :: "unit env" where
  "demoClaimEnv = nullEnv\<lparr>lister_GetPVC := \<lambda>_ _ w. (Inr demoPVC, w),
     api_GetPVC := \<lambda>_ _ w. (Inr demoPVC, w)\<rparr>"

lemma demo_remove_run:
  "map_option (\<lambda>(r, s). (r, map (\<lambda>a. case a of UpdatePVC p \<Rightarrow> Finalizers (pvc_meta p) | _ \<Rightarrow> [[]]) (log s)))
     (checkandRemovePVCFinalizer demoClaimEnv demoFromPVC False (initialState ())) =
   Some (None, [[]])"
  by (simp add: checkandRemovePVCFinalizer_def getClaimFromVolumeSnapshot_def isPVCBeingUsed_def
      removePVCFinalizer_def RetryOnConflict_def removePVCFinalizer_attempt_def demoClaimEnv_def
      nullEnv_def demoFromPVC_def demoSnapshot_def demoPVC_def emptyVolumeSnapshot_def emptyMeta_def
      call_def act_def initialState_def Contains_def RemoveString_def numeral_eq_Suc Let_def)


text \<open>Taking finalizers off a snapshot is one write, issued last: whatever is done before it only
  takes the source finalizer off claims, an error there stops the operation with a warning event and no
  write to the snapshot, and the object written differs from the snapshot at most in its finalizers,
  which lose exactly the requested ones and keep their order.\<close>

theorem snapshot_finalizers_removed_last:
  assumes "removeSnapshotFinalizer E snapshot a b c s = Some (r, s')"
  shows "\<exists>pvcs. list_all (\<lambda>x. \<exists>q. x = UpdatePVC q \<and> PVCFinalizer \<notin> set (Finalizers (pvc_meta q))) pvcs \<and>
    ((\<not> a \<and> \<not> b \<and> \<not> c \<and> r = None \<and> log s' = log s) \<or>
     (r \<noteq> None \<and> (\<exists>t reason m. log s' = log s @ pvcs @ [Event (ObjVS snapshot) t reason m])) \<or>
     (\<exists>v. log s' = log s @ pvcs @ [UpdateVS v] \<and>
        v\<lparr>vs_meta := (vs_meta v)\<lparr>Finalizers := []\<rparr>\<rparr> =
          snapshot\<lparr>vs_meta := (vs_meta snapshot)\<lparr>Finalizers := []\<rparr>\<rparr> \<and>
        Finalizers (vs_meta v) = filter (\<lambda>f. \<not> (a \<and> f = VolumeSnapshotAsSourceFinalizer) \<and>
          \<not> (b \<and> f = VolumeSnapshotBoundFinalizer) \<and> \<not> (c \<and> f = VolumeSnapshotInGroupFinalizer))
          (Finalizers (vs_meta snapshot))))"
proof (cases "a \<or> b \<or> c")
  case False
  then show ?thesis using assms
    by (intro exI[of _ "[]"]) (auto simp: removeSnapshotFinalizer_def)
next
  case True
  let ?ok = "\<lambda>x. \<exists>q. x = UpdatePVC q \<and> PVCFinalizer \<notin> set (Finalizers (pvc_meta q))"
  obtain r1 s1 where c1: "checkandRemovePVCFinalizer E snapshot True s = Some (r1, s1)"
    using assms True by (auto simp: removeSnapshotFinalizer_def split: Option.bind_splits)
  have "ensures (checkandRemovePVCFinalizer E snapshot True s) (\<lambda>_ s'. onlyNew ?ok (log s) s')"
    by (rule only.checkandRemovePVCFinalizer_I) (auto simp: onlyNew_refl)
  then obtain pvcs where p: "log s1 = log s @ pvcs" "list_all ?ok pvcs"
    using c1 by (auto dest: ensuresD simp: onlyNew_def)
  have fin: "Finalizers (vs_meta (withoutFinalizers snapshot a b c)) =
      filter (\<lambda>f. \<not> (a \<and> f = VolumeSnapshotAsSourceFinalizer) \<and>
          \<not> (b \<and> f = VolumeSnapshotBoundFinalizer) \<and> \<not> (c \<and> f = VolumeSnapshotInGroupFinalizer))
          (Finalizers (vs_meta snapshot))"
    by (auto simp: withoutFinalizers_def Let_def RemoveString_filter intro: filter_cong)
  have rest: "(withoutFinalizers snapshot a b c)\<lparr>vs_meta :=
      (vs_meta (withoutFinalizers snapshot a b c))\<lparr>Finalizers := []\<rparr>\<rparr> =
      snapshot\<lparr>vs_meta := (vs_meta snapshot)\<lparr>Finalizers := []\<rparr>\<rparr>"
    by (simp add: withoutFinalizers_def Let_def)
  have "(r \<noteq> None \<and> (\<exists>t reason m. log s' = log s1 @ [Event (ObjVS snapshot) t reason m])) \<or>
      log s' = log s1 @ [UpdateVS (withoutFinalizers snapshot a b c)]"
    using assms True c1
    by (auto simp: removeSnapshotFinalizer_def Let_def emit_def act_def call_def storeSnapshotUpdate_def
        split: option.splits sum.splits prod.splits)
  then show ?thesis using p fin rest by (intro exI[of _ pvcs]) auto
qed

definition demoFinalized :: VolumeSnapshot where
  "demoFinalized = demoSnapshot\<lparr>vs_meta := (vs_meta demoSnapshot)\<lparr>Finalizers :=
     [VolumeSnapshotAsSourceFinalizer, VolumeSnapshotBoundFinalizer]\<rparr>\<rparr>"

lemma demo_remove_finalizer:
  "\<exists>s'. removeSnapshotFinalizer nullEnv demoFinalized True False False (initialState ()) = Some (None, s') \<and>
     length (log s') = 1"
  by (simp add: removeSnapshotFinalizer_def checkandRemovePVCFinalizer_def demoFinalized_def
      demoSnapshot_def emptyVolumeSnapshot_def nullEnv_def act_def call_def storeSnapshotUpdate_def
      StoreObjectUpdate_def initialState_def Let_def)

theorem snapshot_finalizers_removed_last_witness:
  "\<exists>v s'. removeSnapshotFinalizer nullEnv demoFinalized True False False (initialState ()) = Some (None, s') \<and>
     log s' = [UpdateVS v] \<and> Finalizers (vs_meta v) = [VolumeSnapshotBoundFinalizer]"
proof -
  obtain s' where run: "removeSnapshotFinalizer nullEnv demoFinalized True False False (initialState ()) = Some (None, s')"
    and l: "length (log s') = 1"
    using demo_remove_finalizer by blast
  have l0: "log (initialState ()) = []" by (simp add: initialState_def)
  have f: "Finalizers (vs_meta demoFinalized) = [VolumeSnapshotAsSourceFinalizer, VolumeSnapshotBoundFinalizer]"
    by (simp add: demoFinalized_def)
  from snapshot_finalizers_removed_last[OF run] obtain v where
    "log s' = [UpdateVS v]" "Finalizers (vs_meta v) = [VolumeSnapshotBoundFinalizer]"
    using l unfolding l0 f by auto
  then show ?thesis using run by blast
qed

end
