(* ===== verification/CommonStatus.thy ===== *)
theory CommonStatus
  imports CommonFinalizers
begin

text \<open>
  The status of a snapshot (\<open>pkg/common-controller/snapshot_controller.go\<close>): how it is computed from
  the status of its content, when it needs an update, how an error is recorded in it, and how it is
  written. The status computation is a pure function here, \<open>computeSnapshotStatus\<close>; \<open>updateSnapshotStatus\<close>
  reads and writes around it as the code does.
\<close>

section \<open>Errors\<close>

text \<open>
  \<open>Status.Error != nil && *Status.Error.Message == message\<close>: a nil message is a run-time panic.
\<close>

definition sameError :: "VolumeSnapshotError option \<Rightarrow> string \<Rightarrow> bool option" where
  "sameError err message =
    (case err of
       None \<Rightarrow> Some False
     | Some e \<Rightarrow> (case err_Message e of None \<Rightarrow> None | Some m \<Rightarrow> Some (m = message)))"

definition withErrorStatus :: "VolumeSnapshot \<Rightarrow> bool \<Rightarrow> Time \<Rightarrow> string \<Rightarrow> VolumeSnapshot" where
  "withErrorStatus snapshot setReadyToFalse now message =
    (let st = (case vs_Status snapshot of None \<Rightarrow> emptyStatus | Some st \<Rightarrow> st);
         st = st\<lparr>Error := Some \<lparr>err_Time = Some now, err_Message = Some message\<rparr>\<rparr>;
         st = (if setReadyToFalse then st\<lparr>ReadyToUse := Some False\<rparr> else st)
     in snapshot\<lparr>vs_Status := Some st\<rparr>)"

text \<open>When the update fails the typed client returns an empty object, and the event is emitted on that.\<close>

definition updateSnapshotErrorStatusWithEvent ::
  "'w env \<Rightarrow> VolumeSnapshot \<Rightarrow> bool \<Rightarrow> event_type \<Rightarrow> string \<Rightarrow> string \<Rightarrow> 'w st
    \<Rightarrow> (goerr option \<times> 'w st) option" where
  "updateSnapshotErrorStatusWithEvent E snapshot setReadyToFalse eventtype reason message s =
    do { same \<leftarrow> sameError (case vs_Status snapshot of None \<Rightarrow> None | Some st \<Rightarrow> Error st) message;
         if same then Some (None, s)
         else do {
           (now, s) \<leftarrow> call (time_Now E) s;
           let snapshotClone = withErrorStatus snapshot setReadyToFalse now message;
           (r, s) \<leftarrow> act (UpdateStatusVS snapshotClone) (api_UpdateStatusVS E snapshotClone) s;
           let newSnapshot = (case r of Inl _ \<Rightarrow> emptyVolumeSnapshot | Inr v \<Rightarrow> v);
           let s = emit (Event (ObjVS newSnapshot) eventtype reason message) s;
           case r of
             Inl err \<Rightarrow> Some (Some err, s)
           | Inr _ \<Rightarrow>
              do { (r, s) \<leftarrow> storeSnapshotUpdate (ObjVS newSnapshot) s;
                   case r of Inl err \<Rightarrow> Some (Some err, s) | Inr _ \<Rightarrow> Some (None, s) } } }"

section \<open>Whether an update is needed\<close>

text \<open>
  The source compares the two \<open>ReadyToUse\<close> fields as pointers. They point into two different objects,
  so the comparison of two non-nil pointers finds them different whatever they point to.
\<close>

definition needsUpdateSnapshotStatus :: "VolumeSnapshot \<Rightarrow> VolumeSnapshotContent \<Rightarrow> bool option" where
  "needsUpdateSnapshotStatus snapshot content =
    (if vs_Status snapshot = None \<and> vsc_Status content \<noteq> None then Some True
     else case vsc_Status content of
       None \<Rightarrow> Some False
     | Some cst \<Rightarrow>
        (case vs_Status snapshot of
           None \<Rightarrow> None
         | Some st \<Rightarrow> Some (
             if BoundVolumeSnapshotContentName st = None then True
             else if CreationTime st = None \<and> cs_CreationTime cst \<noteq> None then True
             else if ReadyToUse st = None \<and> cs_ReadyToUse cst \<noteq> None then True
             else if ReadyToUse st \<noteq> None \<and> cs_ReadyToUse cst \<noteq> None then True
             else if RestoreSize st = None \<and> cs_RestoreSize cst \<noteq> None then True
             else case (RestoreSize st, cs_RestoreSize cst) of
               (Some q, Some n) \<Rightarrow> quantity_IsZero q \<and> n > 0
             | _ \<Rightarrow> False)))"

section \<open>The new status\<close>

text \<open>The loop over the group snapshot contents: the first with the handle of the content.\<close>

fun findGroupSnapshotName :: "string \<Rightarrow> VolumeGroupSnapshotContent list \<Rightarrow> string option" where
  "findGroupSnapshotName handle [] = None"
| "findGroupSnapshotName handle (gc # gcs) =
    (case vgsc_Status gc of
       None \<Rightarrow> findGroupSnapshotName handle gcs
     | Some st \<Rightarrow>
        (if gcs_VolumeGroupSnapshotHandle st = Some handle
         then Some (ref_Name (VolumeGroupSnapshotRef (vgsc_Spec gc)))
         else findGroupSnapshotName handle gcs))"

text \<open>What is read from the content before the API server is asked.\<close>

record contentFacts =
  f_contentName :: string
  f_createdAt :: "Time option"
  f_size :: "int option"
  f_ready :: bool
  f_err :: "VolumeSnapshotError option"

definition contentFactsOf :: "VolumeSnapshotContent \<Rightarrow> contentFacts" where
  "contentFactsOf content =
    (case vsc_Status content of
       None \<Rightarrow> \<lparr>f_contentName = vsc_Name content, f_createdAt = None, f_size = None, f_ready = False,
                 f_err = None\<rparr>
     | Some cst \<Rightarrow> \<lparr>f_contentName = vsc_Name content, f_createdAt = cs_CreationTime cst,
                 f_size = cs_RestoreSize cst,
                 f_ready = (case cs_ReadyToUse cst of None \<Rightarrow> False | Some b \<Rightarrow> b),
                 f_err = cs_Error cst\<rparr>)"

text \<open>
  The two branches that build \<open>newStatus\<close>, and the flag \<open>updated\<close>. The source compares the addresses
  of the two \<open>Time\<close> fields, which lie in different objects: the comparison is true.
\<close>

definition setReady :: "contentFacts \<Rightarrow> VolumeSnapshotStatus \<times> bool \<Rightarrow> VolumeSnapshotStatus \<times> bool" where
  "setReady f = (\<lambda>(st, updated).
     if ReadyToUse st = None \<or> ReadyToUse st \<noteq> Some (f_ready f)
     then (let st = st\<lparr>ReadyToUse := Some (f_ready f)\<rparr> in
           if f_ready f \<and> Error st \<noteq> None then st\<lparr>Error := None\<rparr> else st, True)
     else (st, updated))"

definition setRestoreSize ::
  "contentFacts \<Rightarrow> VolumeSnapshotStatus \<times> bool \<Rightarrow> VolumeSnapshotStatus \<times> bool" where
  "setRestoreSize f = (\<lambda>(st, updated).
     case f_size f of
       None \<Rightarrow> (st, updated)
     | Some sz \<Rightarrow>
        if RestoreSize st = None \<or>
           (case RestoreSize st of None \<Rightarrow> False | Some q \<Rightarrow> quantity_IsZero q \<and> sz > 0)
        then (st\<lparr>RestoreSize := Some (NewQuantity sz BinarySI)\<rparr>, True) else (st, updated))"

definition setError :: "contentFacts \<Rightarrow> VolumeSnapshotStatus \<times> bool \<Rightarrow> VolumeSnapshotStatus \<times> bool" where
  "setError f = (\<lambda>(st, updated).
     if (Error st = None \<and> f_err f \<noteq> None) \<or>
        (case (Error st, f_err f) of
           (Some e, Some e') \<Rightarrow> err_Time e \<noteq> None \<and> err_Time e' \<noteq> None | _ \<Rightarrow> False) \<or>
        (Error st \<noteq> None \<and> f_err f = None)
     then (st\<lparr>Error := f_err f\<rparr>, True) else (st, updated))"

definition setBoundName ::
  "contentFacts \<Rightarrow> VolumeSnapshotStatus \<times> bool \<Rightarrow> VolumeSnapshotStatus \<times> bool" where
  "setBoundName f = (\<lambda>(st, updated).
     if BoundVolumeSnapshotContentName st = None
     then (st\<lparr>BoundVolumeSnapshotContentName := Some (f_contentName f)\<rparr>, True) else (st, updated))"

definition setCreationTime ::
  "contentFacts \<Rightarrow> VolumeSnapshotStatus \<times> bool \<Rightarrow> VolumeSnapshotStatus \<times> bool" where
  "setCreationTime f = (\<lambda>(st, updated).
     if CreationTime st = None \<and> f_createdAt f \<noteq> None
     then (st\<lparr>CreationTime := f_createdAt f\<rparr>, True) else (st, updated))"

definition setGroupName ::
  "string \<Rightarrow> VolumeSnapshotStatus \<times> bool \<Rightarrow> VolumeSnapshotStatus \<times> bool" where
  "setGroupName groupSnapshotName = (\<lambda>(st, updated).
     if VolumeGroupSnapshotName st = None \<and> groupSnapshotName \<noteq> []
     then (st\<lparr>VolumeGroupSnapshotName := Some groupSnapshotName\<rparr>, True) else (st, updated))"

definition computeSnapshotStatus ::
  "VolumeSnapshotStatus option \<Rightarrow> contentFacts \<Rightarrow> string \<Rightarrow> VolumeSnapshotStatus \<times> bool" where
  "computeSnapshotStatus old f groupSnapshotName =
    (case old of
       None \<Rightarrow>
        (\<lparr>BoundVolumeSnapshotContentName = Some (f_contentName f), CreationTime = f_createdAt f,
          ReadyToUse = Some (f_ready f),
          RestoreSize = map_option (\<lambda>sz. NewQuantity sz BinarySI) (f_size f),
          Error = f_err f,
          VolumeGroupSnapshotName = (if groupSnapshotName \<noteq> [] then Some groupSnapshotName else None)\<rparr>,
         True)
     | Some st \<Rightarrow>
        setGroupName groupSnapshotName (setError f (setRestoreSize f (setReady f
          (setCreationTime f (setBoundName f (st, False)))))))"

section \<open>Writing it\<close>

definition groupNameForContent ::
  "'w env \<Rightarrow> VolumeSnapshot \<Rightarrow> VolumeSnapshotContent \<Rightarrow> 'w st \<Rightarrow> ((goerr + string) \<times> 'w st) option" where
  "groupNameForContent E snapshot content s =
    (case Option.bind (vsc_Status content) cs_VolumeGroupSnapshotHandle of
       None \<Rightarrow> Some (Inr [], s)
     | Some handle \<Rightarrow>
        do { (r, s) \<leftarrow> call (lister_ListVGSC E) s;
             case r of
               Inl err \<Rightarrow> Some (Inl err, s)
             | Inr gcs \<Rightarrow>
                (case findGroupSnapshotName handle gcs of
                   None \<Rightarrow> Some (Inl (Errorf (sprint [''updateSnapshotStatus: cannot find the group snapshot for VolumeSnapshot ['',
                     SnapshotKey snapshot, ''], will not update snapshot status''])), s)
                 | Some name \<Rightarrow> Some (Inr name, s)) })"

text \<open>The observations and events of a status change, before it is written.\<close>

definition recordStatusChange ::
  "'w env \<Rightarrow> VolumeSnapshot \<Rightarrow> string \<Rightarrow> VolumeSnapshot \<Rightarrow> VolumeSnapshot \<Rightarrow> 'w st \<Rightarrow> (unit \<times> 'w st) option" where
  "recordStatusChange E snapshot driverName snapshotObj snapshotClone s =
    do { (_, s) \<leftarrow>
           (if \<not> IsSnapshotCreated snapshotObj \<and> IsSnapshotCreated snapshotClone then
              do { (_, s) \<leftarrow> withMetrics E (RecordMetrics
                     (NewOperationKey CreateSnapshotOperationName (vs_UID snapshot))
                     (Some SnapshotStatusTypeSuccess) driverName) s;
                   Some ((), emit (Event (ObjVS snapshot) EventTypeNormal ''SnapshotCreated''
                     (sprint [''Snapshot '', SnapshotKey snapshot,
                       '' was successfully created by the CSI driver.''])) s) }
            else Some ((), s));
         if \<not> IsSnapshotReady snapshotObj \<and> IsSnapshotReady snapshotClone then
           do { (_, s) \<leftarrow> withMetrics E (RecordMetrics
                  (NewOperationKey CreateSnapshotAndReadyOperationName (vs_UID snapshot))
                  (Some SnapshotStatusTypeSuccess) driverName) s;
                Some ((), emit (Event (ObjVS snapshot) EventTypeNormal ''SnapshotReady''
                  (sprint [''Snapshot '', SnapshotKey snapshot, '' is ready to use.''])) s) }
         else Some ((), s) }"

definition updateSnapshotStatus ::
  "'w env \<Rightarrow> VolumeSnapshot \<Rightarrow> VolumeSnapshotContent \<Rightarrow> 'w st
    \<Rightarrow> ((goerr + VolumeSnapshot) \<times> 'w st) option" where
  "updateSnapshotStatus E snapshot content s =
    do { (g, s) \<leftarrow> groupNameForContent E snapshot content s;
         case g of
           Inl err \<Rightarrow> Some (Inl err, s)
         | Inr groupSnapshotName \<Rightarrow>
            do { (r, s) \<leftarrow> call (api_GetVS E (vs_Namespace snapshot) (vs_Name snapshot)) s;
                 case r of
                   Inl err \<Rightarrow> Some (Inl (Errorf (sprint [''error get snapshot '',
                     SnapshotKey snapshot, '' from api server: '', err_text err])), s)
                 | Inr snapshotObj \<Rightarrow>
                    let (newStatus, updated) =
                      computeSnapshotStatus (vs_Status snapshotObj) (contentFactsOf content) groupSnapshotName in
                    if updated then
                      let snapshotClone = snapshotObj\<lparr>vs_Status := Some newStatus\<rparr> in
                      do { (_, s) \<leftarrow> recordStatusChange E snapshot (spec_Driver (vsc_Spec content))
                                      snapshotObj snapshotClone s;
                           (r, s) \<leftarrow> act (UpdateStatusVS snapshotClone) (api_UpdateStatusVS E snapshotClone) s;
                           case r of
                             Inl err \<Rightarrow> Some (Inl (newControllerUpdateError (SnapshotKey snapshot) (err_text err)), s)
                           | Inr newSnapshotObj \<Rightarrow> Some (Inr newSnapshotObj, s) }
                    else Some (Inr snapshotObj, s) } }"

section \<open>What these operations do\<close>

context effects
begin

lemma updateSnapshotErrorStatusWithEvent_I:
  assumes "\<And>v. ok (UpdateStatusVS v)" "\<And>v t r m. ok (Event (ObjVS v) t r m)" "touch CSnapshot" "I s"
    "\<And>r s'. I s' \<Longrightarrow> Q r s'"
  shows "ensures (updateSnapshotErrorStatusWithEvent E v b t reason msg s) Q"
  unfolding updateSnapshotErrorStatusWithEvent_def
  by (rule keepI[OF _ assms(5)], rule ensures_option_bind, insert assms(1-4), auto simp: Let_def
      intro!: call_I act_I emit_I storeSnapshotUpdate_I split: sum.split)

lemma groupNameForContent_I:
  "I s \<Longrightarrow> (\<And>r s'. I s' \<Longrightarrow> Q r s') \<Longrightarrow> ensures (groupNameForContent E v c s) Q"
  by (auto simp: groupNameForContent_def intro!: call_I split: option.split sum.split)

lemma recordStatusChange_I:
  assumes "\<And>v t r m. ok (Event (ObjVS v) t r m)" "I s" "\<And>r s'. I s' \<Longrightarrow> Q r s'"
  shows "ensures (recordStatusChange E v d o1 o2 s) Q"
  by (rule keepI[OF _ assms(3)], insert assms(1,2), auto simp: recordStatusChange_def Let_def
      intro!: withMetrics_I emit_I)

lemma updateSnapshotStatus_I:
  assumes "\<And>v. ok (UpdateStatusVS v)" "\<And>v t r m. ok (Event (ObjVS v) t r m)" "I s"
    "\<And>r s'. I s' \<Longrightarrow> Q r s'"
  shows "ensures (updateSnapshotStatus E v c s) Q"
  by (rule keepI[OF _ assms(4)], insert assms(1-3), auto simp: updateSnapshotStatus_def Let_def
      intro!: groupNameForContent_I call_I act_I recordStatusChange_I split: sum.split prod.split)

end

section \<open>Properties\<close>

named_theorems status_sel \<open>what each step of the status computation leaves and sets\<close>

lemma setBoundName_sel [status_sel]:
  "BoundVolumeSnapshotContentName (fst (setBoundName f p)) =
    (case BoundVolumeSnapshotContentName (fst p) of None \<Rightarrow> Some (f_contentName f) | Some n \<Rightarrow> Some n)"
  "CreationTime (fst (setBoundName f p)) = CreationTime (fst p)"
  "ReadyToUse (fst (setBoundName f p)) = ReadyToUse (fst p)"
  "RestoreSize (fst (setBoundName f p)) = RestoreSize (fst p)"
  "Error (fst (setBoundName f p)) = Error (fst p)"
  "VolumeGroupSnapshotName (fst (setBoundName f p)) = VolumeGroupSnapshotName (fst p)"
  by (simp_all add: setBoundName_def split: prod.split option.split)

lemma setCreationTime_sel [status_sel]:
  "BoundVolumeSnapshotContentName (fst (setCreationTime f p)) = BoundVolumeSnapshotContentName (fst p)"
  "CreationTime (fst (setCreationTime f p)) =
    (case CreationTime (fst p) of None \<Rightarrow> f_createdAt f | Some t \<Rightarrow> Some t)"
  "ReadyToUse (fst (setCreationTime f p)) = ReadyToUse (fst p)"
  "RestoreSize (fst (setCreationTime f p)) = RestoreSize (fst p)"
  "Error (fst (setCreationTime f p)) = Error (fst p)"
  "VolumeGroupSnapshotName (fst (setCreationTime f p)) = VolumeGroupSnapshotName (fst p)"
  by (simp_all add: setCreationTime_def split: prod.split option.split)

lemma setReady_sel [status_sel]:
  "BoundVolumeSnapshotContentName (fst (setReady f p)) = BoundVolumeSnapshotContentName (fst p)"
  "CreationTime (fst (setReady f p)) = CreationTime (fst p)"
  "ReadyToUse (fst (setReady f p)) = Some (f_ready f)"
  "RestoreSize (fst (setReady f p)) = RestoreSize (fst p)"
  "Error (fst (setReady f p)) =
    (if f_ready f \<and> ReadyToUse (fst p) \<noteq> Some True then None else Error (fst p))"
  "VolumeGroupSnapshotName (fst (setReady f p)) = VolumeGroupSnapshotName (fst p)"
  by (auto simp: setReady_def Let_def split: prod.split)

definition newRestoreSize :: "contentFacts \<Rightarrow> Quantity option \<Rightarrow> Quantity option" where
  "newRestoreSize f old =
    (case f_size f of None \<Rightarrow> old
     | Some sz \<Rightarrow> (case old of None \<Rightarrow> Some (NewQuantity sz BinarySI)
         | Some q \<Rightarrow> if quantity_IsZero q \<and> sz > 0 then Some (NewQuantity sz BinarySI) else Some q))"

lemma setRestoreSize_sel [status_sel]:
  "BoundVolumeSnapshotContentName (fst (setRestoreSize f p)) = BoundVolumeSnapshotContentName (fst p)"
  "CreationTime (fst (setRestoreSize f p)) = CreationTime (fst p)"
  "ReadyToUse (fst (setRestoreSize f p)) = ReadyToUse (fst p)"
  "RestoreSize (fst (setRestoreSize f p)) = newRestoreSize f (RestoreSize (fst p))"
  "Error (fst (setRestoreSize f p)) = Error (fst p)"
  "VolumeGroupSnapshotName (fst (setRestoreSize f p)) = VolumeGroupSnapshotName (fst p)"
  by (auto simp: setRestoreSize_def newRestoreSize_def split: prod.split option.split)

text \<open>The error that ends up in the status: the content's, unless one of the two has no time.\<close>

definition newError :: "contentFacts \<Rightarrow> VolumeSnapshotError option \<Rightarrow> VolumeSnapshotError option" where
  "newError f old =
    (case (old, f_err f) of
       (Some e, Some e') \<Rightarrow> if err_Time e \<noteq> None \<and> err_Time e' \<noteq> None then Some e' else Some e
     | _ \<Rightarrow> f_err f)"

lemma setError_sel [status_sel]:
  "BoundVolumeSnapshotContentName (fst (setError f p)) = BoundVolumeSnapshotContentName (fst p)"
  "CreationTime (fst (setError f p)) = CreationTime (fst p)"
  "ReadyToUse (fst (setError f p)) = ReadyToUse (fst p)"
  "RestoreSize (fst (setError f p)) = RestoreSize (fst p)"
  "Error (fst (setError f p)) = newError f (Error (fst p))"
  "VolumeGroupSnapshotName (fst (setError f p)) = VolumeGroupSnapshotName (fst p)"
  by (auto simp: setError_def newError_def split: prod.split option.split)

lemma setGroupName_sel [status_sel]:
  "BoundVolumeSnapshotContentName (fst (setGroupName g p)) = BoundVolumeSnapshotContentName (fst p)"
  "CreationTime (fst (setGroupName g p)) = CreationTime (fst p)"
  "ReadyToUse (fst (setGroupName g p)) = ReadyToUse (fst p)"
  "RestoreSize (fst (setGroupName g p)) = RestoreSize (fst p)"
  "Error (fst (setGroupName g p)) = Error (fst p)"
  "VolumeGroupSnapshotName (fst (setGroupName g p)) =
    (case VolumeGroupSnapshotName (fst p) of None \<Rightarrow> (if g = [] then None else Some g) | Some n \<Rightarrow> Some n)"
  by (auto simp: setGroupName_def split: prod.split option.split)

text \<open>A step that does not report a change makes none.\<close>

lemma unchanged_steps:
  "\<not> snd (setBoundName f p) \<Longrightarrow> setBoundName f p = p"
  "\<not> snd (setCreationTime f p) \<Longrightarrow> setCreationTime f p = p"
  "\<not> snd (setReady f p) \<Longrightarrow> setReady f p = p"
  "\<not> snd (setRestoreSize f p) \<Longrightarrow> setRestoreSize f p = p"
  "\<not> snd (setError f p) \<Longrightarrow> setError f p = p"
  "\<not> snd (setGroupName g p) \<Longrightarrow> setGroupName g p = p"
  by (auto simp: setBoundName_def setCreationTime_def setReady_def setRestoreSize_def setError_def
      setGroupName_def split: prod.splits option.splits if_splits)

lemma computed_unchanged:
  assumes "\<not> snd (computeSnapshotStatus old f g)"
  shows "old = Some (fst (computeSnapshotStatus old f g))"
proof (cases old)
  case (Some st)
  define a where "a = setBoundName f (st, False)"
  define b where "b = setCreationTime f a"
  define c where "c = setReady f b"
  define d where "d = setRestoreSize f c"
  define e where "e = setError f d"
  have k: "computeSnapshotStatus old f g = setGroupName g e"
    by (simp add: Some computeSnapshotStatus_def a_def b_def c_def d_def e_def)
  have "setGroupName g e = e" using assms unchanged_steps(6) by (simp add: k)
  moreover have "e = d" using assms calculation unchanged_steps(5) unfolding k e_def by metis
  moreover have "d = c" using assms calculation unchanged_steps(4) unfolding k d_def by metis
  moreover have "c = b" using assms calculation unchanged_steps(3) unfolding k c_def by metis
  moreover have "b = a" using assms calculation unchanged_steps(2) unfolding k b_def by metis
  moreover have "a = (st, False)" using assms calculation unchanged_steps(1) unfolding k a_def by metis
  ultimately show ?thesis using Some k by simp
qed (use assms in \<open>simp add: computeSnapshotStatus_def\<close>)

text \<open>The status computed from a content is monotone and faithful: a bound content name, a creation
  time, a group name and a non-zero restore size that are already set never change, missing ones are
  taken from the content, readiness is always the content's (false when it has none), a snapshot whose
  content reports no error ends without one, and when nothing is marked as updated the status is the
  old one.\<close>

theorem computed_status_monotone:
  assumes "computeSnapshotStatus old f g = (st, updated)"
  shows "BoundVolumeSnapshotContentName st = (case Option.bind old BoundVolumeSnapshotContentName of
       None \<Rightarrow> Some (f_contentName f) | Some n \<Rightarrow> Some n) \<and>
    CreationTime st = (case Option.bind old CreationTime of None \<Rightarrow> f_createdAt f | Some t \<Rightarrow> Some t) \<and>
    ReadyToUse st = Some (f_ready f) \<and>
    VolumeGroupSnapshotName st = (case Option.bind old VolumeGroupSnapshotName of
       None \<Rightarrow> (if g = [] then None else Some g) | Some n \<Rightarrow> Some n) \<and>
    (\<forall>q. Option.bind old RestoreSize = Some q \<and> \<not> quantity_IsZero q \<longrightarrow> RestoreSize st = Some q) \<and>
    (\<forall>sz. Option.bind old RestoreSize = None \<and> f_size f = Some sz \<longrightarrow>
       RestoreSize st = Some (NewQuantity sz BinarySI)) \<and>
    (f_err f = None \<longrightarrow> Error st = None) \<and>
    (\<not> updated \<longrightarrow> old = Some st)"
proof -
  have st: "st = fst (computeSnapshotStatus old f g)" and up: "updated = snd (computeSnapshotStatus old f g)"
    using assms by simp_all
  have "\<not> updated \<longrightarrow> old = Some st" using computed_unchanged[of old f g] unfolding st up by blast
  moreover have "RestoreSize st = newRestoreSize f (Option.bind old RestoreSize)"
    by (cases old) (simp_all add: st computeSnapshotStatus_def status_sel newRestoreSize_def split: option.split)
  moreover have "f_err f = None \<longrightarrow> Error st = None"
    by (cases old) (simp_all add: st computeSnapshotStatus_def status_sel newError_def split: option.split)
  ultimately show ?thesis
    by (cases old) (simp_all add: st computeSnapshotStatus_def status_sel newRestoreSize_def split: option.split)
qed

definition demoFacts :: contentFacts where
  "demoFacts = \<lparr>f_contentName = ''content1'', f_createdAt = Some 5, f_size = Some 1024, f_ready = True,
     f_err = None\<rparr>"

theorem computed_status_monotone_witness:
  "\<exists>st. computeSnapshotStatus (Some (emptyStatus\<lparr>CreationTime := Some 3\<rparr>)) demoFacts [] = (st, True) \<and>
     CreationTime st = Some 3 \<and> ReadyToUse st = Some True \<and>
     RestoreSize st = Some (NewQuantity 1024 BinarySI)"
proof -
  let ?old = "Some (emptyStatus\<lparr>CreationTime := Some 3\<rparr>)"
  obtain st u where r: "computeSnapshotStatus ?old demoFacts [] = (st, u)" by fastforce
  have "u" using computed_status_monotone[OF r]
    by (auto simp: emptyStatus_def demoFacts_def)
  then show ?thesis using r computed_status_monotone[OF r] by (simp add: emptyStatus_def demoFacts_def)
qed

lemma newRestoreSize_stable:
  "newRestoreSize f old = None \<Longrightarrow> f_size f = None"
  "newRestoreSize f old = Some q \<Longrightarrow> f_size f = Some sz \<Longrightarrow> \<not> (quantity_IsZero q \<and> sz > 0)"
  by (auto simp: newRestoreSize_def NewQuantity_def quantity_IsZero_def split: option.splits if_splits)

lemma steps_stable:
  "BoundVolumeSnapshotContentName st \<noteq> None \<Longrightarrow> setBoundName f (st, u) = (st, u)"
  "CreationTime st \<noteq> None \<or> f_createdAt f = None \<Longrightarrow> setCreationTime f (st, u) = (st, u)"
  "ReadyToUse st = Some (f_ready f) \<Longrightarrow> setReady f (st, u) = (st, u)"
  "RestoreSize st = newRestoreSize f r \<Longrightarrow> setRestoreSize f (st, u) = (st, u)"
  "VolumeGroupSnapshotName st \<noteq> None \<or> g = [] \<Longrightarrow> setGroupName g (st, u) = (st, u)"
  using newRestoreSize_stable[of f r]
  by (auto simp: setBoundName_def setCreationTime_def setReady_def setRestoreSize_def setGroupName_def
      split: option.split)

lemma newError_stable:
  assumes "(\<exists>x. e0 = newError f x) \<or> e0 = f_err f"
  shows "(e0 = None \<longleftrightarrow> f_err f = None) \<and>
    (\<forall>e e'. e0 = Some e \<and> f_err f = Some e' \<and> err_Time e \<noteq> None \<and> err_Time e' \<noteq> None \<longrightarrow> e = e')"
  using assms by (cases "f_err f") (auto simp: newError_def split: option.splits if_splits)

lemma setError_stable:
  assumes "(\<exists>x. Error st = newError f x) \<or> Error st = f_err f"
  shows "setError f (st, u) = (st, u \<or> (\<exists>e e'. Error st = Some e \<and> f_err f = Some e' \<and>
     err_Time e \<noteq> None \<and> err_Time e' \<noteq> None))"
proof (cases "Error st")
  case None
  then show ?thesis using newError_stable[OF assms] by (simp add: setError_def)
next
  case (Some e)
  then obtain e' where e': "f_err f = Some e'" using newError_stable[OF assms] by auto
  show ?thesis
  proof (cases "err_Time e \<noteq> None \<and> err_Time e' \<noteq> None")
    case True
    then have "e' = e" using newError_stable[OF assms] Some e' by blast
    then show ?thesis using True Some e' by (cases st) (simp add: setError_def)
  next
    case False
    then show ?thesis using Some e' by (auto simp: setError_def)
  qed
qed

lemma computed_again:
  fixes old f g
  defines "st \<equiv> fst (computeSnapshotStatus old f g)"
  shows "computeSnapshotStatus (Some st) f g = (st, \<exists>e e'. Error st = Some e \<and> f_err f = Some e' \<and>
      err_Time e \<noteq> None \<and> err_Time e' \<noteq> None)"
proof -
  have 1: "BoundVolumeSnapshotContentName st \<noteq> None" "CreationTime st \<noteq> None \<or> f_createdAt f = None"
    "ReadyToUse st = Some (f_ready f)" "VolumeGroupSnapshotName st \<noteq> None \<or> g = []"
    "RestoreSize st = newRestoreSize f (Option.bind old RestoreSize)"
    "(\<exists>x. Error st = newError f x) \<or> Error st = f_err f"
    by (cases old; auto simp: st_def computeSnapshotStatus_def status_sel newRestoreSize_def
        split: option.split)+
  show ?thesis
    by (simp only: computeSnapshotStatus_def option.case steps_stable(1)[OF 1(1)] steps_stable(2)[OF 1(2)]
        steps_stable(3)[OF 1(3)] steps_stable(4)[OF 1(5)] steps_stable(5)[OF 1(4)]
        setError_stable[OF 1(6)] simp_thms)
qed

lemma recordStatusChange_same:
  "vs_Status v1 = vs_Status v2 \<Longrightarrow> recordStatusChange E v d v1 v2 s = Some ((), s)"
  by (simp add: recordStatusChange_def IsSnapshotCreated_def IsSnapshotReady_def)

text \<open>C40: A status that the controller computed from a content, and that the server holds, is left alone when the
  controller updates the status again from the same content: nothing is sent to the server, and the snapshot that the
  server holds is returned. The exception is a status and a content that both carry an error with a time: then each
  such update sends the snapshot as it is to the server once more, because the code compares the addresses of the two
  times and not the times. In neither case is there an event or another effect.\<close>

theorem computed_status_stable_but_rewritten:
  assumes group: "groupNameForContent E v c s = Some (Inr g, s1)"
    and held: "api_GetVS E (vs_Namespace v) (vs_Name v) (world s1) = (Inr obj, w)"
    and computed: "vs_Status obj = Some (fst (computeSnapshotStatus old (contentFactsOf c) g))"
    and run: "updateSnapshotStatus E v c s = Some (r, s')"
  shows "if \<exists>st e cst e'. vs_Status obj = Some st \<and> Error st = Some e \<and> vsc_Status c = Some cst \<and>
        cs_Error cst = Some e' \<and> err_Time e \<noteq> None \<and> err_Time e' \<noteq> None
    then log s' = log s @ [UpdateStatusVS obj] \<and>
      (\<forall>upd. fst (api_UpdateStatusVS E obj w) = Inr upd \<longrightarrow> r = Inr upd)
    else log s' = log s \<and> r = Inr obj"
proof -
  obtain st where st: "st = fst (computeSnapshotStatus old (contentFactsOf c) g)" by blast
  have held_st: "vs_Status obj = Some st" using computed st by simp
  obtain b where b: "b \<longleftrightarrow> (\<exists>e e'. Error st = Some e \<and> f_err (contentFactsOf c) = Some e' \<and>
      err_Time e \<noteq> None \<and> err_Time e' \<noteq> None)" by blast
  have again: "computeSnapshotStatus (Some st) (contentFactsOf c) g = (st, b)" unfolding st b by (rule computed_again)
  have same: "obj\<lparr>vs_Status := Some st\<rparr> = obj" using held_st by simp
  have l: "log s1 = log s" using group
    by (auto simp: groupNameForContent_def call_def split: option.splits prod.splits sum.splits)
  obtain ur w' where u: "api_UpdateStatusVS E obj w = (ur, w')" by fastforce
  have r: "if b then log s' = log s @ [UpdateStatusVS obj] \<and> (\<forall>upd. ur = Inr upd \<longrightarrow> r = Inr upd)
      else log s' = log s \<and> r = Inr obj"
  proof (cases b)
    case True
    then show ?thesis using run group held held_st u l same again
      by (auto simp: updateSnapshotStatus_def call_def act_def recordStatusChange_same split: sum.splits)
  next
    case False
    then show ?thesis using run group held held_st l again
      by (simp add: updateSnapshotStatus_def call_def) auto
  qed
  have iff: "b \<longleftrightarrow> (\<exists>st e cst e'. vs_Status obj = Some st \<and> Error st = Some e \<and> vsc_Status c = Some cst \<and>
        cs_Error cst = Some e' \<and> err_Time e \<noteq> None \<and> err_Time e' \<noteq> None)"
    using held_st unfolding b by (auto simp: contentFactsOf_def split: option.splits)
  show ?thesis using r u unfolding iff by simp
qed

definition demoFailedStatus :: VolumeSnapshotContentStatus where
  "demoFailedStatus = emptyContentStatus\<lparr>cs_Error := Some \<lparr>err_Time = Some 3, err_Message = Some ''no''\<rparr>\<rparr>"

definition demoFailedContent :: VolumeSnapshotContent where
  "demoFailedContent = emptyVolumeSnapshotContent\<lparr>vsc_Status := Some demoFailedStatus\<rparr>"

definition demoFailedSnapshot :: VolumeSnapshot where
  "demoFailedSnapshot = demoSnapshot\<lparr>vs_Status := Some (fst (computeSnapshotStatus None (contentFactsOf demoFailedContent) []))\<rparr>"

definition demoFailedEnv :: "unit env" where
  "demoFailedEnv = nullEnv\<lparr>api_GetVS := \<lambda>_ _ w. (Inr demoFailedSnapshot, w)\<rparr>"

lemma demoFailed_sel:
  "vs_Status demoFailedSnapshot = Some (fst (computeSnapshotStatus None (contentFactsOf demoFailedContent) []))"
  "vsc_Status demoFailedContent = Some demoFailedStatus"
  "cs_Error demoFailedStatus = Some \<lparr>err_Time = Some 3, err_Message = Some ''no''\<rparr>"
  "Error (fst (computeSnapshotStatus None (contentFactsOf demoFailedContent) [])) =
     Some \<lparr>err_Time = Some 3, err_Message = Some ''no''\<rparr>"
  by (simp_all add: demoFailedSnapshot_def demoFailedContent_def demoFailedStatus_def computeSnapshotStatus_def
      contentFactsOf_def)

theorem computed_status_stable_but_rewritten_witness:
  "\<exists>s'. updateSnapshotStatus demoFailedEnv demoFailedSnapshot demoFailedContent (initialState ()) =
     Some (Inr demoFailedSnapshot, s') \<and> log s' = [UpdateStatusVS demoFailedSnapshot]"
proof -
  have g: "groupNameForContent demoFailedEnv demoFailedSnapshot demoFailedContent (initialState ()) =
      Some (Inr [], initialState ())"
    by (simp add: groupNameForContent_def demoFailed_sel(2)) (simp add: demoFailedStatus_def emptyContentStatus_def)
  have h: "api_GetVS demoFailedEnv (vs_Namespace demoFailedSnapshot) (vs_Name demoFailedSnapshot) (world (initialState ())) =
      (Inr demoFailedSnapshot, ())" by (simp add: demoFailedEnv_def initialState_def)
  have "\<exists>r s'. updateSnapshotStatus demoFailedEnv demoFailedSnapshot demoFailedContent (initialState ()) = Some (r, s')"
    using g h by (auto simp: updateSnapshotStatus_def call_def act_def Let_def computed_again demoFailed_sel(1)
        recordStatusChange_same initialState_def split: prod.split sum.split)
  then obtain r s' where run: "updateSnapshotStatus demoFailedEnv demoFailedSnapshot demoFailedContent (initialState ()) =
      Some (r, s')" by blast
  have "fst (api_UpdateStatusVS demoFailedEnv demoFailedSnapshot ()) = Inr demoFailedSnapshot"
    by (simp add: demoFailedEnv_def nullEnv_def)
  then show ?thesis using computed_status_stable_but_rewritten[OF g h demoFailed_sel(1) run] run
    by (simp add: demoFailed_sel initialState_def)
qed

text \<open>Deciding whether a snapshot needs a status update never dereferences a missing status; and once
  both the snapshot and its content have a readiness it always answers yes, even when the two agree in
  every field, because the code compares the two fields as pointers.\<close>

theorem needsUpdateSnapshotStatus_total_and_eager:
  "needsUpdateSnapshotStatus snapshot content \<noteq> None \<and>
   (\<forall>st cst. vs_Status snapshot = Some st \<and> vsc_Status content = Some cst \<and>
      ReadyToUse st \<noteq> None \<and> cs_ReadyToUse cst \<noteq> None \<longrightarrow>
      needsUpdateSnapshotStatus snapshot content = Some True)"
  by (auto simp: needsUpdateSnapshotStatus_def split: option.split)

definition demoContent :: VolumeSnapshotContent where
  "demoContent = emptyVolumeSnapshotContent\<lparr>
     vsc_meta := emptyMeta\<lparr>Name := ''snapcontent-uid1'', ResourceVersion := ''9''\<rparr>,
     vsc_Spec := \<lparr>VolumeSnapshotRef = emptyRef\<lparr>ref_Name := ''snap1'', ref_Namespace := ''ns1'',
         ref_UID := ''uid1''\<rparr>,
       spec_DeletionPolicy = VolumeSnapshotContentDelete, spec_Driver = ''drv'',
       spec_VolumeSnapshotClassName = Some ''class1'',
       spec_Source = \<lparr>VolumeHandle = Some ''vol1'', SnapshotHandle = None\<rparr>, SourceVolumeMode = None\<rparr>\<rparr>"

definition demoReadySnapshot :: VolumeSnapshot where
  "demoReadySnapshot = demoSnapshot\<lparr>vs_Status := Some (emptyStatus\<lparr>ReadyToUse := Some True\<rparr>)\<rparr>"

definition demoReadyContent :: VolumeSnapshotContent where
  "demoReadyContent = demoContent\<lparr>vsc_Status := Some (emptyContentStatus\<lparr>cs_ReadyToUse := Some True\<rparr>)\<rparr>"

theorem needsUpdateSnapshotStatus_total_and_eager_witness:
  "needsUpdateSnapshotStatus demoReadySnapshot demoReadyContent = Some True"
proof -
  have "vs_Status demoReadySnapshot = Some (emptyStatus\<lparr>ReadyToUse := Some True\<rparr>) \<and>
      vsc_Status demoReadyContent = Some (emptyContentStatus\<lparr>cs_ReadyToUse := Some True\<rparr>) \<and>
      ReadyToUse (emptyStatus\<lparr>ReadyToUse := Some True\<rparr>) \<noteq> None \<and>
      cs_ReadyToUse (emptyContentStatus\<lparr>cs_ReadyToUse := Some True\<rparr>) \<noteq> None"
    by (simp add: demoReadySnapshot_def demoReadyContent_def)
  then show ?thesis
    using needsUpdateSnapshotStatus_total_and_eager[of demoReadySnapshot demoReadyContent] by blast
qed

text \<open>An error is recorded in a snapshot's status by at most one status write, of a snapshot that
  differs from the given one only in the error and, when asked, in readiness, which becomes false; the
  event is emitted whether or not the write succeeds, and the snapshot cache is updated only from the
  API server's answer. Nothing happens when the same message is already recorded.\<close>

theorem error_status_write:
  assumes "updateSnapshotErrorStatusWithEvent E snapshot setReadyToFalse etype reason msg s = Some (r, s')"
  shows "(r = None \<and> s' = s \<and> (\<exists>st e. vs_Status snapshot = Some st \<and> Error st = Some e \<and> err_Message e = Some msg)) \<or>
    (\<exists>now v. log s' = log s @ [UpdateStatusVS (withErrorStatus snapshot setReadyToFalse now msg),
         Event (ObjVS v) etype reason msg] \<and>
       (snapshotStore s' = snapshotStore s \<or>
         snapshotStore s' = (snapshotStore s)(keyFunc (vs_meta v) \<mapsto> ObjVS v)) \<and>
       (\<exists>st'. vs_Status (withErrorStatus snapshot setReadyToFalse now msg) = Some st' \<and>
          Error st' = Some \<lparr>err_Time = Some now, err_Message = Some msg\<rparr> \<and>
          ReadyToUse st' = (if setReadyToFalse then Some False
             else Option.bind (vs_Status snapshot) ReadyToUse) \<and>
          BoundVolumeSnapshotContentName st' = Option.bind (vs_Status snapshot) BoundVolumeSnapshotContentName \<and>
          CreationTime st' = Option.bind (vs_Status snapshot) CreationTime) \<and>
       vs_meta (withErrorStatus snapshot setReadyToFalse now msg) = vs_meta snapshot)"
proof -
  have e: "(\<exists>st'. vs_Status (withErrorStatus snapshot setReadyToFalse now msg) = Some st' \<and>
          Error st' = Some \<lparr>err_Time = Some now, err_Message = Some msg\<rparr> \<and>
          ReadyToUse st' = (if setReadyToFalse then Some False
             else Option.bind (vs_Status snapshot) ReadyToUse) \<and>
          BoundVolumeSnapshotContentName st' = Option.bind (vs_Status snapshot) BoundVolumeSnapshotContentName \<and>
          CreationTime st' = Option.bind (vs_Status snapshot) CreationTime) \<and>
       vs_meta (withErrorStatus snapshot setReadyToFalse now msg) = vs_meta snapshot" for now
    by (cases "vs_Status snapshot") (simp_all add: withErrorStatus_def Let_def emptyStatus_def)
  obtain same where same: "sameError (case vs_Status snapshot of None \<Rightarrow> None | Some st \<Rightarrow> Error st) msg = Some same"
    using assms by (auto simp: updateSnapshotErrorStatusWithEvent_def split: Option.bind_splits)
  show ?thesis
  proof (cases same)
    case True
    then show ?thesis using assms same
      by (auto simp: updateSnapshotErrorStatusWithEvent_def sameError_def split: option.splits)
  next
    case False
    obtain now w where n: "time_Now E (world s) = (now, w)" by fastforce
    let ?v = "withErrorStatus snapshot setReadyToFalse now msg"
    obtain u w2 where u: "api_UpdateStatusVS E ?v w = (u, w2)" by fastforce
    define nv where "nv = (case u of Inl _ \<Rightarrow> emptyVolumeSnapshot | Inr v \<Rightarrow> v)"
    have "log s' = log s @ [UpdateStatusVS ?v, Event (ObjVS nv) etype reason msg] \<and>
        (snapshotStore s' = snapshotStore s \<or>
         snapshotStore s' = (snapshotStore s)(keyFunc (vs_meta nv) \<mapsto> ObjVS nv))"
      using assms same False n u StoreObjectUpdate_cases[of "snapshotStore s" "ObjVS nv" "''snapshot''"]
      by (auto simp: updateSnapshotErrorStatusWithEvent_def call_def act_def emit_def Let_def
          storeSnapshotUpdate_def nv_def split: sum.splits prod.splits)
    then show ?thesis using e[of now] by blast
  qed
qed

theorem error_status_write_witness:
  "\<exists>s'. updateSnapshotErrorStatusWithEvent nullEnv demoSnapshot True EventTypeWarning ''R'' ''m''
      (initialState ()) = Some (None, s') \<and> length (log s') = 2"
proof -
  have "\<exists>s'. updateSnapshotErrorStatusWithEvent nullEnv demoSnapshot True EventTypeWarning ''R'' ''m''
      (initialState ()) = Some (None, s')"
    by (simp add: updateSnapshotErrorStatusWithEvent_def sameError_def demoSnapshot_def Let_def
        emptyVolumeSnapshot_def nullEnv_def call_def act_def emit_def withErrorStatus_def
        storeSnapshotUpdate_def StoreObjectUpdate_def initialState_def)
  then obtain s' where run: "updateSnapshotErrorStatusWithEvent nullEnv demoSnapshot True EventTypeWarning
      ''R'' ''m'' (initialState ()) = Some (None, s')" by blast
  have "vs_Status demoSnapshot = None" by (simp add: demoSnapshot_def emptyVolumeSnapshot_def)
  moreover have "log (initialState ()) = []" by (simp add: initialState_def)
  ultimately show ?thesis using run error_status_write[OF run] by auto
qed

text \<open>Updating a snapshot's status is at most one write, of the snapshot just read from the API server
  with the status computed from the content and nothing else changed; every other effect is an event,
  no cache is touched, and without a write the snapshot read is returned as it is.\<close>

theorem status_update_single_write:
  assumes "updateSnapshotStatus E snapshot content s = Some (r, s')"
  shows "snapshotStore s' = snapshotStore s \<and> contentStore s' = contentStore s \<and>
    (\<exists>events. list_all isEvent events \<and>
      ((log s' = log s @ events \<and> (\<forall>obj. r = Inr obj \<longrightarrow>
          (\<exists>g w1 w2. api_GetVS E (vs_Namespace snapshot) (vs_Name snapshot) w1 = (Inr obj, w2) \<and>
             \<not> snd (computeSnapshotStatus (vs_Status obj) (contentFactsOf content) g)))) \<or>
       (\<exists>obj g w1 w2. api_GetVS E (vs_Namespace snapshot) (vs_Name snapshot) w1 = (Inr obj, w2) \<and>
          log s' = log s @ events @ [UpdateStatusVS (obj\<lparr>vs_Status := Some
            (fst (computeSnapshotStatus (vs_Status obj) (contentFactsOf content) g))\<rparr>)])))"
proof -
  have "ensures (updateSnapshotStatus E snapshot content s) (\<lambda>_ s'. snapshotStore s' = snapshotStore s)"
    by (rule sameSnapshots.updateSnapshotStatus_I) auto
  moreover have "ensures (updateSnapshotStatus E snapshot content s) (\<lambda>_ s'. contentStore s' = contentStore s)"
    by (rule sameContents.updateSnapshotStatus_I) auto
  ultimately have stores: "snapshotStore s' = snapshotStore s \<and> contentStore s' = contentStore s"
    using assms by (auto dest: ensuresD)
  obtain gr s1 where g: "groupNameForContent E snapshot content s = Some (gr, s1)"
    using assms by (auto simp: updateSnapshotStatus_def split: Option.bind_splits)
  have "ensures (groupNameForContent E snapshot content s) (\<lambda>_ s1. onlyNew (\<lambda>_. False) (log s) s1)"
    by (rule only.groupNameForContent_I) (auto simp: onlyNew_refl)
  then have l1: "log s1 = log s" using g by (auto dest!: ensuresD simp: onlyNew_def list_all_iff)
  show ?thesis
  proof (cases gr)
    case (Inl e)
    then show ?thesis using assms g l1 stores
      by (intro conjI exI[of _ "[]"]) (auto simp: updateSnapshotStatus_def)
  next
    case (Inr gn)
    obtain vr w2 where v: "api_GetVS E (vs_Namespace snapshot) (vs_Name snapshot) (world s1) = (vr, w2)"
      by fastforce
    show ?thesis
    proof (cases vr)
      case (Inl e)
      then show ?thesis using assms g l1 stores Inr v
        by (intro conjI exI[of _ "[]"]) (auto simp: updateSnapshotStatus_def call_def)
    next
      case obj: (Inr obj)
      obtain st upd where c: "computeSnapshotStatus (vs_Status obj) (contentFactsOf content) gn = (st, upd)"
        by fastforce
      show ?thesis
      proof (cases upd)
        case False
        have rr: "r = Inr obj" "log s' = log s"
          using assms g l1 Inr v obj c False by (auto simp: updateSnapshotStatus_def call_def)
        have "\<not> snd (computeSnapshotStatus (vs_Status obj) (contentFactsOf content) gn)"
          using c False by simp
        then have "\<exists>g w1 w2. api_GetVS E (vs_Namespace snapshot) (vs_Name snapshot) w1 = (Inr obj, w2) \<and>
            \<not> snd (computeSnapshotStatus (vs_Status obj) (contentFactsOf content) g)"
          using v obj by blast
        then show ?thesis using stores rr by (intro conjI exI[of _ "[]"]) auto
      next
        case True
        let ?clone = "obj\<lparr>vs_Status := Some st\<rparr>"
        obtain s2 where rec: "recordStatusChange E snapshot (spec_Driver (vsc_Spec content)) obj ?clone
            (s1\<lparr>world := w2\<rparr>) = Some ((), s2)"
          using assms g Inr v obj c True
          by (auto simp: updateSnapshotStatus_def call_def Let_def split: Option.bind_splits)
        have "ensures (recordStatusChange E snapshot (spec_Driver (vsc_Spec content)) obj ?clone
            (s1\<lparr>world := w2\<rparr>)) (\<lambda>_ s'. onlyNew isEvent (log s1) s')"
          by (rule only.recordStatusChange_I) (auto simp: onlyNew_def)
        then obtain ev where ev: "log s2 = log s @ ev" "list_all isEvent ev"
          using rec l1 by (auto dest!: ensuresD simp: onlyNew_def)
        have "log s' = log s @ ev @ [UpdateStatusVS ?clone]"
          using assms g Inr v obj c True rec ev
          by (auto simp: updateSnapshotStatus_def call_def act_def Let_def split: sum.splits prod.splits)
        then show ?thesis using stores ev v obj c
          by (intro conjI exI[of _ ev] disjI2 exI[of _ obj] exI[of _ gn] exI[of _ "world s1"] exI[of _ w2]) auto
      qed
    qed
  qed
qed

definition demoServerEnv :: "unit env" where
  "demoServerEnv = nullEnv\<lparr>api_GetVS := \<lambda>_ _ w. (Inr demoSnapshot, w)\<rparr>"

theorem status_update_single_write_witness:
  "\<exists>r s'. updateSnapshotStatus demoServerEnv demoSnapshot demoReadyContent (initialState ()) = Some (r, s') \<and>
     snapshotStore s' = Map.empty"
proof -
  have "\<exists>r s'. updateSnapshotStatus demoServerEnv demoSnapshot demoReadyContent (initialState ()) = Some (r, s')"
    by (simp add: updateSnapshotStatus_def groupNameForContent_def demoServerEnv_def nullEnv_def
        demoReadyContent_def demoContent_def emptyContentStatus_def computeSnapshotStatus_def
        demoSnapshot_def emptyVolumeSnapshot_def call_def act_def recordStatusChange_def
        withMetrics_def Let_def contentFactsOf_def)
  then obtain r s' where run: "updateSnapshotStatus demoServerEnv demoSnapshot demoReadyContent
      (initialState ()) = Some (r, s')" by blast
  then show ?thesis using status_update_single_write[OF run] by (auto simp: initialState_def)
qed

end
