(* ===== verification/CommonContent.thy ===== *)
theory CommonContent
  imports CommonStatus
begin

text \<open>
  The contents of a snapshot (\<open>pkg/common-controller/snapshot_controller.go\<close>): finding a pre-provisioned
  or a dynamically provisioned content in the cache, the volume, class and secret a new content is made
  from, creating it, binding a pre-provisioned one, the default class, and the being-deleted annotation.
\<close>

section \<open>The caches\<close>

definition getContentFromStore ::
  "string \<Rightarrow> 'w st \<Rightarrow> goerr + VolumeSnapshotContent option" where
  "getContentFromStore contentName s =
    (case contentStore s contentName of
       None \<Rightarrow> Inr None
     | Some (ObjVSC content) \<Rightarrow> Inr (Some content)
     | Some _ \<Rightarrow> Inl (Errorf ''expected VolumeSnapshotContent, got another object''))"

definition getSnapshotFromStore :: "string \<Rightarrow> 'w st \<Rightarrow> goerr + VolumeSnapshot option" where
  "getSnapshotFromStore snapshotName s =
    (case snapshotStore s snapshotName of
       None \<Rightarrow> Inr None
     | Some (ObjVS snapshot) \<Rightarrow> Inr (Some snapshot)
     | Some _ \<Rightarrow> Inl (Errorf (sprint [''cannot convert object from snapshot cache to snapshot '',
       goQuote snapshotName])))"

section \<open>Finding the content of a snapshot\<close>

definition getPreprovisionedContentFromStore ::
  "'w env \<Rightarrow> VolumeSnapshot \<Rightarrow> 'w st \<Rightarrow> ((goerr + VolumeSnapshotContent option) \<times> 'w st) option" where
  "getPreprovisionedContentFromStore E snapshot s =
    do { contentName \<leftarrow> vs_ContentName snapshot;
         if contentName = [] then
           Some (Inl (Errorf (sprint [''empty VolumeSnapshotContentName for snapshot '',
             SnapshotKey snapshot])), s)
         else case getContentFromStore contentName s of
           Inl err \<Rightarrow> Some (Inl err, s)
         | Inr None \<Rightarrow> Some (Inr None, s)
         | Inr (Some content) \<Rightarrow>
            if vsc_SnapshotHandle content = None then
              do { (_, s) \<leftarrow> updateSnapshotErrorStatusWithEvent E snapshot True EventTypeWarning
                     ''SnapshotContentMismatch''
                     ''VolumeSnapshotContent is dynamically provisioned while expecting a pre-provisioned one'' s;
                   Some (Inl (Errorf (sprint [''snapshot '', SnapshotKey snapshot,
                     '' expects a pre-provisioned VolumeSnapshotContent '', contentName,
                     '' but gets a dynamically provisioned one''])), s) }
            else if ref_Name (vsc_Ref content) \<noteq> vs_Name snapshot \<or>
                    ref_Namespace (vsc_Ref content) \<noteq> vs_Namespace snapshot \<or>
                    (ref_UID (vsc_Ref content) \<noteq> [] \<and> ref_UID (vsc_Ref content) \<noteq> vs_UID snapshot) then
              let msg = sprint [''VolumeSnapshotContent ['', contentName,
                ''] is bound to a different snapshot''] in
              do { (_, s) \<leftarrow> updateSnapshotErrorStatusWithEvent E snapshot True EventTypeWarning
                     ''SnapshotContentMisbound'' msg s;
                   Some (Inl (Errorf msg), s) }
            else Some (Inr (Some content), s) }"

definition getDynamicallyProvisionedContentFromStore ::
  "'w env \<Rightarrow> VolumeSnapshot \<Rightarrow> 'w st \<Rightarrow> ((goerr + VolumeSnapshotContent option) \<times> 'w st) option" where
  "getDynamicallyProvisionedContentFromStore E snapshot s =
    (let contentName = GetDynamicSnapshotContentNameForSnapshot snapshot in
     case getContentFromStore contentName s of
       Inl err \<Rightarrow> Some (Inl err, s)
     | Inr None \<Rightarrow> Some (Inr None, s)
     | Inr (Some content) \<Rightarrow>
        if vsc_VolumeHandle content = None then
          do { (_, s) \<leftarrow> updateSnapshotErrorStatusWithEvent E snapshot True EventTypeWarning
                 ''SnapshotContentMismatch''
                 (sprint [''VolumeSnapshotContent '', contentName,
                   '' is pre-provisioned while expecting a dynamically provisioned one'']) s;
               Some (Inl (Errorf (sprint [''snapshot '', SnapshotKey snapshot,
                 '' expects a dynamically provisioned VolumeSnapshotContent '', contentName,
                 '' but gets a pre-provisioned one''])), s) }
        else if ref_Name (vsc_Ref content) \<noteq> vs_Name snapshot \<or>
                ref_Namespace (vsc_Ref content) \<noteq> vs_Namespace snapshot \<or>
                ref_UID (vsc_Ref content) \<noteq> vs_UID snapshot then
          let msg = sprint [''VolumeSnapshotContent ['', contentName,
            ''] is bound to a different snapshot''] in
          do { (_, s) \<leftarrow> updateSnapshotErrorStatusWithEvent E snapshot True EventTypeWarning
                 ''SnapshotContentMisbound'' msg s;
               Some (Inl (Errorf msg), s) }
        else Some (Inr (Some content), s))"

section \<open>The volume and the class\<close>

definition isVolumeBoundToClaim :: "PersistentVolume \<Rightarrow> PersistentVolumeClaim \<Rightarrow> bool" where
  "isVolumeBoundToClaim volume claim =
    (case pv_ClaimRef volume of
       None \<Rightarrow> False
     | Some cref \<Rightarrow>
        if pvc_Name claim \<noteq> ref_Name cref \<or> Namespace (pvc_meta claim) \<noteq> ref_Namespace cref then False
        else if ref_UID cref \<noteq> [] \<and> UID (pvc_meta claim) \<noteq> ref_UID cref then False
        else True)"

definition getVolumeFromVolumeSnapshot ::
  "'w env \<Rightarrow> VolumeSnapshot \<Rightarrow> 'w st \<Rightarrow> ((goerr + PersistentVolume) \<times> 'w st) option" where
  "getVolumeFromVolumeSnapshot E snapshot s =
    do { (r, s) \<leftarrow> getClaimFromVolumeSnapshot E snapshot s;
         case r of
           Inl err \<Rightarrow> Some (Inl err, s)
         | Inr pvc \<Rightarrow>
            if pvc_Phase pvc \<noteq> ClaimBound then
              Some (Inl (Errorf (sprint [''the PVC '', pvc_Name pvc,
                '' is not yet bound to a PV, will not attempt to take a snapshot''])), s)
            else do {
              (r, s) \<leftarrow> call (api_GetPV E (pvc_VolumeName pvc)) s;
              case r of
                Inl err \<Rightarrow> Some (Inl (Errorf (sprint [''failed to retrieve PV '',
                  pvc_VolumeName pvc, '' from the API server: '', goQuote (err_text err)])), s)
              | Inr pv \<Rightarrow>
                 if \<not> isVolumeBoundToClaim pv pvc then
                   Some (Inl (Errorf ''claim in dataSource not bound or invalid''), s)
                 else Some (Inr pv, s) } }"

definition pvDriverFromSnapshot ::
  "'w env \<Rightarrow> VolumeSnapshot \<Rightarrow> 'w st \<Rightarrow> ((goerr + string) \<times> 'w st) option" where
  "pvDriverFromSnapshot E snapshot s =
    do { (r, s) \<leftarrow> getVolumeFromVolumeSnapshot E snapshot s;
         case r of
           Inl err \<Rightarrow> Some (Inl err, s)
         | Inr pv \<Rightarrow>
            (case pv_CSI pv of
               None \<Rightarrow> Some (Inl (Errorf (sprint [''snapshotting non-CSI volumes is not supported, snapshot:'',
                 vs_Namespace snapshot, ''/'', vs_Name snapshot])), s)
             | Some csi \<Rightarrow> Some (Inr (csi_Driver csi), s)) }"

definition getSnapshotClass ::
  "'w env \<Rightarrow> string \<Rightarrow> 'w st \<Rightarrow> ((goerr + VolumeSnapshotClass) \<times> 'w st) option" where
  "getSnapshotClass E className s = call (lister_GetClass E className) s"

text \<open>The driver name for the metrics; the source always returns a nil error.\<close>

definition getSnapshotDriverName ::
  "'w env \<Rightarrow> VolumeSnapshot \<Rightarrow> 'w st \<Rightarrow> (string \<times> 'w st) option" where
  "getSnapshotDriverName E vs s =
    (let contentName = (case vs_ContentName vs of None \<Rightarrow> [] | Some n \<Rightarrow> n) in
     do { (driverName, s) \<leftarrow>
            (if contentName \<noteq> [] then
               do { (r, s) \<leftarrow> call (lister_GetVSC E contentName) s;
                    Some (case r of Inl _ \<Rightarrow> [] | Inr content \<Rightarrow> spec_Driver (vsc_Spec content), s) }
             else Some ([], s));
          if driverName \<noteq> [] then Some (driverName, s)
          else case vs_ClassName vs of
            None \<Rightarrow> Some (driverName, s)
          | Some className \<Rightarrow>
             do { (r, s) \<leftarrow> getSnapshotClass E className s;
                  Some (case r of Inl _ \<Rightarrow> driverName | Inr class \<Rightarrow> vsclass_Driver class, s) } })"

definition isDefaultClassFor :: "string \<Rightarrow> VolumeSnapshotClass \<Rightarrow> bool" where
  "isDefaultClassFor pvDriver class =
    (IsVolumeSnapshotClassDefaultAnnotation (vsclass_meta class) \<and> pvDriver = vsclass_Driver class)"

text \<open>
  The class, the snapshot and the error, of which the source always returns three. When the patch
  fails the error is only logged: the snapshot returned is the unpatched one, with a nil error.
\<close>

definition SetDefaultSnapshotClass ::
  "'w env \<Rightarrow> VolumeSnapshot \<Rightarrow> 'w st
    \<Rightarrow> ((VolumeSnapshotClass option \<times> VolumeSnapshot \<times> goerr option) \<times> 'w st) option" where
  "SetDefaultSnapshotClass E snapshot s =
    (if vs_ContentName snapshot \<noteq> None then Some ((None, snapshot, None), s)
     else if IsVolumeGroupSnapshotMember snapshot then Some ((None, snapshot, None), s)
     else do {
       (r, s) \<leftarrow> call (lister_ListClass E) s;
       case r of
         Inl err \<Rightarrow> Some ((None, snapshot, Some err), s)
       | Inr list \<Rightarrow>
          do { (r, s) \<leftarrow> pvDriverFromSnapshot E snapshot s;
               case r of
                 Inl err \<Rightarrow> Some ((None, snapshot, Some err), s)
               | Inr pvDriver \<Rightarrow>
                  (case filter (isDefaultClassFor pvDriver) list of
                     [] \<Rightarrow> Some ((None, snapshot, Some (Errorf ''cannot find default snapshot class'')), s)
                   | [class] \<Rightarrow>
                      do { ((newSnapshot, err), s) \<leftarrow> PatchVolumeSnapshot E snapshot
                             [patchOp ''replace'' ''/spec/volumeSnapshotClassName''
                                (PVString (Name (vsclass_meta class)))] [] s;
                           (_, s) \<leftarrow> storeSnapshotUpdate (ObjVS newSnapshot) s;
                           Some ((Some class, newSnapshot, None), s) }
                   | classes \<Rightarrow> Some ((None, snapshot, Some (Errorf (sprint [natText (length classes),
                     '' default snapshot classes were found'']))), s)) } })"

section \<open>Creating a content\<close>

text \<open>The loop over the nodes: the first that matches.\<close>

fun firstMatchingNode :: "(Node \<Rightarrow> bool) \<Rightarrow> Node list \<Rightarrow> string" where
  "firstMatchingNode match [] = []"
| "firstMatchingNode match (node # nodes) =
    (if match node then Name (node_meta node) else firstMatchingNode match nodes)"

definition getManagedByNode ::
  "'w env \<Rightarrow> PersistentVolume \<Rightarrow> 'w st \<Rightarrow> ((goerr + string) \<times> 'w st) option" where
  "getManagedByNode E pv s =
    (case pv_NodeAffinity pv of
       None \<Rightarrow> Some (Inr [], s)
     | Some nodeSelectorTerms \<Rightarrow>
        do { (r, s) \<leftarrow> call (lister_ListNodes E) s;
             case r of
               Inl err \<Rightarrow> Some (Inl err, s)
             | Inr nodes \<Rightarrow>
                Some (Inr (firstMatchingNode (\<lambda>n. matchNodeSelectorTerms E n nodeSelectorTerms) nodes), s) })"

definition getCreateSnapshotInput ::
  "'w env \<Rightarrow> VolumeSnapshot \<Rightarrow> 'w st
    \<Rightarrow> ((goerr + VolumeSnapshotClass \<times> PersistentVolume \<times> string \<times> SecretReference option) \<times> 'w st) option" where
  "getCreateSnapshotInput E snapshot s =
    (case vs_ClassName snapshot of
       None \<Rightarrow> Some (Inl (Errorf (sprint [''failed to take snapshot '', vs_Name snapshot,
         '' without a snapshot class''])), s)
     | Some className \<Rightarrow>
        do { (r, s) \<leftarrow> getSnapshotClass E className s;
             case r of
               Inl err \<Rightarrow> Some (Inl err, s)
             | Inr class \<Rightarrow>
                do { (r, s) \<leftarrow> getVolumeFromVolumeSnapshot E snapshot s;
                     case r of
                       Inl err \<Rightarrow> Some (Inl err, s)
                     | Inr volume \<Rightarrow>
                        let contentName = GetDynamicSnapshotContentNameForSnapshot snapshot in
                        (case GetSecretReference SnapshotterSecretParams (vsclass_Parameters class)
                                contentName (Some snapshot) of
                           Inl err \<Rightarrow> Some (Inl err, s)
                         | Inr secretRef \<Rightarrow> Some (Inr (class, volume, contentName, secretRef), s)) } })"

text \<open>\<open>ref.GetReference(scheme.Scheme, snapshot)\<close> of client-go for a snapshot, whose kind is registered.\<close>

definition GetReference :: "VolumeSnapshot \<Rightarrow> ObjectReference" where
  "GetReference snapshot =
    \<lparr>ref_Kind = ''VolumeSnapshot'', ref_Namespace = vs_Namespace snapshot, ref_Name = vs_Name snapshot,
     ref_UID = vs_UID snapshot, ref_APIVersion = ''snapshot.storage.k8s.io/v1'',
     ref_ResourceVersion = ResourceVersion (vs_meta snapshot), ref_FieldPath = []\<rparr>"

text \<open>The content object of \<open>createSnapshotContent\<close>, before the node label.\<close>

definition newSnapshotContent ::
  "'w env \<Rightarrow> VolumeSnapshot \<Rightarrow> VolumeSnapshotClass \<Rightarrow> PersistentVolume \<Rightarrow> string \<Rightarrow> string
    \<Rightarrow> SecretReference option \<Rightarrow> string \<Rightarrow> VolumeSnapshotContent" where
  "newSnapshotContent E snapshot class volume volumeHandle contentName secretRef nodeName =
    (let m0 = emptyMeta\<lparr>Name := contentName\<rparr>;
         m1 = (if nodeName \<noteq> []
               then m0\<lparr>Labels := fmupd VolumeSnapshotContentManagedByLabel nodeName fmempty\<rparr> else m0);
         m2 = (case secretRef of None \<Rightarrow> m1
               | Some ref \<Rightarrow> SetMetaDataAnnotation
                   (SetMetaDataAnnotation m1 AnnDeletionSecretRefName (sec_Name ref))
                   AnnDeletionSecretRefNamespace (sec_Namespace ref))
     in \<lparr>vsc_meta = m2,
         vsc_Spec = \<lparr>VolumeSnapshotRef = GetReference snapshot,
           spec_DeletionPolicy = vsclass_DeletionPolicy class,
           spec_Driver = vsclass_Driver class,
           spec_VolumeSnapshotClassName = Some (Name (vsclass_meta class)),
           spec_Source = \<lparr>VolumeHandle = Some volumeHandle, SnapshotHandle = None\<rparr>,
           SourceVolumeMode = (if preventVolumeModeConversion E then pv_VolumeMode volume else None)\<rparr>,
         vsc_Status = None\<rparr>)"

text \<open>
  Saving the new content. An already existing object counts as success, and the object in memory is
  then used in place of the server's.
\<close>

definition saveSnapshotContent ::
  "'w env \<Rightarrow> VolumeSnapshot \<Rightarrow> VolumeSnapshotContent \<Rightarrow> 'w st
    \<Rightarrow> ((goerr + VolumeSnapshotContent) \<times> 'w st) option" where
  "saveSnapshotContent E snapshot snapshotContent s =
    do { (r, s) \<leftarrow> act (CreateVSC snapshotContent) (api_CreateVSC E snapshotContent) s;
         let res = (case r of
                      Inr updated \<Rightarrow> Inr updated
                    | Inl err \<Rightarrow> if IsAlreadyExists err then Inr snapshotContent else Inl err);
         case res of
           Inl err \<Rightarrow>
             let s = emit (Event (ObjVS snapshot) EventTypeWarning ''CreateSnapshotContentFailed''
                       (sprint [''Error creating volume snapshot content object for snapshot '',
                         SnapshotKey snapshot, '': '', err_text err, ''.''])) s in
             Some (Inl (newControllerUpdateError (SnapshotKey snapshot) (err_text err)), s)
         | Inr updateContent \<Rightarrow>
             let s = emit (Event (ObjVS snapshot) EventTypeNormal ''CreatingSnapshot''
                       (sprint [''Waiting for a snapshot '', SnapshotKey snapshot,
                         '' to be created by the CSI driver.''])) s in
             do { (_, s) \<leftarrow> storeContentUpdate (ObjVSC updateContent) s;
                  Some (Inr updateContent, s) } }"

text \<open>\<open>createSnapshotContent\<close> from its input parameters on.\<close>

definition createContentFromInput ::
  "'w env \<Rightarrow> VolumeSnapshot \<Rightarrow> 'w st \<Rightarrow> ((goerr + VolumeSnapshotContent) \<times> 'w st) option" where
  "createContentFromInput E snapshot s =
    do { (r, s) \<leftarrow> getCreateSnapshotInput E snapshot s;
         case r of
           Inl err \<Rightarrow> Some (Inl (Errorf (sprint [''failed to get input parameters to create snapshot '',
             vs_Name snapshot, '': '', goQuote (err_text err)])), s)
         | Inr (class, volume, contentName, secretRef) \<Rightarrow>
            (case pv_CSI volume of
               None \<Rightarrow> Some (Inl (Errorf (sprint [''cannot find CSI PersistentVolumeSource for volume '',
                 Name (pv_meta volume)])), s)
             | Some csi \<Rightarrow>
                do { (r, s) \<leftarrow> (if enableDistributedSnapshotting E
                       then getManagedByNode E volume s else Some (Inr [], s));
                     case r of
                       Inl err \<Rightarrow> Some (Inl err, s)
                     | Inr nodeName \<Rightarrow>
                        saveSnapshotContent E snapshot
                          (newSnapshotContent E snapshot class volume (csi_VolumeHandle csi)
                             contentName secretRef nodeName) s }) }"

definition createSnapshotContent ::
  "'w env \<Rightarrow> VolumeSnapshot \<Rightarrow> 'w st \<Rightarrow> ((goerr + VolumeSnapshotContent) \<times> 'w st) option" where
  "createSnapshotContent E snapshot s =
    do { (err, s) \<leftarrow> ensurePVCFinalizer E snapshot s;
         case err of
           Some err \<Rightarrow> Some (Inl err, s)
         | None \<Rightarrow> createContentFromInput E snapshot s }"

section \<open>Binding\<close>

definition checkandBindSnapshotContent ::
  "'w env \<Rightarrow> VolumeSnapshot \<Rightarrow> VolumeSnapshotContent \<Rightarrow> 'w st
    \<Rightarrow> ((goerr + VolumeSnapshotContent) \<times> 'w st) option" where
  "checkandBindSnapshotContent E snapshot content s =
    (let ref = vsc_Ref content;
         mismatch = Errorf (sprint [''Could not bind snapshot '', vs_Name snapshot,
           '' and content '', vsc_Name content, '', the VolumeSnapshotRef does not match'']) in
     if ref_Name ref \<noteq> vs_Name snapshot then Some (Inl mismatch, s)
     else if ref_UID ref \<noteq> [] \<and> ref_UID ref \<noteq> vs_UID snapshot then Some (Inl mismatch, s)
     else if ref_UID ref \<noteq> [] \<and> spec_VolumeSnapshotClassName (vsc_Spec content) \<noteq> None then
       Some (Inr content, s)
     else
       let patches = patchOp ''replace'' ''/spec/volumeSnapshotRef/uid'' (PVString (vs_UID snapshot)) #
             (case vs_ClassName snapshot of None \<Rightarrow> []
              | Some className \<Rightarrow>
                 [patchOp ''replace'' ''/spec/volumeSnapshotClassName'' (PVString className)]) in
       do { ((newContent, err), s) \<leftarrow> PatchVolumeSnapshotContent E content patches [] s;
            case err of
              Some err \<Rightarrow> Some (Inl err, s)
            | None \<Rightarrow>
               do { (r, s) \<leftarrow> storeContentUpdate (ObjVSC newContent) s;
                    case r of Inl err \<Rightarrow> Some (Inl err, s) | Inr _ \<Rightarrow> Some (Inr newContent, s) } })"

definition bindandUpdateVolumeSnapshot ::
  "'w env \<Rightarrow> VolumeSnapshotContent \<Rightarrow> VolumeSnapshot \<Rightarrow> 'w st
    \<Rightarrow> ((goerr + VolumeSnapshot) \<times> 'w st) option" where
  "bindandUpdateVolumeSnapshot E snapshotContent snapshot s =
    do { (r, s) \<leftarrow> call (api_GetVS E (vs_Namespace snapshot) (vs_Name snapshot)) s;
         case r of
           Inl err \<Rightarrow> Some (Inl (Errorf (sprint [''error get snapshot '',
             SnapshotKey snapshot, '' from api server: '', err_text err])), s)
         | Inr snapshotCopy \<Rightarrow>
            do { (r, s) \<leftarrow> updateSnapshotStatus E snapshotCopy snapshotContent s;
                 case r of
                   Inl err \<Rightarrow>
                     do { (_, s) \<leftarrow> updateSnapshotErrorStatusWithEvent E snapshotCopy True EventTypeWarning
                            ''SnapshotStatusUpdateFailed''
                            (sprint [''Snapshot status update failed, '', err_text err]) s;
                          Some (Inl err, s) }
                 | Inr snapshotCopy \<Rightarrow>
                     do { (_, s) \<leftarrow> storeSnapshotUpdate (ObjVS snapshotCopy) s;
                          Some (Inr snapshotCopy, s) } } }"

section \<open>The being-deleted annotation\<close>

text \<open>
  The annotation is set on the object in place before it is patched. The object is the one in the
  content cache (and, when that came from the informer, the informer's too), so both see the write,
  whatever happens to the patch. An entry that equals the object is taken to be the object.
\<close>

definition writeThroughVSC ::
  "'w env \<Rightarrow> VolumeSnapshotContent \<Rightarrow> VolumeSnapshotContent \<Rightarrow> 'w st \<Rightarrow> 'w st" where
  "writeThroughVSC E old new s =
    (let k = keyFunc (vsc_meta old) in
     s\<lparr>contentStore := (if contentStore s k = Some (ObjVSC old)
          then (contentStore s)(k \<mapsto> ObjVSC new) else contentStore s),
       world := shared_write_VSC E new (world s)\<rparr>)"

text \<open>The content and the error, of which the source always returns both.\<close>

definition setAnnVolumeSnapshotBeingDeleted ::
  "'w env \<Rightarrow> VolumeSnapshotContent \<Rightarrow> 'w st
    \<Rightarrow> ((VolumeSnapshotContent \<times> goerr option) \<times> 'w st) option" where
  "setAnnVolumeSnapshotBeingDeleted E content s =
    (if HasAnnotation (vsc_meta content) AnnVolumeSnapshotBeingDeleted then Some ((content, None), s)
     else
       let new = content\<lparr>vsc_meta :=
                   SetMetaDataAnnotation (vsc_meta content) AnnVolumeSnapshotBeingDeleted ''yes''\<rparr>;
           s = writeThroughVSC E content new s;
           patches = [patchOp ''replace'' ''/metadata/annotations'' (PVMap (Annotations (vsc_meta new)))] in
       do { ((patchedContent, err), s) \<leftarrow> PatchVolumeSnapshotContent E new patches [] s;
            case err of
              Some err \<Rightarrow> Some ((new, Some (newControllerUpdateError (vsc_Name new) (err_text err))), s)
            | None \<Rightarrow>
               do { (r, s) \<leftarrow> storeContentUpdate (ObjVSC patchedContent) s;
                    case r of
                      Inl err \<Rightarrow> Some ((patchedContent, Some err), s)
                    | Inr _ \<Rightarrow> Some ((patchedContent, None), s) } })"

section \<open>What these operations do\<close>

context effects
begin

lemma getPreprovisionedContentFromStore_I:
  assumes "\<And>v. ok (UpdateStatusVS v)" "\<And>v t r m. ok (Event (ObjVS v) t r m)" "touch CSnapshot" "I s"
    "\<And>r s'. I s' \<Longrightarrow> Q r s'"
  shows "ensures (getPreprovisionedContentFromStore E v s) Q"
  unfolding getPreprovisionedContentFromStore_def
  by (rule keepI[OF _ assms(5)], rule ensures_option_bind, insert assms(1-4), auto simp: Let_def
      intro!: updateSnapshotErrorStatusWithEvent_I split: sum.split option.split)

lemma getDynamicallyProvisionedContentFromStore_I:
  assumes "\<And>v. ok (UpdateStatusVS v)" "\<And>v t r m. ok (Event (ObjVS v) t r m)" "touch CSnapshot" "I s"
    "\<And>r s'. I s' \<Longrightarrow> Q r s'"
  shows "ensures (getDynamicallyProvisionedContentFromStore E v s) Q"
  unfolding getDynamicallyProvisionedContentFromStore_def
  by (rule keepI[OF _ assms(5)], insert assms(1-4), auto simp: Let_def
      intro!: updateSnapshotErrorStatusWithEvent_I split: sum.split option.split)

lemma getVolumeFromVolumeSnapshot_I:
  "I s \<Longrightarrow> (\<And>r s'. I s' \<Longrightarrow> Q r s') \<Longrightarrow> ensures (getVolumeFromVolumeSnapshot E v s) Q"
  by (auto simp: getVolumeFromVolumeSnapshot_def intro!: getClaimFromVolumeSnapshot_I call_I split: sum.split)

lemma pvDriverFromSnapshot_I:
  "I s \<Longrightarrow> (\<And>r s'. I s' \<Longrightarrow> Q r s') \<Longrightarrow> ensures (pvDriverFromSnapshot E v s) Q"
  by (auto simp: pvDriverFromSnapshot_def intro!: getVolumeFromVolumeSnapshot_I split: sum.split option.split)

lemma getSnapshotClass_I:
  "I s \<Longrightarrow> (\<And>r s'. I s' \<Longrightarrow> Q r s') \<Longrightarrow> ensures (getSnapshotClass E n s) Q"
  by (auto simp: getSnapshotClass_def intro!: call_I)

lemma getSnapshotDriverName_I:
  "I s \<Longrightarrow> (\<And>r s'. I s' \<Longrightarrow> Q r s') \<Longrightarrow> ensures (getSnapshotDriverName E v s) Q"
  by (auto simp: getSnapshotDriverName_def Let_def intro!: call_I getSnapshotClass_I split: option.split)

lemma SetDefaultSnapshotClass_I:
  assumes "\<And>n m p. ok (PatchVS n m p [])" "touch CSnapshot" "I s" "\<And>r s'. I s' \<Longrightarrow> Q r s'"
  shows "ensures (SetDefaultSnapshotClass E v s) Q"
  unfolding SetDefaultSnapshotClass_def
  by (rule keepI[OF _ assms(4)], insert assms(1-3), auto
      intro!: call_I pvDriverFromSnapshot_I PatchVolumeSnapshot_I storeSnapshotUpdate_I
      split: sum.split list.split)

lemma getManagedByNode_I:
  "I s \<Longrightarrow> (\<And>r s'. I s' \<Longrightarrow> Q r s') \<Longrightarrow> ensures (getManagedByNode E pv s) Q"
  by (auto simp: getManagedByNode_def intro!: call_I split: sum.split option.split)

lemma getCreateSnapshotInput_I:
  "I s \<Longrightarrow> (\<And>r s'. I s' \<Longrightarrow> Q r s') \<Longrightarrow> ensures (getCreateSnapshotInput E v s) Q"
  by (auto simp: getCreateSnapshotInput_def Let_def
      intro!: getSnapshotClass_I getVolumeFromVolumeSnapshot_I split: sum.split option.split)

lemma saveSnapshotContent_I:
  assumes "ok (CreateVSC c)" "\<And>v t r m. ok (Event (ObjVS v) t r m)" "touch CContent" "I s"
    "\<And>r s'. I s' \<Longrightarrow> Q r s'"
  shows "ensures (saveSnapshotContent E v c s) Q"
  unfolding saveSnapshotContent_def
  by (rule keepI[OF _ assms(5)], insert assms(1-4), auto simp: Let_def
      intro!: act_I emit_I storeContentUpdate_I split: sum.split)

lemma createSnapshotContent_I:
  assumes "\<And>p. ok (UpdatePVC p)" "\<And>c. ok (CreateVSC c)" "\<And>v t r m. ok (Event (ObjVS v) t r m)"
    "touch CContent" "I s" "\<And>r s'. I s' \<Longrightarrow> Q r s'"
  shows "ensures (createSnapshotContent E v s) Q"
  unfolding createSnapshotContent_def createContentFromInput_def
  by (rule keepI[OF _ assms(6)], insert assms(1-5), auto
      intro!: ensurePVCFinalizer_I getCreateSnapshotInput_I getManagedByNode_I saveSnapshotContent_I
      split: sum.split option.split)

lemma checkandBindSnapshotContent_I:
  assumes "\<And>p. ok (PatchVSC (vsc_Name c) p [])" "touch CContent" "I s" "\<And>r s'. I s' \<Longrightarrow> Q r s'"
  shows "ensures (checkandBindSnapshotContent E v c s) Q"
  unfolding checkandBindSnapshotContent_def
  by (rule keepI[OF _ assms(4)], insert assms(1-3), auto simp: Let_def
      intro!: PatchVolumeSnapshotContent_I storeContentUpdate_I split: sum.split option.split)

lemma bindandUpdateVolumeSnapshot_I:
  assumes "\<And>v. ok (UpdateStatusVS v)" "\<And>v t r m. ok (Event (ObjVS v) t r m)" "touch CSnapshot" "I s"
    "\<And>r s'. I s' \<Longrightarrow> Q r s'"
  shows "ensures (bindandUpdateVolumeSnapshot E c v s) Q"
  unfolding bindandUpdateVolumeSnapshot_def
  by (rule keepI[OF _ assms(5)], insert assms(1-4), auto
      intro!: call_I updateSnapshotStatus_I updateSnapshotErrorStatusWithEvent_I storeSnapshotUpdate_I
      split: sum.split)

lemma writeThroughVSC_I:
  assumes "touch CContent" "I s" "keyFunc (vsc_meta c') = keyFunc (vsc_meta c)"
  shows "I (writeThroughVSC E c c' s)"
proof -
  have "I (s\<lparr>contentStore := x, world := w\<rparr>)" if "storeStep isVSC (contentStore s) x" for x w
    by (intro I_world I_content assms that)
  then show ?thesis unfolding writeThroughVSC_def Let_def using assms(3) by (auto simp: storeStep_put)
qed

lemma setAnnVolumeSnapshotBeingDeleted_I:
  assumes "\<And>m. ok (PatchVSC (vsc_Name c) [patchOp ''replace'' ''/metadata/annotations'' (PVMap m)] [])" "touch CContent" "I s" "\<And>r s'. I s' \<Longrightarrow> Q r s'"
  shows "ensures (setAnnVolumeSnapshotBeingDeleted E c s) Q"
  unfolding setAnnVolumeSnapshotBeingDeleted_def
  by (rule keepI[OF _ assms(4)], insert assms(1-3), auto simp: Let_def
      intro!: writeThroughVSC_I PatchVolumeSnapshotContent_I storeContentUpdate_I split: sum.split option.split)

end

section \<open>Properties\<close>

lemma getContentFromStore_Inr:
  "getContentFromStore n s = Inr (Some c) \<longleftrightarrow> contentStore s n = Some (ObjVSC c)"
  "getContentFromStore n s = Inr None \<longleftrightarrow> contentStore s n = None"
  by (auto simp: getContentFromStore_def split: option.splits obj.splits)

lemma getSnapshotFromStore_Inr:
  "getSnapshotFromStore n s = Inr (Some v) \<longleftrightarrow> snapshotStore s n = Some (ObjVS v)"
  "getSnapshotFromStore n s = Inr None \<longleftrightarrow> snapshotStore s n = None"
  by (auto simp: getSnapshotFromStore_def split: option.splits obj.splits)

lemma preprovisioned_result:
  assumes "getPreprovisionedContentFromStore E v s = Some (Inr oc, s')"
  shows "s' = s \<and> (\<exists>n. vs_ContentName v = Some n \<and> n \<noteq> [] \<and>
    (case oc of None \<Rightarrow> contentStore s n = None
     | Some c \<Rightarrow> contentStore s n = Some (ObjVSC c) \<and> vsc_SnapshotHandle c \<noteq> None \<and>
         ref_Name (vsc_Ref c) = vs_Name v \<and> ref_Namespace (vsc_Ref c) = vs_Namespace v \<and>
         ref_UID (vsc_Ref c) \<in> {[], vs_UID v}))"
proof -
  obtain n where n: "vs_ContentName v = Some n" using assms
    by (auto simp: getPreprovisionedContentFromStore_def split: Option.bind_splits)
  have ne: "n \<noteq> []" using assms n by (auto simp: getPreprovisionedContentFromStore_def)
  obtain oc' where g: "getContentFromStore n s = Inr oc'"
    using assms n ne by (cases "getContentFromStore n s") (simp_all add: getPreprovisionedContentFromStore_def)
  show ?thesis
  proof (cases oc')
    case None
    then have "oc = None \<and> s' = s"
      using assms n ne g by (simp add: getPreprovisionedContentFromStore_def)
    then show ?thesis using g n ne None getContentFromStore_Inr(2)[of n s] by simp
  next
    case (Some c)
    have "s' = s \<and> oc = Some c \<and> vsc_SnapshotHandle c \<noteq> None \<and>
         ref_Name (vsc_Ref c) = vs_Name v \<and> ref_Namespace (vsc_Ref c) = vs_Namespace v \<and>
         ref_UID (vsc_Ref c) \<in> {[], vs_UID v}"
      using assms n ne g Some
      by (auto simp: getPreprovisionedContentFromStore_def Let_def
          split: if_splits Option.bind_splits prod.splits)
    then show ?thesis using g n ne Some getContentFromStore_Inr(1)[of n s c] by simp
  qed
qed

lemma dynamic_result:
  assumes "getDynamicallyProvisionedContentFromStore E v s = Some (Inr oc, s')"
  shows "s' = s \<and> (case oc of
      None \<Rightarrow> contentStore s (GetDynamicSnapshotContentNameForSnapshot v) = None
    | Some c \<Rightarrow> contentStore s (GetDynamicSnapshotContentNameForSnapshot v) = Some (ObjVSC c) \<and>
        vsc_VolumeHandle c \<noteq> None \<and> IsVolumeSnapshotRefSet v c)"
proof -
  let ?n = "GetDynamicSnapshotContentNameForSnapshot v"
  obtain oc' where g: "getContentFromStore ?n s = Inr oc'"
    using assms by (cases "getContentFromStore ?n s") (simp_all add: getDynamicallyProvisionedContentFromStore_def Let_def)
  show ?thesis
  proof (cases oc')
    case None
    then have "oc = None \<and> s' = s"
      using assms g by (simp add: getDynamicallyProvisionedContentFromStore_def Let_def)
    then show ?thesis using g None getContentFromStore_Inr(2)[of ?n s] by simp
  next
    case (Some c)
    have "s' = s \<and> oc = Some c \<and> vsc_VolumeHandle c \<noteq> None \<and> IsVolumeSnapshotRefSet v c"
      using assms g Some
      by (auto simp: getDynamicallyProvisionedContentFromStore_def Let_def IsVolumeSnapshotRefSet_def
          split: if_splits Option.bind_splits prod.splits)
    then show ?thesis using g Some getContentFromStore_Inr(1)[of ?n s c] by simp
  qed
qed

text \<open>A content is only ever found for the snapshot it belongs to: a pre-provisioned lookup returns
  a content with a snapshot handle whose reference names the snapshot and whose UID is empty or the
  snapshot's, a dynamic lookup one with a volume handle that points back to the snapshot with its UID;
  both come from the cache under the expected name and change nothing.\<close>

theorem found_content_points_back:
  "(getPreprovisionedContentFromStore E v s = Some (Inr (Some c), s') \<longrightarrow>
     s' = s \<and> vsc_SnapshotHandle c \<noteq> None \<and>
     ref_Name (vsc_Ref c) = vs_Name v \<and> ref_Namespace (vsc_Ref c) = vs_Namespace v \<and>
     ref_UID (vsc_Ref c) \<in> {[], vs_UID v} \<and>
     (\<exists>n. vs_ContentName v = Some n \<and> contentStore s n = Some (ObjVSC c))) \<and>
   (getDynamicallyProvisionedContentFromStore E v s = Some (Inr (Some c), s') \<longrightarrow>
     s' = s \<and> vsc_VolumeHandle c \<noteq> None \<and> IsVolumeSnapshotRefSet v c \<and>
     contentStore s (''snapcontent-'' @ vs_UID v) = Some (ObjVSC c))"
  using preprovisioned_result[of E v s "Some c" s'] dynamic_result[of E v s "Some c" s']
  by (auto simp: GetDynamicSnapshotContentNameForSnapshot_def)

text \<open>The content that \<open>createSnapshotContent\<close> builds.\<close>

lemma newSnapshotContent_bound:
  "IsVolumeSnapshotRefSet v (newSnapshotContent E v class vol h
     (GetDynamicSnapshotContentNameForSnapshot v) sec node)"
  "vsc_Name (newSnapshotContent E v class vol h n sec node) = n"
  "vsc_VolumeHandle (newSnapshotContent E v class vol h n sec node) = Some h"
  "vsc_SnapshotHandle (newSnapshotContent E v class vol h n sec node) = None"
  "vsc_Policy (newSnapshotContent E v class vol h n sec node) = vsclass_DeletionPolicy class"
  "vsc_Status (newSnapshotContent E v class vol h n sec node) = None"
  "ResourceVersion (vsc_meta (newSnapshotContent E v class vol h n sec node)) = []"
  "Namespace (vsc_meta (newSnapshotContent E v class vol h n sec node)) = []"
  by (simp_all add: newSnapshotContent_def Let_def IsVolumeSnapshotRefSet_def GetReference_def
      emptyMeta_def SetMetaDataAnnotation_def split: option.split)

definition dynamicContentFor :: "VolumeSnapshot \<Rightarrow> VolumeSnapshotContent \<Rightarrow> bool" where
  "dynamicContentFor v c =
    (vsc_Name c = GetDynamicSnapshotContentNameForSnapshot v \<and> IsVolumeSnapshotRefSet v c \<and>
     vsc_VolumeHandle c \<noteq> None \<and> vsc_SnapshotHandle c = None \<and> vsc_Status c = None)"

lemma getCreateSnapshotInput_name:
  "ensures (getCreateSnapshotInput E v s) (\<lambda>r s'. log s' = log s \<and>
     (\<forall>class vol n sec. r = Inr (class, vol, n, sec) \<longrightarrow> n = GetDynamicSnapshotContentNameForSnapshot v))"
proof -
  have "ensures (getCreateSnapshotInput E v s) (\<lambda>_ s'. onlyNew (\<lambda>_. False) (log s) s')"
    by (rule only.getCreateSnapshotInput_I) (simp_all add: onlyNew_refl)
  moreover have "ensures (getCreateSnapshotInput E v s)
      (\<lambda>r s'. \<forall>class vol n sec. r = Inr (class, vol, n, sec) \<longrightarrow> n = GetDynamicSnapshotContentNameForSnapshot v)"
    by (auto simp: getCreateSnapshotInput_def Let_def ensures_def split: option.split sum.split Option.bind_split)
  ultimately show ?thesis
    by (auto simp: ensures_def onlyNew_def list_all_iff split: option.splits)
qed

definition protects :: "action \<Rightarrow> bool" where
  "protects a = (case a of UpdatePVC p \<Rightarrow> PVCFinalizer \<in> set (Finalizers (pvc_meta p)) | _ \<Rightarrow> False)"

lemma ensurePVCFinalizer_log:
  "ensures (ensurePVCFinalizer E v s) (\<lambda>r s'. \<exists>pre. log s' = log s @ pre \<and> length pre \<le> 1 \<and>
     list_all protects pre \<and>
     (r = None \<and> pre = [] \<longrightarrow> vs_PVCName v = None \<or>
        (\<exists>n pvc w. vs_PVCName v = Some n \<and> lister_GetPVC E (vs_Namespace v) n (world s) = (Inr pvc, w) \<and>
           PVCFinalizer \<in> set (Finalizers (pvc_meta pvc)))))"
proof (cases "vs_PVCName v")
  case (Some n)
  obtain lr w where l: "lister_GetPVC E (vs_Namespace v) n (world s) = (lr, w)" by fastforce
  show ?thesis
    using Some l
    by (auto simp: ensurePVCFinalizer_def getClaimFromVolumeSnapshot_def Let_def ensures_call ensures_act
        protects_def Contains_def split: sum.split)
qed (simp add: ensurePVCFinalizer_def)

lemma saveSnapshotContent_log:
  "ensures (saveSnapshotContent E v c s) (\<lambda>_ s'. \<exists>e. log s' = log s @ [CreateVSC c, e] \<and> isEvent e)"
  by (auto simp: saveSnapshotContent_def Let_def ensures_act emit_def storeContentUpdate_def isEvent_def
      split: sum.split prod.split)

lemma createContentFromInput_log:
  "ensures (createContentFromInput E v s) (\<lambda>_ s'. log s' = log s \<or>
     (\<exists>c e. log s' = log s @ [CreateVSC c, e] \<and> isEvent e \<and> dynamicContentFor v c))"
  unfolding createContentFromInput_def ensures_bind
proof (rule ensures_mono[OF getCreateSnapshotInput_name], goal_cases)
  case (1 r s1)
  have getNode: "ensures (getManagedByNode E volume s1) (\<lambda>_ s3. log s3 = log s1)" for volume
    by (auto simp: getManagedByNode_def ensures_call split: option.split sum.split)
  have save: "ensures (saveSnapshotContent E v (newSnapshotContent E v cl volume h
      (GetDynamicSnapshotContentNameForSnapshot v) sec n) s3)
      (\<lambda>_ s'. log s' = log s \<or> (\<exists>c e. log s' = log s @ [CreateVSC c, e] \<and> isEvent e \<and> dynamicContentFor v c))"
    if "log s3 = log s1" for cl volume h sec n s3
    by (rule ensures_mono[OF saveSnapshotContent_log])
      (use that 1 in \<open>auto simp: dynamicContentFor_def newSnapshotContent_bound\<close>)
  show ?case
    using 1 by (auto intro!: save ensures_mono[OF getNode] split: sum.split option.split)
qed

text \<open>A claim with the source finalizer at the end of its finalizers, and no other change.\<close>

abbreviation protectedClaim :: "PersistentVolumeClaim \<Rightarrow> PersistentVolumeClaim" where
  "protectedClaim pvc \<equiv> pvc\<lparr>pvc_meta := (pvc_meta pvc)\<lparr>Finalizers := Finalizers (pvc_meta pvc) @ [PVCFinalizer]\<rparr>\<rparr>"

lemma ensurePVCFinalizer_effect:
  assumes "ensurePVCFinalizer E v s = Some (err, s')"
  shows "(log s' = log s \<or> (\<exists>n pvc w. vs_PVCName v = Some n \<and>
       lister_GetPVC E (vs_Namespace v) n (world s) = (Inr pvc, w) \<and>
       PVCFinalizer \<notin> set (Finalizers (pvc_meta pvc)) \<and> DeletionTimestamp (pvc_meta pvc) = None \<and>
       log s' = log s @ [UpdatePVC (protectedClaim pvc)])) \<and>
    (err = None \<and> vs_PVCName v = Some n \<longrightarrow>
       (\<exists>pvc w. lister_GetPVC E (vs_Namespace v) n (world s) = (Inr pvc, w) \<and>
         (log s' = log s \<and> PVCFinalizer \<in> set (Finalizers (pvc_meta pvc)) \<or>
          (\<exists>upd w'. log s' = log s @ [UpdatePVC (protectedClaim pvc)] \<and>
            api_UpdatePVC E (protectedClaim pvc) w = (Inr upd, w')))))"
proof (cases "vs_PVCName v")
  case (Some m)
  obtain lr w where l: "lister_GetPVC E (vs_Namespace v) m (world s) = (lr, w)" by fastforce
  show ?thesis using assms Some l
    by (auto simp: ensurePVCFinalizer_def getClaimFromVolumeSnapshot_def Let_def call_def act_def Contains_def
        split: sum.splits if_splits prod.splits)
qed (use assms in \<open>simp add: ensurePVCFinalizer_def\<close>)

lemma getCreateSnapshotInput_needs_claim:
  "vs_PVCName v = None \<Longrightarrow> getCreateSnapshotInput E v s = Some (Inr x, s') \<Longrightarrow> False"
  by (auto simp: getCreateSnapshotInput_def getVolumeFromVolumeSnapshot_def getClaimFromVolumeSnapshot_def
      split: option.splits sum.splits Option.bind_splits)

lemma createContentFromInput_needs_claim:
  assumes "createContentFromInput E v s = Some (r, s')" "log s' \<noteq> log s"
  shows "\<exists>n. vs_PVCName v = Some n"
proof (rule ccontr)
  assume none: "\<not> ?thesis"
  obtain i s1 where i: "getCreateSnapshotInput E v s = Some (i, s1)"
    using assms(1) by (auto simp: createContentFromInput_def split: Option.bind_splits)
  with none obtain e where "i = Inl e" by (cases i) (auto dest: getCreateSnapshotInput_needs_claim)
  moreover have "log s1 = log s" using ensuresD[OF getCreateSnapshotInput_name i] by simp
  ultimately show False using assms i by (auto simp: createContentFromInput_def)
qed

text \<open>C19: A content is created for a snapshot only once its source claim is protected, and the content
  created is the snapshot's own. Before the creation at most one object is written, the claim that the lister has in
  the namespace of the snapshot under the name in its source, unchanged but for the source finalizer at the end of its
  finalizers. When a content is sent to the API server, either that claim carried the finalizer already and nothing
  was written, or the claim was written with it and the server accepted the update. The one content sent is named
  after the UID of the snapshot, points back to its name, namespace and UID, and is a dynamic one without a status; only
  an event follows.\<close>

theorem created_content_is_protected_and_bound:
  assumes "createSnapshotContent E v s = Some (r, s')"
  shows "\<exists>pre post. log s' = log s @ pre @ post \<and>
    (pre = [] \<or> (\<exists>n pvc w. vs_PVCName v = Some n \<and>
       lister_GetPVC E (vs_Namespace v) n (world s) = (Inr pvc, w) \<and>
       PVCFinalizer \<notin> set (Finalizers (pvc_meta pvc)) \<and> DeletionTimestamp (pvc_meta pvc) = None \<and>
       pre = [UpdatePVC (protectedClaim pvc)])) \<and>
    (post = [] \<or> (\<exists>c e n pvc w. post = [CreateVSC c, e] \<and> isEvent e \<and>
       vsc_Name c = ''snapcontent-'' @ vs_UID v \<and> ref_Name (vsc_Ref c) = vs_Name v \<and>
       ref_Namespace (vsc_Ref c) = vs_Namespace v \<and> ref_UID (vsc_Ref c) = vs_UID v \<and>
       vsc_VolumeHandle c \<noteq> None \<and> vsc_SnapshotHandle c = None \<and> vsc_Status c = None \<and>
       vs_PVCName v = Some n \<and> lister_GetPVC E (vs_Namespace v) n (world s) = (Inr pvc, w) \<and>
       (pre = [] \<and> PVCFinalizer \<in> set (Finalizers (pvc_meta pvc)) \<or>
        (\<exists>p upd w'. pre = [UpdatePVC p] \<and> PVCFinalizer \<in> set (Finalizers (pvc_meta p)) \<and>
           api_UpdatePVC E p w = (Inr upd, w')))))"
proof -
  obtain err s1 where en: "ensurePVCFinalizer E v s = Some (err, s1)"
    using assms by (auto simp: createSnapshotContent_def split: Option.bind_splits)
  note p = ensurePVCFinalizer_effect[OF en]
  show ?thesis
  proof (cases "err = None \<and> log s' \<noteq> log s1")
    case False
    have "log s' = log s1" using False assms en by (cases err) (auto simp: createSnapshotContent_def)
    then show ?thesis using p[THEN conjunct1]
      by (elim disjE exE conjE) (rule exI[of _ "[]"], simp, intro exI[of _ "[_]"] exI[of _ "[]"], fastforce)
  next
    case True
    then have c: "createContentFromInput E v s1 = Some (r, s')"
      using assms en by (simp add: createSnapshotContent_def)
    from createContentFromInput_needs_claim[OF c] True obtain n where n: "vs_PVCName v = Some n" by blast
    from ensuresD[OF createContentFromInput_log c] True
    obtain k e where k: "log s' = log s1 @ [CreateVSC k, e]" "isEvent e" "dynamicContentFor v k" by auto
    have k': "isEvent e \<and> vsc_Name k = ''snapcontent-'' @ vs_UID v \<and> ref_Name (vsc_Ref k) = vs_Name v \<and>
       ref_Namespace (vsc_Ref k) = vs_Namespace v \<and> ref_UID (vsc_Ref k) = vs_UID v \<and>
       vsc_VolumeHandle k \<noteq> None \<and> vsc_SnapshotHandle k = None \<and> vsc_Status k = None"
      using k(2,3) by (simp add: dynamicContentFor_def IsVolumeSnapshotRefSet_def GetDynamicSnapshotContentNameForSnapshot_def)
    from p[of n] True n obtain pvc w where l: "lister_GetPVC E (vs_Namespace v) n (world s) = (Inr pvc, w)"
      and f: "log s1 = log s \<and> PVCFinalizer \<in> set (Finalizers (pvc_meta pvc)) \<or>
        (\<exists>upd w'. log s1 = log s @ [UpdatePVC (protectedClaim pvc)] \<and>
          api_UpdatePVC E (protectedClaim pvc) w = (Inr upd, w'))" by blast
    from f show ?thesis
    proof (elim disjE exE conjE)
      assume "log s1 = log s" "PVCFinalizer \<in> set (Finalizers (pvc_meta pvc))"
      then show ?thesis using k(1) k' n l by (intro exI[of _ "[]"] exI[of _ "[CreateVSC k, e]"]) auto
    next
      fix upd w' assume u: "log s1 = log s @ [UpdatePVC (protectedClaim pvc)]"
        "api_UpdatePVC E (protectedClaim pvc) w = (Inr upd, w')"
      have w: "PVCFinalizer \<notin> set (Finalizers (pvc_meta pvc)) \<and> DeletionTimestamp (pvc_meta pvc) = None"
        using p[of n, THEN conjunct1] u(1) n l by auto
      have "PVCFinalizer \<in> set (Finalizers (pvc_meta (protectedClaim pvc)))" by simp
      with u(2) have x: "\<exists>p upd w'. UpdatePVC (protectedClaim pvc) = UpdatePVC p \<and>
          PVCFinalizer \<in> set (Finalizers (pvc_meta p)) \<and> api_UpdatePVC E p w = (Inr upd, w')" by blast
      have g: "log s' = log s @ [UpdatePVC (protectedClaim pvc)] @ [CreateVSC k, e]" using k(1) u(1) by simp
      show ?thesis
        by (rule exI[of _ "[UpdatePVC (protectedClaim pvc)]"], rule exI[of _ "[CreateVSC k, e]"], rule conjI[OF g],
            rule conjI, rule disjI2, use w n l in blast, rule disjI2, rule exI[of _ k], rule exI[of _ e],
            rule exI[of _ n], rule exI[of _ pvc], rule exI[of _ w], use k' n l x in simp)
    qed
  qed
qed

definition demoContentState :: "unit st" where
  "demoContentState = (initialState ())\<lparr>contentStore := [''snapcontent-uid1'' \<mapsto> ObjVSC demoContent]\<rparr>"

lemma demo_dynamic_found:
  "getDynamicallyProvisionedContentFromStore nullEnv demoSnapshot demoContentState =
     Some (Inr (Some demoContent), demoContentState)"
  by (simp add: getDynamicallyProvisionedContentFromStore_def getContentFromStore_def demoContentState_def
      GetDynamicSnapshotContentNameForSnapshot_def demoSnapshot_def demoContent_def emptyVolumeSnapshot_def
      emptyMeta_def emptyRef_def emptyVolumeSnapshotContent_def Let_def)

theorem found_content_points_back_witness:
  "IsVolumeSnapshotRefSet demoSnapshot demoContent \<and> vsc_VolumeHandle demoContent \<noteq> None"
  using found_content_points_back[of nullEnv demoSnapshot demoContentState demoContent demoContentState]
    demo_dynamic_found by blast

definition demoPV :: PersistentVolume where
  "demoPV = \<lparr>pv_meta = emptyMeta\<lparr>Name := ''pv1''\<rparr>,
     pv_CSI = Some \<lparr>csi_Driver = ''drv'', csi_VolumeHandle = ''vol1''\<rparr>,
     pv_ClaimRef = Some (emptyRef\<lparr>ref_Name := ''claim1'', ref_Namespace := ''ns1''\<rparr>),
     pv_VolumeMode = None, pv_NodeAffinity = None\<rparr>"

definition demoClass :: VolumeSnapshotClass where
  "demoClass = \<lparr>vsclass_meta = emptyMeta\<lparr>Name := ''class1''\<rparr>, vsclass_Driver = ''drv'',
     vsclass_Parameters = fmempty, vsclass_DeletionPolicy = VolumeSnapshotContentDelete\<rparr>"

definition demoCreateEnv :: "unit env" where
  "demoCreateEnv = nullEnv\<lparr>lister_GetPVC := \<lambda>_ _ w. (Inr demoPVC, w),
     api_GetPV := \<lambda>_ w. (Inr demoPV, w), lister_GetClass := \<lambda>_ w. (Inr demoClass, w)\<rparr>"

definition demoDynamic :: VolumeSnapshot where
  "demoDynamic = demoSnapshot\<lparr>vs_Spec := \<lparr>vss_Source = \<lparr>PersistentVolumeClaimName = Some ''claim1'',
     VolumeSnapshotContentName = None\<rparr>, vss_VolumeSnapshotClassName = Some ''class1''\<rparr>\<rparr>"

lemma demo_create_run:
  "\<exists>c s'. createSnapshotContent demoCreateEnv demoDynamic (initialState ()) = Some (Inr c, s') \<and>
     length (log s') = 2"
  by (simp add: createSnapshotContent_def createContentFromInput_def ensurePVCFinalizer_def
      getClaimFromVolumeSnapshot_def getCreateSnapshotInput_def getSnapshotClass_def
      getVolumeFromVolumeSnapshot_def isVolumeBoundToClaim_def saveSnapshotContent_def
      GetSecretReference_def verifyAndGetSecretNameAndNamespaceTemplate_def mapGet_def
      demoCreateEnv_def nullEnv_def demoDynamic_def demoSnapshot_def demoPVC_def demoPV_def demoClass_def
      emptyVolumeSnapshot_def emptyMeta_def emptyRef_def Contains_def call_def act_def emit_def Let_def
      storeContentUpdate_def StoreObjectUpdate_def initialState_def)

theorem created_content_is_protected_and_bound_witness:
  "\<exists>c e s'. createSnapshotContent demoCreateEnv demoDynamic (initialState ()) = Some (Inr c, s') \<and>
     log s' = [CreateVSC e, last (log s')] \<and> vsc_Name e = ''snapcontent-'' @ vs_UID demoDynamic"
proof -
  obtain c s' where run: "createSnapshotContent demoCreateEnv demoDynamic (initialState ()) = Some (Inr c, s')"
    and len: "length (log s') = 2" using demo_create_run by blast
  have l0: "log (initialState ()) = []" by (simp add: initialState_def)
  from created_content_is_protected_and_bound[OF run] obtain pre post where
    p: "log s' = pre @ post" "pre = [] \<or> (\<exists>x. pre = [x])"
      "post = [] \<or> (\<exists>c e. post = [CreateVSC c, e] \<and> vsc_Name c = ''snapcontent-'' @ vs_UID demoDynamic)"
    unfolding l0 append_Nil by blast
  then have "pre = []" using len by auto
  then show ?thesis using p len run by auto
qed

section \<open>A content that already exists\<close>

lemma unreadable_version_stays:
  assumes "store k = Some old" "objVersion old = None" "k = keyFunc (objMeta old)"
  shows "fold (\<lambda>x s. snd (StoreObjectUpdate s x cn)) xs store k = Some old"
  using assms
proof (induction xs arbitrary: store)
  case (Cons x xs)
  obtain r st where u: "StoreObjectUpdate store x cn = (r, st)" by fastforce
  have "st k = Some old"
    using StoreObjectUpdate_cases[OF u] Cons.prems by (auto split: if_splits)
  then show ?case using Cons u by simp
qed simp

lemma ParseInt64_empty [simp]: "ParseInt64 [] = Inl (parseIntErr [] ''invalid syntax'')"
  by (simp add: ParseInt64_def)

text \<open>When creating a content fails because it already exists, the object the controller built in
  memory is put in the content cache if the cache has none under that name. That object has no resource
  version, so no later version is ever accepted in its place: whatever objects the informer or the API
  server deliver, the cache keeps the one without a status.\<close>

theorem already_existing_content_is_never_refreshed:
  assumes "api_CreateVSC E c (world s) = (Inl err, w)" and "IsAlreadyExists err"
    and "contentStore s (keyFunc (vsc_meta c)) = None"
    and "c = newSnapshotContent E v class vol h n sec nodeName"
    and "saveSnapshotContent E v c s = Some (r, s')"
  shows "r = Inr c \<and> vsc_Status c = None \<and>
    fold (\<lambda>x s. snd (StoreObjectUpdate s x ''content'')) xs (contentStore s') (keyFunc (vsc_meta c)) =
      Some (ObjVSC c)"
proof -
  have r: "r = Inr c" and st: "contentStore s' = (contentStore s)(keyFunc (vsc_meta c) \<mapsto> ObjVSC c)"
    using assms(1,2,3,5)
    by (auto simp: saveSnapshotContent_def act_def call_def Let_def emit_def storeContentUpdate_def
        StoreObjectUpdate_def)
  have "objVersion (ObjVSC c) = None"
    using assms(4) by (simp add: objVersion_def newSnapshotContent_bound(7))
  then have "fold (\<lambda>x s. snd (StoreObjectUpdate s x ''content'')) xs (contentStore s')
      (keyFunc (vsc_meta c)) = Some (ObjVSC c)"
    by (intro unreadable_version_stays) (simp_all add: st)
  then show ?thesis using r assms(4) by (simp add: newSnapshotContent_bound(6))
qed

definition demoConflictEnv :: "unit env" where
  "demoConflictEnv = nullEnv\<lparr>api_CreateVSC := \<lambda>_ w. (Inl (APIStatus StatusAlreadyExists ''exists''), w)\<rparr>"

definition demoNewContent :: VolumeSnapshotContent where
  "demoNewContent = newSnapshotContent demoConflictEnv demoSnapshot demoClass demoPV ''vol1''
     ''snapcontent-uid1'' None []"

theorem already_existing_content_is_never_refreshed_witness:
  "\<exists>s'. saveSnapshotContent demoConflictEnv demoSnapshot demoNewContent (initialState ()) =
      Some (Inr demoNewContent, s') \<and>
    snd (StoreObjectUpdate (contentStore s') (ObjVSC demoContent) ''content'') (keyFunc (vsc_meta demoNewContent)) =
      Some (ObjVSC demoNewContent)"
proof -
  have c: "api_CreateVSC demoConflictEnv demoNewContent (world (initialState ())) =
      (Inl (APIStatus StatusAlreadyExists ''exists''), ())"
    by (simp add: demoConflictEnv_def initialState_def)
  have "\<exists>r s'. saveSnapshotContent demoConflictEnv demoSnapshot demoNewContent (initialState ()) = Some (r, s')"
    by (simp add: saveSnapshotContent_def act_def call_def demoConflictEnv_def Let_def storeContentUpdate_def
        split: prod.split)
  then obtain r s' where run: "saveSnapshotContent demoConflictEnv demoSnapshot demoNewContent
      (initialState ()) = Some (r, s')" by blast
  have "IsAlreadyExists (APIStatus StatusAlreadyExists ''exists'')"
    "contentStore (initialState ()) (keyFunc (vsc_meta demoNewContent)) = None"
    by (simp_all add: initialState_def)
  from already_existing_content_is_never_refreshed[OF c this demoNewContent_def run, of "[ObjVSC demoContent]"]
  show ?thesis using run by auto
qed

section \<open>Binding, default classes and the annotation\<close>

text \<open>The function that binds compares the name and the UID of the reference, not its namespace: that is left to its
  caller.\<close>

lemma checkandBind_log:
  assumes "checkandBindSnapshotContent E v c s = Some (r, s')"
  shows "log s' = log s \<or>
    log s' = log s @ [PatchVSC (vsc_Name c)
      (patchOp ''replace'' ''/spec/volumeSnapshotRef/uid'' (PVString (vs_UID v)) #
       (case vs_ClassName v of None \<Rightarrow> []
        | Some n \<Rightarrow> [patchOp ''replace'' ''/spec/volumeSnapshotClassName'' (PVString n)])) []] \<and>
    ref_Name (vsc_Ref c) = vs_Name v \<and> ref_UID (vsc_Ref c) \<in> {[], vs_UID v} \<and>
    (ref_UID (vsc_Ref c) = [] \<or> spec_VolumeSnapshotClassName (vsc_Spec c) = None)"
  using assms
  by (auto simp: checkandBindSnapshotContent_def Let_def PatchVolumeSnapshotContent_def act_def call_def
      storeContentUpdate_def split: if_splits option.splits sum.splits prod.splits)

text \<open>A default class is applied to a snapshot only when exactly one default class of the driver of
  its source volume exists: then one patch of that snapshot is issued, naming that class. Every failure
  to find it leaves the snapshot and the API server untouched. A patch that fails is not reported: the
  error returned is nil and the snapshot still has no class.\<close>

theorem default_class_applied_once:
  assumes "SetDefaultSnapshotClass E v s = Some ((cl, v', err), s')"
  shows "(err \<noteq> None \<longrightarrow> v' = v \<and> cl = None \<and> log s' = log s) \<and>
    (log s' \<noteq> log s \<longrightarrow> (\<exists>classes driver class s1.
       fst (lister_ListClass E (world s)) = Inr classes \<and>
       pvDriverFromSnapshot E v (s\<lparr>world := snd (lister_ListClass E (world s))\<rparr>) =
         Some (Inr driver, s1) \<and>
       filter (isDefaultClassFor driver) classes = [class] \<and>
       log s' = log s @ [PatchVS (vs_Namespace v) (vs_Name v)
         [patchOp ''replace'' ''/spec/volumeSnapshotClassName'' (PVString (Name (vsclass_meta class)))] []] \<and>
       cl = Some class \<and> err = None \<and>
       (isl (fst (api_PatchVS E (vs_Namespace v) (vs_Name v)
          [patchOp ''replace'' ''/spec/volumeSnapshotClassName'' (PVString (Name (vsclass_meta class)))] []
          (world s1))) \<longrightarrow> v' = v)))"
proof (cases "vs_ContentName v \<noteq> None \<or> IsVolumeGroupSnapshotMember v")
  case True
  then show ?thesis using assms by (auto simp: SetDefaultSnapshotClass_def split: if_splits)
next
  case False
  obtain lr w1 where l: "lister_ListClass E (world s) = (lr, w1)" by fastforce
  show ?thesis
  proof (cases lr)
    case (Inl e)
    then show ?thesis using assms False l by (auto simp: SetDefaultSnapshotClass_def call_def)
  next
    case classes: (Inr classes)
    obtain dr s1 where d: "pvDriverFromSnapshot E v (s\<lparr>world := w1\<rparr>) = Some (dr, s1)"
      using assms False l classes by (auto simp: SetDefaultSnapshotClass_def call_def split: Option.bind_splits)
    have "ensures (pvDriverFromSnapshot E v (s\<lparr>world := w1\<rparr>)) (\<lambda>_ s1. onlyNew (\<lambda>_. False) (log s) s1)"
      by (rule only.pvDriverFromSnapshot_I) (simp_all add: onlyNew_def)
    then have l1: "log s1 = log s" using d by (auto dest!: ensuresD simp: onlyNew_def list_all_iff)
    show ?thesis
    proof (cases dr)
      case (Inl e)
      then show ?thesis using assms False l classes d l1 by (auto simp: SetDefaultSnapshotClass_def call_def)
    next
      case driver: (Inr driver)
      consider (one) c1 where "filter (isDefaultClassFor driver) classes = [c1]"
        | (none) "filter (isDefaultClassFor driver) classes = []"
        | (many) a b cs where "filter (isDefaultClassFor driver) classes = a # b # cs"
        by (metis list.exhaust)
      then show ?thesis
      proof cases
        case one
        show ?thesis using assms False l classes d driver one l1
          by (auto simp: SetDefaultSnapshotClass_def call_def PatchVolumeSnapshot_def act_def
              storeSnapshotUpdate_def split: sum.splits prod.splits)
      qed (use assms False l classes d driver l1 in \<open>auto simp: SetDefaultSnapshotClass_def call_def\<close>)
    qed
  qed
qed

definition demoDefaultClass :: VolumeSnapshotClass where
  "demoDefaultClass = demoClass\<lparr>vsclass_meta := (vsclass_meta demoClass)\<lparr>Annotations :=
     fmupd IsDefaultSnapshotClassAnnotation ''true'' fmempty\<rparr>\<rparr>"

definition demoDefaultEnv :: "unit env" where
  "demoDefaultEnv = demoCreateEnv\<lparr>lister_ListClass := \<lambda>w. (Inr [demoDefaultClass], w)\<rparr>"

lemma demo_default_run:
  "\<exists>s'. SetDefaultSnapshotClass demoDefaultEnv demoDynamic (initialState ()) =
     Some ((Some demoDefaultClass, demoDynamic, None), s') \<and> log s' \<noteq> []"
  by (simp add: SetDefaultSnapshotClass_def IsVolumeGroupSnapshotMember_def pvDriverFromSnapshot_def
      getVolumeGroupSnapshotParentObjectName_def getVolumeFromVolumeSnapshot_def getClaimFromVolumeSnapshot_def
      isVolumeBoundToClaim_def isDefaultClassFor_def IsVolumeSnapshotClassDefaultAnnotation_def mapGet_def
      PatchVolumeSnapshot_def demoDefaultEnv_def demoDefaultClass_def demoCreateEnv_def nullEnv_def
      demoDynamic_def demoSnapshot_def demoPVC_def demoPV_def demoClass_def emptyVolumeSnapshot_def
      emptyMeta_def emptyRef_def call_def act_def storeSnapshotUpdate_def StoreObjectUpdate_def
      initialState_def Let_def)

theorem default_class_applied_once_witness:
  "\<exists>ops s'. SetDefaultSnapshotClass demoDefaultEnv demoDynamic (initialState ()) =
     Some ((Some demoDefaultClass, demoDynamic, None), s') \<and>
     log s' = [PatchVS (vs_Namespace demoDynamic) (vs_Name demoDynamic) ops []]"
proof -
  obtain s' where run: "SetDefaultSnapshotClass demoDefaultEnv demoDynamic (initialState ()) =
     Some ((Some demoDefaultClass, demoDynamic, None), s')" and l: "log s' \<noteq> []"
    using demo_default_run by blast
  have l0: "log (initialState ()) = []" by (simp add: initialState_def)
  have "log s' \<noteq> log (initialState ())" using l l0 by simp
  from default_class_applied_once[OF run, THEN conjunct2, THEN mp, OF this]
  have "\<exists>cl :: VolumeSnapshotClass. log s' = log (initialState ()) @ [PatchVS (vs_Namespace demoDynamic) (vs_Name demoDynamic)
      [patchOp ''replace'' ''/spec/volumeSnapshotClassName'' (PVString (Name (vsclass_meta cl)))] []]"
    by (elim exE conjE) (rule exI, assumption)
  then show ?thesis using run unfolding l0 append_Nil by blast
qed

text \<open>The being-deleted annotation is set with at most one patch, of the annotations of the content
  plus that one, and only when the content does not carry it. But the annotation is written to the
  cached object before the patch: when the patch fails, an error is returned and the cached content
  carries the annotation all the same, so a retry on it reports success without any patch.\<close>

theorem failed_annotation_patch_is_not_retried:
  assumes "setAnnVolumeSnapshotBeingDeleted E c s = Some ((c1, err), s')"
  shows "(HasAnnotation (vsc_meta c) AnnVolumeSnapshotBeingDeleted \<longrightarrow> log s' = log s \<and> c1 = c \<and> err = None) \<and>
    (\<not> HasAnnotation (vsc_meta c) AnnVolumeSnapshotBeingDeleted \<longrightarrow>
      log s' = log s @ [PatchVSC (vsc_Name c) [patchOp ''replace'' ''/metadata/annotations''
        (PVMap (fmupd AnnVolumeSnapshotBeingDeleted ''yes'' (Annotations (vsc_meta c))))] []]) \<and>
    (contentStore s (keyFunc (vsc_meta c)) = Some (ObjVSC c) \<and>
     \<not> HasAnnotation (vsc_meta c) AnnVolumeSnapshotBeingDeleted \<and>
     (\<forall>w. isl (fst (api_PatchVSC E (vsc_Name c) [patchOp ''replace'' ''/metadata/annotations''
        (PVMap (fmupd AnnVolumeSnapshotBeingDeleted ''yes'' (Annotations (vsc_meta c))))] [] w))) \<longrightarrow>
     err \<noteq> None \<and> (\<exists>cached. contentStore s' (keyFunc (vsc_meta c)) = Some (ObjVSC cached) \<and>
       (\<forall>s2. setAnnVolumeSnapshotBeingDeleted E cached s2 = Some ((cached, None), s2))))"
proof (cases "HasAnnotation (vsc_meta c) AnnVolumeSnapshotBeingDeleted")
  case True
  then show ?thesis using assms by (simp add: setAnnVolumeSnapshotBeingDeleted_def)
next
  case False
  define new where "new = c\<lparr>vsc_meta := SetMetaDataAnnotation (vsc_meta c) AnnVolumeSnapshotBeingDeleted ''yes''\<rparr>"
  let ?ops = "[patchOp ''replace'' ''/metadata/annotations''
      (PVMap (fmupd AnnVolumeSnapshotBeingDeleted ''yes'' (Annotations (vsc_meta c))))]"
  have ann: "Annotations (vsc_meta new) = fmupd AnnVolumeSnapshotBeingDeleted ''yes'' (Annotations (vsc_meta c))"
    "vsc_Name new = vsc_Name c"
    "keyFunc (vsc_meta new) = keyFunc (vsc_meta c)" "HasAnnotation (vsc_meta new) AnnVolumeSnapshotBeingDeleted"
    by (simp_all add: new_def keyFunc_def) (simp_all add: SetMetaDataAnnotation_def)
  let ?s1 = "writeThroughVSC E c new s"
  obtain pr w where p: "api_PatchVSC E (vsc_Name c) ?ops [] (world ?s1) = (pr, w)" by fastforce
  have l: "log ?s1 = log s" by (simp add: writeThroughVSC_def Let_def)
  have run: "setAnnVolumeSnapshotBeingDeleted E c s =
      (case pr of Inl e \<Rightarrow> Some ((new, Some (newControllerUpdateError (vsc_Name c) (err_text e))),
          ?s1\<lparr>log := log s @ [PatchVSC (vsc_Name c) ?ops []], world := w\<rparr>)
       | Inr d \<Rightarrow> (let (r, st) = StoreObjectUpdate (contentStore ?s1) (ObjVSC d) ''content'' in
          Some ((d, case r of Inl e \<Rightarrow> Some e | Inr _ \<Rightarrow> None),
            ?s1\<lparr>log := log s @ [PatchVSC (vsc_Name c) ?ops []], world := w, contentStore := st\<rparr>)))"
    using False p l
    by (auto simp: setAnnVolumeSnapshotBeingDeleted_def new_def[symmetric] Let_def ann PatchVolumeSnapshotContent_def
        act_def call_def storeContentUpdate_def split: sum.split prod.split)
  have noop: "setAnnVolumeSnapshotBeingDeleted E new s2 = Some ((new, None), s2)" for s2
    using ann by (simp add: setAnnVolumeSnapshotBeingDeleted_def)
  have "log s' = log s @ [PatchVSC (vsc_Name c) ?ops []]"
    using assms unfolding run by (auto split: sum.splits prod.splits)
  moreover have "err \<noteq> None \<and> contentStore s' (keyFunc (vsc_meta c)) = Some (ObjVSC new)"
    if "contentStore s (keyFunc (vsc_meta c)) = Some (ObjVSC c)" "isl pr"
    using assms that unfolding run by (cases pr) (auto simp: writeThroughVSC_def Let_def)
  moreover have "isl pr" if "\<forall>w. isl (fst (api_PatchVSC E (vsc_Name c) ?ops [] w))"
    using that p by (metis fst_conv)
  ultimately show ?thesis using False noop by blast
qed

theorem failed_annotation_patch_is_not_retried_witness:
  "\<exists>cached s'. setAnnVolumeSnapshotBeingDeleted nullEnv demoContent demoContentState =
      Some ((cached, Some (newControllerUpdateError (vsc_Name demoContent) ''not found'')), s') \<and>
    (\<forall>s2. setAnnVolumeSnapshotBeingDeleted nullEnv cached s2 = Some ((cached, None), s2))"
proof -
  let ?new = "demoContent\<lparr>vsc_meta := SetMetaDataAnnotation (vsc_meta demoContent) AnnVolumeSnapshotBeingDeleted ''yes''\<rparr>"
  have na: "\<not> HasAnnotation (vsc_meta demoContent) AnnVolumeSnapshotBeingDeleted"
    by (simp add: demoContent_def emptyVolumeSnapshotContent_def emptyMeta_def HasAnnotation_def)
  then have "\<exists>s'. setAnnVolumeSnapshotBeingDeleted nullEnv demoContent demoContentState =
      Some ((?new, Some (newControllerUpdateError (vsc_Name demoContent) ''not found'')), s')"
    by (simp add: setAnnVolumeSnapshotBeingDeleted_def nullEnv_def Let_def PatchVolumeSnapshotContent_def
        act_def call_def notFound_def)
  then obtain s' where run: "setAnnVolumeSnapshotBeingDeleted nullEnv demoContent demoContentState =
      Some ((?new, Some (newControllerUpdateError (vsc_Name demoContent) ''not found'')), s')" by blast
  have "contentStore demoContentState (keyFunc (vsc_meta demoContent)) = Some (ObjVSC demoContent)"
    by (simp add: demoContentState_def demoContent_def keyFunc_def MetaNamespaceKey_def emptyMeta_def
        emptyVolumeSnapshotContent_def)
  moreover have "isl (fst (api_PatchVSC nullEnv n p q w))" for n p q w by (simp add: nullEnv_def)
  ultimately obtain cached where "contentStore s' (keyFunc (vsc_meta demoContent)) = Some (ObjVSC cached)"
      "\<forall>s2. setAnnVolumeSnapshotBeingDeleted nullEnv cached s2 = Some ((cached, None), s2)"
    using failed_annotation_patch_is_not_retried[OF run] na by blast
  moreover have "HasAnnotation (vsc_meta ?new) AnnVolumeSnapshotBeingDeleted" by simp
  then have "\<forall>s2. setAnnVolumeSnapshotBeingDeleted nullEnv ?new s2 = Some ((?new, None), s2)"
    by (simp add: setAnnVolumeSnapshotBeingDeleted_def)
  ultimately show ?thesis using run by blast
qed

end
