(* ===== verification/CommonSync.thy ===== *)
theory CommonSync
  imports CommonContent
begin

text \<open>
  The two reconcilers of the common controller, \<open>syncContent\<close> and \<open>syncSnapshot\<close>, and what they branch to
  (\<open>pkg/common-controller/snapshot_controller.go\<close>): creation and binding of an unready snapshot, the
  checks on a ready one, and deletion.
\<close>

section \<open>Restores\<close>

definition snapshotKind :: string where
  "snapshotKind = ''VolumeSnapshot''"

definition snapshotAPIGroup :: string where
  "snapshotAPIGroup = ''snapshot.storage.k8s.io''"

text \<open>The loop over the claims. A data source of the right name and kind without API group is a panic.\<close>

fun restoringPVC :: "VolumeSnapshot \<Rightarrow> PersistentVolumeClaim list \<Rightarrow> bool option" where
  "restoringPVC snapshot [] = Some False"
| "restoringPVC snapshot (pvc # pvcs) =
    (case pvc_DataSource pvc of
       None \<Rightarrow> restoringPVC snapshot pvcs
     | Some ds \<Rightarrow>
        if ds_Name ds = vs_Name snapshot \<and> ds_Kind ds = snapshotKind then
          (case ds_APIGroup ds of
             None \<Rightarrow> None
           | Some g \<Rightarrow> if g = snapshotAPIGroup \<and> pvc_Phase pvc = ClaimPending then Some True
                       else restoringPVC snapshot pvcs)
        else restoringPVC snapshot pvcs)"

definition isVolumeBeingCreatedFromSnapshot ::
  "'w env \<Rightarrow> VolumeSnapshot \<Rightarrow> 'w st \<Rightarrow> (bool \<times> 'w st) option" where
  "isVolumeBeingCreatedFromSnapshot E snapshot s =
    do { (r, s) \<leftarrow> call (lister_ListPVC E (vs_Namespace snapshot)) s;
         case r of
           Inl err \<Rightarrow> Some (False, s)
         | Inr pvcList \<Rightarrow> do { b \<leftarrow> restoringPVC snapshot pvcList; Some (b, s) } }"

section \<open>Deletion\<close>

definition groupDeletionMessage :: "VolumeSnapshot \<Rightarrow> VolumeGroupSnapshot \<Rightarrow> string" where
  "groupDeletionMessage snapshot groupSnapshot =
    sprint [''deletion of the individual volume snapshot '', SnapshotKey snapshot,
      '' is not allowed as it belongs to group snapshot '', GroupSnapshotKey groupSnapshot,
      ''. Deleting the group snapshot will trigger the deletion of all the individual volume snapshots that are part of the group.'']"

text \<open>
  The block that keeps a member of a live group: an error, or whether the group finalizer goes.
\<close>

definition checkGroupMembership ::
  "'w env \<Rightarrow> VolumeSnapshot \<Rightarrow> 'w st \<Rightarrow> ((goerr + bool) \<times> 'w st) option" where
  "checkGroupMembership E snapshot s =
    (case Option.bind (vs_Status snapshot) VolumeGroupSnapshotName of
       None \<Rightarrow> Some (Inr False, s)
     | Some groupName \<Rightarrow>
        do { (r, s) \<leftarrow> call (lister_GetVGS E (vs_Namespace snapshot) groupName) s;
             case r of
               Inr groupSnapshot \<Rightarrow>
                 let msg = groupDeletionMessage snapshot groupSnapshot;
                     s = emit (Event (ObjVS snapshot) EventTypeWarning ''SnapshotDeletePending'' msg) s
                 in Some (Inl (Errorf msg), s)
             | Inl err \<Rightarrow> if \<not> IsNotFound err then Some (Inl err, s) else Some (Inr True, s) })"

text \<open>From the annotation of the content on.\<close>

definition deleteContentAndRemoveFinalizers ::
  "'w env \<Rightarrow> VolumeSnapshot \<Rightarrow> VolumeSnapshotContent option \<Rightarrow> bool \<Rightarrow> bool \<Rightarrow> 'w st
    \<Rightarrow> (goerr option \<times> 'w st) option" where
  "deleteContentAndRemoveFinalizers E snapshot content deleteContent removeGroupFinalizer s =
    (case content of
       None \<Rightarrow> removeSnapshotFinalizer E snapshot True True removeGroupFinalizer s
     | Some content \<Rightarrow>
        do { ((updatedContent, err), s) \<leftarrow> setAnnVolumeSnapshotBeingDeleted E content s;
             case err of
               Some err \<Rightarrow> Some (Some err, s)
             | None \<Rightarrow>
                if deleteContent then
                  do { (err, s) \<leftarrow> act (DeleteVSC (vsc_Name updatedContent))
                                     (api_DeleteVSC E (vsc_Name updatedContent)) s;
                       case err of
                         Some err \<Rightarrow>
                           let s = emit (Event (ObjVS snapshot) EventTypeWarning
                                     ''SnapshotContentObjectDeleteError''
                                     ''Failed to delete snapshot content API object'') s in
                           Some (Some (Errorf (sprint [''failed to delete VolumeSnapshotContent '',
                             vsc_Name updatedContent, '' from API server: '', goQuote (err_text err)])), s)
                       | None \<Rightarrow> removeSnapshotFinalizer E snapshot True False removeGroupFinalizer s }
                else removeSnapshotFinalizer E snapshot True True removeGroupFinalizer s })"

definition checkandRemoveSnapshotFinalizersAndCheckandDeleteContent ::
  "'w env \<Rightarrow> VolumeSnapshot \<Rightarrow> VolumeSnapshotContent option \<Rightarrow> bool \<Rightarrow> 'w st
    \<Rightarrow> (goerr option \<times> 'w st) option" where
  "checkandRemoveSnapshotFinalizersAndCheckandDeleteContent E snapshot content deleteContent s =
    (if \<not> IsSnapshotDeletionCandidate snapshot then Some (None, s)
     else do {
       (inUse, s) \<leftarrow> (if content \<noteq> None then isVolumeBeingCreatedFromSnapshot E snapshot s
                       else Some (False, s));
       if inUse then
         Some (None, emit (Event (ObjVS snapshot) EventTypeWarning ''SnapshotDeletePending''
           ''Snapshot is being used to restore a PVC'') s)
       else do {
         (r, s) \<leftarrow> checkGroupMembership E snapshot s;
         case r of
           Inl err \<Rightarrow> Some (Some err, s)
         | Inr removeGroupFinalizer \<Rightarrow>
             deleteContentAndRemoveFinalizers E snapshot content deleteContent removeGroupFinalizer s } })"

text \<open>The name under which the content of a snapshot being deleted is looked up.\<close>

definition contentNameForDeletion :: "VolumeSnapshot \<Rightarrow> string" where
  "contentNameForDeletion snapshot =
    (let contentName = (case Option.bind (vs_Status snapshot) BoundVolumeSnapshotContentName of
                          None \<Rightarrow> [] | Some n \<Rightarrow> n) in
     if contentName = [] \<and> vs_PVCName snapshot \<noteq> None
     then GetDynamicSnapshotContentNameForSnapshot snapshot else contentName)"

definition provisionType :: "VolumeSnapshot \<Rightarrow> string" where
  "provisionType snapshot =
    (if vs_ContentName snapshot \<noteq> None then PreProvisionedSnapshotType else DynamicSnapshotType)"

definition processSnapshotWithDeletionTimestamp ::
  "'w env \<Rightarrow> VolumeSnapshot \<Rightarrow> 'w st \<Rightarrow> (goerr option \<times> 'w st) option" where
  "processSnapshotWithDeletionTimestamp E snapshot s =
    do { (driverName, s) \<leftarrow> getSnapshotDriverName E snapshot s;
         (_, s) \<leftarrow> withMetrics E (OperationStart
                (NewOperationKey DeleteSnapshotOperationName (vs_UID snapshot))
                (NewOperationValue driverName (provisionType snapshot))) s;
         case getContentFromStore (contentNameForDeletion snapshot) s of
           Inl err \<Rightarrow> Some (Some err, s)
         | Inr content \<Rightarrow>
            let (content, deleteContent) =
                  (case content of
                     None \<Rightarrow> (None, False)
                   | Some c \<Rightarrow> if IsVolumeSnapshotRefSet snapshot c
                               then (Some c, vsc_Policy c = VolumeSnapshotContentDelete)
                               else (None, False)) in
            checkandRemoveSnapshotFinalizersAndCheckandDeleteContent E snapshot content deleteContent s }"

section \<open>Finalizers of a live snapshot\<close>

definition checkandAddSnapshotFinalizers ::
  "'w env \<Rightarrow> VolumeSnapshot \<Rightarrow> 'w st \<Rightarrow> (goerr option \<times> 'w st) option" where
  "checkandAddSnapshotFinalizers E snapshot s =
    do { (r, s) \<leftarrow> (if vs_ContentName snapshot \<noteq> None
                      then getPreprovisionedContentFromStore E snapshot s
                      else getDynamicallyProvisionedContentFromStore E snapshot s);
         case r of
           Inl err \<Rightarrow> Some (Some err, s)
         | Inr content \<Rightarrow>
            let addSourceFinalizer = NeedToAddSnapshotAsSourceFinalizer snapshot;
                addBoundFinalizer = (case content of None \<Rightarrow> False
                  | Some c \<Rightarrow> NeedToAddSnapshotBoundFinalizer snapshot \<and>
                             vsc_Policy c = VolumeSnapshotContentDelete) in
            if addSourceFinalizer \<or> addBoundFinalizer
            then addSnapshotFinalizer E snapshot addSourceFinalizer addBoundFinalizer s
            else Some (None, s) }"

section \<open>A ready snapshot\<close>

definition addVolumeGroupSnapshotOwnership ::
  "'w env \<Rightarrow> VolumeSnapshot \<Rightarrow> 'w st \<Rightarrow> ((goerr + VolumeSnapshot option) \<times> 'w st) option" where
  "addVolumeGroupSnapshotOwnership E snapshot s =
    (case Option.bind (vs_Status snapshot) VolumeGroupSnapshotName of
       None \<Rightarrow> Some (Inr None, s)
     | Some parentObjectName \<Rightarrow>
        do { (r, s) \<leftarrow> call (lister_GetVGS E (vs_Namespace snapshot) parentObjectName) s;
             case r of
               Inl err \<Rightarrow> Some (Inl err, s)
             | Inr parentGroup \<Rightarrow>
                let updatedSnapshot = snapshot\<lparr>vs_meta := (vs_meta snapshot)\<lparr>OwnerReferences :=
                      OwnerReferences (vs_meta snapshot) @
                      [BuildVolumeGroupSnapshotOwnerReference parentGroup]\<rparr>\<rparr> in
                do { (r, s) \<leftarrow> act (UpdateVS updatedSnapshot) (api_UpdateVS E updatedSnapshot) s;
                     case r of
                       Inl err \<Rightarrow> Some (Inl err, s)
                     | Inr newSnapshot \<Rightarrow> Some (Inr (Some newSnapshot), s) } })"

definition syncReadySnapshot ::
  "'w env \<Rightarrow> VolumeSnapshot \<Rightarrow> 'w st \<Rightarrow> (goerr option \<times> 'w st) option" where
  "syncReadySnapshot E snapshot s =
    (if \<not> IsBoundVolumeSnapshotContentNameSet snapshot then
       Some (Some (Errorf (sprint [''snapshot '', SnapshotKey snapshot, '' is not bound to a content''])), s)
     else do {
       boundName \<leftarrow> Option.bind (vs_Status snapshot) BoundVolumeSnapshotContentName;
       case getContentFromStore boundName s of
         Inl err \<Rightarrow> Some (None, s)
       | Inr None \<Rightarrow> updateSnapshotErrorStatusWithEvent E snapshot True EventTypeWarning
           ''SnapshotContentMissing'' ''VolumeSnapshotContent is missing'' s
       | Inr (Some content) \<Rightarrow>
          if \<not> IsVolumeSnapshotRefSet snapshot content then
            updateSnapshotErrorStatusWithEvent E snapshot True EventTypeWarning ''SnapshotMisbound''
              ''VolumeSnapshotContent is not bound to the VolumeSnapshot correctly'' s
          else if NeedToAddVolumeGroupSnapshotOwnership snapshot then
            do { (r, s) \<leftarrow> addVolumeGroupSnapshotOwnership E snapshot s;
                 case r of Inl err \<Rightarrow> Some (Some err, s) | Inr _ \<Rightarrow> Some (None, s) }
          else Some (None, s) })"

section \<open>An unready snapshot\<close>

definition startCreationMetrics ::
  "'w env \<Rightarrow> VolumeSnapshot \<Rightarrow> string \<Rightarrow> 'w st \<Rightarrow> (unit \<times> 'w st) option" where
  "startCreationMetrics E snapshot driverName s =
    do { (_, s) \<leftarrow> (if \<not> IsSnapshotCreated snapshot then
                withMetrics E (OperationStart (NewOperationKey CreateSnapshotOperationName (vs_UID snapshot))
                  (NewOperationValue driverName (provisionType snapshot))) s
              else Some ((), s));
         withMetrics E (OperationStart (NewOperationKey CreateSnapshotAndReadyOperationName (vs_UID snapshot))
           (NewOperationValue driverName (provisionType snapshot))) s }"

text \<open>Each of the three branches ends by updating the status from a content.\<close>

definition finishStatus ::
  "'w env \<Rightarrow> VolumeSnapshot \<Rightarrow> VolumeSnapshotContent \<Rightarrow> 'w st \<Rightarrow> (goerr option \<times> 'w st) option" where
  "finishStatus E snapshot content s =
    do { (r, s) \<leftarrow> updateSnapshotStatus E snapshot content s;
         case r of
           Inr _ \<Rightarrow> Some (None, s)
         | Inl err \<Rightarrow>
            do { (_, s) \<leftarrow> updateSnapshotErrorStatusWithEvent E snapshot False EventTypeWarning
                   ''SnapshotStatusUpdateFailed''
                   (sprint [''Snapshot status update failed, '', err_text err]) s;
                 Some (Some err, s) } }"

definition syncUnreadyPreprovisioned ::
  "'w env \<Rightarrow> VolumeSnapshot \<Rightarrow> string \<Rightarrow> 'w st \<Rightarrow> (goerr option \<times> 'w st) option" where
  "syncUnreadyPreprovisioned E snapshot contentName s =
    do { (r, s) \<leftarrow> getPreprovisionedContentFromStore E snapshot s;
         case r of
           Inl err \<Rightarrow> Some (Some err, s)
         | Inr None \<Rightarrow>
            do { (_, s) \<leftarrow> updateSnapshotErrorStatusWithEvent E snapshot True EventTypeWarning
                   ''SnapshotContentMissing'' ''VolumeSnapshotContent is missing'' s;
                 Some (Some (Errorf (sprint [''snapshot '', SnapshotKey snapshot,
                   '' requests an non-existing content '', contentName])), s) }
         | Inr (Some content) \<Rightarrow>
            do { (r, s) \<leftarrow> checkandBindSnapshotContent E snapshot content s;
                 case r of
                   Inl err \<Rightarrow>
                     do { (_, s) \<leftarrow> updateSnapshotErrorStatusWithEvent E snapshot True EventTypeWarning
                            ''SnapshotBindFailed''
                            (sprint [''Snapshot failed to bind VolumeSnapshotContent, '', err_text err]) s;
                          Some (Some (Errorf (sprint [''snapshot '', SnapshotKey snapshot,
                            '' is bound, but VolumeSnapshotContent '', vsc_Name content,
                            '' is not bound to the VolumeSnapshot correctly, '', err_text err])), s) }
                 | Inr newContent \<Rightarrow> finishStatus E snapshot newContent s } }"

definition syncUnreadyGroupMember ::
  "'w env \<Rightarrow> VolumeSnapshot \<Rightarrow> 'w st \<Rightarrow> (goerr option \<times> 'w st) option" where
  "syncUnreadyGroupMember E snapshot s =
    (case Option.bind (vs_Status snapshot) BoundVolumeSnapshotContentName of
       None \<Rightarrow> Some (Some (Errorf (sprint [''detected group snapshot member '', SnapshotKey snapshot,
         '' with no content, retrying''])), s)
     | Some contentName \<Rightarrow>
        (case getContentFromStore contentName s of
           Inl err \<Rightarrow> Some (Some err, s)
         | Inr None \<Rightarrow> Some (Some (Errorf (sprint [''group snapshot member '', SnapshotKey snapshot,
             '' requests an non-existing content '', contentName])), s)
         | Inr (Some content) \<Rightarrow> finishStatus E snapshot content s))"

definition syncUnreadyDynamic ::
  "'w env \<Rightarrow> VolumeSnapshot \<Rightarrow> 'w st \<Rightarrow> (goerr option \<times> 'w st) option" where
  "syncUnreadyDynamic E snapshot s =
    do { (r, s) \<leftarrow> getDynamicallyProvisionedContentFromStore E snapshot s;
         case r of
           Inl err \<Rightarrow> Some (Some err, s)
         | Inr (Some contentObj) \<Rightarrow>
            if vsc_SnapshotHandle contentObj \<noteq> None then
              do { (_, s) \<leftarrow> updateSnapshotErrorStatusWithEvent E snapshot True EventTypeWarning
                     ''SnapshotHandleSet'' (sprint [''Snapshot handle should not be set in content '',
                       SnapshotKey snapshot, '' for dynamic provisioning'']) s;
                   Some (Some (Errorf (sprint [''snapshotHandle should not be set in the content for dynamic provisioning for snapshot '',
                     SnapshotKey snapshot])), s) }
            else do { (r, s) \<leftarrow> bindandUpdateVolumeSnapshot E contentObj snapshot s;
                      case r of Inl err \<Rightarrow> Some (Some err, s) | Inr _ \<Rightarrow> Some (None, s) }
         | Inr None \<Rightarrow>
            if vs_PVCName snapshot = None then
              do { (_, s) \<leftarrow> updateSnapshotErrorStatusWithEvent E snapshot True EventTypeWarning
                     ''SnapshotPVCSourceMissing'' (sprint [''PVC source for snapshot '',
                       SnapshotKey snapshot, '' is missing'']) s;
                   Some (Some (Errorf (sprint [''expected PVC source for snapshot '',
                     SnapshotKey snapshot, '' but got nil''])), s) }
            else do {
              (r, s) \<leftarrow> createSnapshotContent E snapshot s;
              case r of
                Inl err \<Rightarrow>
                  do { (_, s) \<leftarrow> updateSnapshotErrorStatusWithEvent E snapshot True EventTypeWarning
                         ''SnapshotContentCreationFailed''
                         (sprint [''Failed to create snapshot content with error '', err_text err]) s;
                       Some (Some err, s) }
              | Inr content \<Rightarrow> finishStatus E snapshot content s } }"

definition syncUnreadySnapshot ::
  "'w env \<Rightarrow> VolumeSnapshot \<Rightarrow> 'w st \<Rightarrow> (goerr option \<times> 'w st) option" where
  "syncUnreadySnapshot E snapshot s =
    do { (driverName, s) \<leftarrow> getSnapshotDriverName E snapshot s;
         (_, s) \<leftarrow> startCreationMetrics E snapshot driverName s;
         case vs_ContentName snapshot of
           Some contentName \<Rightarrow> syncUnreadyPreprovisioned E snapshot contentName s
         | None \<Rightarrow>
            if IsVolumeGroupSnapshotMember snapshot then syncUnreadyGroupMember E snapshot s
            else syncUnreadyDynamic E snapshot s }"

section \<open>The reconcilers\<close>

definition oneSource :: string where
  "oneSource = ''Exactly one of PersistentVolumeClaimName and VolumeSnapshotContentName should be specified''"

text \<open>From the validation on: the snapshot is not being deleted.\<close>

definition syncLiveSnapshot ::
  "'w env \<Rightarrow> VolumeSnapshot \<Rightarrow> 'w st \<Rightarrow> (goerr option \<times> 'w st) option" where
  "syncLiveSnapshot E snapshot s =
    (if (vs_PVCName snapshot = None) = (vs_ContentName snapshot = None) then
       do { (_, s) \<leftarrow> updateSnapshotErrorStatusWithEvent E snapshot True EventTypeWarning
              ''SnapshotValidationError'' oneSource s;
            Some (Some (Errorf oneSource), s) }
     else do {
       (err, s) \<leftarrow> checkandAddSnapshotFinalizers E snapshot s;
       case err of
         Some err \<Rightarrow> Some (Some err, emit (Event (ObjVS snapshot) EventTypeWarning
           ''SnapshotFinalizerError''
           (sprint [''Failed to check and update snapshot: '', err_text err])) s)
       | None \<Rightarrow>
          if \<not> IsSnapshotReady snapshot \<or> \<not> IsBoundVolumeSnapshotContentNameSet snapshot
          then syncUnreadySnapshot E snapshot s
          else syncReadySnapshot E snapshot s })"

text \<open>The first step: an error there is only an event.\<close>

definition reclaimPVCFinalizer :: "'w env \<Rightarrow> VolumeSnapshot \<Rightarrow> 'w st \<Rightarrow> (unit \<times> 'w st) option" where
  "reclaimPVCFinalizer E snapshot s =
    do { (err, s) \<leftarrow> checkandRemovePVCFinalizer E snapshot False s;
         Some ((), case err of
           Some _ \<Rightarrow> emit (Event (ObjVS snapshot) EventTypeWarning ''ErrorPVCFinalizer''
             ''Error check and remove PVC Finalizer for VolumeSnapshot'') s
         | None \<Rightarrow> s) }"

definition syncSnapshot ::
  "'w env \<Rightarrow> VolumeSnapshot \<Rightarrow> 'w st \<Rightarrow> (goerr option \<times> 'w st) option" where
  "syncSnapshot E snapshot s =
    do { (_, s) \<leftarrow> reclaimPVCFinalizer E snapshot s;
         if DeletionTimestamp (vs_meta snapshot) \<noteq> None then processSnapshotWithDeletionTimestamp E snapshot s
         else syncLiveSnapshot E snapshot s }"

definition oneHandle :: string where
  "oneHandle = ''Exactly one of VolumeHandle and SnapshotHandle should be specified''"

definition syncContent ::
  "'w env \<Rightarrow> VolumeSnapshotContent \<Rightarrow> 'w st \<Rightarrow> (goerr option \<times> 'w st) option" where
  "syncContent E content s =
    (let snapshotName = SnapshotRefKey (vsc_Ref content) in
     if (vsc_VolumeHandle content = None) = (vsc_SnapshotHandle content = None) then
       Some (Some (Errorf oneHandle),
         emit (Event (ObjVSC content) EventTypeWarning ''ContentValidationError'' oneHandle) s)
     else if ref_UID (vsc_Ref content) = [] then Some (None, s)
     else if NeedToAddContentFinalizer content then addContentFinalizer E content s
     else case getSnapshotFromStore snapshotName s of
       Inl err \<Rightarrow> Some (Some err, s)
     | Inr None \<Rightarrow> Some (None, s)
     | Inr (Some snapshot) \<Rightarrow>
        if vs_UID snapshot \<noteq> ref_UID (vsc_Ref content) then Some (None, s)
        else do {
          b \<leftarrow> needsUpdateSnapshotStatus snapshot content;
          let s = (if b then emit (QueueAdd QSnapshot snapshotName) s else s);
          if IsSnapshotDeletionCandidate snapshot then
            do { ((_, err), s) \<leftarrow> setAnnVolumeSnapshotBeingDeleted E content s; Some (err, s) }
          else Some (None, s) })"

section \<open>What these operations do\<close>

definition notDelete :: "action \<Rightarrow> bool" where
  "notDelete a = (\<forall>n. a \<noteq> DeleteVSC n)"

definition notCreate :: "action \<Rightarrow> bool" where
  "notCreate a = (\<forall>c. a \<noteq> CreateVSC c)"

lemma notDelete_simps [simp]:
  "notDelete (UpdateVS v)" "notDelete (UpdateStatusVS v)" "notDelete (PatchVS n m p q)"
  "notDelete (CreateVSC c)" "notDelete (PatchVSC n p q)" "notDelete (UpdatePVC x)"
  "notDelete (Event ob t m m')" "notDelete (QueueAdd qu k)" "\<not> notDelete (DeleteVSC n)"
  by (simp_all add: notDelete_def)

lemma notCreate_simps [simp]:
  "notCreate (UpdateVS v)" "notCreate (UpdateStatusVS v)" "notCreate (PatchVS n m p q)"
  "\<not> notCreate (CreateVSC c)" "notCreate (PatchVSC n p q)" "notCreate (UpdatePVC x)"
  "notCreate (Event ob t m m')" "notCreate (QueueAdd qu k)" "notCreate (DeleteVSC n)"
  by (simp_all add: notCreate_def)

context effects
begin

lemma isVolumeBeingCreatedFromSnapshot_I:
  assumes "I s" "\<And>r s'. I s' \<Longrightarrow> Q r s'"
  shows "ensures (isVolumeBeingCreatedFromSnapshot E v s) Q"
  by (rule keepI[OF _ assms(2)]) (auto simp: isVolumeBeingCreatedFromSnapshot_def
      intro!: call_I ensures_option_bind assms(1) split: sum.split)

lemma checkGroupMembership_I:
  assumes "\<And>v t r m. ok (Event (ObjVS v) t r m)" "I s" "\<And>r s'. I s' \<Longrightarrow> Q r s'"
  shows "ensures (checkGroupMembership E v s) Q"
  by (rule keepI[OF _ assms(3)], insert assms(1,2), auto simp: checkGroupMembership_def Let_def
      intro!: call_I emit_I split: option.split sum.split)

lemma deleteContentAndRemoveFinalizers_I:
  assumes "\<And>p. ok (UpdatePVC p)" "\<And>v. ok (UpdateVS v)" "\<And>v t r m. ok (Event (ObjVS v) t r m)"
    "\<And>n m. ok (PatchVSC n [patchOp ''replace'' ''/metadata/annotations'' (PVMap m)] [])"
    "\<And>n. ok (DeleteVSC n)" "touch CSnapshot" "touch CContent" "I s"
    "\<And>r s'. I s' \<Longrightarrow> Q r s'"
  shows "ensures (deleteContentAndRemoveFinalizers E v c b g s) Q"
  unfolding deleteContentAndRemoveFinalizers_def
  by (rule keepI[OF _ assms(9)], insert assms(1-8), auto simp: Let_def
      intro!: setAnnVolumeSnapshotBeingDeleted_I act_I emit_I removeSnapshotFinalizer_I
      split: option.split sum.split)

lemma processSnapshotWithDeletionTimestamp_I:
  assumes "\<And>p. ok (UpdatePVC p)" "\<And>v. ok (UpdateVS v)" "\<And>v t r m. ok (Event (ObjVS v) t r m)"
    "\<And>n m. ok (PatchVSC n [patchOp ''replace'' ''/metadata/annotations'' (PVMap m)] [])"
    "\<And>n. ok (DeleteVSC n)" "touch CSnapshot" "touch CContent" "I s"
    "\<And>r s'. I s' \<Longrightarrow> Q r s'"
  shows "ensures (processSnapshotWithDeletionTimestamp E v s) Q"
  unfolding processSnapshotWithDeletionTimestamp_def
    checkandRemoveSnapshotFinalizersAndCheckandDeleteContent_def
  by (rule keepI[OF _ assms(9)], insert assms(1-8), auto simp: Let_def
      intro!: getSnapshotDriverName_I withMetrics_I isVolumeBeingCreatedFromSnapshot_I emit_I
        checkGroupMembership_I deleteContentAndRemoveFinalizers_I
      split: option.split sum.split)

lemma checkandAddSnapshotFinalizers_I:
  assumes "\<And>v. ok (UpdateVS v)" "\<And>v. ok (UpdateStatusVS v)" "\<And>n m p. ok (PatchVS n m p [])"
    "\<And>v t r m. ok (Event (ObjVS v) t r m)" "touch CSnapshot" "I s" "\<And>r s'. I s' \<Longrightarrow> Q r s'"
  shows "ensures (checkandAddSnapshotFinalizers E v s) Q"
  unfolding checkandAddSnapshotFinalizers_def
  by (rule keepI[OF _ assms(7)], insert assms(1-6), auto simp: Let_def
      intro!: getPreprovisionedContentFromStore_I getDynamicallyProvisionedContentFromStore_I
        addSnapshotFinalizer_I split: option.split sum.split)

lemma syncReadySnapshot_I:
  assumes "\<And>v. ok (UpdateVS v)" "\<And>v. ok (UpdateStatusVS v)" "\<And>v t r m. ok (Event (ObjVS v) t r m)"
    "touch CSnapshot" "I s" "\<And>r s'. I s' \<Longrightarrow> Q r s'"
  shows "ensures (syncReadySnapshot E v s) Q"
  unfolding syncReadySnapshot_def addVolumeGroupSnapshotOwnership_def
  by (rule keepI[OF _ assms(6)], insert assms(1-5), auto simp: Let_def
      intro!: ensures_option_bind updateSnapshotErrorStatusWithEvent_I call_I act_I
      split: option.split sum.split)

lemma finishStatus_I:
  assumes "\<And>v. ok (UpdateStatusVS v)" "\<And>v t r m. ok (Event (ObjVS v) t r m)" "touch CSnapshot" "I s"
    "\<And>r s'. I s' \<Longrightarrow> Q r s'"
  shows "ensures (finishStatus E v c s) Q"
  by (rule keepI[OF _ assms(5)], insert assms(1-4), auto simp: finishStatus_def
      intro!: updateSnapshotStatus_I updateSnapshotErrorStatusWithEvent_I split: sum.split)

lemma startCreationMetrics_I:
  "I s \<Longrightarrow> (\<And>r s'. I s' \<Longrightarrow> Q r s') \<Longrightarrow> ensures (startCreationMetrics E v d s) Q"
  by (auto simp: startCreationMetrics_def intro!: withMetrics_I)

lemma syncUnreadyPreprovisioned_I:
  assumes "\<And>v. ok (UpdateStatusVS v)" "\<And>v t r m. ok (Event (ObjVS v) t r m)" "\<And>n p. ok (PatchVSC n p [])"
    "touch CSnapshot" "touch CContent" "I s" "\<And>r s'. I s' \<Longrightarrow> Q r s'"
  shows "ensures (syncUnreadyPreprovisioned E v n s) Q"
  unfolding syncUnreadyPreprovisioned_def
  by (rule keepI[OF _ assms(7)], insert assms(1-6), auto
      intro!: getPreprovisionedContentFromStore_I updateSnapshotErrorStatusWithEvent_I
        checkandBindSnapshotContent_I finishStatus_I split: sum.split option.split)

lemma syncUnreadyGroupMember_I:
  assumes "\<And>v. ok (UpdateStatusVS v)" "\<And>v t r m. ok (Event (ObjVS v) t r m)" "touch CSnapshot" "I s"
    "\<And>r s'. I s' \<Longrightarrow> Q r s'"
  shows "ensures (syncUnreadyGroupMember E v s) Q"
  unfolding syncUnreadyGroupMember_def
  by (rule keepI[OF _ assms(5)], insert assms(1-4), auto intro!: finishStatus_I split: sum.split option.split)

lemma syncUnreadyDynamic_I:
  assumes "\<And>p. ok (UpdatePVC p)" "\<And>c. ok (CreateVSC c)" "\<And>v. ok (UpdateStatusVS v)"
    "\<And>v t r m. ok (Event (ObjVS v) t r m)" "touch CSnapshot" "touch CContent" "I s" "\<And>r s'. I s' \<Longrightarrow> Q r s'"
  shows "ensures (syncUnreadyDynamic E v s) Q"
  unfolding syncUnreadyDynamic_def
  by (rule keepI[OF _ assms(8)], insert assms(1-7), auto
      intro!: getDynamicallyProvisionedContentFromStore_I updateSnapshotErrorStatusWithEvent_I
        bindandUpdateVolumeSnapshot_I createSnapshotContent_I finishStatus_I split: sum.split option.split)

lemma syncUnreadySnapshot_I:
  assumes "\<And>p. ok (UpdatePVC p)" "\<And>c. ok (CreateVSC c)" "\<And>v. ok (UpdateStatusVS v)"
    "\<And>v t r m. ok (Event (ObjVS v) t r m)" "\<And>n p. ok (PatchVSC n p [])" "touch CSnapshot" "touch CContent"
    "I s" "\<And>r s'. I s' \<Longrightarrow> Q r s'"
  shows "ensures (syncUnreadySnapshot E v s) Q"
  unfolding syncUnreadySnapshot_def
  by (rule keepI[OF _ assms(9)], insert assms(1-8), auto
      intro!: getSnapshotDriverName_I startCreationMetrics_I syncUnreadyPreprovisioned_I
        syncUnreadyGroupMember_I syncUnreadyDynamic_I split: option.split)

lemma syncLiveSnapshot_I:
  assumes "\<And>p. ok (UpdatePVC p)" "\<And>c. ok (CreateVSC c)" "\<And>v. ok (UpdateVS v)" "\<And>v. ok (UpdateStatusVS v)"
    "\<And>n m p. ok (PatchVS n m p [])" "\<And>v t r m. ok (Event (ObjVS v) t r m)" "\<And>n p. ok (PatchVSC n p [])"
    "touch CSnapshot" "touch CContent" "I s" "\<And>r s'. I s' \<Longrightarrow> Q r s'"
  shows "ensures (syncLiveSnapshot E v s) Q"
  unfolding syncLiveSnapshot_def
  by (rule keepI[OF _ assms(11)], insert assms(1-10), auto
      intro!: updateSnapshotErrorStatusWithEvent_I checkandAddSnapshotFinalizers_I emit_I
        syncUnreadySnapshot_I syncReadySnapshot_I split: option.split)

lemma reclaimPVCFinalizer_I:
  assumes "\<And>p. PVCFinalizer \<notin> set (Finalizers (pvc_meta p)) \<Longrightarrow> ok (UpdatePVC p)"
    "\<And>t r m. ok (Event (ObjVS v) t r m)" "I s" "\<And>r s'. I s' \<Longrightarrow> Q r s'"
  shows "ensures (reclaimPVCFinalizer E v s) Q"
  unfolding reclaimPVCFinalizer_def
  by (rule keepI[OF _ assms(4)], insert assms(1-3), auto
      intro!: checkandRemovePVCFinalizer_I emit_I split: option.split)

lemma syncSnapshot_I:
  assumes "\<And>p. ok (UpdatePVC p)" "\<And>c. ok (CreateVSC c)" "\<And>v. ok (UpdateVS v)" "\<And>v. ok (UpdateStatusVS v)"
    "\<And>n m p. ok (PatchVS n m p [])" "\<And>v t r m. ok (Event (ObjVS v) t r m)" "\<And>n p. ok (PatchVSC n p [])"
    "\<And>n. ok (DeleteVSC n)" "touch CSnapshot" "touch CContent" "I s" "\<And>r s'. I s' \<Longrightarrow> Q r s'"
  shows "ensures (syncSnapshot E v s) Q"
  unfolding syncSnapshot_def
  by (rule keepI[OF _ assms(12)], insert assms(1-11), auto
      intro!: reclaimPVCFinalizer_I processSnapshotWithDeletionTimestamp_I syncLiveSnapshot_I)

lemma syncContent_I:
  assumes "\<And>t r m. ok (Event (ObjVSC c) t r m)" "\<And>p. ok (PatchVSC (vsc_Name c) p [])"
    "\<And>k. ok (QueueAdd QSnapshot k)" "touch CContent" "I s" "\<And>r s'. I s' \<Longrightarrow> Q r s'"
  shows "ensures (syncContent E c s) Q"
  unfolding syncContent_def Let_def
  by (rule keepI[OF _ assms(6)], insert assms(1-5), auto
      intro!: emit_I addContentFinalizer_I ensures_option_bind setAnnVolumeSnapshotBeingDeleted_I
      split: sum.split option.split)

end

section \<open>Deleting a content\<close>

text \<open>The content with the annotation, the write that sets it, and its place in the log, if it is missing.\<close>

definition annotated :: "VolumeSnapshotContent \<Rightarrow> VolumeSnapshotContent" where
  "annotated c = c\<lparr>vsc_meta := (vsc_meta c)\<lparr>Annotations :=
     fmupd AnnVolumeSnapshotBeingDeleted ''yes'' (Annotations (vsc_meta c))\<rparr>\<rparr>"

definition annotationPatch :: "VolumeSnapshotContent \<Rightarrow> PatchOp list" where
  "annotationPatch c = [patchOp ''replace'' ''/metadata/annotations''
     (PVMap (fmupd AnnVolumeSnapshotBeingDeleted ''yes'' (Annotations (vsc_meta c))))]"

definition annotationLog :: "VolumeSnapshotContent \<Rightarrow> action list" where
  "annotationLog c =
    (if HasAnnotation (vsc_meta c) AnnVolumeSnapshotBeingDeleted then []
     else [PatchVSC (vsc_Name c) (annotationPatch c) []])"

lemma setAnn_log:
  assumes "setAnnVolumeSnapshotBeingDeleted E c s = Some ((c1, err), s')"
  shows "log s' = log s @ annotationLog c \<and>
    (HasAnnotation (vsc_meta c) AnnVolumeSnapshotBeingDeleted \<longrightarrow> c1 = c \<and> err = None) \<and>
    (\<not> HasAnnotation (vsc_meta c) AnnVolumeSnapshotBeingDeleted \<and> err = None \<longrightarrow>
       (\<exists>w. api_PatchVSC E (vsc_Name c) (annotationPatch c) []
          (shared_write_VSC E (annotated c) (world s)) = (Inr c1, w)))"
  using assms
  by (auto simp: setAnnVolumeSnapshotBeingDeleted_def annotationLog_def annotationPatch_def annotated_def Let_def
      SetMetaDataAnnotation_def PatchVolumeSnapshotContent_def writeThroughVSC_def act_def call_def
      storeContentUpdate_def split: if_splits sum.splits prod.splits)

text \<open>What may follow the deletion of a content.\<close>

definition afterDelete :: "VolumeSnapshot \<Rightarrow> bool \<Rightarrow> action \<Rightarrow> bool" where
  "afterDelete v g a \<longleftrightarrow>
    (\<exists>q. a = UpdatePVC q \<and> PVCFinalizer \<notin> set (Finalizers (pvc_meta q))) \<or>
    (\<exists>t r m. a = Event (ObjVS v) t r m) \<or>
    a = UpdateVS (v\<lparr>vs_meta := (vs_meta v)\<lparr>Finalizers := filter
      (\<lambda>f. f \<noteq> VolumeSnapshotAsSourceFinalizer \<and> (g \<longrightarrow> f \<noteq> VolumeSnapshotInGroupFinalizer))
      (Finalizers (vs_meta v))\<rparr>\<rparr>)"

lemma withoutFinalizers_source:
  "withoutFinalizers v True False g = v\<lparr>vs_meta := (vs_meta v)\<lparr>Finalizers := filter
      (\<lambda>f. f \<noteq> VolumeSnapshotAsSourceFinalizer \<and> (g \<longrightarrow> f \<noteq> VolumeSnapshotInGroupFinalizer))
      (Finalizers (vs_meta v))\<rparr>\<rparr>"
  by (simp add: withoutFinalizers_def Let_def RemoveString_filter conj_commute)

lemma afterDelete_notDelete: "list_all (afterDelete v g) xs \<Longrightarrow> DeleteVSC n \<notin> set xs"
  by (auto simp: afterDelete_def list_all_iff)

lemma removeSnapshotFinalizer_notDelete:
  "ensures (removeSnapshotFinalizer E v a b g s) (\<lambda>_ s'. onlyNew notDelete (log s) s')"
  by (rule only.removeSnapshotFinalizer_I) (auto simp: onlyNew_refl)

lemma removeSnapshotFinalizer_afterDelete:
  "ensures (removeSnapshotFinalizer E v True False g s) (\<lambda>_ s'. onlyNew (afterDelete v g) (log s) s')"
  by (rule only.removeSnapshotFinalizer_I) (auto simp: onlyNew_refl afterDelete_def withoutFinalizers_source)

text \<open>The name a content is deleted under: its own, and when the annotation was missing the one in the answer to the
  patch that set it, which the server accepted.\<close>

definition deletesUnder :: "'w env \<Rightarrow> VolumeSnapshotContent \<Rightarrow> 'w \<Rightarrow> string \<Rightarrow> bool" where
  "deletesUnder E c w n \<longleftrightarrow>
    (if HasAnnotation (vsc_meta c) AnnVolumeSnapshotBeingDeleted then n = vsc_Name c
     else \<exists>upd w'. api_PatchVSC E (vsc_Name c) (annotationPatch c) [] (shared_write_VSC E (annotated c) w) =
         (Inr upd, w') \<and> n = vsc_Name upd)"

lemma deleteContent_log:
  assumes "deleteContentAndRemoveFinalizers E v content del g s = Some (r, s')" "log s' = log s @ new"
    and "DeleteVSC n \<in> set new"
  shows "\<exists>c post. content = Some c \<and> del \<and> new = annotationLog c @ DeleteVSC n # post \<and>
    deletesUnder E c (world s) n \<and> list_all (afterDelete v g) post"
proof (cases content)
  case None
  then show ?thesis using assms removeSnapshotFinalizer_notDelete[of E v True True g s]
    by (auto simp: deleteContentAndRemoveFinalizers_def onlyNew_def ensures_def notDelete_def list_all_iff)
next
  case (Some c)
  obtain c1 err s1 where a: "setAnnVolumeSnapshotBeingDeleted E c s = Some ((c1, err), s1)"
    using assms Some by (auto simp: deleteContentAndRemoveFinalizers_def split: Option.bind_splits)
  note l = setAnn_log[OF a]
  have noAnn: "DeleteVSC n \<notin> set (annotationLog c)" by (simp add: annotationLog_def)
  have ok: "err = None" using assms Some a l noAnn
    by (auto simp: deleteContentAndRemoveFinalizers_def split: option.splits)
  have d: "del"
  proof (rule ccontr)
    assume "\<not> del"
    then show False using assms Some a l noAnn ok removeSnapshotFinalizer_notDelete[of E v True True g s1]
      by (auto simp: deleteContentAndRemoveFinalizers_def onlyNew_def ensures_def notDelete_def list_all_iff)
  qed
  obtain dr w where dl: "api_DeleteVSC E (vsc_Name c1) (world s1) = (dr, w)" by fastforce
  let ?s2 = "s1\<lparr>log := log s1 @ [DeleteVSC (vsc_Name c1)], world := w\<rparr>"
  have run: "Some (r, s') = (case dr of Some err \<Rightarrow>
        Some (Some (Errorf (sprint [''failed to delete VolumeSnapshotContent '', vsc_Name c1,
          '' from API server: '', goQuote (err_text err)])),
          emit (Event (ObjVS v) EventTypeWarning ''SnapshotContentObjectDeleteError''
             ''Failed to delete snapshot content API object'') ?s2)
      | None \<Rightarrow> removeSnapshotFinalizer E v True False g ?s2)"
    using assms(1) Some a ok d dl
    by (simp add: deleteContentAndRemoveFinalizers_def act_def call_def Let_def split: option.splits)
  have "\<exists>post. log s' = log s @ annotationLog c @ DeleteVSC (vsc_Name c1) # post \<and> list_all (afterDelete v g) post"
  proof (cases dr)
    case None
    then show ?thesis using run l removeSnapshotFinalizer_afterDelete[of E v g ?s2]
      by (auto simp: onlyNew_def ensures_def split: option.splits)
  next
    case (Some e)
    then show ?thesis using run l by (auto simp: emit_def afterDelete_def)
  qed
  then obtain post where p: "new = annotationLog c @ DeleteVSC (vsc_Name c1) # post" "list_all (afterDelete v g) post"
    using assms(2) by auto
  have "n = vsc_Name c1" using p assms(3) noAnn afterDelete_notDelete by auto
  then show ?thesis using p d Some l ok by (auto simp: deletesUnder_def)
qed

text \<open>A claim that names the snapshot as its data source.\<close>

definition restoresFrom :: "VolumeSnapshot \<Rightarrow> PersistentVolumeClaim \<Rightarrow> bool" where
  "restoresFrom v pvc = (case pvc_DataSource pvc of None \<Rightarrow> False
     | Some ds \<Rightarrow> ds_Name ds = vs_Name v \<and> ds_Kind ds = ''VolumeSnapshot'')"

definition pendingRestore :: "VolumeSnapshot \<Rightarrow> PersistentVolumeClaim \<Rightarrow> bool" where
  "pendingRestore v pvc \<longleftrightarrow> restoresFrom v pvc \<and> pvc_Phase pvc = ClaimPending \<and>
     Option.bind (pvc_DataSource pvc) ds_APIGroup = Some ''snapshot.storage.k8s.io''"

definition groupless :: "PersistentVolumeClaim \<Rightarrow> bool" where
  "groupless pvc = (Option.bind (pvc_DataSource pvc) ds_APIGroup = None)"

lemma restoringPVC_Cons:
  "restoringPVC v (p # pvcs) =
    (if restoresFrom v p \<and> groupless p then None else if pendingRestore v p then Some True
     else restoringPVC v pvcs)"
  by (auto simp: pendingRestore_def restoresFrom_def groupless_def snapshotKind_def snapshotAPIGroup_def
      split: option.split)

lemma restoringPVC_exact:
  "\<forall>p \<in> set pvcs. restoresFrom v p \<longrightarrow> \<not> groupless p \<Longrightarrow>
   restoringPVC v pvcs = Some (\<exists>p \<in> set pvcs. pendingRestore v p)"
  by (induction pvcs) (simp_all add: restoringPVC_Cons del: restoringPVC.simps(2))

lemma restoringPVC_False:
  "restoringPVC v pvcs = Some False \<Longrightarrow> \<forall>p \<in> set pvcs. \<not> pendingRestore v p"
  by (induction pvcs) (auto simp: restoringPVC_Cons simp del: restoringPVC.simps(2) split: if_splits)

lemma restoring_log:
  assumes "isVolumeBeingCreatedFromSnapshot E v s = Some (b, s1)"
  shows "s1 = s\<lparr>world := snd (lister_ListPVC E (vs_Namespace v) (world s))\<rparr> \<and>
    (b \<or> (case fst (lister_ListPVC E (vs_Namespace v) (world s)) of
            Inl _ \<Rightarrow> True | Inr pvcs \<Rightarrow> \<forall>p \<in> set pvcs. \<not> pendingRestore v p))"
  using assms by (auto simp: isVolumeBeingCreatedFromSnapshot_def call_def dest!: restoringPVC_False
      split: prod.splits sum.splits Option.bind_splits)

text \<open>The snapshot is in no group, or the lister says that its group is gone. The worlds are those before and after
  the question.\<close>

definition groupGone :: "'w env \<Rightarrow> VolumeSnapshot \<Rightarrow> 'w \<Rightarrow> 'w \<Rightarrow> bool" where
  "groupGone E v w w' =
    (case Option.bind (vs_Status v) VolumeGroupSnapshotName of
       None \<Rightarrow> w' = w
     | Some g \<Rightarrow> \<exists>err. lister_GetVGS E (vs_Namespace v) g w = (Inl err, w') \<and> IsNotFound err)"

definition inGroup :: "VolumeSnapshot \<Rightarrow> bool" where
  "inGroup v = (Option.bind (vs_Status v) VolumeGroupSnapshotName \<noteq> None)"

lemma group_log:
  assumes "checkGroupMembership E v s = Some (r, s1)"
  shows "contentStore s1 = contentStore s \<and>
    (case r of Inl _ \<Rightarrow> log s1 = log s \<or> (\<exists>t n m. log s1 = log s @ [Event (ObjVS v) t n m])
     | Inr g \<Rightarrow> log s1 = log s \<and> groupGone E v (world s) (world s1) \<and> g = inGroup v)"
proof (cases "Option.bind (vs_Status v) VolumeGroupSnapshotName")
  case None
  then show ?thesis using assms by (auto simp: checkGroupMembership_def groupGone_def inGroup_def split: sum.splits)
next
  case (Some n)
  obtain res w where l: "lister_GetVGS E (vs_Namespace v) n (world s) = (res, w)" by fastforce
  then show ?thesis using assms Some
    by (cases res) (auto simp: checkGroupMembership_def inGroup_def groupGone_def call_def emit_def Let_def
        split: if_splits)
qed

text \<open>What may come before the deletion of a content.\<close>

definition beforeDelete :: "VolumeSnapshot \<Rightarrow> action \<Rightarrow> bool" where
  "beforeDelete v a \<longleftrightarrow>
    (\<exists>q. a = UpdatePVC q \<and> PVCFinalizer \<notin> set (Finalizers (pvc_meta q))) \<or>
    (\<exists>t r m. a = Event (ObjVS v) t r m)"

lemma beforeDelete_notDelete: "list_all (beforeDelete v) xs \<Longrightarrow> DeleteVSC n \<notin> set xs"
  by (auto simp: beforeDelete_def list_all_iff)

definition notBeingRestored :: "'w env \<Rightarrow> VolumeSnapshot \<Rightarrow> bool" where
  "notBeingRestored E v \<longleftrightarrow>
    (\<exists>w. case fst (lister_ListPVC E (vs_Namespace v) w) of
           Inl _ \<Rightarrow> True | Inr pvcs \<Rightarrow> \<forall>p \<in> set pvcs. \<not> pendingRestore v p)"

lemma checkandRemove_log:
  assumes run: "checkandRemoveSnapshotFinalizersAndCheckandDeleteContent E v content del s = Some (r, s')"
    and new: "log s' = log s @ new" and n: "DeleteVSC n \<in> set new"
  shows "\<exists>c post pvcs w1 w2. content = Some c \<and> del \<and> IsSnapshotDeletionCandidate v \<and>
    lister_ListPVC E (vs_Namespace v) (world s) = (pvcs, w1) \<and>
    (\<forall>l. pvcs = Inr l \<longrightarrow> (\<forall>p \<in> set l. \<not> pendingRestore v p)) \<and> groupGone E v w1 w2 \<and>
    new = annotationLog c @ DeleteVSC n # post \<and> deletesUnder E c w2 n \<and>
    list_all (afterDelete v (inGroup v)) post"
proof -
  have cand: "IsSnapshotDeletionCandidate v" using assms
    by (auto simp: checkandRemoveSnapshotFinalizersAndCheckandDeleteContent_def split: if_splits)
  obtain b s1 where u: "(if content \<noteq> None then isVolumeBeingCreatedFromSnapshot E v s else Some (False, s)) = Some (b, s1)"
    using run cand by (auto simp: checkandRemoveSnapshotFinalizersAndCheckandDeleteContent_def split: Option.bind_splits)
  have l1: "log s1 = log s" using u restoring_log[of E v s b s1] by (cases content) auto
  have nb: "\<not> b" using run cand u l1 new n
    by (auto simp: checkandRemoveSnapshotFinalizersAndCheckandDeleteContent_def emit_def)
  obtain gr s2 where g: "checkGroupMembership E v s1 = Some (gr, s2)"
    using run cand u nb by (auto simp: checkandRemoveSnapshotFinalizersAndCheckandDeleteContent_def split: Option.bind_splits)
  note gl = group_log[OF g]
  have run2: "(case gr of Inl err \<Rightarrow> Some (Some err, s2)
      | Inr rg \<Rightarrow> deleteContentAndRemoveFinalizers E v content del rg s2) = Some (r, s')"
    using run cand u nb g by (auto simp: checkandRemoveSnapshotFinalizersAndCheckandDeleteContent_def split: sum.splits)
  obtain rg where rg: "gr = Inr rg" using run2 gl l1 new n by (cases gr) auto
  have del: "deleteContentAndRemoveFinalizers E v content del rg s2 = Some (r, s')" "log s' = log s2 @ new"
    "groupGone E v (world s1) (world s2)" "rg = inGroup v"
    using run2 gl l1 new rg by auto
  obtain c post where c: "content = Some c" "del" "new = annotationLog c @ DeleteVSC n # post"
      "deletesUnder E c (world s2) n" "list_all (afterDelete v rg) post"
    using deleteContent_log[OF del(1,2) n] by blast
  obtain pvcs w1 where l: "lister_ListPVC E (vs_Namespace v) (world s) = (pvcs, w1)" by fastforce
  have "isVolumeBeingCreatedFromSnapshot E v s = Some (False, s1)" using u c nb by simp
  from restoring_log[OF this] l have w: "world s1 = w1" "\<forall>l. pvcs = Inr l \<longrightarrow> (\<forall>p \<in> set l. \<not> pendingRestore v p)"
    by auto
  show ?thesis
    by (rule exI[of _ c], rule exI[of _ post], rule exI[of _ pvcs], rule exI[of _ w1], rule exI[of _ "world s2"])
      (use c del cand l w in simp)
qed

lemma getSnapshotDriverName_frame:
  assumes "getSnapshotDriverName E v s = Some (d, s1)"
  shows "log s1 = log s \<and> contentStore s1 = contentStore s"
proof -
  have "ensures (getSnapshotDriverName E v s) (\<lambda>_ s'. onlyNew (\<lambda>_. False) (log s) s')"
    by (rule only.getSnapshotDriverName_I) (auto simp: onlyNew_refl)
  moreover have "ensures (getSnapshotDriverName E v s) (\<lambda>_ s'. contentStore s' = contentStore s)"
    by (rule sameContents.getSnapshotDriverName_I) auto
  ultimately show ?thesis using assms by (auto simp: onlyNew_nothing ensures_def)
qed

text \<open>The state in which the reconciler of a snapshot that is being deleted looks at the claims: after it has released the
  source claim, looked up the driver and started the metrics.\<close>

definition beforeChecks :: "'w env \<Rightarrow> VolumeSnapshot \<Rightarrow> 'w st \<Rightarrow> 'w st option" where
  "beforeChecks E v s =
    do { (_, s) \<leftarrow> reclaimPVCFinalizer E v s;
         (driverName, s) \<leftarrow> getSnapshotDriverName E v s;
         (_, s) \<leftarrow> withMetrics E (OperationStart (NewOperationKey DeleteSnapshotOperationName (vs_UID v))
                (NewOperationValue driverName (provisionType v))) s;
         Some s }"

lemma process_run:
  assumes "reclaimPVCFinalizer E v s0 = Some ((), s)"
    "processSnapshotWithDeletionTimestamp E v s = Some (r, s')" "log s' = log s @ new" "new \<noteq> []"
  shows "\<exists>s2 content del. beforeChecks E v s0 = Some s2 \<and> log s2 = log s \<and> contentStore s2 = contentStore s \<and>
    checkandRemoveSnapshotFinalizersAndCheckandDeleteContent E v content del s2 = Some (r, s') \<and>
    (\<forall>c. content = Some c \<longrightarrow> contentStore s (contentNameForDeletion v) = Some (ObjVSC c) \<and>
       IsVolumeSnapshotRefSet v c \<and> del = (vsc_Policy c = VolumeSnapshotContentDelete))"
proof -
  obtain d s1 where g: "getSnapshotDriverName E v s = Some (d, s1)"
    using assms by (auto simp: processSnapshotWithDeletionTimestamp_def split: Option.bind_splits)
  note f = getSnapshotDriverName_frame[OF g]
  obtain s2 where m: "withMetrics E (OperationStart (NewOperationKey DeleteSnapshotOperationName (vs_UID v))
      (NewOperationValue d (provisionType v))) s1 = Some ((), s2)"
    and f2: "log s2 = log s1" "contentStore s2 = contentStore s1"
    using withMetrics_run by metis
  obtain oc where st: "getContentFromStore (contentNameForDeletion v) s2 = Inr oc"
    using assms g m f f2 by (cases "getContentFromStore (contentNameForDeletion v) s2")
      (auto simp: processSnapshotWithDeletionTimestamp_def)
  have c: "oc = Some c \<Longrightarrow> contentStore s (contentNameForDeletion v) = Some (ObjVSC c)" for c
    using st getContentFromStore_Inr(1)[of "contentNameForDeletion v" s2 c] f f2 by simp
  have "beforeChecks E v s0 = Some s2" using assms(1) g m by (simp add: beforeChecks_def)
  then show ?thesis
    using assms(2) g m st f f2 c
    by (cases oc) (auto simp: processSnapshotWithDeletionTimestamp_def split: if_splits)
qed

lemma reclaim_before:
  assumes "reclaimPVCFinalizer E v s = Some ((), s')"
  shows "\<exists>pre. log s' = log s @ pre \<and> list_all (beforeDelete v) pre \<and> contentStore s' = contentStore s"
proof -
  have "ensures (reclaimPVCFinalizer E v s) (\<lambda>_ s'. contentStore s' = contentStore s)"
    by (rule sameContents.reclaimPVCFinalizer_I) auto
  moreover have "ensures (reclaimPVCFinalizer E v s) (\<lambda>_ s'. onlyNew (beforeDelete v) (log s) s')"
    by (rule only.reclaimPVCFinalizer_I) (auto simp: onlyNew_refl beforeDelete_def)
  ultimately show ?thesis using assms by (auto simp: onlyNew_def ensures_def)
qed

lemma syncLive_noDelete:
  assumes "syncLiveSnapshot E v s = Some (r, s')"
  shows "onlyNew notDelete (log s) s'"
proof -
  have "ensures (syncLiveSnapshot E v s) (\<lambda>_ s'. onlyNew notDelete (log s) s')"
    by (rule only.syncLiveSnapshot_I) (auto simp: onlyNew_refl)
  then show ?thesis using assms by (simp add: ensures_def)
qed

text \<open>C2: The reconciler of a snapshot deletes at most one content, and only when these checks have passed: the
  snapshot is being deleted and carries one of its finalizers; the content is the cached one under the bound (or
  derived) name, points back to the name, namespace and UID of this very snapshot and has policy Delete; the listed
  claims of the namespace include no pending one with the snapshot as its data source; and the snapshot's group, if any,
  is gone. The check of the claims is only as good as the list: when the claims cannot be listed the deletion goes on.
  The deletion comes after the being-deleted annotation, which is written exactly when it is missing and then accepted
  by the server, and goes to the content that carries it. It is followed only by events and the removal of finalizers,
  of which the bound finalizer is not one.\<close>

theorem content_deletion_guarded:
  assumes "syncSnapshot E v s = Some (r, s')" and "log s' = log s @ new" and "DeleteVSC n \<in> set new"
  shows "\<exists>t c pre post pvcs w1 w2. beforeChecks E v s = Some t \<and> log t = log s @ pre \<and>
    DeletionTimestamp (vs_meta v) \<noteq> None \<and>
    {VolumeSnapshotAsSourceFinalizer, VolumeSnapshotBoundFinalizer} \<inter> set (Finalizers (vs_meta v)) \<noteq> {} \<and>
    contentStore s (contentNameForDeletion v) = Some (ObjVSC c) \<and> ref_Name (vsc_Ref c) = vs_Name v \<and>
    ref_Namespace (vsc_Ref c) = vs_Namespace v \<and> ref_UID (vsc_Ref c) = vs_UID v \<and>
    vsc_Policy c = VolumeSnapshotContentDelete \<and>
    lister_ListPVC E (vs_Namespace v) (world t) = (pvcs, w1) \<and>
    (\<forall>l. pvcs = Inr l \<longrightarrow> (\<forall>p \<in> set l. \<not> pendingRestore v p)) \<and> groupGone E v w1 w2 \<and>
    new = pre @ annotationLog c @ DeleteVSC n # post \<and> deletesUnder E c w2 n \<and>
    list_all (beforeDelete v) pre \<and> list_all (afterDelete v (inGroup v)) post"
proof -
  obtain s2 where c1: "reclaimPVCFinalizer E v s = Some ((), s2)"
    using assms by (auto simp: syncSnapshot_def split: Option.bind_splits)
  from reclaim_before[OF this] obtain pre where p: "log s2 = log s @ pre" "list_all (beforeDelete v) pre"
      "contentStore s2 = contentStore s" by blast
  show ?thesis
  proof (cases "DeletionTimestamp (vs_meta v) = None")
    case False
    then have run: "processSnapshotWithDeletionTimestamp E v s2 = Some (r, s')"
      using assms(1) c1 by (simp add: syncSnapshot_def)
    have "ensures (processSnapshotWithDeletionTimestamp E v s2) (\<lambda>_ s'. onlyNew (\<lambda>_. True) (log s2) s')"
      by (rule only.processSnapshotWithDeletionTimestamp_I) (auto simp: onlyNew_refl)
    then obtain new2 where n2: "log s' = log s2 @ new2" using run by (auto simp: onlyNew_def ensures_def)
    have "DeleteVSC n \<in> set new2" using n2 p assms(2,3) beforeDelete_notDelete[OF p(2), of n] by auto
    then have ne: "new2 \<noteq> []" by auto
    obtain s3 content del where pr: "log s3 = log s2" "contentStore s3 = contentStore s2" "beforeChecks E v s = Some s3"
      "checkandRemoveSnapshotFinalizersAndCheckandDeleteContent E v content del s3 = Some (r, s')"
      "\<forall>c. content = Some c \<longrightarrow> contentStore s2 (contentNameForDeletion v) = Some (ObjVSC c) \<and>
         IsVolumeSnapshotRefSet v c \<and> del = (vsc_Policy c = VolumeSnapshotContentDelete)"
      using process_run[OF c1 run n2 ne] by blast
    have new2: "log s' = log s3 @ new2" using n2 pr(1) by simp
    obtain c post pvcs w1 w2 where d: "content = Some c" "del" "IsSnapshotDeletionCandidate v"
      "lister_ListPVC E (vs_Namespace v) (world s3) = (pvcs, w1)"
      "\<forall>l. pvcs = Inr l \<longrightarrow> (\<forall>p \<in> set l. \<not> pendingRestore v p)" "groupGone E v w1 w2"
      "new2 = annotationLog c @ DeleteVSC n # post" "deletesUnder E c w2 n" "list_all (afterDelete v (inGroup v)) post"
      using checkandRemove_log[OF pr(4) new2 \<open>DeleteVSC n \<in> set new2\<close>] by blast
    have "new = pre @ annotationLog c @ DeleteVSC n # post" using assms(2) n2 p(1) d(7) by simp
    moreover have "{VolumeSnapshotAsSourceFinalizer, VolumeSnapshotBoundFinalizer} \<inter> set (Finalizers (vs_meta v)) \<noteq> {}"
      using d(3) by (auto simp: IsSnapshotDeletionCandidate_def Contains_def)
    moreover have "contentStore s (contentNameForDeletion v) = Some (ObjVSC c) \<and> ref_Name (vsc_Ref c) = vs_Name v \<and>
        ref_Namespace (vsc_Ref c) = vs_Namespace v \<and> ref_UID (vsc_Ref c) = vs_UID v \<and>
        vsc_Policy c = VolumeSnapshotContentDelete"
      using pr(5) d(1,2) p(3) by (auto simp: IsVolumeSnapshotRefSet_def)
    ultimately show ?thesis
      by (intro exI[of _ s3] exI[of _ c] exI[of _ pre] exI[of _ post] exI[of _ pvcs] exI[of _ w1] exI[of _ w2])
        (use pr(1,3) p d False in simp)
  next
    case True
    then have "syncLiveSnapshot E v s2 = Some (r, s')"
      using assms(1) c1 by (simp add: syncSnapshot_def)
    from syncLive_noDelete[OF this] have "DeleteVSC n \<notin> set new"
      using assms(2) p beforeDelete_notDelete[OF p(2), of n] by (auto simp: onlyNew_def notDelete_def list_all_iff)
    then show ?thesis using assms(3) by simp
  qed
qed


definition demoDeleted :: VolumeSnapshot where
  "demoDeleted = demoSnapshot\<lparr>vs_meta := (vs_meta demoSnapshot)\<lparr>DeletionTimestamp := Some 4,
       Finalizers := [VolumeSnapshotAsSourceFinalizer, VolumeSnapshotBoundFinalizer]\<rparr>,
     vs_Status := Some (emptyStatus\<lparr>BoundVolumeSnapshotContentName := Some ''snapcontent-uid1''\<rparr>)\<rparr>"

definition demoAnnotated :: VolumeSnapshotContent where
  "demoAnnotated = demoContent\<lparr>vsc_meta :=
     SetMetaDataAnnotation (vsc_meta demoContent) AnnVolumeSnapshotBeingDeleted ''yes''\<rparr>"

definition demoAnnotatedState :: "unit st" where
  "demoAnnotatedState = (initialState ())\<lparr>contentStore := [''snapcontent-uid1'' \<mapsto> ObjVSC demoAnnotated]\<rparr>"

lemma demoDeleted_sel:
  "vs_PVCName demoDeleted = None" "vs_ContentName demoDeleted = None" "vs_ClassName demoDeleted = None"
  "vs_Status demoDeleted = Some (emptyStatus\<lparr>BoundVolumeSnapshotContentName := Some ''snapcontent-uid1''\<rparr>)"
  "DeletionTimestamp (vs_meta demoDeleted) = Some 4" "IsSnapshotDeletionCandidate demoDeleted"
  "contentNameForDeletion demoDeleted = ''snapcontent-uid1''" "inGroup demoDeleted = False"
  by (simp_all add: demoDeleted_def demoSnapshot_def emptyVolumeSnapshot_def IsSnapshotDeletionCandidate_def
      Contains_def contentNameForDeletion_def inGroup_def emptyStatus_def)

lemma demoAnnotated_sel:
  "vsc_Name demoAnnotated = ''snapcontent-uid1''" "IsVolumeSnapshotRefSet demoDeleted demoAnnotated"
  "vsc_Policy demoAnnotated = VolumeSnapshotContentDelete"
  "HasAnnotation (vsc_meta demoAnnotated) AnnVolumeSnapshotBeingDeleted"
  by (simp_all add: demoAnnotated_def demoContent_def IsVolumeSnapshotRefSet_def demoDeleted_def demoSnapshot_def
      emptyVolumeSnapshot_def emptyMeta_def emptyRef_def)

lemma demo_delete_step:
  "\<exists>s'. deleteContentAndRemoveFinalizers nullEnv demoDeleted (Some demoAnnotated) True False s = Some (None, s') \<and>
     DeleteVSC ''snapcontent-uid1'' \<in> set (log s')"
  by (simp add: deleteContentAndRemoveFinalizers_def setAnnVolumeSnapshotBeingDeleted_def demoAnnotated_sel
      removeSnapshotFinalizer_def checkandRemovePVCFinalizer_def demoDeleted_sel nullEnv_def act_def call_def
      storeSnapshotUpdate_def Let_def split: prod.split)

lemma demo_delete_run:
  "\<exists>s'. syncSnapshot nullEnv demoDeleted demoAnnotatedState = Some (None, s') \<and>
     DeleteVSC ''snapcontent-uid1'' \<in> set (log s')"
proof -
  let ?op = "OperationStart (NewOperationKey DeleteSnapshotOperationName (vs_UID demoDeleted))
      (NewOperationValue [] (provisionType demoDeleted))"
  have r: "reclaimPVCFinalizer nullEnv demoDeleted demoAnnotatedState = Some ((), demoAnnotatedState)"
    by (simp add: reclaimPVCFinalizer_def checkandRemovePVCFinalizer_def demoDeleted_sel)
  have d: "getSnapshotDriverName nullEnv demoDeleted demoAnnotatedState = Some ([], demoAnnotatedState)"
    by (simp add: getSnapshotDriverName_def demoDeleted_sel)
  obtain s2 where m: "withMetrics nullEnv ?op demoAnnotatedState = Some ((), s2)"
      "contentStore s2 = contentStore demoAnnotatedState"
    using withMetrics_run by metis
  have c: "getContentFromStore ''snapcontent-uid1'' s2 = Inr (Some demoAnnotated)"
    by (simp add: getContentFromStore_def m demoAnnotatedState_def)
  have b: "isVolumeBeingCreatedFromSnapshot nullEnv demoDeleted s2 = Some (False, s2)"
    by (simp add: isVolumeBeingCreatedFromSnapshot_def nullEnv_def call_def)
  have g: "checkGroupMembership nullEnv demoDeleted s2 = Some (Inr False, s2)"
    by (simp add: checkGroupMembership_def demoDeleted_sel emptyStatus_def)
  show ?thesis
    using demo_delete_step[of s2] r d m c b g
    by (simp add: syncSnapshot_def demoDeleted_sel processSnapshotWithDeletionTimestamp_def demoAnnotated_sel
        checkandRemoveSnapshotFinalizersAndCheckandDeleteContent_def)
qed

theorem content_deletion_guarded_witness:
  "\<exists>s' pre post. syncSnapshot nullEnv demoDeleted demoAnnotatedState = Some (None, s') \<and>
     log s' = pre @ DeleteVSC ''snapcontent-uid1'' # post \<and> list_all (afterDelete demoDeleted False) post"
proof -
  obtain s' where run: "syncSnapshot nullEnv demoDeleted demoAnnotatedState = Some (None, s')"
    and d: "DeleteVSC ''snapcontent-uid1'' \<in> set (log s')" using demo_delete_run by blast
  have l: "log s' = log demoAnnotatedState @ log s'" by (simp add: demoAnnotatedState_def initialState_def)
  obtain pre c post where "log s' = (pre @ annotationLog c) @ DeleteVSC ''snapcontent-uid1'' # post"
      "list_all (afterDelete demoDeleted False) post"
    using content_deletion_guarded[OF run l d] unfolding demoDeleted_sel(8) append_assoc by blast
  then show ?thesis using run by blast
qed

section \<open>Creating a content\<close>

text \<open>At most one content is created, under a condition on what was done before and on the content.\<close>

definition oneCreate ::
  "(action list \<Rightarrow> VolumeSnapshotContent \<Rightarrow> bool) \<Rightarrow> action list \<Rightarrow> 'w st \<Rightarrow> bool" where
  "oneCreate P l s = (\<exists>new. log s = l @ new \<and>
     (list_all notCreate new \<or>
      (\<exists>c pre post. new = pre @ CreateVSC c # post \<and> list_all notCreate pre \<and> list_all notCreate post \<and>
         P pre c)))"

interpretation once: effects "oneCreate P l" notCreate "\<lambda>_. True" for P l
proof unfold_locales
  fix a and s :: "'b st" assume a: "notCreate a" and "oneCreate P l s"
  then obtain new where n: "log s = l @ new" "list_all notCreate new \<or>
      (\<exists>c pre post. new = pre @ CreateVSC c # post \<and> list_all notCreate pre \<and> list_all notCreate post \<and> P pre c)"
    unfolding oneCreate_def by blast
  have "list_all notCreate (new @ [a]) \<or> (\<exists>c pre post. new @ [a] = pre @ CreateVSC c # post \<and>
      list_all notCreate pre \<and> list_all notCreate post \<and> P pre c)"
    using n(2)
  proof (elim disjE exE conjE)
    fix c pre post assume "new = pre @ CreateVSC c # post" "list_all notCreate pre" "list_all notCreate post" "P pre c"
    then show ?thesis using a by (intro disjI2 exI[of _ c] exI[of _ pre] exI[of _ "post @ [a]"]) simp
  qed (use a in simp)
  then show "oneCreate P l (s\<lparr>log := log s @ [a]\<rparr>)" using n(1) unfolding oneCreate_def by auto
qed (simp_all add: oneCreate_def)

lemma oneCreate_none: "onlyNew notCreate l s \<Longrightarrow> oneCreate P l s"
  by (auto simp: onlyNew_def oneCreate_def)

lemma oneCreate_mono: "oneCreate P l s \<Longrightarrow> (\<And>pre c. P pre c \<Longrightarrow> P' pre c) \<Longrightarrow> oneCreate P' l s"
  unfolding oneCreate_def by metis

lemma oneCreate_prefix:
  assumes "oneCreate P (l @ pre0) s" "list_all notCreate pre0" "\<And>pre c. P pre c \<Longrightarrow> P' (pre0 @ pre) c"
  shows "oneCreate P' l s"
proof -
  obtain new where n: "log s = (l @ pre0) @ new" "list_all notCreate new \<or>
      (\<exists>c pre post. new = pre @ CreateVSC c # post \<and> list_all notCreate pre \<and> list_all notCreate post \<and> P pre c)"
    using assms(1) unfolding oneCreate_def by blast
  have "list_all notCreate (pre0 @ new) \<or> (\<exists>c pre post. pre0 @ new = pre @ CreateVSC c # post \<and>
      list_all notCreate pre \<and> list_all notCreate post \<and> P' pre c)"
    using n(2)
  proof (elim disjE exE conjE)
    fix c pre post assume "new = pre @ CreateVSC c # post" "list_all notCreate pre" "list_all notCreate post" "P pre c"
    then show ?thesis using assms(2,3)
      by (intro disjI2 exI[of _ c] exI[of _ "pre0 @ pre"] exI[of _ post]) simp
  qed (use assms(2) in simp)
  then show ?thesis using n(1) unfolding oneCreate_def by auto
qed

lemma protects_notCreate: "list_all protects pre \<Longrightarrow> list_all notCreate pre"
  by (auto simp: list_all_iff protects_def notCreate_def)

lemma isEvent_notCreate: "isEvent e \<Longrightarrow> notCreate e"
  by (auto simp: isEvent_def notCreate_def)

lemma createSnapshotContent_once:
  "ensures (createSnapshotContent E v s) (\<lambda>_ s'. oneCreate (\<lambda>_. dynamicContentFor v) (log s) s')"
  unfolding createSnapshotContent_def ensures_bind
proof (rule ensures_mono[OF ensurePVCFinalizer_log], goal_cases)
  case (1 err s1)
  then obtain pre where p: "log s1 = log s @ pre" "list_all notCreate pre"
    using protects_notCreate by blast
  have "ensures (createContentFromInput E v s1) (\<lambda>_ s'. oneCreate (\<lambda>_. dynamicContentFor v) (log s1) s')"
    by (rule ensures_mono[OF createContentFromInput_log])
      (force simp: oneCreate_def dest: isEvent_notCreate)
  then have "ensures (createContentFromInput E v s1) (\<lambda>_ s'. oneCreate (\<lambda>_. dynamicContentFor v) (log s) s')"
    by (rule ensures_mono) (use p oneCreate_prefix[of "\<lambda>_. dynamicContentFor v"] in simp)
  then show ?case using p by (auto simp: onlyNew_def intro: oneCreate_none split: option.split)
qed

definition mayCreate :: "VolumeSnapshot \<Rightarrow> 'w st \<Rightarrow> VolumeSnapshotContent \<Rightarrow> bool" where
  "mayCreate v s c \<longleftrightarrow> dynamicContentFor v c \<and> vs_PVCName v \<noteq> None \<and> vs_ContentName v = None \<and>
     \<not> IsVolumeGroupSnapshotMember v \<and>
     contentStore s (GetDynamicSnapshotContentNameForSnapshot v) = None"

lemma syncUnreadyDynamic_once:
  assumes "vs_ContentName v = None" "\<not> IsVolumeGroupSnapshotMember v"
  shows "ensures (syncUnreadyDynamic E v s) (\<lambda>_ s'. oneCreate (\<lambda>_. mayCreate v s) (log s) s')"
proof (cases "getDynamicallyProvisionedContentFromStore E v s")
  case None
  then show ?thesis by (simp add: syncUnreadyDynamic_def)
next
  case (Some p)
  obtain r s1 where p: "p = (r, s1)" by (cases p)
  show ?thesis
  proof (cases "r = Inr None \<and> vs_PVCName v \<noteq> None")
    case True
    have e: "s1 = s \<and> contentStore s (GetDynamicSnapshotContentNameForSnapshot v) = None"
      using dynamic_result[of E v s None s1] Some p True by simp
    have P: "oneCreate (\<lambda>_. dynamicContentFor v) (log s) s' \<Longrightarrow> oneCreate (\<lambda>_. mayCreate v s) (log s) s'" for s' :: "'a st"
      by (erule oneCreate_mono) (use assms e True in \<open>simp add: mayCreate_def\<close>)
    have c: "ensures (createSnapshotContent E v s) (\<lambda>_ s'. oneCreate (\<lambda>_. mayCreate v s) (log s) s')"
      by (rule ensures_mono[OF createSnapshotContent_once]) (rule P)
    show ?thesis
      using Some p True e
      by (auto simp: syncUnreadyDynamic_def intro!: ensures_mono[OF c] once.finishStatus_I
          once.updateSnapshotErrorStatusWithEvent_I split: sum.split)
  next
    case False
    have "ensures (getDynamicallyProvisionedContentFromStore E v s) (\<lambda>_ s'. onlyNew notCreate (log s) s')"
      by (rule only.getDynamicallyProvisionedContentFromStore_I) (simp_all add: onlyNew_refl)
    then have "onlyNew notCreate (log s) s1" using Some p by simp
    then have "ensures (syncUnreadyDynamic E v s) (\<lambda>_ s'. onlyNew notCreate (log s) s')"
      using Some p False
      by (auto simp: syncUnreadyDynamic_def
          intro!: only.updateSnapshotErrorStatusWithEvent_I[where ok = notCreate and ?l0.0 = "log s"]
            only.bindandUpdateVolumeSnapshot_I[where ok = notCreate and ?l0.0 = "log s"]
          split: sum.split option.split)
    then show ?thesis by (rule ensures_mono) (rule oneCreate_none)
  qed
qed

lemma syncUnreadySnapshot_once:
  "ensures (syncUnreadySnapshot E v s) (\<lambda>_ s'. oneCreate (\<lambda>_. mayCreate v s) (log s) s')"
proof -
  have a: "ensures (getSnapshotDriverName E v s) (\<lambda>_ s'. log s' = log s \<and> contentStore s' = contentStore s)"
    using getSnapshotDriverName_frame by (rule ensuresI)
  have b: "ensures (startCreationMetrics E v d s1) (\<lambda>_ s'. log s' = log s1 \<and> contentStore s' = contentStore s1)" for d s1
    by (simp add: startCreationMetrics_def withMetrics_def ensures_call)
  have m: "mayCreate v s2 = mayCreate v s" if "contentStore s2 = contentStore s" for s2
    using that by (simp add: mayCreate_def fun_eq_iff)
  have pre: "ensures (syncUnreadyPreprovisioned E v n s2) (\<lambda>_ s'. oneCreate (\<lambda>_. mayCreate v s) (log s2) s')" for n s2
    by (rule once.syncUnreadyPreprovisioned_I) (auto simp: oneCreate_none onlyNew_refl)
  have grp: "ensures (syncUnreadyGroupMember E v s2) (\<lambda>_ s'. oneCreate (\<lambda>_. mayCreate v s) (log s2) s')" for s2
    by (rule once.syncUnreadyGroupMember_I) (auto simp: oneCreate_none onlyNew_refl)
  show ?thesis unfolding syncUnreadySnapshot_def ensures_bind
  proof (rule ensures_mono[OF a], goal_cases)
    case (1 d s1)
    have br: "ensures (case vs_ContentName v of
           Some contentName \<Rightarrow> syncUnreadyPreprovisioned E v contentName s2
         | None \<Rightarrow> if IsVolumeGroupSnapshotMember v then syncUnreadyGroupMember E v s2
            else syncUnreadyDynamic E v s2) (\<lambda>_ s'. oneCreate (\<lambda>_. mayCreate v s) (log s) s')"
      if "log s2 = log s" "contentStore s2 = contentStore s" for s2
      using pre[of _ s2] grp[of s2] syncUnreadyDynamic_once[of v E s2] that m[OF that(2)]
      by (auto split: option.split)
    show ?case unfolding prod.case ensures_bind
      by (rule ensures_mono[OF b], rule br) (simp_all add: 1)
  qed
qed

text \<open>A write that puts a finalizer on a snapshot.\<close>

definition addsFinalizer :: "string \<Rightarrow> action \<Rightarrow> bool" where
  "addsFinalizer f a =
    (case a of
       UpdateVS v \<Rightarrow> f \<in> set (Finalizers (vs_meta v))
     | PatchVS ns n ops sub \<Rightarrow> patchOp ''add'' ''/metadata/finalizers/-'' (PVString f) \<in> set ops
     | _ \<Rightarrow> False)"

lemma addSnapshotFinalizer_log:
  "ensures (addSnapshotFinalizer E v a b s) (\<lambda>r s'. contentStore s' = contentStore s \<and>
     (\<exists>w. log s' = log s @ [w] \<and> notCreate w \<and> (a \<longrightarrow> addsFinalizer VolumeSnapshotAsSourceFinalizer w) \<and>
       (b \<longrightarrow> addsFinalizer VolumeSnapshotBoundFinalizer w)))"
proof -
  have store: "ensures (storeSnapshotUpdate u s1) Q"
    if "\<And>r s2. log s2 = log s1 \<Longrightarrow> contentStore s2 = contentStore s1 \<Longrightarrow> Q r s2"
    for u and s1 :: "'a st" and Q :: "goerr + bool \<Rightarrow> 'a st \<Rightarrow> bool"
    using that by (simp add: storeSnapshotUpdate_def split: prod.split)
  define c where "c = v\<lparr>vs_meta := (vs_meta v)\<lparr>Finalizers :=
      (if a then [VolumeSnapshotAsSourceFinalizer] else []) @
      (if b then [VolumeSnapshotBoundFinalizer] else [])\<rparr>\<rparr>"
  define ops where "ops =
      (if a then [patchOp ''add'' ''/metadata/finalizers/-'' (PVString VolumeSnapshotAsSourceFinalizer)] else []) @
      (if b then [patchOp ''add'' ''/metadata/finalizers/-'' (PVString VolumeSnapshotBoundFinalizer)] else [])"
  have w: "w \<in> {UpdateVS c, PatchVS (vs_Namespace v) (vs_Name v) ops []} \<Longrightarrow>
      notCreate w \<and> (a \<longrightarrow> addsFinalizer VolumeSnapshotAsSourceFinalizer w) \<and>
       (b \<longrightarrow> addsFinalizer VolumeSnapshotBoundFinalizer w)" for w
    by (auto simp: c_def ops_def addsFinalizer_def)
  show ?thesis
    unfolding addSnapshotFinalizer_def Let_def c_def[symmetric] ops_def[symmetric]
    by (cases "length (Finalizers (vs_meta v)) = 0")
      (auto simp: ensures_act PatchVolumeSnapshot_def w intro!: store split: sum.split)
qed

lemma checkandAdd_once:
  "ensures (checkandAddSnapshotFinalizers E v s) (\<lambda>r s'. contentStore s' = contentStore s \<and>
     (\<exists>pre. log s' = log s @ pre \<and> list_all notCreate pre \<and>
       (r = None \<and> NeedToAddSnapshotAsSourceFinalizer v \<longrightarrow>
          (\<exists>w \<in> set pre. addsFinalizer VolumeSnapshotAsSourceFinalizer w))))"
proof (rule ensuresI)
  fix r s' assume run: "checkandAddSnapshotFinalizers E v s = Some (r, s')"
  have "ensures (checkandAddSnapshotFinalizers E v s) (\<lambda>_ s'. contentStore s' = contentStore s)"
    by (rule sameContents.checkandAddSnapshotFinalizers_I) auto
  then have c: "contentStore s' = contentStore s" using run by simp
  have "ensures (checkandAddSnapshotFinalizers E v s) (\<lambda>_ s'. onlyNew notCreate (log s) s')"
    by (rule only.checkandAddSnapshotFinalizers_I) (auto simp: onlyNew_refl)
  then obtain pre where pre: "log s' = log s @ pre" "list_all notCreate pre" using run by (auto simp: onlyNew_def)
  have "\<exists>w \<in> set pre. addsFinalizer VolumeSnapshotAsSourceFinalizer w"
    if ok: "r = None" "NeedToAddSnapshotAsSourceFinalizer v"
  proof -
    obtain oc b where a: "(if vs_ContentName v \<noteq> None then getPreprovisionedContentFromStore E v s
        else getDynamicallyProvisionedContentFromStore E v s) = Some (Inr oc, s)"
      "addSnapshotFinalizer E v True b s = Some (r, s')"
      using run ok preprovisioned_result[of E v s _ s] dynamic_result[of E v s _ s]
      by (auto simp: checkandAddSnapshotFinalizers_def Let_def split: if_splits Option.bind_splits sum.splits
          dest!: preprovisioned_result dynamic_result)
    then show ?thesis using addSnapshotFinalizer_log[of E v True b s] pre by (auto simp: ensures_def)
  qed
  then show "contentStore s' = contentStore s \<and> (\<exists>pre. log s' = log s @ pre \<and> list_all notCreate pre \<and>
       (r = None \<and> NeedToAddSnapshotAsSourceFinalizer v \<longrightarrow>
          (\<exists>w \<in> set pre. addsFinalizer VolumeSnapshotAsSourceFinalizer w)))"
    using c pre by blast
qed

text \<open>What precedes the creation, and when a content may be created.\<close>

definition createGuard :: "VolumeSnapshot \<Rightarrow> 'w st \<Rightarrow> action list \<Rightarrow> VolumeSnapshotContent \<Rightarrow> bool" where
  "createGuard v s pre c \<longleftrightarrow> mayCreate v s c \<and>
     (NeedToAddSnapshotAsSourceFinalizer v \<longrightarrow> (\<exists>w \<in> set pre. addsFinalizer VolumeSnapshotAsSourceFinalizer w))"

lemma syncLiveSnapshot_once:
  "ensures (syncLiveSnapshot E v s) (\<lambda>_ s'. oneCreate (createGuard v s) (log s) s')"
proof (cases "(vs_PVCName v = None) = (vs_ContentName v = None)")
  case True
  then show ?thesis
    by (auto simp: syncLiveSnapshot_def oneCreate_none onlyNew_refl
        intro!: once.updateSnapshotErrorStatusWithEvent_I[where P = "createGuard v s" and l = "log s"])
next
  case False
  show ?thesis unfolding syncLiveSnapshot_def if_not_P[OF False] ensures_bind
  proof (rule ensures_mono[OF checkandAdd_once], goal_cases)
    case (1 err s1)
    then obtain pre where pre: "contentStore s1 = contentStore s" "log s1 = log s @ pre" "list_all notCreate pre"
      "err = None \<and> NeedToAddSnapshotAsSourceFinalizer v \<longrightarrow>
         (\<exists>w \<in> set pre. addsFinalizer VolumeSnapshotAsSourceFinalizer w)" by blast
    have none: "oneCreate (createGuard v s) (log s) s1"
      by (rule oneCreate_none) (use pre in \<open>auto simp: onlyNew_def\<close>)
    have unready: "ensures (syncUnreadySnapshot E v s1) (\<lambda>_ s'. oneCreate (createGuard v s) (log s) s')" if "err = None"
      by (rule ensures_mono[OF syncUnreadySnapshot_once],
          rule oneCreate_prefix[where ?pre0.0 = pre and P = "\<lambda>_. mayCreate v s1"])
        (use pre that in \<open>auto simp: createGuard_def mayCreate_def\<close>)
    have ready: "ensures (syncReadySnapshot E v s1) (\<lambda>_ s'. oneCreate (createGuard v s) (log s) s')"
      by (rule once.syncReadySnapshot_I) (use none in auto)
    show ?case using unready ready none by (auto intro: once.emit_I split: option.split)
  qed
qed


definition demoSyncEnv :: "unit env" where
  "demoSyncEnv = demoCreateEnv\<lparr>lister_ListVS := \<lambda>_ w. (Inr [demoDynamic], w)\<rparr>"

lemma demoDynamic_sel:
  "vs_PVCName demoDynamic = Some ''claim1''" "vs_ContentName demoDynamic = None"
  "vs_ClassName demoDynamic = Some ''class1''" "vs_Status demoDynamic = None"
  "DeletionTimestamp (vs_meta demoDynamic) = None" "Finalizers (vs_meta demoDynamic) = []"
  "vs_Namespace demoDynamic = ''ns1''" "vs_Name demoDynamic = ''snap1''" "\<not> IsSnapshotReady demoDynamic"
  "\<not> IsVolumeGroupSnapshotMember demoDynamic" "\<not> IsSnapshotCreated demoDynamic"
  "NeedToAddSnapshotAsSourceFinalizer demoDynamic"
  by (simp_all add: demoDynamic_def demoSnapshot_def emptyVolumeSnapshot_def emptyMeta_def IsSnapshotReady_def
      IsVolumeGroupSnapshotMember_def getVolumeGroupSnapshotParentObjectName_def IsSnapshotCreated_def
      NeedToAddSnapshotAsSourceFinalizer_def Contains_def)

lemma demo_sync_create:
  "\<exists>c s'. createSnapshotContent demoSyncEnv demoDynamic s = Some (Inr c, s') \<and> CreateVSC c \<in> set (log s') \<and>
     vsc_Status c = None"
  by (simp add: createSnapshotContent_def createContentFromInput_def ensurePVCFinalizer_def
      getClaimFromVolumeSnapshot_def getCreateSnapshotInput_def getSnapshotClass_def
      getVolumeFromVolumeSnapshot_def isVolumeBoundToClaim_def saveSnapshotContent_def
      GetSecretReference_def verifyAndGetSecretNameAndNamespaceTemplate_def mapGet_def demoDynamic_sel
      demoSyncEnv_def demoCreateEnv_def nullEnv_def demoPVC_def demoPV_def demoClass_def emptyMeta_def emptyRef_def
      Contains_def call_def act_def emit_def newSnapshotContent_bound storeContentUpdate_def Let_def split: prod.split)

lemma demo_sync_finish:
  "vsc_Status c = None \<Longrightarrow> \<exists>r s'. finishStatus demoSyncEnv demoDynamic c s = Some (r, s') \<and> set (log s) \<subseteq> set (log s')"
  by (auto simp: finishStatus_def updateSnapshotStatus_def groupNameForContent_def demoSyncEnv_def demoCreateEnv_def
      nullEnv_def notFound_def call_def act_def emit_def updateSnapshotErrorStatusWithEvent_def sameError_def
      storeSnapshotUpdate_def demoDynamic_sel Let_def split: prod.split sum.split)

lemma demo_sync_run:
  "\<exists>r c s'. syncSnapshot demoSyncEnv demoDynamic (initialState ()) = Some (r, s') \<and> CreateVSC c \<in> set (log s')"
proof -
  let ?s = "initialState () :: unit st" and ?n = "GetDynamicSnapshotContentNameForSnapshot demoDynamic"
  have r: "reclaimPVCFinalizer demoSyncEnv demoDynamic ?s = Some ((), ?s)"
    by (simp add: reclaimPVCFinalizer_def checkandRemovePVCFinalizer_def getClaimFromVolumeSnapshot_def
        isPVCBeingUsed_def demoDynamic_sel demoSyncEnv_def demoCreateEnv_def nullEnv_def demoPVC_def Contains_def call_def)
  have e: "contentStore ?s = Map.empty" by (simp add: initialState_def)
  have g: "getDynamicallyProvisionedContentFromStore demoSyncEnv demoDynamic s = Some (Inr None, s)"
    if "contentStore s = Map.empty" for s :: "unit st"
    using that by (simp add: getDynamicallyProvisionedContentFromStore_def getContentFromStore_def)
  have u: "api_UpdateVS demoSyncEnv v w = (Inr v, w)" for v w
    by (simp add: demoSyncEnv_def demoCreateEnv_def nullEnv_def)
  have "\<exists>s1. checkandAddSnapshotFinalizers demoSyncEnv demoDynamic ?s = Some (None, s1) \<and> contentStore s1 = Map.empty"
    by (simp add: checkandAddSnapshotFinalizers_def g[OF e] e demoDynamic_sel addSnapshotFinalizer_def act_def call_def
        u storeSnapshotUpdate_def Let_def split: prod.split)
  then obtain s1 where a: "checkandAddSnapshotFinalizers demoSyncEnv demoDynamic ?s = Some (None, s1)"
      "contentStore s1 = Map.empty" by blast
  have d: "getSnapshotDriverName demoSyncEnv demoDynamic s1 = Some (''drv'', s1)"
    by (simp add: getSnapshotDriverName_def demoDynamic_sel getSnapshotClass_def call_def demoSyncEnv_def
        demoCreateEnv_def demoClass_def Let_def)
  have "\<exists>s2. startCreationMetrics demoSyncEnv demoDynamic ''drv'' s1 = Some ((), s2) \<and> contentStore s2 = Map.empty"
    using a(2) by (simp add: startCreationMetrics_def withMetrics_def call_def split: prod.split)
  then obtain s2 where m: "startCreationMetrics demoSyncEnv demoDynamic ''drv'' s1 = Some ((), s2)"
      "contentStore s2 = Map.empty" by blast
  obtain c s3 where c: "createSnapshotContent demoSyncEnv demoDynamic s2 = Some (Inr c, s3)"
      "CreateVSC c \<in> set (log s3)" "vsc_Status c = None" using demo_sync_create by blast
  obtain r s4 where f: "finishStatus demoSyncEnv demoDynamic c s3 = Some (r, s4)" "set (log s3) \<subseteq> set (log s4)"
    using demo_sync_finish[OF c(3)] by blast
  have "syncSnapshot demoSyncEnv demoDynamic ?s = Some (r, s4)"
    by (simp add: syncSnapshot_def r syncLiveSnapshot_def a d m g c f syncUnreadySnapshot_def
        syncUnreadyDynamic_def demoDynamic_sel)
  then show ?thesis using c f by blast
qed


section \<open>Content events\<close>

text \<open>The write of \<open>addContentFinalizer\<close>.\<close>

definition finalizerLog :: "VolumeSnapshotContent \<Rightarrow> action list" where
  "finalizerLog c = [PatchVSC (vsc_Name c)
     (if Finalizers (vsc_meta c) = []
      then [patchOp ''add'' ''/metadata/finalizers'' (PVStrings [VolumeSnapshotContentFinalizer])]
      else [patchOp ''add'' ''/metadata/finalizers/-'' (PVString VolumeSnapshotContentFinalizer)]) []]"

lemma addContentFinalizer_log:
  assumes "addContentFinalizer E c s = Some (r, s')"
  shows "log s' = log s @ finalizerLog c"
  using assms by (auto simp: addContentFinalizer_def Let_def PatchVolumeSnapshotContent_def act_def call_def
      storeContentUpdate_def finalizerLog_def split: sum.splits prod.splits if_splits)

text \<open>A snapshot that is being deleted and carries one of the two finalizers of its own.\<close>

lemma deletionCandidate_iff:
  "IsSnapshotDeletionCandidate v \<longleftrightarrow> DeletionTimestamp (vs_meta v) \<noteq> None \<and>
    (VolumeSnapshotAsSourceFinalizer \<in> set (Finalizers (vs_meta v)) \<or>
     VolumeSnapshotBoundFinalizer \<in> set (Finalizers (vs_meta v)))"
  by (simp add: IsSnapshotDeletionCandidate_def Contains_def)

text \<open>What the reconciler of a content may do with it: the events, the key for the queue of the snapshots, and the two
  patches with their conditions.\<close>

definition contentEffect :: "VolumeSnapshotContent \<Rightarrow> 'w st \<Rightarrow> action \<Rightarrow> bool" where
  "contentEffect c s a \<longleftrightarrow>
    (\<exists>t r m. a = Event (ObjVSC c) t r m) \<or> a = QueueAdd QSnapshot (SnapshotRefKey (vsc_Ref c)) \<or>
    (vsc_VolumeHandle c = None) \<noteq> (vsc_SnapshotHandle c = None) \<and> ref_UID (vsc_Ref c) \<noteq> [] \<and>
    ((a = PatchVSC (vsc_Name c)
        (if Finalizers (vsc_meta c) = []
         then [patchOp ''add'' ''/metadata/finalizers'' (PVStrings [VolumeSnapshotContentFinalizer])]
         else [patchOp ''add'' ''/metadata/finalizers/-'' (PVString VolumeSnapshotContentFinalizer)]) [] \<and>
      DeletionTimestamp (vsc_meta c) = None \<and> VolumeSnapshotContentFinalizer \<notin> set (Finalizers (vsc_meta c))) \<or>
     (a = PatchVSC (vsc_Name c) (annotationPatch c) [] \<and>
      \<not> HasAnnotation (vsc_meta c) AnnVolumeSnapshotBeingDeleted \<and>
      (\<exists>v. snapshotStore s (SnapshotRefKey (vsc_Ref c)) = Some (ObjVS v) \<and> vs_UID v = ref_UID (vsc_Ref c) \<and>
         DeletionTimestamp (vs_meta v) \<noteq> None \<and>
         (VolumeSnapshotAsSourceFinalizer \<in> set (Finalizers (vs_meta v)) \<or>
          VolumeSnapshotBoundFinalizer \<in> set (Finalizers (vs_meta v))))))"

lemma syncContent_own:
  assumes run: "syncContent E c s = Some (r, s')"
    and v: "snapshotStore s (SnapshotRefKey (vsc_Ref c)) = Some (ObjVS v)" "vs_UID v = ref_UID (vsc_Ref c)"
    and c: "(vsc_VolumeHandle c = None) \<noteq> (vsc_SnapshotHandle c = None)" "ref_UID (vsc_Ref c) \<noteq> []"
      "\<not> NeedToAddContentFinalizer c"
  shows "\<exists>new. log s' = log s @ new \<and> list_all (contentEffect c s) new"
proof -
  let ?k = "SnapshotRefKey (vsc_Ref c)"
  obtain b where b: "needsUpdateSnapshotStatus v c = Some b"
    using assms by (auto simp: syncContent_def getSnapshotFromStore_def split: Option.bind_splits)
  define s1 where "s1 = (if b then emit (QueueAdd QSnapshot ?k) s else s)"
  define q where "q = (if b then [QueueAdd QSnapshot ?k] else [])"
  have q: "log s1 = log s @ q" "list_all (contentEffect c s) q"
    by (simp_all add: s1_def q_def emit_def contentEffect_def)
  have step: "(if IsSnapshotDeletionCandidate v then
        do { ((_, err), s) \<leftarrow> setAnnVolumeSnapshotBeingDeleted E c s1; Some (err, s) }
      else Some (None, s1)) = Some (r, s')"
    using assms b unfolding s1_def
    by (cases b; cases "IsSnapshotDeletionCandidate v") (simp_all add: syncContent_def getSnapshotFromStore_def)
  show ?thesis
  proof (cases "IsSnapshotDeletionCandidate v")
    case False
    then show ?thesis using q step by auto
  next
    case cand: True
    then obtain c1 where "setAnnVolumeSnapshotBeingDeleted E c s1 = Some ((c1, r), s')"
      using step by (auto split: Option.bind_splits)
    from setAnn_log[OF this] q have l: "log s' = log s @ q @ annotationLog c" by simp
    have "list_all (contentEffect c s) (annotationLog c)"
      using v cand c by (simp add: annotationLog_def contentEffect_def deletionCandidate_iff)
    then show ?thesis using l q(2) by (intro exI[of _ "q @ annotationLog c"]) simp
  qed
qed

text \<open>C17: The reconciler of a content neither deletes it nor writes its status. All it does is emit events of the content,
  queue its snapshot, and send one of two patches, both only for a valid content, with exactly one of the two handles,
  that is bound to a UID. The finalizer is added only when the content is not being deleted and lacks it. The
  being-deleted annotation, which lets the driver delete the data, is set only when it is missing and the cached
  snapshot under the content's reference has exactly the UID of that reference and is itself being deleted with a
  finalizer of its own. So a valid content that has the finalizer, or is being deleted, and whose snapshot is missing
  or was replaced by another one of the same name, is left alone: no effect, no error and no change to any cache.\<close>

theorem content_sync_no_data_loss:
  assumes "syncContent E c s = Some (r, s')"
  shows "\<exists>new. log s' = log s @ new \<and> list_all (contentEffect c s) new \<and>
    ((vsc_VolumeHandle c = None) \<noteq> (vsc_SnapshotHandle c = None) \<and>
      (DeletionTimestamp (vsc_meta c) \<noteq> None \<or> VolumeSnapshotContentFinalizer \<in> set (Finalizers (vsc_meta c))) \<and>
      (case snapshotStore s (SnapshotRefKey (vsc_Ref c)) of
         None \<Rightarrow> True | Some (ObjVS v) \<Rightarrow> vs_UID v \<noteq> ref_UID (vsc_Ref c) | _ \<Rightarrow> False) \<longrightarrow>
     r = None \<and> s' = s)"
proof -
  let ?k = "SnapshotRefKey (vsc_Ref c)"
  have need: "NeedToAddContentFinalizer c \<longleftrightarrow>
      DeletionTimestamp (vsc_meta c) = None \<and> VolumeSnapshotContentFinalizer \<notin> set (Finalizers (vsc_meta c))"
    by (simp add: NeedToAddContentFinalizer_def Contains_def)
  consider (bad) "(vsc_VolumeHandle c = None) = (vsc_SnapshotHandle c = None)"
    | (unbound) "(vsc_VolumeHandle c = None) \<noteq> (vsc_SnapshotHandle c = None)" "ref_UID (vsc_Ref c) = []"
    | (fin) "(vsc_VolumeHandle c = None) \<noteq> (vsc_SnapshotHandle c = None)" "ref_UID (vsc_Ref c) \<noteq> []"
        "NeedToAddContentFinalizer c"
    | (rest) "(vsc_VolumeHandle c = None) \<noteq> (vsc_SnapshotHandle c = None)" "ref_UID (vsc_Ref c) \<noteq> []"
        "\<not> NeedToAddContentFinalizer c" by blast
  then show ?thesis
  proof cases
    case bad
    then show ?thesis using assms by (auto simp: syncContent_def emit_def contentEffect_def)
  next
    case unbound
    then show ?thesis using assms by (auto simp: syncContent_def need)
  next
    case fin
    then have "addContentFinalizer E c s = Some (r, s')" using assms by (auto simp: syncContent_def)
    from addContentFinalizer_log[OF this] fin show ?thesis by (simp add: finalizerLog_def contentEffect_def need)
  next
    case rest
    show ?thesis
    proof (cases "\<exists>v. snapshotStore s ?k = Some (ObjVS v) \<and> vs_UID v = ref_UID (vsc_Ref c)")
      case False
      then have "s' = s \<and> ((case snapshotStore s ?k of
         None \<Rightarrow> True | Some (ObjVS v) \<Rightarrow> vs_UID v \<noteq> ref_UID (vsc_Ref c) | _ \<Rightarrow> False) \<longrightarrow> r = None)"
        using assms rest by (auto simp: syncContent_def getSnapshotFromStore_def split: option.splits obj.splits)
      then show ?thesis by simp
    next
      case True
      then obtain v where v: "snapshotStore s ?k = Some (ObjVS v)" "vs_UID v = ref_UID (vsc_Ref c)" by blast
      then show ?thesis using syncContent_own[OF assms v rest] by auto
    qed
  qed
qed

definition demoOrphan :: VolumeSnapshotContent where
  "demoOrphan = demoContent\<lparr>vsc_meta := (vsc_meta demoContent)\<lparr>Finalizers := [VolumeSnapshotContentFinalizer]\<rparr>\<rparr>"

theorem content_sync_no_data_loss_witness:
  "syncContent nullEnv demoOrphan (initialState ()) = Some (None, initialState ())"
proof -
  have sel: "vsc_VolumeHandle demoOrphan = Some ''vol1''" "vsc_SnapshotHandle demoOrphan = None"
    "\<not> NeedToAddContentFinalizer demoOrphan" "ref_UID (vsc_Ref demoOrphan) = ''uid1''"
    by (simp_all add: demoOrphan_def demoContent_def emptyVolumeSnapshotContent_def NeedToAddContentFinalizer_def
        Contains_def emptyMeta_def emptyRef_def)
  have e: "snapshotStore (initialState () :: unit st) = Map.empty" by (simp add: initialState_def)
  have "\<exists>r s'. syncContent nullEnv demoOrphan (initialState ()) = Some (r, s')"
    by (simp add: syncContent_def sel getSnapshotFromStore_def e)
  then obtain r s' where run: "syncContent nullEnv demoOrphan (initialState ()) = Some (r, s')" by blast
  have f: "VolumeSnapshotContentFinalizer \<in> set (Finalizers (vsc_meta demoOrphan))" by (simp add: demoOrphan_def)
  have "r = None \<and> s' = initialState ()" using content_sync_no_data_loss[OF run] by (simp add: sel e f, blast)
  then show ?thesis using run by simp
qed

section \<open>Binding\<close>

text \<open>A patch of a content by the reconciler of a snapshot: of the annotations, or one that binds it.\<close>

definition bindsOwn :: "VolumeSnapshot \<Rightarrow> 'w st \<Rightarrow> string \<Rightarrow> PatchOp list \<Rightarrow> bool" where
  "bindsOwn v s n ops \<longleftrightarrow>
    (\<exists>cn c. vs_ContentName v = Some cn \<and> contentStore s cn = Some (ObjVSC c) \<and> n = vsc_Name c \<and>
       vsc_SnapshotHandle c \<noteq> None \<and> ref_Name (vsc_Ref c) = vs_Name v \<and>
       ref_Namespace (vsc_Ref c) = vs_Namespace v \<and> ref_UID (vsc_Ref c) \<in> {[], vs_UID v} \<and>
       (ref_UID (vsc_Ref c) = [] \<or> spec_VolumeSnapshotClassName (vsc_Spec c) = None) \<and>
       ops = patchOp ''replace'' ''/spec/volumeSnapshotRef/uid'' (PVString (vs_UID v)) #
         (case vs_ClassName v of None \<Rightarrow> []
          | Some n \<Rightarrow> [patchOp ''replace'' ''/spec/volumeSnapshotClassName'' (PVString n)]))"

definition patchesOwn :: "VolumeSnapshot \<Rightarrow> 'w st \<Rightarrow> action \<Rightarrow> bool" where
  "patchesOwn v s a =
    (case a of
       PatchVSC n ops sub \<Rightarrow> sub = [] \<and> ((\<exists>m. ops = [patchOp ''replace'' ''/metadata/annotations'' (PVMap m)]) \<or>
         DeletionTimestamp (vs_meta v) = None \<and> bindsOwn v s n ops)
     | _ \<Rightarrow> True)"

lemma patchesOwn_simps [simp]:
  "patchesOwn v s (UpdateVS x)" "patchesOwn v s (UpdateStatusVS x)" "patchesOwn v s (PatchVS n m p q)"
  "patchesOwn v s (CreateVSC c)" "patchesOwn v s (UpdatePVC y)" "patchesOwn v s (Event ob t m m')"
  "patchesOwn v s (DeleteVSC n)"
  "patchesOwn v s (PatchVSC n [patchOp ''replace'' ''/metadata/annotations'' (PVMap mp)] [])"
  by (auto simp: patchesOwn_def)

lemma patchesOwn_cong: "contentStore s = contentStore t \<Longrightarrow> patchesOwn v s = patchesOwn v t"
  by (simp add: patchesOwn_def bindsOwn_def fun_eq_iff split: action.split)

lemma preprovisioned_binds:
  assumes "DeletionTimestamp (vs_meta v) = None"
  shows "ensures (syncUnreadyPreprovisioned E v n s) (\<lambda>_ s'. onlyNew (patchesOwn v s) (log s) s')"
proof -
  have g: "ensures (getPreprovisionedContentFromStore E v s) (\<lambda>_ s'. onlyNew (patchesOwn v s) (log s) s')"
    by (rule only.getPreprovisionedContentFromStore_I) (auto simp: onlyNew_refl)
  have b: "ensures (checkandBindSnapshotContent E v c s) (\<lambda>_ s'. onlyNew (patchesOwn v s) (log s) s')"
    if c: "getPreprovisionedContentFromStore E v s = Some (Inr (Some c), s1)" for c s1
  proof (rule ensuresI)
    fix r s' assume run: "checkandBindSnapshotContent E v c s = Some (r, s')"
    define ops where "ops = patchOp ''replace'' ''/spec/volumeSnapshotRef/uid'' (PVString (vs_UID v)) #
         (case vs_ClassName v of None \<Rightarrow> []
          | Some n \<Rightarrow> [patchOp ''replace'' ''/spec/volumeSnapshotClassName'' (PVString n)])"
    show "onlyNew (patchesOwn v s) (log s) s'"
    proof (cases "log s' = log s")
      case False
      then have l: "log s' = log s @ [PatchVSC (vsc_Name c) ops []]"
        and k: "ref_UID (vsc_Ref c) = [] \<or> spec_VolumeSnapshotClassName (vsc_Spec c) = None"
        using checkandBind_log[OF run] unfolding ops_def[symmetric] by simp_all
      have "bindsOwn v s (vsc_Name c) ops"
        using preprovisioned_result[OF c] k unfolding bindsOwn_def ops_def by auto
      then show ?thesis using l assms by (simp add: onlyNew_def patchesOwn_def)
    qed (simp add: onlyNew_def)
  qed
  show ?thesis
  proof (cases "getPreprovisionedContentFromStore E v s")
    case None
    then show ?thesis by (simp add: syncUnreadyPreprovisioned_def)
  next
    case (Some p)
    obtain r s1 where p: "p = (r, s1)" by (cases p)
    have s1: "onlyNew (patchesOwn v s) (log s) s1" using g Some p by simp
    show ?thesis
    proof (cases "\<exists>c. r = Inr (Some c)")
      case True
      then obtain c where c: "r = Inr (Some c)" by blast
      have e: "s1 = s" using preprovisioned_result Some p c by blast
      have b': "ensures (checkandBindSnapshotContent E v c s) (\<lambda>_ s'. onlyNew (patchesOwn v s) (log s) s')"
        using b Some p c by blast
      show ?thesis using Some p c e
        by (auto simp: syncUnreadyPreprovisioned_def intro!: ensures_mono[OF b']
            only.updateSnapshotErrorStatusWithEvent_I[where ok = "patchesOwn v s" and ?l0.0 = "log s"]
            only.finishStatus_I[where ok = "patchesOwn v s" and ?l0.0 = "log s"] split: sum.split)
    next
      case False
      then show ?thesis using Some p s1
        by (cases r) (auto simp: syncUnreadyPreprovisioned_def
            intro!: only.updateSnapshotErrorStatusWithEvent_I[where ok = "patchesOwn v s" and ?l0.0 = "log s"]
            split: option.split)
    qed
  qed
qed

lemma unready_binds:
  assumes live: "DeletionTimestamp (vs_meta v) = None"
  shows "ensures (syncUnreadySnapshot E v s) (\<lambda>_ s'. onlyNew (patchesOwn v s) (log s) s')"
proof -
  have a: "ensures (getSnapshotDriverName E v s) (\<lambda>_ s'. log s' = log s \<and> contentStore s' = contentStore s)"
    using getSnapshotDriverName_frame by (rule ensuresI)
  have b: "ensures (startCreationMetrics E v d s1) (\<lambda>_ s'. log s' = log s1 \<and> contentStore s' = contentStore s1)" for d s1
    by (simp add: startCreationMetrics_def withMetrics_def ensures_call)
  have br: "ensures (case vs_ContentName v of
           Some contentName \<Rightarrow> syncUnreadyPreprovisioned E v contentName s2
         | None \<Rightarrow> if IsVolumeGroupSnapshotMember v then syncUnreadyGroupMember E v s2
            else syncUnreadyDynamic E v s2) (\<lambda>_ s'. onlyNew (patchesOwn v s) (log s) s')"
    if "log s2 = log s" "contentStore s2 = contentStore s" for s2
  proof -
    have n: "onlyNew (patchesOwn v s) (log s) s2" using that by (simp add: onlyNew_def)
    have "ensures (syncUnreadyPreprovisioned E v m s2) (\<lambda>_ s'. onlyNew (patchesOwn v s) (log s) s')" for m
      using preprovisioned_binds[OF live, of E m s2] patchesOwn_cong[OF that(2), of v] that(1) by simp
    moreover have "ensures (syncUnreadyGroupMember E v s2) (\<lambda>_ s'. onlyNew (patchesOwn v s) (log s) s')"
      by (rule only.syncUnreadyGroupMember_I) (auto simp: n)
    moreover have "ensures (syncUnreadyDynamic E v s2) (\<lambda>_ s'. onlyNew (patchesOwn v s) (log s) s')"
      by (rule only.syncUnreadyDynamic_I) (auto simp: n)
    ultimately show ?thesis by (auto split: option.split)
  qed
  show ?thesis unfolding syncUnreadySnapshot_def ensures_bind
  proof (rule ensures_mono[OF a], goal_cases)
    case (1 d s1)
    show ?case unfolding prod.case ensures_bind
      by (rule ensures_mono[OF b], rule br) (simp_all add: 1)
  qed
qed

lemma live_binds:
  assumes live: "DeletionTimestamp (vs_meta v) = None"
  shows "ensures (syncLiveSnapshot E v s) (\<lambda>_ s'. onlyNew (patchesOwn v s) (log s) s')"
proof -
  have f: "ensures (checkandAddSnapshotFinalizers E v s)
      (\<lambda>_ s1. onlyNew (patchesOwn v s) (log s) s1 \<and> contentStore s1 = contentStore s)"
  proof (rule ensuresI)
    fix r s1 assume run: "checkandAddSnapshotFinalizers E v s = Some (r, s1)"
    have "ensures (checkandAddSnapshotFinalizers E v s) (\<lambda>_ s1. onlyNew (patchesOwn v s) (log s) s1)"
      by (rule only.checkandAddSnapshotFinalizers_I) (auto simp: onlyNew_refl)
    moreover have "ensures (checkandAddSnapshotFinalizers E v s) (\<lambda>_ s1. contentStore s1 = contentStore s)"
      by (rule sameContents.checkandAddSnapshotFinalizers_I) auto
    ultimately show "onlyNew (patchesOwn v s) (log s) s1 \<and> contentStore s1 = contentStore s" using run by simp
  qed
  have u: "ensures (syncUnreadySnapshot E v s1) (\<lambda>_ s'. onlyNew (patchesOwn v s) (log s) s')"
    if "onlyNew (patchesOwn v s) (log s) s1" "contentStore s1 = contentStore s" for s1
    by (rule ensures_mono[OF unready_binds[OF live]])
      (use that patchesOwn_cong[OF that(2), of v] onlyNew_trans in auto)
  show ?thesis
  proof (cases "(vs_PVCName v = None) = (vs_ContentName v = None)")
    case True
    then show ?thesis
      by (auto simp: syncLiveSnapshot_def onlyNew_refl
          intro!: only.updateSnapshotErrorStatusWithEvent_I[where ok = "patchesOwn v s" and ?l0.0 = "log s"])
  next
    case False
    then show ?thesis unfolding syncLiveSnapshot_def
      by (auto intro!: ensures_mono[OF f] u only.emit_I[where ok = "patchesOwn v s" and ?l0.0 = "log s"]
          only.syncReadySnapshot_I[where ok = "patchesOwn v s" and ?l0.0 = "log s"] split: option.split)
  qed
qed

text \<open>C20: Binding never takes a content away from another snapshot. Whatever the reconciler of a snapshot does, each patch
  it sends of a content either replaces its annotations or binds it, and it binds only for a snapshot that is not being
  deleted, and only the cached content that the snapshot names as its source: a pre-provisioned one, with a snapshot
  handle, whose reference has the name and the namespace of the snapshot and no UID or already the snapshot's. The
  patch sets the UID of the reference to that of the snapshot and the class to that of the snapshot, if it has one, and
  is sent only when the UID or the class is missing.\<close>

theorem binding_never_steals:
  assumes "syncSnapshot E v s = Some (r, s')" and "log s' = log s @ new" and "PatchVSC n ops sub \<in> set new"
    and "\<nexists>m. ops = [patchOp ''replace'' ''/metadata/annotations'' (PVMap m)]"
  shows "\<exists>cn c. DeletionTimestamp (vs_meta v) = None \<and> vs_ContentName v = Some cn \<and>
    contentStore s cn = Some (ObjVSC c) \<and> n = vsc_Name c \<and> sub = [] \<and> vsc_SnapshotHandle c \<noteq> None \<and>
    ref_Name (vsc_Ref c) = vs_Name v \<and> ref_Namespace (vsc_Ref c) = vs_Namespace v \<and>
    ref_UID (vsc_Ref c) \<in> {[], vs_UID v} \<and>
    (ref_UID (vsc_Ref c) = [] \<or> spec_VolumeSnapshotClassName (vsc_Spec c) = None) \<and>
    ops = patchOp ''replace'' ''/spec/volumeSnapshotRef/uid'' (PVString (vs_UID v)) #
      (case vs_ClassName v of None \<Rightarrow> []
       | Some n \<Rightarrow> [patchOp ''replace'' ''/spec/volumeSnapshotClassName'' (PVString n)])"
proof -
  obtain s2 where c1: "reclaimPVCFinalizer E v s = Some ((), s2)"
    using assms by (auto simp: syncSnapshot_def split: Option.bind_splits)
  have "ensures (reclaimPVCFinalizer E v s) (\<lambda>_ s'. contentStore s' = contentStore s)"
    by (rule sameContents.reclaimPVCFinalizer_I) auto
  moreover have "ensures (reclaimPVCFinalizer E v s) (\<lambda>_ s'. onlyNew (patchesOwn v s) (log s) s')"
    by (rule only.reclaimPVCFinalizer_I) (auto simp: onlyNew_refl)
  ultimately have p: "onlyNew (patchesOwn v s) (log s) s2" "contentStore s2 = contentStore s"
    using c1 by simp_all
  have "onlyNew (patchesOwn v s) (log s) s'"
  proof (cases "DeletionTimestamp (vs_meta v) = None")
    case True
    then have "syncLiveSnapshot E v s2 = Some (r, s')" using assms(1) c1 by (simp add: syncSnapshot_def)
    then have "onlyNew (patchesOwn v s) (log s2) s'"
      using live_binds[OF True, of E s2] patchesOwn_cong[OF p(2), of v] by simp
    then show ?thesis using p(1) onlyNew_trans by blast
  next
    case False
    have "ensures (processSnapshotWithDeletionTimestamp E v s2) (\<lambda>_ s'. onlyNew (patchesOwn v s) (log s) s')"
      by (rule only.processSnapshotWithDeletionTimestamp_I) (use p in auto)
    then show ?thesis using False assms(1) c1 by (simp add: syncSnapshot_def)
  qed
  then have "patchesOwn v s (PatchVSC n ops sub)" using assms(2,3) by (auto simp: onlyNew_def list_all_iff)
  then show ?thesis using assms(4) unfolding patchesOwn_def bindsOwn_def by auto
qed

definition demoPreprovisioned :: VolumeSnapshot where
  "demoPreprovisioned = demoSnapshot\<lparr>vs_meta := (vs_meta demoSnapshot)\<lparr>Finalizers :=
       [VolumeSnapshotAsSourceFinalizer, VolumeSnapshotBoundFinalizer]\<rparr>,
     vs_Spec := \<lparr>vss_Source = \<lparr>PersistentVolumeClaimName = None,
       VolumeSnapshotContentName = Some ''static''\<rparr>, vss_VolumeSnapshotClassName = None\<rparr>\<rparr>"

definition demoStatic :: VolumeSnapshotContent where
  "demoStatic = demoContent\<lparr>vsc_meta := (vsc_meta demoContent)\<lparr>Name := ''static''\<rparr>,
     vsc_Spec := (vsc_Spec demoContent)\<lparr>VolumeSnapshotRef := emptyRef\<lparr>ref_Name := ''snap1'', ref_Namespace := ''ns1''\<rparr>,
       spec_Source := \<lparr>VolumeHandle = None, SnapshotHandle = Some ''h1''\<rparr>\<rparr>\<rparr>"

definition demoStaticState :: "unit st" where
  "demoStaticState = (initialState ())\<lparr>contentStore := [''static'' \<mapsto> ObjVSC demoStatic]\<rparr>"

lemma demoPreprovisioned_sel:
  "vs_PVCName demoPreprovisioned = None" "vs_ContentName demoPreprovisioned = Some ''static''"
  "vs_ClassName demoPreprovisioned = None" "DeletionTimestamp (vs_meta demoPreprovisioned) = None"
  "vs_Status demoPreprovisioned = None" "vs_Name demoPreprovisioned = ''snap1''"
  "vs_Namespace demoPreprovisioned = ''ns1''" "vs_UID demoPreprovisioned = ''uid1''"
  "\<not> NeedToAddSnapshotAsSourceFinalizer demoPreprovisioned" "\<not> NeedToAddSnapshotBoundFinalizer demoPreprovisioned"
  "\<not> IsSnapshotReady demoPreprovisioned"
  by (simp_all add: demoPreprovisioned_def demoSnapshot_def emptyVolumeSnapshot_def emptyMeta_def Contains_def
      NeedToAddSnapshotAsSourceFinalizer_def NeedToAddSnapshotBoundFinalizer_def IsSnapshotReady_def)

lemma demoStatic_sel:
  "vsc_SnapshotHandle demoStatic = Some ''h1''" "ref_Name (vsc_Ref demoStatic) = ''snap1''"
  "ref_Namespace (vsc_Ref demoStatic) = ''ns1''" "ref_UID (vsc_Ref demoStatic) = []" "vsc_Name demoStatic = ''static''"
  by (simp_all add: demoStatic_def demoContent_def emptyVolumeSnapshotContent_def emptyMeta_def emptyRef_def)

lemma demo_static_found:
  "contentStore s ''static'' = Some (ObjVSC demoStatic) \<Longrightarrow>
   getPreprovisionedContentFromStore E demoPreprovisioned s = Some (Inr (Some demoStatic), s)"
  by (simp add: getPreprovisionedContentFromStore_def getContentFromStore_def demoPreprovisioned_sel demoStatic_sel)

lemma demo_bind_step:
  assumes "contentStore s ''static'' = Some (ObjVSC demoStatic)"
  shows "\<exists>r s'. syncUnreadyPreprovisioned nullEnv demoPreprovisioned ''static'' s = Some (r, s') \<and>
     PatchVSC ''static'' [patchOp ''replace'' ''/spec/volumeSnapshotRef/uid'' (PVString ''uid1'')] [] \<in> set (log s')"
  by (simp add: syncUnreadyPreprovisioned_def demo_static_found[OF assms] checkandBindSnapshotContent_def
      demoPreprovisioned_sel demoStatic_sel PatchVolumeSnapshotContent_def act_def call_def nullEnv_def
      updateSnapshotErrorStatusWithEvent_def sameError_def emit_def Let_def storeSnapshotUpdate_def
      split: prod.split sum.split)

lemma demo_metrics: "\<exists>s2. startCreationMetrics E v d s = Some ((), s2) \<and> contentStore s2 = contentStore s"
  by (simp add: startCreationMetrics_def withMetrics_def call_def split: prod.split)

lemma demo_bind_run:
  "\<exists>r s'. syncSnapshot nullEnv demoPreprovisioned demoStaticState = Some (r, s') \<and>
     PatchVSC ''static'' [patchOp ''replace'' ''/spec/volumeSnapshotRef/uid'' (PVString ''uid1'')] [] \<in> set (log s')"
proof -
  have c: "contentStore demoStaticState ''static'' = Some (ObjVSC demoStatic)" by (simp add: demoStaticState_def)
  have r: "reclaimPVCFinalizer nullEnv demoPreprovisioned demoStaticState = Some ((), demoStaticState)"
    by (simp add: reclaimPVCFinalizer_def checkandRemovePVCFinalizer_def demoPreprovisioned_sel)
  have a: "checkandAddSnapshotFinalizers nullEnv demoPreprovisioned demoStaticState = Some (None, demoStaticState)"
    by (simp add: checkandAddSnapshotFinalizers_def demo_static_found[OF c] demoPreprovisioned_sel)
  have d: "getSnapshotDriverName nullEnv demoPreprovisioned demoStaticState = Some ([], demoStaticState)"
    by (simp add: getSnapshotDriverName_def demoPreprovisioned_sel nullEnv_def call_def demoStaticState_def
        initialState_def)
  obtain s2 where m: "startCreationMetrics nullEnv demoPreprovisioned [] demoStaticState = Some ((), s2)"
      "contentStore s2 = contentStore demoStaticState"
    using demo_metrics by blast
  show ?thesis using demo_bind_step[of s2] r a d m c
    by (simp add: syncSnapshot_def syncLiveSnapshot_def syncUnreadySnapshot_def demoPreprovisioned_sel)
qed

theorem binding_never_steals_witness:
  "\<exists>r s' c. syncSnapshot nullEnv demoPreprovisioned demoStaticState = Some (r, s') \<and>
     PatchVSC (vsc_Name c) [patchOp ''replace'' ''/spec/volumeSnapshotRef/uid'' (PVString ''uid1'')] [] \<in> set (log s') \<and>
     contentStore demoStaticState ''static'' = Some (ObjVSC c) \<and> ref_UID (vsc_Ref c) \<in> {[], ''uid1''} \<and>
     ref_Namespace (vsc_Ref c) = ''ns1''"
proof -
  obtain r s' where run: "syncSnapshot nullEnv demoPreprovisioned demoStaticState = Some (r, s')"
    and p: "PatchVSC ''static'' [patchOp ''replace'' ''/spec/volumeSnapshotRef/uid'' (PVString ''uid1'')] [] \<in> set (log s')"
    using demo_bind_run by blast
  have l: "log s' = log demoStaticState @ log s'" by (simp add: demoStaticState_def initialState_def)
  have n: "\<nexists>m. [patchOp ''replace'' ''/spec/volumeSnapshotRef/uid'' (PVString ''uid1'')] =
      [patchOp ''replace'' ''/metadata/annotations'' (PVMap m)]" by (simp add: patchOp_def)
  show ?thesis using binding_never_steals[OF run l p n] run p by (auto simp: demoPreprovisioned_sel)
qed

section \<open>The restore check\<close>

definition nilGroupFirst :: "VolumeSnapshot \<Rightarrow> PersistentVolumeClaim list \<Rightarrow> bool" where
  "nilGroupFirst v pvcs \<longleftrightarrow> (\<exists>xs p ys. pvcs = xs @ p # ys \<and> restoresFrom v p \<and> groupless p \<and>
     (\<forall>q \<in> set xs. \<not> pendingRestore v q))"

lemma nilGroupFirst_Cons:
  "nilGroupFirst v (p # pvcs) \<longleftrightarrow> (restoresFrom v p \<and> groupless p) \<or> (\<not> pendingRestore v p \<and> nilGroupFirst v pvcs)"
proof
  assume "nilGroupFirst v (p # pvcs)"
  then obtain xs q ys where *: "p # pvcs = xs @ q # ys" "restoresFrom v q" "groupless q"
      "\<forall>q \<in> set xs. \<not> pendingRestore v q" unfolding nilGroupFirst_def by blast
  then show "(restoresFrom v p \<and> groupless p) \<or> (\<not> pendingRestore v p \<and> nilGroupFirst v pvcs)"
    unfolding nilGroupFirst_def by (cases xs) auto
next
  assume "(restoresFrom v p \<and> groupless p) \<or> (\<not> pendingRestore v p \<and> nilGroupFirst v pvcs)"
  then show "nilGroupFirst v (p # pvcs)"
  proof
    assume "\<not> pendingRestore v p \<and> nilGroupFirst v pvcs"
    then obtain xs q ys where "pvcs = xs @ q # ys" "restoresFrom v q" "groupless q"
      "\<forall>q \<in> set xs. \<not> pendingRestore v q" "\<not> pendingRestore v p" unfolding nilGroupFirst_def by blast
    then show ?thesis unfolding nilGroupFirst_def by (intro exI[of _ "p # xs"] exI[of _ q] exI[of _ ys]) simp
  next
    assume "restoresFrom v p \<and> groupless p"
    then show ?thesis unfolding nilGroupFirst_def by (intro exI[of _ "[]"] exI[of _ p] exI[of _ pvcs]) simp
  qed
qed

lemma restoringPVC_panics: "restoringPVC v pvcs = None \<longleftrightarrow> nilGroupFirst v pvcs"
proof (induction pvcs)
  case (Cons p pvcs)
  have "pendingRestore v p \<Longrightarrow> \<not> groupless p" by (simp add: pendingRestore_def groupless_def)
  then show ?case using Cons by (auto simp: nilGroupFirst_Cons restoringPVC_Cons simp del: restoringPVC.simps(2))
qed (simp add: nilGroupFirst_def)

text \<open>The check that keeps a snapshot from being deleted while it is restored from is exact as long as
  every claim that names the snapshot says which API group it means: it holds exactly when some pending
  claim of the namespace restores from it. But it is not defensive. A claim that names the snapshot
  without an API group, with no pending restore before it in the list, is a nil dereference: the process
  panics, and there is no other way to make it. And when the claims cannot be listed the check says
  that nothing is being restored.\<close>

theorem restore_check_exact_but_fragile:
  assumes "lister_ListPVC E (vs_Namespace v) (world s) = (r, w)"
  shows "case r of
      Inl err \<Rightarrow> isVolumeBeingCreatedFromSnapshot E v s = Some (False, s\<lparr>world := w\<rparr>)
    | Inr pvcs \<Rightarrow> ((\<exists>p \<in> set pvcs. restoresFrom v p \<and> groupless p) \<or>
         isVolumeBeingCreatedFromSnapshot E v s = Some (\<exists>p \<in> set pvcs. pendingRestore v p, s\<lparr>world := w\<rparr>)) \<and>
       (isVolumeBeingCreatedFromSnapshot E v s = None \<longleftrightarrow>
         (\<exists>xs p ys. pvcs = xs @ p # ys \<and> restoresFrom v p \<and> groupless p \<and> (\<forall>q \<in> set xs. \<not> pendingRestore v q)))"
proof (cases r)
  case (Inr pvcs)
  have run: "isVolumeBeingCreatedFromSnapshot E v s = map_option (\<lambda>b. (b, s\<lparr>world := w\<rparr>)) (restoringPVC v pvcs)"
    using assms Inr by (cases "restoringPVC v pvcs") (simp_all add: isVolumeBeingCreatedFromSnapshot_def call_def)
  show ?thesis
    using restoringPVC_exact[of pvcs v] restoringPVC_panics[of v pvcs] unfolding nilGroupFirst_def Inr sum.case
    by (auto simp: run)
qed (use assms in \<open>simp add: isVolumeBeingCreatedFromSnapshot_def call_def\<close>)

definition demoGrouplessPVC :: PersistentVolumeClaim where
  "demoGrouplessPVC = demoPVC\<lparr>pvc_DataSource :=
     Some \<lparr>ds_APIGroup = None, ds_Kind = ''VolumeSnapshot'', ds_Name = ''snap1''\<rparr>\<rparr>"

definition demoGrouplessEnv :: "unit env" where
  "demoGrouplessEnv = nullEnv\<lparr>lister_ListPVC := \<lambda>_ w. (Inr [demoGrouplessPVC], w)\<rparr>"

theorem restore_check_exact_but_fragile_witness:
  "isVolumeBeingCreatedFromSnapshot demoGrouplessEnv demoSnapshot (initialState ()) = None"
proof -
  have l: "lister_ListPVC demoGrouplessEnv (vs_Namespace demoSnapshot) (world (initialState ())) =
      (Inr [demoGrouplessPVC], ())" by (simp add: demoGrouplessEnv_def)
  have "restoresFrom demoSnapshot demoGrouplessPVC" "groupless demoGrouplessPVC"
    by (simp_all add: demoGrouplessPVC_def restoresFrom_def groupless_def snapshotKind_def demoSnapshot_def
        emptyVolumeSnapshot_def emptyMeta_def)
  then have "\<exists>xs p ys. [demoGrouplessPVC] = xs @ p # ys \<and> restoresFrom demoSnapshot p \<and> groupless p \<and>
      (\<forall>q \<in> set xs. \<not> pendingRestore demoSnapshot q)"
    by (intro exI[of _ "[]"] exI[of _ demoGrouplessPVC]) simp
  then show ?thesis using restore_check_exact_but_fragile[OF l] by simp
qed

end
