(* ===== verification/Sha256.thy ===== *)
theory Sha256
  imports Prelude "HOL-Library.Word"
begin

text \<open>
  The names of the members of a group snapshot contain a SHA-256 digest in hexadecimal
  (\<open>fmt.Sprintf("%x", sha256.Sum256(...))\<close> of the Go standard library). The function is written out
  here after FIPS 180-4, on 32-bit words, so that the names are values the model computes; what the
  theorems use of it is the length and the alphabet of the result. A Go string is its bytes, and so is a
  string here.
\<close>

unbundle bit_operations_syntax

type_synonym w32 = "32 word"

section \<open>The constants\<close>

text \<open>
  They are the first 32 bits of the fractional parts of roots of the first primes, and are computed here
  from that: a root bit by bit, the most significant first.
\<close>

definition addRootBit :: "nat \<Rightarrow> int \<Rightarrow> int \<Rightarrow> int \<Rightarrow> int" where
  "addRootBit k n w r = (if (r + w) ^ k \<le> n then r + w else r)"

text \<open>The k-th root of a number below 512, with 32 bits after the point; a word keeps those.\<close>

definition rootWord :: "nat \<Rightarrow> int \<Rightarrow> w32" where
  "rootWord k p = word_of_int (fold (addRootBit k (p * 2 ^ (32 * k))) (map (\<lambda>i. 2 ^ i) (rev [0..<40])) 0)"

definition shaPrimes :: "nat list" where
  "shaPrimes = filter (\<lambda>n. list_all (\<lambda>d. n mod d \<noteq> 0) [2..<n]) [2..<312]"

definition sha256_k :: "w32 list" where
  "sha256_k = map (\<lambda>p. rootWord 3 (int p)) shaPrimes"

record sha_state =
  sha_a :: w32
  sha_b :: w32
  sha_c :: w32
  sha_d :: w32
  sha_e :: w32
  sha_f :: w32
  sha_g :: w32
  sha_h :: w32

definition sha256_init :: sha_state where
  "sha256_init = (let h = map (\<lambda>p. rootWord 2 (int p)) (take 8 shaPrimes) in
     \<lparr>sha_a = h ! 0, sha_b = h ! 1, sha_c = h ! 2, sha_d = h ! 3,
      sha_e = h ! 4, sha_f = h ! 5, sha_g = h ! 6, sha_h = h ! 7\<rparr>)"

section \<open>Words\<close>

definition rotr :: "nat \<Rightarrow> w32 \<Rightarrow> w32" where
  "rotr n x = drop_bit n x OR push_bit (32 - n) x"

definition bigSigma0 :: "w32 \<Rightarrow> w32" where
  "bigSigma0 x = rotr 2 x XOR rotr 13 x XOR rotr 22 x"

definition bigSigma1 :: "w32 \<Rightarrow> w32" where
  "bigSigma1 x = rotr 6 x XOR rotr 11 x XOR rotr 25 x"

definition smallSigma0 :: "w32 \<Rightarrow> w32" where
  "smallSigma0 x = rotr 7 x XOR rotr 18 x XOR drop_bit 3 x"

definition smallSigma1 :: "w32 \<Rightarrow> w32" where
  "smallSigma1 x = rotr 17 x XOR rotr 19 x XOR drop_bit 10 x"

section \<open>The padded message\<close>

definition shaBytes :: "string \<Rightarrow> int list" where
  "shaBytes msg = map of_char msg"

text \<open>The length in bits, as eight bytes, the most significant first.\<close>

definition lengthBytes :: "int \<Rightarrow> int list" where
  "lengthBytes n = map (\<lambda>i. n div 256 ^ i mod 256) [7, 6, 5, 4, 3, 2, 1, 0]"

definition shaPad :: "string \<Rightarrow> int list" where
  "shaPad msg = shaBytes msg @ [128] @ replicate ((119 - length msg mod 64) mod 64) 0 @ lengthBytes (8 * int (length msg))"

fun bytesToWords :: "int list \<Rightarrow> w32 list" where
  "bytesToWords (a # b # c # d # bytes) =
     word_of_int (((a * 256 + b) * 256 + c) * 256 + d) # bytesToWords bytes"
| "bytesToWords _ = []"

section \<open>Compression\<close>

text \<open>The message schedule, the latest word first.\<close>

fun shaSchedule :: "nat \<Rightarrow> w32 list \<Rightarrow> w32 list" where
  "shaSchedule 0 ws = ws"
| "shaSchedule (Suc n) ws =
     shaSchedule n ((smallSigma1 (ws ! 1) + ws ! 6 + smallSigma0 (ws ! 14) + ws ! 15) # ws)"

definition shaRound :: "w32 \<times> w32 \<Rightarrow> sha_state \<Rightarrow> sha_state" where
  "shaRound kw v =
    (let (k, w) = kw;
         ch = (sha_e v AND sha_f v) XOR (NOT (sha_e v) AND sha_g v);
         maj = (sha_a v AND sha_b v) XOR (sha_a v AND sha_c v) XOR (sha_b v AND sha_c v);
         t1 = sha_h v + bigSigma1 (sha_e v) + ch + k + w;
         t2 = bigSigma0 (sha_a v) + maj
     in \<lparr>sha_a = t1 + t2, sha_b = sha_a v, sha_c = sha_b v, sha_d = sha_c v, sha_e = sha_d v + t1,
         sha_f = sha_e v, sha_g = sha_f v, sha_h = sha_g v\<rparr>)"

definition shaBlock :: "w32 list \<Rightarrow> sha_state \<Rightarrow> sha_state" where
  "shaBlock block st =
    (let v = fold shaRound (zip sha256_k (rev (shaSchedule 48 (rev block)))) st
     in \<lparr>sha_a = sha_a st + sha_a v, sha_b = sha_b st + sha_b v, sha_c = sha_c st + sha_c v,
         sha_d = sha_d st + sha_d v, sha_e = sha_e st + sha_e v, sha_f = sha_f st + sha_f v,
         sha_g = sha_g st + sha_g v, sha_h = sha_h st + sha_h v\<rparr>)"

function shaBlocks :: "w32 list \<Rightarrow> sha_state \<Rightarrow> sha_state" where
  "shaBlocks ws st = (if length ws < 16 then st else shaBlocks (drop 16 ws) (shaBlock (take 16 ws) st))"
  by pat_completeness auto
termination by (relation "measure (length \<circ> fst)") auto

declare shaBlocks.simps [simp del]

definition digestWords :: "sha_state \<Rightarrow> w32 list" where
  "digestWords v = [sha_a v, sha_b v, sha_c v, sha_d v, sha_e v, sha_f v, sha_g v, sha_h v]"

section \<open>In hexadecimal\<close>

definition wordHex :: "w32 \<Rightarrow> string" where
  "wordHex x = map (\<lambda>i. hexDigit (nat (uint (drop_bit (4 * i) x) mod 16))) [7, 6, 5, 4, 3, 2, 1, 0]"

definition sha256_hex :: "string \<Rightarrow> string" where
  "sha256_hex msg = concat (map wordHex (digestWords (shaBlocks (bytesToWords (shaPad msg)) sha256_init)))"

lemma wordHex_length: "length (wordHex x) = 8"
  by (simp add: wordHex_def)

lemma sha256_hex_length: "length (sha256_hex msg) = 64"
  by (simp add: sha256_hex_def digestWords_def wordHex_length)

lemma hexDigit_set: "hexDigit n \<in> set ''0123456789abcdef''"
  unfolding hexDigit_def by (rule nth_mem) simp

lemma wordHex_set: "set (wordHex x) \<subseteq> set ''0123456789abcdef''"
  unfolding wordHex_def set_map using hexDigit_set by blast

lemma sha256_hex_set: "set (sha256_hex msg) \<subseteq> set ''0123456789abcdef''"
  unfolding sha256_hex_def set_concat set_map using wordHex_set by blast

text \<open>The padded message is a whole number of blocks.\<close>

lemma shaPad_length: "length (shaPad msg) mod 64 = 0"
proof -
  have "length (shaPad msg) = length msg + 9 + (119 - length msg mod 64) mod 64"
    by (simp add: shaPad_def shaBytes_def lengthBytes_def)
  moreover have "(n + 9 + (119 - n mod 64) mod 64) mod 64 = 0" for n :: nat
  proof -
    obtain q r where n: "n = 64 * q + r" "r < 64" by (metis mult_div_mod_eq mod_less_divisor zero_less_numeral)
    then have r: "n mod 64 = r" by simp
    have "n + 9 + (119 - r) mod 64 = 64 * (q + (if r \<le> 55 then 1 else 2))"
    proof (cases "r \<le> 55")
      case True
      then have "119 - r = 64 + (55 - r)" by simp
      then have "(119 - r) mod 64 = (55 - r) mod 64" by (simp only: mod_add_self1)
      then have "(119 - r) mod 64 = 55 - r" by simp
      then show ?thesis using n(1) True by simp
    next
      case False
      then have "(119 - r) mod 64 = 119 - r" by (intro mod_less) simp
      then show ?thesis using n False by simp
    qed
    then show ?thesis unfolding r by (simp only: mod_mult_self1_is_0)
  qed
  ultimately show ?thesis by simp
qed

text \<open>Words the tables of the standard begin and end with.\<close>

lemma sha256_constants:
  "rootWord 3 2 = 0x428a2f98" "rootWord 3 311 = 0xc67178f2" "rootWord 2 2 = 0x6a09e667" "rootWord 2 19 = 0x5be0cd19"
  by (simp_all add: rootWord_def addRootBit_def upt_rec)

end
