(* ===== verification/CommonGroup.thy ===== *)
theory CommonGroup
  imports CommonSync Sha256
begin

text \<open>
  The group half of the common controller, its operations
  (\<open>pkg/common-controller/groupsnapshot_controller_helper.go\<close>): the class, the volumes, the lookup and the
  creation of a group content, the status of a group snapshot, the member snapshots and their contents,
  finalizers and annotations. The reconcilers that put them together are in \<open>CommonGroupSync\<close>.
\<close>

section \<open>Errors\<close>

text \<open>\<open>fmt.Errorf\<close> with the verb \<open>%w\<close>: the reason of a wrapped API error stays visible.\<close>

fun wrapErr :: "string \<Rightarrow> goerr \<Rightarrow> goerr" where
  "wrapErr prefix (APIStatus r t) = APIStatus r (prefix @ t)"
| "wrapErr prefix e = Errorf (prefix @ err_text e)"

definition withGroupErrorStatus :: "VolumeGroupSnapshot \<Rightarrow> bool \<Rightarrow> Time \<Rightarrow> string \<Rightarrow> VolumeGroupSnapshot" where
  "withGroupErrorStatus groupSnapshot setReadyToFalse now message =
    (let st = (case vgs_Status groupSnapshot of None \<Rightarrow> emptyGroupStatus | Some st \<Rightarrow> st);
         st = st\<lparr>gs_Error := Some \<lparr>err_Time = Some now, err_Message = Some message\<rparr>\<rparr>;
         st = (if setReadyToFalse then st\<lparr>gs_ReadyToUse := Some False\<rparr> else st)
     in groupSnapshot\<lparr>vgs_Status := Some st\<rparr>)"

text \<open>When the update fails the typed client returns an empty object, and the event is emitted on that.\<close>

definition updateGroupSnapshotErrorStatusWithEvent ::
  "'w env \<Rightarrow> VolumeGroupSnapshot \<Rightarrow> bool \<Rightarrow> event_type \<Rightarrow> string \<Rightarrow> string \<Rightarrow> 'w st
    \<Rightarrow> (goerr option \<times> 'w st) option" where
  "updateGroupSnapshotErrorStatusWithEvent E groupSnapshot setReadyToFalse eventtype reason message s =
    do { same \<leftarrow> sameError (Option.bind (vgs_Status groupSnapshot) gs_Error) message;
         if same then Some (None, s)
         else do {
           (now, s) \<leftarrow> call (time_Now E) s;
           let clone = withGroupErrorStatus groupSnapshot setReadyToFalse now message;
           (r, s) \<leftarrow> act (UpdateStatusVGS clone) (api_UpdateStatusVGS E clone) s;
           let newSnapshot = (case r of Inl _ \<Rightarrow> emptyVolumeGroupSnapshot | Inr g \<Rightarrow> g);
           let s = emit (Event (ObjVGS newSnapshot) eventtype reason message) s;
           case r of
             Inl err \<Rightarrow> Some (Some err, s)
           | Inr _ \<Rightarrow>
              do { (r, s) \<leftarrow> storeGroupSnapshotUpdate (ObjVGS newSnapshot) s;
                   case r of Inl err \<Rightarrow> Some (Some err, s) | Inr _ \<Rightarrow> Some (None, s) } } }"

section \<open>The volumes and the class\<close>

definition getGroupSnapshotClass ::
  "'w env \<Rightarrow> string \<Rightarrow> 'w st \<Rightarrow> ((goerr + VolumeGroupSnapshotClass) \<times> 'w st) option" where
  "getGroupSnapshotClass E className s = call (lister_GetGroupClass E className) s"

text \<open>
  Only the labels of the selector go into the request, not its expressions. A group snapshot without a
  selector is dereferenced all the same.
\<close>

definition getClaimsFromVolumeGroupSnapshot ::
  "'w env \<Rightarrow> VolumeGroupSnapshot \<Rightarrow> 'w st \<Rightarrow> ((goerr + PersistentVolumeClaim list) \<times> 'w st) option" where
  "getClaimsFromVolumeGroupSnapshot E groupSnapshot s =
    do { labelSelector \<leftarrow> vgs_Selector (vgs_Source (vgs_Spec groupSnapshot));
         (r, s) \<leftarrow> call (api_ListPVC E (vgs_Namespace groupSnapshot) (MatchLabels labelSelector)) s;
         case r of
           Inl err \<Rightarrow> Some (Inl (Errorf (sprint [''failed to list PVCs with label selector '',
             FormatLabelSelector E labelSelector, '': '', goQuote (err_text err)])), s)
         | Inr items \<Rightarrow>
            if length items = 0 then
              Some (Inl (Errorf (sprint [''label selector '', FormatLabelSelector E labelSelector,
                '' for group snapshot not applied to any PVC''])), s)
            else Some (Inr items, s) }"

fun volumesOfClaims ::
  "'w env \<Rightarrow> PersistentVolumeClaim list \<Rightarrow> 'w st \<Rightarrow> ((goerr + PersistentVolume list) \<times> 'w st) option" where
  "volumesOfClaims E [] s = Some (Inr [], s)"
| "volumesOfClaims E (pvc # pvcs) s =
    (if pvc_Phase pvc \<noteq> ClaimBound then
       Some (Inl (Errorf (sprint [''the PVC '', pvc_Name pvc,
         '' is not yet bound to a PV, will not attempt to take a group snapshot''])), s)
     else do {
       (r, s) \<leftarrow> call (api_GetPV E (pvc_VolumeName pvc)) s;
       case r of
         Inl err \<Rightarrow> Some (Inl (Errorf (sprint [''failed to retrieve PV '', pvc_VolumeName pvc,
           '' from the API server: '', goQuote (err_text err)])), s)
       | Inr pv \<Rightarrow>
          if \<not> isVolumeBoundToClaim pv pvc then
            Some (Inl (Errorf ''claim in dataSource not bound or invalid''), s)
          else do {
            (r, s) \<leftarrow> volumesOfClaims E pvcs s;
            case r of Inl err \<Rightarrow> Some (Inl err, s) | Inr pvs \<Rightarrow> Some (Inr (pv # pvs), s) } })"

definition getVolumesFromVolumeGroupSnapshot ::
  "'w env \<Rightarrow> VolumeGroupSnapshot \<Rightarrow> 'w st \<Rightarrow> ((goerr + PersistentVolume list) \<times> 'w st) option" where
  "getVolumesFromVolumeGroupSnapshot E groupSnapshot s =
    do { (r, s) \<leftarrow> getClaimsFromVolumeGroupSnapshot E groupSnapshot s;
         case r of
           Inl err \<Rightarrow> Some (Inl err, s)
         | Inr pvcs \<Rightarrow> volumesOfClaims E pvcs s }"

definition pvDriverFromGroupSnapshot ::
  "'w env \<Rightarrow> VolumeGroupSnapshot \<Rightarrow> 'w st \<Rightarrow> ((goerr + string) \<times> 'w st) option" where
  "pvDriverFromGroupSnapshot E groupSnapshot s =
    do { (r, s) \<leftarrow> getVolumesFromVolumeGroupSnapshot E groupSnapshot s;
         case r of
           Inl err \<Rightarrow> Some (Inl err, s)
         | Inr [] \<Rightarrow> None
         | Inr (pv # _) \<Rightarrow>
            (case pv_CSI pv of
               None \<Rightarrow> Some (Inl (Errorf (sprint [''snapshotting non-CSI volumes is not supported, group snapshot:'',
                 vgs_Namespace groupSnapshot, ''/'', vgs_Name groupSnapshot])), s)
             | Some csi \<Rightarrow> Some (Inr (csi_Driver csi), s)) }"

definition isDefaultGroupClassFor :: "string \<Rightarrow> VolumeGroupSnapshotClass \<Rightarrow> bool" where
  "isDefaultGroupClassFor pvDriver class =
    (IsVolumeGroupSnapshotClassDefaultAnnotation (vgsclass_meta class) \<and> pvDriver = vgsclass_Driver class)"

text \<open>
  The class, the group snapshot and the error. A failed update is only logged: the object that is then
  cached and returned is the empty one that the typed client returns beside the error.
\<close>

definition SetDefaultGroupSnapshotClass ::
  "'w env \<Rightarrow> VolumeGroupSnapshot \<Rightarrow> 'w st
    \<Rightarrow> ((VolumeGroupSnapshotClass option \<times> VolumeGroupSnapshot \<times> goerr option) \<times> 'w st) option" where
  "SetDefaultGroupSnapshotClass E groupSnapshot s =
    (if vgs_ContentName groupSnapshot \<noteq> None then Some ((None, groupSnapshot, None), s)
     else do {
       (r, s) \<leftarrow> call (lister_ListGroupClass E) s;
       case r of
         Inl err \<Rightarrow> Some ((None, groupSnapshot, Some err), s)
       | Inr list \<Rightarrow>
          do { (r, s) \<leftarrow> pvDriverFromGroupSnapshot E groupSnapshot s;
               case r of
                 Inl err \<Rightarrow> Some ((None, groupSnapshot, Some err), s)
               | Inr pvDriver \<Rightarrow>
                  (case filter (isDefaultGroupClassFor pvDriver) list of
                     [] \<Rightarrow> Some ((None, groupSnapshot, Some (Errorf ''cannot find default group snapshot class'')), s)
                   | [class] \<Rightarrow>
                      let clone = groupSnapshot\<lparr>vgs_Spec := (vgs_Spec groupSnapshot)\<lparr>
                            VolumeGroupSnapshotClassName := Some (Name (vgsclass_meta class))\<rparr>\<rparr> in
                      do { (r, s) \<leftarrow> act (UpdateVGS clone) (api_UpdateVGS E clone) s;
                           let newGroupSnapshot = (case r of Inl _ \<Rightarrow> emptyVolumeGroupSnapshot | Inr g \<Rightarrow> g);
                           (_, s) \<leftarrow> storeGroupSnapshotUpdate (ObjVGS newGroupSnapshot) s;
                           Some ((Some class, newGroupSnapshot, None), s) }
                   | classes \<Rightarrow> Some ((None, groupSnapshot, Some (Errorf (sprint [natText (length classes),
                     '' default snapshot classes were found'']))), s)) } })"

text \<open>The driver name for the metrics; the source always returns a nil error.\<close>

definition getGroupSnapshotDriverName ::
  "'w env \<Rightarrow> VolumeGroupSnapshot \<Rightarrow> 'w st \<Rightarrow> (string \<times> 'w st) option" where
  "getGroupSnapshotDriverName E vgs s =
    (let contentName = (case vgs_ContentName vgs of None \<Rightarrow> [] | Some n \<Rightarrow> n) in
     do { (driverName, s) \<leftarrow>
            (if contentName \<noteq> [] then
               do { (r, s) \<leftarrow> call (lister_GetVGSC E contentName) s;
                    Some (case r of Inl _ \<Rightarrow> [] | Inr content \<Rightarrow> gspec_Driver (vgsc_Spec content), s) }
             else Some ([], s));
          if driverName \<noteq> [] then Some (driverName, s)
          else case vgs_ClassName vgs of
            None \<Rightarrow> Some (driverName, s)
          | Some className \<Rightarrow>
             do { (r, s) \<leftarrow> getGroupSnapshotClass E className s;
                  Some (case r of Inl _ \<Rightarrow> driverName | Inr class \<Rightarrow> vgsclass_Driver class, s) } })"

section \<open>Looking up in the caches\<close>

definition getGroupSnapshotContentFromStore ::
  "string \<Rightarrow> 'w st \<Rightarrow> goerr + VolumeGroupSnapshotContent option" where
  "getGroupSnapshotContentFromStore contentName s =
    (case groupSnapshotContentStore s contentName of
       None \<Rightarrow> Inr None
     | Some (ObjVGSC c) \<Rightarrow> Inr (Some c)
     | Some _ \<Rightarrow> Inl (Errorf ''expected VolumeGroupSnapshotContent''))"

definition getGroupSnapshotFromStore :: "string \<Rightarrow> 'w st \<Rightarrow> goerr + VolumeGroupSnapshot option" where
  "getGroupSnapshotFromStore groupSnapshotName s =
    (case groupSnapshotStore s groupSnapshotName of
       None \<Rightarrow> Inr None
     | Some (ObjVGS g) \<Rightarrow> Inr (Some g)
     | Some _ \<Rightarrow> Inl (Errorf ''cannot convert object from group snapshot cache to group snapshot''))"

definition misboundGroupMessage :: "string \<Rightarrow> string" where
  "misboundGroupMessage contentName =
     sprint [''VolumeGroupSnapshotContent ['', contentName, ''] is bound to a different group snapshot'']"

text \<open>Called for a group snapshot with a content name; the name is dereferenced.\<close>

definition getPreprovisionedGroupSnapshotContentFromStore ::
  "'w env \<Rightarrow> VolumeGroupSnapshot \<Rightarrow> 'w st
    \<Rightarrow> ((goerr + VolumeGroupSnapshotContent option) \<times> 'w st) option" where
  "getPreprovisionedGroupSnapshotContentFromStore E groupSnapshot s =
    do { contentName \<leftarrow> vgs_ContentName groupSnapshot;
         if contentName = [] then
           Some (Inl (Errorf (sprint [''empty VolumeGroupSnapshotContentName for group snapshot '',
             GroupSnapshotKey groupSnapshot])), s)
         else case getGroupSnapshotContentFromStore contentName s of
           Inl err \<Rightarrow> Some (Inl err, s)
         | Inr None \<Rightarrow> Some (Inr None, s)
         | Inr (Some content) \<Rightarrow>
            let ref = vgsc_Ref content in
            if vgsc_Handles content = None then
              do { (_, s) \<leftarrow> updateGroupSnapshotErrorStatusWithEvent E groupSnapshot True EventTypeWarning
                     ''GroupSnapshotContentMismatch''
                     ''VolumeGroupSnapshotContent is dynamically provisioned while expecting a pre-provisioned one'' s;
                   Some (Inl (Errorf (sprint [''group snapshot '', GroupSnapshotKey groupSnapshot,
                     '' expects a pre-provisioned VolumeGroupSnapshotContent '', contentName,
                     '' but gets a dynamically provisioned one''])), s) }
            else if ref_Name ref \<noteq> vgs_Name groupSnapshot \<or> ref_Namespace ref \<noteq> vgs_Namespace groupSnapshot \<or>
                    (ref_UID ref \<noteq> [] \<and> ref_UID ref \<noteq> vgs_UID groupSnapshot) then
              do { (_, s) \<leftarrow> updateGroupSnapshotErrorStatusWithEvent E groupSnapshot True EventTypeWarning
                     ''GroupSnapshotContentMisbound'' (misboundGroupMessage contentName) s;
                   Some (Inl (Errorf (misboundGroupMessage contentName)), s) }
            else Some (Inr (Some content), s) }"

definition getDynamicallyProvisionedGroupContentFromStore ::
  "'w env \<Rightarrow> VolumeGroupSnapshot \<Rightarrow> 'w st
    \<Rightarrow> ((goerr + VolumeGroupSnapshotContent option) \<times> 'w st) option" where
  "getDynamicallyProvisionedGroupContentFromStore E groupSnapshot s =
    (let contentName = GetDynamicSnapshotContentNameForGroupSnapshot groupSnapshot in
     case getGroupSnapshotContentFromStore contentName s of
       Inl err \<Rightarrow> Some (Inl err, s)
     | Inr None \<Rightarrow> Some (Inr None, s)
     | Inr (Some content) \<Rightarrow>
        let ref = vgsc_Ref content in
        if vgsc_Handles content \<noteq> None then
          do { (_, s) \<leftarrow> updateGroupSnapshotErrorStatusWithEvent E groupSnapshot True EventTypeWarning
                 ''GroupSnapshotContentMismatch'' (sprint [''VolumeGroupSnapshotContent '', contentName,
                   '' is pre-provisioned while expecting a dynamically provisioned one'']) s;
               Some (Inl (Errorf (sprint [''group snapshot '', GroupSnapshotKey groupSnapshot,
                 '' expects a dynamically provisioned VolumeGroupSnapshotContent '', contentName,
                 '' but gets a pre-provisioned one''])), s) }
        else if ref_Name ref \<noteq> vgs_Name groupSnapshot \<or> ref_Namespace ref \<noteq> vgs_Namespace groupSnapshot \<or>
                ref_UID ref \<noteq> vgs_UID groupSnapshot then
          do { (_, s) \<leftarrow> updateGroupSnapshotErrorStatusWithEvent E groupSnapshot True EventTypeWarning
                 ''GroupSnapshotContentMisbound'' (misboundGroupMessage contentName) s;
               Some (Inl (Errorf (misboundGroupMessage contentName)), s) }
        else Some (Inr (Some content), s))"

section \<open>The status of a group snapshot\<close>

record groupContentFacts =
  gf_contentName :: string
  gf_createdAt :: "Time option"
  gf_ready :: bool
  gf_err :: "VolumeSnapshotError option"

definition groupContentFactsOf :: "VolumeGroupSnapshotContent \<Rightarrow> groupContentFacts" where
  "groupContentFactsOf content =
    \<lparr>gf_contentName = vgsc_Name content,
     gf_createdAt = Option.bind (vgsc_Status content) gcs_CreationTime,
     gf_ready = (case Option.bind (vgsc_Status content) gcs_ReadyToUse of None \<Rightarrow> False | Some b \<Rightarrow> b),
     gf_err = Option.bind (vgsc_Status content) gcs_Error\<rparr>"

text \<open>The addresses of the two times are compared, not the times: they always differ.\<close>

definition computeGroupSnapshotStatus ::
  "VolumeGroupSnapshotStatus option \<Rightarrow> groupContentFacts \<Rightarrow> VolumeGroupSnapshotStatus \<times> bool" where
  "computeGroupSnapshotStatus old f =
    (case old of
       None \<Rightarrow>
        (\<lparr>BoundVolumeGroupSnapshotContentName = Some (gf_contentName f), gs_CreationTime = gf_createdAt f,
          gs_ReadyToUse = Some (gf_ready f), gs_Error = gf_err f\<rparr>, True)
     | Some st0 \<Rightarrow>
        (let (st1, u1) = (if BoundVolumeGroupSnapshotContentName st0 = None
               then (st0\<lparr>BoundVolumeGroupSnapshotContentName := Some (gf_contentName f)\<rparr>, True) else (st0, False));
             (st2, u2) = (if gs_CreationTime st1 = None \<and> gf_createdAt f \<noteq> None
               then (st1\<lparr>gs_CreationTime := gf_createdAt f\<rparr>, True) else (st1, u1));
             (st3, u3) = (if gs_ReadyToUse st2 \<noteq> Some (gf_ready f) then
               (let st = st2\<lparr>gs_ReadyToUse := Some (gf_ready f)\<rparr> in
                if gf_ready f \<and> gs_Error st \<noteq> None then st\<lparr>gs_Error := None\<rparr> else st, True) else (st2, u2)) in
         if (gs_Error st3 = None \<and> gf_err f \<noteq> None) \<or>
            (case (gs_Error st3, gf_err f) of
               (Some e, Some e') \<Rightarrow> err_Time e \<noteq> None \<and> err_Time e' \<noteq> None | _ \<Rightarrow> False) \<or>
            (gs_Error st3 \<noteq> None \<and> gf_err f = None)
         then (st3\<lparr>gs_Error := gf_err f\<rparr>, True) else (st3, u3)))"

definition recordGroupStatusChange ::
  "'w env \<Rightarrow> VolumeGroupSnapshot \<Rightarrow> string \<Rightarrow> VolumeGroupSnapshot \<Rightarrow> VolumeGroupSnapshot \<Rightarrow> 'w st
    \<Rightarrow> (unit \<times> 'w st) option" where
  "recordGroupStatusChange E groupSnapshot driverName obj clone s =
    do { (_, s) \<leftarrow>
           (if \<not> IsGroupSnapshotCreated obj \<and> IsGroupSnapshotCreated clone then
              withMetrics E (RecordVolumeGroupSnapshotMetrics
                  (NewOperationKey CreateGroupSnapshotOperationName (vgs_UID groupSnapshot))
                  (Some SnapshotStatusTypeSuccess) driverName)
                (emit (Event (ObjVGS groupSnapshot) EventTypeNormal ''GroupSnapshotCreated''
                   (sprint [''GroupSnapshot '', GroupSnapshotKey groupSnapshot,
                     '' was successfully created by the CSI driver.''])) s)
            else Some ((), s));
         if \<not> IsGroupSnapshotReady obj \<and> IsGroupSnapshotReady clone then
           withMetrics E (RecordMetrics
               (NewOperationKey CreateGroupSnapshotAndReadyOperationName (vgs_UID groupSnapshot))
               (Some SnapshotStatusTypeSuccess) driverName)
             (emit (Event (ObjVGS groupSnapshot) EventTypeNormal ''GroupSnapshotReady''
                (sprint [''GroupSnapshot '', GroupSnapshotKey groupSnapshot, '' is ready to use.''])) s)
         else Some ((), s) }"

definition updateGroupSnapshotStatus ::
  "'w env \<Rightarrow> VolumeGroupSnapshot \<Rightarrow> VolumeGroupSnapshotContent \<Rightarrow> 'w st
    \<Rightarrow> ((goerr + VolumeGroupSnapshot) \<times> 'w st) option" where
  "updateGroupSnapshotStatus E groupSnapshot content s =
    do { (r, s) \<leftarrow> call (api_GetVGS E (vgs_Namespace groupSnapshot) (vgs_Name groupSnapshot)) s;
         case r of
           Inl err \<Rightarrow> Some (Inl (Errorf (sprint [''error get group snapshot '', GroupSnapshotKey groupSnapshot,
             '' from api server: '', err_text err])), s)
         | Inr obj \<Rightarrow>
            let (newStatus, updated) = computeGroupSnapshotStatus (vgs_Status obj) (groupContentFactsOf content) in
            if updated then
              let clone = obj\<lparr>vgs_Status := Some newStatus\<rparr> in
              do { (_, s) \<leftarrow> recordGroupStatusChange E groupSnapshot (gspec_Driver (vgsc_Spec content)) obj clone s;
                   (r, s) \<leftarrow> act (UpdateStatusVGS clone) (api_UpdateStatusVGS E clone) s;
                   case r of
                     Inl err \<Rightarrow> Some (Inl (newControllerUpdateError (GroupSnapshotKey groupSnapshot) (err_text err)), s)
                   | Inr newObj \<Rightarrow> Some (Inr newObj, s) }
            else Some (Inr obj, s) }"

definition bindandUpdateVolumeGroupSnapshot ::
  "'w env \<Rightarrow> VolumeGroupSnapshotContent \<Rightarrow> VolumeGroupSnapshot \<Rightarrow> 'w st
    \<Rightarrow> ((goerr + VolumeGroupSnapshot) \<times> 'w st) option" where
  "bindandUpdateVolumeGroupSnapshot E content groupSnapshot s =
    do { (r, s) \<leftarrow> call (api_GetVGS E (vgs_Namespace groupSnapshot) (vgs_Name groupSnapshot)) s;
         case r of
           Inl err \<Rightarrow> Some (Inl (Errorf (sprint [''error get group snapshot '', GroupSnapshotKey groupSnapshot,
             '' from api server: '', err_text err])), s)
         | Inr copy \<Rightarrow>
            do { (r, s) \<leftarrow> updateGroupSnapshotStatus E copy content s;
                 case r of
                   Inl err \<Rightarrow>
                     do { (_, s) \<leftarrow> updateGroupSnapshotErrorStatusWithEvent E copy True EventTypeWarning
                            ''GroupSnapshotStatusUpdateFailed''
                            (sprint [''GroupSnapshot status update failed, '', err_text err]) s;
                          Some (Inl err, s) }
                 | Inr updated \<Rightarrow>
                     do { (_, s) \<leftarrow> storeGroupSnapshotUpdate (ObjVGS updated) s;
                          Some (Inr updated, s) } } }"

definition needsUpdateGroupSnapshotStatus :: "VolumeGroupSnapshot \<Rightarrow> VolumeGroupSnapshotContent \<Rightarrow> bool" where
  "needsUpdateGroupSnapshotStatus groupSnapshot content =
    (case (vgs_Status groupSnapshot, vgsc_Status content) of
       (None, cst) \<Rightarrow> cst \<noteq> None
     | (Some st, None) \<Rightarrow> False
     | (Some st, Some cst) \<Rightarrow>
         if BoundVolumeGroupSnapshotContentName st = None then True
         else if gs_CreationTime st = None \<and> gcs_CreationTime cst \<noteq> None then True
         else if gs_ReadyToUse st = None \<and> gcs_ReadyToUse cst \<noteq> None then True
         else if gs_ReadyToUse st \<noteq> None \<and> gcs_ReadyToUse cst \<noteq> None then True
         else False)"

section \<open>Binding and creating a group content\<close>

text \<open>The content the caller goes on with, and the error.\<close>

definition checkAndBindGroupSnapshotContent ::
  "'w env \<Rightarrow> VolumeGroupSnapshot \<Rightarrow> VolumeGroupSnapshotContent \<Rightarrow> 'w st
    \<Rightarrow> ((goerr + VolumeGroupSnapshotContent) \<times> 'w st) option" where
  "checkAndBindGroupSnapshotContent E groupSnapshot content s =
    (let ref = vgsc_Ref content;
         mismatch = Errorf (sprint [''Could not bind group snapshot '', vgs_Name groupSnapshot,
           '' and group snapshot content '', vgsc_Name content, '', the VolumeGroupSnapshotRef does not match'']) in
     if ref_Name ref \<noteq> vgs_Name groupSnapshot then Some (Inl mismatch, s)
     else if ref_UID ref \<noteq> [] \<and> ref_UID ref \<noteq> vgs_UID groupSnapshot then Some (Inl mismatch, s)
     else if ref_UID ref \<noteq> [] \<and> gspec_VolumeGroupSnapshotClassName (vgsc_Spec content) \<noteq> None then Some (Inr content, s)
     else
       let patches = patchOp ''replace'' ''/spec/volumeGroupSnapshotRef/uid'' (PVString (vgs_UID groupSnapshot)) #
             (case vgs_ClassName groupSnapshot of None \<Rightarrow> []
              | Some className \<Rightarrow> [patchOp ''replace'' ''/spec/volumeGroupSnapshotClassName'' (PVString className)]) in
       do { ((newContent, err), s) \<leftarrow> PatchVolumeGroupSnapshotContent E content patches [] s;
            case err of
              Some err \<Rightarrow> Some (Inl err, s)
            | None \<Rightarrow>
               do { (r, s) \<leftarrow> storeGroupSnapshotContentUpdate (ObjVGSC newContent) s;
                    case r of Inl err \<Rightarrow> Some (Inl err, s) | Inr _ \<Rightarrow> Some (Inr newContent, s) } })"

definition getCreateGroupSnapshotInput ::
  "'w env \<Rightarrow> VolumeGroupSnapshot \<Rightarrow> 'w st
    \<Rightarrow> ((goerr + VolumeGroupSnapshotClass \<times> PersistentVolume list \<times> string \<times> SecretReference option) \<times> 'w st) option" where
  "getCreateGroupSnapshotInput E groupSnapshot s =
    (case vgs_ClassName groupSnapshot of
       None \<Rightarrow> Some (Inl (Errorf (sprint [''failed to take group snapshot '', vgs_Name groupSnapshot,
         '' without a group snapshot class''])), s)
     | Some className \<Rightarrow>
        do { (r, s) \<leftarrow> getGroupSnapshotClass E className s;
             case r of
               Inl err \<Rightarrow> Some (Inl err, s)
             | Inr class \<Rightarrow>
                do { (r, s) \<leftarrow> getVolumesFromVolumeGroupSnapshot E groupSnapshot s;
                     case r of
                       Inl err \<Rightarrow> Some (Inl err, s)
                     | Inr volumes \<Rightarrow>
                        let contentName = GetDynamicSnapshotContentNameForGroupSnapshot groupSnapshot in
                        (case GetGroupSnapshotSecretReference GroupSnapshotterSecretParams
                                (vgsclass_Parameters class) contentName (Some groupSnapshot) of
                           Inl err \<Rightarrow> Some (Inl err, s)
                         | Inr secretRef \<Rightarrow> Some (Inr (class, volumes, contentName, secretRef), s)) } })"

text \<open>\<open>ref.GetReference(scheme.Scheme, groupSnapshot)\<close> of client-go; the kind is registered.\<close>

definition GetGroupReference :: "VolumeGroupSnapshot \<Rightarrow> ObjectReference" where
  "GetGroupReference groupSnapshot =
    \<lparr>ref_Kind = ''VolumeGroupSnapshot'', ref_Namespace = vgs_Namespace groupSnapshot,
     ref_Name = vgs_Name groupSnapshot, ref_UID = vgs_UID groupSnapshot,
     ref_APIVersion = groupSnapshotAPIVersion,
     ref_ResourceVersion = ResourceVersion (vgs_meta groupSnapshot), ref_FieldPath = []\<rparr>"

text \<open>The loop over the volumes: their handles, or the first that is not of the driver of the class.\<close>

fun groupVolumeHandles ::
  "VolumeGroupSnapshot \<Rightarrow> VolumeGroupSnapshotClass \<Rightarrow> PersistentVolume list \<Rightarrow> 'w st
    \<Rightarrow> (goerr + string list) \<times> 'w st" where
  "groupVolumeHandles groupSnapshot class [] s = (Inr [], s)"
| "groupVolumeHandles groupSnapshot class (pv # pvs) s =
    (case pv_CSI pv of
       None \<Rightarrow>
         (Inl (Errorf (sprint [''cannot snapshot a non-CSI volume for group snapshot '',
            GroupSnapshotKey groupSnapshot, '': '', Name (pv_meta pv)])),
          emit (Event (ObjVGS groupSnapshot) EventTypeWarning ''CreateGroupSnapshotContentFailed''
            (sprint [''Cannot snapshot a non-CSI volume: '', Name (pv_meta pv)])) s)
     | Some csi \<Rightarrow>
         if csi_Driver csi \<noteq> vgsclass_Driver class then
           (let strErr = sprint [''Volume CSI driver ('', csi_Driver csi,
                  '') mismatch with VolumeGroupSnapshotClass ('', vgsclass_Driver class, '') '',
                  GroupSnapshotKey groupSnapshot, '': '', Name (pv_meta pv)] in
            (Inl (newControllerUpdateError (GroupSnapshotKey groupSnapshot) strErr),
             emit (Event (ObjVGS groupSnapshot) EventTypeWarning ''CreateGroupSnapshotContentFailed'' strErr) s))
         else
           (let (r, s) = groupVolumeHandles groupSnapshot class pvs s in
            (case r of Inl err \<Rightarrow> Inl err | Inr handles \<Rightarrow> Inr (csi_VolumeHandle csi # handles), s)))"

definition newGroupSnapshotContent ::
  "VolumeGroupSnapshot \<Rightarrow> VolumeGroupSnapshotClass \<Rightarrow> string list \<Rightarrow> string \<Rightarrow> SecretReference option
    \<Rightarrow> VolumeGroupSnapshotContent" where
  "newGroupSnapshotContent groupSnapshot class volumeHandles contentName secretRef =
    \<lparr>vgsc_meta = (case secretRef of
        None \<Rightarrow> emptyMeta\<lparr>Name := contentName\<rparr>
      | Some ref \<Rightarrow> SetMetaDataAnnotation
          (SetMetaDataAnnotation (emptyMeta\<lparr>Name := contentName\<rparr>) AnnDeletionGroupSecretRefName (sec_Name ref))
          AnnDeletionGroupSecretRefNamespace (sec_Namespace ref)),
     vgsc_Spec = \<lparr>VolumeGroupSnapshotRef = GetGroupReference groupSnapshot,
       gspec_DeletionPolicy = vgsclass_DeletionPolicy class, gspec_Driver = vgsclass_Driver class,
       gspec_VolumeGroupSnapshotClassName = Some (Name (vgsclass_meta class)),
       gspec_Source = \<lparr>VolumeHandles = volumeHandles, gsrc_GroupSnapshotHandles = None\<rparr>\<rparr>,
     vgsc_Status = None\<rparr>"

text \<open>An already existing object counts as success, and the object in memory is used in place of the server's.\<close>

definition saveGroupSnapshotContent ::
  "'w env \<Rightarrow> VolumeGroupSnapshot \<Rightarrow> VolumeGroupSnapshotContent \<Rightarrow> 'w st
    \<Rightarrow> ((goerr + VolumeGroupSnapshotContent) \<times> 'w st) option" where
  "saveGroupSnapshotContent E groupSnapshot content s =
    do { (r, s) \<leftarrow> act (CreateVGSC content) (api_CreateVGSC E content) s;
         let res = (case r of
                      Inr updated \<Rightarrow> Inr updated
                    | Inl err \<Rightarrow> if IsAlreadyExists err then Inr content else Inl err);
         case res of
           Inl err \<Rightarrow>
             let s = emit (Event (ObjVGS groupSnapshot) EventTypeWarning ''CreateGroupSnapshotContentFailed''
                       (sprint [''Error creating volume group snapshot content object for group snapshot '',
                         GroupSnapshotKey groupSnapshot, '': '', err_text err, ''.''])) s in
             Some (Inl (newControllerUpdateError (GroupSnapshotKey groupSnapshot) (err_text err)), s)
         | Inr updated \<Rightarrow>
             let s = emit (Event (ObjVGS groupSnapshot) EventTypeNormal ''CreatingGroupSnapshot''
                       (sprint [''Waiting for a group snapshot '', GroupSnapshotKey groupSnapshot,
                         '' to be created by the CSI driver.''])) s in
             do { (_, s) \<leftarrow> storeGroupSnapshotContentUpdate (ObjVGSC updated) s;
                  Some (Inr updated, s) } }"

definition createGroupSnapshotContent ::
  "'w env \<Rightarrow> VolumeGroupSnapshot \<Rightarrow> 'w st \<Rightarrow> ((goerr + VolumeGroupSnapshotContent) \<times> 'w st) option" where
  "createGroupSnapshotContent E groupSnapshot s =
    do { (r, s) \<leftarrow> getCreateGroupSnapshotInput E groupSnapshot s;
         case r of
           Inl err \<Rightarrow> Some (Inl (Errorf (sprint [''failed to get input parameters to create group snapshot '',
             vgs_Name groupSnapshot, '': '', goQuote (err_text err)])), s)
         | Inr (class, volumes, contentName, secretRef) \<Rightarrow>
            let (h, s) = groupVolumeHandles groupSnapshot class volumes s in
            (case h of
               Inl err \<Rightarrow> Some (Inl err, s)
             | Inr volumeHandles \<Rightarrow>
                saveGroupSnapshotContent E groupSnapshot
                  (newGroupSnapshotContent groupSnapshot class volumeHandles contentName secretRef) s) }"

section \<open>The member snapshots\<close>

definition isGroupSnapshotContentReadyForSnapshotCreation :: "VolumeGroupSnapshotContent \<Rightarrow> bool" where
  "isGroupSnapshotContentReadyForSnapshotCreation content =
    (case vgsc_Status content of
       None \<Rightarrow> False
     | Some st \<Rightarrow> length (VolumeSnapshotInfoList st) \<noteq> 0 \<and> gcs_VolumeGroupSnapshotHandle st \<noteq> None)"

text \<open>The templates are resolved without the group snapshot, so one that names it is an error here.\<close>

definition getGroupSnapshotSecret ::
  "'w env \<Rightarrow> VolumeGroupSnapshot \<Rightarrow> VolumeGroupSnapshotContent \<Rightarrow> 'w st
    \<Rightarrow> ((goerr + SecretReference option) \<times> 'w st) option" where
  "getGroupSnapshotSecret E groupSnapshot content s =
    (case vgs_ClassName groupSnapshot of
       None \<Rightarrow> Some (Inl (Errorf ''getGroupSnapshotSecret: internal error: cannot find reference to volume group snapshot class''), s)
     | Some className \<Rightarrow>
        do { (r, s) \<leftarrow> call (lister_GetGroupClass E className) s;
             case r of
               Inl err \<Rightarrow> Some (Inl (Errorf (sprint [''getGroupSnapshotSecret: failed to get volume snapshot class '',
                 className, '': '', goQuote (err_text err)])), s)
             | Inr class \<Rightarrow>
                (case GetGroupSnapshotSecretReference GroupSnapshotterSecretParams
                        (vgsclass_Parameters class) (vgsc_Name content) None of
                   Inl err \<Rightarrow> Some (Inl (Errorf (sprint [''getGroupSnapshotSecret: failed to get secret reference for group snapshot content '',
                     vgsc_Name content, '': '', err_text err])), s)
                 | Inr secretRef \<Rightarrow> Some (Inr secretRef, s)) })"

definition findPersistentVolumeByCSIDriverHandle ::
  "'w env \<Rightarrow> string \<Rightarrow> string \<Rightarrow> 'w st \<Rightarrow> ((goerr + PersistentVolume option) \<times> 'w st) option" where
  "findPersistentVolumeByCSIDriverHandle E driverName volumeHandle s =
    do { (r, s) \<leftarrow> call (pvIndexer_ByIndex E (PersistentVolumeKeyFuncByCSIDriverHandle driverName volumeHandle)) s;
         Some (case r of
                 Inl err \<Rightarrow> Inl err
               | Inr [] \<Rightarrow> Inr None
               | Inr [pv] \<Rightarrow> Inr (Some pv)
               | Inr _ \<Rightarrow> Inl (Errorf ''multiple PVs found''), s) }"

definition getSnapshotNameForVolumeGroupSnapshotContent :: "string \<Rightarrow> string \<Rightarrow> string" where
  "getSnapshotNameForVolumeGroupSnapshotContent groupSnapshotUUID volumeHandle =
     ''snapshot-'' @ sha256_hex (groupSnapshotUUID @ volumeHandle)"

definition getSnapshotContentNameForVolumeGroupSnapshotContent :: "string \<Rightarrow> string \<Rightarrow> string" where
  "getSnapshotContentNameForVolumeGroupSnapshotContent groupSnapshotUUID volumeHandle =
     ''snapcontent-'' @ sha256_hex (groupSnapshotUUID @ volumeHandle)"

text \<open>The handle of the group is dereferenced.\<close>

definition buildVolumeSnapshotContentSpecForGroupSnapshot ::
  "VolumeGroupSnapshot \<Rightarrow> VolumeGroupSnapshotContent \<Rightarrow> string \<Rightarrow> PersistentVolume option
    \<Rightarrow> SecretReference option \<Rightarrow> VolumeSnapshotContent option" where
  "buildVolumeSnapshotContentSpecForGroupSnapshot groupSnapshot content volumeHandle pv secretRef =
    do { groupHandle \<leftarrow> Option.bind (vgsc_Status content) gcs_VolumeGroupSnapshotHandle;
         let m = emptyMeta\<lparr>
               Name := getSnapshotContentNameForVolumeGroupSnapshotContent (vgs_UID groupSnapshot) volumeHandle,
               Annotations := fmupd VolumeGroupSnapshotHandleAnnotation groupHandle fmempty\<rparr>;
         Some \<lparr>vsc_meta = (case secretRef of
                 None \<Rightarrow> m
               | Some ref \<Rightarrow> SetMetaDataAnnotation (SetMetaDataAnnotation m AnnDeletionSecretRefName (sec_Name ref))
                   AnnDeletionSecretRefNamespace (sec_Namespace ref)),
               vsc_Spec = \<lparr>VolumeSnapshotRef = emptyRef\<lparr>ref_Kind := ''VolumeSnapshot'',
                   ref_Name := getSnapshotNameForVolumeGroupSnapshotContent (vgs_UID groupSnapshot) volumeHandle,
                   ref_Namespace := ref_Namespace (vgsc_Ref content)\<rparr>,
                 spec_DeletionPolicy = vgsc_Policy content, spec_Driver = gspec_Driver (vgsc_Spec content),
                 spec_VolumeSnapshotClassName = None,
                 spec_Source = \<lparr>VolumeHandle = Some volumeHandle, SnapshotHandle = None\<rparr>,
                 SourceVolumeMode = Option.bind pv pv_VolumeMode\<rparr>,
               vsc_Status = None\<rparr> }"

text \<open>The claim reference of a volume that was found is dereferenced.\<close>

definition buildVolumeSnapshotSpecForGroupSnapshot ::
  "VolumeGroupSnapshot \<Rightarrow> VolumeGroupSnapshotContent \<Rightarrow> string \<Rightarrow> PersistentVolume option \<Rightarrow> VolumeSnapshot option" where
  "buildVolumeSnapshotSpecForGroupSnapshot groupSnapshot content volumeHandle pv =
    do { pvcName \<leftarrow> (case pv of None \<Rightarrow> Some [] | Some pv \<Rightarrow> map_option ref_Name (pv_ClaimRef pv));
         Some \<lparr>vs_meta = emptyMeta\<lparr>
                 Name := getSnapshotNameForVolumeGroupSnapshotContent (vgs_UID groupSnapshot) volumeHandle,
                 Namespace := ref_Namespace (vgsc_Ref content),
                 OwnerReferences := [BuildVolumeGroupSnapshotOwnerReference groupSnapshot],
                 Finalizers := [VolumeSnapshotInGroupFinalizer]\<rparr>,
               vs_Spec = \<lparr>vss_Source = \<lparr>PersistentVolumeClaimName = Some pvcName, VolumeSnapshotContentName = None\<rparr>,
                 vss_VolumeSnapshotClassName = None\<rparr>,
               vs_Status = None\<rparr> }"

definition createOrGetVolumeSnapshotContent ::
  "'w env \<Rightarrow> VolumeSnapshotContent \<Rightarrow> 'w st \<Rightarrow> ((goerr + VolumeSnapshotContent) \<times> 'w st) option" where
  "createOrGetVolumeSnapshotContent E content s =
    do { (r, s) \<leftarrow> act (CreateVSC content) (api_CreateVSC E content) s;
         case r of
           Inr created \<Rightarrow> Some (Inr created, s)
         | Inl err \<Rightarrow> if IsAlreadyExists err then call (api_GetVSC E (vsc_Name content)) s else Some (Inl err, s) }"

definition createOrGetVolumeSnapshot ::
  "'w env \<Rightarrow> VolumeSnapshot \<Rightarrow> 'w st \<Rightarrow> ((goerr + VolumeSnapshot) \<times> 'w st) option" where
  "createOrGetVolumeSnapshot E snapshot s =
    do { (r, s) \<leftarrow> act (CreateVS snapshot) (api_CreateVS E snapshot) s;
         case r of
           Inr created \<Rightarrow> Some (Inr created, s)
         | Inl err \<Rightarrow> if IsAlreadyExists err then call (api_GetVS E (vs_Namespace snapshot) (vs_Name snapshot)) s
                      else Some (Inl err, s) }"

text \<open>The three patches that bind the two and give the content its status.\<close>

definition bindContentOps :: "VolumeSnapshot \<Rightarrow> PatchOp list" where
  "bindContentOps snapshot = [patchOp ''replace'' ''/spec/volumeSnapshotRef/uid'' (PVString (vs_UID snapshot))]"

definition bindSnapshotOps :: "string \<Rightarrow> PatchOp list" where
  "bindSnapshotOps contentName =
    [patchOp ''replace'' ''/status'' (PVSnapshotStatus emptyStatus),
     patchOp ''replace'' ''/status/boundVolumeSnapshotContentName'' (PVString contentName)]"

definition optInt :: "int option \<Rightarrow> PatchValue" where
  "optInt n = (case n of None \<Rightarrow> PVNone | Some n \<Rightarrow> PVInt n)"

definition memberStatusOps :: "VolumeSnapshotInfo \<Rightarrow> string option \<Rightarrow> PatchOp list" where
  "memberStatusOps info groupHandle =
    [patchOp ''replace'' ''/status'' (PVContentStatus emptyContentStatus),
     patchOp ''replace'' ''/status/snapshotHandle'' (PVString (vsi_SnapshotHandle info)),
     patchOp ''replace'' ''/status/volumeGroupSnapshotHandle''
       (case groupHandle of None \<Rightarrow> PVNone | Some h \<Rightarrow> PVString h),
     patchOp ''replace'' ''/status/creationTime'' (optInt (vsi_CreationTime info)),
     patchOp ''replace'' ''/status/restoreSize'' (optInt (vsi_RestoreSize info)),
     patchOp ''replace'' ''/status/readyToUse'' (case vsi_ReadyToUse info of None \<Rightarrow> PVNone | Some b \<Rightarrow> PVBool b)]"

definition bindSnapshotContentToSnapshot ::
  "'w env \<Rightarrow> VolumeSnapshotContent \<Rightarrow> VolumeSnapshot \<Rightarrow> 'w st \<Rightarrow> (goerr option \<times> 'w st) option" where
  "bindSnapshotContentToSnapshot E content snapshot s =
    do { ((_, err), s) \<leftarrow> PatchVolumeSnapshotContent E content (bindContentOps snapshot) [] s; Some (err, s) }"

definition bindSnapshotToSnapshotContent ::
  "'w env \<Rightarrow> VolumeSnapshot \<Rightarrow> string \<Rightarrow> 'w st \<Rightarrow> (goerr option \<times> 'w st) option" where
  "bindSnapshotToSnapshotContent E snapshot contentName s =
    do { ((_, err), s) \<leftarrow> PatchVolumeSnapshot E snapshot (bindSnapshotOps contentName) [''status''] s; Some (err, s) }"

definition updateVolumeSnapshotContentStatus ::
  "'w env \<Rightarrow> VolumeSnapshotContent \<Rightarrow> VolumeSnapshotInfo \<Rightarrow> VolumeGroupSnapshotContent \<Rightarrow> 'w st
    \<Rightarrow> (goerr option \<times> 'w st) option" where
  "updateVolumeSnapshotContentStatus E content info groupContent s =
    do { ((_, err), s) \<leftarrow> PatchVolumeSnapshotContent E content
           (memberStatusOps info (Option.bind (vgsc_Status groupContent) gcs_VolumeGroupSnapshotHandle)) [''status''] s;
         Some (err, s) }"

text \<open>From the two created objects on.\<close>

definition bindMember ::
  "'w env \<Rightarrow> VolumeSnapshotContent \<Rightarrow> VolumeSnapshot \<Rightarrow> VolumeSnapshotInfo \<Rightarrow> VolumeGroupSnapshotContent \<Rightarrow> 'w st
    \<Rightarrow> (goerr option \<times> 'w st) option" where
  "bindMember E content snapshot info groupContent s =
    (if vs_UID snapshot = [] then
       Some (Some (Errorf (sprint [''createIndividualSnapshotForGroupSnapshot: created snapshot '',
         vs_Name snapshot, '' has an empty UID''])), s)
     else do {
       (err, s) \<leftarrow> bindSnapshotContentToSnapshot E content snapshot s;
       case err of
         Some err \<Rightarrow> Some (Some (wrapErr ''createIndividualSnapshotForGroupSnapshot: binding volumesnapshotcontent to volumesnapshot '' err), s)
       | None \<Rightarrow>
          do { (err, s) \<leftarrow> bindSnapshotToSnapshotContent E snapshot (vsc_Name content) s;
               case err of
                 Some err \<Rightarrow> Some (Some (wrapErr ''createIndividualSnapshotForGroupSnapshot: binding volumesnapshot to volumesnapshotcontent '' err), s)
               | None \<Rightarrow>
                  do { (err, s) \<leftarrow> updateVolumeSnapshotContentStatus E content info groupContent s;
                       case err of
                         Some err \<Rightarrow> Some (Some (wrapErr ''createIndividualSnapshotForGroupSnapshot: setting snapshotHandle in volumesnapshotcontent '' err), s)
                       | None \<Rightarrow> Some (None, s) } } })"

text \<open>A volume that cannot be told is only logged; the member then has no claim name.\<close>

definition createIndividualSnapshotForGroupSnapshot ::
  "'w env \<Rightarrow> VolumeSnapshotInfo \<Rightarrow> VolumeGroupSnapshotContent \<Rightarrow> VolumeGroupSnapshot \<Rightarrow> SecretReference option \<Rightarrow> 'w st
    \<Rightarrow> (goerr option \<times> 'w st) option" where
  "createIndividualSnapshotForGroupSnapshot E info groupContent groupSnapshot secretRef s =
    do { (r, s) \<leftarrow> findPersistentVolumeByCSIDriverHandle E (gspec_Driver (vgsc_Spec groupContent)) (vsi_VolumeHandle info) s;
         let pv = (case r of Inl _ \<Rightarrow> None | Inr pv \<Rightarrow> pv);
         content \<leftarrow> buildVolumeSnapshotContentSpecForGroupSnapshot groupSnapshot groupContent (vsi_VolumeHandle info) pv secretRef;
         snapshot \<leftarrow> buildVolumeSnapshotSpecForGroupSnapshot groupSnapshot groupContent (vsi_VolumeHandle info) pv;
         (r, s) \<leftarrow> createOrGetVolumeSnapshotContent E content s;
         case r of
           Inl err \<Rightarrow> Some (Some (wrapErr ''createIndividualSnapshotForGroupSnapshot: creating volumesnapshotcontent '' err), s)
         | Inr createdContent \<Rightarrow>
            do { (r, s) \<leftarrow> createOrGetVolumeSnapshot E snapshot s;
                 case r of
                   Inl err \<Rightarrow> Some (Some (wrapErr ''createIndividualSnapshotForGroupSnapshot: error creating or fetching volumesnapshot '' err), s)
                 | Inr createdSnapshot \<Rightarrow> bindMember E createdContent createdSnapshot info groupContent s } }"

fun createMembers ::
  "'w env \<Rightarrow> VolumeSnapshotInfo list \<Rightarrow> VolumeGroupSnapshotContent \<Rightarrow> VolumeGroupSnapshot \<Rightarrow> SecretReference option \<Rightarrow> 'w st
    \<Rightarrow> (goerr option \<times> 'w st) option" where
  "createMembers E [] content groupSnapshot secretRef s = Some (None, s)"
| "createMembers E (info # infos) content groupSnapshot secretRef s =
    do { (err, s) \<leftarrow> createIndividualSnapshotForGroupSnapshot E info content groupSnapshot secretRef s;
         if err \<noteq> None then Some (err, s) else createMembers E infos content groupSnapshot secretRef s }"

text \<open>On success the content is always the one passed in, so only the error is returned here.\<close>

definition createSnapshotsForGroupSnapshotContent ::
  "'w env \<Rightarrow> VolumeGroupSnapshotContent \<Rightarrow> VolumeGroupSnapshot \<Rightarrow> 'w st \<Rightarrow> (goerr option \<times> 'w st) option" where
  "createSnapshotsForGroupSnapshotContent E content groupSnapshot s =
    (if \<not> isGroupSnapshotContentReadyForSnapshotCreation content then Some (None, s)
     else do {
       (r, s) \<leftarrow> getGroupSnapshotSecret E groupSnapshot content s;
       case r of
         Inl err \<Rightarrow> Some (Some err, s)
       | Inr secretRef \<Rightarrow>
          createMembers E (case vgsc_Status content of None \<Rightarrow> [] | Some st \<Rightarrow> VolumeSnapshotInfoList st)
            content groupSnapshot secretRef s })"

section \<open>Finalizers and annotations\<close>

definition addGroupContentFinalizerOps :: "VolumeGroupSnapshotContent \<Rightarrow> PatchOp list" where
  "addGroupContentFinalizerOps content =
    (if length (Finalizers (vgsc_meta content)) > 0
     then [patchOp ''add'' ''/metadata/finalizers/-'' (PVString VolumeGroupSnapshotContentFinalizer)]
     else [patchOp ''add'' ''/metadata/finalizers'' (PVStrings [VolumeGroupSnapshotContentFinalizer])])"

definition addGroupSnapshotContentFinalizer ::
  "'w env \<Rightarrow> VolumeGroupSnapshotContent \<Rightarrow> 'w st \<Rightarrow> (goerr option \<times> 'w st) option" where
  "addGroupSnapshotContentFinalizer E content s =
    do { ((newContent, err), s) \<leftarrow> PatchVolumeGroupSnapshotContent E content (addGroupContentFinalizerOps content) [] s;
         case err of
           Some err \<Rightarrow> Some (Some (newControllerUpdateError (vgsc_Name content) (err_text err)), s)
         | None \<Rightarrow> do { (_, s) \<leftarrow> storeGroupSnapshotContentUpdate (ObjVGSC newContent) s; Some (None, s) } }"

definition addGroupSnapshotFinalizer ::
  "'w env \<Rightarrow> VolumeGroupSnapshot \<Rightarrow> bool \<Rightarrow> 'w st \<Rightarrow> (goerr option \<times> 'w st) option" where
  "addGroupSnapshotFinalizer E groupSnapshot addBoundFinalizer s =
    do { (r, s) \<leftarrow>
           (if length (Finalizers (vgs_meta groupSnapshot)) = 0 then
              let clone = (if addBoundFinalizer
                    then groupSnapshot\<lparr>vgs_meta := (vgs_meta groupSnapshot)\<lparr>Finalizers :=
                           Finalizers (vgs_meta groupSnapshot) @ [VolumeGroupSnapshotBoundFinalizer]\<rparr>\<rparr>
                    else groupSnapshot) in
              act (UpdateVGS clone) (api_UpdateVGS E clone) s
            else
              do { ((updated, err), s) \<leftarrow> PatchVolumeGroupSnapshot E groupSnapshot
                     (if addBoundFinalizer then [patchOp ''add'' ''/metadata/finalizers/-''
                        (PVString VolumeGroupSnapshotBoundFinalizer)] else []) [] s;
                   Some (case err of Some err \<Rightarrow> Inl err | None \<Rightarrow> Inr updated, s) });
         case r of
           Inl err \<Rightarrow> Some (Some (newControllerUpdateError (GroupSnapshotKey groupSnapshot) (err_text err)), s)
         | Inr updated \<Rightarrow> do { (_, s) \<leftarrow> storeGroupSnapshotUpdate (ObjVGS updated) s; Some (None, s) } }"

definition removeGroupSnapshotFinalizer ::
  "'w env \<Rightarrow> VolumeGroupSnapshot \<Rightarrow> bool \<Rightarrow> 'w st \<Rightarrow> (goerr option \<times> 'w st) option" where
  "removeGroupSnapshotFinalizer E groupSnapshot removeBoundFinalizer s =
    (if \<not> removeBoundFinalizer then Some (None, s)
     else
       let clone = groupSnapshot\<lparr>vgs_meta := (vgs_meta groupSnapshot)\<lparr>Finalizers :=
             RemoveString (Finalizers (vgs_meta groupSnapshot)) VolumeGroupSnapshotBoundFinalizer\<rparr>\<rparr> in
       do { (r, s) \<leftarrow> act (UpdateVGS clone) (api_UpdateVGS E clone) s;
            case r of
              Inl err \<Rightarrow> Some (Some (newControllerUpdateError (vgs_Name groupSnapshot) (err_text err)), s)
            | Inr newGroupSnapshot \<Rightarrow>
               do { (_, s) \<leftarrow> storeGroupSnapshotUpdate (ObjVGS newGroupSnapshot) s; Some (None, s) } })"

definition checkandAddGroupSnapshotFinalizers ::
  "'w env \<Rightarrow> VolumeGroupSnapshot \<Rightarrow> 'w st \<Rightarrow> (goerr option \<times> 'w st) option" where
  "checkandAddGroupSnapshotFinalizers E groupSnapshot s =
    do { (r, s) \<leftarrow> (if vgs_ContentName groupSnapshot \<noteq> None
                      then getPreprovisionedGroupSnapshotContentFromStore E groupSnapshot s
                      else getDynamicallyProvisionedGroupContentFromStore E groupSnapshot s);
         case r of
           Inl err \<Rightarrow> Some (Some err, s)
         | Inr content \<Rightarrow>
            if content \<noteq> None \<and> NeedToAddGroupSnapshotBoundFinalizer groupSnapshot
            then addGroupSnapshotFinalizer E groupSnapshot True s else Some (None, s) }"

text \<open>The annotation is set in place, on the object in the cache, before it is patched.\<close>

definition writeThroughVGSC ::
  "'w env \<Rightarrow> VolumeGroupSnapshotContent \<Rightarrow> VolumeGroupSnapshotContent \<Rightarrow> 'w st \<Rightarrow> 'w st" where
  "writeThroughVGSC E old new s =
    (let k = keyFunc (vgsc_meta old) in
     s\<lparr>groupSnapshotContentStore := (if groupSnapshotContentStore s k = Some (ObjVGSC old)
          then (groupSnapshotContentStore s)(k \<mapsto> ObjVGSC new) else groupSnapshotContentStore s),
       world := shared_write_VGSC E new (world s)\<rparr>)"

definition setAnnVolumeGroupSnapshotBeingDeleted ::
  "'w env \<Rightarrow> VolumeGroupSnapshotContent \<Rightarrow> 'w st
    \<Rightarrow> ((goerr + VolumeGroupSnapshotContent) \<times> 'w st) option" where
  "setAnnVolumeGroupSnapshotBeingDeleted E content s =
    (if HasAnnotation (vgsc_meta content) AnnVolumeGroupSnapshotBeingDeleted then Some (Inr content, s)
     else
       let new = content\<lparr>vgsc_meta :=
                   SetMetaDataAnnotation (vgsc_meta content) AnnVolumeGroupSnapshotBeingDeleted ''yes''\<rparr>;
           s = writeThroughVGSC E content new s;
           patches = [patchOp ''replace'' ''/metadata/annotations'' (PVMap (Annotations (vgsc_meta new)))] in
       do { ((patched, err), s) \<leftarrow> PatchVolumeGroupSnapshotContent E new patches [] s;
            case err of
              Some err \<Rightarrow> Some (Inl (newControllerUpdateError (vgsc_Name new) (err_text err)), s)
            | None \<Rightarrow>
               do { (r, s) \<leftarrow> storeGroupSnapshotContentUpdate (ObjVGSC patched) s;
                    case r of Inl err \<Rightarrow> Some (Inl err, s) | Inr _ \<Rightarrow> Some (Inr patched, s) } })"

section \<open>What these operations do\<close>

context effects
begin

lemma updateGroupSnapshotErrorStatusWithEvent_I:
  assumes "\<And>g. ok (UpdateStatusVGS g)" "\<And>g t r m. ok (Event (ObjVGS g) t r m)" "touch CGroupSnapshot" "I s"
    "\<And>r s'. I s' \<Longrightarrow> Q r s'"
  shows "ensures (updateGroupSnapshotErrorStatusWithEvent E g b t reason msg s) Q"
  unfolding updateGroupSnapshotErrorStatusWithEvent_def
  by (rule keepI[OF _ assms(5)], rule ensures_option_bind, insert assms(1-4), auto simp: Let_def
      intro!: call_I act_I emit_I storeGroupSnapshotUpdate_I split: sum.split)

lemma getClaimsFromVolumeGroupSnapshot_I:
  assumes "I s" "\<And>r s'. I s' \<Longrightarrow> Q r s'"
  shows "ensures (getClaimsFromVolumeGroupSnapshot E g s) Q"
  unfolding getClaimsFromVolumeGroupSnapshot_def
  by (rule keepI[OF _ assms(2)], rule ensures_option_bind, insert assms(1), auto
      intro!: call_I split: sum.split)

lemma volumesOfClaims_I:
  assumes "I s" "\<And>r s'. I s' \<Longrightarrow> Q r s'"
  shows "ensures (volumesOfClaims E pvcs s) Q"
proof (rule keepI[OF _ assms(2)])
  show "ensures (volumesOfClaims E pvcs s) (\<lambda>_ s'. I s')" using assms(1)
  proof (induction pvcs arbitrary: s)
    case (Cons pvc pvcs)
    have "ensures (volumesOfClaims E pvcs s) Q'" if "I s" "\<And>r s'. I s' \<Longrightarrow> Q' r s'" for s Q'
      by (rule keepI[OF Cons.IH[OF that(1)] that(2)])
    then show ?case using Cons.prems by (auto intro!: call_I split: sum.split)
  qed simp
qed

lemma getVolumesFromVolumeGroupSnapshot_I:
  "I s \<Longrightarrow> (\<And>r s'. I s' \<Longrightarrow> Q r s') \<Longrightarrow> ensures (getVolumesFromVolumeGroupSnapshot E g s) Q"
  by (auto simp: getVolumesFromVolumeGroupSnapshot_def intro!: getClaimsFromVolumeGroupSnapshot_I volumesOfClaims_I
      split: sum.split)

lemma pvDriverFromGroupSnapshot_I:
  "I s \<Longrightarrow> (\<And>r s'. I s' \<Longrightarrow> Q r s') \<Longrightarrow> ensures (pvDriverFromGroupSnapshot E g s) Q"
  by (auto simp: pvDriverFromGroupSnapshot_def intro!: getVolumesFromVolumeGroupSnapshot_I
      split: sum.split list.split option.split)

lemma getGroupSnapshotClass_I:
  "I s \<Longrightarrow> (\<And>r s'. I s' \<Longrightarrow> Q r s') \<Longrightarrow> ensures (getGroupSnapshotClass E n s) Q"
  by (simp add: getGroupSnapshotClass_def call_I)

lemma SetDefaultGroupSnapshotClass_I:
  assumes "\<And>g. ok (UpdateVGS g)" "touch CGroupSnapshot" "I s" "\<And>r s'. I s' \<Longrightarrow> Q r s'"
  shows "ensures (SetDefaultGroupSnapshotClass E g s) Q"
  unfolding SetDefaultGroupSnapshotClass_def
  by (rule keepI[OF _ assms(4)], insert assms(1-3), auto simp: Let_def
      intro!: call_I pvDriverFromGroupSnapshot_I act_I storeGroupSnapshotUpdate_I split: sum.split list.split)

lemma getGroupSnapshotDriverName_I:
  assumes "I s" "\<And>r s'. I s' \<Longrightarrow> Q r s'"
  shows "ensures (getGroupSnapshotDriverName E g s) Q"
  unfolding getGroupSnapshotDriverName_def
  by (rule keepI[OF _ assms(2)], insert assms(1), auto simp: Let_def
      intro!: call_I getGroupSnapshotClass_I split: option.split)

lemma getPreprovisionedGroupSnapshotContentFromStore_I:
  assumes "\<And>g. ok (UpdateStatusVGS g)" "\<And>g t r m. ok (Event (ObjVGS g) t r m)" "touch CGroupSnapshot" "I s"
    "\<And>r s'. I s' \<Longrightarrow> Q r s'"
  shows "ensures (getPreprovisionedGroupSnapshotContentFromStore E g s) Q"
  unfolding getPreprovisionedGroupSnapshotContentFromStore_def
  by (rule keepI[OF _ assms(5)], rule ensures_option_bind, insert assms(1-4), auto simp: Let_def
      intro!: updateGroupSnapshotErrorStatusWithEvent_I split: sum.split option.split)

lemma getDynamicallyProvisionedGroupContentFromStore_I:
  assumes "\<And>g. ok (UpdateStatusVGS g)" "\<And>g t r m. ok (Event (ObjVGS g) t r m)" "touch CGroupSnapshot" "I s"
    "\<And>r s'. I s' \<Longrightarrow> Q r s'"
  shows "ensures (getDynamicallyProvisionedGroupContentFromStore E g s) Q"
  unfolding getDynamicallyProvisionedGroupContentFromStore_def
  by (rule keepI[OF _ assms(5)], insert assms(1-4), auto simp: Let_def
      intro!: updateGroupSnapshotErrorStatusWithEvent_I split: sum.split option.split)

lemma recordGroupStatusChange_I:
  assumes "\<And>t r m. ok (Event (ObjVGS g) t r m)" "I s" "\<And>r s'. I s' \<Longrightarrow> Q r s'"
  shows "ensures (recordGroupStatusChange E g d old new s) Q"
  unfolding recordGroupStatusChange_def
  by (rule keepI[OF _ assms(3)], insert assms(1,2), auto intro!: withMetrics_I emit_I)

lemma updateGroupSnapshotStatus_I:
  assumes "\<And>g. ok (UpdateStatusVGS g)" "\<And>g t r m. ok (Event (ObjVGS g) t r m)" "I s"
    "\<And>r s'. I s' \<Longrightarrow> Q r s'"
  shows "ensures (updateGroupSnapshotStatus E g c s) Q"
  unfolding updateGroupSnapshotStatus_def
  by (rule keepI[OF _ assms(4)], insert assms(1-3), auto simp: Let_def
      intro!: call_I recordGroupStatusChange_I act_I split: sum.split prod.split)

lemma bindandUpdateVolumeGroupSnapshot_I:
  assumes "\<And>g. ok (UpdateStatusVGS g)" "\<And>g t r m. ok (Event (ObjVGS g) t r m)" "touch CGroupSnapshot" "I s"
    "\<And>r s'. I s' \<Longrightarrow> Q r s'"
  shows "ensures (bindandUpdateVolumeGroupSnapshot E c g s) Q"
  unfolding bindandUpdateVolumeGroupSnapshot_def
  by (rule keepI[OF _ assms(5)], insert assms(1-4), auto
      intro!: call_I updateGroupSnapshotStatus_I updateGroupSnapshotErrorStatusWithEvent_I
        storeGroupSnapshotUpdate_I split: sum.split)

lemma checkAndBindGroupSnapshotContent_I:
  assumes "\<And>p. ok (PatchVGSC (vgsc_Name c) p [])" "touch CGroupSnapshotContent" "I s"
    "\<And>r s'. I s' \<Longrightarrow> Q r s'"
  shows "ensures (checkAndBindGroupSnapshotContent E g c s) Q"
  unfolding checkAndBindGroupSnapshotContent_def
  by (rule keepI[OF _ assms(4)], insert assms(1-3), auto simp: Let_def
      intro!: PatchVolumeGroupSnapshotContent_I storeGroupSnapshotContentUpdate_I split: option.split sum.split)

lemma getCreateGroupSnapshotInput_I:
  assumes "I s" "\<And>r s'. I s' \<Longrightarrow> Q r s'"
  shows "ensures (getCreateGroupSnapshotInput E g s) Q"
  unfolding getCreateGroupSnapshotInput_def
  by (rule keepI[OF _ assms(2)], insert assms(1), auto simp: Let_def
      intro!: getGroupSnapshotClass_I getVolumesFromVolumeGroupSnapshot_I split: option.split sum.split)

lemma groupVolumeHandles_I:
  assumes "\<And>t r m. ok (Event (ObjVGS g) t r m)"
  shows "I s \<Longrightarrow> I (snd (groupVolumeHandles g class pvs s))"
  by (induction pvs arbitrary: s) (auto simp: Let_def case_prod_beta assms intro!: emit_I split: option.split)

lemma saveGroupSnapshotContent_I:
  assumes "ok (CreateVGSC c)" "\<And>t r m. ok (Event (ObjVGS g) t r m)" "touch CGroupSnapshotContent" "I s"
    "\<And>r s'. I s' \<Longrightarrow> Q r s'"
  shows "ensures (saveGroupSnapshotContent E g c s) Q"
  unfolding saveGroupSnapshotContent_def
  by (rule keepI[OF _ assms(5)], insert assms(1-4), auto simp: Let_def
      intro!: act_I emit_I storeGroupSnapshotContentUpdate_I split: sum.split)

lemma createGroupSnapshotContent_I:
  assumes "\<And>c. ok (CreateVGSC c)" "\<And>t r m. ok (Event (ObjVGS g) t r m)" "touch CGroupSnapshotContent" "I s"
    "\<And>r s'. I s' \<Longrightarrow> Q r s'"
  shows "ensures (createGroupSnapshotContent E g s) Q"
  unfolding createGroupSnapshotContent_def
proof (rule keepI[OF _ assms(5)], simp only: ensures_bind prod.case, rule getCreateGroupSnapshotInput_I[OF assms(4)],
    goal_cases)
  case (1 r s1)
  have "I (snd (groupVolumeHandles g cl pvs s1))" for cl pvs
    using groupVolumeHandles_I 1 assms(2) by blast
  then have "h = (x, s2) \<Longrightarrow> groupVolumeHandles g cl pvs s1 = h \<Longrightarrow> I s2" for cl pvs h x s2
    by (metis snd_conv)
  then show ?case using assms(1-3) 1
    by (auto intro!: saveGroupSnapshotContent_I split: sum.split prod.split)
qed

lemma getGroupSnapshotSecret_I:
  assumes "I s" "\<And>r s'. I s' \<Longrightarrow> Q r s'"
  shows "ensures (getGroupSnapshotSecret E g c s) Q"
  unfolding getGroupSnapshotSecret_def
  by (rule keepI[OF _ assms(2)], insert assms(1), auto intro!: call_I split: option.split sum.split)

lemma findPersistentVolumeByCSIDriverHandle_I:
  "I s \<Longrightarrow> (\<And>r s'. I s' \<Longrightarrow> Q r s') \<Longrightarrow> ensures (findPersistentVolumeByCSIDriverHandle E d h s) Q"
  by (auto simp: findPersistentVolumeByCSIDriverHandle_def intro!: call_I)

lemma createOrGetVolumeSnapshotContent_I:
  assumes "ok (CreateVSC c)" "I s" "\<And>r s'. I s' \<Longrightarrow> Q r s'"
  shows "ensures (createOrGetVolumeSnapshotContent E c s) Q"
  unfolding createOrGetVolumeSnapshotContent_def
  by (rule keepI[OF _ assms(3)], insert assms(1,2), auto intro!: act_I call_I split: sum.split)

lemma createOrGetVolumeSnapshot_I:
  assumes "ok (CreateVS v)" "I s" "\<And>r s'. I s' \<Longrightarrow> Q r s'"
  shows "ensures (createOrGetVolumeSnapshot E v s) Q"
  unfolding createOrGetVolumeSnapshot_def
  by (rule keepI[OF _ assms(3)], insert assms(1,2), auto intro!: act_I call_I split: sum.split)

lemma bindMember_I:
  assumes "ok (PatchVSC (vsc_Name c) (bindContentOps v) [])"
    "ok (PatchVS (vs_Namespace v) (vs_Name v) (bindSnapshotOps (vsc_Name c)) [''status''])"
    "\<And>h. ok (PatchVSC (vsc_Name c) (memberStatusOps info h) [''status''])" "I s" "\<And>r s'. I s' \<Longrightarrow> Q r s'"
  shows "ensures (bindMember E c v info gc s) Q"
  unfolding bindMember_def bindSnapshotContentToSnapshot_def bindSnapshotToSnapshotContent_def
    updateVolumeSnapshotContentStatus_def
  by (rule keepI[OF _ assms(5)], insert assms(1-4), auto
      intro!: PatchVolumeSnapshotContent_I PatchVolumeSnapshot_I split: option.split)

lemma createIndividualSnapshotForGroupSnapshot_I:
  assumes "\<And>c. ok (CreateVSC c)" "\<And>v. ok (CreateVS v)" "\<And>n p q. plainOrStatus q \<Longrightarrow> ok (PatchVSC n p q)" "\<And>n m p q. plainOrStatus q \<Longrightarrow> ok (PatchVS n m p q)"
    "I s" "\<And>r s'. I s' \<Longrightarrow> Q r s'"
  shows "ensures (createIndividualSnapshotForGroupSnapshot E info gc g ref s) Q"
proof (rule keepI[OF _ assms(6)])
  have rest: "ensures (createOrGetVolumeSnapshotContent E c s \<bind> (\<lambda>(r, s). case r of
           Inl err \<Rightarrow> Some (Some (f err), s)
         | Inr c' \<Rightarrow> createOrGetVolumeSnapshot E v s \<bind> (\<lambda>(r, s). case r of
              Inl err \<Rightarrow> Some (Some (f' err), s) | Inr v' \<Rightarrow> bindMember E c' v' info gc s))) (\<lambda>_ s'. I s')"
    if "I s" for s c v and f f' :: "goerr \<Rightarrow> goerr"
    using that assms(1-4) by (auto
        intro!: createOrGetVolumeSnapshotContent_I createOrGetVolumeSnapshot_I bindMember_I split: sum.split)
  show "ensures (createIndividualSnapshotForGroupSnapshot E info gc g ref s) (\<lambda>_ s'. I s')"
    unfolding createIndividualSnapshotForGroupSnapshot_def Let_def
    by (subst ensures_bind, unfold prod.case, rule findPersistentVolumeByCSIDriverHandle_I[OF assms(5)],
        rule ensures_option_bind, rule ensures_option_bind, rule rest)
qed

lemma createMembers_I:
  assumes "\<And>c. ok (CreateVSC c)" "\<And>v. ok (CreateVS v)" "\<And>n p q. plainOrStatus q \<Longrightarrow> ok (PatchVSC n p q)" "\<And>n m p q. plainOrStatus q \<Longrightarrow> ok (PatchVS n m p q)"
    "I s" "\<And>r s'. I s' \<Longrightarrow> Q r s'"
  shows "ensures (createMembers E infos gc g ref s) Q"
proof (rule keepI[OF _ assms(6)])
  show "ensures (createMembers E infos gc g ref s) (\<lambda>_ s'. I s')" using assms(5)
  proof (induction infos arbitrary: s)
    case (Cons info infos)
    show ?case unfolding createMembers.simps ensures_bind prod.case
      by (rule createIndividualSnapshotForGroupSnapshot_I) (use assms(1-4) Cons.prems Cons.IH in auto)
  qed simp
qed

lemma createSnapshotsForGroupSnapshotContent_I:
  assumes "\<And>c. ok (CreateVSC c)" "\<And>v. ok (CreateVS v)" "\<And>n p q. plainOrStatus q \<Longrightarrow> ok (PatchVSC n p q)" "\<And>n m p q. plainOrStatus q \<Longrightarrow> ok (PatchVS n m p q)"
    "I s" "\<And>r s'. I s' \<Longrightarrow> Q r s'"
  shows "ensures (createSnapshotsForGroupSnapshotContent E gc g s) Q"
  unfolding createSnapshotsForGroupSnapshotContent_def
  by (rule keepI[OF _ assms(6)], insert assms(1-5), auto
      intro!: getGroupSnapshotSecret_I createMembers_I split: sum.split)

lemma addGroupSnapshotContentFinalizer_I:
  assumes "\<And>p. ok (PatchVGSC (vgsc_Name c) p [])" "touch CGroupSnapshotContent" "I s"
    "\<And>r s'. I s' \<Longrightarrow> Q r s'"
  shows "ensures (addGroupSnapshotContentFinalizer E c s) Q"
  unfolding addGroupSnapshotContentFinalizer_def
  by (rule keepI[OF _ assms(4)], insert assms(1-3), auto
      intro!: PatchVolumeGroupSnapshotContent_I storeGroupSnapshotContentUpdate_I split: option.split)

lemma addGroupSnapshotFinalizer_I:
  assumes "\<And>g. ok (UpdateVGS g)" "\<And>n m p. ok (PatchVGS n m p [])" "touch CGroupSnapshot" "I s"
    "\<And>r s'. I s' \<Longrightarrow> Q r s'"
  shows "ensures (addGroupSnapshotFinalizer E g b s) Q"
  unfolding addGroupSnapshotFinalizer_def
  by (rule keepI[OF _ assms(5)], insert assms(1-4), auto simp: Let_def
      intro!: act_I PatchVolumeGroupSnapshot_I storeGroupSnapshotUpdate_I split: option.split sum.split)

lemma removeGroupSnapshotFinalizer_I:
  assumes "\<And>g. ok (UpdateVGS g)" "touch CGroupSnapshot" "I s" "\<And>r s'. I s' \<Longrightarrow> Q r s'"
  shows "ensures (removeGroupSnapshotFinalizer E g b s) Q"
  unfolding removeGroupSnapshotFinalizer_def
  by (rule keepI[OF _ assms(4)], insert assms(1-3), auto simp: Let_def
      intro!: act_I storeGroupSnapshotUpdate_I split: sum.split)

lemma checkandAddGroupSnapshotFinalizers_I:
  assumes "\<And>g. ok (UpdateVGS g)" "\<And>g. ok (UpdateStatusVGS g)" "\<And>n m p. ok (PatchVGS n m p [])"
    "\<And>g t r m. ok (Event (ObjVGS g) t r m)" "touch CGroupSnapshot" "I s" "\<And>r s'. I s' \<Longrightarrow> Q r s'"
  shows "ensures (checkandAddGroupSnapshotFinalizers E g s) Q"
  unfolding checkandAddGroupSnapshotFinalizers_def
  by (rule keepI[OF _ assms(7)], insert assms(1-6), auto
      intro!: getPreprovisionedGroupSnapshotContentFromStore_I getDynamicallyProvisionedGroupContentFromStore_I
        addGroupSnapshotFinalizer_I split: sum.split)

lemma writeThroughVGSC_I:
  assumes "touch CGroupSnapshotContent" "I s" "keyFunc (vgsc_meta c') = keyFunc (vgsc_meta c)"
  shows "I (writeThroughVGSC E c c' s)"
proof -
  have "I (s\<lparr>groupSnapshotContentStore := x, world := w\<rparr>)" if "storeStep isVGSC (groupSnapshotContentStore s) x" for x w
    by (intro I_world I_groupContent assms that)
  then show ?thesis unfolding writeThroughVGSC_def Let_def using assms(3) by (auto simp: storeStep_put)
qed

lemma setAnnVolumeGroupSnapshotBeingDeleted_I:
  assumes "\<And>p. ok (PatchVGSC (vgsc_Name c) p [])" "touch CGroupSnapshotContent" "I s" "\<And>r s'. I s' \<Longrightarrow> Q r s'"
  shows "ensures (setAnnVolumeGroupSnapshotBeingDeleted E c s) Q"
  unfolding setAnnVolumeGroupSnapshotBeingDeleted_def
  by (rule keepI[OF _ assms(4)], insert assms(1-3), auto simp: Let_def
      intro!: writeThroughVGSC_I PatchVolumeGroupSnapshotContent_I storeGroupSnapshotContentUpdate_I
      split: sum.split option.split)

end

end
