(* ===== verification/CommonBase.thy ===== *)
theory CommonBase
  imports CommonSync
begin

text \<open>
  The work loop of the common controller (\<open>pkg/common-controller/snapshot_controller_base.go\<close>): how informer
  events become queue keys, what a worker does with a key, how an object that is gone is forgotten, and
  how the caches are filled at start.
\<close>

section \<open>Informer events\<close>

definition enqueueSnapshotWork :: "informer_obj \<Rightarrow> 'w st \<Rightarrow> 'w st" where
  "enqueueSnapshotWork ob s =
    (case unwrapTombstone ob of
       Some (ObjVS snapshot) \<Rightarrow> emit (QueueAdd QSnapshot (keyFunc (vs_meta snapshot))) s
     | _ \<Rightarrow> s)"

definition enqueueContentWork :: "informer_obj \<Rightarrow> 'w st \<Rightarrow> 'w st" where
  "enqueueContentWork ob s =
    (case unwrapTombstone ob of
       Some (ObjVSC content) \<Rightarrow> emit (QueueAdd QContent (keyFunc (vsc_meta content))) s
     | _ \<Rightarrow> s)"

section \<open>Updates and deletions\<close>

definition updateSnapshot :: "'w env \<Rightarrow> VolumeSnapshot \<Rightarrow> 'w st \<Rightarrow> (goerr option \<times> 'w st) option" where
  "updateSnapshot E snapshot s =
    do { (new, s) \<leftarrow> storeSnapshotUpdate (ObjVS snapshot) s;
         if new \<noteq> Inr True then Some (None, s) else syncSnapshot E snapshot s }"

definition updateContent :: "'w env \<Rightarrow> VolumeSnapshotContent \<Rightarrow> 'w st \<Rightarrow> (goerr option \<times> 'w st) option" where
  "updateContent E content s =
    do { (new, s) \<leftarrow> storeContentUpdate (ObjVSC content) s;
         if new \<noteq> Inr True then Some (None, s) else syncContent E content s }"

definition deleteSnapshot :: "'w env \<Rightarrow> VolumeSnapshot \<Rightarrow> 'w st \<Rightarrow> (unit \<times> 'w st) option" where
  "deleteSnapshot E snapshot s =
    (let s = s\<lparr>snapshotStore := (snapshotStore s)(keyFunc (vs_meta snapshot) := None)\<rparr> in
     do { (driverName, s) \<leftarrow> getSnapshotDriverName E snapshot s;
          (_, s) \<leftarrow> withMetrics E (RecordMetrics
                 (NewOperationKey DeleteSnapshotOperationName (vs_UID snapshot))
                 (Some SnapshotStatusTypeSuccess) driverName) s;
          let snapshotContentName =
                (case Option.bind (vs_Status snapshot) BoundVolumeSnapshotContentName of
                   None \<Rightarrow> [] | Some n \<Rightarrow> n);
          Some ((), if snapshotContentName = [] then s
                    else emit (QueueAdd QContent snapshotContentName) s) })"

definition deleteContent :: "VolumeSnapshotContent \<Rightarrow> 'w st \<Rightarrow> 'w st" where
  "deleteContent content s =
    (let s = s\<lparr>contentStore := (contentStore s)(keyFunc (vsc_meta content) := None)\<rparr>;
         snapshotName = SnapshotRefKey (vsc_Ref content) in
     if snapshotName = [] then s else emit (QueueAdd QSnapshot snapshotName) s)"

section \<open>The class of a snapshot\<close>

text \<open>The snapshot and the error, of which the source always returns both.\<close>

definition checkAndUpdateSnapshotClass ::
  "'w env \<Rightarrow> VolumeSnapshot \<Rightarrow> 'w st \<Rightarrow> ((VolumeSnapshot \<times> goerr option) \<times> 'w st) option" where
  "checkAndUpdateSnapshotClass E snapshot s =
    (case vs_ClassName snapshot of
       Some className \<Rightarrow>
         do { (r, s) \<leftarrow> getSnapshotClass E className s;
              case r of
                Inl err \<Rightarrow>
                  do { (_, s) \<leftarrow> updateSnapshotErrorStatusWithEvent E snapshot False EventTypeWarning
                         ''GetSnapshotClassFailed''
                         (sprint [''Failed to get snapshot class with error '', err_text err]) s;
                       Some ((snapshot, Some err), s) }
              | Inr class \<Rightarrow> Some ((snapshot, None), s) }
     | None \<Rightarrow>
         do { ((class, newSnapshot, err), s) \<leftarrow> SetDefaultSnapshotClass E snapshot s;
              case err of
                Some err \<Rightarrow>
                  do { (_, s) \<leftarrow> updateSnapshotErrorStatusWithEvent E snapshot False EventTypeWarning
                         ''SetDefaultSnapshotClassFailed''
                         (sprint [''Failed to set default snapshot class with error '', err_text err]) s;
                       Some ((snapshot, Some err), s) }
              | None \<Rightarrow> Some ((newSnapshot, None), s) })"

section \<open>The workers\<close>

definition syncSnapshotByKey :: "'w env \<Rightarrow> string \<Rightarrow> 'w st \<Rightarrow> (goerr option \<times> 'w st) option" where
  "syncSnapshotByKey E key s =
    (case SplitMetaNamespaceKey key of
       Inl err \<Rightarrow> Some (None, s)
     | Inr (namespace, name) \<Rightarrow>
        do { (r, s) \<leftarrow> call (lister_GetVS E namespace name) s;
             case r of
               Inr snapshot \<Rightarrow>
                 do { ((newSnapshot, err), s) \<leftarrow> checkAndUpdateSnapshotClass E snapshot s;
                      case err of
                        None \<Rightarrow> updateSnapshot E newSnapshot s
                      | Some e \<Rightarrow>
                          if DeletionTimestamp (vs_meta newSnapshot) \<noteq> None \<and> IsNotFound e
                          then updateSnapshot E newSnapshot s else Some (Some e, s) }
             | Inl err \<Rightarrow>
                 if \<not> IsNotFound err then Some (Some err, s)
                 else (case snapshotStore s key of
                    None \<Rightarrow> Some (None, s)
                  | Some (ObjVS snapshot) \<Rightarrow>
                      do { (_, s) \<leftarrow> deleteSnapshot E snapshot s; Some (None, s) }
                  | Some _ \<Rightarrow> Some (None, s)) })"

definition syncContentByKey :: "'w env \<Rightarrow> string \<Rightarrow> 'w st \<Rightarrow> (goerr option \<times> 'w st) option" where
  "syncContentByKey E key s =
    (case SplitMetaNamespaceKey key of
       Inl err \<Rightarrow> Some (None, s)
     | Inr (_, name) \<Rightarrow>
        do { (r, s) \<leftarrow> call (lister_GetVSC E name) s;
             case r of
               Inr content \<Rightarrow> updateContent E content s
             | Inl err \<Rightarrow>
                 if \<not> IsNotFound err then Some (None, s)
                 else (case contentStore s key of
                    None \<Rightarrow> Some (None, s)
                  | Some (ObjVSC content) \<Rightarrow> Some (None, deleteContent content s)
                  | Some _ \<Rightarrow> Some (None, s)) })"

text \<open>The argument is what the queue's \<open>Get\<close> returned: \<open>None\<close> when it is shutting down.\<close>

definition snapshotWorker :: "'w env \<Rightarrow> string option \<Rightarrow> 'w st \<Rightarrow> (unit \<times> 'w st) option" where
  "snapshotWorker E next s =
    (case next of
       None \<Rightarrow> Some ((), s)
     | Some key \<Rightarrow>
        do { (err, s) \<leftarrow> syncSnapshotByKey E key s;
             let s = (case err of
                        Some _ \<Rightarrow> emit (QueueAddRateLimited QSnapshot key) s
                      | None \<Rightarrow> emit (QueueForget QSnapshot key) s);
             Some ((), emit (QueueDone QSnapshot key) s) })"

definition contentWorker :: "'w env \<Rightarrow> string option \<Rightarrow> 'w st \<Rightarrow> (unit \<times> 'w st) option" where
  "contentWorker E next s =
    (case next of
       None \<Rightarrow> Some ((), s)
     | Some key \<Rightarrow>
        do { (err, s) \<leftarrow> syncContentByKey E key s;
             let s = (case err of
                        Some _ \<Rightarrow> emit (QueueAddRateLimited QContent key) s
                      | None \<Rightarrow> emit (QueueForget QContent key) s);
             Some ((), emit (QueueDone QContent key) s) })"

section \<open>The initial caches\<close>

text \<open>
  The two group caches are filled from the listers of snapshots and of contents: this is what the
  source does.
\<close>

definition initializeGroupCaches :: "'w env \<Rightarrow> 'w st \<Rightarrow> (unit \<times> 'w st) option" where
  "initializeGroupCaches E s =
    do { (r, s) \<leftarrow> call (lister_ListVS E None) s;
         case r of
           Inl err \<Rightarrow> Some ((), s)
         | Inr groupSnapshotList \<Rightarrow>
            do { s \<leftarrow> storeAll storeGroupSnapshotUpdate (map ObjVS groupSnapshotList) s;
                 (r, s) \<leftarrow> call (lister_ListVSC E) s;
                 case r of
                   Inl err \<Rightarrow> Some ((), s)
                 | Inr groupContentList \<Rightarrow>
                    do { s \<leftarrow> storeAll storeGroupSnapshotContentUpdate (map ObjVSC groupContentList) s;
                         Some ((), s) } } }"

definition initializeCaches :: "'w env \<Rightarrow> 'w st \<Rightarrow> (unit \<times> 'w st) option" where
  "initializeCaches E s =
    do { (r, s) \<leftarrow> call (lister_ListVS E None) s;
         case r of
           Inl err \<Rightarrow> Some ((), s)
         | Inr snapshotList \<Rightarrow>
            do { s \<leftarrow> storeAll storeSnapshotUpdate (map ObjVS snapshotList) s;
                 (r, s) \<leftarrow> call (lister_ListVSC E) s;
                 case r of
                   Inl err \<Rightarrow> Some ((), s)
                 | Inr contentList \<Rightarrow>
                    do { s \<leftarrow> storeAll storeContentUpdate (map ObjVSC contentList) s;
                         if enableVolumeGroupSnapshots E then initializeGroupCaches E s
                         else Some ((), s) } } }"

section \<open>What these operations do\<close>

context effects
begin

lemma deleteSnapshot_I:
  assumes "\<And>k. ok (QueueAdd QContent k)" "touch CSnapshot" "I s" "\<And>r s'. I s' \<Longrightarrow> Q r s'"
  shows "ensures (deleteSnapshot E v s) Q"
  unfolding deleteSnapshot_def
  by (rule keepI[OF _ assms(4)], insert assms(1-3), auto simp: Let_def
      intro!: getSnapshotDriverName_I withMetrics_I emit_I I_snapshot)

lemma deleteContent_I:
  "(\<And>k. ok (QueueAdd QSnapshot k)) \<Longrightarrow> touch CContent \<Longrightarrow> I s \<Longrightarrow> I (deleteContent c s)"
  by (auto simp: deleteContent_def Let_def intro!: emit_I I_content)

lemma checkAndUpdateSnapshotClass_I:
  assumes "\<And>v. ok (UpdateStatusVS v)" "\<And>n m p. ok (PatchVS n m p [])" "\<And>v t r m. ok (Event (ObjVS v) t r m)"
    "touch CSnapshot" "I s" "\<And>r s'. I s' \<Longrightarrow> Q r s'"
  shows "ensures (checkAndUpdateSnapshotClass E v s) Q"
  unfolding checkAndUpdateSnapshotClass_def
  by (rule keepI[OF _ assms(6)], insert assms(1-5), auto
      intro!: getSnapshotClass_I updateSnapshotErrorStatusWithEvent_I SetDefaultSnapshotClass_I
      split: option.split sum.split)

lemma syncSnapshotByKey_I:
  assumes "\<And>p. ok (UpdatePVC p)" "\<And>c. ok (CreateVSC c)" "\<And>v. ok (UpdateVS v)" "\<And>v. ok (UpdateStatusVS v)"
    "\<And>n m p. ok (PatchVS n m p [])" "\<And>v t r m. ok (Event (ObjVS v) t r m)" "\<And>n p. ok (PatchVSC n p [])"
    "\<And>n. ok (DeleteVSC n)" "\<And>k. ok (QueueAdd QContent k)" "touch CSnapshot" "touch CContent" "I s"
    "\<And>r s'. I s' \<Longrightarrow> Q r s'"
  shows "ensures (syncSnapshotByKey E key s) Q"
proof (rule keepI[OF _ assms(13)])
  have upd: "ensures (updateSnapshot E v s) (\<lambda>_ s'. I s')" if "I s" for v s
    unfolding updateSnapshot_def using assms(1-11) that
    by (auto intro!: storeSnapshotUpdate_I syncSnapshot_I)
  have del: "ensures (deleteSnapshot E v s) (\<lambda>_ s'. I s')" if "I s" for v s
    by (rule deleteSnapshot_I) (use assms(9,10) that in auto)
  show "ensures (syncSnapshotByKey E key s) (\<lambda>_ s'. I s')"
    unfolding syncSnapshotByKey_def using assms(4,5,6,10,12)
    by (auto intro!: call_I checkAndUpdateSnapshotClass_I upd del split: sum.split option.split obj.split)
qed

lemma syncContentByKey_I:
  assumes "\<And>c t r m. ok (Event (ObjVSC c) t r m)" "\<And>n p. ok (PatchVSC n p [])"
    "\<And>k. ok (QueueAdd QSnapshot k)" "touch CContent" "I s" "\<And>r s'. I s' \<Longrightarrow> Q r s'"
  shows "ensures (syncContentByKey E key s) Q"
  unfolding syncContentByKey_def updateContent_def
  by (rule keepI[OF _ assms(6)], insert assms(1-5), auto
      intro!: call_I storeContentUpdate_I syncContent_I deleteContent_I
      split: sum.split option.split obj.split)

end

section \<open>Properties\<close>

text \<open>C38: A worker that takes a key from a queue deals with it exactly once: whatever the reconciler does, it
  issues no worker operation on a queue itself; then the key is put back with a rate limit if the
  reconciler returned an error, and forgotten if it did not, and last it is marked as done.\<close>

theorem worker_requeues_iff_error:
  assumes "snapshotWorker E (Some key) s = Some ((), s')" and "contentWorker E (Some key') t = Some ((), t')"
  shows "(\<exists>r s1 new. syncSnapshotByKey E key s = Some (r, s1) \<and> list_all notWorker new \<and>
      log s' = log s @ new @ [if r = None then QueueForget QSnapshot key else QueueAddRateLimited QSnapshot key,
        QueueDone QSnapshot key]) \<and>
    (\<exists>r t1 new. syncContentByKey E key' t = Some (r, t1) \<and> list_all notWorker new \<and>
      log t' = log t @ new @ [if r = None then QueueForget QContent key' else QueueAddRateLimited QContent key',
        QueueDone QContent key'])"
proof (intro conjI)
  obtain r s1 where a: "syncSnapshotByKey E key s = Some (r, s1)"
    using assms(1) by (auto simp: snapshotWorker_def split: Option.bind_splits)
  have "ensures (syncSnapshotByKey E key s) (\<lambda>_ s'. onlyNew notWorker (log s) s')"
    by (rule only.syncSnapshotByKey_I) (auto simp: onlyNew_refl)
  then obtain new where n: "log s1 = log s @ new" "list_all notWorker new" using a by (auto simp: onlyNew_def)
  have "log s' = log s @ new @ [if r = None then QueueForget QSnapshot key else QueueAddRateLimited QSnapshot key,
      QueueDone QSnapshot key]"
    using assms(1) a n(1) by (auto simp: snapshotWorker_def emit_def split: option.splits)
  then show "\<exists>r s1 new. syncSnapshotByKey E key s = Some (r, s1) \<and> list_all notWorker new \<and>
      log s' = log s @ new @ [if r = None then QueueForget QSnapshot key else QueueAddRateLimited QSnapshot key,
        QueueDone QSnapshot key]"
    using a n(2) by blast
next
  obtain r t1 where a: "syncContentByKey E key' t = Some (r, t1)"
    using assms(2) by (auto simp: contentWorker_def split: Option.bind_splits)
  have "ensures (syncContentByKey E key' t) (\<lambda>_ s'. onlyNew notWorker (log t) s')"
    by (rule only.syncContentByKey_I) (auto simp: onlyNew_refl)
  then obtain new where n: "log t1 = log t @ new" "list_all notWorker new" using a by (auto simp: onlyNew_def)
  have "log t' = log t @ new @ [if r = None then QueueForget QContent key' else QueueAddRateLimited QContent key',
      QueueDone QContent key']"
    using assms(2) a n(1) by (auto simp: contentWorker_def emit_def split: option.splits)
  then show "\<exists>r t1 new. syncContentByKey E key' t = Some (r, t1) \<and> list_all notWorker new \<and>
      log t' = log t @ new @ [if r = None then QueueForget QContent key' else QueueAddRateLimited QContent key',
        QueueDone QContent key']"
    using a n(2) by blast
qed

lemma demo_split: "SplitMetaNamespaceKey ''ns1/snap1'' = Inr (''ns1'', ''snap1'')" "SplitMetaNamespaceKey ''c1'' = Inr ([], ''c1'')"
  by code_simp+

theorem worker_requeues_iff_error_witness:
  "\<exists>s' t'. snapshotWorker nullEnv (Some ''ns1/snap1'') (initialState ()) = Some ((), s') \<and>
     contentWorker nullEnv (Some ''c1'') (initialState ()) = Some ((), t') \<and>
     last (log s') = QueueDone QSnapshot ''ns1/snap1'' \<and> last (log t') = QueueDone QContent ''c1''"
proof -
  have r: "\<exists>s'. snapshotWorker nullEnv (Some ''ns1/snap1'') (initialState ()) = Some ((), s')"
    "\<exists>t'. contentWorker nullEnv (Some ''c1'') (initialState ()) = Some ((), t')"
    by (simp_all add: snapshotWorker_def contentWorker_def syncSnapshotByKey_def syncContentByKey_def demo_split
        call_def nullEnv_def notFound_def initialState_def)
  then obtain s' t' where run: "snapshotWorker nullEnv (Some ''ns1/snap1'') (initialState ()) = Some ((), s')"
    "contentWorker nullEnv (Some ''c1'') (initialState ()) = Some ((), t')" by blast
  then show ?thesis using worker_requeues_iff_error[OF run] by (auto simp: initialState_def)
qed

text \<open>An old version of a snapshot or of a content is never acted on: when the cache holds the same key
  with a higher readable version, an update leaves every cache, the metrics and the outside alone and
  is no error. And an accepted version is in the cache before the reconciler sees it.\<close>

theorem stale_version_ignored:
  assumes "snapshotStore s (keyFunc (vs_meta v)) = Some old" and "objVersion old = Some m"
    and "objVersion (ObjVS v) = Some n" and "contentStore s (keyFunc (vsc_meta c)) = Some oldc"
    and "objVersion oldc = Some mc" and "objVersion (ObjVSC c) = Some nc"
  shows "(if n < m then updateSnapshot E v s = Some (None, s)
      else updateSnapshot E v s = syncSnapshot E v (s\<lparr>snapshotStore := (snapshotStore s)(keyFunc (vs_meta v) \<mapsto> ObjVS v)\<rparr>)) \<and>
    (if nc < mc then updateContent E c s = Some (None, s)
      else updateContent E c s = syncContent E c (s\<lparr>contentStore := (contentStore s)(keyFunc (vsc_meta c) \<mapsto> ObjVSC c)\<rparr>))"
proof -
  have sv: "StoreObjectUpdate (snapshotStore s) (ObjVS v) ''snapshot'' =
      (if n < m then (Inr False, snapshotStore s)
       else (Inr True, (snapshotStore s)(keyFunc (vs_meta v) \<mapsto> ObjVS v)))"
    using assms(1-3) by (auto simp: StoreObjectUpdate_def objVersion_def split: sum.splits)
  have sc: "StoreObjectUpdate (contentStore s) (ObjVSC c) ''content'' =
      (if nc < mc then (Inr False, contentStore s)
       else (Inr True, (contentStore s)(keyFunc (vsc_meta c) \<mapsto> ObjVSC c)))"
    using assms(4-6) by (auto simp: StoreObjectUpdate_def objVersion_def split: sum.splits)
  show ?thesis
    by (simp add: updateSnapshot_def updateContent_def storeSnapshotUpdate_def storeContentUpdate_def sv sc)
qed

definition demoTwoStores :: "unit st" where
  "demoTwoStores = (initialState ())\<lparr>snapshotStore := [''ns1/snap1'' \<mapsto> ObjVS demoSnapshot],
     contentStore := [''snapcontent-uid1'' \<mapsto> ObjVSC demoContent]\<rparr>"

definition demoOlderContent :: VolumeSnapshotContent where
  "demoOlderContent = demoContent\<lparr>vsc_meta := (vsc_meta demoContent)\<lparr>ResourceVersion := ''2''\<rparr>\<rparr>"

theorem stale_version_ignored_witness:
  "updateSnapshot nullEnv demoOlder demoTwoStores = Some (None, demoTwoStores) \<and>
   updateContent nullEnv demoOlderContent demoTwoStores = Some (None, demoTwoStores)"
proof -
  have k: "keyFunc (vs_meta demoOlder) = ''ns1/snap1''" "keyFunc (vsc_meta demoOlderContent) = ''snapcontent-uid1''"
    by code_simp+
  have v: "objVersion (ObjVS demoSnapshot) = Some 7" "objVersion (ObjVS demoOlder) = Some 3"
    "objVersion (ObjVSC demoContent) = Some 9" "objVersion (ObjVSC demoOlderContent) = Some 2" by code_simp+
  have st: "snapshotStore demoTwoStores (keyFunc (vs_meta demoOlder)) = Some (ObjVS demoSnapshot)"
    "contentStore demoTwoStores (keyFunc (vsc_meta demoOlderContent)) = Some (ObjVSC demoContent)"
    unfolding k by (simp_all add: demoTwoStores_def)
  show ?thesis using stale_version_ignored[OF st(1) v(1,2) st(2) v(3,4), of nullEnv] by simp
qed

text \<open>The bound content name, empty when there is none.\<close>

definition boundName :: "VolumeSnapshot \<Rightarrow> string" where
  "boundName v = (case Option.bind (vs_Status v) BoundVolumeSnapshotContentName of None \<Rightarrow> [] | Some n \<Rightarrow> n)"

text \<open>A snapshot that is gone from the informer is forgotten once: the worker never fails or panics on
  its key, drops exactly this entry from the snapshot cache, keeps the content cache, and has at most
  one effect, which queues the content the snapshot was bound to. When the same key comes up again
  with the snapshot still gone, nothing happens at all.\<close>

theorem deletion_event_processed_once:
  assumes "SplitMetaNamespaceKey key = Inr (ns, n)" and "lister_GetVS E ns n (world s) = (Inl err, w)"
    and "IsNotFound err" and "snapshotStore s key = Some (ObjVS v)" and "keyFunc (vs_meta v) = key"
  shows "\<exists>s'. syncSnapshotByKey E key s = Some (None, s') \<and>
    snapshotStore s' = (snapshotStore s)(key := None) \<and> contentStore s' = contentStore s \<and>
    log s' = log s @ (if boundName v = [] then [] else [QueueAdd QContent (boundName v)]) \<and>
    (\<forall>err' w'. lister_GetVS E ns n (world s') = (Inl err', w') \<and> IsNotFound err' \<longrightarrow>
       syncSnapshotByKey E key s' = Some (None, s'\<lparr>world := w'\<rparr>))"
proof -
  let ?s1 = "s\<lparr>world := w, snapshotStore := (snapshotStore s)(key := None)\<rparr>"
  have "\<exists>d s2. getSnapshotDriverName E v ?s1 = Some (d, s2) \<and> snapshotStore s2 = snapshotStore ?s1"
    by (auto simp: getSnapshotDriverName_def call_def getSnapshotClass_def Let_def
        split: prod.split option.split sum.split)
  then obtain d s2 where d: "getSnapshotDriverName E v ?s1 = Some (d, s2)" "snapshotStore s2 = snapshotStore ?s1"
    by blast
  note f = getSnapshotDriverName_frame[OF d(1)]
  obtain s3 where m: "withMetrics E (RecordMetrics (NewOperationKey DeleteSnapshotOperationName (vs_UID v))
      (Some SnapshotStatusTypeSuccess) d) s2 = Some ((), s3)" "log s3 = log s2" "contentStore s3 = contentStore s2"
      "snapshotStore s3 = snapshotStore s2"
    using withMetrics_run by metis
  define s4 where "s4 = (if boundName v = [] then s3 else emit (QueueAdd QContent (boundName v)) s3)"
  have "deleteSnapshot E v (s\<lparr>world := w\<rparr>) = Some ((), s4)"
    using d m assms(5) by (simp add: deleteSnapshot_def s4_def boundName_def)
  then have "syncSnapshotByKey E key s = Some (None, s4)"
    using assms by (simp add: syncSnapshotByKey_def call_def)
  moreover have st: "snapshotStore s4 = (snapshotStore s)(key := None)" "contentStore s4 = contentStore s"
    "log s4 = log s @ (if boundName v = [] then [] else [QueueAdd QContent (boundName v)])"
    using d m f by (simp_all add: s4_def emit_def)
  moreover have "syncSnapshotByKey E key s4 = Some (None, s4\<lparr>world := w'\<rparr>)"
    if "lister_GetVS E ns n (world s4) = (Inl err', w')" "IsNotFound err'" for err' w'
    using that assms(1) st(1) by (simp add: syncSnapshotByKey_def call_def)
  ultimately show ?thesis by blast
qed

theorem deletion_event_processed_once_witness:
  "\<exists>s'. syncSnapshotByKey nullEnv ''ns1/snap1'' demoTwoStores = Some (None, s') \<and>
     snapshotStore s' ''ns1/snap1'' = None \<and> log s' = []"
proof -
  have k: "keyFunc (vs_meta demoSnapshot) = ''ns1/snap1''" by code_simp
  have l: "lister_GetVS nullEnv ''ns1'' ''snap1'' (world demoTwoStores) = (Inl notFound, ())"
    by (simp add: nullEnv_def)
  have st: "snapshotStore demoTwoStores ''ns1/snap1'' = Some (ObjVS demoSnapshot)" "log demoTwoStores = []"
    by (simp_all add: demoTwoStores_def initialState_def)
  have b: "boundName demoSnapshot = []" by (simp add: boundName_def demoSnapshot_def emptyVolumeSnapshot_def)
  show ?thesis
    using deletion_event_processed_once[OF demo_split(1) l _ st(1) k] st(2) b by (auto simp: notFound_def)
qed

text \<open>A snapshot that is being deleted without ever having had a class is stuck when its source claim is
  gone. The worker looks for a default class first; it needs the driver of the claim's volume, and the
  error of the missing claim is not a not-found error any more. So the key is retried with an error
  each time, only the status and events are written, and neither a finalizer is removed nor a content
  deleted.\<close>

theorem classless_deletion_is_stuck:
  assumes "SplitMetaNamespaceKey key = Inr (ns, n)" and "lister_GetVS E ns n (world s) = (Inr v, w1)"
    and "DeletionTimestamp (vs_meta v) \<noteq> None"
    and "vs_ClassName v = None" and "vs_ContentName v = None" and "\<not> IsVolumeGroupSnapshotMember v"
    and "vs_PVCName v = Some pvc" and "\<forall>w. isl (fst (lister_GetPVC E (vs_Namespace v) pvc w))"
    and "\<forall>w e. fst (lister_ListClass E w) = Inl e \<longrightarrow> \<not> IsNotFound e"
    and "syncSnapshotByKey E key s = Some (r, s')"
  shows "r \<noteq> None \<and>
    (\<exists>new. log s' = log s @ new \<and> list_all (\<lambda>a. (\<exists>u. a = UpdateStatusVS u) \<or> isEvent a) new)"
proof -
  let ?ok = "\<lambda>a. (\<exists>u. a = UpdateStatusVS u) \<or> isEvent a"
  let ?s1 = "s\<lparr>world := w1\<rparr>"
  have claim: "\<exists>e w'. getClaimFromVolumeSnapshot E v s2 = Some (Inl e, s2\<lparr>world := w'\<rparr>) \<and> \<not> IsNotFound e" for s2
  proof (cases "pvc = []")
    case True
    then show ?thesis using assms(7) by (auto simp: getClaimFromVolumeSnapshot_def intro!: exI[of _ "world s2"])
  next
    case False
    obtain e w' where "lister_GetPVC E (vs_Namespace v) pvc (world s2) = (Inl e, w')"
      using assms(8)[rule_format, of "world s2"] by (cases "lister_GetPVC E (vs_Namespace v) pvc (world s2)") (auto simp: isl_def)
    then show ?thesis using assms(7) False
      by (simp add: getClaimFromVolumeSnapshot_def call_def) (rule exI, rule refl)
  qed
  obtain cr w2 where lc: "lister_ListClass E (world ?s1) = (cr, w2)" by fastforce
  obtain e w3 where cl: "getClaimFromVolumeSnapshot E v (?s1\<lparr>world := w2\<rparr>) =
      Some (Inl e, ?s1\<lparr>world := w2\<rparr>\<lparr>world := w3\<rparr>)" "\<not> IsNotFound e" using claim by blast
  have "\<exists>c e' w'. SetDefaultSnapshotClass E v ?s1 = Some ((c, v, Some e'), ?s1\<lparr>world := w'\<rparr>) \<and> \<not> IsNotFound e'"
    using assms(5,6) lc cl assms(9)[rule_format, of "world ?s1"]
    by (cases cr) (auto simp: SetDefaultSnapshotClass_def call_def pvDriverFromSnapshot_def
        getVolumeFromVolumeSnapshot_def)
  then obtain c e' w' where d: "SetDefaultSnapshotClass E v ?s1 = Some ((c, v, Some e'), ?s1\<lparr>world := w'\<rparr>)"
      "\<not> IsNotFound e'" by blast
  let ?msg = "sprint [''Failed to set default snapshot class with error '', err_text e']"
  obtain u s3 where u: "updateSnapshotErrorStatusWithEvent E v False EventTypeWarning
      ''SetDefaultSnapshotClassFailed'' ?msg (?s1\<lparr>world := w'\<rparr>) = Some (u, s3)"
    "r = Some e'" "s' = s3"
    using assms(1,2,4,10) d
    by (auto simp: syncSnapshotByKey_def call_def checkAndUpdateSnapshotClass_def split: Option.bind_splits)
  have "ensures (updateSnapshotErrorStatusWithEvent E v False EventTypeWarning
      ''SetDefaultSnapshotClassFailed'' ?msg (?s1\<lparr>world := w'\<rparr>)) (\<lambda>_ s'. onlyNew ?ok (log (?s1\<lparr>world := w'\<rparr>)) s')"
    by (rule only.updateSnapshotErrorStatusWithEvent_I) (simp_all add: onlyNew_def)
  then show ?thesis using u by (simp add: onlyNew_def)
qed

definition demoClassless :: VolumeSnapshot where
  "demoClassless = demoFromPVC\<lparr>vs_meta := (vs_meta demoFromPVC)\<lparr>DeletionTimestamp := Some 4,
     Finalizers := [VolumeSnapshotAsSourceFinalizer]\<rparr>\<rparr>"

definition demoClasslessEnv :: "unit env" where
  "demoClasslessEnv = nullEnv\<lparr>lister_GetVS := \<lambda>_ _ w. (Inr demoClassless, w)\<rparr>"

theorem classless_deletion_is_stuck_witness:
  "\<exists>r s'. syncSnapshotByKey demoClasslessEnv ''ns1/snap1'' (initialState ()) = Some (r, s') \<and> r \<noteq> None"
proof -
  have sel: "DeletionTimestamp (vs_meta demoClassless) \<noteq> None" "vs_ClassName demoClassless = None"
    "vs_ContentName demoClassless = None" "\<not> IsVolumeGroupSnapshotMember demoClassless"
    "vs_PVCName demoClassless = Some ''claim1''" "vs_Status demoClassless = None"
    by (simp_all add: demoClassless_def demoFromPVC_def demoSnapshot_def emptyVolumeSnapshot_def emptyMeta_def
        IsVolumeGroupSnapshotMember_def getVolumeGroupSnapshotParentObjectName_def)
  have l: "lister_GetVS demoClasslessEnv ''ns1'' ''snap1'' (world (initialState ())) = (Inr demoClassless, ())"
    by (simp add: demoClasslessEnv_def)
  have p: "\<forall>w. isl (fst (lister_GetPVC demoClasslessEnv (vs_Namespace demoClassless) ''claim1'' w))"
    "\<forall>w e. fst (lister_ListClass demoClasslessEnv w) = Inl e \<longrightarrow> \<not> IsNotFound e"
    by (simp_all add: demoClasslessEnv_def nullEnv_def)
  have "\<exists>r s'. syncSnapshotByKey demoClasslessEnv ''ns1/snap1'' (initialState ()) = Some (r, s')"
    using sel by (simp add: syncSnapshotByKey_def demo_split l call_def checkAndUpdateSnapshotClass_def
        SetDefaultSnapshotClass_def pvDriverFromSnapshot_def getVolumeFromVolumeSnapshot_def
        getClaimFromVolumeSnapshot_def demoClasslessEnv_def nullEnv_def notFound_def
        updateSnapshotErrorStatusWithEvent_def sameError_def act_def storeSnapshotUpdate_def
        Let_def split: prod.split sum.split)
  then obtain r s' where run: "syncSnapshotByKey demoClasslessEnv ''ns1/snap1'' (initialState ()) = Some (r, s')" by blast
  show ?thesis using run classless_deletion_is_stuck[OF demo_split(1) l sel(1-5) p run] by blast
qed

text \<open>Storing objects of different keys into caches that hold none of them.\<close>

lemma StoreObjectUpdate_fresh:
  "store (keyFunc (objMeta x)) = None \<Longrightarrow> StoreObjectUpdate store x cn = (Inr True, store(keyFunc (objMeta x) \<mapsto> x))"
  by (simp add: StoreObjectUpdate_def)

definition byKey :: "obj list \<Rightarrow> store" where
  "byKey xs = map_of (rev (map (\<lambda>x. (keyFunc (objMeta x), x)) xs))"

lemma byKey_Cons: "byKey (x # xs) = [keyFunc (objMeta x) \<mapsto> x] ++ byKey xs"
  by (simp add: byKey_def)

lemma storeAll_fresh:
  assumes "\<And>x s. get s (keyFunc (objMeta x)) = None \<Longrightarrow>
      \<exists>r s'. upd x s = Some (r, s') \<and> get s' = (get s)(keyFunc (objMeta x) \<mapsto> x) \<and> keep s' = keep s"
    and "distinct (map (\<lambda>x. keyFunc (objMeta x)) xs)" and "\<forall>x \<in> set xs. get s (keyFunc (objMeta x)) = None"
  shows "\<exists>s'. storeAll upd xs s = Some s' \<and> get s' = get s ++ byKey xs \<and> keep s' = keep s"
  using assms(2,3)
proof (induction xs arbitrary: s)
  case Nil
  then show ?case by (simp add: byKey_def)
next
  case (Cons x xs)
  obtain r s1 where u: "upd x s = Some (r, s1)" "get s1 = (get s)(keyFunc (objMeta x) \<mapsto> x)" "keep s1 = keep s"
    using assms(1)[of s x] Cons.prems(2) by auto
  have "keyFunc (objMeta y) \<noteq> keyFunc (objMeta x)" if "y \<in> set xs" for y
    using Cons.prems(1) that by simp (metis image_eqI)
  then have "\<forall>y \<in> set xs. get s1 (keyFunc (objMeta y)) = None" using Cons.prems(2) u(2) by simp
  then obtain s2 where "storeAll upd xs s1 = Some s2" "get s2 = get s1 ++ byKey xs" "keep s2 = keep s1"
    using Cons.IH[of s1] Cons.prems(1) by auto
  then show ?case using u by (simp add: byKey_Cons)
qed

lemma storeAll_snapshots:
  assumes "distinct (map (\<lambda>x. keyFunc (vs_meta x)) vs)" "snapshotStore s = Map.empty"
  shows "\<exists>s'. storeAll storeSnapshotUpdate (map ObjVS vs) s = Some s' \<and>
    snapshotStore s' = byKey (map ObjVS vs) \<and>
    (contentStore s', groupSnapshotStore s', groupSnapshotContentStore s', log s') =
    (contentStore s, groupSnapshotStore s, groupSnapshotContentStore s, log s)"
  using storeAll_fresh[where get = snapshotStore and upd = storeSnapshotUpdate and xs = "map ObjVS vs" and s = s and
      keep = "\<lambda>s. (contentStore s, groupSnapshotStore s, groupSnapshotContentStore s, log s)"] assms
  by (simp add: storeSnapshotUpdate_def StoreObjectUpdate_fresh comp_def)

lemma storeAll_contents:
  assumes "distinct (map (\<lambda>x. keyFunc (vsc_meta x)) cs)" "contentStore s = Map.empty"
  shows "\<exists>s'. storeAll storeContentUpdate (map ObjVSC cs) s = Some s' \<and>
    contentStore s' = byKey (map ObjVSC cs) \<and>
    (snapshotStore s', groupSnapshotStore s', groupSnapshotContentStore s', log s') =
    (snapshotStore s, groupSnapshotStore s, groupSnapshotContentStore s, log s)"
  using storeAll_fresh[where get = contentStore and upd = storeContentUpdate and xs = "map ObjVSC cs" and s = s and
      keep = "\<lambda>s. (snapshotStore s, groupSnapshotStore s, groupSnapshotContentStore s, log s)"] assms
  by (simp add: storeContentUpdate_def StoreObjectUpdate_fresh comp_def)

lemma storeAll_groupSnapshots:
  assumes "distinct (map (\<lambda>x. keyFunc (vs_meta x)) vs)" "groupSnapshotStore s = Map.empty"
  shows "\<exists>s'. storeAll storeGroupSnapshotUpdate (map ObjVS vs) s = Some s' \<and>
    groupSnapshotStore s' = byKey (map ObjVS vs) \<and>
    (snapshotStore s', contentStore s', groupSnapshotContentStore s', log s') =
    (snapshotStore s, contentStore s, groupSnapshotContentStore s, log s)"
  using storeAll_fresh[where get = groupSnapshotStore and upd = storeGroupSnapshotUpdate and xs = "map ObjVS vs" and s = s and
      keep = "\<lambda>s. (snapshotStore s, contentStore s, groupSnapshotContentStore s, log s)"] assms
  by (simp add: storeGroupSnapshotUpdate_def StoreObjectUpdate_fresh comp_def)

lemma storeAll_groupContents:
  assumes "distinct (map (\<lambda>x. keyFunc (vsc_meta x)) cs)" "groupSnapshotContentStore s = Map.empty"
  shows "\<exists>s'. storeAll storeGroupSnapshotContentUpdate (map ObjVSC cs) s = Some s' \<and>
    groupSnapshotContentStore s' = byKey (map ObjVSC cs) \<and>
    (snapshotStore s', contentStore s', groupSnapshotStore s', log s') =
    (snapshotStore s, contentStore s, groupSnapshotStore s, log s)"
  using storeAll_fresh[where get = groupSnapshotContentStore and upd = storeGroupSnapshotContentUpdate and xs = "map ObjVSC cs" and s = s and
      keep = "\<lambda>s. (snapshotStore s, contentStore s, groupSnapshotStore s, log s)"] assms
  by (simp add: storeGroupSnapshotContentUpdate_def StoreObjectUpdate_fresh comp_def)

text \<open>At start the caches are filled from the listers, whatever they held before being empty: after a
  successful listing of objects with different keys, the snapshot cache holds exactly the listed
  snapshots and the content cache exactly the listed contents, nothing is written and no key is queued.
  But when group snapshots are enabled, their two caches are filled too, and with the wrong objects:
  they hold the volume snapshots and the snapshot contents.\<close>

theorem initial_caches:
  assumes "\<And>w. fst (lister_ListVS E None w) = Inr vs" and "\<And>w. fst (lister_ListVSC E w) = Inr cs"
    and "distinct (map (\<lambda>v. keyFunc (vs_meta v)) vs)" and "distinct (map (\<lambda>c. keyFunc (vsc_meta c)) cs)"
  shows "\<exists>s'. initializeCaches E (initialState w) = Some ((), s') \<and>
    snapshotStore s' = byKey (map ObjVS vs) \<and> contentStore s' = byKey (map ObjVSC cs) \<and>
    groupSnapshotStore s' = (if enableVolumeGroupSnapshots E then byKey (map ObjVS vs) else Map.empty) \<and>
    groupSnapshotContentStore s' = (if enableVolumeGroupSnapshots E then byKey (map ObjVSC cs) else Map.empty) \<and>
    log s' = []"
proof -
  have l: "\<exists>w'. call (lister_ListVS E None) s = Some (Inr vs, s\<lparr>world := w'\<rparr>)"
    "\<exists>w'. call (lister_ListVSC E) s = Some (Inr cs, s\<lparr>world := w'\<rparr>)" for s
    using assms(1)[of "world s"] assms(2)[of "world s"] by (auto simp: call_def split: prod.split)
  let ?s = "initialState w"
  obtain w1 where 1: "call (lister_ListVS E None) ?s = Some (Inr vs, ?s\<lparr>world := w1\<rparr>)" using l(1) by blast
  obtain s2 where 2: "storeAll storeSnapshotUpdate (map ObjVS vs) (?s\<lparr>world := w1\<rparr>) = Some s2"
      "snapshotStore s2 = byKey (map ObjVS vs)" "contentStore s2 = Map.empty" "groupSnapshotStore s2 = Map.empty"
      "groupSnapshotContentStore s2 = Map.empty" "log s2 = []"
    using storeAll_snapshots[OF assms(3), of "?s\<lparr>world := w1\<rparr>"] by (auto simp: initialState_def)
  obtain w3 where 3: "call (lister_ListVSC E) s2 = Some (Inr cs, s2\<lparr>world := w3\<rparr>)" using l(2) by blast
  obtain s4 where 4: "storeAll storeContentUpdate (map ObjVSC cs) (s2\<lparr>world := w3\<rparr>) = Some s4"
      "snapshotStore s4 = byKey (map ObjVS vs)" "contentStore s4 = byKey (map ObjVSC cs)"
      "groupSnapshotStore s4 = Map.empty" "groupSnapshotContentStore s4 = Map.empty" "log s4 = []"
    using storeAll_contents[OF assms(4), of "s2\<lparr>world := w3\<rparr>"] 2 by auto
  obtain w5 where 5: "call (lister_ListVS E None) s4 = Some (Inr vs, s4\<lparr>world := w5\<rparr>)" using l(1) by blast
  obtain s6 where 6: "storeAll storeGroupSnapshotUpdate (map ObjVS vs) (s4\<lparr>world := w5\<rparr>) = Some s6"
      "snapshotStore s6 = byKey (map ObjVS vs)" "contentStore s6 = byKey (map ObjVSC cs)"
      "groupSnapshotStore s6 = byKey (map ObjVS vs)" "groupSnapshotContentStore s6 = Map.empty" "log s6 = []"
    using storeAll_groupSnapshots[OF assms(3), of "s4\<lparr>world := w5\<rparr>"] 4 by auto
  obtain w7 where 7: "call (lister_ListVSC E) s6 = Some (Inr cs, s6\<lparr>world := w7\<rparr>)" using l(2) by blast
  obtain s8 where 8: "storeAll storeGroupSnapshotContentUpdate (map ObjVSC cs) (s6\<lparr>world := w7\<rparr>) = Some s8"
      "snapshotStore s8 = byKey (map ObjVS vs)" "contentStore s8 = byKey (map ObjVSC cs)"
      "groupSnapshotStore s8 = byKey (map ObjVS vs)" "groupSnapshotContentStore s8 = byKey (map ObjVSC cs)" "log s8 = []"
    using storeAll_groupContents[OF assms(4), of "s6\<lparr>world := w7\<rparr>"] 6 by auto
  have g: "initializeGroupCaches E s4 = Some ((), s8)" by (simp add: initializeGroupCaches_def 5 6(1) 7 8(1))
  show ?thesis using 4 8 by (simp add: initializeCaches_def 1 2(1) 3 4(1) g)
qed

definition demoListEnv :: "unit env" where
  "demoListEnv = nullEnv\<lparr>lister_ListVS := \<lambda>_ w. (Inr [demoSnapshot], w), enableVolumeGroupSnapshots := True\<rparr>"

theorem initial_caches_witness:
  "\<exists>s'. initializeCaches demoListEnv (initialState ()) = Some ((), s') \<and>
     groupSnapshotStore s' ''ns1/snap1'' = Some (ObjVS demoSnapshot)"
proof -
  have l: "fst (lister_ListVS demoListEnv None w) = Inr [demoSnapshot]" "fst (lister_ListVSC demoListEnv w) = Inr []" for w
    by (simp_all add: demoListEnv_def nullEnv_def)
  have k: "keyFunc (vs_meta demoSnapshot) = ''ns1/snap1''" by code_simp
  have f: "enableVolumeGroupSnapshots demoListEnv" by (simp add: demoListEnv_def)
  show ?thesis using initial_caches[OF l, where w = "()"] f by (auto simp: byKey_def k)
qed

end
