(* ===== verification/CommonGroupSync.thy ===== *)
theory CommonGroupSync
  imports CommonGroup CommonBase
begin

text \<open>
  The reconcilers of the group half of the common controller and its work loop
  (\<open>pkg/common-controller/groupsnapshot_controller_helper.go\<close> and the second half of
  \<open>pkg/common-controller/snapshot_controller_base.go\<close>): a group snapshot that is being deleted, one that is
  ready or not yet ready, a group content, the class, the informer events and the workers. The operations
  they call are in \<open>CommonGroup\<close>.
\<close>

section \<open>Deletion\<close>

definition DynamicGroupSnapshotType :: string where
  "DynamicGroupSnapshotType = ''dynamic''"

definition PreProvisionedGroupSnapshotType :: string where
  "PreProvisionedGroupSnapshotType = ''pre-provisioned''"

definition groupProvisionType :: "VolumeGroupSnapshot \<Rightarrow> string" where
  "groupProvisionType groupSnapshot =
    (if vgs_ContentName groupSnapshot \<noteq> None then PreProvisionedGroupSnapshotType else DynamicGroupSnapshotType)"

text \<open>The index holds snapshots only, so the conversion of the source cannot fail.\<close>

definition findGroupSnapshotMembers ::
  "'w env \<Rightarrow> string \<Rightarrow> string \<Rightarrow> 'w st \<Rightarrow> ((goerr + VolumeSnapshot list) \<times> 'w st) option" where
  "findGroupSnapshotMembers E namespace name s =
    call (snapshotIndexer_ByIndex E (VolumeSnapshotParentGroupKeyFuncByComponents namespace name)) s"

text \<open>
  The name under which the content of a group snapshot being deleted is looked up. The source means to
  derive the name of a dynamic one, but compares the address of a field with \<open>nil\<close>, which never holds.
\<close>

definition groupContentNameForDeletion :: "VolumeGroupSnapshot \<Rightarrow> string" where
  "groupContentNameForDeletion groupSnapshot =
    (case Option.bind (vgs_Status groupSnapshot) BoundVolumeGroupSnapshotContentName of
       None \<Rightarrow> [] | Some n \<Rightarrow> n)"

text \<open>
  The first loop over the members: an error, or whether one of them is being restored. A member that the
  lister no longer has is skipped.
\<close>

fun memberBeingRestored ::
  "'w env \<Rightarrow> VolumeGroupSnapshot \<Rightarrow> VolumeSnapshot list \<Rightarrow> 'w st \<Rightarrow> ((goerr + bool) \<times> 'w st) option" where
  "memberBeingRestored E groupSnapshot [] s = Some (Inr False, s)"
| "memberBeingRestored E groupSnapshot (member # members) s =
    do { (r, s) \<leftarrow> call (lister_GetVS E (vgs_Namespace groupSnapshot) (vs_Name member)) s;
         case r of
           Inl err \<Rightarrow> if IsNotFound err then memberBeingRestored E groupSnapshot members s
                      else Some (Inl err, s)
         | Inr snapshot \<Rightarrow>
            do { (inUse, s) \<leftarrow> isVolumeBeingCreatedFromSnapshot E snapshot s;
                 if inUse then
                   Some (Inr True, emit (Event (ObjVGS groupSnapshot) EventTypeWarning ''SnapshotDeletePending''
                     (sprint [''Snapshot '', SnapshotKey snapshot, '' belonging to VolumeGroupSnapshot '',
                       GroupSnapshotKey groupSnapshot, '' is being used to restore a PVC''])) s)
                 else memberBeingRestored E groupSnapshot members s } }"

text \<open>The second loop: every member is deleted, in order; one that is already gone is no error.\<close>

fun deleteMembers ::
  "'w env \<Rightarrow> VolumeGroupSnapshot \<Rightarrow> VolumeSnapshot list \<Rightarrow> 'w st \<Rightarrow> (goerr option \<times> 'w st) option" where
  "deleteMembers E groupSnapshot [] s = Some (None, s)"
| "deleteMembers E groupSnapshot (member # members) s =
    do { (err, s) \<leftarrow> act (DeleteVS (vgs_Namespace groupSnapshot) (vs_Name member))
                      (api_DeleteVS E (vgs_Namespace groupSnapshot) (vs_Name member)) s;
         case err of
           None \<Rightarrow> deleteMembers E groupSnapshot members s
         | Some e \<Rightarrow>
            if IsNotFound e then deleteMembers E groupSnapshot members s
            else
              let msg = sprint [''failed to delete snapshot API object '', vgs_Namespace groupSnapshot, ''/'',
                    vs_Name member, '' part of group snapshot '', GroupSnapshotKey groupSnapshot, '': '', err_text e] in
              Some (Some (Errorf msg),
                emit (Event (ObjVGS groupSnapshot) EventTypeWarning ''SnapshotDeleteError'' msg) s) }"

text \<open>The content is annotated, and deleted when its policy says so: the content that is left, or an error.\<close>

definition annotateAndDeleteGroupContent ::
  "'w env \<Rightarrow> VolumeGroupSnapshot \<Rightarrow> VolumeGroupSnapshotContent option \<Rightarrow> bool \<Rightarrow> 'w st
    \<Rightarrow> (goerr option \<times> 'w st) option" where
  "annotateAndDeleteGroupContent E groupSnapshot content cascade s =
    (case content of
       None \<Rightarrow> Some (None, s)
     | Some content \<Rightarrow>
        do { (r, s) \<leftarrow> setAnnVolumeGroupSnapshotBeingDeleted E content s;
             case r of
               Inl err \<Rightarrow> Some (Some err, s)
             | Inr updated \<Rightarrow>
                if cascade then
                  do { (err, s) \<leftarrow> act (DeleteVGSC (vgsc_Name updated)) (api_DeleteVGSC E (vgsc_Name updated)) s;
                       case err of
                         Some err \<Rightarrow>
                           let s = emit (Event (ObjVGS groupSnapshot) EventTypeWarning
                                     ''GroupSnapshotContentObjectDeleteError''
                                     ''Failed to delete group snapshot content API object'') s in
                           Some (Some (Errorf (sprint [''failed to delete VolumeGroupSnapshotContent '',
                             vgsc_Name updated, '' from API server: '', goQuote (err_text err)])), s)
                       | None \<Rightarrow> Some (None, s) }
                else Some (None, s) })"

text \<open>From the content on; \<open>cascade\<close> is false without a content.\<close>

definition deleteGroupMembersAndContent ::
  "'w env \<Rightarrow> VolumeGroupSnapshot \<Rightarrow> VolumeGroupSnapshotContent option \<Rightarrow> bool \<Rightarrow> 'w st
    \<Rightarrow> (goerr option \<times> 'w st) option" where
  "deleteGroupMembersAndContent E groupSnapshot content cascade s =
    (if \<not> IsGroupSnapshotDeletionCandidate groupSnapshot then Some (None, s)
     else do {
       (r, s) \<leftarrow> findGroupSnapshotMembers E (vgs_Namespace groupSnapshot) (vgs_Name groupSnapshot) s;
       case r of
         Inl err \<Rightarrow> Some (Some err, s)
       | Inr members \<Rightarrow>
          do { (r, s) \<leftarrow> memberBeingRestored E groupSnapshot members s;
               case r of
                 Inl err \<Rightarrow> Some (Some err, s)
               | Inr True \<Rightarrow> Some (None, s)
               | Inr False \<Rightarrow>
                  do { (err, s) \<leftarrow> annotateAndDeleteGroupContent E groupSnapshot content cascade s;
                       case err of
                         Some err \<Rightarrow> Some (Some err, s)
                       | None \<Rightarrow>
                          do { (err, s) \<leftarrow> deleteMembers E groupSnapshot members s;
                               case err of
                                 Some err \<Rightarrow> Some (Some err, s)
                               | None \<Rightarrow> removeGroupSnapshotFinalizer E groupSnapshot
                                   (\<not> (content \<noteq> None \<and> cascade)) s } } } })"

definition processGroupSnapshotWithDeletionTimestamp ::
  "'w env \<Rightarrow> VolumeGroupSnapshot \<Rightarrow> 'w st \<Rightarrow> (goerr option \<times> 'w st) option" where
  "processGroupSnapshotWithDeletionTimestamp E groupSnapshot s =
    do { (driverName, s) \<leftarrow> getGroupSnapshotDriverName E groupSnapshot s;
         (_, s) \<leftarrow> withMetrics E (OperationStart
                (NewOperationKey DeleteGroupSnapshotOperationName (vgs_UID groupSnapshot))
                (NewOperationValue driverName (groupProvisionType groupSnapshot))) s;
         case getGroupSnapshotContentFromStore (groupContentNameForDeletion groupSnapshot) s of
           Inl err \<Rightarrow> Some (Some err, s)
         | Inr content \<Rightarrow>
            let (content, cascade) =
                  (case content of
                     None \<Rightarrow> (None, False)
                   | Some c \<Rightarrow> if IsVolumeGroupSnapshotRefSet groupSnapshot c
                               then (Some c, vgsc_Policy c = VolumeSnapshotContentDelete)
                               else (None, False)) in
            deleteGroupMembersAndContent E groupSnapshot content cascade s }"

section \<open>A ready group snapshot\<close>

text \<open>An object of another kind in the cache is silently no error.\<close>

definition syncReadyGroupSnapshot ::
  "'w env \<Rightarrow> VolumeGroupSnapshot \<Rightarrow> 'w st \<Rightarrow> (goerr option \<times> 'w st) option" where
  "syncReadyGroupSnapshot E groupSnapshot s =
    (if \<not> IsBoundVolumeGroupSnapshotContentNameSet groupSnapshot then
       Some (Some (Errorf (sprint [''group snapshot '', GroupSnapshotKey groupSnapshot,
         '' is not bound to a group snapshot content''])), s)
     else do {
       contentName \<leftarrow> Option.bind (vgs_Status groupSnapshot) BoundVolumeGroupSnapshotContentName;
       case getGroupSnapshotContentFromStore contentName s of
         Inl err \<Rightarrow> Some (None, s)
       | Inr None \<Rightarrow> updateGroupSnapshotErrorStatusWithEvent E groupSnapshot True EventTypeWarning
           ''GroupSnapshotContentMissing'' ''VolumeGroupSnapshotContent is missing'' s
       | Inr (Some content) \<Rightarrow>
          if \<not> IsVolumeGroupSnapshotRefSet groupSnapshot content then
            updateGroupSnapshotErrorStatusWithEvent E groupSnapshot True EventTypeWarning
              ''GroupSnapshotMisbound''
              ''VolumeGroupSnapshotContent is not bound to the VolumeGroupSnapshot correctly'' s
          else Some (None, s) })"

section \<open>An unready group snapshot\<close>

definition startGroupCreationMetrics ::
  "'w env \<Rightarrow> VolumeGroupSnapshot \<Rightarrow> string \<Rightarrow> 'w st \<Rightarrow> (unit \<times> 'w st) option" where
  "startGroupCreationMetrics E groupSnapshot driverName s =
    do { (_, s) \<leftarrow> (if \<not> IsGroupSnapshotCreated groupSnapshot then
                withMetrics E (OperationStart
                  (NewOperationKey CreateGroupSnapshotOperationName (vgs_UID groupSnapshot))
                  (NewOperationValue driverName (groupProvisionType groupSnapshot))) s
              else Some ((), s));
         withMetrics E (OperationStart
           (NewOperationKey CreateGroupSnapshotAndReadyOperationName (vgs_UID groupSnapshot))
           (NewOperationValue driverName (groupProvisionType groupSnapshot))) s }"

text \<open>Two of the branches end by updating the status from a content, and report a failure the same way.\<close>

definition finishGroupStatus ::
  "'w env \<Rightarrow> VolumeGroupSnapshot \<Rightarrow> VolumeGroupSnapshotContent \<Rightarrow> 'w st \<Rightarrow> (goerr option \<times> 'w st) option" where
  "finishGroupStatus E groupSnapshot content s =
    do { (r, s) \<leftarrow> updateGroupSnapshotStatus E groupSnapshot content s;
         case r of
           Inr _ \<Rightarrow> Some (None, s)
         | Inl err \<Rightarrow>
            do { (_, s) \<leftarrow> updateGroupSnapshotErrorStatusWithEvent E groupSnapshot False EventTypeWarning
                   ''GroupSnapshotStatusUpdateFailed''
                   (sprint [''GroupSnapshot status update failed, '', err_text err]) s;
                 Some (Some err, s) } }"

definition syncUnreadyGroupPreprovisioned ::
  "'w env \<Rightarrow> VolumeGroupSnapshot \<Rightarrow> string \<Rightarrow> 'w st \<Rightarrow> (goerr option \<times> 'w st) option" where
  "syncUnreadyGroupPreprovisioned E groupSnapshot contentName s =
    do { (r, s) \<leftarrow> getPreprovisionedGroupSnapshotContentFromStore E groupSnapshot s;
         case r of
           Inl err \<Rightarrow> Some (Some err, s)
         | Inr None \<Rightarrow>
            do { (_, s) \<leftarrow> updateGroupSnapshotErrorStatusWithEvent E groupSnapshot True EventTypeWarning
                   ''GroupSnapshotContentMissing'' ''VolumeGroupSnapshotContent is missing'' s;
                 Some (Some (Errorf (sprint [''group snapshot '', GroupSnapshotKey groupSnapshot,
                   '' requests an non-existing group snapshot content '', contentName])), s) }
         | Inr (Some content) \<Rightarrow>
            do { (r, s) \<leftarrow> checkAndBindGroupSnapshotContent E groupSnapshot content s;
                 case r of
                   Inl err \<Rightarrow>
                     do { (_, s) \<leftarrow> updateGroupSnapshotErrorStatusWithEvent E groupSnapshot True EventTypeWarning
                            ''GroupSnapshotBindFailed''
                            (sprint [''GroupSnapshot failed to bind VolumeGroupSnapshotContent, '', err_text err]) s;
                          Some (Some (Errorf (sprint [''group snapshot '', GroupSnapshotKey groupSnapshot,
                            '' is bound, but VolumeGroupSnapshotContent '', vgsc_Name content,
                            '' is not bound to the VolumeGroupSnapshot correctly, '', err_text err])), s) }
                 | Inr newContent \<Rightarrow> finishGroupStatus E groupSnapshot newContent s } }"

text \<open>A content was found: its members are created, then the status of the group snapshot follows.\<close>

definition syncFoundGroupContent ::
  "'w env \<Rightarrow> VolumeGroupSnapshot \<Rightarrow> VolumeGroupSnapshotContent \<Rightarrow> 'w st \<Rightarrow> (goerr option \<times> 'w st) option" where
  "syncFoundGroupContent E groupSnapshot contentObj s =
    (if vgsc_Handles contentObj \<noteq> None then
       do { (_, s) \<leftarrow> updateGroupSnapshotErrorStatusWithEvent E groupSnapshot True EventTypeWarning
              ''GroupSnapshotHandleSet'' (sprint [''GroupSnapshot handle should not be set in group snapshot content '',
                GroupSnapshotKey groupSnapshot, '' for dynamic provisioning'']) s;
            Some (Some (Errorf (sprint [''VolumeGroupSnapshotHandle should not be set in the group snapshot content for dynamic provisioning for group snapshot '',
              GroupSnapshotKey groupSnapshot])), s) }
     else do {
       (err, s) \<leftarrow> createSnapshotsForGroupSnapshotContent E contentObj groupSnapshot s;
       case err of
         Some err \<Rightarrow> Some (Some err, s)
       | None \<Rightarrow>
          do { (r, s) \<leftarrow> bindandUpdateVolumeGroupSnapshot E contentObj groupSnapshot s;
               case r of Inl err \<Rightarrow> Some (Some err, s) | Inr _ \<Rightarrow> Some (None, s) } })"

definition syncUnreadyGroupDynamic ::
  "'w env \<Rightarrow> VolumeGroupSnapshot \<Rightarrow> 'w st \<Rightarrow> (goerr option \<times> 'w st) option" where
  "syncUnreadyGroupDynamic E groupSnapshot s =
    do { (r, s) \<leftarrow> getDynamicallyProvisionedGroupContentFromStore E groupSnapshot s;
         case r of
           Inl err \<Rightarrow> Some (Some err, s)
         | Inr (Some contentObj) \<Rightarrow> syncFoundGroupContent E groupSnapshot contentObj s
         | Inr None \<Rightarrow>
            do { (r, s) \<leftarrow> createGroupSnapshotContent E groupSnapshot s;
                 case r of
                   Inl err \<Rightarrow>
                     do { (_, s) \<leftarrow> updateGroupSnapshotErrorStatusWithEvent E groupSnapshot True EventTypeWarning
                            ''GroupSnapshotContentCreationFailed''
                            (sprint [''failed to create group snapshot content with error '', err_text err]) s;
                          Some (Some err, s) }
                 | Inr content \<Rightarrow> finishGroupStatus E groupSnapshot content s } }"

definition syncUnreadyGroupSnapshot ::
  "'w env \<Rightarrow> VolumeGroupSnapshot \<Rightarrow> 'w st \<Rightarrow> (goerr option \<times> 'w st) option" where
  "syncUnreadyGroupSnapshot E groupSnapshot s =
    do { (driverName, s) \<leftarrow> getGroupSnapshotDriverName E groupSnapshot s;
         (_, s) \<leftarrow> startGroupCreationMetrics E groupSnapshot driverName s;
         case vgs_ContentName groupSnapshot of
           Some contentName \<Rightarrow> syncUnreadyGroupPreprovisioned E groupSnapshot contentName s
         | None \<Rightarrow> syncUnreadyGroupDynamic E groupSnapshot s }"

section \<open>The reconcilers\<close>

definition oneGroupSource :: string where
  "oneGroupSource = ''Exactly one of Selector and VolumeGroupSnapshotContentName should be specified''"

definition syncLiveGroupSnapshot ::
  "'w env \<Rightarrow> VolumeGroupSnapshot \<Rightarrow> 'w st \<Rightarrow> (goerr option \<times> 'w st) option" where
  "syncLiveGroupSnapshot E groupSnapshot s =
    (if (vgs_Selector (vgs_Source (vgs_Spec groupSnapshot)) = None) = (vgs_ContentName groupSnapshot = None) then
       do { (_, s) \<leftarrow> updateGroupSnapshotErrorStatusWithEvent E groupSnapshot True EventTypeWarning
              ''GroupSnapshotValidationError'' oneGroupSource s;
            Some (Some (Errorf oneGroupSource), s) }
     else do {
       (err, s) \<leftarrow> checkandAddGroupSnapshotFinalizers E groupSnapshot s;
       case err of
         Some err \<Rightarrow> Some (Some err, emit (Event (ObjVGS groupSnapshot) EventTypeWarning
           ''GroupSnapshotFinalizerError''
           (sprint [''Failed to check and update group snapshot: '', err_text err])) s)
       | None \<Rightarrow>
          if \<not> IsGroupSnapshotReady groupSnapshot \<or> \<not> IsBoundVolumeGroupSnapshotContentNameSet groupSnapshot
          then syncUnreadyGroupSnapshot E groupSnapshot s
          else syncReadyGroupSnapshot E groupSnapshot s })"

definition syncGroupSnapshot ::
  "'w env \<Rightarrow> VolumeGroupSnapshot \<Rightarrow> 'w st \<Rightarrow> (goerr option \<times> 'w st) option" where
  "syncGroupSnapshot E groupSnapshot s =
    (if DeletionTimestamp (vgs_meta groupSnapshot) \<noteq> None
     then processGroupSnapshotWithDeletionTimestamp E groupSnapshot s
     else syncLiveGroupSnapshot E groupSnapshot s)"

definition oneGroupHandle :: string where
  "oneGroupHandle = ''Exactly one of GroupSnapshotHandles and VolumeHandles should be specified''"

definition syncGroupSnapshotContent ::
  "'w env \<Rightarrow> VolumeGroupSnapshotContent \<Rightarrow> 'w st \<Rightarrow> (goerr option \<times> 'w st) option" where
  "syncGroupSnapshotContent E content s =
    (let groupSnapshotName = GroupSnapshotRefKey (vgsc_Ref content) in
     if (vgsc_Handles content = None) = (length (VolumeHandles (gspec_Source (vgsc_Spec content))) = 0) then
       Some (Some (Errorf oneGroupHandle),
         emit (Event (ObjVGSC content) EventTypeWarning ''GroupContentValidationError'' oneGroupHandle) s)
     else if ref_UID (vgsc_Ref content) = [] then Some (None, s)
     else if NeedToAddGroupSnapshotContentFinalizer content then addGroupSnapshotContentFinalizer E content s
     else case getGroupSnapshotFromStore groupSnapshotName s of
       Inl err \<Rightarrow> Some (Some err, s)
     | Inr None \<Rightarrow> Some (None, s)
     | Inr (Some groupSnapshot) \<Rightarrow>
        if vgs_UID groupSnapshot \<noteq> ref_UID (vgsc_Ref content) then Some (None, s)
        else if needsUpdateGroupSnapshotStatus groupSnapshot content
             then Some (None, emit (QueueAdd QGroupSnapshot groupSnapshotName) s)
             else Some (None, s))"

section \<open>The work loop\<close>

definition enqueueGroupSnapshotWork :: "informer_obj \<Rightarrow> 'w st \<Rightarrow> 'w st" where
  "enqueueGroupSnapshotWork ob s =
    (case unwrapTombstone ob of
       Some (ObjVGS groupSnapshot) \<Rightarrow> emit (QueueAdd QGroupSnapshot (keyFunc (vgs_meta groupSnapshot))) s
     | _ \<Rightarrow> s)"

definition enqueueGroupSnapshotContentWork :: "informer_obj \<Rightarrow> 'w st \<Rightarrow> 'w st" where
  "enqueueGroupSnapshotContentWork ob s =
    (case unwrapTombstone ob of
       Some (ObjVGSC content) \<Rightarrow> emit (QueueAdd QGroupContent (keyFunc (vgsc_meta content))) s
     | _ \<Rightarrow> s)"

definition updateGroupSnapshot ::
  "'w env \<Rightarrow> VolumeGroupSnapshot \<Rightarrow> 'w st \<Rightarrow> (goerr option \<times> 'w st) option" where
  "updateGroupSnapshot E groupSnapshot s =
    do { (new, s) \<leftarrow> storeGroupSnapshotUpdate (ObjVGS groupSnapshot) s;
         if new \<noteq> Inr True then Some (None, s) else syncGroupSnapshot E groupSnapshot s }"

definition updateGroupSnapshotContent ::
  "'w env \<Rightarrow> VolumeGroupSnapshotContent \<Rightarrow> 'w st \<Rightarrow> (goerr option \<times> 'w st) option" where
  "updateGroupSnapshotContent E content s =
    do { (new, s) \<leftarrow> storeGroupSnapshotContentUpdate (ObjVGSC content) s;
         if new \<noteq> Inr True then Some (None, s) else syncGroupSnapshotContent E content s }"

definition deleteGroupSnapshot ::
  "'w env \<Rightarrow> VolumeGroupSnapshot \<Rightarrow> 'w st \<Rightarrow> (unit \<times> 'w st) option" where
  "deleteGroupSnapshot E groupSnapshot s =
    (let s = s\<lparr>groupSnapshotStore := (groupSnapshotStore s)(keyFunc (vgs_meta groupSnapshot) := None)\<rparr> in
     do { (driverName, s) \<leftarrow> getGroupSnapshotDriverName E groupSnapshot s;
          (_, s) \<leftarrow> withMetrics E (RecordMetrics
                 (NewOperationKey DeleteGroupSnapshotOperationName (vgs_UID groupSnapshot))
                 (Some SnapshotStatusTypeSuccess) driverName) s;
          let contentName = groupContentNameForDeletion groupSnapshot;
          Some ((), if contentName = [] then s else emit (QueueAdd QGroupContent contentName) s) })"

definition deleteGroupSnapshotContent :: "VolumeGroupSnapshotContent \<Rightarrow> 'w st \<Rightarrow> 'w st" where
  "deleteGroupSnapshotContent content s =
    (let s = s\<lparr>groupSnapshotContentStore := (groupSnapshotContentStore s)(keyFunc (vgsc_meta content) := None)\<rparr>;
         groupSnapshotName = GroupSnapshotRefKey (vgsc_Ref content) in
     if groupSnapshotName = [] then s else emit (QueueAdd QGroupSnapshot groupSnapshotName) s)"

text \<open>The group snapshot and the error, of which the source always returns both.\<close>

definition checkAndUpdateGroupSnapshotClass ::
  "'w env \<Rightarrow> VolumeGroupSnapshot \<Rightarrow> 'w st \<Rightarrow> ((VolumeGroupSnapshot \<times> goerr option) \<times> 'w st) option" where
  "checkAndUpdateGroupSnapshotClass E groupSnapshot s =
    (case vgs_ClassName groupSnapshot of
       Some className \<Rightarrow>
         do { (r, s) \<leftarrow> getGroupSnapshotClass E className s;
              case r of
                Inl err \<Rightarrow>
                  do { (_, s) \<leftarrow> updateGroupSnapshotErrorStatusWithEvent E groupSnapshot False EventTypeWarning
                         ''GetGroupSnapshotClassFailed''
                         (sprint [''failed to get group snapshot class with error '', err_text err]) s;
                       Some ((groupSnapshot, Some err), s) }
              | Inr class \<Rightarrow> Some ((groupSnapshot, None), s) }
     | None \<Rightarrow>
         do { ((class, newGroupSnapshot, err), s) \<leftarrow> SetDefaultGroupSnapshotClass E groupSnapshot s;
              case err of
                Some err \<Rightarrow>
                  do { (_, s) \<leftarrow> updateGroupSnapshotErrorStatusWithEvent E groupSnapshot False EventTypeWarning
                         ''SetDefaultGroupSnapshotClassFailed''
                         (sprint [''Failed to set default group snapshot class with error '', err_text err]) s;
                       Some ((groupSnapshot, Some err), s) }
              | None \<Rightarrow> Some ((newGroupSnapshot, None), s) })"

definition syncGroupSnapshotByKey :: "'w env \<Rightarrow> string \<Rightarrow> 'w st \<Rightarrow> (goerr option \<times> 'w st) option" where
  "syncGroupSnapshotByKey E key s =
    (case SplitMetaNamespaceKey key of
       Inl err \<Rightarrow> Some (None, s)
     | Inr (namespace, name) \<Rightarrow>
        do { (r, s) \<leftarrow> call (lister_GetVGS E namespace name) s;
             case r of
               Inr groupSnapshot \<Rightarrow>
                 do { ((newGroupSnapshot, err), s) \<leftarrow> checkAndUpdateGroupSnapshotClass E groupSnapshot s;
                      case err of
                        None \<Rightarrow> updateGroupSnapshot E newGroupSnapshot s
                      | Some e \<Rightarrow>
                          if DeletionTimestamp (vgs_meta newGroupSnapshot) \<noteq> None \<and> IsNotFound e
                          then updateGroupSnapshot E newGroupSnapshot s else Some (Some e, s) }
             | Inl err \<Rightarrow>
                 if \<not> IsNotFound err then Some (Some err, s)
                 else (case groupSnapshotStore s key of
                    None \<Rightarrow> Some (None, s)
                  | Some (ObjVGS groupSnapshot) \<Rightarrow>
                      do { (_, s) \<leftarrow> deleteGroupSnapshot E groupSnapshot s; Some (None, s) }
                  | Some _ \<Rightarrow> Some (None, s)) })"

text \<open>A lister error other than not-found is dropped here.\<close>

definition syncGroupSnapshotContentByKey ::
  "'w env \<Rightarrow> string \<Rightarrow> 'w st \<Rightarrow> (goerr option \<times> 'w st) option" where
  "syncGroupSnapshotContentByKey E key s =
    (case SplitMetaNamespaceKey key of
       Inl err \<Rightarrow> Some (None, s)
     | Inr (_, name) \<Rightarrow>
        do { (r, s) \<leftarrow> call (lister_GetVGSC E name) s;
             case r of
               Inr content \<Rightarrow> updateGroupSnapshotContent E content s
             | Inl err \<Rightarrow>
                 if \<not> IsNotFound err then Some (None, s)
                 else (case groupSnapshotContentStore s key of
                    None \<Rightarrow> Some (None, s)
                  | Some (ObjVGSC content) \<Rightarrow> Some (None, deleteGroupSnapshotContent content s)
                  | Some _ \<Rightarrow> Some (None, s)) })"

definition groupSnapshotWorker :: "'w env \<Rightarrow> string option \<Rightarrow> 'w st \<Rightarrow> (unit \<times> 'w st) option" where
  "groupSnapshotWorker E next s =
    (case next of
       None \<Rightarrow> Some ((), s)
     | Some key \<Rightarrow>
        do { (err, s) \<leftarrow> syncGroupSnapshotByKey E key s;
             let s = (case err of
                        Some _ \<Rightarrow> emit (QueueAddRateLimited QGroupSnapshot key) s
                      | None \<Rightarrow> emit (QueueForget QGroupSnapshot key) s);
             Some ((), emit (QueueDone QGroupSnapshot key) s) })"

definition groupSnapshotContentWorker :: "'w env \<Rightarrow> string option \<Rightarrow> 'w st \<Rightarrow> (unit \<times> 'w st) option" where
  "groupSnapshotContentWorker E next s =
    (case next of
       None \<Rightarrow> Some ((), s)
     | Some key \<Rightarrow>
        do { (err, s) \<leftarrow> syncGroupSnapshotContentByKey E key s;
             let s = (case err of
                        Some _ \<Rightarrow> emit (QueueAddRateLimited QGroupContent key) s
                      | None \<Rightarrow> emit (QueueForget QGroupContent key) s);
             Some ((), emit (QueueDone QGroupContent key) s) })"

section \<open>What these operations do\<close>

context effects
begin

lemma memberBeingRestored_I:
  assumes "\<And>t r m. ok (Event (ObjVGS g) t r m)" "I s" "\<And>r s'. I s' \<Longrightarrow> Q r s'"
  shows "ensures (memberBeingRestored E g members s) Q"
proof (rule keepI[OF _ assms(3)])
  show "ensures (memberBeingRestored E g members s) (\<lambda>_ s'. I s')" using assms(2)
  proof (induction members arbitrary: s)
    case (Cons m members)
    show ?case unfolding memberBeingRestored.simps ensures_bind prod.case
      by (rule call_I[OF Cons.prems]) (use Cons.IH assms(1) in
        \<open>auto intro!: isVolumeBeingCreatedFromSnapshot_I emit_I split: sum.split\<close>)
  qed simp
qed

lemma deleteMembers_I:
  assumes "\<And>t r m. ok (Event (ObjVGS g) t r m)" "\<And>n m. ok (DeleteVS n m)" "I s" "\<And>r s'. I s' \<Longrightarrow> Q r s'"
  shows "ensures (deleteMembers E g members s) Q"
proof (rule keepI[OF _ assms(4)])
  show "ensures (deleteMembers E g members s) (\<lambda>_ s'. I s')" using assms(3)
  proof (induction members arbitrary: s)
    case (Cons m members)
    show ?case unfolding deleteMembers.simps ensures_bind prod.case
      by (rule act_I[OF assms(2) Cons.prems]) (use Cons.IH assms(1) in
        \<open>auto simp: Let_def intro!: emit_I split: option.split\<close>)
  qed simp
qed

lemma annotateAndDeleteGroupContent_I:
  assumes "\<And>t r m. ok (Event (ObjVGS g) t r m)" "\<And>n p. ok (PatchVGSC n p [])" "cascade \<Longrightarrow> (\<And>n. ok (DeleteVGSC n))"
    "touch CGroupSnapshotContent" "I s" "\<And>r s'. I s' \<Longrightarrow> Q r s'"
  shows "ensures (annotateAndDeleteGroupContent E g content cascade s) Q"
  unfolding annotateAndDeleteGroupContent_def
  by (rule keepI[OF _ assms(6)], insert assms(1-5), auto simp: Let_def
      intro!: setAnnVolumeGroupSnapshotBeingDeleted_I act_I emit_I split: sum.split option.split)

lemma deleteGroupMembersAndContent_I:
  assumes "\<And>t r m. ok (Event (ObjVGS g) t r m)" "\<And>n p. ok (PatchVGSC n p [])" "cascade \<Longrightarrow> (\<And>n. ok (DeleteVGSC n))"
    "\<And>n m. ok (DeleteVS n m)" "\<And>g. ok (UpdateVGS g)" "touch CGroupSnapshot" "touch CGroupSnapshotContent" "I s"
    "\<And>r s'. I s' \<Longrightarrow> Q r s'"
  shows "ensures (deleteGroupMembersAndContent E g content cascade s) Q"
  unfolding deleteGroupMembersAndContent_def findGroupSnapshotMembers_def
  by (rule keepI[OF _ assms(9)], insert assms(1-8), auto
      intro!: call_I memberBeingRestored_I annotateAndDeleteGroupContent_I deleteMembers_I
        removeGroupSnapshotFinalizer_I split: sum.split option.split bool.split)

lemma processGroupSnapshotWithDeletionTimestamp_I:
  assumes "\<And>t r m. ok (Event (ObjVGS g) t r m)" "\<And>n p. ok (PatchVGSC n p [])" "\<And>n. ok (DeleteVGSC n)"
    "\<And>n m. ok (DeleteVS n m)" "\<And>g. ok (UpdateVGS g)" "touch CGroupSnapshot" "touch CGroupSnapshotContent" "I s"
    "\<And>r s'. I s' \<Longrightarrow> Q r s'"
  shows "ensures (processGroupSnapshotWithDeletionTimestamp E g s) Q"
  unfolding processGroupSnapshotWithDeletionTimestamp_def
  by (rule keepI[OF _ assms(9)], insert assms(1-8), auto
      intro!: getGroupSnapshotDriverName_I withMetrics_I deleteGroupMembersAndContent_I split: sum.split option.split)

lemma syncReadyGroupSnapshot_I:
  assumes "\<And>g. ok (UpdateStatusVGS g)" "\<And>g t r m. ok (Event (ObjVGS g) t r m)" "touch CGroupSnapshot" "I s"
    "\<And>r s'. I s' \<Longrightarrow> Q r s'"
  shows "ensures (syncReadyGroupSnapshot E g s) Q"
  unfolding syncReadyGroupSnapshot_def
  by (rule keepI[OF _ assms(5)], insert assms(1-4), auto
      intro!: ensures_option_bind updateGroupSnapshotErrorStatusWithEvent_I split: sum.split option.split)

lemma startGroupCreationMetrics_I:
  "I s \<Longrightarrow> (\<And>r s'. I s' \<Longrightarrow> Q r s') \<Longrightarrow> ensures (startGroupCreationMetrics E g d s) Q"
  by (auto simp: startGroupCreationMetrics_def intro!: withMetrics_I)

lemma finishGroupStatus_I:
  assumes "\<And>g. ok (UpdateStatusVGS g)" "\<And>g t r m. ok (Event (ObjVGS g) t r m)" "touch CGroupSnapshot" "I s"
    "\<And>r s'. I s' \<Longrightarrow> Q r s'"
  shows "ensures (finishGroupStatus E g c s) Q"
  unfolding finishGroupStatus_def
  by (rule keepI[OF _ assms(5)], insert assms(1-4), auto
      intro!: updateGroupSnapshotStatus_I updateGroupSnapshotErrorStatusWithEvent_I split: sum.split)

lemma syncUnreadyGroupPreprovisioned_I:
  assumes "\<And>g. ok (UpdateStatusVGS g)" "\<And>g t r m. ok (Event (ObjVGS g) t r m)" "\<And>n p. ok (PatchVGSC n p [])"
    "touch CGroupSnapshot" "touch CGroupSnapshotContent" "I s" "\<And>r s'. I s' \<Longrightarrow> Q r s'"
  shows "ensures (syncUnreadyGroupPreprovisioned E g n s) Q"
  unfolding syncUnreadyGroupPreprovisioned_def
  by (rule keepI[OF _ assms(7)], insert assms(1-6), auto
      intro!: getPreprovisionedGroupSnapshotContentFromStore_I updateGroupSnapshotErrorStatusWithEvent_I
        checkAndBindGroupSnapshotContent_I finishGroupStatus_I split: sum.split option.split)

lemma syncFoundGroupContent_I:
  assumes "\<And>g. ok (UpdateStatusVGS g)" "\<And>g t r m. ok (Event (ObjVGS g) t r m)" "\<And>c. ok (CreateVSC c)"
    "\<And>v. ok (CreateVS v)" "\<And>n p q. plainOrStatus q \<Longrightarrow> ok (PatchVSC n p q)" "\<And>n m p q. plainOrStatus q \<Longrightarrow> ok (PatchVS n m p q)"
    "touch CGroupSnapshot" "I s" "\<And>r s'. I s' \<Longrightarrow> Q r s'"
  shows "ensures (syncFoundGroupContent E g c s) Q"
  unfolding syncFoundGroupContent_def
  by (rule keepI[OF _ assms(9)], insert assms(1-8), auto
      intro!: updateGroupSnapshotErrorStatusWithEvent_I createSnapshotsForGroupSnapshotContent_I
        bindandUpdateVolumeGroupSnapshot_I split: sum.split option.split)

lemma syncUnreadyGroupDynamic_I:
  assumes "\<And>g. ok (UpdateStatusVGS g)" "\<And>g t r m. ok (Event (ObjVGS g) t r m)" "\<And>c. ok (CreateVSC c)"
    "\<And>v. ok (CreateVS v)" "\<And>n p q. plainOrStatus q \<Longrightarrow> ok (PatchVSC n p q)" "\<And>n m p q. plainOrStatus q \<Longrightarrow> ok (PatchVS n m p q)"
    "\<And>c. ok (CreateVGSC c)" "touch CGroupSnapshot" "touch CGroupSnapshotContent" "I s" "\<And>r s'. I s' \<Longrightarrow> Q r s'"
  shows "ensures (syncUnreadyGroupDynamic E g s) Q"
  unfolding syncUnreadyGroupDynamic_def
  by (rule keepI[OF _ assms(11)], insert assms(1-10), auto
      intro!: getDynamicallyProvisionedGroupContentFromStore_I updateGroupSnapshotErrorStatusWithEvent_I
        syncFoundGroupContent_I createGroupSnapshotContent_I finishGroupStatus_I split: sum.split option.split)

lemma syncUnreadyGroupSnapshot_I:
  assumes "\<And>g. ok (UpdateStatusVGS g)" "\<And>g t r m. ok (Event (ObjVGS g) t r m)" "\<And>c. ok (CreateVSC c)"
    "\<And>v. ok (CreateVS v)" "\<And>n p q. plainOrStatus q \<Longrightarrow> ok (PatchVSC n p q)" "\<And>n m p q. plainOrStatus q \<Longrightarrow> ok (PatchVS n m p q)"
    "\<And>c. ok (CreateVGSC c)" "\<And>n p. ok (PatchVGSC n p [])" "touch CGroupSnapshot" "touch CGroupSnapshotContent"
    "I s" "\<And>r s'. I s' \<Longrightarrow> Q r s'"
  shows "ensures (syncUnreadyGroupSnapshot E g s) Q"
  unfolding syncUnreadyGroupSnapshot_def
  by (rule keepI[OF _ assms(12)], insert assms(1-11), auto
      intro!: getGroupSnapshotDriverName_I startGroupCreationMetrics_I syncUnreadyGroupPreprovisioned_I
        syncUnreadyGroupDynamic_I split: option.split)

lemma syncLiveGroupSnapshot_I:
  assumes "\<And>g. ok (UpdateStatusVGS g)" "\<And>g t r m. ok (Event (ObjVGS g) t r m)" "\<And>c. ok (CreateVSC c)"
    "\<And>v. ok (CreateVS v)" "\<And>n p q. plainOrStatus q \<Longrightarrow> ok (PatchVSC n p q)" "\<And>n m p q. plainOrStatus q \<Longrightarrow> ok (PatchVS n m p q)"
    "\<And>c. ok (CreateVGSC c)" "\<And>n p. ok (PatchVGSC n p [])" "\<And>g. ok (UpdateVGS g)" "\<And>n m p. ok (PatchVGS n m p [])"
    "touch CGroupSnapshot" "touch CGroupSnapshotContent" "I s" "\<And>r s'. I s' \<Longrightarrow> Q r s'"
  shows "ensures (syncLiveGroupSnapshot E g s) Q"
  unfolding syncLiveGroupSnapshot_def
  by (rule keepI[OF _ assms(14)], insert assms(1-13), auto
      intro!: updateGroupSnapshotErrorStatusWithEvent_I checkandAddGroupSnapshotFinalizers_I emit_I
        syncUnreadyGroupSnapshot_I syncReadyGroupSnapshot_I split: option.split)

lemma syncGroupSnapshot_I:
  assumes "\<And>g. ok (UpdateStatusVGS g)" "\<And>g t r m. ok (Event (ObjVGS g) t r m)" "\<And>c. ok (CreateVSC c)"
    "\<And>v. ok (CreateVS v)" "\<And>n p q. plainOrStatus q \<Longrightarrow> ok (PatchVSC n p q)" "\<And>n m p q. plainOrStatus q \<Longrightarrow> ok (PatchVS n m p q)"
    "\<And>c. ok (CreateVGSC c)" "\<And>n p. ok (PatchVGSC n p [])" "\<And>g. ok (UpdateVGS g)" "\<And>n m p. ok (PatchVGS n m p [])"
    "\<And>n. ok (DeleteVGSC n)" "\<And>n m. ok (DeleteVS n m)"
    "touch CGroupSnapshot" "touch CGroupSnapshotContent" "I s" "\<And>r s'. I s' \<Longrightarrow> Q r s'"
  shows "ensures (syncGroupSnapshot E g s) Q"
  unfolding syncGroupSnapshot_def
  by (rule keepI[OF _ assms(16)], insert assms(1-15), auto
      intro!: processGroupSnapshotWithDeletionTimestamp_I syncLiveGroupSnapshot_I)

lemma syncGroupSnapshotContent_I:
  assumes "\<And>t r m. ok (Event (ObjVGSC c) t r m)" "\<And>p. ok (PatchVGSC (vgsc_Name c) p [])"
    "\<And>k. ok (QueueAdd QGroupSnapshot k)" "touch CGroupSnapshotContent" "I s" "\<And>r s'. I s' \<Longrightarrow> Q r s'"
  shows "ensures (syncGroupSnapshotContent E c s) Q"
  unfolding syncGroupSnapshotContent_def Let_def
  by (rule keepI[OF _ assms(6)], insert assms(1-5), auto
      intro!: emit_I addGroupSnapshotContentFinalizer_I split: sum.split option.split)

lemma deleteGroupSnapshot_I:
  assumes "\<And>k. ok (QueueAdd QGroupContent k)" "touch CGroupSnapshot" "I s" "\<And>r s'. I s' \<Longrightarrow> Q r s'"
  shows "ensures (deleteGroupSnapshot E g s) Q"
  unfolding deleteGroupSnapshot_def
  by (rule keepI[OF _ assms(4)], insert assms(1-3), auto simp: Let_def
      intro!: getGroupSnapshotDriverName_I withMetrics_I emit_I I_group)

lemma deleteGroupSnapshotContent_I:
  "(\<And>k. ok (QueueAdd QGroupSnapshot k)) \<Longrightarrow> touch CGroupSnapshotContent \<Longrightarrow> I s \<Longrightarrow> I (deleteGroupSnapshotContent c s)"
  by (auto simp: deleteGroupSnapshotContent_def Let_def intro!: emit_I I_groupContent)

lemma checkAndUpdateGroupSnapshotClass_I:
  assumes "\<And>g. ok (UpdateStatusVGS g)" "\<And>g. ok (UpdateVGS g)" "\<And>g t r m. ok (Event (ObjVGS g) t r m)"
    "touch CGroupSnapshot" "I s" "\<And>r s'. I s' \<Longrightarrow> Q r s'"
  shows "ensures (checkAndUpdateGroupSnapshotClass E g s) Q"
  unfolding checkAndUpdateGroupSnapshotClass_def
  by (rule keepI[OF _ assms(6)], insert assms(1-5), auto
      intro!: getGroupSnapshotClass_I updateGroupSnapshotErrorStatusWithEvent_I SetDefaultGroupSnapshotClass_I
      split: option.split sum.split)

lemma syncGroupSnapshotByKey_I:
  assumes "\<And>g. ok (UpdateStatusVGS g)" "\<And>g t r m. ok (Event (ObjVGS g) t r m)" "\<And>c. ok (CreateVSC c)"
    "\<And>v. ok (CreateVS v)" "\<And>n p q. plainOrStatus q \<Longrightarrow> ok (PatchVSC n p q)" "\<And>n m p q. plainOrStatus q \<Longrightarrow> ok (PatchVS n m p q)"
    "\<And>c. ok (CreateVGSC c)" "\<And>n p. ok (PatchVGSC n p [])" "\<And>g. ok (UpdateVGS g)" "\<And>n m p. ok (PatchVGS n m p [])"
    "\<And>n. ok (DeleteVGSC n)" "\<And>n m. ok (DeleteVS n m)" "\<And>k. ok (QueueAdd QGroupContent k)"
    "touch CGroupSnapshot" "touch CGroupSnapshotContent" "I s" "\<And>r s'. I s' \<Longrightarrow> Q r s'"
  shows "ensures (syncGroupSnapshotByKey E key s) Q"
proof (rule keepI[OF _ assms(17)])
  have upd: "ensures (updateGroupSnapshot E g s) (\<lambda>_ s'. I s')" if "I s" for g s
    unfolding updateGroupSnapshot_def using assms(1-15) that
    by (auto intro!: storeGroupSnapshotUpdate_I syncGroupSnapshot_I)
  have del: "ensures (deleteGroupSnapshot E g s) (\<lambda>_ s'. I s')" if "I s" for g s
    by (rule deleteGroupSnapshot_I) (use assms(13,14) that in auto)
  show "ensures (syncGroupSnapshotByKey E key s) (\<lambda>_ s'. I s')"
    unfolding syncGroupSnapshotByKey_def using assms(1,2,9,14,16)
    by (auto intro!: call_I checkAndUpdateGroupSnapshotClass_I upd del split: sum.split option.split obj.split)
qed

lemma syncGroupSnapshotContentByKey_I:
  assumes "\<And>c t r m. ok (Event (ObjVGSC c) t r m)" "\<And>n p. ok (PatchVGSC n p [])"
    "\<And>k. ok (QueueAdd QGroupSnapshot k)" "touch CGroupSnapshotContent" "I s" "\<And>r s'. I s' \<Longrightarrow> Q r s'"
  shows "ensures (syncGroupSnapshotContentByKey E key s) Q"
  unfolding syncGroupSnapshotContentByKey_def updateGroupSnapshotContent_def
  by (rule keepI[OF _ assms(6)], insert assms(1-5), auto
      intro!: call_I storeGroupSnapshotContentUpdate_I syncGroupSnapshotContent_I deleteGroupSnapshotContent_I
      split: sum.split option.split obj.split)

end

end
