(* ===== verification/CommonGroupProps.thy ===== *)
theory CommonGroupProps
  imports CommonGroupSync
begin

text \<open>
  What the group half of the common controller guarantees: the deletion of a group snapshot, its content and
  its members, the creation of a group content and of the members, the status that follows a content, and
  the work loop.
\<close>

section \<open>Deleting a group snapshot\<close>

definition notGroupDelete :: "action \<Rightarrow> bool" where
  "notGroupDelete a = (\<forall>n m. a \<noteq> DeleteVGSC n \<and> a \<noteq> DeleteVS m n)"

lemma notGroupDelete_simps [simp]:
  "notGroupDelete (CreateVS v)" "notGroupDelete (PatchVS n m p q)"
  "notGroupDelete (CreateVSC c)" "notGroupDelete (PatchVSC n p q)"
  "notGroupDelete (UpdateVGS g)" "notGroupDelete (UpdateStatusVGS g)" "notGroupDelete (PatchVGS n m p q)"
  "notGroupDelete (CreateVGSC gc)" "notGroupDelete (PatchVGSC n p q)"
  "notGroupDelete (Event ob t m m')" "notGroupDelete (QueueAdd qu k)"
  by (simp_all add: notGroupDelete_def)

text \<open>Whether a member stands in the way, asked of each in turn: the lister has lost it, or no listed claim is waiting to
  be restored from it. The worlds are those before the first and after the last question.\<close>

fun membersSafe :: "'w env \<Rightarrow> VolumeGroupSnapshot \<Rightarrow> VolumeSnapshot list \<Rightarrow> 'w \<Rightarrow> 'w \<Rightarrow> bool" where
  "membersSafe E g [] w w' \<longleftrightarrow> w' = w"
| "membersSafe E g (m # ms) w w' \<longleftrightarrow>
    (\<exists>r w1. lister_GetVS E (vgs_Namespace g) (vs_Name m) w = (r, w1) \<and>
      (case r of
         Inl err \<Rightarrow> IsNotFound err \<and> membersSafe E g ms w1 w'
       | Inr v \<Rightarrow> \<exists>pvcs w2. lister_ListPVC E (vs_Namespace v) w1 = (pvcs, w2) \<and>
           (\<forall>l. pvcs = Inr l \<longrightarrow> (\<forall>p \<in> set l. \<not> pendingRestore v p)) \<and> membersSafe E g ms w2 w'))"

text \<open>The deletion of the members in turn: those that the server deleted or no longer has, and the first that it did not.\<close>

fun membersGone :: "'w env \<Rightarrow> VolumeGroupSnapshot \<Rightarrow> VolumeSnapshot list \<Rightarrow> 'w \<Rightarrow> 'w \<Rightarrow> bool" where
  "membersGone E g [] w w' \<longleftrightarrow> w' = w"
| "membersGone E g (m # ms) w w' \<longleftrightarrow>
    (\<exists>r w1. api_DeleteVS E (vgs_Namespace g) (vs_Name m) w = (r, w1) \<and>
      (r = None \<or> (\<exists>err. r = Some err \<and> IsNotFound err)) \<and> membersGone E g ms w1 w')"

definition memberRefused :: "'w env \<Rightarrow> VolumeGroupSnapshot \<Rightarrow> VolumeSnapshot \<Rightarrow> 'w \<Rightarrow> bool" where
  "memberRefused E g m w \<longleftrightarrow>
    (\<exists>err. fst (api_DeleteVS E (vgs_Namespace g) (vs_Name m) w) = Some err \<and> \<not> IsNotFound err)"

definition groupAnnotated :: "VolumeGroupSnapshotContent \<Rightarrow> VolumeGroupSnapshotContent" where
  "groupAnnotated c = c\<lparr>vgsc_meta := (vgsc_meta c)\<lparr>Annotations :=
     fmupd AnnVolumeGroupSnapshotBeingDeleted ''yes'' (Annotations (vgsc_meta c))\<rparr>\<rparr>"

definition groupAnnotationPatch :: "VolumeGroupSnapshotContent \<Rightarrow> PatchOp list" where
  "groupAnnotationPatch c = [patchOp ''replace'' ''/metadata/annotations''
     (PVMap (fmupd AnnVolumeGroupSnapshotBeingDeleted ''yes'' (Annotations (vgsc_meta c))))]"

definition groupAnnotationLog :: "VolumeGroupSnapshotContent \<Rightarrow> action list" where
  "groupAnnotationLog c =
    (if HasAnnotation (vgsc_meta c) AnnVolumeGroupSnapshotBeingDeleted then []
     else [PatchVGSC (vgsc_Name c) (groupAnnotationPatch c) []])"

text \<open>The content that carries the annotation: itself, or the one in the answer to the patch, which was accepted.\<close>

definition annotatedAs ::
  "'w env \<Rightarrow> VolumeGroupSnapshotContent \<Rightarrow> 'w \<Rightarrow> VolumeGroupSnapshotContent \<Rightarrow> 'w \<Rightarrow> bool" where
  "annotatedAs E c w u w' \<longleftrightarrow>
    (if HasAnnotation (vgsc_meta c) AnnVolumeGroupSnapshotBeingDeleted then u = c \<and> w' = w
     else api_PatchVGSC E (vgsc_Name c) (groupAnnotationPatch c) [] (shared_write_VGSC E (groupAnnotated c) w) =
       (Inr u, w'))"

definition memberDeletions :: "VolumeGroupSnapshot \<Rightarrow> VolumeSnapshot list \<Rightarrow> action list" where
  "memberDeletions g members = map (\<lambda>m. DeleteVS (vgs_Namespace g) (vs_Name m)) members"

definition withoutGroupFinalizer :: "VolumeGroupSnapshot \<Rightarrow> VolumeGroupSnapshot" where
  "withoutGroupFinalizer g = g\<lparr>vgs_meta := (vgs_meta g)\<lparr>Finalizers :=
     filter (\<lambda>f. f \<noteq> VolumeGroupSnapshotBoundFinalizer) (Finalizers (vgs_meta g))\<rparr>\<rparr>"

lemma setGroupAnn_log:
  assumes "setAnnVolumeGroupSnapshotBeingDeleted E c s = Some (r, s')"
  shows "log s' = log s @ groupAnnotationLog c \<and> (\<forall>u. r = Inr u \<longrightarrow> annotatedAs E c (world s) u (world s'))"
  using assms
  by (auto simp: setAnnVolumeGroupSnapshotBeingDeleted_def groupAnnotationLog_def groupAnnotationPatch_def
      annotatedAs_def groupAnnotated_def Let_def SetMetaDataAnnotation_def
      PatchVolumeGroupSnapshotContent_def writeThroughVGSC_def act_def call_def storeGroupSnapshotContentUpdate_def
      split: if_splits sum.splits prod.splits)

lemma memberBeingRestored_log:
  "memberBeingRestored E g members s = Some (r, s') \<Longrightarrow>
   (if r = Inr False then log s' = log s \<and> membersSafe E g members (world s) (world s')
    else log s' = log s \<or> (\<exists>t n m. log s' = log s @ [Event (ObjVGS g) t n m]))"
proof (induction members arbitrary: s)
  case (Cons m members)
  obtain lr w where l: "lister_GetVS E (vgs_Namespace g) (vs_Name m) (world s) = (lr, w)" by fastforce
  show ?case
  proof (cases lr)
    case (Inl err)
    then show ?thesis using Cons.prems Cons.IH[of "s\<lparr>world := w\<rparr>"] l
      by (auto simp: call_def split: if_splits)
  next
    case (Inr v)
    obtain b s1 where b: "isVolumeBeingCreatedFromSnapshot E v (s\<lparr>world := w\<rparr>) = Some (b, s1)"
      using Cons.prems l Inr by (auto simp: call_def split: Option.bind_splits)
    obtain pr w2 where pr: "lister_ListPVC E (vs_Namespace v) w = (pr, w2)" by fastforce
    have s1: "log s1 = log s" "world s1 = w2" "\<not> b \<Longrightarrow> \<forall>l. pr = Inr l \<longrightarrow> (\<forall>p \<in> set l. \<not> pendingRestore v p)"
      using restoring_log[OF b] pr by auto
    show ?thesis
    proof (cases b)
      case True
      then show ?thesis using Cons.prems l Inr b s1 by (auto simp: call_def emit_def)
    next
      case False
      then have run: "memberBeingRestored E g members s1 = Some (r, s')"
        using Cons.prems l Inr b by (simp add: call_def)
      have "membersSafe E g (m # members) (world s) (world s')" if "membersSafe E g members (world s1) (world s')"
        using that l Inr pr s1 False by simp
      then show ?thesis using Cons.IH[OF run] s1(1) by (auto split: if_splits simp del: membersSafe.simps)
    qed
  qed
qed simp

text \<open>How far the deletion of the members got: through all of them, or up to the first that was refused.\<close>

lemma deleteMembers_log:
  "deleteMembers E g members s = Some (r, s') \<Longrightarrow>
   (r = None \<and> log s' = log s @ memberDeletions g members \<and> membersGone E g members (world s) (world s')) \<or>
   (\<exists>k w1 t n m. r \<noteq> None \<and> k < length members \<and> membersGone E g (take k members) (world s) w1 \<and>
      memberRefused E g (members ! k) w1 \<and>
      log s' = log s @ memberDeletions g (take (Suc k) members) @ [Event (ObjVGS g) t n m])"
proof (induction members arbitrary: s)
  case Nil
  then show ?case by (simp add: memberDeletions_def)
next
  case (Cons m members)
  obtain dr w where d: "api_DeleteVS E (vgs_Namespace g) (vs_Name m) (world s) = (dr, w)" by fastforce
  let ?s1 = "s\<lparr>log := log s @ [DeleteVS (vgs_Namespace g) (vs_Name m)], world := w\<rparr>"
  show ?case
  proof (cases "dr = None \<or> (\<exists>e. dr = Some e \<and> IsNotFound e)")
    case True
    then have run: "deleteMembers E g members ?s1 = Some (r, s')"
      using Cons.prems d by (auto simp: act_def call_def)
    from Cons.IH[OF run] show ?thesis
    proof (elim disjE exE conjE)
      assume "r = None" "log s' = log ?s1 @ memberDeletions g members" "membersGone E g members (world ?s1) (world s')"
      then show ?thesis using d True by (auto simp: memberDeletions_def)
    next
      fix k w1 t n x
      assume k: "r \<noteq> None" "k < length members" "membersGone E g (take k members) (world ?s1) w1"
        "memberRefused E g (members ! k) w1"
        "log s' = log ?s1 @ memberDeletions g (take (Suc k) members) @ [Event (ObjVGS g) t n x]"
      show ?thesis
        by (rule disjI2, rule exI[of _ "Suc k"], rule exI[of _ w1], rule exI[of _ t], rule exI[of _ n], rule exI[of _ x])
          (use k d True in \<open>auto simp: memberDeletions_def\<close>)
    qed
  next
    case False
    then obtain e where e: "dr = Some e" "\<not> IsNotFound e" by auto
    have "memberRefused E g m (world s)" using d e by (simp add: memberRefused_def)
    moreover have "r \<noteq> None \<and> (\<exists>t n x. log s' = log s @ [DeleteVS (vgs_Namespace g) (vs_Name m), Event (ObjVGS g) t n x])"
      using Cons.prems d e by (auto simp: act_def call_def emit_def Let_def)
    ultimately show ?thesis
      by (intro disjI2 exI[of _ 0] exI[of _ "world s"]) (auto simp: memberDeletions_def)
  qed
qed

text \<open>The writes to a content that went through: the annotation when missing, then the deletion when it is to go.\<close>

definition contentDone ::
  "'w env \<Rightarrow> VolumeGroupSnapshotContent option \<Rightarrow> bool \<Rightarrow> 'w \<Rightarrow> action list \<Rightarrow> 'w \<Rightarrow> bool" where
  "contentDone E content cascade w l w' \<longleftrightarrow>
    (case content of
       None \<Rightarrow> l = [] \<and> w' = w
     | Some c \<Rightarrow> \<exists>u w1. annotatedAs E c w u w1 \<and>
         (if cascade then l = groupAnnotationLog c @ [DeleteVGSC (vgsc_Name u)] \<and>
            api_DeleteVGSC E (vgsc_Name u) w1 = (None, w')
          else l = groupAnnotationLog c \<and> w' = w1))"

text \<open>And those that ended with a refused deletion of the content.\<close>

definition contentRefused ::
  "'w env \<Rightarrow> VolumeGroupSnapshotContent option \<Rightarrow> bool \<Rightarrow> 'w \<Rightarrow> action list \<Rightarrow> bool" where
  "contentRefused E content cascade w l \<longleftrightarrow> cascade \<and>
    (\<exists>c u w1. content = Some c \<and> annotatedAs E c w u w1 \<and> l = groupAnnotationLog c @ [DeleteVGSC (vgsc_Name u)] \<and>
       fst (api_DeleteVGSC E (vgsc_Name u) w1) \<noteq> None)"

lemma annotateAndDelete_log:
  assumes "annotateAndDeleteGroupContent E g content cascade s = Some (r, s')"
  shows "\<exists>l. r = None \<and> log s' = log s @ l \<and> contentDone E content cascade (world s) l (world s') \<or>
    r \<noteq> None \<and> (log s' = log s @ l \<and> list_all notGroupDelete l \<or>
      contentRefused E content cascade (world s) l \<and> (\<exists>t n m. log s' = log s @ l @ [Event (ObjVGS g) t n m]))"
proof (cases content)
  case None
  then show ?thesis using assms by (simp add: annotateAndDeleteGroupContent_def contentDone_def)
next
  case (Some c)
  obtain ar s1 where a: "setAnnVolumeGroupSnapshotBeingDeleted E c s = Some (ar, s1)"
    using assms Some by (auto simp: annotateAndDeleteGroupContent_def split: Option.bind_splits)
  note l = setGroupAnn_log[OF a]
  show ?thesis
  proof (cases ar)
    case (Inl err)
    then have "r \<noteq> None \<and> log s' = log s @ groupAnnotationLog c \<and> list_all notGroupDelete (groupAnnotationLog c)"
      using assms Some a l by (auto simp: annotateAndDeleteGroupContent_def groupAnnotationLog_def)
    then show ?thesis by blast
  next
    case (Inr u)
    obtain dr w where d: "api_DeleteVGSC E (vgsc_Name u) (world s1) = (dr, w)" by fastforce
    have au: "annotatedAs E c (world s) u (world s1)" using l Inr by simp
    show ?thesis
    proof (cases "cascade \<and> dr \<noteq> None")
      case True
      then have "contentRefused E content cascade (world s) (groupAnnotationLog c @ [DeleteVGSC (vgsc_Name u)])"
        using au d Some unfolding contentRefused_def by fastforce
      moreover have "r \<noteq> None \<and>
          (\<exists>t n m. log s' = log s @ (groupAnnotationLog c @ [DeleteVGSC (vgsc_Name u)]) @ [Event (ObjVGS g) t n m])"
        using True assms Some a Inr d l
        by (auto simp: annotateAndDeleteGroupContent_def act_def call_def emit_def Let_def)
      ultimately show ?thesis by blast
    next
      case False
      let ?l = "groupAnnotationLog c @ (if cascade then [DeleteVGSC (vgsc_Name u)] else [])"
      have s': "r = None \<and> log s' = log s @ ?l \<and> world s' = (if cascade then w else world s1)"
        using False assms Some a Inr d l
        by (auto simp: annotateAndDeleteGroupContent_def act_def call_def split: if_splits)
      then have "contentDone E content cascade (world s) ?l (world s')"
        using au d Some False s' by (auto simp: contentDone_def intro!: exI[of _ u] exI[of _ "world s1"])
      then show ?thesis using s' by blast
    qed
  qed
qed

interpretation sameGroupContents: effects "\<lambda>s. groupSnapshotContentStore s = c" "\<lambda>_. True"
  "\<lambda>x. x \<noteq> CGroupSnapshotContent" for c
  by unfold_locales auto

lemma getGroupSnapshotDriverName_frame:
  assumes "getGroupSnapshotDriverName E g s = Some (d, s1)"
  shows "log s1 = log s \<and> groupSnapshotContentStore s1 = groupSnapshotContentStore s"
proof -
  have "ensures (getGroupSnapshotDriverName E g s) (\<lambda>_ s'. onlyNew (\<lambda>_. False) (log s) s')"
    by (rule only.getGroupSnapshotDriverName_I) (auto simp: onlyNew_refl)
  moreover have "ensures (getGroupSnapshotDriverName E g s)
      (\<lambda>_ s'. groupSnapshotContentStore s' = groupSnapshotContentStore s)"
    by (rule sameGroupContents.getGroupSnapshotDriverName_I) auto
  ultimately show ?thesis using assms by (auto simp: onlyNew_nothing ensures_def)
qed

lemma removeGroupSnapshotFinalizer_log:
  "removeGroupSnapshotFinalizer E g b s = Some (r, s') \<Longrightarrow>
   log s' = log s @ (if b then [UpdateVGS (withoutGroupFinalizer g)] else [])"
  by (auto simp: removeGroupSnapshotFinalizer_def withoutGroupFinalizer_def RemoveString_filter act_def call_def Let_def
      storeGroupSnapshotUpdate_def split: if_splits prod.splits sum.splits)

text \<open>The three ways a deletion can end. The content was refused: one event and no member. A member was refused, all before
  it being gone: one event, and neither a further member nor the finalizer. Or all members are gone: then the finalizer
  goes, unless the content is being deleted, in which case it stays until the content is gone.\<close>

definition groupDeletionRun ::
  "'w env \<Rightarrow> VolumeGroupSnapshot \<Rightarrow> VolumeGroupSnapshotContent option \<Rightarrow> bool \<Rightarrow> VolumeSnapshot list \<Rightarrow> 'w
    \<Rightarrow> action list \<Rightarrow> goerr option \<Rightarrow> bool" where
  "groupDeletionRun E g content cascade members w new r \<longleftrightarrow>
    (\<exists>pre t n m. contentRefused E content cascade w pre \<and> r \<noteq> None \<and> new = pre @ [Event (ObjVGS g) t n m]) \<or>
    (\<exists>pre w1 k w2 t n m. contentDone E content cascade w pre w1 \<and> k < length members \<and>
       membersGone E g (take k members) w1 w2 \<and> memberRefused E g (members ! k) w2 \<and> r \<noteq> None \<and>
       new = pre @ memberDeletions g (take (Suc k) members) @ [Event (ObjVGS g) t n m]) \<or>
    (\<exists>pre w1 w2. contentDone E content cascade w pre w1 \<and> membersGone E g members w1 w2 \<and>
       new = pre @ memberDeletions g members @
         (if content \<noteq> None \<and> cascade then [] else [UpdateVGS (withoutGroupFinalizer g)]))"

lemma deleteGroup_log:
  assumes run: "deleteGroupMembersAndContent E g content cascade s = Some (r, s')"
    and new: "log s' = log s @ new" and del: "\<not> list_all notGroupDelete new"
  shows "\<exists>members w w1. IsGroupSnapshotDeletionCandidate g \<and>
    snapshotIndexer_ByIndex E (VolumeSnapshotParentGroupKeyFuncByComponents (vgs_Namespace g) (vgs_Name g)) (world s) =
      (Inr members, w) \<and>
    membersSafe E g members w w1 \<and> groupDeletionRun E g content cascade members w1 new r"
proof -
  have cand: "IsGroupSnapshotDeletionCandidate g"
    using assms by (auto simp: deleteGroupMembersAndContent_def split: if_splits)
  obtain mr w where f: "snapshotIndexer_ByIndex E
      (VolumeSnapshotParentGroupKeyFuncByComponents (vgs_Namespace g) (vgs_Name g)) (world s) = (mr, w)" by fastforce
  let ?s1 = "s\<lparr>world := w\<rparr>"
  obtain members where m: "mr = Inr members" using run new del cand f
    by (cases mr) (auto simp: deleteGroupMembersAndContent_def findGroupSnapshotMembers_def call_def)
  obtain br s2 where b: "memberBeingRestored E g members ?s1 = Some (br, s2)"
    using run cand f m by (auto simp: deleteGroupMembersAndContent_def findGroupSnapshotMembers_def call_def
        split: Option.bind_splits)
  note bl = memberBeingRestored_log[OF b]
  have br: "br = Inr False"
  proof (rule ccontr)
    assume n: "br \<noteq> Inr False"
    then have "s' = s2" using run cand f m b
      by (auto simp: deleteGroupMembersAndContent_def findGroupSnapshotMembers_def call_def
          split: sum.splits bool.splits)
    then show False using bl n new del by auto
  qed
  then have l2: "log s2 = log s" and safe: "membersSafe E g members w (world s2)" using bl by auto
  obtain ar s3 where a: "annotateAndDeleteGroupContent E g content cascade s2 = Some (ar, s3)"
    using run cand f m b br by (auto simp: deleteGroupMembersAndContent_def findGroupSnapshotMembers_def call_def
        split: Option.bind_splits)
  have rest: "(case ar of Some err \<Rightarrow> Some (Some err, s3)
      | None \<Rightarrow> do { (err, s) \<leftarrow> deleteMembers E g members s3;
           case err of Some err \<Rightarrow> Some (Some err, s)
           | None \<Rightarrow> removeGroupSnapshotFinalizer E g (\<not> (content \<noteq> None \<and> cascade)) s }) = Some (r, s')"
    using run cand f m b br a
    by (simp add: deleteGroupMembersAndContent_def findGroupSnapshotMembers_def call_def)
  have "groupDeletionRun E g content cascade members (world s2) new r"
  proof (cases ar)
    case (Some err)
    then have s': "s' = s3" "r \<noteq> None" using rest by auto
    obtain l where "contentRefused E content cascade (world s2) l" "\<exists>t n m. log s3 = log s2 @ l @ [Event (ObjVGS g) t n m]"
      using annotateAndDelete_log[OF a] Some s' l2 new del by auto
    then show ?thesis using s' l2 new unfolding groupDeletionRun_def by auto
  next
    case None
    then obtain l where cd: "contentDone E content cascade (world s2) l (world s3)" "log s3 = log s @ l"
      using annotateAndDelete_log[OF a] l2 by auto
    obtain dr s4 where d: "deleteMembers E g members s3 = Some (dr, s4)"
      using rest None by (auto split: Option.bind_splits)
    from deleteMembers_log[OF d] show ?thesis
    proof (elim disjE exE conjE)
      assume k: "dr = None" "log s4 = log s3 @ memberDeletions g members" "membersGone E g members (world s3) (world s4)"
      then have rm: "removeGroupSnapshotFinalizer E g (\<not> (content \<noteq> None \<and> cascade)) s4 = Some (r, s')"
        using rest None d by simp
      have "new = l @ memberDeletions g members @
          (if content \<noteq> None \<and> cascade then [] else [UpdateVGS (withoutGroupFinalizer g)])"
        using removeGroupSnapshotFinalizer_log[OF rm] k(2) cd(2) new by auto
      then show ?thesis unfolding groupDeletionRun_def using cd(1) k(3) by blast
    next
      fix k w1 t n x
      assume k: "dr \<noteq> None" "k < length members" "membersGone E g (take k members) (world s3) w1"
        "memberRefused E g (members ! k) w1"
        "log s4 = log s3 @ memberDeletions g (take (Suc k) members) @ [Event (ObjVGS g) t n x]"
      then have "r \<noteq> None" "new = l @ memberDeletions g (take (Suc k) members) @ [Event (ObjVGS g) t n x]"
        using rest None d cd(2) new by auto
      then show ?thesis unfolding groupDeletionRun_def using cd(1) k by blast
    qed
  qed
  then show ?thesis using cand f m safe by blast
qed

lemma withMetrics_frame:
  "\<exists>w m. withMetrics E f s = Some ((), s\<lparr>world := w, metricsManager := m\<rparr>)"
  by (auto simp: withMetrics_def call_def split: prod.split)

text \<open>The state in which the reconciler of a group snapshot that is being deleted looks for the members: after it has looked
  up the driver and started the metrics.\<close>

definition beforeGroupChecks :: "'w env \<Rightarrow> VolumeGroupSnapshot \<Rightarrow> 'w st \<Rightarrow> 'w st option" where
  "beforeGroupChecks E g s =
    do { (driverName, s) \<leftarrow> getGroupSnapshotDriverName E g s;
         (_, s) \<leftarrow> withMetrics E (OperationStart
                (NewOperationKey DeleteGroupSnapshotOperationName (vgs_UID g))
                (NewOperationValue driverName (groupProvisionType g))) s;
         Some s }"

lemma processGroup_run:
  assumes "processGroupSnapshotWithDeletionTimestamp E g s = Some (r, s')" "log s' = log s @ new" "new \<noteq> []"
  shows "\<exists>s2 content cascade. beforeGroupChecks E g s = Some s2 \<and> log s2 = log s \<and>
    deleteGroupMembersAndContent E g content cascade s2 = Some (r, s') \<and>
    (\<forall>c. content = Some c \<longrightarrow> groupSnapshotContentStore s (groupContentNameForDeletion g) = Some (ObjVGSC c) \<and>
       IsVolumeGroupSnapshotRefSet g c \<and> cascade = (vgsc_Policy c = VolumeSnapshotContentDelete))"
proof -
  obtain d s1 where g: "getGroupSnapshotDriverName E g s = Some (d, s1)"
    using assms by (auto simp: processGroupSnapshotWithDeletionTimestamp_def split: Option.bind_splits)
  note f = getGroupSnapshotDriverName_frame[OF g]
  obtain s2 where m: "withMetrics E (OperationStart (NewOperationKey DeleteGroupSnapshotOperationName (vgs_UID g))
      (NewOperationValue d (groupProvisionType g))) s1 = Some ((), s2)"
    and f2: "log s2 = log s1" "groupSnapshotContentStore s2 = groupSnapshotContentStore s1"
    using withMetrics_frame by fastforce
  obtain oc where st: "getGroupSnapshotContentFromStore (groupContentNameForDeletion g) s2 = Inr oc"
    using assms g m f f2 by (cases "getGroupSnapshotContentFromStore (groupContentNameForDeletion g) s2")
      (auto simp: processGroupSnapshotWithDeletionTimestamp_def)
  have c: "oc = Some c \<Longrightarrow> groupSnapshotContentStore s (groupContentNameForDeletion g) = Some (ObjVGSC c)" for c
    using st f f2 by (auto simp: getGroupSnapshotContentFromStore_def split: option.splits obj.splits)
  have "beforeGroupChecks E g s = Some s2" using g m by (simp add: beforeGroupChecks_def)
  then show ?thesis
    using assms(1) g m st f f2 c
    by (cases oc) (auto simp: processGroupSnapshotWithDeletionTimestamp_def split: if_splits)
qed

text \<open>C6: The reconciler of a group snapshot deletes the group content or a member snapshot only when the group snapshot is
  being deleted and carries its finalizer, and after asking every member in the index: each is one the lister has lost,
  or one from which no claim in the list waits to be restored (when the claims cannot be listed the deletion goes on). A
  content that is touched is the cached one of the bound name and points back to the name, namespace and UID of this
  group snapshot; it is deleted exactly when its policy says so, after the being-deleted annotation was accepted, and
  before any member. The members go in order. The first deletion that the server refuses, of the content or of a member
  it still has, ends the run with an error and one event: no further deletion, and no finalizer is removed. The finalizer
  goes last: after all members are gone, and only when the content is not being deleted.\<close>

theorem group_deletion_guarded:
  assumes run: "syncGroupSnapshot E g s = Some (r, s')" and new: "log s' = log s @ new"
    and del: "DeleteVGSC n \<in> set new \<or> DeleteVS ns m \<in> set new"
  shows "\<exists>t members content cascade w w1. DeletionTimestamp (vgs_meta g) \<noteq> None \<and>
    VolumeGroupSnapshotBoundFinalizer \<in> set (Finalizers (vgs_meta g)) \<and>
    (\<forall>c. content = Some c \<longrightarrow> groupSnapshotContentStore s (groupContentNameForDeletion g) = Some (ObjVGSC c) \<and>
       ref_Name (VolumeGroupSnapshotRef (vgsc_Spec c)) = vgs_Name g \<and>
       ref_Namespace (VolumeGroupSnapshotRef (vgsc_Spec c)) = vgs_Namespace g \<and>
       ref_UID (VolumeGroupSnapshotRef (vgsc_Spec c)) = vgs_UID g \<and>
       cascade = (vgsc_Policy c = VolumeSnapshotContentDelete)) \<and>
    beforeGroupChecks E g s = Some t \<and>
    snapshotIndexer_ByIndex E (VolumeSnapshotParentGroupKeyFuncByComponents (vgs_Namespace g) (vgs_Name g)) (world t) =
      (Inr members, w) \<and>
    membersSafe E g members w w1 \<and> groupDeletionRun E g content cascade members w1 new r"
proof -
  have nd: "\<not> list_all notGroupDelete new" using del by (auto simp: list_all_iff notGroupDelete_def)
  show ?thesis
  proof (cases "DeletionTimestamp (vgs_meta g) = None")
    case True
    have "ensures (syncLiveGroupSnapshot E g s) (\<lambda>_ s'. onlyNew notGroupDelete (log s) s')"
      by (rule only.syncLiveGroupSnapshot_I) (auto simp: onlyNew_refl)
    then show ?thesis using run True new nd by (auto simp: syncGroupSnapshot_def onlyNew_def ensures_def)
  next
    case False
    then have p: "processGroupSnapshotWithDeletionTimestamp E g s = Some (r, s')"
      using run by (simp add: syncGroupSnapshot_def)
    have "new \<noteq> []" using nd by auto
    then obtain s2 content cascade where q: "beforeGroupChecks E g s = Some s2" "log s2 = log s"
      "deleteGroupMembersAndContent E g content cascade s2 = Some (r, s')"
      "\<forall>c. content = Some c \<longrightarrow> groupSnapshotContentStore s (groupContentNameForDeletion g) = Some (ObjVGSC c) \<and>
         IsVolumeGroupSnapshotRefSet g c \<and> cascade = (vgsc_Policy c = VolumeSnapshotContentDelete)"
      using processGroup_run[OF p new] by blast
    have l: "log s' = log s2 @ new" using new q by simp
    obtain members w w1 where k: "IsGroupSnapshotDeletionCandidate g"
      "snapshotIndexer_ByIndex E (VolumeSnapshotParentGroupKeyFuncByComponents (vgs_Namespace g) (vgs_Name g)) (world s2) =
        (Inr members, w)"
      "membersSafe E g members w w1" "groupDeletionRun E g content cascade members w1 new r"
      using deleteGroup_log[OF q(3) l nd] by blast
    show ?thesis
      by (rule exI[of _ s2], rule exI[of _ members], rule exI[of _ content], rule exI[of _ cascade], rule exI[of _ w],
          rule exI[of _ w1])
        (use False q k in \<open>auto simp: IsGroupSnapshotDeletionCandidate_def Contains_def
          IsVolumeGroupSnapshotRefSet_def Let_def\<close>)
  qed
qed

definition demoGroup :: VolumeGroupSnapshot where
  "demoGroup = emptyVolumeGroupSnapshot\<lparr>vgs_meta := emptyMeta\<lparr>Name := ''grp1'', Namespace := ''ns1'', UID := ''guid1'',
     ResourceVersion := ''5'', DeletionTimestamp := Some 4, Finalizers := [VolumeGroupSnapshotBoundFinalizer]\<rparr>,
     vgs_Status := Some (emptyGroupStatus\<lparr>BoundVolumeGroupSnapshotContentName := Some ''gc1''\<rparr>)\<rparr>"

definition demoBoundGroupContent :: VolumeGroupSnapshotContent where
  "demoBoundGroupContent = emptyVolumeGroupSnapshotContent\<lparr>vgsc_meta := emptyMeta\<lparr>Name := ''gc1'', ResourceVersion := ''7'',
       Annotations := fmupd AnnVolumeGroupSnapshotBeingDeleted ''yes'' fmempty\<rparr>,
     vgsc_Spec := (vgsc_Spec emptyVolumeGroupSnapshotContent)\<lparr>
       VolumeGroupSnapshotRef := emptyRef\<lparr>ref_Name := ''grp1'', ref_Namespace := ''ns1'', ref_UID := ''guid1''\<rparr>,
       gspec_DeletionPolicy := VolumeSnapshotContentDelete\<rparr>\<rparr>"

definition demoMember :: VolumeSnapshot where
  "demoMember = emptyVolumeSnapshot\<lparr>vs_meta := emptyMeta\<lparr>Name := ''m1'', Namespace := ''ns1''\<rparr>\<rparr>"

definition demoMemberEnv :: "unit env" where
  "demoMemberEnv = nullEnv\<lparr>snapshotIndexer_ByIndex := \<lambda>k w. (Inr (if k = ''ns1^grp1'' then [demoMember] else []), w)\<rparr>"

definition demoGroupState :: "unit st" where
  "demoGroupState = (initialState ())\<lparr>groupSnapshotContentStore := [''gc1'' \<mapsto> ObjVGSC demoBoundGroupContent]\<rparr>"

lemma demoGroup_sel:
  "vgs_Name demoGroup = ''grp1''" "vgs_Namespace demoGroup = ''ns1''" "IsGroupSnapshotDeletionCandidate demoGroup"
  "groupContentNameForDeletion demoGroup = ''gc1''" "DeletionTimestamp (vgs_meta demoGroup) \<noteq> None"
  "vgs_ClassName demoGroup = None" "IsVolumeGroupSnapshotRefSet demoGroup demoBoundGroupContent"
  "vgsc_Policy demoBoundGroupContent = VolumeSnapshotContentDelete" "vgsc_Name demoBoundGroupContent = ''gc1''"
  "HasAnnotation (vgsc_meta demoBoundGroupContent) AnnVolumeGroupSnapshotBeingDeleted"
  "vgs_ContentName demoGroup = None" "vs_Name demoMember = ''m1''"
  by (simp_all add: demoGroup_def emptyVolumeGroupSnapshot_def IsGroupSnapshotDeletionCandidate_def Contains_def
      groupContentNameForDeletion_def emptyGroupStatus_def emptyMeta_def IsVolumeGroupSnapshotRefSet_def
      demoBoundGroupContent_def emptyRef_def HasAnnotation_def emptyVolumeGroupSnapshotContent_def demoMember_def
      emptyVolumeSnapshot_def)

theorem group_deletion_guarded_witness:
  "\<exists>s' post. syncGroupSnapshot demoMemberEnv demoGroup demoGroupState = Some (None, s') \<and>
     log s' = [DeleteVGSC ''gc1'', DeleteVS ''ns1'' ''m1''] @ post \<and> UpdateVGS (withoutGroupFinalizer demoGroup) \<notin> set post \<and>
     VolumeGroupSnapshotBoundFinalizer \<in> set (Finalizers (vgs_meta demoGroup))"
proof -
  have b: "isVolumeBeingCreatedFromSnapshot demoMemberEnv v t = Some (False, t)" for v and t :: "unit st"
    by (simp add: isVolumeBeingCreatedFromSnapshot_def demoMemberEnv_def nullEnv_def call_def)
  have k: "VolumeSnapshotParentGroupKeyFuncByComponents ''ns1'' ''grp1'' = ''ns1^grp1''"
    by (simp add: VolumeSnapshotParentGroupKeyFuncByComponents_def)
  have "\<exists>s'. syncGroupSnapshot demoMemberEnv demoGroup demoGroupState = Some (None, s') \<and>
      log s' = [DeleteVGSC ''gc1'', DeleteVS ''ns1'' ''m1'']"
    by (simp add: syncGroupSnapshot_def demoGroup_sel processGroupSnapshotWithDeletionTimestamp_def
        getGroupSnapshotDriverName_def Let_def demoMemberEnv_def nullEnv_def call_def notFound_def withMetrics_def
        getGroupSnapshotContentFromStore_def demoGroupState_def deleteGroupMembersAndContent_def
        findGroupSnapshotMembers_def k annotateAndDeleteGroupContent_def setAnnVolumeGroupSnapshotBeingDeleted_def
        act_def removeGroupSnapshotFinalizer_def initialState_def)
  then obtain s' where run: "syncGroupSnapshot demoMemberEnv demoGroup demoGroupState = Some (None, s')"
    and l: "log s' = [DeleteVGSC ''gc1'', DeleteVS ''ns1'' ''m1'']" by blast
  have l0: "log s' = log demoGroupState @ log s'" by (simp add: demoGroupState_def initialState_def)
  have "VolumeGroupSnapshotBoundFinalizer \<in> set (Finalizers (vgs_meta demoGroup))"
    using group_deletion_guarded[OF run l0, of "''gc1''"] l by auto
  then show ?thesis using run l by (intro exI[of _ s'] exI[of _ "[]"]) simp
qed

section \<open>Creating a group content\<close>

lemma volumesOfClaims_Inr:
  "volumesOfClaims E pvcs s = Some (Inr pvs, s') \<Longrightarrow> list_all2 isVolumeBoundToClaim pvs pvcs"
proof (induction pvcs arbitrary: s pvs s')
  case (Cons pvc pvcs)
  from Cons.prems obtain pv w pvs' s1 where "isVolumeBoundToClaim pv pvc" "pvs = pv # pvs'"
    and v: "volumesOfClaims E pvcs (s\<lparr>world := w\<rparr>) = Some (Inr pvs', s1)"
    by (auto simp: call_def split: if_splits prod.splits sum.splits Option.bind_splits)
  then show ?case using Cons.IH[OF v] by simp
qed simp

text \<open>The volumes are those of the claims that the labels of the selector select, and there is at least one.\<close>

lemma getVolumes_Inr:
  assumes "getVolumesFromVolumeGroupSnapshot E g s = Some (Inr pvs, s')"
  shows "\<exists>sel pvcs w. vgs_Selector (vgs_Source (vgs_Spec g)) = Some sel \<and>
    fst (api_ListPVC E (vgs_Namespace g) (MatchLabels sel) w) = Inr pvcs \<and> pvcs \<noteq> [] \<and>
    list_all2 isVolumeBoundToClaim pvs pvcs"
proof -
  obtain pvcs s1 where c: "getClaimsFromVolumeGroupSnapshot E g s = Some (Inr pvcs, s1)"
    and v: "volumesOfClaims E pvcs s1 = Some (Inr pvs, s')"
    using assms by (auto simp: getVolumesFromVolumeGroupSnapshot_def split: Option.bind_splits sum.splits)
  obtain sel where sel: "vgs_Selector (vgs_Source (vgs_Spec g)) = Some sel"
    using c by (auto simp: getClaimsFromVolumeGroupSnapshot_def split: Option.bind_splits)
  have "fst (api_ListPVC E (vgs_Namespace g) (MatchLabels sel) (world s)) = Inr pvcs \<and> pvcs \<noteq> []"
    using c sel by (auto simp: getClaimsFromVolumeGroupSnapshot_def call_def split: prod.splits sum.splits if_splits)
  then show ?thesis using sel volumesOfClaims_Inr[OF v] by blast
qed

text \<open>What a group content is made from: the class of the group snapshot and the volumes it selects.\<close>

definition boundTo :: "PersistentVolume \<Rightarrow> PersistentVolumeClaim \<Rightarrow> bool" where
  "boundTo pv pvc \<longleftrightarrow>
    (\<exists>r. pv_ClaimRef pv = Some r \<and> ref_Name r = pvc_Name pvc \<and> ref_Namespace r = Namespace (pvc_meta pvc) \<and>
       ref_UID r \<in> {[], UID (pvc_meta pvc)})"

lemma isVolumeBoundToClaim_iff: "isVolumeBoundToClaim pv pvc \<longleftrightarrow> boundTo pv pvc"
  by (auto simp: isVolumeBoundToClaim_def boundTo_def split: option.splits)

definition groupInput ::
  "'w env \<Rightarrow> VolumeGroupSnapshot \<Rightarrow> VolumeGroupSnapshotClass \<Rightarrow> PersistentVolume list \<Rightarrow> bool" where
  "groupInput E g cl pvs \<longleftrightarrow>
    (\<exists>cn w. vgs_ClassName g = Some cn \<and> fst (lister_GetGroupClass E cn w) = Inr cl) \<and>
    (\<exists>sel pvcs w. vgs_Selector (vgs_Source (vgs_Spec g)) = Some sel \<and>
       fst (api_ListPVC E (vgs_Namespace g) (MatchLabels sel) w) = Inr pvcs \<and> pvcs \<noteq> [] \<and>
       list_all2 boundTo pvs pvcs)"

lemma getCreateGroupSnapshotInput_Inr:
  assumes "getCreateGroupSnapshotInput E g s = Some (Inr (cl, pvs, n, ref), s')"
  shows "groupInput E g cl pvs \<and> n = GetDynamicSnapshotContentNameForGroupSnapshot g"
proof -
  obtain cn where cn: "vgs_ClassName g = Some cn"
    using assms by (auto simp: getCreateGroupSnapshotInput_def split: option.splits)
  obtain cr w where l: "lister_GetGroupClass E cn (world s) = (cr, w)" by fastforce
  obtain cl' where cr: "cr = Inr cl'"
    using assms cn l by (cases cr) (auto simp: getCreateGroupSnapshotInput_def getGroupSnapshotClass_def call_def)
  obtain vr s2 where v: "getVolumesFromVolumeGroupSnapshot E g (s\<lparr>world := w\<rparr>) = Some (vr, s2)"
    using assms cn l cr by (auto simp: getCreateGroupSnapshotInput_def getGroupSnapshotClass_def call_def
        split: Option.bind_splits)
  obtain pvs' where vr: "vr = Inr pvs'"
    using assms cn l cr v by (cases vr) (auto simp: getCreateGroupSnapshotInput_def getGroupSnapshotClass_def call_def)
  have "cl' = cl \<and> pvs' = pvs \<and> n = GetDynamicSnapshotContentNameForGroupSnapshot g"
    using assms cn l cr v vr
    by (auto simp: getCreateGroupSnapshotInput_def getGroupSnapshotClass_def call_def Let_def split: sum.splits)
  moreover have "fst (lister_GetGroupClass E cn (world s)) = Inr cl'" using l cr by simp
  ultimately show ?thesis using cn getVolumes_Inr[OF v[unfolded vr]]
    unfolding groupInput_def isVolumeBoundToClaim_iff[abs_def, symmetric] by blast
qed

definition handleOf :: "VolumeGroupSnapshotClass \<Rightarrow> PersistentVolume \<Rightarrow> string \<Rightarrow> bool" where
  "handleOf cl pv h \<longleftrightarrow> (\<exists>csi. pv_CSI pv = Some csi \<and> csi_Driver csi = vgsclass_Driver cl \<and> csi_VolumeHandle csi = h)"

lemma groupVolumeHandles_Inr:
  "groupVolumeHandles g cl pvs s = (Inr hs, s') \<Longrightarrow> s' = s \<and> list_all2 (handleOf cl) pvs hs"
proof (induction pvs arbitrary: hs)
  case (Cons pv pvs)
  obtain r s1 where r: "groupVolumeHandles g cl pvs s = (r, s1)" by fastforce
  show ?case using Cons r
    by (cases r) (auto simp: handleOf_def Let_def split: option.splits if_splits)
qed simp

definition groupContentOf :: "'w env \<Rightarrow> VolumeGroupSnapshot \<Rightarrow> VolumeGroupSnapshotContent \<Rightarrow> bool" where
  "groupContentOf E g c \<longleftrightarrow>
    (\<exists>cl pvs hs ref. groupInput E g cl pvs \<and> list_all2 (handleOf cl) pvs hs \<and>
       c = newGroupSnapshotContent g cl hs (GetDynamicSnapshotContentNameForGroupSnapshot g) ref)"

definition createsGroup :: "(VolumeGroupSnapshotContent \<Rightarrow> bool) \<Rightarrow> action \<Rightarrow> bool" where
  "createsGroup P a = (\<forall>c. a = CreateVGSC c \<longrightarrow> P c)"

lemma createsGroup_simps [simp]:
  "createsGroup P (CreateVS v)" "createsGroup P (PatchVS n m p q)" "createsGroup P (CreateVSC vc)"
  "createsGroup P (PatchVSC n p q)" "createsGroup P (UpdateVGS g)" "createsGroup P (UpdateStatusVGS g)"
  "createsGroup P (PatchVGS n m p q)" "createsGroup P (CreateVGSC c) = P c" "createsGroup P (PatchVGSC n p q)"
  "createsGroup P (Event ob t m m')" "createsGroup P (QueueAdd qu k)" "createsGroup P (DeleteVGSC n)"
  "createsGroup P (DeleteVS n m)"
  by (auto simp: createsGroup_def)

lemma createGroupSnapshotContent_createsGroup:
  "ensures (createGroupSnapshotContent E g s) (\<lambda>_ s'. onlyNew (createsGroup (groupContentOf E g)) (log s) s')"
proof (cases "getCreateGroupSnapshotInput E g s")
  case None
  then show ?thesis by (simp add: createGroupSnapshotContent_def)
next
  case (Some p)
  obtain r s1 where p: "p = (r, s1)" by (cases p)
  have "ensures (getCreateGroupSnapshotInput E g s) (\<lambda>_ s'. onlyNew (\<lambda>_. False) (log s) s')"
    by (rule only.getCreateGroupSnapshotInput_I) (auto simp: onlyNew_refl)
  then have l: "log s1 = log s" using Some p by (simp add: onlyNew_nothing)
  show ?thesis
  proof (cases r)
    case (Inl e)
    then show ?thesis using Some p l by (simp add: createGroupSnapshotContent_def onlyNew_def)
  next
    case (Inr q)
    obtain cl pvs n ref where q: "q = (cl, pvs, n, ref)" by (cases q)
    note inp = getCreateGroupSnapshotInput_Inr[OF Some[unfolded p Inr q]]
    obtain h s2 where h: "groupVolumeHandles g cl pvs s1 = (h, s2)" by fastforce
    show ?thesis
    proof (cases h)
      case (Inl e)
      have "onlyNew (createsGroup (groupContentOf E g)) (log s) (snd (groupVolumeHandles g cl pvs s1))"
        by (rule only.groupVolumeHandles_I) (use l in \<open>auto simp: onlyNew_def\<close>)
      then show ?thesis using Some p Inr q h Inl by (simp add: createGroupSnapshotContent_def)
    next
      case (Inr hs)
      note hs = groupVolumeHandles_Inr[OF h[unfolded Inr]]
      have "groupContentOf E g (newGroupSnapshotContent g cl hs n ref)"
        using inp hs unfolding groupContentOf_def by blast
      then have "ensures (saveGroupSnapshotContent E g (newGroupSnapshotContent g cl hs n ref) s2)
          (\<lambda>_ s'. onlyNew (createsGroup (groupContentOf E g)) (log s) s')"
        by (intro only.saveGroupSnapshotContent_I) (use hs l in \<open>auto simp: onlyNew_def\<close>)
      then show ?thesis using Some p \<open>r = Inr q\<close> q h Inr by (simp add: createGroupSnapshotContent_def)
    qed
  qed
qed

lemma dynamicGroup_none:
  "getDynamicallyProvisionedGroupContentFromStore E g s = Some (Inr None, s') \<Longrightarrow>
   s' = s \<and> groupSnapshotContentStore s (GetDynamicSnapshotContentNameForGroupSnapshot g) = None"
  by (auto simp: getDynamicallyProvisionedGroupContentFromStore_def getGroupSnapshotContentFromStore_def Let_def
      split: option.splits obj.splits if_splits Option.bind_splits)

definition mayCreateGroup :: "'w env \<Rightarrow> VolumeGroupSnapshot \<Rightarrow> 'w st \<Rightarrow> VolumeGroupSnapshotContent \<Rightarrow> bool" where
  "mayCreateGroup E g s c \<longleftrightarrow> groupContentOf E g c \<and> vgs_ContentName g = None \<and>
     groupSnapshotContentStore s (GetDynamicSnapshotContentNameForGroupSnapshot g) = None"

lemma syncUnreadyGroupDynamic_creates:
  assumes cn: "vgs_ContentName g = None"
  shows "ensures (syncUnreadyGroupDynamic E g s) (\<lambda>_ s'. onlyNew (createsGroup (mayCreateGroup E g s)) (log s) s')"
proof (cases "getDynamicallyProvisionedGroupContentFromStore E g s")
  case None
  then show ?thesis by (simp add: syncUnreadyGroupDynamic_def)
next
  case (Some p)
  let ?ok = "createsGroup (mayCreateGroup E g s)"
  obtain r s1 where p: "p = (r, s1)" by (cases p)
  show ?thesis
  proof (cases "r = Inr None")
    case True
    have e: "s1 = s \<and> groupSnapshotContentStore s (GetDynamicSnapshotContentNameForGroupSnapshot g) = None"
      using dynamicGroup_none[of E g s s1] Some p True by simp
    have c: "ensures (createGroupSnapshotContent E g s) (\<lambda>_ s'. onlyNew ?ok (log s) s')"
      by (rule ensures_mono[OF createGroupSnapshotContent_createsGroup], erule onlyNew_mono)
        (use cn e in \<open>auto simp: createsGroup_def mayCreateGroup_def\<close>)
    show ?thesis
      using Some p True e
      by (auto simp: syncUnreadyGroupDynamic_def intro!: ensures_mono[OF c]
          only.finishGroupStatus_I[where ok = ?ok and ?l0.0 = "log s"]
          only.updateGroupSnapshotErrorStatusWithEvent_I[where ok = ?ok and ?l0.0 = "log s"] split: sum.split)
  next
    case False
    have "ensures (getDynamicallyProvisionedGroupContentFromStore E g s) (\<lambda>_ s'. onlyNew ?ok (log s) s')"
      by (rule only.getDynamicallyProvisionedGroupContentFromStore_I) (simp_all add: onlyNew_refl)
    then have "onlyNew ?ok (log s) s1" using Some p by simp
    then show ?thesis using Some p False
      by (auto simp: syncUnreadyGroupDynamic_def intro!: only.syncFoundGroupContent_I[where ok = ?ok and ?l0.0 = "log s"] split: sum.split option.split)
  qed
qed

lemma syncUnreadyGroup_creates:
  "ensures (syncUnreadyGroupSnapshot E g s) (\<lambda>_ s'. onlyNew (createsGroup (mayCreateGroup E g s)) (log s) s')"
proof -
  let ?ok = "createsGroup (mayCreateGroup E g s)"
  have a: "ensures (getGroupSnapshotDriverName E g s)
      (\<lambda>_ s'. log s' = log s \<and> groupSnapshotContentStore s' = groupSnapshotContentStore s)"
    using getGroupSnapshotDriverName_frame by (rule ensuresI)
  have b: "ensures (startGroupCreationMetrics E g d s1)
      (\<lambda>_ s'. log s' = log s1 \<and> groupSnapshotContentStore s' = groupSnapshotContentStore s1)" for d s1
    by (simp add: startGroupCreationMetrics_def withMetrics_def ensures_call)
  have m: "mayCreateGroup E g s2 = mayCreateGroup E g s"
    if "groupSnapshotContentStore s2 = groupSnapshotContentStore s" for s2
    using that by (simp add: mayCreateGroup_def fun_eq_iff)
  have pre: "ensures (syncUnreadyGroupPreprovisioned E g n s2) (\<lambda>_ s'. onlyNew ?ok (log s2) s')" for n s2
    by (rule only.syncUnreadyGroupPreprovisioned_I) (auto simp: onlyNew_refl)
  show ?thesis unfolding syncUnreadyGroupSnapshot_def ensures_bind
  proof (rule ensures_mono[OF a], goal_cases)
    case (1 d s1)
    have br: "ensures (case vgs_ContentName g of
           Some contentName \<Rightarrow> syncUnreadyGroupPreprovisioned E g contentName s2
         | None \<Rightarrow> syncUnreadyGroupDynamic E g s2) (\<lambda>_ s'. onlyNew ?ok (log s) s')"
      if "log s2 = log s" "groupSnapshotContentStore s2 = groupSnapshotContentStore s" for s2
      using pre[of _ s2] syncUnreadyGroupDynamic_creates[of g E s2] that m[OF that(2)]
      by (auto split: option.split)
    show ?case unfolding prod.case ensures_bind
      by (rule ensures_mono[OF b], rule br) (simp_all add: 1)
  qed
qed

text \<open>C8: A group content is only ever created for a live, dynamically provisioned group snapshot whose content is
  not in the cache, and it is determined by the group snapshot: its name is derived from the UID, its
  reference has the name, namespace and UID of the group snapshot, driver, policy and class are those of the class the
  group snapshot names, and its volume handles are, one by one, those of volumes of that driver which are bound to the
  claims the labels of the selector select, of which there is at least one. It has no group snapshot handles, so it
  passes its own validation, and no status, so it is not yet bound to anything else.\<close>

theorem group_content_creation_guarded:
  assumes run: "syncGroupSnapshot E g s = Some (r, s')" and new: "log s' = log s @ new"
    and c: "CreateVGSC c \<in> set new"
  shows "\<exists>cl pvs. DeletionTimestamp (vgs_meta g) = None \<and> vgs_ContentName g = None \<and>
    vgsc_Name c = ''groupsnapcontent-'' @ vgs_UID g \<and>
    groupSnapshotContentStore s (''groupsnapcontent-'' @ vgs_UID g) = None \<and>
    ref_Name (VolumeGroupSnapshotRef (vgsc_Spec c)) = vgs_Name g \<and>
    ref_Namespace (VolumeGroupSnapshotRef (vgsc_Spec c)) = vgs_Namespace g \<and>
    ref_UID (VolumeGroupSnapshotRef (vgsc_Spec c)) = vgs_UID g \<and>
    groupInput E g cl pvs \<and> pvs \<noteq> [] \<and> gspec_Driver (vgsc_Spec c) = vgsclass_Driver cl \<and>
    gspec_DeletionPolicy (vgsc_Spec c) = vgsclass_DeletionPolicy cl \<and>
    gspec_VolumeGroupSnapshotClassName (vgsc_Spec c) = Some (Name (vgsclass_meta cl)) \<and>
    list_all2 (\<lambda>pv h. \<exists>csi. pv_CSI pv = Some csi \<and> csi_Driver csi = vgsclass_Driver cl \<and> csi_VolumeHandle csi = h)
      pvs (VolumeHandles (gspec_Source (vgsc_Spec c))) \<and>
    VolumeHandles (gspec_Source (vgsc_Spec c)) \<noteq> [] \<and> gsrc_GroupSnapshotHandles (gspec_Source (vgsc_Spec c)) = None \<and>
    vgsc_Status c = None"
proof -
  let ?P = "\<lambda>c. mayCreateGroup E g s c \<and> DeletionTimestamp (vgs_meta g) = None"
  have "ensures (syncGroupSnapshot E g s) (\<lambda>_ s'. onlyNew (createsGroup ?P) (log s) s')"
  proof (cases "DeletionTimestamp (vgs_meta g) = None")
    case False
    then show ?thesis unfolding syncGroupSnapshot_def
      by (auto intro!: only.processGroupSnapshotWithDeletionTimestamp_I[where ok = "createsGroup ?P" and ?l0.0 = "log s"]
          simp: onlyNew_refl)
  next
    case True
    have fin: "ensures (checkandAddGroupSnapshotFinalizers E g s) (\<lambda>_ s1. onlyNew (createsGroup ?P) (log s) s1 \<and>
        groupSnapshotContentStore s1 = groupSnapshotContentStore s)"
      unfolding ensures_conj
      by (intro conjI only.checkandAddGroupSnapshotFinalizers_I sameGroupContents.checkandAddGroupSnapshotFinalizers_I)
        (auto simp: onlyNew_refl)
    have un: "ensures (syncUnreadyGroupSnapshot E g s1) (\<lambda>_ s'. onlyNew (createsGroup ?P) (log s) s')"
      if "onlyNew (createsGroup ?P) (log s) s1" "groupSnapshotContentStore s1 = groupSnapshotContentStore s" for s1
      by (rule ensures_mono[OF syncUnreadyGroup_creates], rule onlyNew_trans[OF that(1)], erule onlyNew_mono)
        (use True that(2) in \<open>auto simp: createsGroup_def mayCreateGroup_def\<close>)
    have "ensures (syncLiveGroupSnapshot E g s) (\<lambda>_ s'. onlyNew (createsGroup ?P) (log s) s')"
      unfolding syncLiveGroupSnapshot_def
      by (auto intro!: only.updateGroupSnapshotErrorStatusWithEvent_I[where ok = "createsGroup ?P" and ?l0.0 = "log s"]
          ensures_mono[OF fin] un only.emit_I
          only.syncReadyGroupSnapshot_I[where ok = "createsGroup ?P" and ?l0.0 = "log s"]
          simp: onlyNew_refl split: option.split)
    then show ?thesis using True by (simp add: syncGroupSnapshot_def)
  qed
  then have P: "?P c" using run new c by (auto simp: onlyNew_def ensures_def list_all_iff createsGroup_def)
  then obtain cl pvs hs ref where i: "groupInput E g cl pvs" "list_all2 (handleOf cl) pvs hs"
    "c = newGroupSnapshotContent g cl hs (GetDynamicSnapshotContentNameForGroupSnapshot g) ref"
    by (auto simp: mayCreateGroup_def groupContentOf_def)
  have ne: "pvs \<noteq> []" using i(1) by (auto simp: groupInput_def)
  then have "hs \<noteq> []" using i(2) by auto
  then show ?thesis
    by (intro exI[of _ cl] exI[of _ pvs])
      (use P i(1,2) ne in \<open>simp add: i(3) newGroupSnapshotContent_def GetGroupReference_def mayCreateGroup_def
        GetDynamicSnapshotContentNameForGroupSnapshot_def handleOf_def[abs_def] emptyMeta_def SetMetaDataAnnotation_def
        split: option.split\<close>)
qed

definition demoNewGroup :: VolumeGroupSnapshot where
  "demoNewGroup = emptyVolumeGroupSnapshot\<lparr>vgs_meta := emptyMeta\<lparr>Name := ''grp1'', Namespace := ''ns1'', UID := ''guid1'',
     ResourceVersion := ''5''\<rparr>,
     vgs_Spec := (vgs_Spec emptyVolumeGroupSnapshot)\<lparr>
       vgs_Source := (vgs_Source (vgs_Spec emptyVolumeGroupSnapshot))\<lparr>
         vgs_Selector := Some \<lparr>MatchLabels = fmempty, MatchExpressions = []\<rparr>\<rparr>,
       VolumeGroupSnapshotClassName := Some ''gcls''\<rparr>\<rparr>"

definition demoVgsClass :: VolumeGroupSnapshotClass where
  "demoVgsClass = \<lparr>vgsclass_meta = emptyMeta\<lparr>Name := ''gcls''\<rparr>, vgsclass_Driver = ''drv'',
     vgsclass_Parameters = fmempty, vgsclass_DeletionPolicy = VolumeSnapshotContentDelete\<rparr>"

definition demoGroupCreateEnv :: "unit env" where
  "demoGroupCreateEnv = nullEnv\<lparr>lister_GetGroupClass := \<lambda>_ w. (Inr demoVgsClass, w),
     api_ListPVC := \<lambda>_ _ w. (Inr [demoPVC], w), api_GetPV := \<lambda>_ w. (Inr demoPV, w)\<rparr>"

lemma demoNewGroup_sel:
  "vgs_Name demoNewGroup = ''grp1''" "vgs_Namespace demoNewGroup = ''ns1''" "vgs_UID demoNewGroup = ''guid1''"
  "DeletionTimestamp (vgs_meta demoNewGroup) = None" "vgs_ContentName demoNewGroup = None"
  "vgs_ClassName demoNewGroup = Some ''gcls''" "vgs_Status demoNewGroup = None"
  "vgs_Selector (vgs_Source (vgs_Spec demoNewGroup)) = Some \<lparr>MatchLabels = fmempty, MatchExpressions = []\<rparr>"
  by (simp_all add: demoNewGroup_def emptyVolumeGroupSnapshot_def emptyMeta_def)

lemma demo_group_create_run:
  "\<exists>c s'. createGroupSnapshotContent demoGroupCreateEnv demoNewGroup s = Some (Inr c, s') \<and> CreateVGSC c \<in> set (log s')"
  by (simp add: createGroupSnapshotContent_def getCreateGroupSnapshotInput_def demoNewGroup_sel
      getGroupSnapshotClass_def getVolumesFromVolumeGroupSnapshot_def getClaimsFromVolumeGroupSnapshot_def
      isVolumeBoundToClaim_def saveGroupSnapshotContent_def GetGroupSnapshotSecretReference_def
      verifyAndGetSecretNameAndNamespaceTemplate_def mapGet_def
      demoGroupCreateEnv_def nullEnv_def demoPVC_def demoPV_def demoVgsClass_def
      emptyMeta_def emptyRef_def call_def act_def emit_def storeGroupSnapshotContentUpdate_def Let_def
      GroupSnapshotterSecretParams_def split: prod.split)

lemma demo_finish_group:
  "\<exists>r s'. finishGroupStatus demoGroupCreateEnv demoNewGroup c s = Some (r, s') \<and> set (log s) \<subseteq> set (log s')"
  by (auto simp: finishGroupStatus_def updateGroupSnapshotStatus_def demoGroupCreateEnv_def nullEnv_def notFound_def
      call_def act_def emit_def updateGroupSnapshotErrorStatusWithEvent_def demoNewGroup_sel sameError_def
      storeGroupSnapshotUpdate_def Let_def split: prod.split sum.split)

lemma demo_group_sync:
  "\<exists>c r s'. syncGroupSnapshot demoGroupCreateEnv demoNewGroup (initialState ()) = Some (r, s') \<and> CreateVGSC c \<in> set (log s')"
proof -
  let ?E = demoGroupCreateEnv and ?g = demoNewGroup and ?s = "initialState ()"
  have f: "checkandAddGroupSnapshotFinalizers ?E ?g ?s = Some (None, ?s)"
    by (simp add: checkandAddGroupSnapshotFinalizers_def demoNewGroup_sel
        getDynamicallyProvisionedGroupContentFromStore_def getGroupSnapshotContentFromStore_def initialState_def)
  obtain d s1 where d: "getGroupSnapshotDriverName ?E ?g ?s = Some (d, s1)"
    by (auto simp: getGroupSnapshotDriverName_def demoNewGroup_sel getGroupSnapshotClass_def call_def
        demoGroupCreateEnv_def split: prod.split)
  note fr = getGroupSnapshotDriverName_frame[OF d]
  have "\<exists>s2. startGroupCreationMetrics ?E ?g d s1 = Some ((), s2) \<and>
      groupSnapshotContentStore s2 = groupSnapshotContentStore s1"
    by (auto simp: startGroupCreationMetrics_def withMetrics_def call_def split: prod.split)
  then obtain s2 where m: "startGroupCreationMetrics ?E ?g d s1 = Some ((), s2)"
    "groupSnapshotContentStore s2 = groupSnapshotContentStore s1" by blast
  have g: "getDynamicallyProvisionedGroupContentFromStore ?E ?g s2 = Some (Inr None, s2)"
    using m(2) fr by (simp add: getDynamicallyProvisionedGroupContentFromStore_def
        getGroupSnapshotContentFromStore_def initialState_def)
  obtain c s3 where c: "createGroupSnapshotContent ?E ?g s2 = Some (Inr c, s3)" "CreateVGSC c \<in> set (log s3)"
    using demo_group_create_run by blast
  obtain r s4 where "finishGroupStatus ?E ?g c s3 = Some (r, s4)" "set (log s3) \<subseteq> set (log s4)"
    using demo_finish_group by blast
  then have "syncGroupSnapshot ?E ?g ?s = Some (r, s4) \<and> CreateVGSC c \<in> set (log s4)"
    using f d m g c by (simp add: syncGroupSnapshot_def syncLiveGroupSnapshot_def demoNewGroup_sel
        IsGroupSnapshotReady_def syncUnreadyGroupSnapshot_def syncUnreadyGroupDynamic_def subset_iff)
  then show ?thesis by blast
qed

theorem group_content_creation_guarded_witness:
  "\<exists>c r s'. syncGroupSnapshot demoGroupCreateEnv demoNewGroup (initialState ()) = Some (r, s') \<and>
     CreateVGSC c \<in> set (log s') \<and> gspec_Driver (vgsc_Spec c) = ''drv'' \<and> ref_UID (VolumeGroupSnapshotRef (vgsc_Spec c)) = ''guid1''"
proof -
  obtain c r s' where run: "syncGroupSnapshot demoGroupCreateEnv demoNewGroup (initialState ()) = Some (r, s')"
    and c: "CreateVGSC c \<in> set (log s')" using demo_group_sync by blast
  have "log s' = log (initialState ()) @ log s'" by (simp add: initialState_def)
  from group_content_creation_guarded[OF run this c] obtain cl pvs where
    k: "groupInput demoGroupCreateEnv demoNewGroup cl pvs" "gspec_Driver (vgsc_Spec c) = vgsclass_Driver cl"
      "ref_UID (VolumeGroupSnapshotRef (vgsc_Spec c)) = vgs_UID demoNewGroup" by blast
  have "vgsclass_Driver cl = ''drv''" using k(1) by (auto simp: groupInput_def demoGroupCreateEnv_def demoVgsClass_def)
  then show ?thesis using k(2,3) run c by (auto simp: demoNewGroup_sel)
qed

section \<open>The members\<close>

lemma hex_dns: "set xs \<subseteq> set ''0123456789abcdef'' \<Longrightarrow> list_all dnsAlnum xs"
proof -
  assume a: "set xs \<subseteq> set ''0123456789abcdef''"
  have "list_all dnsAlnum ''0123456789abcdef''" by code_simp
  then show ?thesis using a by (auto simp: list_all_iff)
qed

lemma digest_name_valid:
  assumes "list_all (\<lambda>c. dnsAlnum c \<or> c = CHR ''-'') p" "p \<noteq> []" "dnsAlnum (hd p)" "length p \<le> 12"
  shows "IsDNS1123Subdomain (p @ sha256_hex m)"
proof -
  have al: "list_all dnsAlnum (sha256_hex m)" by (rule hex_dns[OF sha256_hex_set])
  have ne: "sha256_hex m \<noteq> []" using sha256_hex_length[of m] by auto
  have dot: "CHR ''.'' \<notin> set (p @ sha256_hex m)"
  proof
    assume "CHR ''.'' \<in> set (p @ sha256_hex m)"
    then have "dnsAlnum CHR ''.'' \<or> CHR ''.'' = CHR ''-''" using assms(1) al by (auto simp: list_all_iff)
    moreover have "\<not> dnsAlnum CHR ''.'' \<and> CHR ''.'' \<noteq> CHR ''-''" by code_simp
    ultimately show False by blast
  qed
  have "dnsAlnum (last (sha256_hex m))" using al ne by (simp add: list_all_iff)
  then have "dns1123LabelMatch (p @ sha256_hex m)"
    using assms al ne by (auto simp: dns1123LabelMatch_def list_all_iff)
  then show ?thesis using splitOn_no_sep[OF dot] assms(4)
    by (simp add: IsDNS1123Subdomain_def sha256_hex_length)
qed

text \<open>C39: The names of a member snapshot and of its content are valid names of API objects whatever the driver
  puts in the volume handle and however long it is: they are DNS subdomains of 73 and of 76 characters, which
  is below the limit of 253, and both carry the same digest, so each can be told from the other.\<close>

theorem group_member_names_valid:
  "IsDNS1123Subdomain (getSnapshotNameForVolumeGroupSnapshotContent uid handle) \<and>
   IsDNS1123Subdomain (getSnapshotContentNameForVolumeGroupSnapshotContent uid handle) \<and>
   length (getSnapshotNameForVolumeGroupSnapshotContent uid handle) = 73 \<and>
   length (getSnapshotContentNameForVolumeGroupSnapshotContent uid handle) = 76 \<and>
   drop 9 (getSnapshotNameForVolumeGroupSnapshotContent uid handle) =
     drop 12 (getSnapshotContentNameForVolumeGroupSnapshotContent uid handle)"
proof -
  have "list_all (\<lambda>c. dnsAlnum c \<or> c = CHR ''-'') ''snapshot-'' \<and> dnsAlnum (hd ''snapshot-'')"
    "list_all (\<lambda>c. dnsAlnum c \<or> c = CHR ''-'') ''snapcontent-'' \<and> dnsAlnum (hd ''snapcontent-'')"
    by code_simp+
  then show ?thesis
    unfolding getSnapshotNameForVolumeGroupSnapshotContent_def getSnapshotContentNameForVolumeGroupSnapshotContent_def
    by (intro conjI digest_name_valid) (simp_all add: sha256_hex_length)
qed

text \<open>The two objects of a member: what is in the content and in the snapshot that are sent to the server.\<close>

definition memberContent ::
  "VolumeGroupSnapshot \<Rightarrow> VolumeGroupSnapshotContent \<Rightarrow> string \<Rightarrow> VolumeSnapshotContent \<Rightarrow> bool" where
  "memberContent g gc handle c \<longleftrightarrow>
    vsc_Name c = ''snapcontent-'' @ sha256_hex (vgs_UID g @ handle) \<and>
    ref_Name (vsc_Ref c) = ''snapshot-'' @ sha256_hex (vgs_UID g @ handle) \<and>
    ref_Namespace (vsc_Ref c) = ref_Namespace (vgsc_Ref gc) \<and> ref_UID (vsc_Ref c) = [] \<and>
    vsc_VolumeHandle c = Some handle \<and> vsc_SnapshotHandle c = None \<and> vsc_Policy c = vgsc_Policy gc \<and>
    spec_Driver (vsc_Spec c) = gspec_Driver (vgsc_Spec gc) \<and> vsc_Status c = None \<and>
    fmlookup (Annotations (vsc_meta c)) VolumeGroupSnapshotHandleAnnotation =
      Option.bind (vgsc_Status gc) gcs_VolumeGroupSnapshotHandle"

definition memberSnapshot ::
  "VolumeGroupSnapshot \<Rightarrow> VolumeGroupSnapshotContent \<Rightarrow> string \<Rightarrow> VolumeSnapshot \<Rightarrow> bool" where
  "memberSnapshot g gc handle v \<longleftrightarrow>
    vs_Name v = ''snapshot-'' @ sha256_hex (vgs_UID g @ handle) \<and> vs_Namespace v = ref_Namespace (vgsc_Ref gc) \<and>
    OwnerReferences (vs_meta v) = [\<lparr>or_APIVersion = groupSnapshotAPIVersion, or_Kind = ''VolumeGroupSnapshot'',
      or_Name = vgs_Name g, or_UID = vgs_UID g\<rparr>] \<and>
    Finalizers (vs_meta v) = [VolumeSnapshotInGroupFinalizer] \<and> vs_ContentName v = None \<and> vs_Status v = None"

text \<open>The objects the server has: as it created them or, when they exist, as it returns them under their names.\<close>

definition contentOnServer ::
  "'w env \<Rightarrow> VolumeSnapshotContent \<Rightarrow> 'w \<Rightarrow> VolumeSnapshotContent \<Rightarrow> 'w \<Rightarrow> bool" where
  "contentOnServer E c w cc w' \<longleftrightarrow> api_CreateVSC E c w = (Inr cc, w') \<or>
    (\<exists>err w1. api_CreateVSC E c w = (Inl err, w1) \<and> IsAlreadyExists err \<and> api_GetVSC E (vsc_Name c) w1 = (Inr cc, w'))"

definition snapshotOnServer :: "'w env \<Rightarrow> VolumeSnapshot \<Rightarrow> 'w \<Rightarrow> VolumeSnapshot \<Rightarrow> 'w \<Rightarrow> bool" where
  "snapshotOnServer E v w cv w' \<longleftrightarrow> api_CreateVS E v w = (Inr cv, w') \<or>
    (\<exists>err w1. api_CreateVS E v w = (Inl err, w1) \<and> IsAlreadyExists err \<and>
       api_GetVS E (vs_Namespace v) (vs_Name v) w1 = (Inr cv, w'))"

text \<open>The three patches: the UID of the snapshot into the reference of the content, the name of the content into a new
  status of the snapshot, and the report of the driver into a new status of the content.\<close>

definition uidPatch :: "VolumeSnapshot \<Rightarrow> PatchOp list" where
  "uidPatch cv = [patchOp ''replace'' ''/spec/volumeSnapshotRef/uid'' (PVString (vs_UID cv))]"

definition boundPatch :: "VolumeSnapshotContent \<Rightarrow> PatchOp list" where
  "boundPatch cc = [patchOp ''replace'' ''/status'' (PVSnapshotStatus emptyStatus),
     patchOp ''replace'' ''/status/boundVolumeSnapshotContentName'' (PVString (vsc_Name cc))]"

definition reportPatch :: "VolumeSnapshotInfo \<Rightarrow> VolumeGroupSnapshotContent \<Rightarrow> PatchOp list" where
  "reportPatch info gc =
    [patchOp ''replace'' ''/status'' (PVContentStatus emptyContentStatus),
     patchOp ''replace'' ''/status/snapshotHandle'' (PVString (vsi_SnapshotHandle info)),
     patchOp ''replace'' ''/status/volumeGroupSnapshotHandle''
       (case Option.bind (vgsc_Status gc) gcs_VolumeGroupSnapshotHandle of None \<Rightarrow> PVNone | Some h \<Rightarrow> PVString h),
     patchOp ''replace'' ''/status/creationTime''
       (case vsi_CreationTime info of None \<Rightarrow> PVNone | Some n \<Rightarrow> PVInt n),
     patchOp ''replace'' ''/status/restoreSize''
       (case vsi_RestoreSize info of None \<Rightarrow> PVNone | Some n \<Rightarrow> PVInt n),
     patchOp ''replace'' ''/status/readyToUse'' (case vsi_ReadyToUse info of None \<Rightarrow> PVNone | Some b \<Rightarrow> PVBool b)]"

text \<open>What is done for one member: two objects are created, then bound to each other, then the content gets its status,
  each step accepted by the server. The worlds are those before and after.\<close>

definition memberBlock ::
  "'w env \<Rightarrow> VolumeGroupSnapshot \<Rightarrow> VolumeGroupSnapshotContent \<Rightarrow> VolumeSnapshotInfo \<Rightarrow> 'w \<Rightarrow> action list \<Rightarrow> 'w \<Rightarrow> bool" where
  "memberBlock E g gc info w l w' \<longleftrightarrow>
    (\<exists>pvs w1 content cc w2 snapshot cv w3 a w4 b w5 c.
       pvIndexer_ByIndex E (gspec_Driver (vgsc_Spec gc) @ ''^'' @ vsi_VolumeHandle info) w = (pvs, w1) \<and>
       memberContent g gc (vsi_VolumeHandle info) content \<and> contentOnServer E content w1 cc w2 \<and>
       memberSnapshot g gc (vsi_VolumeHandle info) snapshot \<and> snapshotOnServer E snapshot w2 cv w3 \<and> vs_UID cv \<noteq> [] \<and>
       api_PatchVSC E (vsc_Name cc) (uidPatch cv) [] w3 = (Inr a, w4) \<and>
       api_PatchVS E (vs_Namespace cv) (vs_Name cv) (boundPatch cc) [''status''] w4 = (Inr b, w5) \<and>
       api_PatchVSC E (vsc_Name cc) (reportPatch info gc) [''status''] w5 = (Inr c, w') \<and>
       l = [CreateVSC content, CreateVS snapshot, PatchVSC (vsc_Name cc) (uidPatch cv) [],
            PatchVS (vs_Namespace cv) (vs_Name cv) (boundPatch cc) [''status''],
            PatchVSC (vsc_Name cc) (reportPatch info gc) [''status'']])"

fun memberBlocks ::
  "'w env \<Rightarrow> VolumeGroupSnapshot \<Rightarrow> VolumeGroupSnapshotContent \<Rightarrow> VolumeSnapshotInfo list \<Rightarrow> 'w \<Rightarrow> action list \<Rightarrow> bool" where
  "memberBlocks E g gc [] w l \<longleftrightarrow> l = []"
| "memberBlocks E g gc (info # infos) w l \<longleftrightarrow>
    (\<exists>b w' rest. memberBlock E g gc info w b w' \<and> memberBlocks E g gc infos w' rest \<and> l = b @ rest)"

lemma built_content:
  "buildVolumeSnapshotContentSpecForGroupSnapshot g gc h pv ref = Some c \<Longrightarrow> memberContent g gc h c"
  by (auto simp: buildVolumeSnapshotContentSpecForGroupSnapshot_def memberContent_def Let_def emptyRef_def emptyMeta_def
      getSnapshotContentNameForVolumeGroupSnapshotContent_def getSnapshotNameForVolumeGroupSnapshotContent_def
      SetMetaDataAnnotation_def AnnDeletionSecretRefName_def AnnDeletionSecretRefNamespace_def
      VolumeGroupSnapshotHandleAnnotation_def split: Option.bind_splits option.splits)

lemma built_snapshot:
  "buildVolumeSnapshotSpecForGroupSnapshot g gc h pv = Some v \<Longrightarrow> memberSnapshot g gc h v"
  by (auto simp: buildVolumeSnapshotSpecForGroupSnapshot_def memberSnapshot_def emptyMeta_def
      getSnapshotNameForVolumeGroupSnapshotContent_def BuildVolumeGroupSnapshotOwnerReference_def
      split: Option.bind_splits)

lemma createOrGet_log:
  "createOrGetVolumeSnapshotContent E c s = Some (r, s') \<Longrightarrow> log s' = log s @ [CreateVSC c] \<and>
     (\<forall>cc. r = Inr cc \<longrightarrow> contentOnServer E c (world s) cc (world s'))"
  "createOrGetVolumeSnapshot E v s = Some (r', s') \<Longrightarrow> log s' = log s @ [CreateVS v] \<and>
     (\<forall>cv. r' = Inr cv \<longrightarrow> snapshotOnServer E v (world s) cv (world s'))"
  by (auto simp: createOrGetVolumeSnapshotContent_def createOrGetVolumeSnapshot_def contentOnServer_def
      snapshotOnServer_def act_def call_def split: prod.splits sum.splits if_splits)

lemma patchOps:
  "bindContentOps v = uidPatch v" "bindSnapshotOps (vsc_Name c) = boundPatch c"
  "memberStatusOps info (Option.bind (vgsc_Status gc) gcs_VolumeGroupSnapshotHandle) = reportPatch info gc"
  by (simp_all add: bindContentOps_def uidPatch_def bindSnapshotOps_def boundPatch_def memberStatusOps_def
      reportPatch_def optInt_def)

lemma bindMember_log:
  assumes "bindMember E c v info gc s = Some (None, s')"
  shows "\<exists>x w4 y w5 z. vs_UID v \<noteq> [] \<and>
    api_PatchVSC E (vsc_Name c) (uidPatch v) [] (world s) = (Inr x, w4) \<and>
    api_PatchVS E (vs_Namespace v) (vs_Name v) (boundPatch c) [''status''] w4 = (Inr y, w5) \<and>
    api_PatchVSC E (vsc_Name c) (reportPatch info gc) [''status''] w5 = (Inr z, world s') \<and>
    log s' = log s @ [PatchVSC (vsc_Name c) (uidPatch v) [],
      PatchVS (vs_Namespace v) (vs_Name v) (boundPatch c) [''status''],
      PatchVSC (vsc_Name c) (reportPatch info gc) [''status'']]"
  using assms unfolding bindMember_def bindSnapshotContentToSnapshot_def bindSnapshotToSnapshotContent_def
    updateVolumeSnapshotContentStatus_def patchOps
  by (auto simp: PatchVolumeSnapshotContent_def PatchVolumeSnapshot_def act_def call_def
      split: if_splits prod.splits sum.splits)

lemma findPV_log:
  "findPersistentVolumeByCSIDriverHandle E d h s = Some (r, s') \<Longrightarrow> log s' = log s \<and>
   (\<exists>pvs. pvIndexer_ByIndex E (d @ ''^'' @ h) (world s) = (pvs, world s'))"
  by (auto simp: findPersistentVolumeByCSIDriverHandle_def PersistentVolumeKeyFuncByCSIDriverHandle_def call_def
      split: prod.splits)

lemma createIndividual_block:
  assumes "createIndividualSnapshotForGroupSnapshot E info gc g ref s = Some (None, s')"
  shows "\<exists>b. log s' = log s @ b \<and> memberBlock E g gc info (world s) b (world s')"
proof -
  let ?h = "vsi_VolumeHandle info"
  obtain pr s1 where f: "findPersistentVolumeByCSIDriverHandle E (gspec_Driver (vgsc_Spec gc)) ?h s = Some (pr, s1)"
    using assms by (auto simp: createIndividualSnapshotForGroupSnapshot_def split: Option.bind_splits)
  define pv where "pv = (case pr of Inl _ \<Rightarrow> None | Inr pv \<Rightarrow> pv)"
  obtain content snapshot where b: "buildVolumeSnapshotContentSpecForGroupSnapshot g gc ?h pv ref = Some content"
    "buildVolumeSnapshotSpecForGroupSnapshot g gc ?h pv = Some snapshot"
    using assms f by (auto simp: createIndividualSnapshotForGroupSnapshot_def Let_def pv_def split: Option.bind_splits)
  obtain cr s2 where c: "createOrGetVolumeSnapshotContent E content s1 = Some (cr, s2)"
    using assms f b by (auto simp: createIndividualSnapshotForGroupSnapshot_def Let_def pv_def[symmetric]
        split: Option.bind_splits)
  obtain cc where cc: "cr = Inr cc"
    using assms f b c by (cases cr) (auto simp: createIndividualSnapshotForGroupSnapshot_def Let_def pv_def[symmetric])
  obtain vr s3 where v: "createOrGetVolumeSnapshot E snapshot s2 = Some (vr, s3)"
    using assms f b c cc by (auto simp: createIndividualSnapshotForGroupSnapshot_def Let_def pv_def[symmetric]
        split: Option.bind_splits)
  obtain cs where cs: "vr = Inr cs"
    using assms f b c cc v by (cases vr) (auto simp: createIndividualSnapshotForGroupSnapshot_def Let_def pv_def[symmetric])
  have bm: "bindMember E cc cs info gc s3 = Some (None, s')"
    using assms f b c cc v cs by (simp add: createIndividualSnapshotForGroupSnapshot_def Let_def pv_def[symmetric])
  let ?b = "[CreateVSC content, CreateVS snapshot, PatchVSC (vsc_Name cc) (uidPatch cs) [],
    PatchVS (vs_Namespace cs) (vs_Name cs) (boundPatch cc) [''status''],
    PatchVSC (vsc_Name cc) (reportPatch info gc) [''status'']]"
  have "log s' = log s @ ?b"
    using bindMember_log[OF bm] createOrGet_log(1)[OF c] createOrGet_log(2)[OF v] findPV_log[OF f] by auto
  moreover have "memberBlock E g gc info (world s) ?b (world s')"
    unfolding memberBlock_def
    using findPV_log[OF f] built_content[OF b(1)] createOrGet_log(1)[OF c] cc built_snapshot[OF b(2)]
      createOrGet_log(2)[OF v] cs bindMember_log[OF bm] by blast
  ultimately show ?thesis by blast
qed

lemma createMembers_blocks:
  "createMembers E infos gc g ref s = Some (None, s') \<Longrightarrow>
   \<exists>new. log s' = log s @ new \<and> memberBlocks E g gc infos (world s) new"
proof (induction infos arbitrary: s)
  case (Cons info infos)
  obtain err s1 where c: "createIndividualSnapshotForGroupSnapshot E info gc g ref s = Some (err, s1)"
    using Cons.prems by (auto split: Option.bind_splits)
  have err: "err = None" using Cons.prems c by (auto split: if_splits)
  then obtain b where b: "log s1 = log s @ b" "memberBlock E g gc info (world s) b (world s1)"
    using createIndividual_block c by blast
  have "createMembers E infos gc g ref s1 = Some (None, s')" using Cons.prems c err by simp
  then obtain rest where "log s' = log s1 @ rest" "memberBlocks E g gc infos (world s1) rest"
    using Cons.IH by blast
  then show ?case using b by (intro exI[of _ "b @ rest"]) auto
qed simp

text \<open>C10: When the members of a group were created without error, they were created one by one, in the order the driver
  reported them. For each, a content and a snapshot are sent to the server, which creates them or has them already. The
  content refers to the snapshot by name and namespace and carries the volume handle of the report and the driver and
  the policy of the group content; the snapshot is owned by the group snapshot and carries the finalizer of a member.
  Then, each patch accepted: the UID of the snapshot on the server goes into the reference of the content on the server,
  the name of that content into the status of that snapshot, and handle, size, time and readiness of the driver's report
  into the status of the content. Both status patches first replace the whole status by an empty one, so what it held
  before is lost.\<close>

theorem members_created_and_bound:
  assumes run: "createSnapshotsForGroupSnapshotContent E gc g s = Some (None, s')"
    and ready: "isGroupSnapshotContentReadyForSnapshotCreation gc"
  shows "\<exists>st ref s1 new. vgsc_Status gc = Some st \<and> VolumeSnapshotInfoList st \<noteq> [] \<and>
    getGroupSnapshotSecret E g gc s = Some (Inr ref, s1) \<and> log s' = log s @ new \<and>
    memberBlocks E g gc (VolumeSnapshotInfoList st) (world s1) new"
proof -
  obtain st where st: "vgsc_Status gc = Some st" "VolumeSnapshotInfoList st \<noteq> []"
    using ready by (auto simp: isGroupSnapshotContentReadyForSnapshotCreation_def split: option.splits)
  obtain sr s1 where sec: "getGroupSnapshotSecret E g gc s = Some (sr, s1)"
    using run ready by (auto simp: createSnapshotsForGroupSnapshotContent_def split: Option.bind_splits)
  obtain ref where ref: "sr = Inr ref"
    using run ready sec by (cases sr) (auto simp: createSnapshotsForGroupSnapshotContent_def)
  have "ensures (getGroupSnapshotSecret E g gc s) (\<lambda>_ s'. onlyNew (\<lambda>_. False) (log s) s')"
    by (rule only.getGroupSnapshotSecret_I) (auto simp: onlyNew_refl)
  then have l: "log s1 = log s" using sec by (simp add: onlyNew_nothing)
  have "createMembers E (VolumeSnapshotInfoList st) gc g ref s1 = Some (None, s')"
    using run ready sec ref st by (simp add: createSnapshotsForGroupSnapshotContent_def)
  then show ?thesis using createMembers_blocks l st sec ref by metis
qed

definition demoReadyGroupContent :: VolumeGroupSnapshotContent where
  "demoReadyGroupContent = emptyVolumeGroupSnapshotContent\<lparr>vgsc_Status := Some (emptyGroupContentStatus\<lparr>
     gcs_VolumeGroupSnapshotHandle := Some ''gh1'',
     VolumeSnapshotInfoList := [\<lparr>vsi_VolumeHandle = ''vol1'', vsi_SnapshotHandle = ''sh1'', vsi_CreationTime = Some 3,
       vsi_ReadyToUse = Some True, vsi_RestoreSize = Some 10\<rparr>]\<rparr>)\<rparr>"

definition demoMembersEnv :: "unit env" where
  "demoMembersEnv = nullEnv\<lparr>lister_GetGroupClass := \<lambda>_ w. (Inr demoVgsClass, w),
     api_CreateVS := \<lambda>v w. (Inr (v\<lparr>vs_meta := (vs_meta v)\<lparr>UID := ''u1''\<rparr>\<rparr>), w),
     api_PatchVSC := \<lambda>_ _ _ w. (Inr demoContent, w), api_PatchVS := \<lambda>_ _ _ _ w. (Inr demoSnapshot, w)\<rparr>"

lemma demo_members_run:
  "\<exists>s'. createSnapshotsForGroupSnapshotContent demoMembersEnv demoReadyGroupContent demoNewGroup (initialState ()) = Some (None, s')"
  by (simp add: createSnapshotsForGroupSnapshotContent_def isGroupSnapshotContentReadyForSnapshotCreation_def
      demoReadyGroupContent_def emptyVolumeGroupSnapshotContent_def getGroupSnapshotSecret_def demoNewGroup_sel
      demoMembersEnv_def nullEnv_def call_def act_def GetGroupSnapshotSecretReference_def demoVgsClass_def
      verifyAndGetSecretNameAndNamespaceTemplate_def mapGet_def GroupSnapshotterSecretParams_def
      createIndividualSnapshotForGroupSnapshot_def findPersistentVolumeByCSIDriverHandle_def
      buildVolumeSnapshotContentSpecForGroupSnapshot_def buildVolumeSnapshotSpecForGroupSnapshot_def Let_def
      createOrGetVolumeSnapshotContent_def createOrGetVolumeSnapshot_def bindMember_def
      bindSnapshotContentToSnapshot_def bindSnapshotToSnapshotContent_def updateVolumeSnapshotContentStatus_def
      PatchVolumeSnapshotContent_def PatchVolumeSnapshot_def)

theorem members_created_and_bound_witness:
  "\<exists>s' b. createSnapshotsForGroupSnapshotContent demoMembersEnv demoReadyGroupContent demoNewGroup (initialState ()) =
     Some (None, s') \<and> log s' = b \<and> length b = 5"
proof -
  obtain s' where run: "createSnapshotsForGroupSnapshotContent demoMembersEnv demoReadyGroupContent demoNewGroup
      (initialState ()) = Some (None, s')" using demo_members_run by blast
  have rd: "isGroupSnapshotContentReadyForSnapshotCreation demoReadyGroupContent"
    by (simp add: isGroupSnapshotContentReadyForSnapshotCreation_def demoReadyGroupContent_def)
  obtain st new and s1 :: "unit st" where b: "vgsc_Status demoReadyGroupContent = Some st" "log s' = log (initialState ()) @ new"
    "memberBlocks demoMembersEnv demoNewGroup demoReadyGroupContent (VolumeSnapshotInfoList st) (world s1) new"
    using members_created_and_bound[OF run rd] by blast
  then have "length new = 5" by (auto simp: demoReadyGroupContent_def memberBlock_def)
  then show ?thesis using run b by (simp add: initialState_def)
qed

section \<open>The status of a group snapshot\<close>

definition newGroupError ::
  "VolumeGroupSnapshotStatus option \<Rightarrow> groupContentFacts \<Rightarrow> VolumeSnapshotError option" where
  "newGroupError old f =
    (let e = (if Option.bind old gs_ReadyToUse \<noteq> Some (gf_ready f) \<and> gf_ready f then None else Option.bind old gs_Error) in
     case (e, gf_err f) of
       (Some e1, Some e2) \<Rightarrow> if err_Time e1 \<noteq> None \<and> err_Time e2 \<noteq> None then Some e2 else Some e1
     | _ \<Rightarrow> gf_err f)"

lemma computeGroup_fields:
  "BoundVolumeGroupSnapshotContentName (fst (computeGroupSnapshotStatus old f)) =
     (case Option.bind old BoundVolumeGroupSnapshotContentName of None \<Rightarrow> Some (gf_contentName f) | Some n \<Rightarrow> Some n)"
  "gs_CreationTime (fst (computeGroupSnapshotStatus old f)) =
     (case Option.bind old gs_CreationTime of None \<Rightarrow> gf_createdAt f | Some t \<Rightarrow> Some t)"
  "gs_ReadyToUse (fst (computeGroupSnapshotStatus old f)) = Some (gf_ready f)"
  "\<not> snd (computeGroupSnapshotStatus old f) \<Longrightarrow> old = Some (fst (computeGroupSnapshotStatus old f))"
proof -
  have "BoundVolumeGroupSnapshotContentName (fst (computeGroupSnapshotStatus old f)) =
      (case Option.bind old BoundVolumeGroupSnapshotContentName of None \<Rightarrow> Some (gf_contentName f) | Some n \<Rightarrow> Some n) \<and>
    gs_CreationTime (fst (computeGroupSnapshotStatus old f)) =
      (case Option.bind old gs_CreationTime of None \<Rightarrow> gf_createdAt f | Some t \<Rightarrow> Some t) \<and>
    gs_ReadyToUse (fst (computeGroupSnapshotStatus old f)) = Some (gf_ready f) \<and>
    (\<not> snd (computeGroupSnapshotStatus old f) \<longrightarrow> old = Some (fst (computeGroupSnapshotStatus old f)))"
  proof (cases old)
    case None
    then show ?thesis by (simp add: computeGroupSnapshotStatus_def)
  next
    case (Some st0)
    show ?thesis unfolding Some
      by (cases "BoundVolumeGroupSnapshotContentName st0"; cases "gs_CreationTime st0"; cases "gf_createdAt f";
          cases "gs_ReadyToUse st0 = Some (gf_ready f)"; cases "gf_ready f"; cases "gs_Error st0"; cases "gf_err f")
        (simp_all add: computeGroupSnapshotStatus_def Let_def)
  qed
  then show "BoundVolumeGroupSnapshotContentName (fst (computeGroupSnapshotStatus old f)) =
      (case Option.bind old BoundVolumeGroupSnapshotContentName of None \<Rightarrow> Some (gf_contentName f) | Some n \<Rightarrow> Some n)"
    "gs_CreationTime (fst (computeGroupSnapshotStatus old f)) =
      (case Option.bind old gs_CreationTime of None \<Rightarrow> gf_createdAt f | Some t \<Rightarrow> Some t)"
    "gs_ReadyToUse (fst (computeGroupSnapshotStatus old f)) = Some (gf_ready f)"
    "\<not> snd (computeGroupSnapshotStatus old f) \<Longrightarrow> old = Some (fst (computeGroupSnapshotStatus old f))"
    by blast+
qed

lemma computeGroup_error: "gs_Error (fst (computeGroupSnapshotStatus old f)) = newGroupError old f"
proof (cases old)
  case None
  then show ?thesis by (simp add: computeGroupSnapshotStatus_def newGroupError_def Let_def split: option.split)
next
  case (Some st0)
  show ?thesis
    by (cases "gs_Error st0"; cases "gf_err f"; cases "gs_ReadyToUse st0 = Some (gf_ready f)"; cases "gf_ready f")
      (simp_all add: Some computeGroupSnapshotStatus_def newGroupError_def Let_def)
qed

lemma computeGroup_stable:
  assumes "BoundVolumeGroupSnapshotContentName st \<noteq> None" "gs_CreationTime st = None \<longrightarrow> gf_createdAt f = None"
    "gs_ReadyToUse st = Some (gf_ready f)" "gs_Error st = newGroupError old f"
  shows "computeGroupSnapshotStatus (Some st) f = (st, \<exists>e e'. gs_Error st = Some e \<and> gf_err f = Some e' \<and>
    err_Time e \<noteq> None \<and> err_Time e' \<noteq> None)"
proof -
  define e where "e = (if Option.bind old gs_ReadyToUse \<noteq> Some (gf_ready f) \<and> gf_ready f then None
    else Option.bind old gs_Error)"
  have "gs_Error st = (case (e, gf_err f) of
      (Some e1, Some e2) \<Rightarrow> if err_Time e1 \<noteq> None \<and> err_Time e2 \<noteq> None then Some e2 else Some e1 | _ \<Rightarrow> gf_err f)"
    using assms(4) by (simp add: newGroupError_def e_def)
  then show ?thesis using assms(1-3)
    by (cases e; cases "gf_err f") (auto simp: computeGroupSnapshotStatus_def split: if_splits)
qed

text \<open>The status of a group snapshot follows its content: the bound name and the creation time are set once and
  then kept, the readiness is always that of the content, and the error is that of the content, except
  that of two errors the old one stays when either has no time. When nothing is reported as changed the
  status is what it was. Computing it again changes nothing, yet it is reported as changed, and written to
  the server again, whenever both carry an error with a time: the source compares addresses.\<close>

theorem group_status_follows_content:
  assumes "computeGroupSnapshotStatus old f = (st, changed)"
  shows "BoundVolumeGroupSnapshotContentName st =
      (case Option.bind old BoundVolumeGroupSnapshotContentName of None \<Rightarrow> Some (gf_contentName f) | Some n \<Rightarrow> Some n) \<and>
    gs_CreationTime st = (case Option.bind old gs_CreationTime of None \<Rightarrow> gf_createdAt f | Some t \<Rightarrow> Some t) \<and>
    gs_ReadyToUse st = Some (gf_ready f) \<and> gs_Error st = newGroupError old f \<and>
    (\<not> changed \<longrightarrow> old = Some st) \<and>
    computeGroupSnapshotStatus (Some st) f = (st, \<exists>e e'. gs_Error st = Some e \<and> gf_err f = Some e' \<and>
      err_Time e \<noteq> None \<and> err_Time e' \<noteq> None)"
proof -
  have e: "fst (computeGroupSnapshotStatus old f) = st" "snd (computeGroupSnapshotStatus old f) = changed"
    using assms by simp_all
  note f = computeGroup_fields[of old f, unfolded e] computeGroup_error[of old f, unfolded e]
  have "BoundVolumeGroupSnapshotContentName st \<noteq> None" "gs_CreationTime st = None \<longrightarrow> gf_createdAt f = None"
    using f(1,2) by (auto split: option.splits)
  from computeGroup_stable[OF this f(3,5)] f show ?thesis by blast
qed

definition demoGroupContentFacts :: groupContentFacts where
  "demoGroupContentFacts = \<lparr>gf_contentName = ''gc1'', gf_createdAt = Some 7, gf_ready = False,
     gf_err = Some \<lparr>err_Time = Some 9, err_Message = Some ''busy''\<rparr>\<rparr>"

theorem group_status_follows_content_witness:
  "\<exists>st. computeGroupSnapshotStatus None demoGroupContentFacts = (st, True) \<and>
     computeGroupSnapshotStatus (Some st) demoGroupContentFacts = (st, True)"
proof -
  obtain st where st: "computeGroupSnapshotStatus None demoGroupContentFacts = (st, True)"
    by (simp add: computeGroupSnapshotStatus_def)
  have "computeGroupSnapshotStatus (Some st) demoGroupContentFacts = (st, True)"
    using group_status_follows_content[OF st] by (auto simp: newGroupError_def demoGroupContentFacts_def)
  then show ?thesis using st by blast
qed

section \<open>What is lost\<close>

definition groupContentWrite :: "action \<Rightarrow> bool" where
  "groupContentWrite a = (\<exists>n p q. a = DeleteVGSC n \<or> a = PatchVGSC n p q)"

lemma groupContentWrite_simps [simp]:
  "\<not> groupContentWrite (UpdateVGS g)" "\<not> groupContentWrite (Event ob t m m')" "\<not> groupContentWrite (DeleteVS n m)"
  by (simp_all add: groupContentWrite_def)

text \<open>A group snapshot that is deleted before its status names its content leaves the content behind: the
  content under the derived name is neither annotated nor deleted, whatever the cache holds there, although
  the comment in the source says that this name is tried. The group snapshot itself is let go when its
  members could be deleted.\<close>

theorem unbound_group_content_is_leaked:
  assumes run: "syncGroupSnapshot E g s = Some (r, s')" and new: "log s' = log s @ new"
    and del: "DeletionTimestamp (vgs_meta g) \<noteq> None"
    and unbound: "Option.bind (vgs_Status g) BoundVolumeGroupSnapshotContentName = None"
    and key: "groupSnapshotContentStore s [] = None"
  shows "list_all (\<lambda>a. \<not> groupContentWrite a) new"
proof (cases "new = []")
  case False
  have p: "processGroupSnapshotWithDeletionTimestamp E g s = Some (r, s')"
    using run del by (simp add: syncGroupSnapshot_def)
  obtain s2 content cascade where q: "log s2 = log s"
    "deleteGroupMembersAndContent E g content cascade s2 = Some (r, s')"
    "\<forall>c. content = Some c \<longrightarrow> groupSnapshotContentStore s (groupContentNameForDeletion g) = Some (ObjVGSC c) \<and>
       IsVolumeGroupSnapshotRefSet g c \<and> cascade = (vgsc_Policy c = VolumeSnapshotContentDelete)"
    using processGroup_run[OF p new False] by blast
  have "content = None" using q(3) unbound key by (cases content) (auto simp: groupContentNameForDeletion_def)
  then have "ensures (deleteGroupMembersAndContent E g content cascade s2)
      (\<lambda>_ s'. onlyNew (\<lambda>a. \<not> groupContentWrite a) (log s2) s')"
    unfolding deleteGroupMembersAndContent_def findGroupSnapshotMembers_def annotateAndDeleteGroupContent_def
    by (auto intro!: only.call_I[where ok = "\<lambda>a. \<not> groupContentWrite a" and ?l0.0 = "log s2"]
        only.memberBeingRestored_I[where ok = "\<lambda>a. \<not> groupContentWrite a" and ?l0.0 = "log s2"]
        only.deleteMembers_I[where ok = "\<lambda>a. \<not> groupContentWrite a" and ?l0.0 = "log s2"]
        only.removeGroupSnapshotFinalizer_I[where ok = "\<lambda>a. \<not> groupContentWrite a" and ?l0.0 = "log s2"] simp: onlyNew_refl split: sum.split option.split bool.split)
  then show ?thesis using q new by (auto simp: onlyNew_def ensures_def)
qed simp

definition demoUnboundGroup :: VolumeGroupSnapshot where
  "demoUnboundGroup = demoGroup\<lparr>vgs_Status := None\<rparr>"

theorem unbound_group_content_is_leaked_witness:
  "\<exists>s'. syncGroupSnapshot demoMemberEnv demoUnboundGroup ((initialState ())\<lparr>groupSnapshotContentStore :=
       [GetDynamicSnapshotContentNameForGroupSnapshot demoUnboundGroup \<mapsto> ObjVGSC demoBoundGroupContent]\<rparr>) = Some (None, s') \<and>
     UpdateVGS (withoutGroupFinalizer demoUnboundGroup) \<in> set (log s') \<and> list_all (\<lambda>a. \<not> groupContentWrite a) (log s')"
proof -
  let ?s = "(initialState ())\<lparr>groupSnapshotContentStore :=
    [GetDynamicSnapshotContentNameForGroupSnapshot demoUnboundGroup \<mapsto> ObjVGSC demoBoundGroupContent]\<rparr>"
  have sel: "vgs_Name demoUnboundGroup = ''grp1''" "vgs_Namespace demoUnboundGroup = ''ns1''"
    "IsGroupSnapshotDeletionCandidate demoUnboundGroup" "vgs_ContentName demoUnboundGroup = None"
    "groupContentNameForDeletion demoUnboundGroup = []" "DeletionTimestamp (vgs_meta demoUnboundGroup) \<noteq> None"
    "vgs_ClassName demoUnboundGroup = None" "vgs_Status demoUnboundGroup = None"
    by (simp_all add: demoUnboundGroup_def demoGroup_def emptyVolumeGroupSnapshot_def IsGroupSnapshotDeletionCandidate_def
        Contains_def groupContentNameForDeletion_def)
  have k: "VolumeSnapshotParentGroupKeyFuncByComponents ''ns1'' ''grp1'' = ''ns1^grp1''"
    by (simp add: VolumeSnapshotParentGroupKeyFuncByComponents_def)
  have key: "groupSnapshotContentStore ?s [] = None" by (simp add: GetDynamicSnapshotContentNameForGroupSnapshot_def)
  have "\<exists>s'. syncGroupSnapshot demoMemberEnv demoUnboundGroup ?s = Some (None, s') \<and>
      UpdateVGS (withoutGroupFinalizer demoUnboundGroup) \<in> set (log s')"
    by (simp add: syncGroupSnapshot_def sel processGroupSnapshotWithDeletionTimestamp_def
        getGroupSnapshotDriverName_def Let_def demoMemberEnv_def nullEnv_def call_def notFound_def withMetrics_def
        getGroupSnapshotContentFromStore_def deleteGroupMembersAndContent_def initialState_def
        GetDynamicSnapshotContentNameForGroupSnapshot_def withoutGroupFinalizer_def RemoveString_filter
        storeGroupSnapshotUpdate_def
        findGroupSnapshotMembers_def k annotateAndDeleteGroupContent_def act_def removeGroupSnapshotFinalizer_def
        split: prod.split)
  then obtain s' where run: "syncGroupSnapshot demoMemberEnv demoUnboundGroup ?s = Some (None, s')"
    and l: "UpdateVGS (withoutGroupFinalizer demoUnboundGroup) \<in> set (log s')" by blast
  have l0: "log s' = log ?s @ log s'" by (simp add: initialState_def)
  have "list_all (\<lambda>a. \<not> groupContentWrite a) (log s')"
    by (rule unbound_group_content_is_leaked[OF run l0 sel(6) _ key]) (simp add: sel)
  then show ?thesis using run l by blast
qed

section \<open>The class and the work loop\<close>

lemma empty_version: "\<exists>e. ParseInt64 [] = Inl e"
  by (simp add: ParseInt64_def)

text \<open>When the update fails, what is cached and returned is the empty object of the typed client.\<close>

lemma SetDefault_failed:
  assumes run: "SetDefaultGroupSnapshotClass E g s = Some ((Some cl, g', None), s')"
    and fails: "\<And>x w. \<exists>e. fst (api_UpdateVGS E x w) = Inl e"
  shows "g' = emptyVolumeGroupSnapshot \<and> groupSnapshotStore s' [] \<noteq> None \<and>
    (\<exists>x. log s' = log s @ [UpdateVGS x])"
proof -
  have cn: "vgs_ContentName g = None" using run by (auto simp: SetDefaultGroupSnapshotClass_def split: if_splits)
  obtain lr w where l: "lister_ListGroupClass E (world s) = (lr, w)" by fastforce
  obtain cls where lr: "lr = Inr cls"
    using run cn l by (cases lr) (auto simp: SetDefaultGroupSnapshotClass_def call_def)
  obtain dr s1 where d: "pvDriverFromGroupSnapshot E g (s\<lparr>world := w\<rparr>) = Some (dr, s1)"
    using run cn l lr by (auto simp: SetDefaultGroupSnapshotClass_def call_def split: Option.bind_splits)
  have "ensures (pvDriverFromGroupSnapshot E g (s\<lparr>world := w\<rparr>)) (\<lambda>_ s'. onlyNew (\<lambda>_. False) (log s) s')"
    by (rule only.pvDriverFromGroupSnapshot_I) (auto simp: onlyNew_def)
  then have l1: "log s1 = log s" using d by (simp add: onlyNew_nothing)
  obtain dn where dn: "dr = Inr dn"
    using run cn l lr d by (cases dr) (auto simp: SetDefaultGroupSnapshotClass_def call_def)
  obtain c where c: "filter (isDefaultGroupClassFor dn) cls = [c]"
    using run cn l lr d dn by (auto simp: SetDefaultGroupSnapshotClass_def call_def split: list.splits)
  let ?clone = "g\<lparr>vgs_Spec := (vgs_Spec g)\<lparr>VolumeGroupSnapshotClassName := Some (Name (vgsclass_meta c))\<rparr>\<rparr>"
  obtain e w2 where u: "api_UpdateVGS E ?clone (world s1) = (Inl e, w2)"
    using fails[of ?clone "world s1"] by (metis prod.collapse)
  have k: "keyFunc (vgs_meta emptyVolumeGroupSnapshot) = []"
    by (simp add: keyFunc_def MetaNamespaceKey_def emptyVolumeGroupSnapshot_def emptyMeta_def)
  have "snd (StoreObjectUpdate st (ObjVGS emptyVolumeGroupSnapshot) nm) [] \<noteq> None" for st nm
    by (auto simp: StoreObjectUpdate_def k Let_def split: option.split sum.split)
  then obtain sr st where so: "StoreObjectUpdate (groupSnapshotStore s1) (ObjVGS emptyVolumeGroupSnapshot) ''groupsnapshot'' =
      (sr, st)" "st [] \<noteq> None" by (metis prod.collapse)
  then show ?thesis
    using run cn l lr d dn c u l1
    by (auto simp: SetDefaultGroupSnapshotClass_def call_def act_def storeGroupSnapshotUpdate_def Let_def
        split: prod.splits)
qed

lemma update_empty_group:
  assumes "groupSnapshotStore s [] \<noteq> None"
  shows "updateGroupSnapshot E emptyVolumeGroupSnapshot s = Some (None, s)"
proof -
  have k: "keyFunc (vgs_meta emptyVolumeGroupSnapshot) = []" "ResourceVersion (vgs_meta emptyVolumeGroupSnapshot) = []"
    by (simp_all add: keyFunc_def MetaNamespaceKey_def emptyVolumeGroupSnapshot_def emptyMeta_def)
  obtain e where "ParseInt64 [] = Inl e" using empty_version by blast
  then obtain e' where "StoreObjectUpdate (groupSnapshotStore s) (ObjVGS emptyVolumeGroupSnapshot) ''groupsnapshot'' =
      (Inl e', groupSnapshotStore s)"
    using assms k by (auto simp: StoreObjectUpdate_def Let_def)
  then show ?thesis by (simp add: updateGroupSnapshot_def storeGroupSnapshotUpdate_def)
qed

text \<open>A group snapshot that is to get the default class is forgotten when the write fails: the error of the
  update is only logged, the empty object that came with it is cached under the empty key, the
  reconciler is skipped because that object has no version, and the worker forgets the key instead of
  trying again. The write is all that was done for the group snapshot.\<close>

theorem failed_default_class_update_is_forgotten:
  assumes key: "SplitMetaNamespaceKey key = Inr (ns, n)" and l: "lister_GetVGS E ns n (world s) = (Inr g, w)"
    and cl: "vgs_ClassName g = None"
    and run: "SetDefaultGroupSnapshotClass E g (s\<lparr>world := w\<rparr>) = Some ((Some class, g', None), s1)"
    and fails: "\<And>x w. \<exists>e. fst (api_UpdateVGS E x w) = Inl e"
  shows "\<exists>s' x. groupSnapshotWorker E (Some key) s = Some ((), s') \<and>
    log s' = log s @ [UpdateVGS x, QueueForget QGroupSnapshot key, QueueDone QGroupSnapshot key]"
proof -
  note f = SetDefault_failed[OF run fails]
  have "syncGroupSnapshotByKey E key s = Some (None, s1)"
    using key l cl run f update_empty_group[of s1 E]
    by (simp add: syncGroupSnapshotByKey_def call_def checkAndUpdateGroupSnapshotClass_def)
  then have "groupSnapshotWorker E (Some key) s =
      Some ((), emit (QueueDone QGroupSnapshot key) (emit (QueueForget QGroupSnapshot key) s1))"
    by (simp add: groupSnapshotWorker_def)
  then show ?thesis using f by (auto simp: emit_def)
qed

definition demoDefaultGroup :: VolumeGroupSnapshot where
  "demoDefaultGroup = demoNewGroup\<lparr>vgs_Spec := (vgs_Spec demoNewGroup)\<lparr>VolumeGroupSnapshotClassName := None\<rparr>\<rparr>"

definition demoDefaultVgsClass :: VolumeGroupSnapshotClass where
  "demoDefaultVgsClass = demoVgsClass\<lparr>vgsclass_meta := (vgsclass_meta demoVgsClass)\<lparr>Annotations :=
     fmupd IsDefaultGroupSnapshotClassAnnotation ''true'' fmempty\<rparr>\<rparr>"

definition demoNoUpdateEnv :: "unit env" where
  "demoNoUpdateEnv = demoGroupCreateEnv\<lparr>lister_GetVGS := \<lambda>_ _ w. (Inr demoDefaultGroup, w),
     lister_ListGroupClass := \<lambda>w. (Inr [demoDefaultVgsClass], w),
     api_UpdateVGS := \<lambda>_ w. (Inl (APIStatus StatusConflict ''conflict''), w)\<rparr>"

theorem failed_default_class_update_is_forgotten_witness:
  "\<exists>s' x. groupSnapshotWorker demoNoUpdateEnv (Some ''ns1/grp1'') (initialState ()) = Some ((), s') \<and>
     log s' = [UpdateVGS x, QueueForget QGroupSnapshot ''ns1/grp1'', QueueDone QGroupSnapshot ''ns1/grp1'']"
proof -
  let ?s = "initialState ()"
  have key: "SplitMetaNamespaceKey ''ns1/grp1'' = Inr (''ns1'', ''grp1'')" by code_simp
  have d: "isDefaultGroupClassFor ''drv'' demoDefaultVgsClass"
    by (simp add: isDefaultGroupClassFor_def demoDefaultVgsClass_def demoVgsClass_def mapGet_def emptyMeta_def
        IsVolumeGroupSnapshotClassDefaultAnnotation_def)
  have p: "pvDriverFromGroupSnapshot demoNoUpdateEnv demoDefaultGroup ?s = Some (Inr ''drv'', ?s)"
    by (simp add: pvDriverFromGroupSnapshot_def getVolumesFromVolumeGroupSnapshot_def getClaimsFromVolumeGroupSnapshot_def
        demoNoUpdateEnv_def demoDefaultGroup_def demoNewGroup_sel call_def demoGroupCreateEnv_def demoPVC_def demoPV_def
        isVolumeBoundToClaim_def emptyMeta_def emptyRef_def initialState_def)
  have cn: "vgs_ContentName demoDefaultGroup = None" "vgs_ClassName demoDefaultGroup = None"
    by (simp_all add: demoDefaultGroup_def demoNewGroup_sel)
  have "\<exists>cl s1. SetDefaultGroupSnapshotClass demoNoUpdateEnv demoDefaultGroup ?s =
      Some ((Some cl, emptyVolumeGroupSnapshot, None), s1)"
    using p d cn by (simp add: SetDefaultGroupSnapshotClass_def call_def act_def demoNoUpdateEnv_def initialState_def
        storeGroupSnapshotUpdate_def Let_def split: prod.split)
  then obtain cl s1 where run: "SetDefaultGroupSnapshotClass demoNoUpdateEnv demoDefaultGroup (?s\<lparr>world := ()\<rparr>) =
      Some ((Some cl, emptyVolumeGroupSnapshot, None), s1)" by (auto simp: initialState_def)
  have l: "lister_GetVGS demoNoUpdateEnv ''ns1'' ''grp1'' (world ?s) = (Inr demoDefaultGroup, ())"
    by (simp add: demoNoUpdateEnv_def)
  have fails: "\<exists>e. fst (api_UpdateVGS demoNoUpdateEnv x w) = Inl e" for x w
    by (simp add: demoNoUpdateEnv_def)
  have "log ?s = []" by (simp add: initialState_def)
  then show ?thesis using failed_default_class_update_is_forgotten[OF key l cn(2) run fails] by simp
qed

text \<open>A worker of one of the two group queues that takes a key deals with it exactly once: whatever the reconciler
  does, it issues no worker operation on a queue itself; then the key is put back with a rate limit if
  the reconciler returned an error, and forgotten if it did not, and last it is marked as done.\<close>

theorem group_worker_requeues_iff_error:
  assumes "groupSnapshotWorker E (Some key) s = Some ((), s')" and "groupSnapshotContentWorker E (Some key') t = Some ((), t')"
  shows "(\<exists>r s1 new. syncGroupSnapshotByKey E key s = Some (r, s1) \<and> list_all notWorker new \<and>
      log s' = log s @ new @ [if r = None then QueueForget QGroupSnapshot key else QueueAddRateLimited QGroupSnapshot key,
        QueueDone QGroupSnapshot key]) \<and>
    (\<exists>r t1 new. syncGroupSnapshotContentByKey E key' t = Some (r, t1) \<and> list_all notWorker new \<and>
      log t' = log t @ new @ [if r = None then QueueForget QGroupContent key' else QueueAddRateLimited QGroupContent key',
        QueueDone QGroupContent key'])"
proof (intro conjI)
  obtain r s1 where a: "syncGroupSnapshotByKey E key s = Some (r, s1)"
    using assms(1) by (auto simp: groupSnapshotWorker_def split: Option.bind_splits)
  have "ensures (syncGroupSnapshotByKey E key s) (\<lambda>_ s'. onlyNew notWorker (log s) s')"
    by (rule only.syncGroupSnapshotByKey_I) (auto simp: onlyNew_refl)
  then obtain new where n: "log s1 = log s @ new" "list_all notWorker new" using a by (auto simp: onlyNew_def)
  have "log s' = log s @ new @ [if r = None then QueueForget QGroupSnapshot key else QueueAddRateLimited QGroupSnapshot key,
      QueueDone QGroupSnapshot key]"
    using assms(1) a n(1) by (auto simp: groupSnapshotWorker_def emit_def split: option.splits)
  then show "\<exists>r s1 new. syncGroupSnapshotByKey E key s = Some (r, s1) \<and> list_all notWorker new \<and>
      log s' = log s @ new @ [if r = None then QueueForget QGroupSnapshot key else QueueAddRateLimited QGroupSnapshot key,
        QueueDone QGroupSnapshot key]"
    using a n(2) by blast
next
  obtain r t1 where a: "syncGroupSnapshotContentByKey E key' t = Some (r, t1)"
    using assms(2) by (auto simp: groupSnapshotContentWorker_def split: Option.bind_splits)
  have "ensures (syncGroupSnapshotContentByKey E key' t) (\<lambda>_ s'. onlyNew notWorker (log t) s')"
    by (rule only.syncGroupSnapshotContentByKey_I) (auto simp: onlyNew_refl)
  then obtain new where n: "log t1 = log t @ new" "list_all notWorker new" using a by (auto simp: onlyNew_def)
  have "log t' = log t @ new @ [if r = None then QueueForget QGroupContent key' else QueueAddRateLimited QGroupContent key',
      QueueDone QGroupContent key']"
    using assms(2) a n(1) by (auto simp: groupSnapshotContentWorker_def emit_def split: option.splits)
  then show "\<exists>r t1 new. syncGroupSnapshotContentByKey E key' t = Some (r, t1) \<and> list_all notWorker new \<and>
      log t' = log t @ new @ [if r = None then QueueForget QGroupContent key' else QueueAddRateLimited QGroupContent key',
        QueueDone QGroupContent key']"
    using a n(2) by blast
qed

theorem group_worker_requeues_iff_error_witness:
  "\<exists>s' t'. groupSnapshotWorker nullEnv (Some ''ns1/snap1'') (initialState ()) = Some ((), s') \<and>
     groupSnapshotContentWorker nullEnv (Some ''c1'') (initialState ()) = Some ((), t') \<and>
     last (log s') = QueueDone QGroupSnapshot ''ns1/snap1'' \<and> last (log t') = QueueDone QGroupContent ''c1''"
proof -
  have r: "\<exists>s'. groupSnapshotWorker nullEnv (Some ''ns1/snap1'') (initialState ()) = Some ((), s')"
    "\<exists>t'. groupSnapshotContentWorker nullEnv (Some ''c1'') (initialState ()) = Some ((), t')"
    by (simp_all add: groupSnapshotWorker_def groupSnapshotContentWorker_def syncGroupSnapshotByKey_def
        syncGroupSnapshotContentByKey_def demo_split call_def nullEnv_def notFound_def initialState_def)
  then obtain s' t' where run: "groupSnapshotWorker nullEnv (Some ''ns1/snap1'') (initialState ()) = Some ((), s')"
    "groupSnapshotContentWorker nullEnv (Some ''c1'') (initialState ()) = Some ((), t')" by blast
  then show ?thesis using group_worker_requeues_iff_error[OF run] by (auto simp: initialState_def)
qed

end
