(* ===== verification/CsiHandler.thy ===== *)
theory CsiHandler
  imports Runtime
begin

text \<open>
  The way to the CSI driver: the Snapshotter (\<open>pkg/snapshotter/snapshotter.go\<close>), which turns its
  operations into calls of the driver's RPCs, and the Handler of the sidecar
  (\<open>pkg/sidecar-controller/csi_handler.go\<close>), which chooses the snapshot name and the handle. Both are
  interfaces in the source, and the sidecar only sees the second: an interface value is a record of
  its operations here, and the two locales are the contracts of the two interfaces. The deadline of the
  context is part of the driver's behaviour.
\<close>

section \<open>Times\<close>

text \<open>The zero \<open>time.Time\<close>, 1 January of year 1, and the time of a protobuf timestamp (a nil one is the epoch).\<close>

definition zeroTime :: Time where
  "zeroTime = -62135596800000000000"

definition AsTime :: "Time option \<Rightarrow> Time" where
  "AsTime ts = (case ts of None \<Rightarrow> 0 | Some t \<Rightarrow> t)"

text \<open>\<open>UnixNano\<close> is an \<open>int64\<close> and wraps around.\<close>

definition UnixNano :: "Time \<Rightarrow> int" where
  "UnixNano t = (t + 9223372036854775808) mod 18446744073709551616 - 9223372036854775808"

section \<open>The Snapshotter\<close>

record 'w snapshotter =
  sn_CreateSnapshot :: "string \<Rightarrow> string \<Rightarrow> strmap \<Rightarrow> strmap \<Rightarrow> 'w st
    \<Rightarrow> ((goerr + string \<times> string \<times> Time \<times> int \<times> bool) \<times> 'w st) option"
  sn_DeleteSnapshot :: "string \<Rightarrow> strmap \<Rightarrow> 'w st \<Rightarrow> (goerr option \<times> 'w st) option"
  sn_GetSnapshotStatus :: "string \<Rightarrow> strmap \<Rightarrow> 'w st
    \<Rightarrow> ((goerr + bool \<times> Time \<times> int \<times> string) \<times> 'w st) option"

text \<open>A response without a snapshot is dereferenced all the same.\<close>

definition snapshot_CreateSnapshot ::
  "'w env \<Rightarrow> string \<Rightarrow> string \<Rightarrow> strmap \<Rightarrow> strmap \<Rightarrow> 'w st
    \<Rightarrow> ((goerr + string \<times> string \<times> Time \<times> int \<times> bool) \<times> 'w st) option" where
  "snapshot_CreateSnapshot E snapshotName volumeHandle parameters snapshotterCredentials s =
    do { (r, s) \<leftarrow> call (csi_GetDriverName E) s;
         case r of
           Inl err \<Rightarrow> Some (Inl err, s)
         | Inr driverName \<Rightarrow>
            let req = \<lparr>SourceVolumeId = volumeHandle, req_Name = snapshotName, Parameters = parameters,
                       Secrets = snapshotterCredentials\<rparr> in
            do { (r, s) \<leftarrow> act (CSICreateSnapshot req) (csi_CreateSnapshot E req) s;
                 case r of
                   Inl err \<Rightarrow> Some (Inl err, s)
                 | Inr rsp \<Rightarrow>
                    do { snap \<leftarrow> rsp;
                         Some (Inr (driverName, SnapshotId snap, AsTime (csi_CreationTime snap),
                                    SizeBytes snap, csi_ReadyToUse snap), s) } } }"

definition snapshot_DeleteSnapshot ::
  "'w env \<Rightarrow> string \<Rightarrow> strmap \<Rightarrow> 'w st \<Rightarrow> (goerr option \<times> 'w st) option" where
  "snapshot_DeleteSnapshot E snapshotID snapshotterCredentials s =
    act (CSIDeleteSnapshot snapshotID snapshotterCredentials)
      (csi_DeleteSnapshot E snapshotID snapshotterCredentials) s"

definition isListSnapshotsSupported :: "'w env \<Rightarrow> 'w st \<Rightarrow> ((goerr + bool) \<times> 'w st) option" where
  "isListSnapshotsSupported E s =
    do { (r, s) \<leftarrow> call (csi_ControllerGetCapabilities E) s;
         case r of
           Inl err \<Rightarrow> Some (Inl err, s)
         | Inr capabilities \<Rightarrow> Some (Inr (List.member capabilities ''LIST_SNAPSHOTS''), s) }"

definition snapshot_GetSnapshotStatus ::
  "'w env \<Rightarrow> string \<Rightarrow> strmap \<Rightarrow> 'w st \<Rightarrow> ((goerr + bool \<times> Time \<times> int \<times> string) \<times> 'w st) option" where
  "snapshot_GetSnapshotStatus E snapshotID snapshotterListCredentials s =
    do { (r, s) \<leftarrow> isListSnapshotsSupported E s;
         case r of
           Inl err \<Rightarrow> Some (Inl (Errorf (sprint [''failed to check if ListSnapshots is supported: '',
             err_text err])), s)
         | Inr supported \<Rightarrow>
            if \<not> supported then Some (Inr (True, zeroTime, 0, []), s)
            else do {
              (r, s) \<leftarrow> act (CSIListSnapshots snapshotID snapshotterListCredentials)
                          (csi_ListSnapshots E snapshotID snapshotterListCredentials) s;
              case r of
                Inl err \<Rightarrow> Some (Inl err, s)
              | Inr [] \<Rightarrow> Some (Inl (Errorf (sprint [''can not find snapshot for snapshotID '', snapshotID])), s)
              | Inr (entry # _) \<Rightarrow>
                 do { snap \<leftarrow> entry;
                      Some (Inr (csi_ReadyToUse snap, AsTime (csi_CreationTime snap), SizeBytes snap,
                                 GroupSnapshotId snap), s) } } }"

definition NewSnapshotter :: "'w env \<Rightarrow> 'w snapshotter" where
  "NewSnapshotter E = \<lparr>sn_CreateSnapshot = snapshot_CreateSnapshot E,
     sn_DeleteSnapshot = snapshot_DeleteSnapshot E, sn_GetSnapshotStatus = snapshot_GetSnapshotStatus E\<rparr>"

section \<open>The Handler\<close>

record 'w handler =
  h_CreateSnapshot :: "VolumeSnapshotContent \<Rightarrow> strmap \<Rightarrow> strmap \<Rightarrow> 'w st
    \<Rightarrow> ((goerr + string \<times> string \<times> Time \<times> int \<times> bool) \<times> 'w st) option"
  h_DeleteSnapshot :: "VolumeSnapshotContent \<Rightarrow> strmap \<Rightarrow> 'w st \<Rightarrow> (goerr option \<times> 'w st) option"
  h_GetSnapshotStatus :: "VolumeSnapshotContent \<Rightarrow> strmap \<Rightarrow> 'w st
    \<Rightarrow> ((goerr + bool \<times> Time \<times> int \<times> string) \<times> 'w st) option"

text \<open>A slice beyond the end of the string, or of negative length, is a run-time panic.\<close>

definition makeSnapshotName :: "string \<Rightarrow> string \<Rightarrow> int \<Rightarrow> (goerr + string) option" where
  "makeSnapshotName namePrefix snapshotUID uuidLength =
    (if length snapshotUID = 0 then Some (Inl (Errorf ''Corrupted snapshot object, it is missing UID''))
     else if uuidLength = -1 then Some (Inr (namePrefix @ ''-'' @ snapshotUID))
     else
       let uid = filter (\<lambda>c. c \<noteq> CHR ''-'') snapshotUID in
       if uuidLength < 0 \<or> uuidLength > int (length uid) then None
       else Some (Inr (namePrefix @ ''-'' @ take (nat uuidLength) uid)))"

definition csiHandler_CreateSnapshot ::
  "'w env \<Rightarrow> 'w snapshotter \<Rightarrow> VolumeSnapshotContent \<Rightarrow> strmap \<Rightarrow> strmap \<Rightarrow> 'w st
    \<Rightarrow> ((goerr + string \<times> string \<times> Time \<times> int \<times> bool) \<times> 'w st) option" where
  "csiHandler_CreateSnapshot E S content parameters snapshotterCredentials s =
    (if ref_UID (vsc_Ref content) = [] then
       Some (Inl (Errorf (sprint [''cannot create snapshot. Snapshot content '', vsc_Name content,
         '' not bound to a snapshot''])), s)
     else case vsc_VolumeHandle content of
       None \<Rightarrow> Some (Inl (Errorf (sprint [''cannot create snapshot. Volume handle not found in snapshot content '',
         vsc_Name content])), s)
     | Some volumeHandle \<Rightarrow>
        do { r \<leftarrow> makeSnapshotName (snapshotNamePrefix E) (ref_UID (vsc_Ref content))
                    (snapshotNameUUIDLength E);
             case r of
               Inl err \<Rightarrow> Some (Inl err, s)
             | Inr snapshotName \<Rightarrow>
                sn_CreateSnapshot S snapshotName volumeHandle parameters snapshotterCredentials s })"

text \<open>The handle of a content: that of its status, else that of its source.\<close>

definition snapshotHandleOf :: "VolumeSnapshotContent \<Rightarrow> string option" where
  "snapshotHandleOf content =
    (case Option.bind (vsc_Status content) cs_SnapshotHandle of
       Some h \<Rightarrow> Some h
     | None \<Rightarrow> vsc_SnapshotHandle content)"

definition csiHandler_DeleteSnapshot ::
  "'w snapshotter \<Rightarrow> VolumeSnapshotContent \<Rightarrow> strmap \<Rightarrow> 'w st \<Rightarrow> (goerr option \<times> 'w st) option" where
  "csiHandler_DeleteSnapshot S content snapshotterCredentials s =
    (case snapshotHandleOf content of
       None \<Rightarrow> Some (Some (Errorf (sprint [''failed to delete snapshot content '', vsc_Name content,
         '': snapshotHandle is missing''])), s)
     | Some snapshotHandle \<Rightarrow>
        do { (err, s) \<leftarrow> sn_DeleteSnapshot S snapshotHandle snapshotterCredentials s;
             case err of
               Some err \<Rightarrow> Some (Some (Errorf (sprint [''failed to delete snapshot content '',
                 vsc_Name content, '': '', goQuote (err_text err)])), s)
             | None \<Rightarrow> Some (None, s) })"

definition csiHandler_GetSnapshotStatus ::
  "'w snapshotter \<Rightarrow> VolumeSnapshotContent \<Rightarrow> strmap \<Rightarrow> 'w st
    \<Rightarrow> ((goerr + bool \<times> Time \<times> int \<times> string) \<times> 'w st) option" where
  "csiHandler_GetSnapshotStatus S content snapshotterListCredentials s =
    (case snapshotHandleOf content of
       None \<Rightarrow> Some (Inl (Errorf (sprint [''failed to list snapshot for content '', vsc_Name content,
         '': snapshotHandle is missing''])), s)
     | Some snapshotHandle \<Rightarrow>
        do { (r, s) \<leftarrow> sn_GetSnapshotStatus S snapshotHandle snapshotterListCredentials s;
             case r of
               Inl err \<Rightarrow> Some (Inl (Errorf (sprint [''failed to list snapshot for content '',
                 vsc_Name content, '': '', goQuote (err_text err)])), s)
             | Inr st \<Rightarrow> Some (Inr st, s) })"

definition NewCSIHandler :: "'w env \<Rightarrow> 'w snapshotter \<Rightarrow> 'w handler" where
  "NewCSIHandler E S = \<lparr>h_CreateSnapshot = csiHandler_CreateSnapshot E S,
     h_DeleteSnapshot = csiHandler_DeleteSnapshot S,
     h_GetSnapshotStatus = csiHandler_GetSnapshotStatus S\<rparr>"

section \<open>The contracts\<close>

text \<open>An operation that only issues the given effects: nothing else of the state but the world changes.\<close>

definition issues :: "action list \<Rightarrow> 'w st \<Rightarrow> 'w st \<Rightarrow> bool" where
  "issues acts s s' \<longleftrightarrow> (\<exists>w. s' = s\<lparr>log := log s @ acts, world := w\<rparr>)"

lemma issues_sel:
  "issues acts s s' \<Longrightarrow> log s' = log s @ acts \<and> contentStore s' = contentStore s \<and>
     snapshotStore s' = snapshotStore s \<and> groupSnapshotStore s' = groupSnapshotStore s \<and>
     groupSnapshotContentStore s' = groupSnapshotContentStore s \<and> metricsManager s' = metricsManager s"
  by (auto simp: issues_def)

lemma issues_act: "ensures (act a f s) (\<lambda>_ s'. issues [a] s s')"
  by (auto simp: act_def call_def issues_def split: prod.split)

lemma issues_call: "ensures (call f s) (\<lambda>_ s'. issues [] s s')"
  by (auto simp: call_def issues_def split: prod.split intro!: exI)

lemma issues_trans: "issues xs s s1 \<Longrightarrow> issues ys s1 s2 \<Longrightarrow> issues (xs @ ys) s s2"
  by (auto simp: issues_def)

lemma issues_refl: "issues [] s s"
  by (simp add: issues_def exI[of _ "world s"])

text \<open>
  What a client may rely on: a creation, a deletion and a status query are one RPC each, with exactly the
  arguments of the operation, and nothing else; when a creation succeeds the RPC was made, and when a
  deletion succeeds the driver has confirmed it. The status query may also be answered without an RPC.
\<close>

locale snapshotter_contract =
  fixes S :: "'w snapshotter" and deleted :: "string \<Rightarrow> strmap \<Rightarrow> bool"
  assumes create_calls: "sn_CreateSnapshot S nm vol params secrets s = Some (r, s') \<Longrightarrow>
      (isl r \<and> issues [] s s') \<or>
      issues [CSICreateSnapshot \<lparr>SourceVolumeId = vol, req_Name = nm, Parameters = params, Secrets = secrets\<rparr>] s s'"
    and delete_calls: "sn_DeleteSnapshot S h secrets s = Some (err, s') \<Longrightarrow>
      issues [CSIDeleteSnapshot h secrets] s s' \<and> (err = None \<longrightarrow> deleted h secrets)"
    and status_calls: "sn_GetSnapshotStatus S h secrets s = Some (st, s') \<Longrightarrow>
      issues [] s s' \<or> issues [CSIListSnapshots h secrets] s s'"

text \<open>
  The contract of the handler. A creation is made in the name that belongs to the UID of the snapshot
  (so that a retry is the same request), for the volume handle of the content; a deletion is for the
  handle of the content and is confirmed by the driver when no error is returned.
\<close>

locale handler_contract =
  fixes H :: "'w handler" and nameOf :: "string \<Rightarrow> string option" and deleted :: "string \<Rightarrow> strmap \<Rightarrow> bool"
  assumes create_calls: "h_CreateSnapshot H c params secrets s = Some (r, s') \<Longrightarrow>
      (isl r \<and> issues [] s s') \<or>
      (\<exists>vol nm. vsc_VolumeHandle c = Some vol \<and> nameOf (ref_UID (vsc_Ref c)) = Some nm \<and> ref_UID (vsc_Ref c) \<noteq> [] \<and>
        issues [CSICreateSnapshot \<lparr>SourceVolumeId = vol, req_Name = nm, Parameters = params, Secrets = secrets\<rparr>] s s')"
    and delete_calls: "h_DeleteSnapshot H c secrets s = Some (err, s') \<Longrightarrow>
      (snapshotHandleOf c = None \<and> err \<noteq> None \<and> issues [] s s') \<or>
      (\<exists>h. snapshotHandleOf c = Some h \<and> issues [CSIDeleteSnapshot h secrets] s s' \<and>
        (err = None \<longrightarrow> deleted h secrets))"
    and status_calls: "h_GetSnapshotStatus H c secrets s = Some (st, s') \<Longrightarrow>
      issues [] s s' \<or> (\<exists>h. snapshotHandleOf c = Some h \<and> issues [CSIListSnapshots h secrets] s s')"

text \<open>The driver has confirmed a deletion.\<close>

definition confirmed :: "'w env \<Rightarrow> string \<Rightarrow> strmap \<Rightarrow> bool" where
  "confirmed E h secrets = (\<exists>w. fst (csi_DeleteSnapshot E h secrets w) = None)"

lemma confirmedI: "csi_DeleteSnapshot E h secrets w = (None, w') \<Longrightarrow> confirmed E h secrets"
  unfolding confirmed_def by (rule exI[of _ w]) simp

interpretation sn: snapshotter_contract "NewSnapshotter E" "confirmed E" for E
proof unfold_locales
  fix nm vol params secrets h r err st and s s' :: "'a st"
  show "sn_CreateSnapshot (NewSnapshotter E) nm vol params secrets s = Some (r, s') \<Longrightarrow>
      (isl r \<and> issues [] s s') \<or>
      issues [CSICreateSnapshot \<lparr>SourceVolumeId = vol, req_Name = nm, Parameters = params, Secrets = secrets\<rparr>] s s'"
    by (auto simp: NewSnapshotter_def snapshot_CreateSnapshot_def call_def act_def issues_def Let_def
        split: prod.splits sum.splits Option.bind_splits)
  show "sn_DeleteSnapshot (NewSnapshotter E) h secrets s = Some (err, s') \<Longrightarrow>
      issues [CSIDeleteSnapshot h secrets] s s' \<and> (err = None \<longrightarrow> confirmed E h secrets)"
    by (auto simp: NewSnapshotter_def snapshot_DeleteSnapshot_def call_def act_def issues_def
        split: prod.splits intro: confirmedI)
  show "sn_GetSnapshotStatus (NewSnapshotter E) h secrets s = Some (st, s') \<Longrightarrow>
      issues [] s s' \<or> issues [CSIListSnapshots h secrets] s s'"
    by (auto simp: NewSnapshotter_def snapshot_GetSnapshotStatus_def isListSnapshotsSupported_def call_def act_def
        issues_def split: prod.splits sum.splits list.splits if_splits Option.bind_splits)
qed

definition snapshotNameOf :: "'w env \<Rightarrow> string \<Rightarrow> string option" where
  "snapshotNameOf E uid = (case makeSnapshotName (snapshotNamePrefix E) uid (snapshotNameUUIDLength E) of
     Some (Inr n) \<Rightarrow> Some n | _ \<Rightarrow> None)"

text \<open>The handler keeps its contract over any Snapshotter that keeps its own.\<close>

sublocale snapshotter_contract < handler: handler_contract "NewCSIHandler E S" "snapshotNameOf E" deleted for E
proof unfold_locales
  fix c params secrets r err st and s s' :: "'w st"
  show "h_CreateSnapshot (NewCSIHandler E S) c params secrets s = Some (r, s') \<Longrightarrow>
      (isl r \<and> issues [] s s') \<or>
      (\<exists>vol nm. vsc_VolumeHandle c = Some vol \<and> snapshotNameOf E (ref_UID (vsc_Ref c)) = Some nm \<and>
        ref_UID (vsc_Ref c) \<noteq> [] \<and>
        issues [CSICreateSnapshot \<lparr>SourceVolumeId = vol, req_Name = nm, Parameters = params, Secrets = secrets\<rparr>] s s')"
    by (auto simp: NewCSIHandler_def csiHandler_CreateSnapshot_def snapshotNameOf_def issues_refl
        split: option.splits if_splits sum.splits Option.bind_splits dest: create_calls)
  show "h_DeleteSnapshot (NewCSIHandler E S) c secrets s = Some (err, s') \<Longrightarrow>
      (snapshotHandleOf c = None \<and> err \<noteq> None \<and> issues [] s s') \<or>
      (\<exists>h. snapshotHandleOf c = Some h \<and> issues [CSIDeleteSnapshot h secrets] s s' \<and>
        (err = None \<longrightarrow> deleted h secrets))"
    by (auto simp: NewCSIHandler_def csiHandler_DeleteSnapshot_def issues_refl
        split: option.splits Option.bind_splits dest: delete_calls)
  show "h_GetSnapshotStatus (NewCSIHandler E S) c secrets s = Some (st, s') \<Longrightarrow>
      issues [] s s' \<or> (\<exists>h. snapshotHandleOf c = Some h \<and> issues [CSIListSnapshots h secrets] s s')"
    by (auto simp: NewCSIHandler_def csiHandler_GetSnapshotStatus_def issues_refl
        split: option.splits sum.splits Option.bind_splits dest: status_calls)
qed

text \<open>The handler the sidecar runs with.\<close>

definition theHandler :: "'w env \<Rightarrow> 'w handler" where
  "theHandler E = NewCSIHandler E (NewSnapshotter E)"

interpretation hd: handler_contract "theHandler E" "snapshotNameOf E" "confirmed E" for E
  unfolding theHandler_def by (rule sn.handler.handler_contract_axioms)

context effects
begin

lemma issues_I: "issues acts s s' \<Longrightarrow> list_all ok acts \<Longrightarrow> I s \<Longrightarrow> I s'"
proof (induction acts arbitrary: s)
  case Nil
  then show ?case using I_world by (auto simp: issues_def)
next
  case (Cons a acts)
  have "issues acts (s\<lparr>log := log s @ [a]\<rparr>) s'" using Cons.prems(1) by (auto simp: issues_def)
  then show ?case using Cons.IH[of "s\<lparr>log := log s @ [a]\<rparr>"] Cons.prems I_log[of a s] by simp
qed

end

text \<open>A client of the handler whose invariant survives every effect the handler may issue.\<close>

locale handler_client = effects I ok touch + handler_contract H nameOf deleted
  for I :: "'w st \<Rightarrow> bool" and ok touch and H :: "'w handler" and nameOf deleted
begin

lemma h_CreateSnapshot_I:
  assumes "\<And>req. ok (CSICreateSnapshot req)" "I s" "\<And>r s'. I s' \<Longrightarrow> Q r s'"
  shows "ensures (h_CreateSnapshot H c params secrets s) Q"
proof (rule ensuresI)
  fix r s' assume "h_CreateSnapshot H c params secrets s = Some (r, s')"
  from create_calls[OF this] have "I s'" using assms(1,2) issues_I by fastforce
  then show "Q r s'" by (rule assms(3))
qed

lemma h_DeleteSnapshot_I:
  assumes "\<And>h cr. ok (CSIDeleteSnapshot h cr)" "I s" "\<And>r s'. I s' \<Longrightarrow> Q r s'"
  shows "ensures (h_DeleteSnapshot H c secrets s) Q"
proof (rule ensuresI)
  fix r s' assume "h_DeleteSnapshot H c secrets s = Some (r, s')"
  from delete_calls[OF this] have "I s'" using assms(1,2) issues_I by fastforce
  then show "Q r s'" by (rule assms(3))
qed

lemma h_GetSnapshotStatus_I:
  assumes "\<And>h cr. ok (CSIListSnapshots h cr)" "I s" "\<And>r s'. I s' \<Longrightarrow> Q r s'"
  shows "ensures (h_GetSnapshotStatus H c secrets s) Q"
proof (rule ensuresI)
  fix r s' assume "h_GetSnapshotStatus H c secrets s = Some (r, s')"
  from status_calls[OF this] have "I s'" using assms(1,2) issues_I by fastforce
  then show "Q r s'" by (rule assms(3))
qed

end

interpretation hc: handler_client "onlyNew ok l0" ok "\<lambda>_. True" "theHandler E" "snapshotNameOf E" "confirmed E"
  for ok l0 E
  by unfold_locales

section \<open>Properties\<close>

text \<open>C36: The driver is asked for exactly the snapshot of the content. A creation that succeeds was one call,
  for the volume of the content and under the name that belongs to the UID of its snapshot, so every
  retry repeats the same request. A deletion is one call, for the handle in the status of the content; when the status
  has none, for the handle in its source; and when that has none either, no call and an error. No other effect is issued,
  on success or on failure, and the caches are left alone.\<close>

theorem driver_calls_are_exact:
  assumes "h_CreateSnapshot (theHandler E) c params secrets s = Some (r, s')"
    and "h_DeleteSnapshot (theHandler E) d secrets t = Some (err, t')"
  shows "(\<exists>new. log s' = log s @ new \<and> contentStore s' = contentStore s \<and> (new = [] \<longrightarrow> isl r) \<and>
      (new \<noteq> [] \<longrightarrow> (\<exists>vol nm. vsc_VolumeHandle c = Some vol \<and> ref_UID (vsc_Ref c) \<noteq> [] \<and>
         makeSnapshotName (snapshotNamePrefix E) (ref_UID (vsc_Ref c)) (snapshotNameUUIDLength E) = Some (Inr nm) \<and>
         new = [CSICreateSnapshot \<lparr>SourceVolumeId = vol, req_Name = nm, Parameters = params, Secrets = secrets\<rparr>]))) \<and>
    contentStore t' = contentStore t \<and>
    (case Option.bind (vsc_Status d) cs_SnapshotHandle of
       Some h \<Rightarrow> log t' = log t @ [CSIDeleteSnapshot h secrets]
     | None \<Rightarrow> (case SnapshotHandle (spec_Source (vsc_Spec d)) of
         Some h \<Rightarrow> log t' = log t @ [CSIDeleteSnapshot h secrets]
       | None \<Rightarrow> log t' = log t \<and> err \<noteq> None))"
proof -
  have nm: "snapshotNameOf E u = Some n \<Longrightarrow>
      makeSnapshotName (snapshotNamePrefix E) u (snapshotNameUUIDLength E) = Some (Inr n)" for u n
    by (auto simp: snapshotNameOf_def split: option.splits sum.splits)
  have a: "\<exists>new. log s' = log s @ new \<and> contentStore s' = contentStore s \<and> (new = [] \<longrightarrow> isl r) \<and>
      (new \<noteq> [] \<longrightarrow> (\<exists>vol nm. vsc_VolumeHandle c = Some vol \<and> ref_UID (vsc_Ref c) \<noteq> [] \<and>
         makeSnapshotName (snapshotNamePrefix E) (ref_UID (vsc_Ref c)) (snapshotNameUUIDLength E) = Some (Inr nm) \<and>
         new = [CSICreateSnapshot \<lparr>SourceVolumeId = vol, req_Name = nm, Parameters = params, Secrets = secrets\<rparr>]))"
    using hd.create_calls[OF assms(1)]
  proof (elim disjE exE conjE)
    assume "isl r" "issues [] s s'"
    then show ?thesis using issues_sel[of "[]" s s'] by auto
  next
    fix vol n assume "vsc_VolumeHandle c = Some vol" "snapshotNameOf E (ref_UID (vsc_Ref c)) = Some n"
      "ref_UID (vsc_Ref c) \<noteq> []"
      "issues [CSICreateSnapshot \<lparr>SourceVolumeId = vol, req_Name = n, Parameters = params, Secrets = secrets\<rparr>] s s'"
    then show ?thesis using issues_sel nm by fastforce
  qed
  have "log t' = log t @ (case snapshotHandleOf d of None \<Rightarrow> [] | Some h \<Rightarrow> [CSIDeleteSnapshot h secrets]) \<and>
      contentStore t' = contentStore t \<and> (snapshotHandleOf d = None \<longrightarrow> err \<noteq> None)"
    using hd.delete_calls[OF assms(2)] by (auto dest: issues_sel)
  then have "contentStore t' = contentStore t \<and>
    (case Option.bind (vsc_Status d) cs_SnapshotHandle of
       Some h \<Rightarrow> log t' = log t @ [CSIDeleteSnapshot h secrets]
     | None \<Rightarrow> (case SnapshotHandle (spec_Source (vsc_Spec d)) of
         Some h \<Rightarrow> log t' = log t @ [CSIDeleteSnapshot h secrets]
       | None \<Rightarrow> log t' = log t \<and> err \<noteq> None))"
    unfolding snapshotHandleOf_def by (auto split: option.splits)
  then show ?thesis using a by blast
qed

definition demoCSIEnv :: "unit env" where
  "demoCSIEnv = nullEnv\<lparr>csi_CreateSnapshot := \<lambda>req w. (Inr (Some \<lparr>SnapshotId = ''snap-1'',
     csi_SourceVolumeId = SourceVolumeId req, SizeBytes = 1024, csi_CreationTime = Some 5,
     csi_ReadyToUse = True, GroupSnapshotId = []\<rparr>), w)\<rparr>"

definition demoSource :: VolumeSnapshotContent where
  "demoSource = emptyVolumeSnapshotContent\<lparr>
     vsc_meta := emptyMeta\<lparr>Name := ''snapcontent-uid1'', ResourceVersion := ''9''\<rparr>,
     vsc_Spec := \<lparr>VolumeSnapshotRef = emptyRef\<lparr>ref_Name := ''snap1'', ref_Namespace := ''ns1'',
         ref_UID := ''uid1''\<rparr>,
       spec_DeletionPolicy = VolumeSnapshotContentDelete, spec_Driver = ''drv'',
       spec_VolumeSnapshotClassName = Some ''class1'',
       spec_Source = \<lparr>VolumeHandle = Some ''vol1'', SnapshotHandle = None\<rparr>, SourceVolumeMode = None\<rparr>,
     vsc_Status := Some (emptyContentStatus\<lparr>cs_SnapshotHandle := Some ''snap-1''\<rparr>)\<rparr>"

definition demoTwoHandles :: VolumeSnapshotContent where
  "demoTwoHandles = demoSource\<lparr>vsc_Spec := (vsc_Spec demoSource)\<lparr>spec_Source :=
     \<lparr>VolumeHandle = None, SnapshotHandle = Some ''other''\<rparr>\<rparr>\<rparr>"

lemma demo_csi_create:
  "\<exists>s'. h_CreateSnapshot (theHandler demoCSIEnv) demoSource fmempty fmempty (initialState ()) =
     Some (Inr (''drv'', ''snap-1'', 5, 1024, True), s')"
  by (simp add: theHandler_def NewCSIHandler_def NewSnapshotter_def csiHandler_CreateSnapshot_def
      snapshot_CreateSnapshot_def makeSnapshotName_def demoCSIEnv_def nullEnv_def demoSource_def emptyRef_def
      call_def act_def AsTime_def)

lemma demo_csi_delete:
  "\<exists>s'. h_DeleteSnapshot (theHandler demoCSIEnv) demoTwoHandles fmempty (initialState ()) = Some (None, s')"
  by (simp add: theHandler_def NewCSIHandler_def NewSnapshotter_def csiHandler_DeleteSnapshot_def
      snapshot_DeleteSnapshot_def snapshotHandleOf_def demoCSIEnv_def nullEnv_def demoTwoHandles_def demoSource_def
      emptyContentStatus_def call_def act_def)

theorem driver_calls_are_exact_witness:
  "\<exists>r s' t' vol. h_CreateSnapshot (theHandler demoCSIEnv) demoSource fmempty fmempty (initialState ()) = Some (r, s') \<and>
     log s' = [CSICreateSnapshot \<lparr>SourceVolumeId = vol, req_Name = ''snapshot-uid1'', Parameters = fmempty, Secrets = fmempty\<rparr>] \<and>
     h_DeleteSnapshot (theHandler demoCSIEnv) demoTwoHandles fmempty (initialState ()) = Some (None, t') \<and>
     log t' = [CSIDeleteSnapshot ''snap-1'' fmempty]"
proof -
  obtain s' where c: "h_CreateSnapshot (theHandler demoCSIEnv) demoSource fmempty fmempty (initialState ()) =
     Some (Inr (''drv'', ''snap-1'', 5, 1024, True), s')" using demo_csi_create by blast
  obtain t' where d: "h_DeleteSnapshot (theHandler demoCSIEnv) demoTwoHandles fmempty (initialState ()) = Some (None, t')"
    using demo_csi_delete by blast
  have n: "makeSnapshotName (snapshotNamePrefix demoCSIEnv) (ref_UID (vsc_Ref demoSource))
      (snapshotNameUUIDLength demoCSIEnv) = Some (Inr ''snapshot-uid1'')"
    by (simp add: makeSnapshotName_def demoCSIEnv_def nullEnv_def demoSource_def emptyRef_def)
  have h: "Option.bind (vsc_Status demoTwoHandles) cs_SnapshotHandle = Some ''snap-1''"
    by (simp add: demoTwoHandles_def demoSource_def)
  have "log (initialState ()) = []" by (simp add: initialState_def)
  then show ?thesis using driver_calls_are_exact[OF c d] c d by (auto simp: n h)
qed

text \<open>The name of a snapshot on the storage system. It is a run-time panic exactly when the UID has fewer
  characters that are not dashes than the configured length, or the length is negative and not -1. With
  the default length -1 two snapshots share a name only when they share the UID; with a length they
  share it exactly when their UIDs agree that far without their dashes, and then the second creation is
  taken for a retry of the first.\<close>

theorem snapshot_names_identify_snapshots:
  assumes "makeSnapshotName p u n = Some (Inr a)" and "makeSnapshotName p u' n = Some (Inr b)"
  shows "(a = b \<longleftrightarrow> (if n = -1 then u = u'
      else take (nat n) (filter (\<lambda>c. c \<noteq> CHR ''-'') u) = take (nat n) (filter (\<lambda>c. c \<noteq> CHR ''-'') u'))) \<and>
    (makeSnapshotName p u m = None \<longleftrightarrow>
      m \<noteq> -1 \<and> (m < 0 \<or> m > int (length (filter (\<lambda>c. c \<noteq> CHR ''-'') u))))"
proof -
  have "u \<noteq> []" "u' \<noteq> []" using assms by (auto simp: makeSnapshotName_def)
  then show ?thesis using assms by (auto simp: makeSnapshotName_def Let_def split: if_splits)
qed

theorem snapshot_names_identify_snapshots_witness:
  "makeSnapshotName ''snapshot'' ''ab-c1'' 3 = makeSnapshotName ''snapshot'' ''abc-2'' 3 \<and>
   makeSnapshotName ''snapshot'' ''ab-c1'' 5 = None"
proof -
  have a: "makeSnapshotName ''snapshot'' ''ab-c1'' 3 = Some (Inr ''snapshot-abc'')"
    "makeSnapshotName ''snapshot'' ''abc-2'' 3 = Some (Inr ''snapshot-abc'')"
    by (simp_all add: makeSnapshotName_def numeral_eq_Suc)
  show ?thesis using a snapshot_names_identify_snapshots[OF a, of 5] by simp
qed

end
