(* ===== verification/Sidecar.thy ===== *)
theory Sidecar
  imports CsiHandler
begin

text \<open>
  The sidecar controller of the CSI driver (\<open>pkg/sidecar-controller/snapshot_controller.go\<close>): it reconciles
  contents, creating, querying and deleting the snapshot on the storage system through the handler. The
  handler is an argument, as the interface value it is in the source; the locales of this theory prove
  what the reconciler does from the handler's contract alone.
\<close>

section \<open>Small checks\<close>

definition groupSnapshotMember :: "VolumeSnapshotContent \<Rightarrow> bool" where
  "groupSnapshotMember content =
    (fmlookup (Annotations (vsc_meta content)) VolumeGroupSnapshotHandleAnnotation \<noteq> None)"

definition contentIsReady :: "VolumeSnapshotContent \<Rightarrow> bool" where
  "contentIsReady content =
    (case vsc_Status content of None \<Rightarrow> False | Some st \<Rightarrow> cs_ReadyToUse st = Some True)"

definition shouldDelete :: "VolumeSnapshotContent \<Rightarrow> bool" where
  "shouldDelete content =
    (if DeletionTimestamp (vsc_meta content) = None then False
     else if vsc_SnapshotHandle content \<noteq> None \<and> ref_UID (vsc_Ref content) = [] then True
     else if HasAnnotation (vsc_meta content) AnnVolumeSnapshotBeingCreated then False
     else if HasAnnotation (vsc_meta content) AnnVolumeSnapshotBeingDeleted then True
     else False)"

text \<open>Only gRPC status errors can be final.\<close>

fun isCSIFinalError :: "goerr \<Rightarrow> bool" where
  "isCSIFinalError (GRPCStatus code t) =
    (code \<notin> {codes_Canceled, codes_DeadlineExceeded, codes_Unavailable, codes_ResourceExhausted, codes_Aborted})"
| "isCSIFinalError _ = False"

section \<open>Annotations and finalizers\<close>

text \<open>The patches. In a JSON pointer a slash is written \<open>~1\<close>.\<close>

definition setAnnOps :: "VolumeSnapshotContent \<Rightarrow> PatchOp list" where
  "setAnnOps content = [patchOp ''replace'' ''/metadata/annotations''
     (PVMap (fmupd AnnVolumeSnapshotBeingCreated ''yes'' (Annotations (vsc_meta content))))]"

definition escapeSlashes :: "string \<Rightarrow> string" where
  "escapeSlashes = concat \<circ> map (\<lambda>c. if c = CHR ''/'' then ''~1'' else [c])"

definition removeAnnOps :: "PatchOp list" where
  "removeAnnOps = [patchOp ''remove'' (''/metadata/annotations/'' @ escapeSlashes AnnVolumeSnapshotBeingCreated) PVNone]"

definition unfinalizeOps :: "VolumeSnapshotContent \<Rightarrow> PatchOp list" where
  "unfinalizeOps content = [patchOp ''replace'' ''/metadata/finalizers''
     (PVStrings (RemoveString (Finalizers (vsc_meta content)) VolumeSnapshotContentFinalizer))]"

text \<open>The content and the error, of which the source always returns both.\<close>

definition setAnnVolumeSnapshotBeingCreated ::
  "'w env \<Rightarrow> VolumeSnapshotContent \<Rightarrow> 'w st
    \<Rightarrow> ((VolumeSnapshotContent \<times> goerr option) \<times> 'w st) option" where
  "setAnnVolumeSnapshotBeingCreated E content s =
    (if HasAnnotation (vsc_meta content) AnnVolumeSnapshotBeingCreated then Some ((content, None), s)
     else
       do { ((patchedContent, err), s) \<leftarrow> PatchVolumeSnapshotContent E content (setAnnOps content) [] s;
            case err of
              Some err \<Rightarrow> Some ((content, Some (newControllerUpdateError (vsc_Name content) (err_text err))), s)
            | None \<Rightarrow>
               do { (_, s) \<leftarrow> storeContentUpdate (ObjVSC patchedContent) s;
                    Some ((patchedContent, None), s) } })"

definition removeAnnVolumeSnapshotBeingCreated ::
  "'w env \<Rightarrow> VolumeSnapshotContent \<Rightarrow> 'w st
    \<Rightarrow> ((VolumeSnapshotContent \<times> goerr option) \<times> 'w st) option" where
  "removeAnnVolumeSnapshotBeingCreated E content s =
    (if \<not> HasAnnotation (vsc_meta content) AnnVolumeSnapshotBeingCreated then Some ((content, None), s)
     else
       do { ((updatedContent, err), s) \<leftarrow> PatchVolumeSnapshotContent E content removeAnnOps [] s;
            case err of
              Some err \<Rightarrow> Some ((content, Some (newControllerUpdateError (vsc_Name content) (err_text err))), s)
            | None \<Rightarrow>
               do { (_, s) \<leftarrow> storeContentUpdate (ObjVSC updatedContent) s;
                    Some ((updatedContent, None), s) } })"

definition removeContentFinalizer ::
  "'w env \<Rightarrow> VolumeSnapshotContent \<Rightarrow> 'w st \<Rightarrow> (goerr option \<times> 'w st) option" where
  "removeContentFinalizer E content s =
    (if \<not> Contains (Finalizers (vsc_meta content)) VolumeSnapshotContentFinalizer then Some (None, s)
     else
       do { ((updatedContent, err), s) \<leftarrow> PatchVolumeSnapshotContent E content (unfinalizeOps content) [] s;
            case err of
              Some err \<Rightarrow> Some (Some (newControllerUpdateError (vsc_Name content) (err_text err)), s)
            | None \<Rightarrow> do { (_, s) \<leftarrow> storeContentUpdate (ObjVSC updatedContent) s; Some (None, s) } })"

section \<open>Credentials and class\<close>

definition GetCredentialsFromAnnotation ::
  "'w env \<Rightarrow> VolumeSnapshotContent \<Rightarrow> 'w st \<Rightarrow> ((goerr + strmap) \<times> 'w st) option" where
  "GetCredentialsFromAnnotation E content s =
    (if HasAnnotation (vsc_meta content) AnnDeletionSecretRefName \<and>
        HasAnnotation (vsc_meta content) AnnDeletionSecretRefNamespace then
       let secretName = mapGet (Annotations (vsc_meta content)) AnnDeletionSecretRefName;
           secretNamespace = mapGet (Annotations (vsc_meta content)) AnnDeletionSecretRefNamespace in
       if secretName = [] \<or> secretNamespace = [] then
         Some (Inl (Errorf (sprint [''cannot retrieve secrets for snapshot content '',
           goQuote (vsc_Name content), '', err: secret name or namespace not specified''])), s)
       else do {
         (r, s) \<leftarrow> GetCredentials E (Some \<lparr>sec_Name = secretName, sec_Namespace = secretNamespace\<rparr>) s;
         case r of
           Inl err \<Rightarrow> Some (Inl (Errorf (sprint [''cannot get credentials for snapshot content '',
             goQuote (vsc_Name content)])), s)
         | Inr creds \<Rightarrow> Some (Inr creds, s) }
     else Some (Inr fmempty, s))"

definition getSnapshotClass_sidecar ::
  "'w env \<Rightarrow> string \<Rightarrow> 'w st \<Rightarrow> ((goerr + VolumeSnapshotClass) \<times> 'w st) option" where
  "getSnapshotClass_sidecar E className s = call (lister_GetClass E className) s"

definition getCSISnapshotInput ::
  "'w env \<Rightarrow> VolumeSnapshotContent \<Rightarrow> 'w st
    \<Rightarrow> ((goerr + VolumeSnapshotClass option \<times> strmap) \<times> 'w st) option" where
  "getCSISnapshotInput E content s =
    do { (r, s) \<leftarrow>
           (case spec_VolumeSnapshotClassName (vsc_Spec content) of
              Some className \<Rightarrow>
                do { (r, s) \<leftarrow> getSnapshotClass_sidecar E className s;
                     Some (map_sum (\<lambda>e. e) Some r, s) }
            | None \<Rightarrow>
                if vsc_VolumeHandle content \<noteq> None \<and> \<not> groupSnapshotMember content then
                  Some (Inl (Errorf (sprint [''failed to take snapshot '', vsc_Name content,
                    '' without a snapshot class''])), s)
                else Some (Inr None, s));
         case r of
           Inl err \<Rightarrow> Some (Inl err, s)
         | Inr class \<Rightarrow>
            do { (r, s) \<leftarrow> GetCredentialsFromAnnotation E content s;
                 case r of
                   Inl err \<Rightarrow> Some (Inl err, s)
                 | Inr creds \<Rightarrow> Some (Inr (class, creds), s) } }"

section \<open>The status of a content\<close>

text \<open>The new status and whether it differs, as the source computes it from what the driver reported.\<close>

record csiFacts =
  r_handle :: string
  r_ready :: bool
  r_createdAt :: int
  r_size :: int
  r_group :: string

definition withHandle :: "csiFacts \<Rightarrow> VolumeSnapshotContentStatus \<times> bool \<Rightarrow> VolumeSnapshotContentStatus \<times> bool" where
  "withHandle f = (\<lambda>(st, updated).
     if cs_SnapshotHandle st = None then (st\<lparr>cs_SnapshotHandle := Some (r_handle f)\<rparr>, True) else (st, updated))"

definition withReady :: "csiFacts \<Rightarrow> VolumeSnapshotContentStatus \<times> bool \<Rightarrow> VolumeSnapshotContentStatus \<times> bool" where
  "withReady f = (\<lambda>(st, updated).
     if cs_ReadyToUse st \<noteq> Some (r_ready f) then
       (let st = st\<lparr>cs_ReadyToUse := Some (r_ready f)\<rparr> in
        if r_ready f \<and> cs_Error st \<noteq> None then st\<lparr>cs_Error := None\<rparr> else st, True)
     else (st, updated))"

definition withCreationTime :: "csiFacts \<Rightarrow> VolumeSnapshotContentStatus \<times> bool \<Rightarrow> VolumeSnapshotContentStatus \<times> bool" where
  "withCreationTime f = (\<lambda>(st, updated).
     if cs_CreationTime st = None then (st\<lparr>cs_CreationTime := Some (r_createdAt f)\<rparr>, True) else (st, updated))"

definition withSize :: "csiFacts \<Rightarrow> VolumeSnapshotContentStatus \<times> bool \<Rightarrow> VolumeSnapshotContentStatus \<times> bool" where
  "withSize f = (\<lambda>(st, updated).
     if cs_RestoreSize st = None \<and> r_size f > 0 then (st\<lparr>cs_RestoreSize := Some (r_size f)\<rparr>, True) else (st, updated))"

definition withGroup :: "csiFacts \<Rightarrow> VolumeSnapshotContentStatus \<times> bool \<Rightarrow> VolumeSnapshotContentStatus \<times> bool" where
  "withGroup f = (\<lambda>(st, updated).
     if cs_VolumeGroupSnapshotHandle st = None \<and> r_group f \<noteq> []
     then (st\<lparr>cs_VolumeGroupSnapshotHandle := Some (r_group f)\<rparr>, True) else (st, updated))"

definition computeContentStatus ::
  "VolumeSnapshotContentStatus option \<Rightarrow> csiFacts \<Rightarrow> VolumeSnapshotContentStatus \<times> bool" where
  "computeContentStatus old f =
    (case old of
       None \<Rightarrow> (\<lparr>cs_SnapshotHandle = Some (r_handle f), cs_CreationTime = Some (r_createdAt f),
                  cs_RestoreSize = (if r_size f > 0 then Some (r_size f) else None),
                  cs_ReadyToUse = Some (r_ready f), cs_Error = None,
                  cs_VolumeGroupSnapshotHandle = (if r_group f \<noteq> [] then Some (r_group f) else None)\<rparr>, True)
     | Some st \<Rightarrow> withGroup f (withSize f (withCreationTime f (withReady f (withHandle f (st, False))))))"

definition statusOps :: "VolumeSnapshotContentStatus \<Rightarrow> PatchOp list" where
  "statusOps st = [patchOp ''replace'' ''/status'' (PVContentStatus st)]"

text \<open>On an error the caller uses the error only.\<close>

definition updateSnapshotContentStatus ::
  "'w env \<Rightarrow> VolumeSnapshotContent \<Rightarrow> csiFacts \<Rightarrow> 'w st
    \<Rightarrow> ((goerr + VolumeSnapshotContent) \<times> 'w st) option" where
  "updateSnapshotContentStatus E content f s =
    do { (r, s) \<leftarrow> call (api_GetVSC E (vsc_Name content)) s;
         case r of
           Inl err \<Rightarrow> Some (Inl (Errorf (sprint [''error get snapshot content '', vsc_Name content,
             '' from api server: '', err_text err])), s)
         | Inr contentObj \<Rightarrow>
            let (newStatus, updated) = computeContentStatus (vsc_Status contentObj) f in
            if updated then
              do { ((newContent, err), s) \<leftarrow> PatchVolumeSnapshotContent E contentObj
                     (statusOps newStatus) [''status''] s;
                   case err of
                     Some err \<Rightarrow> Some (Inl (newControllerUpdateError (vsc_Name content) (err_text err)), s)
                   | None \<Rightarrow> Some (Inr newContent, s) }
            else Some (Inr contentObj, s) }"

definition sameContentError :: "VolumeSnapshotContentStatus option \<Rightarrow> string \<Rightarrow> bool option" where
  "sameContentError st message =
    (case Option.bind st cs_Error of
       None \<Rightarrow> Some False
     | Some e \<Rightarrow> map_option (\<lambda>m. m = message) (err_Message e))"

definition errorPatches ::
  "VolumeSnapshotContentStatus option \<Rightarrow> Time \<Rightarrow> string \<Rightarrow> PatchOp list" where
  "errorPatches st now message =
    (let err = \<lparr>err_Time = Some now, err_Message = Some message\<rparr> in
     case st of
       None \<Rightarrow> [patchOp ''replace'' ''/status''
          (PVContentStatus (emptyContentStatus\<lparr>cs_ReadyToUse := Some False, cs_Error := Some err\<rparr>))]
     | Some _ \<Rightarrow> [patchOp ''replace'' ''/status/error'' (PVError err),
                  patchOp ''replace'' ''/status/readyToUse'' (PVBool False)])"

definition updateContentErrorStatusWithEvent ::
  "'w env \<Rightarrow> VolumeSnapshotContent \<Rightarrow> event_type \<Rightarrow> string \<Rightarrow> string \<Rightarrow> 'w st
    \<Rightarrow> (goerr option \<times> 'w st) option" where
  "updateContentErrorStatusWithEvent E content eventtype reason message s =
    do { same \<leftarrow> sameContentError (vsc_Status content) message;
         if same then Some (None, s)
         else do {
           (now, s) \<leftarrow> call (time_Now E) s;
           ((newContent, err), s) \<leftarrow> PatchVolumeSnapshotContent E content
              (errorPatches (vsc_Status content) now message) [''status''] s;
           let s = emit (Event (ObjVSC newContent) eventtype reason message) s;
           case err of
             Some err \<Rightarrow> Some (Some err, s)
           | None \<Rightarrow>
              do { (r, s) \<leftarrow> storeContentUpdate (ObjVSC newContent) s;
                   case r of Inl err \<Rightarrow> Some (Some err, s) | Inr _ \<Rightarrow> Some (None, s) } } }"

section \<open>Deletion\<close>

definition clearedStatus :: "VolumeSnapshotContent \<Rightarrow> VolumeSnapshotContent" where
  "clearedStatus content =
    (case vsc_Status content of
       None \<Rightarrow> content
     | Some st \<Rightarrow> content\<lparr>vsc_Status := Some (st\<lparr>cs_SnapshotHandle := None, cs_ReadyToUse := None,
                    cs_CreationTime := None, cs_RestoreSize := None\<rparr>)\<rparr>)"

definition clearVolumeContentStatus ::
  "'w env \<Rightarrow> string \<Rightarrow> 'w st \<Rightarrow> ((goerr + VolumeSnapshotContent) \<times> 'w st) option" where
  "clearVolumeContentStatus E contentName s =
    do { (r, s) \<leftarrow> call (api_GetVSC E contentName) s;
         case r of
           Inl err \<Rightarrow> Some (Inl (Errorf (sprint [''error get snapshot content '', contentName,
             '' from api server: '', err_text err])), s)
         | Inr content \<Rightarrow>
            do { (r, s) \<leftarrow> act (UpdateStatusVSC (clearedStatus content))
                             (api_UpdateStatusVSC E (clearedStatus content)) s;
                 case r of
                   Inl err \<Rightarrow> Some (Inl (newControllerUpdateError contentName (err_text err)), s)
                 | Inr newContent \<Rightarrow> Some (Inr newContent, s) } }"

definition deleteCSISnapshotOperation ::
  "'w env \<Rightarrow> 'w handler \<Rightarrow> VolumeSnapshotContent \<Rightarrow> 'w st
    \<Rightarrow> ((VolumeSnapshotContent \<times> goerr option) \<times> 'w st) option" where
  "deleteCSISnapshotOperation E H content s =
    do { (r, s) \<leftarrow> GetCredentialsFromAnnotation E content s;
         case r of
           Inl err \<Rightarrow>
             let s = emit (Event (ObjVSC content) EventTypeWarning ''SnapshotDeleteError''
                       ''Failed to get snapshot credentials'') s in
             Some ((content, Some (Errorf (sprint [''failed to get input parameters to delete snapshot for content '',
               vsc_Name content, '': '', goQuote (err_text err)]))), s)
         | Inr snapshotterCredentials \<Rightarrow>
            do { (err, s) \<leftarrow> h_DeleteSnapshot H content snapshotterCredentials s;
                 case err of
                   Some err \<Rightarrow>
                     let s = emit (Event (ObjVSC content) EventTypeWarning ''SnapshotDeleteError''
                               ''Failed to delete snapshot'') s in
                     Some ((content, Some (Errorf (sprint [''failed to delete snapshot '',
                       goQuote (vsc_Name content), '', err: '', err_text err]))), s)
                 | None \<Rightarrow>
                    do { (r, s) \<leftarrow> clearVolumeContentStatus E (vsc_Name content) s;
                         case r of
                           Inl err \<Rightarrow>
                             let s = emit (Event (ObjVSC content) EventTypeWarning ''SnapshotDeleteError''
                                       ''Failed to clear content status'') s in
                             Some ((content, Some err), s)
                         | Inr newContent \<Rightarrow> Some ((newContent, None), s) } } }"

definition deleteCSISnapshot ::
  "'w env \<Rightarrow> 'w handler \<Rightarrow> VolumeSnapshotContent \<Rightarrow> 'w st
    \<Rightarrow> ((VolumeSnapshotContent \<times> goerr option) \<times> 'w st) option" where
  "deleteCSISnapshot E H content s = deleteCSISnapshotOperation E H content s"

section \<open>Creation\<close>

definition createParameters :: "'w env \<Rightarrow> VolumeSnapshotContent \<Rightarrow> strmap \<Rightarrow> strmap" where
  "createParameters E content parameters =
    (if extraCreateMetadata E then
       fmupd PrefixedVolumeSnapshotContentNameKey (vsc_Name content)
         (fmupd PrefixedVolumeSnapshotNamespaceKey (ref_Namespace (vsc_Ref content))
           (fmupd PrefixedVolumeSnapshotNameKey (ref_Name (vsc_Ref content)) parameters))
     else parameters)"

text \<open>A creation that the driver answered: a success, or an error, which may be final.\<close>

definition creationFailed ::
  "'w env \<Rightarrow> VolumeSnapshotContent \<Rightarrow> goerr \<Rightarrow> 'w st
    \<Rightarrow> ((VolumeSnapshotContent \<times> goerr option) \<times> 'w st) option" where
  "creationFailed E content err s =
    do { ((content, removeErr), s) \<leftarrow>
           (if isCSIFinalError err then removeAnnVolumeSnapshotBeingCreated E content s
            else Some ((content, None), s));
         case removeErr of
           Some e \<Rightarrow> Some ((content, Some (Errorf (sprint [''failed to remove VolumeSnapshotBeingCreated annotation from the content '',
             vsc_Name content, '': '', err_text e]))), s)
         | None \<Rightarrow>
            do { volumeHandle \<leftarrow> vsc_VolumeHandle content;
                 Some ((content, Some (Errorf (sprint [''failed to take snapshot of the volume '',
                   volumeHandle, '': '', goQuote (err_text err)]))), s) } }"

definition creationDone ::
  "'w env \<Rightarrow> VolumeSnapshotContent \<Rightarrow> string \<times> string \<times> Time \<times> int \<times> bool \<Rightarrow> 'w st
    \<Rightarrow> ((VolumeSnapshotContent \<times> goerr option) \<times> 'w st) option" where
  "creationDone E content reply s =
    (let (driverName, snapshotID, creationTime, sz, readyToUse) = reply in
     do { (creationTime, s) \<leftarrow> (if creationTime = zeroTime then call (time_Now E) s else Some (creationTime, s));
          (r, s) \<leftarrow> updateSnapshotContentStatus E content
             \<lparr>r_handle = snapshotID, r_ready = readyToUse, r_createdAt = UnixNano creationTime,
              r_size = sz, r_group = []\<rparr> s;
          case r of
            Inl err \<Rightarrow> Some ((content, Some (Errorf (sprint [''error updating status for volume snapshot content '',
              vsc_Name content, '': '', err_text err]))), s)
          | Inr newContent \<Rightarrow>
             do { ((content, err), s) \<leftarrow> removeAnnVolumeSnapshotBeingCreated E newContent s;
                  case err of
                    Some err \<Rightarrow> Some ((content, Some (Errorf (sprint [''failed to remove VolumeSnapshotBeingCreated annotation on the content '',
                      vsc_Name content, '': '', goQuote (err_text err)]))), s)
                  | None \<Rightarrow> Some ((content, None), s) } })"

text \<open>From the parameters of the class on; the range over them is in the order the runtime chooses.\<close>

definition takeSnapshot ::
  "'w env \<Rightarrow> 'w handler \<Rightarrow> VolumeSnapshotContent \<Rightarrow> VolumeSnapshotClass \<Rightarrow> strmap \<Rightarrow> 'w st
    \<Rightarrow> ((VolumeSnapshotContent \<times> goerr option) \<times> 'w st) option" where
  "takeSnapshot E H content class snapshotterCredentials s =
    do { (entries, s) \<leftarrow> call (range_order E (vsclass_Parameters class)) s;
         case RemovePrefixedParameters entries of
           Inl err \<Rightarrow> Some ((content, Some (Errorf (sprint [''failed to remove CSI Parameters of prefixed keys: '',
             err_text err]))), s)
         | Inr parameters \<Rightarrow>
            do { (r, s) \<leftarrow> h_CreateSnapshot H content (createParameters E content parameters)
                   snapshotterCredentials s;
                 case r of
                   Inl err \<Rightarrow> creationFailed E content err s
                 | Inr reply \<Rightarrow> creationDone E content reply s } }"

definition createSnapshotWrapper ::
  "'w env \<Rightarrow> 'w handler \<Rightarrow> VolumeSnapshotContent \<Rightarrow> 'w st
    \<Rightarrow> ((VolumeSnapshotContent \<times> goerr option) \<times> 'w st) option" where
  "createSnapshotWrapper E H content s =
    do { (r, s) \<leftarrow> getCSISnapshotInput E content s;
         case r of
           Inl err \<Rightarrow> Some ((content, Some (Errorf (sprint [''failed to get input parameters to create snapshot for content '',
             vsc_Name content, '': '', goQuote (err_text err)]))), s)
         | Inr (class, snapshotterCredentials) \<Rightarrow>
            do { ((content, err), s) \<leftarrow> setAnnVolumeSnapshotBeingCreated E content s;
                 case err of
                   Some err \<Rightarrow> Some ((content, Some (Errorf (sprint [''failed to add VolumeSnapshotBeingCreated annotation on the content '',
                     vsc_Name content, '': '', goQuote (err_text err)]))), s)
                 | None \<Rightarrow>
                    (case class of
                       None \<Rightarrow> None
                     | Some class \<Rightarrow> takeSnapshot E H content class snapshotterCredentials s) } }"

text \<open>The two callers record an error in the status, or cache the content; both ask for a requeue until it is ready.\<close>

definition finishContent ::
  "'w env \<Rightarrow> string \<Rightarrow> string \<Rightarrow> VolumeSnapshotContent \<times> goerr option \<Rightarrow> 'w st
    \<Rightarrow> ((bool \<times> goerr option) \<times> 'w st) option" where
  "finishContent E reason text res s =
    (let (contentObj, err) = res in
     case err of
       Some err \<Rightarrow>
         do { (_, s) \<leftarrow> updateContentErrorStatusWithEvent E contentObj EventTypeWarning reason
                (sprint [text, err_text err]) s;
              Some ((True, Some err), s) }
     | None \<Rightarrow>
         do { (_, s) \<leftarrow> storeContentUpdate (ObjVSC contentObj) s;
              Some ((\<not> contentIsReady contentObj, None), s) })"

definition createSnapshot ::
  "'w env \<Rightarrow> 'w handler \<Rightarrow> VolumeSnapshotContent \<Rightarrow> 'w st \<Rightarrow> ((bool \<times> goerr option) \<times> 'w st) option" where
  "createSnapshot E H content s =
    do { (res, s) \<leftarrow> createSnapshotWrapper E H content s;
         finishContent E ''SnapshotCreationFailed'' ''Failed to create snapshot: '' res s }"

section \<open>The status query\<close>

text \<open>The credentials of the query, from the class and then, for a member of a group, from the annotations.\<close>

definition listCredentials ::
  "'w env \<Rightarrow> VolumeSnapshotContent \<Rightarrow> 'w st \<Rightarrow> ((goerr + strmap) \<times> 'w st) option" where
  "listCredentials E content s =
    (case spec_VolumeSnapshotClassName (vsc_Spec content) of
       None \<Rightarrow> Some (Inr fmempty, s)
     | Some className \<Rightarrow>
        do { (r, s) \<leftarrow> getSnapshotClass_sidecar E className s;
             case r of
               Inl err \<Rightarrow> Some (Inl (Errorf (sprint [''failed to get snapshot class '', className,
                 '' for snapshot content '', vsc_Name content, '': '', err_text err])), s)
             | Inr class \<Rightarrow>
                (case GetSecretReference SnapshotterListSecretParams (vsclass_Parameters class)
                        (vsc_Name content) None of
                   Inl err \<Rightarrow> Some (Inl (Errorf (sprint [''failed to get secret reference for snapshot content '',
                     vsc_Name content, '': '', err_text err])), s)
                 | Inr ref \<Rightarrow>
                    do { (r, s) \<leftarrow> GetCredentials E ref s;
                         case r of
                           Inl err \<Rightarrow> Some (Inl (Errorf (sprint [''failed to get credentials for snapshot content '',
                             vsc_Name content, '': '', err_text err])), s)
                         | Inr creds \<Rightarrow> Some (Inr creds, s) }) })"

definition statusCredentials ::
  "'w env \<Rightarrow> VolumeSnapshotContent \<Rightarrow> bool \<Rightarrow> 'w st \<Rightarrow> ((goerr + strmap) \<times> 'w st) option" where
  "statusCredentials E content inGroup s =
    do { (r, s) \<leftarrow> listCredentials E content s;
         case r of
           Inl err \<Rightarrow> Some (Inl err, s)
         | Inr creds \<Rightarrow>
            if inGroup then
              do { (r, s) \<leftarrow> GetCredentialsFromAnnotation E content s;
                   case r of
                     Inl err \<Rightarrow> Some (Inl (Errorf (sprint [''failed to get credentials from annotation for snapshot content '',
                       vsc_Name content, '': '', err_text err])), s)
                   | Inr creds \<Rightarrow> Some (Inr creds, s) }
            else Some (Inr creds, s) }"

definition queryContentStatus ::
  "'w env \<Rightarrow> 'w handler \<Rightarrow> VolumeSnapshotContent \<Rightarrow> bool \<Rightarrow> string \<Rightarrow> 'w st
    \<Rightarrow> ((VolumeSnapshotContent \<times> goerr option) \<times> 'w st) option" where
  "queryContentStatus E H content inGroup snapshotID s =
    do { (r, s) \<leftarrow> statusCredentials E content inGroup s;
         case r of
           Inl err \<Rightarrow> Some ((content, Some err), s)
         | Inr creds \<Rightarrow>
            do { (r, s) \<leftarrow> h_GetSnapshotStatus H content creds s;
                 case r of
                   Inl err \<Rightarrow> Some ((content, Some err), s)
                 | Inr (readyToUse, creationTime, sz, groupSnapshotID) \<Rightarrow>
                    do { (creationTime, s) \<leftarrow> (if creationTime = zeroTime then call (time_Now E) s
                                               else Some (creationTime, s));
                         (r, s) \<leftarrow> updateSnapshotContentStatus E content
                            \<lparr>r_handle = snapshotID, r_ready = readyToUse, r_createdAt = UnixNano creationTime,
                             r_size = sz, r_group = groupSnapshotID\<rparr> s;
                         case r of
                           Inl err \<Rightarrow> Some ((content, Some err), s)
                         | Inr updatedContent \<Rightarrow> Some ((updatedContent, None), s) } } }"

definition checkandUpdateContentStatusOperation ::
  "'w env \<Rightarrow> 'w handler \<Rightarrow> VolumeSnapshotContent \<Rightarrow> 'w st
    \<Rightarrow> ((VolumeSnapshotContent \<times> goerr option) \<times> 'w st) option" where
  "checkandUpdateContentStatusOperation E H content s =
    (let inGroup = (Option.bind (vsc_Status content) cs_VolumeGroupSnapshotHandle \<noteq> None);
         statusHandle = Option.bind (vsc_Status content) cs_SnapshotHandle in
     case (vsc_SnapshotHandle content, if inGroup then statusHandle else None) of
       (Some snapshotID, _) \<Rightarrow> queryContentStatus E H content inGroup snapshotID s
     | (None, Some snapshotID) \<Rightarrow> queryContentStatus E H content inGroup snapshotID s
     | (None, None) \<Rightarrow>
        if \<not> groupSnapshotMember content then createSnapshotWrapper E H content s
        else Some ((content, None), s))"

definition checkandUpdateContentStatus ::
  "'w env \<Rightarrow> 'w handler \<Rightarrow> VolumeSnapshotContent \<Rightarrow> 'w st \<Rightarrow> ((bool \<times> goerr option) \<times> 'w st) option" where
  "checkandUpdateContentStatus E H content s =
    do { (res, s) \<leftarrow> checkandUpdateContentStatusOperation E H content s;
         finishContent E ''SnapshotContentCheckandUpdateFailed''
           ''Failed to check and update snapshot content: '' res s }"

section \<open>The reconciler\<close>

text \<open>Whether the snapshot is still to be deleted on the storage system.\<close>

definition mustDeleteSnapshot :: "VolumeSnapshotContent \<Rightarrow> bool" where
  "mustDeleteSnapshot content =
    (vsc_Policy content = VolumeSnapshotContentDelete \<and>
     (case vsc_Status content of None \<Rightarrow> False
      | Some st \<Rightarrow> cs_SnapshotHandle st \<noteq> None \<and> cs_VolumeGroupSnapshotHandle st = None))"

definition syncDeletedContent ::
  "'w env \<Rightarrow> 'w handler \<Rightarrow> VolumeSnapshotContent \<Rightarrow> 'w st \<Rightarrow> ((bool \<times> goerr option) \<times> 'w st) option" where
  "syncDeletedContent E H content s =
    do { ((content, err), s) \<leftarrow> (if mustDeleteSnapshot content then deleteCSISnapshot E H content s
                                  else Some ((content, None), s));
         case err of
           Some err \<Rightarrow> Some ((True, Some err), s)
         | None \<Rightarrow>
            do { (err, s) \<leftarrow> removeContentFinalizer E content s;
                 case err of
                   Some err \<Rightarrow> Some ((True, Some err), s)
                 | None \<Rightarrow> Some ((False, None), s) } }"

definition syncContent_sidecar ::
  "'w env \<Rightarrow> 'w handler \<Rightarrow> VolumeSnapshotContent \<Rightarrow> 'w st \<Rightarrow> ((bool \<times> goerr option) \<times> 'w st) option" where
  "syncContent_sidecar E H content s =
    (if shouldDelete content then syncDeletedContent E H content s
     else if vsc_VolumeHandle content \<noteq> None \<and> vsc_Status content = None \<and> \<not> groupSnapshotMember content then
       createSnapshot E H content s
     else if contentIsReady content then
       do { ((_, err), s) \<leftarrow> removeAnnVolumeSnapshotBeingCreated E content s;
            case err of
              Some err \<Rightarrow> Some ((True, Some err), s)
            | None \<Rightarrow> Some ((False, None), s) }
     else checkandUpdateContentStatus E H content s)"

section \<open>What these operations do\<close>

text \<open>The patches of a content that is not being deleted.\<close>

definition createPatch :: "PatchOp list \<Rightarrow> bool" where
  "createPatch p \<longleftrightarrow> p = removeAnnOps \<or> (\<exists>c. p = setAnnOps c) \<or> (\<exists>st. p = statusOps st) \<or>
     (\<exists>st t m. p = errorPatches st t m)"

lemma createPatch_intros [simp]:
  "createPatch removeAnnOps" "createPatch (setAnnOps c)" "createPatch (statusOps st)"
  "createPatch (errorPatches ost t m)"
  unfolding createPatch_def by blast+

context effects
begin

lemma setAnnVolumeSnapshotBeingCreated_I:
  assumes "\<And>p. createPatch p \<Longrightarrow> ok (PatchVSC (vsc_Name c) p [])" "touch CContent" "I s" "\<And>r s'. I s' \<Longrightarrow> Q r s'"
  shows "ensures (setAnnVolumeSnapshotBeingCreated E c s) Q"
  unfolding setAnnVolumeSnapshotBeingCreated_def Let_def
  by (rule keepI[OF _ assms(4)], insert assms(1-3), auto
      intro!: PatchVolumeSnapshotContent_I storeContentUpdate_I split: option.split)

lemma removeAnnVolumeSnapshotBeingCreated_I:
  assumes "\<And>p. createPatch p \<Longrightarrow> ok (PatchVSC (vsc_Name c) p [])" "touch CContent" "I s" "\<And>r s'. I s' \<Longrightarrow> Q r s'"
  shows "ensures (removeAnnVolumeSnapshotBeingCreated E c s) Q"
  unfolding removeAnnVolumeSnapshotBeingCreated_def Let_def
  by (rule keepI[OF _ assms(4)], insert assms(1-3), auto
      intro!: PatchVolumeSnapshotContent_I storeContentUpdate_I split: option.split)

lemma removeContentFinalizer_I:
  assumes "\<And>p. ok (PatchVSC (vsc_Name c) p [])" "touch CContent" "I s" "\<And>r s'. I s' \<Longrightarrow> Q r s'"
  shows "ensures (removeContentFinalizer E c s) Q"
  unfolding removeContentFinalizer_def Let_def
  by (rule keepI[OF _ assms(4)], insert assms(1-3), auto
      intro!: PatchVolumeSnapshotContent_I storeContentUpdate_I split: option.split)

lemma GetCredentialsFromAnnotation_I:
  assumes "I s" "\<And>r s'. I s' \<Longrightarrow> Q r s'"
  shows "ensures (GetCredentialsFromAnnotation E c s) Q"
  unfolding GetCredentialsFromAnnotation_def Let_def
  by (rule keepI[OF _ assms(2)], insert assms(1), auto intro!: GetCredentials_I split: sum.split)

lemma getSnapshotClass_sidecar_I:
  "I s \<Longrightarrow> (\<And>r s'. I s' \<Longrightarrow> Q r s') \<Longrightarrow> ensures (getSnapshotClass_sidecar E n s) Q"
  by (auto simp: getSnapshotClass_sidecar_def intro!: call_I)

lemma getCSISnapshotInput_I:
  assumes "I s" "\<And>r s'. I s' \<Longrightarrow> Q r s'"
  shows "ensures (getCSISnapshotInput E c s) Q"
  unfolding getCSISnapshotInput_def
  by (rule keepI[OF _ assms(2)], insert assms(1), auto
      intro!: getSnapshotClass_sidecar_I GetCredentialsFromAnnotation_I split: sum.split option.split)

lemma updateSnapshotContentStatus_I:
  assumes "\<And>n p. createPatch p \<Longrightarrow> ok (PatchVSC n p [''status''])"
    "I s" "\<And>r s'. I s' \<Longrightarrow> Q r s'"
  shows "ensures (updateSnapshotContentStatus E c f s) Q"
  unfolding updateSnapshotContentStatus_def
  by (rule keepI[OF _ assms(3)], insert assms(1,2), auto simp: Let_def
      intro!: call_I PatchVolumeSnapshotContent_I split: sum.split prod.split option.split)

lemma errorStatus_I:
  assumes "\<And>n st t m. ok (PatchVSC n (errorPatches st t m) [''status''])"
    "\<And>d t r m. ok (Event (ObjVSC d) t r m)" "touch CContent" "I s" "\<And>r s'. I s' \<Longrightarrow> Q r s'"
  shows "ensures (updateContentErrorStatusWithEvent E c ty reason msg s) Q"
  unfolding updateContentErrorStatusWithEvent_def
  by (rule keepI[OF _ assms(5)], rule ensures_option_bind, insert assms(1-4), auto simp: Let_def
      intro!: call_I PatchVolumeSnapshotContent_I emit_I storeContentUpdate_I split: sum.split option.split)

lemma updateContentErrorStatusWithEvent_I:
  assumes "\<And>n p. createPatch p \<Longrightarrow> ok (PatchVSC n p [''status''])"
    "\<And>d t r m. ok (Event (ObjVSC d) t r m)" "touch CContent" "I s" "\<And>r s'. I s' \<Longrightarrow> Q r s'"
  shows "ensures (updateContentErrorStatusWithEvent E c ty reason msg s) Q"
  by (rule errorStatus_I[OF _ assms(2-5)]) (simp_all add: assms(1))

lemma clearVolumeContentStatus_I:
  assumes "\<And>d. ok (UpdateStatusVSC d)" "I s" "\<And>r s'. I s' \<Longrightarrow> Q r s'"
  shows "ensures (clearVolumeContentStatus E n s) Q"
  unfolding clearVolumeContentStatus_def
  by (rule keepI[OF _ assms(3)], insert assms(1,2), auto intro!: call_I act_I split: sum.split)

lemma creationFailed_I:
  assumes "\<And>p. isCSIFinalError e \<Longrightarrow> createPatch p \<Longrightarrow> ok (PatchVSC (vsc_Name c) p [])" "touch CContent" "I s"
    "\<And>r s'. I s' \<Longrightarrow> Q r s'"
  shows "ensures (creationFailed E c e s) Q"
  unfolding creationFailed_def
  by (rule keepI[OF _ assms(4)], insert assms(1-3), auto
      intro!: removeAnnVolumeSnapshotBeingCreated_I ensures_option_bind split: option.split)

lemma creationDone_I:
  assumes "\<And>n p sub. createPatch p \<Longrightarrow> plainOrStatus sub \<Longrightarrow> ok (PatchVSC n p sub)" "touch CContent" "I s" "\<And>r s'. I s' \<Longrightarrow> Q r s'"
  shows "ensures (creationDone E c reply s) Q"
  unfolding creationDone_def Let_def
  by (rule keepI[OF _ assms(4)], insert assms(1-3), auto
      intro!: call_I updateSnapshotContentStatus_I removeAnnVolumeSnapshotBeingCreated_I
      split: option.split sum.split prod.split)

lemma statusCredentials_I:
  assumes "I s" "\<And>r s'. I s' \<Longrightarrow> Q r s'"
  shows "ensures (statusCredentials E c b s) Q"
  unfolding statusCredentials_def listCredentials_def
  by (rule keepI[OF _ assms(2)], insert assms(1), auto
      intro!: getSnapshotClass_sidecar_I GetCredentials_I GetCredentialsFromAnnotation_I
      split: sum.split option.split)

lemma finishContent_I:
  assumes "\<And>n p. createPatch p \<Longrightarrow> ok (PatchVSC n p [''status''])"
    "\<And>d t r m. ok (Event (ObjVSC d) t r m)" "touch CContent" "I s" "\<And>r s'. I s' \<Longrightarrow> Q r s'"
  shows "ensures (finishContent E reason txt res s) Q"
  unfolding finishContent_def
  by (rule keepI[OF _ assms(5)], insert assms(1-4), auto simp: Let_def
      intro!: updateContentErrorStatusWithEvent_I storeContentUpdate_I split: option.split prod.split)

end

context handler_client
begin

lemma deleteCSISnapshot_I:
  assumes "\<And>h cr. ok (CSIDeleteSnapshot h cr)" "\<And>d. ok (UpdateStatusVSC d)"
    "\<And>t r m. ok (Event (ObjVSC c) t r m)" "I s" "\<And>r s'. I s' \<Longrightarrow> Q r s'"
  shows "ensures (deleteCSISnapshot E H c s) Q"
  unfolding deleteCSISnapshot_def deleteCSISnapshotOperation_def
  by (rule keepI[OF _ assms(5)], insert assms(1-4), auto simp: Let_def
      intro!: GetCredentialsFromAnnotation_I emit_I h_DeleteSnapshot_I clearVolumeContentStatus_I
      split: sum.split option.split)

lemma takeSnapshot_I:
  assumes "\<And>req. ok (CSICreateSnapshot req)" "\<And>n p sub. createPatch p \<Longrightarrow> plainOrStatus sub \<Longrightarrow> ok (PatchVSC n p sub)" "touch CContent" "I s"
    "\<And>r s'. I s' \<Longrightarrow> Q r s'"
  shows "ensures (takeSnapshot E H c cl cr s) Q"
  unfolding takeSnapshot_def
  by (rule keepI[OF _ assms(5)], insert assms(1-4), auto
      intro!: call_I h_CreateSnapshot_I creationFailed_I creationDone_I split: sum.split)

lemma createSnapshotWrapper_I:
  assumes "\<And>req. ok (CSICreateSnapshot req)" "\<And>n p sub. createPatch p \<Longrightarrow> plainOrStatus sub \<Longrightarrow> ok (PatchVSC n p sub)" "touch CContent" "I s"
    "\<And>r s'. I s' \<Longrightarrow> Q r s'"
  shows "ensures (createSnapshotWrapper E H c s) Q"
  unfolding createSnapshotWrapper_def
  by (rule keepI[OF _ assms(5)], insert assms(1-4), auto
      intro!: getCSISnapshotInput_I setAnnVolumeSnapshotBeingCreated_I takeSnapshot_I
      split: sum.split option.split)

lemma queryContentStatus_I:
  assumes "\<And>h cr. ok (CSIListSnapshots h cr)"
    "\<And>n p. createPatch p \<Longrightarrow> ok (PatchVSC n p [''status''])" "I s"
    "\<And>r s'. I s' \<Longrightarrow> Q r s'"
  shows "ensures (queryContentStatus E H c b n s) Q"
  unfolding queryContentStatus_def
  by (rule keepI[OF _ assms(4)], insert assms(1-3), auto
      intro!: statusCredentials_I h_GetSnapshotStatus_I call_I updateSnapshotContentStatus_I
      split: sum.split)

lemma checkandUpdateContentStatusOperation_I:
  assumes "\<And>req. ok (CSICreateSnapshot req)" "\<And>h cr. ok (CSIListSnapshots h cr)"
    "\<And>n p sub. createPatch p \<Longrightarrow> plainOrStatus sub \<Longrightarrow> ok (PatchVSC n p sub)" "touch CContent" "I s" "\<And>r s'. I s' \<Longrightarrow> Q r s'"
  shows "ensures (checkandUpdateContentStatusOperation E H c s) Q"
  unfolding checkandUpdateContentStatusOperation_def
  by (rule keepI[OF _ assms(6)], insert assms(1-5), auto simp: Let_def
      intro!: queryContentStatus_I createSnapshotWrapper_I split: option.split)

lemma syncDeletedContent_I:
  assumes "\<And>h cr. ok (CSIDeleteSnapshot h cr)" "\<And>d. ok (UpdateStatusVSC d)"
    "\<And>d t r m. ok (Event (ObjVSC d) t r m)" "\<And>n p sub. plainOrStatus sub \<Longrightarrow> ok (PatchVSC n p sub)" "touch CContent" "I s"
    "\<And>r s'. I s' \<Longrightarrow> Q r s'"
  shows "ensures (syncDeletedContent E H c s) Q"
  unfolding syncDeletedContent_def
  by (rule keepI[OF _ assms(7)], insert assms(1-6), auto
      intro!: deleteCSISnapshot_I removeContentFinalizer_I split: option.split)

lemma syncLive_sidecar_I:
  assumes live: "\<not> shouldDelete c" and "\<And>req. ok (CSICreateSnapshot req)" "\<And>h cr. ok (CSIListSnapshots h cr)"
    "\<And>d t r m. ok (Event (ObjVSC d) t r m)" "\<And>n p sub. createPatch p \<Longrightarrow> plainOrStatus sub \<Longrightarrow> ok (PatchVSC n p sub)"
    "touch CContent" "I s" "\<And>r s'. I s' \<Longrightarrow> Q r s'"
  shows "ensures (syncContent_sidecar E H c s) Q"
  unfolding syncContent_sidecar_def if_not_P[OF live] createSnapshot_def checkandUpdateContentStatus_def
  by (rule keepI[OF _ assms(8)], insert assms(2-7), auto
      intro!: createSnapshotWrapper_I checkandUpdateContentStatusOperation_I
        removeAnnVolumeSnapshotBeingCreated_I finishContent_I split: option.split)

lemma syncContent_sidecar_I:
  assumes "\<And>h cr. ok (CSIDeleteSnapshot h cr)" "\<And>d. ok (UpdateStatusVSC d)"
    "\<And>req. ok (CSICreateSnapshot req)" "\<And>h cr. ok (CSIListSnapshots h cr)"
    "\<And>d t r m. ok (Event (ObjVSC d) t r m)" "\<And>n p sub. plainOrStatus sub \<Longrightarrow> ok (PatchVSC n p sub)" "touch CContent" "I s"
    "\<And>r s'. I s' \<Longrightarrow> Q r s'"
  shows "ensures (syncContent_sidecar E H c s) Q"
  unfolding syncContent_sidecar_def createSnapshot_def checkandUpdateContentStatus_def
  by (rule keepI[OF _ assms(9)], insert assms(1-8), auto
      intro!: syncDeletedContent_I createSnapshotWrapper_I checkandUpdateContentStatusOperation_I
        removeAnnVolumeSnapshotBeingCreated_I finishContent_I split: option.split)

end

section \<open>Deleting the snapshot of a content\<close>

definition isFinalizerPatch :: "action \<Rightarrow> bool" where
  "isFinalizerPatch a = (\<exists>n p sub. a = PatchVSC n p sub \<and> (\<exists>op \<in> set p. Path op = ''/metadata/finalizers''))"

definition isDeleteCall :: "action \<Rightarrow> bool" where
  "isDeleteCall a = (\<exists>h cr. a = CSIDeleteSnapshot h cr)"

lemma createPatch_keeps_finalizers:
  assumes "createPatch p"
  shows "\<not> isFinalizerPatch (PatchVSC n p sub)"
proof -
  have "Path (patchOp ''remove'' (''/metadata/annotations/'' @ x) v) \<noteq> ''/metadata/finalizers''" for x v
    by (simp add: patchOp_def)
  then show ?thesis using assms
    by (auto simp: createPatch_def isFinalizerPatch_def removeAnnOps_def setAnnOps_def statusOps_def errorPatches_def
        patchOp_def Let_def split: option.splits)
qed

definition finalizerRemoval :: "VolumeSnapshotContent \<Rightarrow> action list" where
  "finalizerRemoval c = (if Contains (Finalizers (vsc_meta c)) VolumeSnapshotContentFinalizer
     then [PatchVSC (vsc_Name c) (unfinalizeOps c) []] else [])"

lemma removeContentFinalizer_log:
  assumes "removeContentFinalizer E c s = Some (err, s')"
  shows "log s' = log s @ finalizerRemoval c"
  using assms by (auto simp: removeContentFinalizer_def finalizerRemoval_def PatchVolumeSnapshotContent_def act_def
      call_def storeContentUpdate_def split: if_splits sum.splits prod.splits)

lemma GetCredentialsFromAnnotation_log:
  assumes "GetCredentialsFromAnnotation E c s = Some (r, s')"
  shows "log s' = log s"
proof -
  have "ensures (GetCredentialsFromAnnotation E c s) (\<lambda>_ s'. onlyNew (\<lambda>_. False) (log s) s')"
    by (rule only.GetCredentialsFromAnnotation_I) (simp_all add: onlyNew_refl)
  then show ?thesis using assms by (simp add: onlyNew_nothing)
qed

lemma clearVolumeContentStatus_log:
  assumes "clearVolumeContentStatus E n s = Some (r, s')"
  shows "(isl r \<and> log s' = log s) \<or> (\<exists>x. log s' = log s @ [UpdateStatusVSC (clearedStatus x)])"
  using assms by (auto simp: clearVolumeContentStatus_def call_def act_def split: prod.splits sum.splits)

text \<open>A deletion on the storage system, from the contract of the handler.\<close>

context handler_contract
begin

lemma deleteCSISnapshot_log:
  assumes "deleteCSISnapshot E H c s = Some ((c', err), s')"
    and "Option.bind (vsc_Status c) cs_SnapshotHandle = Some h"
  shows "\<exists>new. log s' = log s @ new \<and> list_all (\<lambda>a. \<not> isFinalizerPatch a) new \<and>
    (\<forall>g cr. CSIDeleteSnapshot g cr \<in> set new \<longrightarrow> g = h \<and> hd new = CSIDeleteSnapshot g cr \<and>
       list_all (\<lambda>a. \<not> isDeleteCall a) (tl new)) \<and>
    (err = None \<longrightarrow> (\<exists>cr x. deleted h cr \<and> new = [CSIDeleteSnapshot h cr, UpdateStatusVSC (clearedStatus x)]))"
proof -
  have hh: "snapshotHandleOf c = Some h" using assms(2) by (simp add: snapshotHandleOf_def)
  obtain r s1 where g: "GetCredentialsFromAnnotation E c s = Some (r, s1)"
    using assms(1) by (auto simp: deleteCSISnapshot_def deleteCSISnapshotOperation_def split: Option.bind_splits)
  note l1 = GetCredentialsFromAnnotation_log[OF g]
  show ?thesis
  proof (cases r)
    case (Inl e)
    then show ?thesis using assms g l1
      by (auto simp: deleteCSISnapshot_def deleteCSISnapshotOperation_def emit_def isFinalizerPatch_def Let_def)
  next
    case (Inr cr)
    obtain e2 s2 where d: "h_DeleteSnapshot H c cr s1 = Some (e2, s2)"
      using assms(1) g Inr
      by (auto simp: deleteCSISnapshot_def deleteCSISnapshotOperation_def split: Option.bind_splits)
    have l2: "log s2 = log s @ [CSIDeleteSnapshot h cr]" and dd: "e2 = None \<Longrightarrow> deleted h cr"
      using delete_calls[OF d] hh l1 by (auto dest: issues_sel)
    show ?thesis
    proof (cases e2)
      case (Some e)
      then show ?thesis using assms(1) g Inr d l2
        by (auto simp: deleteCSISnapshot_def deleteCSISnapshotOperation_def emit_def isFinalizerPatch_def
            isDeleteCall_def Let_def)
    next
      case None
      obtain cl s3 where c3: "clearVolumeContentStatus E (vsc_Name c) s2 = Some (cl, s3)"
        using assms(1) g Inr d None
        by (auto simp: deleteCSISnapshot_def deleteCSISnapshotOperation_def split: Option.bind_splits)
      show ?thesis
      proof (cases cl)
        case (Inl e)
        then show ?thesis using assms(1) g Inr d None c3 l2 clearVolumeContentStatus_log[OF c3]
          by (auto simp: deleteCSISnapshot_def deleteCSISnapshotOperation_def emit_def isFinalizerPatch_def
              isDeleteCall_def Let_def)
      next
        case ok: (Inr nc)
        then show ?thesis using assms(1) g Inr d None c3 l2 clearVolumeContentStatus_log[OF c3] dd
          by (auto simp: deleteCSISnapshot_def deleteCSISnapshotOperation_def isFinalizerPatch_def isDeleteCall_def)
      qed
    qed
  qed
qed

text \<open>The protocol of a content that is to be deleted.\<close>

lemma syncDeletedContent_log:
  assumes "syncDeletedContent E H c s = Some ((requeue, err), s')"
  shows "\<exists>new. log s' = log s @ new \<and>
    (\<forall>h cr. CSIDeleteSnapshot h cr \<in> set new \<longrightarrow> mustDeleteSnapshot c \<and>
       Option.bind (vsc_Status c) cs_SnapshotHandle = Some h \<and> hd new = CSIDeleteSnapshot h cr \<and>
       list_all (\<lambda>a. \<not> isDeleteCall a) (tl new)) \<and>
    (list_ex isFinalizerPatch new \<and> mustDeleteSnapshot c \<longrightarrow>
       (\<exists>h cr x c'. Option.bind (vsc_Status c) cs_SnapshotHandle = Some h \<and> deleted h cr \<and>
          new = [CSIDeleteSnapshot h cr, UpdateStatusVSC (clearedStatus x)] @ finalizerRemoval c'))"
proof (cases "mustDeleteSnapshot c")
  case False
  then have "removeContentFinalizer E c s = Some (err, s')"
    using assms by (auto simp: syncDeletedContent_def split: Option.bind_splits option.splits)
  from removeContentFinalizer_log[OF this] show ?thesis using False by (auto simp: finalizerRemoval_def)
next
  case True
  then obtain h where h: "Option.bind (vsc_Status c) cs_SnapshotHandle = Some h"
    by (auto simp: mustDeleteSnapshot_def split: option.splits)
  obtain c' e s1 where d: "deleteCSISnapshot E H c s = Some ((c', e), s1)"
    using assms True by (auto simp: syncDeletedContent_def split: Option.bind_splits)
  obtain n1 where n1: "log s1 = log s @ n1" "list_all (\<lambda>a. \<not> isFinalizerPatch a) n1"
    "\<forall>g cr. CSIDeleteSnapshot g cr \<in> set n1 \<longrightarrow> g = h \<and> hd n1 = CSIDeleteSnapshot g cr \<and>
       list_all (\<lambda>a. \<not> isDeleteCall a) (tl n1)"
    "e = None \<longrightarrow> (\<exists>cr x. deleted h cr \<and> n1 = [CSIDeleteSnapshot h cr, UpdateStatusVSC (clearedStatus x)])"
    using deleteCSISnapshot_log[OF d h] by blast
  show ?thesis
  proof (cases e)
    case (Some e')
    then have "s' = s1" using assms True d by (auto simp: syncDeletedContent_def)
    then show ?thesis using n1 True h by (intro exI[of _ n1]) (auto simp: list_all_iff list_ex_iff)
  next
    case None
    have "removeContentFinalizer E c' s1 = Some (err, s')"
      using assms True d None by (auto simp: syncDeletedContent_def split: Option.bind_splits option.splits)
    note l = removeContentFinalizer_log[OF this]
    obtain cr x where "deleted h cr" "n1 = [CSIDeleteSnapshot h cr, UpdateStatusVSC (clearedStatus x)]"
      using n1(4) None by blast
    then show ?thesis using l n1(1) True h
      by (intro exI[of _ "n1 @ finalizerRemoval c'"])
        (auto simp: finalizerRemoval_def isDeleteCall_def)
  qed
qed

end


definition demoToDelete :: VolumeSnapshotContent where
  "demoToDelete = demoSource\<lparr>vsc_meta := (vsc_meta demoSource)\<lparr>DeletionTimestamp := Some 4,
     Finalizers := [VolumeSnapshotContentFinalizer],
     Annotations := fmupd AnnVolumeSnapshotBeingDeleted ''yes'' fmempty\<rparr>\<rparr>"

definition demoSidecarEnv :: "unit env" where
  "demoSidecarEnv = demoCSIEnv\<lparr>api_GetVSC := \<lambda>_ w. (Inr demoToDelete, w),
     api_PatchVSC := \<lambda>_ _ _ w. (Inr demoToDelete, w)\<rparr>"

lemma demoToDelete_sel:
  "shouldDelete demoToDelete" "mustDeleteSnapshot demoToDelete" "snapshotHandleOf demoToDelete = Some ''snap-1''"
  "Option.bind (vsc_Status demoToDelete) cs_SnapshotHandle = Some ''snap-1''"
  "\<not> HasAnnotation (vsc_meta demoToDelete) AnnDeletionSecretRefName"
  "Finalizers (vsc_meta demoToDelete) = [VolumeSnapshotContentFinalizer]"
  by (simp_all add: demoToDelete_def demoSource_def emptyVolumeSnapshotContent_def emptyMeta_def emptyRef_def
      emptyContentStatus_def shouldDelete_def mustDeleteSnapshot_def snapshotHandleOf_def HasAnnotation_def
      AnnDeletionSecretRefName_def AnnVolumeSnapshotBeingDeleted_def AnnVolumeSnapshotBeingCreated_def)

lemma clearedStatus_meta [simp]: "vsc_meta (clearedStatus c) = vsc_meta c"
  by (simp add: clearedStatus_def split: option.split)

lemma demo_sidecar_delete:
  "\<exists>s'. syncContent_sidecar demoSidecarEnv (theHandler demoSidecarEnv) demoToDelete (initialState ()) =
     Some ((False, None), s') \<and> list_ex isFinalizerPatch (log s')"
  by (simp add: syncContent_sidecar_def syncDeletedContent_def deleteCSISnapshot_def deleteCSISnapshotOperation_def
      GetCredentialsFromAnnotation_def demoToDelete_sel theHandler_def NewCSIHandler_def NewSnapshotter_def
      csiHandler_DeleteSnapshot_def snapshot_DeleteSnapshot_def clearVolumeContentStatus_def removeContentFinalizer_def
      Contains_def PatchVolumeSnapshotContent_def storeContentUpdate_def demoSidecarEnv_def demoCSIEnv_def nullEnv_def
      call_def act_def isFinalizerPatch_def unfinalizeOps_def patchOp_def Let_def split: prod.split)


section \<open>Creating the snapshot of a content\<close>

definition isCreateCall :: "action \<Rightarrow> bool" where
  "isCreateCall a = (\<exists>req. a = CSICreateSnapshot req)"

lemma setAnn_created_log:
  assumes "setAnnVolumeSnapshotBeingCreated E c s = Some ((c', err), s')"
  shows "log s' = log s @ (if HasAnnotation (vsc_meta c) AnnVolumeSnapshotBeingCreated then []
       else [PatchVSC (vsc_Name c) (setAnnOps c) []]) \<and>
    (HasAnnotation (vsc_meta c) AnnVolumeSnapshotBeingCreated \<longrightarrow> c' = c \<and> err = None) \<and>
    (\<not> HasAnnotation (vsc_meta c) AnnVolumeSnapshotBeingCreated \<and> err = None \<longrightarrow>
       (\<exists>w. fst (api_PatchVSC E (vsc_Name c) (setAnnOps c) [] w) = Inr c'))"
proof (cases "HasAnnotation (vsc_meta c) AnnVolumeSnapshotBeingCreated")
  case False
  obtain r w where p: "api_PatchVSC E (vsc_Name c) (setAnnOps c) [] (world s) = (r, w)" by fastforce
  have "\<exists>w. fst (api_PatchVSC E (vsc_Name c) (setAnnOps c) [] w) = r" by (rule exI[of _ "world s"]) (simp add: p)
  then show ?thesis using assms False p
    by (cases r) (auto simp: setAnnVolumeSnapshotBeingCreated_def PatchVolumeSnapshotContent_def act_def call_def
        storeContentUpdate_def split: prod.splits)
qed (use assms in \<open>simp add: setAnnVolumeSnapshotBeingCreated_def\<close>)

lemma getCSISnapshotInput_log:
  assumes "getCSISnapshotInput E c s = Some (r, s')"
  shows "log s' = log s"
proof -
  have "ensures (getCSISnapshotInput E c s) (\<lambda>_ s'. onlyNew (\<lambda>_. False) (log s) s')"
    by (rule only.getCSISnapshotInput_I) (simp_all add: onlyNew_refl)
  then show ?thesis using assms by (simp add: onlyNew_nothing)
qed

context handler_contract
begin

text \<open>One call, then only writes.\<close>

lemma takeSnapshot_log:
  assumes "takeSnapshot E H c cl cr s = Some (res, s')"
  shows "\<exists>new. log s' = log s @ new \<and> (list_all (\<lambda>a. \<not> isCreateCall a) new \<or>
     (\<exists>vol nm params post. vsc_VolumeHandle c = Some vol \<and> nameOf (ref_UID (vsc_Ref c)) = Some nm \<and>
        new = CSICreateSnapshot \<lparr>SourceVolumeId = vol, req_Name = nm, Parameters = params, Secrets = cr\<rparr> # post \<and>
        list_all (\<lambda>a. \<not> isCreateCall a) post))"
proof -
  let ?ok = "\<lambda>a. \<not> isCreateCall a"
  obtain entries w where ro: "range_order E (vsclass_Parameters cl) (world s) = (entries, w)" by fastforce
  let ?s1 = "s\<lparr>world := w\<rparr>"
  show ?thesis
  proof (cases "RemovePrefixedParameters entries")
    case (Inl e)
    then have "s' = ?s1" using assms ro by (simp add: takeSnapshot_def call_def)
    then show ?thesis by (intro exI[of _ "[]"]) simp
  next
    case (Inr params)
    let ?params = "createParameters E c params"
    obtain r s2 where h: "h_CreateSnapshot H c ?params cr ?s1 = Some (r, s2)"
      using assms ro Inr by (auto simp: takeSnapshot_def call_def split: Option.bind_splits)
    have run: "(case r of Inl err \<Rightarrow> creationFailed E c err s2 | Inr reply \<Rightarrow> creationDone E c reply s2) = Some (res, s')"
      using assms ro Inr h by (simp add: takeSnapshot_def call_def)
    have "ensures (creationFailed E c err s2) (\<lambda>_ s'. onlyNew ?ok (log s2) s')" for err
      by (rule only.creationFailed_I) (simp_all add: onlyNew_refl isCreateCall_def)
    moreover have "ensures (creationDone E c reply s2) (\<lambda>_ s'. onlyNew ?ok (log s2) s')" for reply
      by (rule only.creationDone_I) (simp_all add: onlyNew_refl isCreateCall_def)
    ultimately have "ensures (case r of Inl err \<Rightarrow> creationFailed E c err s2 | Inr reply \<Rightarrow> creationDone E c reply s2)
        (\<lambda>_ s'. onlyNew ?ok (log s2) s')" by (simp split: sum.split)
    then have "onlyNew ?ok (log s2) s'" using run by (rule ensuresD)
    then obtain post where post: "log s' = log s2 @ post" "list_all ?ok post" by (auto simp: onlyNew_def)
    show ?thesis using create_calls[OF h]
    proof (elim disjE exE conjE)
      assume "issues [] ?s1 s2"
      then show ?thesis using post issues_sel[of "[]" ?s1 s2] by (intro exI[of _ post]) simp
    next
      fix vol nm assume "vsc_VolumeHandle c = Some vol" "nameOf (ref_UID (vsc_Ref c)) = Some nm"
        "issues [CSICreateSnapshot \<lparr>SourceVolumeId = vol, req_Name = nm, Parameters = ?params, Secrets = cr\<rparr>] ?s1 s2"
      then show ?thesis using post issues_sel[of "[CSICreateSnapshot \<lparr>SourceVolumeId = vol, req_Name = nm,
          Parameters = ?params, Secrets = cr\<rparr>]" ?s1 s2] by auto
    qed
  qed
qed

end

context handler_contract
begin

text \<open>The wrapper: the annotation first, then at most one call.\<close>

lemma createSnapshotWrapper_log:
  assumes "createSnapshotWrapper E H c s = Some (res, s')"
  shows "\<exists>new. log s' = log s @ new \<and> (list_all (\<lambda>a. \<not> isCreateCall a) new \<or>
     (\<exists>c' req post. (if HasAnnotation (vsc_meta c) AnnVolumeSnapshotBeingCreated then c' = c
          else \<exists>w. fst (api_PatchVSC E (vsc_Name c) (setAnnOps c) [] w) = Inr c') \<and>
        vsc_VolumeHandle c' = Some (SourceVolumeId req) \<and> nameOf (ref_UID (vsc_Ref c')) = Some (req_Name req) \<and>
        new = (if HasAnnotation (vsc_meta c) AnnVolumeSnapshotBeingCreated then []
               else [PatchVSC (vsc_Name c) (setAnnOps c) []]) @ CSICreateSnapshot req # post \<and>
        list_all (\<lambda>a. \<not> isCreateCall a) post))"
proof -
  obtain r s1 where i: "getCSISnapshotInput E c s = Some (r, s1)"
    using assms by (auto simp: createSnapshotWrapper_def split: Option.bind_splits)
  note l1 = getCSISnapshotInput_log[OF i]
  show ?thesis
  proof (cases r)
    case (Inl e)
    then show ?thesis using assms i l1 by (intro exI[of _ "[]"]) (simp add: createSnapshotWrapper_def)
  next
    case (Inr p)
    obtain cl cr where p: "p = (cl, cr)" by (cases p)
    obtain c' err s2 where a: "setAnnVolumeSnapshotBeingCreated E c s1 = Some ((c', err), s2)"
      using assms i Inr p by (auto simp: createSnapshotWrapper_def split: Option.bind_splits)
    note l2 = setAnn_created_log[OF a]
    let ?pre = "if HasAnnotation (vsc_meta c) AnnVolumeSnapshotBeingCreated then []
        else [PatchVSC (vsc_Name c) (setAnnOps c) []]"
    have np: "list_all (\<lambda>a. \<not> isCreateCall a) ?pre" by (simp add: isCreateCall_def)
    show ?thesis
    proof (cases err)
      case (Some e)
      then have "s' = s2" using assms i Inr p a by (simp add: createSnapshotWrapper_def)
      then show ?thesis using l1 l2 np by (intro exI[of _ ?pre]) simp
    next
      case None
      then obtain cl2 where t: "takeSnapshot E H c' cl2 cr s2 = Some (res, s')"
        using assms i Inr p a by (auto simp: createSnapshotWrapper_def split: option.splits)
      obtain new where new: "log s' = log s2 @ new" "list_all (\<lambda>a. \<not> isCreateCall a) new \<or>
          (\<exists>vol nm params post. vsc_VolumeHandle c' = Some vol \<and> nameOf (ref_UID (vsc_Ref c')) = Some nm \<and>
             new = CSICreateSnapshot \<lparr>SourceVolumeId = vol, req_Name = nm, Parameters = params, Secrets = cr\<rparr> # post \<and>
             list_all (\<lambda>a. \<not> isCreateCall a) post)"
        using takeSnapshot_log[OF t] by blast
      have l: "log s' = log s @ ?pre @ new" using new(1) l1 l2 by simp
      from new(2) show ?thesis
      proof (elim disjE exE conjE)
        assume "list_all (\<lambda>a. \<not> isCreateCall a) new"
        then show ?thesis using l np by (intro exI[of _ "?pre @ new"]) simp
      next
        fix vol nm params post assume n: "vsc_VolumeHandle c' = Some vol" "nameOf (ref_UID (vsc_Ref c')) = Some nm"
          "new = CSICreateSnapshot \<lparr>SourceVolumeId = vol, req_Name = nm, Parameters = params, Secrets = cr\<rparr> # post"
          "list_all (\<lambda>a. \<not> isCreateCall a) post"
        have c': "if HasAnnotation (vsc_meta c) AnnVolumeSnapshotBeingCreated then c' = c
            else \<exists>w. fst (api_PatchVSC E (vsc_Name c) (setAnnOps c) [] w) = Inr c'" using l2 None by auto
        have "\<exists>c' req post. (if HasAnnotation (vsc_meta c) AnnVolumeSnapshotBeingCreated then c' = c
          else \<exists>w. fst (api_PatchVSC E (vsc_Name c) (setAnnOps c) [] w) = Inr c') \<and>
            vsc_VolumeHandle c' = Some (SourceVolumeId req) \<and> nameOf (ref_UID (vsc_Ref c')) = Some (req_Name req) \<and>
            ?pre @ new = ?pre @ CSICreateSnapshot req # post \<and> list_all (\<lambda>a. \<not> isCreateCall a) post"
          by (rule exI[of _ c'], rule exI[of _ "\<lparr>SourceVolumeId = vol, req_Name = nm, Parameters = params, Secrets = cr\<rparr>"],
              rule exI[of _ post]) (use n c' in simp)
        then show ?thesis using l by blast
      qed
    qed
  qed
qed

end

text \<open>A live content leads to a creation only through the wrapper.\<close>

lemma finishContent_noCreate:
  "ensures (finishContent E reason txt res s) (\<lambda>_ s'. onlyNew (\<lambda>a. \<not> isCreateCall a) (log s) s')"
  by (rule only.finishContent_I) (simp_all add: onlyNew_refl isCreateCall_def)

lemma wrapped_creates:
  assumes "do { (res, s) \<leftarrow> m; finishContent E reason txt res s } = Some (res, s')" and "log s' = l @ new"
    and "CSICreateSnapshot req \<in> set new"
  shows "\<exists>r s1 n2. m = Some (r, s1) \<and> log s' = log s1 @ n2 \<and> list_all (\<lambda>a. \<not> isCreateCall a) n2 \<and>
    finishContent E reason txt r s1 = Some (res, s')"
proof -
  obtain r s1 where m: "m = Some (r, s1)" "finishContent E reason txt r s1 = Some (res, s')"
    using assms(1) by (auto split: Option.bind_splits)
  have "onlyNew (\<lambda>a. \<not> isCreateCall a) (log s1) s'" using finishContent_noCreate m(2) by (rule ensuresD)
  then show ?thesis using m by (auto simp: onlyNew_def)
qed

lemma syncContent_creates:
  assumes "syncContent_sidecar E (theHandler E) c s = Some (res, s')" and "log s' = log s @ new"
    and "CSICreateSnapshot req \<in> set new"
  shows "\<not> shouldDelete c \<and> \<not> groupSnapshotMember c \<and> \<not> contentIsReady c \<and>
    (vsc_SnapshotHandle c = None \<or> vsc_Status c = None) \<and>
    (\<exists>r s1 n2 reason txt. createSnapshotWrapper E (theHandler E) c s = Some (r, s1) \<and>
       log s' = log s1 @ n2 \<and> list_all (\<lambda>a. \<not> isCreateCall a) n2 \<and>
       finishContent E reason txt r s1 = Some (res, s'))"
proof -
  let ?ok = "\<lambda>a. \<not> isCreateCall a"
  have no: "False" if "onlyNew ?ok (log s) s'"
    using that assms(2,3) by (auto simp: onlyNew_def list_all_iff isCreateCall_def)
  have live: "\<not> shouldDelete c"
  proof
    assume "shouldDelete c"
    then have "syncDeletedContent E (theHandler E) c s = Some (res, s')" using assms(1) by (simp add: syncContent_sidecar_def)
    moreover have "ensures (syncDeletedContent E (theHandler E) c s) (\<lambda>_ s'. onlyNew ?ok (log s) s')"
      by (rule hc.syncDeletedContent_I) (simp_all add: onlyNew_refl isCreateCall_def)
    ultimately show False using no by simp
  qed
  show ?thesis
  proof (cases "vsc_VolumeHandle c \<noteq> None \<and> vsc_Status c = None \<and> \<not> groupSnapshotMember c")
    case True
    then have "createSnapshot E (theHandler E) c s = Some (res, s')"
      using assms(1) live by (simp add: syncContent_sidecar_def)
    then show ?thesis using wrapped_creates[OF _ assms(2,3)] live True
      unfolding createSnapshot_def by (fastforce simp: contentIsReady_def)
  next
    case F: False
    have nr: "\<not> contentIsReady c"
    proof
      assume "contentIsReady c"
      then have "(do { ((_, err), s) \<leftarrow> removeAnnVolumeSnapshotBeingCreated E c s;
            case err of Some err \<Rightarrow> Some ((True, Some err), s) | None \<Rightarrow> Some ((False, None), s) }) = Some (res, s')"
        using assms(1) live F by (simp only: syncContent_sidecar_def if_False if_True)
      moreover have "ensures (do { ((_, err), s) \<leftarrow> removeAnnVolumeSnapshotBeingCreated E c s;
            case err of Some err \<Rightarrow> Some ((True, Some err), s) | None \<Rightarrow> Some ((False, None), s) })
          (\<lambda>_ s'. onlyNew ?ok (log s) s')"
        by (auto intro!: only.removeAnnVolumeSnapshotBeingCreated_I[where ok = ?ok and ?l0.0 = "log s"]
            simp: onlyNew_refl isCreateCall_def split: option.split)
      ultimately show False using no by simp
    qed
    then have cu: "checkandUpdateContentStatus E (theHandler E) c s = Some (res, s')"
      using assms(1) live F by (simp only: syncContent_sidecar_def if_False)
    obtain r s1 n2 where w: "checkandUpdateContentStatusOperation E (theHandler E) c s = Some (r, s1)"
        "log s' = log s1 @ n2" "list_all ?ok n2"
        "finishContent E ''SnapshotContentCheckandUpdateFailed'' ''Failed to check and update snapshot content: '' r s1 =
           Some (res, s')"
      using wrapped_creates[OF _ assms(2,3)] cu unfolding checkandUpdateContentStatus_def by blast
    have q: "\<not> (\<exists>b n. queryContentStatus E (theHandler E) c b n s = Some (r, s1))"
    proof (rule notI, elim exE)
      fix b n assume "queryContentStatus E (theHandler E) c b n s = Some (r, s1)"
      moreover have "ensures (queryContentStatus E (theHandler E) c b n s) (\<lambda>_ s'. onlyNew ?ok (log s) s')"
        by (rule hc.queryContentStatus_I) (simp_all add: onlyNew_refl isCreateCall_def)
      ultimately show False using no w(2,3) by (auto simp: onlyNew_def)
    qed
    have "\<not> (groupSnapshotMember c \<and> Some ((c, None), s) = Some (r, s1))"
      using no w(2,3) by (auto simp: onlyNew_def)
    then have "vsc_SnapshotHandle c = None \<and> \<not> groupSnapshotMember c \<and>
        createSnapshotWrapper E (theHandler E) c s = Some (r, s1)"
      using w(1) q by (auto simp: checkandUpdateContentStatusOperation_def Let_def split: option.splits if_splits)
    then show ?thesis using live nr w by blast
  qed
qed

lemma snapshotNameOf_Some:
  "snapshotNameOf E u = Some n \<Longrightarrow>
   makeSnapshotName (snapshotNamePrefix E) u (snapshotNameUUIDLength E) = Some (Inr n)"
  by (auto simp: snapshotNameOf_def split: option.splits sum.splits)


definition demoUncut :: VolumeSnapshotContent where
  "demoUncut = demoSource\<lparr>vsc_Status := None\<rparr>"

definition demoCutting :: VolumeSnapshotContent where
  "demoCutting = demoUncut\<lparr>vsc_meta := SetMetaDataAnnotation (vsc_meta demoUncut) AnnVolumeSnapshotBeingCreated ''yes''\<rparr>"

definition demoSidecarClass :: "strmap \<Rightarrow> VolumeSnapshotClass" where
  "demoSidecarClass ps = \<lparr>vsclass_meta = emptyMeta\<lparr>Name := ''class1''\<rparr>, vsclass_Driver = ''drv'',
     vsclass_Parameters = ps, vsclass_DeletionPolicy = VolumeSnapshotContentDelete\<rparr>"

text \<open>A server that knows the class and applies the annotation, and a driver that times out.\<close>

definition demoTimeoutEnv :: "unit env" where
  "demoTimeoutEnv = nullEnv\<lparr>lister_GetVSC := \<lambda>_ w. (Inr demoUncut, w), lister_GetClass := \<lambda>_ w. (Inr (demoSidecarClass fmempty), w),
     api_PatchVSC := \<lambda>_ _ _ w. (Inr demoCutting, w), range_order := \<lambda>_ w. ([], w),
     csi_CreateSnapshot := \<lambda>_ w. (Inl (GRPCStatus codes_DeadlineExceeded ''timeout''), w)\<rparr>"

lemma demoUncut_sel:
  "\<not> shouldDelete demoUncut" "\<not> groupSnapshotMember demoUncut" "vsc_VolumeHandle demoUncut = Some ''vol1''"
  "vsc_Status demoUncut = None" "spec_VolumeSnapshotClassName (vsc_Spec demoUncut) = Some ''class1''"
  "\<not> HasAnnotation (vsc_meta demoUncut) AnnVolumeSnapshotBeingCreated"
  "\<not> HasAnnotation (vsc_meta demoUncut) AnnDeletionSecretRefName" "vsc_Name demoUncut = ''snapcontent-uid1''"
  "vsc_VolumeHandle demoCutting = Some ''vol1''" "ref_UID (vsc_Ref demoCutting) = ''uid1''"
  "vsc_Status demoCutting = None"
  by (simp_all add: demoUncut_def demoCutting_def demoSource_def emptyVolumeSnapshotContent_def emptyMeta_def emptyRef_def
      shouldDelete_def groupSnapshotMember_def HasAnnotation_def)

lemma demo_timeout_input:
  "getCSISnapshotInput demoTimeoutEnv demoUncut s = Some (Inr (Some (demoSidecarClass fmempty), fmempty), s)"
  by (simp add: getCSISnapshotInput_def demoUncut_sel getSnapshotClass_sidecar_def call_def
      GetCredentialsFromAnnotation_def demoTimeoutEnv_def)

lemma demo_timeout_ann:
  "\<exists>s'. setAnnVolumeSnapshotBeingCreated demoTimeoutEnv demoUncut s = Some ((demoCutting, None), s')"
  by (simp add: setAnnVolumeSnapshotBeingCreated_def demoUncut_sel PatchVolumeSnapshotContent_def act_def call_def
      storeContentUpdate_def demoTimeoutEnv_def split: prod.split)

lemma demo_timeout_take:
  "\<exists>e s' req. takeSnapshot demoTimeoutEnv (theHandler demoTimeoutEnv) demoCutting (demoSidecarClass fmempty) fmempty s =
     Some ((demoCutting, Some e), s') \<and> CSICreateSnapshot req \<in> set (log s')"
  by (simp add: takeSnapshot_def RemovePrefixedParameters_def createParameters_def theHandler_def NewCSIHandler_def
      NewSnapshotter_def csiHandler_CreateSnapshot_def snapshot_CreateSnapshot_def makeSnapshotName_def demoUncut_sel
      creationFailed_def demoTimeoutEnv_def nullEnv_def call_def act_def Let_def) blast

lemma demo_timeout_finish:
  "\<exists>s'. finishContent demoTimeoutEnv reason txt (demoCutting, Some e) s = Some ((True, Some e), s') \<and>
     set (log s) \<subseteq> set (log s')"
  by (auto simp: finishContent_def updateContentErrorStatusWithEvent_def sameContentError_def demoUncut_sel
      PatchVolumeSnapshotContent_def emit_def call_def act_def storeContentUpdate_def demoTimeoutEnv_def nullEnv_def Let_def
      split: prod.split sum.split)

lemma demo_timeout_run:
  "\<exists>e s' req. syncContent_sidecar demoTimeoutEnv (theHandler demoTimeoutEnv) demoUncut s =
     Some ((True, Some e), s') \<and> CSICreateSnapshot req \<in> set (log s')"
proof -
  obtain s1 where a: "setAnnVolumeSnapshotBeingCreated demoTimeoutEnv demoUncut s =
      Some ((demoCutting, None), s1)" using demo_timeout_ann by blast
  obtain e s2 req where t: "takeSnapshot demoTimeoutEnv (theHandler demoTimeoutEnv) demoCutting
      (demoSidecarClass fmempty) fmempty s1 = Some ((demoCutting, Some e), s2)" "CSICreateSnapshot req \<in> set (log s2)"
    using demo_timeout_take by blast
  obtain s3 where f: "finishContent demoTimeoutEnv ''SnapshotCreationFailed'' ''Failed to create snapshot: ''
      (demoCutting, Some e) s2 = Some ((True, Some e), s3)" "set (log s2) \<subseteq> set (log s3)"
    using demo_timeout_finish by blast
  have "syncContent_sidecar demoTimeoutEnv (theHandler demoTimeoutEnv) demoUncut s = Some ((True, Some e), s3)"
    by (simp add: syncContent_sidecar_def demoUncut_sel createSnapshot_def createSnapshotWrapper_def demo_timeout_input
        a t f)
  then show ?thesis using t f by blast
qed


text \<open>What is left behind when the driver does not say whether it has created the snapshot.\<close>

lemma setAnnOps_not_remove: "setAnnOps c \<noteq> removeAnnOps" "statusOps st \<noteq> removeAnnOps" "errorPatches ost t m \<noteq> removeAnnOps"
  by (auto simp: setAnnOps_def statusOps_def removeAnnOps_def errorPatches_def patchOp_def Let_def split: option.splits)

definition keepsAnnotation :: "action \<Rightarrow> bool" where
  "keepsAnnotation a = (\<forall>n p sub. a = PatchVSC n p sub \<longrightarrow> p \<noteq> removeAnnOps)"

lemma theHandler_create_answer:
  assumes "h_CreateSnapshot (theHandler E) c params cr s = Some (r, s')" and "log s' \<noteq> log s"
  shows "\<exists>req w. (case fst (csi_CreateSnapshot E req w) of Inl e \<Rightarrow> r = Inl e | Inr _ \<Rightarrow> \<not> isl r)"
proof -
  obtain nm vol where h: "snapshot_CreateSnapshot E nm vol params cr s = Some (r, s')"
    using assms by (auto simp: theHandler_def NewCSIHandler_def NewSnapshotter_def csiHandler_CreateSnapshot_def
        split: if_splits option.splits sum.splits Option.bind_splits)
  let ?req = "\<lparr>SourceVolumeId = vol, req_Name = nm, Parameters = params, Secrets = cr\<rparr>"
  obtain dr w where d: "csi_GetDriverName E (world s) = (dr, w)" by fastforce
  have "case fst (csi_CreateSnapshot E ?req w) of Inl e \<Rightarrow> r = Inl e | Inr _ \<Rightarrow> \<not> isl r"
    using h d assms(2) by (auto simp: snapshot_CreateSnapshot_def call_def act_def Let_def
        split: sum.splits prod.splits Option.bind_splits)
  then show ?thesis by blast
qed

lemma creationFailed_pending:
  assumes "creationFailed E c err s = Some (res, s')" and "\<not> isCSIFinalError err"
  shows "s' = s \<and> (\<exists>e. res = (c, Some e))"
  using assms by (auto simp: creationFailed_def split: Option.bind_splits)

lemma errorStatus_keeps:
  "ensures (updateContentErrorStatusWithEvent E c ty reason msg s) (\<lambda>_ s'. onlyNew keepsAnnotation (log s) s')"
  by (rule only.errorStatus_I)
    (simp_all add: keepsAnnotation_def setAnnOps_not_remove onlyNew_refl)

lemma finishContent_keeps:
  "ensures (finishContent E reason msg res s) (\<lambda>_ s'. onlyNew keepsAnnotation (log s) s')"
  by (cases res; cases "snd res")
    (auto simp: finishContent_def onlyNew_refl
      intro!: ensures_mono[OF errorStatus_keeps] only.storeContentUpdate_I)

lemma takeSnapshot_pending:
  assumes "takeSnapshot E (theHandler E) c cl cr s = Some (res, s')" and "log s' = log s @ new"
    and "CSICreateSnapshot req \<in> set new"
    and "\<forall>req w. \<exists>code t. fst (csi_CreateSnapshot E req w) = Inl (GRPCStatus code t) \<and>
      \<not> isCSIFinalError (GRPCStatus code t)"
  shows "list_all keepsAnnotation new \<and> (\<exists>e. res = (c, Some e))"
proof -
  obtain entries w where ro: "range_order E (vsclass_Parameters cl) (world s) = (entries, w)" by fastforce
  let ?s1 = "s\<lparr>world := w\<rparr>"
  obtain params where pr: "RemovePrefixedParameters entries = Inr params"
    using assms(1-3) ro by (cases "RemovePrefixedParameters entries") (auto simp: takeSnapshot_def call_def)
  let ?params = "createParameters E c params"
  obtain r s2 where h: "h_CreateSnapshot (theHandler E) c ?params cr ?s1 = Some (r, s2)"
    using assms(1) ro pr by (auto simp: takeSnapshot_def call_def split: Option.bind_splits)
  have run: "(case r of Inl err \<Rightarrow> creationFailed E c err s2 | Inr reply \<Rightarrow> creationDone E c reply s2) = Some (res, s')"
    using assms(1) ro pr h by (simp add: takeSnapshot_def call_def)
  have one: "log s2 = log s \<and> isl r \<or> (\<exists>q. log s2 = log s @ [CSICreateSnapshot q])"
    using hd.create_calls[OF h] by (auto dest: issues_sel)
  show ?thesis
  proof (cases "log s2 = log s")
    case True
    have "isl r" using one True by auto
    then obtain err where r: "r = Inl err" by (cases r) auto
    have "ensures (creationFailed E c err s2) (\<lambda>_ s'. onlyNew (\<lambda>a. \<not> isCreateCall a) (log s2) s')"
      by (rule only.creationFailed_I) (simp_all add: onlyNew_refl isCreateCall_def)
    then show ?thesis using run r assms(2,3) True by (auto simp: onlyNew_def list_all_iff isCreateCall_def)
  next
    case False
    then have ne: "log s2 \<noteq> log ?s1" by simp
    obtain q w' where ans: "case fst (csi_CreateSnapshot E q w') of Inl e \<Rightarrow> r = Inl e | Inr _ \<Rightarrow> \<not> isl r"
      using theHandler_create_answer[OF h ne] by blast
    then obtain code t where r: "r = Inl (GRPCStatus code t)" "\<not> isCSIFinalError (GRPCStatus code t)"
      using assms(4)[rule_format, of q w'] by auto
    have "s' = s2 \<and> (\<exists>e. res = (c, Some e))"
      using creationFailed_pending[of E c "GRPCStatus code t" s2 res s'] run r by simp
    then show ?thesis using one False assms(2) by (auto simp: keepsAnnotation_def)
  qed
qed

text \<open>C16: When the driver does not say what became of a creation (the call timed out, was cancelled, aborted or
  lost its connection) the being-created annotation stays: the sync in which the call was made issues no
  patch that removes it, returns an error and is retried. And as long as a content created from a
  volume carries it, the content is not to be deleted, whatever else is set on it.\<close>

theorem timeout_keeps_annotation:
  assumes "syncContent_sidecar E (theHandler E) c s = Some ((requeue, err), s')" and "log s' = log s @ new"
    and "CSICreateSnapshot req \<in> set new"
    and "\<forall>req w. \<exists>code t. fst (csi_CreateSnapshot E req w) = Inl (GRPCStatus code t) \<and>
      code \<in> {codes_Canceled, codes_DeadlineExceeded, codes_Unavailable, codes_ResourceExhausted, codes_Aborted}"
  shows "requeue \<and> err \<noteq> None \<and> (\<forall>n sub. PatchVSC n removeAnnOps sub \<notin> set new) \<and>
    (\<forall>d. HasAnnotation (vsc_meta d) AnnVolumeSnapshotBeingCreated \<and> vsc_SnapshotHandle d = None \<longrightarrow> \<not> shouldDelete d)"
proof -
  have pend: "\<forall>req w. \<exists>code t. fst (csi_CreateSnapshot E req w) = Inl (GRPCStatus code t) \<and>
      \<not> isCSIFinalError (GRPCStatus code t)" using assms(4) by fastforce
  obtain r s1 n2 reason msg where sc: "createSnapshotWrapper E (theHandler E) c s = Some (r, s1)" "log s' = log s1 @ n2"
    "list_all (\<lambda>a. \<not> isCreateCall a) n2" "finishContent E reason msg r s1 = Some ((requeue, err), s')"
    using syncContent_creates[OF assms(1-3)] by blast
  have n2: "list_all keepsAnnotation n2"
    using ensuresD[OF finishContent_keeps sc(4)] sc(2) by (auto simp: onlyNew_def)
  obtain n1 where n1: "log s1 = log s @ n1" using hd.createSnapshotWrapper_log[OF sc(1)] by blast
  have new: "new = n1 @ n2" using n1 sc(2) assms(2) by simp
  then have c1: "CSICreateSnapshot req \<in> set n1" using assms(3) sc(3) by (auto simp: list_all_iff isCreateCall_def)
  obtain i s2 where i: "getCSISnapshotInput E c s = Some (i, s2)"
    using sc(1) by (auto simp: createSnapshotWrapper_def split: Option.bind_splits)
  note l2 = getCSISnapshotInput_log[OF i]
  obtain cl cr where ic: "i = Inr (cl, cr)"
    using sc(1) i l2 n1 c1 by (cases i) (auto simp: createSnapshotWrapper_def)
  obtain c' e s3 where a: "setAnnVolumeSnapshotBeingCreated E c s2 = Some ((c', e), s3)"
    using sc(1) i ic by (auto simp: createSnapshotWrapper_def split: Option.bind_splits)
  let ?pre = "if HasAnnotation (vsc_meta c) AnnVolumeSnapshotBeingCreated then []
        else [PatchVSC (vsc_Name c) (setAnnOps c) []]"
  have l3: "log s3 = log s @ ?pre" using setAnn_created_log[OF a] l2 by simp
  have e: "e = None" using sc(1) i ic a l3 n1 c1
    by (cases e) (auto simp: createSnapshotWrapper_def split: if_splits)
  then obtain k where t: "takeSnapshot E (theHandler E) c' k cr s3 = Some (r, s1)"
    using sc(1) i ic a by (auto simp: createSnapshotWrapper_def split: option.splits)
  obtain n3 where n3: "log s1 = log s3 @ n3" using hd.takeSnapshot_log[OF t] by blast
  have "n1 = ?pre @ n3" using n3 l3 n1 by simp
  moreover have "CSICreateSnapshot req \<in> set n3" using calculation c1 by (auto split: if_splits)
  ultimately have k: "list_all keepsAnnotation n1" "\<exists>e. r = (c', Some e)"
    using takeSnapshot_pending[OF t n3 _ pend] by (auto simp: keepsAnnotation_def setAnnOps_not_remove)
  then have "requeue \<and> err \<noteq> None"
    using sc(4) by (auto simp: finishContent_def split: Option.bind_splits)
  then show ?thesis using k n2 new by (auto simp: list_all_iff keepsAnnotation_def shouldDelete_def)
qed

theorem timeout_keeps_annotation_witness:
  "\<exists>e s'. syncContent_sidecar demoTimeoutEnv (theHandler demoTimeoutEnv) demoUncut (initialState ()) =
     Some ((True, Some e), s') \<and> PatchVSC ''snapcontent-uid1'' removeAnnOps [] \<notin> set (log s')"
proof -
  obtain e s' req where run: "syncContent_sidecar demoTimeoutEnv (theHandler demoTimeoutEnv) demoUncut (initialState ()) =
     Some ((True, Some e), s')" and c: "CSICreateSnapshot req \<in> set (log s')" using demo_timeout_run[of "initialState ()"] by blast
  have l: "log s' = log (initialState ()) @ log s'" by (simp add: initialState_def)
  show ?thesis using timeout_keeps_annotation[OF run l c] run by (auto simp: demoTimeoutEnv_def)
qed

text \<open>The effects of recording an error.\<close>

definition errorReport :: "action \<Rightarrow> bool" where
  "errorReport a = (isEvent a \<or> (\<exists>n st t m. a = PatchVSC n (errorPatches st t m) [''status'']))"

lemma errorStatus_only:
  "ensures (updateContentErrorStatusWithEvent E c ty reason msg s) (\<lambda>_ s'. onlyNew errorReport (log s) s')"
  by (rule only.errorStatus_I) (auto simp: errorReport_def onlyNew_refl)

lemma finishContent_error:
  "ensures (finishContent E reason msg (c, Some e) s) (\<lambda>_ s'. onlyNew errorReport (log s) s')"
  by (simp add: finishContent_def) (rule ensures_mono[OF errorStatus_only], simp)

text \<open>A content whose class has a reserved parameter that the sidecar does not know is stuck for good. The
  being-created annotation is written before the parameters are looked at, so it is on the content when
  the parameters are refused; every later sync then fails again and asks for a retry, calls the driver for
  nothing, takes neither the annotation nor the finalizer off, and only records the error and emits
  events. This holds whatever deletion time and annotations the content has: it can never be deleted.\<close>

theorem unknown_reserved_key_is_stuck:
  assumes "syncContent_sidecar E H c s = Some ((requeue, err), s')"
    and "HasAnnotation (vsc_meta c) AnnVolumeSnapshotBeingCreated" and "vsc_SnapshotHandle c = None"
    and "Option.bind (vsc_Status c) cs_SnapshotHandle = None"
    and "\<not> groupSnapshotMember c" and "\<not> contentIsReady c"
    and "spec_VolumeSnapshotClassName (vsc_Spec c) = Some cn" and "\<forall>w. fst (lister_GetClass E cn w) = Inr cl"
    and "\<forall>w. (k, v) \<in> set (fst (range_order E (vsclass_Parameters cl) w))"
    and "HasPrefix k csiParameterPrefix" and "\<not> isKnownPrefixedParameter k"
  shows "requeue \<and> err \<noteq> None \<and>
    onlyNew errorReport (log s) s'"
proof -
  have live: "\<not> shouldDelete c" using assms(2,3) by (simp add: shouldDelete_def)
  obtain r s1 reason msg where w: "createSnapshotWrapper E H c s = Some (r, s1)"
      "finishContent E reason msg r s1 = Some ((requeue, err), s')"
    using assms(1,3-6) live
    by (fastforce simp: syncContent_sidecar_def createSnapshot_def checkandUpdateContentStatus_def
        checkandUpdateContentStatusOperation_def Let_def split: if_splits Option.bind_splits)
  obtain i s2 where i: "getCSISnapshotInput E c s = Some (i, s2)"
    using w(1) by (auto simp: createSnapshotWrapper_def split: Option.bind_splits)
  have bad: "\<exists>e. RemovePrefixedParameters (fst (range_order E (vsclass_Parameters cl) w)) = Inl e" for w
  proof (cases "RemovePrefixedParameters (fst (range_order E (vsclass_Parameters cl) w))")
    case (Inr m)
    then show ?thesis using assms(9-11) unfolding RemovePrefixedParameters_def RemovePrefixedParameters_loop_iff
      by (metis fst_conv image_eqI)
  qed blast
  have cls: "cl' = Some cl" if "i = Inr (cl', cr)" for cl' cr
    using i that assms(7) assms(8)[rule_format, of "world s"]
    by (auto simp: getCSISnapshotInput_def getSnapshotClass_sidecar_def call_def
        split: prod.splits sum.splits Option.bind_splits)
  have "log s1 = log s \<and> (\<exists>e. r = (c, Some e))"
  proof (cases i)
    case (Inl e)
    then show ?thesis using w(1) i getCSISnapshotInput_log[OF i] by (auto simp: createSnapshotWrapper_def)
  next
    case (Inr p)
    then obtain cr where p: "i = Inr (Some cl, cr)" using cls by (cases p) auto
    have "setAnnVolumeSnapshotBeingCreated E c s2 = Some ((c, None), s2)"
      using assms(2) by (simp add: setAnnVolumeSnapshotBeingCreated_def)
    then have t: "takeSnapshot E H c cl cr s2 = Some (r, s1)"
      using w(1) i p by (simp add: createSnapshotWrapper_def)
    obtain e where "RemovePrefixedParameters (fst (range_order E (vsclass_Parameters cl) (world s2))) = Inl e"
      using bad by blast
    then show ?thesis using t getCSISnapshotInput_log[OF i]
      by (auto simp: takeSnapshot_def call_def split: prod.splits)
  qed
  then obtain e where e: "log s1 = log s" "r = (c, Some e)" by blast
  then have "requeue \<and> err \<noteq> None" using w(2) by (auto simp: finishContent_def split: Option.bind_splits)
  moreover have "onlyNew errorReport (log s1) s'"
    using ensuresD[OF finishContent_error w(2)[unfolded e(2)]] .
  ultimately show ?thesis by (simp add: e(1))
qed

definition demoBadKey :: string where
  "demoBadKey = ''csi.storage.k8s.io/fstype''"

definition demoBadKeyEnv :: "unit env" where
  "demoBadKeyEnv = nullEnv\<lparr>lister_GetClass := \<lambda>_ w. (Inr (demoSidecarClass (fmap_of_list [(demoBadKey, ''ext4'')])), w),
     range_order := \<lambda>_ w. ([(demoBadKey, ''ext4'')], w)\<rparr>"

definition demoBadKeyContent :: VolumeSnapshotContent where
  "demoBadKeyContent = demoCutting\<lparr>vsc_meta := (vsc_meta demoCutting)\<lparr>DeletionTimestamp := Some 5\<rparr>\<rparr>"

lemma demoBadKeyContent_sel:
  "HasAnnotation (vsc_meta demoBadKeyContent) AnnVolumeSnapshotBeingCreated"
  "vsc_SnapshotHandle demoBadKeyContent = None" "vsc_VolumeHandle demoBadKeyContent = Some ''vol1''"
  "vsc_Status demoBadKeyContent = None" "\<not> groupSnapshotMember demoBadKeyContent" "\<not> contentIsReady demoBadKeyContent"
  "spec_VolumeSnapshotClassName (vsc_Spec demoBadKeyContent) = Some ''class1''" "\<not> shouldDelete demoBadKeyContent"
  "\<not> HasAnnotation (vsc_meta demoBadKeyContent) AnnDeletionSecretRefName"
  by code_simp+

lemma demoBadKey_unknown: "HasPrefix demoBadKey csiParameterPrefix" "\<not> isKnownPrefixedParameter demoBadKey"
  by code_simp+

lemma demo_bad_key_run:
  "\<exists>e s'. syncContent_sidecar demoBadKeyEnv (theHandler demoBadKeyEnv) demoBadKeyContent (initialState ()) =
     Some ((True, Some e), s')"
  by (simp add: syncContent_sidecar_def demoBadKeyContent_sel createSnapshot_def createSnapshotWrapper_def
      getCSISnapshotInput_def getSnapshotClass_sidecar_def GetCredentialsFromAnnotation_def
      setAnnVolumeSnapshotBeingCreated_def takeSnapshot_def RemovePrefixedParameters_def demoBadKey_unknown
      demoBadKeyEnv_def call_def finishContent_def updateContentErrorStatusWithEvent_def sameContentError_def
      PatchVolumeSnapshotContent_def emit_def act_def nullEnv_def Let_def)

theorem unknown_reserved_key_is_stuck_witness:
  "\<exists>e s'. syncContent_sidecar demoBadKeyEnv (theHandler demoBadKeyEnv) demoBadKeyContent (initialState ()) =
     Some ((True, Some e), s') \<and> onlyNew errorReport [] s' \<and> DeletionTimestamp (vsc_meta demoBadKeyContent) \<noteq> None"
proof -
  obtain e s' where run: "syncContent_sidecar demoBadKeyEnv (theHandler demoBadKeyEnv) demoBadKeyContent
      (initialState ()) = Some ((True, Some e), s')" using demo_bad_key_run by blast
  have c: "\<forall>w. fst (lister_GetClass demoBadKeyEnv ''class1'' w) =
      Inr (demoSidecarClass (fmap_of_list [(demoBadKey, ''ext4'')]))" by (simp add: demoBadKeyEnv_def)
  have r: "\<forall>w. (demoBadKey, ''ext4'') \<in> set (fst (range_order demoBadKeyEnv
      (vsclass_Parameters (demoSidecarClass (fmap_of_list [(demoBadKey, ''ext4'')]))) w))"
    by (simp add: demoBadKeyEnv_def)
  show ?thesis
    using unknown_reserved_key_is_stuck[OF run demoBadKeyContent_sel(1,2) _ demoBadKeyContent_sel(5-7) c r demoBadKey_unknown]
      run demoBadKeyContent_sel(4) by (simp add: demoBadKeyContent_def initialState_def)
qed

section \<open>The status query and the retries\<close>

text \<open>Each step as one update of its field.\<close>

lemma withHandle_eq: "withHandle f (st, u) = (st\<lparr>cs_SnapshotHandle := (case cs_SnapshotHandle st of
    None \<Rightarrow> Some (r_handle f) | Some h \<Rightarrow> Some h)\<rparr>, u \<or> cs_SnapshotHandle st = None)"
  by (cases st) (auto simp: withHandle_def split: option.split)

lemma withReady_eq: "withReady f (st, u) = (st\<lparr>cs_ReadyToUse := Some (r_ready f),
    cs_Error := (if r_ready f \<and> cs_ReadyToUse st \<noteq> Some True then None else cs_Error st)\<rparr>,
    u \<or> cs_ReadyToUse st \<noteq> Some (r_ready f))"
  by (cases st) (auto simp: withReady_def Let_def)

lemma withCreationTime_eq: "withCreationTime f (st, u) = (st\<lparr>cs_CreationTime := (case cs_CreationTime st of
    None \<Rightarrow> Some (r_createdAt f) | Some h \<Rightarrow> Some h)\<rparr>, u \<or> cs_CreationTime st = None)"
  by (cases st) (auto simp: withCreationTime_def split: option.split)

lemma withSize_eq: "withSize f (st, u) = (st\<lparr>cs_RestoreSize := (if cs_RestoreSize st = None \<and> r_size f > 0
    then Some (r_size f) else cs_RestoreSize st)\<rparr>, u \<or> cs_RestoreSize st = None \<and> r_size f > 0)"
  by (cases st) (auto simp: withSize_def)

lemma withGroup_eq: "withGroup f (st, u) = (st\<lparr>cs_VolumeGroupSnapshotHandle :=
    (if cs_VolumeGroupSnapshotHandle st = None \<and> r_group f \<noteq> [] then Some (r_group f)
     else cs_VolumeGroupSnapshotHandle st)\<rparr>, u \<or> cs_VolumeGroupSnapshotHandle st = None \<and> r_group f \<noteq> [])"
  by (cases st) (auto simp: withGroup_def)

lemmas with_eqs = withHandle_eq withReady_eq withCreationTime_eq withSize_eq withGroup_eq

text \<open>What the driver reports is merged into the status of a content without going back: a handle, a
  creation time, a size and a group handle that are set stay as they are and are filled in when they
  are not (a size only when it is positive, a group only when it is named); the ready flag always
  becomes the reported one; an error stays unless the content becomes ready by this report. No update
  is asked for exactly when nothing differs, and merging the same report again changes nothing.\<close>

theorem content_status_merge:
  assumes "computeContentStatus (Some old) f = (st, updated)"
  shows "cs_SnapshotHandle st = (if cs_SnapshotHandle old = None then Some (r_handle f) else cs_SnapshotHandle old) \<and>
    cs_CreationTime st = (if cs_CreationTime old = None then Some (r_createdAt f) else cs_CreationTime old) \<and>
    cs_RestoreSize st = (if cs_RestoreSize old = None \<and> r_size f > 0 then Some (r_size f) else cs_RestoreSize old) \<and>
    cs_VolumeGroupSnapshotHandle st = (if cs_VolumeGroupSnapshotHandle old = None \<and> r_group f \<noteq> []
      then Some (r_group f) else cs_VolumeGroupSnapshotHandle old) \<and>
    cs_ReadyToUse st = Some (r_ready f) \<and>
    cs_Error st = (if r_ready f \<and> cs_ReadyToUse old \<noteq> Some True then None else cs_Error old) \<and>
    (updated \<longleftrightarrow> st \<noteq> old) \<and> computeContentStatus (Some st) f = (st, False)"
proof -
  have st: "st = old\<lparr>cs_SnapshotHandle := (case cs_SnapshotHandle old of None \<Rightarrow> Some (r_handle f) | Some h \<Rightarrow> Some h),
      cs_ReadyToUse := Some (r_ready f),
      cs_Error := (if r_ready f \<and> cs_ReadyToUse old \<noteq> Some True then None else cs_Error old),
      cs_CreationTime := (case cs_CreationTime old of None \<Rightarrow> Some (r_createdAt f) | Some h \<Rightarrow> Some h),
      cs_RestoreSize := (if cs_RestoreSize old = None \<and> r_size f > 0 then Some (r_size f) else cs_RestoreSize old),
      cs_VolumeGroupSnapshotHandle := (if cs_VolumeGroupSnapshotHandle old = None \<and> r_group f \<noteq> []
        then Some (r_group f) else cs_VolumeGroupSnapshotHandle old)\<rparr>"
    and up: "updated = (cs_SnapshotHandle old = None \<or> cs_ReadyToUse old \<noteq> Some (r_ready f) \<or>
      cs_CreationTime old = None \<or> cs_RestoreSize old = None \<and> r_size f > 0 \<or>
      cs_VolumeGroupSnapshotHandle old = None \<and> r_group f \<noteq> [])"
    using assms by (auto simp: computeContentStatus_def with_eqs)
  have "updated \<longleftrightarrow> st \<noteq> old" unfolding up st
    by (cases old, rename_tac h ct rs rd er g) (auto split: option.split)
  moreover have "computeContentStatus (Some st) f = (st, False)" unfolding st
    by (cases old) (auto simp: computeContentStatus_def with_eqs split: option.split)
  ultimately show ?thesis by (simp add: st split: option.split)
qed

definition demoReport :: csiFacts where
  "demoReport = \<lparr>r_handle = ''h2'', r_ready = True, r_createdAt = 8, r_size = 0, r_group = []\<rparr>"

theorem content_status_merge_witness:
  "\<exists>st. computeContentStatus (Some (emptyContentStatus\<lparr>cs_SnapshotHandle := Some ''h1'', cs_RestoreSize := Some 3\<rparr>))
     demoReport = (st, True) \<and> cs_SnapshotHandle st = Some ''h1'' \<and> cs_RestoreSize st = Some 3 \<and> cs_CreationTime st = Some 8"
proof -
  obtain st u where c: "computeContentStatus (Some (emptyContentStatus\<lparr>cs_SnapshotHandle := Some ''h1'',
      cs_RestoreSize := Some 3\<rparr>)) demoReport = (st, u)" by fastforce
  have "u" using c by (auto simp: computeContentStatus_def with_eqs emptyContentStatus_def)
  then show ?thesis using content_status_merge[OF c] c by (auto simp: demoReport_def emptyContentStatus_def)
qed

lemma contentIsReady_iff: "contentIsReady c \<longleftrightarrow> (\<exists>st. vsc_Status c = Some st \<and> cs_ReadyToUse st = Some True)"
  by (auto simp: contentIsReady_def split: option.splits)

lemma finishContent_result:
  assumes "finishContent E reason msg (d, e) s1 = Some ((rq, err), s')"
  shows "err = e \<and> (rq \<longleftrightarrow> e \<noteq> None \<or> \<not> contentIsReady d) \<and>
    (e = None \<longrightarrow> s' = s1\<lparr>contentStore := snd (StoreObjectUpdate (contentStore s1) (ObjVSC d) ''content'')\<rparr>)"
  using assms by (cases e) (auto simp: finishContent_def storeContentUpdate_def split: Option.bind_splits prod.splits)

text \<open>C33: The sidecar does not give up on a content. Every error asks for a retry. When a sync ends without asking for
  one there was no error, and it is one of three. The content was to be deleted, the driver confirmed the deletion if
  one was due, and the removal of the finalizer was the last step. Or the content was ready and the removal of its
  being-created annotation went through. Or the content that the creation, or otherwise the status query, of this very
  run returned is ready, and handing it to the cache was the last step. So as long as creation or query return a
  content that is not ready, every sync asks for the next one.\<close>

theorem sidecar_retries_until_ready:
  assumes "syncContent_sidecar E H c s = Some ((requeue, err), s')"
  shows "(err \<noteq> None \<longrightarrow> requeue) \<and>
    (\<not> requeue \<longrightarrow> err = None \<and>
      ((shouldDelete c \<and> (\<exists>d s1. (if mustDeleteSnapshot c then deleteCSISnapshot E H c s = Some ((d, None), s1)
           else d = c \<and> s1 = s) \<and> removeContentFinalizer E d s1 = Some (None, s'))) \<or>
       (\<not> shouldDelete c \<and> (\<exists>st d. vsc_Status c = Some st \<and> cs_ReadyToUse st = Some True \<and>
          removeAnnVolumeSnapshotBeingCreated E c s = Some ((d, None), s'))) \<or>
       (\<not> shouldDelete c \<and> (\<exists>d s1 st.
          (if vsc_VolumeHandle c \<noteq> None \<and> vsc_Status c = None \<and> \<not> groupSnapshotMember c
           then createSnapshotWrapper E H c s = Some ((d, None), s1)
           else checkandUpdateContentStatusOperation E H c s = Some ((d, None), s1)) \<and>
          vsc_Status d = Some st \<and> cs_ReadyToUse st = Some True \<and>
          s' = s1\<lparr>contentStore := snd (StoreObjectUpdate (contentStore s1) (ObjVSC d) ''content'')\<rparr>))))"
proof (cases "shouldDelete c")
  case True
  then have "syncDeletedContent E H c s = Some ((requeue, err), s')" using assms by (simp add: syncContent_sidecar_def)
  then show ?thesis using True
    by (auto simp: syncDeletedContent_def split: Option.bind_splits option.splits if_splits)
next
  case live: False
  let ?new = "vsc_VolumeHandle c \<noteq> None \<and> vsc_Status c = None \<and> \<not> groupSnapshotMember c"
  show ?thesis
  proof (cases "contentIsReady c")
    case True
    then have "vsc_Status c \<noteq> None" by (auto simp: contentIsReady_iff)
    then show ?thesis using assms live True
      by (auto simp: syncContent_sidecar_def contentIsReady_iff split: Option.bind_splits option.splits)
  next
    case False
    then obtain d e s1 reason msg where
      op: "(if ?new then createSnapshotWrapper E H c s else checkandUpdateContentStatusOperation E H c s) = Some ((d, e), s1)"
      and fin: "finishContent E reason msg (d, e) s1 = Some ((requeue, err), s')"
      using assms live by (auto simp: syncContent_sidecar_def createSnapshot_def checkandUpdateContentStatus_def
          split: if_splits Option.bind_splits)
    note f = finishContent_result[OF fin]
    show ?thesis
    proof (cases "e = None \<and> contentIsReady d")
      case True
      then obtain st where "vsc_Status d = Some st" "cs_ReadyToUse st = Some True" by (auto simp: contentIsReady_iff)
      then show ?thesis using f op live True by (auto split: if_splits)
    qed (use f in auto)
  qed
qed

theorem sidecar_retries_until_ready_witness:
  "\<exists>requeue err s'. syncContent_sidecar demoTimeoutEnv (theHandler demoTimeoutEnv) demoUncut (initialState ()) =
     Some ((requeue, err), s') \<and> err \<noteq> None \<and> requeue"
proof -
  obtain e s' where run: "syncContent_sidecar demoTimeoutEnv (theHandler demoTimeoutEnv) demoUncut (initialState ()) =
     Some ((True, Some e), s')" using demo_timeout_run[of "initialState ()"] by blast
  show ?thesis using sidecar_retries_until_ready[OF run] run by blast
qed

end
