(* ===== verification/SidecarBase.thy ===== *)
theory SidecarBase
  imports Sidecar
begin

text \<open>
  The work loop of the sidecar (\<open>pkg/sidecar-controller/snapshot_controller_base.go\<close>): which informer events
  it queues, whose contents it deals with, what a worker does with a key, and how its cache is filled at
  start. The group half of the controller is modelled as far as the driver match and the initial cache.
\<close>

section \<open>Informer events\<close>

definition enqueueContentWork_sidecar :: "informer_obj \<Rightarrow> 'w st \<Rightarrow> 'w st" where
  "enqueueContentWork_sidecar ob s =
    (case unwrapTombstone ob of
       Some (ObjVSC content) \<Rightarrow> emit (QueueAdd QContent (keyFunc (vsc_meta content))) s
     | _ \<Rightarrow> s)"

text \<open>The handler of an update, which leaves out what the sidecar itself has changed.\<close>

definition onContentUpdate :: "VolumeSnapshotContent \<Rightarrow> VolumeSnapshotContent \<Rightarrow> 'w st \<Rightarrow> 'w st" where
  "onContentUpdate oldObj newObj s =
    (if ShouldEnqueueContentChange oldObj newObj
     then enqueueContentWork_sidecar (InformerObj (ObjVSC newObj)) s else s)"

section \<open>Whose contents\<close>

text \<open>A class that the lister does not find is no reason to skip an object.\<close>

definition isDriverMatch :: "'w env \<Rightarrow> obj \<Rightarrow> 'w st \<Rightarrow> (bool \<times> 'w st) option" where
  "isDriverMatch E ob s =
    (case ob of
       ObjVSC content \<Rightarrow>
         if vsc_VolumeHandle content = None \<and> vsc_SnapshotHandle content = None then Some (False, s)
         else if spec_Driver (vsc_Spec content) \<noteq> ctrl_driverName E then Some (False, s)
         else (case spec_VolumeSnapshotClassName (vsc_Spec content) of
            Some snapshotClassName \<Rightarrow>
              do { (r, s) \<leftarrow> call (lister_GetClass E snapshotClassName) s;
                   case r of
                     Inr snapshotClass \<Rightarrow> Some (vsclass_Driver snapshotClass = ctrl_driverName E, s)
                   | Inl err \<Rightarrow> Some (True, s) }
          | None \<Rightarrow> Some (True, s))
     | ObjVGSC content \<Rightarrow>
         if gsrc_GroupSnapshotHandles (gspec_Source (vgsc_Spec content)) = None \<and>
            VolumeHandles (gspec_Source (vgsc_Spec content)) = [] then Some (False, s)
         else if gspec_Driver (vgsc_Spec content) \<noteq> ctrl_driverName E then Some (False, s)
         else (case gspec_VolumeGroupSnapshotClassName (vgsc_Spec content) of
            Some groupSnapshotClassName \<Rightarrow>
              do { (r, s) \<leftarrow> call (lister_GetGroupClass E groupSnapshotClassName) s;
                   case r of
                     Inr groupSnapshotClass \<Rightarrow> Some (vgsclass_Driver groupSnapshotClass = ctrl_driverName E, s)
                   | Inl err \<Rightarrow> Some (True, s) }
          | None \<Rightarrow> Some (True, s))
     | _ \<Rightarrow> Some (False, s))"

section \<open>The worker\<close>

definition deleteContentInCacheStore :: "VolumeSnapshotContent \<Rightarrow> 'w st \<Rightarrow> 'w st" where
  "deleteContentInCacheStore content s =
    s\<lparr>contentStore := (contentStore s)(keyFunc (vsc_meta content) := None)\<rparr>"

text \<open>Whether to requeue, and the error.\<close>

definition syncContentByKey_sidecar ::
  "'w env \<Rightarrow> 'w handler \<Rightarrow> string \<Rightarrow> 'w st \<Rightarrow> ((bool \<times> goerr option) \<times> 'w st) option" where
  "syncContentByKey_sidecar E H key s =
    (case SplitMetaNamespaceKey key of
       Inl err \<Rightarrow> Some ((False, None), s)
     | Inr (_, name) \<Rightarrow>
        do { (r, s) \<leftarrow> call (lister_GetVSC E name) s;
             case r of
               Inr content \<Rightarrow>
                 do { (matches, s) \<leftarrow> isDriverMatch E (ObjVSC content) s;
                      if matches then do {
                        (new, s) \<leftarrow> storeContentUpdate (ObjVSC content) s;
                        if new \<noteq> Inr True then Some ((False, None), s)
                        else do {
                          ((requeue, err), s) \<leftarrow> syncContent_sidecar E H content s;
                          if err \<noteq> None then Some ((True, err), s) else Some ((requeue, None), s) } }
                      else Some ((False, None), s) }
             | Inl err \<Rightarrow>
                 if \<not> IsNotFound err then Some ((False, None), s)
                 else (case contentStore s key of
                    None \<Rightarrow> Some ((False, None), s)
                  | Some (ObjVSC content) \<Rightarrow> Some ((False, None), deleteContentInCacheStore content s)
                  | Some _ \<Rightarrow> Some ((False, None), s)) })"

text \<open>The argument is what the queue's \<open>Get\<close> returned: \<open>None\<close> when it is shutting down.\<close>

definition processNextItem :: "'w env \<Rightarrow> 'w handler \<Rightarrow> string option \<Rightarrow> 'w st \<Rightarrow> (bool \<times> 'w st) option" where
  "processNextItem E H next s =
    (case next of
       None \<Rightarrow> Some (False, s)
     | Some key \<Rightarrow>
        do { ((requeue, err), s) \<leftarrow> syncContentByKey_sidecar E H key s;
             let requeue = (if err \<noteq> None then True else requeue);
             let s = (if requeue then emit (QueueAddRateLimited QContent key) s
                      else emit (QueueForget QContent key) s);
             Some (True, emit (QueueDone QContent key) s) })"

text \<open>The loop, as far as the queue has answered; after the last answer it waits.\<close>

fun contentWorker_sidecar :: "'w env \<Rightarrow> 'w handler \<Rightarrow> string option list \<Rightarrow> 'w st \<Rightarrow> (unit \<times> 'w st) option" where
  "contentWorker_sidecar E H [] s = Some ((), s)"
| "contentWorker_sidecar E H (next # answers) s =
    do { (more, s) \<leftarrow> processNextItem E H next s;
         if more then contentWorker_sidecar E H answers s else Some ((), s) }"

section \<open>The initial caches\<close>

fun storeMatching :: "'w env \<Rightarrow> VolumeSnapshotContent list \<Rightarrow> 'w st \<Rightarrow> 'w st option" where
  "storeMatching E [] s = Some s"
| "storeMatching E (content # contents) s =
    do { (matches, s) \<leftarrow> isDriverMatch E (ObjVSC content) s;
         s \<leftarrow> (if matches then do { (_, s) \<leftarrow> storeContentUpdate (ObjVSC content) s; Some s } else Some s);
         storeMatching E contents s }"

definition initializeCaches_sidecar :: "'w env \<Rightarrow> 'w st \<Rightarrow> (unit \<times> 'w st) option" where
  "initializeCaches_sidecar E s =
    do { (r, s) \<leftarrow> call (lister_ListVSC E) s;
         case r of
           Inl err \<Rightarrow> Some ((), s)
         | Inr contentList \<Rightarrow>
            do { s \<leftarrow> storeMatching E contentList s;
                 if enableVolumeGroupSnapshots E then
                   do { (r, s) \<leftarrow> call (lister_ListVGSC E) s;
                        case r of
                          Inl err \<Rightarrow> Some ((), s)
                        | Inr groupSnapshotContentList \<Rightarrow>
                           do { s \<leftarrow> storeAll storeGroupSnapshotContentUpdate
                                       (map ObjVGSC groupSnapshotContentList) s;
                                Some ((), s) } }
                 else Some ((), s) } }"

section \<open>What these operations do\<close>

lemma isDriverMatch_frame:
  assumes "isDriverMatch E ob s = Some (b, s')"
  shows "\<exists>w. s' = s\<lparr>world := w\<rparr>"
proof -
  have "\<exists>w. s = s\<lparr>world := w\<rparr>" by (rule exI[of _ "world s"]) simp
  then show ?thesis using assms
    by (auto simp: isDriverMatch_def call_def split: obj.splits if_splits option.splits prod.splits sum.splits)
qed

lemma storeContentUpdate_total: "\<exists>r s'. storeContentUpdate x s = Some (r, s')"
  by (simp add: storeContentUpdate_def split: prod.split)

lemma isDriverMatch_own:
  assumes "isDriverMatch E (ObjVSC c) s = Some (True, s')"
  shows "spec_Driver (vsc_Spec c) = ctrl_driverName E" "vsc_VolumeHandle c \<noteq> None \<or> vsc_SnapshotHandle c \<noteq> None"
    "\<And>n cl. spec_VolumeSnapshotClassName (vsc_Spec c) = Some n \<Longrightarrow> fst (lister_GetClass E n (world s)) = Inr cl \<Longrightarrow>
      vsclass_Driver cl = ctrl_driverName E"
  using assms by (auto simp: isDriverMatch_def call_def split: if_splits option.splits prod.splits sum.splits)

context effects
begin

lemma isDriverMatch_I: "I s \<Longrightarrow> (\<And>r s'. I s' \<Longrightarrow> Q r s') \<Longrightarrow> ensures (isDriverMatch E ob s) Q"
  by (auto simp: isDriverMatch_def intro!: call_I split: obj.split option.split sum.split)

end

context handler_client
begin

lemma syncContentByKey_sidecar_I:
  assumes "\<And>h cr. ok (CSIDeleteSnapshot h cr)" "\<And>d. ok (UpdateStatusVSC d)"
    "\<And>req. ok (CSICreateSnapshot req)" "\<And>h cr. ok (CSIListSnapshots h cr)"
    "\<And>d t r m. ok (Event (ObjVSC d) t r m)" "\<And>n p sub. plainOrStatus sub \<Longrightarrow> ok (PatchVSC n p sub)" "touch CContent" "I s"
    "\<And>r s'. I s' \<Longrightarrow> Q r s'"
  shows "ensures (syncContentByKey_sidecar E H key s) Q"
  unfolding syncContentByKey_sidecar_def
  by (rule keepI[OF _ assms(9)], insert assms(1-8), auto simp: deleteContentInCacheStore_def I_content
      intro!: call_I isDriverMatch_I storeContentUpdate_I syncContent_sidecar_I
      split: sum.split option.split obj.split)

end

section \<open>Properties\<close>

text \<open>C18: The sidecar acts on its own contents only. Whenever handling a key has any effect at all (a CSI call, a
  write, an event), the lister returned a content under that key which names the driver of this sidecar
  and has a source, and whose class, if the lister knows it, names that driver too; this version was
  accepted as not older than the cached one and put into the cache before anything else happened; and
  the whole effect is that of reconciling this content, whose error asks for a retry.\<close>

theorem sidecar_acts_on_own_contents:
  assumes "syncContentByKey_sidecar E H key s = Some ((requeue, err), s')" and "log s' \<noteq> log s"
  shows "\<exists>ns name c w s1 rq. SplitMetaNamespaceKey key = Inr (ns, name) \<and>
    lister_GetVSC E name (world s) = (Inr c, w) \<and> spec_Driver (vsc_Spec c) = ctrl_driverName E \<and>
    (vsc_VolumeHandle c \<noteq> None \<or> vsc_SnapshotHandle c \<noteq> None) \<and>
    (\<forall>n cl. spec_VolumeSnapshotClassName (vsc_Spec c) = Some n \<and> fst (lister_GetClass E n w) = Inr cl \<longrightarrow>
       vsclass_Driver cl = ctrl_driverName E) \<and>
    fst (StoreObjectUpdate (contentStore s) (ObjVSC c) ''content'') = Inr True \<and> log s1 = log s \<and>
    contentStore s1 = (contentStore s)(keyFunc (vsc_meta c) \<mapsto> ObjVSC c) \<and>
    syncContent_sidecar E H c s1 = Some ((rq, err), s') \<and> requeue = (rq \<or> err \<noteq> None)"
proof -
  obtain ns name where k: "SplitMetaNamespaceKey key = Inr (ns, name)"
    using assms by (cases "SplitMetaNamespaceKey key") (auto simp: syncContentByKey_sidecar_def)
  obtain r w where l: "lister_GetVSC E name (world s) = (r, w)" by fastforce
  let ?s0 = "s\<lparr>world := w\<rparr>"
  obtain c where c: "r = Inr c" using assms k l
    by (cases r) (auto simp: syncContentByKey_sidecar_def call_def deleteContentInCacheStore_def
        split: if_splits option.splits obj.splits)
  obtain m s0 where m: "isDriverMatch E (ObjVSC c) ?s0 = Some (m, s0)"
    using assms(1) k l c by (auto simp: syncContentByKey_sidecar_def call_def split: Option.bind_splits)
  obtain w0 where s0: "s0 = s\<lparr>world := w0\<rparr>" using isDriverMatch_frame[OF m] by auto
  have "m" using assms k l c m s0 by (cases m) (auto simp: syncContentByKey_sidecar_def call_def)
  then have own: "isDriverMatch E (ObjVSC c) ?s0 = Some (True, s0)" using m by simp
  obtain new s1 where st: "storeContentUpdate (ObjVSC c) s0 = Some (new, s1)"
    using storeContentUpdate_total by blast
  have ls: "log s1 = log s" using st s0 by (auto simp: storeContentUpdate_def split: prod.splits)
  have new: "new = Inr True"
  proof (rule ccontr)
    assume "new \<noteq> Inr True"
    then have "s' = s1" using assms(1) k l c own st by (simp add: syncContentByKey_sidecar_def call_def)
    then show False using ls assms(2) by simp
  qed
  have acc: "fst (StoreObjectUpdate (contentStore s) (ObjVSC c) ''content'') = Inr True"
    "contentStore s1 = (contentStore s)(keyFunc (vsc_meta c) \<mapsto> ObjVSC c)"
    using st new s0 StoreObjectUpdate_cases[of "contentStore s" "ObjVSC c" "''content''"]
    by (auto simp: storeContentUpdate_def split: prod.splits)
  have sync: "syncContentByKey_sidecar E H key s = (do { ((rq, e), t) \<leftarrow> syncContent_sidecar E H c s1;
      if e \<noteq> None then Some ((True, e), t) else Some ((rq, None), t) })"
    by (simp add: syncContentByKey_sidecar_def call_def k l c own st new)
  obtain rq e t where t: "syncContent_sidecar E H c s1 = Some ((rq, e), t)"
    using assms(1) unfolding sync by (cases "syncContent_sidecar E H c s1") auto
  have "e = err \<and> t = s' \<and> requeue = (rq \<or> err \<noteq> None)"
    using assms(1) unfolding sync t by (cases e) auto
  then have run: "syncContent_sidecar E H c s1 = Some ((rq, err), s')" "requeue = (rq \<or> err \<noteq> None)"
    using t by simp_all
  have l': "lister_GetVSC E name (world s) = (Inr c, w)" using l c by simp
  have cl: "\<forall>n cl. spec_VolumeSnapshotClassName (vsc_Spec c) = Some n \<and> fst (lister_GetClass E n w) = Inr cl \<longrightarrow>
      vsclass_Driver cl = ctrl_driverName E" using isDriverMatch_own(3)[OF own] by simp
  show ?thesis using k l' isDriverMatch_own(1,2)[OF own] cl acc ls run by blast
qed

text \<open>The worker of the sidecar accounts for every key it takes: however many keys the queue hands out,
  and whatever the reconciler does with them, the operations on the queue during the run are, in this
  order for each key, one that puts it back or forgets it, and one that marks it done; the loop ends
  only when the queue shuts down.\<close>

theorem sidecar_worker_accounts_for_keys:
  assumes "contentWorker_sidecar E (theHandler E) (map Some keys @ rest) s = Some ((), s')"
    and "rest = [] \<or> hd rest = None"
  shows "\<exists>new again. log s' = log s @ new \<and> length again = length keys \<and>
    filter (\<lambda>a. \<not> notWorker a) new =
      concat (map (\<lambda>(k, b). [if b then QueueAddRateLimited QContent k else QueueForget QContent k, QueueDone QContent k])
        (zip keys again))"
  using assms
proof (induction keys arbitrary: s)
  case Nil
  then have "s' = s" by (cases rest) (auto simp: processNextItem_def)
  then show ?case by simp
next
  case (Cons key keys)
  obtain rq e s1 where k: "syncContentByKey_sidecar E (theHandler E) key s = Some ((rq, e), s1)"
    using Cons.prems(1) by (auto simp: processNextItem_def split: Option.bind_splits)
  let ?b = "rq \<or> e \<noteq> None"
  let ?a = "[if ?b then QueueAddRateLimited QContent key else QueueForget QContent key, QueueDone QContent key]"
  obtain s2 where s2: "processNextItem E (theHandler E) (Some key) s = Some (True, s2)" "log s2 = log s1 @ ?a"
    using k by (auto simp: processNextItem_def emit_def Let_def)
  have "ensures (syncContentByKey_sidecar E (theHandler E) key s) (\<lambda>_ s'. onlyNew notWorker (log s) s')"
    by (rule hc.syncContentByKey_sidecar_I) (auto simp: onlyNew_refl)
  then obtain n1 where n1: "log s1 = log s @ n1" "list_all notWorker n1" using k by (auto simp: onlyNew_def)
  obtain n2 again where n2: "log s' = log s2 @ n2" "length again = length keys"
    "filter (\<lambda>a. \<not> notWorker a) n2 = concat (map (\<lambda>(k, b). [if b then QueueAddRateLimited QContent k
        else QueueForget QContent k, QueueDone QContent k]) (zip keys again))"
    using Cons.IH[of s2] Cons.prems s2(1) by auto
  have "filter (\<lambda>a. \<not> notWorker a) (n1 @ ?a @ n2) = ?a @ filter (\<lambda>a. \<not> notWorker a) n2"
    using n1(2) by (auto simp: list_all_iff notWorker_def filter_empty_conv)
  then show ?case using n1(1) s2(2) n2
    by (intro exI[of _ "n1 @ ?a @ n2"] exI[of _ "?b # again"]) simp
qed

lemma storeAll_group_contents_frame:
  assumes "storeAll storeGroupSnapshotContentUpdate xs s = Some s'"
  shows "log s' = log s \<and> contentStore s' = contentStore s"
  using assms
  by (induction xs arbitrary: s)
    (fastforce simp: storeGroupSnapshotContentUpdate_def split: Option.bind_splits prod.splits)+

lemma storeMatching_own:
  assumes "storeMatching E cs s = Some s'"
  shows "log s' = log s \<and> (\<forall>k x. contentStore s' k = Some x \<longrightarrow> contentStore s k = Some x \<or>
    (\<exists>c \<in> set cs. x = ObjVSC c \<and> keyFunc (vsc_meta c) = k \<and> spec_Driver (vsc_Spec c) = ctrl_driverName E \<and>
       (vsc_VolumeHandle c \<noteq> None \<or> vsc_SnapshotHandle c \<noteq> None)))"
  using assms
proof (induction cs arbitrary: s)
  case (Cons c cs)
  obtain m s1 where m: "isDriverMatch E (ObjVSC c) s = Some (m, s1)"
    using Cons.prems by (auto split: Option.bind_splits)
  obtain w where s1: "s1 = s\<lparr>world := w\<rparr>" using isDriverMatch_frame[OF m] by blast
  show ?case
  proof (cases m)
    case False
    then show ?thesis using Cons.prems Cons.IH[of s1] m s1 by auto
  next
    case True
    obtain r s2 where st: "storeContentUpdate (ObjVSC c) s1 = Some (r, s2)"
      using storeContentUpdate_total by blast
    have "log s2 = log s \<and> (contentStore s2 = contentStore s \<or>
        contentStore s2 = (contentStore s)(keyFunc (vsc_meta c) \<mapsto> ObjVSC c))"
      using st s1 StoreObjectUpdate_cases[of "contentStore s" "ObjVSC c" "''content''"]
      by (auto simp: storeContentUpdate_def split: prod.splits)
    moreover have "storeMatching E cs s2 = Some s'" using Cons.prems m True st by simp
    ultimately have l: "log s' = log s" and ih: "contentStore s' k = Some x \<Longrightarrow> contentStore s2 k = Some x \<or>
        (\<exists>c \<in> set cs. x = ObjVSC c \<and> keyFunc (vsc_meta c) = k \<and> spec_Driver (vsc_Spec c) = ctrl_driverName E \<and>
          (vsc_VolumeHandle c \<noteq> None \<or> vsc_SnapshotHandle c \<noteq> None))"
      and st2: "contentStore s2 k = Some x \<Longrightarrow> contentStore s k = Some x \<or> x = ObjVSC c \<and> keyFunc (vsc_meta c) = k" for k x
      using Cons.IH[of s2] by (auto split: if_splits)
    have own: "spec_Driver (vsc_Spec c) = ctrl_driverName E" "vsc_VolumeHandle c \<noteq> None \<or> vsc_SnapshotHandle c \<noteq> None"
      using isDriverMatch_own(1,2)[of E c s s1] m True by simp_all
    show ?thesis
    proof (intro conjI allI impI)
      fix k x assume "contentStore s' k = Some x"
      from ih[OF this] show "contentStore s k = Some x \<or> (\<exists>c' \<in> set (c # cs). x = ObjVSC c' \<and>
          keyFunc (vsc_meta c') = k \<and> spec_Driver (vsc_Spec c') = ctrl_driverName E \<and>
          (vsc_VolumeHandle c' \<noteq> None \<or> vsc_SnapshotHandle c' \<noteq> None))"
        using st2[of k x] own by (metis list.set_intros)
    qed (rule l)
  qed
qed simp

text \<open>At start the sidecar caches its own contents and nothing else: every content in the cache was listed,
  is stored under its own key, has a source and names the driver; nothing is written and no key is queued.\<close>

theorem sidecar_initial_cache:
  assumes "initializeCaches_sidecar E (initialState w) = Some ((), s')"
    and "fst (lister_ListVSC E w) = Inr cs" and "contentStore s' k = Some x"
  shows "log s' = [] \<and> (\<exists>c \<in> set cs. x = ObjVSC c \<and> keyFunc (vsc_meta c) = k \<and>
    spec_Driver (vsc_Spec c) = ctrl_driverName E \<and> (vsc_VolumeHandle c \<noteq> None \<or> vsc_SnapshotHandle c \<noteq> None))"
proof -
  obtain w1 where l: "lister_ListVSC E w = (Inr cs, w1)" using assms(2) by (cases "lister_ListVSC E w") auto
  let ?s1 = "(initialState w)\<lparr>world := w1\<rparr>"
  have i: "world (initialState w) = w" "contentStore ?s1 = Map.empty" "log ?s1 = []" by (simp_all add: initialState_def)
  obtain s2 where s2: "storeMatching E cs ?s1 = Some s2"
    using assms(1) l i by (auto simp: initializeCaches_sidecar_def call_def split: Option.bind_splits)
  have "log s' = log s2 \<and> contentStore s' = contentStore s2"
    using assms(1) l i s2
    by (auto dest!: storeAll_group_contents_frame simp: initializeCaches_sidecar_def call_def split: if_splits prod.splits sum.splits Option.bind_splits)
  then show ?thesis using storeMatching_own[OF s2] assms(3) i by auto
qed

lemma demo_uncut_key: "SplitMetaNamespaceKey ''snapcontent-uid1'' = Inr ([], ''snapcontent-uid1'')"
  by code_simp

lemma demo_uncut_driver: "spec_Driver (vsc_Spec demoUncut) = ''drv''" "ctrl_driverName demoTimeoutEnv = ''drv''"
  "lister_GetClass demoTimeoutEnv n w = (Inr (demoSidecarClass fmempty), w)"
  "vsclass_Driver (demoSidecarClass ps) = ''drv''"
  by (simp_all add: demoUncut_def demoSource_def emptyVolumeSnapshotContent_def demoTimeoutEnv_def nullEnv_def
      demoSidecarClass_def)

lemma demo_uncut_match: "isDriverMatch demoTimeoutEnv (ObjVSC demoUncut) s = Some (True, s)"
  by (simp add: isDriverMatch_def demoUncut_sel demo_uncut_driver call_def)

theorem sidecar_acts_on_own_contents_witness:
  "\<exists>r s'. syncContentByKey_sidecar demoTimeoutEnv (theHandler demoTimeoutEnv) ''snapcontent-uid1'' (initialState ()) =
     Some (r, s') \<and> log s' \<noteq> [] \<and> spec_Driver (vsc_Spec demoUncut) = ctrl_driverName demoTimeoutEnv"
proof -
  obtain new s1 where st: "storeContentUpdate (ObjVSC demoUncut) (initialState ()) = Some (new, s1)" "new = Inr True"
    by (simp add: storeContentUpdate_def StoreObjectUpdate_def initialState_def)
  obtain e s' req where run: "syncContent_sidecar demoTimeoutEnv (theHandler demoTimeoutEnv) demoUncut s1 =
     Some ((True, Some e), s')" and c: "CSICreateSnapshot req \<in> set (log s')" using demo_timeout_run by blast
  have l: "call (lister_GetVSC demoTimeoutEnv ''snapcontent-uid1'') (initialState ()) = Some (Inr demoUncut, initialState ())"
    by (simp add: call_def demoTimeoutEnv_def)
  have k: "syncContentByKey_sidecar demoTimeoutEnv (theHandler demoTimeoutEnv) ''snapcontent-uid1'' (initialState ()) =
     Some ((True, Some e), s')"
    by (simp add: syncContentByKey_sidecar_def demo_uncut_key l demo_uncut_match st run)
  have n: "log s' \<noteq> log (initialState ())" using c by (auto simp: initialState_def)
  have "lister_GetVSC demoTimeoutEnv n w = (Inr demoUncut, w)" for n w by (simp add: demoTimeoutEnv_def)
  then show ?thesis using sidecar_acts_on_own_contents[OF k n] k n by (auto simp: initialState_def)
qed

theorem sidecar_worker_accounts_for_keys_witness:
  "\<exists>s' again. contentWorker_sidecar nullEnv (theHandler nullEnv) [Some ''snapcontent-uid1'', None] (initialState ()) =
     Some ((), s') \<and> length again = (1 :: nat) \<and> filter (\<lambda>a. \<not> notWorker a) (log s') =
      concat (map (\<lambda>(k, b). [if b then QueueAddRateLimited QContent k else QueueForget QContent k, QueueDone QContent k])
        (zip [''snapcontent-uid1''] again))"
proof -
  have "\<exists>s'. contentWorker_sidecar nullEnv (theHandler nullEnv) (map Some [''snapcontent-uid1''] @ [None]) (initialState ()) =
     Some ((), s')"
    by (simp add: processNextItem_def syncContentByKey_sidecar_def demo_uncut_key call_def nullEnv_def notFound_def
        initialState_def)
  then obtain s' where run: "contentWorker_sidecar nullEnv (theHandler nullEnv) (map Some [''snapcontent-uid1''] @ [None])
      (initialState ()) = Some ((), s')" by blast
  then show ?thesis using sidecar_worker_accounts_for_keys[OF run] by (auto simp: initialState_def)
qed

definition demoSidecarListEnv :: "unit env" where
  "demoSidecarListEnv = demoTimeoutEnv\<lparr>lister_ListVSC := \<lambda>w. (Inr [demoUncut], w)\<rparr>"

theorem sidecar_initial_cache_witness:
  "\<exists>s'. initializeCaches_sidecar demoSidecarListEnv (initialState ()) = Some ((), s') \<and>
     contentStore s' ''snapcontent-uid1'' = Some (ObjVSC demoUncut) \<and> log s' = []"
proof -
  have m: "isDriverMatch demoSidecarListEnv (ObjVSC demoUncut) s = Some (True, s)" for s :: "unit st"
    by (simp add: demoSidecarListEnv_def isDriverMatch_def demoUncut_sel demo_uncut_driver call_def)
  have n: "keyFunc (vsc_meta demoUncut) = ''snapcontent-uid1''" by code_simp
  have l: "lister_ListVSC demoSidecarListEnv w = (Inr [demoUncut], w)" for w by (simp add: demoSidecarListEnv_def)
  have g: "\<not> enableVolumeGroupSnapshots demoSidecarListEnv"
    by (simp add: demoSidecarListEnv_def demoTimeoutEnv_def nullEnv_def)
  have "\<exists>s'. initializeCaches_sidecar demoSidecarListEnv (initialState ()) = Some ((), s') \<and>
      contentStore s' ''snapcontent-uid1'' = Some (ObjVSC demoUncut)"
    by (simp add: initializeCaches_sidecar_def call_def l m g storeContentUpdate_def StoreObjectUpdate_def
        initialState_def n)
  then obtain s' where run: "initializeCaches_sidecar demoSidecarListEnv (initialState ()) = Some ((), s')"
    "contentStore s' ''snapcontent-uid1'' = Some (ObjVSC demoUncut)" by blast
  show ?thesis using sidecar_initial_cache[OF run(1) _ run(2)] run l by simp
qed

end
