(* ===== verification/GroupHandler.thy ===== *)
theory GroupHandler
  imports CsiHandler
begin

text \<open>
  The group half of the way to the CSI driver: the GroupSnapshotter (\<open>pkg/group_snapshotter\<close>), the three
  group operations of the Handler of the sidecar (\<open>pkg/sidecar-controller/csi_handler.go\<close>), and the
  conversions of CSI values (\<open>pkg/utils/conversion.go\<close>). As for single snapshots, an interface value is
  a record of its operations and a locale is the contract of the interface.
\<close>

section \<open>Conversions\<close>

definition CSITimestampToKubernetes :: "Time option \<Rightarrow> int option" where
  "CSITimestampToKubernetes creationTime =
    (case creationTime of None \<Rightarrow> None | Some t \<Rightarrow> Some (UnixNano (AsTime (Some t))))"

definition CSISizeToKubernetes :: "int \<Rightarrow> int option" where
  "CSISizeToKubernetes sizeBytes = (if sizeBytes = 0 then None else Some sizeBytes)"

section \<open>The GroupSnapshotter\<close>

text \<open>What a creation returns: driver name, group snapshot ID, snapshots, creation time, readiness.\<close>

type_synonym group_reply = "string \<times> string \<times> csi_Snapshot list \<times> Time \<times> bool"

record 'w group_snapshotter =
  gs_CreateGroupSnapshot :: "string \<Rightarrow> string list \<Rightarrow> strmap \<Rightarrow> strmap \<Rightarrow> 'w st
    \<Rightarrow> ((goerr + group_reply) \<times> 'w st) option"
  gs_DeleteGroupSnapshot :: "string \<Rightarrow> string list \<Rightarrow> strmap \<Rightarrow> 'w st \<Rightarrow> (goerr option \<times> 'w st) option"
  gs_GetGroupSnapshotStatus :: "string \<Rightarrow> string list \<Rightarrow> strmap \<Rightarrow> 'w st
    \<Rightarrow> ((goerr + bool \<times> Time) \<times> 'w st) option"

text \<open>A response without a group snapshot is dereferenced all the same.\<close>

definition groupSnapshot_CreateGroupSnapshot ::
  "'w env \<Rightarrow> string \<Rightarrow> string list \<Rightarrow> strmap \<Rightarrow> strmap \<Rightarrow> 'w st
    \<Rightarrow> ((goerr + group_reply) \<times> 'w st) option" where
  "groupSnapshot_CreateGroupSnapshot E groupSnapshotName volumeIDs parameters snapshotterCredentials s =
    do { (r, s) \<leftarrow> call (csi_GetDriverName E) s;
         case r of
           Inl err \<Rightarrow> Some (Inl err, s)
         | Inr driverName \<Rightarrow>
            let req = \<lparr>gr_Name = groupSnapshotName, SourceVolumeIds = volumeIDs,
                       gr_Secrets = snapshotterCredentials, gr_Parameters = parameters\<rparr> in
            do { (r, s) \<leftarrow> act (CSICreateGroupSnapshot req) (csi_CreateVolumeGroupSnapshot E req) s;
                 case r of
                   Inl err \<Rightarrow> Some (Inl err, s)
                 | Inr rsp \<Rightarrow>
                    do { gs \<leftarrow> rsp;
                         Some (Inr (driverName, cg_GroupSnapshotId gs, cg_Snapshots gs,
                                    AsTime (cg_CreationTime gs), cg_ReadyToUse gs), s) } } }"

definition groupSnapshot_DeleteGroupSnapshot ::
  "'w env \<Rightarrow> string \<Rightarrow> string list \<Rightarrow> strmap \<Rightarrow> 'w st \<Rightarrow> (goerr option \<times> 'w st) option" where
  "groupSnapshot_DeleteGroupSnapshot E groupSnapshotID snapshotIds snapshotterCredentials s =
    act (CSIDeleteGroupSnapshot groupSnapshotID snapshotIds snapshotterCredentials)
      (csi_DeleteVolumeGroupSnapshot E groupSnapshotID snapshotIds snapshotterCredentials) s"

definition groupSnapshot_GetGroupSnapshotStatus ::
  "'w env \<Rightarrow> string \<Rightarrow> string list \<Rightarrow> strmap \<Rightarrow> 'w st \<Rightarrow> ((goerr + bool \<times> Time) \<times> 'w st) option" where
  "groupSnapshot_GetGroupSnapshotStatus E groupSnapshotID snapshotIds snapshotterCredentials s =
    do { (r, s) \<leftarrow> act (CSIGetGroupSnapshot groupSnapshotID snapshotIds snapshotterCredentials)
                    (csi_GetVolumeGroupSnapshot E groupSnapshotID snapshotIds snapshotterCredentials) s;
         case r of
           Inl err \<Rightarrow> Some (Inl err, s)
         | Inr rsp \<Rightarrow>
            do { gs \<leftarrow> rsp;
                 Some (Inr (cg_ReadyToUse gs, AsTime (cg_CreationTime gs)), s) } }"

definition NewGroupSnapshotter :: "'w env \<Rightarrow> 'w group_snapshotter" where
  "NewGroupSnapshotter E = \<lparr>gs_CreateGroupSnapshot = groupSnapshot_CreateGroupSnapshot E,
     gs_DeleteGroupSnapshot = groupSnapshot_DeleteGroupSnapshot E,
     gs_GetGroupSnapshotStatus = groupSnapshot_GetGroupSnapshotStatus E\<rparr>"

section \<open>The Handler\<close>

record 'w group_handler =
  h_CreateGroupSnapshot :: "VolumeGroupSnapshotContent \<Rightarrow> strmap \<Rightarrow> strmap \<Rightarrow> 'w st
    \<Rightarrow> ((goerr + group_reply) \<times> 'w st) option"
  h_GetGroupSnapshotStatus :: "VolumeGroupSnapshotContent \<Rightarrow> string list \<Rightarrow> strmap \<Rightarrow> 'w st
    \<Rightarrow> ((goerr + bool \<times> Time) \<times> 'w st) option"
  h_DeleteGroupSnapshot :: "VolumeGroupSnapshotContent \<Rightarrow> string list \<Rightarrow> strmap \<Rightarrow> 'w st
    \<Rightarrow> (goerr option \<times> 'w st) option"

text \<open>A slice beyond the end of the string, or of negative length, is a run-time panic.\<close>

definition makeGroupSnapshotName :: "'w env \<Rightarrow> string \<Rightarrow> (goerr + string) option" where
  "makeGroupSnapshotName E groupSnapshotUID =
    (if length groupSnapshotUID = 0 then Some (Inl (Errorf ''group snapshot object is missing UID''))
     else if groupSnapshotNameUUIDLength E = -1 then
       Some (Inr (groupSnapshotNamePrefix E @ ''-'' @ groupSnapshotUID))
     else
       let uid = filter (\<lambda>c. c \<noteq> CHR ''-'') groupSnapshotUID in
       if groupSnapshotNameUUIDLength E < 0 \<or> groupSnapshotNameUUIDLength E > int (length uid) then None
       else Some (Inr (groupSnapshotNamePrefix E @ ''-'' @ take (nat (groupSnapshotNameUUIDLength E)) uid)))"

definition csiHandler_CreateGroupSnapshot ::
  "'w env \<Rightarrow> 'w group_snapshotter \<Rightarrow> VolumeGroupSnapshotContent \<Rightarrow> strmap \<Rightarrow> strmap \<Rightarrow> 'w st
    \<Rightarrow> ((goerr + group_reply) \<times> 'w st) option" where
  "csiHandler_CreateGroupSnapshot E S content parameters snapshotterCredentials s =
    (if ref_UID (vgsc_Ref content) = [] then
       Some (Inl (Errorf (sprint [''cannot create group snapshot. Group snapshot content '',
         vgsc_Name content, '' not bound to a group snapshot''])), s)
     else if length (vgsc_VolumeHandles content) = 0 then
       Some (Inl (Errorf (sprint [''cannot create group snapshot. PVCs to be snapshotted not found in group snapshot content '',
         vgsc_Name content])), s)
     else
        do { r \<leftarrow> makeGroupSnapshotName E (ref_UID (vgsc_Ref content));
             case r of
               Inl err \<Rightarrow> Some (Inl err, s)
             | Inr groupSnapshotName \<Rightarrow>
                gs_CreateGroupSnapshot S groupSnapshotName (vgsc_VolumeHandles content) parameters
                  snapshotterCredentials s })"

text \<open>The handle of a group content: that of its status, else that of its source.\<close>

definition groupSnapshotHandleOf :: "VolumeGroupSnapshotContent \<Rightarrow> string option" where
  "groupSnapshotHandleOf content =
    (case Option.bind (vgsc_Status content) gcs_VolumeGroupSnapshotHandle of
       Some h \<Rightarrow> Some h
     | None \<Rightarrow> map_option gh_VolumeGroupSnapshotHandle (vgsc_Handles content))"

definition csiHandler_DeleteGroupSnapshot ::
  "'w group_snapshotter \<Rightarrow> VolumeGroupSnapshotContent \<Rightarrow> string list \<Rightarrow> strmap \<Rightarrow> 'w st
    \<Rightarrow> (goerr option \<times> 'w st) option" where
  "csiHandler_DeleteGroupSnapshot S content snapshotIDs snapshotterCredentials s =
    (if length snapshotIDs = 0 then
       Some (Some (Errorf (sprint [''cannot delete group snapshot content '', vgsc_Name content,
         ''. No snapshots found in the group snapshot''])), s)
     else case groupSnapshotHandleOf content of
       None \<Rightarrow> Some (Some (Errorf (sprint [''failed to delete group snapshot content '', vgsc_Name content,
         '': groupsnapshotHandle is missing''])), s)
     | Some groupSnapshotHandle \<Rightarrow>
        gs_DeleteGroupSnapshot S groupSnapshotHandle snapshotIDs snapshotterCredentials s)"

definition csiHandler_GetGroupSnapshotStatus ::
  "'w group_snapshotter \<Rightarrow> VolumeGroupSnapshotContent \<Rightarrow> string list \<Rightarrow> strmap \<Rightarrow> 'w st
    \<Rightarrow> ((goerr + bool \<times> Time) \<times> 'w st) option" where
  "csiHandler_GetGroupSnapshotStatus S content snapshotIDs snapshotterCredentials s =
    (if length snapshotIDs = 0 then
       Some (Inl (Errorf (sprint [''cannot list group snapshot '', vgsc_Name content,
         ''. No snapshots found in the group snapshot content''])), s)
     else case groupSnapshotHandleOf content of
       None \<Rightarrow> Some (Inl (Errorf (sprint [''failed to list group snapshot for group snapshot content '',
         vgsc_Name content, '': groupSnapshotHandle is missing''])), s)
     | Some groupSnapshotHandle \<Rightarrow>
        do { (r, s) \<leftarrow> gs_GetGroupSnapshotStatus S groupSnapshotHandle snapshotIDs snapshotterCredentials s;
             case r of
               Inl err \<Rightarrow> Some (Inl (Errorf (sprint [''failed to list group snapshot for group snapshot content '',
                 vgsc_Name content, '': '', goQuote (err_text err)])), s)
             | Inr st \<Rightarrow> Some (Inr st, s) })"

definition NewCSIGroupHandler :: "'w env \<Rightarrow> 'w group_snapshotter \<Rightarrow> 'w group_handler" where
  "NewCSIGroupHandler E S = \<lparr>h_CreateGroupSnapshot = csiHandler_CreateGroupSnapshot E S,
     h_GetGroupSnapshotStatus = csiHandler_GetGroupSnapshotStatus S,
     h_DeleteGroupSnapshot = csiHandler_DeleteGroupSnapshot S\<rparr>"

section \<open>The contracts\<close>

locale group_snapshotter_contract =
  fixes S :: "'w group_snapshotter" and deleted :: "string \<Rightarrow> string list \<Rightarrow> strmap \<Rightarrow> bool"
  assumes create_calls: "gs_CreateGroupSnapshot S nm vols params secrets s = Some (r, s') \<Longrightarrow>
      (isl r \<and> issues [] s s') \<or>
      issues [CSICreateGroupSnapshot \<lparr>gr_Name = nm, SourceVolumeIds = vols, gr_Secrets = secrets,
        gr_Parameters = params\<rparr>] s s'"
    and delete_returns: "\<exists>err s'. gs_DeleteGroupSnapshot S h ids secrets s = Some (err, s')"
    and delete_calls: "gs_DeleteGroupSnapshot S h ids secrets s = Some (err, s') \<Longrightarrow>
      issues [CSIDeleteGroupSnapshot h ids secrets] s s' \<and> (err = None \<longrightarrow> deleted h ids secrets)"
    and status_calls: "gs_GetGroupSnapshotStatus S h ids secrets s = Some (st, s') \<Longrightarrow>
      issues [CSIGetGroupSnapshot h ids secrets] s s'"

text \<open>
  The contract of the handler: a creation is for all the volume handles of the content at once, under the
  name that belongs to the UID of the group; a deletion names every member handle it was given and is
  confirmed by the driver when no error is returned, and it always returns.
\<close>

locale group_handler_contract =
  fixes H :: "'w group_handler" and nameOf :: "string \<Rightarrow> string option"
    and deleted :: "string \<Rightarrow> string list \<Rightarrow> strmap \<Rightarrow> bool"
  assumes create_calls: "h_CreateGroupSnapshot H c params secrets s = Some (r, s') \<Longrightarrow>
      (isl r \<and> issues [] s s') \<or>
      (\<exists>nm. nameOf (ref_UID (vgsc_Ref c)) = Some nm \<and> ref_UID (vgsc_Ref c) \<noteq> [] \<and> vgsc_VolumeHandles c \<noteq> [] \<and>
        issues [CSICreateGroupSnapshot \<lparr>gr_Name = nm, SourceVolumeIds = vgsc_VolumeHandles c,
          gr_Secrets = secrets, gr_Parameters = params\<rparr>] s s')"
    and delete_returns: "\<exists>err s'. h_DeleteGroupSnapshot H c ids secrets s = Some (err, s')"
    and delete_calls: "h_DeleteGroupSnapshot H c ids secrets s = Some (err, s') \<Longrightarrow>
      ((ids = [] \<or> groupSnapshotHandleOf c = None) \<and> err \<noteq> None \<and> issues [] s s') \<or>
      (\<exists>h. groupSnapshotHandleOf c = Some h \<and> ids \<noteq> [] \<and> issues [CSIDeleteGroupSnapshot h ids secrets] s s' \<and>
        (err = None \<longrightarrow> deleted h ids secrets))"
    and status_calls: "h_GetGroupSnapshotStatus H c ids secrets s = Some (st, s') \<Longrightarrow>
      issues [] s s' \<or>
      (\<exists>h. groupSnapshotHandleOf c = Some h \<and> issues [CSIGetGroupSnapshot h ids secrets] s s')"

text \<open>The driver has confirmed a deletion.\<close>

definition groupConfirmed :: "'w env \<Rightarrow> string \<Rightarrow> string list \<Rightarrow> strmap \<Rightarrow> bool" where
  "groupConfirmed E h ids secrets = (\<exists>w. fst (csi_DeleteVolumeGroupSnapshot E h ids secrets w) = None)"

lemma groupConfirmedI:
  "csi_DeleteVolumeGroupSnapshot E h ids secrets w = (None, w') \<Longrightarrow> groupConfirmed E h ids secrets"
  unfolding groupConfirmed_def by (rule exI[of _ w]) simp

interpretation gsn: group_snapshotter_contract "NewGroupSnapshotter E" "groupConfirmed E" for E
proof unfold_locales
  fix nm vols params secrets h ids r err st and s s' :: "'a st"
  show "gs_CreateGroupSnapshot (NewGroupSnapshotter E) nm vols params secrets s = Some (r, s') \<Longrightarrow>
      (isl r \<and> issues [] s s') \<or>
      issues [CSICreateGroupSnapshot \<lparr>gr_Name = nm, SourceVolumeIds = vols, gr_Secrets = secrets,
        gr_Parameters = params\<rparr>] s s'"
    by (auto simp: NewGroupSnapshotter_def groupSnapshot_CreateGroupSnapshot_def call_def act_def issues_def Let_def
        split: prod.splits sum.splits Option.bind_splits)
  show "\<exists>err s'. gs_DeleteGroupSnapshot (NewGroupSnapshotter E) h ids secrets s = Some (err, s')"
    by (simp add: NewGroupSnapshotter_def groupSnapshot_DeleteGroupSnapshot_def call_def act_def split: prod.split)
  show "gs_DeleteGroupSnapshot (NewGroupSnapshotter E) h ids secrets s = Some (err, s') \<Longrightarrow>
      issues [CSIDeleteGroupSnapshot h ids secrets] s s' \<and> (err = None \<longrightarrow> groupConfirmed E h ids secrets)"
    by (auto simp: NewGroupSnapshotter_def groupSnapshot_DeleteGroupSnapshot_def call_def act_def issues_def
        split: prod.splits intro: groupConfirmedI)
  show "gs_GetGroupSnapshotStatus (NewGroupSnapshotter E) h ids secrets s = Some (st, s') \<Longrightarrow>
      issues [CSIGetGroupSnapshot h ids secrets] s s'"
    by (auto simp: NewGroupSnapshotter_def groupSnapshot_GetGroupSnapshotStatus_def call_def act_def issues_def
        split: prod.splits sum.splits Option.bind_splits)
qed

definition groupSnapshotNameOf :: "'w env \<Rightarrow> string \<Rightarrow> string option" where
  "groupSnapshotNameOf E uid = (case makeGroupSnapshotName E uid of Some (Inr n) \<Rightarrow> Some n | _ \<Rightarrow> None)"

sublocale group_snapshotter_contract < handler: group_handler_contract "NewCSIGroupHandler E S" "groupSnapshotNameOf E" deleted for E
proof unfold_locales
  fix c params secrets ids r err st and s s' :: "'w st"
  show "h_CreateGroupSnapshot (NewCSIGroupHandler E S) c params secrets s = Some (r, s') \<Longrightarrow>
      (isl r \<and> issues [] s s') \<or>
      (\<exists>nm. groupSnapshotNameOf E (ref_UID (vgsc_Ref c)) = Some nm \<and> ref_UID (vgsc_Ref c) \<noteq> [] \<and>
        vgsc_VolumeHandles c \<noteq> [] \<and>
        issues [CSICreateGroupSnapshot \<lparr>gr_Name = nm, SourceVolumeIds = vgsc_VolumeHandles c,
          gr_Secrets = secrets, gr_Parameters = params\<rparr>] s s')"
    by (auto simp: NewCSIGroupHandler_def csiHandler_CreateGroupSnapshot_def groupSnapshotNameOf_def issues_refl
        split: option.splits if_splits sum.splits Option.bind_splits dest: create_calls)
  show "\<exists>err s'. h_DeleteGroupSnapshot (NewCSIGroupHandler E S) c ids secrets s = Some (err, s')"
    using delete_returns
    by (auto simp: NewCSIGroupHandler_def csiHandler_DeleteGroupSnapshot_def split: option.split)
  show "h_DeleteGroupSnapshot (NewCSIGroupHandler E S) c ids secrets s = Some (err, s') \<Longrightarrow>
      ((ids = [] \<or> groupSnapshotHandleOf c = None) \<and> err \<noteq> None \<and> issues [] s s') \<or>
      (\<exists>h. groupSnapshotHandleOf c = Some h \<and> ids \<noteq> [] \<and> issues [CSIDeleteGroupSnapshot h ids secrets] s s' \<and>
        (err = None \<longrightarrow> deleted h ids secrets))"
    by (auto simp: NewCSIGroupHandler_def csiHandler_DeleteGroupSnapshot_def issues_refl
        split: option.splits if_splits dest: delete_calls)
  show "h_GetGroupSnapshotStatus (NewCSIGroupHandler E S) c ids secrets s = Some (st, s') \<Longrightarrow>
      issues [] s s' \<or>
      (\<exists>h. groupSnapshotHandleOf c = Some h \<and> issues [CSIGetGroupSnapshot h ids secrets] s s')"
    by (auto simp: NewCSIGroupHandler_def csiHandler_GetGroupSnapshotStatus_def issues_refl
        split: option.splits sum.splits if_splits Option.bind_splits dest: status_calls)
qed

text \<open>The handler the sidecar runs with.\<close>

definition theGroupHandler :: "'w env \<Rightarrow> 'w group_handler" where
  "theGroupHandler E = NewCSIGroupHandler E (NewGroupSnapshotter E)"

interpretation ghd: group_handler_contract "theGroupHandler E" "groupSnapshotNameOf E" "groupConfirmed E" for E
  unfolding theGroupHandler_def by (rule gsn.handler.group_handler_contract_axioms)

text \<open>A client of the handler whose invariant survives every effect the handler may issue.\<close>

locale group_handler_client = effects I ok touch + group_handler_contract H nameOf deleted
  for I :: "'w st \<Rightarrow> bool" and ok touch and H :: "'w group_handler" and nameOf deleted
begin

lemma h_CreateGroupSnapshot_I:
  assumes "\<And>req. ok (CSICreateGroupSnapshot req)" "I s" "\<And>r s'. I s' \<Longrightarrow> Q r s'"
  shows "ensures (h_CreateGroupSnapshot H c params secrets s) Q"
proof (rule ensuresI)
  fix r s' assume "h_CreateGroupSnapshot H c params secrets s = Some (r, s')"
  from create_calls[OF this] have "I s'" using assms(1,2) issues_I by fastforce
  then show "Q r s'" by (rule assms(3))
qed

lemma h_DeleteGroupSnapshot_I:
  assumes "\<And>h ids cr. ok (CSIDeleteGroupSnapshot h ids cr)" "I s" "\<And>r s'. I s' \<Longrightarrow> Q r s'"
  shows "ensures (h_DeleteGroupSnapshot H c ids secrets s) Q"
proof (rule ensuresI)
  fix r s' assume "h_DeleteGroupSnapshot H c ids secrets s = Some (r, s')"
  from delete_calls[OF this] have "I s'" using assms(1,2) issues_I by fastforce
  then show "Q r s'" by (rule assms(3))
qed

lemma h_GetGroupSnapshotStatus_I:
  assumes "\<And>h ids cr. ok (CSIGetGroupSnapshot h ids cr)" "I s" "\<And>r s'. I s' \<Longrightarrow> Q r s'"
  shows "ensures (h_GetGroupSnapshotStatus H c ids secrets s) Q"
proof (rule ensuresI)
  fix r s' assume "h_GetGroupSnapshotStatus H c ids secrets s = Some (r, s')"
  from status_calls[OF this] have "I s'" using assms(1,2) issues_I by fastforce
  then show "Q r s'" by (rule assms(3))
qed

end

interpretation ghc: group_handler_client "onlyNew ok l0" ok "\<lambda>_. True" "theGroupHandler E" "groupSnapshotNameOf E" "groupConfirmed E"
  for ok l0 E
  by unfold_locales

end
