(* ===== verification/SidecarGroup.thy ===== *)
theory SidecarGroup
  imports SidecarBase GroupHandler
begin

text \<open>
  The group half of the sidecar controller (\<open>pkg/sidecar-controller/groupsnapshot_helper.go\<close>): it
  reconciles group contents as \<open>Sidecar\<close> reconciles single contents, creating, querying and deleting the
  group snapshot through the handler. A deletion ends by synchronizing the content again with its handle
  cleared: that recursion is a partial function, whose value \<open>None\<close> is a run-time panic or a run that
  does not end.
\<close>

section \<open>Small checks\<close>

definition groupContentIsReady :: "VolumeGroupSnapshotContent \<Rightarrow> bool" where
  "groupContentIsReady groupSnapshotContent =
    (case vgsc_Status groupSnapshotContent of None \<Rightarrow> False | Some st \<Rightarrow> gcs_ReadyToUse st = Some True)"

definition shouldDeleteGroupSnapshotContent :: "VolumeGroupSnapshotContent \<Rightarrow> bool" where
  "shouldDeleteGroupSnapshotContent groupSnapshotContent =
    (if DeletionTimestamp (vgsc_meta groupSnapshotContent) = None then False
     else if vgsc_Handles groupSnapshotContent \<noteq> None \<and> ref_UID (vgsc_Ref groupSnapshotContent) = [] then True
     else if HasAnnotation (vgsc_meta groupSnapshotContent) AnnVolumeGroupSnapshotBeingCreated then False
     else if HasAnnotation (vgsc_meta groupSnapshotContent) AnnVolumeGroupSnapshotBeingDeleted then True
     else False)"

text \<open>Whether the group snapshot is still to be deleted on the storage system.\<close>

definition mustDeleteGroupSnapshot :: "VolumeGroupSnapshotContent \<Rightarrow> bool" where
  "mustDeleteGroupSnapshot groupSnapshotContent =
    (vgsc_Policy groupSnapshotContent = VolumeSnapshotContentDelete \<and>
     Option.bind (vgsc_Status groupSnapshotContent) gcs_VolumeGroupSnapshotHandle \<noteq> None)"

section \<open>Annotations and finalizers\<close>

definition setGroupAnnOps :: "VolumeGroupSnapshotContent \<Rightarrow> PatchOp list" where
  "setGroupAnnOps groupSnapshotContent = [patchOp ''replace'' ''/metadata/annotations''
     (PVMap (fmupd AnnVolumeGroupSnapshotBeingCreated ''yes'' (Annotations (vgsc_meta groupSnapshotContent))))]"

definition removeGroupAnnOps :: "PatchOp list" where
  "removeGroupAnnOps = [patchOp ''remove''
     (''/metadata/annotations/'' @ escapeSlashes AnnVolumeGroupSnapshotBeingCreated) PVNone]"

definition unfinalizeGroupOps :: "VolumeGroupSnapshotContent \<Rightarrow> PatchOp list" where
  "unfinalizeGroupOps groupSnapshotContent = [patchOp ''replace'' ''/metadata/finalizers''
     (PVStrings (RemoveString (Finalizers (vgsc_meta groupSnapshotContent)) VolumeGroupSnapshotContentFinalizer))]"

text \<open>The patched group content is stored in the cache of the single contents here, as in the source.\<close>

definition setAnnVolumeGroupSnapshotBeingCreated ::
  "'w env \<Rightarrow> VolumeGroupSnapshotContent \<Rightarrow> 'w st
    \<Rightarrow> ((VolumeGroupSnapshotContent \<times> goerr option) \<times> 'w st) option" where
  "setAnnVolumeGroupSnapshotBeingCreated E groupSnapshotContent s =
    (if HasAnnotation (vgsc_meta groupSnapshotContent) AnnVolumeGroupSnapshotBeingCreated
     then Some ((groupSnapshotContent, None), s)
     else
       do { ((patched, err), s) \<leftarrow> PatchVolumeGroupSnapshotContent E groupSnapshotContent
              (setGroupAnnOps groupSnapshotContent) [] s;
            case err of
              Some err \<Rightarrow> Some ((groupSnapshotContent,
                Some (newControllerUpdateError (vgsc_Name groupSnapshotContent) (err_text err))), s)
            | None \<Rightarrow>
               do { (_, s) \<leftarrow> storeContentUpdate (ObjVGSC patched) s;
                    Some ((patched, None), s) } })"

definition removeAnnVolumeGroupSnapshotBeingCreated ::
  "'w env \<Rightarrow> VolumeGroupSnapshotContent \<Rightarrow> 'w st
    \<Rightarrow> ((VolumeGroupSnapshotContent \<times> goerr option) \<times> 'w st) option" where
  "removeAnnVolumeGroupSnapshotBeingCreated E groupSnapshotContent s =
    (if \<not> HasAnnotation (vgsc_meta groupSnapshotContent) AnnVolumeGroupSnapshotBeingCreated
     then Some ((groupSnapshotContent, None), s)
     else
       do { ((updated, err), s) \<leftarrow> PatchVolumeGroupSnapshotContent E groupSnapshotContent removeGroupAnnOps [] s;
            case err of
              Some err \<Rightarrow> Some ((groupSnapshotContent,
                Some (newControllerUpdateError (vgsc_Name groupSnapshotContent) (err_text err))), s)
            | None \<Rightarrow>
               do { (_, s) \<leftarrow> storeGroupSnapshotContentUpdate (ObjVGSC updated) s;
                    Some ((updated, None), s) } })"

definition removeGroupSnapshotContentFinalizer ::
  "'w env \<Rightarrow> VolumeGroupSnapshotContent \<Rightarrow> 'w st \<Rightarrow> (goerr option \<times> 'w st) option" where
  "removeGroupSnapshotContentFinalizer E groupSnapshotContent s =
    (if \<not> Contains (Finalizers (vgsc_meta groupSnapshotContent)) VolumeGroupSnapshotContentFinalizer
     then Some (None, s)
     else
       do { ((updated, err), s) \<leftarrow> PatchVolumeGroupSnapshotContent E groupSnapshotContent
              (unfinalizeGroupOps groupSnapshotContent) [] s;
            case err of
              Some err \<Rightarrow> Some (Some (newControllerUpdateError (vgsc_Name groupSnapshotContent) (err_text err)), s)
            | None \<Rightarrow> do { (_, s) \<leftarrow> storeGroupSnapshotContentUpdate (ObjVGSC updated) s; Some (None, s) } })"

section \<open>Credentials and class\<close>

definition GetCredentialsFromAnnotationForGroupSnapshot ::
  "'w env \<Rightarrow> VolumeGroupSnapshotContent \<Rightarrow> 'w st \<Rightarrow> ((goerr + strmap) \<times> 'w st) option" where
  "GetCredentialsFromAnnotationForGroupSnapshot E groupSnapshotContent s =
    (if HasAnnotation (vgsc_meta groupSnapshotContent) AnnDeletionGroupSecretRefName \<and>
        HasAnnotation (vgsc_meta groupSnapshotContent) AnnDeletionGroupSecretRefNamespace then
       let secretName = mapGet (Annotations (vgsc_meta groupSnapshotContent)) AnnDeletionGroupSecretRefName;
           secretNamespace = mapGet (Annotations (vgsc_meta groupSnapshotContent)) AnnDeletionGroupSecretRefNamespace in
       if secretName = [] \<or> secretNamespace = [] then
         Some (Inl (Errorf (sprint [''cannot retrieve secrets for group snapshot content '',
           goQuote (vgsc_Name groupSnapshotContent), '', err: secret name or namespace not specified''])), s)
       else do {
         (r, s) \<leftarrow> GetCredentials E (Some \<lparr>sec_Name = secretName, sec_Namespace = secretNamespace\<rparr>) s;
         case r of
           Inl err \<Rightarrow> Some (Inl (Errorf (sprint [''cannot get credentials for group snapshot content '',
             goQuote (vgsc_Name groupSnapshotContent)])), s)
         | Inr creds \<Rightarrow> Some (Inr creds, s) }
     else Some (Inr fmempty, s))"

definition getGroupSnapshotClass_sidecar ::
  "'w env \<Rightarrow> string \<Rightarrow> 'w st \<Rightarrow> ((goerr + VolumeGroupSnapshotClass) \<times> 'w st) option" where
  "getGroupSnapshotClass_sidecar E className s = call (lister_GetGroupClass E className) s"

definition getCSIGroupSnapshotInput ::
  "'w env \<Rightarrow> VolumeGroupSnapshotContent \<Rightarrow> 'w st
    \<Rightarrow> ((goerr + VolumeGroupSnapshotClass option \<times> strmap) \<times> 'w st) option" where
  "getCSIGroupSnapshotInput E groupSnapshotContent s =
    do { (r, s) \<leftarrow>
           (case gspec_VolumeGroupSnapshotClassName (vgsc_Spec groupSnapshotContent) of
              Some className \<Rightarrow>
                do { (r, s) \<leftarrow> getGroupSnapshotClass_sidecar E className s;
                     Some (map_sum (\<lambda>e. e) Some r, s) }
            | None \<Rightarrow>
                if length (vgsc_VolumeHandles groupSnapshotContent) \<noteq> 0 then
                  Some (Inl (Errorf (sprint [''failed to take group snapshot '', vgsc_Name groupSnapshotContent,
                    '' without a group snapshot class''])), s)
                else Some (Inr None, s));
         case r of
           Inl err \<Rightarrow> Some (Inl err, s)
         | Inr class \<Rightarrow>
            do { (r, s) \<leftarrow> GetCredentialsFromAnnotationForGroupSnapshot E groupSnapshotContent s;
                 case r of
                   Inl err \<Rightarrow> Some (Inl err, s)
                 | Inr creds \<Rightarrow> Some (Inr (class, creds), s) } }"

section \<open>The status of a group content\<close>

definition memberInfo :: "csi_Snapshot \<Rightarrow> VolumeSnapshotInfo" where
  "memberInfo snapshot =
    \<lparr>vsi_VolumeHandle = csi_SourceVolumeId snapshot, vsi_SnapshotHandle = SnapshotId snapshot,
     vsi_CreationTime = CSITimestampToKubernetes (csi_CreationTime snapshot),
     vsi_ReadyToUse = Some (csi_ReadyToUse snapshot),
     vsi_RestoreSize = CSISizeToKubernetes (SizeBytes snapshot)\<rparr>"

record groupFacts =
  g_handle :: string
  g_ready :: bool
  g_createdAt :: Time
  g_snapshots :: "csi_Snapshot list"

text \<open>An empty list of members counts as one to be filled in, with an empty list too.\<close>

definition computeGroupContentStatus ::
  "VolumeGroupSnapshotContentStatus option \<Rightarrow> groupFacts \<Rightarrow> VolumeGroupSnapshotContentStatus \<times> bool" where
  "computeGroupContentStatus old f =
    (case old of
       None \<Rightarrow>
        (\<lparr>gcs_VolumeGroupSnapshotHandle = Some (g_handle f), gcs_CreationTime = Some (g_createdAt f),
          gcs_ReadyToUse = Some (g_ready f), gcs_Error = None,
          VolumeSnapshotInfoList = map memberInfo (g_snapshots f)\<rparr>, True)
     | Some st0 \<Rightarrow>
        (let (st1, u1) = (if gcs_VolumeGroupSnapshotHandle st0 = None
               then (st0\<lparr>gcs_VolumeGroupSnapshotHandle := Some (g_handle f)\<rparr>, True) else (st0, False));
             (st2, u2) = (if gcs_ReadyToUse st1 \<noteq> Some (g_ready f) then
               (let st = st1\<lparr>gcs_ReadyToUse := Some (g_ready f)\<rparr> in
                if g_ready f \<and> gcs_Error st \<noteq> None then st\<lparr>gcs_Error := None\<rparr> else st, True) else (st1, u1));
             (st3, u3) = (if gcs_CreationTime st2 = None
               then (st2\<lparr>gcs_CreationTime := Some (g_createdAt f)\<rparr>, True) else (st2, u2)) in
         if length (VolumeSnapshotInfoList st3) = 0
         then (st3\<lparr>VolumeSnapshotInfoList := map memberInfo (g_snapshots f)\<rparr>, True) else (st3, u3)))"

text \<open>On an error the caller uses the error only.\<close>

definition updateGroupSnapshotContentStatus ::
  "'w env \<Rightarrow> VolumeGroupSnapshotContent \<Rightarrow> groupFacts \<Rightarrow> 'w st
    \<Rightarrow> ((goerr + VolumeGroupSnapshotContent) \<times> 'w st) option" where
  "updateGroupSnapshotContentStatus E groupSnapshotContent f s =
    do { (r, s) \<leftarrow> call (api_GetVGSC E (vgsc_Name groupSnapshotContent)) s;
         case r of
           Inl err \<Rightarrow> Some (Inl (Errorf (sprint [''error get group snapshot content '',
             vgsc_Name groupSnapshotContent, '' from api server: '', err_text err])), s)
         | Inr contentObj \<Rightarrow>
            let (newStatus, updated) = computeGroupContentStatus (vgsc_Status contentObj) f in
            if updated then
              let clone = contentObj\<lparr>vgsc_Status := Some newStatus\<rparr> in
              do { (r, s) \<leftarrow> act (UpdateStatusVGSC clone) (api_UpdateStatusVGSC E clone) s;
                   case r of
                     Inl err \<Rightarrow> Some (Inl (newControllerUpdateError (vgsc_Name groupSnapshotContent) (err_text err)), s)
                   | Inr newContent \<Rightarrow> Some (Inr newContent, s) }
            else Some (Inr contentObj, s) }"

definition sameGroupContentError :: "VolumeGroupSnapshotContentStatus option \<Rightarrow> string \<Rightarrow> bool option" where
  "sameGroupContentError st message =
    (case Option.bind st gcs_Error of
       None \<Rightarrow> Some False
     | Some e \<Rightarrow> map_option (\<lambda>m. m = message) (err_Message e))"

definition groupErrorPatches ::
  "VolumeGroupSnapshotContentStatus option \<Rightarrow> Time \<Rightarrow> string \<Rightarrow> PatchOp list" where
  "groupErrorPatches st now message =
    (let err = \<lparr>err_Time = Some now, err_Message = Some message\<rparr> in
     case st of
       None \<Rightarrow> [patchOp ''replace'' ''/status''
          (PVGroupContentStatus (emptyGroupContentStatus\<lparr>gcs_ReadyToUse := Some False, gcs_Error := Some err\<rparr>))]
     | Some _ \<Rightarrow> [patchOp ''replace'' ''/status/error'' (PVError err),
                  patchOp ''replace'' ''/status/readyToUse'' (PVBool False)])"

definition updateGroupSnapshotContentErrorStatusWithEvent ::
  "'w env \<Rightarrow> VolumeGroupSnapshotContent \<Rightarrow> event_type \<Rightarrow> string \<Rightarrow> string \<Rightarrow> 'w st
    \<Rightarrow> (goerr option \<times> 'w st) option" where
  "updateGroupSnapshotContentErrorStatusWithEvent E groupSnapshotContent eventtype reason message s =
    do { same \<leftarrow> sameGroupContentError (vgsc_Status groupSnapshotContent) message;
         if same then Some (None, s)
         else do {
           (now, s) \<leftarrow> call (time_Now E) s;
           ((newContent, err), s) \<leftarrow> PatchVolumeGroupSnapshotContent E groupSnapshotContent
              (groupErrorPatches (vgsc_Status groupSnapshotContent) now message) [''status''] s;
           let s = emit (Event (ObjVGSC newContent) eventtype reason message) s;
           case err of
             Some err \<Rightarrow> Some (Some err, s)
           | None \<Rightarrow>
              do { (r, s) \<leftarrow> storeGroupSnapshotContentUpdate (ObjVGSC newContent) s;
                   case r of Inl err \<Rightarrow> Some (Some err, s) | Inr _ \<Rightarrow> Some (None, s) } } }"

section \<open>Deletion\<close>

definition clearedGroupStatus :: "VolumeGroupSnapshotContent \<Rightarrow> VolumeGroupSnapshotContent" where
  "clearedGroupStatus groupSnapshotContent =
    (case vgsc_Status groupSnapshotContent of
       None \<Rightarrow> groupSnapshotContent
     | Some st \<Rightarrow> groupSnapshotContent\<lparr>vgsc_Status := Some (st\<lparr>gcs_VolumeGroupSnapshotHandle := None,
                    gcs_ReadyToUse := None, gcs_CreationTime := None, gcs_Error := None\<rparr>)\<rparr>)"

definition clearGroupSnapshotContentStatus ::
  "'w env \<Rightarrow> string \<Rightarrow> 'w st \<Rightarrow> ((goerr + VolumeGroupSnapshotContent) \<times> 'w st) option" where
  "clearGroupSnapshotContentStatus E groupSnapshotContentName s =
    do { (r, s) \<leftarrow> call (api_GetVGSC E groupSnapshotContentName) s;
         case r of
           Inl err \<Rightarrow> Some (Inl (Errorf (sprint [''error get group snapshot content '',
             groupSnapshotContentName, '' from api server: '', err_text err])), s)
         | Inr groupSnapshotContent \<Rightarrow>
            do { (r, s) \<leftarrow> act (UpdateStatusVGSC (clearedGroupStatus groupSnapshotContent))
                             (api_UpdateStatusVGSC E (clearedGroupStatus groupSnapshotContent)) s;
                 case r of
                   Inl err \<Rightarrow> Some (Inl (newControllerUpdateError groupSnapshotContentName (err_text err)), s)
                 | Inr newContent \<Rightarrow> Some (Inr newContent, s) } }"

text \<open>The member handles: of the status, else, when it lists none, of a pre-provisioned source.\<close>

definition groupSnapshotIDs :: "VolumeGroupSnapshotContent \<Rightarrow> string list" where
  "groupSnapshotIDs groupSnapshotContent =
    (case vgsc_Status groupSnapshotContent of
       None \<Rightarrow> []
     | Some st \<Rightarrow>
        if length (VolumeSnapshotInfoList st) \<noteq> 0 then map vsi_SnapshotHandle (VolumeSnapshotInfoList st)
        else (case vgsc_Handles groupSnapshotContent of
                None \<Rightarrow> [] | Some handles \<Rightarrow> gh_VolumeSnapshotHandles handles))"

definition groupDeleteError :: "VolumeGroupSnapshotContent \<Rightarrow> string \<Rightarrow> action" where
  "groupDeleteError c message = Event (ObjVGSC c) EventTypeWarning ''GroupSnapshotDeleteError'' message"

text \<open>\<open>deleteCSIGroupSnapshotOperation\<close> up to the content with its status cleared.\<close>

definition deleteAndClearGroupSnapshot ::
  "'w env \<Rightarrow> 'w group_handler \<Rightarrow> VolumeGroupSnapshotContent \<Rightarrow> 'w st
    \<Rightarrow> ((goerr + VolumeGroupSnapshotContent) \<times> 'w st) option" where
  "deleteAndClearGroupSnapshot E H groupSnapshotContent s =
    do { (r, s) \<leftarrow> GetCredentialsFromAnnotationForGroupSnapshot E groupSnapshotContent s;
         case r of
           Inl err \<Rightarrow>
             Some (Inl (Errorf (sprint [''failed to get input parameters to delete group snapshot for group snapshot content '',
               vgsc_Name groupSnapshotContent, '': '', goQuote (err_text err)])),
               emit (groupDeleteError groupSnapshotContent ''Failed to get snapshot credentials'') s)
         | Inr snapshotterCredentials \<Rightarrow>
            do { (err, s) \<leftarrow> h_DeleteGroupSnapshot H groupSnapshotContent (groupSnapshotIDs groupSnapshotContent)
                   snapshotterCredentials s;
                 case err of
                   Some err \<Rightarrow>
                     Some (Inl (Errorf (sprint [''failed to delete group snapshot '',
                       goQuote (vgsc_Name groupSnapshotContent), '', err: '', err_text err])),
                       emit (groupDeleteError groupSnapshotContent ''Failed to delete group snapshot'') s)
                 | None \<Rightarrow>
                    do { (r, s) \<leftarrow> clearGroupSnapshotContentStatus E (vgsc_Name groupSnapshotContent) s;
                         case r of
                           Inl err \<Rightarrow> Some (Inl err,
                             emit (groupDeleteError groupSnapshotContent ''Failed to clear content status'') s)
                         | Inr newContent \<Rightarrow> Some (Inr newContent, s) } } }"

section \<open>Creation\<close>

definition createGroupParameters :: "'w env \<Rightarrow> VolumeGroupSnapshotContent \<Rightarrow> strmap \<Rightarrow> strmap" where
  "createGroupParameters E content parameters =
    (if extraCreateMetadata E then
       fmupd PrefixedVolumeGroupSnapshotContentNameKey (vgsc_Name content)
         (fmupd PrefixedVolumeGroupSnapshotNamespaceKey (ref_Namespace (vgsc_Ref content))
           (fmupd PrefixedVolumeGroupSnapshotNameKey (ref_Name (vgsc_Ref content)) parameters))
     else parameters)"

definition groupCreationFailed ::
  "'w env \<Rightarrow> VolumeGroupSnapshotContent \<Rightarrow> goerr \<Rightarrow> 'w st
    \<Rightarrow> ((VolumeGroupSnapshotContent \<times> goerr option) \<times> 'w st) option" where
  "groupCreationFailed E content err s =
    do { ((content, removeErr), s) \<leftarrow>
           (if isCSIFinalError err then removeAnnVolumeGroupSnapshotBeingCreated E content s
            else Some ((content, None), s));
         case removeErr of
           Some e \<Rightarrow> Some ((content, Some (Errorf (sprint [''failed to remove VolumeGroupSnapshotBeingCreated annotation from the group snapshot content '',
             vgsc_Name content, '': '', err_text e]))), s)
         | None \<Rightarrow> Some ((content, Some (Errorf (sprint [''failed to take group snapshot of the volumes '',
             goStrings (vgsc_VolumeHandles content), '': '', goQuote (err_text err)]))), s) }"

definition groupCreationDone ::
  "'w env \<Rightarrow> VolumeGroupSnapshotContent \<Rightarrow> group_reply \<Rightarrow> 'w st
    \<Rightarrow> ((VolumeGroupSnapshotContent \<times> goerr option) \<times> 'w st) option" where
  "groupCreationDone E content reply s =
    (let (driverName, groupSnapshotID, snapshots, creationTime, readyToUse) = reply in
     do { (creationTime, s) \<leftarrow> (if creationTime = zeroTime then call (time_Now E) s else Some (creationTime, s));
          (r, s) \<leftarrow> updateGroupSnapshotContentStatus E content
             \<lparr>g_handle = groupSnapshotID, g_ready = readyToUse, g_createdAt = creationTime,
              g_snapshots = snapshots\<rparr> s;
          case r of
            Inl err \<Rightarrow> Some ((content, Some (Errorf (sprint [''error updating status for volume group snapshot content '',
              vgsc_Name content, '': '', err_text err]))), s)
          | Inr newContent \<Rightarrow>
             do { ((content, err), s) \<leftarrow> removeAnnVolumeGroupSnapshotBeingCreated E newContent s;
                  case err of
                    Some err \<Rightarrow> Some ((content, Some (Errorf (sprint [''failed to remove VolumeGroupSnapshotBeingCreated annotation on the groupSnapshotContent '',
                      vgsc_Name content, '': '', goQuote (err_text err)]))), s)
                  | None \<Rightarrow> Some ((content, None), s) } })"

text \<open>From the parameters of the class on; the range over them is in the order the runtime chooses.\<close>

definition takeGroupSnapshot ::
  "'w env \<Rightarrow> 'w group_handler \<Rightarrow> VolumeGroupSnapshotContent \<Rightarrow> VolumeGroupSnapshotClass \<Rightarrow> strmap \<Rightarrow> 'w st
    \<Rightarrow> ((VolumeGroupSnapshotContent \<times> goerr option) \<times> 'w st) option" where
  "takeGroupSnapshot E H content class snapshotterCredentials s =
    do { (entries, s) \<leftarrow> call (range_order E (vgsclass_Parameters class)) s;
         case RemovePrefixedParameters entries of
           Inl err \<Rightarrow> Some ((content, Some (Errorf (sprint [''failed to remove CSI Parameters of prefixed keys: '',
             err_text err]))), s)
         | Inr parameters \<Rightarrow>
            do { (r, s) \<leftarrow> h_CreateGroupSnapshot H content (createGroupParameters E content parameters)
                   snapshotterCredentials s;
                 case r of
                   Inl err \<Rightarrow> groupCreationFailed E content err s
                 | Inr reply \<Rightarrow> groupCreationDone E content reply s } }"

text \<open>A content that needs no class gets none, and its parameters are dereferenced all the same.\<close>

definition createGroupSnapshotWrapper ::
  "'w env \<Rightarrow> 'w group_handler \<Rightarrow> VolumeGroupSnapshotContent \<Rightarrow> 'w st
    \<Rightarrow> ((VolumeGroupSnapshotContent \<times> goerr option) \<times> 'w st) option" where
  "createGroupSnapshotWrapper E H content s =
    do { (r, s) \<leftarrow> getCSIGroupSnapshotInput E content s;
         case r of
           Inl err \<Rightarrow> Some ((content, Some (Errorf (sprint [''failed to get input parameters to create group snapshot for group snapshot content '',
             vgsc_Name content, '': '', goQuote (err_text err)]))), s)
         | Inr (class, snapshotterCredentials) \<Rightarrow>
            do { ((content, err), s) \<leftarrow> setAnnVolumeGroupSnapshotBeingCreated E content s;
                 case err of
                   Some err \<Rightarrow> Some ((content, Some (Errorf (sprint [''failed to add VolumeGroupSnapshotBeingCreated annotation on the group snapshot content '',
                     vgsc_Name content, '': '', goQuote (err_text err)]))), s)
                 | None \<Rightarrow>
                    (case class of
                       None \<Rightarrow> None
                     | Some class \<Rightarrow> takeGroupSnapshot E H content class snapshotterCredentials s) } }"

text \<open>The two callers record an error in the status, or cache the content; neither asks for a retry of a content that is not ready.\<close>

definition finishGroupContent ::
  "'w env \<Rightarrow> string \<Rightarrow> string \<Rightarrow> VolumeGroupSnapshotContent \<times> goerr option \<Rightarrow> 'w st
    \<Rightarrow> (goerr option \<times> 'w st) option" where
  "finishGroupContent E reason text res s =
    (let (contentObj, err) = res in
     case err of
       Some err \<Rightarrow>
         do { (_, s) \<leftarrow> updateGroupSnapshotContentErrorStatusWithEvent E contentObj EventTypeWarning reason
                (sprint [text, err_text err]) s;
              Some (Some err, s) }
     | None \<Rightarrow>
         do { (_, s) \<leftarrow> storeGroupSnapshotContentUpdate (ObjVGSC contentObj) s;
              Some (None, s) })"

definition createGroupSnapshot ::
  "'w env \<Rightarrow> 'w group_handler \<Rightarrow> VolumeGroupSnapshotContent \<Rightarrow> 'w st \<Rightarrow> (goerr option \<times> 'w st) option" where
  "createGroupSnapshot E H content s =
    do { (res, s) \<leftarrow> createGroupSnapshotWrapper E H content s;
         finishGroupContent E ''GroupSnapshotCreationFailed'' ''Failed to create group snapshot: '' res s }"

section \<open>The status query\<close>

definition groupStatusCredentials ::
  "'w env \<Rightarrow> VolumeGroupSnapshotContent \<Rightarrow> 'w st \<Rightarrow> ((goerr + strmap) \<times> 'w st) option" where
  "groupStatusCredentials E content s =
    (case gspec_VolumeGroupSnapshotClassName (vgsc_Spec content) of
       None \<Rightarrow> Some (Inr fmempty, s)
     | Some className \<Rightarrow>
        do { (r, s) \<leftarrow> getGroupSnapshotClass_sidecar E className s;
             case r of
               Inl err \<Rightarrow> Some (Inl (Errorf (sprint [''failed to get group snapshot class '', className,
                 '' for group snapshot content '', vgsc_Name content, '': '', err_text err])), s)
             | Inr class \<Rightarrow>
                (case GetGroupSnapshotSecretReference GroupSnapshotterGetSecretParams
                        (vgsclass_Parameters class) (vgsc_Name content) None of
                   Inl err \<Rightarrow> Some (Inl (Errorf (sprint [''failed to get secret reference for group snapshot content '',
                     vgsc_Name content, '': '', err_text err])), s)
                 | Inr ref \<Rightarrow>
                    do { (r, s) \<leftarrow> GetCredentials E ref s;
                         case r of
                           Inl err \<Rightarrow> Some (Inl (Errorf (sprint [''failed to get credentials for group snapshot content '',
                             vgsc_Name content, '': '', err_text err])), s)
                         | Inr creds \<Rightarrow> Some (Inr creds, s) }) })"

definition checkandUpdateGroupSnapshotContentStatusOperation ::
  "'w env \<Rightarrow> 'w group_handler \<Rightarrow> VolumeGroupSnapshotContent \<Rightarrow> 'w st
    \<Rightarrow> ((VolumeGroupSnapshotContent \<times> goerr option) \<times> 'w st) option" where
  "checkandUpdateGroupSnapshotContentStatusOperation E H content s =
    (case vgsc_Handles content of
       None \<Rightarrow> createGroupSnapshotWrapper E H content s
     | Some handles \<Rightarrow>
        do { (r, s) \<leftarrow> groupStatusCredentials E content s;
             case r of
               Inl err \<Rightarrow> Some ((content, Some err), s)
             | Inr groupSnapshotCredentials \<Rightarrow>
                do { (r, s) \<leftarrow> h_GetGroupSnapshotStatus H content (gh_VolumeSnapshotHandles handles)
                       groupSnapshotCredentials s;
                     case r of
                       Inl err \<Rightarrow> Some ((content, Some err), s)
                     | Inr (readyToUse, creationTime) \<Rightarrow>
                        do { (creationTime, s) \<leftarrow> (if creationTime = zeroTime then call (time_Now E) s
                                                   else Some (creationTime, s));
                             (r, s) \<leftarrow> updateGroupSnapshotContentStatus E content
                                \<lparr>g_handle = gh_VolumeGroupSnapshotHandle handles, g_ready = readyToUse,
                                 g_createdAt = creationTime, g_snapshots = []\<rparr> s;
                             case r of
                               Inl err \<Rightarrow> Some ((content, Some err), s)
                             | Inr updatedContent \<Rightarrow> Some ((updatedContent, None), s) } } })"

definition checkandUpdateGroupSnapshotContentStatus ::
  "'w env \<Rightarrow> 'w group_handler \<Rightarrow> VolumeGroupSnapshotContent \<Rightarrow> 'w st \<Rightarrow> (goerr option \<times> 'w st) option" where
  "checkandUpdateGroupSnapshotContentStatus E H content s =
    do { (res, s) \<leftarrow> checkandUpdateGroupSnapshotContentStatusOperation E H content s;
         finishGroupContent E ''GroupSnapshotContentCheckandUpdateFailed''
           ''Failed to check and update group snapshot content: '' res s }"

section \<open>The reconciler\<close>

text \<open>From the creation on: the content is not to be deleted.\<close>

definition syncLiveGroupSnapshotContent ::
  "'w env \<Rightarrow> 'w group_handler \<Rightarrow> VolumeGroupSnapshotContent \<Rightarrow> 'w st \<Rightarrow> (goerr option \<times> 'w st) option" where
  "syncLiveGroupSnapshotContent E H content s =
    (if length (vgsc_VolumeHandles content) \<noteq> 0 \<and> vgsc_Status content = None then createGroupSnapshot E H content s
     else if groupContentIsReady content then
       do { ((_, err), s) \<leftarrow> removeAnnVolumeGroupSnapshotBeingCreated E content s; Some (err, s) }
     else checkandUpdateGroupSnapshotContentStatus E H content s)"

text \<open>
  \<open>syncGroupSnapshotContent\<close> with the bodies of \<open>deleteCSIGroupSnapshotOperation\<close> and of
  \<open>updateGroupSnapshotContentInInformerCache\<close>, through which it calls itself, in place; an error of the
  call is dropped.
\<close>

partial_function (option) syncGroupSnapshotContent_sidecar ::
  "'w env \<Rightarrow> 'w group_handler \<Rightarrow> VolumeGroupSnapshotContent \<Rightarrow> 'w st \<Rightarrow> (goerr option \<times> 'w st) option" where
  "syncGroupSnapshotContent_sidecar E H content s =
    (if shouldDeleteGroupSnapshotContent content then
       if mustDeleteGroupSnapshot content then
         Option.bind (deleteAndClearGroupSnapshot E H content s) (\<lambda>p.
           case fst p of
             Inl err \<Rightarrow> Some (Some err, snd p)
           | Inr newContent \<Rightarrow>
              Option.bind (storeGroupSnapshotContentUpdate (ObjVGSC newContent) (snd p)) (\<lambda>q.
                if fst q \<noteq> Inr True then Some (None, snd q)
                else Option.bind (syncGroupSnapshotContent_sidecar E H newContent (snd q))
                       (\<lambda>t. Some (None, snd t))))
       else removeGroupSnapshotContentFinalizer E content s
     else syncLiveGroupSnapshotContent E H content s)"

definition updateGroupSnapshotContentInInformerCache ::
  "'w env \<Rightarrow> 'w group_handler \<Rightarrow> VolumeGroupSnapshotContent \<Rightarrow> 'w st \<Rightarrow> (goerr option \<times> 'w st) option" where
  "updateGroupSnapshotContentInInformerCache E H content s =
    do { (new, s) \<leftarrow> storeGroupSnapshotContentUpdate (ObjVGSC content) s;
         if new \<noteq> Inr True then Some (None, s) else syncGroupSnapshotContent_sidecar E H content s }"

definition deleteCSIGroupSnapshotOperation ::
  "'w env \<Rightarrow> 'w group_handler \<Rightarrow> VolumeGroupSnapshotContent \<Rightarrow> 'w st \<Rightarrow> (goerr option \<times> 'w st) option" where
  "deleteCSIGroupSnapshotOperation E H content s =
    do { (r, s) \<leftarrow> deleteAndClearGroupSnapshot E H content s;
         case r of
           Inl err \<Rightarrow> Some (Some err, s)
         | Inr newContent \<Rightarrow>
            do { (_, s) \<leftarrow> updateGroupSnapshotContentInInformerCache E H newContent s; Some (None, s) } }"

text \<open>With the three functions apart, as the source has them.\<close>

lemma syncGroupSnapshotContent_sidecar_unfold:
  "syncGroupSnapshotContent_sidecar E H content s =
    (if shouldDeleteGroupSnapshotContent content then
       if mustDeleteGroupSnapshot content then deleteCSIGroupSnapshotOperation E H content s
       else removeGroupSnapshotContentFinalizer E content s
     else syncLiveGroupSnapshotContent E H content s)"
proof -
  have "(if fst q \<noteq> Inr True then Some (None, snd q)
         else Option.bind (syncGroupSnapshotContent_sidecar E H c (snd q)) (\<lambda>t. Some (None, snd t))) =
        Option.bind (if fst q \<noteq> Inr True then Some (None, snd q) else syncGroupSnapshotContent_sidecar E H c (snd q))
          (\<lambda>t. Some (None, snd t))" for q c by simp
  then show ?thesis
    by (subst syncGroupSnapshotContent_sidecar.simps)
      (auto simp: deleteCSIGroupSnapshotOperation_def updateGroupSnapshotContentInInformerCache_def
        case_prod_unfold Option.bind_assoc split: sum.splits intro!: Option.bind_cong)
qed

section \<open>The worker\<close>

definition enqueueGroupSnapshotContentWork_sidecar :: "informer_obj \<Rightarrow> 'w st \<Rightarrow> 'w st" where
  "enqueueGroupSnapshotContentWork_sidecar ob s =
    (case unwrapTombstone ob of
       Some (ObjVGSC content) \<Rightarrow> emit (QueueAdd QGroupContent (keyFunc (vgsc_meta content))) s
     | _ \<Rightarrow> s)"

definition deleteGroupSnapshotContentInCacheStore :: "VolumeGroupSnapshotContent \<Rightarrow> 'w st \<Rightarrow> 'w st" where
  "deleteGroupSnapshotContentInCacheStore content s =
    s\<lparr>groupSnapshotContentStore := (groupSnapshotContentStore s)(keyFunc (vgsc_meta content) := None)\<rparr>"

definition syncGroupSnapshotContentByKey_sidecar ::
  "'w env \<Rightarrow> 'w group_handler \<Rightarrow> string \<Rightarrow> 'w st \<Rightarrow> (goerr option \<times> 'w st) option" where
  "syncGroupSnapshotContentByKey_sidecar E H key s =
    (case SplitMetaNamespaceKey key of
       Inl err \<Rightarrow> Some (None, s)
     | Inr (_, name) \<Rightarrow>
        do { (r, s) \<leftarrow> call (lister_GetVGSC E name) s;
             case r of
               Inr content \<Rightarrow>
                 do { (matches, s) \<leftarrow> isDriverMatch E (ObjVGSC content) s;
                      if matches then updateGroupSnapshotContentInInformerCache E H content s
                      else Some (None, s) }
             | Inl err \<Rightarrow>
                 if \<not> IsNotFound err then Some (None, s)
                 else (case groupSnapshotContentStore s key of
                    None \<Rightarrow> Some (None, s)
                  | Some (ObjVGSC content) \<Rightarrow> Some (None, deleteGroupSnapshotContentInCacheStore content s)
                  | Some _ \<Rightarrow> Some (None, s)) })"

text \<open>The argument is what the queue's \<open>Get\<close> returned: \<open>None\<close> when it is shutting down.\<close>

definition groupSnapshotContentWorker_sidecar ::
  "'w env \<Rightarrow> 'w group_handler \<Rightarrow> string option \<Rightarrow> 'w st \<Rightarrow> (unit \<times> 'w st) option" where
  "groupSnapshotContentWorker_sidecar E H next s =
    (case next of
       None \<Rightarrow> Some ((), s)
     | Some key \<Rightarrow>
        do { (err, s) \<leftarrow> syncGroupSnapshotContentByKey_sidecar E H key s;
             let s = (if err \<noteq> None then emit (QueueAddRateLimited QGroupContent key) s
                      else emit (QueueForget QGroupContent key) s);
             Some ((), emit (QueueDone QGroupContent key) s) })"

section \<open>What these operations do\<close>

text \<open>A patch that writes the finalizers, and the effects on a group content that are none of that, nor a CSI creation or deletion.\<close>

definition writesFinalizers :: "action \<Rightarrow> bool" where
  "writesFinalizers a = (case a of PatchVGSC n p sub \<Rightarrow> list_ex (\<lambda>q. Path q = ''/metadata/finalizers'') p | _ \<Rightarrow> False)"

definition quietGroupAct :: "action \<Rightarrow> bool" where
  "quietGroupAct a = (case a of
     PatchVGSC n p sub \<Rightarrow> plainOrStatus sub \<and> \<not> writesFinalizers a
   | UpdateStatusVGSC c \<Rightarrow> True
   | Event ob t r m \<Rightarrow> True
   | CSIGetGroupSnapshot h ids cr \<Rightarrow> True
   | _ \<Rightarrow> False)"

lemma quietGroupAct_simps [simp]:
  "plainOrStatus sub \<Longrightarrow> quietGroupAct (PatchVGSC n (setGroupAnnOps c) sub)"
  "plainOrStatus sub \<Longrightarrow> quietGroupAct (PatchVGSC n removeGroupAnnOps sub)"
  "plainOrStatus sub \<Longrightarrow> quietGroupAct (PatchVGSC n (groupErrorPatches st t m) sub)" "quietGroupAct (UpdateStatusVGSC c)"
  "quietGroupAct (Event ob ty r m)" "quietGroupAct (CSIGetGroupSnapshot h ids cr)"
  "quietGroupAct (groupDeleteError c m)"
  by (simp_all add: quietGroupAct_def writesFinalizers_def setGroupAnnOps_def removeGroupAnnOps_def
      groupErrorPatches_def groupDeleteError_def patchOp_def Let_def split: option.split)

lemma quietGroupAct_not_writesFinalizers: "quietGroupAct a \<Longrightarrow> \<not> writesFinalizers a"
  by (auto simp: quietGroupAct_def writesFinalizers_def split: action.splits)

context effects
begin

lemma setGroupAnn_I:
  assumes "\<And>a. quietGroupAct a \<Longrightarrow> ok a" "touch CStrayContent" "I s" "\<And>r s'. I s' \<Longrightarrow> Q r s'"
  shows "ensures (setAnnVolumeGroupSnapshotBeingCreated E c s) Q"
  unfolding setAnnVolumeGroupSnapshotBeingCreated_def
  by (rule keepI[OF _ assms(4)], insert assms(1-3), auto
      intro!: PatchVolumeGroupSnapshotContent_I storeStrayContentUpdate_I split: option.split)

lemma removeGroupAnn_I:
  assumes "\<And>a. quietGroupAct a \<Longrightarrow> ok a" "touch CGroupSnapshotContent" "I s" "\<And>r s'. I s' \<Longrightarrow> Q r s'"
  shows "ensures (removeAnnVolumeGroupSnapshotBeingCreated E c s) Q"
  unfolding removeAnnVolumeGroupSnapshotBeingCreated_def
  by (rule keepI[OF _ assms(4)], insert assms(1-3), auto
      intro!: PatchVolumeGroupSnapshotContent_I storeGroupSnapshotContentUpdate_I split: option.split)

lemma removeGroupSnapshotContentFinalizer_I:
  assumes "\<And>p. ok (PatchVGSC (vgsc_Name c) p [])" "touch CGroupSnapshotContent" "I s" "\<And>r s'. I s' \<Longrightarrow> Q r s'"
  shows "ensures (removeGroupSnapshotContentFinalizer E c s) Q"
  unfolding removeGroupSnapshotContentFinalizer_def
  by (rule keepI[OF _ assms(4)], insert assms(1-3), auto
      intro!: PatchVolumeGroupSnapshotContent_I storeGroupSnapshotContentUpdate_I split: option.split)

lemma groupCredentials_I:
  assumes "I s" "\<And>r s'. I s' \<Longrightarrow> Q r s'"
  shows "ensures (GetCredentialsFromAnnotationForGroupSnapshot E c s) Q"
  unfolding GetCredentialsFromAnnotationForGroupSnapshot_def Let_def
  by (rule keepI[OF _ assms(2)], insert assms(1), auto intro!: GetCredentials_I split: sum.split)

lemma getGroupSnapshotClass_sidecar_I:
  "I s \<Longrightarrow> (\<And>r s'. I s' \<Longrightarrow> Q r s') \<Longrightarrow> ensures (getGroupSnapshotClass_sidecar E n s) Q"
  by (auto simp: getGroupSnapshotClass_sidecar_def intro!: call_I)

lemma getCSIGroupSnapshotInput_I:
  assumes "I s" "\<And>r s'. I s' \<Longrightarrow> Q r s'"
  shows "ensures (getCSIGroupSnapshotInput E c s) Q"
  unfolding getCSIGroupSnapshotInput_def
  by (rule keepI[OF _ assms(2)], insert assms(1), auto
      intro!: getGroupSnapshotClass_sidecar_I groupCredentials_I split: sum.split option.split)

lemma updateGroupSnapshotContentStatus_I:
  assumes "\<And>a. quietGroupAct a \<Longrightarrow> ok a" "I s" "\<And>r s'. I s' \<Longrightarrow> Q r s'"
  shows "ensures (updateGroupSnapshotContentStatus E c f s) Q"
  unfolding updateGroupSnapshotContentStatus_def
  by (rule keepI[OF _ assms(3)], insert assms(1,2), auto simp: Let_def
      intro!: call_I act_I split: sum.split prod.split)

lemma groupErrorStatus_I:
  assumes "\<And>a. quietGroupAct a \<Longrightarrow> ok a" "touch CGroupSnapshotContent" "I s" "\<And>r s'. I s' \<Longrightarrow> Q r s'"
  shows "ensures (updateGroupSnapshotContentErrorStatusWithEvent E c ty reason msg s) Q"
  unfolding updateGroupSnapshotContentErrorStatusWithEvent_def
  by (rule keepI[OF _ assms(4)], rule ensures_option_bind, insert assms(1-3), auto simp: Let_def
      intro!: call_I PatchVolumeGroupSnapshotContent_I emit_I storeGroupSnapshotContentUpdate_I
      split: sum.split option.split)

lemma clearGroupSnapshotContentStatus_I:
  assumes "\<And>a. quietGroupAct a \<Longrightarrow> ok a" "I s" "\<And>r s'. I s' \<Longrightarrow> Q r s'"
  shows "ensures (clearGroupSnapshotContentStatus E n s) Q"
  unfolding clearGroupSnapshotContentStatus_def
  by (rule keepI[OF _ assms(3)], insert assms(1,2), auto intro!: call_I act_I split: sum.split)

lemma groupCreationFailed_I:
  assumes "\<And>a. quietGroupAct a \<Longrightarrow> ok a" "touch CGroupSnapshotContent" "I s" "\<And>r s'. I s' \<Longrightarrow> Q r s'"
  shows "ensures (groupCreationFailed E c e s) Q"
  unfolding groupCreationFailed_def
  by (rule keepI[OF _ assms(4)], insert assms(1-3), auto intro!: removeGroupAnn_I split: option.split)

lemma groupCreationDone_I:
  assumes "\<And>a. quietGroupAct a \<Longrightarrow> ok a" "touch CGroupSnapshotContent" "I s" "\<And>r s'. I s' \<Longrightarrow> Q r s'"
  shows "ensures (groupCreationDone E c reply s) Q"
  unfolding groupCreationDone_def Let_def
  by (rule keepI[OF _ assms(4)], insert assms(1-3), auto
      intro!: call_I updateGroupSnapshotContentStatus_I removeGroupAnn_I
      split: option.split sum.split prod.split)

lemma groupStatusCredentials_I:
  assumes "I s" "\<And>r s'. I s' \<Longrightarrow> Q r s'"
  shows "ensures (groupStatusCredentials E c s) Q"
  unfolding groupStatusCredentials_def
  by (rule keepI[OF _ assms(2)], insert assms(1), auto
      intro!: getGroupSnapshotClass_sidecar_I GetCredentials_I split: option.split sum.split)

lemma finishGroupContent_I:
  assumes "\<And>a. quietGroupAct a \<Longrightarrow> ok a" "touch CGroupSnapshotContent" "I s" "\<And>r s'. I s' \<Longrightarrow> Q r s'"
  shows "ensures (finishGroupContent E reason msg res s) Q"
  unfolding finishGroupContent_def Let_def
  by (rule keepI[OF _ assms(4)], insert assms(1-3), auto
      intro!: groupErrorStatus_I storeGroupSnapshotContentUpdate_I split: option.split prod.split)

end

context group_handler_client
begin

lemma takeGroupSnapshot_I:
  assumes "\<And>a. quietGroupAct a \<Longrightarrow> ok a" "\<And>req. ok (CSICreateGroupSnapshot req)" "touch CGroupSnapshotContent" "I s"
    "\<And>r s'. I s' \<Longrightarrow> Q r s'"
  shows "ensures (takeGroupSnapshot E H c cl cr s) Q"
  unfolding takeGroupSnapshot_def
  by (rule keepI[OF _ assms(5)], insert assms(1-4), auto
      intro!: call_I h_CreateGroupSnapshot_I groupCreationFailed_I groupCreationDone_I split: sum.split)

lemma createGroupSnapshotWrapper_I:
  assumes "\<And>a. quietGroupAct a \<Longrightarrow> ok a" "\<And>req. ok (CSICreateGroupSnapshot req)" "\<And>x. touch x" "I s"
    "\<And>r s'. I s' \<Longrightarrow> Q r s'"
  shows "ensures (createGroupSnapshotWrapper E H c s) Q"
  unfolding createGroupSnapshotWrapper_def
  by (rule keepI[OF _ assms(5)], insert assms(1-4), auto
      intro!: getCSIGroupSnapshotInput_I setGroupAnn_I takeGroupSnapshot_I split: sum.split option.split)

lemma checkandUpdateGroup_I:
  assumes "\<And>a. quietGroupAct a \<Longrightarrow> ok a" "\<And>req. ok (CSICreateGroupSnapshot req)" "\<And>x. touch x" "I s"
    "\<And>r s'. I s' \<Longrightarrow> Q r s'"
  shows "ensures (checkandUpdateGroupSnapshotContentStatusOperation E H c s) Q"
  unfolding checkandUpdateGroupSnapshotContentStatusOperation_def
  by (rule keepI[OF _ assms(5)], insert assms(1-4), auto
      intro!: call_I groupStatusCredentials_I h_GetGroupSnapshotStatus_I updateGroupSnapshotContentStatus_I
        createGroupSnapshotWrapper_I split: sum.split option.split)

lemma queryGroup_I:
  assumes "vgsc_Handles c = Some hs" "\<And>a. quietGroupAct a \<Longrightarrow> ok a" "I s" "\<And>r s'. I s' \<Longrightarrow> Q r s'"
  shows "ensures (checkandUpdateGroupSnapshotContentStatusOperation E H c s) Q"
  unfolding checkandUpdateGroupSnapshotContentStatusOperation_def assms(1)
  by (rule keepI[OF _ assms(4)], insert assms(2,3), auto
      intro!: call_I groupStatusCredentials_I h_GetGroupSnapshotStatus_I updateGroupSnapshotContentStatus_I
      split: sum.split)

lemma syncLiveGroup_I:
  assumes "\<And>a. quietGroupAct a \<Longrightarrow> ok a" "\<And>req. ok (CSICreateGroupSnapshot req)" "\<And>x. touch x" "I s"
    "\<And>r s'. I s' \<Longrightarrow> Q r s'"
  shows "ensures (syncLiveGroupSnapshotContent E H c s) Q"
  unfolding syncLiveGroupSnapshotContent_def createGroupSnapshot_def checkandUpdateGroupSnapshotContentStatus_def
  by (rule keepI[OF _ assms(5)], insert assms(1-4), auto
      intro!: createGroupSnapshotWrapper_I finishGroupContent_I removeGroupAnn_I checkandUpdateGroup_I)

lemma deleteAndClear_I:
  assumes "\<And>a. quietGroupAct a \<Longrightarrow> ok a" "\<And>h ids cr. ok (CSIDeleteGroupSnapshot h ids cr)" "I s"
    "\<And>r s'. I s' \<Longrightarrow> Q r s'"
  shows "ensures (deleteAndClearGroupSnapshot E H c s) Q"
  unfolding deleteAndClearGroupSnapshot_def
  by (rule keepI[OF _ assms(4)], insert assms(1-3), auto
      intro!: groupCredentials_I emit_I h_DeleteGroupSnapshot_I clearGroupSnapshotContentStatus_I
      split: sum.split option.split)

text \<open>The reconciler, by induction on its calls.\<close>

lemma syncGroupSnapshotContent_sidecar_I:
  assumes "\<And>a. quietGroupAct a \<Longrightarrow> ok a" "\<And>req. ok (CSICreateGroupSnapshot req)"
    "\<And>h ids cr. ok (CSIDeleteGroupSnapshot h ids cr)" "\<And>n p. ok (PatchVGSC n p [])" "\<And>x. touch x"
    and run: "syncGroupSnapshotContent_sidecar E H c s = Some (r, s')" and "I s"
  shows "I s'"
proof -
  have "K = H \<longrightarrow> I s \<longrightarrow> I (snd p)" if "syncGroupSnapshotContent_sidecar E K c s = Some p" for K c s p
  proof (induction rule: syncGroupSnapshotContent_sidecar.raw_induct[OF _ that])
    case (1 sync F K c s p)
    show ?case
    proof (intro impI)
      assume K: "K = H" and s: "I s"
      show "I (snd p)"
      proof (cases "shouldDeleteGroupSnapshotContent c \<and> mustDeleteGroupSnapshot c")
        case True
        then obtain q where q: "deleteAndClearGroupSnapshot F H c s = Some q"
          and rest: "(case fst q of Inl err \<Rightarrow> Some (Some err, snd q)
             | Inr newContent \<Rightarrow> Option.bind (storeGroupSnapshotContentUpdate (ObjVGSC newContent) (snd q)) (\<lambda>q.
                if fst q \<noteq> Inr True then Some (None, snd q)
                else Option.bind (sync F K newContent (snd q)) (\<lambda>t. Some (None, snd t)))) = Some p"
          using 1(2) unfolding K by (cases "deleteAndClearGroupSnapshot F H c s") simp_all
        have s1: "I (snd q)"
          using ensuresD[OF deleteAndClear_I[of s "\<lambda>_ s'. I s'"], of F c "fst q" "snd q"] assms(1,3) s q by simp
        show ?thesis
        proof (cases "fst q")
          case (Inl e)
          then show ?thesis using rest s1 by auto
        next
          case (Inr d)
          obtain new s2 where u: "storeGroupSnapshotContentUpdate (ObjVGSC d) (snd q) = Some (new, s2)"
            using rest Inr by (cases "storeGroupSnapshotContentUpdate (ObjVGSC d) (snd q)") auto
          have s2: "I s2"
            using ensuresD[OF storeGroupSnapshotContentUpdate_I[of "snd q" "\<lambda>_ s'. I s'"] u] assms(5) s1 by simp
          show ?thesis
          proof (cases "sync F K d s2")
            case None
            then show ?thesis using rest Inr u s2 by (auto split: if_splits)
          next
            case (Some t)
            then have "I (snd t)" using 1(1)[OF Some] K s2 by simp
            then show ?thesis using rest Inr u s2 Some by (auto split: if_splits)
          qed
        qed
      next
        case False
        show ?thesis
        proof (cases "shouldDeleteGroupSnapshotContent c")
          case True
          then have "removeGroupSnapshotContentFinalizer F c s = Some (fst p, snd p)" using 1(2) False by simp
          then show ?thesis
            using ensuresD[OF removeGroupSnapshotContentFinalizer_I[of c s "\<lambda>_ s'. I s'"]] assms(4,5) s by blast
        next
          case live: False
          then have "syncLiveGroupSnapshotContent F H c s = Some (fst p, snd p)" using 1(2) K by simp
          then show ?thesis
            using ensuresD[OF syncLiveGroup_I[of s "\<lambda>_ s'. I s'"]] assms(1,2,5) s by blast
        qed
      qed
    qed
  qed
  from this[OF run] show ?thesis using assms(7) by simp
qed

end

section \<open>Properties\<close>

lemma groupCredentials_log:
  "GetCredentialsFromAnnotationForGroupSnapshot E c s = Some (r, s1) \<Longrightarrow> log s1 = log s"
  using ensuresD[OF only.groupCredentials_I[OF onlyNew_refl, of "\<lambda>_. False" s "\<lambda>_. onlyNew (\<lambda>_. False) (log s)"]]
  by (simp add: onlyNew_nothing)

text \<open>A deletion that comes through was confirmed by the driver, for the handles of the content.\<close>

context group_handler_contract
begin

lemma deleteAndClear_done:
  assumes "deleteAndClearGroupSnapshot E H c s = Some (Inr d, s1)"
  shows "\<exists>h creds x. groupSnapshotHandleOf c = Some h \<and> groupSnapshotIDs c \<noteq> [] \<and>
    deleted h (groupSnapshotIDs c) creds \<and> (\<exists>t t' w. api_UpdateStatusVGSC E (clearedGroupStatus x) t = (Inr d, t') \<and>
      api_GetVGSC E (vgsc_Name c) w = (Inr x, t)) \<and>
    log s1 = log s @ [CSIDeleteGroupSnapshot h (groupSnapshotIDs c) creds, UpdateStatusVGSC (clearedGroupStatus x)]"
proof -
  obtain creds s2 s3 where 1: "GetCredentialsFromAnnotationForGroupSnapshot E c s = Some (Inr creds, s2)"
    "h_DeleteGroupSnapshot H c (groupSnapshotIDs c) creds s2 = Some (None, s3)"
    "clearGroupSnapshotContentStatus E (vgsc_Name c) s3 = Some (Inr d, s1)"
    using assms by (auto simp: deleteAndClearGroupSnapshot_def split: Option.bind_splits sum.splits option.splits)
  obtain h where h: "groupSnapshotHandleOf c = Some h" "groupSnapshotIDs c \<noteq> []"
    "issues [CSIDeleteGroupSnapshot h (groupSnapshotIDs c) creds] s2 s3" "deleted h (groupSnapshotIDs c) creds"
    using delete_calls[OF 1(2)] by auto
  obtain x t t' where x: "api_GetVGSC E (vgsc_Name c) (world s3) = (Inr x, t)"
    "api_UpdateStatusVGSC E (clearedGroupStatus x) t = (Inr d, t')"
    "log s1 = log s3 @ [UpdateStatusVGSC (clearedGroupStatus x)]"
    using 1(3) by (auto simp: clearGroupSnapshotContentStatus_def call_def act_def split: prod.splits sum.splits)
  show ?thesis using h x groupCredentials_log[OF 1(1)] issues_sel[OF h(3)] by (intro exI[of _ h]) force
qed

end

lemma syncGroupSnapshotContent_log:
  "syncGroupSnapshotContent_sidecar E (theGroupHandler E) c s = Some (r, s') \<Longrightarrow> onlyNew (\<lambda>_. True) (log s) s'"
  by (rule ghc.syncGroupSnapshotContent_sidecar_I[OF _ _ _ _ _ _ onlyNew_refl]) simp_all

lemma syncLiveGroup_quiet:
  "syncLiveGroupSnapshotContent E (theGroupHandler E) c s = Some (r, s') \<Longrightarrow>
   onlyNew (\<lambda>a. quietGroupAct a \<or> (\<exists>req. a = CSICreateGroupSnapshot req)) (log s) s'"
  by (rule ensuresD[OF ghc.syncLiveGroup_I[OF _ _ _ onlyNew_refl]]) simp_all

lemma deleteAndClear_quiet:
  "deleteAndClearGroupSnapshot E (theGroupHandler E) c s = Some (r, s') \<Longrightarrow>
   onlyNew (\<lambda>a. quietGroupAct a \<or> (\<exists>h ids cr. a = CSIDeleteGroupSnapshot h ids cr)) (log s) s'"
  by (rule ensuresD[OF ghc.deleteAndClear_I[OF _ _ onlyNew_refl]]) auto

text \<open>C7: The sidecar lets go of a group content only when nothing is left on the storage system: a sync writes its
  finalizers only when the content is to be deleted, and, when its policy is Delete and it has a handle,
  only after the driver has confirmed, earlier in the same sync, the deletion of the group snapshot under
  that handle together with all the member snapshots the content lists.\<close>

theorem group_snapshot_deleted_before_finalizer:
  assumes "syncGroupSnapshotContent_sidecar E (theGroupHandler E) c s = Some (r, s')"
    and "log s' = log s @ pre @ a # post" and "writesFinalizers a"
  shows "shouldDeleteGroupSnapshotContent c \<and> (mustDeleteGroupSnapshot c \<longrightarrow>
    (\<exists>h creds. groupSnapshotHandleOf c = Some h \<and> groupSnapshotIDs c \<noteq> [] \<and>
       CSIDeleteGroupSnapshot h (groupSnapshotIDs c) creds \<in> set pre \<and> groupConfirmed E h (groupSnapshotIDs c) creds))"
proof -
  have new: "\<not> onlyNew ok (log s) s'" if "\<not> ok a" for ok
    using assms(2) that by (auto simp: onlyNew_def)
  have a: "\<not> quietGroupAct a" "\<And>req. a \<noteq> CSICreateGroupSnapshot req" "\<And>h ids cr. a \<noteq> CSIDeleteGroupSnapshot h ids cr"
    "\<And>x. a \<noteq> UpdateStatusVGSC x"
    using assms(3) by (auto simp: quietGroupAct_not_writesFinalizers, auto simp: writesFinalizers_def)
  have del: "shouldDeleteGroupSnapshotContent c"
  proof (rule ccontr)
    assume "\<not> shouldDeleteGroupSnapshotContent c"
    then have "syncLiveGroupSnapshotContent E (theGroupHandler E) c s = Some (r, s')"
      using assms(1) by (simp add: syncGroupSnapshotContent_sidecar_unfold)
    from syncLiveGroup_quiet[OF this] show False
      using new[of "\<lambda>a. quietGroupAct a \<or> (\<exists>req. a = CSICreateGroupSnapshot req)"] a by blast
  qed
  show ?thesis
  proof (intro conjI impI del)
    assume "mustDeleteGroupSnapshot c"
    then obtain q s1 where q: "deleteAndClearGroupSnapshot E (theGroupHandler E) c s = Some (q, s1)"
      and rest: "(case q of Inl err \<Rightarrow> Some (Some err, s1)
        | Inr d \<Rightarrow> do { (_, s) \<leftarrow> updateGroupSnapshotContentInInformerCache E (theGroupHandler E) d s1; Some (None, s) }) =
        Some (r, s')"
      using assms(1) del unfolding syncGroupSnapshotContent_sidecar_unfold deleteCSIGroupSnapshotOperation_def
      by (cases "deleteAndClearGroupSnapshot E (theGroupHandler E) c s") auto
    obtain d where d: "q = Inr d"
      using rest deleteAndClear_quiet[OF q] new[of "\<lambda>a. quietGroupAct a \<or> (\<exists>h ids cr. a = CSIDeleteGroupSnapshot h ids cr)"] a
      by (cases q) auto
    from ghd.deleteAndClear_done[OF q[unfolded d]] obtain h creds x where
      h: "groupSnapshotHandleOf c = Some h" "groupSnapshotIDs c \<noteq> []" "groupConfirmed E h (groupSnapshotIDs c) creds"
        "log s1 = log s @ [CSIDeleteGroupSnapshot h (groupSnapshotIDs c) creds, UpdateStatusVGSC (clearedGroupStatus x)]"
      by blast
    have "\<exists>more. log s' = log s1 @ more"
      using rest d syncGroupSnapshotContent_log
      by (fastforce simp: updateGroupSnapshotContentInInformerCache_def storeGroupSnapshotContentUpdate_def onlyNew_def
          split: if_splits prod.splits Option.bind_splits)
    then obtain more where "pre @ a # post =
        [CSIDeleteGroupSnapshot h (groupSnapshotIDs c) creds, UpdateStatusVGSC (clearedGroupStatus x)] @ more"
      using h(4) assms(2) by auto
    then have "CSIDeleteGroupSnapshot h (groupSnapshotIDs c) creds \<in> set pre"
      using a(3) by (cases pre) auto
    then show "\<exists>h creds. groupSnapshotHandleOf c = Some h \<and> groupSnapshotIDs c \<noteq> [] \<and>
        CSIDeleteGroupSnapshot h (groupSnapshotIDs c) creds \<in> set pre \<and> groupConfirmed E h (groupSnapshotIDs c) creds"
      using h by blast
  qed
qed

text \<open>A group of two volumes, cut and to be deleted.\<close>

definition demoGroupContent :: VolumeGroupSnapshotContent where
  "demoGroupContent = \<lparr>
     vgsc_meta = emptyMeta\<lparr>Name := ''groupsnapcontent-uid1'', ResourceVersion := ''9'',
       DeletionTimestamp := Some 5, Finalizers := [VolumeGroupSnapshotContentFinalizer],
       Annotations := fmap_of_list [(AnnVolumeGroupSnapshotBeingDeleted, ''yes'')]\<rparr>,
     vgsc_Spec = \<lparr>VolumeGroupSnapshotRef = emptyRef\<lparr>ref_Name := ''group1'', ref_Namespace := ''ns1'',
         ref_UID := ''uid1''\<rparr>,
       gspec_DeletionPolicy = VolumeSnapshotContentDelete, gspec_Driver = ''drv'',
       gspec_VolumeGroupSnapshotClassName = Some ''gclass1'',
       gspec_Source = \<lparr>VolumeHandles = [''vol1'', ''vol2''], gsrc_GroupSnapshotHandles = None\<rparr>\<rparr>,
     vgsc_Status = Some (emptyGroupContentStatus\<lparr>gcs_VolumeGroupSnapshotHandle := Some ''gh-1'',
       VolumeSnapshotInfoList :=
         [\<lparr>vsi_VolumeHandle = ''vol1'', vsi_SnapshotHandle = ''snap-1'', vsi_CreationTime = None,
           vsi_ReadyToUse = Some True, vsi_RestoreSize = None\<rparr>,
          \<lparr>vsi_VolumeHandle = ''vol2'', vsi_SnapshotHandle = ''snap-2'', vsi_CreationTime = None,
           vsi_ReadyToUse = Some True, vsi_RestoreSize = None\<rparr>]\<rparr>)\<rparr>"

definition demoGroupDeleteEnv :: "unit env" where
  "demoGroupDeleteEnv = nullEnv\<lparr>api_GetVGSC := \<lambda>_ w. (Inr demoGroupContent, w),
     api_PatchVGSC := \<lambda>_ _ _ w. (Inr (clearedGroupStatus demoGroupContent), w)\<rparr>"

lemma demoGroupContent_sel:
  "shouldDeleteGroupSnapshotContent demoGroupContent" "mustDeleteGroupSnapshot demoGroupContent"
  "\<not> HasAnnotation (vgsc_meta demoGroupContent) AnnDeletionGroupSecretRefName"
  "groupSnapshotIDs demoGroupContent = [''snap-1'', ''snap-2'']"
  "groupSnapshotHandleOf demoGroupContent = Some ''gh-1''"
  "shouldDeleteGroupSnapshotContent (clearedGroupStatus demoGroupContent)"
  "\<not> mustDeleteGroupSnapshot (clearedGroupStatus demoGroupContent)"
  "Contains (Finalizers (vgsc_meta (clearedGroupStatus demoGroupContent))) VolumeGroupSnapshotContentFinalizer"
  by code_simp+

lemma demo_group_delete_run:
  "\<exists>s'. syncGroupSnapshotContent_sidecar demoGroupDeleteEnv (theGroupHandler demoGroupDeleteEnv) demoGroupContent
     (initialState ()) = Some (None, s') \<and>
   log s' = [CSIDeleteGroupSnapshot ''gh-1'' [''snap-1'', ''snap-2''] fmempty,
     UpdateStatusVGSC (clearedGroupStatus demoGroupContent),
     PatchVGSC (vgsc_Name (clearedGroupStatus demoGroupContent))
       (unfinalizeGroupOps (clearedGroupStatus demoGroupContent)) []]"
proof -
  have d: "\<exists>s1. deleteAndClearGroupSnapshot demoGroupDeleteEnv (theGroupHandler demoGroupDeleteEnv) demoGroupContent
      (initialState ()) = Some (Inr (clearedGroupStatus demoGroupContent), s1) \<and>
      groupSnapshotContentStore s1 = Map.empty \<and>
      log s1 = [CSIDeleteGroupSnapshot ''gh-1'' [''snap-1'', ''snap-2''] fmempty,
        UpdateStatusVGSC (clearedGroupStatus demoGroupContent)]"
    by (simp add: deleteAndClearGroupSnapshot_def GetCredentialsFromAnnotationForGroupSnapshot_def demoGroupContent_sel
        theGroupHandler_def NewCSIGroupHandler_def NewGroupSnapshotter_def csiHandler_DeleteGroupSnapshot_def
        groupSnapshot_DeleteGroupSnapshot_def clearGroupSnapshotContentStatus_def call_def act_def
        demoGroupDeleteEnv_def nullEnv_def initialState_def)
  then obtain s1 where d: "deleteAndClearGroupSnapshot demoGroupDeleteEnv (theGroupHandler demoGroupDeleteEnv) demoGroupContent
      (initialState ()) = Some (Inr (clearedGroupStatus demoGroupContent), s1)"
    "groupSnapshotContentStore s1 = Map.empty"
    "log s1 = [CSIDeleteGroupSnapshot ''gh-1'' [''snap-1'', ''snap-2''] fmempty,
        UpdateStatusVGSC (clearedGroupStatus demoGroupContent)]" by blast
  obtain s2 where u: "storeGroupSnapshotContentUpdate (ObjVGSC (clearedGroupStatus demoGroupContent)) s1 = Some (Inr True, s2)"
    "log s2 = log s1"
    using d(2) by (simp add: storeGroupSnapshotContentUpdate_def StoreObjectUpdate_def Let_def)
  have "\<exists>s3. syncGroupSnapshotContent_sidecar demoGroupDeleteEnv (theGroupHandler demoGroupDeleteEnv)
      (clearedGroupStatus demoGroupContent) s2 = Some (None, s3) \<and>
    log s3 = log s2 @ [PatchVGSC (vgsc_Name (clearedGroupStatus demoGroupContent))
       (unfinalizeGroupOps (clearedGroupStatus demoGroupContent)) []]"
    by (subst syncGroupSnapshotContent_sidecar_unfold)
      (simp add: demoGroupContent_sel removeGroupSnapshotContentFinalizer_def PatchVolumeGroupSnapshotContent_def
        act_def call_def demoGroupDeleteEnv_def nullEnv_def storeGroupSnapshotContentUpdate_def split: prod.split)
  then obtain s3 where "syncGroupSnapshotContent_sidecar demoGroupDeleteEnv (theGroupHandler demoGroupDeleteEnv)
      (clearedGroupStatus demoGroupContent) s2 = Some (None, s3)"
    "log s3 = log s2 @ [PatchVGSC (vgsc_Name (clearedGroupStatus demoGroupContent))
       (unfinalizeGroupOps (clearedGroupStatus demoGroupContent)) []]" by blast
  then show ?thesis using d u
    by (subst syncGroupSnapshotContent_sidecar_unfold)
      (simp add: demoGroupContent_sel deleteCSIGroupSnapshotOperation_def updateGroupSnapshotContentInInformerCache_def)
qed

theorem group_snapshot_deleted_before_finalizer_witness:
  "\<exists>s' pre a. syncGroupSnapshotContent_sidecar demoGroupDeleteEnv (theGroupHandler demoGroupDeleteEnv) demoGroupContent
     (initialState ()) = Some (None, s') \<and> log s' = pre @ [a] \<and> writesFinalizers a \<and>
   (\<exists>creds. CSIDeleteGroupSnapshot ''gh-1'' [''snap-1'', ''snap-2''] creds \<in> set pre)"
proof -
  obtain s' where run: "syncGroupSnapshotContent_sidecar demoGroupDeleteEnv (theGroupHandler demoGroupDeleteEnv) demoGroupContent
     (initialState ()) = Some (None, s')"
    and l: "log s' = [CSIDeleteGroupSnapshot ''gh-1'' [''snap-1'', ''snap-2''] fmempty,
     UpdateStatusVGSC (clearedGroupStatus demoGroupContent)] @
     [PatchVGSC (vgsc_Name (clearedGroupStatus demoGroupContent))
       (unfinalizeGroupOps (clearedGroupStatus demoGroupContent)) []]"
    using demo_group_delete_run by auto
  have w: "writesFinalizers (PatchVGSC (vgsc_Name (clearedGroupStatus demoGroupContent))
       (unfinalizeGroupOps (clearedGroupStatus demoGroupContent)) [])"
    by (simp add: writesFinalizers_def unfinalizeGroupOps_def patchOp_def)
  have "log s' = log (initialState ()) @ [CSIDeleteGroupSnapshot ''gh-1'' [''snap-1'', ''snap-2''] fmempty,
     UpdateStatusVGSC (clearedGroupStatus demoGroupContent)] @
     PatchVGSC (vgsc_Name (clearedGroupStatus demoGroupContent))
       (unfinalizeGroupOps (clearedGroupStatus demoGroupContent)) [] # []"
    using l by (simp add: initialState_def)
  from group_snapshot_deleted_before_finalizer[OF run this w] show ?thesis
    using run l w demoGroupContent_sel by auto
qed

text \<open>A creation is one request for all the volumes, under the annotation that a crash or a timeout leaves behind.\<close>

definition underGroupAnnotation ::
  "'w env \<Rightarrow> VolumeGroupSnapshotContent \<Rightarrow> VolumeGroupSnapshotContent \<Rightarrow> action list \<Rightarrow> bool" where
  "underGroupAnnotation E c d pre \<longleftrightarrow>
    (HasAnnotation (vgsc_meta c) AnnVolumeGroupSnapshotBeingCreated \<and> d = c \<and> pre = []) \<or>
    (pre = [PatchVGSC (vgsc_Name c) (setGroupAnnOps c) []] \<and>
     (\<exists>w w'. api_PatchVGSC E (vgsc_Name c) (setGroupAnnOps c) [] w = (Inr d, w')))"

definition groupRequestFor :: "'w env \<Rightarrow> VolumeGroupSnapshotContent \<Rightarrow> CreateVolumeGroupSnapshotRequest \<Rightarrow> bool" where
  "groupRequestFor E d req \<longleftrightarrow>
    makeGroupSnapshotName E (ref_UID (vgsc_Ref d)) = Some (Inr (gr_Name req)) \<and>
    SourceVolumeIds req = vgsc_VolumeHandles d \<and> SourceVolumeIds req \<noteq> [] \<and> ref_UID (vgsc_Ref d) \<noteq> []"

lemma groupSnapshotNameOf_Some:
  "groupSnapshotNameOf E u = Some n \<longleftrightarrow> makeGroupSnapshotName E u = Some (Inr n)"
  by (auto simp: groupSnapshotNameOf_def split: option.splits sum.splits)

lemma takeGroupSnapshot_log:
  assumes "takeGroupSnapshot E (theGroupHandler E) c cl cr s = Some (r, s')"
  shows "onlyNew quietGroupAct (log s) s' \<or>
    (\<exists>req. groupRequestFor E c req \<and> onlyNew quietGroupAct (log s @ [CSICreateGroupSnapshot req]) s')"
proof -
  define s0 where "s0 = s\<lparr>world := snd (range_order E (vgsclass_Parameters cl) (world s))\<rparr>"
  have l0: "log s0 = log s" by (simp add: s0_def)
  show ?thesis
  proof (cases "RemovePrefixedParameters (fst (range_order E (vgsclass_Parameters cl) (world s)))")
    case (Inl e)
    then have "log s' = log s" using assms by (auto simp: takeGroupSnapshot_def call_def split: prod.splits)
    then show ?thesis by (simp add: onlyNew_def)
  next
    case (Inr m)
    then have "Option.bind (h_CreateGroupSnapshot (theGroupHandler E) c (createGroupParameters E c m) cr s0) (\<lambda>(r, s).
        case r of Inl err \<Rightarrow> groupCreationFailed E c err s | Inr reply \<Rightarrow> groupCreationDone E c reply s) = Some (r, s')"
      using assms unfolding takeGroupSnapshot_def call_def s0_def by (simp split: prod.splits)
    then obtain r1 s1 where h: "h_CreateGroupSnapshot (theGroupHandler E) c (createGroupParameters E c m) cr s0 = Some (r1, s1)"
      and f: "(case r1 of Inl err \<Rightarrow> groupCreationFailed E c err s1 | Inr reply \<Rightarrow> groupCreationDone E c reply s1) = Some (r, s')"
      by (cases "h_CreateGroupSnapshot (theGroupHandler E) c (createGroupParameters E c m) cr s0") auto
    have q: "onlyNew quietGroupAct (log s1) s'"
    proof (cases r1)
      case (Inl e)
      then show ?thesis using f
        by (auto intro: ensuresD[OF only.groupCreationFailed_I[OF _ _ onlyNew_refl]])
    next
      case (Inr reply)
      then show ?thesis using f
        by (auto intro: ensuresD[OF only.groupCreationDone_I[OF _ _ onlyNew_refl]])
    qed
    from ghd.create_calls[OF h] show ?thesis
    proof (elim disjE exE conjE)
      assume "issues [] s0 s1"
      then show ?thesis using q l0 issues_sel[of "[]" s0 s1] by simp
    next
      fix nm
      let ?req = "\<lparr>gr_Name = nm, SourceVolumeIds = vgsc_VolumeHandles c, gr_Secrets = cr,
          gr_Parameters = createGroupParameters E c m\<rparr>"
      assume "groupSnapshotNameOf E (ref_UID (vgsc_Ref c)) = Some nm" "ref_UID (vgsc_Ref c) \<noteq> []"
        "vgsc_VolumeHandles c \<noteq> []" and i: "issues [CSICreateGroupSnapshot ?req] s0 s1"
      then have "groupRequestFor E c ?req" by (simp add: groupRequestFor_def groupSnapshotNameOf_Some)
      then show ?thesis using q issues_sel[OF i] by (intro disjI2 exI[of _ ?req]) (simp add: l0)
    qed
  qed
qed

lemma getCSIGroupSnapshotInput_log:
  assumes "getCSIGroupSnapshotInput E c s = Some (r, s')"
  shows "log s' = log s"
proof -
  have "ensures (getCSIGroupSnapshotInput E c s) (\<lambda>_ s'. onlyNew (\<lambda>_. False) (log s) s')"
    by (rule only.getCSIGroupSnapshotInput_I) (simp_all add: onlyNew_refl)
  then show ?thesis using assms by (simp add: onlyNew_nothing)
qed

lemma setGroupAnn_cases:
  assumes "setAnnVolumeGroupSnapshotBeingCreated E c s = Some ((d, e), s')"
  shows "(e = None \<and> (\<exists>pre. underGroupAnnotation E c d pre \<and> log s' = log s @ pre)) \<or>
    (e \<noteq> None \<and> d = c \<and> log s' = log s @ [PatchVGSC (vgsc_Name c) (setGroupAnnOps c) []])"
  using assms
  by (auto simp: setAnnVolumeGroupSnapshotBeingCreated_def PatchVolumeGroupSnapshotContent_def act_def call_def
      storeContentUpdate_def underGroupAnnotation_def split: if_splits prod.splits sum.splits)

lemma createGroupSnapshotWrapper_log:
  assumes "createGroupSnapshotWrapper E (theGroupHandler E) c s = Some (res, s')"
  shows "onlyNew quietGroupAct (log s) s' \<or>
    (\<exists>d pre req. underGroupAnnotation E c d pre \<and> groupRequestFor E d req \<and>
       onlyNew quietGroupAct (log s @ pre @ [CSICreateGroupSnapshot req]) s')"
proof -
  obtain i s1 where i: "getCSIGroupSnapshotInput E c s = Some (i, s1)"
    using assms by (cases "getCSIGroupSnapshotInput E c s") (auto simp: createGroupSnapshotWrapper_def)
  have l1: "log s1 = log s" by (rule getCSIGroupSnapshotInput_log[OF i])
  show ?thesis
  proof (cases i)
    case (Inl e)
    then show ?thesis using assms i l1 by (auto simp: createGroupSnapshotWrapper_def onlyNew_def)
  next
    case (Inr p)
    obtain cl cr where p: "p = (cl, cr)" by (cases p)
    obtain d e s2 where a: "setAnnVolumeGroupSnapshotBeingCreated E c s1 = Some ((d, e), s2)"
      using assms i Inr p by (cases "setAnnVolumeGroupSnapshotBeingCreated E c s1") (auto simp: createGroupSnapshotWrapper_def)
    from setGroupAnn_cases[OF a] show ?thesis
    proof (elim disjE conjE exE)
      fix pre assume e: "e = None" and u: "underGroupAnnotation E c d pre" and l2: "log s2 = log s1 @ pre"
      obtain cls where "takeGroupSnapshot E (theGroupHandler E) d cls cr s2 = Some (res, s')"
        using assms i Inr p a e by (auto simp: createGroupSnapshotWrapper_def split: option.splits)
      from takeGroupSnapshot_log[OF this] show ?thesis
      proof (elim disjE exE conjE)
        assume "onlyNew quietGroupAct (log s2) s'"
        then show ?thesis using u l1 l2 by (auto simp: onlyNew_def underGroupAnnotation_def)
      next
        fix req assume "groupRequestFor E d req" "onlyNew quietGroupAct (log s2 @ [CSICreateGroupSnapshot req]) s'"
        then show ?thesis using u l1 l2 by (intro disjI2 exI[of _ d] exI[of _ pre] exI[of _ req]) simp
      qed
    next
      assume "e \<noteq> None" "d = c" "log s2 = log s1 @ [PatchVGSC (vgsc_Name c) (setGroupAnnOps c) []]"
      then show ?thesis using assms i Inr p a l1 by (auto simp: createGroupSnapshotWrapper_def onlyNew_def)
    qed
  qed
qed

lemma syncLiveGroup_log:
  assumes "syncLiveGroupSnapshotContent E (theGroupHandler E) c s = Some (r, s')"
  shows "onlyNew quietGroupAct (log s) s' \<or>
    (\<exists>d pre req. underGroupAnnotation E c d pre \<and> groupRequestFor E d req \<and>
       onlyNew quietGroupAct (log s @ pre @ [CSICreateGroupSnapshot req]) s')"
proof -
  have fin: "onlyNew quietGroupAct (log t) s'" if "finishGroupContent E reason msg res t = Some (r, s')" for reason msg res t
    by (rule ensuresD[OF only.finishGroupContent_I[OF _ _ onlyNew_refl] that]) simp_all
  have wrap: ?thesis if "createGroupSnapshotWrapper E (theGroupHandler E) c s = Some (res, t)"
    and "finishGroupContent E reason msg res t = Some (r, s')" for reason msg res t
    using createGroupSnapshotWrapper_log[OF that(1)] fin[OF that(2)] onlyNew_trans by blast
  consider "length (vgsc_VolumeHandles c) \<noteq> 0 \<and> vgsc_Status c = None"
    | "\<not> (length (vgsc_VolumeHandles c) \<noteq> 0 \<and> vgsc_Status c = None)" "groupContentIsReady c"
    | "\<not> (length (vgsc_VolumeHandles c) \<noteq> 0 \<and> vgsc_Status c = None)" "\<not> groupContentIsReady c" by blast
  then show ?thesis
  proof cases
    case 1
    then have "createGroupSnapshot E (theGroupHandler E) c s = Some (r, s')"
      using assms by (simp add: syncLiveGroupSnapshotContent_def)
    then show ?thesis unfolding createGroupSnapshot_def
      by (cases "createGroupSnapshotWrapper E (theGroupHandler E) c s") (auto dest: wrap)
  next
    case 2
    obtain p where p: "removeAnnVolumeGroupSnapshotBeingCreated E c s = Some p"
      using assms 2 by (cases "removeAnnVolumeGroupSnapshotBeingCreated E c s") (auto simp: syncLiveGroupSnapshotContent_def)
    have "ensures (removeAnnVolumeGroupSnapshotBeingCreated E c s) (\<lambda>_ t. onlyNew quietGroupAct (log s) t)"
      by (rule only.removeGroupAnn_I[OF _ _ onlyNew_refl]) simp_all
    then show ?thesis using assms 2 p
      by (cases p) (auto simp: syncLiveGroupSnapshotContent_def)
  next
    case 3
    then have "checkandUpdateGroupSnapshotContentStatus E (theGroupHandler E) c s = Some (r, s')"
      using assms unfolding syncLiveGroupSnapshotContent_def by auto
    then obtain res t where o: "checkandUpdateGroupSnapshotContentStatusOperation E (theGroupHandler E) c s = Some (res, t)"
      and f: "finishGroupContent E ''GroupSnapshotContentCheckandUpdateFailed''
         ''Failed to check and update group snapshot content: '' res t = Some (r, s')"
      unfolding checkandUpdateGroupSnapshotContentStatus_def
      by (cases "checkandUpdateGroupSnapshotContentStatusOperation E (theGroupHandler E) c s") auto
    show ?thesis
    proof (cases "vgsc_Handles c")
      case None
      then show ?thesis using wrap[of res t] o f by (simp add: checkandUpdateGroupSnapshotContentStatusOperation_def)
    next
      case (Some hs)
      have "ensures (checkandUpdateGroupSnapshotContentStatusOperation E (theGroupHandler E) c s)
          (\<lambda>_ t. onlyNew quietGroupAct (log s) t)"
        by (rule ghc.queryGroup_I[OF Some _ onlyNew_refl])
      then show ?thesis using o fin[OF f] onlyNew_trans by fastforce
    qed
  qed
qed


definition demoGroupSource :: VolumeGroupSnapshotContent where
  "demoGroupSource = demoGroupContent\<lparr>vgsc_meta := emptyMeta\<lparr>Name := ''groupsnapcontent-uid1'', ResourceVersion := ''9''\<rparr>,
     vgsc_Status := None\<rparr>"

definition demoGroupClass :: VolumeGroupSnapshotClass where
  "demoGroupClass = \<lparr>vgsclass_meta = emptyMeta\<lparr>Name := ''gclass1''\<rparr>, vgsclass_Driver = ''drv'',
     vgsclass_Parameters = fmempty, vgsclass_DeletionPolicy = VolumeSnapshotContentDelete\<rparr>"

text \<open>A driver that is not ready to answer: every creation times out.\<close>

definition demoGroupTimeoutEnv :: "unit env" where
  "demoGroupTimeoutEnv = nullEnv\<lparr>lister_GetGroupClass := \<lambda>_ w. (Inr demoGroupClass, w),
     range_order := \<lambda>_ w. ([], w),
     api_PatchVGSC := \<lambda>_ p sub w. (if sub = [] then Inr demoGroupSource else Inl notFound, w),
     csi_CreateVolumeGroupSnapshot := \<lambda>_ w. (Inl (GRPCStatus codes_DeadlineExceeded ''slow''), w)\<rparr>"

definition demoGroupRequest :: CreateVolumeGroupSnapshotRequest where
  "demoGroupRequest = \<lparr>gr_Name = ''groupsnapshot-uid1'', SourceVolumeIds = [''vol1'', ''vol2''], gr_Secrets = fmempty,
     gr_Parameters = fmempty\<rparr>"

lemma demoGroupSource_sel:
  "\<not> shouldDeleteGroupSnapshotContent demoGroupSource"
  "\<not> HasAnnotation (vgsc_meta demoGroupSource) AnnDeletionGroupSecretRefName"
  "\<not> HasAnnotation (vgsc_meta demoGroupSource) AnnVolumeGroupSnapshotBeingCreated"
  "vgsc_VolumeHandles demoGroupSource = [''vol1'', ''vol2'']" "vgsc_Status demoGroupSource = None"
  "gspec_VolumeGroupSnapshotClassName (vgsc_Spec demoGroupSource) = Some ''gclass1''"
  "ref_UID (vgsc_Ref demoGroupSource) = ''uid1''"
  by code_simp+

lemma demo_group_timeout_run:
  "\<exists>e s' ev. syncGroupSnapshotContent_sidecar demoGroupTimeoutEnv (theGroupHandler demoGroupTimeoutEnv) demoGroupSource
     (initialState ()) = Some (Some e, s') \<and>
   log s' = [PatchVGSC (vgsc_Name demoGroupSource) (setGroupAnnOps demoGroupSource) [],
     CSICreateGroupSnapshot demoGroupRequest] @ ev"
  by (simp add: syncGroupSnapshotContent_sidecar_unfold syncLiveGroupSnapshotContent_def demoGroupSource_sel
      createGroupSnapshot_def createGroupSnapshotWrapper_def getCSIGroupSnapshotInput_def
      getGroupSnapshotClass_sidecar_def GetCredentialsFromAnnotationForGroupSnapshot_def
      setAnnVolumeGroupSnapshotBeingCreated_def PatchVolumeGroupSnapshotContent_def takeGroupSnapshot_def
      RemovePrefixedParameters_def theGroupHandler_def NewCSIGroupHandler_def NewGroupSnapshotter_def
      csiHandler_CreateGroupSnapshot_def makeGroupSnapshotName_def groupSnapshot_CreateGroupSnapshot_def
      createGroupParameters_def groupCreationFailed_def finishGroupContent_def storeContentUpdate_def
      updateGroupSnapshotContentErrorStatusWithEvent_def sameGroupContentError_def call_def act_def emit_def
      demoGroupTimeoutEnv_def nullEnv_def demoGroupRequest_def initialState_def Let_def StoreObjectUpdate_def)


section \<open>The reconciler returns\<close>

text \<open>
  What keeps the sidecar from a run-time panic and from running on: contents with a source (which the
  schema of the API demands) and with a message in every error; a server whose reply to a status update
  is the object with that status; a driver whose successful replies carry a group snapshot; and names
  that are not cut short.
\<close>

definition wfGroupContent :: "VolumeGroupSnapshotContent \<Rightarrow> bool" where
  "wfGroupContent c \<longleftrightarrow> (vgsc_Handles c \<noteq> None \<or> vgsc_VolumeHandles c \<noteq> []) \<and>
    (\<forall>e. Option.bind (vgsc_Status c) gcs_Error = Some e \<longrightarrow> err_Message e \<noteq> None)"

definition wfGroupServer :: "'w env \<Rightarrow> bool" where
  "wfGroupServer E \<longleftrightarrow>
    (\<forall>n w c. fst (api_GetVGSC E n w) = Inr c \<longrightarrow> wfGroupContent c) \<and>
    (\<forall>n p sub w c. fst (api_PatchVGSC E n p sub w) = Inr c \<longrightarrow> wfGroupContent c) \<and>
    (\<forall>d w c. fst (api_UpdateStatusVGSC E d w) = Inr c \<longrightarrow> wfGroupContent c \<and> vgsc_Status c = vgsc_Status d)"

lemma wfGroupServerD:
  assumes "wfGroupServer E"
  shows "fst (api_GetVGSC E n w) = Inr c \<Longrightarrow> wfGroupContent c"
    and "fst (api_PatchVGSC E n p sub w) = Inr c \<Longrightarrow> wfGroupContent c"
    and "fst (api_UpdateStatusVGSC E d w) = Inr c \<Longrightarrow> wfGroupContent c"
    and "fst (api_UpdateStatusVGSC E d w) = Inr c \<Longrightarrow> vgsc_Status c = vgsc_Status d"
  using assms unfolding wfGroupServer_def by blast+

definition wfGroupDriver :: "'w env \<Rightarrow> bool" where
  "wfGroupDriver E \<longleftrightarrow>
    (\<forall>req w. fst (csi_CreateVolumeGroupSnapshot E req w) \<noteq> Inr None) \<and>
    (\<forall>h ids cr w. fst (csi_GetVolumeGroupSnapshot E h ids cr w) \<noteq> Inr None) \<and>
    groupSnapshotNameUUIDLength E = -1"

lemma returns_call: "returns (call f s) Q = Q (fst (f (world s))) (s\<lparr>world := snd (f (world s))\<rparr>)"
  by (simp add: call_def split: prod.split)

lemma returns_act:
  "returns (act a f s) Q = Q (fst (f (world s))) (s\<lparr>log := log s @ [a], world := snd (f (world s))\<rparr>)"
  by (simp add: act_def returns_call)

lemma storeGroupSnapshotContentUpdate_returns: "\<exists>r s'. storeGroupSnapshotContentUpdate x s = Some (r, s')"
  by (simp add: storeGroupSnapshotContentUpdate_def split: prod.split)

lemma returns_storeGroup: "(\<And>r s'. Q r s') \<Longrightarrow> returns (storeGroupSnapshotContentUpdate x s) Q"
  using storeGroupSnapshotContentUpdate_returns[of x s] by auto

lemma returns_storeContent: "(\<And>r s'. Q r s') \<Longrightarrow> returns (storeContentUpdate x s) Q"
  by (simp add: storeContentUpdate_def split: prod.split)

lemma patchGroup_returns:
  assumes "wfGroupServer E" "wfGroupContent c" "\<And>d e s'. wfGroupContent d \<Longrightarrow> Q (d, e) s'"
  shows "returns (PatchVolumeGroupSnapshotContent E c p sub s) Q"
  using assms(2)
  by (auto simp: PatchVolumeGroupSnapshotContent_def returns_act intro!: assms(3) intro: wfGroupServerD(2)[OF assms(1)]
      split: sum.split)

lemma groupCredentials_returns: "(\<And>r s'. Q r s') \<Longrightarrow> returns (GetCredentialsFromAnnotationForGroupSnapshot E c s) Q"
  by (auto simp: GetCredentialsFromAnnotationForGroupSnapshot_def GetCredentials_def returns_call Let_def split: sum.split)

lemma setGroupAnn_returns:
  assumes "wfGroupServer E" "wfGroupContent c" "\<And>d e s'. wfGroupContent d \<Longrightarrow> Q (d, e) s'"
  shows "returns (setAnnVolumeGroupSnapshotBeingCreated E c s) Q"
  using assms(1,2)
  by (auto simp: setAnnVolumeGroupSnapshotBeingCreated_def intro!: patchGroup_returns returns_storeContent assms(3)
      split: option.split)

lemma removeGroupAnn_returns:
  assumes "wfGroupServer E" "wfGroupContent c" "\<And>d e s'. wfGroupContent d \<Longrightarrow> Q (d, e) s'"
  shows "returns (removeAnnVolumeGroupSnapshotBeingCreated E c s) Q"
  using assms(1,2)
  by (auto simp: removeAnnVolumeGroupSnapshotBeingCreated_def intro!: patchGroup_returns returns_storeGroup assms(3)
      split: option.split)

lemma groupFinalizer_returns:
  assumes "wfGroupServer E" "wfGroupContent c"
  shows "returns (removeGroupSnapshotContentFinalizer E c s) (\<lambda>_ _. True)"
  using assms
  by (auto simp: removeGroupSnapshotContentFinalizer_def intro!: patchGroup_returns returns_storeGroup split: option.split)

lemma groupStatus_returns:
  assumes "wfGroupServer E" "\<And>e s'. Q (Inl e) s'" "\<And>d s'. wfGroupContent d \<Longrightarrow> Q (Inr d) s'"
  shows "returns (updateGroupSnapshotContentStatus E c f s) Q"
  by (auto simp: updateGroupSnapshotContentStatus_def returns_call returns_act Let_def intro!: assms(2,3)
      intro: wfGroupServerD(1,3)[OF assms(1)] split: sum.split prod.split)

lemma groupError_returns:
  assumes "wfGroupServer E" "wfGroupContent c" "\<And>r s'. Q r s'"
  shows "returns (updateGroupSnapshotContentErrorStatusWithEvent E c ty reason msg s) Q"
proof -
  obtain b where "sameGroupContentError (vgsc_Status c) msg = Some b"
    using assms(2) by (cases "Option.bind (vgsc_Status c) gcs_Error") (auto simp: sameGroupContentError_def wfGroupContent_def)
  then show ?thesis using assms(1,2)
    by (auto simp: updateGroupSnapshotContentErrorStatusWithEvent_def returns_call Let_def
        intro!: patchGroup_returns returns_storeGroup assms(3) split: option.split sum.split)
qed

lemma finishGroup_returns:
  assumes "wfGroupServer E" "wfGroupContent (fst res)"
  shows "returns (finishGroupContent E reason msg res s) (\<lambda>_ _. True)"
  using assms by (cases res)
    (auto simp: finishGroupContent_def intro!: groupError_returns returns_storeGroup split: option.split)

lemma returns_option_bind:
  "m \<noteq> None \<Longrightarrow> (\<And>x. m = Some x \<Longrightarrow> returns (k x) Q) \<Longrightarrow> returns (Option.bind m k) Q"
  by (cases m) simp_all

lemma wfGroupDriverD:
  assumes "wfGroupDriver E"
  shows "fst (csi_CreateVolumeGroupSnapshot E req w) = Inr x \<Longrightarrow> x \<noteq> None"
    and "fst (csi_GetVolumeGroupSnapshot E h ids cr w) = Inr x \<Longrightarrow> x \<noteq> None"
    and "groupSnapshotNameUUIDLength E = -1"
  using assms unfolding wfGroupDriver_def by metis+

lemma h_CreateGroupSnapshot_returns:
  assumes "wfGroupDriver E" "\<And>r s'. Q r s'"
  shows "returns (h_CreateGroupSnapshot (theGroupHandler E) c params cr s) Q"
  by (auto simp: theGroupHandler_def NewCSIGroupHandler_def NewGroupSnapshotter_def csiHandler_CreateGroupSnapshot_def
      makeGroupSnapshotName_def groupSnapshot_CreateGroupSnapshot_def wfGroupDriverD(3)[OF assms(1)]
      returns_call returns_act Let_def
      intro!: assms(2) returns_option_bind dest: wfGroupDriverD(1)[OF assms(1)] split: sum.split)

lemma h_GetGroupSnapshotStatus_returns:
  assumes "wfGroupDriver E" "\<And>r s'. Q r s'"
  shows "returns (h_GetGroupSnapshotStatus (theGroupHandler E) c ids cr s) Q"
  by (auto simp: theGroupHandler_def NewCSIGroupHandler_def NewGroupSnapshotter_def csiHandler_GetGroupSnapshotStatus_def
      groupSnapshot_GetGroupSnapshotStatus_def returns_call returns_act Let_def
      intro!: assms(2) returns_option_bind dest: wfGroupDriverD(2)[OF assms(1)] split: sum.split option.split)

lemma takeGroupSnapshot_returns:
  assumes "wfGroupServer E" "wfGroupDriver E" "wfGroupContent c"
  shows "returns (takeGroupSnapshot E (theGroupHandler E) c cl cr s) (\<lambda>r _. wfGroupContent (fst r))"
  using assms
  by (auto simp: takeGroupSnapshot_def groupCreationFailed_def groupCreationDone_def returns_call Let_def
      intro!: h_CreateGroupSnapshot_returns removeGroupAnn_returns groupStatus_returns
      split: sum.split option.split)

lemma createGroupWrapper_returns:
  assumes "wfGroupServer E" "wfGroupDriver E" "wfGroupContent c" "vgsc_VolumeHandles c \<noteq> []"
  shows "returns (createGroupSnapshotWrapper E (theGroupHandler E) c s) (\<lambda>r _. wfGroupContent (fst r))"
proof -
  have "returns (getCSIGroupSnapshotInput E c s) (\<lambda>r _. \<forall>cl cr. r = Inr (cl, cr) \<longrightarrow> cl \<noteq> None)"
    using assms(4)
    by (auto simp: getCSIGroupSnapshotInput_def getGroupSnapshotClass_sidecar_def returns_call map_sum_Inr
        intro!: groupCredentials_returns split: sum.split option.split)
  then show ?thesis using assms(1-3) unfolding createGroupSnapshotWrapper_def
    by (auto elim!: returns_mono intro!: setGroupAnn_returns takeGroupSnapshot_returns split: sum.split option.split)
qed

lemma queryGroup_returns:
  assumes "wfGroupServer E" "wfGroupDriver E" "wfGroupContent c"
  shows "returns (checkandUpdateGroupSnapshotContentStatusOperation E (theGroupHandler E) c s) (\<lambda>r _. wfGroupContent (fst r))"
proof (cases "vgsc_Handles c")
  case None
  then show ?thesis using assms createGroupWrapper_returns[of E c s]
    by (simp add: checkandUpdateGroupSnapshotContentStatusOperation_def wfGroupContent_def)
next
  case (Some hs)
  have "returns (groupStatusCredentials E c s) (\<lambda>_ _. True)"
    by (auto simp: groupStatusCredentials_def getGroupSnapshotClass_sidecar_def GetCredentials_def returns_call
        split: sum.split option.split)
  then show ?thesis using assms unfolding checkandUpdateGroupSnapshotContentStatusOperation_def Some
    by (auto simp: returns_call elim!: returns_mono intro!: h_GetGroupSnapshotStatus_returns groupStatus_returns
        split: sum.split)
qed

lemma syncLiveGroup_returns:
  assumes "wfGroupServer E" "wfGroupDriver E" "wfGroupContent c"
  shows "returns (syncLiveGroupSnapshotContent E (theGroupHandler E) c s) (\<lambda>_ _. True)"
  using assms
  by (auto simp: syncLiveGroupSnapshotContent_def createGroupSnapshot_def checkandUpdateGroupSnapshotContentStatus_def
      intro!: returns_mono[OF createGroupWrapper_returns] returns_mono[OF queryGroup_returns]
        finishGroup_returns removeGroupAnn_returns)

lemma deleteAndClear_returns: "returns (deleteAndClearGroupSnapshot E (theGroupHandler E) c s) (\<lambda>_ _. True)"
proof -
  have d: "returns (h_DeleteGroupSnapshot (theGroupHandler E) c ids cr t) Q" if "\<And>r s'. Q r s'" for ids cr t Q
    using ghd.delete_returns[of E c ids cr t] that by auto
  show ?thesis
    by (auto simp: deleteAndClearGroupSnapshot_def clearGroupSnapshotContentStatus_def returns_call returns_act
        intro!: groupCredentials_returns d split: sum.split option.split)
qed

lemma syncGroup_returns_cleared:
  assumes "wfGroupServer E" "wfGroupDriver E" "wfGroupContent c" "\<not> mustDeleteGroupSnapshot c"
  shows "returns (syncGroupSnapshotContent_sidecar E (theGroupHandler E) c s) (\<lambda>_ _. True)"
  using assms groupFinalizer_returns[of E c s] syncLiveGroup_returns[of E c s]
  by (subst syncGroupSnapshotContent_sidecar_unfold) simp

text \<open>C34: A sync of a group content returns. Although a deletion ends by calling the sync again, for the object that
  the server returned for the cleared status, the second sync has no handle left to delete and is the last;
  and no sync panics, whatever the state of the content, the caches and the answers of the driver, when
  contents have a source and a message in every error, the server returns the status it was given, the
  driver fills in its successful replies, and the names are not cut short.\<close>

theorem group_sync_returns:
  assumes "wfGroupServer E" and "wfGroupDriver E" and "wfGroupContent c"
  shows "\<exists>r s'. syncGroupSnapshotContent_sidecar E (theGroupHandler E) c s = Some (r, s')"
proof (cases "mustDeleteGroupSnapshot c \<and> shouldDeleteGroupSnapshotContent c")
  case False
  have "returns (syncGroupSnapshotContent_sidecar E (theGroupHandler E) c s) (\<lambda>_ _. True)"
    using False groupFinalizer_returns[OF assms(1,3), of s] syncLiveGroup_returns[OF assms, of s]
    by (subst syncGroupSnapshotContent_sidecar_unfold) auto
  then show ?thesis by (auto simp: returns_def split: option.splits)
next
  case True
  obtain q s1 where q: "deleteAndClearGroupSnapshot E (theGroupHandler E) c s = Some (q, s1)"
    using deleteAndClear_returns[of E c s] by (auto simp: returns_def split: option.splits)
  have "\<exists>r s'. updateGroupSnapshotContentInInformerCache E (theGroupHandler E) d s1 = Some (r, s')" if d: "q = Inr d" for d
  proof -
    obtain x t where x: "fst (api_UpdateStatusVGSC E (clearedGroupStatus x) t) = Inr d"
      using ghd.deleteAndClear_done[OF q[unfolded d]] by (metis fst_conv)
    have "wfGroupContent d" "\<not> mustDeleteGroupSnapshot d"
      using wfGroupServerD(3,4)[OF assms(1) x]
      by (auto simp: mustDeleteGroupSnapshot_def clearedGroupStatus_def split: option.splits)
    then have "returns (syncGroupSnapshotContent_sidecar E (theGroupHandler E) d t) (\<lambda>_ _. True)" for t
      using syncGroup_returns_cleared assms(1,2) by blast
    then show ?thesis using storeGroupSnapshotContentUpdate_returns[of "ObjVGSC d" s1]
      by (fastforce simp: updateGroupSnapshotContentInInformerCache_def returns_def split: option.splits)
  qed
  then show ?thesis using True q
    by (subst syncGroupSnapshotContent_sidecar_unfold)
      (fastforce simp: deleteCSIGroupSnapshotOperation_def split: sum.split)
qed

lemma demoGroupDelete_wf:
  "wfGroupServer (demoGroupDeleteEnv\<lparr>api_UpdateStatusVGSC := \<lambda>d w. (if wfGroupContent d then Inr d else Inl notFound, w)\<rparr>)"
  "wfGroupDriver demoGroupDeleteEnv"
  "wfGroupContent demoGroupContent"
proof -
  show c: "wfGroupContent demoGroupContent"
    by (simp add: wfGroupContent_def demoGroupContent_def emptyGroupContentStatus_def)
  have "wfGroupContent (clearedGroupStatus demoGroupContent)"
    by (simp add: wfGroupContent_def demoGroupContent_def emptyGroupContentStatus_def clearedGroupStatus_def)
  then show "wfGroupServer (demoGroupDeleteEnv\<lparr>api_UpdateStatusVGSC := \<lambda>d w. (if wfGroupContent d then Inr d else Inl notFound, w)\<rparr>)"
    using c by (auto simp: wfGroupServer_def demoGroupDeleteEnv_def split: if_splits)
  show "wfGroupDriver demoGroupDeleteEnv" by (simp add: wfGroupDriver_def demoGroupDeleteEnv_def nullEnv_def)
qed

definition demoGroupServerEnv :: "unit env" where
  "demoGroupServerEnv = demoGroupDeleteEnv\<lparr>api_UpdateStatusVGSC :=
     \<lambda>d w. (if wfGroupContent d then Inr d else Inl notFound, w)\<rparr>"

theorem group_sync_returns_witness:
  "\<exists>r s'. syncGroupSnapshotContent_sidecar demoGroupServerEnv (theGroupHandler demoGroupServerEnv) demoGroupContent
     (initialState ()) = Some (r, s')"
proof -
  have "wfGroupServer demoGroupServerEnv" using demoGroupDelete_wf(1) by (simp add: demoGroupServerEnv_def)
  moreover have "wfGroupDriver demoGroupServerEnv" using demoGroupDelete_wf(2)
    by (simp add: wfGroupDriver_def demoGroupServerEnv_def)
  ultimately show ?thesis using demoGroupDelete_wf(3) by (rule group_sync_returns)
qed

section \<open>Statuses, caches and a deletion that cannot succeed\<close>

text \<open>A group content that lists no member snapshot can never be deleted while its policy is Delete and it has a
  handle: every sync fails before the driver is asked, and all it does is emit one warning. The handle and
  the finalizer stay, so the object stays in deletion for good. A driver that answers a creation with no
  snapshots brings a content into this state.\<close>

theorem group_deletion_without_members_is_stuck:
  assumes "syncGroupSnapshotContent_sidecar E (theGroupHandler E) c s = Some (r, s')"
    and "shouldDeleteGroupSnapshotContent c" and "mustDeleteGroupSnapshot c" and "groupSnapshotIDs c = []"
  shows "r \<noteq> None \<and> groupSnapshotContentStore s' = groupSnapshotContentStore s \<and>
    (\<exists>m. log s' = log s @ [groupDeleteError c m])"
proof -
  obtain i s1 where i: "GetCredentialsFromAnnotationForGroupSnapshot E c s = Some (i, s1)"
    using groupCredentials_returns[of "\<lambda>_ _. True" E c s] by (auto simp: returns_def split: option.splits)
  have c: "log s1 = log s" "groupSnapshotContentStore s1 = groupSnapshotContentStore s"
    using i groupCredentials_log[OF i]
    by (auto simp: GetCredentialsFromAnnotationForGroupSnapshot_def GetCredentials_def call_def Let_def
        split: if_splits prod.splits sum.splits)
  obtain q s2 where q: "deleteAndClearGroupSnapshot E (theGroupHandler E) c s = Some (q, s2)"
    using deleteAndClear_returns[of E c s] by (auto simp: returns_def split: option.splits)
  have "\<exists>e m. q = Inl e \<and> s2 = emit (groupDeleteError c m) s1"
    using q i assms(4)
    by (auto simp: deleteAndClearGroupSnapshot_def theGroupHandler_def NewCSIGroupHandler_def
        csiHandler_DeleteGroupSnapshot_def split: sum.splits)
  then obtain e m where "q = Inl e" "s2 = emit (groupDeleteError c m) s1" by blast
  then have "r = Some e" "s' = emit (groupDeleteError c m) s1" using assms(1-3) q
    by (simp_all add: syncGroupSnapshotContent_sidecar_unfold deleteCSIGroupSnapshotOperation_def)
  then show ?thesis using c by (auto simp: emit_def)
qed

definition demoMemberless :: VolumeGroupSnapshotContent where
  "demoMemberless = demoGroupContent\<lparr>vgsc_Status := Some (emptyGroupContentStatus\<lparr>gcs_VolumeGroupSnapshotHandle := Some ''gh-1''\<rparr>)\<rparr>"

lemma demoMemberless_sel:
  "shouldDeleteGroupSnapshotContent demoMemberless" "mustDeleteGroupSnapshot demoMemberless"
  "groupSnapshotIDs demoMemberless = []"
  by code_simp+

theorem group_deletion_without_members_is_stuck_witness:
  "\<exists>e s'. syncGroupSnapshotContent_sidecar demoGroupServerEnv (theGroupHandler demoGroupServerEnv) demoMemberless
     (initialState ()) = Some (Some e, s') \<and> (\<exists>m. log s' = [groupDeleteError demoMemberless m])"
proof -
  have q: "returns (deleteAndClearGroupSnapshot demoGroupServerEnv (theGroupHandler demoGroupServerEnv) demoMemberless
      (initialState ())) (\<lambda>r _. \<exists>e. r = Inl e)"
    by (auto simp: deleteAndClearGroupSnapshot_def theGroupHandler_def NewCSIGroupHandler_def demoMemberless_sel
        csiHandler_DeleteGroupSnapshot_def intro!: groupCredentials_returns split: sum.split)
  then obtain r s' where run: "syncGroupSnapshotContent_sidecar demoGroupServerEnv (theGroupHandler demoGroupServerEnv)
      demoMemberless (initialState ()) = Some (r, s')"
    by (auto simp: syncGroupSnapshotContent_sidecar_unfold deleteCSIGroupSnapshotOperation_def demoMemberless_sel
        returns_def split: option.splits)
  show ?thesis
    using group_deletion_without_members_is_stuck[OF run demoMemberless_sel] run by (auto simp: initialState_def)
qed

lemma computeGroupContentStatus_eq:
  "computeGroupContentStatus (Some old) f =
    (old\<lparr>gcs_VolumeGroupSnapshotHandle := (case gcs_VolumeGroupSnapshotHandle old of None \<Rightarrow> Some (g_handle f) | Some h \<Rightarrow> Some h),
       gcs_CreationTime := (case gcs_CreationTime old of None \<Rightarrow> Some (g_createdAt f) | Some t \<Rightarrow> Some t),
       gcs_ReadyToUse := Some (g_ready f),
       gcs_Error := (if g_ready f \<and> gcs_ReadyToUse old \<noteq> Some True then None else gcs_Error old),
       VolumeSnapshotInfoList := (if VolumeSnapshotInfoList old = [] then map memberInfo (g_snapshots f)
         else VolumeSnapshotInfoList old)\<rparr>,
     gcs_VolumeGroupSnapshotHandle old = None \<or> gcs_CreationTime old = None \<or>
       gcs_ReadyToUse old \<noteq> Some (g_ready f) \<or> VolumeSnapshotInfoList old = [])"
proof (cases old)
  case (fields h ct rd er infos)
  then show ?thesis
    by (cases h; cases ct; cases "rd = Some (g_ready f)"; cases infos; cases er; cases "g_ready f")
      (auto simp: computeGroupContentStatus_def Let_def)
qed

text \<open>The status of a group content only gains facts: a handle, a creation time and a list of members that are
  set stay as they are, and are filled in when they are not; the ready flag becomes the reported one; an
  error stays unless the group becomes ready by this report. But an empty list of members always counts as
  a change, so as long as the driver reports none the status is written again by every query although
  nothing in it differs.\<close>

theorem group_status_merge:
  assumes "computeGroupContentStatus (Some old) f = (st, updated)"
  shows "gcs_VolumeGroupSnapshotHandle st =
      (if gcs_VolumeGroupSnapshotHandle old = None then Some (g_handle f) else gcs_VolumeGroupSnapshotHandle old) \<and>
    gcs_CreationTime st = (if gcs_CreationTime old = None then Some (g_createdAt f) else gcs_CreationTime old) \<and>
    VolumeSnapshotInfoList st = (if VolumeSnapshotInfoList old = [] then map memberInfo (g_snapshots f)
      else VolumeSnapshotInfoList old) \<and>
    gcs_ReadyToUse st = Some (g_ready f) \<and>
    gcs_Error st = (if g_ready f \<and> gcs_ReadyToUse old \<noteq> Some True then None else gcs_Error old) \<and>
    (updated \<longleftrightarrow> st \<noteq> old \<or> VolumeSnapshotInfoList old = []) \<and>
    computeGroupContentStatus (Some st) f = (st, VolumeSnapshotInfoList st = [])"
proof -
  have eq: "st = fst (computeGroupContentStatus (Some old) f)" "updated = snd (computeGroupContentStatus (Some old) f)"
    using assms by simp_all
  have "updated \<longleftrightarrow> st \<noteq> old \<or> VolumeSnapshotInfoList old = []"
  proof (cases old)
    case (fields h ct rd er infos)
    then show ?thesis unfolding eq computeGroupContentStatus_eq
      by (cases h; cases ct; cases "rd = Some (g_ready f)"; cases infos) auto
  qed
  then show ?thesis unfolding eq(1) computeGroupContentStatus_eq
    by (auto split: option.split)
qed

definition demoGroupFacts :: groupFacts where
  "demoGroupFacts = \<lparr>g_handle = ''gh-2'', g_ready = False, g_createdAt = 8, g_snapshots = []\<rparr>"

theorem group_status_merge_witness:
  "\<exists>st. computeGroupContentStatus (Some (emptyGroupContentStatus\<lparr>gcs_VolumeGroupSnapshotHandle := Some ''gh-1''\<rparr>))
     demoGroupFacts = (st, True) \<and> gcs_VolumeGroupSnapshotHandle st = Some ''gh-1'' \<and>
   computeGroupContentStatus (Some st) demoGroupFacts = (st, True)"
proof -
  obtain st u where c: "computeGroupContentStatus (Some (emptyGroupContentStatus\<lparr>gcs_VolumeGroupSnapshotHandle := Some ''gh-1''\<rparr>))
     demoGroupFacts = (st, u)" by fastforce
  show ?thesis using group_status_merge[OF c] c by (simp add: emptyGroupContentStatus_def demoGroupFacts_def)
qed

text \<open>The annotation step files the group content in the wrong cache. When the patch succeeds the cache of group
  contents is left as it was, and the patched group content is entered, under its own key, in the cache
  of single contents, unless a newer object is there. Nothing takes it out again: neither the deletion
  event of the group content nor that of a single content of the same name.\<close>

theorem annotated_group_content_in_wrong_cache:
  assumes "setAnnVolumeGroupSnapshotBeingCreated E c s = Some ((d, None), s')"
    and "\<not> HasAnnotation (vgsc_meta c) AnnVolumeGroupSnapshotBeingCreated"
    and "contentStore s (keyFunc (vgsc_meta d)) = None"
  shows "groupSnapshotContentStore s' = groupSnapshotContentStore s \<and>
    contentStore s' = (contentStore s)(keyFunc (vgsc_meta d) \<mapsto> ObjVGSC d) \<and>
    contentStore (deleteGroupSnapshotContentInCacheStore d s') (keyFunc (vgsc_meta d)) = Some (ObjVGSC d) \<and>
    (\<forall>ns n r t. SplitMetaNamespaceKey (keyFunc (vgsc_meta d)) = Inr (ns, n) \<longrightarrow>
       (\<forall>w. \<exists>e. fst (lister_GetVSC E n w) = Inl e) \<longrightarrow>
       syncContentByKey_sidecar E H (keyFunc (vgsc_meta d)) s' = Some (r, t) \<longrightarrow> contentStore t = contentStore s')"
proof -
  have st: "groupSnapshotContentStore s' = groupSnapshotContentStore s"
    "contentStore s' = (contentStore s)(keyFunc (vgsc_meta d) \<mapsto> ObjVGSC d)"
    using assms
    by (auto simp: setAnnVolumeGroupSnapshotBeingCreated_def PatchVolumeGroupSnapshotContent_def act_def call_def
        storeContentUpdate_def StoreObjectUpdate_def Let_def split: prod.splits sum.splits)
  have "contentStore t = contentStore s'"
    if 1: "SplitMetaNamespaceKey (keyFunc (vgsc_meta d)) = Inr (ns, n)" and 2: "\<forall>w. \<exists>e. fst (lister_GetVSC E n w) = Inl e"
      and 3: "syncContentByKey_sidecar E H (keyFunc (vgsc_meta d)) s' = Some (r, t)" for ns n r t
  proof -
    obtain e where "fst (lister_GetVSC E n (world s')) = Inl e" using 2 by blast
    then obtain w where "lister_GetVSC E n (world s') = (Inl e, w)" by (cases "lister_GetVSC E n (world s')") simp
    then show ?thesis using 1 3 st(2)
      by (auto simp: syncContentByKey_sidecar_def call_def split: if_splits)
  qed
  then show ?thesis using st by (auto simp: deleteGroupSnapshotContentInCacheStore_def)
qed

theorem annotated_group_content_in_wrong_cache_witness:
  "\<exists>d s'. setAnnVolumeGroupSnapshotBeingCreated demoGroupTimeoutEnv demoGroupSource (initialState ()) = Some ((d, None), s') \<and>
     contentStore s' ''groupsnapcontent-uid1'' = Some (ObjVGSC d) \<and> groupSnapshotContentStore s' = Map.empty"
proof -
  have "\<exists>s'. setAnnVolumeGroupSnapshotBeingCreated demoGroupTimeoutEnv demoGroupSource (initialState ()) =
      Some ((demoGroupSource, None), s')"
    by (simp add: setAnnVolumeGroupSnapshotBeingCreated_def demoGroupSource_sel PatchVolumeGroupSnapshotContent_def
        act_def call_def demoGroupTimeoutEnv_def storeContentUpdate_def split: prod.split)
  then obtain s' where run: "setAnnVolumeGroupSnapshotBeingCreated demoGroupTimeoutEnv demoGroupSource (initialState ()) =
      Some ((demoGroupSource, None), s')" by blast
  have k: "keyFunc (vgsc_meta demoGroupSource) = ''groupsnapcontent-uid1''" by code_simp
  show ?thesis
    using annotated_group_content_in_wrong_cache[OF run demoGroupSource_sel(3)] run k by (simp add: initialState_def)
qed

end
