(* ===== verification/System.thy ===== *)
theory System
  imports CommonGroupProps SidecarGroup
begin

text \<open>
  The two processes together: the common controller and a sidecar, each with its caches, its queues and
  its log, and the world between them. A step is one turn of a worker, one informer event, a restart or a
  move of anything else; a worker takes whatever key the queue hands it. A turn is atomic here, but what a
  turn sees of the world is arbitrary at every call (\<open>Runtime\<close>), so a turn covers its interleavings with
  other clients of the API server.
\<close>

section \<open>The steps\<close>

record 'w system =
  sys_world :: 'w
  common :: "'w st"
  sidecar :: "'w st"

text \<open>A process works on the world as it is; its log is kept over a restart, its caches are not.\<close>

definition inWorld :: "'w \<Rightarrow> 'w st \<Rightarrow> 'w st" where
  "inWorld w s = s\<lparr>world := w\<rparr>"

definition afresh :: "'w \<Rightarrow> 'w st \<Rightarrow> 'w st" where
  "afresh w s = (initialState w)\<lparr>log := log s\<rparr>"

text \<open>One turn of the common controller, and one of the sidecar.\<close>

inductive commonTurn :: "'w env \<Rightarrow> 'w st \<Rightarrow> 'w st \<Rightarrow> bool" for E where
  snapshot_turn: "snapshotWorker E next s = Some ((), s') \<Longrightarrow> commonTurn E s s'"
| content_turn: "contentWorker E next s = Some ((), s') \<Longrightarrow> commonTurn E s s'"
| group_turn: "groupSnapshotWorker E next s = Some ((), s') \<Longrightarrow> commonTurn E s s'"
| groupContent_turn: "groupSnapshotContentWorker E next s = Some ((), s') \<Longrightarrow> commonTurn E s s'"
| snapshot_event: "commonTurn E s (enqueueSnapshotWork ob s)"
| content_event: "commonTurn E s (enqueueContentWork ob s)"
| group_event: "commonTurn E s (enqueueGroupSnapshotWork ob s)"
| groupContent_event: "commonTurn E s (enqueueGroupSnapshotContentWork ob s)"
| common_restart: "initializeCaches E (afresh (world s) s) = Some ((), s') \<Longrightarrow> commonTurn E s s'"

inductive sidecarTurn :: "'w env \<Rightarrow> 'w st \<Rightarrow> 'w st \<Rightarrow> bool" for E where
  sidecar_turn: "processNextItem E (theHandler E) next s = Some (again, s') \<Longrightarrow> sidecarTurn E s s'"
| sidecarGroup_turn:
    "groupSnapshotContentWorker_sidecar E (theGroupHandler E) next s = Some ((), s') \<Longrightarrow> sidecarTurn E s s'"
| sidecar_event: "sidecarTurn E s (enqueueContentWork_sidecar ob s)"
| sidecar_update_event: "sidecarTurn E s (onContentUpdate old new s)"
| sidecarGroup_event: "sidecarTurn E s (enqueueGroupSnapshotContentWork_sidecar ob s)"
| sidecar_restart: "initializeCaches_sidecar E (afresh (world s) s) = Some ((), s') \<Longrightarrow> sidecarTurn E s s'"

inductive systemStep :: "'w env \<Rightarrow> 'w env \<Rightarrow> 'w system \<Rightarrow> 'w system \<Rightarrow> bool" for EC ES where
  common_step: "commonTurn EC (inWorld (sys_world y) (common y)) s \<Longrightarrow>
    systemStep EC ES y (y\<lparr>sys_world := world s, common := s\<rparr>)"
| sidecar_step: "sidecarTurn ES (inWorld (sys_world y) (sidecar y)) s \<Longrightarrow>
    systemStep EC ES y (y\<lparr>sys_world := world s, sidecar := s\<rparr>)"
| other_step: "systemStep EC ES y (y\<lparr>sys_world := w\<rparr>)"

inductive reachable :: "'w env \<Rightarrow> 'w env \<Rightarrow> 'w system \<Rightarrow> bool" for EC ES where
  start: "reachable EC ES \<lparr>sys_world = w, common = initialState w, sidecar = initialState w\<rparr>"
| step: "reachable EC ES y \<Longrightarrow> systemStep EC ES y y' \<Longrightarrow> reachable EC ES y'"

inductive_cases commonTurnE: "commonTurn E s s'"
inductive_cases sidecarTurnE: "sidecarTurn E s s'"
inductive_cases systemStepE: "systemStep EC ES y y'"

text \<open>An invariant of each process, kept by its turns and indifferent to the world, holds in every reachable state.\<close>

lemma reachable_invariant:
  assumes "\<And>w. P (initialState w)" "\<And>w. R (initialState w)"
    and "\<And>w s. P s \<Longrightarrow> P (inWorld w s)" "\<And>w s. R s \<Longrightarrow> R (inWorld w s)"
    and "\<And>s s'. commonTurn EC s s' \<Longrightarrow> P s \<Longrightarrow> P s'" "\<And>s s'. sidecarTurn ES s s' \<Longrightarrow> R s \<Longrightarrow> R s'"
    and "reachable EC ES y"
  shows "P (common y) \<and> R (sidecar y)"
  using assms(7)
proof induction
  case (step y y')
  from step.hyps(2) show ?case
    by (rule systemStepE) (use assms(3-6) step.IH in auto)
qed (simp add: assms(1,2))

section \<open>Who may do what\<close>

datatype process = CommonController | SidecarController

definition commonAction :: "action \<Rightarrow> bool" where
  "commonAction a = (case a of
     CSICreateSnapshot _ \<Rightarrow> False | CSIDeleteSnapshot _ _ \<Rightarrow> False | CSIListSnapshots _ _ \<Rightarrow> False
   | CSICreateGroupSnapshot _ \<Rightarrow> False | CSIDeleteGroupSnapshot _ _ _ \<Rightarrow> False | CSIGetGroupSnapshot _ _ _ \<Rightarrow> False
   | UpdateStatusVSC _ \<Rightarrow> False | UpdateStatusVGSC _ \<Rightarrow> False
   | PatchVS _ _ _ sub \<Rightarrow> plainOrStatus sub | PatchVSC _ _ sub \<Rightarrow> plainOrStatus sub
   | PatchVGS _ _ _ sub \<Rightarrow> sub = [] | PatchVGSC _ _ sub \<Rightarrow> sub = [] | _ \<Rightarrow> True)"

definition sidecarAction :: "action \<Rightarrow> bool" where
  "sidecarAction a = (case a of
     CSICreateSnapshot _ \<Rightarrow> True | CSIDeleteSnapshot _ _ \<Rightarrow> True | CSIListSnapshots _ _ \<Rightarrow> True
   | CSICreateGroupSnapshot _ \<Rightarrow> True | CSIDeleteGroupSnapshot _ _ _ \<Rightarrow> True | CSIGetGroupSnapshot _ _ _ \<Rightarrow> True
   | PatchVSC _ _ sub \<Rightarrow> plainOrStatus sub | UpdateStatusVSC _ \<Rightarrow> True
   | PatchVGSC _ _ sub \<Rightarrow> plainOrStatus sub | UpdateStatusVGSC _ \<Rightarrow> True
   | Event _ _ _ _ \<Rightarrow> True
   | QueueAdd q _ \<Rightarrow> q = QContent \<or> q = QGroupContent
   | QueueAddRateLimited q _ \<Rightarrow> q = QContent \<or> q = QGroupContent
   | QueueForget q _ \<Rightarrow> q = QContent \<or> q = QGroupContent
   | QueueDone q _ \<Rightarrow> q = QContent \<or> q = QGroupContent
   | _ \<Rightarrow> False)"

fun may :: "process \<Rightarrow> action \<Rightarrow> bool" where
  "may CommonController a = commonAction a"
| "may SidecarController a = sidecarAction a"

declare may.simps [simp del]

text \<open>
  What a cache of a process may hold. The group caches of the common controller are filled with the wrong
  kinds at start, and the sidecar puts group contents into its content cache.
\<close>

fun kindOf :: "process \<Rightarrow> cache \<Rightarrow> obj \<Rightarrow> bool" where
  "kindOf p CSnapshot x = isVS x"
| "kindOf p CContent x = (isVSC x \<or> (p = SidecarController \<and> isVGSC x))"
| "kindOf p CStrayContent x = isVGSC x"
| "kindOf p CGroupSnapshot x = (isVGS x \<or> (p = CommonController \<and> isVS x))"
| "kindOf p CGroupSnapshotContent x = (isVGSC x \<or> (p = CommonController \<and> isVSC x))"

definition cacheTyped :: "(obj \<Rightarrow> bool) \<Rightarrow> store \<Rightarrow> bool" where
  "cacheTyped kind st \<longleftrightarrow> (\<forall>k x. st k = Some x \<longrightarrow> kind x \<and> keyFunc (objMeta x) = k)"

definition procInv :: "process \<Rightarrow> 'w st \<Rightarrow> bool" where
  "procInv p s \<longleftrightarrow> list_all (may p) (log s) \<and> cacheTyped (kindOf p CSnapshot) (snapshotStore s) \<and>
     cacheTyped (kindOf p CContent) (contentStore s) \<and> cacheTyped (kindOf p CGroupSnapshot) (groupSnapshotStore s) \<and>
     cacheTyped (kindOf p CGroupSnapshotContent) (groupSnapshotContentStore s)"

lemma cacheTyped_step:
  "cacheTyped kind st \<Longrightarrow> storeStep k st st' \<Longrightarrow> (\<And>x. k x \<Longrightarrow> kind x) \<Longrightarrow> cacheTyped kind st'"
  unfolding storeStep_def by (elim disjE exE conjE) (auto simp: cacheTyped_def split: if_splits)

interpretation proc: effects "procInv p" "may p" "\<lambda>x. x = CStrayContent \<longrightarrow> p = SidecarController" for p
  by unfold_locales (auto simp: procInv_def intro: cacheTyped_step)

interpretation procH: handler_client "procInv p" "may p" "\<lambda>x. x = CStrayContent \<longrightarrow> p = SidecarController"
  "theHandler E" "snapshotNameOf E" "confirmed E" for p E
  by unfold_locales

interpretation procG: group_handler_client "procInv p" "may p" "\<lambda>x. x = CStrayContent \<longrightarrow> p = SidecarController"
  "theGroupHandler E" "groupSnapshotNameOf E" "groupConfirmed E" for p E
  by unfold_locales

lemma may_common [simp]:
  "may CommonController (UpdateVS v)" "may CommonController (UpdateStatusVS v)" "plainOrStatus q \<Longrightarrow> may CommonController (PatchVS n m p q)"
  "may CommonController (CreateVSC c)" "plainOrStatus q \<Longrightarrow> may CommonController (PatchVSC n p q)" "may CommonController (UpdatePVC x)"
  "may CommonController (DeleteVSC n)" "may CommonController (Event ob t m m')" "may CommonController (QueueAdd qu k)"
  "may CommonController (QueueForget qu k)" "may CommonController (QueueDone qu k)"
  "may CommonController (QueueAddRateLimited qu k)" "may CommonController (CreateVS v)" "may CommonController (DeleteVS n m)"
  "may CommonController (UpdateVGS g)" "may CommonController (UpdateStatusVGS g)" "may CommonController (PatchVGS n m p [])"
  "may CommonController (CreateVGSC gc)" "may CommonController (PatchVGSC n p [])" "may CommonController (DeleteVGSC n)"
  by (simp_all add: may.simps commonAction_def)

lemma may_sidecar [simp]:
  "may SidecarController (CSICreateSnapshot req)" "may SidecarController (CSIDeleteSnapshot h cr)"
  "may SidecarController (CSIListSnapshots h cr)" "may SidecarController (CSICreateGroupSnapshot greq)"
  "may SidecarController (CSIDeleteGroupSnapshot h ids cr)" "plainOrStatus q \<Longrightarrow> may SidecarController (PatchVSC n p q)"
  "may SidecarController (UpdateStatusVSC c)" "plainOrStatus q \<Longrightarrow> may SidecarController (PatchVGSC n p q)" "may SidecarController (Event ob t m m')"
  "may SidecarController (QueueAdd QContent k)" "may SidecarController (QueueAdd QGroupContent k)"
  "may SidecarController (QueueForget QContent k)" "may SidecarController (QueueForget QGroupContent k)"
  "may SidecarController (QueueAddRateLimited QContent k)" "may SidecarController (QueueAddRateLimited QGroupContent k)"
  "may SidecarController (QueueDone QContent k)" "may SidecarController (QueueDone QGroupContent k)"
  "quietGroupAct a \<Longrightarrow> may SidecarController a"
  by (auto simp: may.simps sidecarAction_def quietGroupAct_def split: action.splits)

text \<open>Every turn keeps the invariant: one lemma per worker, event and restart.\<close>

lemma procInv_world [simp]: "procInv p (s\<lparr>world := w\<rparr>) = procInv p s"
  by (simp add: procInv_def)

lemma procInv_inWorld: "procInv p s \<Longrightarrow> procInv p (inWorld w s)"
  by (simp add: inWorld_def)

lemma procInv_initial: "procInv p (initialState w)"
  by (simp add: procInv_def initialState_def cacheTyped_def)

lemma procInv_afresh: "procInv p s \<Longrightarrow> procInv p (afresh w s)"
  by (simp add: procInv_def afresh_def initialState_def cacheTyped_def)

lemma procInv_emit: "may p a \<Longrightarrow> procInv p s \<Longrightarrow> procInv p (emit a s)"
  by (rule proc.emit_I)

lemma common_turns:
  assumes "procInv CommonController s"
  shows "snapshotWorker E nxt s = Some ((), s') \<Longrightarrow> procInv CommonController s'"
    "contentWorker E nxt s = Some ((), s') \<Longrightarrow> procInv CommonController s'"
    "groupSnapshotWorker E nxt s = Some ((), s') \<Longrightarrow> procInv CommonController s'"
    "groupSnapshotContentWorker E nxt s = Some ((), s') \<Longrightarrow> procInv CommonController s'"
proof -
  have s: "ensures (syncSnapshotByKey E key s) (\<lambda>_. procInv CommonController)" for key
    by (rule proc.syncSnapshotByKey_I) (use assms in auto)
  have c: "ensures (syncContentByKey E key s) (\<lambda>_. procInv CommonController)" for key
    by (rule proc.syncContentByKey_I) (use assms in auto)
  have g: "ensures (syncGroupSnapshotByKey E key s) (\<lambda>_. procInv CommonController)" for key
    by (rule proc.syncGroupSnapshotByKey_I) (use assms in auto)
  have gc: "ensures (syncGroupSnapshotContentByKey E key s) (\<lambda>_. procInv CommonController)" for key
    by (rule proc.syncGroupSnapshotContentByKey_I) (use assms in auto)
  show "snapshotWorker E nxt s = Some ((), s') \<Longrightarrow> procInv CommonController s'"
    using assms ensuresD[OF s]
    by (auto simp: snapshotWorker_def intro!: procInv_emit split: option.splits Option.bind_splits)
  show "contentWorker E nxt s = Some ((), s') \<Longrightarrow> procInv CommonController s'"
    using assms ensuresD[OF c]
    by (auto simp: contentWorker_def intro!: procInv_emit split: option.splits Option.bind_splits)
  show "groupSnapshotWorker E nxt s = Some ((), s') \<Longrightarrow> procInv CommonController s'"
    using assms ensuresD[OF g]
    by (auto simp: groupSnapshotWorker_def intro!: procInv_emit split: option.splits Option.bind_splits)
  show "groupSnapshotContentWorker E nxt s = Some ((), s') \<Longrightarrow> procInv CommonController s'"
    using assms ensuresD[OF gc]
    by (auto simp: groupSnapshotContentWorker_def intro!: procInv_emit split: option.splits Option.bind_splits)
qed

lemma storeAll_inv:
  assumes "storeAll upd xs s = Some s'" "procInv p s"
    and "\<And>x s r s'. x \<in> set xs \<Longrightarrow> upd x s = Some (r, s') \<Longrightarrow> procInv p s \<Longrightarrow> procInv p s'"
  shows "procInv p s'"
  using assms
proof (induction xs arbitrary: s)
  case (Cons x xs)
  obtain r s1 where u: "upd x s = Some (r, s1)" using Cons.prems(1) by (auto split: Option.bind_splits)
  have "procInv p s1" by (rule Cons.prems(3)[OF _ u Cons.prems(2)]) simp
  moreover have "storeAll upd xs s1 = Some s'" using Cons.prems(1) u by simp
  ultimately show ?case using Cons.IH[of s1] Cons.prems(3) by (meson list.set_intros(2))
qed simp

text \<open>A listing is stored under the keys of its objects; a rejected object changes nothing.\<close>

lemma stores_inv:
  assumes "procInv p s"
  shows "kindOf p CSnapshot x \<Longrightarrow> storeSnapshotUpdate x s = Some (r, s') \<Longrightarrow> procInv p s'"
    "kindOf p CContent x \<Longrightarrow> storeContentUpdate x s = Some (r, s') \<Longrightarrow> procInv p s'"
    "kindOf p CGroupSnapshot x \<Longrightarrow> storeGroupSnapshotUpdate x s = Some (r, s') \<Longrightarrow> procInv p s'"
    "kindOf p CGroupSnapshotContent x \<Longrightarrow> storeGroupSnapshotContentUpdate x s = Some (r, s') \<Longrightarrow> procInv p s'"
proof -
  have *: "cacheTyped kind (snd (StoreObjectUpdate st x n))" if "cacheTyped kind st" "kind x" for kind st n
    using cacheTyped_step[OF that(1) StoreObjectUpdate_step[of kind]] that(2) by blast
  show "kindOf p CSnapshot x \<Longrightarrow> storeSnapshotUpdate x s = Some (r, s') \<Longrightarrow> procInv p s'"
    using assms * by (auto simp: storeSnapshotUpdate_def procInv_def case_prod_beta)
  show "kindOf p CContent x \<Longrightarrow> storeContentUpdate x s = Some (r, s') \<Longrightarrow> procInv p s'"
    using assms * by (auto simp: storeContentUpdate_def procInv_def case_prod_beta)
  show "kindOf p CGroupSnapshot x \<Longrightarrow> storeGroupSnapshotUpdate x s = Some (r, s') \<Longrightarrow> procInv p s'"
    using assms * by (auto simp: storeGroupSnapshotUpdate_def procInv_def case_prod_beta)
  show "kindOf p CGroupSnapshotContent x \<Longrightarrow> storeGroupSnapshotContentUpdate x s = Some (r, s') \<Longrightarrow> procInv p s'"
    using assms * by (auto simp: storeGroupSnapshotContentUpdate_def procInv_def case_prod_beta)
qed

lemma common_restart_inv:
  assumes run: "initializeCaches E s = Some ((), s')" and inv: "procInv CommonController s"
  shows "procInv CommonController s'"
proof -
  let ?I = "procInv CommonController"
  have vs: "?I t \<longrightarrow> ?I t'" if "storeAll storeSnapshotUpdate (map ObjVS xs) t = Some t'" for xs t t'
    by (rule impI, rule storeAll_inv[OF that], assumption) (clarsimp, erule stores_inv(1)[rotated 2], assumption, simp)
  have vsc: "?I t \<longrightarrow> ?I t'" if "storeAll storeContentUpdate (map ObjVSC xs) t = Some t'" for xs t t'
    by (rule impI, rule storeAll_inv[OF that], assumption) (clarsimp, erule stores_inv(2)[rotated 2], assumption, simp)
  have gs: "?I t \<longrightarrow> ?I t'" if "storeAll storeGroupSnapshotUpdate (map ObjVS xs) t = Some t'" for xs t t'
    by (rule impI, rule storeAll_inv[OF that], assumption) (clarsimp, erule stores_inv(3)[rotated 2], assumption, simp)
  have gc: "?I t \<longrightarrow> ?I t'" if "storeAll storeGroupSnapshotContentUpdate (map ObjVSC xs) t = Some t'" for xs t t'
    by (rule impI, rule storeAll_inv[OF that], assumption) (clarsimp, erule stores_inv(4)[rotated 2], assumption, simp)
  have grp: "?I t \<longrightarrow> ?I t'" if "initializeGroupCaches E t = Some ((), t')" for t t'
    using that
    by (auto simp: initializeGroupCaches_def call_def dest!: gs gc split: prod.splits sum.splits Option.bind_splits)
  show ?thesis using run inv
    by (auto simp: initializeCaches_def call_def dest!: vs vsc grp
        split: prod.splits sum.splits Option.bind_splits if_splits)
qed

lemma storeMatching_inv:
  assumes "storeMatching E cs s = Some s'" "procInv SidecarController s"
  shows "procInv SidecarController s'"
  using assms
proof (induction cs arbitrary: s)
  case (Cons c cs)
  obtain m s1 where m: "isDriverMatch E (ObjVSC c) s = Some (m, s1)"
    using Cons.prems(1) by (auto split: Option.bind_splits)
  have i: "procInv SidecarController s1" using isDriverMatch_frame[OF m] Cons.prems(2) by auto
  obtain r s2 where u: "storeContentUpdate (ObjVSC c) s1 = Some (r, s2)" using storeContentUpdate_total by blast
  have "procInv SidecarController s2" by (rule stores_inv(2)[OF i _ u]) simp
  then show ?case using Cons.IH Cons.prems(1) m u i by (cases m) auto
qed simp

lemma sidecar_restart_inv:
  assumes run: "initializeCaches_sidecar E s = Some ((), s')" and inv: "procInv SidecarController s"
  shows "procInv SidecarController s'"
proof -
  have gc: "procInv SidecarController t \<longrightarrow> procInv SidecarController t'"
    if "storeAll storeGroupSnapshotContentUpdate (map ObjVGSC xs) t = Some t'" for xs t t'
    by (rule impI, rule storeAll_inv[OF that], assumption) (clarsimp, erule stores_inv(4)[rotated 2], assumption, simp)
  have m: "procInv SidecarController t \<longrightarrow> procInv SidecarController t'" if "storeMatching E cs t = Some t'" for cs t t'
    using storeMatching_inv[OF that] by blast
  show ?thesis using run inv
    by (auto simp: initializeCaches_sidecar_def call_def dest!: gc m
        split: prod.splits sum.splits Option.bind_splits if_splits)
qed

lemma sidecar_turns:
  assumes "procInv SidecarController s"
  shows "processNextItem E (theHandler E) nxt s = Some (again, s') \<Longrightarrow> procInv SidecarController s'"
    "groupSnapshotContentWorker_sidecar E (theGroupHandler E) nxt s = Some ((), s') \<Longrightarrow> procInv SidecarController s'"
proof -
  have c: "ensures (syncContentByKey_sidecar E (theHandler E) key s) (\<lambda>_. procInv SidecarController)" for key
    by (rule procH.syncContentByKey_sidecar_I) (use assms in auto)
  show "processNextItem E (theHandler E) nxt s = Some (again, s') \<Longrightarrow> procInv SidecarController s'"
    using assms ensuresD[OF c]
    by (auto simp: processNextItem_def Let_def intro!: procInv_emit split: option.splits Option.bind_splits)
  have upd: "ensures (updateGroupSnapshotContentInInformerCache E (theGroupHandler E) c t) (\<lambda>_. procInv SidecarController)"
    if t: "procInv SidecarController t" for c t
  proof (rule ensuresI)
    fix r t' assume u: "updateGroupSnapshotContentInInformerCache E (theGroupHandler E) c t = Some (r, t')"
    obtain new t1 where st: "storeGroupSnapshotContentUpdate (ObjVGSC c) t = Some (new, t1)"
      using u by (auto simp: updateGroupSnapshotContentInInformerCache_def split: Option.bind_splits)
    have i: "procInv SidecarController t1" by (rule stores_inv(4)[OF t _ st]) simp
    show "procInv SidecarController t'"
    proof (cases "new = Inr True")
      case True
      then have "syncGroupSnapshotContent_sidecar E (theGroupHandler E) c t1 = Some (r, t')"
        using u st by (simp add: updateGroupSnapshotContentInInformerCache_def)
      then show ?thesis
        by (rule procG.syncGroupSnapshotContent_sidecar_I[rotated 5]) (use i in simp_all)
    qed (use u st i in \<open>simp add: updateGroupSnapshotContentInInformerCache_def\<close>)
  qed
  have del: "procInv SidecarController (deleteGroupSnapshotContentInCacheStore c t)" if "procInv SidecarController t" for c t
    using that by (auto simp: procInv_def deleteGroupSnapshotContentInCacheStore_def cacheTyped_def)
  have dm: "ensures (isDriverMatch E ob t) (\<lambda>_. procInv SidecarController)" if "procInv SidecarController t" for ob t
    using that isDriverMatch_frame by (fastforce intro: ensuresI)
  have "ensures (syncGroupSnapshotContentByKey_sidecar E (theGroupHandler E) key s) (\<lambda>_. procInv SidecarController)" for key
    using assms
    by (auto simp: syncGroupSnapshotContentByKey_sidecar_def call_def intro!: ensures_mono[OF dm] upd del
        split: sum.split prod.split option.split obj.split)
  note g = ensuresD[OF this]
  show "groupSnapshotContentWorker_sidecar E (theGroupHandler E) nxt s = Some ((), s') \<Longrightarrow> procInv SidecarController s'"
    using assms g
    by (auto simp: groupSnapshotContentWorker_sidecar_def Let_def intro!: procInv_emit split: option.splits Option.bind_splits)
qed

lemma events_inv:
  "procInv CommonController s \<Longrightarrow> procInv CommonController (enqueueSnapshotWork ob s)"
  "procInv CommonController s \<Longrightarrow> procInv CommonController (enqueueContentWork ob s)"
  "procInv CommonController s \<Longrightarrow> procInv CommonController (enqueueGroupSnapshotWork ob s)"
  "procInv CommonController s \<Longrightarrow> procInv CommonController (enqueueGroupSnapshotContentWork ob s)"
  "procInv SidecarController s \<Longrightarrow> procInv SidecarController (enqueueContentWork_sidecar ob s)"
  "procInv SidecarController s \<Longrightarrow> procInv SidecarController (onContentUpdate old new s)"
  "procInv SidecarController s \<Longrightarrow> procInv SidecarController (enqueueGroupSnapshotContentWork_sidecar ob s)"
  by (auto simp: enqueueSnapshotWork_def enqueueContentWork_def enqueueGroupSnapshotWork_def
      enqueueGroupSnapshotContentWork_def enqueueContentWork_sidecar_def onContentUpdate_def
      enqueueGroupSnapshotContentWork_sidecar_def intro!: procInv_emit split: option.split obj.split)

lemma reachable_procInv:
  assumes "reachable EC ES y"
  shows "procInv CommonController (common y) \<and> procInv SidecarController (sidecar y)"
proof (rule reachable_invariant[OF _ _ _ _ _ _ assms])
  fix s s' assume t: "commonTurn EC s s'" and i: "procInv CommonController s"
  show "procInv CommonController s'"
    using t by (cases rule: commonTurnE)
      (use i in \<open>auto intro: common_turns events_inv common_restart_inv procInv_afresh\<close>)
next
  fix s s' assume t: "sidecarTurn ES s s'" and i: "procInv SidecarController s"
  show "procInv SidecarController s'"
    using t by (cases rule: sidecarTurnE)
      (use i in \<open>auto intro: sidecar_turns events_inv sidecar_restart_inv procInv_afresh\<close>)
qed (simp_all add: procInv_initial procInv_inWorld)

section \<open>The properties\<close>

text \<open>C30: In every state the two processes can reach, whatever the API server, the driver and other clients do
  between and during the turns, every cache entry stands under the key of its object, the caches of snapshots
  and contents of the common controller hold objects of their kind only, and so does the sidecar's cache of
  group contents. The other three caches hold what the code puts there by mistake, and nothing else: the group
  caches of the common controller are filled with snapshots and contents at start, and the content cache of
  the sidecar takes group contents.\<close>

theorem caches_are_typed:
  assumes "reachable EC ES y"
  shows "cacheTyped isVS (snapshotStore (common y)) \<and> cacheTyped isVSC (contentStore (common y)) \<and>
    cacheTyped (\<lambda>x. isVGS x \<or> isVS x) (groupSnapshotStore (common y)) \<and>
    cacheTyped (\<lambda>x. isVGSC x \<or> isVSC x) (groupSnapshotContentStore (common y)) \<and>
    cacheTyped (\<lambda>x. isVSC x \<or> isVGSC x) (contentStore (sidecar y)) \<and>
    cacheTyped isVGSC (groupSnapshotContentStore (sidecar y))"
  using reachable_procInv[OF assms] by (simp add: procInv_def cacheTyped_def)

lemma demoList_restarts:
  "\<exists>s'. reachable demoListEnv nullEnv \<lparr>sys_world = (), common = s', sidecar = initialState ()\<rparr> \<and>
     groupSnapshotStore s' ''ns1/snap1'' = Some (ObjVS demoSnapshot)"
proof -
  have l: "fst (lister_ListVS demoListEnv None w) = Inr [demoSnapshot]" "fst (lister_ListVSC demoListEnv w) = Inr []" for w
    by (simp_all add: demoListEnv_def nullEnv_def)
  have k: "keyFunc (vs_meta demoSnapshot) = ''ns1/snap1''" by code_simp
  have f: "enableVolumeGroupSnapshots demoListEnv" by (simp add: demoListEnv_def)
  obtain s' where s': "initializeCaches demoListEnv (initialState ()) = Some ((), s')"
      "groupSnapshotStore s' ''ns1/snap1'' = Some (ObjVS demoSnapshot)"
    using initial_caches[OF l, where w = "()"] f by (auto simp: byKey_def k)
  let ?y = "\<lparr>sys_world = (), common = initialState (), sidecar = initialState ()\<rparr>"
  have "afresh () (inWorld () (initialState ())) = initialState ()"
    by (simp add: afresh_def inWorld_def initialState_def)
  then have "commonTurn demoListEnv (inWorld () (initialState ())) s'"
    by (intro common_restart) (simp add: s'(1) inWorld_def)
  then have "systemStep demoListEnv nullEnv ?y (?y\<lparr>sys_world := world s', common := s'\<rparr>)"
    by (intro common_step) simp
  then have "reachable demoListEnv nullEnv (?y\<lparr>sys_world := world s', common := s'\<rparr>)"
    by (rule reachable.step[OF reachable.start])
  then show ?thesis using s'(2) by auto
qed

theorem caches_are_typed_witness:
  "\<exists>y. reachable demoListEnv nullEnv y \<and> cacheTyped isVSC (contentStore (common y)) \<and>
     groupSnapshotStore (common y) ''ns1/snap1'' = Some (ObjVS demoSnapshot)"
proof -
  obtain y where "reachable demoListEnv nullEnv y" "groupSnapshotStore (common y) ''ns1/snap1'' = Some (ObjVS demoSnapshot)"
    using demoList_restarts by (metis system.select_convs(2))
  then show ?thesis using caches_are_typed[of demoListEnv nullEnv y] by auto
qed

text \<open>C29: In every reachable state the work of the two processes is divided as the design has it. The common
  controller never calls a driver and never replaces the status of a content or group content (it patches the
  contents of group members). The sidecar never creates, updates or deletes an API object and never touches a
  snapshot, a group snapshot or a claim: beyond driver calls, events and its own two queues it only patches
  contents and group contents and updates their status.\<close>

theorem division_of_labour:
  assumes "reachable EC ES y"
  shows "list_all commonAction (log (common y)) \<and> list_all sidecarAction (log (sidecar y))"
  using reachable_procInv[OF assms] by (simp add: procInv_def may.simps list_all_iff)

theorem division_of_labour_witness:
  "\<exists>y. reachable nullEnv nullEnv y \<and> log (sidecar y) \<noteq> [] \<and> list_all sidecarAction (log (sidecar y))"
proof -
  let ?y = "\<lparr>sys_world = (), common = initialState (), sidecar = initialState ()\<rparr>"
  let ?s = "enqueueContentWork_sidecar (InformerObj (ObjVSC demoUncut)) (inWorld () (initialState ()))"
  have "systemStep nullEnv nullEnv ?y (?y\<lparr>sys_world := world ?s, sidecar := ?s\<rparr>)"
    by (rule sidecar_step) (simp add: sidecar_event)
  then have r: "reachable nullEnv nullEnv (?y\<lparr>sys_world := world ?s, sidecar := ?s\<rparr>)"
    by (rule reachable.step[OF reachable.start])
  have "log ?s = [QueueAdd QContent (keyFunc (vsc_meta demoUncut))]"
    by (simp add: enqueueContentWork_sidecar_def emit_def initialState_def inWorld_def)
  then have "\<exists>y. reachable nullEnv nullEnv y \<and> log (sidecar y) \<noteq> []"
    using r by (metis list.distinct(1) system.select_convs(3) system.update_convs(1) system.update_convs(3))
  then obtain y where "reachable nullEnv nullEnv y" "log (sidecar y) \<noteq> []" by blast
  then show ?thesis using division_of_labour[of nullEnv nullEnv y] by blast
qed

end
