(* ===== verification/Caches.thy ===== *)
theory Caches
  imports Runtime "HOL-Library.Multiset"
begin

text \<open>
  The abstract view of a cache: for every key the newest resource version seen. Storing a listing or a
  sequence of events with readable versions refines taking the maximum under each key, so what is left
  does not depend on the order in which the informers and the API responses arrived.
\<close>

section \<open>The abstract cache\<close>

definition latestVersions :: "store \<Rightarrow> string \<rightharpoonup> int" where
  "latestVersions st = (\<lambda>k. Option.bind (st k) objVersion)"

definition noteVersion :: "obj \<Rightarrow> (string \<rightharpoonup> int) \<Rightarrow> (string \<rightharpoonup> int)" where
  "noteVersion x m =
    (case objVersion x of
       None \<Rightarrow> m
     | Some v \<Rightarrow> m(keyFunc (objMeta x) \<mapsto> (case m (keyFunc (objMeta x)) of None \<Rightarrow> v | Some u \<Rightarrow> max u v)))"

definition readable :: "store \<Rightarrow> bool" where
  "readable st \<longleftrightarrow> (\<forall>k x. st k = Some x \<longrightarrow> objVersion x \<noteq> None)"

lemma noteVersion_commute: "noteVersion x (noteVersion y m) = noteVersion y (noteVersion x m)"
  by (auto simp: noteVersion_def fun_eq_iff max.left_commute max.commute split: option.split)

lemma fold_noteVersion_perm: "mset xs = mset ys \<Longrightarrow> fold noteVersion xs m = fold noteVersion ys m"
  by (rule fun_cong[OF fold_multiset_equiv]) (auto simp: noteVersion_commute)

text \<open>One update refines noting the version of the object.\<close>

lemma StoreObjectUpdate_refines:
  assumes "readable st" "objVersion x \<noteq> None"
  shows "latestVersions (snd (StoreObjectUpdate st x cn)) = noteVersion x (latestVersions st)"
    and "readable (snd (StoreObjectUpdate st x cn))"
proof -
  let ?k = "keyFunc (objMeta x)"
  obtain v where v: "objVersion x = Some v" using assms(2) by auto
  show "latestVersions (snd (StoreObjectUpdate st x cn)) = noteVersion x (latestVersions st)"
  proof (cases "st ?k")
    case None
    then show ?thesis using v
      by (auto simp: StoreObjectUpdate_def latestVersions_def noteVersion_def fun_eq_iff)
  next
    case (Some old)
    then obtain u where u: "objVersion old = Some u" using assms(1) by (auto simp: readable_def)
    show ?thesis using Some u v
      by (auto simp: StoreObjectUpdate_def latestVersions_def noteVersion_def fun_eq_iff objVersion_def max_def
          split: sum.splits)
  qed
  show "readable (snd (StoreObjectUpdate st x cn))"
    using assms by (auto simp: StoreObjectUpdate_def readable_def Let_def split: option.split sum.split)
qed

lemma updates_refine:
  assumes "readable st" "\<forall>x\<in>set xs. objVersion x \<noteq> None"
  shows "latestVersions (fold (\<lambda>x st. snd (StoreObjectUpdate st x cn)) xs st) = fold noteVersion xs (latestVersions st)"
  using assms by (induction xs arbitrary: st) (simp_all add: StoreObjectUpdate_refines)

text \<open>The newest version under a key, read off the objects themselves.\<close>

definition seen :: "obj list \<Rightarrow> (string \<rightharpoonup> int) \<Rightarrow> string \<Rightarrow> int \<Rightarrow> bool" where
  "seen xs m k v \<longleftrightarrow> m k = Some v \<or> (\<exists>x\<in>set xs. keyFunc (objMeta x) = k \<and> objVersion x = Some v)"

lemma seen_Cons:
  "seen (x # xs) m k v \<longleftrightarrow>
   (seen xs (noteVersion x m) k v \<or> (keyFunc (objMeta x) = k \<and> objVersion x = Some v) \<or> m k = Some v)"
  by (auto simp: seen_def noteVersion_def max_def split: option.splits if_splits)

lemma noteVersion_covers:
  "m k = Some u \<or> (keyFunc (objMeta x) = k \<and> objVersion x = Some u) \<Longrightarrow>
   \<exists>v. noteVersion x m k = Some v \<and> u \<le> v"
  by (auto simp: noteVersion_def split: option.split)

lemma fold_noteVersion_newest:
  "case fold noteVersion xs m k of
     None \<Rightarrow> (\<forall>v. \<not> seen xs m k v)
   | Some v \<Rightarrow> seen xs m k v \<and> (\<forall>u. seen xs m k u \<longrightarrow> u \<le> v)"
proof (induction xs arbitrary: m)
  case Nil
  show ?case by (auto simp: seen_def split: option.split)
next
  case (Cons x xs)
  have up: "\<exists>v. seen xs (noteVersion x m) k v \<and> u \<le> v" if "seen (x # xs) m k u" for u
    using that noteVersion_covers[of m k u x] unfolding seen_Cons by (auto simp: seen_def)
  show ?case
  proof (cases "fold noteVersion xs (noteVersion x m) k")
    case None
    then show ?thesis using Cons.IH[of "noteVersion x m"] up by auto
  next
    case (Some v)
    then have v: "seen xs (noteVersion x m) k v" "\<forall>u. seen xs (noteVersion x m) k u \<longrightarrow> u \<le> v"
      using Cons.IH[of "noteVersion x m"] by simp_all
    have "u \<le> v" if "seen (x # xs) m k u" for u using up[OF that] v(2) by (meson order_trans)
    then show ?thesis using Some v(1) by (simp add: seen_Cons)
  qed
qed

lemma storeContents_run:
  "storeAll storeContentUpdate xs s =
   Some (s\<lparr>contentStore := fold (\<lambda>x st. snd (StoreObjectUpdate st x ''content'')) xs (contentStore s)\<rparr>)"
  by (induction xs arbitrary: s) (simp_all add: storeContentUpdate_def case_prod_beta)

text \<open>C32: The content cache refines the map from keys to the newest resource version seen. Storing a sequence
  of objects whose versions can be read computes, under every key, the maximum of the version that was there
  and of those in the sequence, exactly as taking note of the versions one by one does; so the version left
  under a key is one that was seen, no seen one is newer, and any other order of arrival of the same objects
  leaves the same versions.\<close>

theorem cache_refines_newest_version:
  assumes run: "storeAll storeContentUpdate xs s = Some s'"
    and readable: "readable (contentStore s)" "\<forall>x\<in>set xs. objVersion x \<noteq> None"
  shows "latestVersions (contentStore s') = fold noteVersion xs (latestVersions (contentStore s)) \<and>
    (\<forall>k. case latestVersions (contentStore s') k of
       None \<Rightarrow> (\<forall>v. \<not> seen xs (latestVersions (contentStore s)) k v)
     | Some v \<Rightarrow> seen xs (latestVersions (contentStore s)) k v \<and>
         (\<forall>u. seen xs (latestVersions (contentStore s)) k u \<longrightarrow> u \<le> v)) \<and>
    (\<forall>ys s''. mset ys = mset xs \<longrightarrow> storeAll storeContentUpdate ys s = Some s'' \<longrightarrow>
       latestVersions (contentStore s'') = latestVersions (contentStore s'))"
proof -
  let ?m = "latestVersions (contentStore s)"
  have r: "latestVersions (contentStore t) = fold noteVersion ys ?m"
    if "storeAll storeContentUpdate ys s = Some t" "mset ys = mset xs" for ys t
    using updates_refine[OF readable(1), of ys] readable(2) mset_eq_setD[OF that(2)] that(1)
    by (auto simp: storeContents_run)
  have 1: "latestVersions (contentStore s') = fold noteVersion xs ?m" by (rule r[OF run refl])
  show ?thesis
  proof (intro conjI allI impI)
    fix ys s'' assume ys: "mset ys = mset xs" "storeAll storeContentUpdate ys s = Some s''"
    show "latestVersions (contentStore s'') = latestVersions (contentStore s')"
      unfolding r[OF ys(2,1)] 1 by (rule fold_noteVersion_perm[OF ys(1)])
  qed (use 1 fold_noteVersion_newest[of xs ?m] in simp_all)
qed

theorem cache_refines_newest_version_witness:
  "\<exists>s'. storeAll storeContentUpdate [ObjVS demoSnapshot, ObjVS demoOlder] (initialState ()) = Some s' \<and>
     latestVersions (contentStore s') ''ns1/snap1'' = Some 7"
proof -
  let ?xs = "[ObjVS demoSnapshot, ObjVS demoOlder]" and ?s = "initialState ()"
  obtain s' where run: "storeAll storeContentUpdate ?xs ?s = Some s'" using storeContents_run by blast
  have v: "objVersion (ObjVS demoSnapshot) = Some 7" "objVersion (ObjVS demoOlder) = Some 3"
    "keyFunc (vs_meta demoSnapshot) = ''ns1/snap1''" "keyFunc (vs_meta demoOlder) = ''ns1/snap1''" by code_simp+
  have 1: "latestVersions (contentStore s') = fold noteVersion ?xs (latestVersions (contentStore ?s))"
    using cache_refines_newest_version[OF run] v by (simp add: readable_def initialState_def)
  have "fold noteVersion ?xs (latestVersions (contentStore ?s)) ''ns1/snap1'' = Some 7"
    by (simp add: v noteVersion_def latestVersions_def initialState_def)
  then have "latestVersions (contentStore s') ''ns1/snap1'' = Some 7" by (simp only: 1)
  then show ?thesis using run by blast
qed

end
