(* ===== verification/Json.thy ===== *)
theory Json
  imports Prelude
begin

text \<open>
  JSON as the webhook uses it: the values of \<open>any\<close>, \<open>encoding/json.Marshal\<close> and \<open>Unmarshal\<close> of Go's
  standard library, and the unmarshalling of the API machinery, which differs only in that it keeps
  integers. A Go string is its bytes. Numbers of \<open>encoding/json\<close> are float64: what it reads is rounded to 53
  bits, which the model does with integers.

  The recursive calls of the parser are guarded by a comparison of lengths, which always holds: it only
  shows that the parser returns.
\<close>

section \<open>Values\<close>

text \<open>The finite float64 \<open>(-1)^neg * m * 2^e\<close>, with \<open>m < 2^53\<close>.\<close>

datatype double = Double bool nat int

datatype json =
    JNull
  | JBool bool
  | JInt int
  | JFloat double
  | JString string
  | JArray "json list"
  | JObject "(string, json) fmap"

section \<open>Decimal to binary\<close>

fun natBits :: "nat \<Rightarrow> nat" where
  "natBits n = (if n = 0 then 0 else Suc (natBits (n div 2)))"

declare natBits.simps [simp del]

text \<open>A quotient rounded to the nearest number, half to even.\<close>

definition roundQuotient :: "nat \<Rightarrow> nat \<Rightarrow> nat" where
  "roundQuotient n d =
    (let q = n div d; r = n mod d in if 2 * r > d \<or> (2 * r = d \<and> odd q) then q + 1 else q)"

definition scaleNum :: "nat \<Rightarrow> int \<Rightarrow> nat" where
  "scaleNum n e = (if e \<ge> 0 then n else n * 2 ^ nat (- e))"

definition scaleDen :: "nat \<Rightarrow> int \<Rightarrow> nat" where
  "scaleDen d e = (if e \<ge> 0 then d * 2 ^ nat e else d)"

text \<open>\<open>n / d\<close> as a float64; out of range is \<open>None\<close>.\<close>

definition toDouble :: "bool \<Rightarrow> nat \<Rightarrow> nat \<Rightarrow> double option" where
  "toDouble neg n d =
    (if n = 0 then Some (Double neg 0 (- 1074))
     else let e1 = int (natBits n) - int (natBits d) - 53;
              e2 = (if scaleNum n e1 div scaleDen d e1 \<ge> 2 ^ 53 then e1 + 1 else e1);
              e3 = max e2 (- 1074);
              m3 = roundQuotient (scaleNum n e3) (scaleDen d e3);
              (m, e) = (if m3 = 2 ^ 53 then (2 ^ 52, e3 + 1) else (m3, e3))
          in if e > 971 then None else Some (Double neg m e))"

text \<open>The value of a float64, when it is an integer.\<close>

fun doubleInt :: "double \<Rightarrow> int option" where
  "doubleInt (Double neg m e) =
    (let v = (if e \<ge> 0 then Some (int m * 2 ^ nat e)
              else if int m mod 2 ^ nat (- e) = 0 then Some (int m div 2 ^ nat (- e)) else None)
     in map_option (\<lambda>v. if neg then - v else v) v)"

section \<open>Numbers\<close>

definition chCode :: "char \<Rightarrow> nat" where
  "chCode c = of_char c"

definition isNum :: "char \<Rightarrow> bool" where
  "isNum c \<longleftrightarrow> 48 \<le> chCode c \<and> chCode c \<le> 57"

definition digitsNat :: "string \<Rightarrow> nat" where
  "digitsNat ds = foldl (\<lambda>a c. 10 * a + (chCode c - 48)) 0 ds"

record number =
  num_neg :: bool
  num_int :: string
  num_frac :: "string option"
  num_exp :: "int option"

definition parseFraction :: "string \<Rightarrow> (string option \<times> string) option" where
  "parseFraction s =
    (case s of
       c # r \<Rightarrow> if c = CHR ''.'' then
                 if takeWhile isNum r = [] then None else Some (Some (takeWhile isNum r), dropWhile isNum r)
               else Some (None, s)
     | [] \<Rightarrow> Some (None, s))"

definition parseExponent :: "string \<Rightarrow> (int option \<times> string) option" where
  "parseExponent s =
    (case s of
       c # r \<Rightarrow>
         if c = CHR ''e'' \<or> c = CHR ''E'' then
           let (neg, r) = (case r of
                 x # r' \<Rightarrow> if x = CHR ''-'' then (True, r') else if x = CHR ''+'' then (False, r') else (False, r)
               | [] \<Rightarrow> (False, r));
               ds = takeWhile isNum r in
           if ds = [] then None
           else Some (Some (if neg then - int (digitsNat ds) else int (digitsNat ds)), dropWhile isNum r)
         else Some (None, s)
     | [] \<Rightarrow> Some (None, s))"

definition parseNumber :: "string \<Rightarrow> (number \<times> string) option" where
  "parseNumber s =
    (let (neg, s) = (case s of x # r \<Rightarrow> if x = CHR ''-'' then (True, r) else (False, s) | [] \<Rightarrow> (False, s));
         ds = takeWhile isNum s in
     if ds = [] \<or> (hd ds = CHR ''0'' \<and> length ds > 1) then None
     else do { (frac, s) \<leftarrow> parseFraction (dropWhile isNum s);
               (ex, s) \<leftarrow> parseExponent s;
               Some (\<lparr>num_neg = neg, num_int = ds, num_frac = frac, num_exp = ex\<rparr>, s) })"

definition numberDouble :: "number \<Rightarrow> double option" where
  "numberDouble x =
    (let frac = (case num_frac x of None \<Rightarrow> [] | Some fs \<Rightarrow> fs);
         n = digitsNat (num_int x @ frac);
         ex = (case num_exp x of None \<Rightarrow> 0 | Some k \<Rightarrow> k) - int (length frac) in
     if ex \<ge> 0 then toDouble (num_neg x) (n * 10 ^ nat ex) 1 else toDouble (num_neg x) n (10 ^ nat (- ex)))"

text \<open>How \<open>encoding/json\<close> reads a number, and how the API machinery does.\<close>

definition floatNumber :: "number \<Rightarrow> json option" where
  "floatNumber x = map_option JFloat (numberDouble x)"

definition intNumber :: "number \<Rightarrow> json option" where
  "intNumber x =
    (let v = (if num_neg x then - int (digitsNat (num_int x)) else int (digitsNat (num_int x))) in
     if num_frac x = None \<and> num_exp x = None \<and> - (2 ^ 63) \<le> v \<and> v < 2 ^ 63 then Some (JInt v)
     else floatNumber x)"

section \<open>Strings\<close>

definition utf8Tail :: "char \<Rightarrow> bool" where
  "utf8Tail c \<longleftrightarrow> 128 \<le> chCode c \<and> chCode c \<le> 191"

text \<open>The encodings of two, three and four bytes; overlong ones and surrogates are invalid.\<close>

definition utf8Two :: "char \<Rightarrow> char \<Rightarrow> bool" where
  "utf8Two a b \<longleftrightarrow> 194 \<le> chCode a \<and> chCode a \<le> 223 \<and> utf8Tail b"

definition utf8Three :: "char \<Rightarrow> char \<Rightarrow> char \<Rightarrow> bool" where
  "utf8Three a b c \<longleftrightarrow> utf8Tail b \<and> utf8Tail c \<and>
     ((chCode a = 224 \<and> 160 \<le> chCode b) \<or> (225 \<le> chCode a \<and> chCode a \<le> 239 \<and> chCode a \<noteq> 237) \<or>
      (chCode a = 237 \<and> chCode b \<le> 159))"

definition utf8Four :: "char \<Rightarrow> char \<Rightarrow> char \<Rightarrow> char \<Rightarrow> bool" where
  "utf8Four a b c d \<longleftrightarrow> utf8Tail b \<and> utf8Tail c \<and> utf8Tail d \<and>
     ((chCode a = 240 \<and> 144 \<le> chCode b) \<or> (241 \<le> chCode a \<and> chCode a \<le> 243) \<or>
      (chCode a = 244 \<and> chCode b \<le> 143))"

text \<open>The length of the UTF-8 encoded rune a string begins with; 0 for an invalid one.\<close>

fun utf8Size :: "string \<Rightarrow> nat" where
  "utf8Size [] = 0"
| "utf8Size (a # s) =
    (if chCode a < 128 then 1
     else case s of
       [] \<Rightarrow> 0
     | b # s \<Rightarrow>
        if utf8Two a b then 2
        else (case s of
          [] \<Rightarrow> 0
        | c # s \<Rightarrow>
           if utf8Three a b c then 3
           else (case s of [] \<Rightarrow> 0 | d # s \<Rightarrow> if utf8Four a b c d then 4 else 0)))"

declare utf8Size.simps [simp del]

definition byte :: "nat \<Rightarrow> char" where
  "byte n = char_of n"

definition encodeRune :: "nat \<Rightarrow> string" where
  "encodeRune r =
    (if r < 128 then [byte r]
     else if r < 2048 then [byte (192 + r div 64), byte (128 + r mod 64)]
     else if r < 65536 then [byte (224 + r div 4096), byte (128 + r div 64 mod 64), byte (128 + r mod 64)]
     else [byte (240 + r div 262144), byte (128 + r div 4096 mod 64), byte (128 + r div 64 mod 64),
           byte (128 + r mod 64)])"

definition runeError :: string where
  "runeError = encodeRune 65533"

text \<open>Quotes, backslashes, control characters and the characters of HTML are escaped.\<close>

definition escapeAscii :: "char \<Rightarrow> string" where
  "escapeAscii c =
    (let n = chCode c in
     if n = 34 \<or> n = 92 then [CHR 0x5C, c]
     else if n = 8 then [CHR 0x5C, CHR ''b'']
     else if n = 9 then [CHR 0x5C, CHR ''t'']
     else if n = 10 then [CHR 0x5C, CHR ''n'']
     else if n = 12 then [CHR 0x5C, CHR ''f'']
     else if n = 13 then [CHR 0x5C, CHR ''r'']
     else if n < 32 \<or> n = 60 \<or> n = 62 \<or> n = 38 then [CHR 0x5C, CHR ''u'', CHR ''0'', CHR ''0'', hexDigit (n div 16), hexDigit n]
     else [c])"

text \<open>The runes U+2028 and U+2029, in UTF-8.\<close>

definition lineSeparator :: string where
  "lineSeparator = [byte 226, byte 128, byte 168]"

definition paragraphSeparator :: string where
  "paragraphSeparator = [byte 226, byte 128, byte 169]"

function (sequential) escapeString :: "string \<Rightarrow> string" where
  "escapeString [] = []"
| "escapeString (c # s) =
    (if chCode c < 128 then escapeAscii c @ escapeString s
     else case utf8Size (c # s) of
       0 \<Rightarrow> CHR 0x5C # ''ufffd'' @ escapeString s
     | Suc n \<Rightarrow>
        (let r = take (Suc n) (c # s) in
         if r = lineSeparator then CHR 0x5C # ''u2028'' else if r = paragraphSeparator then CHR 0x5C # ''u2029'' else r)
        @ escapeString (drop n s))"
  by pat_completeness auto
termination by (relation "measure length") auto

definition marshalString :: "string \<Rightarrow> string" where
  "marshalString s = CHR 0x22 # escapeString s @ [CHR 0x22]"

definition simpleEscape :: "char \<Rightarrow> char option" where
  "simpleEscape c =
    (if c = CHR 0x22 \<or> c = CHR 0x5C \<or> c = CHR ''/'' then Some c
     else if c = CHR ''b'' then Some (byte 8)
     else if c = CHR ''f'' then Some (byte 12)
     else if c = CHR ''n'' then Some (byte 10)
     else if c = CHR ''r'' then Some (byte 13)
     else if c = CHR ''t'' then Some (byte 9)
     else None)"

definition hexVal :: "char \<Rightarrow> nat option" where
  "hexVal c =
    (let n = chCode c in
     if 48 \<le> n \<and> n \<le> 57 then Some (n - 48)
     else if 97 \<le> n \<and> n \<le> 102 then Some (n - 87)
     else if 65 \<le> n \<and> n \<le> 70 then Some (n - 55)
     else None)"

fun hex4 :: "string \<Rightarrow> (nat \<times> string) option" where
  "hex4 (a # b # c # d # s) =
    do { a \<leftarrow> hexVal a; b \<leftarrow> hexVal b; c \<leftarrow> hexVal c; d \<leftarrow> hexVal d;
         Some (4096 * a + 256 * b + 16 * c + d, s) }"
| "hex4 s = None"

text \<open>What follows the \<open>\u\<close> of an escape: a rune, for a surrogate with its other half, or U+FFFD without it.\<close>

definition unicodeEscape :: "string \<Rightarrow> (string \<times> string) option" where
  "unicodeEscape s =
    do { (r, s) \<leftarrow> hex4 s;
         if r < 55296 \<or> r > 57343 then Some (encodeRune r, s)
         else (case s of
           x # y # s' \<Rightarrow>
             (if x = CHR 0x5C \<and> y = CHR ''u'' \<and> r < 56320 then
                (case hex4 s' of
                   Some (r2, s'') \<Rightarrow>
                     if 56320 \<le> r2 \<and> r2 \<le> 57343
                     then Some (encodeRune (65536 + (r - 55296) * 1024 + (r2 - 56320)), s'')
                     else Some (runeError, s)
                 | None \<Rightarrow> Some (runeError, s))
              else Some (runeError, s))
         | _ \<Rightarrow> Some (runeError, s)) }"

lemma hex4_length: "hex4 s = Some (n, r) \<Longrightarrow> length r < length s"
  by (induction s rule: hex4.induct) (auto split: Option.bind_splits)

lemma unicodeEscape_length: "unicodeEscape s = Some (x, r) \<Longrightarrow> length r < length s"
  by (auto simp: unicodeEscape_def split: Option.bind_splits if_splits list.splits option.splits dest!: hex4_length)

text \<open>The rest of a string after its opening quote: its value and what follows the closing quote.\<close>

function (sequential) unquote :: "string \<Rightarrow> (string \<times> string) option" where
  "unquote [] = None"
| "unquote (c # s) =
    (if c = CHR 0x22 then Some ([], s)
     else if c = CHR 0x5C then
       (case s of
          [] \<Rightarrow> None
        | e # r \<Rightarrow>
          (case simpleEscape e of
             Some x \<Rightarrow> do { (t, r) \<leftarrow> unquote r; Some (x # t, r) }
           | None \<Rightarrow>
              if e = CHR ''u'' then
                (case unicodeEscape r of
                   None \<Rightarrow> None
                 | Some (x, r) \<Rightarrow> do { (t, r) \<leftarrow> unquote r; Some (x @ t, r) })
              else None))
     else if chCode c < 32 then None
     else case utf8Size (c # s) of
       0 \<Rightarrow> do { (t, r) \<leftarrow> unquote s; Some (runeError @ t, r) }
     | Suc n \<Rightarrow> do { (t, r) \<leftarrow> unquote (drop n s); Some (take (Suc n) (c # s) @ t, r) })"
  by pat_completeness auto
termination
  by (relation "measure length") (auto dest!: unicodeEscape_length)

declare escapeString.simps [simp del] unquote.simps [simp del]

text \<open>The branches of the reader of strings.\<close>

lemma unquote_cases:
  assumes "unquote (c # s) = Some (t, r)"
  obtains (quote) "c = CHR 0x22" "t = []" "r = s"
  | (simple) e x s' t' where "c = CHR 0x5C" "s = e # s'" "simpleEscape e = Some x" "unquote s' = Some (t', r)" "t = x # t'"
  | (unicode) s' x s'' t' where "c = CHR 0x5C" "s = CHR ''u'' # s'" "unicodeEscape s' = Some (x, s'')"
      "unquote s'' = Some (t', r)" "t = x @ t'"
  | (wrong) t' where "unquote s = Some (t', r)" "t = runeError @ t'"
  | (plain) n t' where "unquote (drop n s) = Some (t', r)" "utf8Size (c # s) = Suc n" "t = take (Suc n) (c # s) @ t'"
proof (cases "c = CHR 0x22 \<or> c = CHR 0x5C")
  case True
  then show thesis using assms that(1-3)
    by (fastforce simp: unquote.simps split: if_splits list.splits option.splits Option.bind_splits)
next
  case False
  then have u: "\<not> chCode c < 32" using assms by (auto simp: unquote.simps)
  show thesis
  proof (cases "utf8Size (c # s)")
    case 0
    then have "\<exists>t'. unquote s = Some (t', r) \<and> t = runeError @ t'"
      using assms False u by (auto simp: unquote.simps split: Option.bind_splits)
    then show thesis using that(4) by blast
  next
    case (Suc n)
    then have "\<exists>t'. unquote (drop n s) = Some (t', r) \<and> t = take (Suc n) (c # s) @ t'"
      using assms False u by (auto simp: unquote.simps split: Option.bind_splits)
    then show thesis using that(5) Suc by blast
  qed
qed

lemma unquote_length: "unquote s = Some (t, r) \<Longrightarrow> length r < length s"
proof (induction "length s" arbitrary: s t r rule: less_induct)
  case less
  show ?case
  proof (cases s)
    case Nil
    then show ?thesis using less.prems by (simp add: unquote.simps)
  next
    case (Cons c s1)
    have ih: "unquote s2 = Some (t2, r) \<Longrightarrow> length s2 \<le> length s1 \<Longrightarrow> length r \<le> length s1" for s2 t2
      using less.hyps[of s2 t2 r] Cons by simp
    from less.prems Cons have "unquote (c # s1) = Some (t, r)" by simp
    then have "length r \<le> length s1"
    proof (cases rule: unquote_cases)
      case (unicode s' x s'' t')
      then show ?thesis using ih[of s'' t'] unicodeEscape_length[of s' x s''] by simp
    qed (use ih in force)+
    then show ?thesis using Cons by simp
  qed
qed

section \<open>The parser\<close>

definition isWs :: "char \<Rightarrow> bool" where
  "isWs c \<longleftrightarrow> c = CHR '' '' \<or> chCode c = 9 \<or> chCode c = 10 \<or> chCode c = 13"

definition skipWs :: "string \<Rightarrow> string" where
  "skipWs s = dropWhile isWs s"

lemma skipWs_length: "length (skipWs s) \<le> length s"
  by (simp add: skipWs_def length_dropWhile_le)

lemma skipWs_shorter: "skipWs s = c # r \<Longrightarrow> length r < length s"
  using skipWs_length[of s] by simp

definition parseScalar :: "(number \<Rightarrow> json option) \<Rightarrow> string \<Rightarrow> (json \<times> string) option" where
  "parseScalar num s =
    (if take 4 s = ''null'' then Some (JNull, drop 4 s)
     else if take 4 s = ''true'' then Some (JBool True, drop 4 s)
     else if take 5 s = ''false'' then Some (JBool False, drop 5 s)
     else do { (x, r) \<leftarrow> parseNumber s; v \<leftarrow> num x; Some (v, r) })"

text \<open>The depth bounds the nesting of arrays and objects; of a repeated key the last value counts.\<close>

function (sequential) parseValue :: "(number \<Rightarrow> json option) \<Rightarrow> nat \<Rightarrow> string \<Rightarrow> (json \<times> string) option"
  and parseElements :: "(number \<Rightarrow> json option) \<Rightarrow> nat \<Rightarrow> json list \<Rightarrow> string \<Rightarrow> (json \<times> string) option"
  and parseMembers :: "(number \<Rightarrow> json option) \<Rightarrow> nat \<Rightarrow> (string, json) fmap \<Rightarrow> string \<Rightarrow> (json \<times> string) option" where
  "parseValue num depth s =
    (case skipWs s of
       [] \<Rightarrow> None
     | c # r \<Rightarrow>
        if c = CHR ''['' then
          (case depth of
             0 \<Rightarrow> None
           | Suc d \<Rightarrow>
              (case skipWs r of
                 x # r' \<Rightarrow> if x = CHR '']'' then Some (JArray [], r') else parseElements num d [] r
               | [] \<Rightarrow> None))
        else if c = CHR ''{'' then
          (case depth of
             0 \<Rightarrow> None
           | Suc d \<Rightarrow>
              (case skipWs r of
                 x # r' \<Rightarrow> if x = CHR ''}'' then Some (JObject fmempty, r') else parseMembers num d fmempty r
               | [] \<Rightarrow> None))
        else if c = CHR 0x22 then do { (t, r) \<leftarrow> unquote r; Some (JString t, r) }
        else parseScalar num (c # r))"
| "parseElements num d acc s =
    (case parseValue num d s of
       None \<Rightarrow> None
     | Some (v, r) \<Rightarrow>
        (case skipWs r of
           [] \<Rightarrow> None
         | c # r' \<Rightarrow>
            if c = CHR '']'' then Some (JArray (acc @ [v]), r')
            else if c = CHR '','' \<and> length r' < length s then parseElements num d (acc @ [v]) r'
            else None))"
| "parseMembers num d acc s =
    (case skipWs s of
       [] \<Rightarrow> None
     | q # r \<Rightarrow>
        if q \<noteq> CHR 0x22 then None
        else (case unquote r of
           None \<Rightarrow> None
         | Some (k, r1) \<Rightarrow>
            (case skipWs r1 of
               [] \<Rightarrow> None
             | x # r2 \<Rightarrow>
                if x \<noteq> CHR '':'' then None
                else (case parseValue num d r2 of
                   None \<Rightarrow> None
                 | Some (v, r3) \<Rightarrow>
                    (case skipWs r3 of
                       [] \<Rightarrow> None
                     | c # r4 \<Rightarrow>
                        if c = CHR ''}'' then Some (JObject (fmupd k v acc), r4)
                        else if c = CHR '','' \<and> length r4 < length s then parseMembers num d (fmupd k v acc) r4
                        else None)))))"
  by pat_completeness auto
termination
  by (relation "measure (\<lambda>x. case x of Inl (_, _, s) \<Rightarrow> 2 * length s
        | Inr (Inl (_, _, _, s)) \<Rightarrow> 2 * length s + 1 | Inr (Inr (_, _, _, s)) \<Rightarrow> 2 * length s + 1)")
    (auto dest!: skipWs_shorter unquote_length)

declare parseValue.simps [simp del] parseElements.simps [simp del] parseMembers.simps [simp del]

text \<open>A whole document; the standard library allows a nesting of 10000.\<close>

definition unmarshalWith :: "(number \<Rightarrow> json option) \<Rightarrow> string \<Rightarrow> json option" where
  "unmarshalWith num s =
    do { (v, r) \<leftarrow> parseValue num 10000 s; if skipWs r = [] then Some v else None }"

definition json_Unmarshal :: "string \<Rightarrow> json option" where
  "json_Unmarshal = unmarshalWith floatNumber"

definition utiljson_Unmarshal :: "string \<Rightarrow> json option" where
  "utiljson_Unmarshal = unmarshalWith intNumber"

section \<open>The printer\<close>

definition intText :: "int \<Rightarrow> string" where
  "intText n = (if n < 0 then CHR ''-'' # natText (nat (- n)) else natText (nat n))"

text \<open>
  The shortest decimal that reads back as a float64: \<open>p / q\<close> is its value, \<open>dp\<close> the position of the
  decimal point; \<open>k\<close> digits are tried one after the other, rounded down and up.
\<close>

definition readsBack :: "nat \<Rightarrow> int \<Rightarrow> double \<Rightarrow> bool" where
  "readsBack digits ex x =
    ((if ex \<ge> 0 then toDouble False (digits * 10 ^ nat ex) 1 else toDouble False digits (10 ^ nat (- ex))) = Some x)"

fun shortest :: "nat \<Rightarrow> nat \<Rightarrow> nat \<Rightarrow> nat \<Rightarrow> int \<Rightarrow> double \<Rightarrow> nat \<times> int" where
  "shortest 0 k p q dp x = (p, 0)"
| "shortest (Suc tries) k p q dp x =
    (let ex = dp - int k;
         n = (if ex \<ge> 0 then p else p * 10 ^ nat (- ex));
         d = (if ex \<ge> 0 then q * 10 ^ nat ex else q);
         lo = n div d; hi = lo + 1 in
     if readsBack lo ex x \<and> (readsBack hi ex x \<longrightarrow> 2 * (n mod d) \<le> d) then (lo, ex)
     else if readsBack hi ex x then (hi, ex)
     else shortest tries (Suc k) p q dp x)"

fun decimalPoint :: "nat \<Rightarrow> nat \<Rightarrow> nat \<Rightarrow> int \<Rightarrow> int" where
  "decimalPoint 0 p q dp = dp"
| "decimalPoint (Suc tries) p q dp =
    (let over = (if dp \<ge> 0 then p \<ge> q * 10 ^ nat dp else p * 10 ^ nat (- dp) \<ge> q) in
     if over then decimalPoint tries p q (dp + 1) else dp)"

text \<open>The digits of a positive float64 and the place of its decimal point.\<close>

definition floatDigits :: "nat \<Rightarrow> int \<Rightarrow> string \<times> int" where
  "floatDigits m e =
    (let p = scaleNum m (- e); q = scaleDen 1 (- e);
         (n, ex) = shortest 17 1 p q (decimalPoint 700 p q (- 330)) (Double False m e)
     in (rev (dropWhile (\<lambda>c. c = CHR ''0'') (rev (natText n))), ex + int (length (natText n))))"

definition exponentText :: "int \<Rightarrow> string" where
  "exponentText k = (if k < 0 then CHR ''-'' # natText (nat (- k)) else CHR ''+'' # natText (nat k))"

definition scientificText :: "string \<Rightarrow> string \<Rightarrow> string" where
  "scientificText ds ex = hd ds # (if tl ds = [] then [] else CHR ''.'' # tl ds) @ CHR ''e'' # ex"

definition decimalText :: "string \<Rightarrow> int \<Rightarrow> string" where
  "decimalText ds point =
    (if point \<le> 0 then ''0.'' @ replicate (nat (- point)) (CHR ''0'') @ ds
     else if nat point \<ge> length ds then ds @ replicate (nat point - length ds) (CHR ''0'')
     else take (nat point) ds @ CHR ''.'' # drop (nat point) ds)"

text \<open>\<open>strconv.AppendFloat\<close> as the encoder calls it, with its clean-up of the exponent.\<close>

definition floatText :: "double \<Rightarrow> string" where
  "floatText x = (case x of Double neg m e \<Rightarrow>
    (if neg then ''-'' else []) @
    (if m = 0 then ''0''
     else let (ds, point) = floatDigits m e in
          if point \<le> - 6 \<or> point > 21 then scientificText ds (exponentText (point - 1)) else decimalText ds point))"

primrec json_Marshal :: "json \<Rightarrow> string" where
  "json_Marshal JNull = ''null''"
| "json_Marshal (JBool b) = (if b then ''true'' else ''false'')"
| "json_Marshal (JInt n) = intText n"
| "json_Marshal (JFloat x) = floatText x"
| "json_Marshal (JString s) = marshalString s"
| "json_Marshal (JArray xs) = ''['' @ joinWith '','' (map json_Marshal xs) @ '']''"
| "json_Marshal (JObject m) =
    ''{'' @ joinWith '','' (map (\<lambda>(k, v). marshalString k @ '':'' @ v) (sorted_list_of_fmap (fmmap json_Marshal m))) @ ''}''"

section \<open>Strings come back\<close>

fun validUtf8 :: "string \<Rightarrow> bool" where
  "validUtf8 [] = True"
| "validUtf8 (c # s) = (case utf8Size (c # s) of 0 \<Rightarrow> False | Suc n \<Rightarrow> validUtf8 (drop n s))"

declare validUtf8.simps(2) [simp del]

lemma byte_chCode [simp]: "byte (chCode c) = c"
  by (simp add: byte_def chCode_def)

lemma byteI: "chCode c = n \<Longrightarrow> byte n = c"
  by auto

lemma hexVal_hexDigit: "hexVal (hexDigit n) = Some (n mod 16)"
proof -
  have "\<forall>m\<in>set [0..<16]. hexVal (''0123456789abcdef'' ! m) = Some m" by code_simp
  then show ?thesis by (simp add: hexDigit_def)
qed

lemma utf8Size_ascii: "chCode c < 128 \<Longrightarrow> utf8Size (c # s) = 1"
  by (simp add: utf8Size.simps)

lemma utf8Size_le: "utf8Size s \<le> length s"
  by (cases s; cases "tl s"; cases "tl (tl s)"; cases "tl (tl (tl s))") (auto simp: utf8Size.simps)

lemma utf8Size_cases:
  assumes "utf8Size s = Suc n"
  obtains (one) a r where "s = a # r" "n = 0" "chCode a < 128"
  | (two) a b r where "s = a # b # r" "n = 1" "\<not> chCode a < 128" "utf8Two a b"
  | (three) a b c r where "s = a # b # c # r" "n = 2" "\<not> chCode a < 128" "\<not> utf8Two a b" "utf8Three a b c"
  | (four) a b c d r where "s = a # b # c # d # r" "n = 3" "\<not> chCode a < 128" "\<not> utf8Two a b"
      "\<not> utf8Three a b c" "utf8Four a b c d"
  using assms by (cases s) (auto simp: utf8Size.simps split: list.splits if_splits simp del: not_less)

lemma utf8Size_take: "utf8Size s = Suc n \<Longrightarrow> utf8Size (take (Suc n) s @ x) = Suc n"
  by (erule utf8Size_cases) (auto simp: utf8Size.simps numeral_eq_Suc simp del: not_less)

lemma unquote_plain:
  assumes "utf8Size (c # s) = Suc n" "32 \<le> chCode c" "c \<noteq> CHR 0x22" "c \<noteq> CHR 0x5C"
  shows "unquote (c # s) = do { (t, r) \<leftarrow> unquote (drop n s); Some (c # take n s @ t, r) }"
  using assms by (simp add: unquote.simps)

lemma chCode_eqs: "chCode (CHR 0x22) = 34" "chCode (CHR 0x5C) = 92"
  by (simp_all add: chCode_def)

lemma unquote_simple [simp]: "simpleEscape e = Some c \<Longrightarrow>
    unquote (CHR 0x5C # e # x) = do { (t, r) \<leftarrow> unquote x; Some (c # t, r) }"
  by (simp add: unquote.simps)

lemma unquote_unicode:
  assumes "hexVal a = Some i" "hexVal b = Some j" "hexVal c = Some k" "hexVal d = Some l"
    and "4096 * i + 256 * j + 16 * k + l < 55296"
  shows "unquote (CHR 0x5C # CHR ''u'' # a # b # c # d # x) =
    do { (t, r) \<leftarrow> unquote x; Some (encodeRune (4096 * i + 256 * j + 16 * k + l) @ t, r) }"
  using assms by (simp add: unquote.simps unicodeEscape_def simpleEscape_def)

lemma unquote_escapeAscii:
  assumes "chCode c < 128"
  shows "unquote (escapeAscii c @ x) = do { (t, r) \<leftarrow> unquote x; Some (c # t, r) }"
proof -
  consider "chCode c = 34 \<or> chCode c = 92" | "chCode c = 8" | "chCode c = 9" | "chCode c = 10" | "chCode c = 12" | "chCode c = 13"
    | "chCode c \<notin> {8, 9, 10, 12, 13, 34, 92}" "chCode c < 32 \<or> chCode c \<in> {60, 62, 38}"
    | "32 \<le> chCode c" "chCode c \<notin> {34, 92, 60, 62, 38}"
    by fastforce
  then show ?thesis
  proof cases
    case 1
    have "byte 34 = CHR 0x22" "byte 92 = CHR 0x5C" by code_simp+
    then have "c = CHR 0x22 \<or> c = CHR 0x5C" using 1 byteI[of c 34] byteI[of c 92] by auto
    then show ?thesis using 1 by (auto simp: escapeAscii_def unquote_simple simpleEscape_def)
  next
    case 7
    have "unquote (escapeAscii c @ x) =
        do { (t, r) \<leftarrow> unquote x; Some (encodeRune (16 * (chCode c div 16 mod 16) + chCode c mod 16) @ t, r) }"
      using 7 assms unquote_unicode[of "CHR ''0''" 0 "CHR ''0''" 0, OF _ _ hexVal_hexDigit hexVal_hexDigit]
      by (auto simp: escapeAscii_def Let_def hexVal_def chCode_def)
    moreover have "16 * (chCode c div 16 mod 16) + chCode c mod 16 = chCode c" using assms by simp
    ultimately show ?thesis using assms by (simp add: encodeRune_def)
  next
    case 8
    then have "c \<noteq> CHR 0x22" "c \<noteq> CHR 0x5C" by (auto simp: chCode_eqs)
    then show ?thesis using 8 assms unquote_plain[of c x 0] by (simp add: escapeAscii_def utf8Size_ascii)
  qed (simp_all add: escapeAscii_def simpleEscape_def byteI)
qed

lemma unquote_separator:
  "unquote (CHR 0x5C # ''u2028'' @ x) = do { (t, r) \<leftarrow> unquote x; Some (lineSeparator @ t, r) }"
  "unquote (CHR 0x5C # ''u2029'' @ x) = do { (t, r) \<leftarrow> unquote x; Some (paragraphSeparator @ t, r) }"
proof -
  have h: "hexVal (CHR ''2'') = Some 2" "hexVal (CHR ''0'') = Some 0" "hexVal (CHR ''8'') = Some 8" "hexVal (CHR ''9'') = Some 9"
    by code_simp+
  have "encodeRune 8232 = lineSeparator" "encodeRune 8233 = paragraphSeparator"
    by (simp_all add: encodeRune_def lineSeparator_def paragraphSeparator_def)
  then show "unquote (CHR 0x5C # ''u2028'' @ x) = do { (t, r) \<leftarrow> unquote x; Some (lineSeparator @ t, r) }"
    "unquote (CHR 0x5C # ''u2029'' @ x) = do { (t, r) \<leftarrow> unquote x; Some (paragraphSeparator @ t, r) }"
    using unquote_unicode[OF h(1) h(2) h(1) h(3)] unquote_unicode[OF h(1) h(2) h(1) h(4)] by simp_all
qed

text \<open>Every valid string is read back as it was, and what follows it is left alone.\<close>

lemma unquote_escapeString:
  "validUtf8 s \<Longrightarrow> unquote (escapeString s @ CHR 0x22 # rest) = Some (s, rest)"
proof (induction s rule: validUtf8.induct)
  case 1
  then show ?case by (simp add: escapeString.simps unquote.simps)
next
  case (2 c s)
  obtain n where n: "utf8Size (c # s) = Suc n" "validUtf8 (drop n s)"
    using 2(2) by (auto simp: validUtf8.simps(2) split: nat.splits)
  have ih: "unquote (escapeString (drop n s) @ CHR 0x22 # rest) = Some (drop n s, rest)" using 2(1) n by blast
  show ?case
  proof (cases "chCode c < 128")
    case True
    then show ?thesis using ih n(1) by (simp add: escapeString.simps unquote_escapeAscii utf8Size_ascii)
  next
    case False
    let ?r = "take (Suc n) (c # s)"
    have split: "?r @ drop n s = c # s" by simp
    consider "?r = lineSeparator" | "?r = paragraphSeparator" "?r \<noteq> lineSeparator"
      | "?r \<noteq> lineSeparator" "?r \<noteq> paragraphSeparator" by blast
    then show ?thesis
    proof cases
      case 1
      have "unquote (escapeString (c # s) @ CHR 0x22 # rest) =
          unquote (CHR 0x5C # ''u2028'' @ (escapeString (drop n s) @ CHR 0x22 # rest))"
        using False n(1) 1 by (simp add: escapeString.simps)
      then show ?thesis unfolding unquote_separator ih using 1 split by simp
    next
      case 2
      have "unquote (escapeString (c # s) @ CHR 0x22 # rest) =
          unquote (CHR 0x5C # ''u2029'' @ (escapeString (drop n s) @ CHR 0x22 # rest))"
        using False n(1) 2 by (simp add: escapeString.simps)
      then show ?thesis unfolding unquote_separator ih using 2 split by simp
    next
      case 3
      let ?y = "take n s @ escapeString (drop n s) @ CHR 0x22 # rest"
      have len: "n \<le> length s" using utf8Size_le[of "c # s"] n(1) by simp
      have "utf8Size (c # ?y) = Suc n" using utf8Size_take[OF n(1)] by simp
      moreover have "c \<noteq> CHR 0x22" "c \<noteq> CHR 0x5C" using False by (auto simp: chCode_eqs)
      ultimately have "unquote (c # ?y) =
          do { (t, r) \<leftarrow> unquote (drop n ?y); Some (c # take n ?y @ t, r) }"
        using False by (intro unquote_plain) auto
      moreover have "drop n ?y = escapeString (drop n s) @ CHR 0x22 # rest" "take n ?y = take n s" using len by simp_all
      moreover have "escapeString (c # s) @ CHR 0x22 # rest = c # ?y"
        using False n(1) 3 by (simp add: escapeString.simps)
      ultimately show ?thesis using ih len by simp
    qed
  qed
qed

section \<open>Numbers come back\<close>

lemma natText_step: "n \<ge> 10 \<Longrightarrow> natText n = natText (n div 10) @ [char_of (48 + n mod 10)]"
  by (subst natText.simps) simp

lemma natText_small: "n < 10 \<Longrightarrow> natText n = [char_of (48 + n)]"
  by (subst natText.simps) simp

lemma chCode_digit: "k < 10 \<Longrightarrow> chCode (char_of (48 + k)) = 48 + k"
  by (simp add: chCode_def)

lemma natText_isNum: "list_all isNum (natText n)"
proof (induction n rule: natText.induct)
  case (1 n)
  then show ?case
    by (cases "n < 10") (simp_all add: natText_small natText_step isNum_def chCode_digit)
qed

lemma natText_not_Nil: "natText n \<noteq> []"
  by (cases "n < 10") (simp_all add: natText_small natText_step)

lemma digitsNat_snoc: "digitsNat (ds @ [c]) = 10 * digitsNat ds + (chCode c - 48)"
  by (simp add: digitsNat_def)

lemma digitsNat_natText: "digitsNat (natText n) = n"
proof (induction n rule: natText.induct)
  case (1 n)
  show ?case
  proof (cases "n < 10")
    case True
    then show ?thesis using chCode_digit[of n] by (simp add: natText_small digitsNat_def)
  next
    case False
    then show ?thesis using 1 chCode_digit[of "n mod 10"] by (simp add: natText_step digitsNat_snoc)
  qed
qed

text \<open>No leading zero.\<close>

lemma natText_leading: "hd (natText n) = CHR ''0'' \<Longrightarrow> n = 0"
proof (induction n rule: natText.induct)
  case (1 n)
  show ?case
  proof (cases "n < 10")
    case True
    then have "chCode (hd (natText n)) = 48 + n" by (simp add: natText_small chCode_digit)
    then show ?thesis using 1(2) by (simp add: chCode_def)
  next
    case False
    then have "hd (natText n) = hd (natText (n div 10))" by (simp add: natText_step natText_not_Nil)
    then have "n div 10 = 0" using 1 False by metis
    then show ?thesis using False by simp
  qed
qed

text \<open>What may follow a value inside a document.\<close>

definition delimited :: "string \<Rightarrow> bool" where
  "delimited rest \<longleftrightarrow> (case rest of [] \<Rightarrow> True | c # _ \<Rightarrow> c = CHR '','' \<or> c = CHR '']'' \<or> c = CHR ''}'')"

lemma isNum_delimiters [simp]: "\<not> isNum (CHR '','')" "\<not> isNum (CHR '']'')" "\<not> isNum (CHR ''}'')" "\<not> isNum (CHR ''-'')"
  by (simp_all add: isNum_def chCode_def)

lemma delimited_isNum: "delimited rest \<Longrightarrow> takeWhile isNum rest = [] \<and> dropWhile isNum rest = rest"
  by (cases rest) (auto simp: delimited_def)

lemma parse_natText:
  assumes "delimited rest"
  shows "takeWhile isNum (natText n @ rest) = natText n" "dropWhile isNum (natText n @ rest) = rest"
  using natText_isNum[of n] delimited_isNum[OF assms]
  by (simp_all add: list_all_iff takeWhile_append dropWhile_append)

definition intLiteral :: "int \<Rightarrow> number" where
  "intLiteral n = \<lparr>num_neg = n < 0, num_int = natText (nat \<bar>n\<bar>), num_frac = None, num_exp = None\<rparr>"

lemma parseNumber_intText:
  assumes "delimited rest"
  shows "parseNumber (intText n @ rest) = Some (intLiteral n, rest)"
proof -
  have tail: "parseFraction rest = Some (None, rest)" "parseExponent rest = Some (None, rest)"
    using assms by (auto simp: delimited_def parseFraction_def parseExponent_def split: list.splits)
  have lead: "\<not> (hd (natText m) = CHR ''0'' \<and> length (natText m) > 1)" for m
    using natText_leading[of m] by (auto simp: natText_small)
  have sign: "natText m @ rest = c # r \<Longrightarrow> c \<noteq> CHR ''-''" for m c r
    using natText_isNum[of m] natText_not_Nil[of m] by (cases "natText m") auto
  show ?thesis
  proof (cases "n < 0")
    case True
    then show ?thesis
      using parse_natText[OF assms, of "nat (- n)"] natText_not_Nil lead[of "nat (- n)"] tail
      by (auto simp: parseNumber_def intText_def intLiteral_def Let_def)
  next
    case False
    have "(case natText (nat n) @ rest of x # r \<Rightarrow> if x = CHR ''-'' then (True, r) else (False, natText (nat n) @ rest)
        | [] \<Rightarrow> (False, natText (nat n) @ rest)) = (False, natText (nat n) @ rest)"
      using sign[of "nat n"] by (cases "natText (nat n) @ rest") auto
    then show ?thesis
      using False parse_natText[OF assms, of "nat n"] natText_not_Nil lead[of "nat n"] tail
      by (auto simp: parseNumber_def intText_def intLiteral_def Let_def)
  qed
qed

lemma numberDouble_intLiteral: "numberDouble (intLiteral n) = toDouble (n < 0) (nat \<bar>n\<bar>) 1"
  by (simp add: numberDouble_def intLiteral_def digitsNat_natText)

lemma intNumber_intLiteral: "- (2 ^ 63) \<le> n \<Longrightarrow> n < 2 ^ 63 \<Longrightarrow> intNumber (intLiteral n) = Some (JInt n)"
  by (auto simp: intNumber_def intLiteral_def digitsNat_natText Let_def)

section \<open>Documents come back\<close>

text \<open>What a value becomes under a reading of its numbers.\<close>

primrec renumber :: "(number \<Rightarrow> json option) \<Rightarrow> json \<Rightarrow> json" where
  "renumber num JNull = JNull"
| "renumber num (JBool b) = JBool b"
| "renumber num (JInt n) = (case num (intLiteral n) of None \<Rightarrow> JNull | Some v \<Rightarrow> v)"
| "renumber num (JFloat x) = JFloat x"
| "renumber num (JString s) = JString s"
| "renumber num (JArray xs) = JArray (map (renumber num) xs)"
| "renumber num (JObject m) = JObject (fmmap (renumber num) m)"

text \<open>
  The values that survive: integers the reading accepts, valid strings, no fractions, and a nesting of
  at most the given depth.
\<close>

inductive storable :: "(number \<Rightarrow> json option) \<Rightarrow> nat \<Rightarrow> json \<Rightarrow> bool" for num where
  "storable num d JNull"
| "storable num d (JBool b)"
| "num (intLiteral n) \<noteq> None \<Longrightarrow> storable num d (JInt n)"
| "validUtf8 s \<Longrightarrow> storable num d (JString s)"
| "(\<forall>x\<in>set xs. storable num d x) \<Longrightarrow> storable num (Suc d) (JArray xs)"
| "(\<forall>k x. fmlookup m k = Some x \<longrightarrow> validUtf8 k \<and> storable num d x) \<Longrightarrow> storable num (Suc d) (JObject m)"

inductive_simps storable_simps [simp]:
  "storable num d JNull" "storable num d (JBool b)" "storable num d (JInt n)" "storable num d (JString s)"
  "storable num d (JFloat x)"

lemma skipWs_Cons: "\<not> isWs c \<Longrightarrow> skipWs (c # s) = c # s"
  by (simp add: skipWs_def)

lemma isWs_marks [simp]:
  "\<not> isWs (CHR '','')" "\<not> isWs (CHR '']'')" "\<not> isWs (CHR ''}'')" "\<not> isWs (CHR ''['')" "\<not> isWs (CHR ''{'')"
  "\<not> isWs (CHR '':'')" "\<not> isWs (CHR 0x22)" "\<not> isWs (CHR ''n'')" "\<not> isWs (CHR ''t'')" "\<not> isWs (CHR ''f'')" "\<not> isWs (CHR ''-'')"
  by (simp_all add: isWs_def chCode_def)

lemma isNum_not: "isNum c \<Longrightarrow> \<not> isWs c \<and> c \<noteq> CHR '']'' \<and> c \<noteq> CHR ''['' \<and> c \<noteq> CHR ''{'' \<and> c \<noteq> CHR 0x22
    \<and> c \<noteq> CHR ''n'' \<and> c \<noteq> CHR ''t'' \<and> c \<noteq> CHR ''f''"
  by (auto simp: isNum_def isWs_def chCode_def)

text \<open>A printed value begins neither with a blank nor with the end of an array.\<close>

lemma intText_head:
  obtains c r where "intText n = c # r" "isNum c \<or> c = CHR ''-''"
proof (cases "n < 0")
  case True
  then show ?thesis using that[of "CHR ''-''"] by (simp add: intText_def)
next
  case False
  then show ?thesis using that natText_not_Nil[of "nat n"] natText_isNum[of "nat n"]
    by (cases "natText (nat n)") (auto simp: intText_def)
qed

lemma marshal_head:
  assumes "storable num d v"
  shows "\<exists>c r. json_Marshal v = c # r \<and> \<not> isWs c \<and> c \<noteq> CHR '']''"
  using assms
proof cases
  case (3 n)
  then show ?thesis using isNum_not by (auto intro: intText_head[of n])
qed (auto simp: marshalString_def)

lemma skipWs_marshal: "storable num d v \<Longrightarrow> skipWs (json_Marshal v @ s) = json_Marshal v @ s"
  using marshal_head[of num d v] by (auto simp: skipWs_Cons)

lemma parseValue_string:
  "validUtf8 s \<Longrightarrow> parseValue num d (marshalString s @ rest) = Some (JString s, rest)"
  using unquote_escapeString[of s rest] by (simp add: parseValue.simps marshalString_def skipWs_Cons)

lemma parseValue_int:
  assumes "delimited rest" "num (intLiteral n) = Some v"
  shows "parseValue num d (intText n @ rest) = Some (v, rest)"
proof -
  obtain c r where c: "intText n = c # r" "isNum c \<or> c = CHR ''-''" by (rule intText_head)
  then have w: "\<not> isWs c" "c \<noteq> CHR ''[''" "c \<noteq> CHR ''{''" "c \<noteq> CHR 0x22"
    "c \<noteq> CHR ''n''" "c \<noteq> CHR ''t''" "c \<noteq> CHR ''f''"
    using isNum_not[of c] by auto
  have "parseScalar num (intText n @ rest) = Some (v, rest)"
    using parseNumber_intText[OF assms(1), of n] assms(2) c(1) w by (simp add: parseScalar_def)
  then show ?thesis using c(1) w by (simp add: parseValue.simps skipWs_Cons)
qed

lemma parseElements_marshal:
  assumes "xs \<noteq> []"
    and "\<And>x rest. x \<in> set xs \<Longrightarrow> delimited rest \<Longrightarrow> parseValue num d (json_Marshal x @ rest) = Some (f x, rest)"
  shows "parseElements num d acc (joinWith '','' (map json_Marshal xs) @ '']'' @ rest) = Some (JArray (acc @ map f xs), rest)"
  using assms
proof (induction xs arbitrary: acc)
  case (Cons x xs)
  have v: "delimited r \<Longrightarrow> parseValue num d (json_Marshal x @ r) = Some (f x, r)" for r by (rule Cons.prems(2)) simp
  show ?case
  proof (cases xs)
    case Nil
    then show ?thesis using v[of "CHR '']'' # rest"] by (simp add: parseElements.simps skipWs_Cons delimited_def)
  next
    case c: (Cons y ys)
    let ?more = "joinWith '','' (map json_Marshal xs) @ '']'' @ rest"
    have "parseValue num d (json_Marshal x @ CHR '','' # ?more) = Some (f x, CHR '','' # ?more)"
      by (rule v) (simp add: delimited_def)
    then have "parseElements num d acc (json_Marshal x @ CHR '','' # ?more) = parseElements num d (acc @ [f x]) ?more"
      by (simp add: parseElements.simps[of num d acc] skipWs_Cons)
    also have "\<dots> = Some (JArray ((acc @ [f x]) @ map f xs), rest)"
      by (rule Cons.IH) (use c Cons.prems(2) in auto)
    finally show ?thesis using c by simp
  qed
qed simp

definition marshalMember :: "string \<times> json \<Rightarrow> string" where
  "marshalMember p = marshalString (fst p) @ '':'' @ json_Marshal (snd p)"

lemma parseMember_step:
  assumes "validUtf8 k" and "parseValue num d (json_Marshal x @ rest) = Some (y, rest)"
  shows "parseMembers num d acc (marshalMember (k, x) @ rest) =
    (case skipWs rest of
       [] \<Rightarrow> None
     | c # r4 \<Rightarrow>
        if c = CHR ''}'' then Some (JObject (fmupd k y acc), r4)
        else if c = CHR '','' \<and> length r4 < length (marshalMember (k, x) @ rest) then parseMembers num d (fmupd k y acc) r4
        else None)"
  using assms unquote_escapeString[of k "'':'' @ json_Marshal x @ rest"]
  by (subst parseMembers.simps) (simp add: marshalMember_def marshalString_def skipWs_Cons)

lemma parseMembers_marshal:
  assumes "kvs \<noteq> []" "\<And>k x. (k, x) \<in> set kvs \<Longrightarrow> validUtf8 k"
    and "\<And>k x rest. (k, x) \<in> set kvs \<Longrightarrow> delimited rest \<Longrightarrow> parseValue num d (json_Marshal x @ rest) = Some (f x, rest)"
  shows "parseMembers num d acc (joinWith '','' (map marshalMember kvs) @ ''}'' @ rest) =
    Some (JObject (fold (\<lambda>(k, x). fmupd k (f x)) kvs acc), rest)"
  using assms
proof (induction kvs arbitrary: acc)
  case (Cons p kvs)
  obtain k x where p: "p = (k, x)" by (cases p)
  have k: "validUtf8 k" using Cons.prems(2)[of k x] p by simp
  have v: "delimited r \<Longrightarrow> parseValue num d (json_Marshal x @ r) = Some (f x, r)" for r
    using Cons.prems(3)[of k x] p by simp
  show ?case
  proof (cases kvs)
    case Nil
    have d: "delimited (CHR ''}'' # rest)" by (simp add: delimited_def)
    show ?thesis using parseMember_step[OF k v[OF d], of acc] Nil p by (simp add: skipWs_Cons)
  next
    case c: (Cons q kvs')
    let ?more = "joinWith '','' (map marshalMember kvs) @ ''}'' @ rest"
    have d: "delimited (CHR '','' # ?more)" by (simp add: delimited_def)
    have "parseMembers num d acc (marshalMember p @ CHR '','' # ?more) = parseMembers num d (fmupd k (f x) acc) ?more"
      using parseMember_step[OF k v[OF d], of acc] p by (simp add: skipWs_Cons)
    also have "\<dots> = Some (JObject (fold (\<lambda>(k, x). fmupd k (f x)) kvs (fmupd k (f x) acc)), rest)"
      by (rule Cons.IH) (use c Cons.prems(2,3) in \<open>auto intro: Cons.prems(2,3)\<close>)
    finally show ?thesis using c p by simp
  qed
qed simp

lemma sorted_list_of_fmmap:
  "sorted_list_of_fmap (fmmap f m) = map (\<lambda>(k, x). (k, f x)) (sorted_list_of_fmap m)"
proof -
  have "the (fmlookup (fmmap f m) k) = f (the (fmlookup m k))" if "k |\<in>| fmdom m" for k
    using that by (auto simp: fmlookup_dom_iff)
  then show ?thesis by (simp add: sorted_list_of_fmap_def)
qed

lemma fold_sorted_fmmap:
  "fold (\<lambda>(k, x). fmupd k (f x)) (sorted_list_of_fmap m) fmempty = fmmap f m"
proof (rule fmap_ext)
  fix k
  let ?xs = "map (\<lambda>(k, x). (k, f x)) (sorted_list_of_fmap m)"
  have "fold (\<lambda>(k, x). fmupd k (f x)) (sorted_list_of_fmap m) fmempty = fold (\<lambda>(k, v). fmupd k v) ?xs fmempty"
    by (simp add: fold_map comp_def case_prod_unfold)
  moreover have "distinct (map fst ?xs)"
    by (simp add: sorted_list_of_fmap_def comp_def case_prod_unfold sorted_list_of_fset.rep_eq)
  moreover have "map_of ?xs k = map_option f (fmlookup m k)" by (simp add: map_of_map)
  ultimately show "fmlookup (fold (\<lambda>(k, x). fmupd k (f x)) (sorted_list_of_fmap m) fmempty) k = fmlookup (fmmap f m) k"
    using fold_fmupd_lookup[of ?xs fmempty k] by (simp split: option.splits)
qed

lemma marshal_object:
  "json_Marshal (JObject m) = ''{'' @ joinWith '','' (map marshalMember (sorted_list_of_fmap m)) @ ''}''"
  by (simp add: sorted_list_of_fmmap marshalMember_def[abs_def] comp_def case_prod_unfold)

lemma sorted_list_of_fmap_lookup: "(k, x) \<in> set (sorted_list_of_fmap m) \<Longrightarrow> fmlookup m k = Some x"
  by (auto simp: sorted_list_of_fmap_def fmlookup_dom_iff)

text \<open>Reading what was printed gives the value back, with its numbers read.\<close>

lemma parseValue_marshal:
  assumes "storable num d v" "delimited rest"
  shows "parseValue num d (json_Marshal v @ rest) = Some (renumber num v, rest)"
  using assms
proof (induction arbitrary: rest)
  case (3 n d)
  then show ?case using parseValue_int[of rest num n] by auto
next
  case (4 s d)
  then show ?case using parseValue_string[of s num d rest] by simp
next
  case (5 xs d)
  show ?case
  proof (cases xs)
    case Nil
    then show ?thesis by (simp add: parseValue.simps skipWs_Cons)
  next
    case c: (Cons x ys)
    let ?body = "joinWith '','' (map json_Marshal xs) @ '']'' @ rest"
    have "\<exists>c r. ?body = c # r \<and> \<not> isWs c \<and> c \<noteq> CHR '']''"
      using 5 marshal_head[of num d x] c by (cases ys) auto
    then obtain c' r where h: "?body = c' # r" "\<not> isWs c'" "c' \<noteq> CHR '']''" by blast
    have "parseElements num d [] ?body = Some (JArray (map (renumber num) xs), rest)"
      using parseElements_marshal[of xs num d "renumber num" "[]"] 5 c by auto
    then show ?thesis using h by (simp add: parseValue.simps[of num "Suc d"] skipWs_Cons)
  qed
next
  case (6 m d)
  let ?kvs = "sorted_list_of_fmap m"
  let ?body = "joinWith '','' (map marshalMember ?kvs) @ ''}'' @ rest"
  have fold: "fold (\<lambda>(k, x). fmupd k (renumber num x)) ?kvs fmempty = fmmap (renumber num) m" by (rule fold_sorted_fmmap)
  show ?case
  proof (cases ?kvs)
    case Nil
    then have "fmmap (renumber num) m = fmempty" using fold by simp
    then show ?thesis unfolding marshal_object using Nil by (simp add: parseValue.simps skipWs_Cons)
  next
    case c: (Cons p ys)
    have "\<exists>r. ?body = CHR 0x22 # r" using c by (cases ys) (simp_all add: marshalMember_def marshalString_def)
    then obtain r where h: "?body = CHR 0x22 # r" by blast
    have "parseMembers num d fmempty ?body = Some (JObject (fmmap (renumber num) m), rest)"
      unfolding fold[symmetric]
    proof (rule parseMembers_marshal)
      show "?kvs \<noteq> []" using c by simp
      fix k x assume "(k, x) \<in> set ?kvs"
      then have kx: "fmlookup m k = Some x" by (rule sorted_list_of_fmap_lookup)
      then show "validUtf8 k" using 6 by blast
      show "parseValue num d (json_Marshal x @ r') = Some (renumber num x, r')" if "delimited r'" for r'
        using 6 kx that by blast
    qed
    then show ?thesis unfolding marshal_object using h by (simp add: parseValue.simps[of num "Suc d"] skipWs_Cons)
  qed
qed (simp_all add: parseValue.simps skipWs_Cons parseScalar_def)

lemma unmarshalWith_marshal:
  "storable num 10000 v \<Longrightarrow> unmarshalWith num (json_Marshal v) = Some (renumber num v)"
  using parseValue_marshal[of num 10000 v "[]"] by (simp add: unmarshalWith_def delimited_def skipWs_def)

section \<open>What float64 keeps of an integer\<close>

lemma natBits_bounds: "n > 0 \<Longrightarrow> 2 ^ (natBits n - 1) \<le> n \<and> n < 2 ^ natBits n \<and> 0 < natBits n"
proof (induction n rule: natBits.induct)
  case (1 n)
  have s: "natBits n = Suc (natBits (n div 2))" using 1(2) by (subst natBits.simps) simp
  show ?case
  proof (cases "n div 2 = 0")
    case True
    then have "natBits (n div 2) = 0" by (subst natBits.simps) simp
    moreover have "n = 1" using True 1(2) by linarith
    ultimately have "natBits (n div 2) = 0" "n = 1" by simp_all
    then show ?thesis using s by simp
  next
    case False
    then have "2 ^ (natBits (n div 2) - 1) \<le> n div 2" "n div 2 < 2 ^ natBits (n div 2)" "0 < natBits (n div 2)"
      using 1 by auto
    then have "2 * 2 ^ (natBits (n div 2) - 1) \<le> n" "n < 2 * 2 ^ natBits (n div 2)" by linarith+
    then show ?thesis using s \<open>0 < natBits (n div 2)\<close> by (simp flip: power_Suc)
  qed
qed

lemma roundQuotient_one: "roundQuotient n 1 = n" "roundQuotient n (Suc 0) = n"
  by (simp_all add: roundQuotient_def)

lemma roundQuotient_error: "d > 0 \<Longrightarrow> 2 * \<bar>int (roundQuotient n d * d) - int n\<bar> \<le> int d"
proof -
  assume d: "d > 0"
  have n: "n = n div d * d + n mod d" by simp
  have "n mod d < d" using d by simp
  define q r where "q = n div d" and "r = n mod d"
  have "int n = int q * int d + int r" using n unfolding q_def r_def by (metis of_nat_add of_nat_mult)
  then show ?thesis using \<open>n mod d < d\<close>
    by (auto simp: roundQuotient_def Let_def q_def[symmetric] r_def[symmetric] algebra_simps)
qed

text \<open>Below \<open>2^53\<close> it is exact.\<close>

lemma toDouble_small:
  assumes "n < 2 ^ 53"
  shows "\<exists>x. toDouble neg n 1 = Some x \<and> doubleInt x = Some (if neg then - int n else int n)"
proof (cases "n = 0")
  case True
  then show ?thesis by (simp add: toDouble_def)
next
  case False
  define b where "b = natBits n"
  have b: "2 ^ (b - 1) \<le> n" "n < 2 ^ b" "0 < b" using natBits_bounds[of n] False by (simp_all add: b_def)
  have b53: "b \<le> 53"
  proof (rule ccontr)
    assume "\<not> b \<le> 53"
    then have "(2::nat) ^ 53 \<le> 2 ^ (b - 1)" by (intro power_increasing) auto
    then show False using b(1) assms by linarith
  qed
  obtain k where k: "b + k = 53" using b53 by (metis le_add_diff_inverse)
  obtain c where c: "b = Suc c" using b(3) by (cases b) auto
  have one: "natBits 1 = 1" by (simp add: natBits.simps)
  have top: "(2::nat) ^ 53 = 2 ^ c * 2 ^ Suc k" "(2::nat) ^ 53 = 2 ^ b * 2 ^ k" "(2::int) ^ 53 = 2 ^ b * 2 ^ k"
    using k c by (simp_all flip: power_add)
  have big: "2 ^ 53 \<le> n * 2 ^ Suc k" using b(1) c unfolding top(1) by simp
  have small: "n * 2 ^ k < 2 ^ 53" using b(2) unfolding top(2) by simp
  have e1: "int b - 1 - 53 = - int (Suc k)" "nat (int k + 1) = Suc k" using k by linarith+
  have n1: "scaleNum n (- int (Suc k)) = n * 2 ^ Suc k" by (simp only: scaleNum_def) (simp add: e1)
  have d1: "scaleDen 1 (- int (Suc k)) = 1" by (simp add: scaleDen_def)
  have n2: "scaleNum n (- int k) = n * 2 ^ k" by (cases k) (auto simp: scaleNum_def nat_add_distrib)
  have d2: "scaleDen 1 (- int k) = 1" by (cases k) (auto simp: scaleDen_def)
  have e3: "max (- int (Suc k) + 1) (- 1074) = - int k" using k by simp
  have "toDouble neg n 1 = Some (Double neg (n * 2 ^ k) (- int k))"
    unfolding toDouble_def b_def[symmetric] one Let_def
    using False e1 n1 d1 n2 d2 e3 big small by (simp add: roundQuotient_one)
  moreover have "doubleInt (Double neg (n * 2 ^ k) (- int k)) = Some (if neg then - int n else int n)"
    by (cases k) (auto simp: nat_add_distrib simp del: power_Suc)
  ultimately show ?thesis by blast
qed

text \<open>From there on, up to the range of int64, the result is even and at most \<open>n / 2^53\<close> away.\<close>

lemma toDouble_large:
  assumes "2 ^ 53 \<le> n" "n \<le> 2 ^ 63"
  shows "\<exists>x v. toDouble neg n 1 = Some x \<and> doubleInt x = Some (if neg then - v else v) \<and> even v \<and>
    2 ^ 53 * \<bar>v - int n\<bar> \<le> int n"
proof -
  define b where "b = natBits n"
  have pos: "n > 0" using assms(1) by (cases n) simp_all
  have b: "2 ^ (b - 1) \<le> n" "n < 2 ^ b" "0 < b" using natBits_bounds[OF pos] by (simp_all add: b_def)
  have b1: "53 < b"
  proof (rule ccontr)
    assume "\<not> 53 < b"
    then have "(2::nat) ^ b \<le> 2 ^ 53" by (intro power_increasing) auto
    then show False using b(2) assms(1) by linarith
  qed
  have b2: "b \<le> 64"
  proof (rule ccontr)
    assume "\<not> b \<le> 64"
    then have "(2::nat) ^ 64 \<le> 2 ^ (b - 1)" by (intro power_increasing) auto
    then show False using b(1) assms(2) by simp
  qed
  have "54 + (b - 54) = b" using b1 by simp
  then obtain k where k: "b = 54 + k" by metis
  have k10: "k \<le> 10" using k b2 by simp
  have one: "natBits 1 = 1" by (simp add: natBits.simps)
  have lo: "2 ^ 53 * 2 ^ k \<le> n"
  proof -
    have "b - 1 = 53 + k" using k by simp
    then show ?thesis using b(1) by (simp only: power_add)
  qed
  have q: "2 ^ 53 \<le> n div 2 ^ k" using lo by (simp add: less_eq_div_iff_mult_less_eq)
  have e1: "int b - 1 - 53 = int k" using k by simp
  let ?e = "int (Suc k)" and ?d = "2 ^ Suc k :: nat"
  define m where "m = roundQuotient n ?d"
  have e3: "max (int k + 1) (- 1074) = ?e" by simp
  have s: "scaleNum n (int k) = n" "scaleDen 1 (int k) = 2 ^ k" "scaleNum n ?e = n" "scaleDen 1 ?e = ?d"
    by (simp_all only: scaleNum_def scaleDen_def nat_int) simp_all
  have s': "scaleNum n (int k + 1) = n" "scaleDen 1 (int k + 1) = ?d"
    using s(3,4) by (simp_all add: add.commute)
  have t: "toDouble neg n 1 = (if m = 2 ^ 53 then Some (Double neg (2 ^ 52) (?e + 1)) else Some (Double neg m ?e))"
    unfolding toDouble_def b_def[symmetric] one Let_def
    using pos e1 q e3 s s' k10 by (simp add: m_def)
  have v: "doubleInt (Double neg m ?e) = Some (if neg then - int (m * ?d) else int (m * ?d))"
    "doubleInt (Double neg (2 ^ 52) (?e + 1)) = Some (if neg then - int (2 ^ 53 * ?d) else int (2 ^ 53 * ?d))"
    by (simp_all only: doubleInt.simps) (simp_all add: nat_add_distrib)
  have "2 * \<bar>int (m * ?d) - int n\<bar> \<le> int ?d" unfolding m_def by (rule roundQuotient_error) simp
  then have err: "2 ^ 53 * \<bar>int (m * ?d) - int n\<bar> \<le> int n"
  proof -
    have "2 ^ 53 * (2 * \<bar>int (m * ?d) - int n\<bar>) \<le> 2 ^ 53 * int ?d"
      using \<open>2 * \<bar>int (m * ?d) - int n\<bar> \<le> int ?d\<close> by simp
    also have "\<dots> = 2 * int (2 ^ 53 * 2 ^ k)" by simp
    also have "\<dots> \<le> 2 * int n" using lo by (simp only: of_nat_le_iff mult_le_mono2)
    finally show ?thesis by simp
  qed
  have ev: "even (int (m * ?d))" by simp
  show ?thesis
  proof (cases "m = 2 ^ 53")
    case True
    then show ?thesis using t v(2) err ev by (intro exI[of _ "Double neg (2 ^ 52) (?e + 1)"] exI[of _ "int (m * ?d)"]) simp
  next
    case False
    then show ?thesis using t v(1) err ev by (intro exI[of _ "Double neg m ?e"] exI[of _ "int (m * ?d)"]) simp
  qed
qed

end
