(* ===== verification/Webhook.thy ===== *)
theory Webhook
  imports Json Utils
begin

text \<open>
  The conversion webhook (\<open>pkg/webhook/convert.go\<close> and \<open>framework.go\<close>): it converts group contents
  between the versions v1beta1 and v1beta2 of the API. A conversion to v1beta1 keeps what that version cannot hold in an
  annotation, as JSON, and the conversion back reads it from there. Objects are unstructured: JSON objects.
  A result is an option, whose value \<open>None\<close> is a run-time panic, of an error or an object.

  The request comes over HTTP; the serializers of the API machinery and the parser of the \<open>Accept\<close> header
  are parameters. \<open>syntaxText\<close> is the text of the error of \<open>encoding/json\<close> for a document it cannot read.
\<close>

section \<open>Unstructured objects\<close>

type_synonym object = "(string, json) fmap"

text \<open>The verbs \<open>%v\<close> and \<open>%T\<close> of a value, for the messages.\<close>

definition goFloatText :: "double \<Rightarrow> string" where
  "goFloatText x = (case x of Double neg m e \<Rightarrow>
    (if neg then ''-'' else []) @
    (if m = 0 then ''0''
     else let (ds, point) = floatDigits m e; k = point - 1;
              ex = exponentText k in
          if k < - 4 \<or> k \<ge> 6 then scientificText ds (if length ex = 2 then hd ex # CHR ''0'' # tl ex else ex)
          else decimalText ds point))"

primrec goValueText :: "json \<Rightarrow> string" where
  "goValueText JNull = ''<nil>''"
| "goValueText (JBool b) = (if b then ''true'' else ''false'')"
| "goValueText (JInt n) = intText n"
| "goValueText (JFloat x) = goFloatText x"
| "goValueText (JString s) = s"
| "goValueText (JArray xs) = ''['' @ joinWith '' '' (map goValueText xs) @ '']''"
| "goValueText (JObject m) =
    ''map['' @ joinWith '' '' (map (\<lambda>(k, v). k @ '':'' @ v) (sorted_list_of_fmap (fmmap goValueText m))) @ '']''"

fun goTypeText :: "json \<Rightarrow> string" where
  "goTypeText JNull = ''<nil>''"
| "goTypeText (JBool b) = ''bool''"
| "goTypeText (JInt n) = ''int64''"
| "goTypeText (JFloat x) = ''float64''"
| "goTypeText (JString s) = ''string''"
| "goTypeText (JArray xs) = ''[]interface {}''"
| "goTypeText (JObject m) = ''map[string]interface {}''"

definition jsonPath :: "string list \<Rightarrow> string" where
  "jsonPath keys = CHR ''.'' # joinWith ''.'' keys"

definition accessorError :: "string list \<Rightarrow> json \<Rightarrow> string \<Rightarrow> goerr" where
  "accessorError keys v expected = Errorf (sprint [jsonPath keys, '' accessor error: '', goValueText v,
     '' is of the type '', goTypeText v, '', expected '', expected])"

text \<open>A field that is not there is \<open>None\<close>; the first list holds the fields already passed.\<close>

fun NestedFieldNoCopy :: "string list \<Rightarrow> json \<Rightarrow> string list \<Rightarrow> goerr + json option" where
  "NestedFieldNoCopy done v [] = Inr (Some v)"
| "NestedFieldNoCopy done v (f # fs) =
    (case v of
       JNull \<Rightarrow> Inr None
     | JObject m \<Rightarrow> (case fmlookup m f of None \<Rightarrow> Inr None | Some w \<Rightarrow> NestedFieldNoCopy (done @ [f]) w fs)
     | _ \<Rightarrow> Inl (accessorError (done @ [f]) v ''map[string]interface{}''))"

definition getNestedString :: "object \<Rightarrow> string list \<Rightarrow> string" where
  "getNestedString obj keys =
    (case NestedFieldNoCopy [] (JObject obj) keys of Inr (Some (JString s)) \<Rightarrow> s | _ \<Rightarrow> [])"

definition NestedSlice :: "object \<Rightarrow> string list \<Rightarrow> goerr + json list option" where
  "NestedSlice obj keys =
    (case NestedFieldNoCopy [] (JObject obj) keys of
       Inl err \<Rightarrow> Inl err
     | Inr None \<Rightarrow> Inr None
     | Inr (Some (JArray xs)) \<Rightarrow> Inr (Some xs)
     | Inr (Some v) \<Rightarrow> Inl (accessorError keys v ''[]interface{}''))"

text \<open>Maps on the way are created when they are missing.\<close>

fun SetNestedField :: "string list \<Rightarrow> object \<Rightarrow> json \<Rightarrow> string list \<Rightarrow> goerr + object" where
  "SetNestedField done m value [] = Inr m"
| "SetNestedField done m value [f] = Inr (fmupd f value m)"
| "SetNestedField done m value (f # fs) =
    (case fmlookup m f of
       None \<Rightarrow> map_sum id (\<lambda>m'. fmupd f (JObject m') m) (SetNestedField (done @ [f]) fmempty value fs)
     | Some (JObject m1) \<Rightarrow> map_sum id (\<lambda>m'. fmupd f (JObject m') m) (SetNestedField (done @ [f]) m1 value fs)
     | Some _ \<Rightarrow> Inl (Errorf (sprint [''value cannot be set because '', jsonPath (done @ [f]),
         '' is not a map[string]interface{}''])))"

fun RemoveNestedField :: "object \<Rightarrow> string list \<Rightarrow> object" where
  "RemoveNestedField m [] = m"
| "RemoveNestedField m [f] = fmdrop f m"
| "RemoveNestedField m (f # fs) =
    (case fmlookup m f of
       Some (JObject m1) \<Rightarrow> fmupd f (JObject (RemoveNestedField m1 fs)) m
     | _ \<Rightarrow> m)"

definition GetAPIVersion :: "object \<Rightarrow> string" where
  "GetAPIVersion obj = getNestedString obj [''apiVersion'']"

definition GetKind :: "object \<Rightarrow> string" where
  "GetKind obj = getNestedString obj [''kind'']"

definition SetAPIVersion :: "string \<Rightarrow> object \<Rightarrow> object" where
  "SetAPIVersion version obj = fmupd ''apiVersion'' (JString version) obj"

text \<open>The annotations, nil when there are none or when one is not a string; a null counts as empty.\<close>

fun coercible :: "json \<Rightarrow> bool" where
  "coercible (JString s) = True"
| "coercible JNull = True"
| "coercible _ = False"

fun coerced :: "json \<Rightarrow> string" where
  "coerced (JString s) = s"
| "coerced _ = []"

definition GetAnnotations :: "object \<Rightarrow> strmap option" where
  "GetAnnotations obj =
    (case NestedFieldNoCopy [] (JObject obj) [''metadata'', ''annotations''] of
       Inr (Some (JObject m)) \<Rightarrow> if fmpred (\<lambda>_. coercible) m then Some (fmmap coerced m) else None
     | _ \<Rightarrow> None)"

text \<open>An error is dropped and leaves the object as it was.\<close>

definition SetAnnotations :: "strmap option \<Rightarrow> object \<Rightarrow> object" where
  "SetAnnotations annotations obj =
    (case annotations of
       None \<Rightarrow> RemoveNestedField obj [''metadata'', ''annotations'']
     | Some m \<Rightarrow>
        (case SetNestedField [] obj (JObject (fmmap JString m)) [''metadata'', ''annotations''] of
           Inl _ \<Rightarrow> obj | Inr obj' \<Rightarrow> obj'))"

section \<open>The conversions\<close>

definition volumeSnapshotInfoAnnotationName :: string where
  "volumeSnapshotInfoAnnotationName = ''groupsnapshot.storage.kubernetes.io/volume-snapshot-info-list''"

definition v1beta1Version :: string where
  "v1beta1Version = ''groupsnapshot.storage.k8s.io/v1beta1''"

definition v1beta2Version :: string where
  "v1beta2Version = ''groupsnapshot.storage.k8s.io/v1beta2''"

definition infoListPath :: "string list" where
  "infoListPath = [''status'', ''volumeSnapshotInfoList'']"

definition pairListPath :: "string list" where
  "pairListPath = [''status'', ''volumeSnapshotHandlePairList'']"

definition setInfoList :: "json list \<Rightarrow> object \<Rightarrow> goerr + object" where
  "setInfoList xs obj =
    (case SetNestedField [] obj (JArray xs) infoListPath of
       Inl err \<Rightarrow> Inl (Errorf (''error while setting .status.volumeSnapshotInfoList: '' @ err_text err))
     | Inr obj' \<Rightarrow> Inr obj')"

text \<open>The value of the annotation is asserted to be an array after it was read: any other value is a panic.\<close>

definition convertVolumeGroupSnapshotContentFromV1beta1ToV1beta2 ::
  "(string \<Rightarrow> string) \<Rightarrow> object \<Rightarrow> (goerr + object) option" where
  "convertVolumeGroupSnapshotContentFromV1beta1ToV1beta2 syntaxText obj =
    (let annotations = GetAnnotations obj in
     case Option.bind annotations (\<lambda>a. fmlookup a volumeSnapshotInfoAnnotationName) of
       Some value \<Rightarrow>
        (case json_Unmarshal value of
           None \<Rightarrow> Some (Inl (Errorf (sprint [''unable to deserialize annotation '',
             goQuote volumeSnapshotInfoAnnotationName, '': '', syntaxText value])))
         | Some (JArray slice) \<Rightarrow>
            (case setInfoList slice obj of
               Inl err \<Rightarrow> Some (Inl err)
             | Inr obj \<Rightarrow>
                Some (Inr (SetAnnotations (map_option (fmdrop volumeSnapshotInfoAnnotationName) annotations)
                  (RemoveNestedField obj pairListPath))))
         | Some _ \<Rightarrow> None)
     | None \<Rightarrow>
        (case NestedSlice obj pairListPath of
           Inl err \<Rightarrow> Some (Inl (Errorf (''unable to traverse for .status.volumeSnapshotHandlePairList: '' @ err_text err)))
         | Inr None \<Rightarrow> Some (Inr obj)
         | Inr (Some pairs) \<Rightarrow>
            (case setInfoList pairs obj of
               Inl err \<Rightarrow> Some (Inl err)
             | Inr obj \<Rightarrow> Some (Inr (RemoveNestedField obj pairListPath)))))"

text \<open>The loop over the entries: the pairs, or the index of the first entry that is not an object.\<close>

fun toPairs :: "nat \<Rightarrow> json list \<Rightarrow> goerr + json list" where
  "toPairs i [] = Inr []"
| "toPairs i (x # xs) =
    (case x of
       JObject m \<Rightarrow>
         map_sum id (\<lambda>ys. JObject (fmdrop ''restoreSize'' (fmdrop ''readyToUse'' (fmdrop ''creationTime'' m))) # ys)
           (toPairs (Suc i) xs)
     | _ \<Rightarrow> Inl (Errorf (sprint [''unexpected content in .status.volumeSnapshotInfoList['', natText i,
              '']: expected map''])))"

definition withInfoAnnotation :: "json list \<Rightarrow> object \<Rightarrow> object" where
  "withInfoAnnotation infos obj =
    (let annotations = (case GetAnnotations obj of None \<Rightarrow> fmempty | Some a \<Rightarrow> a) in
     SetAnnotations (Some (fmupd volumeSnapshotInfoAnnotationName (json_Marshal (JArray infos)) annotations)) obj)"

definition convertVolumeGroupSnapshotContentFromV1beta2ToV1beta1 :: "object \<Rightarrow> goerr + object" where
  "convertVolumeGroupSnapshotContentFromV1beta2ToV1beta1 obj =
    (case NestedSlice obj infoListPath of
       Inl err \<Rightarrow> Inl (Errorf (''unable to traverse for .status.volumeSnapshotInfoList: '' @ err_text err))
     | Inr None \<Rightarrow> Inr obj
     | Inr (Some infos) \<Rightarrow>
        (case toPairs 0 infos of
           Inl err \<Rightarrow> Inl err
         | Inr pairs \<Rightarrow>
            (case SetNestedField [] (withInfoAnnotation infos obj) (JArray pairs) pairListPath of
               Inl err \<Rightarrow> Inl (Errorf (''error while setting .status.volumeSnapshotHandlePairList: '' @ err_text err))
             | Inr obj \<Rightarrow> Inr (RemoveNestedField obj infoListPath))))"

text \<open>The status of a conversion: an error is the message of a failure.\<close>

definition convertGroupSnapshotCRD ::
  "(string \<Rightarrow> string) \<Rightarrow> object \<Rightarrow> string \<Rightarrow> (string + object) option" where
  "convertGroupSnapshotCRD syntaxText obj toVersion =
    (let fromVersion = GetAPIVersion obj; kind = GetKind obj in
     if toVersion = fromVersion then
       Some (Inl (''conversion from a version to itself should not call the webhook: '' @ toVersion))
     else if kind \<noteq> ''VolumeGroupSnapshotContent'' then
       Some (Inl (''unexpected conversion kind '' @ goQuote kind))
     else if fromVersion = v1beta1Version \<and> toVersion = v1beta2Version then
       map_option (map_sum err_text id) (convertVolumeGroupSnapshotContentFromV1beta1ToV1beta2 syntaxText obj)
     else if fromVersion = v1beta2Version \<and> toVersion = v1beta1Version then
       Some (map_sum err_text id (convertVolumeGroupSnapshotContentFromV1beta2ToV1beta1 obj))
     else Some (Inl (sprint [''unexpected conversion version from '', goQuote fromVersion, '' to '', goQuote toVersion])))"

section \<open>The requests\<close>

text \<open>
  \<open>Unstructured.UnmarshalJSON\<close>: integers stay integers; an object needs a kind, and an API version with at most one slash.
\<close>

definition UnmarshalJSON :: "(string \<Rightarrow> string) \<Rightarrow> string \<Rightarrow> goerr + object" where
  "UnmarshalJSON syntaxText raw =
    (let checked = (\<lambda>m. if GetKind m = [] \<or> length (splitOn (CHR ''/'') (GetAPIVersion m)) > 2
           then Inl (Errorf (sprint [''Object '', [CHR 0x27], ''Kind'', [CHR 0x27], '' is missing in '', [CHR 0x27], raw,
             [CHR 0x27]])) else Inr m) in
     case utiljson_Unmarshal raw of
       Some (JObject m) \<Rightarrow> checked m
     | Some JNull \<Rightarrow> checked fmempty
     | _ \<Rightarrow> Inl (Errorf (syntaxText raw)))"

text \<open>
  The loop of \<open>doConversionV1\<close> with its conversion function: the first failure ends the request, and the response
  then has no objects.
\<close>

fun convertObjects ::
  "(string \<Rightarrow> string) \<Rightarrow> (object \<Rightarrow> string \<Rightarrow> (string + object) option) \<Rightarrow> string \<Rightarrow> object list \<Rightarrow>
   string list \<Rightarrow> (string + object list) option" where
  "convertObjects syntaxText convert desired acc [] = Some (Inr acc)"
| "convertObjects syntaxText convert desired acc (raw # raws) =
    (case UnmarshalJSON syntaxText raw of
       Inl err \<Rightarrow> Some (Inl (sprint [''failed to unmarshall object ('', raw, '') with error: '', err_text err]))
     | Inr cr \<Rightarrow>
        (case convert cr desired of
           None \<Rightarrow> None
         | Some (Inl message) \<Rightarrow> Some (Inl message)
         | Some (Inr converted) \<Rightarrow>
            convertObjects syntaxText convert desired (acc @ [SetAPIVersion desired converted]) raws))"

text \<open>A response whose message is \<open>None\<close> is a success.\<close>

record conversion_request =
  req_UID :: string
  req_DesiredAPIVersion :: string
  req_Objects :: "string list"

record conversion_response =
  resp_UID :: string
  resp_ConvertedObjects :: "object list"
  resp_Failure :: "string option"

record conversion_review =
  review_Request :: "conversion_request option"
  review_Response :: "conversion_response option"

definition doConversionV1 ::
  "(string \<Rightarrow> string) \<Rightarrow> (object \<Rightarrow> string \<Rightarrow> (string + object) option) \<Rightarrow> conversion_request \<Rightarrow>
   conversion_response option" where
  "doConversionV1 syntaxText convert req =
    map_option (case_sum
        (\<lambda>message. \<lparr>resp_UID = [], resp_ConvertedObjects = [], resp_Failure = Some message\<rparr>)
        (\<lambda>objects. \<lparr>resp_UID = [], resp_ConvertedObjects = objects, resp_Failure = None\<rparr>))
      (convertObjects syntaxText convert (req_DesiredAPIVersion req) [] (req_Objects req))"

section \<open>The handler\<close>

datatype serializer = JSONSerializer | YAMLSerializer

type_synonym mediaType = "string \<times> string"

definition serializers :: "mediaType \<Rightarrow> serializer option" where
  "serializers = [(''application'', ''json'') \<mapsto> JSONSerializer, (''application'', ''yaml'') \<mapsto> YAMLSerializer]"

text \<open>The type is what stands before the first slash.\<close>

definition getInputSerializer :: "string \<Rightarrow> serializer option" where
  "getInputSerializer contentType =
    (case dropWhile (\<lambda>c. c \<noteq> CHR ''/'') contentType of
       [] \<Rightarrow> None
     | _ # sub \<Rightarrow> serializers (takeWhile (\<lambda>c. c \<noteq> CHR ''/'') contentType, sub))"

text \<open>
  Go ranges over the map of the serializers in an arbitrary order, another one for each clause: \<open>orders\<close>
  gives the media types in the order of the range over them. \<open>ParseAccept\<close> is \<open>goautoneg\<close>'s.
\<close>

definition accepts :: "mediaType \<Rightarrow> mediaType \<Rightarrow> bool" where
  "accepts clause k =
    (fst clause = fst k \<and> snd clause = snd k \<or> fst clause = fst k \<and> snd clause = ''*'' \<or>
     fst clause = ''*'' \<and> snd clause = ''*'')"

fun firstAccepted :: "(nat \<Rightarrow> mediaType list) \<Rightarrow> nat \<Rightarrow> mediaType list \<Rightarrow> serializer option" where
  "firstAccepted orders i [] = None"
| "firstAccepted orders i (clause # clauses) =
    (case find (accepts clause) (orders i) of
       Some k \<Rightarrow> serializers k
     | None \<Rightarrow> firstAccepted orders (Suc i) clauses)"

definition getOutputSerializer ::
  "(string \<Rightarrow> mediaType list) \<Rightarrow> (nat \<Rightarrow> mediaType list) \<Rightarrow> string \<Rightarrow> serializer option" where
  "getOutputSerializer ParseAccept orders accept =
    (if length accept = 0 then serializers (''application'', ''json'')
     else firstAccepted orders 0 (ParseAccept accept))"

text \<open>
  The serializers of the API machinery are parameters: what they read is a group, version and kind with an object,
  which is a review when it is one of version v1, and what they write comes with the error, if any.
  A status is written once, by the first write.
\<close>

datatype decoded = ReviewV1 conversion_review | OtherType string

record group_version_kind =
  gvk_Group :: string
  gvk_Version :: string
  gvk_Kind :: string

record http_response =
  http_Status :: nat
  http_Body :: string

definition http_Error :: "string \<Rightarrow> nat \<Rightarrow> http_response" where
  "http_Error msg code = \<lparr>http_Status = code, http_Body = msg @ [CHR 0x0A]\<rparr>"

definition reviewKind :: group_version_kind where
  "reviewKind = \<lparr>gvk_Group = ''apiextensions.k8s.io'', gvk_Version = ''v1'', gvk_Kind = ''ConversionReview''\<rparr>"

definition gvkText :: "group_version_kind \<Rightarrow> string" where
  "gvkText g = sprint [gvk_Group g, ''/'', gvk_Version g, '', Kind='', gvk_Kind g]"

text \<open>The review that answers: the request's UID on the response, and an empty request.\<close>

definition answered :: "conversion_review \<Rightarrow> conversion_request \<Rightarrow> conversion_response \<Rightarrow> conversion_review" where
  "answered review req resp =
    review\<lparr>review_Response := Some (resp\<lparr>resp_UID := req_UID req\<rparr>),
      review_Request := Some \<lparr>req_UID = [], req_DesiredAPIVersion = [], req_Objects = []\<rparr>\<rparr>"

definition encodeReview ::
  "(serializer \<Rightarrow> conversion_review \<Rightarrow> string \<times> goerr option) \<Rightarrow> serializer option \<Rightarrow> string \<Rightarrow> conversion_review \<Rightarrow>
   http_response" where
  "encodeReview Encode outSerializer accept review =
    (case outSerializer of
       None \<Rightarrow> http_Error (sprint [''invalid accept header `'', accept, ''`'']) 400
     | Some ser \<Rightarrow>
        (case Encode ser review of
           (written, None) \<Rightarrow> \<lparr>http_Status = 200, http_Body = written\<rparr>
         | (written, Some err) \<Rightarrow>
            (let failed = http_Error (err_text err) 500 in
             if written = [] then failed else \<lparr>http_Status = 200, http_Body = written @ http_Body failed\<rparr>)))"

text \<open>A review without a request is a panic: its fields are read without a test.\<close>

definition serve ::
  "(string \<Rightarrow> string) \<Rightarrow> (serializer \<Rightarrow> string \<Rightarrow> goerr + decoded \<times> group_version_kind) \<Rightarrow>
   (serializer \<Rightarrow> conversion_review \<Rightarrow> string \<times> goerr option) \<Rightarrow> (string \<Rightarrow> mediaType list) \<Rightarrow> (nat \<Rightarrow> mediaType list) \<Rightarrow>
   (object \<Rightarrow> string \<Rightarrow> (string + object) option) \<Rightarrow> string \<Rightarrow> string \<Rightarrow> string \<Rightarrow> http_response option" where
  "serve syntaxText Decode Encode ParseAccept orders convert contentType accept body =
    (case getInputSerializer contentType of
       None \<Rightarrow> Some (http_Error (sprint [''invalid Content-Type header `'', contentType, ''`'']) 400)
     | Some ser \<Rightarrow>
        (case Decode ser body of
           Inl err \<Rightarrow> Some (http_Error
             (sprint [''failed to deserialize body ('', body, '') with error '', err_text err]) 400)
         | Inr (obj, gvk) \<Rightarrow>
            if gvk \<noteq> reviewKind then Some (http_Error (''Unsupported group version kind: '' @ gvkText gvk) 400)
            else (case obj of
               OtherType type \<Rightarrow> Some (http_Error (''Expected v1.ConversionReview but got: '' @ type) 400)
             | ReviewV1 review \<Rightarrow>
                Option.bind (review_Request review) (\<lambda>req.
                  map_option (\<lambda>resp. encodeReview Encode (getOutputSerializer ParseAccept orders accept) accept
                      (answered review req resp))
                    (doConversionV1 syntaxText convert req)))))"

section \<open>Paths of two fields\<close>

lemmas path_defs = infoListPath_def pairListPath_def

lemma fmupd_swap: "f \<noteq> g \<Longrightarrow> fmupd f v (fmupd g w m) = fmupd g w (fmupd f v m)"
  by (rule fmap_ext) auto

lemma fmupd_idem: "fmlookup m f = Some v \<Longrightarrow> fmupd f v m = m"
  by (rule fmap_ext) auto

lemma fmupd_twice [simp]: "fmupd f v (fmupd f w m) = fmupd f v m"
  by (rule fmap_ext) simp

lemma NestedSlice_two:
  assumes "fmlookup obj f = Some (JObject m)"
  shows "NestedSlice obj [f, g] =
    (case fmlookup m g of
       None \<Rightarrow> Inr None
     | Some (JArray xs) \<Rightarrow> Inr (Some xs)
     | Some v \<Rightarrow> Inl (accessorError [f, g] v ''[]interface{}''))"
  using assms by (auto simp: NestedSlice_def split: option.splits json.splits)

lemma SetNestedField_two:
  assumes "fmlookup obj f = Some (JObject m)"
  shows "SetNestedField done obj v [f, g] = Inr (fmupd f (JObject (fmupd g v m)) obj)"
  using assms by simp

lemma RemoveNestedField_two:
  assumes "fmlookup obj f = Some (JObject m)"
  shows "RemoveNestedField obj [f, g] = fmupd f (JObject (fmdrop g m)) obj"
  using assms by simp

lemma GetAnnotations_stored:
  assumes "fmlookup obj ''metadata'' = Some (JObject meta)" "fmlookup meta ''annotations'' = Some (JObject (fmmap JString a))"
  shows "GetAnnotations obj = Some a"
proof -
  have "fmpred (\<lambda>_. coercible) (fmmap JString a)" by (auto simp: fmpred_iff)
  moreover have "fmmap coerced (fmmap JString a) = a" by (rule fmap_ext) (simp add: option.map_comp comp_def option.map_ident)
  ultimately show ?thesis using assms by (simp add: GetAnnotations_def)
qed

lemma SetAnnotations_stored:
  assumes "fmlookup obj ''metadata'' = Some (JObject meta)"
  shows "SetAnnotations (Some a) obj =
    fmupd ''metadata'' (JObject (fmupd ''annotations'' (JObject (fmmap JString a)) meta)) obj"
  using assms by (simp add: SetAnnotations_def)

section \<open>What the conversions do\<close>

definition annotationsOf :: "object \<Rightarrow> strmap" where
  "annotationsOf obj = (case GetAnnotations obj of None \<Rightarrow> fmempty | Some a \<Rightarrow> a)"

text \<open>A content with metadata whose status holds a list of infos, as an object of version v1beta2.\<close>

definition holdsInfos :: "object \<Rightarrow> object \<Rightarrow> object \<Rightarrow> json list \<Rightarrow> bool" where
  "holdsInfos obj meta st infos \<longleftrightarrow>
    fmlookup obj ''metadata'' = Some (JObject meta) \<and> fmlookup obj ''status'' = Some (JObject st) \<and>
    fmlookup st ''volumeSnapshotInfoList'' = Some (JArray infos)"

definition downgraded :: "object \<Rightarrow> object \<Rightarrow> object \<Rightarrow> json list \<Rightarrow> json list \<Rightarrow> object" where
  "downgraded obj meta st infos pairs =
    fmupd ''status'' (JObject (fmdrop ''volumeSnapshotInfoList'' (fmupd ''volumeSnapshotHandlePairList'' (JArray pairs) st)))
      (fmupd ''metadata'' (JObject (fmupd ''annotations'' (JObject (fmmap JString
          (fmupd volumeSnapshotInfoAnnotationName (json_Marshal (JArray infos)) (annotationsOf obj)))) meta)) obj)"

lemma downgrade:
  assumes "holdsInfos obj meta st infos" "toPairs 0 infos = Inr pairs"
  shows "convertVolumeGroupSnapshotContentFromV1beta2ToV1beta1 obj = Inr (downgraded obj meta st infos pairs)"
  using assms
  by (simp add: convertVolumeGroupSnapshotContentFromV1beta2ToV1beta1_def holdsInfos_def path_defs NestedSlice_two
      withInfoAnnotation_def SetAnnotations_stored RemoveNestedField_two annotationsOf_def downgraded_def Let_def
      split: option.splits)

lemma upgrade_annotated:
  assumes "fmlookup obj ''metadata'' = Some (JObject meta)" "fmlookup obj ''status'' = Some (JObject st)"
    "GetAnnotations obj = Some a" "fmlookup a volumeSnapshotInfoAnnotationName = Some text"
    "json_Unmarshal text = Some (JArray infos)"
  shows "convertVolumeGroupSnapshotContentFromV1beta1ToV1beta2 syntaxText obj = Some (Inr
    (fmupd ''metadata'' (JObject (fmupd ''annotations'' (JObject (fmmap JString
        (fmdrop volumeSnapshotInfoAnnotationName a))) meta))
      (fmupd ''status'' (JObject (fmdrop ''volumeSnapshotHandlePairList'' (fmupd ''volumeSnapshotInfoList'' (JArray infos) st)))
        obj)))"
  using assms
  by (simp add: convertVolumeGroupSnapshotContentFromV1beta1ToV1beta2_def path_defs setInfoList_def SetAnnotations_stored)

text \<open>The entries of the list of pairs.\<close>

fun isMap :: "json \<Rightarrow> bool" where
  "isMap (JObject m) = True"
| "isMap _ = False"

fun toPair :: "json \<Rightarrow> json" where
  "toPair (JObject m) = JObject (fmdrop ''restoreSize'' (fmdrop ''readyToUse'' (fmdrop ''creationTime'' m)))"
| "toPair v = v"

lemma toPairs_ok: "toPairs i infos = Inr pairs \<longleftrightarrow> list_all isMap infos \<and> pairs = map toPair infos"
proof (induction infos arbitrary: i pairs)
  case (Cons x xs)
  show ?case
  proof (cases x)
    case (JObject m)
    then show ?thesis using Cons.IH[of "Suc i"] by (cases "toPairs (Suc i) xs") auto
  qed simp_all
qed auto

section \<open>There and back\<close>

text \<open>An integral float64 is the same JSON number as the integer.\<close>

primrec numericForm :: "json \<Rightarrow> json" where
  "numericForm JNull = JNull"
| "numericForm (JBool b) = JBool b"
| "numericForm (JInt n) = JInt n"
| "numericForm (JFloat x) = (case doubleInt x of Some n \<Rightarrow> JInt n | None \<Rightarrow> JFloat x)"
| "numericForm (JString s) = JString s"
| "numericForm (JArray xs) = JArray (map numericForm xs)"
| "numericForm (JObject m) = JObject (fmmap numericForm m)"

text \<open>The values that pass through the annotation unharmed: valid text, integers below \<open>2^53\<close>, bounded nesting.\<close>

primrec portable :: "json \<Rightarrow> nat \<Rightarrow> bool" where
  "portable JNull d = True"
| "portable (JBool b) d = True"
| "portable (JInt n) d = (\<bar>n\<bar> < 2 ^ 53)"
| "portable (JFloat x) d = False"
| "portable (JString s) d = validUtf8 s"
| "portable (JArray xs) d = (0 < d \<and> list_all (\<lambda>p. p (d - 1)) (map portable xs))"
| "portable (JObject m) d = (0 < d \<and> fmpred (\<lambda>k p. validUtf8 k \<and> p (d - 1)) (fmmap portable m))"

lemma floatNumber_small:
  assumes "\<bar>n\<bar> < 2 ^ 53"
  shows "\<exists>x. floatNumber (intLiteral n) = Some (JFloat x) \<and> doubleInt x = Some n"
proof -
  have "nat \<bar>n\<bar> < 2 ^ 53" using assms by (simp add: nat_less_iff)
  from toDouble_small[OF this, of "n < 0"] show ?thesis by (auto simp: floatNumber_def numberDouble_intLiteral)
qed

lemma portable_survives:
  "portable v d \<Longrightarrow> storable floatNumber d v \<and> numericForm (renumber floatNumber v) = numericForm v"
proof (induction v arbitrary: d)
  case (JInt n)
  then show ?case using floatNumber_small[of n] by auto
next
  case (JArray xs)
  obtain e where e: "d = Suc e" using JArray.prems by (cases d) auto
  have "portable x e" if "x \<in> set xs" for x using JArray.prems that by (auto simp: e list_all_iff)
  then have "storable floatNumber e x \<and> numericForm (renumber floatNumber x) = numericForm x" if "x \<in> set xs" for x
    using JArray.IH that by blast
  then show ?case by (auto simp: e intro: storable.intros)
next
  case (JObject m)
  obtain e where e: "d = Suc e" using JObject.prems by (cases d) auto
  have p: "validUtf8 k \<and> portable x e" if "fmlookup m k = Some x" for k x
    using JObject.prems that by (auto simp: e fmpred_iff)
  have ih: "storable floatNumber e x \<and> numericForm (renumber floatNumber x) = numericForm x" if "fmlookup m k = Some x" for k x
    using JObject.IH[OF fmran'I[OF that], of e] p[OF that] by blast
  have "fmmap (numericForm \<circ> renumber floatNumber) m = fmmap numericForm m"
    by (rule fmap_ext) (use ih in \<open>auto split: option.splits simp: option.map_comp comp_def intro!: option.map_cong\<close>)
  then show ?case using p ih by (auto simp: e fmap.map_comp comp_def intro!: storable.intros)
qed auto

text \<open>The object that comes back, whatever its annotations and its numbers.\<close>

lemma conversion_back:
  assumes infos: "holdsInfos obj meta st infos" "list_all isMap infos" "storable floatNumber 10000 (JArray infos)"
  shows "\<exists>obj1. convertVolumeGroupSnapshotContentFromV1beta2ToV1beta1 obj = Inr obj1 \<and>
    convertVolumeGroupSnapshotContentFromV1beta1ToV1beta2 syntaxText obj1 = Some (Inr
      (fmupd ''metadata'' (JObject (fmupd ''annotations'' (JObject (fmmap JString
          (fmdrop volumeSnapshotInfoAnnotationName (annotationsOf obj)))) meta))
        (fmupd ''status'' (JObject (fmupd ''volumeSnapshotInfoList'' (JArray (map (renumber floatNumber) infos))
          (fmdrop ''volumeSnapshotHandlePairList'' st))) obj)))"
proof -
  let ?vol = volumeSnapshotInfoAnnotationName and ?text = "json_Marshal (JArray infos)"
  define a where "a = fmupd ?vol ?text (annotationsOf obj)"
  define obj1 where "obj1 = downgraded obj meta st infos (map toPair infos)"
  have down: "convertVolumeGroupSnapshotContentFromV1beta2ToV1beta1 obj = Inr obj1"
    unfolding obj1_def by (rule downgrade) (use infos in \<open>simp_all add: toPairs_ok\<close>)
  define meta1 where "meta1 = fmupd ''annotations'' (JObject (fmmap JString a)) meta"
  define st1 where
    "st1 = fmdrop ''volumeSnapshotInfoList'' (fmupd ''volumeSnapshotHandlePairList'' (JArray (map toPair infos)) st)"
  have obj1: "obj1 = fmupd ''status'' (JObject st1) (fmupd ''metadata'' (JObject meta1) obj)"
    by (simp add: obj1_def downgraded_def meta1_def st1_def a_def)
  have read: "json_Unmarshal ?text = Some (JArray (map (renumber floatNumber) infos))"
    using unmarshalWith_marshal[OF infos(3)] by (simp add: json_Unmarshal_def)
  have "convertVolumeGroupSnapshotContentFromV1beta1ToV1beta2 syntaxText obj1 = Some (Inr
      (fmupd ''metadata'' (JObject (fmupd ''annotations'' (JObject (fmmap JString (fmdrop ?vol a))) meta1))
        (fmupd ''status'' (JObject (fmdrop ''volumeSnapshotHandlePairList''
            (fmupd ''volumeSnapshotInfoList'' (JArray (map (renumber floatNumber) infos)) st1))) obj1)))"
  proof (rule upgrade_annotated)
    show "GetAnnotations obj1 = Some a" 
      by (rule GetAnnotations_stored[of _ meta1]) (simp_all add: obj1, simp add: meta1_def)
    show "json_Unmarshal ?text = Some (JArray (map (renumber floatNumber) infos))" by (rule read)
  qed (simp_all add: obj1 a_def)
  moreover have "fmdrop ?vol a = fmdrop ?vol (annotationsOf obj)" by (rule fmap_ext) (simp add: a_def)
  moreover have "fmdrop ''volumeSnapshotHandlePairList''
      (fmupd ''volumeSnapshotInfoList'' (JArray (map (renumber floatNumber) infos)) st1) =
    fmupd ''volumeSnapshotInfoList'' (JArray (map (renumber floatNumber) infos)) (fmdrop ''volumeSnapshotHandlePairList'' st)"
    by (rule fmap_ext) (simp add: st1_def)
  ultimately show ?thesis using down by (simp add: obj1 meta1_def fmupd_swap[of "''status''" "''metadata''"])
qed

text \<open>C11: A content of version v1beta2 comes back from version v1beta1 as the same JSON document, up to the way a number is
  written, when its metadata has an annotations object of strings without the tracking annotation. A content without
  annotations comes back with an empty annotations object and is otherwise the same. The status has a list of infos and
  no list of handle pairs. The infos are objects whose values are booleans, null, valid texts, integers below 2 to the 53
  in absolute value, and lists and objects of these, nested to less than 10000 levels.\<close>

theorem conversion_roundtrip:
  assumes "holdsInfos obj meta st infos" "list_all isMap infos" "portable (JArray infos) 10000"
    and "fmlookup st ''volumeSnapshotHandlePairList'' = None"
    and ann: "fmlookup meta ''annotations'' = Some (JObject (fmmap JString a)) \<or>
      fmlookup meta ''annotations'' = None \<and> a = fmempty"
    and "fmlookup a volumeSnapshotInfoAnnotationName = None"
  shows "\<exists>obj1 obj2. convertVolumeGroupSnapshotContentFromV1beta2ToV1beta1 obj = Inr obj1 \<and>
    convertVolumeGroupSnapshotContentFromV1beta1ToV1beta2 syntaxText obj1 = Some (Inr obj2) \<and>
    numericForm (JObject obj2) = numericForm (JObject
      (if fmlookup meta ''annotations'' = None
       then fmupd ''metadata'' (JObject (fmupd ''annotations'' (JObject fmempty) meta)) obj else obj))"
proof -
  have s: "storable floatNumber 10000 (JArray infos)"
    and n: "numericForm (renumber floatNumber (JArray infos)) = numericForm (JArray infos)"
    using portable_survives[OF assms(3)] by blast+
  have o: "fmlookup obj ''metadata'' = Some (JObject meta)" "fmlookup obj ''status'' = Some (JObject st)"
    "fmlookup st ''volumeSnapshotInfoList'' = Some (JArray infos)"
    using assms(1) by (simp_all add: holdsInfos_def)
  have annOf: "annotationsOf obj = a"
  proof (cases "fmlookup meta ''annotations''")
    case None
    then have "GetAnnotations obj = None" using o(1) by (simp add: GetAnnotations_def)
    then show ?thesis using ann None by (simp add: annotationsOf_def)
  next
    case (Some x)
    then show ?thesis using GetAnnotations_stored[OF o(1)] ann by (simp add: annotationsOf_def)
  qed
  have drops: "fmdrop volumeSnapshotInfoAnnotationName a = a" "fmdrop ''volumeSnapshotHandlePairList'' st = st"
    using assms(4,6) by (auto intro: fmap_ext)
  define obj0 where "obj0 = (if fmlookup meta ''annotations'' = None
    then fmupd ''metadata'' (JObject (fmupd ''annotations'' (JObject fmempty) meta)) obj else obj)"
  have e: "fmmap JString fmempty = fmempty" by (rule fmap_ext) simp
  have meta: "fmupd ''metadata'' (JObject (fmupd ''annotations'' (JObject (fmmap JString a)) meta)) obj = obj0"
    using ann o(1) by (auto simp: obj0_def e fmupd_idem)
  have st0: "fmlookup obj0 ''status'' = Some (JObject st)" using o(2) by (simp add: obj0_def)
  define obj2 where "obj2 = fmupd ''status''
    (JObject (fmupd ''volumeSnapshotInfoList'' (JArray (map (renumber floatNumber) infos)) st)) obj0"
  have swap: "fmupd ''metadata'' (JObject (fmupd ''annotations'' (JObject (fmmap JString a)) meta)) (fmupd ''status'' x obj) =
      fmupd ''status'' x obj0" for x
    unfolding meta[symmetric] by (rule fmupd_swap) simp
  have there: "\<exists>obj1. convertVolumeGroupSnapshotContentFromV1beta2ToV1beta1 obj = Inr obj1 \<and>
      convertVolumeGroupSnapshotContentFromV1beta1ToV1beta2 syntaxText obj1 = Some (Inr obj2)"
    using conversion_back[OF assms(1,2) s, of syntaxText] unfolding annOf drops swap obj2_def .
  have "fmmap numericForm (fmupd ''volumeSnapshotInfoList'' (JArray (map (renumber floatNumber) infos)) st) =
      fmmap numericForm st"
    by (rule fmap_ext) (use n o(3) in auto)
  then have "fmmap numericForm obj2 = fmmap numericForm obj0" by (intro fmap_ext) (use st0 in \<open>auto simp: obj2_def\<close>)
  then show ?thesis using there unfolding obj0_def by auto
qed

text \<open>A content of version v1beta2 with one info, which holds a handle and a creation time.\<close>

definition exampleContent :: "int \<Rightarrow> object" where
  "exampleContent created = fmap_of_list
    [(''apiVersion'', JString v1beta2Version),
     (''kind'', JString ''VolumeGroupSnapshotContent''),
     (''metadata'', JObject (fmap_of_list [(''annotations'', JObject (fmap_of_list [(''a'', JString ''b'')]))])),
     (''status'', JObject (fmap_of_list [(''volumeSnapshotInfoList'',
        JArray [JObject (fmap_of_list [(''creationTime'', JInt created), (''snapshotHandle'', JString ''s1'')])])]))]"

lemma valid_keys: "validUtf8 ''creationTime''" "validUtf8 ''snapshotHandle''" "validUtf8 ''s1''"
  by code_simp+

theorem conversion_roundtrip_witness:
  "\<exists>obj1 obj2. convertVolumeGroupSnapshotContentFromV1beta2ToV1beta1 (exampleContent 7) = Inr obj1 \<and>
    convertVolumeGroupSnapshotContentFromV1beta1ToV1beta2 id obj1 = Some (Inr obj2) \<and>
    numericForm (JObject obj2) = numericForm (JObject (exampleContent 7))"
proof -
  let ?infos = "[JObject (fmap_of_list [(''creationTime'', JInt 7), (''snapshotHandle'', JString ''s1'')])]"
  let ?meta = "fmap_of_list [(''annotations'', JObject (fmap_of_list [(''a'', JString ''b'')]))]"
  have e: "fmupd ''a'' (JString ''b'') fmempty = fmmap JString (fmupd ''a'' ''b'' fmempty)" by (rule fmap_ext) simp
  have h: "holdsInfos (exampleContent 7) ?meta (fmap_of_list [(''volumeSnapshotInfoList'', JArray ?infos)]) ?infos"
    by (simp add: holdsInfos_def exampleContent_def)
  have p: "list_all isMap ?infos" "portable (JArray ?infos) 10000"
    by (auto simp: fmpred_iff valid_keys split: if_splits)
  have m: "fmlookup ?meta ''annotations'' = Some (JObject (fmmap JString (fmap_of_list [(''a'', ''b'')])))" by (simp add: e)
  have t: "fmlookup (fmap_of_list [(''a'', ''b'')]) volumeSnapshotInfoAnnotationName = None"
    by (simp add: volumeSnapshotInfoAnnotationName_def)
  have d: "fmlookup (fmap_of_list [(''volumeSnapshotInfoList'', JArray ?infos)]) ''volumeSnapshotHandlePairList'' = None"
    by simp
  show ?thesis using conversion_roundtrip[OF h p d disjI1[OF m] t, of id] m by simp
qed

text \<open>A creation time in nanoseconds of 2 to the 53 or more, as all of today are, comes back as an even number, so half of
  them come back changed; the number differs by at most the time divided by 2 to the 53.\<close>

theorem conversion_loses_nanoseconds:
  assumes "holdsInfos obj meta st [JObject (fmap_of_list [(''creationTime'', JInt n)])]" "2 ^ 53 \<le> n" "n < 2 ^ 63"
  shows "\<exists>obj1 obj2 x v. convertVolumeGroupSnapshotContentFromV1beta2ToV1beta1 obj = Inr obj1 \<and>
    convertVolumeGroupSnapshotContentFromV1beta1ToV1beta2 syntaxText obj1 = Some (Inr obj2) \<and>
    NestedSlice obj2 infoListPath = Inr (Some [JObject (fmap_of_list [(''creationTime'', JFloat x)])]) \<and>
    doubleInt x = Some v \<and> even v \<and> 2 ^ 53 * \<bar>v - n\<bar> \<le> n"
proof -
  have "2 ^ 53 \<le> nat n" "nat n \<le> 2 ^ 63" using assms(2,3) by (simp_all add: le_nat_iff)
  from toDouble_large[OF this, of False] obtain x v where
    x: "toDouble False (nat n) 1 = Some x" and v: "doubleInt x = Some v" "even v" "2 ^ 53 * \<bar>v - n\<bar> \<le> n"
    using assms(2) by auto
  have num: "floatNumber (intLiteral n) = Some (JFloat x)"
    using x assms(2) by (simp add: floatNumber_def numberDouble_intLiteral)
  let ?infos = "[JObject (fmap_of_list [(''creationTime'', JInt n)])]"
  have "storable floatNumber 9999 (JObject (fmap_of_list [(''creationTime'', JInt n)]))"
    using storable.intros(6)[of "fmap_of_list [(''creationTime'', JInt n)]" floatNumber 9998] num
    by (simp add: valid_keys split: if_splits)
  then have s: "storable floatNumber 10000 (JArray ?infos)" using storable.intros(5)[of ?infos floatNumber 9999] by simp
  have r: "map (renumber floatNumber) ?infos = [JObject (fmap_of_list [(''creationTime'', JFloat x)])]"
    using num by (auto intro: fmap_ext)
  obtain obj1 obj2 where "convertVolumeGroupSnapshotContentFromV1beta2ToV1beta1 obj = Inr obj1"
    "convertVolumeGroupSnapshotContentFromV1beta1ToV1beta2 syntaxText obj1 = Some (Inr obj2)"
    and obj2: "obj2 = fmupd ''metadata'' (JObject (fmupd ''annotations'' (JObject (fmmap JString
          (fmdrop volumeSnapshotInfoAnnotationName (annotationsOf obj)))) meta))
        (fmupd ''status'' (JObject (fmupd ''volumeSnapshotInfoList'' (JArray (map (renumber floatNumber) ?infos))
          (fmdrop ''volumeSnapshotHandlePairList'' st))) obj)"
    using conversion_back[OF assms(1) _ s, of syntaxText] by auto
  moreover have "NestedSlice obj2 infoListPath = Inr (Some (map (renumber floatNumber) ?infos))"
    by (simp add: obj2 path_defs NestedSlice_two)
  ultimately show ?thesis using v unfolding r by blast
qed

lemma conversion_loses_nanoseconds_witness:
  "\<exists>obj1 obj2 x v. convertVolumeGroupSnapshotContentFromV1beta2ToV1beta1 (fmap_of_list
      [(''metadata'', JObject fmempty), (''status'', JObject (fmap_of_list
        [(''volumeSnapshotInfoList'', JArray [JObject (fmap_of_list [(''creationTime'', JInt 1750000000123456789)])])]))]) =
      Inr obj1 \<and>
    convertVolumeGroupSnapshotContentFromV1beta1ToV1beta2 id obj1 = Some (Inr obj2) \<and>
    NestedSlice obj2 infoListPath = Inr (Some [JObject (fmap_of_list [(''creationTime'', JFloat x)])]) \<and>
    doubleInt x = Some v \<and> even v \<and> 2 ^ 53 * \<bar>v - 1750000000123456789\<bar> \<le> 1750000000123456789"
  by (rule conversion_loses_nanoseconds[where meta = fmempty and st = "fmap_of_list
      [(''volumeSnapshotInfoList'', JArray [JObject (fmap_of_list [(''creationTime'', JInt 1750000000123456789)])])]"])
    (simp_all add: holdsInfos_def)

text \<open>The conversion of one object panics exactly when a content goes from version v1beta1 to version v1beta2 with a
  tracking annotation that is JSON but not an array.\<close>

theorem conversion_panics_iff:
  "convertGroupSnapshotCRD syntaxText obj toVersion = None \<longleftrightarrow>
    GetKind obj = ''VolumeGroupSnapshotContent'' \<and> GetAPIVersion obj = v1beta1Version \<and> toVersion = v1beta2Version \<and>
    (\<exists>a text v. GetAnnotations obj = Some a \<and> fmlookup a volumeSnapshotInfoAnnotationName = Some text \<and>
      json_Unmarshal text = Some v \<and> (\<nexists>xs. v = JArray xs))"
proof -
  have "convertVolumeGroupSnapshotContentFromV1beta1ToV1beta2 syntaxText obj = None \<longleftrightarrow>
    (\<exists>a text v. GetAnnotations obj = Some a \<and> fmlookup a volumeSnapshotInfoAnnotationName = Some text \<and>
      json_Unmarshal text = Some v \<and> (\<nexists>xs. v = JArray xs))"
    unfolding convertVolumeGroupSnapshotContentFromV1beta1ToV1beta2_def Let_def
    by (cases "Option.bind (GetAnnotations obj) (\<lambda>a. fmlookup a volumeSnapshotInfoAnnotationName)")
      (auto simp: bind_eq_Some_conv bind_eq_None_conv split: option.splits sum.splits json.splits)
  then show ?thesis by (auto simp: convertGroupSnapshotCRD_def Let_def v1beta1Version_def v1beta2Version_def)
qed

text \<open>The two fields below a field of an object.\<close>

definition field2 :: "object \<Rightarrow> string \<Rightarrow> string \<Rightarrow> json option" where
  "field2 obj f g = (case fmlookup obj f of Some (JObject m) \<Rightarrow> fmlookup m g | _ \<Rightarrow> None)"

text \<open>Two objects that differ at most in what the conversions write.\<close>

definition sameElsewhere :: "object \<Rightarrow> object \<Rightarrow> bool" where
  "sameElsewhere obj obj' \<longleftrightarrow>
    (\<forall>f. f \<notin> {''metadata'', ''status''} \<longrightarrow> fmlookup obj' f = fmlookup obj f) \<and>
    (\<forall>g. g \<noteq> ''annotations'' \<longrightarrow> field2 obj' ''metadata'' g = field2 obj ''metadata'' g) \<and>
    (\<forall>g. g \<notin> {''volumeSnapshotInfoList'', ''volumeSnapshotHandlePairList''} \<longrightarrow>
      field2 obj' ''status'' g = field2 obj ''status'' g)"

lemma sameElsewhere_refl: "sameElsewhere obj obj"
  by (simp add: sameElsewhere_def)

lemma sameElsewhere_trans: "sameElsewhere a b \<Longrightarrow> sameElsewhere b c \<Longrightarrow> sameElsewhere a c"
  by (simp add: sameElsewhere_def)

lemma sameElsewhere_steps:
  "sameElsewhere obj (RemoveNestedField obj pairListPath)" "sameElsewhere obj (RemoveNestedField obj infoListPath)"
  "SetNestedField done obj v pairListPath = Inr obj' \<Longrightarrow> sameElsewhere obj obj'"
  "SetNestedField done obj v infoListPath = Inr obj' \<Longrightarrow> sameElsewhere obj obj'"
  "setInfoList xs obj = Inr obj' \<Longrightarrow> sameElsewhere obj obj'"
  "sameElsewhere obj (SetAnnotations a obj)"
  by (auto simp: sameElsewhere_def field2_def path_defs setInfoList_def SetAnnotations_def
      split: option.splits json.splits sum.splits)

lemmas sameElsewhere_then = sameElsewhere_refl sameElsewhere_trans[OF _ sameElsewhere_steps(1)]
  sameElsewhere_trans[OF _ sameElsewhere_steps(2)] sameElsewhere_trans[OF _ sameElsewhere_steps(3)]
  sameElsewhere_trans[OF _ sameElsewhere_steps(5)] sameElsewhere_trans[OF _ sameElsewhere_steps(6)]

lemma upgrade_elsewhere:
  "convertVolumeGroupSnapshotContentFromV1beta1ToV1beta2 syntaxText obj = Some (Inr obj') \<Longrightarrow> sameElsewhere obj obj'"
  unfolding convertVolumeGroupSnapshotContentFromV1beta1ToV1beta2_def Let_def
  by (auto split: option.splits sum.splits json.splits simp: sameElsewhere_refl) (blast intro: sameElsewhere_then)+

lemma downgrade_elsewhere:
  "convertVolumeGroupSnapshotContentFromV1beta2ToV1beta1 obj = Inr obj' \<Longrightarrow> sameElsewhere obj obj'"
  unfolding convertVolumeGroupSnapshotContentFromV1beta2ToV1beta1_def withInfoAnnotation_def Let_def
  by (auto split: option.splits sum.splits simp: sameElsewhere_refl) (blast intro: sameElsewhere_then)+

text \<open>A successful conversion changes nothing of an object but its annotations and the two lists of its status.\<close>

theorem conversion_footprint:
  "convertGroupSnapshotCRD syntaxText obj toVersion = Some (Inr obj') \<Longrightarrow> sameElsewhere obj obj'"
  by (auto simp: convertGroupSnapshotCRD_def Let_def map_sum_Inr split: if_splits
      dest: upgrade_elsewhere downgrade_elsewhere)

lemma conversion_footprint_witness:
  "\<exists>obj. convertGroupSnapshotCRD id (exampleContent 7) v1beta1Version = Some (Inr obj) \<and> sameElsewhere (exampleContent 7) obj"
proof -
  let ?info = "JObject (fmap_of_list [(''creationTime'', JInt 7), (''snapshotHandle'', JString ''s1'')])"
  have "\<exists>meta st. holdsInfos (exampleContent 7) meta st [?info]" by (auto simp: holdsInfos_def exampleContent_def)
  then obtain meta st where h: "holdsInfos (exampleContent 7) meta st [?info]" by blast
  have "toPairs 0 [?info] = Inr [toPair ?info]" by (simp add: toPairs_ok)
  note d = downgrade[OF h this]
  have c: "convertGroupSnapshotCRD id (exampleContent 7) v1beta1Version =
      Some (Inr (downgraded (exampleContent 7) meta st [?info] [toPair ?info]))"
    unfolding convertGroupSnapshotCRD_def d
    by (simp add: exampleContent_def GetAPIVersion_def GetKind_def getNestedString_def v1beta1Version_def v1beta2Version_def)
  show ?thesis using c conversion_footprint[OF c] by blast
qed

section \<open>What a request gets\<close>

text \<open>An object and what becomes of it.\<close>

definition convertsTo ::
  "(string \<Rightarrow> string) \<Rightarrow> (object \<Rightarrow> string \<Rightarrow> (string + object) option) \<Rightarrow> string \<Rightarrow> string \<Rightarrow> object \<Rightarrow> bool" where
  "convertsTo syntaxText convert desired raw out \<longleftrightarrow>
    (case UnmarshalJSON syntaxText raw of
       Inl _ \<Rightarrow> False
     | Inr cr \<Rightarrow> (case convert cr desired of Some (Inr c) \<Rightarrow> out = SetAPIVersion desired c | _ \<Rightarrow> False))"

lemma convertsTo_iff:
  "convertsTo syntaxText convert desired raw out \<longleftrightarrow>
    (\<exists>cr c. UnmarshalJSON syntaxText raw = Inr cr \<and> convert cr desired = Some (Inr c) \<and> out = SetAPIVersion desired c)"
proof (cases "UnmarshalJSON syntaxText raw")
  case (Inr cr)
  show ?thesis
  proof (cases "convert cr desired")
    case (Some r)
    then show ?thesis using Inr by (cases r) (auto simp: convertsTo_def)
  qed (simp add: Inr convertsTo_def)
qed (simp add: convertsTo_def)

lemma convertObjects_ok:
  "convertObjects syntaxText convert desired acc raws = Some (Inr outs) \<longleftrightarrow>
    (\<exists>rest. outs = acc @ rest \<and> list_all2 (convertsTo syntaxText convert desired) raws rest)"
proof (induction raws arbitrary: acc)
  case (Cons raw raws)
  then show ?case
    by (auto simp: convertsTo_def list_all2_Cons1 split: sum.splits option.splits)
qed auto

lemma convertObjects_panic:
  "convertObjects syntaxText convert desired acc raws = None \<longleftrightarrow>
    (\<exists>before raw rest outs cr. raws = before @ raw # rest \<and>
       list_all2 (convertsTo syntaxText convert desired) before outs \<and>
       UnmarshalJSON syntaxText raw = Inr cr \<and> convert cr desired = None)"
proof (induction raws arbitrary: acc)
  case (Cons raw raws)
  show ?case (is "?l \<longleftrightarrow> (\<exists>before x rest outs cr. ?p before x rest outs cr)")
  proof
    assume ?l
    then obtain cr where cr: "UnmarshalJSON syntaxText raw = Inr cr" by (auto split: sum.splits)
    show "\<exists>before x rest outs cr. ?p before x rest outs cr"
    proof (cases "convert cr desired")
      case None
      then have "?p [] raw raws [] cr" using cr by simp
      then show ?thesis by blast
    next
      case (Some r)
      then obtain c where c: "r = Inr c" using \<open>?l\<close> cr by (cases r) auto
      then obtain before x rest outs cr' where "raws = before @ x # rest"
          "list_all2 (convertsTo syntaxText convert desired) before outs"
          "UnmarshalJSON syntaxText x = Inr cr'" "convert cr' desired = None"
        using \<open>?l\<close> cr Some Cons.IH[of "acc @ [SetAPIVersion desired c]"] by auto
      moreover have "convertsTo syntaxText convert desired raw (SetAPIVersion desired c)"
        using cr Some c by (simp add: convertsTo_def)
      ultimately have "?p (raw # before) x rest (SetAPIVersion desired c # outs) cr'" by simp
      then show ?thesis by blast
    qed
  next
    assume "\<exists>before x rest outs cr. ?p before x rest outs cr"
    then obtain before x rest outs cr where p: "?p before x rest outs cr" by blast
    show ?l
    proof (cases before)
      case Nil
      then show ?thesis using p by auto
    next
      case (Cons y ys)
      then obtain o1 os where os: "convertsTo syntaxText convert desired raw o1"
          "list_all2 (convertsTo syntaxText convert desired) ys os" "raws = ys @ x # rest"
        using p by (auto simp: list_all2_Cons1)
      then obtain cr0 c where "UnmarshalJSON syntaxText raw = Inr cr0" "convert cr0 desired = Some (Inr c)"
        by (auto simp: convertsTo_iff)
      moreover have "convertObjects syntaxText convert desired acc' raws = None" for acc'
        using Cons.IH[of acc'] os p by blast
      ultimately show ?thesis by simp
    qed
  qed
qed simp

text \<open>A response without a failure holds every object of the request, in their order, each converted to the desired
  version; a response with one holds none.\<close>

theorem doConversionV1_all_or_nothing:
  assumes "doConversionV1 syntaxText convert req = Some resp"
  shows "if resp_Failure resp = None
    then list_all2 (convertsTo syntaxText convert (req_DesiredAPIVersion req)) (req_Objects req) (resp_ConvertedObjects resp)
    else resp_ConvertedObjects resp = [] \<and>
      (\<nexists>outs. list_all2 (convertsTo syntaxText convert (req_DesiredAPIVersion req)) (req_Objects req) outs)"
proof -
  let ?raws = "req_Objects req" and ?ok = "list_all2 (convertsTo syntaxText convert (req_DesiredAPIVersion req))"
  obtain r where r: "convertObjects syntaxText convert (req_DesiredAPIVersion req) [] ?raws = Some r"
    using assms by (auto simp: doConversionV1_def)
  have ok: "r = Inr outs \<longleftrightarrow> ?ok ?raws outs" for outs
    using convertObjects_ok[of syntaxText convert "req_DesiredAPIVersion req" "[]" ?raws outs] by (simp add: r)
  show ?thesis
  proof (cases r)
    case (Inl message)
    then have "resp_Failure resp = Some message" "resp_ConvertedObjects resp = []"
      using assms r by (auto simp: doConversionV1_def)
    moreover have "\<not> ?ok ?raws outs" for outs using ok[of outs] Inl by simp
    ultimately show ?thesis by simp
  next
    case (Inr outs)
    then have "resp_Failure resp = None" "resp_ConvertedObjects resp = outs"
      using assms r by (auto simp: doConversionV1_def)
    then show ?thesis using ok[of outs] Inr by simp
  qed
qed

definition exampleRequest :: conversion_request where
  "exampleRequest = \<lparr>req_UID = ''u'', req_DesiredAPIVersion = v1beta1Version, req_Objects = [''[]'']\<rparr>"

lemma doConversionV1_all_or_nothing_witness:
  "\<nexists>outs. list_all2 (convertsTo id (convertGroupSnapshotCRD id) v1beta1Version) [''[]''] outs"
proof -
  have bad: "utiljson_Unmarshal ''[]'' = Some (JArray [])" by code_simp
  have "doConversionV1 id (convertGroupSnapshotCRD id) exampleRequest = Some
      \<lparr>resp_UID = [], resp_ConvertedObjects = [], resp_Failure = Some
        (''failed to unmarshall object ([]) with error: []'')\<rparr>"
    by (simp add: doConversionV1_def exampleRequest_def UnmarshalJSON_def bad sprint_def)
  from doConversionV1_all_or_nothing[OF this] show ?thesis by (simp add: exampleRequest_def)
qed

text \<open>The handler panics exactly on a review of version v1 that has no request, or whose request has an object on which the
  conversion panics after its predecessors were converted.\<close>

theorem serve_panics_iff:
  "serve syntaxText Decode Encode ParseAccept orders convert contentType accept body = None \<longleftrightarrow>
    (\<exists>ser review. getInputSerializer contentType = Some ser \<and> Decode ser body = Inr (ReviewV1 review, reviewKind) \<and>
      (case review_Request review of
         None \<Rightarrow> True
       | Some req \<Rightarrow> (\<exists>before raw rest outs cr. req_Objects req = before @ raw # rest \<and>
           list_all2 (convertsTo syntaxText convert (req_DesiredAPIVersion req)) before outs \<and>
           UnmarshalJSON syntaxText raw = Inr cr \<and> convert cr (req_DesiredAPIVersion req) = None)))"
proof -
  have conv: "doConversionV1 syntaxText convert req = None \<longleftrightarrow>
    (\<exists>before raw rest outs cr. req_Objects req = before @ raw # rest \<and>
       list_all2 (convertsTo syntaxText convert (req_DesiredAPIVersion req)) before outs \<and>
       UnmarshalJSON syntaxText raw = Inr cr \<and> convert cr (req_DesiredAPIVersion req) = None)" for req
    unfolding doConversionV1_def using convertObjects_panic by simp
  show ?thesis
  proof (cases "\<exists>ser review. getInputSerializer contentType = Some ser \<and> Decode ser body = Inr (ReviewV1 review, reviewKind)")
    case True
    then obtain ser review where "getInputSerializer contentType = Some ser" "Decode ser body = Inr (ReviewV1 review, reviewKind)"
      by blast
    then show ?thesis by (cases "review_Request review") (simp_all add: serve_def conv)
  next
    case False
    then have "serve syntaxText Decode Encode ParseAccept orders convert contentType accept body \<noteq> None"
      by (auto simp: serve_def split: option.splits sum.splits decoded.splits)
    then show ?thesis using False by blast
  qed
qed

text \<open>C22: The webhook, serving the conversion of group snapshot objects, panics exactly on two kinds of review of version v1.
  One has no request. The other asks for version v1beta2, and among its objects is a content of version v1beta1, all
  objects before it being converted, whose tracking annotation is text that is JSON but not an array.\<close>

theorem webhook_panics_iff:
  "serve syntaxText Decode Encode ParseAccept orders (convertGroupSnapshotCRD syntaxText) contentType accept body = None \<longleftrightarrow>
    (\<exists>ser review. getInputSerializer contentType = Some ser \<and> Decode ser body = Inr (ReviewV1 review, reviewKind) \<and>
      (case review_Request review of
         None \<Rightarrow> True
       | Some req \<Rightarrow> req_DesiredAPIVersion req = v1beta2Version \<and>
          (\<exists>before raw rest outs cr a text v. req_Objects req = before @ raw # rest \<and>
             list_all2 (convertsTo syntaxText (convertGroupSnapshotCRD syntaxText) v1beta2Version) before outs \<and>
             UnmarshalJSON syntaxText raw = Inr cr \<and>
             GetKind cr = ''VolumeGroupSnapshotContent'' \<and> GetAPIVersion cr = v1beta1Version \<and>
             GetAnnotations cr = Some a \<and> fmlookup a volumeSnapshotInfoAnnotationName = Some text \<and>
             json_Unmarshal text = Some v \<and> (\<nexists>xs. v = JArray xs))))"
proof -
  have inner: "(\<exists>before raw rest outs cr. req_Objects req = before @ raw # rest \<and>
         list_all2 (convertsTo syntaxText (convertGroupSnapshotCRD syntaxText) (req_DesiredAPIVersion req)) before outs \<and>
         UnmarshalJSON syntaxText raw = Inr cr \<and> convertGroupSnapshotCRD syntaxText cr (req_DesiredAPIVersion req) = None) \<longleftrightarrow>
      req_DesiredAPIVersion req = v1beta2Version \<and>
      (\<exists>before raw rest outs cr a text v. req_Objects req = before @ raw # rest \<and>
         list_all2 (convertsTo syntaxText (convertGroupSnapshotCRD syntaxText) v1beta2Version) before outs \<and>
         UnmarshalJSON syntaxText raw = Inr cr \<and>
         GetKind cr = ''VolumeGroupSnapshotContent'' \<and> GetAPIVersion cr = v1beta1Version \<and>
         GetAnnotations cr = Some a \<and> fmlookup a volumeSnapshotInfoAnnotationName = Some text \<and>
         json_Unmarshal text = Some v \<and> (\<nexists>xs. v = JArray xs))" for req
  proof (cases "req_DesiredAPIVersion req = v1beta2Version")
    case True
    show ?thesis unfolding conversion_panics_iff True by blast
  qed (simp add: conversion_panics_iff)
  show ?thesis unfolding serve_panics_iff inner ..
qed

end
