(* ===== verification/Certs.thy ===== *)
theory Certs
  imports Prelude "HOL-Library.Word"
begin

text \<open>
  The certificate watcher of the webhook (\<open>pkg/webhook/certwatcher.go\<close>) and the start of the webhook
  (\<open>cmd/snapshot-conversion-webhook/main.go\<close>). Files and their watches are the environment: what a load of the key
  pair gives at each event, and whether a watch can be added, come with the event. \<open>'cert\<close> is a parsed key pair.
\<close>

unbundle bit_operations_syntax

section \<open>Events\<close>

text \<open>The bits of \<open>fsnotify.Op\<close>, a uint32.\<close>

definition fsnotify_Create :: "32 word" where
  "fsnotify_Create = 1"

definition fsnotify_Write :: "32 word" where
  "fsnotify_Write = 2"

definition fsnotify_Remove :: "32 word" where
  "fsnotify_Remove = 4"

definition fsnotify_Rename :: "32 word" where
  "fsnotify_Rename = 8"

definition fsnotify_Chmod :: "32 word" where
  "fsnotify_Chmod = 16"

record event =
  ev_Name :: string
  ev_Op :: "32 word"

definition isWrite :: "event \<Rightarrow> bool" where
  "isWrite ev \<longleftrightarrow> ev_Op ev AND fsnotify_Write = fsnotify_Write"

definition isCreate :: "event \<Rightarrow> bool" where
  "isCreate ev \<longleftrightarrow> ev_Op ev AND fsnotify_Create = fsnotify_Create"

definition isRemove :: "event \<Rightarrow> bool" where
  "isRemove ev \<longleftrightarrow> ev_Op ev AND fsnotify_Remove = fsnotify_Remove"

section \<open>The watcher\<close>

text \<open>\<open>cw_Watches\<close> is what the watcher was asked to watch; \<open>cw_Log\<close> holds the errors that were only logged.\<close>

record 'cert cert_watcher =
  cw_currentCert :: "'cert option"
  cw_certPath :: string
  cw_keyPath :: string
  cw_Watches :: "string list"
  cw_Log :: "string list"

type_synonym 'cert load = "goerr + 'cert"

definition ReadCertificate :: "'cert load \<Rightarrow> 'cert cert_watcher \<Rightarrow> goerr option \<times> 'cert cert_watcher" where
  "ReadCertificate loaded cw =
    (case loaded of
       Inl err \<Rightarrow> (Some err, cw)
     | Inr cert \<Rightarrow> (None, cw\<lparr>cw_currentCert := Some cert\<rparr>))"

text \<open>A watcher is made after the first load; \<open>newWatcher\<close> is the error of \<open>fsnotify\<close>, if any.\<close>

definition NewCertWatcher ::
  "'cert load \<Rightarrow> goerr option \<Rightarrow> string \<Rightarrow> string \<Rightarrow> goerr + 'cert cert_watcher" where
  "NewCertWatcher loaded newWatcher certPath keyPath =
    (case ReadCertificate loaded
        \<lparr>cw_currentCert = None, cw_certPath = certPath, cw_keyPath = keyPath, cw_Watches = [], cw_Log = []\<rparr> of
       (Some err, cw) \<Rightarrow> Inl err
     | (None, cw) \<Rightarrow> (case newWatcher of Some err \<Rightarrow> Inl err | None \<Rightarrow> Inr cw))"

definition GetCertificate :: "'cert cert_watcher \<Rightarrow> 'cert option" where
  "GetCertificate cw = cw_currentCert cw"

definition addWatch :: "goerr option \<Rightarrow> string \<Rightarrow> 'cert cert_watcher \<Rightarrow> goerr option \<times> 'cert cert_watcher" where
  "addWatch result name cw =
    (case result of None \<Rightarrow> (None, cw\<lparr>cw_Watches := cw_Watches cw @ [name]\<rparr>) | Some err \<Rightarrow> (Some err, cw))"

definition logError :: "string \<Rightarrow> goerr option \<Rightarrow> 'cert cert_watcher \<Rightarrow> 'cert cert_watcher" where
  "logError msg err cw =
    (case err of None \<Rightarrow> cw | Some e \<Rightarrow> cw\<lparr>cw_Log := cw_Log cw @ [sprint [err_text e, msg]]\<rparr>)"

definition handleEvent :: "goerr option \<Rightarrow> 'cert load \<Rightarrow> event \<Rightarrow> 'cert cert_watcher \<Rightarrow> 'cert cert_watcher" where
  "handleEvent added loaded ev cw =
    (if \<not> (isWrite ev \<or> isRemove ev \<or> isCreate ev) then cw
     else let cw = (if isRemove ev
            then (let (err, cw) = addWatch added (ev_Name ev) cw in logError ''error re-watching file'' err cw) else cw);
          (err, cw) = ReadCertificate loaded cw
       in logError ''error re-reading certificate'' err cw)"

text \<open>What the loop receives, until one of the two channels is closed.\<close>

datatype 'cert signal =
    Event event "goerr option" "'cert load"
  | WatchError goerr
  | Closed

fun Watch :: "'cert signal list \<Rightarrow> 'cert cert_watcher \<Rightarrow> 'cert cert_watcher" where
  "Watch [] cw = cw"
| "Watch (Event ev added loaded # ss) cw = Watch ss (handleEvent added loaded ev cw)"
| "Watch (WatchError err # ss) cw = Watch ss (logError ''certificate watch error'' (Some err) cw)"
| "Watch (Closed # ss) cw = cw"

text \<open>
  The two files are watched, then events are handled until the context ends and the watcher is closed: an error of the
  first two watches ends the watcher before that.
\<close>

fun addWatches :: "(string \<times> goerr option) list \<Rightarrow> 'cert cert_watcher \<Rightarrow> goerr option \<times> 'cert cert_watcher" where
  "addWatches [] cw = (None, cw)"
| "addWatches ((f, added) # fs) cw =
    (case addWatch added f cw of (Some err, cw) \<Rightarrow> (Some err, cw) | (None, cw) \<Rightarrow> addWatches fs cw)"

definition Start ::
  "(string \<Rightarrow> goerr option) \<Rightarrow> 'cert signal list \<Rightarrow> goerr option \<Rightarrow> 'cert cert_watcher \<Rightarrow>
   goerr option \<times> 'cert cert_watcher" where
  "Start add signals close cw =
    (case addWatches [(f, add f). f \<leftarrow> [cw_certPath cw, cw_keyPath cw]] cw of
       (Some err, cw) \<Rightarrow> (Some err, cw)
     | (None, cw) \<Rightarrow> (close, Watch signals cw))"

section \<open>The start of the webhook\<close>

text \<open>A fatal message, or what the server's certificates come from.\<close>

definition webhookMain ::
  "string \<Rightarrow> string \<Rightarrow> 'cert load \<Rightarrow> goerr option \<Rightarrow> string + 'cert cert_watcher" where
  "webhookMain certFile keyFile loaded newWatcher =
    (if certFile = [] then Inl ''--tls-cert-file must be specified''
     else if keyFile = [] then Inl ''--tls-private-key-file must be specified''
     else case NewCertWatcher loaded newWatcher certFile keyFile of
       Inl err \<Rightarrow> Inl (sprint [''failed to initialize new cert watcher: '', err_text err])
     | Inr cw \<Rightarrow> Inr cw)"

section \<open>The certificate that is served\<close>

text \<open>The loads that the loop makes, in order.\<close>

fun loads :: "'cert signal list \<Rightarrow> 'cert load list" where
  "loads [] = []"
| "loads (Event ev added loaded # ss) =
    (if isWrite ev \<or> isRemove ev \<or> isCreate ev then loaded # loads ss else loads ss)"
| "loads (WatchError err # ss) = loads ss"
| "loads (Closed # ss) = []"

fun latest :: "'cert option \<Rightarrow> 'cert load list \<Rightarrow> 'cert option" where
  "latest c [] = c"
| "latest c (Inl err # ls) = latest c ls"
| "latest c (Inr cert # ls) = latest (Some cert) ls"

lemma logError_cert [simp]: "cw_currentCert (logError msg err cw) = cw_currentCert cw"
  by (simp add: logError_def split: option.splits)

lemma addWatch_cert: "addWatch added f cw = (err, cw') \<Longrightarrow> cw_currentCert cw' = cw_currentCert cw"
  by (auto simp: addWatch_def split: option.splits)

lemma ReadCertificate_cert [simp]:
  "cw_currentCert (snd (ReadCertificate loaded cw)) = latest (cw_currentCert cw) [loaded]"
  by (cases loaded) (simp_all add: ReadCertificate_def)

lemma handleEvent_cert [simp]:
  "cw_currentCert (handleEvent added loaded ev cw) =
    (if isWrite ev \<or> isRemove ev \<or> isCreate ev then latest (cw_currentCert cw) [loaded] else cw_currentCert cw)"
proof -
  have "cw_currentCert (snd (addWatch added f cw)) = cw_currentCert cw" for f
    using addWatch_cert[of added f cw] by (metis prod.collapse)
  then show ?thesis by (simp add: handleEvent_def case_prod_unfold Let_def)
qed

lemma latest_Cons: "latest c (l # ls) = latest (latest c [l]) ls"
  by (cases l) simp_all

lemma Watch_cert: "cw_currentCert (Watch ss cw) = latest (cw_currentCert cw) (loads ss)"
proof (induction ss cw rule: Watch.induct)
  case (2 ev added loaded ss cw)
  then show ?case by (simp add: latest_Cons[of _ loaded "loads ss"])
qed simp_all

lemma latest_Some: "latest (Some cert) ls = Some (last (cert # [c. Inr c \<leftarrow> ls]))"
proof (induction ls arbitrary: cert)
  case (Cons l ls)
  then show ?case by (cases l) simp_all
qed simp

text \<open>C31: After any events, a webhook that has started serves the key pair that was last loaded without an error: a load
  that fails keeps the pair before it, and there always is one.\<close>

theorem certificate_is_last_good:
  assumes "webhookMain certFile keyFile loaded newWatcher = Inr cw"
    and "Start add signals close cw = (err, cw')"
  shows "\<exists>cert. loaded = Inr cert \<and>
    GetCertificate cw' = Some (last (cert # (if add certFile = None \<and> add keyFile = None
      then [c. Inr c \<leftarrow> loads signals] else [])))"
proof -
  obtain cert where cert: "loaded = Inr cert" and cw: "cw = \<lparr>cw_currentCert = Some cert, cw_certPath = certFile,
      cw_keyPath = keyFile, cw_Watches = [], cw_Log = []\<rparr>"
    using assms(1) by (auto simp: webhookMain_def NewCertWatcher_def ReadCertificate_def
        split: if_splits sum.splits option.splits)
  show ?thesis
  proof (cases "add certFile = None \<and> add keyFile = None")
    case True
    then have "cw_currentCert cw' = latest (Some cert) (loads signals)"
      using assms(2) by (auto simp: Start_def cw addWatch_def Watch_cert)
    then show ?thesis using True cert by (simp add: GetCertificate_def latest_Some del: last.simps)
  next
    case False
    then have "cw_currentCert cw' = Some cert"
      using assms(2) by (auto simp: Start_def cw addWatch_def split: option.splits)
    then show ?thesis using False cert by (auto simp: GetCertificate_def)
  qed
qed

lemma certificate_is_last_good_witness:
  "\<exists>cert. (Inr 1 :: nat load) = Inr cert \<and>
    GetCertificate (Watch [Event \<lparr>ev_Name = ''c'', ev_Op = 6\<rparr> None (Inl (Errorf ''torn'')),
        Event \<lparr>ev_Name = ''c'', ev_Op = 2\<rparr> None (Inr 2), Event \<lparr>ev_Name = ''c'', ev_Op = 16\<rparr> None (Inr 3)]
      \<lparr>cw_currentCert = Some 1, cw_certPath = ''c'', cw_keyPath = ''k'', cw_Watches = [''c'', ''k''], cw_Log = []\<rparr>) =
    Some (last (cert # (if None = None \<and> None = None then [2] else [])))"
proof -
  let ?ss = "[Event \<lparr>ev_Name = ''c'', ev_Op = 6\<rparr> None (Inl (Errorf ''torn'')),
        Event \<lparr>ev_Name = ''c'', ev_Op = 2\<rparr> None (Inr 2), Event \<lparr>ev_Name = ''c'', ev_Op = 16\<rparr> None (Inr (3 :: nat))]"
  have l: "[c. Inr c \<leftarrow> loads ?ss] = [2]"
    by (simp add: isWrite_def isRemove_def isCreate_def fsnotify_Write_def fsnotify_Remove_def fsnotify_Create_def)
  show ?thesis
    using certificate_is_last_good[of "''c''" "''k''" "Inr 1" None
      "\<lparr>cw_currentCert = Some 1, cw_certPath = ''c'', cw_keyPath = ''k'', cw_Watches = [], cw_Log = []\<rparr>"
      "\<lambda>_. None" ?ss None None, unfolded l]
    by (simp add: webhookMain_def NewCertWatcher_def ReadCertificate_def Start_def addWatch_def del: Watch.simps)
qed

end
