(* ===== verification/Shutdown.thy ===== *)
theory Shutdown
  imports Runtime
begin

text \<open>
  How a controller process starts its workers and stops, when leader election is released on exit
  (feature gate \<open>ReleaseLeaderElectionOnExit\<close>): \<open>Run\<close> of the two controllers, the closure \<open>run\<close> and the signal
  handler of \<open>cmd/snapshot-controller/main.go\<close> and \<open>cmd/csi-snapshotter/main.go\<close>, and the workers under
  \<open>wait.Until\<close>. The goroutines interleave freely; the steps are those of the channels, of the wait group and of the
  queues. What a worker does with a key is one step here; which keys there are does not matter, only how many.
\<close>

section \<open>The processes\<close>

text \<open>
  What a controller is for this matter: the queue of every worker in the order in which \<open>Run\<close> starts them, the queues that
  it shuts down when it returns, and the queues whose worker takes keys until it is told to quit, where the other
  workers return to \<open>wait.Until\<close> after each key.
\<close>

record runConfig =
  run_Workers :: "queue list"
  run_ShutDown :: "queue list"
  run_Loops :: "queue list"

definition common_Run :: "bool \<Rightarrow> nat \<Rightarrow> runConfig" where
  "common_Run groups workers =
    \<lparr>run_Workers = concat (replicate workers
       ([QSnapshot, QContent] @ (if groups then [QGroupSnapshot, QGroupContent] else []))),
     run_ShutDown = [QSnapshot, QContent] @ (if groups then [QGroupSnapshot, QGroupContent] else []),
     run_Loops = []\<rparr>"

definition sidecar_Run :: "bool \<Rightarrow> nat \<Rightarrow> runConfig" where
  "sidecar_Run groups workers =
    \<lparr>run_Workers = concat (replicate workers ([QContent] @ (if groups then [QGroupContent] else []))),
     run_ShutDown = [QContent],
     run_Loops = [QContent]\<rparr>"

section \<open>The steps\<close>

text \<open>Where a worker is: at the test of the stop channel, in \<open>Get\<close>, with a key, told to quit, returned.\<close>

datatype workerPhase = Checking | Getting | Working | Quit | Finished

datatype runPhase = Syncing | Starting "queue list" | Serving | Returned

datatype mainPhase = AwaitSignal | AwaitWorkers | WaitOver | Terminated

record shutdown_state =
  signalled :: bool
  stopped :: bool
  runAt :: runPhase
  mainAt :: mainPhase
  queuesShut :: "queue list"
  pending :: "queue \<Rightarrow> nat"
  waitCount :: nat
  workers :: "(queue \<times> workerPhase) list"

definition launched :: shutdown_state where
  "launched = \<lparr>signalled = False, stopped = False, runAt = Syncing, mainAt = AwaitSignal, queuesShut = [],
     pending = (\<lambda>_. 0), waitCount = 0, workers = []\<rparr>"

text \<open>A worker moves; the last move is that of \<open>defer wg.Done()\<close>.\<close>

definition moveTo :: "nat \<Rightarrow> workerPhase \<Rightarrow> shutdown_state \<Rightarrow> shutdown_state" where
  "moveTo i ph s = s\<lparr>workers := (workers s)[i := (fst (workers s ! i), ph)]\<rparr>"

text \<open>
  The moves of the process. \<open>terminate\<close> cancels the context above the one of the controllers, so it closes the stop
  channel too.
\<close>

inductive move :: "runConfig \<Rightarrow> shutdown_state \<Rightarrow> shutdown_state \<Rightarrow> bool" for c where
  cancel: "signalled s \<Longrightarrow> \<not> stopped s \<Longrightarrow> move c s (s\<lparr>stopped := True\<rparr>)"
| await: "signalled s \<Longrightarrow> mainAt s = AwaitSignal \<Longrightarrow> move c s (s\<lparr>mainAt := AwaitWorkers\<rparr>)"
| waitOver: "mainAt s = AwaitWorkers \<Longrightarrow> waitCount s = 0 \<Longrightarrow> move c s (s\<lparr>mainAt := WaitOver\<rparr>)"
| terminate: "mainAt s = WaitOver \<Longrightarrow> move c s (s\<lparr>mainAt := Terminated, stopped := True\<rparr>)"
| synced: "runAt s = Syncing \<Longrightarrow> move c s (s\<lparr>runAt := Starting (run_Workers c)\<rparr>)"
| unsynced: "runAt s = Syncing \<Longrightarrow> stopped s \<Longrightarrow> move c s (s\<lparr>runAt := Returned, queuesShut := run_ShutDown c\<rparr>)"
| startWorker: "runAt s = Starting (q # qs) \<Longrightarrow>
    move c s (s\<lparr>runAt := Starting qs, waitCount := waitCount s + 1, workers := workers s @ [(q, Checking)]\<rparr>)"
| started: "runAt s = Starting [] \<Longrightarrow> move c s (s\<lparr>runAt := Serving\<rparr>)"
| returned: "runAt s = Serving \<Longrightarrow> stopped s \<Longrightarrow> move c s (s\<lparr>runAt := Returned, queuesShut := run_ShutDown c\<rparr>)"
| again: "i < length (workers s) \<Longrightarrow> workers s ! i = (q, Checking) \<Longrightarrow> \<not> stopped s \<Longrightarrow> move c s (moveTo i Getting s)"
| leave: "i < length (workers s) \<Longrightarrow> workers s ! i = (q, ph) \<Longrightarrow> ph = Checking \<or> ph = Quit \<Longrightarrow> stopped s \<Longrightarrow>
    move c s ((moveTo i Finished s)\<lparr>waitCount := waitCount s - 1\<rparr>)"
| takeKey: "i < length (workers s) \<Longrightarrow> workers s ! i = (q, Getting) \<Longrightarrow> pending s q > 0 \<Longrightarrow>
    move c s ((moveTo i Working s)\<lparr>pending := (pending s)(q := pending s q - 1)\<rparr>)"
| quit: "i < length (workers s) \<Longrightarrow> workers s ! i = (q, Getting) \<Longrightarrow> pending s q = 0 \<Longrightarrow> q \<in> set (queuesShut s) \<Longrightarrow>
    move c s (moveTo i Quit s)"
| keyDone: "i < length (workers s) \<Longrightarrow> workers s ! i = (q, Working) \<Longrightarrow>
    move c s (moveTo i (if q \<in> set (run_Loops c) then Getting else Checking) s)"

text \<open>What comes from outside: the signal, and keys for a queue that still takes them.\<close>

inductive outside :: "shutdown_state \<Rightarrow> shutdown_state \<Rightarrow> bool" where
  signal: "outside s (s\<lparr>signalled := True\<rparr>)"
| arrive: "q \<notin> set (queuesShut s) \<Longrightarrow> outside s (s\<lparr>pending := (pending s)(q := pending s q + 1)\<rparr>)"

inductive runs :: "runConfig \<Rightarrow> shutdown_state \<Rightarrow> shutdown_state \<Rightarrow> bool" for c where
  runs_refl: "runs c s s"
| runs_move: "runs c s t \<Longrightarrow> move c t u \<Longrightarrow> runs c s u"
| runs_outside: "runs c s t \<Longrightarrow> outside t u \<Longrightarrow> runs c s u"

inductive_cases outsideE: "outside s t"
inductive_cases moveE: "move c s t"

lemma runs_trans: "runs c s t \<Longrightarrow> runs c t u \<Longrightarrow> runs c s u"
  by (rotate_tac, induction rule: runs.induct) (auto intro: runs.intros)

section \<open>The invariant\<close>

definition unfinished :: "(queue \<times> workerPhase) list \<Rightarrow> nat" where
  "unfinished ws = sum_list (map (\<lambda>w. if snd w = Finished then 0 else 1) ws)"

definition runInv :: "runConfig \<Rightarrow> shutdown_state \<Rightarrow> bool" where
  "runInv c s \<longleftrightarrow>
    waitCount s = unfinished (workers s) \<and>
    (\<forall>q ph. (q, ph) \<in> set (workers s) \<longrightarrow> q \<in> set (run_Workers c)) \<and>
    (\<forall>qs. runAt s = Starting qs \<longrightarrow> set qs \<subseteq> set (run_Workers c)) \<and>
    queuesShut s = (if runAt s = Returned then run_ShutDown c else []) \<and>
    (queuesShut s \<noteq> [] \<or> (\<exists>q. (q, Quit) \<in> set (workers s)) \<or> mainAt s = Terminated \<longrightarrow> stopped s) \<and>
    (mainAt s \<noteq> AwaitSignal \<longrightarrow> signalled s)"

lemma weight_update:
  fixes f :: "'a \<Rightarrow> nat"
  assumes "i < length ws"
  shows "sum_list (map f (ws[i := w])) + f (ws ! i) = sum_list (map f ws) + f w"
  using assms
proof (induction ws arbitrary: i)
  case (Cons v ws)
  show ?case
  proof (cases i)
    case (Suc k)
    then show ?thesis using Cons.IH[of k] Cons.prems by simp
  qed simp
qed simp

lemma unfinished_update:
  "i < length ws \<Longrightarrow> unfinished (ws[i := (q, ph)]) + (if snd (ws ! i) = Finished then 0 else 1) =
    unfinished ws + (if ph = Finished then 0 else 1)"
  unfolding unfinished_def using weight_update[of i ws "\<lambda>w. if snd w = Finished then 0 else 1" "(q, ph)"] by simp

lemma unfinished_0: "unfinished ws = 0 \<longleftrightarrow> (\<forall>q ph. (q, ph) \<in> set ws \<longrightarrow> ph = Finished)"
  by (induction ws) (auto simp: unfinished_def)

lemma moveTo_simps [simp]:
  "signalled (moveTo i ph s) = signalled s" "stopped (moveTo i ph s) = stopped s" "runAt (moveTo i ph s) = runAt s"
  "mainAt (moveTo i ph s) = mainAt s" "queuesShut (moveTo i ph s) = queuesShut s" "pending (moveTo i ph s) = pending s"
  "waitCount (moveTo i ph s) = waitCount s"
  "workers (moveTo i ph s) = (workers s)[i := (fst (workers s ! i), ph)]"
  by (simp_all add: moveTo_def)

lemma runInv_launched: "runInv c launched"
  by (simp add: runInv_def launched_def unfinished_def)

lemma set_update: "x \<in> set (xs[i := y]) \<Longrightarrow> x = y \<or> x \<in> set xs"
  using set_update_subset_insert[of xs i y] by auto

lemma runInv_moveTo:
  assumes "runInv c s" "i < length (workers s)" "workers s ! i = (q, ph0)" "ph0 \<noteq> Finished" "ph \<noteq> Finished"
    "ph = Quit \<Longrightarrow> stopped s"
  shows "runInv c (moveTo i ph s)"
proof -
  have "(q, ph0) \<in> set (workers s)" using assms(2,3) by (metis nth_mem)
  then have "q \<in> set (run_Workers c)" using assms(1) by (auto simp: runInv_def)
  moreover have "unfinished ((workers s)[i := (q, ph)]) = unfinished (workers s)"
    using unfinished_update[OF assms(2), of q ph] assms(3-5) by simp
  ultimately show ?thesis
    using assms by (auto simp: runInv_def dest!: set_update)
qed

lemma runInv_move: "move c s t \<Longrightarrow> runInv c s \<Longrightarrow> runInv c t"
proof (induction rule: move.induct)
  case (leave i s q ph)
  have "(q, ph) \<in> set (workers s)" using leave.hyps(1,2) by (metis nth_mem)
  then have "q \<in> set (run_Workers c)" using leave.prems by (auto simp: runInv_def)
  moreover have "unfinished ((workers s)[i := (q, Finished)]) = unfinished (workers s) - 1"
    using unfinished_update[OF leave.hyps(1), of q Finished] leave.hyps(2,3) by auto
  ultimately show ?case using leave by (auto simp: runInv_def dest!: set_update)
next
  case (again i s q)
  show ?case by (rule runInv_moveTo[OF again.prems again.hyps(1,2)]) simp_all
next
  case (takeKey i s q)
  have "runInv c (moveTo i Working s)" by (rule runInv_moveTo[OF takeKey.prems takeKey.hyps(1,2)]) simp_all
  then show ?case by (simp add: runInv_def)
next
  case (quit i s q)
  have "stopped s" using quit.prems quit.hyps(4) by (auto simp: runInv_def)
  then show ?case by (intro runInv_moveTo[OF quit.prems quit.hyps(1,2)]) simp_all
next
  case (keyDone i s q)
  show ?case by (rule runInv_moveTo[OF keyDone.prems keyDone.hyps(1,2)]) (simp_all split: if_splits)
qed (auto simp: runInv_def unfinished_def)

lemma runInv_outside: "outside s t \<Longrightarrow> runInv c s \<Longrightarrow> runInv c t"
  by (induction rule: outside.induct) (auto simp: runInv_def)

lemma runInv_runs: "runs c s t \<Longrightarrow> runInv c s \<Longrightarrow> runInv c t"
  by (induction rule: runs.induct) (auto dest: runInv_move runInv_outside)

section \<open>Every move is progress\<close>

fun phaseWeight :: "workerPhase \<Rightarrow> nat" where
  "phaseWeight Finished = 0"
| "phaseWeight Quit = 1"
| "phaseWeight Getting = 2"
| "phaseWeight Checking = 3"
| "phaseWeight Working = 4"

fun runWeight :: "runConfig \<Rightarrow> runPhase \<Rightarrow> nat" where
  "runWeight c Syncing = 4 * length (run_Workers c) + 3"
| "runWeight c (Starting qs) = 4 * length qs + 2"
| "runWeight c Serving = 1"
| "runWeight c Returned = 0"

fun mainWeight :: "mainPhase \<Rightarrow> nat" where
  "mainWeight AwaitSignal = 3"
| "mainWeight AwaitWorkers = 2"
| "mainWeight WaitOver = 1"
| "mainWeight Terminated = 0"

definition keysLeft :: "(queue \<Rightarrow> nat) \<Rightarrow> nat" where
  "keysLeft p = p QSnapshot + p QContent + p QGroupSnapshot + p QGroupContent"

definition workLeft :: "runConfig \<Rightarrow> shutdown_state \<Rightarrow> nat" where
  "workLeft c s = (if stopped s then 0 else 1) + mainWeight (mainAt s) + runWeight c (runAt s) +
    4 * keysLeft (pending s) + sum_list (map (\<lambda>w. phaseWeight (snd w)) (workers s))"

lemma keysLeft_take: "p q > 0 \<Longrightarrow> keysLeft (p(q := p q - Suc 0)) + 1 = keysLeft p"
  by (cases q) (auto simp: keysLeft_def)

lemma workLeft_moveTo:
  "i < length (workers s) \<Longrightarrow> workers s ! i = (q, ph0) \<Longrightarrow>
    workLeft c (moveTo i ph s) + phaseWeight ph0 = workLeft c s + phaseWeight ph"
  using weight_update[of i "workers s" "\<lambda>w. phaseWeight (snd w)" "(q, ph)"] by (simp add: workLeft_def)

lemma move_progress: "move c s t \<Longrightarrow> workLeft c t < workLeft c s"
proof (induction rule: move.induct)
  case (leave i s q ph)
  then show ?case
    using workLeft_moveTo[OF leave.hyps(1,2), of c Finished] by (auto simp: workLeft_def)
next
  case (takeKey i s q)
  have "workLeft c (moveTo i Working s) + 2 = workLeft c s + 4"
    using workLeft_moveTo[OF takeKey.hyps(1,2), of c Working] by simp
  then show ?case using keysLeft_take[of "pending s" q] takeKey.hyps(3) by (simp add: workLeft_def)
next
  case (again i s q)
  then show ?case using workLeft_moveTo[OF again.hyps(1,2), of c Getting] by simp
next
  case (quit i s q)
  then show ?case using workLeft_moveTo[OF quit.hyps(1,2), of c Quit] by simp
next
  case (keyDone i s q)
  then show ?case
    using workLeft_moveTo[OF keyDone.hyps(1,2), of c Getting] workLeft_moveTo[OF keyDone.hyps(1,2), of c Checking]
    by simp
qed (auto simp: workLeft_def)

text \<open>So no sequence of moves goes on for ever.\<close>

lemma moves_end: "\<nexists>f. \<forall>i. move c (f i) (f (Suc i))"
proof
  assume "\<exists>f. \<forall>i. move c (f i) (f (Suc i))"
  then obtain f where f: "move c (f i) (f (Suc i))" for i by blast
  have "workLeft c (f i) + i \<le> workLeft c (f 0)" for i
  proof (induction i)
    case (Suc i)
    then show ?case using move_progress[OF f[of i]] by simp
  qed simp
  from this[of "Suc (workLeft c (f 0))"] show False by simp
qed

lemma runs_moves: "(move c)\<^sup>*\<^sup>* s t \<Longrightarrow> runs c r s \<Longrightarrow> runs c r t"
  by (induction rule: rtranclp_induct) (auto intro: runs.intros)

lemma move_signalled: "move c s t \<Longrightarrow> signalled t = signalled s"
  by (induction rule: move.induct) simp_all

lemma moves_signalled: "(move c)\<^sup>*\<^sup>* s t \<Longrightarrow> signalled t = signalled s"
  by (induction rule: rtranclp_induct) (auto dest: move_signalled)

section \<open>A controller that shuts down the queues of its workers\<close>

locale draining =
  fixes c :: runConfig
  assumes shuts: "set (run_Workers c) \<subseteq> set (run_ShutDown c)"
begin

lemma worker_moves:
  assumes "runInv c s" "stopped s" "runAt s = Returned" "(q, ph) \<in> set (workers s)" "ph \<noteq> Finished"
  shows "\<exists>t. move c s t"
proof -
  obtain i where i: "i < length (workers s)" "workers s ! i = (q, ph)" using assms(4) by (auto simp: in_set_conv_nth)
  show ?thesis
  proof (cases ph)
    case Getting
    have "q \<in> set (queuesShut s)" using assms(1,3,4) shuts by (auto simp: runInv_def)
    then show ?thesis using i Getting move.quit[of i s q c] move.takeKey[of i s q c] by (cases "pending s q = 0") auto
  qed (use i assms(2,5) in \<open>auto intro: move.leave move.keyDone\<close>)
qed

lemma no_deadlock:
  assumes "runInv c s" "signalled s" "mainAt s \<noteq> Terminated"
  shows "\<exists>t. move c s t"
proof (cases "stopped s")
  case False
  then show ?thesis using assms(2) by (blast intro: move.cancel)
next
  case stop: True
  show ?thesis
  proof (cases "runAt s = Returned")
    case False
    show ?thesis
    proof (cases "runAt s")
      case (Starting qs)
      then show ?thesis by (cases qs) (auto intro: move.startWorker move.started)
    qed (use False stop in \<open>auto intro: move.unsynced move.returned\<close>)
  next
    case True
    show ?thesis
    proof (cases "mainAt s")
      case AwaitWorkers
      show ?thesis
      proof (cases "waitCount s = 0")
        case False
        then have "unfinished (workers s) \<noteq> 0" using assms(1) by (simp add: runInv_def)
        then obtain q ph where "(q, ph) \<in> set (workers s)" "ph \<noteq> Finished" by (auto simp: unfinished_0)
        then show ?thesis by (rule worker_moves[OF assms(1) stop True])
      qed (use AwaitWorkers in \<open>blast intro: move.waitOver\<close>)
    qed (use assms in \<open>auto intro: move.await move.terminate\<close>)
  qed
qed

lemma completes:
  assumes "runs c launched s" "signalled s" "(move c)\<^sup>*\<^sup>* s t" "\<nexists>u. move c t u"
  shows "mainAt t = Terminated"
proof -
  have "runInv c t" using runInv_runs[OF runs_moves[OF assms(3,1)] runInv_launched] .
  moreover have "signalled t" using moves_signalled[OF assms(3)] assms(2) by simp
  ultimately show ?thesis using no_deadlock assms(4) by blast
qed

end

interpretation commonRun: draining "common_Run groups n" for groups n
  by unfold_locales (auto simp: common_Run_def)

interpretation sidecarRun: draining "sidecar_Run False n" for n
  by unfold_locales (auto simp: sidecar_Run_def)

text \<open>C13: A signalled common controller comes to its end: no sequence of its moves goes on for ever, and where no move is
  left the lease has been given up.\<close>

theorem common_shutdown_completes:
  assumes "runs (common_Run groups n) launched s" "signalled s"
  shows "(\<nexists>f. f 0 = s \<and> (\<forall>i. move (common_Run groups n) (f i) (f (Suc i)))) \<and>
    (\<forall>t. (move (common_Run groups n))\<^sup>*\<^sup>* s t \<and> (\<nexists>u. move (common_Run groups n) t u) \<longrightarrow> mainAt t = Terminated)"
  using moves_end[of "common_Run groups n"] commonRun.completes[OF assms] by blast

text \<open>An idle sidecar with one worker for each kind, before and after the signal.\<close>

definition idleSidecar :: "bool \<Rightarrow> shutdown_state" where
  "idleSidecar sig = launched\<lparr>signalled := sig, runAt := Serving, waitCount := 2,
     workers := [(QContent, Checking), (QGroupContent, Getting)]\<rparr>"

lemma idleSidecar_runs: "runs (sidecar_Run True 1) launched (idleSidecar sig)"
proof -
  let ?c = "sidecar_Run True 1"
  have w: "run_Workers ?c = [QContent, QGroupContent]" "run_Workers (sidecar_Run True (Suc 0)) = [QContent, QGroupContent]"
    by (simp_all add: sidecar_Run_def)
  define s1 where "s1 = launched\<lparr>runAt := Starting [QContent, QGroupContent]\<rparr>"
  define s2 where "s2 = s1\<lparr>runAt := Starting [QGroupContent], waitCount := 1, workers := [(QContent, Checking)]\<rparr>"
  define s3 where "s3 = s2\<lparr>runAt := Starting [], waitCount := 2,
    workers := [(QContent, Checking), (QGroupContent, Checking)]\<rparr>"
  define s4 where "s4 = s3\<lparr>runAt := Serving\<rparr>"
  have "move ?c launched s1" using move.synced[of launched ?c] by (simp add: s1_def launched_def w)
  moreover have "move ?c s1 s2" using move.startWorker[of s1 QContent "[QGroupContent]" ?c] by (simp add: s1_def s2_def launched_def)
  moreover have "move ?c s2 s3"
    using move.startWorker[of s2 QGroupContent "[]" ?c] by (simp add: s1_def s2_def s3_def launched_def numeral_2_eq_2)
  moreover have "move ?c s3 s4" using move.started[of s3 ?c] by (simp add: s3_def s4_def)
  moreover have "move ?c s4 (idleSidecar False)"
    using move.again[of 1 s4 QGroupContent ?c]
    by (simp add: s4_def s3_def s2_def s1_def launched_def idleSidecar_def moveTo_def numeral_2_eq_2)
  ultimately have idle: "runs ?c launched (idleSidecar False)" by (meson runs.intros)
  have "outside (idleSidecar False) (idleSidecar True)"
    using outside.signal[of "idleSidecar False"] by (simp add: idleSidecar_def launched_def)
  then show ?thesis using idle by (cases sig) (auto intro: runs.intros)
qed

text \<open>A sidecar in which a group worker waits for a key, before the wait of the main goroutine is over.\<close>

definition groupWaits :: "nat \<Rightarrow> shutdown_state \<Rightarrow> bool" where
  "groupWaits n s \<longleftrightarrow> runInv (sidecar_Run True n) s \<and> (QGroupContent, Getting) \<in> set (workers s) \<and>
    pending s QGroupContent = 0 \<and> mainAt s \<in> {AwaitSignal, AwaitWorkers}"

lemma waiting_kept:
  assumes "x \<in> set ws" "ws ! j \<noteq> x"
  shows "x \<in> set (ws[j := w])"
proof -
  obtain i where "i < length ws" "ws ! i = x" using assms(1) by (auto simp: in_set_conv_nth)
  then show ?thesis using assms(2) by (metis length_list_update nth_list_update_neq nth_mem)
qed

lemma groupWaits_move:
  assumes "move (sidecar_Run True n) s t" "groupWaits n s"
  shows "groupWaits n t"
proof -
  have inv: "runInv (sidecar_Run True n) t" using assms runInv_move by (auto simp: groupWaits_def)
  have count: "waitCount s \<noteq> 0"
  proof -
    have "(QGroupContent, Getting) \<in> set (workers s)" using assms(2) by (simp add: groupWaits_def)
    then have "unfinished (workers s) \<noteq> 0" by (auto simp: unfinished_0)
    then show ?thesis using assms(2) by (simp add: groupWaits_def runInv_def)
  qed
  have shut: "QGroupContent \<notin> set (queuesShut s)"
    using assms(2) by (simp add: groupWaits_def runInv_def sidecar_Run_def)
  show ?thesis
    using assms inv count shut
    by (induction rule: move.induct) (auto simp: groupWaits_def intro: waiting_kept)
qed

text \<open>C15: A sidecar with group snapshots that is told to stop while a group worker waits for a key does not stop: its queue
  is never shut down, so whatever it does, the worker waits on and the lease is kept.\<close>

theorem sidecar_group_shutdown_hangs:
  assumes "runs (sidecar_Run True n) launched s" "(QGroupContent, Getting) \<in> set (workers s)"
    "pending s QGroupContent = 0" "mainAt s \<in> {AwaitSignal, AwaitWorkers}" "(move (sidecar_Run True n))\<^sup>*\<^sup>* s t"
  shows "mainAt t \<in> {AwaitSignal, AwaitWorkers} \<and> (QGroupContent, Getting) \<in> set (workers t)"
proof -
  have "groupWaits n s" using assms runInv_runs[OF assms(1) runInv_launched] by (simp add: groupWaits_def)
  with assms(5) have "groupWaits n t" by (induction rule: rtranclp_induct) (auto intro: groupWaits_move)
  then show ?thesis by (simp add: groupWaits_def)
qed

lemma sidecar_group_shutdown_hangs_witness:
  "\<exists>s t. runs (sidecar_Run True 1) launched s \<and> signalled s \<and> (move (sidecar_Run True 1))\<^sup>*\<^sup>* s t \<and> stopped t \<and>
    mainAt t = AwaitWorkers \<and> (QGroupContent, Getting) \<in> set (workers t)"
proof -
  let ?c = "sidecar_Run True 1" and ?s = "idleSidecar True"
  let ?t = "?s\<lparr>stopped := True, mainAt := AwaitWorkers\<rparr>"
  have s: "(QGroupContent, Getting) \<in> set (workers ?s)" "pending ?s QGroupContent = 0" "mainAt ?s \<in> {AwaitSignal, AwaitWorkers}"
    "signalled ?s"
    by (simp_all add: idleSidecar_def launched_def)
  have m1: "move ?c ?s (?s\<lparr>stopped := True\<rparr>)" by (rule move.cancel) (simp_all add: idleSidecar_def launched_def)
  have m2: "move ?c (?s\<lparr>stopped := True\<rparr>) ?t"
    using move.await[of "?s\<lparr>stopped := True\<rparr>" ?c] by (simp add: idleSidecar_def launched_def)
  have t: "(move ?c)\<^sup>*\<^sup>* ?s ?t" by (rule converse_rtranclp_into_rtranclp[of "move ?c", OF m1 r_into_rtranclp[of "move ?c", OF m2]])
  show ?thesis
    using sidecar_group_shutdown_hangs[OF idleSidecar_runs s(1-3) t] idleSidecar_runs[of True] s(4) t
    by (intro exI[of _ ?s] exI[of _ ?t]) simp
qed

lemma common_shutdown_completes_witness:
  "\<exists>s t. runs (common_Run True 10) launched s \<and> (move (common_Run True 10))\<^sup>*\<^sup>* s t \<and> s \<noteq> t \<and> mainAt t = Terminated"
proof -
  let ?c = "common_Run True 10" and ?s = "launched\<lparr>signalled := True\<rparr>"
  define s1 where "s1 = ?s\<lparr>stopped := True\<rparr>"
  define s2 where "s2 = s1\<lparr>runAt := Returned, queuesShut := run_ShutDown ?c\<rparr>"
  define s3 where "s3 = s2\<lparr>mainAt := AwaitWorkers\<rparr>"
  define s4 where "s4 = s3\<lparr>mainAt := WaitOver\<rparr>"
  define s5 where "s5 = s4\<lparr>mainAt := Terminated, stopped := True\<rparr>"
  note defs = s1_def s2_def s3_def s4_def s5_def launched_def
  have r: "runs ?c launched ?s" by (blast intro: runs.intros outside.signal)
  have m1: "move ?c ?s s1" unfolding s1_def by (rule move.cancel) (simp_all add: launched_def)
  have m2: "move ?c s1 s2" using move.unsynced[of s1 ?c] by (simp add: defs)
  have m3: "move ?c s2 s3" using move.await[of s2 ?c] by (simp add: defs)
  have m4: "move ?c s3 s4" using move.waitOver[of s3 ?c] by (simp add: defs)
  have m5: "move ?c s4 s5" using move.terminate[of s4 ?c] by (simp add: defs)
  note more = converse_rtranclp_into_rtranclp[of "move ?c"]
  have t: "(move ?c)\<^sup>*\<^sup>* ?s s5" by (rule more[OF m1 more[OF m2 more[OF m3 more[OF m4 r_into_rtranclp[of "move ?c", OF m5]]]]])
  have "\<not> move ?c s5 u" for u by (auto simp: defs elim: moveE)
  then have "mainAt s5 = Terminated" using common_shutdown_completes[OF r] t by simp
  moreover have "?s \<noteq> s5" by (simp add: defs)
  ultimately show ?thesis using r t by blast
qed

section \<open>The lease and the workers\<close>

text \<open>A state in which every worker was started, and in which the wait of the main goroutine only ends with them.\<close>

definition served :: "runConfig \<Rightarrow> shutdown_state \<Rightarrow> bool" where
  "served c s \<longleftrightarrow> runInv c s \<and> runAt s \<in> {Serving, Returned} \<and>
    (mainAt s \<in> {WaitOver, Terminated} \<longrightarrow> waitCount s = 0)"

lemma served_busy:
  assumes "served c s" "i < length (workers s)" "workers s ! i = (q, ph)" "ph \<noteq> Finished"
  shows "mainAt s \<noteq> WaitOver \<and> mainAt s \<noteq> Terminated"
proof -
  have "(q, ph) \<in> set (workers s)" using assms(2,3) by (metis nth_mem)
  then have "unfinished (workers s) \<noteq> 0" using assms(4) by (auto simp: unfinished_0)
  then show ?thesis using assms(1) by (auto simp: served_def runInv_def)
qed

lemma served_move:
  assumes "move c s t" "served c s"
  shows "served c t"
proof -
  have "runInv c t" using assms runInv_move by (auto simp: served_def)
  with assms show ?thesis
  proof (induction rule: move.induct)
    case (leave i s q ph)
    then have "ph \<noteq> Finished" by auto
    then have "mainAt s \<noteq> WaitOver \<and> mainAt s \<noteq> Terminated" using served_busy[OF leave.prems(1) leave.hyps(1,2)] by simp
    then show ?case using leave.prems by (simp add: served_def)
  qed (simp_all add: served_def)
qed

lemma served_outside: "outside s t \<Longrightarrow> served c s \<Longrightarrow> served c t"
  using runInv_outside[of s t c] by (auto simp: served_def elim!: outsideE)

text \<open>C14: When the signal comes after all workers were started, the lease is given up only after every one of them has
  returned: no key is worked on without the lease.\<close>

theorem lease_outlives_workers:
  assumes "runs c launched s" "runAt s = Serving" "\<not> signalled s" "runs c s t" "mainAt t = Terminated"
  shows "\<forall>w\<in>set (workers t). snd w = Finished"
proof -
  have "served c s" using assms(2,3) runInv_runs[OF assms(1) runInv_launched] by (auto simp: served_def runInv_def)
  with assms(4) have "served c t" by (induction rule: runs.induct) (auto intro: served_move served_outside)
  then show ?thesis using assms(5) by (auto simp: served_def runInv_def unfinished_0)
qed

lemma lease_outlives_workers_witness:
  "\<exists>s t. runs (sidecar_Run False 1) launched s \<and> runs (sidecar_Run False 1) s t \<and> mainAt t = Terminated \<and>
    length (workers t) = 1 \<and> snd (workers t ! 0) = Finished"
proof -
  let ?c = "sidecar_Run False 1"
  have w: "run_Workers ?c = [QContent]" "run_Workers (sidecar_Run False (Suc 0)) = [QContent]"
    by (simp_all add: sidecar_Run_def)
  define s1 where "s1 = launched\<lparr>runAt := Starting [QContent]\<rparr>"
  define s2 where "s2 = s1\<lparr>runAt := Starting [], waitCount := 1, workers := [(QContent, Checking)]\<rparr>"
  define s3 where "s3 = s2\<lparr>runAt := Serving\<rparr>"
  define s4 where "s4 = s3\<lparr>signalled := True\<rparr>"
  define s5 where "s5 = s4\<lparr>stopped := True\<rparr>"
  define s6 where "s6 = s5\<lparr>workers := [(QContent, Finished)], waitCount := 0\<rparr>"
  define s7 where "s7 = s6\<lparr>mainAt := AwaitWorkers\<rparr>"
  define s8 where "s8 = s7\<lparr>mainAt := WaitOver\<rparr>"
  define s9 where "s9 = s8\<lparr>mainAt := Terminated, stopped := True\<rparr>"
  note defs = s1_def s2_def s3_def s4_def s5_def s6_def s7_def s8_def s9_def launched_def moveTo_def
  have "move ?c launched s1" using move.synced[of launched ?c] by (simp add: defs w)
  moreover have "move ?c s1 s2" using move.startWorker[of s1 QContent "[]" ?c] by (simp add: defs)
  moreover have "move ?c s2 s3" using move.started[of s2 ?c] by (simp add: defs)
  ultimately have r: "runs ?c launched s3" by (meson runs.intros)
  have "outside s3 s4" using outside.signal[of s3] by (simp add: defs)
  moreover have "move ?c s4 s5" using move.cancel[of s4 ?c] by (simp add: defs)
  moreover have "move ?c s5 s6" using move.leave[of 0 s5 QContent Checking ?c] by (simp add: defs)
  moreover have "move ?c s6 s7" using move.await[of s6 ?c] by (simp add: defs)
  moreover have "move ?c s7 s8" using move.waitOver[of s7 ?c] by (simp add: defs)
  moreover have "move ?c s8 s9" using move.terminate[of s8 ?c] by (simp add: defs)
  ultimately have t: "runs ?c s3 s9" by (meson runs.intros)
  have s: "runAt s3 = Serving" "\<not> signalled s3" "mainAt s9 = Terminated" "length (workers s9) = 1" by (simp_all add: defs)
  then have "snd (workers s9 ! 0) = Finished" using lease_outlives_workers[OF r s(1,2) t s(3)] by simp
  then show ?thesis using r t s by blast
qed

text \<open>
  Before that there is a window: the wait is over at once while no worker was added, the signal handler has not yet
  closed the stop channel, and a worker that starts in between has a key in its hands when the lease is given up.
\<close>

lemma early_signal_gives_up_lease_too_soon:
  "\<exists>t. runs (common_Run groups (Suc n)) launched t \<and> mainAt t = Terminated \<and> (QSnapshot, Working) \<in> set (workers t)"
proof -
  let ?c = "common_Run groups (Suc n)"
  obtain qs where qs: "run_Workers ?c = QSnapshot # qs" by (simp add: common_Run_def)
  define s1 where "s1 = launched\<lparr>runAt := Starting (QSnapshot # qs)\<rparr>"
  define s2 where "s2 = s1\<lparr>signalled := True\<rparr>"
  define s3 where "s3 = s2\<lparr>mainAt := AwaitWorkers\<rparr>"
  define s4 where "s4 = s3\<lparr>mainAt := WaitOver\<rparr>"
  define s5 where "s5 = s4\<lparr>runAt := Starting qs, waitCount := 1, workers := [(QSnapshot, Checking)]\<rparr>"
  define s6 where "s6 = s5\<lparr>workers := [(QSnapshot, Getting)]\<rparr>"
  define s7 where "s7 = s6\<lparr>pending := (\<lambda>_. 0)(QSnapshot := 1)\<rparr>"
  define s8 where "s8 = s7\<lparr>workers := [(QSnapshot, Working)], pending := (\<lambda>_. 0)(QSnapshot := 0)\<rparr>"
  define s9 where "s9 = s8\<lparr>mainAt := Terminated, stopped := True\<rparr>"
  note defs = s1_def s2_def s3_def s4_def s5_def s6_def s7_def s8_def s9_def launched_def moveTo_def
  have "runs ?c launched s1" using move.synced[of launched ?c] qs by (auto simp: defs intro: runs.intros)
  moreover have "outside s1 s2" using outside.signal[of s1] by (simp add: defs)
  moreover have "move ?c s2 s3" using move.await[of s2 ?c] by (simp add: defs)
  moreover have "move ?c s3 s4" using move.waitOver[of s3 ?c] by (simp add: defs)
  moreover have "move ?c s4 s5" using move.startWorker[of s4 QSnapshot qs ?c] by (simp add: defs)
  moreover have "move ?c s5 s6" using move.again[of 0 s5 QSnapshot ?c] by (simp add: defs)
  moreover have "outside s6 s7" using outside.arrive[of QSnapshot s6] by (simp add: defs)
  moreover have "move ?c s7 s8" using move.takeKey[of 0 s7 QSnapshot ?c] by (simp add: defs)
  moreover have "move ?c s8 s9" using move.terminate[of s8 ?c] by (simp add: defs)
  ultimately have "runs ?c launched s9" by (meson runs.intros)
  then show ?thesis by (auto simp: defs)
qed

end
