(* ===== verification/Commands.thy ===== *)
theory Commands
  imports CommonGroupProps
begin

text \<open>
  The start of the two controller processes (\<open>main\<close> of \<open>cmd/snapshot-controller\<close> and \<open>cmd/csi-snapshotter\<close>,
  \<open>pkg/features\<close>): the checks in their order, the wait for the custom resource definitions, and the configuration that
  the controllers are made with, which is the part of the environment that the flags decide. Logging, the metrics
  endpoint and the leader election itself are left out; the shutdown is in \<open>Shutdown\<close>.
\<close>

section \<open>Feature gates\<close>

datatype prerelease = Alpha | Beta

definition VolumeGroupSnapshot_gate :: string where
  "VolumeGroupSnapshot_gate = ''CSIVolumeGroupSnapshot''"

definition ReleaseLeaderElectionOnExit_gate :: string where
  "ReleaseLeaderElectionOnExit_gate = ''ReleaseLeaderElectionOnExit''"

definition defaultKubernetesFeatureGates :: "string \<Rightarrow> (bool \<times> prerelease) option" where
  "defaultKubernetesFeatureGates =
    [VolumeGroupSnapshot_gate \<mapsto> (False, Beta), ReleaseLeaderElectionOnExit_gate \<mapsto> (False, Alpha)]"

text \<open>
  \<open>DefaultFeatureGate.Enabled\<close> after \<open>SetFromMap\<close> of a map that was accepted: a gate that is not named follows
  \<open>AllAlpha\<close> or \<open>AllBeta\<close>, then its default.
\<close>

definition gateEnabled :: "(string, bool) fmap \<Rightarrow> string \<Rightarrow> bool" where
  "gateEnabled gates f =
    (case fmlookup gates f of
       Some b \<Rightarrow> b
     | None \<Rightarrow>
        (case defaultKubernetesFeatureGates f of
           None \<Rightarrow> False
         | Some (dflt, pre) \<Rightarrow>
            (case fmlookup gates (case pre of Alpha \<Rightarrow> ''AllAlpha'' | Beta \<Rightarrow> ''AllBeta'') of
               Some b \<Rightarrow> b | None \<Rightarrow> dflt)))"

section \<open>What the processes run on\<close>

datatype resource =
    VolumeSnapshots | VolumeSnapshotClasses | VolumeSnapshotContents
  | VolumeGroupSnapshots | VolumeGroupSnapshotClasses | VolumeGroupSnapshotContents

text \<open>
  What the libraries answer. \<open>pf_Expired\<close> says whether the deadline of the context is over; \<open>pf_Wait\<close> waits for a number of
  nanoseconds, unless the deadline comes first.
\<close>

record 'w platform =
  pf_ValidateLogging :: "goerr option"
  pf_SetFromMap :: "(string, bool) fmap \<Rightarrow> goerr option"
  pf_Getenv :: "string \<Rightarrow> string"
  pf_BuildConfig :: "goerr option"
  pf_KubeClient :: "goerr option"
  pf_SnapClient :: "goerr option"
  pf_PrepareMetrics :: "goerr option"
  pf_List :: "resource \<Rightarrow> 'w \<Rightarrow> goerr option \<times> 'w"
  pf_Expired :: "nat \<Rightarrow> 'w \<Rightarrow> bool"
  pf_Wait :: "nat \<Rightarrow> nat \<Rightarrow> 'w \<Rightarrow> 'w option"
  pf_Connect :: "'w \<Rightarrow> goerr option \<times> 'w"
  pf_ProbeForever :: "'w \<Rightarrow> goerr option \<times> 'w"
  pf_GroupCapabilities :: "'w \<Rightarrow> (goerr + string list) \<times> 'w"

text \<open>An exit with its code and message, or a start.\<close>

datatype 'a startup = Exit nat string | Started 'a

fun firstFailure :: "(bool \<times> nat \<times> string) list \<Rightarrow> (nat \<times> string) option" where
  "firstFailure [] = None"
| "firstFailure ((failed, code, message) # checks) = (if failed then Some (code, message) else firstFailure checks)"

definition messageOf :: "goerr option \<Rightarrow> string" where
  "messageOf err = (case err of None \<Rightarrow> [] | Some e \<Rightarrow> err_text e)"

section \<open>The sidecar\<close>

record sidecar_flags =
  sf_Version :: bool
  sf_LeaderElection :: bool
  sf_NodeDeployment :: bool
  sf_MetricsAddress :: string
  sf_HttpEndpoint :: string
  sf_SnapshotNamePrefix :: string
  sf_SnapshotNameUUIDLength :: int
  sf_GroupSnapshotNamePrefix :: string
  sf_GroupSnapshotNameUUIDLength :: int
  sf_ExtraCreateMetadata :: bool
  sf_FeatureGates :: "(string, bool) fmap"

definition sidecarChecks :: "'w platform \<Rightarrow> sidecar_flags \<Rightarrow> (bool \<times> nat \<times> string) list" where
  "sidecarChecks P flags =
    [(pf_ValidateLogging P \<noteq> None, 1, ''LoggingConfiguration is invalid''),
     (pf_SetFromMap P (sf_FeatureGates flags) \<noteq> None, 255,
       ''Error while parsing feature gates: '' @ messageOf (pf_SetFromMap P (sf_FeatureGates flags))),
     (sf_Version flags, 0, []),
     (sf_NodeDeployment flags \<and> sf_LeaderElection flags, 1,
       ''Leader election cannot happen when node-deployment is set to true''),
     (pf_BuildConfig P \<noteq> None, 1, messageOf (pf_BuildConfig P)),
     (pf_KubeClient P \<noteq> None, 1, messageOf (pf_KubeClient P)),
     (pf_SnapClient P \<noteq> None, 1, ''Error building snapshot clientset: '' @ messageOf (pf_SnapClient P)),
     (sf_NodeDeployment flags \<and> pf_Getenv P ''NODE_NAME'' = [], 255,
       ''The NODE_NAME environment variable must be set when using --enable-node-deployment.''),
     (sf_MetricsAddress flags \<noteq> [] \<and> sf_HttpEndpoint flags \<noteq> [], 1,
       ''only one of `--metrics-address` and `--http-endpoint` can be set.'')]"

text \<open>The selector of the informers of contents, group contents and group classes; the other informers have none.\<close>

definition contentSelector :: "'w platform \<Rightarrow> sidecar_flags \<Rightarrow> (string \<times> string) option" where
  "contentSelector P flags =
    (if sf_NodeDeployment flags then Some (VolumeSnapshotContentManagedByLabel, pf_Getenv P ''NODE_NAME'') else None)"

definition selects :: "(string \<times> string) option \<Rightarrow> ObjectMeta \<Rightarrow> bool" where
  "selects sel m = (case sel of None \<Rightarrow> True | Some (label, value) \<Rightarrow> fmlookup (Labels m) label = Some value)"

definition supportsControllerCreateSnapshot :: "'w env \<Rightarrow> 'w \<Rightarrow> (goerr + bool) \<times> 'w" where
  "supportsControllerCreateSnapshot E w =
    (case csi_ControllerGetCapabilities E w of
       (Inl err, w) \<Rightarrow> (Inl err, w)
     | (Inr capabilities, w) \<Rightarrow> (Inr (''CREATE_DELETE_SNAPSHOT'' \<in> set capabilities), w))"

definition supportsGroupControllerCreateVolumeGroupSnapshot :: "'w platform \<Rightarrow> 'w \<Rightarrow> (goerr + bool) \<times> 'w" where
  "supportsGroupControllerCreateVolumeGroupSnapshot P w =
    (case pf_GroupCapabilities P w of
       (Inl err, w) \<Rightarrow> (Inl err, w)
     | (Inr capabilities, w) \<Rightarrow> (Inr (''CREATE_DELETE_GET_VOLUME_GROUP_SNAPSHOT'' \<in> set capabilities), w))"

text \<open>A driver without the group capability is only warned about, as is an error of that query.\<close>

record 'w sidecar_start =
  ss_Env :: "'w env"
  ss_Selector :: "(string \<times> string) option"
  ss_GroupSnapshotter :: bool
  ss_LockName :: string
  ss_Release :: bool

definition sidecarConfiguration :: "'w env \<Rightarrow> 'w platform \<Rightarrow> sidecar_flags \<Rightarrow> string \<Rightarrow> 'w sidecar_start" where
  "sidecarConfiguration E P flags driverName =
    (let groups = gateEnabled (sf_FeatureGates flags) VolumeGroupSnapshot_gate in
     \<lparr>ss_Env = E\<lparr>ctrl_driverName := driverName,
        snapshotNamePrefix := sf_SnapshotNamePrefix flags, snapshotNameUUIDLength := sf_SnapshotNameUUIDLength flags,
        groupSnapshotNamePrefix := sf_GroupSnapshotNamePrefix flags,
        groupSnapshotNameUUIDLength := sf_GroupSnapshotNameUUIDLength flags,
        extraCreateMetadata := sf_ExtraCreateMetadata flags, enableVolumeGroupSnapshots := groups\<rparr>,
      ss_Selector = contentSelector P flags, ss_GroupSnapshotter = groups,
      ss_LockName = ''external-snapshotter-leader-'' @ map (\<lambda>c. if c = CHR ''/'' then CHR ''-'' else c) driverName,
      ss_Release = gateEnabled (sf_FeatureGates flags) ReleaseLeaderElectionOnExit_gate\<rparr>)"

definition sidecarDriverChecks ::
  "'w env \<Rightarrow> 'w platform \<Rightarrow> sidecar_flags \<Rightarrow> string \<Rightarrow> 'w \<Rightarrow> 'w sidecar_start startup \<times> 'w" where
  "sidecarDriverChecks E P flags driverName w =
    (case pf_ProbeForever P w of
       (Some err, w) \<Rightarrow> (Exit 1 (''error waiting for CSI driver to be ready: '' @ err_text err), w)
     | (None, w) \<Rightarrow>
        (case supportsControllerCreateSnapshot E w of
           (Inl err, w) \<Rightarrow>
             (Exit 1 (''error determining if driver supports create/delete snapshot operations: '' @ err_text err), w)
         | (Inr False, w) \<Rightarrow>
             (Exit 1 (sprint [''CSI driver '', driverName, '' does not support ControllerCreateSnapshot'']), w)
         | (Inr True, w) \<Rightarrow>
             if sf_SnapshotNamePrefix flags = [] then (Exit 1 ''Snapshot name prefix cannot be of length 0'', w)
             else if gateEnabled (sf_FeatureGates flags) VolumeGroupSnapshot_gate then
               (let (_, w) = supportsGroupControllerCreateVolumeGroupSnapshot P w in
                if sf_GroupSnapshotNamePrefix flags = []
                then (Exit 1 ''group snapshot name prefix cannot be of length 0'', w)
                else (Started (sidecarConfiguration E P flags driverName), w))
             else (Started (sidecarConfiguration E P flags driverName), w)))"

definition sidecarMain ::
  "'w env \<Rightarrow> 'w platform \<Rightarrow> sidecar_flags \<Rightarrow> 'w \<Rightarrow> 'w sidecar_start startup \<times> 'w" where
  "sidecarMain E P flags w =
    (case firstFailure (sidecarChecks P flags) of
       Some (code, message) \<Rightarrow> (Exit code message, w)
     | None \<Rightarrow>
        (case pf_Connect P w of
           (Some err, w) \<Rightarrow> (Exit 1 (''error connecting to CSI driver: '' @ err_text err), w)
         | (None, w) \<Rightarrow>
            (case csi_GetDriverName E w of
               (Inl err, w) \<Rightarrow> (Exit 1 (''error getting CSI driver name: '' @ err_text err), w)
             | (Inr driverName, w) \<Rightarrow> sidecarDriverChecks E P flags driverName w)))"

section \<open>The wait for the custom resource definitions\<close>

text \<open>One pass over the resources: the first list that fails ends it.\<close>

fun listAll :: "'w platform \<Rightarrow> resource list \<Rightarrow> 'w \<Rightarrow> bool \<times> 'w" where
  "listAll P [] w = (True, w)"
| "listAll P (r # rs) w =
    (case pf_List P r w of (Some err, w) \<Rightarrow> (False, w) | (None, w) \<Rightarrow> listAll P rs w)"

definition requiredResources :: "bool \<Rightarrow> resource list" where
  "requiredResources groups =
    [VolumeSnapshots, VolumeSnapshotClasses, VolumeSnapshotContents] @
    (if groups then [VolumeGroupSnapshots, VolumeGroupSnapshotClasses, VolumeGroupSnapshotContents] else [])"

text \<open>
  \<open>wait.ExponentialBackoffWithContext\<close> for a condition that gives no error: the first argument counts the steps that
  are left, the third is the next wait, which grows by the factor 1.5.
\<close>

definition ctxErr :: goerr where
  "ctxErr = Errorf ''context deadline exceeded''"

definition ErrWaitTimeout :: goerr where
  "ErrWaitTimeout = Errorf ''timed out waiting for the condition''"

fun ExponentialBackoffWithContext ::
  "nat \<Rightarrow> ('w \<Rightarrow> bool) \<Rightarrow> (nat \<Rightarrow> 'w \<Rightarrow> 'w option) \<Rightarrow> ('w \<Rightarrow> bool \<times> 'w) \<Rightarrow> nat \<Rightarrow> 'w \<Rightarrow> goerr option \<times> 'w" where
  "ExponentialBackoffWithContext 0 expired pause condition duration w = (Some ErrWaitTimeout, w)"
| "ExponentialBackoffWithContext (Suc steps) expired pause condition duration w =
    (if expired w then (Some ctxErr, w)
     else case condition w of
       (True, w) \<Rightarrow> (None, w)
     | (False, w) \<Rightarrow>
         if steps = 0 then (Some ErrWaitTimeout, w)
         else (case pause duration w of
           None \<Rightarrow> (Some ctxErr, w)
         | Some w \<Rightarrow> ExponentialBackoffWithContext steps expired pause condition (duration * 3 div 2) w))"

definition second :: nat where
  "second = 1000000000"

definition ensureCustomResourceDefinitionsExist :: "'w platform \<Rightarrow> nat \<Rightarrow> bool \<Rightarrow> 'w \<Rightarrow> goerr option \<times> 'w" where
  "ensureCustomResourceDefinitionsExist P retryCRDIntervalMax groups w =
    (let deadline = max retryCRDIntervalMax second in
     ExponentialBackoffWithContext (2 ^ 31 - 1) (pf_Expired P deadline) (pf_Wait P deadline)
       (listAll P (requiredResources groups)) (second div 10) w)"

section \<open>The snapshot controller\<close>

record common_flags =
  cf_Version :: bool
  cf_HttpEndpoint :: string
  cf_DistributedSnapshotting :: bool
  cf_PreventVolumeModeConversion :: bool
  cf_RetryCRDIntervalMax :: nat
  cf_FeatureGates :: "(string, bool) fmap"

definition commonChecks :: "'w platform \<Rightarrow> common_flags \<Rightarrow> (bool \<times> nat \<times> string) list" where
  "commonChecks P flags =
    [(pf_ValidateLogging P \<noteq> None, 1, ''LoggingConfiguration is invalid''),
     (pf_SetFromMap P (cf_FeatureGates flags) \<noteq> None, 255,
       ''Error while parsing feature gates: '' @ messageOf (pf_SetFromMap P (cf_FeatureGates flags))),
     (cf_Version flags, 0, []),
     (pf_BuildConfig P \<noteq> None, 1, messageOf (pf_BuildConfig P)),
     (pf_KubeClient P \<noteq> None, 1, messageOf (pf_KubeClient P)),
     (pf_SnapClient P \<noteq> None, 1, ''Error building snapshot clientset: '' @ messageOf (pf_SnapClient P)),
     (cf_HttpEndpoint flags \<noteq> [] \<and> pf_PrepareMetrics P \<noteq> None, 1,
       ''Failed to prepare metrics path: '' @ messageOf (pf_PrepareMetrics P))]"

definition commonMain :: "'w env \<Rightarrow> 'w platform \<Rightarrow> common_flags \<Rightarrow> 'w \<Rightarrow> 'w env startup \<times> 'w" where
  "commonMain E P flags w =
    (case firstFailure (commonChecks P flags) of
       Some (code, message) \<Rightarrow> (Exit code message, w)
     | None \<Rightarrow>
        (let groups = gateEnabled (cf_FeatureGates flags) VolumeGroupSnapshot_gate in
         case ensureCustomResourceDefinitionsExist P (cf_RetryCRDIntervalMax flags) groups w of
           (Some err, w) \<Rightarrow>
             (Exit 1 (''Exiting due to failure to ensure CRDs exist during startup: '' @ err_text err), w)
         | (None, w) \<Rightarrow>
             (Started (E\<lparr>enableDistributedSnapshotting := cf_DistributedSnapshotting flags,
                preventVolumeModeConversion := cf_PreventVolumeModeConversion flags,
                enableVolumeGroupSnapshots := groups\<rparr>), w)))"

section \<open>The end of the metrics server\<close>

text \<open>
  The wait group of \<open>main\<close> in \<open>cmd/snapshot-controller\<close>. When \<open>main\<close> returns it shuts the metrics server down; its
  goroutine then calls \<open>Done\<close>, and so does the deferred function. A counter below zero is a panic.
\<close>

definition wg_Add :: "int \<Rightarrow> int \<Rightarrow> int option" where
  "wg_Add delta n = (if n + delta < 0 then None else Some (n + delta))"

definition wg_Done :: "int \<Rightarrow> int option" where
  "wg_Done = wg_Add (- 1)"

definition mainReturns :: "common_flags \<Rightarrow> int option" where
  "mainReturns flags = (if cf_HttpEndpoint flags \<noteq> [] then Option.bind (wg_Done 0) wg_Done else Some 0)"

lemma main_return_panics: "mainReturns flags = None \<longleftrightarrow> cf_HttpEndpoint flags \<noteq> []"
  by (simp add: mainReturns_def wg_Done_def wg_Add_def)

section \<open>What a process that has started can rely on\<close>

lemma firstFailure_None: "firstFailure checks = None \<longleftrightarrow> (\<forall>c\<in>set checks. \<not> fst c)"
  by (induction checks rule: firstFailure.induct) auto

lemma sidecarDriverChecks_started:
  assumes "sidecarDriverChecks E P flags driverName w = (Started r, w')"
  shows "r = sidecarConfiguration E P flags driverName \<and> sf_SnapshotNamePrefix flags \<noteq> [] \<and>
    (gateEnabled (sf_FeatureGates flags) VolumeGroupSnapshot_gate \<longrightarrow> sf_GroupSnapshotNamePrefix flags \<noteq> []) \<and>
    (\<exists>v caps. fst (csi_ControllerGetCapabilities E v) = Inr caps \<and> ''CREATE_DELETE_SNAPSHOT'' \<in> set caps)"
  using assms
  by (auto simp: sidecarDriverChecks_def supportsControllerCreateSnapshot_def Let_def
      split: prod.splits option.splits sum.splits bool.splits if_splits) (metis fst_conv)+

text \<open>A sidecar that has started talks to a driver that can create and delete snapshots, under the name the driver gave;
  its snapshot names have a non-empty prefix; it does not run on every node and elect a leader at once; and on a node it only
  sees the contents of that node, whose name is known.\<close>

theorem sidecar_start_guarded:
  assumes "sidecarMain E P flags w = (Started r, w')"
  shows "(\<exists>v. fst (csi_GetDriverName E v) = Inr (ctrl_driverName (ss_Env r))) \<and>
    (\<exists>v caps. fst (csi_ControllerGetCapabilities E v) = Inr caps \<and> ''CREATE_DELETE_SNAPSHOT'' \<in> set caps) \<and>
    snapshotNamePrefix (ss_Env r) \<noteq> [] \<and>
    (enableVolumeGroupSnapshots (ss_Env r) \<longrightarrow> ss_GroupSnapshotter r \<and> groupSnapshotNamePrefix (ss_Env r) \<noteq> []) \<and>
    (if sf_NodeDeployment flags
     then \<not> sf_LeaderElection flags \<and> pf_Getenv P ''NODE_NAME'' \<noteq> [] \<and>
       ss_Selector r = Some (VolumeSnapshotContentManagedByLabel, pf_Getenv P ''NODE_NAME'')
     else ss_Selector r = None)"
proof -
  have checks: "firstFailure (sidecarChecks P flags) = None"
    using assms by (auto simp: sidecarMain_def split: option.splits)
  then obtain driver v w1 where d: "fst (csi_GetDriverName E v) = Inr driver"
      "sidecarDriverChecks E P flags driver w1 = (Started r, w')"
    using assms by (auto simp: sidecarMain_def split: prod.splits option.splits sum.splits) (metis fst_conv)
  note r = sidecarDriverChecks_started[OF d(2)]
  have "sf_NodeDeployment flags \<longrightarrow> \<not> sf_LeaderElection flags \<and> pf_Getenv P ''NODE_NAME'' \<noteq> []"
  proof -
    have "\<forall>c\<in>set (sidecarChecks P flags). \<not> fst c" using checks by (simp add: firstFailure_None del: firstFailure.simps)
    then show ?thesis by (simp add: sidecarChecks_def)
  qed
  then show ?thesis using r d(1)
    by (auto simp: sidecarConfiguration_def contentSelector_def Let_def)
qed

lemma backoff_success:
  "ExponentialBackoffWithContext steps expired pause condition duration w = (None, w') \<Longrightarrow> \<exists>v. condition v = (True, w')"
  by (induction steps expired pause condition duration w rule: ExponentialBackoffWithContext.induct)
    (auto split: if_splits prod.splits bool.splits option.splits)

lemma listAll_ok: "listAll P rs w = (True, w') \<Longrightarrow> \<forall>r\<in>set rs. \<exists>v. fst (pf_List P r v) = None"
  by (induction P rs w rule: listAll.induct) (auto split: prod.splits option.splits, metis fst_conv)

text \<open>A snapshot controller only starts after one pass in which it could list every kind of object it will watch.\<close>

theorem common_start_needs_crds:
  assumes "commonMain E P flags w = (Started E', w')"
  shows "(\<exists>v. listAll P (requiredResources (enableVolumeGroupSnapshots E')) v = (True, w')) \<and>
    (\<forall>r\<in>set (requiredResources (enableVolumeGroupSnapshots E')). \<exists>v. fst (pf_List P r v) = None)"
proof -
  let ?groups = "gateEnabled (cf_FeatureGates flags) VolumeGroupSnapshot_gate"
  have "ensureCustomResourceDefinitionsExist P (cf_RetryCRDIntervalMax flags) ?groups w = (None, w')"
    and E': "enableVolumeGroupSnapshots E' = ?groups"
    using assms by (auto simp: commonMain_def Let_def split: option.splits prod.splits)
  then obtain v where "listAll P (requiredResources ?groups) v = (True, w')"
    using backoff_success unfolding ensureCustomResourceDefinitionsExist_def Let_def by metis
  then show ?thesis using listAll_ok E' by metis
qed

section \<open>The sidecars of a node deployment\<close>

lemma Labels_SetMetaDataAnnotation [simp]: "Labels (SetMetaDataAnnotation m k v) = Labels m"
  by (simp add: SetMetaDataAnnotation_def)

lemma firstMatchingNode_find:
  "firstMatchingNode f nodes = (case find f nodes of None \<Rightarrow> [] | Some n \<Rightarrow> Name (node_meta n))"
  by (induction nodes) auto

lemma selects_new:
  assumes "sf_NodeDeployment flags" "pf_Getenv P ''NODE_NAME'' \<noteq> []"
  shows "selects (contentSelector P flags) (vsc_meta (newSnapshotContent E v cl vol h n ref nodeName)) \<longleftrightarrow>
      nodeName = pf_Getenv P ''NODE_NAME''"
    and "\<not> selects (contentSelector P flags) (vgsc_meta (newGroupSnapshotContent g gcl hs n ref))"
  using assms
  by (auto simp: contentSelector_def selects_def newSnapshotContent_def newGroupSnapshotContent_def emptyMeta_def Let_def
      split: option.splits)

text \<open>What createSnapshotContent sends: the new content, made with the node of the volume.\<close>

lemma createSnapshotContent_sends:
  assumes run: "createSnapshotContent E v s = Some (r, s')" "log s' = log s @ new" "CreateVSC c \<in> set new"
  shows "\<exists>s1 cl vol h n ref s2 nodeName. ensurePVCFinalizer E v s = Some (None, s1) \<and>
    getCreateSnapshotInput E v s1 = Some (Inr (cl, vol, n, ref), s2) \<and>
    c = newSnapshotContent E v cl vol h n ref nodeName \<and>
    (if enableDistributedSnapshotting E then \<exists>s3. getManagedByNode E vol s2 = Some (Inr nodeName, s3) else nodeName = [])"
proof -
  obtain err s1 where en: "ensurePVCFinalizer E v s = Some (err, s1)"
    using run by (auto simp: createSnapshotContent_def split: Option.bind_splits)
  obtain pre where pre: "log s1 = log s @ pre" "list_all protects pre" using ensuresD[OF ensurePVCFinalizer_log en] by auto
  have no: "CreateVSC c \<notin> set pre" using pre(2) by (auto simp: list_all_iff protects_def)
  have err: "err = None" using run en pre no by (cases err) (auto simp: createSnapshotContent_def)
  have c: "createContentFromInput E v s1 = Some (r, s')" using run en err by (simp add: createSnapshotContent_def)
  obtain i s2 where i: "getCreateSnapshotInput E v s1 = Some (i, s2)"
    using c by (auto simp: createContentFromInput_def split: Option.bind_splits)
  have l2: "log s2 = log s1" using ensuresD[OF getCreateSnapshotInput_name i] by simp
  have sent: "log s' \<noteq> log s2" using run(2,3) pre no l2 by auto
  obtain cl vol n ref where inp: "i = Inr (cl, vol, n, ref)"
    using c i sent by (cases i) (auto simp: createContentFromInput_def)
  obtain csi where csi: "pv_CSI vol = Some csi"
    using c i sent inp by (cases "pv_CSI vol") (auto simp: createContentFromInput_def)
  let ?m = "if enableDistributedSnapshotting E then getManagedByNode E vol s2 else Some (Inr [], s2)"
  obtain nr s3 where m: "?m = Some (nr, s3)"
    using c i inp csi by (auto simp: createContentFromInput_def split: Option.bind_splits)
  have l3: "log s3 = log s2" using m
    by (auto simp: getManagedByNode_def call_def split: if_splits option.splits prod.splits sum.splits)
  obtain nodeName where nr: "nr = Inr nodeName"
    using c i inp csi m sent l3 by (cases nr) (auto simp: createContentFromInput_def)
  have "saveSnapshotContent E v (newSnapshotContent E v cl vol (csi_VolumeHandle csi) n ref nodeName) s3 = Some (r, s')"
    using c i inp csi m nr by (simp add: createContentFromInput_def)
  from ensuresD[OF saveSnapshotContent_log this] have "c = newSnapshotContent E v cl vol (csi_VolumeHandle csi) n ref nodeName"
    using run(2,3) pre no l2 l3 by (auto simp: isEvent_def)
  then show ?thesis using en err i inp m nr by (auto split: if_splits)
qed

text \<open>C23: A sidecar on a node is shown exactly the contents made for volumes of that node. A content that the snapshot
  controller creates is selected by the sidecar of the node NODE_NAME if and only if distributed snapshotting is enabled
  and the volume of the source claim has a node affinity whose terms match, first among the listed nodes, the node of
  that name. A group content that the snapshot controller creates is never selected, whatever its volumes: it carries
  no node.\<close>

theorem node_sidecar_selection:
  assumes node: "sf_NodeDeployment flags" "pf_Getenv P ''NODE_NAME'' \<noteq> []"
    and run: "createSnapshotContent E v s = Some (r, s')" "log s' = log s @ new" "CreateVSC c \<in> set new"
    and grun: "createGroupSnapshotContent E g t = Some (gr, t')" "log t' = log t @ gnew" "CreateVGSC gc \<in> set gnew"
  shows "(\<exists>s1 cl vol n ref s2. ensurePVCFinalizer E v s = Some (None, s1) \<and>
      getCreateSnapshotInput E v s1 = Some (Inr (cl, vol, n, ref), s2) \<and>
      (selects (contentSelector P flags) (vsc_meta c) \<longleftrightarrow> enableDistributedSnapshotting E \<and>
        (\<exists>terms nodes x. pv_NodeAffinity vol = Some terms \<and> fst (lister_ListNodes E (world s2)) = Inr nodes \<and>
           find (\<lambda>x. matchNodeSelectorTerms E x terms) nodes = Some x \<and>
           Name (node_meta x) = pf_Getenv P ''NODE_NAME''))) \<and>
    \<not> selects (contentSelector P flags) (vgsc_meta gc)"
proof -
  obtain s1 cl vol h n ref s2 nodeName where k: "ensurePVCFinalizer E v s = Some (None, s1)"
    "getCreateSnapshotInput E v s1 = Some (Inr (cl, vol, n, ref), s2)"
    "c = newSnapshotContent E v cl vol h n ref nodeName"
    "if enableDistributedSnapshotting E then \<exists>s3. getManagedByNode E vol s2 = Some (Inr nodeName, s3) else nodeName = []"
    using createSnapshotContent_sends[OF run] by blast
  have "nodeName = pf_Getenv P ''NODE_NAME'' \<longleftrightarrow> enableDistributedSnapshotting E \<and>
      (\<exists>terms nodes x. pv_NodeAffinity vol = Some terms \<and> fst (lister_ListNodes E (world s2)) = Inr nodes \<and>
         find (\<lambda>x. matchNodeSelectorTerms E x terms) nodes = Some x \<and> Name (node_meta x) = pf_Getenv P ''NODE_NAME'')"
    using k(4) node(2)
    by (cases "enableDistributedSnapshotting E")
      (auto simp: getManagedByNode_def call_def firstMatchingNode_find split: option.splits prod.splits sum.splits)
  moreover have "groupContentOf E g gc"
    using ensuresD[OF createGroupSnapshotContent_createsGroup grun(1)] grun(2,3)
    by (auto simp: onlyNew_def list_all_iff createsGroup_def)
  ultimately show ?thesis using k(1,2,3) by (auto simp: groupContentOf_def selects_new[OF node])
qed

text \<open>A platform on which everything works, and a sidecar with group snapshots on a node.\<close>

definition demoPlatform :: "unit platform" where
  "demoPlatform = \<lparr>pf_ValidateLogging = None, pf_SetFromMap = (\<lambda>_. None), pf_Getenv = (\<lambda>_. ''n1''), pf_BuildConfig = None,
     pf_KubeClient = None, pf_SnapClient = None, pf_PrepareMetrics = None, pf_List = (\<lambda>_ w. (None, w)),
     pf_Expired = (\<lambda>_ _. False), pf_Wait = (\<lambda>_ _ w. Some w), pf_Connect = (\<lambda>w. (None, w)),
     pf_ProbeForever = (\<lambda>w. (None, w)), pf_GroupCapabilities = (\<lambda>w. (Inr [], w))\<rparr>"

definition demoFlags :: sidecar_flags where
  "demoFlags = \<lparr>sf_Version = False, sf_LeaderElection = False, sf_NodeDeployment = True, sf_MetricsAddress = [],
     sf_HttpEndpoint = [], sf_SnapshotNamePrefix = ''snapshot'', sf_SnapshotNameUUIDLength = - 1,
     sf_GroupSnapshotNamePrefix = ''groupsnapshot'', sf_GroupSnapshotNameUUIDLength = - 1, sf_ExtraCreateMetadata = False,
     sf_FeatureGates = fmap_of_list [(''AllBeta'', True)]\<rparr>"

definition demoDriverEnv :: "unit env" where
  "demoDriverEnv = nullEnv\<lparr>csi_ControllerGetCapabilities := \<lambda>w. (Inr [''CREATE_DELETE_SNAPSHOT''], w)\<rparr>"

lemma demo_gates:
  "gateEnabled (fmap_of_list [(''AllBeta'', True)]) VolumeGroupSnapshot_gate"
  "\<not> gateEnabled (fmap_of_list [(''AllBeta'', True)]) ReleaseLeaderElectionOnExit_gate"
  by (simp_all add: gateEnabled_def VolumeGroupSnapshot_gate_def ReleaseLeaderElectionOnExit_gate_def
      defaultKubernetesFeatureGates_def)

lemma sidecar_start_guarded_witness:
  "\<exists>r. sidecarMain demoDriverEnv demoPlatform demoFlags () = (Started r, ()) \<and> enableVolumeGroupSnapshots (ss_Env r) \<and>
    snapshotNamePrefix (ss_Env r) \<noteq> [] \<and> ss_Selector r = Some (VolumeSnapshotContentManagedByLabel, ''n1'')"
proof -
  have checks: "firstFailure (sidecarChecks demoPlatform demoFlags) = None"
    by (simp add: firstFailure_None sidecarChecks_def demoPlatform_def demoFlags_def del: firstFailure.simps)
  have g: "gateEnabled (sf_FeatureGates demoFlags) VolumeGroupSnapshot_gate"
    using demo_gates by (simp add: demoFlags_def)
  have s: "sidecarMain demoDriverEnv demoPlatform demoFlags () =
      (Started (sidecarConfiguration demoDriverEnv demoPlatform demoFlags ''drv''), ())"
  proof -
    have "csi_GetDriverName demoDriverEnv () = (Inr ''drv'', ())"
      "csi_ControllerGetCapabilities demoDriverEnv () = (Inr [''CREATE_DELETE_SNAPSHOT''], ())"
      by (simp_all add: demoDriverEnv_def nullEnv_def)
    moreover have "pf_Connect demoPlatform () = (None, ())" "pf_ProbeForever demoPlatform () = (None, ())"
      "sf_SnapshotNamePrefix demoFlags = ''snapshot''" "sf_GroupSnapshotNamePrefix demoFlags = ''groupsnapshot''"
      by (simp_all add: demoPlatform_def demoFlags_def)
    ultimately show ?thesis using checks g
      by (simp add: sidecarMain_def sidecarDriverChecks_def supportsControllerCreateSnapshot_def split_beta)
  qed
  have e: "enableVolumeGroupSnapshots (ss_Env (sidecarConfiguration demoDriverEnv demoPlatform demoFlags ''drv''))"
    using g by (simp add: sidecarConfiguration_def)
  have n: "sf_NodeDeployment demoFlags" "pf_Getenv demoPlatform ''NODE_NAME'' = ''n1''"
    by (simp_all add: demoFlags_def demoPlatform_def)
  show ?thesis using sidecar_start_guarded[OF s] s e n by auto
qed

lemma common_start_needs_crds_witness:
  "\<exists>E'. commonMain nullEnv demoPlatform \<lparr>cf_Version = False, cf_HttpEndpoint = [], cf_DistributedSnapshotting = False,
      cf_PreventVolumeModeConversion = True, cf_RetryCRDIntervalMax = 0, cf_FeatureGates = fmempty\<rparr> () = (Started E', ()) \<and>
    (\<exists>v. listAll demoPlatform (requiredResources (enableVolumeGroupSnapshots E')) v = (True, ()))"
proof -
  let ?flags = "\<lparr>cf_Version = False, cf_HttpEndpoint = [], cf_DistributedSnapshotting = False,
      cf_PreventVolumeModeConversion = True, cf_RetryCRDIntervalMax = 0, cf_FeatureGates = fmempty\<rparr>"
  have l: "listAll demoPlatform rs () = (True, ())" for rs
    by (induction rs) (simp_all add: demoPlatform_def)
  have b: "ExponentialBackoffWithContext (Suc k) (pf_Expired demoPlatform d) q (listAll demoPlatform rs) e () = (None, ())"
    for k d q rs e
    by (simp add: l) (simp add: demoPlatform_def)
  obtain k where k: "(2::nat) ^ 31 - 1 = Suc k" by (cases "(2::nat) ^ 31 - 1") simp_all
  have c: "ensureCustomResourceDefinitionsExist demoPlatform m g () = (None, ())" for m g
    unfolding ensureCustomResourceDefinitionsExist_def Let_def k by (rule b)
  have checks: "firstFailure (commonChecks demoPlatform ?flags) = None"
    by (simp add: firstFailure_None commonChecks_def demoPlatform_def del: firstFailure.simps)
  obtain E' where s: "commonMain nullEnv demoPlatform ?flags () = (Started E', ())"
    unfolding commonMain_def checks by (simp add: c Let_def)
  show ?thesis using common_start_needs_crds[OF s] s by blast
qed

definition demoNode :: Node where
  "demoNode = \<lparr>node_meta = emptyMeta\<lparr>Name := ''n1''\<rparr>\<rparr>"

definition demoNodeEnv :: "unit env" where
  "demoNodeEnv = nullEnv\<lparr>lister_GetPVC := \<lambda>_ _ w. (Inr demoPVC, w),
     api_GetPV := \<lambda>_ w. (Inr (demoPV\<lparr>pv_NodeAffinity := Some None\<rparr>), w), lister_GetClass := \<lambda>_ w. (Inr demoClass, w),
     lister_GetGroupClass := \<lambda>_ w. (Inr demoVgsClass, w), api_ListPVC := \<lambda>_ _ w. (Inr [demoPVC], w),
     lister_ListNodes := \<lambda>w. (Inr [demoNode], w), matchNodeSelectorTerms := \<lambda>_ _. True,
     enableDistributedSnapshotting := True\<rparr>"

lemma demo_node_create:
  "\<exists>r c s'. createSnapshotContent demoNodeEnv demoDynamic (initialState ()) = Some (r, s') \<and> CreateVSC c \<in> set (log s')"
  by (simp add: createSnapshotContent_def createContentFromInput_def ensurePVCFinalizer_def
      getClaimFromVolumeSnapshot_def getCreateSnapshotInput_def getSnapshotClass_def getManagedByNode_def
      getVolumeFromVolumeSnapshot_def isVolumeBoundToClaim_def saveSnapshotContent_def
      GetSecretReference_def verifyAndGetSecretNameAndNamespaceTemplate_def mapGet_def
      demoNodeEnv_def nullEnv_def demoDynamic_def demoSnapshot_def demoPVC_def demoPV_def demoClass_def
      emptyVolumeSnapshot_def emptyMeta_def emptyRef_def Contains_def call_def act_def emit_def Let_def
      storeContentUpdate_def StoreObjectUpdate_def initialState_def)

lemma demo_node_group_create:
  "\<exists>r c s'. createGroupSnapshotContent demoNodeEnv demoNewGroup (initialState ()) = Some (r, s') \<and> CreateVGSC c \<in> set (log s')"
  by (auto simp: createGroupSnapshotContent_def getCreateGroupSnapshotInput_def demoNewGroup_sel
      getGroupSnapshotClass_def getVolumesFromVolumeGroupSnapshot_def getClaimsFromVolumeGroupSnapshot_def
      isVolumeBoundToClaim_def saveGroupSnapshotContent_def GetGroupSnapshotSecretReference_def
      verifyAndGetSecretNameAndNamespaceTemplate_def mapGet_def
      demoNodeEnv_def nullEnv_def demoPVC_def demoPV_def demoVgsClass_def
      emptyMeta_def emptyRef_def call_def act_def emit_def storeGroupSnapshotContentUpdate_def Let_def
      GroupSnapshotterSecretParams_def split: prod.split)

lemma demo_node_input:
  assumes "getCreateSnapshotInput demoNodeEnv v s = Some (Inr (cl, vol, n, ref), s')"
  shows "pv_NodeAffinity vol = Some None"
  using assms by (auto simp: getCreateSnapshotInput_def getVolumeFromVolumeSnapshot_def demoNodeEnv_def call_def Let_def
      getSnapshotClass_def getClaimFromVolumeSnapshot_def
      split: option.splits sum.splits Option.bind_splits if_splits)

theorem node_sidecar_selection_witness:
  "\<exists>r c s' gr gc t'. createSnapshotContent demoNodeEnv demoDynamic (initialState ()) = Some (r, s') \<and>
    CreateVSC c \<in> set (log s') \<and> selects (contentSelector demoPlatform demoFlags) (vsc_meta c) \<and>
    createGroupSnapshotContent demoNodeEnv demoNewGroup (initialState ()) = Some (gr, t') \<and>
    CreateVGSC gc \<in> set (log t') \<and> \<not> selects (contentSelector demoPlatform demoFlags) (vgsc_meta gc)"
proof -
  obtain r c s' where c: "createSnapshotContent demoNodeEnv demoDynamic (initialState ()) = Some (r, s')"
    "CreateVSC c \<in> set (log s')" using demo_node_create by blast
  obtain gr gc t' where g: "createGroupSnapshotContent demoNodeEnv demoNewGroup (initialState ()) = Some (gr, t')"
    "CreateVGSC gc \<in> set (log t')" using demo_node_group_create by blast
  have l: "log x = log (initialState ()) @ log x" for x :: "unit st" by (simp add: initialState_def)
  have f: "sf_NodeDeployment demoFlags" "pf_Getenv demoPlatform ''NODE_NAME'' = ''n1''"
    by (simp_all add: demoFlags_def demoPlatform_def)
  have n: "fst (lister_ListNodes demoNodeEnv w) = Inr [demoNode]" "matchNodeSelectorTerms demoNodeEnv x ts"
    "enableDistributedSnapshotting demoNodeEnv" "Name (node_meta demoNode) = ''n1''" for w x ts
    by (simp_all add: demoNodeEnv_def demoNode_def)
  have "selects (contentSelector demoPlatform demoFlags) (vsc_meta c) \<and>
      \<not> selects (contentSelector demoPlatform demoFlags) (vgsc_meta gc)"
    using node_sidecar_selection[of demoFlags demoPlatform, OF f(1) _ c(1) l c(2) g(1) l g(2)]
    by (auto simp: f n dest: demo_node_input)
  then show ?thesis using c g by blast
qed

end
