(* ===== verification/Clients.thy ===== *)
theory Clients
  imports Commands "HOL-Library.Word"
begin

text \<open>
  The generated clients (\<open>client/clientset/versioned/typed\<close>) down to the request that leaves the process. The clients of
  version v1 of the snapshot group build their requests themselves; those of the group snapshots are the generic client
  of client-go (\<open>gentype\<close>). A request is built by a chain of calls that keeps the first error
  (\<open>client-go/rest/request.go\<close>), and is sent only when there is none.
\<close>

section \<open>Requests\<close>

datatype verb = GET | POST | PUT | DELETE | PATCH

text \<open>Options are the query parameters that the parameter codec makes of them; of a list only the fields that this code sets.\<close>

type_synonym options = "(string \<times> string) list"

record ListOptions =
  lo_LabelSelector :: string
  lo_TimeoutSeconds :: "int option"
  lo_Watch :: bool
  lo_Other :: options

datatype payload =
    SnapshotBody VolumeSnapshot | SnapshotClassBody VolumeSnapshotClass | ContentBody VolumeSnapshotContent
  | GroupSnapshotBody VolumeGroupSnapshot | GroupSnapshotClassBody VolumeGroupSnapshotClass
  | GroupContentBody VolumeGroupSnapshotContent
  | DeleteOptionsBody options | PatchBody string "PatchOp list"

datatype parameters = NoParams | OptionParams options | ListParams ListOptions

text \<open>A client of one group version: the path of the server's base URL, and the path that \<open>setConfigDefaults\<close> gives.\<close>

record restClient =
  rc_Base :: "string list"
  rc_Group :: string
  rc_Version :: string

definition SnapshotV1Client :: "string list \<Rightarrow> restClient" where
  "SnapshotV1Client base = \<lparr>rc_Base = base, rc_Group = ''snapshot.storage.k8s.io'', rc_Version = ''v1''\<rparr>"

definition GroupsnapshotV1Client :: "string list \<Rightarrow> restClient" where
  "GroupsnapshotV1Client base = \<lparr>rc_Base = base, rc_Group = ''groupsnapshot.storage.k8s.io'', rc_Version = ''v1''\<rparr>"

definition GroupsnapshotV1beta1Client :: "string list \<Rightarrow> restClient" where
  "GroupsnapshotV1beta1Client base =
    \<lparr>rc_Base = base, rc_Group = ''groupsnapshot.storage.k8s.io'', rc_Version = ''v1beta1''\<rparr>"

definition GroupsnapshotV1beta2Client :: "string list \<Rightarrow> restClient" where
  "GroupsnapshotV1beta2Client base =
    \<lparr>rc_Base = base, rc_Group = ''groupsnapshot.storage.k8s.io'', rc_Version = ''v1beta2''\<rparr>"

record restRequest =
  r_verb :: verb
  r_pathPrefix :: "string list"
  r_namespaceSet :: bool
  r_namespace :: string
  r_resource :: string
  r_resourceName :: string
  r_subresource :: string
  r_params :: parameters
  r_timeout :: int
  r_body :: "payload option"
  r_err :: "goerr option"

definition newRequest :: "restClient \<Rightarrow> verb \<Rightarrow> restRequest" where
  "newRequest c v =
    \<lparr>r_verb = v, r_pathPrefix = rc_Base c @ [''apis'', rc_Group c, rc_Version c], r_namespaceSet = False, r_namespace = [],
     r_resource = [], r_resourceName = [], r_subresource = [], r_params = NoParams, r_timeout = 0, r_body = None,
     r_err = None\<rparr>"

text \<open>The chain of calls.\<close>

definition build :: "restRequest \<Rightarrow> (restRequest \<Rightarrow> restRequest) list \<Rightarrow> restRequest" where
  "build r calls = foldl (\<lambda>r call. call r) r calls"

definition IsValidPathSegmentName :: "string \<Rightarrow> string list" where
  "IsValidPathSegmentName name =
    (if name = ''.'' \<or> name = ''..'' then [sprint [''may not be '', [CHR 0x27], name, [CHR 0x27]]]
     else filter (\<lambda>m. m \<noteq> [])
       [if CHR ''/'' \<in> set name then sprint [''may not contain '', [CHR 0x27], ''/'', [CHR 0x27]] else [],
        if CHR ''%'' \<in> set name then sprint [''may not contain '', [CHR 0x27], ''%'', [CHR 0x27]] else []])"

definition failWith :: "string list \<Rightarrow> restRequest \<Rightarrow> restRequest" where
  "failWith parts r = r\<lparr>r_err := Some (Errorf (sprint parts))\<rparr>"

definition rNamespace :: "string \<Rightarrow> restRequest \<Rightarrow> restRequest" where
  "rNamespace namespace r =
    (if r_err r \<noteq> None then r
     else if r_namespaceSet r
     then failWith [''namespace already set to '', goQuote (r_namespace r), '', cannot change to '', goQuote namespace] r
     else if IsValidPathSegmentName namespace \<noteq> []
     then failWith [''invalid namespace '', goQuote namespace, '': '', goStrings (IsValidPathSegmentName namespace)] r
     else r\<lparr>r_namespaceSet := True, r_namespace := namespace\<rparr>)"

definition rNamespaceIfScoped :: "string \<Rightarrow> bool \<Rightarrow> restRequest \<Rightarrow> restRequest" where
  "rNamespaceIfScoped namespace scoped r = (if scoped then rNamespace namespace r else r)"

definition rResource :: "string \<Rightarrow> restRequest \<Rightarrow> restRequest" where
  "rResource resource r =
    (if r_err r \<noteq> None then r
     else if r_resource r \<noteq> []
     then failWith [''resource already set to '', goQuote (r_resource r), '', cannot change to '', goQuote resource] r
     else if IsValidPathSegmentName resource \<noteq> []
     then failWith [''invalid resource '', goQuote resource, '': '', goStrings (IsValidPathSegmentName resource)] r
     else r\<lparr>r_resource := resource\<rparr>)"

definition rName :: "string \<Rightarrow> restRequest \<Rightarrow> restRequest" where
  "rName resourceName r =
    (if r_err r \<noteq> None then r
     else if resourceName = [] then failWith [''resource name may not be empty''] r
     else if r_resourceName r \<noteq> []
     then failWith [''resource name already set to '', goQuote (r_resourceName r), '', cannot change to '',
            goQuote resourceName] r
     else if IsValidPathSegmentName resourceName \<noteq> []
     then failWith [''invalid resource name '', goQuote resourceName, '': '',
            goStrings (IsValidPathSegmentName resourceName)] r
     else r\<lparr>r_resourceName := resourceName\<rparr>)"

text \<open>\<open>path.Join\<close> of segments that need no cleaning, which the check that follows sees to.\<close>

definition joinPath :: "string list \<Rightarrow> string" where
  "joinPath segments = joinWith ''/'' (filter (\<lambda>s. s \<noteq> []) segments)"

definition rSubResource :: "string list \<Rightarrow> restRequest \<Rightarrow> restRequest" where
  "rSubResource subresources r =
    (if r_err r \<noteq> None then r
     else if r_subresource r \<noteq> []
     then failWith [''subresource already set to '', goQuote (r_subresource r), '', cannot change to '',
            goQuote (joinPath subresources)] r
     else case filter (\<lambda>s. IsValidPathSegmentName s \<noteq> []) subresources of
       s # _ \<Rightarrow> failWith [''invalid subresource '', goQuote s, '': '', goStrings (IsValidPathSegmentName s)] r
     | [] \<Rightarrow> r\<lparr>r_subresource := joinPath subresources\<rparr>)"

definition rParams :: "parameters \<Rightarrow> restRequest \<Rightarrow> restRequest" where
  "rParams params r = (if r_err r \<noteq> None then r else r\<lparr>r_params := params\<rparr>)"

definition rTimeout :: "int \<Rightarrow> restRequest \<Rightarrow> restRequest" where
  "rTimeout d r = (if r_err r \<noteq> None then r else r\<lparr>r_timeout := d\<rparr>)"

definition rBody :: "payload \<Rightarrow> restRequest \<Rightarrow> restRequest" where
  "rBody body r = (if r_err r \<noteq> None then r else r\<lparr>r_body := Some body\<rparr>)"

text \<open>\<open>time.Duration(*opts.TimeoutSeconds) * time.Second\<close>, in 64 bits.\<close>

definition listTimeout :: "ListOptions \<Rightarrow> int" where
  "listTimeout opts =
    (case lo_TimeoutSeconds opts of None \<Rightarrow> 0 | Some n \<Rightarrow> sint (word_of_int (n * 1000000000) :: 64 word))"

definition requestPreflightCheck :: "restRequest \<Rightarrow> goerr option" where
  "requestPreflightCheck r =
    (if \<not> r_namespaceSet r \<or> r_namespace r \<noteq> [] then None
     else if r_verb r = POST then Some (Errorf ''an empty namespace may not be set during creation'')
     else if (r_verb r = GET \<or> r_verb r = PUT \<or> r_verb r = DELETE) \<and> r_resourceName r \<noteq> []
     then Some (Errorf ''an empty namespace may not be set when a resource name is provided'')
     else None)"

text \<open>What goes out: nothing but the error, or the request.\<close>

definition sent :: "restRequest \<Rightarrow> goerr + restRequest" where
  "sent r =
    (case r_err r of
       Some err \<Rightarrow> Inl err
     | None \<Rightarrow> (case requestPreflightCheck r of Some err \<Rightarrow> Inl err | None \<Rightarrow> Inr r))"

text \<open>The path of the request. Resources are in lower case, so \<open>strings.ToLower\<close> leaves them.\<close>

definition URL_path :: "restRequest \<Rightarrow> string" where
  "URL_path r =
    concat (map ((#) CHR ''/'')
      (r_pathPrefix r @
       (if r_namespaceSet r \<and> r_namespace r \<noteq> [] then [''namespaces'', r_namespace r] else []) @
       (if r_resource r \<noteq> [] then [r_resource r] else []) @
       filter (\<lambda>s. s \<noteq> []) [r_resourceName r, r_subresource r]))"

section \<open>The clients of version v1 of the snapshot group\<close>

record typedClient =
  tc_client :: restClient
  tc_ns :: string

definition newVolumeSnapshots :: "restClient \<Rightarrow> string \<Rightarrow> typedClient" where
  "newVolumeSnapshots c namespace = \<lparr>tc_client = c, tc_ns = namespace\<rparr>"

definition volumeSnapshots_Get :: "typedClient \<Rightarrow> string \<Rightarrow> options \<Rightarrow> restRequest" where
  "volumeSnapshots_Get c name opts = build (newRequest (tc_client c) GET)
    [rNamespace (tc_ns c), rResource ''volumesnapshots'', rName name, rParams (OptionParams opts)]"

definition volumeSnapshots_List :: "typedClient \<Rightarrow> ListOptions \<Rightarrow> restRequest" where
  "volumeSnapshots_List c opts = build (newRequest (tc_client c) GET)
    [rNamespace (tc_ns c), rResource ''volumesnapshots'', rParams (ListParams opts), rTimeout (listTimeout opts)]"

definition volumeSnapshots_Watch :: "typedClient \<Rightarrow> ListOptions \<Rightarrow> restRequest" where
  "volumeSnapshots_Watch c opts = build (newRequest (tc_client c) GET)
    [rNamespace (tc_ns c), rResource ''volumesnapshots'', rParams (ListParams (opts\<lparr>lo_Watch := True\<rparr>)), rTimeout (listTimeout opts)]"

definition volumeSnapshots_Create :: "typedClient \<Rightarrow> VolumeSnapshot \<Rightarrow> options \<Rightarrow> restRequest" where
  "volumeSnapshots_Create c x opts = build (newRequest (tc_client c) POST)
    [rNamespace (tc_ns c), rResource ''volumesnapshots'', rParams (OptionParams opts), rBody (SnapshotBody x)]"

definition volumeSnapshots_Update :: "typedClient \<Rightarrow> VolumeSnapshot \<Rightarrow> options \<Rightarrow> restRequest" where
  "volumeSnapshots_Update c x opts = build (newRequest (tc_client c) PUT)
    [rNamespace (tc_ns c), rResource ''volumesnapshots'', rName (Name (vs_meta x)), rParams (OptionParams opts),
     rBody (SnapshotBody x)]"

definition volumeSnapshots_UpdateStatus :: "typedClient \<Rightarrow> VolumeSnapshot \<Rightarrow> options \<Rightarrow> restRequest" where
  "volumeSnapshots_UpdateStatus c x opts = build (newRequest (tc_client c) PUT)
    [rNamespace (tc_ns c), rResource ''volumesnapshots'', rName (Name (vs_meta x)), rSubResource [''status''],
     rParams (OptionParams opts), rBody (SnapshotBody x)]"

definition volumeSnapshots_Delete :: "typedClient \<Rightarrow> string \<Rightarrow> options \<Rightarrow> restRequest" where
  "volumeSnapshots_Delete c name opts = build (newRequest (tc_client c) DELETE)
    [rNamespace (tc_ns c), rResource ''volumesnapshots'', rName name, rBody (DeleteOptionsBody opts)]"

definition volumeSnapshots_DeleteCollection :: "typedClient \<Rightarrow> options \<Rightarrow> ListOptions \<Rightarrow> restRequest" where
  "volumeSnapshots_DeleteCollection c opts listOpts = build (newRequest (tc_client c) DELETE)
    [rNamespace (tc_ns c), rResource ''volumesnapshots'', rParams (ListParams listOpts),
     rTimeout (listTimeout listOpts), rBody (DeleteOptionsBody opts)]"

definition volumeSnapshots_Patch :: "typedClient \<Rightarrow> string \<Rightarrow> string \<Rightarrow> PatchOp list \<Rightarrow> options \<Rightarrow> string list \<Rightarrow> restRequest" where
  "volumeSnapshots_Patch c name pt data opts subresources = build (newRequest (tc_client c) PATCH)
    [rNamespace (tc_ns c), rResource ''volumesnapshots'', rName name,
     rSubResource subresources, rParams (OptionParams opts), rBody (PatchBody pt data)]"

definition newVolumeSnapshotContents :: "restClient \<Rightarrow> typedClient" where
  "newVolumeSnapshotContents c = \<lparr>tc_client = c, tc_ns = []\<rparr>"

definition volumeSnapshotContents_Get :: "typedClient \<Rightarrow> string \<Rightarrow> options \<Rightarrow> restRequest" where
  "volumeSnapshotContents_Get c name opts = build (newRequest (tc_client c) GET)
    [rResource ''volumesnapshotcontents'', rName name, rParams (OptionParams opts)]"

definition volumeSnapshotContents_List :: "typedClient \<Rightarrow> ListOptions \<Rightarrow> restRequest" where
  "volumeSnapshotContents_List c opts = build (newRequest (tc_client c) GET)
    [rResource ''volumesnapshotcontents'', rParams (ListParams opts), rTimeout (listTimeout opts)]"

definition volumeSnapshotContents_Watch :: "typedClient \<Rightarrow> ListOptions \<Rightarrow> restRequest" where
  "volumeSnapshotContents_Watch c opts = build (newRequest (tc_client c) GET)
    [rResource ''volumesnapshotcontents'', rParams (ListParams (opts\<lparr>lo_Watch := True\<rparr>)), rTimeout (listTimeout opts)]"

definition volumeSnapshotContents_Create :: "typedClient \<Rightarrow> VolumeSnapshotContent \<Rightarrow> options \<Rightarrow> restRequest" where
  "volumeSnapshotContents_Create c x opts = build (newRequest (tc_client c) POST)
    [rResource ''volumesnapshotcontents'', rParams (OptionParams opts), rBody (ContentBody x)]"

definition volumeSnapshotContents_Update :: "typedClient \<Rightarrow> VolumeSnapshotContent \<Rightarrow> options \<Rightarrow> restRequest" where
  "volumeSnapshotContents_Update c x opts = build (newRequest (tc_client c) PUT)
    [rResource ''volumesnapshotcontents'', rName (Name (vsc_meta x)), rParams (OptionParams opts),
     rBody (ContentBody x)]"

definition volumeSnapshotContents_UpdateStatus :: "typedClient \<Rightarrow> VolumeSnapshotContent \<Rightarrow> options \<Rightarrow> restRequest" where
  "volumeSnapshotContents_UpdateStatus c x opts = build (newRequest (tc_client c) PUT)
    [rResource ''volumesnapshotcontents'', rName (Name (vsc_meta x)), rSubResource [''status''],
     rParams (OptionParams opts), rBody (ContentBody x)]"

definition volumeSnapshotContents_Delete :: "typedClient \<Rightarrow> string \<Rightarrow> options \<Rightarrow> restRequest" where
  "volumeSnapshotContents_Delete c name opts = build (newRequest (tc_client c) DELETE)
    [rResource ''volumesnapshotcontents'', rName name, rBody (DeleteOptionsBody opts)]"

definition volumeSnapshotContents_DeleteCollection :: "typedClient \<Rightarrow> options \<Rightarrow> ListOptions \<Rightarrow> restRequest" where
  "volumeSnapshotContents_DeleteCollection c opts listOpts = build (newRequest (tc_client c) DELETE)
    [rResource ''volumesnapshotcontents'', rParams (ListParams listOpts),
     rTimeout (listTimeout listOpts), rBody (DeleteOptionsBody opts)]"

definition volumeSnapshotContents_Patch :: "typedClient \<Rightarrow> string \<Rightarrow> string \<Rightarrow> PatchOp list \<Rightarrow> options \<Rightarrow> string list \<Rightarrow> restRequest" where
  "volumeSnapshotContents_Patch c name pt data opts subresources = build (newRequest (tc_client c) PATCH)
    [rResource ''volumesnapshotcontents'', rName name,
     rSubResource subresources, rParams (OptionParams opts), rBody (PatchBody pt data)]"

definition newVolumeSnapshotClasses :: "restClient \<Rightarrow> typedClient" where
  "newVolumeSnapshotClasses c = \<lparr>tc_client = c, tc_ns = []\<rparr>"

definition volumeSnapshotClasses_Get :: "typedClient \<Rightarrow> string \<Rightarrow> options \<Rightarrow> restRequest" where
  "volumeSnapshotClasses_Get c name opts = build (newRequest (tc_client c) GET)
    [rResource ''volumesnapshotclasses'', rName name, rParams (OptionParams opts)]"

definition volumeSnapshotClasses_List :: "typedClient \<Rightarrow> ListOptions \<Rightarrow> restRequest" where
  "volumeSnapshotClasses_List c opts = build (newRequest (tc_client c) GET)
    [rResource ''volumesnapshotclasses'', rParams (ListParams opts), rTimeout (listTimeout opts)]"

definition volumeSnapshotClasses_Watch :: "typedClient \<Rightarrow> ListOptions \<Rightarrow> restRequest" where
  "volumeSnapshotClasses_Watch c opts = build (newRequest (tc_client c) GET)
    [rResource ''volumesnapshotclasses'', rParams (ListParams (opts\<lparr>lo_Watch := True\<rparr>)), rTimeout (listTimeout opts)]"

definition volumeSnapshotClasses_Create :: "typedClient \<Rightarrow> VolumeSnapshotClass \<Rightarrow> options \<Rightarrow> restRequest" where
  "volumeSnapshotClasses_Create c x opts = build (newRequest (tc_client c) POST)
    [rResource ''volumesnapshotclasses'', rParams (OptionParams opts), rBody (SnapshotClassBody x)]"

definition volumeSnapshotClasses_Update :: "typedClient \<Rightarrow> VolumeSnapshotClass \<Rightarrow> options \<Rightarrow> restRequest" where
  "volumeSnapshotClasses_Update c x opts = build (newRequest (tc_client c) PUT)
    [rResource ''volumesnapshotclasses'', rName (Name (vsclass_meta x)), rParams (OptionParams opts),
     rBody (SnapshotClassBody x)]"

definition volumeSnapshotClasses_Delete :: "typedClient \<Rightarrow> string \<Rightarrow> options \<Rightarrow> restRequest" where
  "volumeSnapshotClasses_Delete c name opts = build (newRequest (tc_client c) DELETE)
    [rResource ''volumesnapshotclasses'', rName name, rBody (DeleteOptionsBody opts)]"

definition volumeSnapshotClasses_DeleteCollection :: "typedClient \<Rightarrow> options \<Rightarrow> ListOptions \<Rightarrow> restRequest" where
  "volumeSnapshotClasses_DeleteCollection c opts listOpts = build (newRequest (tc_client c) DELETE)
    [rResource ''volumesnapshotclasses'', rParams (ListParams listOpts),
     rTimeout (listTimeout listOpts), rBody (DeleteOptionsBody opts)]"

definition volumeSnapshotClasses_Patch :: "typedClient \<Rightarrow> string \<Rightarrow> string \<Rightarrow> PatchOp list \<Rightarrow> options \<Rightarrow> string list \<Rightarrow> restRequest" where
  "volumeSnapshotClasses_Patch c name pt data opts subresources = build (newRequest (tc_client c) PATCH)
    [rResource ''volumesnapshotclasses'', rName name,
     rSubResource subresources, rParams (OptionParams opts), rBody (PatchBody pt data)]"

section \<open>The generic client\<close>

record gentypeClient =
  g_resource :: string
  g_client :: restClient
  g_namespace :: string

definition gentype_Get :: "gentypeClient \<Rightarrow> string \<Rightarrow> options \<Rightarrow> restRequest" where
  "gentype_Get c name opts = build (newRequest (g_client c) GET)
    [rNamespaceIfScoped (g_namespace c) (g_namespace c \<noteq> []), rResource (g_resource c), rName name,
     rParams (OptionParams opts)]"

definition gentype_List :: "gentypeClient \<Rightarrow> ListOptions \<Rightarrow> restRequest" where
  "gentype_List c opts = build (newRequest (g_client c) GET)
    [rNamespaceIfScoped (g_namespace c) (g_namespace c \<noteq> []), rResource (g_resource c), rParams (ListParams opts),
     rTimeout (listTimeout opts)]"

definition gentype_Watch :: "gentypeClient \<Rightarrow> ListOptions \<Rightarrow> restRequest" where
  "gentype_Watch c opts = build (newRequest (g_client c) GET)
    [rNamespaceIfScoped (g_namespace c) (g_namespace c \<noteq> []), rResource (g_resource c), 
     rParams (ListParams (opts\<lparr>lo_Watch := True\<rparr>)), rTimeout (listTimeout opts)]"

definition gentype_Create :: "gentypeClient \<Rightarrow> payload \<Rightarrow> options \<Rightarrow> restRequest" where
  "gentype_Create c x opts = build (newRequest (g_client c) POST)
    [rNamespaceIfScoped (g_namespace c) (g_namespace c \<noteq> []), rResource (g_resource c), 
     rParams (OptionParams opts), rBody x]"

definition gentype_Update :: "gentypeClient \<Rightarrow> string \<Rightarrow> payload \<Rightarrow> options \<Rightarrow> restRequest" where
  "gentype_Update c name x opts = build (newRequest (g_client c) PUT)
    [rNamespaceIfScoped (g_namespace c) (g_namespace c \<noteq> []), rResource (g_resource c), rName name,
     rParams (OptionParams opts), rBody x]"

definition gentype_UpdateStatus :: "gentypeClient \<Rightarrow> string \<Rightarrow> payload \<Rightarrow> options \<Rightarrow> restRequest" where
  "gentype_UpdateStatus c name x opts = build (newRequest (g_client c) PUT)
    [rNamespaceIfScoped (g_namespace c) (g_namespace c \<noteq> []), rResource (g_resource c), rName name,
     rSubResource [''status''], rParams (OptionParams opts), rBody x]"

definition gentype_Delete :: "gentypeClient \<Rightarrow> string \<Rightarrow> options \<Rightarrow> restRequest" where
  "gentype_Delete c name opts = build (newRequest (g_client c) DELETE)
    [rNamespaceIfScoped (g_namespace c) (g_namespace c \<noteq> []), rResource (g_resource c), rName name,
     rBody (DeleteOptionsBody opts)]"

definition gentype_DeleteCollection :: "gentypeClient \<Rightarrow> options \<Rightarrow> ListOptions \<Rightarrow> restRequest" where
  "gentype_DeleteCollection c opts listOpts = build (newRequest (g_client c) DELETE)
    [rNamespaceIfScoped (g_namespace c) (g_namespace c \<noteq> []), rResource (g_resource c), 
     rParams (ListParams listOpts), rTimeout (listTimeout listOpts), rBody (DeleteOptionsBody opts)]"

definition gentype_Patch :: "gentypeClient \<Rightarrow> string \<Rightarrow> string \<Rightarrow> PatchOp list \<Rightarrow> options \<Rightarrow> string list \<Rightarrow> restRequest" where
  "gentype_Patch c name pt data opts subresources = build (newRequest (g_client c) PATCH)
    [rNamespaceIfScoped (g_namespace c) (g_namespace c \<noteq> []), rResource (g_resource c), rName name,
     rSubResource subresources, rParams (OptionParams opts), rBody (PatchBody pt data)]"

text \<open>The clients of the group snapshots, in each version.\<close>

definition newVolumeGroupSnapshots_v1 :: "restClient \<Rightarrow> string \<Rightarrow> gentypeClient" where
  "newVolumeGroupSnapshots_v1 c namespace = \<lparr>g_resource = ''volumegroupsnapshots'', g_client = c, g_namespace = namespace\<rparr>"

definition newVolumeGroupSnapshotContents_v1 :: "restClient \<Rightarrow> gentypeClient" where
  "newVolumeGroupSnapshotContents_v1 c = \<lparr>g_resource = ''volumegroupsnapshotcontents'', g_client = c, g_namespace = []\<rparr>"

definition newVolumeGroupSnapshotClasses_v1 :: "restClient \<Rightarrow> gentypeClient" where
  "newVolumeGroupSnapshotClasses_v1 c = \<lparr>g_resource = ''volumegroupsnapshotclasses'', g_client = c, g_namespace = []\<rparr>"

definition newVolumeGroupSnapshots_v1beta1 :: "restClient \<Rightarrow> string \<Rightarrow> gentypeClient" where
  "newVolumeGroupSnapshots_v1beta1 c namespace = \<lparr>g_resource = ''volumegroupsnapshots'', g_client = c, g_namespace = namespace\<rparr>"

definition newVolumeGroupSnapshotContents_v1beta1 :: "restClient \<Rightarrow> gentypeClient" where
  "newVolumeGroupSnapshotContents_v1beta1 c = \<lparr>g_resource = ''volumegroupsnapshotcontents'', g_client = c, g_namespace = []\<rparr>"

definition newVolumeGroupSnapshotClasses_v1beta1 :: "restClient \<Rightarrow> gentypeClient" where
  "newVolumeGroupSnapshotClasses_v1beta1 c = \<lparr>g_resource = ''volumegroupsnapshotclasses'', g_client = c, g_namespace = []\<rparr>"

definition newVolumeGroupSnapshots_v1beta2 :: "restClient \<Rightarrow> string \<Rightarrow> gentypeClient" where
  "newVolumeGroupSnapshots_v1beta2 c namespace = \<lparr>g_resource = ''volumegroupsnapshots'', g_client = c, g_namespace = namespace\<rparr>"

definition newVolumeGroupSnapshotContents_v1beta2 :: "restClient \<Rightarrow> gentypeClient" where
  "newVolumeGroupSnapshotContents_v1beta2 c = \<lparr>g_resource = ''volumegroupsnapshotcontents'', g_client = c, g_namespace = []\<rparr>"

definition newVolumeGroupSnapshotClasses_v1beta2 :: "restClient \<Rightarrow> gentypeClient" where
  "newVolumeGroupSnapshotClasses_v1beta2 c = \<lparr>g_resource = ''volumegroupsnapshotclasses'', g_client = c, g_namespace = []\<rparr>"

section \<open>What a call addresses\<close>

text \<open>A call of a client of one kind of object.\<close>

datatype 'o operation =
    CallGet string options | CallList ListOptions | CallWatch ListOptions | CallCreate 'o options | CallUpdate 'o options
  | CallUpdateStatus 'o options | CallDelete string options | CallDeleteCollection options ListOptions
  | CallPatch string string "PatchOp list" options "string list"

datatype apiCall =
    SnapshotCall string "VolumeSnapshot operation"
  | ContentCall "VolumeSnapshotContent operation"
  | SnapshotClassCall "VolumeSnapshotClass operation"
  | GroupSnapshotCall string "VolumeGroupSnapshot operation"
  | GroupContentCall "VolumeGroupSnapshotContent operation"
  | GroupClassCall "VolumeGroupSnapshotClass operation"

fun snapshotRequest :: "typedClient \<Rightarrow> VolumeSnapshot operation \<Rightarrow> restRequest" where
  "snapshotRequest c (CallGet name opts) = volumeSnapshots_Get c name opts"
| "snapshotRequest c (CallList opts) = volumeSnapshots_List c opts"
| "snapshotRequest c (CallWatch opts) = volumeSnapshots_Watch c opts"
| "snapshotRequest c (CallCreate x opts) = volumeSnapshots_Create c x opts"
| "snapshotRequest c (CallUpdate x opts) = volumeSnapshots_Update c x opts"
| "snapshotRequest c (CallUpdateStatus x opts) = volumeSnapshots_UpdateStatus c x opts"
| "snapshotRequest c (CallDelete name opts) = volumeSnapshots_Delete c name opts"
| "snapshotRequest c (CallDeleteCollection opts listOpts) = volumeSnapshots_DeleteCollection c opts listOpts"
| "snapshotRequest c (CallPatch name pt data opts subs) = volumeSnapshots_Patch c name pt data opts subs"

fun contentRequest :: "typedClient \<Rightarrow> VolumeSnapshotContent operation \<Rightarrow> restRequest" where
  "contentRequest c (CallGet name opts) = volumeSnapshotContents_Get c name opts"
| "contentRequest c (CallList opts) = volumeSnapshotContents_List c opts"
| "contentRequest c (CallWatch opts) = volumeSnapshotContents_Watch c opts"
| "contentRequest c (CallCreate x opts) = volumeSnapshotContents_Create c x opts"
| "contentRequest c (CallUpdate x opts) = volumeSnapshotContents_Update c x opts"
| "contentRequest c (CallUpdateStatus x opts) = volumeSnapshotContents_UpdateStatus c x opts"
| "contentRequest c (CallDelete name opts) = volumeSnapshotContents_Delete c name opts"
| "contentRequest c (CallDeleteCollection opts listOpts) = volumeSnapshotContents_DeleteCollection c opts listOpts"
| "contentRequest c (CallPatch name pt data opts subs) = volumeSnapshotContents_Patch c name pt data opts subs"

text \<open>Classes have no status, so their clients have no \<open>UpdateStatus\<close>.\<close>

fun snapshotClassRequest :: "typedClient \<Rightarrow> VolumeSnapshotClass operation \<Rightarrow> restRequest option" where
  "snapshotClassRequest c (CallGet name opts) = Some (volumeSnapshotClasses_Get c name opts)"
| "snapshotClassRequest c (CallList opts) = Some (volumeSnapshotClasses_List c opts)"
| "snapshotClassRequest c (CallWatch opts) = Some (volumeSnapshotClasses_Watch c opts)"
| "snapshotClassRequest c (CallCreate x opts) = Some (volumeSnapshotClasses_Create c x opts)"
| "snapshotClassRequest c (CallUpdate x opts) = Some (volumeSnapshotClasses_Update c x opts)"
| "snapshotClassRequest c (CallUpdateStatus x opts) = None"
| "snapshotClassRequest c (CallDelete name opts) = Some (volumeSnapshotClasses_Delete c name opts)"
| "snapshotClassRequest c (CallDeleteCollection opts listOpts) = Some (volumeSnapshotClasses_DeleteCollection c opts listOpts)"
| "snapshotClassRequest c (CallPatch name pt data opts subs) = Some (volumeSnapshotClasses_Patch c name pt data opts subs)"

fun gentypeRequest :: "('o \<Rightarrow> string) \<Rightarrow> ('o \<Rightarrow> payload) \<Rightarrow> gentypeClient \<Rightarrow> 'o operation \<Rightarrow> restRequest" where
  "gentypeRequest nm enc c (CallGet name opts) = gentype_Get c name opts"
| "gentypeRequest nm enc c (CallList opts) = gentype_List c opts"
| "gentypeRequest nm enc c (CallWatch opts) = gentype_Watch c opts"
| "gentypeRequest nm enc c (CallCreate x opts) = gentype_Create c (enc x) opts"
| "gentypeRequest nm enc c (CallUpdate x opts) = gentype_Update c (nm x) (enc x) opts"
| "gentypeRequest nm enc c (CallUpdateStatus x opts) = gentype_UpdateStatus c (nm x) (enc x) opts"
| "gentypeRequest nm enc c (CallDelete name opts) = gentype_Delete c name opts"
| "gentypeRequest nm enc c (CallDeleteCollection opts listOpts) = gentype_DeleteCollection c opts listOpts"
| "gentypeRequest nm enc c (CallPatch name pt data opts subs) = gentype_Patch c name pt data opts subs"

fun hasNoStatus :: "'o operation \<Rightarrow> bool" where
  "hasNoStatus (CallUpdateStatus x opts) = False"
| "hasNoStatus _ = True"

text \<open>The request of a call of the clientset on a server.\<close>

fun requestOf :: "string list \<Rightarrow> apiCall \<Rightarrow> restRequest option" where
  "requestOf base (SnapshotCall ns op) = Some (snapshotRequest (newVolumeSnapshots (SnapshotV1Client base) ns) op)"
| "requestOf base (ContentCall op) = Some (contentRequest (newVolumeSnapshotContents (SnapshotV1Client base)) op)"
| "requestOf base (SnapshotClassCall op) =
    snapshotClassRequest (newVolumeSnapshotClasses (SnapshotV1Client base)) op"
| "requestOf base (GroupSnapshotCall ns op) =
    Some (gentypeRequest vgs_Name GroupSnapshotBody (newVolumeGroupSnapshots_v1 (GroupsnapshotV1Client base) ns) op)"
| "requestOf base (GroupContentCall op) =
    Some (gentypeRequest vgsc_Name GroupContentBody (newVolumeGroupSnapshotContents_v1 (GroupsnapshotV1Client base)) op)"
| "requestOf base (GroupClassCall op) =
    (if hasNoStatus op
     then Some (gentypeRequest (\<lambda>x. Name (vgsclass_meta x)) GroupSnapshotClassBody
            (newVolumeGroupSnapshotClasses_v1 (GroupsnapshotV1Client base)) op)
     else None)"

text \<open>The object that a call is about.\<close>

fun opName :: "('o \<Rightarrow> string) \<Rightarrow> 'o operation \<Rightarrow> string" where
  "opName nm (CallGet name opts) = name"
| "opName nm (CallUpdate x opts) = nm x"
| "opName nm (CallUpdateStatus x opts) = nm x"
| "opName nm (CallDelete name opts) = name"
| "opName nm (CallPatch name pt data opts subs) = name"
| "opName nm _ = []"

fun opSubresources :: "'o operation \<Rightarrow> string list" where
  "opSubresources (CallUpdateStatus x opts) = [''status'']"
| "opSubresources (CallPatch name pt data opts subs) = filter (\<lambda>s. s \<noteq> []) subs"
| "opSubresources _ = []"

fun callResource :: "apiCall \<Rightarrow> resource" where
  "callResource (SnapshotCall ns op) = VolumeSnapshots"
| "callResource (ContentCall op) = VolumeSnapshotContents"
| "callResource (SnapshotClassCall op) = VolumeSnapshotClasses"
| "callResource (GroupSnapshotCall ns op) = VolumeGroupSnapshots"
| "callResource (GroupContentCall op) = VolumeGroupSnapshotContents"
| "callResource (GroupClassCall op) = VolumeGroupSnapshotClasses"

fun callNamespace :: "apiCall \<Rightarrow> string" where
  "callNamespace (SnapshotCall ns op) = ns"
| "callNamespace (GroupSnapshotCall ns op) = ns"
| "callNamespace _ = []"

fun callName :: "apiCall \<Rightarrow> string" where
  "callName (SnapshotCall ns op) = opName vs_Name op"
| "callName (ContentCall op) = opName vsc_Name op"
| "callName (SnapshotClassCall op) = opName (\<lambda>x. Name (vsclass_meta x)) op"
| "callName (GroupSnapshotCall ns op) = opName vgs_Name op"
| "callName (GroupContentCall op) = opName vgsc_Name op"
| "callName (GroupClassCall op) = opName (\<lambda>x. Name (vgsclass_meta x)) op"

fun callSubresources :: "apiCall \<Rightarrow> string list" where
  "callSubresources (SnapshotCall ns op) = opSubresources op"
| "callSubresources (ContentCall op) = opSubresources op"
| "callSubresources (SnapshotClassCall op) = opSubresources op"
| "callSubresources (GroupSnapshotCall ns op) = opSubresources op"
| "callSubresources (GroupContentCall op) = opSubresources op"
| "callSubresources (GroupClassCall op) = opSubresources op"

text \<open>Names of the resources and their groups in a path.\<close>

fun resourceName :: "resource \<Rightarrow> string" where
  "resourceName VolumeSnapshots = ''volumesnapshots''"
| "resourceName VolumeSnapshotClasses = ''volumesnapshotclasses''"
| "resourceName VolumeSnapshotContents = ''volumesnapshotcontents''"
| "resourceName VolumeGroupSnapshots = ''volumegroupsnapshots''"
| "resourceName VolumeGroupSnapshotClasses = ''volumegroupsnapshotclasses''"
| "resourceName VolumeGroupSnapshotContents = ''volumegroupsnapshotcontents''"

fun resourceGroup :: "resource \<Rightarrow> string" where
  "resourceGroup VolumeSnapshots = ''snapshot.storage.k8s.io''"
| "resourceGroup VolumeSnapshotClasses = ''snapshot.storage.k8s.io''"
| "resourceGroup VolumeSnapshotContents = ''snapshot.storage.k8s.io''"
| "resourceGroup VolumeGroupSnapshots = ''groupsnapshot.storage.k8s.io''"
| "resourceGroup VolumeGroupSnapshotClasses = ''groupsnapshot.storage.k8s.io''"
| "resourceGroup VolumeGroupSnapshotContents = ''groupsnapshot.storage.k8s.io''"

text \<open>
  The reference: the same request for every kind, with the namespace where the object has one. The clients of the snapshot
  group set the namespace of a namespaced kind always, the generic client only when it is not empty.
\<close>

fun opVerb :: "'o operation \<Rightarrow> verb" where
  "opVerb (CallCreate x opts) = POST"
| "opVerb (CallUpdate x opts) = PUT"
| "opVerb (CallUpdateStatus x opts) = PUT"
| "opVerb (CallDelete name opts) = DELETE"
| "opVerb (CallDeleteCollection opts listOpts) = DELETE"
| "opVerb (CallPatch name pt data opts subs) = PATCH"
| "opVerb _ = GET"

fun opSteps :: "('o \<Rightarrow> string) \<Rightarrow> ('o \<Rightarrow> payload) \<Rightarrow> 'o operation \<Rightarrow> (restRequest \<Rightarrow> restRequest) list" where
  "opSteps nm enc (CallGet name opts) = [rName name, rParams (OptionParams opts)]"
| "opSteps nm enc (CallList opts) = [rParams (ListParams opts), rTimeout (listTimeout opts)]"
| "opSteps nm enc (CallWatch opts) = [rParams (ListParams (opts\<lparr>lo_Watch := True\<rparr>)), rTimeout (listTimeout opts)]"
| "opSteps nm enc (CallCreate x opts) = [rParams (OptionParams opts), rBody (enc x)]"
| "opSteps nm enc (CallUpdate x opts) = [rName (nm x), rParams (OptionParams opts), rBody (enc x)]"
| "opSteps nm enc (CallUpdateStatus x opts) =
    [rName (nm x), rSubResource [''status''], rParams (OptionParams opts), rBody (enc x)]"
| "opSteps nm enc (CallDelete name opts) = [rName name, rBody (DeleteOptionsBody opts)]"
| "opSteps nm enc (CallDeleteCollection opts listOpts) =
    [rParams (ListParams listOpts), rTimeout (listTimeout listOpts), rBody (DeleteOptionsBody opts)]"
| "opSteps nm enc (CallPatch name pt data opts subs) =
    [rName name, rSubResource subs, rParams (OptionParams opts), rBody (PatchBody pt data)]"

definition referenceRequest ::
  "restClient \<Rightarrow> string option \<Rightarrow> string \<Rightarrow> ('o \<Rightarrow> string) \<Rightarrow> ('o \<Rightarrow> payload) \<Rightarrow> 'o operation \<Rightarrow> restRequest" where
  "referenceRequest c ns res nm enc op =
    build (newRequest c (opVerb op))
      ((case ns of None \<Rightarrow> [] | Some n \<Rightarrow> [rNamespace n]) @ [rResource res] @ opSteps nm enc op)"

lemmas snapshotClient_defs =
  volumeSnapshots_Get_def volumeSnapshots_List_def volumeSnapshots_Watch_def volumeSnapshots_Create_def
  volumeSnapshots_Update_def volumeSnapshots_UpdateStatus_def volumeSnapshots_Delete_def
  volumeSnapshots_DeleteCollection_def volumeSnapshots_Patch_def newVolumeSnapshots_def

lemmas contentClient_defs =
  volumeSnapshotContents_Get_def volumeSnapshotContents_List_def volumeSnapshotContents_Watch_def
  volumeSnapshotContents_Create_def volumeSnapshotContents_Update_def volumeSnapshotContents_UpdateStatus_def
  volumeSnapshotContents_Delete_def volumeSnapshotContents_DeleteCollection_def volumeSnapshotContents_Patch_def
  newVolumeSnapshotContents_def

lemmas classClient_defs =
  volumeSnapshotClasses_Get_def volumeSnapshotClasses_List_def volumeSnapshotClasses_Watch_def
  volumeSnapshotClasses_Create_def volumeSnapshotClasses_Update_def volumeSnapshotClasses_Delete_def
  volumeSnapshotClasses_DeleteCollection_def volumeSnapshotClasses_Patch_def newVolumeSnapshotClasses_def

lemmas gentype_defs =
  gentype_Get_def gentype_List_def gentype_Watch_def gentype_Create_def gentype_Update_def gentype_UpdateStatus_def
  gentype_Delete_def gentype_DeleteCollection_def gentype_Patch_def

lemma build_simps [simp]: "build r [] = r" "build r (f # fs) = build (f r) fs"
  by (simp_all add: build_def)

lemma snapshotRequest_reference:
  "snapshotRequest (newVolumeSnapshots c ns) op = referenceRequest c (Some ns) ''volumesnapshots'' vs_Name SnapshotBody op"
  by (cases op) (simp_all add: snapshotClient_defs referenceRequest_def)

lemma contentRequest_reference:
  "contentRequest (newVolumeSnapshotContents c) op =
    referenceRequest c None ''volumesnapshotcontents'' vsc_Name ContentBody op"
  by (cases op) (simp_all add: contentClient_defs referenceRequest_def)

lemma snapshotClassRequest_reference:
  "snapshotClassRequest (newVolumeSnapshotClasses c) op = Some q \<Longrightarrow>
    q = referenceRequest c None ''volumesnapshotclasses'' (\<lambda>x. Name (vsclass_meta x)) SnapshotClassBody op"
  by (cases op) (auto simp: classClient_defs referenceRequest_def)

lemma gentypeRequest_reference:
  "gentypeRequest nm enc c op =
    referenceRequest (g_client c) (if g_namespace c = [] then None else Some (g_namespace c)) (g_resource c) nm enc op"
  by (cases op) (simp_all add: gentype_defs referenceRequest_def rNamespaceIfScoped_def)

section \<open>Every call reaches its object\<close>

definition noSlash :: "string \<Rightarrow> bool" where
  "noSlash s \<longleftrightarrow> CHR ''/'' \<notin> set s"

definition pathOf :: "string list \<Rightarrow> string" where
  "pathOf segments = concat (map ((#) CHR ''/'') segments)"

lemma pathOf_simps [simp]: "pathOf [] = []" "pathOf (s # ss) = CHR ''/'' # s @ pathOf ss"
  "pathOf (xs @ ys) = pathOf xs @ pathOf ys"
  by (simp_all add: pathOf_def)

lemma pathOf_start: "pathOf ss = [] \<or> (\<exists>r. pathOf ss = CHR ''/'' # r)"
  by (cases ss) auto

lemma segment_split:
  assumes "noSlash a" "noSlash b" "r = [] \<or> (\<exists>r'. r = CHR ''/'' # r')" "t = [] \<or> (\<exists>t'. t = CHR ''/'' # t')" "a @ r = b @ t"
  shows "a = b \<and> r = t"
  using assms
proof (induction a arbitrary: b)
  case Nil
  then show ?case by (cases b) (auto simp: noSlash_def)
next
  case (Cons x a)
  show ?case
  proof (cases b)
    case Nil
    then show ?thesis using Cons.prems by (auto simp: noSlash_def)
  next
    case (Cons y b')
    then show ?thesis using Cons.IH[of b'] Cons.prems by (auto simp: noSlash_def)
  qed
qed

lemma pathOf_inject:
  "\<forall>s\<in>set xs. noSlash s \<Longrightarrow> \<forall>s\<in>set ys. noSlash s \<Longrightarrow> pathOf xs = pathOf ys \<Longrightarrow> xs = ys"
proof (induction xs arbitrary: ys)
  case Nil
  then show ?case by (cases ys) auto
next
  case (Cons x xs)
  then obtain y ys' where ys: "ys = y # ys'" by (cases ys) auto
  then have "x @ pathOf xs = y @ pathOf ys'" using Cons.prems(3) by simp
  with Cons.prems(1,2) ys have "x = y \<and> pathOf xs = pathOf ys'"
    by (intro segment_split pathOf_start) auto
  then show ?case using Cons.IH[of ys'] Cons.prems(1,2) ys by auto
qed

lemma joinWith_path: "xs \<noteq> [] \<Longrightarrow> CHR ''/'' # joinWith ''/'' xs = pathOf xs"
  by (induction "''/''" xs rule: joinWith.induct) auto

lemma valid_noSlash: "IsValidPathSegmentName s = [] \<Longrightarrow> noSlash s"
  by (auto simp: IsValidPathSegmentName_def noSlash_def sprint_def split: if_splits)

text \<open>The segments of a path after the base of the server, and what is known of them when the request is sent.\<close>

definition segmentsOf :: "restClient \<Rightarrow> string option \<Rightarrow> string \<Rightarrow> ('o \<Rightarrow> string) \<Rightarrow> 'o operation \<Rightarrow> string list" where
  "segmentsOf c ns res nm op =
    [''apis'', rc_Group c, rc_Version c] @
    (case ns of None \<Rightarrow> [] | Some n \<Rightarrow> if n = [] then [] else [''namespaces'', n]) @
    [res] @ (if opName nm op = [] then [] else [opName nm op]) @ opSubresources op"

definition namedOperation :: "'o operation \<Rightarrow> bool" where
  "namedOperation op = (case op of CallList _ \<Rightarrow> False | CallWatch _ \<Rightarrow> False | CallCreate _ _ \<Rightarrow> False
     | CallDeleteCollection _ _ \<Rightarrow> False | _ \<Rightarrow> True)"

lemmas step_defs = rNamespace_def rResource_def rName_def rSubResource_def rParams_def rTimeout_def rBody_def failWith_def

lemma sent_err: "sent r = Inr r' \<Longrightarrow> r' = r \<and> r_err r = None"
  by (auto simp: sent_def split: option.splits)

lemma valid_names [simp]: "IsValidPathSegmentName ''status'' = []"
  by (simp add: IsValidPathSegmentName_def)

lemma filter_Nil_valid: "filter (\<lambda>s. IsValidPathSegmentName s \<noteq> []) subs = [] \<Longrightarrow> s \<in> set subs \<Longrightarrow> noSlash s"
  by (metis (mono_tags, lifting) filter_empty_conv valid_noSlash)

text \<open>A chain without an error ran every call of it.\<close>

lemma rSubResource_ok [simp]:
  "r_err (rSubResource ns r) = None \<longleftrightarrow>
    r_err r = None \<and> r_subresource r = [] \<and> (\<forall>s\<in>set ns. IsValidPathSegmentName s = [])"
proof (cases "filter (\<lambda>s. IsValidPathSegmentName s \<noteq> []) ns")
  case Nil
  then have "\<forall>s\<in>set ns. IsValidPathSegmentName s = []" by (simp add: filter_empty_conv)
  then show ?thesis using Nil by (simp add: rSubResource_def failWith_def)
next
  case (Cons s ss)
  then have "s \<in> set ns \<and> IsValidPathSegmentName s \<noteq> []" by (metis (mono_tags, lifting) list.set_intros(1) mem_Collect_eq set_filter)
  then show ?thesis using Cons by (auto simp: rSubResource_def failWith_def)
qed

lemma step_ok [simp]:
  "r_err (rNamespace n r) = None \<longleftrightarrow> r_err r = None \<and> \<not> r_namespaceSet r \<and> IsValidPathSegmentName n = []"
  "r_err (rResource n r) = None \<longleftrightarrow> r_err r = None \<and> r_resource r = [] \<and> IsValidPathSegmentName n = []"
  "r_err (rName n r) = None \<longleftrightarrow> r_err r = None \<and> n \<noteq> [] \<and> r_resourceName r = [] \<and> IsValidPathSegmentName n = []"
  "r_err (rParams p r) = None \<longleftrightarrow> r_err r = None" "r_err (rTimeout d r) = None \<longleftrightarrow> r_err r = None"
  "r_err (rBody b r) = None \<longleftrightarrow> r_err r = None"
  by (simp_all add: rNamespace_def rResource_def rName_def rParams_def rTimeout_def rBody_def failWith_def)

lemma step_keeps [simp]:
  "r_verb (rNamespace n r) = r_verb r" "r_pathPrefix (rNamespace n r) = r_pathPrefix r" "r_resource (rNamespace n r) = r_resource r"
  "r_resourceName (rNamespace n r) = r_resourceName r" "r_subresource (rNamespace n r) = r_subresource r" "r_verb (rResource n r) = r_verb r"
  "r_pathPrefix (rResource n r) = r_pathPrefix r" "r_namespaceSet (rResource n r) = r_namespaceSet r" "r_namespace (rResource n r) = r_namespace r"
  "r_resourceName (rResource n r) = r_resourceName r" "r_subresource (rResource n r) = r_subresource r" "r_verb (rName n r) = r_verb r"
  "r_pathPrefix (rName n r) = r_pathPrefix r" "r_namespaceSet (rName n r) = r_namespaceSet r" "r_namespace (rName n r) = r_namespace r"
  "r_resource (rName n r) = r_resource r" "r_subresource (rName n r) = r_subresource r" "r_verb (rSubResource ns r) = r_verb r"
  "r_pathPrefix (rSubResource ns r) = r_pathPrefix r" "r_namespaceSet (rSubResource ns r) = r_namespaceSet r" "r_namespace (rSubResource ns r) = r_namespace r"
  "r_resource (rSubResource ns r) = r_resource r" "r_resourceName (rSubResource ns r) = r_resourceName r" "r_verb (rParams p r) = r_verb r"
  "r_pathPrefix (rParams p r) = r_pathPrefix r" "r_namespaceSet (rParams p r) = r_namespaceSet r" "r_namespace (rParams p r) = r_namespace r"
  "r_resource (rParams p r) = r_resource r" "r_resourceName (rParams p r) = r_resourceName r" "r_subresource (rParams p r) = r_subresource r"
  "r_verb (rTimeout d r) = r_verb r" "r_pathPrefix (rTimeout d r) = r_pathPrefix r" "r_namespaceSet (rTimeout d r) = r_namespaceSet r"
  "r_namespace (rTimeout d r) = r_namespace r" "r_resource (rTimeout d r) = r_resource r" "r_resourceName (rTimeout d r) = r_resourceName r"
  "r_subresource (rTimeout d r) = r_subresource r" "r_verb (rBody b r) = r_verb r" "r_pathPrefix (rBody b r) = r_pathPrefix r"
  "r_namespaceSet (rBody b r) = r_namespaceSet r" "r_namespace (rBody b r) = r_namespace r" "r_resource (rBody b r) = r_resource r"
  "r_resourceName (rBody b r) = r_resourceName r" "r_subresource (rBody b r) = r_subresource r"
  by (simp_all add: step_defs split: list.splits)

lemma step_sets [simp]:
  "r_err (rNamespace n r) = None \<Longrightarrow> r_namespaceSet (rNamespace n r)"
  "r_err (rNamespace n r) = None \<Longrightarrow> r_namespace (rNamespace n r) = n"
  "r_err (rResource n r) = None \<Longrightarrow> r_resource (rResource n r) = n"
  "r_err (rName n r) = None \<Longrightarrow> r_resourceName (rName n r) = n"
  "r_err (rSubResource ns r) = None \<Longrightarrow> r_subresource (rSubResource ns r) = joinPath ns"
  by (auto simp: step_defs filter_empty_conv split: if_splits list.splits)

lemma newRequest_sel [simp]:
  "r_verb (newRequest c v) = v" "r_pathPrefix (newRequest c v) = rc_Base c @ [''apis'', rc_Group c, rc_Version c]"
  "\<not> r_namespaceSet (newRequest c v)" "r_resource (newRequest c v) = []" "r_resourceName (newRequest c v) = []"
  "r_subresource (newRequest c v) = []" "r_err (newRequest c v) = None"
  by (simp_all add: newRequest_def)

text \<open>The path of a request that was sent.\<close>

lemma noSlash_status: "noSlash ''status''" "noSlash []"
  by (simp_all add: noSlash_def)

lemma joinPath_path: "(if joinPath xs = [] then [] else CHR ''/'' # joinPath xs) = pathOf (filter (\<lambda>s. s \<noteq> []) xs)"
proof (cases "filter (\<lambda>s. s \<noteq> []) xs")
  case (Cons y ys)
  then have "y \<noteq> []" by (metis (mono_tags, lifting) list.set_intros(1) mem_Collect_eq set_filter)
  then have "joinWith ''/'' (y # ys) \<noteq> []" by (cases ys) auto
  then show ?thesis using joinWith_path[of "y # ys"] Cons by (simp add: joinPath_def)
qed (simp add: joinPath_def)

lemma URL_path_segments:
  "URL_path r = pathOf (r_pathPrefix r) @
     (if r_namespaceSet r \<and> r_namespace r \<noteq> [] then pathOf [''namespaces'', r_namespace r] else []) @
     (if r_resource r \<noteq> [] then pathOf [r_resource r] else []) @
     (if r_resourceName r \<noteq> [] then pathOf [r_resourceName r] else []) @
     (if r_subresource r = [] then [] else CHR ''/'' # r_subresource r)"
  by (simp add: URL_path_def pathOf_def)

lemma opSubresources_named: "opSubresources op \<noteq> [] \<Longrightarrow> namedOperation op"
  by (cases op) (simp_all add: namedOperation_def)

lemma sent_reference:
  assumes "sent (referenceRequest c ns res nm enc op) = Inr r" "res \<noteq> []"
  shows "URL_path r = pathOf (rc_Base c @ segmentsOf c ns res nm op) \<and> r_verb r = opVerb op \<and>
    (\<forall>n. ns = Some n \<longrightarrow> noSlash n) \<and> noSlash (opName nm op) \<and> (\<forall>s\<in>set (opSubresources op). noSlash s) \<and>
    (namedOperation op \<longleftrightarrow> opName nm op \<noteq> [])"
proof -
  have q: "r = referenceRequest c ns res nm enc op" "r_err r = None" using sent_err[OF assms(1)] by auto
  have s: "joinPath [''status''] = ''status''" by (simp add: joinPath_def)
  show ?thesis
    using q(2) assms(2) unfolding URL_path_segments q(1)
    by (cases op; cases ns)
      (simp_all add: referenceRequest_def segmentsOf_def namedOperation_def joinPath_path[symmetric] s valid_noSlash noSlash_status)
qed

lemma sent_segments:
  assumes "sent (referenceRequest c ns res nm enc op) = Inr r" "res \<noteq> []"
    and "noSlash (rc_Group c)" "noSlash (rc_Version c)" "noSlash res"
  shows "URL_path r = pathOf (rc_Base c @ segmentsOf c ns res nm op) \<and> (\<forall>s\<in>set (segmentsOf c ns res nm op). noSlash s) \<and>
    (opSubresources op \<noteq> [] \<longrightarrow> opName nm op \<noteq> [])"
  using sent_reference[OF assms(1,2)] opSubresources_named[of op] assms(3-5)
  by (auto simp: segmentsOf_def noSlash_def split: option.splits if_splits)

text \<open>The segments of the path of a call, after the path of the server.\<close>

definition callSegments :: "apiCall \<Rightarrow> string list" where
  "callSegments k =
    [''apis'', resourceGroup (callResource k), ''v1''] @
    (if callNamespace k = [] then [] else [''namespaces'', callNamespace k]) @
    [resourceName (callResource k)] @ (if callName k = [] then [] else [callName k]) @ callSubresources k"

lemma group_noSlash [simp]: "noSlash (resourceGroup R)" "noSlash (resourceName R)" "resourceName R \<noteq> []"
  by (cases R; simp add: noSlash_def)+

lemma fixed_noSlash [simp]: "noSlash ''apis''" "noSlash ''v1''" "noSlash ''namespaces''"
  by (simp_all add: noSlash_def)

lemma requestOf_sent:
  assumes "requestOf base k = Some q" "sent q = Inr r"
  shows "URL_path r = pathOf (base @ callSegments k) \<and> (\<forall>s\<in>set (callSegments k). noSlash s) \<and>
    (callSubresources k \<noteq> [] \<longrightarrow> callName k \<noteq> [])"
proof (cases k)
  case (SnapshotCall ns op)
  then have q: "q = referenceRequest (SnapshotV1Client base) (Some ns) ''volumesnapshots'' vs_Name SnapshotBody op"
    using assms(1) by (simp add: snapshotRequest_reference)
  show ?thesis using sent_segments[OF assms(2)[unfolded q]] SnapshotCall
    by (simp add: callSegments_def segmentsOf_def SnapshotV1Client_def noSlash_def)
next
  case (ContentCall op)
  then have q: "q = referenceRequest (SnapshotV1Client base) None ''volumesnapshotcontents'' vsc_Name ContentBody op"
    using assms(1) by (simp add: contentRequest_reference)
  show ?thesis using sent_segments[OF assms(2)[unfolded q]] ContentCall
    by (simp add: callSegments_def segmentsOf_def SnapshotV1Client_def noSlash_def)
next
  case (SnapshotClassCall op)
  then have q: "q = referenceRequest (SnapshotV1Client base) None ''volumesnapshotclasses'' (\<lambda>x. Name (vsclass_meta x))
      SnapshotClassBody op"
    using assms(1) by (auto dest: snapshotClassRequest_reference)
  show ?thesis using sent_segments[OF assms(2)[unfolded q]] SnapshotClassCall
    by (simp add: callSegments_def segmentsOf_def SnapshotV1Client_def noSlash_def)
next
  case (GroupSnapshotCall ns op)
  then have q: "q = referenceRequest (GroupsnapshotV1Client base) (if ns = [] then None else Some ns)
      ''volumegroupsnapshots'' vgs_Name GroupSnapshotBody op"
    using assms(1) by (auto simp: gentypeRequest_reference newVolumeGroupSnapshots_v1_def)
  show ?thesis using sent_segments[OF assms(2)[unfolded q]] GroupSnapshotCall
    by (simp add: callSegments_def segmentsOf_def GroupsnapshotV1Client_def noSlash_def)
next
  case (GroupContentCall op)
  then have q: "q = referenceRequest (GroupsnapshotV1Client base) None ''volumegroupsnapshotcontents'' vgsc_Name
      GroupContentBody op"
    using assms(1) by (auto simp: gentypeRequest_reference newVolumeGroupSnapshotContents_v1_def)
  show ?thesis using sent_segments[OF assms(2)[unfolded q]] GroupContentCall
    by (simp add: callSegments_def segmentsOf_def GroupsnapshotV1Client_def noSlash_def)
next
  case (GroupClassCall op)
  then have q: "q = referenceRequest (GroupsnapshotV1Client base) None ''volumegroupsnapshotclasses''
      (\<lambda>x. Name (vgsclass_meta x)) GroupSnapshotClassBody op"
    using assms(1) by (auto simp: gentypeRequest_reference newVolumeGroupSnapshotClasses_v1_def split: if_splits)
  show ?thesis using sent_segments[OF assms(2)[unfolded q]] GroupClassCall
    by (simp add: callSegments_def segmentsOf_def GroupsnapshotV1Client_def noSlash_def)
qed

lemma resource_distinct: "resourceGroup R = resourceGroup R' \<Longrightarrow> resourceName R = resourceName R' \<Longrightarrow> R = R'"
  by (cases R; cases R') simp_all

lemma not_namespaces [simp]: "resourceName R \<noteq> ''namespaces''" "''namespaces'' \<noteq> resourceName R"
  by (cases R; simp)+

text \<open>C28: A request of a typed client names its object by its path alone. Two calls that are sent to the same path are
  about the same kind of object, the same namespace, the same name and the same sub-resource, whatever those strings are:
  a name that would lead elsewhere is an error, and nothing is sent.\<close>

theorem client_paths_identify_objects:
  assumes "requestOf base k = Some q" "sent q = Inr r" "requestOf base k' = Some q'" "sent q' = Inr r'"
    and "URL_path r = URL_path r'"
  shows "callResource k = callResource k' \<and> callNamespace k = callNamespace k' \<and>
    callName k = callName k' \<and> callSubresources k = callSubresources k'"
proof -
  note p = requestOf_sent[OF assms(1,2)] and p' = requestOf_sent[OF assms(3,4)]
  have "pathOf (callSegments k) = pathOf (callSegments k')" using p p' assms(5) by simp
  then have s: "callSegments k = callSegments k'" using p p' by (blast intro: pathOf_inject)
  then have R: "callResource k = callResource k'"
    by (auto simp: callSegments_def intro: resource_distinct split: if_splits)
  show ?thesis using s p p' R by (auto simp: callSegments_def split: if_splits)
qed

theorem client_paths_identify_objects_witness:
  "callName (SnapshotCall ''ns1'' (CallGet ''snap1'' [])) =
     callName (SnapshotCall ''ns1'' (CallPatch ''snap1'' ''application/json-patch+json'' [] [] []))"
proof -
  let ?k = "SnapshotCall ''ns1'' (CallGet ''snap1'' [])"
  let ?k' = "SnapshotCall ''ns1'' (CallPatch ''snap1'' ''application/json-patch+json'' [] [] [])"
  have "case (requestOf [] ?k, requestOf [] ?k') of (Some q, Some q') \<Rightarrow>
      (case (sent q, sent q') of (Inr r, Inr r') \<Rightarrow> URL_path r = URL_path r' | _ \<Rightarrow> False) | _ \<Rightarrow> False"
    by code_simp
  then obtain q q' r r' where "requestOf [] ?k = Some q" "sent q = Inr r" "requestOf [] ?k' = Some q'"
      "sent q' = Inr r'" "URL_path r = URL_path r'"
    by (auto split: option.splits sum.splits)
  then show ?thesis using client_paths_identify_objects[of "[]" ?k q r ?k' q' r'] by blast
qed

end
