(* ===== verification/Provisioning.thy ===== *)
theory Provisioning
  imports System
begin

text \<open>
  A snapshot from its creation by a user to its use, through both processes. The theory runs the workers of the common
  controller and of a sidecar in turns on a cluster in which nothing fails: an API server that keeps versions, refuses
  stale updates and keeps status and object apart, listers that are up to date, and a driver whose snapshot is usable
  after an arbitrary number of calls.
\<close>

section \<open>Runs of the two processes\<close>

text \<open>A turn of a worker with the key its queue handed it.\<close>

datatype turn = SnapshotTurn string | ContentTurn string | SidecarTurn string

fun runTurn :: "'w env \<Rightarrow> 'w env \<Rightarrow> turn \<Rightarrow> 'w system \<Rightarrow> 'w system option" where
  "runTurn EC ES (SnapshotTurn key) y =
    do { (_, s) \<leftarrow> snapshotWorker EC (Some key) (inWorld (sys_world y) (common y));
         Some (y\<lparr>sys_world := world s, common := s\<rparr>) }"
| "runTurn EC ES (ContentTurn key) y =
    do { (_, s) \<leftarrow> contentWorker EC (Some key) (inWorld (sys_world y) (common y));
         Some (y\<lparr>sys_world := world s, common := s\<rparr>) }"
| "runTurn EC ES (SidecarTurn key) y =
    do { (_, s) \<leftarrow> processNextItem ES (theHandler ES) (Some key) (inWorld (sys_world y) (sidecar y));
         Some (y\<lparr>sys_world := world s, sidecar := s\<rparr>) }"

fun runTurns :: "'w env \<Rightarrow> 'w env \<Rightarrow> turn list \<Rightarrow> 'w system \<Rightarrow> 'w system option" where
  "runTurns EC ES [] y = Some y"
| "runTurns EC ES (t # ts) y = do { y \<leftarrow> runTurn EC ES t y; runTurns EC ES ts y }"

lemma runTurns_append: "runTurns EC ES (ts @ us) y = Option.bind (runTurns EC ES ts y) (runTurns EC ES us)"
  by (induction ts arbitrary: y) (auto split: Option.bind_splits)

text \<open>A run is a path of the step relation.\<close>

lemma runTurn_step: "runTurn EC ES t y = Some y' \<Longrightarrow> systemStep EC ES y y'"
  by (cases t) (auto intro: systemStep.intros commonTurn.intros sidecarTurn.intros split: Option.bind_splits)

lemma runTurns_reachable: "reachable EC ES y \<Longrightarrow> runTurns EC ES ts y = Some y' \<Longrightarrow> reachable EC ES y'"
  by (induction ts arbitrary: y) (auto dest: runTurn_step intro: reachable.step split: Option.bind_splits)

section \<open>Versions\<close>

text \<open>Resource versions as the server writes them, and as the caches read them.\<close>

lemma parseDigits_append: "parseDigits acc (xs @ ys) = Option.bind (parseDigits acc xs) (\<lambda>a. parseDigits a ys)"
  by (induction xs arbitrary: acc) (auto split: option.split)

lemma digitVal_digit: "d < 10 \<Longrightarrow> digitVal (char_of (48 + d :: nat)) = Some (int d)"
proof -
  have "\<forall>d\<in>{0, 1, 2, 3, 4, 5, 6, 7, 8, 9}. digitVal (char_of (48 + d :: nat)) = Some (int d)" by code_simp
  moreover assume "d < 10"
  ultimately show ?thesis by (auto simp: numeral_eq_Suc less_Suc_eq)
qed

lemma parseDigits_natText: "parseDigits 0 (natText n) = Some (int n)"
proof (induction n rule: natText.induct)
  case (1 n)
  show ?case
  proof (cases "n < 10")
    case True
    then show ?thesis by (subst natText.simps) (simp add: digitVal_digit)
  next
    case False
    have "10 * int (n div 10) + int (n mod 10) = int n" by presburger
    then show ?thesis using 1 False by (subst natText.simps) (simp add: parseDigits_append digitVal_digit)
  qed
qed

lemma natText_start: "\<exists>c cs. natText n = c # cs \<and> c \<noteq> CHR ''-'' \<and> c \<noteq> CHR ''+''"
proof (induction n rule: natText.induct)
  case (1 n)
  have sign: "char_of (48 + d :: nat) \<noteq> CHR ''-'' \<and> char_of (48 + d :: nat) \<noteq> CHR ''+''" if "d < 10" for d
  proof -
    have "digitVal (char_of (48 + d :: nat)) \<noteq> None" using digitVal_digit[OF that] by simp
    moreover have "digitVal CHR ''-'' = None" "digitVal CHR ''+'' = None" by (simp_all add: digitVal_def)
    ultimately show ?thesis by metis
  qed
  show ?case using 1 sign by (cases "n < 10") (subst natText.simps, auto)+
qed

lemma ParseInt64_natText: "n < 2 ^ 63 \<Longrightarrow> ParseInt64 (natText n) = Inr (int n)"
proof -
  assume n: "n < 2 ^ 63"
  obtain c cs where t: "natText n = c # cs" "c \<noteq> CHR ''-''" "c \<noteq> CHR ''+''" using natText_start by blast
  have "parseDigits 0 (c # cs) = Some (int n)" using parseDigits_natText[of n] t by simp
  moreover have "\<not> int n \<ge> 9223372036854775808" using n by simp
  ultimately show ?thesis using t by (simp add: ParseInt64_def Let_def)
qed

section \<open>A cluster in which nothing fails\<close>

text \<open>The request of a user, the objects it rests on, and what the driver reports of the snapshot.\<close>

record scenario =
  sc_snapshot :: VolumeSnapshot
  sc_claim :: PersistentVolumeClaim
  sc_volume :: PersistentVolume
  sc_class :: VolumeSnapshotClass
  sc_handle :: string
  sc_time :: Time
  sc_size :: int

text \<open>The objects, the last version given to one, and how many calls the driver still answers with a snapshot that is
  not ready.\<close>

record cluster =
  cl_version :: nat
  cl_snapshot :: VolumeSnapshot
  cl_content :: "VolumeSnapshotContent option"
  cl_claim :: PersistentVolumeClaim
  cl_polls :: nat

definition conflict :: goerr where
  "conflict = APIStatus StatusConflict ''the object has been modified''"

definition stamped :: "nat \<Rightarrow> ObjectMeta \<Rightarrow> ObjectMeta" where
  "stamped n m = m\<lparr>ResourceVersion := natText n\<rparr>"

definition putSnapshot :: "VolumeSnapshot \<Rightarrow> cluster \<Rightarrow> (goerr + VolumeSnapshot) \<times> cluster" where
  "putSnapshot v w =
    (let v = v\<lparr>vs_meta := stamped (Suc (cl_version w)) (vs_meta v)\<rparr> in
     (Inr v, w\<lparr>cl_snapshot := v, cl_version := Suc (cl_version w)\<rparr>))"

definition putContent :: "VolumeSnapshotContent \<Rightarrow> cluster \<Rightarrow> (goerr + VolumeSnapshotContent) \<times> cluster" where
  "putContent c w =
    (let c = c\<lparr>vsc_meta := stamped (Suc (cl_version w)) (vsc_meta c)\<rparr> in
     (Inr c, w\<lparr>cl_content := Some c, cl_version := Suc (cl_version w)\<rparr>))"

definition putClaim :: "PersistentVolumeClaim \<Rightarrow> cluster \<Rightarrow> (goerr + PersistentVolumeClaim) \<times> cluster" where
  "putClaim c w =
    (let c = c\<lparr>pvc_meta := stamped (Suc (cl_version w)) (pvc_meta c)\<rparr> in
     (Inr c, w\<lparr>cl_claim := c, cl_version := Suc (cl_version w)\<rparr>))"

text \<open>The operations of a JSON patch that the server understands here; \<open>replace\<close> sets what is not there yet.\<close>

definition patchContent :: "PatchOp \<Rightarrow> VolumeSnapshotContent \<Rightarrow> VolumeSnapshotContent option" where
  "patchContent op c =
    (case Value op of
       PVMap m \<Rightarrow> if Path op = ''/metadata/annotations'' then Some (c\<lparr>vsc_meta := (vsc_meta c)\<lparr>Annotations := m\<rparr>\<rparr>) else None
     | PVNone \<Rightarrow> if Op op = ''remove''
         then Some (c\<lparr>vsc_meta := (vsc_meta c)\<lparr>Annotations :=
                fmfilter (\<lambda>k. Path op \<noteq> ''/metadata/annotations/'' @ escapeSlashes k) (Annotations (vsc_meta c))\<rparr>\<rparr>)
         else None
     | PVStrings xs \<Rightarrow> if Path op = ''/metadata/finalizers'' then Some (c\<lparr>vsc_meta := (vsc_meta c)\<lparr>Finalizers := xs\<rparr>\<rparr>) else None
     | PVContentStatus st \<Rightarrow> if Path op = ''/status'' then Some (c\<lparr>vsc_Status := Some st\<rparr>) else None
     | _ \<Rightarrow> None)"

definition patchSnapshot :: "PatchOp \<Rightarrow> VolumeSnapshot \<Rightarrow> VolumeSnapshot option" where
  "patchSnapshot op v =
    (case Value op of
       PVString f \<Rightarrow> if Op op = ''add'' \<and> Path op = ''/metadata/finalizers/-''
         then Some (v\<lparr>vs_meta := (vs_meta v)\<lparr>Finalizers := Finalizers (vs_meta v) @ [f]\<rparr>\<rparr>) else None
     | _ \<Rightarrow> None)"

fun patchAll :: "('p \<Rightarrow> 'o \<Rightarrow> 'o option) \<Rightarrow> 'p list \<Rightarrow> 'o \<Rightarrow> 'o option" where
  "patchAll f [] x = Some x"
| "patchAll f (p # ps) x = do { x \<leftarrow> f p x; patchAll f ps x }"

definition badPatch :: goerr where
  "badPatch = APIStatus (StatusOther ''Invalid'') ''the server rejected our request''"

text \<open>Reads find the one object of each kind by its name.\<close>

definition readSnapshot :: "string \<Rightarrow> string \<Rightarrow> cluster \<Rightarrow> (goerr + VolumeSnapshot) \<times> cluster" where
  "readSnapshot ns n w =
    (if ns = vs_Namespace (cl_snapshot w) \<and> n = vs_Name (cl_snapshot w) then Inr (cl_snapshot w) else Inl notFound, w)"

definition readContent :: "string \<Rightarrow> cluster \<Rightarrow> (goerr + VolumeSnapshotContent) \<times> cluster" where
  "readContent n w =
    (case cl_content w of None \<Rightarrow> Inl notFound | Some c \<Rightarrow> if n = vsc_Name c then Inr c else Inl notFound, w)"

definition readClaim :: "string \<Rightarrow> string \<Rightarrow> cluster \<Rightarrow> (goerr + PersistentVolumeClaim) \<times> cluster" where
  "readClaim ns n w =
    (if ns = Namespace (pvc_meta (cl_claim w)) \<and> n = pvc_Name (cl_claim w) then Inr (cl_claim w) else Inl notFound, w)"

text \<open>Writes: a write of an object leaves its status, a write of the status leaves the object; a stale one is refused.\<close>

definition updateVS :: "VolumeSnapshot \<Rightarrow> cluster \<Rightarrow> (goerr + VolumeSnapshot) \<times> cluster" where
  "updateVS v w =
    (if ResourceVersion (vs_meta v) \<noteq> ResourceVersion (vs_meta (cl_snapshot w)) then (Inl conflict, w)
     else putSnapshot (v\<lparr>vs_Status := vs_Status (cl_snapshot w)\<rparr>) w)"

definition updateStatusVS :: "VolumeSnapshot \<Rightarrow> cluster \<Rightarrow> (goerr + VolumeSnapshot) \<times> cluster" where
  "updateStatusVS v w =
    (if ResourceVersion (vs_meta v) \<noteq> ResourceVersion (vs_meta (cl_snapshot w)) then (Inl conflict, w)
     else putSnapshot ((cl_snapshot w)\<lparr>vs_Status := vs_Status v\<rparr>) w)"

definition patchVS :: "string \<Rightarrow> string \<Rightarrow> PatchOp list \<Rightarrow> string list \<Rightarrow> cluster \<Rightarrow> (goerr + VolumeSnapshot) \<times> cluster" where
  "patchVS ns n ops sub w =
    (case readSnapshot ns n w of
       (Inl err, w) \<Rightarrow> (Inl err, w)
     | (Inr v, w) \<Rightarrow>
        (case patchAll patchSnapshot ops v of None \<Rightarrow> (Inl badPatch, w)
         | Some v' \<Rightarrow> putSnapshot (if sub = [''status''] then v\<lparr>vs_Status := vs_Status v'\<rparr> else v'\<lparr>vs_Status := vs_Status v\<rparr>) w))"

definition createVSC :: "VolumeSnapshotContent \<Rightarrow> cluster \<Rightarrow> (goerr + VolumeSnapshotContent) \<times> cluster" where
  "createVSC c w =
    (case cl_content w of None \<Rightarrow> putContent (c\<lparr>vsc_Status := None\<rparr>) w
     | Some _ \<Rightarrow> (Inl (APIStatus StatusAlreadyExists ''already exists''), w))"

definition patchVSC :: "string \<Rightarrow> PatchOp list \<Rightarrow> string list \<Rightarrow> cluster \<Rightarrow> (goerr + VolumeSnapshotContent) \<times> cluster" where
  "patchVSC n ops sub w =
    (case readContent n w of
       (Inl err, w) \<Rightarrow> (Inl err, w)
     | (Inr c, w) \<Rightarrow>
        (case patchAll patchContent ops c of None \<Rightarrow> (Inl badPatch, w)
         | Some c' \<Rightarrow> putContent (if sub = [''status''] then c\<lparr>vsc_Status := vsc_Status c'\<rparr> else c'\<lparr>vsc_Status := vsc_Status c\<rparr>) w))"

definition updatePVC :: "PersistentVolumeClaim \<Rightarrow> cluster \<Rightarrow> (goerr + PersistentVolumeClaim) \<times> cluster" where
  "updatePVC c w =
    (if ResourceVersion (pvc_meta c) \<noteq> ResourceVersion (pvc_meta (cl_claim w)) then (Inl conflict, w) else putClaim c w)"

text \<open>The driver gives the same snapshot to every call.\<close>

definition driverCreate :: "scenario \<Rightarrow> CreateSnapshotRequest \<Rightarrow> cluster \<Rightarrow> (goerr + csi_Snapshot option) \<times> cluster" where
  "driverCreate sc req w =
    (Inr (Some \<lparr>SnapshotId = sc_handle sc, csi_SourceVolumeId = SourceVolumeId req, SizeBytes = sc_size sc,
       csi_CreationTime = Some (sc_time sc), csi_ReadyToUse = (cl_polls w = 0), GroupSnapshotId = []\<rparr>),
     w\<lparr>cl_polls := cl_polls w - 1\<rparr>)"

definition clusterEnv :: "scenario \<Rightarrow> cluster env" where
  "clusterEnv sc = \<lparr>api_GetVS = readSnapshot, api_UpdateVS = updateVS,
     api_UpdateStatusVS = updateStatusVS, api_PatchVS = patchVS,
     api_GetVSC = readContent, api_CreateVSC = createVSC,
     api_UpdateStatusVSC = (\<lambda>_ w. (Inl notFound, w)), api_PatchVSC = patchVSC,
     api_DeleteVSC = (\<lambda>_ w. (Some notFound, w)), api_GetPVC = readClaim,
     api_UpdatePVC = updatePVC, api_GetPV = (\<lambda>n w. (if n = Name (pv_meta (sc_volume sc)) then Inr (sc_volume sc) else Inl notFound, w)),
     api_GetSecret = (\<lambda>_ _ w. (Inl notFound, w)), lister_GetVS = readSnapshot,
     lister_ListVS = (\<lambda>_ w. (Inr [cl_snapshot w], w)), lister_GetVSC = readContent,
     lister_ListVSC = (\<lambda>w. (Inr (case cl_content w of None \<Rightarrow> [] | Some c \<Rightarrow> [c]), w)),
     lister_GetClass = (\<lambda>n w. (if n = Name (vsclass_meta (sc_class sc)) then Inr (sc_class sc) else Inl notFound, w)),
     lister_ListClass = (\<lambda>w. (Inr [sc_class sc], w)), lister_GetPVC = readClaim,
     lister_ListPVC = (\<lambda>_ w. (Inr [cl_claim w], w)), lister_GetVGS = (\<lambda>_ _ w. (Inl notFound, w)),
     lister_GetGroupClass = (\<lambda>_ w. (Inl notFound, w)), lister_GetVGSC = (\<lambda>_ w. (Inl notFound, w)),
     lister_ListGroupClass = (\<lambda>w. (Inr [], w)), lister_ListVGSC = (\<lambda>w. (Inr [], w)),
     lister_ListNodes = (\<lambda>w. (Inr [], w)),
     matchNodeSelectorTerms = (\<lambda>_ _. False), time_Now = (\<lambda>w. (0, w)),
     range_order = (\<lambda>m w. (sorted_list_of_fmap m, w)), shared_write_VSC = (\<lambda>_ w. w),
     csi_GetDriverName = (\<lambda>w. (Inr (vsclass_Driver (sc_class sc)), w)), csi_CreateSnapshot = driverCreate sc,
     csi_DeleteSnapshot = (\<lambda>_ _ w. (None, w)), csi_ControllerGetCapabilities = (\<lambda>w. (Inr [], w)),
     csi_ListSnapshots = (\<lambda>_ _ w. (Inr [], w)),
     api_CreateVS = (\<lambda>v w. (Inr v, w)), api_DeleteVS = (\<lambda>_ _ w. (Some notFound, w)),
     api_ListPVC = (\<lambda>_ _ w. (Inr [cl_claim w], w)), api_GetVGS = (\<lambda>_ _ w. (Inl notFound, w)),
     api_UpdateVGS = (\<lambda>g w. (Inl notFound, w)), api_UpdateStatusVGS = (\<lambda>g w. (Inl notFound, w)),
     api_PatchVGS = (\<lambda>_ _ _ _ w. (Inl notFound, w)), api_GetVGSC = (\<lambda>_ w. (Inl notFound, w)),
     api_CreateVGSC = (\<lambda>c w. (Inl notFound, w)), api_UpdateStatusVGSC = (\<lambda>c w. (Inl notFound, w)),
     api_PatchVGSC = (\<lambda>_ _ _ w. (Inl notFound, w)), api_DeleteVGSC = (\<lambda>_ w. (Some notFound, w)),
     pvIndexer_ByIndex = (\<lambda>_ w. (Inr [], w)), snapshotIndexer_ByIndex = (\<lambda>_ w. (Inr [], w)),
     shared_write_VGSC = (\<lambda>_ w. w), FormatLabelSelector = (\<lambda>_. ''<none>''),
     csi_CreateVolumeGroupSnapshot = (\<lambda>_ w. (Inl (GRPCStatus codes_Internal ''no''), w)),
     csi_DeleteVolumeGroupSnapshot = (\<lambda>_ _ _ w. (None, w)),
     csi_GetVolumeGroupSnapshot = (\<lambda>_ _ _ w. (Inl (GRPCStatus codes_Internal ''no''), w)),
     enableDistributedSnapshotting = False, preventVolumeModeConversion = False,
     enableVolumeGroupSnapshots = False, extraCreateMetadata = False, ctrl_driverName = vsclass_Driver (sc_class sc),
     snapshotNamePrefix = ''snapshot'', snapshotNameUUIDLength = -1,
     groupSnapshotNamePrefix = ''groupsnapshot'', groupSnapshotNameUUIDLength = -1\<rparr>"

text \<open>A snapshot as the user creates it, of a bound claim, and a class without secrets.\<close>

definition provisionable :: "scenario \<Rightarrow> bool" where
  "provisionable sc \<longleftrightarrow>
    (let v = sc_snapshot sc; p = sc_claim sc; vol = sc_volume sc; cl = sc_class sc in
     vs_PVCName v = Some (pvc_Name p) \<and> vs_ContentName v = None \<and> vs_ClassName v = Some (Name (vsclass_meta cl)) \<and>
     DeletionTimestamp (vs_meta v) = None \<and> OwnerReferences (vs_meta v) = [] \<and>
     vs_UID v \<noteq> [] \<and> vs_Namespace v \<noteq> [] \<and>
     CHR ''/'' \<notin> set (vs_UID v) \<and> CHR ''/'' \<notin> set (vs_Namespace v) \<and> CHR ''/'' \<notin> set (vs_Name v) \<and>
     pvc_Name p \<noteq> [] \<and> Namespace (pvc_meta p) = vs_Namespace v \<and> DeletionTimestamp (pvc_meta p) = None \<and>
     pvc_Phase p = ClaimBound \<and> pvc_VolumeName p = Name (pv_meta vol) \<and>
     pv_CSI vol \<noteq> None \<and> isVolumeBoundToClaim vol p \<and>
     verifyAndGetSecretNameAndNamespaceTemplate SnapshotterSecretParams (vsclass_Parameters cl) = Inr ([], []) \<and>
     (case RemovePrefixedParameters (sorted_list_of_fmap (vsclass_Parameters cl)) of Inl _ \<Rightarrow> False | Inr _ \<Rightarrow> True))"

section \<open>The objects on the way\<close>

definition snapAt :: "scenario \<Rightarrow> nat \<Rightarrow> string list \<Rightarrow> VolumeSnapshotStatus option \<Rightarrow> VolumeSnapshot" where
  "snapAt sc n fin st =
    (sc_snapshot sc)\<lparr>vs_meta := (vs_meta (sc_snapshot sc))\<lparr>ResourceVersion := natText n, Finalizers := fin\<rparr>, vs_Status := st\<rparr>"

definition claimAt :: "scenario \<Rightarrow> nat \<Rightarrow> string list \<Rightarrow> PersistentVolumeClaim" where
  "claimAt sc n fin = (sc_claim sc)\<lparr>pvc_meta := (pvc_meta (sc_claim sc))\<lparr>ResourceVersion := natText n, Finalizers := fin\<rparr>\<rparr>"

definition contName :: "scenario \<Rightarrow> string" where
  "contName sc = ''snapcontent-'' @ vs_UID (sc_snapshot sc)"

definition snapKey :: "scenario \<Rightarrow> string" where
  "snapKey sc = vs_Namespace (sc_snapshot sc) @ ''/'' @ vs_Name (sc_snapshot sc)"

definition sourceHandle :: "scenario \<Rightarrow> string" where
  "sourceHandle sc = (case pv_CSI (sc_volume sc) of None \<Rightarrow> [] | Some csi \<Rightarrow> csi_VolumeHandle csi)"

definition contAt :: "scenario \<Rightarrow> nat \<Rightarrow> string list \<Rightarrow> strmap \<Rightarrow> VolumeSnapshotContentStatus option \<Rightarrow> VolumeSnapshotContent" where
  "contAt sc n fin ann st =
    \<lparr>vsc_meta = emptyMeta\<lparr>Name := contName sc, ResourceVersion := natText n, Finalizers := fin, Annotations := ann\<rparr>,
     vsc_Spec = \<lparr>VolumeSnapshotRef = GetReference (snapAt sc 1 [] None),
       spec_DeletionPolicy = vsclass_DeletionPolicy (sc_class sc), spec_Driver = vsclass_Driver (sc_class sc),
       spec_VolumeSnapshotClassName = Some (Name (vsclass_meta (sc_class sc))),
       spec_Source = \<lparr>VolumeHandle = Some (sourceHandle sc), SnapshotHandle = None\<rparr>, SourceVolumeMode = None\<rparr>,
     vsc_Status = st\<rparr>"

lemma snapAt_sel [simp]:
  "vs_Name (snapAt sc n f st) = vs_Name (sc_snapshot sc)" "vs_Namespace (snapAt sc n f st) = vs_Namespace (sc_snapshot sc)"
  "vs_UID (snapAt sc n f st) = vs_UID (sc_snapshot sc)" "ResourceVersion (vs_meta (snapAt sc n f st)) = natText n"
  "Finalizers (vs_meta (snapAt sc n f st)) = f" "vs_Status (snapAt sc n f st) = st"
  "DeletionTimestamp (vs_meta (snapAt sc n f st)) = DeletionTimestamp (vs_meta (sc_snapshot sc))"
  "OwnerReferences (vs_meta (snapAt sc n f st)) = OwnerReferences (vs_meta (sc_snapshot sc))"
  "vs_Spec (snapAt sc n f st) = vs_Spec (sc_snapshot sc)"
  by (simp_all add: snapAt_def)

lemma snapAt_upd [simp]:
  "(snapAt sc n f st)\<lparr>vs_Status := st'\<rparr> = snapAt sc n f st'"
  "(snapAt sc n f st)\<lparr>vs_meta := stamped k (vs_meta (snapAt sc n f st))\<rparr> = snapAt sc k f st"
  "(snapAt sc n f st)\<lparr>vs_meta := (vs_meta (snapAt sc n f st))\<lparr>Finalizers := g\<rparr>\<rparr> = snapAt sc n g st"
  by (simp_all add: snapAt_def stamped_def)

lemma claimAt_sel [simp]:
  "pvc_Name (claimAt sc n f) = pvc_Name (sc_claim sc)" "Namespace (pvc_meta (claimAt sc n f)) = Namespace (pvc_meta (sc_claim sc))"
  "UID (pvc_meta (claimAt sc n f)) = UID (pvc_meta (sc_claim sc))" "ResourceVersion (pvc_meta (claimAt sc n f)) = natText n"
  "Finalizers (pvc_meta (claimAt sc n f)) = f" "pvc_Phase (claimAt sc n f) = pvc_Phase (sc_claim sc)"
  "DeletionTimestamp (pvc_meta (claimAt sc n f)) = DeletionTimestamp (pvc_meta (sc_claim sc))"
  "pvc_VolumeName (claimAt sc n f) = pvc_VolumeName (sc_claim sc)"
  "isVolumeBoundToClaim vol (claimAt sc n f) = isVolumeBoundToClaim vol (sc_claim sc)"
  by (simp_all add: claimAt_def isVolumeBoundToClaim_def split: option.split)

lemma claimAt_upd [simp]:
  "(claimAt sc n f)\<lparr>pvc_meta := stamped k (pvc_meta (claimAt sc n f))\<rparr> = claimAt sc k f"
  "(claimAt sc n f)\<lparr>pvc_meta := (pvc_meta (claimAt sc n f))\<lparr>Finalizers := g\<rparr>\<rparr> = claimAt sc n g"
  by (simp_all add: claimAt_def stamped_def)

lemma contAt_sel [simp]:
  "vsc_Name (contAt sc n f a st) = contName sc" "Namespace (vsc_meta (contAt sc n f a st)) = []"
  "ResourceVersion (vsc_meta (contAt sc n f a st)) = natText n" "Finalizers (vsc_meta (contAt sc n f a st)) = f"
  "Annotations (vsc_meta (contAt sc n f a st)) = a" "DeletionTimestamp (vsc_meta (contAt sc n f a st)) = None"
  "vsc_Status (contAt sc n f a st) = st" "vsc_VolumeHandle (contAt sc n f a st) = Some (sourceHandle sc)"
  "vsc_SnapshotHandle (contAt sc n f a st) = None" "ref_Name (vsc_Ref (contAt sc n f a st)) = vs_Name (sc_snapshot sc)"
  "ref_Namespace (vsc_Ref (contAt sc n f a st)) = vs_Namespace (sc_snapshot sc)"
  "ref_UID (vsc_Ref (contAt sc n f a st)) = vs_UID (sc_snapshot sc)"
  "vsc_Policy (contAt sc n f a st) = vsclass_DeletionPolicy (sc_class sc)"
  "spec_Driver (vsc_Spec (contAt sc n f a st)) = vsclass_Driver (sc_class sc)"
  "spec_VolumeSnapshotClassName (vsc_Spec (contAt sc n f a st)) = Some (Name (vsclass_meta (sc_class sc)))"
  by (simp_all add: contAt_def emptyMeta_def GetReference_def)

lemma contAt_upd [simp]:
  "(contAt sc n f a st)\<lparr>vsc_Status := st'\<rparr> = contAt sc n f a st'"
  "(contAt sc n f a st)\<lparr>vsc_meta := stamped k (vsc_meta (contAt sc n f a st))\<rparr> = contAt sc k f a st"
  "(contAt sc n f a st)\<lparr>vsc_meta := (vsc_meta (contAt sc n f a st))\<lparr>Finalizers := g\<rparr>\<rparr> = contAt sc n g a st"
  "(contAt sc n f a st)\<lparr>vsc_meta := (vsc_meta (contAt sc n f a st))\<lparr>Annotations := b\<rparr>\<rparr> = contAt sc n f b st"
  by (simp_all add: contAt_def stamped_def)

text \<open>The user has just created the snapshot.\<close>

definition freshCluster :: "scenario \<Rightarrow> nat \<Rightarrow> cluster" where
  "freshCluster sc n =
    \<lparr>cl_version = 1, cl_snapshot = snapAt sc 1 [] None, cl_content = None, cl_claim = claimAt sc 1 [], cl_polls = n\<rparr>"

section \<open>The steps of a process on the cluster\<close>

definition process :: "cluster \<Rightarrow> store \<Rightarrow> store \<Rightarrow> operationMetricsManager \<Rightarrow> action list \<Rightarrow> cluster st" where
  "process w S C m l = \<lparr>world = w, snapshotStore = S, contentStore = C, groupSnapshotStore = Map.empty,
     groupSnapshotContentStore = Map.empty, metricsManager = m, log = l\<rparr>"

lemma process_initial: "initialState w = process w Map.empty Map.empty NewMetricsManager []"
  by (simp add: initialState_def process_def)

lemma process_sel [simp]: "world (process w S C m l) = w" "snapshotStore (process w S C m l) = S"
  "contentStore (process w S C m l) = C" "log (process w S C m l) = l" "inWorld w' (process w S C m l) = process w' S C m l"
  by (simp_all add: process_def inWorld_def)

lemma process_inject [simp]:
  "process w S C m l = process w' S' C' m' l' \<longleftrightarrow> w = w' \<and> S = S' \<and> C = C' \<and> m = m' \<and> l = l'"
  by (auto simp: process_def)

lemma clusterEnv_sel [simp]:
  "api_GetVS (clusterEnv sc) = readSnapshot" "api_UpdateVS (clusterEnv sc) = updateVS"
  "api_UpdateStatusVS (clusterEnv sc) = updateStatusVS" "api_PatchVS (clusterEnv sc) = patchVS"
  "api_GetVSC (clusterEnv sc) = readContent" "api_CreateVSC (clusterEnv sc) = createVSC"
  "api_PatchVSC (clusterEnv sc) = patchVSC" "api_GetPVC (clusterEnv sc) = readClaim" "api_UpdatePVC (clusterEnv sc) = updatePVC"
  "api_GetPV (clusterEnv sc) = (\<lambda>n w. (if n = Name (pv_meta (sc_volume sc)) then Inr (sc_volume sc) else Inl notFound, w))"
  "lister_GetVS (clusterEnv sc) = readSnapshot" "lister_ListVS (clusterEnv sc) = (\<lambda>_ w. (Inr [cl_snapshot w], w))"
  "lister_GetVSC (clusterEnv sc) = readContent"
  "lister_GetClass (clusterEnv sc) = (\<lambda>n w. (if n = Name (vsclass_meta (sc_class sc)) then Inr (sc_class sc) else Inl notFound, w))"
  "lister_GetPVC (clusterEnv sc) = readClaim" "time_Now (clusterEnv sc) = (\<lambda>w. (0, w))"
  "range_order (clusterEnv sc) = (\<lambda>m w. (sorted_list_of_fmap m, w))"
  "csi_GetDriverName (clusterEnv sc) = (\<lambda>w. (Inr (vsclass_Driver (sc_class sc)), w))"
  "csi_CreateSnapshot (clusterEnv sc) = driverCreate sc"
  "\<not> enableDistributedSnapshotting (clusterEnv sc)" "\<not> preventVolumeModeConversion (clusterEnv sc)"
  "\<not> extraCreateMetadata (clusterEnv sc)" "ctrl_driverName (clusterEnv sc) = vsclass_Driver (sc_class sc)"
  "snapshotNamePrefix (clusterEnv sc) = ''snapshot''" "snapshotNameUUIDLength (clusterEnv sc) = -1"
  by (simp_all add: clusterEnv_def)

lemma process_call [simp]: "call f (process w S C m l) = Some (fst (f w), process (snd (f w)) S C m l)"
  by (simp add: call_def process_def case_prod_beta)

lemma process_act [simp]: "act a f (process w S C m l) = Some (fst (f w), process (snd (f w)) S C m (l @ [a]))"
  by (simp add: act_def call_def process_def case_prod_beta)

lemma process_emit [simp]: "emit a (process w S C m l) = process w S C m (l @ [a])"
  by (simp add: emit_def process_def)

lemma process_metrics [simp]: "withMetrics (clusterEnv sc) f (process w S C m l) = Some ((), process w S C (f 0 m) l)"
  by (simp add: withMetrics_def process_def call_def)

lemma process_storeSnapshot [simp]:
  "storeSnapshotUpdate x (process w S C m l) =
    Some (fst (StoreObjectUpdate S x ''snapshot''), process w (snd (StoreObjectUpdate S x ''snapshot'')) C m l)"
  by (simp add: storeSnapshotUpdate_def process_def case_prod_beta)

lemma process_storeContent [simp]:
  "storeContentUpdate x (process w S C m l) =
    Some (fst (StoreObjectUpdate C x ''content''), process w S (snd (StoreObjectUpdate C x ''content'')) m l)"
  by (simp add: storeContentUpdate_def process_def case_prod_beta)

text \<open>Reads and writes of the objects on the way.\<close>

declare readSnapshot_def [simp] readContent_def [simp] readClaim_def [simp]

lemma write_simps [simp]:
  "updateVS (snapAt sc n g st') \<lparr>cl_version = u, cl_snapshot = snapAt sc n f st, cl_content = c, cl_claim = p, cl_polls = k\<rparr> =
    (Inr (snapAt sc (Suc u) g st),
     \<lparr>cl_version = Suc u, cl_snapshot = snapAt sc (Suc u) g st, cl_content = c, cl_claim = p, cl_polls = k\<rparr>)"
  "updateStatusVS (snapAt sc n g st') \<lparr>cl_version = u, cl_snapshot = snapAt sc n f st, cl_content = c, cl_claim = p, cl_polls = k\<rparr> =
    (Inr (snapAt sc (Suc u) f st'),
     \<lparr>cl_version = Suc u, cl_snapshot = snapAt sc (Suc u) f st', cl_content = c, cl_claim = p, cl_polls = k\<rparr>)"
  "createVSC (contAt sc n g a cst) \<lparr>cl_version = u, cl_snapshot = v, cl_content = None, cl_claim = p, cl_polls = k\<rparr> =
    (Inr (contAt sc (Suc u) g a None),
     \<lparr>cl_version = Suc u, cl_snapshot = v, cl_content = Some (contAt sc (Suc u) g a None), cl_claim = p, cl_polls = k\<rparr>)"
  "updatePVC (claimAt sc n g) \<lparr>cl_version = u, cl_snapshot = v, cl_content = c, cl_claim = claimAt sc n f, cl_polls = k\<rparr> =
    (Inr (claimAt sc (Suc u) g),
     \<lparr>cl_version = Suc u, cl_snapshot = v, cl_content = c, cl_claim = claimAt sc (Suc u) g, cl_polls = k\<rparr>)"
  by (simp_all add: updateVS_def updateStatusVS_def createVSC_def updatePVC_def putSnapshot_def putContent_def putClaim_def Let_def)

lemma patchSnapshot_bound [simp]:
  "ns = vs_Namespace (sc_snapshot sc) \<Longrightarrow> patchVS ns (vs_Name (sc_snapshot sc)) [patchOp ''add'' ''/metadata/finalizers/-'' (PVString x)] []
      \<lparr>cl_version = u, cl_snapshot = snapAt sc n f st, cl_content = c, cl_claim = p, cl_polls = k\<rparr> =
    (Inr (snapAt sc (Suc u) (f @ [x]) st),
     \<lparr>cl_version = Suc u, cl_snapshot = snapAt sc (Suc u) (f @ [x]) st, cl_content = c, cl_claim = p, cl_polls = k\<rparr>)"
  by (simp add: patchVS_def patchSnapshot_def patchOp_def putSnapshot_def Let_def)

lemma patchContent_simps [simp]:
  "patchVSC (contName sc) [patchOp ''add'' ''/metadata/finalizers'' (PVStrings xs)] []
      \<lparr>cl_version = u, cl_snapshot = v, cl_content = Some (contAt sc n f a cst), cl_claim = p, cl_polls = k\<rparr> =
    (Inr (contAt sc (Suc u) xs a cst),
     \<lparr>cl_version = Suc u, cl_snapshot = v, cl_content = Some (contAt sc (Suc u) xs a cst), cl_claim = p, cl_polls = k\<rparr>)"
  "patchVSC (contName sc) [patchOp ''replace'' ''/metadata/annotations'' (PVMap b)] []
      \<lparr>cl_version = u, cl_snapshot = v, cl_content = Some (contAt sc n f a cst), cl_claim = p, cl_polls = k\<rparr> =
    (Inr (contAt sc (Suc u) f b cst),
     \<lparr>cl_version = Suc u, cl_snapshot = v, cl_content = Some (contAt sc (Suc u) f b cst), cl_claim = p, cl_polls = k\<rparr>)"
  "patchVSC (contName sc) [patchOp ''replace'' ''/status'' (PVContentStatus st)] [''status'']
      \<lparr>cl_version = u, cl_snapshot = v, cl_content = Some (contAt sc n f a cst), cl_claim = p, cl_polls = k\<rparr> =
    (Inr (contAt sc (Suc u) f a (Some st)),
     \<lparr>cl_version = Suc u, cl_snapshot = v, cl_content = Some (contAt sc (Suc u) f a (Some st)), cl_claim = p, cl_polls = k\<rparr>)"
  "patchVSC (contName sc) removeAnnOps []
      \<lparr>cl_version = u, cl_snapshot = v,
       cl_content = Some (contAt sc n f (fmupd AnnVolumeSnapshotBeingCreated y fmempty) cst), cl_claim = p, cl_polls = k\<rparr> =
    (Inr (contAt sc (Suc u) f fmempty cst),
     \<lparr>cl_version = Suc u, cl_snapshot = v, cl_content = Some (contAt sc (Suc u) f fmempty cst), cl_claim = p, cl_polls = k\<rparr>)"
proof -
  have *: "fmfilter (\<lambda>x. escapeSlashes AnnVolumeSnapshotBeingCreated \<noteq> escapeSlashes x)
      (Annotations (vsc_meta (contAt sc n f (fmupd AnnVolumeSnapshotBeingCreated y fmempty) cst))) = fmempty"
    by (rule fmap_ext) simp
  show "patchVSC (contName sc) removeAnnOps []
      \<lparr>cl_version = u, cl_snapshot = v,
       cl_content = Some (contAt sc n f (fmupd AnnVolumeSnapshotBeingCreated y fmempty) cst), cl_claim = p, cl_polls = k\<rparr> =
    (Inr (contAt sc (Suc u) f fmempty cst),
     \<lparr>cl_version = Suc u, cl_snapshot = v, cl_content = Some (contAt sc (Suc u) f fmempty cst), cl_claim = p, cl_polls = k\<rparr>)"
    by (simp add: patchVSC_def patchContent_def patchOp_def putContent_def removeAnnOps_def Let_def *)
qed (simp_all add: patchVSC_def patchContent_def patchOp_def putContent_def Let_def)

text \<open>The caches take a later version of the same object.\<close>

lemma keys [simp]: "provisionable sc \<Longrightarrow> keyFunc (vs_meta (snapAt sc n f st)) = snapKey sc"
  "keyFunc (vsc_meta (contAt sc n f a cst)) = contName sc"
  by (simp_all add: keyFunc_def MetaNamespaceKey_def snapKey_def provisionable_def Let_def)

lemma store_new_snapshot [simp]:
  "provisionable sc \<Longrightarrow> S (snapKey sc) = None \<Longrightarrow>
    StoreObjectUpdate S (ObjVS (snapAt sc n f st)) cn = (Inr True, S(snapKey sc \<mapsto> ObjVS (snapAt sc n f st)))"
  by (simp add: StoreObjectUpdate_def)

lemma store_later_snapshot [simp]:
  "provisionable sc \<Longrightarrow> S (snapKey sc) = Some (ObjVS (snapAt sc u g st')) \<Longrightarrow> u \<le> n \<Longrightarrow> n < 2 ^ 63 \<Longrightarrow>
    StoreObjectUpdate S (ObjVS (snapAt sc n f st)) cn = (Inr True, S(snapKey sc \<mapsto> ObjVS (snapAt sc n f st)))"
  by (simp add: StoreObjectUpdate_def ParseInt64_natText)

lemma store_new_content [simp]:
  "C (contName sc) = None \<Longrightarrow>
    StoreObjectUpdate C (ObjVSC (contAt sc n f a cst)) cn = (Inr True, C(contName sc \<mapsto> ObjVSC (contAt sc n f a cst)))"
  by (simp add: StoreObjectUpdate_def)

lemma store_later_content [simp]:
  "C (contName sc) = Some (ObjVSC (contAt sc u g b cst')) \<Longrightarrow> u \<le> n \<Longrightarrow> n < 2 ^ 63 \<Longrightarrow>
    StoreObjectUpdate C (ObjVSC (contAt sc n f a cst)) cn = (Inr True, C(contName sc \<mapsto> ObjVSC (contAt sc n f a cst)))"
  by (simp add: StoreObjectUpdate_def ParseInt64_natText)

section \<open>The turns\<close>

lemma provisionableD:
  assumes "provisionable sc"
  shows "vs_PVCName (sc_snapshot sc) = Some (pvc_Name (sc_claim sc))" "vs_ContentName (sc_snapshot sc) = None"
    "vs_ClassName (sc_snapshot sc) = Some (Name (vsclass_meta (sc_class sc)))"
    "DeletionTimestamp (vs_meta (sc_snapshot sc)) = None" "OwnerReferences (vs_meta (sc_snapshot sc)) = []"
    "vs_UID (sc_snapshot sc) \<noteq> []" "vs_Namespace (sc_snapshot sc) = Namespace (pvc_meta (sc_claim sc))"
    "Namespace (pvc_meta (sc_claim sc)) \<noteq> []"
    "pvc_Name (sc_claim sc) \<noteq> []" "DeletionTimestamp (pvc_meta (sc_claim sc)) = None"
    "pvc_Phase (sc_claim sc) = ClaimBound" "pvc_VolumeName (sc_claim sc) = Name (pv_meta (sc_volume sc))"
    "\<exists>csi. pv_CSI (sc_volume sc) = Some csi" "isVolumeBoundToClaim (sc_volume sc) (sc_claim sc)"
    "GetSecretReference SnapshotterSecretParams (vsclass_Parameters (sc_class sc)) n vo = Inr None"
    "\<exists>ps. RemovePrefixedParameters (sorted_list_of_fmap (vsclass_Parameters (sc_class sc))) = Inr ps"
  using assms by (auto simp: provisionable_def Let_def GetSecretReference_def split: sum.splits)

lemma splitKeys:
  assumes "provisionable sc"
  shows "SplitMetaNamespaceKey (snapKey sc) = Inr (Namespace (pvc_meta (sc_claim sc)), vs_Name (sc_snapshot sc))"
    "SplitMetaNamespaceKey (contName sc) = Inr ([], contName sc)"
  using assms Split_Meta[of "vs_Namespace (sc_snapshot sc)" "vs_Name (sc_snapshot sc)"] Split_Meta[of "[]" "contName sc"]
  by (auto simp: provisionable_def Let_def snapKey_def contName_def MetaNamespaceKey_def)

lemma createVSC_new:
  assumes "pv_CSI (sc_volume sc) = Some csi"
  shows "createVSC (newSnapshotContent (clusterEnv sc) (snapAt sc (Suc 0) [] None) (sc_class sc) (sc_volume sc)
      (csi_VolumeHandle csi) (contName sc) None [])
      \<lparr>cl_version = u, cl_snapshot = v, cl_content = None, cl_claim = p, cl_polls = k\<rparr> =
    (Inr (contAt sc (Suc u) [] fmempty None),
     \<lparr>cl_version = Suc u, cl_snapshot = v, cl_content = Some (contAt sc (Suc u) [] fmempty None), cl_claim = p, cl_polls = k\<rparr>)"
  using assms by (simp add: createVSC_def putContent_def Let_def newSnapshotContent_def contAt_def sourceHandle_def
      stamped_def emptyMeta_def)

lemma class_ok: "provisionable sc \<Longrightarrow>
  checkAndUpdateSnapshotClass (clusterEnv sc) (snapAt sc n f st) (process w S C m l) =
    Some ((snapAt sc n f st, None), process w S C m l)"
  by (simp add: checkAndUpdateSnapshotClass_def provisionableD getSnapshotClass_def)

lemma claim_ok: "provisionable sc \<Longrightarrow> pvc_Name (cl_claim w) = pvc_Name (sc_claim sc) \<Longrightarrow>
    Namespace (pvc_meta (cl_claim w)) = Namespace (pvc_meta (sc_claim sc)) \<Longrightarrow>
  getClaimFromVolumeSnapshot (clusterEnv sc) (snapAt sc n f st) (process w S C m l) =
    Some (Inr (cl_claim w), process w S C m l)"
  by (simp add: getClaimFromVolumeSnapshot_def provisionableD)

lemma reclaim_nothing: "provisionable sc \<Longrightarrow> pvc_Name (cl_claim w) = pvc_Name (sc_claim sc) \<Longrightarrow>
    Namespace (pvc_meta (cl_claim w)) = Namespace (pvc_meta (sc_claim sc)) \<Longrightarrow>
    PVCFinalizer \<notin> set (Finalizers (pvc_meta (cl_claim w))) \<or>
      (vs_PVCName (cl_snapshot w) = Some (pvc_Name (sc_claim sc)) \<and> \<not> IsSnapshotReady (cl_snapshot w)) \<Longrightarrow>
  reclaimPVCFinalizer (clusterEnv sc) (snapAt sc n f st) (process w S C m l) = Some ((), process w S C m l)"
  by (auto simp: reclaimPVCFinalizer_def checkandRemovePVCFinalizer_def claim_ok provisionableD Contains_def isPVCBeingUsed_def)

lemma driverName_ok: "provisionable sc \<Longrightarrow>
  getSnapshotDriverName (clusterEnv sc) (snapAt sc n f st) (process w S C m l) =
    Some (vsclass_Driver (sc_class sc), process w S C m l)"
  by (auto simp: getSnapshotDriverName_def getSnapshotClass_def provisionableD Let_def)

definition creationStarted :: "VolumeSnapshot \<Rightarrow> string \<Rightarrow> operationMetricsManager \<Rightarrow> operationMetricsManager" where
  "creationStarted v driverName m =
    OperationStart (NewOperationKey CreateSnapshotAndReadyOperationName (vs_UID v)) (NewOperationValue driverName (provisionType v)) 0
      (if IsSnapshotCreated v then m
       else OperationStart (NewOperationKey CreateSnapshotOperationName (vs_UID v)) (NewOperationValue driverName (provisionType v)) 0 m)"

lemma metrics_ok: "startCreationMetrics (clusterEnv sc) v d (process w S C m l) = Some ((), process w S C (creationStarted v d m) l)"
  by (simp add: startCreationMetrics_def creationStarted_def)

lemma contentName_ok [simp]: "GetDynamicSnapshotContentNameForSnapshot (snapAt sc n f st) = contName sc"
  by (simp add: GetDynamicSnapshotContentNameForSnapshot_def contName_def)

lemma notMember [simp]: "provisionable sc \<Longrightarrow> \<not> IsVolumeGroupSnapshotMember (snapAt sc n f st)"
  by (simp add: IsVolumeGroupSnapshotMember_def getVolumeGroupSnapshotParentObjectName_def provisionableD)

lemma noContent [simp]: "C (contName sc) = None \<Longrightarrow>
  getDynamicallyProvisionedContentFromStore E (snapAt sc n f st) (process w S C m l) = Some (Inr None, process w S C m l)"
  by (simp add: getDynamicallyProvisionedContentFromStore_def getContentFromStore_def)

lemma theContent [simp]: "C (contName sc) = Some (ObjVSC (contAt sc k g a cst)) \<Longrightarrow>
  getDynamicallyProvisionedContentFromStore E (snapAt sc n f st) (process w S C m l) =
    Some (Inr (Some (contAt sc k g a cst)), process w S C m l)"
  by (simp add: getDynamicallyProvisionedContentFromStore_def getContentFromStore_def)

text \<open>The first turn on the snapshot: finalizers, the claim, the content and the first status.\<close>

abbreviation waiting :: "scenario \<Rightarrow> VolumeSnapshotStatus" where
  "waiting sc \<equiv> emptyStatus\<lparr>BoundVolumeSnapshotContentName := Some (contName sc), ReadyToUse := Some False\<rparr>"

lemma create_input: "provisionable sc \<Longrightarrow> (\<exists>k g. cl_claim w = claimAt sc k g) \<Longrightarrow>
  getCreateSnapshotInput (clusterEnv sc) (snapAt sc n f st) (process w S C m l) =
    Some (Inr (sc_class sc, sc_volume sc, contName sc, None), process w S C m l)"
  by (auto simp: getCreateSnapshotInput_def getSnapshotClass_def getVolumeFromVolumeSnapshot_def claim_ok provisionableD)

lemmas status_defs = computeSnapshotStatus_def contentFactsOf_def recordStatusChange_def IsSnapshotCreated_def
  IsSnapshotReady_def emptyStatus_def

lemma claimAt_ex [simp]: "\<exists>k' g'. claimAt sc k g = claimAt sc k' g'" by blast

text \<open>The creations of a log, and what it puts on a queue again.\<close>

definition traced :: "action \<Rightarrow> bool" where
  "traced a = (case a of CreateVSC _ \<Rightarrow> True | CSICreateSnapshot _ \<Rightarrow> True | QueueAdd _ _ \<Rightarrow> True
     | QueueAddRateLimited _ _ \<Rightarrow> True | _ \<Rightarrow> False)"

lemma traced_simps [simp]:
  "traced (CreateVSC c)" "traced (CSICreateSnapshot req)" "traced (QueueAdd k x)" "traced (QueueAddRateLimited k x)"
  "\<not> traced (UpdateVS v)" "\<not> traced (UpdateStatusVS v)" "\<not> traced (PatchVS a b p q)" "\<not> traced (PatchVSC a p q)"
  "\<not> traced (UpdatePVC c')" "\<not> traced (Event ob t r z)" "\<not> traced (QueueForget k x)" "\<not> traced (QueueDone k x)"
  by (simp_all add: traced_def)

definition newContent :: "scenario \<Rightarrow> VolumeSnapshotContent" where
  "newContent sc =
    \<lparr>vsc_meta = emptyMeta\<lparr>Name := ''snapcontent-'' @ vs_UID (sc_snapshot sc)\<rparr>,
     vsc_Spec =
       \<lparr>VolumeSnapshotRef = \<lparr>ref_Kind = ''VolumeSnapshot'', ref_Namespace = vs_Namespace (sc_snapshot sc),
          ref_Name = vs_Name (sc_snapshot sc), ref_UID = vs_UID (sc_snapshot sc),
          ref_APIVersion = ''snapshot.storage.k8s.io/v1'', ref_ResourceVersion = ''1'', ref_FieldPath = []\<rparr>,
        spec_DeletionPolicy = vsclass_DeletionPolicy (sc_class sc), spec_Driver = vsclass_Driver (sc_class sc),
        spec_VolumeSnapshotClassName = Some (Name (vsclass_meta (sc_class sc))),
        spec_Source = \<lparr>VolumeHandle = Some (case pv_CSI (sc_volume sc) of None \<Rightarrow> [] | Some csi \<Rightarrow> csi_VolumeHandle csi),
          SnapshotHandle = None\<rparr>,
        SourceVolumeMode = None\<rparr>,
     vsc_Status = None\<rparr>"

lemma newContent_built:
  "newContent sc = newSnapshotContent (clusterEnv sc) (snapAt sc (Suc 0) [] None) (sc_class sc) (sc_volume sc)
     (sourceHandle sc) (contName sc) None []"
proof -
  have "natText (Suc 0) = ''1''" by code_simp
  then show ?thesis
    by (simp add: newContent_def newSnapshotContent_def Let_def GetReference_def contName_def sourceHandle_def
        clusterEnv_def)
qed

lemma first_turn:
  assumes "provisionable sc"
  shows "\<exists>m' l'. snapshotWorker (clusterEnv sc) (Some (snapKey sc)) (process (freshCluster sc n) Map.empty Map.empty m l) =
     Some ((), process
        \<lparr>cl_version = Suc (Suc (Suc (Suc (Suc 0)))),
         cl_snapshot = snapAt sc (Suc (Suc (Suc (Suc (Suc 0))))) [VolumeSnapshotAsSourceFinalizer] (Some (waiting sc)),
         cl_content = Some (contAt sc (Suc (Suc (Suc (Suc 0)))) [] fmempty None),
         cl_claim = claimAt sc (Suc (Suc (Suc 0))) [PVCFinalizer], cl_polls = n\<rparr>
        [snapKey sc \<mapsto> ObjVS (snapAt sc (Suc (Suc 0)) [VolumeSnapshotAsSourceFinalizer] None)]
        [contName sc \<mapsto> ObjVSC (contAt sc (Suc (Suc (Suc (Suc 0)))) [] fmempty None)] m' l') \<and>
     filter traced l' = filter traced l @ [CreateVSC (newContent sc)]"
proof -
  obtain csi where csi: "pv_CSI (sc_volume sc) = Some csi" using provisionableD(13)[OF assms] by blast
  note D = provisionableD[OF assms]
  show ?thesis
    using assms csi
    by (simp add: snapshotWorker_def syncSnapshotByKey_def splitKeys freshCluster_def class_ok updateSnapshot_def
      syncSnapshot_def reclaim_nothing D syncLiveSnapshot_def checkandAddSnapshotFinalizers_def
      NeedToAddSnapshotAsSourceFinalizer_def Contains_def addSnapshotFinalizer_def
      IsBoundVolumeSnapshotContentNameSet_def syncUnreadySnapshot_def driverName_ok metrics_ok
      syncUnreadyDynamic_def createSnapshotContent_def ensurePVCFinalizer_def claim_ok createContentFromInput_def create_input
      saveSnapshotContent_def createVSC_new Let_def finishStatus_def updateSnapshotStatus_def groupNameForContent_def status_defs
      newContent_built sourceHandle_def)
qed

text \<open>The common controller protects the new content.\<close>

lemma content_turn:
  assumes "provisionable sc" "w = \<lparr>cl_version = U, cl_snapshot = v, cl_content = Some (contAt sc u [] fmempty st), cl_claim = p, cl_polls = n\<rparr>"
    "C (contName sc) = Some (ObjVSC (contAt sc u g b st'))" "u \<le> U" "Suc U < 2 ^ 63"
  shows "\<exists>l'. contentWorker (clusterEnv sc) (Some (contName sc)) (process w S C m l) =
     Some ((), process (w\<lparr>cl_version := Suc U, cl_content := Some (contAt sc (Suc U) [VolumeSnapshotContentFinalizer] fmempty st)\<rparr>)
       S (C(contName sc \<mapsto> ObjVSC (contAt sc (Suc U) [VolumeSnapshotContentFinalizer] fmempty st))) m l') \<and>
     filter traced l' = filter traced l"
  using assms
  by (simp add: contentWorker_def syncContentByKey_def splitKeys updateContent_def syncContent_def Let_def provisionableD
      NeedToAddContentFinalizer_def Contains_def addContentFinalizer_def PatchVolumeSnapshotContent_def)

text \<open>The sidecar asks the driver, until its snapshot can be used.\<close>

definition requestFor :: "scenario \<Rightarrow> CreateSnapshotRequest" where
  "requestFor sc = \<lparr>SourceVolumeId = sourceHandle sc, req_Name = ''snapshot-'' @ vs_UID (sc_snapshot sc),
     Parameters = projr (RemovePrefixedParameters (sorted_list_of_fmap (vsclass_Parameters (sc_class sc)))), Secrets = fmempty\<rparr>"

definition reportedTime :: "scenario \<Rightarrow> int" where
  "reportedTime sc = UnixNano (if sc_time sc = zeroTime then 0 else sc_time sc)"

definition reported :: "scenario \<Rightarrow> bool \<Rightarrow> VolumeSnapshotContentStatus" where
  "reported sc ready = \<lparr>cs_SnapshotHandle = Some (sc_handle sc), cs_CreationTime = Some (reportedTime sc),
     cs_RestoreSize = (if sc_size sc > 0 then Some (sc_size sc) else None), cs_ReadyToUse = Some ready, cs_Error = None,
     cs_VolumeGroupSnapshotHandle = None\<rparr>"

lemma driverMatch_ok: "isDriverMatch (clusterEnv sc) (ObjVSC (contAt sc u f a st)) (process w S C m l) = Some (True, process w S C m l)"
  by (simp add: isDriverMatch_def)

lemma notGroup [simp]: "\<not> groupSnapshotMember (contAt sc u f fmempty st)"
  by (simp add: groupSnapshotMember_def)

lemma shouldDelete_no [simp]: "\<not> shouldDelete (contAt sc u f a st)"
  by (simp add: shouldDelete_def)

lemma input_ok: "getCSISnapshotInput (clusterEnv sc) (contAt sc u f fmempty st) (process w S C m l) =
    Some (Inr (Some (sc_class sc), fmempty), process w S C m l)"
  by (simp add: getCSISnapshotInput_def getSnapshotClass_sidecar_def GetCredentialsFromAnnotation_def HasAnnotation_def)

lemma setAnn_ok:
  assumes "w = \<lparr>cl_version = U, cl_snapshot = v, cl_content = Some (contAt sc u f fmempty st), cl_claim = p, cl_polls = n\<rparr>"
    "C (contName sc) = Some (ObjVSC (contAt sc u g b st'))" "u \<le> U" "Suc U < 2 ^ 63"
  shows "setAnnVolumeSnapshotBeingCreated (clusterEnv sc) (contAt sc u f fmempty st) (process w S C m l) =
    (let c = contAt sc (Suc U) f (fmupd AnnVolumeSnapshotBeingCreated ''yes'' fmempty) st in
     Some ((c, None), process (w\<lparr>cl_version := Suc U, cl_content := Some c\<rparr>) S (C(contName sc \<mapsto> ObjVSC c)) m
       (l @ [PatchVSC (contName sc) (setAnnOps (contAt sc u f fmempty st)) []])))"
  using assms
  by (simp add: setAnnVolumeSnapshotBeingCreated_def HasAnnotation_def PatchVolumeSnapshotContent_def setAnnOps_def Let_def)

lemma removeAnn_ok:
  assumes "w = \<lparr>cl_version = U, cl_snapshot = v,
      cl_content = Some (contAt sc u f (fmupd AnnVolumeSnapshotBeingCreated y fmempty) st), cl_claim = p, cl_polls = n\<rparr>"
    "C (contName sc) = Some (ObjVSC (contAt sc u' g b st'))" "u' \<le> U" "Suc U < 2 ^ 63"
  shows "removeAnnVolumeSnapshotBeingCreated (clusterEnv sc) (contAt sc u f (fmupd AnnVolumeSnapshotBeingCreated y fmempty) st)
      (process w S C m l) =
    (let c = contAt sc (Suc U) f fmempty st in
     Some ((c, None), process (w\<lparr>cl_version := Suc U, cl_content := Some c\<rparr>) S (C(contName sc \<mapsto> ObjVSC c)) m
       (l @ [PatchVSC (contName sc) removeAnnOps []])))"
  using assms
  by (simp add: removeAnnVolumeSnapshotBeingCreated_def HasAnnotation_def PatchVolumeSnapshotContent_def Let_def)

lemma handler_ok:
  assumes "provisionable sc"
    and "RemovePrefixedParameters (sorted_list_of_fmap (vsclass_Parameters (sc_class sc))) = Inr ps"
  shows "h_CreateSnapshot (theHandler (clusterEnv sc)) (contAt sc u f a st) ps fmempty (process w S C m l) =
    Some (Inr (vsclass_Driver (sc_class sc), sc_handle sc, sc_time sc, sc_size sc, cl_polls w = 0),
      process (w\<lparr>cl_polls := cl_polls w - 1\<rparr>) S C m (l @ [CSICreateSnapshot (requestFor sc)]))"
  using assms
  by (simp add: theHandler_def NewCSIHandler_def csiHandler_CreateSnapshot_def makeSnapshotName_def provisionableD
      NewSnapshotter_def snapshot_CreateSnapshot_def driverCreate_def requestFor_def Let_def AsTime_def)

lemma time_ok: "(if sc_time sc = zeroTime then call (time_Now (clusterEnv sc)) (process w S C m l)
    else Some (sc_time sc, process w S C m l)) =
  Some (if sc_time sc = zeroTime then 0 else sc_time sc, process w S C m l)"
  by simp

abbreviation facts :: "scenario \<Rightarrow> bool \<Rightarrow> csiFacts" where
  "facts sc ready \<equiv> \<lparr>r_handle = sc_handle sc, r_ready = ready, r_createdAt = reportedTime sc, r_size = sc_size sc, r_group = []\<rparr>"

lemma status_first: "computeContentStatus None (facts sc ready) = (reported sc ready, True)"
  by (simp add: computeContentStatus_def reported_def)

lemma status_again: "computeContentStatus (Some (reported sc False)) (facts sc ready) = (reported sc ready, ready)"
  by (simp add: computeContentStatus_def reported_def withHandle_def withReady_def withCreationTime_def withSize_def
      withGroup_def Let_def)

lemma creation_ok:
  assumes "provisionable sc" "w = \<lparr>cl_version = U, cl_snapshot = v, cl_content = Some (contAt sc u f fmempty st), cl_claim = p, cl_polls = n\<rparr>"
    "C (contName sc) = Some (ObjVSC (contAt sc u g b st'))" "u \<le> U" "Suc (Suc (Suc U)) < 2 ^ 63"
    "st = None \<or> st = Some (reported sc False)"
    "U' = (if st = None \<or> n = 0 then Suc (Suc (Suc U)) else Suc (Suc U))" "c = contAt sc U' f fmempty (Some (reported sc (n = 0)))"
  shows "\<exists>l'. createSnapshotWrapper (clusterEnv sc) (theHandler (clusterEnv sc)) (contAt sc u f fmempty st) (process w S C m l) =
    Some ((c, None), process (w\<lparr>cl_version := U', cl_content := Some c, cl_polls := n - 1\<rparr>) S (C(contName sc \<mapsto> ObjVSC c)) m l') \<and>
    filter traced l' = filter traced l @ [CSICreateSnapshot (requestFor sc)]"
proof -
  obtain ps where ps: "RemovePrefixedParameters (sorted_list_of_fmap (vsclass_Parameters (sc_class sc))) = Inr ps"
    using provisionableD(16)[OF assms(1)] by blast
  note h = handler_ok[OF assms(1) ps]
  show ?thesis
    using assms(2-6) ps unfolding assms(7,8)
    by (elim disjE) (simp_all add: createSnapshotWrapper_def input_ok setAnn_ok Let_def takeSnapshot_def createParameters_def
        h creationDone_def time_ok reportedTime_def[symmetric] updateSnapshotContentStatus_def status_first status_again
        PatchVolumeSnapshotContent_def statusOps_def removeAnn_ok)
qed

lemma sidecar_turn:
  assumes "provisionable sc" "w = \<lparr>cl_version = U, cl_snapshot = v, cl_content = Some (contAt sc u f fmempty st), cl_claim = p, cl_polls = n\<rparr>"
    "C = Map.empty \<or> C = [contName sc \<mapsto> ObjVSC (contAt sc u f fmempty st)]" "u \<le> U" "Suc (Suc (Suc U)) < 2 ^ 63"
    "st = None \<or> st = Some (reported sc False)"
    "U' = (if st = None \<or> n = 0 then Suc (Suc (Suc U)) else Suc (Suc U))" "c = contAt sc U' f fmempty (Some (reported sc (n = 0)))"
  shows "\<exists>l'. processNextItem (clusterEnv sc) (theHandler (clusterEnv sc)) (Some (contName sc)) (process w S C m l) =
    Some (True, process (w\<lparr>cl_version := U', cl_content := Some c, cl_polls := n - 1\<rparr>) S [contName sc \<mapsto> ObjVSC c] m l') \<and>
    filter traced l' = filter traced l @ [CSICreateSnapshot (requestFor sc)] @
      (if n = 0 then [] else [QueueAddRateLimited QContent (contName sc)])"
proof -
  have st: "StoreObjectUpdate C (ObjVSC (contAt sc u f fmempty st)) ''content'' =
      (Inr True, [contName sc \<mapsto> ObjVSC (contAt sc u f fmempty st)])"
    using assms(3-5) by auto
  obtain l' where l': "createSnapshotWrapper (clusterEnv sc) (theHandler (clusterEnv sc)) (contAt sc u f fmempty st)
        (process w S [contName sc \<mapsto> ObjVSC (contAt sc u f fmempty st)] m l) =
      Some ((c, None), process (w\<lparr>cl_version := U', cl_content := Some c, cl_polls := n - 1\<rparr>) S [contName sc \<mapsto> ObjVSC c] m l')"
      "filter traced l' = filter traced l @ [CSICreateSnapshot (requestFor sc)]"
    using creation_ok[OF assms(1,2), of "[contName sc \<mapsto> ObjVSC (contAt sc u f fmempty st)]" f fmempty st U' c S m l] assms(4-8)
    by auto
  have U': "U' < 2 ^ 63" using assms(5,7) by simp
  show ?thesis
    using assms(6) l' U' assms(2) unfolding assms(8)
    by (auto simp: processNextItem_def syncContentByKey_sidecar_def splitKeys[OF assms(1)] driverMatch_ok st syncContent_sidecar_def
        createSnapshot_def finishContent_def contentIsReady_def reported_def checkandUpdateContentStatus_def
        checkandUpdateContentStatusOperation_def Let_def)
qed

text \<open>The common controller sees the content ready, and puts the snapshot on its queue.\<close>

lemma refKey [simp]: "SnapshotRefKey (vsc_Ref (contAt sc u f a st)) = snapKey sc"
  by (simp add: SnapshotRefKey_def snapKey_def)

lemma notice_turn:
  assumes "provisionable sc"
    "cl_content w = Some (contAt sc u [VolumeSnapshotContentFinalizer] fmempty (Some cst))"
    "C (contName sc) = Some (ObjVSC (contAt sc u' g b st'))" "u' \<le> u" "u < 2 ^ 63"
    "S (snapKey sc) = Some (ObjVS (snapAt sc k fs None))"
  shows "\<exists>l'. contentWorker (clusterEnv sc) (Some (contName sc)) (process w S C m l) =
     Some ((), process w S (C(contName sc \<mapsto> ObjVSC (contAt sc u [VolumeSnapshotContentFinalizer] fmempty (Some cst)))) m l') \<and>
     filter traced l' = filter traced l @ [QueueAdd QSnapshot (snapKey sc)]"
  using assms
  by (simp add: contentWorker_def syncContentByKey_def splitKeys updateContent_def syncContent_def Let_def provisionableD
      NeedToAddContentFinalizer_def Contains_def getSnapshotFromStore_def needsUpdateSnapshotStatus_def
      IsSnapshotDeletionCandidate_def)

text \<open>The status becomes ready.\<close>

definition finished :: "scenario \<Rightarrow> VolumeSnapshotStatus" where
  "finished sc = \<lparr>BoundVolumeSnapshotContentName = Some (contName sc), CreationTime = Some (reportedTime sc),
     ReadyToUse = Some True, RestoreSize = (if sc_size sc > 0 then Some (NewQuantity (sc_size sc) BinarySI) else None),
     Error = None, VolumeGroupSnapshotName = None\<rparr>"

definition finalizersOf :: "scenario \<Rightarrow> string list" where
  "finalizersOf sc = VolumeSnapshotAsSourceFinalizer #
     (if vsclass_DeletionPolicy (sc_class sc) = VolumeSnapshotContentDelete then [VolumeSnapshotBoundFinalizer] else [])"

lemma status_ready: "computeSnapshotStatus (Some (waiting sc)) (contentFactsOf (contAt sc u f a (Some (reported sc True)))) [] =
    (finished sc, True)"
  by (simp add: computeSnapshotStatus_def contentFactsOf_def reported_def finished_def emptyStatus_def setBoundName_def
      setCreationTime_def setReady_def setRestoreSize_def setError_def setGroupName_def Let_def)

lemma recordStatusChange_runs: "\<exists>m' l'. recordStatusChange (clusterEnv sc) v d v1 v2 (process w S C m l) =
    Some ((), process w S C m' l') \<and> filter traced l' = filter traced l"
  by (simp add: recordStatusChange_def)

lemma bind_ok:
  assumes "provisionable sc"
    "w = \<lparr>cl_version = U, cl_snapshot = snapAt sc k fs (Some (waiting sc)), cl_content = c, cl_claim = p, cl_polls = n\<rparr>"
    "S (snapKey sc) = Some (ObjVS (snapAt sc k' fs' st'))" "k' \<le> Suc U" "Suc U < 2 ^ 63"
  shows "\<exists>m' l'. bindandUpdateVolumeSnapshot (clusterEnv sc) (contAt sc u f a (Some (reported sc True))) (snapAt sc k0 fs0 st0)
      (process w S C m l) =
    Some (Inr (snapAt sc (Suc U) fs (Some (finished sc))),
      process (w\<lparr>cl_version := Suc U, cl_snapshot := snapAt sc (Suc U) fs (Some (finished sc))\<rparr>)
        (S(snapKey sc \<mapsto> ObjVS (snapAt sc (Suc U) fs (Some (finished sc))))) C m' l') \<and>
    filter traced l' = filter traced l"
proof -
  let ?v = "snapAt sc k fs (Some (waiting sc))"
  obtain m' l' where r: "recordStatusChange (clusterEnv sc) ?v (vsclass_Driver (sc_class sc)) ?v
      (snapAt sc k fs (Some (finished sc))) (process w S C m l) = Some ((), process w S C m' l')" "filter traced l' = filter traced l"
    using recordStatusChange_runs by blast
  have "Option.bind (Some (reported sc True)) cs_VolumeGroupSnapshotHandle = None" by (simp add: reported_def)
  then show ?thesis
    using assms r
    by (simp add: bindandUpdateVolumeSnapshot_def updateSnapshotStatus_def groupNameForContent_def status_ready Let_def)
qed

lemma contName_ne [simp]: "contName sc \<noteq> []"
  by (simp add: contName_def)

text \<open>The finalizer that a content to be deleted with its snapshot asks for.\<close>

definition boundFinalizer :: "scenario \<Rightarrow> bool" where
  "boundFinalizer sc = (vsclass_DeletionPolicy (sc_class sc) = VolumeSnapshotContentDelete)"

lemma finalizers_ok:
  assumes "provisionable sc"
    "w = \<lparr>cl_version = U, cl_snapshot = snapAt sc k [VolumeSnapshotAsSourceFinalizer] (Some (waiting sc)), cl_content = c,
       cl_claim = p, cl_polls = n\<rparr>"
    "S (snapKey sc) = Some (ObjVS (snapAt sc k [VolumeSnapshotAsSourceFinalizer] st'))" "k \<le> U" "Suc U < 2 ^ 63"
    "C (contName sc) = Some (ObjVSC (contAt sc u f a cst))"
    "v' = (if boundFinalizer sc then snapAt sc (Suc U) (finalizersOf sc) (Some (waiting sc)) else snapAt sc k (finalizersOf sc) (Some (waiting sc)))"
  shows "\<exists>l'. checkandAddSnapshotFinalizers (clusterEnv sc) (snapAt sc k [VolumeSnapshotAsSourceFinalizer] (Some (waiting sc)))
      (process w S C m l) =
    Some (None, process (w\<lparr>cl_version := (if boundFinalizer sc then Suc U else U), cl_snapshot := v'\<rparr>)
      (if boundFinalizer sc then S(snapKey sc \<mapsto> ObjVS v') else S) C m l') \<and>
    filter traced l' = filter traced l"
  using assms
  by (simp add: checkandAddSnapshotFinalizers_def provisionableD NeedToAddSnapshotAsSourceFinalizer_def Contains_def
      NeedToAddSnapshotBoundFinalizer_def IsBoundVolumeSnapshotContentNameSet_def emptyStatus_def addSnapshotFinalizer_def
      PatchVolumeSnapshot_def Let_def finalizersOf_def boundFinalizer_def)

text \<open>The two last turns on the snapshot: its status, and the claim is released.\<close>

lemma ready_turn:
  assumes "provisionable sc"
    "w = \<lparr>cl_version = U, cl_snapshot = snapAt sc k [VolumeSnapshotAsSourceFinalizer] (Some (waiting sc)), cl_content = c,
       cl_claim = claimAt sc k1 g1, cl_polls = n\<rparr>"
    "S (snapKey sc) = Some (ObjVS (snapAt sc k2 fs2 st2))" "k2 \<le> k" "k \<le> U" "Suc (Suc U) < 2 ^ 63"
    "C (contName sc) = Some (ObjVSC (contAt sc u f a (Some (reported sc True))))"
    "U' = (if boundFinalizer sc then Suc (Suc U) else Suc U)" "v' = snapAt sc U' (finalizersOf sc) (Some (finished sc))"
  shows "\<exists>m' l'. snapshotWorker (clusterEnv sc) (Some (snapKey sc)) (process w S C m l) =
     Some ((), process (w\<lparr>cl_version := U', cl_snapshot := v'\<rparr>) (S(snapKey sc \<mapsto> ObjVS v')) C m' l') \<and>
     filter traced l' = filter traced l"
proof -
  let ?v = "snapAt sc k [VolumeSnapshotAsSourceFinalizer] (Some (waiting sc))"
  let ?S = "S(snapKey sc \<mapsto> ObjVS ?v)"
  define U1 where "U1 = (if boundFinalizer sc then Suc U else U)"
  define k1' where "k1' = (if boundFinalizer sc then Suc U else k)"
  define v1 where "v1 = snapAt sc k1' (finalizersOf sc) (Some (waiting sc))"
  have v1: "v1 = (if boundFinalizer sc then snapAt sc (Suc U) (finalizersOf sc) (Some (waiting sc)) else snapAt sc k (finalizersOf sc) (Some (waiting sc)))"
    by (simp add: v1_def k1'_def)
  define S1 where "S1 = (if boundFinalizer sc then ?S(snapKey sc \<mapsto> ObjVS v1) else ?S)"
  define w1 where "w1 = w\<lparr>cl_version := U1, cl_snapshot := v1\<rparr>"
  obtain l1 where f: "checkandAddSnapshotFinalizers (clusterEnv sc) ?v (process w ?S C m l) = Some (None, process w1 S1 C m l1)"
      "filter traced l1 = filter traced l"
    using finalizers_ok[of sc w U k c "claimAt sc k1 g1" n ?S "Some (waiting sc)" C u f a "Some (reported sc True)" v1 m l,
        OF assms(1,2) _ assms(5) _ assms(7) v1] assms(6) unfolding U1_def S1_def w1_def by auto
  have w1: "w1 = \<lparr>cl_version = U1, cl_snapshot = snapAt sc k1' (finalizersOf sc) (Some (waiting sc)), cl_content = c,
      cl_claim = claimAt sc k1 g1, cl_polls = n\<rparr>" by (simp add: w1_def assms(2) v1_def)
  have "\<exists>fs' st'. S1 (snapKey sc) = Some (ObjVS (snapAt sc k1' fs' st'))"
    by (cases "boundFinalizer sc") (simp_all add: S1_def v1_def k1'_def, blast+)
  then obtain fs' st' where S1': "S1 (snapKey sc) = Some (ObjVS (snapAt sc k1' fs' st'))" "k1' \<le> Suc U1"
    using assms(5) by (auto simp: k1'_def U1_def)
  have U: "Suc U1 = U'" "U' < 2 ^ 63" using assms(6,8) by (auto simp: U1_def)
  define m1 where "m1 = creationStarted ?v (vsclass_Driver (sc_class sc)) m"
  obtain m2 l2 where b: "bindandUpdateVolumeSnapshot (clusterEnv sc) (contAt sc u f a (Some (reported sc True))) ?v (process w1 S1 C m1 l1) =
      Some (Inr v', process (w1\<lparr>cl_version := U', cl_snapshot := v'\<rparr>) (S1(snapKey sc \<mapsto> ObjVS v')) C m2 l2)"
      "filter traced l2 = filter traced l1"
    using bind_ok[where S = S1, OF assms(1) w1 S1'(1,2)] U unfolding assms(9) by metis
  have e: "w1\<lparr>cl_version := U', cl_snapshot := v'\<rparr> = w\<lparr>cl_version := U', cl_snapshot := v'\<rparr>"
    "S1(snapKey sc \<mapsto> ObjVS v') = S(snapKey sc \<mapsto> ObjVS v')" by (simp_all add: w1_def S1_def)
  have nr: "\<not> IsSnapshotReady ?v" by (simp add: IsSnapshotReady_def emptyStatus_def)
  have r: "reclaimPVCFinalizer (clusterEnv sc) ?v (process w ?S C m l) = Some ((), process w ?S C m l)"
    by (rule reclaim_nothing[OF assms(1)]) (simp_all add: assms(1,2) provisionableD nr)
  show ?thesis
    using assms(1-7) f(2) b(2)
    by (simp add: snapshotWorker_def syncSnapshotByKey_def splitKeys class_ok updateSnapshot_def syncSnapshot_def r[unfolded assms(2)] provisionableD
        syncLiveSnapshot_def f(1)[unfolded assms(2)] nr syncUnreadySnapshot_def driverName_ok metrics_ok m1_def[symmetric] syncUnreadyDynamic_def b(1) e[unfolded assms(2)])
qed

lemma RetryOnConflict_first: "fn s = Some (None, s') \<Longrightarrow> RetryOnConflict fn s = Some (None, s')"
  by (simp add: RetryOnConflict_def numeral_eq_Suc)

lemma release_turn:
  assumes "provisionable sc"
    "w = \<lparr>cl_version = U, cl_snapshot = snapAt sc k (finalizersOf sc) (Some (finished sc)), cl_content = c,
       cl_claim = claimAt sc k1 [PVCFinalizer], cl_polls = n\<rparr>"
    "S (snapKey sc) = Some (ObjVS (snapAt sc k fs2 st2))" "k < 2 ^ 63"
    "C (contName sc) = Some (ObjVSC (contAt sc u f a cst))"
  shows "\<exists>l'. snapshotWorker (clusterEnv sc) (Some (snapKey sc)) (process w S C m l) =
     Some ((), process (w\<lparr>cl_version := Suc U, cl_claim := claimAt sc (Suc U) []\<rparr>)
       (S(snapKey sc \<mapsto> ObjVS (snapAt sc k (finalizersOf sc) (Some (finished sc))))) C m l') \<and>
     filter traced l' = filter traced l"
proof -
  let ?v = "snapAt sc k (finalizersOf sc) (Some (finished sc))"
  let ?S = "S(snapKey sc \<mapsto> ObjVS ?v)"
  let ?w = "w\<lparr>cl_version := Suc U, cl_claim := claimAt sc (Suc U) []\<rparr>"
  have rdy: "IsSnapshotReady ?v" "IsBoundVolumeSnapshotContentNameSet ?v"
    by (simp_all add: IsSnapshotReady_def IsBoundVolumeSnapshotContentNameSet_def finished_def)
  have rem: "RemoveString [PVCFinalizer] PVCFinalizer = []" by (simp add: RemoveString_filter)
  have att: "removePVCFinalizer_attempt (clusterEnv sc) (claimAt sc k1 [PVCFinalizer]) (process w ?S C m l) =
      Some (None, process ?w ?S C m (l @ [UpdatePVC (claimAt sc k1 [])]))"
    by (simp add: removePVCFinalizer_attempt_def assms(2) provisionableD[OF assms(1)] rem Let_def)
  have r: "reclaimPVCFinalizer (clusterEnv sc) ?v (process w ?S C m l) =
      Some ((), process ?w ?S C m (l @ [UpdatePVC (claimAt sc k1 [])]))"
    using assms(1) att unfolding assms(2)
    by (simp add: reclaimPVCFinalizer_def checkandRemovePVCFinalizer_def claim_ok provisionableD Contains_def isPVCBeingUsed_def
        rdy removePVCFinalizer_def RetryOnConflict_first)
  have add: "checkandAddSnapshotFinalizers (clusterEnv sc) ?v (process w' ?S C m' l') = Some (None, process w' ?S C m' l')" for w' m' l'
    using assms(5)
    by (simp add: checkandAddSnapshotFinalizers_def provisionableD[OF assms(1)] NeedToAddSnapshotAsSourceFinalizer_def Contains_def
        NeedToAddSnapshotBoundFinalizer_def finalizersOf_def)
  have rd: "syncReadySnapshot (clusterEnv sc) ?v (process w' ?S C m' l') = Some (None, process w' ?S C m' l')" for w' m' l'
    using assms(5) rdy(2)
    by (simp add: syncReadySnapshot_def getContentFromStore_def IsVolumeSnapshotRefSet_def NeedToAddVolumeGroupSnapshotOwnership_def
        getVolumeGroupSnapshotParentObjectName_def provisionableD[OF assms(1)] finished_def)
  show ?thesis
    using assms(1-4)
    by (simp add: snapshotWorker_def syncSnapshotByKey_def splitKeys class_ok updateSnapshot_def syncSnapshot_def
        r[unfolded assms(2)] provisionableD syncLiveSnapshot_def add rdy rd)
qed

section \<open>The whole way\<close>

definition startOf :: "scenario \<Rightarrow> nat \<Rightarrow> cluster system" where
  "startOf sc n = \<lparr>sys_world = freshCluster sc n, common = initialState (freshCluster sc n), sidecar = initialState (freshCluster sc n)\<rparr>"

lemma startOf_reachable: "reachable EC ES (startOf sc n)"
  by (simp add: startOf_def reachable.start)

text \<open>The calls that the driver answers with a snapshot that is not ready: one turn each, and each asks for the next.\<close>

lemma polling:
  assumes "provisionable sc"
  shows "sys_world y = \<lparr>cl_version = U, cl_snapshot = v, cl_content = Some (contAt sc u f fmempty st), cl_claim = p, cl_polls = n\<rparr> \<Longrightarrow>
    sidecar y = process w0 Map.empty C m l \<Longrightarrow> C = Map.empty \<or> C = [contName sc \<mapsto> ObjVSC (contAt sc u f fmempty st)] \<Longrightarrow>
    u \<le> U \<Longrightarrow> U + 3 * n + 3 < 2 ^ 63 \<Longrightarrow> st = None \<or> st = Some (reported sc False) \<Longrightarrow>
    \<exists>y' U' l'. runTurns (clusterEnv sc) (clusterEnv sc) (replicate (Suc n) (SidecarTurn (contName sc))) y = Some y' \<and>
      sys_world y' = \<lparr>cl_version = U', cl_snapshot = v, cl_content = Some (contAt sc U' f fmempty (Some (reported sc True))),
        cl_claim = p, cl_polls = 0\<rparr> \<and> u \<le> U' \<and> U' \<le> U + 3 * n + 3 \<and> common y' = common y \<and> log (sidecar y') = l' \<and>
      filter traced l' = filter traced l @
        concat (replicate n [CSICreateSnapshot (requestFor sc), QueueAddRateLimited QContent (contName sc)]) @
        [CSICreateSnapshot (requestFor sc)]"
proof (induction n arbitrary: y U u st w0 C l)
  case 0
  obtain l' where t: "processNextItem (clusterEnv sc) (theHandler (clusterEnv sc)) (Some (contName sc)) (process (sys_world y) Map.empty C m l) =
      Some (True, process ((sys_world y)\<lparr>cl_version := Suc (Suc (Suc U)),
          cl_content := Some (contAt sc (Suc (Suc (Suc U))) f fmempty (Some (reported sc True))), cl_polls := 0\<rparr>)
        Map.empty [contName sc \<mapsto> ObjVSC (contAt sc (Suc (Suc (Suc U))) f fmempty (Some (reported sc True)))] m l')"
    "filter traced l' = filter traced l @ [CSICreateSnapshot (requestFor sc)]"
    using sidecar_turn[OF assms 0(1,3,4) _ 0(6) refl refl, of Map.empty m l] 0(5) by auto
  show ?case using t 0(1,2,4) by simp
next
  case (Suc n)
  define U1 where "U1 = (if st = None then Suc (Suc (Suc U)) else Suc (Suc U))"
  define c1 where "c1 = contAt sc U1 f fmempty (Some (reported sc False))"
  obtain l1 where t: "processNextItem (clusterEnv sc) (theHandler (clusterEnv sc)) (Some (contName sc)) (process (sys_world y) Map.empty C m l) =
      Some (True, process ((sys_world y)\<lparr>cl_version := U1, cl_content := Some c1, cl_polls := n\<rparr>) Map.empty [contName sc \<mapsto> ObjVSC c1] m l1)"
    "filter traced l1 = filter traced l @ [CSICreateSnapshot (requestFor sc), QueueAddRateLimited QContent (contName sc)]"
    using sidecar_turn[OF assms Suc.prems(1,3,4) _ Suc.prems(6) refl refl, of Map.empty m l] Suc.prems(5)
    by (auto simp: U1_def c1_def)
  define w1 where "w1 = (sys_world y)\<lparr>cl_version := U1, cl_content := Some c1, cl_polls := n\<rparr>"
  define y1 where "y1 = y\<lparr>sys_world := w1, sidecar := process w1 Map.empty [contName sc \<mapsto> ObjVSC c1] m l1\<rparr>"
  have run: "runTurn (clusterEnv sc) (clusterEnv sc) (SidecarTurn (contName sc)) y = Some y1"
    using t(1) Suc.prems(2) by (simp add: y1_def w1_def)
  have w: "sys_world y1 = \<lparr>cl_version = U1, cl_snapshot = v, cl_content = Some (contAt sc U1 f fmempty (Some (reported sc False))),
      cl_claim = p, cl_polls = n\<rparr>" by (simp add: y1_def w1_def c1_def Suc.prems(1))
  have b: "U1 + 3 * n + 3 < 2 ^ 63" "u \<le> U1" "U1 \<le> U + 3" using Suc.prems(4,5) by (auto simp: U1_def)
  have sd: "sidecar y1 = process w1 Map.empty [contName sc \<mapsto> ObjVSC (contAt sc U1 f fmempty (Some (reported sc False)))] m l1"
    by (simp add: y1_def c1_def)
  obtain y' U' l' where ih: "runTurns (clusterEnv sc) (clusterEnv sc) (replicate (Suc n) (SidecarTurn (contName sc))) y1 = Some y'"
      "sys_world y' = \<lparr>cl_version = U', cl_snapshot = v, cl_content = Some (contAt sc U' f fmempty (Some (reported sc True))),
        cl_claim = p, cl_polls = 0\<rparr>" "U1 \<le> U'" "U' \<le> U1 + 3 * n + 3" "common y' = common y1" "log (sidecar y') = l'"
      "filter traced l' = filter traced l1 @
        concat (replicate n [CSICreateSnapshot (requestFor sc), QueueAddRateLimited QContent (contName sc)]) @
        [CSICreateSnapshot (requestFor sc)]"
    using Suc.IH[OF w sd disjI2[OF refl] order_refl b(1) disjI2[OF refl]] by blast
  have "runTurns (clusterEnv sc) (clusterEnv sc) (replicate (Suc (Suc n)) (SidecarTurn (contName sc))) y = Some y'"
    using run ih(1) by simp
  moreover have "common y1 = common y" by (simp add: y1_def)
  ultimately show ?case using ih(2-7) t(2) b(2,3) by auto
qed

text \<open>The turns of a snapshot whose driver needs \<open>n\<close> calls before the last: each is asked for by an event of the one before
  or by what that one put on a queue.\<close>

definition theTurns :: "scenario \<Rightarrow> nat \<Rightarrow> turn list" where
  "theTurns sc n = [SnapshotTurn (snapKey sc), ContentTurn (contName sc)] @
     replicate (Suc n) (SidecarTurn (contName sc)) @
     [ContentTurn (contName sc), SnapshotTurn (snapKey sc), SnapshotTurn (snapKey sc)]"

text \<open>The first two turns: the content is there, and protected.\<close>

lemma until_created:
  assumes "provisionable sc"
  shows "\<exists>y u k m l. runTurns (clusterEnv sc) (clusterEnv sc) [SnapshotTurn (snapKey sc), ContentTurn (contName sc)] (startOf sc n) = Some y \<and>
    u < 7 \<and> k \<le> u \<and> sys_world y =
      \<lparr>cl_version = u, cl_snapshot = snapAt sc k [VolumeSnapshotAsSourceFinalizer] (Some (waiting sc)),
       cl_content = Some (contAt sc u [VolumeSnapshotContentFinalizer] fmempty None),
       cl_claim = claimAt sc (Suc (Suc (Suc 0))) [PVCFinalizer], cl_polls = n\<rparr> \<and>
    common y = process (sys_world y) [snapKey sc \<mapsto> ObjVS (snapAt sc (Suc (Suc 0)) [VolumeSnapshotAsSourceFinalizer] None)]
      [contName sc \<mapsto> ObjVSC (contAt sc u [VolumeSnapshotContentFinalizer] fmempty None)] m l \<and>
    filter traced l = [CreateVSC (newContent sc)] \<and> Suc (Suc 0) \<le> k \<and>
    sidecar y = process (freshCluster sc n) Map.empty Map.empty NewMetricsManager []"
proof -
  let ?E = "clusterEnv sc"
  let ?u = "Suc (Suc (Suc (Suc 0)))"
  let ?c = "contAt sc ?u [] fmempty None"
  let ?c' = "contAt sc (Suc (Suc ?u)) [VolumeSnapshotContentFinalizer] fmempty None"
  define w1 where "w1 = \<lparr>cl_version = Suc ?u, cl_snapshot = snapAt sc (Suc ?u) [VolumeSnapshotAsSourceFinalizer] (Some (waiting sc)),
     cl_content = Some ?c, cl_claim = claimAt sc (Suc (Suc (Suc 0))) [PVCFinalizer], cl_polls = n\<rparr>"
  define S where "S = [snapKey sc \<mapsto> ObjVS (snapAt sc (Suc (Suc 0)) [VolumeSnapshotAsSourceFinalizer] None)]"
  obtain m l1 where t1: "snapshotWorker ?E (Some (snapKey sc)) (process (freshCluster sc n) Map.empty Map.empty NewMetricsManager []) =
      Some ((), process w1 S [contName sc \<mapsto> ObjVSC ?c] m l1)" "filter traced l1 = [CreateVSC (newContent sc)]"
    using first_turn[OF assms, of n NewMetricsManager "[]"] by (auto simp: w1_def S_def)
  define w2 where "w2 = w1\<lparr>cl_version := Suc (Suc ?u), cl_content := Some ?c'\<rparr>"
  obtain l2 where t2: "contentWorker ?E (Some (contName sc)) (process w1 S [contName sc \<mapsto> ObjVSC ?c] m l1) =
      Some ((), process w2 S [contName sc \<mapsto> ObjVSC ?c'] m l2)" "filter traced l2 = [CreateVSC (newContent sc)]"
    using content_turn[OF assms w1_def, of "[contName sc \<mapsto> ObjVSC ?c]" "[]" fmempty None S m l1] t1(2) by (auto simp: w2_def)
  define y where "y = (startOf sc n)\<lparr>sys_world := w2, common := process w2 S [contName sc \<mapsto> ObjVSC ?c'] m l2\<rparr>"
  have "runTurns ?E ?E [SnapshotTurn (snapKey sc), ContentTurn (contName sc)] (startOf sc n) = Some y"
    using t1(1) t2(1) by (simp add: startOf_def process_initial y_def)
  then show ?thesis
    using t2(2) by (intro exI[of _ y] exI[of _ "Suc (Suc ?u)"] exI[of _ "Suc ?u"] exI[of _ m] exI[of _ l2])
      (simp add: y_def w2_def w1_def S_def startOf_def process_initial)
qed

text \<open>The last three: the snapshot is ready, and its claim released.\<close>

lemma until_released:
  assumes "provisionable sc" "Suc (Suc U) < 2 ^ 63" "u \<le> U" "k \<le> U" "Suc (Suc 0) \<le> k" "Suc (Suc 0) \<le> U"
    and w: "sys_world y = \<lparr>cl_version = U, cl_snapshot = snapAt sc k [VolumeSnapshotAsSourceFinalizer] (Some (waiting sc)),
      cl_content = Some c, cl_claim = claimAt sc k1 [PVCFinalizer], cl_polls = 0\<rparr>"
    and c: "c = contAt sc U [VolumeSnapshotContentFinalizer] fmempty (Some (reported sc True))"
    and p: "common y = process w0 [snapKey sc \<mapsto> ObjVS (snapAt sc (Suc (Suc 0)) [VolumeSnapshotAsSourceFinalizer] None)]
      [contName sc \<mapsto> ObjVSC (contAt sc u [VolumeSnapshotContentFinalizer] fmempty None)] m l"
  shows "\<exists>y' k' k1'. runTurns (clusterEnv sc) (clusterEnv sc)
      [ContentTurn (contName sc), SnapshotTurn (snapKey sc), SnapshotTurn (snapKey sc)] y = Some y' \<and>
    cl_snapshot (sys_world y') = snapAt sc k' (finalizersOf sc) (Some (finished sc)) \<and> cl_content (sys_world y') = Some c \<and>
    cl_claim (sys_world y') = claimAt sc k1' [] \<and> sidecar y' = sidecar y \<and>
    filter traced (log (common y')) = filter traced l @ [QueueAdd QSnapshot (snapKey sc)]"
proof -
  let ?E = "clusterEnv sc"
  define S where "S = [snapKey sc \<mapsto> ObjVS (snapAt sc (Suc (Suc 0)) [VolumeSnapshotAsSourceFinalizer] None)]"
  define C where "C = [contName sc \<mapsto> ObjVSC (contAt sc u [VolumeSnapshotContentFinalizer] fmempty None)]"
  define C' where "C' = [contName sc \<mapsto> ObjVSC c]"
  have S: "S (snapKey sc) = Some (ObjVS (snapAt sc (Suc (Suc 0)) [VolumeSnapshotAsSourceFinalizer] None))" by (simp add: S_def)
  have C: "C (contName sc) = Some (ObjVSC (contAt sc u [VolumeSnapshotContentFinalizer] fmempty None))" by (simp add: C_def)
  have C': "C' (contName sc) = Some (ObjVSC (contAt sc U [VolumeSnapshotContentFinalizer] fmempty (Some (reported sc True))))"
    by (simp add: C'_def c)
  obtain l4 where t4: "contentWorker ?E (Some (contName sc)) (process (sys_world y) S C m l) =
      Some ((), process (sys_world y) S C' m l4)" "filter traced l4 = filter traced l @ [QueueAdd QSnapshot (snapKey sc)]"
    using notice_turn[where w = "sys_world y" and u = U and cst = "reported sc True" and m = m and l = l and S = S and C = C,
        OF assms(1) _ C assms(3) _ S] assms(2) by (auto simp: w c C'_def C_def)
  define U5 where "U5 = (if boundFinalizer sc then Suc (Suc U) else Suc U)"
  define v5 where "v5 = snapAt sc U5 (finalizersOf sc) (Some (finished sc))"
  define w5 where "w5 = (sys_world y)\<lparr>cl_version := U5, cl_snapshot := v5\<rparr>"
  obtain m5 l5 where t5: "snapshotWorker ?E (Some (snapKey sc)) (process (sys_world y) S C' m l4) =
      Some ((), process w5 (S(snapKey sc \<mapsto> ObjVS v5)) C' m5 l5)" "filter traced l5 = filter traced l4"
    using ready_turn[where S = S and C = C' and m = m and l = l4, OF assms(1) w S _ _ _ C' U5_def v5_def] assms(2-6)
    by (auto simp: w5_def)
  have w5: "w5 = \<lparr>cl_version = U5, cl_snapshot = snapAt sc U5 (finalizersOf sc) (Some (finished sc)), cl_content = Some c,
      cl_claim = claimAt sc k1 [PVCFinalizer], cl_polls = 0\<rparr>" by (simp add: w5_def w v5_def)
  define w6 where "w6 = w5\<lparr>cl_version := Suc U5, cl_claim := claimAt sc (Suc U5) []\<rparr>"
  have S5: "(S(snapKey sc \<mapsto> ObjVS v5)) (snapKey sc) = Some (ObjVS (snapAt sc U5 (finalizersOf sc) (Some (finished sc))))"
    and U5: "U5 < 2 ^ 63" using assms(2) by (simp_all add: v5_def U5_def)
  obtain S6 l6 where t6: "snapshotWorker ?E (Some (snapKey sc)) (process w5 (S(snapKey sc \<mapsto> ObjVS v5)) C' m5 l5) =
      Some ((), process w6 S6 C' m5 l6)" "filter traced l6 = filter traced l5"
    using release_turn[where S = "S(snapKey sc \<mapsto> ObjVS v5)" and C = C' and m = m5 and l = l5, OF assms(1) w5 S5 U5 C']
    by (auto simp: w6_def)
  define y' where "y' = y\<lparr>sys_world := w6, common := process w6 S6 C' m5 l6\<rparr>"
  have "runTurns ?E ?E [ContentTurn (contName sc), SnapshotTurn (snapKey sc), SnapshotTurn (snapKey sc)] y = Some y'"
    using p t4(1) t5(1) t6(1) by (simp add: S_def[symmetric] C_def[symmetric] y'_def)
  then show ?thesis
    using t4(2) t5(2) t6(2) by (intro exI[of _ y'] exI[of _ U5] exI[of _ "Suc U5"]) (simp add: y'_def w6_def w5)
qed

text \<open>C1: A snapshot gets from the user's creation to its use, whatever the driver answers and whatever the number n below
  2^60 of calls that it answers with a snapshot that is not ready. The snapshot names its class and its source, a bound
  claim of its own namespace whose CSI volume refers back to it; neither is being deleted; the snapshot has no owners,
  a UID and a namespace, and no slash in UID, namespace and name; its class has no secrets for snapshots and no unknown
  reserved parameter. On a cluster in which nothing fails, one content is created, bound to the snapshot and protected;
  the driver is asked n + 1 times with the same request, each time but the last leading to the next; then the common
  controller looks at the snapshot again, which becomes ready with what the driver reported, under its finalizers, and
  the claim, protected while the snapshot was taken, is released.\<close>

theorem provisioning_completes:
  assumes "provisionable sc" "n < 2 ^ 60"
  shows "\<exists>y c. runTurns (clusterEnv sc) (clusterEnv sc) (theTurns sc n) (startOf sc n) = Some y \<and>
    reachable (clusterEnv sc) (clusterEnv sc) y \<and>
    vs_Status (cl_snapshot (sys_world y)) = Some (finished sc) \<and>
    Finalizers (vs_meta (cl_snapshot (sys_world y))) = finalizersOf sc \<and>
    cl_content (sys_world y) = Some c \<and> IsVolumeSnapshotRefSet (cl_snapshot (sys_world y)) c \<and>
    vsc_Status c = Some (reported sc True) \<and> Finalizers (vsc_meta c) = [VolumeSnapshotContentFinalizer] \<and>
    \<not> HasAnnotation (vsc_meta c) AnnVolumeSnapshotBeingCreated \<and>
    Finalizers (pvc_meta (cl_claim (sys_world y))) = [] \<and>
    filter traced (log (common y)) = [CreateVSC (newContent sc), QueueAdd QSnapshot (snapKey sc)] \<and>
    filter traced (log (sidecar y)) =
      concat (replicate n [CSICreateSnapshot (requestFor sc), QueueAddRateLimited QContent (contName sc)]) @
      [CSICreateSnapshot (requestFor sc)]"
proof -
  let ?E = "clusterEnv sc"
  obtain y2 u k m l where r2: "runTurns ?E ?E [SnapshotTurn (snapKey sc), ContentTurn (contName sc)] (startOf sc n) = Some y2"
    and u: "u < 7" "k \<le> u" "Suc (Suc 0) \<le> k"
    and w2: "sys_world y2 = \<lparr>cl_version = u, cl_snapshot = snapAt sc k [VolumeSnapshotAsSourceFinalizer] (Some (waiting sc)),
       cl_content = Some (contAt sc u [VolumeSnapshotContentFinalizer] fmempty None),
       cl_claim = claimAt sc (Suc (Suc (Suc 0))) [PVCFinalizer], cl_polls = n\<rparr>"
    and p2: "common y2 = process (sys_world y2) [snapKey sc \<mapsto> ObjVS (snapAt sc (Suc (Suc 0)) [VolumeSnapshotAsSourceFinalizer] None)]
      [contName sc \<mapsto> ObjVSC (contAt sc u [VolumeSnapshotContentFinalizer] fmempty None)] m l"
    and l2: "filter traced l = [CreateVSC (newContent sc)]"
    and s2: "sidecar y2 = process (freshCluster sc n) Map.empty Map.empty NewMetricsManager []"
    using until_created[OF assms(1), of n] by blast
  obtain y3 U where r3: "runTurns ?E ?E (replicate (Suc n) (SidecarTurn (contName sc))) y2 = Some y3"
    and w3: "sys_world y3 = \<lparr>cl_version = U, cl_snapshot = snapAt sc k [VolumeSnapshotAsSourceFinalizer] (Some (waiting sc)),
        cl_content = Some (contAt sc U [VolumeSnapshotContentFinalizer] fmempty (Some (reported sc True))),
        cl_claim = claimAt sc (Suc (Suc (Suc 0))) [PVCFinalizer], cl_polls = 0\<rparr>"
    and U: "u \<le> U" "U \<le> u + 3 * n + 3" and p3: "common y3 = common y2"
    and l3: "filter traced (log (sidecar y3)) =
        concat (replicate n [CSICreateSnapshot (requestFor sc), QueueAddRateLimited QContent (contName sc)]) @
        [CSICreateSnapshot (requestFor sc)]"
    using polling[OF assms(1) w2 s2 disjI1[OF refl] order_refl _ disjI1[OF refl]] assms(2) u(1) by auto
  have b: "Suc (Suc U) < 2 ^ 63" "k \<le> U" "Suc (Suc 0) \<le> U" using U u assms(2) by auto
  obtain y k' k1 where r: "runTurns ?E ?E [ContentTurn (contName sc), SnapshotTurn (snapKey sc), SnapshotTurn (snapKey sc)] y3 = Some y"
    and e: "cl_snapshot (sys_world y) = snapAt sc k' (finalizersOf sc) (Some (finished sc))"
      "cl_content (sys_world y) = Some (contAt sc U [VolumeSnapshotContentFinalizer] fmempty (Some (reported sc True)))"
      "cl_claim (sys_world y) = claimAt sc k1 []" "sidecar y = sidecar y3"
      "filter traced (log (common y)) = filter traced l @ [QueueAdd QSnapshot (snapKey sc)]"
    using until_released[OF assms(1) b(1) U(1) b(2) u(3) b(3) w3 refl p3[unfolded p2]] by blast
  have run: "runTurns ?E ?E (theTurns sc n) (startOf sc n) = Some y"
    unfolding theTurns_def runTurns_append r2 Option.bind.bind_lunit r3 r ..
  show ?thesis
    using run runTurns_reachable[OF startOf_reachable run] e l2 l3
    by (intro exI[of _ y] exI[of _ "contAt sc U [VolumeSnapshotContentFinalizer] fmempty (Some (reported sc True))"]) (simp add: IsVolumeSnapshotRefSet_def HasAnnotation_def)
qed

definition demoScenario :: scenario where
  "demoScenario = \<lparr>sc_snapshot = demoDynamic, sc_claim = demoPVC, sc_volume = demoPV, sc_class = demoClass,
     sc_handle = ''handle1'', sc_time = 1700000000000000000, sc_size = 1073741824\<rparr>"

lemma demoScenario_ok: "provisionable demoScenario"
  by code_simp

theorem provisioning_completes_witness:
  "\<exists>y. runTurns (clusterEnv demoScenario) (clusterEnv demoScenario) (theTurns demoScenario 3) (startOf demoScenario 3) = Some y \<and>
    vs_Status (cl_snapshot (sys_world y)) = Some (finished demoScenario) \<and> ReadyToUse (finished demoScenario) = Some True"
proof -
  have "(3 :: nat) < 2 ^ 60" by simp
  from provisioning_completes[OF demoScenario_ok this] show ?thesis by (auto simp: finished_def)
qed


end
