(* ===== verification/Access.thy ===== *)
theory Access
  imports Clients Provisioning
begin

text \<open>
  The roles that the deployment gives the two processes (\<open>deploy/kubernetes\<close>), and the requests their actions become at the
  API server: an action is a call of a client, a call is a request (\<open>Clients\<close>), and a request has the attributes that
  the rules of a role are matched against. No run of the two processes sends a write that its role does not permit.
\<close>

section \<open>Roles\<close>

record policyRule =
  pr_apiGroups :: "string list"
  pr_resources :: "string list"
  pr_verbs :: "string list"

definition rule :: "string \<Rightarrow> string \<Rightarrow> string list \<Rightarrow> policyRule" where
  "rule grp res verbs = \<lparr>pr_apiGroups = [grp], pr_resources = [res], pr_verbs = verbs\<rparr>"

definition snapshotControllerRunner :: "policyRule list" where
  "snapshotControllerRunner =
    [rule [] ''persistentvolumes'' [''get'', ''list'', ''watch''],
     rule [] ''persistentvolumeclaims'' [''get'', ''list'', ''watch'', ''update''],
     rule [] ''events'' [''list'', ''watch'', ''create'', ''update'', ''patch''],
     rule ''snapshot.storage.k8s.io'' ''volumesnapshotclasses'' [''get'', ''list'', ''watch''],
     rule ''snapshot.storage.k8s.io'' ''volumesnapshotcontents''
       [''create'', ''get'', ''list'', ''watch'', ''update'', ''delete'', ''patch''],
     rule ''snapshot.storage.k8s.io'' ''volumesnapshotcontents/status'' [''patch''],
     rule ''snapshot.storage.k8s.io'' ''volumesnapshots''
       [''create'', ''get'', ''list'', ''watch'', ''update'', ''patch'', ''delete''],
     rule ''snapshot.storage.k8s.io'' ''volumesnapshots/status'' [''update'', ''patch''],
     rule ''groupsnapshot.storage.k8s.io'' ''volumegroupsnapshotclasses'' [''get'', ''list'', ''watch''],
     rule ''groupsnapshot.storage.k8s.io'' ''volumegroupsnapshotcontents''
       [''create'', ''get'', ''list'', ''watch'', ''update'', ''delete'', ''patch''],
     rule ''groupsnapshot.storage.k8s.io'' ''volumegroupsnapshotcontents/status'' [''patch''],
     rule ''groupsnapshot.storage.k8s.io'' ''volumegroupsnapshots'' [''get'', ''list'', ''watch'', ''update'', ''patch''],
     rule ''groupsnapshot.storage.k8s.io'' ''volumegroupsnapshots/status'' [''update'', ''patch'']]"

definition externalSnapshotterRunner :: "policyRule list" where
  "externalSnapshotterRunner =
    [rule [] ''events'' [''list'', ''watch'', ''create'', ''update'', ''patch''],
     rule ''snapshot.storage.k8s.io'' ''volumesnapshotclasses'' [''get'', ''list'', ''watch''],
     rule ''snapshot.storage.k8s.io'' ''volumesnapshotcontents'' [''get'', ''list'', ''watch'', ''update'', ''patch''],
     rule ''snapshot.storage.k8s.io'' ''volumesnapshotcontents/status'' [''update'', ''patch''],
     rule ''groupsnapshot.storage.k8s.io'' ''volumegroupsnapshotclasses'' [''get'', ''list'', ''watch''],
     rule ''groupsnapshot.storage.k8s.io'' ''volumegroupsnapshotcontents'' [''get'', ''list'', ''watch'', ''update'', ''patch''],
     rule ''groupsnapshot.storage.k8s.io'' ''volumegroupsnapshotcontents/status'' [''update'', ''patch'']]"

fun roleOf :: "process \<Rightarrow> policyRule list" where
  "roleOf CommonController = snapshotControllerRunner"
| "roleOf SidecarController = externalSnapshotterRunner"

text \<open>What a rule is matched against. A sub-resource is written after the resource.\<close>

record attributes =
  at_verb :: string
  at_group :: string
  at_resource :: string

definition allows :: "policyRule \<Rightarrow> attributes \<Rightarrow> bool" where
  "allows r a \<longleftrightarrow> at_group a \<in> set (pr_apiGroups r) \<and> at_resource a \<in> set (pr_resources r) \<and> at_verb a \<in> set (pr_verbs r)"

definition permitted :: "policyRule list \<Rightarrow> attributes \<Rightarrow> bool" where
  "permitted role a = list_ex (\<lambda>r. allows r a) role"

section \<open>The attributes of a request\<close>

text \<open>The server takes the verb from the method; a name makes a \<open>GET\<close> or \<open>DELETE\<close> one of a single object.\<close>

definition requestVerb :: "restRequest \<Rightarrow> string" where
  "requestVerb r =
    (case r_verb r of
       POST \<Rightarrow> ''create'' | PUT \<Rightarrow> ''update'' | PATCH \<Rightarrow> ''patch''
     | DELETE \<Rightarrow> if r_resourceName r = [] then ''deletecollection'' else ''delete''
     | GET \<Rightarrow> if r_resourceName r \<noteq> [] then ''get''
              else (case r_params r of ListParams opts \<Rightarrow> if lo_Watch opts then ''watch'' else ''list'' | _ \<Rightarrow> ''list''))"

text \<open>The prefix of the path ends in the group and its version.\<close>

definition requestAttributes :: "restRequest \<Rightarrow> attributes" where
  "requestAttributes r =
    \<lparr>at_verb = requestVerb r, at_group = last (butlast (r_pathPrefix r)),
     at_resource = r_resource r @ (if r_subresource r = [] then [] else ''/'' @ r_subresource r)\<rparr>"

section \<open>The calls of the actions\<close>

definition JSONPatchType :: string where
  "JSONPatchType = ''application/json-patch+json''"

fun actionCall :: "action \<Rightarrow> apiCall option" where
  "actionCall (UpdateVS v) = Some (SnapshotCall (vs_Namespace v) (CallUpdate v []))"
| "actionCall (UpdateStatusVS v) = Some (SnapshotCall (vs_Namespace v) (CallUpdateStatus v []))"
| "actionCall (PatchVS ns n ops subs) = Some (SnapshotCall ns (CallPatch n JSONPatchType ops [] subs))"
| "actionCall (CreateVS v) = Some (SnapshotCall (vs_Namespace v) (CallCreate v []))"
| "actionCall (DeleteVS ns n) = Some (SnapshotCall ns (CallDelete n []))"
| "actionCall (CreateVSC c) = Some (ContentCall (CallCreate c []))"
| "actionCall (UpdateStatusVSC c) = Some (ContentCall (CallUpdateStatus c []))"
| "actionCall (PatchVSC n ops subs) = Some (ContentCall (CallPatch n JSONPatchType ops [] subs))"
| "actionCall (DeleteVSC n) = Some (ContentCall (CallDelete n []))"
| "actionCall (UpdateVGS g) = Some (GroupSnapshotCall (vgs_Namespace g) (CallUpdate g []))"
| "actionCall (UpdateStatusVGS g) = Some (GroupSnapshotCall (vgs_Namespace g) (CallUpdateStatus g []))"
| "actionCall (PatchVGS ns n ops subs) = Some (GroupSnapshotCall ns (CallPatch n JSONPatchType ops [] subs))"
| "actionCall (CreateVGSC c) = Some (GroupContentCall (CallCreate c []))"
| "actionCall (UpdateStatusVGSC c) = Some (GroupContentCall (CallUpdateStatus c []))"
| "actionCall (PatchVGSC n ops subs) = Some (GroupContentCall (CallPatch n JSONPatchType ops [] subs))"
| "actionCall (DeleteVGSC n) = Some (GroupContentCall (CallDelete n []))"
| "actionCall _ = None"

text \<open>The two writes that go to clients of core types: the claim, and the events of the recorder, which patches one it repeats.\<close>

definition coreAccess :: "string \<Rightarrow> string \<Rightarrow> attributes" where
  "coreAccess verb res = \<lparr>at_verb = verb, at_group = [], at_resource = res\<rparr>"

fun coreAttributes :: "action \<Rightarrow> attributes list" where
  "coreAttributes (UpdatePVC p) = [coreAccess ''update'' ''persistentvolumeclaims'']"
| "coreAttributes (Event ob t r m) = [coreAccess ''create'' ''events'', coreAccess ''patch'' ''events'']"
| "coreAttributes _ = []"

text \<open>All that an action may ask of the server: nothing when the client refuses to send the request.\<close>

definition actionAttributes :: "string list \<Rightarrow> action \<Rightarrow> attributes list" where
  "actionAttributes base a =
    (case actionCall a of
       None \<Rightarrow> coreAttributes a
     | Some k \<Rightarrow> (case requestOf base k of
         None \<Rightarrow> []
       | Some q \<Rightarrow> (case sent q of Inl _ \<Rightarrow> [] | Inr r \<Rightarrow> [requestAttributes r])))"

section \<open>Every write is permitted\<close>

lemma sent_attributes:
  assumes "sent (referenceRequest c ns res nm enc op) = Inr r" "res \<noteq> []"
  shows "r_verb r = opVerb op \<and> r_pathPrefix r = rc_Base c @ [''apis'', rc_Group c, rc_Version c] \<and> r_resource r = res \<and>
    r_subresource r = joinPath (opSubresources op) \<and> (r_resourceName r = []) = (\<not> namedOperation op)"
proof -
  have q: "r = referenceRequest c ns res nm enc op" "r_err r = None" using sent_err[OF assms(1)] by auto
  have j: "joinPath [''status''] = ''status''" "joinPath [] = []" "joinPath (filter (\<lambda>s. s \<noteq> []) subs) = joinPath subs" for subs
    by (simp_all add: joinPath_def)
  show ?thesis
    using q(2) assms(2) unfolding q(1)
    by (cases op; cases ns) (simp_all add: referenceRequest_def namedOperation_def j)
qed

definition callAttributes :: "string \<Rightarrow> string \<Rightarrow> 'o operation \<Rightarrow> attributes" where
  "callAttributes grp res op =
    \<lparr>at_verb = (case op of CallCreate _ _ \<Rightarrow> ''create'' | CallUpdate _ _ \<Rightarrow> ''update'' | CallUpdateStatus _ _ \<Rightarrow> ''update''
        | CallPatch _ _ _ _ _ \<Rightarrow> ''patch'' | CallDelete _ _ \<Rightarrow> ''delete'' | _ \<Rightarrow> []),
     at_group = grp,
     at_resource = res @ (if joinPath (opSubresources op) = [] then [] else ''/'' @ joinPath (opSubresources op))\<rparr>"

definition isWrite :: "'o operation \<Rightarrow> bool" where
  "isWrite op = (case op of CallCreate _ _ \<Rightarrow> True | CallUpdate _ _ \<Rightarrow> True | CallUpdateStatus _ _ \<Rightarrow> True
     | CallPatch _ _ _ _ _ \<Rightarrow> True | CallDelete _ _ \<Rightarrow> True | _ \<Rightarrow> False)"

lemma reference_attributes:
  assumes "sent (referenceRequest c ns res nm enc op) = Inr r" "res \<noteq> []" "isWrite op"
  shows "requestAttributes r = callAttributes (rc_Group c) res op"
  using sent_attributes[OF assms(1,2)] assms(3)
  by (cases op) (simp_all add: requestAttributes_def requestVerb_def callAttributes_def namedOperation_def isWrite_def butlast_append)

fun writeAttributes :: "apiCall \<Rightarrow> attributes option" where
  "writeAttributes (SnapshotCall n op) =
    (if isWrite op then Some (callAttributes ''snapshot.storage.k8s.io'' ''volumesnapshots'' op) else None)"
| "writeAttributes (ContentCall op) =
    (if isWrite op then Some (callAttributes ''snapshot.storage.k8s.io'' ''volumesnapshotcontents'' op) else None)"
| "writeAttributes (GroupSnapshotCall n op) =
    (if isWrite op then Some (callAttributes ''groupsnapshot.storage.k8s.io'' ''volumegroupsnapshots'' op) else None)"
| "writeAttributes (GroupContentCall op) =
    (if isWrite op then Some (callAttributes ''groupsnapshot.storage.k8s.io'' ''volumegroupsnapshotcontents'' op) else None)"
| "writeAttributes _ = None"

lemma kinds_attributes:
  "writeAttributes k = Some att \<Longrightarrow> requestOf base k = Some q \<Longrightarrow> sent q = Inr r \<Longrightarrow> requestAttributes r = att"
  by (cases k) (auto simp: snapshotRequest_reference contentRequest_reference gentypeRequest_reference newVolumeGroupSnapshots_v1_def
      newVolumeGroupSnapshotContents_v1_def SnapshotV1Client_def GroupsnapshotV1Client_def dest!: reference_attributes split: if_splits)

lemma joinPath_simps: "joinPath [''status''] = ''status''" "joinPath [] = []"
  by (simp_all add: joinPath_def)

lemmas attribute_defs = callAttributes_def isWrite_def joinPath_simps plainOrStatus_def

text \<open>What the writes ask for, found in the roles.\<close>

lemma core_permitted [simp]:
  "permitted snapshotControllerRunner (coreAccess ''update'' ''persistentvolumeclaims'')"
  "permitted (roleOf p) (coreAccess ''create'' ''events'')" "permitted (roleOf p) (coreAccess ''patch'' ''events'')"
proof -
  have "permitted snapshotControllerRunner (coreAccess ''create'' ''events'')"
    "permitted snapshotControllerRunner (coreAccess ''patch'' ''events'')"
    "permitted externalSnapshotterRunner (coreAccess ''create'' ''events'')"
    "permitted externalSnapshotterRunner (coreAccess ''patch'' ''events'')"
    by code_simp+
  then show "permitted (roleOf p) (coreAccess ''create'' ''events'')" "permitted (roleOf p) (coreAccess ''patch'' ''events'')"
    by (cases p; simp)+
qed code_simp

definition needed :: "process \<Rightarrow> (string \<times> string \<times> string) list" where
  "needed p = (let sn = ''snapshot.storage.k8s.io''; gr = ''groupsnapshot.storage.k8s.io'' in
    case p of
      CommonController \<Rightarrow>
        [(''create'', sn, ''volumesnapshots''), (''update'', sn, ''volumesnapshots''), (''patch'', sn, ''volumesnapshots''),
         (''delete'', sn, ''volumesnapshots''), (''update'', sn, ''volumesnapshots/status''), (''patch'', sn, ''volumesnapshots/status''),
         (''create'', sn, ''volumesnapshotcontents''), (''patch'', sn, ''volumesnapshotcontents''),
         (''delete'', sn, ''volumesnapshotcontents''), (''patch'', sn, ''volumesnapshotcontents/status''),
         (''update'', gr, ''volumegroupsnapshots''), (''patch'', gr, ''volumegroupsnapshots''),
         (''update'', gr, ''volumegroupsnapshots/status''), (''create'', gr, ''volumegroupsnapshotcontents''),
         (''patch'', gr, ''volumegroupsnapshotcontents''), (''delete'', gr, ''volumegroupsnapshotcontents'')]
    | SidecarController \<Rightarrow>
        [(''patch'', sn, ''volumesnapshotcontents''), (''patch'', sn, ''volumesnapshotcontents/status''),
         (''update'', sn, ''volumesnapshotcontents/status''), (''patch'', gr, ''volumegroupsnapshotcontents''),
         (''patch'', gr, ''volumegroupsnapshotcontents/status''), (''update'', gr, ''volumegroupsnapshotcontents/status'')])"

lemma needed_simps [simp]:
  "(''create'', ''snapshot.storage.k8s.io'', ''volumesnapshots'') \<in> set (needed CommonController)"
  "(''update'', ''snapshot.storage.k8s.io'', ''volumesnapshots'') \<in> set (needed CommonController)"
  "(''patch'', ''snapshot.storage.k8s.io'', ''volumesnapshots'') \<in> set (needed CommonController)"
  "(''delete'', ''snapshot.storage.k8s.io'', ''volumesnapshots'') \<in> set (needed CommonController)"
  "(''update'', ''snapshot.storage.k8s.io'', ''volumesnapshots/status'') \<in> set (needed CommonController)"
  "(''patch'', ''snapshot.storage.k8s.io'', ''volumesnapshots/status'') \<in> set (needed CommonController)"
  "(''create'', ''snapshot.storage.k8s.io'', ''volumesnapshotcontents'') \<in> set (needed CommonController)"
  "(''patch'', ''snapshot.storage.k8s.io'', ''volumesnapshotcontents'') \<in> set (needed CommonController)"
  "(''delete'', ''snapshot.storage.k8s.io'', ''volumesnapshotcontents'') \<in> set (needed CommonController)"
  "(''patch'', ''snapshot.storage.k8s.io'', ''volumesnapshotcontents/status'') \<in> set (needed CommonController)"
  "(''update'', ''groupsnapshot.storage.k8s.io'', ''volumegroupsnapshots'') \<in> set (needed CommonController)"
  "(''patch'', ''groupsnapshot.storage.k8s.io'', ''volumegroupsnapshots'') \<in> set (needed CommonController)"
  "(''update'', ''groupsnapshot.storage.k8s.io'', ''volumegroupsnapshots/status'') \<in> set (needed CommonController)"
  "(''create'', ''groupsnapshot.storage.k8s.io'', ''volumegroupsnapshotcontents'') \<in> set (needed CommonController)"
  "(''patch'', ''groupsnapshot.storage.k8s.io'', ''volumegroupsnapshotcontents'') \<in> set (needed CommonController)"
  "(''delete'', ''groupsnapshot.storage.k8s.io'', ''volumegroupsnapshotcontents'') \<in> set (needed CommonController)"
  "(''patch'', ''snapshot.storage.k8s.io'', ''volumesnapshotcontents'') \<in> set (needed SidecarController)"
  "(''patch'', ''snapshot.storage.k8s.io'', ''volumesnapshotcontents/status'') \<in> set (needed SidecarController)"
  "(''update'', ''snapshot.storage.k8s.io'', ''volumesnapshotcontents/status'') \<in> set (needed SidecarController)"
  "(''patch'', ''groupsnapshot.storage.k8s.io'', ''volumegroupsnapshotcontents'') \<in> set (needed SidecarController)"
  "(''patch'', ''groupsnapshot.storage.k8s.io'', ''volumegroupsnapshotcontents/status'') \<in> set (needed SidecarController)"
  "(''update'', ''groupsnapshot.storage.k8s.io'', ''volumegroupsnapshotcontents/status'') \<in> set (needed SidecarController)"
  by (simp_all add: needed_def Let_def)

lemma needed_permitted: "(v, g, r) \<in> set (needed p) \<Longrightarrow> permitted (roleOf p) \<lparr>at_verb = v, at_group = g, at_resource = r\<rparr>"
proof -
  have "list_all (\<lambda>(v, g, r). permitted snapshotControllerRunner \<lparr>at_verb = v, at_group = g, at_resource = r\<rparr>) (needed CommonController)"
    "list_all (\<lambda>(v, g, r). permitted externalSnapshotterRunner \<lparr>at_verb = v, at_group = g, at_resource = r\<rparr>) (needed SidecarController)"
    by code_simp+
  then show "(v, g, r) \<in> set (needed p) \<Longrightarrow> ?thesis" by (cases p) (auto simp: list_all_iff)
qed

lemma action_needed:
  assumes "may p a" "att \<in> set (actionAttributes base a)" "actionCall a \<noteq> None"
  shows "(at_verb att, at_group att, at_resource att) \<in> set (needed p)"
proof -
  obtain k where k: "actionCall a = Some k" using assms(3) by blast
  moreover obtain q where q: "requestOf base k = Some q"
    using assms(2) k by (cases "requestOf base k") (simp_all add: actionAttributes_def)
  moreover obtain r where "sent q = Inr r" using assms(2) k q by (cases "sent q") (simp_all add: actionAttributes_def)
  ultimately have r: "actionCall a = Some k" "requestOf base k = Some q" "sent q = Inr r" "att = requestAttributes r"
    using assms(2) by (simp_all add: actionAttributes_def)
  obtain att' where w: "writeAttributes k = Some att'"
    using r(1) by (cases a) (auto simp: isWrite_def)
  then have "att = att'" using kinds_attributes[OF w r(2,3)] r(4) by simp
  then show ?thesis
    using assms(1) r(1) w
    by (cases a; cases p) (auto simp: may.simps commonAction_def sidecarAction_def attribute_defs)
qed

lemma action_permitted:
  assumes "may p a" "att \<in> set (actionAttributes base a)"
  shows "permitted (roleOf p) att"
proof (cases "actionCall a")
  case None
  then have att: "att \<in> set (coreAttributes a)" using assms(2) by (simp add: actionAttributes_def)
  show ?thesis
  proof (cases a)
    case (UpdatePVC c)
    then have "p = CommonController" using assms(1) by (cases p) (simp_all add: may.simps sidecarAction_def)
    then show ?thesis using att UpdatePVC by simp
  next
    case (Event ob t re m)
    then show ?thesis using att by auto
  qed (use att in simp_all)
next
  case (Some k)
  then show ?thesis using needed_permitted[OF action_needed[OF assms]] by (cases att) simp
qed

text \<open>C24: Whatever the two processes come to do in a run, no write to the API server goes beyond the role that the
  deployment gives the process: every request that a client sends for an action of the log, and every event and claim
  update, is permitted by a rule of that role.\<close>

theorem writes_within_role:
  assumes "reachable EC ES y"
  shows "list_all (\<lambda>a. list_all (permitted snapshotControllerRunner) (actionAttributes base a)) (log (common y)) \<and>
    list_all (\<lambda>a. list_all (permitted externalSnapshotterRunner) (actionAttributes base a)) (log (sidecar y))"
  using reachable_procInv[OF assms] action_permitted[of CommonController _ _ base] action_permitted[of SidecarController _ _ base]
  unfolding procInv_def list_all_iff roleOf.simps by blast

theorem writes_within_role_witness:
  "\<exists>y. reachable (clusterEnv demoScenario) (clusterEnv demoScenario) y \<and>
    CreateVSC (newContent demoScenario) \<in> set (log (common y)) \<and>
    list_all (\<lambda>a. list_all (permitted snapshotControllerRunner) (actionAttributes [] a)) (log (common y))"
proof -
  obtain y l where run: "runTurns (clusterEnv demoScenario) (clusterEnv demoScenario)
        [SnapshotTurn (snapKey demoScenario), ContentTurn (contName demoScenario)] (startOf demoScenario 0) = Some y"
    and l: "log (common y) = l" "filter traced l = [CreateVSC (newContent demoScenario)]"
    using until_created[OF demoScenario_ok, of 0] by auto
  have "CreateVSC (newContent demoScenario) \<in> set (filter traced l)" unfolding l(2) by simp
  then have "CreateVSC (newContent demoScenario) \<in> set (log (common y))" using l(1) by simp
  moreover have r: "reachable (clusterEnv demoScenario) (clusterEnv demoScenario) y"
    by (rule runTurns_reachable[OF startOf_reachable run])
  ultimately show ?thesis using writes_within_role[OF r, of "[]"] by blast
qed

text \<open>What both roles grant beyond that: to update a content or group content outside its status. No process does.\<close>

lemma updates_of_contents_unused:
  assumes "may p a" "att \<in> set (actionAttributes base a)" "at_verb att = ''update''"
  shows "at_resource att \<noteq> ''volumesnapshotcontents'' \<and> at_resource att \<noteq> ''volumegroupsnapshotcontents''"
proof (cases "actionCall a")
  case None
  then have "att \<in> set (coreAttributes a)" using assms(2) by (simp add: actionAttributes_def)
  then show ?thesis by (cases a) (auto simp: coreAccess_def)
next
  case (Some k)
  then have "(''update'', at_group att, at_resource att) \<in> set (needed p)" using action_needed[OF assms(1,2)] assms(3) by simp
  then show ?thesis by (cases p) (auto simp: needed_def Let_def)
qed

end
