(* ===== verification/Informers.thy ===== *)
theory Informers
  imports Clients
begin

text \<open>
  The shared informers of the clients (\<open>client/informers/externalversions\<close>) and the listers that read what they hold
  (\<open>client/listers\<close>): a factory keeps one informer for each type of object, makes it when it is first asked for, and starts
  what has been asked for. An informer lists and watches its objects with a client (\<open>Clients\<close>). The reflector behind it and
  the indexer are client-go's; of them the theory has the requests, the handlers and the functions of the indices.
\<close>

section \<open>Informers\<close>

datatype apiVersion = V1 | V1beta1 | V1beta2

text \<open>The type of an object, as \<open>reflect.TypeOf\<close> gives it. Types of the core group are named by their resource.\<close>

datatype objectType =
    VolumeSnapshotType | VolumeSnapshotClassType | VolumeSnapshotContentType
  | VolumeGroupSnapshotType apiVersion | VolumeGroupSnapshotClassType apiVersion | VolumeGroupSnapshotContentType apiVersion
  | CoreType string

text \<open>The requests of an informer, in the two forms that client-go knows; the one with a context is taken where it is set.\<close>

record ListWatch =
  ListFunc :: "ListOptions \<Rightarrow> restRequest"
  WatchFunc :: "ListOptions \<Rightarrow> restRequest"
  ListWithContextFunc :: "(ListOptions \<Rightarrow> restRequest) option"
  WatchFuncWithContext :: "(ListOptions \<Rightarrow> restRequest) option"

definition ListWithContext :: "ListWatch \<Rightarrow> ListOptions \<Rightarrow> restRequest" where
  "ListWithContext lw options = (case ListWithContextFunc lw of Some f \<Rightarrow> f options | None \<Rightarrow> ListFunc lw options)"

definition WatchWithContext :: "ListWatch \<Rightarrow> ListOptions \<Rightarrow> restRequest" where
  "WatchWithContext lw options = (case WatchFuncWithContext lw of Some f \<Rightarrow> f options | None \<Rightarrow> WatchFunc lw options)"

text \<open>What an informer asks for. Informers of core types are those of client-go, which read the resource of the type.\<close>

datatype source = ApiServer ListWatch | CoreResource string

type_synonym TweakListOptions = "(ListOptions \<Rightarrow> ListOptions) option"

definition tweaked :: "TweakListOptions \<Rightarrow> ListOptions \<Rightarrow> ListOptions" where
  "tweaked tweak options = (case tweak of None \<Rightarrow> options | Some f \<Rightarrow> f options)"

text \<open>The functions of the indices that this code adds.\<close>

datatype indexFunc = MetaNamespaceIndexFunc | VolumeHandleIndexFunc | ParentGroupIndexFunc

type_synonym indexers = "(string \<times> indexFunc) list"

definition NamespaceIndex :: string where
  "NamespaceIndex = ''namespace''"

text \<open>The functions of \<open>ResourceEventHandlerFuncs\<close>; \<open>None\<close> is a panic of a type assertion.\<close>

record 'w eventHandler =
  AddFunc :: "obj \<Rightarrow> 'w st \<Rightarrow> 'w st option"
  UpdateFunc :: "obj \<Rightarrow> obj \<Rightarrow> 'w st \<Rightarrow> 'w st option"
  DeleteFunc :: "informer_obj \<Rightarrow> 'w st \<Rightarrow> 'w st option"

type_synonym transform = "obj \<Rightarrow> goerr + obj"

record 'w sharedInformer =
  si_Source :: source
  si_Type :: objectType
  si_Resync :: int
  si_Indexers :: indexers
  si_Transform :: "transform option"
  si_Handlers :: "('w eventHandler \<times> int) list"

definition NewSharedIndexInformer :: "source \<Rightarrow> objectType \<Rightarrow> int \<Rightarrow> indexers \<Rightarrow> 'w sharedInformer" where
  "NewSharedIndexInformer src t resyncPeriod ix =
    \<lparr>si_Source = src, si_Type = t, si_Resync = resyncPeriod, si_Indexers = ix, si_Transform = None, si_Handlers = []\<rparr>"

section \<open>The factory\<close>

text \<open>The client of a factory is the base path of its server. The map from types to informers is a list in the order in
  which they were asked for; the goroutines that run an informer are listed by its type.\<close>

record 'w factory =
  fa_client :: "string list"
  fa_namespace :: string
  fa_tweakListOptions :: TweakListOptions
  fa_defaultResync :: int
  fa_customResync :: "objectType \<Rightarrow> int option"
  fa_transform :: "transform option"
  fa_informers :: "(objectType \<times> 'w sharedInformer) list"
  fa_startedInformers :: "objectType list"
  fa_running :: "objectType list"
  fa_shuttingDown :: bool

type_synonym 'w factoryOption = "'w factory \<Rightarrow> 'w factory"

definition WithCustomResyncConfig :: "(objectType \<times> int) list \<Rightarrow> 'w factoryOption" where
  "WithCustomResyncConfig resyncConfig f =
    f\<lparr>fa_customResync := foldl (\<lambda>m (t, d). m(t \<mapsto> d)) (fa_customResync f) resyncConfig\<rparr>"

definition WithTweakListOptions :: "(ListOptions \<Rightarrow> ListOptions) \<Rightarrow> 'w factoryOption" where
  "WithTweakListOptions tweak f = f\<lparr>fa_tweakListOptions := Some tweak\<rparr>"

definition WithNamespace :: "string \<Rightarrow> 'w factoryOption" where
  "WithNamespace namespace f = f\<lparr>fa_namespace := namespace\<rparr>"

definition WithTransform :: "transform \<Rightarrow> 'w factoryOption" where
  "WithTransform tr f = f\<lparr>fa_transform := Some tr\<rparr>"

definition NewSharedInformerFactoryWithOptions ::
  "string list \<Rightarrow> int \<Rightarrow> 'w factoryOption list \<Rightarrow> 'w factory" where
  "NewSharedInformerFactoryWithOptions client defaultResync opts =
    foldl (\<lambda>f opt. opt f)
      \<lparr>fa_client = client, fa_namespace = [], fa_tweakListOptions = None, fa_defaultResync = defaultResync,
       fa_customResync = Map.empty, fa_transform = None, fa_informers = [], fa_startedInformers = [], fa_running = [],
       fa_shuttingDown = False\<rparr> opts"

definition NewSharedInformerFactory :: "string list \<Rightarrow> int \<Rightarrow> 'w factory" where
  "NewSharedInformerFactory client defaultResync = NewSharedInformerFactoryWithOptions client defaultResync []"

definition NewFilteredSharedInformerFactory ::
  "string list \<Rightarrow> int \<Rightarrow> string \<Rightarrow> (ListOptions \<Rightarrow> ListOptions) \<Rightarrow> 'w factory" where
  "NewFilteredSharedInformerFactory client defaultResync namespace tweak =
    NewSharedInformerFactoryWithOptions client defaultResync [WithNamespace namespace, WithTweakListOptions tweak]"

text \<open>The range over the map has any order, which only the order of \<open>fa_running\<close> shows.\<close>

fun startInformers :: "(objectType \<times> 'w sharedInformer) list \<Rightarrow> 'w factory \<Rightarrow> 'w factory" where
  "startInformers [] f = f"
| "startInformers ((t, informer) # rest) f =
    startInformers rest
      (if t \<in> set (fa_startedInformers f) then f
       else f\<lparr>fa_running := fa_running f @ [t], fa_startedInformers := fa_startedInformers f @ [t]\<rparr>)"

definition factory_Start :: "'w factory \<Rightarrow> 'w factory" where
  "factory_Start f = (if fa_shuttingDown f then f else startInformers (fa_informers f) f)"

text \<open>\<open>Shutdown\<close> then waits for the running goroutines.\<close>

definition factory_Shutdown :: "'w factory \<Rightarrow> 'w factory" where
  "factory_Shutdown f = f\<lparr>fa_shuttingDown := True\<rparr>"

text \<open>The informers that a wait is for, with what \<open>cache.WaitForCacheSync\<close> says of each.\<close>

definition factory_WaitForCacheSync :: "(objectType \<Rightarrow> bool) \<Rightarrow> 'w factory \<Rightarrow> (objectType \<times> bool) list" where
  "factory_WaitForCacheSync synced f =
    map (\<lambda>(t, informer). (t, synced t)) (filter (\<lambda>(t, informer). t \<in> set (fa_startedInformers f)) (fa_informers f))"

definition InformerFor ::
  "objectType \<Rightarrow> (string list \<Rightarrow> int \<Rightarrow> 'w sharedInformer) \<Rightarrow> 'w factory \<Rightarrow> 'w sharedInformer \<times> 'w factory" where
  "InformerFor t newFunc f =
    (case map_of (fa_informers f) t of
       Some informer \<Rightarrow> (informer, f)
     | None \<Rightarrow>
         let resyncPeriod = (case fa_customResync f t of Some d \<Rightarrow> d | None \<Rightarrow> fa_defaultResync f);
             informer = (newFunc (fa_client f) resyncPeriod)\<lparr>si_Transform := fa_transform f\<rparr>
         in (informer, f\<lparr>fa_informers := fa_informers f @ [(t, informer)]\<rparr>))"

text \<open>Factories are shared by reference, so an access names its factory.\<close>

datatype factoryId = SnapshotFactory | ContentFactory | CoreFactory

type_synonym 'w factories = "factoryId \<Rightarrow> 'w factory"

record informerAccess =
  ia_factory :: factoryId
  ia_namespace :: string
  ia_tweakListOptions :: TweakListOptions

definition informerOf ::
  "informerAccess \<Rightarrow> objectType \<Rightarrow> (string list \<Rightarrow> int \<Rightarrow> 'w sharedInformer) \<Rightarrow> 'w factories \<Rightarrow> 'w sharedInformer \<times> 'w factories"
  where
  "informerOf a t newFunc fs =
    (let (informer, f) = InformerFor t newFunc (fs (ia_factory a)) in (informer, fs(ia_factory a := f)))"

section \<open>The informers of the snapshot group\<close>

definition NewFilteredVolumeSnapshotInformer ::
  "string list \<Rightarrow> string \<Rightarrow> int \<Rightarrow> indexers \<Rightarrow> TweakListOptions \<Rightarrow> 'w sharedInformer" where
  "NewFilteredVolumeSnapshotInformer client namespace resyncPeriod ix tweak =
    NewSharedIndexInformer (ApiServer
      \<lparr>ListFunc = \<lambda>options. volumeSnapshots_List (newVolumeSnapshots (SnapshotV1Client client) namespace) (tweaked tweak options),
       WatchFunc = \<lambda>options. volumeSnapshots_Watch (newVolumeSnapshots (SnapshotV1Client client) namespace) (tweaked tweak options),
       ListWithContextFunc = None, WatchFuncWithContext = None\<rparr>) VolumeSnapshotType resyncPeriod ix"

definition NewVolumeSnapshotInformer :: "string list \<Rightarrow> string \<Rightarrow> int \<Rightarrow> indexers \<Rightarrow> 'w sharedInformer" where
  "NewVolumeSnapshotInformer client namespace resyncPeriod ix = NewFilteredVolumeSnapshotInformer client namespace resyncPeriod ix None"

definition defaultVolumeSnapshotInformer :: "informerAccess \<Rightarrow> string list \<Rightarrow> int \<Rightarrow> 'w sharedInformer" where
  "defaultVolumeSnapshotInformer a client resyncPeriod =
    NewFilteredVolumeSnapshotInformer client (ia_namespace a) resyncPeriod [(NamespaceIndex, MetaNamespaceIndexFunc)] (ia_tweakListOptions a)"

definition VolumeSnapshotInformer :: "informerAccess \<Rightarrow> 'w factories \<Rightarrow> 'w sharedInformer \<times> 'w factories" where
  "VolumeSnapshotInformer a = informerOf a VolumeSnapshotType (defaultVolumeSnapshotInformer a)"

definition NewFilteredVolumeSnapshotContentInformer ::
  "string list \<Rightarrow> int \<Rightarrow> indexers \<Rightarrow> TweakListOptions \<Rightarrow> 'w sharedInformer" where
  "NewFilteredVolumeSnapshotContentInformer client resyncPeriod ix tweak =
    NewSharedIndexInformer (ApiServer
      \<lparr>ListFunc = \<lambda>options. volumeSnapshotContents_List (newVolumeSnapshotContents (SnapshotV1Client client)) (tweaked tweak options),
       WatchFunc = \<lambda>options. volumeSnapshotContents_Watch (newVolumeSnapshotContents (SnapshotV1Client client)) (tweaked tweak options),
       ListWithContextFunc = None, WatchFuncWithContext = None\<rparr>) VolumeSnapshotContentType resyncPeriod ix"

definition NewVolumeSnapshotContentInformer :: "string list \<Rightarrow> int \<Rightarrow> indexers \<Rightarrow> 'w sharedInformer" where
  "NewVolumeSnapshotContentInformer client resyncPeriod ix = NewFilteredVolumeSnapshotContentInformer client resyncPeriod ix None"

definition defaultVolumeSnapshotContentInformer :: "informerAccess \<Rightarrow> string list \<Rightarrow> int \<Rightarrow> 'w sharedInformer" where
  "defaultVolumeSnapshotContentInformer a client resyncPeriod =
    NewFilteredVolumeSnapshotContentInformer client resyncPeriod [(NamespaceIndex, MetaNamespaceIndexFunc)] (ia_tweakListOptions a)"

definition VolumeSnapshotContentInformer :: "informerAccess \<Rightarrow> 'w factories \<Rightarrow> 'w sharedInformer \<times> 'w factories" where
  "VolumeSnapshotContentInformer a = informerOf a VolumeSnapshotContentType (defaultVolumeSnapshotContentInformer a)"

definition NewFilteredVolumeSnapshotClassInformer ::
  "string list \<Rightarrow> int \<Rightarrow> indexers \<Rightarrow> TweakListOptions \<Rightarrow> 'w sharedInformer" where
  "NewFilteredVolumeSnapshotClassInformer client resyncPeriod ix tweak =
    NewSharedIndexInformer (ApiServer
      \<lparr>ListFunc = \<lambda>options. volumeSnapshotClasses_List (newVolumeSnapshotClasses (SnapshotV1Client client)) (tweaked tweak options),
       WatchFunc = \<lambda>options. volumeSnapshotClasses_Watch (newVolumeSnapshotClasses (SnapshotV1Client client)) (tweaked tweak options),
       ListWithContextFunc = None, WatchFuncWithContext = None\<rparr>) VolumeSnapshotClassType resyncPeriod ix"

definition NewVolumeSnapshotClassInformer :: "string list \<Rightarrow> int \<Rightarrow> indexers \<Rightarrow> 'w sharedInformer" where
  "NewVolumeSnapshotClassInformer client resyncPeriod ix = NewFilteredVolumeSnapshotClassInformer client resyncPeriod ix None"

definition defaultVolumeSnapshotClassInformer :: "informerAccess \<Rightarrow> string list \<Rightarrow> int \<Rightarrow> 'w sharedInformer" where
  "defaultVolumeSnapshotClassInformer a client resyncPeriod =
    NewFilteredVolumeSnapshotClassInformer client resyncPeriod [(NamespaceIndex, MetaNamespaceIndexFunc)] (ia_tweakListOptions a)"

definition VolumeSnapshotClassInformer :: "informerAccess \<Rightarrow> 'w factories \<Rightarrow> 'w sharedInformer \<times> 'w factories" where
  "VolumeSnapshotClassInformer a = informerOf a VolumeSnapshotClassType (defaultVolumeSnapshotClassInformer a)"

text \<open>The informers of version v1 of the group snapshots.\<close>

definition NewFilteredVolumeGroupSnapshotInformer_v1 ::
  "string list \<Rightarrow> string \<Rightarrow> int \<Rightarrow> indexers \<Rightarrow> TweakListOptions \<Rightarrow> 'w sharedInformer" where
  "NewFilteredVolumeGroupSnapshotInformer_v1 client namespace resyncPeriod ix tweak =
    NewSharedIndexInformer (ApiServer
      \<lparr>ListFunc = \<lambda>options. gentype_List (newVolumeGroupSnapshots_v1 (GroupsnapshotV1Client client) namespace) (tweaked tweak options),
       WatchFunc = \<lambda>options. gentype_Watch (newVolumeGroupSnapshots_v1 (GroupsnapshotV1Client client) namespace) (tweaked tweak options),
       ListWithContextFunc = Some (\<lambda>options. gentype_List (newVolumeGroupSnapshots_v1 (GroupsnapshotV1Client client) namespace) (tweaked tweak options)),
       WatchFuncWithContext = Some (\<lambda>options. gentype_Watch (newVolumeGroupSnapshots_v1 (GroupsnapshotV1Client client) namespace) (tweaked tweak options))\<rparr>) (VolumeGroupSnapshotType V1) resyncPeriod ix"

definition NewVolumeGroupSnapshotInformer_v1 :: "string list \<Rightarrow> string \<Rightarrow> int \<Rightarrow> indexers \<Rightarrow> 'w sharedInformer" where
  "NewVolumeGroupSnapshotInformer_v1 client namespace resyncPeriod ix = NewFilteredVolumeGroupSnapshotInformer_v1 client namespace resyncPeriod ix None"

definition defaultVolumeGroupSnapshotInformer_v1 :: "informerAccess \<Rightarrow> string list \<Rightarrow> int \<Rightarrow> 'w sharedInformer" where
  "defaultVolumeGroupSnapshotInformer_v1 a client resyncPeriod =
    NewFilteredVolumeGroupSnapshotInformer_v1 client (ia_namespace a) resyncPeriod [(NamespaceIndex, MetaNamespaceIndexFunc)] (ia_tweakListOptions a)"

definition VolumeGroupSnapshotInformer_v1 :: "informerAccess \<Rightarrow> 'w factories \<Rightarrow> 'w sharedInformer \<times> 'w factories" where
  "VolumeGroupSnapshotInformer_v1 a = informerOf a (VolumeGroupSnapshotType V1) (defaultVolumeGroupSnapshotInformer_v1 a)"

definition NewFilteredVolumeGroupSnapshotContentInformer_v1 ::
  "string list \<Rightarrow> int \<Rightarrow> indexers \<Rightarrow> TweakListOptions \<Rightarrow> 'w sharedInformer" where
  "NewFilteredVolumeGroupSnapshotContentInformer_v1 client resyncPeriod ix tweak =
    NewSharedIndexInformer (ApiServer
      \<lparr>ListFunc = \<lambda>options. gentype_List (newVolumeGroupSnapshotContents_v1 (GroupsnapshotV1Client client)) (tweaked tweak options),
       WatchFunc = \<lambda>options. gentype_Watch (newVolumeGroupSnapshotContents_v1 (GroupsnapshotV1Client client)) (tweaked tweak options),
       ListWithContextFunc = Some (\<lambda>options. gentype_List (newVolumeGroupSnapshotContents_v1 (GroupsnapshotV1Client client)) (tweaked tweak options)),
       WatchFuncWithContext = Some (\<lambda>options. gentype_Watch (newVolumeGroupSnapshotContents_v1 (GroupsnapshotV1Client client)) (tweaked tweak options))\<rparr>) (VolumeGroupSnapshotContentType V1) resyncPeriod ix"

definition NewVolumeGroupSnapshotContentInformer_v1 :: "string list \<Rightarrow> int \<Rightarrow> indexers \<Rightarrow> 'w sharedInformer" where
  "NewVolumeGroupSnapshotContentInformer_v1 client resyncPeriod ix = NewFilteredVolumeGroupSnapshotContentInformer_v1 client resyncPeriod ix None"

definition defaultVolumeGroupSnapshotContentInformer_v1 :: "informerAccess \<Rightarrow> string list \<Rightarrow> int \<Rightarrow> 'w sharedInformer" where
  "defaultVolumeGroupSnapshotContentInformer_v1 a client resyncPeriod =
    NewFilteredVolumeGroupSnapshotContentInformer_v1 client resyncPeriod [(NamespaceIndex, MetaNamespaceIndexFunc)] (ia_tweakListOptions a)"

definition VolumeGroupSnapshotContentInformer_v1 :: "informerAccess \<Rightarrow> 'w factories \<Rightarrow> 'w sharedInformer \<times> 'w factories" where
  "VolumeGroupSnapshotContentInformer_v1 a = informerOf a (VolumeGroupSnapshotContentType V1) (defaultVolumeGroupSnapshotContentInformer_v1 a)"

definition NewFilteredVolumeGroupSnapshotClassInformer_v1 ::
  "string list \<Rightarrow> int \<Rightarrow> indexers \<Rightarrow> TweakListOptions \<Rightarrow> 'w sharedInformer" where
  "NewFilteredVolumeGroupSnapshotClassInformer_v1 client resyncPeriod ix tweak =
    NewSharedIndexInformer (ApiServer
      \<lparr>ListFunc = \<lambda>options. gentype_List (newVolumeGroupSnapshotClasses_v1 (GroupsnapshotV1Client client)) (tweaked tweak options),
       WatchFunc = \<lambda>options. gentype_Watch (newVolumeGroupSnapshotClasses_v1 (GroupsnapshotV1Client client)) (tweaked tweak options),
       ListWithContextFunc = Some (\<lambda>options. gentype_List (newVolumeGroupSnapshotClasses_v1 (GroupsnapshotV1Client client)) (tweaked tweak options)),
       WatchFuncWithContext = Some (\<lambda>options. gentype_Watch (newVolumeGroupSnapshotClasses_v1 (GroupsnapshotV1Client client)) (tweaked tweak options))\<rparr>) (VolumeGroupSnapshotClassType V1) resyncPeriod ix"

definition NewVolumeGroupSnapshotClassInformer_v1 :: "string list \<Rightarrow> int \<Rightarrow> indexers \<Rightarrow> 'w sharedInformer" where
  "NewVolumeGroupSnapshotClassInformer_v1 client resyncPeriod ix = NewFilteredVolumeGroupSnapshotClassInformer_v1 client resyncPeriod ix None"

definition defaultVolumeGroupSnapshotClassInformer_v1 :: "informerAccess \<Rightarrow> string list \<Rightarrow> int \<Rightarrow> 'w sharedInformer" where
  "defaultVolumeGroupSnapshotClassInformer_v1 a client resyncPeriod =
    NewFilteredVolumeGroupSnapshotClassInformer_v1 client resyncPeriod [(NamespaceIndex, MetaNamespaceIndexFunc)] (ia_tweakListOptions a)"

definition VolumeGroupSnapshotClassInformer_v1 :: "informerAccess \<Rightarrow> 'w factories \<Rightarrow> 'w sharedInformer \<times> 'w factories" where
  "VolumeGroupSnapshotClassInformer_v1 a = informerOf a (VolumeGroupSnapshotClassType V1) (defaultVolumeGroupSnapshotClassInformer_v1 a)"

text \<open>The informers of version v1beta1 of the group snapshots.\<close>

definition NewFilteredVolumeGroupSnapshotInformer_v1beta1 ::
  "string list \<Rightarrow> string \<Rightarrow> int \<Rightarrow> indexers \<Rightarrow> TweakListOptions \<Rightarrow> 'w sharedInformer" where
  "NewFilteredVolumeGroupSnapshotInformer_v1beta1 client namespace resyncPeriod ix tweak =
    NewSharedIndexInformer (ApiServer
      \<lparr>ListFunc = \<lambda>options. gentype_List (newVolumeGroupSnapshots_v1beta1 (GroupsnapshotV1beta1Client client) namespace) (tweaked tweak options),
       WatchFunc = \<lambda>options. gentype_Watch (newVolumeGroupSnapshots_v1beta1 (GroupsnapshotV1beta1Client client) namespace) (tweaked tweak options),
       ListWithContextFunc = Some (\<lambda>options. gentype_List (newVolumeGroupSnapshots_v1beta1 (GroupsnapshotV1beta1Client client) namespace) (tweaked tweak options)),
       WatchFuncWithContext = Some (\<lambda>options. gentype_Watch (newVolumeGroupSnapshots_v1beta1 (GroupsnapshotV1beta1Client client) namespace) (tweaked tweak options))\<rparr>) (VolumeGroupSnapshotType V1beta1) resyncPeriod ix"

definition NewVolumeGroupSnapshotInformer_v1beta1 :: "string list \<Rightarrow> string \<Rightarrow> int \<Rightarrow> indexers \<Rightarrow> 'w sharedInformer" where
  "NewVolumeGroupSnapshotInformer_v1beta1 client namespace resyncPeriod ix = NewFilteredVolumeGroupSnapshotInformer_v1beta1 client namespace resyncPeriod ix None"

definition defaultVolumeGroupSnapshotInformer_v1beta1 :: "informerAccess \<Rightarrow> string list \<Rightarrow> int \<Rightarrow> 'w sharedInformer" where
  "defaultVolumeGroupSnapshotInformer_v1beta1 a client resyncPeriod =
    NewFilteredVolumeGroupSnapshotInformer_v1beta1 client (ia_namespace a) resyncPeriod [(NamespaceIndex, MetaNamespaceIndexFunc)] (ia_tweakListOptions a)"

definition VolumeGroupSnapshotInformer_v1beta1 :: "informerAccess \<Rightarrow> 'w factories \<Rightarrow> 'w sharedInformer \<times> 'w factories" where
  "VolumeGroupSnapshotInformer_v1beta1 a = informerOf a (VolumeGroupSnapshotType V1beta1) (defaultVolumeGroupSnapshotInformer_v1beta1 a)"

definition NewFilteredVolumeGroupSnapshotContentInformer_v1beta1 ::
  "string list \<Rightarrow> int \<Rightarrow> indexers \<Rightarrow> TweakListOptions \<Rightarrow> 'w sharedInformer" where
  "NewFilteredVolumeGroupSnapshotContentInformer_v1beta1 client resyncPeriod ix tweak =
    NewSharedIndexInformer (ApiServer
      \<lparr>ListFunc = \<lambda>options. gentype_List (newVolumeGroupSnapshotContents_v1beta1 (GroupsnapshotV1beta1Client client)) (tweaked tweak options),
       WatchFunc = \<lambda>options. gentype_Watch (newVolumeGroupSnapshotContents_v1beta1 (GroupsnapshotV1beta1Client client)) (tweaked tweak options),
       ListWithContextFunc = Some (\<lambda>options. gentype_List (newVolumeGroupSnapshotContents_v1beta1 (GroupsnapshotV1beta1Client client)) (tweaked tweak options)),
       WatchFuncWithContext = Some (\<lambda>options. gentype_Watch (newVolumeGroupSnapshotContents_v1beta1 (GroupsnapshotV1beta1Client client)) (tweaked tweak options))\<rparr>) (VolumeGroupSnapshotContentType V1beta1) resyncPeriod ix"

definition NewVolumeGroupSnapshotContentInformer_v1beta1 :: "string list \<Rightarrow> int \<Rightarrow> indexers \<Rightarrow> 'w sharedInformer" where
  "NewVolumeGroupSnapshotContentInformer_v1beta1 client resyncPeriod ix = NewFilteredVolumeGroupSnapshotContentInformer_v1beta1 client resyncPeriod ix None"

definition defaultVolumeGroupSnapshotContentInformer_v1beta1 :: "informerAccess \<Rightarrow> string list \<Rightarrow> int \<Rightarrow> 'w sharedInformer" where
  "defaultVolumeGroupSnapshotContentInformer_v1beta1 a client resyncPeriod =
    NewFilteredVolumeGroupSnapshotContentInformer_v1beta1 client resyncPeriod [(NamespaceIndex, MetaNamespaceIndexFunc)] (ia_tweakListOptions a)"

definition VolumeGroupSnapshotContentInformer_v1beta1 :: "informerAccess \<Rightarrow> 'w factories \<Rightarrow> 'w sharedInformer \<times> 'w factories" where
  "VolumeGroupSnapshotContentInformer_v1beta1 a = informerOf a (VolumeGroupSnapshotContentType V1beta1) (defaultVolumeGroupSnapshotContentInformer_v1beta1 a)"

definition NewFilteredVolumeGroupSnapshotClassInformer_v1beta1 ::
  "string list \<Rightarrow> int \<Rightarrow> indexers \<Rightarrow> TweakListOptions \<Rightarrow> 'w sharedInformer" where
  "NewFilteredVolumeGroupSnapshotClassInformer_v1beta1 client resyncPeriod ix tweak =
    NewSharedIndexInformer (ApiServer
      \<lparr>ListFunc = \<lambda>options. gentype_List (newVolumeGroupSnapshotClasses_v1beta1 (GroupsnapshotV1beta1Client client)) (tweaked tweak options),
       WatchFunc = \<lambda>options. gentype_Watch (newVolumeGroupSnapshotClasses_v1beta1 (GroupsnapshotV1beta1Client client)) (tweaked tweak options),
       ListWithContextFunc = Some (\<lambda>options. gentype_List (newVolumeGroupSnapshotClasses_v1beta1 (GroupsnapshotV1beta1Client client)) (tweaked tweak options)),
       WatchFuncWithContext = Some (\<lambda>options. gentype_Watch (newVolumeGroupSnapshotClasses_v1beta1 (GroupsnapshotV1beta1Client client)) (tweaked tweak options))\<rparr>) (VolumeGroupSnapshotClassType V1beta1) resyncPeriod ix"

definition NewVolumeGroupSnapshotClassInformer_v1beta1 :: "string list \<Rightarrow> int \<Rightarrow> indexers \<Rightarrow> 'w sharedInformer" where
  "NewVolumeGroupSnapshotClassInformer_v1beta1 client resyncPeriod ix = NewFilteredVolumeGroupSnapshotClassInformer_v1beta1 client resyncPeriod ix None"

definition defaultVolumeGroupSnapshotClassInformer_v1beta1 :: "informerAccess \<Rightarrow> string list \<Rightarrow> int \<Rightarrow> 'w sharedInformer" where
  "defaultVolumeGroupSnapshotClassInformer_v1beta1 a client resyncPeriod =
    NewFilteredVolumeGroupSnapshotClassInformer_v1beta1 client resyncPeriod [(NamespaceIndex, MetaNamespaceIndexFunc)] (ia_tweakListOptions a)"

definition VolumeGroupSnapshotClassInformer_v1beta1 :: "informerAccess \<Rightarrow> 'w factories \<Rightarrow> 'w sharedInformer \<times> 'w factories" where
  "VolumeGroupSnapshotClassInformer_v1beta1 a = informerOf a (VolumeGroupSnapshotClassType V1beta1) (defaultVolumeGroupSnapshotClassInformer_v1beta1 a)"

text \<open>The informers of version v1beta2 of the group snapshots.\<close>

definition NewFilteredVolumeGroupSnapshotInformer_v1beta2 ::
  "string list \<Rightarrow> string \<Rightarrow> int \<Rightarrow> indexers \<Rightarrow> TweakListOptions \<Rightarrow> 'w sharedInformer" where
  "NewFilteredVolumeGroupSnapshotInformer_v1beta2 client namespace resyncPeriod ix tweak =
    NewSharedIndexInformer (ApiServer
      \<lparr>ListFunc = \<lambda>options. gentype_List (newVolumeGroupSnapshots_v1beta2 (GroupsnapshotV1beta2Client client) namespace) (tweaked tweak options),
       WatchFunc = \<lambda>options. gentype_Watch (newVolumeGroupSnapshots_v1beta2 (GroupsnapshotV1beta2Client client) namespace) (tweaked tweak options),
       ListWithContextFunc = Some (\<lambda>options. gentype_List (newVolumeGroupSnapshots_v1beta2 (GroupsnapshotV1beta2Client client) namespace) (tweaked tweak options)),
       WatchFuncWithContext = Some (\<lambda>options. gentype_Watch (newVolumeGroupSnapshots_v1beta2 (GroupsnapshotV1beta2Client client) namespace) (tweaked tweak options))\<rparr>) (VolumeGroupSnapshotType V1beta2) resyncPeriod ix"

definition NewVolumeGroupSnapshotInformer_v1beta2 :: "string list \<Rightarrow> string \<Rightarrow> int \<Rightarrow> indexers \<Rightarrow> 'w sharedInformer" where
  "NewVolumeGroupSnapshotInformer_v1beta2 client namespace resyncPeriod ix = NewFilteredVolumeGroupSnapshotInformer_v1beta2 client namespace resyncPeriod ix None"

definition defaultVolumeGroupSnapshotInformer_v1beta2 :: "informerAccess \<Rightarrow> string list \<Rightarrow> int \<Rightarrow> 'w sharedInformer" where
  "defaultVolumeGroupSnapshotInformer_v1beta2 a client resyncPeriod =
    NewFilteredVolumeGroupSnapshotInformer_v1beta2 client (ia_namespace a) resyncPeriod [(NamespaceIndex, MetaNamespaceIndexFunc)] (ia_tweakListOptions a)"

definition VolumeGroupSnapshotInformer_v1beta2 :: "informerAccess \<Rightarrow> 'w factories \<Rightarrow> 'w sharedInformer \<times> 'w factories" where
  "VolumeGroupSnapshotInformer_v1beta2 a = informerOf a (VolumeGroupSnapshotType V1beta2) (defaultVolumeGroupSnapshotInformer_v1beta2 a)"

definition NewFilteredVolumeGroupSnapshotContentInformer_v1beta2 ::
  "string list \<Rightarrow> int \<Rightarrow> indexers \<Rightarrow> TweakListOptions \<Rightarrow> 'w sharedInformer" where
  "NewFilteredVolumeGroupSnapshotContentInformer_v1beta2 client resyncPeriod ix tweak =
    NewSharedIndexInformer (ApiServer
      \<lparr>ListFunc = \<lambda>options. gentype_List (newVolumeGroupSnapshotContents_v1beta2 (GroupsnapshotV1beta2Client client)) (tweaked tweak options),
       WatchFunc = \<lambda>options. gentype_Watch (newVolumeGroupSnapshotContents_v1beta2 (GroupsnapshotV1beta2Client client)) (tweaked tweak options),
       ListWithContextFunc = Some (\<lambda>options. gentype_List (newVolumeGroupSnapshotContents_v1beta2 (GroupsnapshotV1beta2Client client)) (tweaked tweak options)),
       WatchFuncWithContext = Some (\<lambda>options. gentype_Watch (newVolumeGroupSnapshotContents_v1beta2 (GroupsnapshotV1beta2Client client)) (tweaked tweak options))\<rparr>) (VolumeGroupSnapshotContentType V1beta2) resyncPeriod ix"

definition NewVolumeGroupSnapshotContentInformer_v1beta2 :: "string list \<Rightarrow> int \<Rightarrow> indexers \<Rightarrow> 'w sharedInformer" where
  "NewVolumeGroupSnapshotContentInformer_v1beta2 client resyncPeriod ix = NewFilteredVolumeGroupSnapshotContentInformer_v1beta2 client resyncPeriod ix None"

definition defaultVolumeGroupSnapshotContentInformer_v1beta2 :: "informerAccess \<Rightarrow> string list \<Rightarrow> int \<Rightarrow> 'w sharedInformer" where
  "defaultVolumeGroupSnapshotContentInformer_v1beta2 a client resyncPeriod =
    NewFilteredVolumeGroupSnapshotContentInformer_v1beta2 client resyncPeriod [(NamespaceIndex, MetaNamespaceIndexFunc)] (ia_tweakListOptions a)"

definition VolumeGroupSnapshotContentInformer_v1beta2 :: "informerAccess \<Rightarrow> 'w factories \<Rightarrow> 'w sharedInformer \<times> 'w factories" where
  "VolumeGroupSnapshotContentInformer_v1beta2 a = informerOf a (VolumeGroupSnapshotContentType V1beta2) (defaultVolumeGroupSnapshotContentInformer_v1beta2 a)"

definition NewFilteredVolumeGroupSnapshotClassInformer_v1beta2 ::
  "string list \<Rightarrow> int \<Rightarrow> indexers \<Rightarrow> TweakListOptions \<Rightarrow> 'w sharedInformer" where
  "NewFilteredVolumeGroupSnapshotClassInformer_v1beta2 client resyncPeriod ix tweak =
    NewSharedIndexInformer (ApiServer
      \<lparr>ListFunc = \<lambda>options. gentype_List (newVolumeGroupSnapshotClasses_v1beta2 (GroupsnapshotV1beta2Client client)) (tweaked tweak options),
       WatchFunc = \<lambda>options. gentype_Watch (newVolumeGroupSnapshotClasses_v1beta2 (GroupsnapshotV1beta2Client client)) (tweaked tweak options),
       ListWithContextFunc = Some (\<lambda>options. gentype_List (newVolumeGroupSnapshotClasses_v1beta2 (GroupsnapshotV1beta2Client client)) (tweaked tweak options)),
       WatchFuncWithContext = Some (\<lambda>options. gentype_Watch (newVolumeGroupSnapshotClasses_v1beta2 (GroupsnapshotV1beta2Client client)) (tweaked tweak options))\<rparr>) (VolumeGroupSnapshotClassType V1beta2) resyncPeriod ix"

definition NewVolumeGroupSnapshotClassInformer_v1beta2 :: "string list \<Rightarrow> int \<Rightarrow> indexers \<Rightarrow> 'w sharedInformer" where
  "NewVolumeGroupSnapshotClassInformer_v1beta2 client resyncPeriod ix = NewFilteredVolumeGroupSnapshotClassInformer_v1beta2 client resyncPeriod ix None"

definition defaultVolumeGroupSnapshotClassInformer_v1beta2 :: "informerAccess \<Rightarrow> string list \<Rightarrow> int \<Rightarrow> 'w sharedInformer" where
  "defaultVolumeGroupSnapshotClassInformer_v1beta2 a client resyncPeriod =
    NewFilteredVolumeGroupSnapshotClassInformer_v1beta2 client resyncPeriod [(NamespaceIndex, MetaNamespaceIndexFunc)] (ia_tweakListOptions a)"

definition VolumeGroupSnapshotClassInformer_v1beta2 :: "informerAccess \<Rightarrow> 'w factories \<Rightarrow> 'w sharedInformer \<times> 'w factories" where
  "VolumeGroupSnapshotClassInformer_v1beta2 a = informerOf a (VolumeGroupSnapshotClassType V1beta2) (defaultVolumeGroupSnapshotClassInformer_v1beta2 a)"

section \<open>Access by group and version\<close>

text \<open>\<open>New\<close> of a group and of a version, which only hand on the fields.\<close>

definition group_New :: "factoryId \<Rightarrow> string \<Rightarrow> TweakListOptions \<Rightarrow> informerAccess" where
  "group_New f namespace tweak = \<lparr>ia_factory = f, ia_namespace = namespace, ia_tweakListOptions = tweak\<rparr>"

definition snapshot_New :: "factoryId \<Rightarrow> string \<Rightarrow> TweakListOptions \<Rightarrow> informerAccess" where
  "snapshot_New f namespace tweak = \<lparr>ia_factory = f, ia_namespace = namespace, ia_tweakListOptions = tweak\<rparr>"

definition snapshotVersion_New :: "factoryId \<Rightarrow> string \<Rightarrow> TweakListOptions \<Rightarrow> informerAccess" where
  "snapshotVersion_New f namespace tweak = \<lparr>ia_factory = f, ia_namespace = namespace, ia_tweakListOptions = tweak\<rparr>"

definition snapshot_V1 :: "informerAccess \<Rightarrow> informerAccess" where
  "snapshot_V1 g = snapshotVersion_New (ia_factory g) (ia_namespace g) (ia_tweakListOptions g)"

definition accessVolumeSnapshots :: "informerAccess \<Rightarrow> informerAccess" where
  "accessVolumeSnapshots v =
    \<lparr>ia_factory = ia_factory v, ia_namespace = ia_namespace v, ia_tweakListOptions = ia_tweakListOptions v\<rparr>"

definition accessVolumeSnapshotClasses :: "informerAccess \<Rightarrow> informerAccess" where
  "accessVolumeSnapshotClasses v =
    \<lparr>ia_factory = ia_factory v, ia_namespace = [], ia_tweakListOptions = ia_tweakListOptions v\<rparr>"

definition accessVolumeSnapshotContents :: "informerAccess \<Rightarrow> informerAccess" where
  "accessVolumeSnapshotContents v =
    \<lparr>ia_factory = ia_factory v, ia_namespace = [], ia_tweakListOptions = ia_tweakListOptions v\<rparr>"

definition groupVersion_New_v1 :: "factoryId \<Rightarrow> string \<Rightarrow> TweakListOptions \<Rightarrow> informerAccess" where
  "groupVersion_New_v1 f namespace tweak = \<lparr>ia_factory = f, ia_namespace = namespace, ia_tweakListOptions = tweak\<rparr>"

definition group_V1 :: "informerAccess \<Rightarrow> informerAccess" where
  "group_V1 g = groupVersion_New_v1 (ia_factory g) (ia_namespace g) (ia_tweakListOptions g)"

definition accessVolumeGroupSnapshots_v1 :: "informerAccess \<Rightarrow> informerAccess" where
  "accessVolumeGroupSnapshots_v1 v =
    \<lparr>ia_factory = ia_factory v, ia_namespace = ia_namespace v, ia_tweakListOptions = ia_tweakListOptions v\<rparr>"

definition accessVolumeGroupSnapshotClasses_v1 :: "informerAccess \<Rightarrow> informerAccess" where
  "accessVolumeGroupSnapshotClasses_v1 v =
    \<lparr>ia_factory = ia_factory v, ia_namespace = [], ia_tweakListOptions = ia_tweakListOptions v\<rparr>"

definition accessVolumeGroupSnapshotContents_v1 :: "informerAccess \<Rightarrow> informerAccess" where
  "accessVolumeGroupSnapshotContents_v1 v =
    \<lparr>ia_factory = ia_factory v, ia_namespace = [], ia_tweakListOptions = ia_tweakListOptions v\<rparr>"

definition groupVersion_New_v1beta1 :: "factoryId \<Rightarrow> string \<Rightarrow> TweakListOptions \<Rightarrow> informerAccess" where
  "groupVersion_New_v1beta1 f namespace tweak = \<lparr>ia_factory = f, ia_namespace = namespace, ia_tweakListOptions = tweak\<rparr>"

definition group_V1beta1 :: "informerAccess \<Rightarrow> informerAccess" where
  "group_V1beta1 g = groupVersion_New_v1beta1 (ia_factory g) (ia_namespace g) (ia_tweakListOptions g)"

definition accessVolumeGroupSnapshots_v1beta1 :: "informerAccess \<Rightarrow> informerAccess" where
  "accessVolumeGroupSnapshots_v1beta1 v =
    \<lparr>ia_factory = ia_factory v, ia_namespace = ia_namespace v, ia_tweakListOptions = ia_tweakListOptions v\<rparr>"

definition accessVolumeGroupSnapshotClasses_v1beta1 :: "informerAccess \<Rightarrow> informerAccess" where
  "accessVolumeGroupSnapshotClasses_v1beta1 v =
    \<lparr>ia_factory = ia_factory v, ia_namespace = [], ia_tweakListOptions = ia_tweakListOptions v\<rparr>"

definition accessVolumeGroupSnapshotContents_v1beta1 :: "informerAccess \<Rightarrow> informerAccess" where
  "accessVolumeGroupSnapshotContents_v1beta1 v =
    \<lparr>ia_factory = ia_factory v, ia_namespace = [], ia_tweakListOptions = ia_tweakListOptions v\<rparr>"

definition groupVersion_New_v1beta2 :: "factoryId \<Rightarrow> string \<Rightarrow> TweakListOptions \<Rightarrow> informerAccess" where
  "groupVersion_New_v1beta2 f namespace tweak = \<lparr>ia_factory = f, ia_namespace = namespace, ia_tweakListOptions = tweak\<rparr>"

definition group_V1beta2 :: "informerAccess \<Rightarrow> informerAccess" where
  "group_V1beta2 g = groupVersion_New_v1beta2 (ia_factory g) (ia_namespace g) (ia_tweakListOptions g)"

definition accessVolumeGroupSnapshots_v1beta2 :: "informerAccess \<Rightarrow> informerAccess" where
  "accessVolumeGroupSnapshots_v1beta2 v =
    \<lparr>ia_factory = ia_factory v, ia_namespace = ia_namespace v, ia_tweakListOptions = ia_tweakListOptions v\<rparr>"

definition accessVolumeGroupSnapshotClasses_v1beta2 :: "informerAccess \<Rightarrow> informerAccess" where
  "accessVolumeGroupSnapshotClasses_v1beta2 v =
    \<lparr>ia_factory = ia_factory v, ia_namespace = [], ia_tweakListOptions = ia_tweakListOptions v\<rparr>"

definition accessVolumeGroupSnapshotContents_v1beta2 :: "informerAccess \<Rightarrow> informerAccess" where
  "accessVolumeGroupSnapshotContents_v1beta2 v =
    \<lparr>ia_factory = ia_factory v, ia_namespace = [], ia_tweakListOptions = ia_tweakListOptions v\<rparr>"

definition factory_Groupsnapshot :: "'w factories \<Rightarrow> factoryId \<Rightarrow> informerAccess" where
  "factory_Groupsnapshot fs f = group_New f (fa_namespace (fs f)) (fa_tweakListOptions (fs f))"

definition factory_Snapshot :: "'w factories \<Rightarrow> factoryId \<Rightarrow> informerAccess" where
  "factory_Snapshot fs f = snapshot_New f (fa_namespace (fs f)) (fa_tweakListOptions (fs f))"

text \<open>The informer of a group, version and resource.\<close>

type_synonym groupVersionResource = "string \<times> string \<times> string"

definition ForResource ::
  "factoryId \<Rightarrow> groupVersionResource \<Rightarrow> 'w factories \<Rightarrow> goerr + 'w sharedInformer \<times> 'w factories" where
  "ForResource f gvr fs =
    (if gvr = (''groupsnapshot.storage.k8s.io'', ''v1'', ''volumegroupsnapshots'')
     then Inr (VolumeGroupSnapshotInformer_v1 (accessVolumeGroupSnapshots_v1 (group_V1 (factory_Groupsnapshot fs f))) fs)
     else if gvr = (''groupsnapshot.storage.k8s.io'', ''v1'', ''volumegroupsnapshotclasses'')
     then Inr (VolumeGroupSnapshotClassInformer_v1 (accessVolumeGroupSnapshotClasses_v1 (group_V1 (factory_Groupsnapshot fs f))) fs)
     else if gvr = (''groupsnapshot.storage.k8s.io'', ''v1'', ''volumegroupsnapshotcontents'')
     then Inr (VolumeGroupSnapshotContentInformer_v1 (accessVolumeGroupSnapshotContents_v1 (group_V1 (factory_Groupsnapshot fs f))) fs)
     else if gvr = (''groupsnapshot.storage.k8s.io'', ''v1beta1'', ''volumegroupsnapshots'')
     then Inr (VolumeGroupSnapshotInformer_v1beta1 (accessVolumeGroupSnapshots_v1beta1 (group_V1beta1 (factory_Groupsnapshot fs f))) fs)
     else if gvr = (''groupsnapshot.storage.k8s.io'', ''v1beta1'', ''volumegroupsnapshotclasses'')
     then Inr (VolumeGroupSnapshotClassInformer_v1beta1 (accessVolumeGroupSnapshotClasses_v1beta1 (group_V1beta1 (factory_Groupsnapshot fs f))) fs)
     else if gvr = (''groupsnapshot.storage.k8s.io'', ''v1beta1'', ''volumegroupsnapshotcontents'')
     then Inr (VolumeGroupSnapshotContentInformer_v1beta1 (accessVolumeGroupSnapshotContents_v1beta1 (group_V1beta1 (factory_Groupsnapshot fs f))) fs)
     else if gvr = (''groupsnapshot.storage.k8s.io'', ''v1beta2'', ''volumegroupsnapshots'')
     then Inr (VolumeGroupSnapshotInformer_v1beta2 (accessVolumeGroupSnapshots_v1beta2 (group_V1beta2 (factory_Groupsnapshot fs f))) fs)
     else if gvr = (''groupsnapshot.storage.k8s.io'', ''v1beta2'', ''volumegroupsnapshotclasses'')
     then Inr (VolumeGroupSnapshotClassInformer_v1beta2 (accessVolumeGroupSnapshotClasses_v1beta2 (group_V1beta2 (factory_Groupsnapshot fs f))) fs)
     else if gvr = (''groupsnapshot.storage.k8s.io'', ''v1beta2'', ''volumegroupsnapshotcontents'')
     then Inr (VolumeGroupSnapshotContentInformer_v1beta2 (accessVolumeGroupSnapshotContents_v1beta2 (group_V1beta2 (factory_Groupsnapshot fs f))) fs)
     else if gvr = (''snapshot.storage.k8s.io'', ''v1'', ''volumesnapshots'')
     then Inr (VolumeSnapshotInformer (accessVolumeSnapshots (snapshot_V1 (factory_Snapshot fs f))) fs)
     else if gvr = (''snapshot.storage.k8s.io'', ''v1'', ''volumesnapshotclasses'')
     then Inr (VolumeSnapshotClassInformer (accessVolumeSnapshotClasses (snapshot_V1 (factory_Snapshot fs f))) fs)
     else if gvr = (''snapshot.storage.k8s.io'', ''v1'', ''volumesnapshotcontents'')
     then Inr (VolumeSnapshotContentInformer (accessVolumeSnapshotContents (snapshot_V1 (factory_Snapshot fs f))) fs)
     else Inl (Errorf (sprint [''no informer found for '', fst gvr, ''/'', fst (snd gvr), '', Resource='', snd (snd gvr)])))"

text \<open>The informers of core types come from the factory of client-go, which is the same code over those types.\<close>

definition coreAccess_New :: "factoryId \<Rightarrow> informerAccess" where
  "coreAccess_New f = \<lparr>ia_factory = f, ia_namespace = [], ia_tweakListOptions = None\<rparr>"

definition coreInformer :: "string \<Rightarrow> informerAccess \<Rightarrow> 'w factories \<Rightarrow> 'w sharedInformer \<times> 'w factories" where
  "coreInformer res a = informerOf a (CoreType res)
    (\<lambda>client resync. NewSharedIndexInformer (CoreResource res) (CoreType res) resync [(NamespaceIndex, MetaNamespaceIndexFunc)])"

text \<open>A handler, or indices, for an informer of a factory. Indices whose names are taken are refused.\<close>

definition onInformer :: "factoryId \<Rightarrow> objectType \<Rightarrow> ('w sharedInformer \<Rightarrow> 'w sharedInformer) \<Rightarrow> 'w factories \<Rightarrow> 'w factories" where
  "onInformer f t g fs =
    fs(f := (fs f)\<lparr>fa_informers := map (\<lambda>(t', i). (t', if t' = t then g i else i)) (fa_informers (fs f))\<rparr>)"

definition AddEventHandlerWithResyncPeriod :: "'w eventHandler \<Rightarrow> int \<Rightarrow> 'w sharedInformer \<Rightarrow> 'w sharedInformer" where
  "AddEventHandlerWithResyncPeriod handler resyncPeriod informer =
    informer\<lparr>si_Handlers := si_Handlers informer @ [(handler, resyncPeriod)]\<rparr>"

definition AddIndexers :: "indexers \<Rightarrow> 'w sharedInformer \<Rightarrow> 'w sharedInformer" where
  "AddIndexers ix informer =
    (if set (map fst ix) \<inter> set (map fst (si_Indexers informer)) = {}
     then informer\<lparr>si_Indexers := si_Indexers informer @ ix\<rparr> else informer)"

section \<open>What an informer reads\<close>

fun versionName :: "apiVersion \<Rightarrow> string" where
  "versionName V1 = ''v1''"
| "versionName V1beta1 = ''v1beta1''"
| "versionName V1beta2 = ''v1beta2''"

fun gvrOf :: "objectType \<Rightarrow> groupVersionResource option" where
  "gvrOf VolumeSnapshotType = Some (''snapshot.storage.k8s.io'', ''v1'', ''volumesnapshots'')"
| "gvrOf VolumeSnapshotClassType = Some (''snapshot.storage.k8s.io'', ''v1'', ''volumesnapshotclasses'')"
| "gvrOf VolumeSnapshotContentType = Some (''snapshot.storage.k8s.io'', ''v1'', ''volumesnapshotcontents'')"
| "gvrOf (VolumeGroupSnapshotType v) = Some (''groupsnapshot.storage.k8s.io'', versionName v, ''volumegroupsnapshots'')"
| "gvrOf (VolumeGroupSnapshotClassType v) = Some (''groupsnapshot.storage.k8s.io'', versionName v, ''volumegroupsnapshotclasses'')"
| "gvrOf (VolumeGroupSnapshotContentType v) =
    Some (''groupsnapshot.storage.k8s.io'', versionName v, ''volumegroupsnapshotcontents'')"
| "gvrOf (CoreType res) = None"

fun namespaced :: "objectType \<Rightarrow> bool" where
  "namespaced VolumeSnapshotType = True"
| "namespaced (VolumeGroupSnapshotType v) = True"
| "namespaced _ = False"

text \<open>A request that is sent, and reads a collection: all of it, or what a namespace has of it, under the given options.\<close>

definition readsCollection :: "restRequest \<Rightarrow> string list \<Rightarrow> groupVersionResource \<Rightarrow> string \<Rightarrow> ListOptions \<Rightarrow> bool" where
  "readsCollection q base gvr ns options =
    (case sent q of
       Inl err \<Rightarrow> False
     | Inr r \<Rightarrow> r_verb r = GET \<and> r_resourceName r = [] \<and> r_subresource r = [] \<and> r_resource r = snd (snd gvr) \<and>
         r_pathPrefix r = base @ [''apis'', fst gvr, fst (snd gvr)] \<and>
         URL_path r = pathOf (base @ [''apis'', fst gvr, fst (snd gvr)] @ (if ns = [] then [] else [''namespaces'', ns]) @
           [snd (snd gvr)]) \<and>
         r_params r = ListParams options)"

definition readsOnly :: "source \<Rightarrow> string list \<Rightarrow> objectType \<Rightarrow> string \<Rightarrow> TweakListOptions \<Rightarrow> bool" where
  "readsOnly src base t ns tweak \<longleftrightarrow>
    (case src of
       CoreResource res \<Rightarrow> t = CoreType res
     | ApiServer lw \<Rightarrow> (\<exists>gvr. gvrOf t = Some gvr \<and>
         (\<forall>options.
           readsCollection (ListWithContext lw options) base gvr (if namespaced t then ns else []) (tweaked tweak options) \<and>
           readsCollection (WatchWithContext lw options) base gvr (if namespaced t then ns else [])
             ((tweaked tweak options)\<lparr>lo_Watch := True\<rparr>))))"

lemma sent_ok: "r_err r = None \<Longrightarrow> r_verb r = GET \<Longrightarrow> r_resourceName r = [] \<Longrightarrow> sent r = Inr r"
  by (simp add: sent_def requestPreflightCheck_def)

lemma request_steps:
  "r_err r = None \<Longrightarrow> r_resource r = [] \<Longrightarrow> IsValidPathSegmentName res = [] \<Longrightarrow> rResource res r = r\<lparr>r_resource := res\<rparr>"
  "r_err r = None \<Longrightarrow> \<not> r_namespaceSet r \<Longrightarrow> IsValidPathSegmentName ns = [] \<Longrightarrow>
    rNamespace ns r = r\<lparr>r_namespaceSet := True, r_namespace := ns\<rparr>"
  "r_err r = None \<Longrightarrow> rParams p r = r\<lparr>r_params := p\<rparr>"
  "r_err r = None \<Longrightarrow> rTimeout d r = r\<lparr>r_timeout := d\<rparr>"
  by (simp_all add: rResource_def rNamespace_def rParams_def rTimeout_def)

lemma gentype_reads:
  assumes "IsValidPathSegmentName (g_namespace c) = []" "IsValidPathSegmentName (g_resource c) = []" "g_resource c \<noteq> []"
  shows "readsCollection (gentype_List c options) (rc_Base (g_client c)) (rc_Group (g_client c), rc_Version (g_client c), g_resource c)
      (g_namespace c) options"
    and "readsCollection (gentype_Watch c options) (rc_Base (g_client c)) (rc_Group (g_client c), rc_Version (g_client c), g_resource c)
      (g_namespace c) (options\<lparr>lo_Watch := True\<rparr>)"
  using assms
  by (cases "g_namespace c = []"; simp add: readsCollection_def sent_ok gentype_List_def gentype_Watch_def build_def newRequest_def
      rNamespaceIfScoped_def request_steps URL_path_def pathOf_def)+

lemma typed_reads:
  assumes "IsValidPathSegmentName (tc_ns c) = []"
  defines "gv \<equiv> \<lambda>res. (rc_Group (tc_client c), rc_Version (tc_client c), res)"
  shows "readsCollection (volumeSnapshots_List c options) (rc_Base (tc_client c)) (gv ''volumesnapshots'') (tc_ns c) options"
    and "readsCollection (volumeSnapshots_Watch c options) (rc_Base (tc_client c)) (gv ''volumesnapshots'') (tc_ns c)
      (options\<lparr>lo_Watch := True\<rparr>)"
    and "readsCollection (volumeSnapshotContents_List c options) (rc_Base (tc_client c)) (gv ''volumesnapshotcontents'') [] options"
    and "readsCollection (volumeSnapshotContents_Watch c options) (rc_Base (tc_client c)) (gv ''volumesnapshotcontents'') []
      (options\<lparr>lo_Watch := True\<rparr>)"
    and "readsCollection (volumeSnapshotClasses_List c options) (rc_Base (tc_client c)) (gv ''volumesnapshotclasses'') [] options"
    and "readsCollection (volumeSnapshotClasses_Watch c options) (rc_Base (tc_client c)) (gv ''volumesnapshotclasses'') []
      (options\<lparr>lo_Watch := True\<rparr>)"
proof -
  have v: "IsValidPathSegmentName ''volumesnapshots'' = []" "IsValidPathSegmentName ''volumesnapshotcontents'' = []"
    "IsValidPathSegmentName ''volumesnapshotclasses'' = []"
    by code_simp+
  note d = readsCollection_def sent_ok build_def newRequest_def request_steps URL_path_def pathOf_def v gv_def
  show "readsCollection (volumeSnapshots_List c options) (rc_Base (tc_client c)) (gv ''volumesnapshots'') (tc_ns c) options"
    using assms(1) by (simp add: d volumeSnapshots_List_def)
  show "readsCollection (volumeSnapshots_Watch c options) (rc_Base (tc_client c)) (gv ''volumesnapshots'') (tc_ns c)
      (options\<lparr>lo_Watch := True\<rparr>)"
    using assms(1) by (simp add: d volumeSnapshots_Watch_def)
  show "readsCollection (volumeSnapshotContents_List c options) (rc_Base (tc_client c)) (gv ''volumesnapshotcontents'') [] options"
    by (simp add: d volumeSnapshotContents_List_def)
  show "readsCollection (volumeSnapshotContents_Watch c options) (rc_Base (tc_client c)) (gv ''volumesnapshotcontents'') []
      (options\<lparr>lo_Watch := True\<rparr>)"
    by (simp add: d volumeSnapshotContents_Watch_def)
  show "readsCollection (volumeSnapshotClasses_List c options) (rc_Base (tc_client c)) (gv ''volumesnapshotclasses'') [] options"
    by (simp add: d volumeSnapshotClasses_List_def)
  show "readsCollection (volumeSnapshotClasses_Watch c options) (rc_Base (tc_client c)) (gv ''volumesnapshotclasses'') []
      (options\<lparr>lo_Watch := True\<rparr>)"
    by (simp add: d volumeSnapshotClasses_Watch_def)
qed

text \<open>The typed accesses, by type.\<close>

fun newInformer :: "objectType \<Rightarrow> informerAccess \<Rightarrow> string list \<Rightarrow> int \<Rightarrow> 'w sharedInformer" where
  "newInformer VolumeSnapshotType = defaultVolumeSnapshotInformer"
| "newInformer VolumeSnapshotClassType = defaultVolumeSnapshotClassInformer"
| "newInformer VolumeSnapshotContentType = defaultVolumeSnapshotContentInformer"
| "newInformer (VolumeGroupSnapshotType V1) = defaultVolumeGroupSnapshotInformer_v1"
| "newInformer (VolumeGroupSnapshotType V1beta1) = defaultVolumeGroupSnapshotInformer_v1beta1"
| "newInformer (VolumeGroupSnapshotType V1beta2) = defaultVolumeGroupSnapshotInformer_v1beta2"
| "newInformer (VolumeGroupSnapshotClassType V1) = defaultVolumeGroupSnapshotClassInformer_v1"
| "newInformer (VolumeGroupSnapshotClassType V1beta1) = defaultVolumeGroupSnapshotClassInformer_v1beta1"
| "newInformer (VolumeGroupSnapshotClassType V1beta2) = defaultVolumeGroupSnapshotClassInformer_v1beta2"
| "newInformer (VolumeGroupSnapshotContentType V1) = defaultVolumeGroupSnapshotContentInformer_v1"
| "newInformer (VolumeGroupSnapshotContentType V1beta1) = defaultVolumeGroupSnapshotContentInformer_v1beta1"
| "newInformer (VolumeGroupSnapshotContentType V1beta2) = defaultVolumeGroupSnapshotContentInformer_v1beta2"
| "newInformer (CoreType res) = (\<lambda>a client resync.
    NewSharedIndexInformer (CoreResource res) (CoreType res) resync [(NamespaceIndex, MetaNamespaceIndexFunc)])"

lemma readsOnly_ApiServer:
  assumes "gvrOf t = Some gvr"
    and "\<And>options. readsCollection (ListWithContext lw options) base gvr (if namespaced t then ns else []) (tweaked tweak options)"
    and "\<And>options. readsCollection (WatchWithContext lw options) base gvr (if namespaced t then ns else [])
      ((tweaked tweak options)\<lparr>lo_Watch := True\<rparr>)"
  shows "readsOnly (ApiServer lw) base t ns tweak"
  using assms by (simp add: readsOnly_def)

lemmas informer_defs =
  NewSharedIndexInformer_def
  defaultVolumeSnapshotInformer_def NewFilteredVolumeSnapshotInformer_def
  defaultVolumeSnapshotClassInformer_def NewFilteredVolumeSnapshotClassInformer_def
  defaultVolumeSnapshotContentInformer_def NewFilteredVolumeSnapshotContentInformer_def
  defaultVolumeGroupSnapshotInformer_v1_def NewFilteredVolumeGroupSnapshotInformer_v1_def
  defaultVolumeGroupSnapshotClassInformer_v1_def NewFilteredVolumeGroupSnapshotClassInformer_v1_def
  defaultVolumeGroupSnapshotContentInformer_v1_def NewFilteredVolumeGroupSnapshotContentInformer_v1_def
  defaultVolumeGroupSnapshotInformer_v1beta1_def NewFilteredVolumeGroupSnapshotInformer_v1beta1_def
  defaultVolumeGroupSnapshotClassInformer_v1beta1_def NewFilteredVolumeGroupSnapshotClassInformer_v1beta1_def
  defaultVolumeGroupSnapshotContentInformer_v1beta1_def NewFilteredVolumeGroupSnapshotContentInformer_v1beta1_def
  defaultVolumeGroupSnapshotInformer_v1beta2_def NewFilteredVolumeGroupSnapshotInformer_v1beta2_def
  defaultVolumeGroupSnapshotClassInformer_v1beta2_def NewFilteredVolumeGroupSnapshotClassInformer_v1beta2_def
  defaultVolumeGroupSnapshotContentInformer_v1beta2_def NewFilteredVolumeGroupSnapshotContentInformer_v1beta2_def

lemmas groupClient_defs =
  newVolumeGroupSnapshots_v1_def newVolumeGroupSnapshotContents_v1_def newVolumeGroupSnapshotClasses_v1_def
  newVolumeGroupSnapshots_v1beta1_def newVolumeGroupSnapshotContents_v1beta1_def newVolumeGroupSnapshotClasses_v1beta1_def
  newVolumeGroupSnapshots_v1beta2_def newVolumeGroupSnapshotContents_v1beta2_def newVolumeGroupSnapshotClasses_v1beta2_def
  GroupsnapshotV1Client_def GroupsnapshotV1beta1Client_def GroupsnapshotV1beta2Client_def

lemma valid_resources [simp]:
  "IsValidPathSegmentName ''volumegroupsnapshots'' = []" "IsValidPathSegmentName ''volumegroupsnapshotcontents'' = []"
  "IsValidPathSegmentName ''volumegroupsnapshotclasses'' = []" "IsValidPathSegmentName [] = []"
  by code_simp+

lemma gentype_client_reads:
  fixes base :: "string list" and g v :: string
  assumes "IsValidPathSegmentName ns = []" "IsValidPathSegmentName res = []" "res \<noteq> []"
  defines "c \<equiv> \<lparr>g_resource = res, g_client = \<lparr>rc_Base = base, rc_Group = g, rc_Version = v\<rparr>, g_namespace = ns\<rparr>"
  shows "readsCollection (gentype_List c options) base (g, v, res) ns options"
    and "readsCollection (gentype_Watch c options) base (g, v, res) ns (options\<lparr>lo_Watch := True\<rparr>)"
  using gentype_reads[of c options] assms by (simp_all add: c_def)

lemma si_Type_newInformer [simp]: "si_Type (newInformer t a base d) = t"
  by (cases t rule: newInformer.cases) (simp_all add: informer_defs)

lemma newInformer_reads:
  assumes "IsValidPathSegmentName (ia_namespace a) = []"
  shows "readsOnly (si_Source (newInformer t a base d)) base t (ia_namespace a) (ia_tweakListOptions a)"
proof (cases t)
  case VolumeSnapshotType
  then show ?thesis using typed_reads(1,2)[of "newVolumeSnapshots (SnapshotV1Client base) (ia_namespace a)"] assms
    by (auto simp: informer_defs ListWithContext_def WatchWithContext_def newVolumeSnapshots_def SnapshotV1Client_def
        intro!: readsOnly_ApiServer)
next
  case VolumeSnapshotContentType
  then show ?thesis using typed_reads(3,4)[of "newVolumeSnapshotContents (SnapshotV1Client base)"]
    by (auto simp: informer_defs ListWithContext_def WatchWithContext_def newVolumeSnapshotContents_def SnapshotV1Client_def
        intro!: readsOnly_ApiServer)
next
  case VolumeSnapshotClassType
  then show ?thesis using typed_reads(5,6)[of "newVolumeSnapshotClasses (SnapshotV1Client base)"]
    by (auto simp: informer_defs ListWithContext_def WatchWithContext_def newVolumeSnapshotClasses_def SnapshotV1Client_def
        intro!: readsOnly_ApiServer)
next
  case (VolumeGroupSnapshotType v)
  show ?thesis unfolding VolumeGroupSnapshotType using assms
    by (cases v)
      (auto simp: informer_defs ListWithContext_def WatchWithContext_def groupClient_defs gentype_client_reads
          intro!: readsOnly_ApiServer)
next
  case (VolumeGroupSnapshotContentType v)
  show ?thesis unfolding VolumeGroupSnapshotContentType
    by (cases v)
      (auto simp: informer_defs ListWithContext_def WatchWithContext_def groupClient_defs gentype_client_reads
          intro!: readsOnly_ApiServer)
next
  case (VolumeGroupSnapshotClassType v)
  show ?thesis unfolding VolumeGroupSnapshotClassType
    by (cases v)
      (auto simp: informer_defs ListWithContext_def WatchWithContext_def groupClient_defs gentype_client_reads
          intro!: readsOnly_ApiServer)
next
  case (CoreType res)
  then show ?thesis by (simp add: informer_defs readsOnly_def)
qed

section \<open>The informers of a factory\<close>

text \<open>The access to the informer of a type; \<open>ForResource\<close> and the typed accessors take it.\<close>

definition accessOf :: "factoryId \<Rightarrow> 'w factories \<Rightarrow> objectType \<Rightarrow> informerAccess" where
  "accessOf f fs t =
    \<lparr>ia_factory = f, ia_namespace = (if namespaced t then fa_namespace (fs f) else []),
     ia_tweakListOptions = fa_tweakListOptions (fs f)\<rparr>"

lemmas access_defs =
  factory_Snapshot_def factory_Groupsnapshot_def snapshot_New_def group_New_def
  snapshotVersion_New_def snapshot_V1_def groupVersion_New_v1_def group_V1_def groupVersion_New_v1beta1_def group_V1beta1_def
  groupVersion_New_v1beta2_def group_V1beta2_def
  accessVolumeSnapshots_def accessVolumeSnapshotClasses_def accessVolumeSnapshotContents_def
  accessVolumeGroupSnapshots_v1_def accessVolumeGroupSnapshotClasses_v1_def accessVolumeGroupSnapshotContents_v1_def
  accessVolumeGroupSnapshots_v1beta1_def accessVolumeGroupSnapshotClasses_v1beta1_def accessVolumeGroupSnapshotContents_v1beta1_def
  accessVolumeGroupSnapshots_v1beta2_def accessVolumeGroupSnapshotClasses_v1beta2_def accessVolumeGroupSnapshotContents_v1beta2_def

lemmas typedInformer_defs =
  VolumeSnapshotInformer_def VolumeSnapshotClassInformer_def VolumeSnapshotContentInformer_def
  VolumeGroupSnapshotInformer_v1_def VolumeGroupSnapshotClassInformer_v1_def VolumeGroupSnapshotContentInformer_v1_def
  VolumeGroupSnapshotInformer_v1beta1_def VolumeGroupSnapshotClassInformer_v1beta1_def VolumeGroupSnapshotContentInformer_v1beta1_def
  VolumeGroupSnapshotInformer_v1beta2_def VolumeGroupSnapshotClassInformer_v1beta2_def VolumeGroupSnapshotContentInformer_v1beta2_def

lemma ForResource_known:
  assumes "gvrOf t = Some gvr"
  shows "ForResource f gvr fs = Inr (informerOf (accessOf f fs t) t (newInformer t (accessOf f fs t)) fs)"
proof -
  have "ForResource f (the (gvrOf t)) fs = Inr (informerOf (accessOf f fs t) t (newInformer t (accessOf f fs t)) fs)"
    if "t \<noteq> CoreType (case t of CoreType res \<Rightarrow> res | _ \<Rightarrow> [])"
    using that by (cases t rule: newInformer.cases) (simp_all add: ForResource_def access_defs typedInformer_defs accessOf_def)
  then show ?thesis using assms by (cases t) auto
qed

lemma ForResource_unknown: "(\<And>t. gvrOf t \<noteq> Some gvr) \<Longrightarrow> \<exists>e. ForResource f gvr fs = Inl e"
proof -
  assume none: "\<And>t. gvrOf t \<noteq> Some gvr"
  note n = none[of VolumeSnapshotType] none[of VolumeSnapshotClassType] none[of VolumeSnapshotContentType]
    none[of "VolumeGroupSnapshotType V1"] none[of "VolumeGroupSnapshotType V1beta1"] none[of "VolumeGroupSnapshotType V1beta2"]
    none[of "VolumeGroupSnapshotClassType V1"] none[of "VolumeGroupSnapshotClassType V1beta1"]
    none[of "VolumeGroupSnapshotClassType V1beta2"] none[of "VolumeGroupSnapshotContentType V1"]
    none[of "VolumeGroupSnapshotContentType V1beta1"] none[of "VolumeGroupSnapshotContentType V1beta2"]
  show ?thesis using n[symmetric] unfolding ForResource_def gvrOf.simps versionName.simps option.inject by (simp only: if_False) simp
qed

text \<open>Uses of the factories: asking for informers, adding handlers and indices, starting, shutting down.\<close>

inductive use :: "'w factories \<Rightarrow> 'w factories \<Rightarrow> bool" where
  ask: "ForResource f gvr fs = Inr (informer, fs') \<Longrightarrow> use fs fs'"
| ask_core: "use fs (snd (coreInformer res (coreAccess_New f) fs))"
| handler: "use fs (onInformer f t (AddEventHandlerWithResyncPeriod h d) fs)"
| index: "use fs (onInformer f t (AddIndexers ix) fs)"
| start: "use fs (fs(f := factory_Start (fs f)))"
| shutdown: "use fs (fs(f := factory_Shutdown (fs f)))"

definition unused :: "'w factories \<Rightarrow> bool" where
  "unused fs \<longleftrightarrow> (\<forall>f. fa_informers (fs f) = [] \<and> fa_startedInformers (fs f) = [] \<and> fa_running (fs f) = [] \<and>
    IsValidPathSegmentName (fa_namespace (fs f)) = [])"

definition factoryInv :: "'w factory \<Rightarrow> bool" where
  "factoryInv F \<longleftrightarrow>
    distinct (map fst (fa_informers F)) \<and> fa_running F = fa_startedInformers F \<and> distinct (fa_running F) \<and>
    set (fa_running F) \<subseteq> set (map fst (fa_informers F)) \<and> IsValidPathSegmentName (fa_namespace F) = [] \<and>
    (\<forall>(t, i)\<in>set (fa_informers F). si_Type i = t \<and> 
      readsOnly (si_Source i) (fa_client F) t (fa_namespace F) (fa_tweakListOptions F))"

lemma startInformers_only:
  "\<exists>xs. startInformers is f = f\<lparr>fa_running := fa_running f @ xs, fa_startedInformers := fa_startedInformers f @ xs\<rparr> \<and>
    set xs = set (map fst is) - set (fa_startedInformers f) \<and> distinct xs"
proof (induction "is" f rule: startInformers.induct)
  case (1 f)
  show ?case by (intro exI[of _ "[]"]) simp
next
  case (2 t informer rest f)
  show ?case
  proof (cases "t \<in> set (fa_startedInformers f)")
    case True
    then show ?thesis using 2 by auto
  next
    case False
    define f' where "f' = f\<lparr>fa_running := fa_running f @ [t], fa_startedInformers := fa_startedInformers f @ [t]\<rparr>"
    have "\<exists>xs. startInformers rest f' = f'\<lparr>fa_running := fa_running f' @ xs, fa_startedInformers := fa_startedInformers f' @ xs\<rparr> \<and>
      set xs = set (map fst rest) - set (fa_startedInformers f') \<and> distinct xs"
      using 2 False by (simp add: f'_def)
    then obtain xs where xs: "startInformers rest f' = f'\<lparr>fa_running := fa_running f' @ xs, fa_startedInformers := fa_startedInformers f' @ xs\<rparr>"
      "set xs = set (map fst rest) - set (fa_startedInformers f')" "distinct xs" by blast
    then show ?thesis using False by (intro exI[of _ "t # xs"]) (auto simp: f'_def)
  qed
qed

lemma Start_inv: "factoryInv F \<Longrightarrow> factoryInv (factory_Start F)"
proof -
  assume inv: "factoryInv F"
  obtain xs where "startInformers (fa_informers F) F =
      F\<lparr>fa_running := fa_running F @ xs, fa_startedInformers := fa_startedInformers F @ xs\<rparr>"
    "set xs = set (map fst (fa_informers F)) - set (fa_startedInformers F)" "distinct xs"
    using startInformers_only by blast
  then show ?thesis using inv by (auto simp: factory_Start_def factoryInv_def)
qed

lemma InformerFor_inv:
  assumes "factoryInv F" "InformerFor t newFunc F = (i, F')"
    and new: "\<And>d. si_Type (newFunc (fa_client F) d) = t \<and>
      readsOnly (si_Source (newFunc (fa_client F) d)) (fa_client F) t (fa_namespace F) (fa_tweakListOptions F)"
  shows "factoryInv F' \<and> (t, i) \<in> set (fa_informers F') \<and> fa_client F' = fa_client F \<and> fa_namespace F' = fa_namespace F \<and>
    fa_tweakListOptions F' = fa_tweakListOptions F"
proof (cases "map_of (fa_informers F) t")
  case None
  then have "t \<notin> set (map fst (fa_informers F))" by (simp add: map_of_eq_None_iff)
  then show ?thesis using assms(1,2) None new by (auto simp: InformerFor_def factoryInv_def Let_def)
next
  case (Some j)
  then have "i = j" "F' = F" using assms(2) by (simp_all add: InformerFor_def)
  then show ?thesis using assms(1) map_of_SomeD[OF Some] by simp
qed

lemma onInformer_inv:
  assumes "factoryInv (fs f')" "\<And>i. si_Source (g i) = si_Source i \<and> si_Type (g i) = si_Type i"
  shows "factoryInv (onInformer f t g fs f')"
proof (cases "f' = f")
  case True
  have m: "map fst (map (\<lambda>(t', i). (t', if t' = t then g i else i)) l) = map fst l" for l
    by (induction l) auto
  show ?thesis using assms True unfolding factoryInv_def onInformer_def by (auto simp: m simp del: map_map)
qed (use assms in \<open>simp add: onInformer_def\<close>)

lemma readsOnly_namespaced: "readsOnly src base t (if namespaced t then ns else []) tweak = readsOnly src base t ns tweak"
  by (cases src) (auto simp: readsOnly_def)

lemma accessOf_reads:
  assumes "IsValidPathSegmentName (fa_namespace (fs f)) = []"
  shows "readsOnly (si_Source (newInformer t (accessOf f fs t) base d)) base t (fa_namespace (fs f)) (fa_tweakListOptions (fs f))"
proof -
  have n: "ia_namespace (accessOf f fs t) = (if namespaced t then fa_namespace (fs f) else [])"
    "ia_tweakListOptions (accessOf f fs t) = fa_tweakListOptions (fs f)" by (simp_all only: accessOf_def informerAccess.simps)
  have v: "IsValidPathSegmentName (ia_namespace (accessOf f fs t)) = []" using assms by (simp add: accessOf_def)
  show ?thesis using newInformer_reads[OF v, of t base d] unfolding n readsOnly_namespaced .
qed

lemma ForResource_cases:
  assumes "ForResource f gvr fs = Inr (informer, fs')"
  obtains t where "gvrOf t = Some gvr" "(informer, fs') = informerOf (accessOf f fs t) t (newInformer t (accessOf f fs t)) fs"
proof -
  obtain t where "gvrOf t = Some gvr" using ForResource_unknown[of gvr f fs] assms by fastforce
  then show ?thesis using that ForResource_known[of t gvr f fs] assms by simp
qed

lemma ForResource_inv:
  assumes "\<And>f. factoryInv (fs f)" "gvrOf t = Some gvr" "ForResource f gvr fs = Inr (informer, fs')"
  shows "factoryInv (fs' f') \<and> map_of (fa_informers (fs' f)) t = Some informer \<and> fa_client (fs' f) = fa_client (fs f) \<and>
    fa_namespace (fs' f) = fa_namespace (fs f) \<and> fa_tweakListOptions (fs' f) = fa_tweakListOptions (fs f)"
proof -
  let ?new = "newInformer t (accessOf f fs t)"
  obtain F where F: "InformerFor t ?new (fs f) = (informer, F)" "fs' = fs(f := F)"
    using assms(3) ForResource_known[OF assms(2), of f fs]
    by (cases "InformerFor t ?new (fs f)") (auto simp: informerOf_def accessOf_def)
  have valid: "IsValidPathSegmentName (fa_namespace (fs f)) = []" using assms(1)[of f] by (simp add: factoryInv_def)
  have new: "si_Type (?new (fa_client (fs f)) d) = t \<and> readsOnly (si_Source (?new (fa_client (fs f)) d)) (fa_client (fs f)) t
      (fa_namespace (fs f)) (fa_tweakListOptions (fs f))" for d
    using accessOf_reads[where fs = fs, OF valid] by simp
  have "factoryInv F" "(t, informer) \<in> set (fa_informers F)" "fa_client F = fa_client (fs f)"
    "fa_namespace F = fa_namespace (fs f)" "fa_tweakListOptions F = fa_tweakListOptions (fs f)"
    using InformerFor_inv[OF assms(1) F(1) new] by blast+
  then show ?thesis using assms(1)[of f'] F(2) by (auto simp: factoryInv_def)
qed

lemma use_inv:
  assumes "use fs fs'" "\<And>f. factoryInv (fs f)"
  shows "factoryInv (fs' f')"
  using assms
proof (cases rule: use.cases)
  case (ask f gvr informer)
  then obtain t where "gvrOf t = Some gvr" by (blast elim: ForResource_cases)
  then show ?thesis using ForResource_inv[where fs = fs, OF assms(2)] ask by blast
next
  case (ask_core res f)
  obtain i F where F: "InformerFor (CoreType res) (\<lambda>client resync. NewSharedIndexInformer (CoreResource res) (CoreType res) resync
      [(NamespaceIndex, MetaNamespaceIndexFunc)]) (fs f) = (i, F)" by fastforce
  have "factoryInv F" using InformerFor_inv[OF assms(2) F] by (simp add: NewSharedIndexInformer_def readsOnly_def)
  then show ?thesis using ask_core assms(2) F by (simp add: coreInformer_def coreAccess_New_def informerOf_def)
next
  case (handler f t h d)
  then show ?thesis using onInformer_inv[where fs = fs and f' = f', OF assms(2)] by (simp add: AddEventHandlerWithResyncPeriod_def)
next
  case (index f t ix)
  then show ?thesis using onInformer_inv[where fs = fs and f' = f', OF assms(2)] by (simp add: AddIndexers_def)
next
  case (start f)
  then show ?thesis using Start_inv[OF assms(2)] assms(2) by simp
next
  case (shutdown f)
  then show ?thesis using assms(2)[of f] assms(2)[of f'] by (cases "f' = f") (auto simp: factory_Shutdown_def factoryInv_def)
qed

lemma factoryInv_informer:
  "factoryInv F \<Longrightarrow> (t, i) \<in> set (fa_informers F) \<Longrightarrow>
    si_Type i = t \<and> readsOnly (si_Source i) (fa_client F) t (fa_namespace F) (fa_tweakListOptions F)"
  by (auto simp: factoryInv_def)

lemma used_inv:
  assumes "unused fs0" "use\<^sup>*\<^sup>* fs0 fs"
  shows "factoryInv (fs f)"
  using assms(2)
proof (induction arbitrary: f)
  case base
  then show ?case using assms(1) by (simp add: unused_def factoryInv_def)
next
  case (step fs fs')
  then show ?case using use_inv by blast
qed

text \<open>C35: A factory that is asked for the informer of a group, version and resource gives the one informer of that type. It reads
  nothing but that resource of the factory's server, in the namespace of the factory and with its options; asked again,
  the factory gives the same informer. Only for what the clients do not have there is an error. However often a factory is
  started, it runs each of its informers once, and all that were asked for unless it is shutting down.\<close>

theorem informers_read_their_type:
  assumes "unused fs0" "use\<^sup>*\<^sup>* fs0 fs"
  shows "(case ForResource f gvr fs of
        Inl err \<Rightarrow> gvr \<notin> {g. \<exists>t. gvrOf t = Some g}
      | Inr (informer, fs') \<Rightarrow> gvrOf (si_Type informer) = Some gvr \<and>
          readsOnly (si_Source informer) (fa_client (fs f)) (si_Type informer) (fa_namespace (fs f)) (fa_tweakListOptions (fs f)) \<and>
          ForResource f gvr fs' = Inr (informer, fs')) \<and>
    distinct (fa_running (fs f)) \<and> set (fa_running (fs f)) \<subseteq> fst ` set (fa_informers (fs f)) \<and>
      set (fa_running (factory_Start (fs f))) =
        (if fa_shuttingDown (fs f) then set (fa_running (fs f)) else fst ` set (fa_informers (fs f)))"
proof
  note inv = used_inv[OF assms]
  show "(case ForResource f gvr fs of
        Inl err \<Rightarrow> gvr \<notin> {g. \<exists>t. gvrOf t = Some g}
      | Inr (informer, fs') \<Rightarrow> gvrOf (si_Type informer) = Some gvr \<and>
          readsOnly (si_Source informer) (fa_client (fs f)) (si_Type informer) (fa_namespace (fs f)) (fa_tweakListOptions (fs f)) \<and>
          ForResource f gvr fs' = Inr (informer, fs'))"
  proof (cases "ForResource f gvr fs")
    case (Inl err)
    then have "gvrOf t \<noteq> Some gvr" for t using ForResource_known[of t gvr f fs] by auto
    then show ?thesis using Inl by auto
  next
    case (Inr r)
    obtain informer fs' where r: "r = (informer, fs')" by fastforce
    then obtain t where t: "gvrOf t = Some gvr" using Inr by (blast elim: ForResource_cases)
    note r' = ForResource_inv[where fs = fs, OF inv t Inr[unfolded r]]
    then have "(t, informer) \<in> set (fa_informers (fs' f))" by (blast dest: map_of_SomeD)
    then have i: "si_Type informer = t"
      "readsOnly (si_Source informer) (fa_client (fs f)) t (fa_namespace (fs f)) (fa_tweakListOptions (fs f))"
      using r'[of f] factoryInv_informer[of "fs' f" t informer] by metis+
    have "ForResource f gvr fs' = Inr (informer, fs')"
      using ForResource_known[OF t, of f fs'] r' by (simp add: informerOf_def InformerFor_def accessOf_def)
    then show ?thesis using Inr r t i by simp
  qed
  obtain xs where "startInformers (fa_informers (fs f)) (fs f) =
      (fs f)\<lparr>fa_running := fa_running (fs f) @ xs, fa_startedInformers := fa_startedInformers (fs f) @ xs\<rparr>"
    "set xs = set (map fst (fa_informers (fs f))) - set (fa_startedInformers (fs f))"
    using startInformers_only by blast
  then show "distinct (fa_running (fs f)) \<and> set (fa_running (fs f)) \<subseteq> fst ` set (fa_informers (fs f)) \<and>
      set (fa_running (factory_Start (fs f))) =
        (if fa_shuttingDown (fs f) then set (fa_running (fs f)) else fst ` set (fa_informers (fs f)))"
    using inv[of f] by (auto simp: factoryInv_def factory_Start_def)
qed

text \<open>A factory that was asked for snapshots and started.\<close>

definition demoFactories :: "unit factories" where
  "demoFactories = (\<lambda>_. NewSharedInformerFactory [] 900)"

definition demoStarted :: "unit factories" where
  "demoStarted = (case ForResource SnapshotFactory (''snapshot.storage.k8s.io'', ''v1'', ''volumesnapshots'') demoFactories of
     Inl err \<Rightarrow> demoFactories | Inr (informer, fs) \<Rightarrow> fs(SnapshotFactory := factory_Start (fs SnapshotFactory)))"

theorem informers_read_their_type_witness:
  "fa_running (demoStarted SnapshotFactory) = [VolumeSnapshotType] \<and> distinct (fa_running (demoStarted SnapshotFactory)) \<and>
    (case ForResource SnapshotFactory (''groupsnapshot.storage.k8s.io'', ''v1'', ''volumegroupsnapshots'') demoStarted of
       Inl err \<Rightarrow> False
     | Inr (informer, fs') \<Rightarrow> gvrOf (si_Type informer) = Some (''groupsnapshot.storage.k8s.io'', ''v1'', ''volumegroupsnapshots''))"
proof -
  let ?gvr = "(''snapshot.storage.k8s.io'', ''v1'', ''volumesnapshots'')"
    and ?group = "(''groupsnapshot.storage.k8s.io'', ''v1'', ''volumegroupsnapshots'')"
  have u: "unused demoFactories"
    by (simp add: unused_def demoFactories_def NewSharedInformerFactory_def NewSharedInformerFactoryWithOptions_def)
  have k: "gvrOf VolumeSnapshotType = Some ?gvr" "gvrOf (VolumeGroupSnapshotType V1) = Some ?group" by simp_all
  obtain i fs where q: "ForResource SnapshotFactory ?gvr demoFactories = Inr (i, fs)"
    using ForResource_known[OF k(1), of SnapshotFactory demoFactories] by (cases "informerOf (accessOf SnapshotFactory demoFactories
      VolumeSnapshotType) VolumeSnapshotType (newInformer VolumeSnapshotType (accessOf SnapshotFactory demoFactories
      VolumeSnapshotType)) demoFactories") simp
  then have d: "demoStarted = fs(SnapshotFactory := factory_Start (fs SnapshotFactory))" by (simp add: demoStarted_def)
  have r: "use\<^sup>*\<^sup>* demoFactories demoStarted"
    unfolding d using use.ask[OF q] use.start[of fs SnapshotFactory] by (meson converse_rtranclp_into_rtranclp rtranclp.rtrancl_refl)
  obtain i' fs' where q': "ForResource SnapshotFactory ?group demoStarted = Inr (i', fs')"
    using ForResource_known[OF k(2), of SnapshotFactory demoStarted] by (cases "informerOf (accessOf SnapshotFactory demoStarted
      (VolumeGroupSnapshotType V1)) (VolumeGroupSnapshotType V1) (newInformer (VolumeGroupSnapshotType V1) (accessOf SnapshotFactory
      demoStarted (VolumeGroupSnapshotType V1))) demoStarted") simp
  have "fa_running (demoStarted SnapshotFactory) = [VolumeSnapshotType]"
    using q ForResource_known[OF k(1), of SnapshotFactory demoFactories]
    by (auto simp: d informerOf_def InformerFor_def accessOf_def demoFactories_def Let_def NewSharedInformerFactory_def
        NewSharedInformerFactoryWithOptions_def factory_Start_def)
  then show ?thesis
    using informers_read_their_type[OF u r, where f = SnapshotFactory and gvr = ?group]
    by (simp add: q' del: gvrOf.simps)
qed

end
