(* ===== verification/Listers.thy ===== *)
theory Listers
  imports Clients
begin

text \<open>
  The listers (\<open>client/listers\<close>), which read the indexer of an informer. The indexer of client-go is a map from keys to
  objects of one type, given as the list in which a range over it comes; its index by namespace finds the objects
  of a namespace. The listers of the snapshot group read it themselves, those of the group snapshots are the generic ones
  of client-go. The objects are of any type with metadata, so the listers of the older versions are covered too.
\<close>

section \<open>Reading an indexer\<close>

type_synonym 'a indexer = "(string \<times> 'a) list"

text \<open>Selectors: everything, nothing, or what some labels satisfy.\<close>

datatype selector = Everything | Nothing | Requirements "(string, string) fmap \<Rightarrow> bool"

definition ListAll :: "('a \<Rightarrow> ObjectMeta) \<Rightarrow> 'a indexer \<Rightarrow> selector \<Rightarrow> 'a list" where
  "ListAll meta store sel =
    (case sel of
       Nothing \<Rightarrow> []
     | Everything \<Rightarrow> map snd store
     | Requirements matches \<Rightarrow> filter (\<lambda>m. matches (Labels (meta m))) (map snd store))"

definition ListAllByNamespace :: "('a \<Rightarrow> ObjectMeta) \<Rightarrow> 'a indexer \<Rightarrow> string \<Rightarrow> selector \<Rightarrow> 'a list" where
  "ListAllByNamespace meta indexer namespace sel =
    (if sel = Nothing then []
     else if namespace = [] then ListAll meta indexer sel
     else let items = filter (\<lambda>m. Namespace (meta m) = namespace) (map snd indexer) in
       (case sel of Requirements matches \<Rightarrow> filter (\<lambda>m. matches (Labels (meta m))) items | _ \<Rightarrow> items))"

definition NewNotFound :: "string \<Rightarrow> string \<Rightarrow> string \<Rightarrow> goerr" where
  "NewNotFound grp resource name = APIStatus StatusNotFound
    (sprint [resource @ (if grp = [] then [] else ''.'' @ grp), '' '', goQuote name, '' not found''])"

definition getByKey :: "'a indexer \<Rightarrow> string \<Rightarrow> goerr \<Rightarrow> goerr + 'a" where
  "getByKey indexer key err = (case map_of indexer key of None \<Rightarrow> Inl err | Some x \<Rightarrow> Inr x)"

section \<open>The listers of the snapshot group\<close>

text \<open>A lister is its indexer; that of a namespace has the namespace beside it.\<close>

definition NewVolumeSnapshotLister :: "'a indexer \<Rightarrow> 'a indexer" where
  "NewVolumeSnapshotLister ix = ix"

definition volumeSnapshotLister_List :: "VolumeSnapshot indexer \<Rightarrow> selector \<Rightarrow> VolumeSnapshot list" where
  "volumeSnapshotLister_List s sel = ListAll vs_meta s sel"

definition volumeSnapshotLister_VolumeSnapshots :: "VolumeSnapshot indexer \<Rightarrow> string \<Rightarrow> VolumeSnapshot indexer \<times> string" where
  "volumeSnapshotLister_VolumeSnapshots s namespace = (s, namespace)"

definition volumeSnapshotNamespaceLister_List :: "VolumeSnapshot indexer \<times> string \<Rightarrow> selector \<Rightarrow> VolumeSnapshot list" where
  "volumeSnapshotNamespaceLister_List s sel = ListAllByNamespace vs_meta (fst s) (snd s) sel"

definition volumeSnapshotNamespaceLister_Get :: "VolumeSnapshot indexer \<times> string \<Rightarrow> string \<Rightarrow> goerr + VolumeSnapshot" where
  "volumeSnapshotNamespaceLister_Get s name =
    getByKey (fst s) (snd s @ ''/'' @ name) (NewNotFound ''snapshot.storage.k8s.io'' ''volumesnapshot'' name)"

definition NewVolumeSnapshotContentLister :: "'a indexer \<Rightarrow> 'a indexer" where
  "NewVolumeSnapshotContentLister ix = ix"

definition volumeSnapshotContentLister_List :: "VolumeSnapshotContent indexer \<Rightarrow> selector \<Rightarrow> VolumeSnapshotContent list" where
  "volumeSnapshotContentLister_List s sel = ListAll vsc_meta s sel"

definition volumeSnapshotContentLister_Get :: "VolumeSnapshotContent indexer \<Rightarrow> string \<Rightarrow> goerr + VolumeSnapshotContent" where
  "volumeSnapshotContentLister_Get s name = getByKey s name (NewNotFound ''snapshot.storage.k8s.io'' ''volumesnapshotcontent'' name)"

definition NewVolumeSnapshotClassLister :: "'a indexer \<Rightarrow> 'a indexer" where
  "NewVolumeSnapshotClassLister ix = ix"

definition volumeSnapshotClassLister_List :: "VolumeSnapshotClass indexer \<Rightarrow> selector \<Rightarrow> VolumeSnapshotClass list" where
  "volumeSnapshotClassLister_List s sel = ListAll vsclass_meta s sel"

definition volumeSnapshotClassLister_Get :: "VolumeSnapshotClass indexer \<Rightarrow> string \<Rightarrow> goerr + VolumeSnapshotClass" where
  "volumeSnapshotClassLister_Get s name = getByKey s name (NewNotFound ''snapshot.storage.k8s.io'' ''volumesnapshotclass'' name)"

section \<open>The generic listers\<close>

record 'a ResourceIndexer =
  ri_indexer :: "'a indexer"
  ri_resource :: "string \<times> string"
  ri_namespace :: string

definition listers_New :: "'a indexer \<Rightarrow> string \<times> string \<Rightarrow> 'a ResourceIndexer" where
  "listers_New ix resource = \<lparr>ri_indexer = ix, ri_resource = resource, ri_namespace = []\<rparr>"

definition listers_NewNamespaced :: "'a ResourceIndexer \<Rightarrow> string \<Rightarrow> 'a ResourceIndexer" where
  "listers_NewNamespaced parent namespace =
    \<lparr>ri_indexer = ri_indexer parent, ri_resource = ri_resource parent, ri_namespace = namespace\<rparr>"

definition resourceIndexer_List :: "('a \<Rightarrow> ObjectMeta) \<Rightarrow> 'a ResourceIndexer \<Rightarrow> selector \<Rightarrow> 'a list" where
  "resourceIndexer_List meta l sel = ListAllByNamespace meta (ri_indexer l) (ri_namespace l) sel"

definition resourceIndexer_Get :: "'a ResourceIndexer \<Rightarrow> string \<Rightarrow> goerr + 'a" where
  "resourceIndexer_Get l name =
    getByKey (ri_indexer l) (if ri_namespace l = [] then name else ri_namespace l @ ''/'' @ name)
      (NewNotFound (fst (ri_resource l)) (snd (ri_resource l)) name)"

text \<open>The listers of the group snapshots, in each version.\<close>

definition NewVolumeGroupSnapshotLister_v1 :: "'a indexer \<Rightarrow> 'a ResourceIndexer" where
  "NewVolumeGroupSnapshotLister_v1 ix = listers_New ix (''groupsnapshot.storage.k8s.io'', ''volumegroupsnapshot'')"

definition volumeGroupSnapshotLister_VolumeGroupSnapshots_v1 :: "'a ResourceIndexer \<Rightarrow> string \<Rightarrow> 'a ResourceIndexer" where
  "volumeGroupSnapshotLister_VolumeGroupSnapshots_v1 s namespace = listers_NewNamespaced s namespace"

definition NewVolumeGroupSnapshotContentLister_v1 :: "'a indexer \<Rightarrow> 'a ResourceIndexer" where
  "NewVolumeGroupSnapshotContentLister_v1 ix = listers_New ix (''groupsnapshot.storage.k8s.io'', ''volumegroupsnapshotcontent'')"

definition NewVolumeGroupSnapshotClassLister_v1 :: "'a indexer \<Rightarrow> 'a ResourceIndexer" where
  "NewVolumeGroupSnapshotClassLister_v1 ix = listers_New ix (''groupsnapshot.storage.k8s.io'', ''volumegroupsnapshotclass'')"

definition NewVolumeGroupSnapshotLister_v1beta1 :: "'a indexer \<Rightarrow> 'a ResourceIndexer" where
  "NewVolumeGroupSnapshotLister_v1beta1 ix = listers_New ix (''groupsnapshot.storage.k8s.io'', ''volumegroupsnapshot'')"

definition volumeGroupSnapshotLister_VolumeGroupSnapshots_v1beta1 :: "'a ResourceIndexer \<Rightarrow> string \<Rightarrow> 'a ResourceIndexer" where
  "volumeGroupSnapshotLister_VolumeGroupSnapshots_v1beta1 s namespace = listers_NewNamespaced s namespace"

definition NewVolumeGroupSnapshotContentLister_v1beta1 :: "'a indexer \<Rightarrow> 'a ResourceIndexer" where
  "NewVolumeGroupSnapshotContentLister_v1beta1 ix = listers_New ix (''groupsnapshot.storage.k8s.io'', ''volumegroupsnapshotcontent'')"

definition NewVolumeGroupSnapshotClassLister_v1beta1 :: "'a indexer \<Rightarrow> 'a ResourceIndexer" where
  "NewVolumeGroupSnapshotClassLister_v1beta1 ix = listers_New ix (''groupsnapshot.storage.k8s.io'', ''volumegroupsnapshotclass'')"

definition NewVolumeGroupSnapshotLister_v1beta2 :: "'a indexer \<Rightarrow> 'a ResourceIndexer" where
  "NewVolumeGroupSnapshotLister_v1beta2 ix = listers_New ix (''groupsnapshot.storage.k8s.io'', ''volumegroupsnapshot'')"

definition volumeGroupSnapshotLister_VolumeGroupSnapshots_v1beta2 :: "'a ResourceIndexer \<Rightarrow> string \<Rightarrow> 'a ResourceIndexer" where
  "volumeGroupSnapshotLister_VolumeGroupSnapshots_v1beta2 s namespace = listers_NewNamespaced s namespace"

definition NewVolumeGroupSnapshotContentLister_v1beta2 :: "'a indexer \<Rightarrow> 'a ResourceIndexer" where
  "NewVolumeGroupSnapshotContentLister_v1beta2 ix = listers_New ix (''groupsnapshot.storage.k8s.io'', ''volumegroupsnapshotcontent'')"

definition NewVolumeGroupSnapshotClassLister_v1beta2 :: "'a indexer \<Rightarrow> 'a ResourceIndexer" where
  "NewVolumeGroupSnapshotClassLister_v1beta2 ix = listers_New ix (''groupsnapshot.storage.k8s.io'', ''volumegroupsnapshotclass'')"

section \<open>What the listers find\<close>

text \<open>An indexer that holds some objects, each under its key.\<close>

definition holds :: "('a \<Rightarrow> ObjectMeta) \<Rightarrow> 'a set \<Rightarrow> 'a indexer \<Rightarrow> bool" where
  "holds meta xs ix \<longleftrightarrow> distinct (map fst ix) \<and> set ix = (\<lambda>x. (keyFunc (meta x), x)) ` xs"

definition plainNames :: "ObjectMeta \<Rightarrow> bool" where
  "plainNames m \<longleftrightarrow> noSlash (Namespace m) \<and> noSlash (Name m)"

lemma slash_split:
  assumes "noSlash a" "noSlash b" "a @ ''/'' @ b = c @ ''/'' @ d"
  shows "a = c \<and> b = d"
proof -
  have "takeWhile (\<lambda>x. x \<noteq> CHR ''/'') (a @ ''/'' @ b) = a" "dropWhile (\<lambda>x. x \<noteq> CHR ''/'') (a @ ''/'' @ b) = ''/'' @ b"
    using assms(1) unfolding noSlash_def by (induction a) auto
  then have t: "takeWhile (\<lambda>x. x \<noteq> CHR ''/'') (c @ ''/'' @ d) = a" "dropWhile (\<lambda>x. x \<noteq> CHR ''/'') (c @ ''/'' @ d) = ''/'' @ b"
    using assms(3) by simp_all
  have "noSlash c"
  proof (rule ccontr)
    assume "\<not> noSlash c"
    then have "dropWhile (\<lambda>x. x \<noteq> CHR ''/'') (c @ ''/'' @ d) = dropWhile (\<lambda>x. x \<noteq> CHR ''/'') c @ ''/'' @ d"
      by (auto simp: noSlash_def)
    moreover have dropped: "CHR ''/'' \<in> set c \<Longrightarrow> \<exists>r. dropWhile (\<lambda>x. x \<noteq> CHR ''/'') c = CHR ''/'' # r"
      by (induction c) auto
    moreover obtain r where "dropWhile (\<lambda>x. x \<noteq> CHR ''/'') c = CHR ''/'' # r"
      using dropped \<open>\<not> noSlash c\<close> by (auto simp: noSlash_def)
    ultimately have "b = r @ ''/'' @ d" using t(2) by simp
    then show False using assms(2) by (simp add: noSlash_def)
  qed
  then have "takeWhile (\<lambda>x. x \<noteq> CHR ''/'') (c @ ''/'' @ d) = c" unfolding noSlash_def by (induction c) auto
  then show ?thesis using t(1) assms(3) by simp
qed

lemma keyFunc_namespaced:
  assumes "plainNames m"
  shows "keyFunc m = ns @ ''/'' @ name \<longleftrightarrow> ns \<noteq> [] \<and> Namespace m = ns \<and> Name m = name"
proof (cases "Namespace m = []")
  case True
  then show ?thesis using assms by (auto simp: keyFunc_def MetaNamespaceKey_def plainNames_def noSlash_def)
next
  case False
  then show ?thesis using assms slash_split[of "Namespace m" "Name m" ns name] by (auto simp: keyFunc_def MetaNamespaceKey_def plainNames_def)
qed

lemma keyFunc_clusterScoped: "Namespace m = [] \<Longrightarrow> keyFunc m = Name m"
  by (simp add: keyFunc_def MetaNamespaceKey_def)

lemma getByKey_holds:
  assumes "holds meta xs ix"
  shows "getByKey ix key err = Inr x \<longleftrightarrow> x \<in> xs \<and> keyFunc (meta x) = key"
    and "getByKey ix key err = Inl e \<longleftrightarrow> e = err \<and> (\<forall>x\<in>xs. keyFunc (meta x) \<noteq> key)"
proof -
  have m: "map_of ix key = Some y \<longleftrightarrow> y \<in> xs \<and> keyFunc (meta y) = key" for y
    using assms by (auto simp: holds_def map_of_eq_Some_iff)
  show "getByKey ix key err = Inr x \<longleftrightarrow> x \<in> xs \<and> keyFunc (meta x) = key"
    using m[of x] m by (cases "map_of ix key") (auto simp: getByKey_def)
  have "map_of ix key = None \<longleftrightarrow> (\<forall>x\<in>xs. keyFunc (meta x) \<noteq> key)" using m by (metis not_Some_eq)
  then show "getByKey ix key err = Inl e \<longleftrightarrow> e = err \<and> (\<forall>x\<in>xs. keyFunc (meta x) \<noteq> key)"
    by (auto simp: getByKey_def split: option.splits)
qed

fun chosen :: "selector \<Rightarrow> ObjectMeta \<Rightarrow> bool" where
  "chosen Everything m = True"
| "chosen Nothing m = False"
| "chosen (Requirements matches) m = matches (Labels m)"

lemma ListAll_holds: "holds meta xs ix \<Longrightarrow> set (ListAll meta ix sel) = {x \<in> xs. chosen sel (meta x)}"
  by (cases sel) (auto simp: ListAll_def holds_def image_iff)

lemma ListAllByNamespace_holds:
  assumes "holds meta xs ix"
  shows "set (ListAllByNamespace meta ix ns sel) = {x \<in> xs. chosen sel (meta x) \<and> (ns = [] \<or> Namespace (meta x) = ns)}"
proof -
  have "snd ` set ix = xs" using assms by (auto simp: holds_def image_iff)
  then show ?thesis using ListAll_holds[OF assms, of sel]
    by (cases sel) (auto simp: ListAllByNamespace_def Let_def)
qed

text \<open>What an informer holds is what its listers give: a lookup finds an object exactly when one with that namespace and name
  is held, and says that there is none otherwise; a list gives the held objects of its namespace that the selector chooses.
  So it is for snapshots and contents, whose listers read the indexer themselves, and for group snapshots, whose listers are
  generic.\<close>

theorem listers_find_what_is_held:
  assumes "holds vs_meta xs sx" "holds vsc_meta cs cx" "holds vgs_meta gs gx"
    and "\<And>x. x \<in> xs \<Longrightarrow> plainNames (vs_meta x)" "\<And>c. c \<in> cs \<Longrightarrow> Namespace (vsc_meta c) = []"
    and "\<And>g. g \<in> gs \<Longrightarrow> plainNames (vgs_meta g)" and "ns \<noteq> []"
  shows "(case volumeSnapshotNamespaceLister_Get (volumeSnapshotLister_VolumeSnapshots (NewVolumeSnapshotLister sx) ns) name of
        Inr x \<Rightarrow> x \<in> xs \<and> vs_Namespace x = ns \<and> vs_Name x = name
      | Inl e \<Rightarrow> IsNotFound e \<and> xs \<inter> {x. vs_Namespace x = ns \<and> vs_Name x = name} = {}) \<and>
    (case volumeSnapshotContentLister_Get (NewVolumeSnapshotContentLister cx) name of
        Inr c \<Rightarrow> c \<in> cs \<and> vsc_Name c = name
      | Inl e \<Rightarrow> IsNotFound e \<and> cs \<inter> {c. vsc_Name c = name} = {}) \<and>
    (case resourceIndexer_Get (volumeGroupSnapshotLister_VolumeGroupSnapshots_v1 (NewVolumeGroupSnapshotLister_v1 gx) ns) name of
        Inr g \<Rightarrow> g \<in> gs \<and> vgs_Namespace g = ns \<and> vgs_Name g = name
      | Inl e \<Rightarrow> IsNotFound e \<and> gs \<inter> {g. vgs_Namespace g = ns \<and> vgs_Name g = name} = {}) \<and>
    (set (volumeSnapshotNamespaceLister_List (volumeSnapshotLister_VolumeSnapshots (NewVolumeSnapshotLister sx) ns) sel) =
        {x \<in> xs. chosen sel (vs_meta x) \<and> vs_Namespace x = ns}) \<and>
    (set (volumeSnapshotContentLister_List (NewVolumeSnapshotContentLister cx) sel) = {c \<in> cs. chosen sel (vsc_meta c)}) \<and>
    (set (resourceIndexer_List vgs_meta
          (volumeGroupSnapshotLister_VolumeGroupSnapshots_v1 (NewVolumeGroupSnapshotLister_v1 gx) ns) sel) =
        {g \<in> gs. chosen sel (vgs_meta g) \<and> vgs_Namespace g = ns})"
proof (intro conjI)
  have key: "plainNames m \<Longrightarrow> keyFunc m = ns @ CHR ''/'' # name \<longleftrightarrow> Namespace m = ns \<and> Name m = name" for m
    using keyFunc_namespaced[of m ns name] assms(7) by simp
  note g = getByKey_holds[OF assms(1)] getByKey_holds[OF assms(2)] getByKey_holds[OF assms(3)]
  note lister_defs = NewVolumeSnapshotLister_def volumeSnapshotLister_VolumeSnapshots_def volumeSnapshotNamespaceLister_Get_def
    NewVolumeSnapshotContentLister_def volumeSnapshotContentLister_Get_def volumeGroupSnapshotLister_VolumeGroupSnapshots_v1_def
    NewVolumeGroupSnapshotLister_v1_def listers_New_def listers_NewNamespaced_def resourceIndexer_Get_def
    volumeSnapshotNamespaceLister_List_def volumeSnapshotContentLister_List_def resourceIndexer_List_def
  show "(case volumeSnapshotNamespaceLister_Get (volumeSnapshotLister_VolumeSnapshots (NewVolumeSnapshotLister sx) ns) name of
        Inr x \<Rightarrow> x \<in> xs \<and> vs_Namespace x = ns \<and> vs_Name x = name
      | Inl e \<Rightarrow> IsNotFound e \<and> xs \<inter> {x. vs_Namespace x = ns \<and> vs_Name x = name} = {})"
    using assms(4,7) by (fastforce simp: lister_defs g key NewNotFound_def split: sum.splits)
  show "(case volumeSnapshotContentLister_Get (NewVolumeSnapshotContentLister cx) name of
        Inr c \<Rightarrow> c \<in> cs \<and> vsc_Name c = name
      | Inl e \<Rightarrow> IsNotFound e \<and> cs \<inter> {c. vsc_Name c = name} = {})"
    using assms(5) by (fastforce simp: lister_defs g keyFunc_clusterScoped NewNotFound_def split: sum.splits)
  show "(case resourceIndexer_Get (volumeGroupSnapshotLister_VolumeGroupSnapshots_v1 (NewVolumeGroupSnapshotLister_v1 gx) ns) name of
        Inr g \<Rightarrow> g \<in> gs \<and> vgs_Namespace g = ns \<and> vgs_Name g = name
      | Inl e \<Rightarrow> IsNotFound e \<and> gs \<inter> {g. vgs_Namespace g = ns \<and> vgs_Name g = name} = {})"
    using assms(6,7) by (fastforce simp: lister_defs g key NewNotFound_def split: sum.splits)
  show "set (volumeSnapshotNamespaceLister_List (volumeSnapshotLister_VolumeSnapshots (NewVolumeSnapshotLister sx) ns) sel) =
        {x \<in> xs. chosen sel (vs_meta x) \<and> vs_Namespace x = ns}"
    using assms(7) by (auto simp: lister_defs ListAllByNamespace_holds[OF assms(1)])
  show "set (volumeSnapshotContentLister_List (NewVolumeSnapshotContentLister cx) sel) = {c \<in> cs. chosen sel (vsc_meta c)}"
    by (simp add: lister_defs ListAll_holds[OF assms(2)])
  show "set (resourceIndexer_List vgs_meta
          (volumeGroupSnapshotLister_VolumeGroupSnapshots_v1 (NewVolumeGroupSnapshotLister_v1 gx) ns) sel) =
        {g \<in> gs. chosen sel (vgs_meta g) \<and> vgs_Namespace g = ns}"
    using assms(7) by (auto simp: lister_defs ListAllByNamespace_holds[OF assms(3)])
qed

text \<open>Two snapshots of one name, in two namespaces.\<close>

definition demoNamed :: "string \<Rightarrow> string \<Rightarrow> VolumeSnapshot" where
  "demoNamed ns name = emptyVolumeSnapshot\<lparr>vs_meta := emptyMeta\<lparr>Namespace := ns, Name := name\<rparr>\<rparr>"

theorem listers_find_what_is_held_witness:
  "(case volumeSnapshotNamespaceLister_Get (volumeSnapshotLister_VolumeSnapshots (NewVolumeSnapshotLister
        [(''ns1/snap'', demoNamed ''ns1'' ''snap''), (''ns2/snap'', demoNamed ''ns2'' ''snap'')]) ''ns2'') ''snap'' of
      Inr x \<Rightarrow> x = demoNamed ''ns2'' ''snap''
    | Inl e \<Rightarrow> False)"
proof -
  let ?a = "demoNamed ''ns1'' ''snap''" and ?b = "demoNamed ''ns2'' ''snap''"
  let ?ix = "[(''ns1/snap'', ?a), (''ns2/snap'', ?b)]"
  have sel: "Namespace (vs_meta (demoNamed ns n)) = ns" "Name (vs_meta (demoNamed ns n)) = n" for ns n
    by (simp_all add: demoNamed_def)
  have "holds vs_meta {?a, ?b} ?ix"
    by (auto simp: holds_def keyFunc_def MetaNamespaceKey_def sel)
  moreover have "holds vsc_meta ({} :: VolumeSnapshotContent set) []" "holds vgs_meta ({} :: VolumeGroupSnapshot set) []" by (simp_all add: holds_def)
  moreover have "plainNames (vs_meta x)" if "x \<in> {?a, ?b}" for x
    using that by (auto simp: plainNames_def noSlash_def sel)
  ultimately show ?thesis
    using listers_find_what_is_held[of "{?a, ?b}" ?ix "{}" "[]" "{}" "[]" "''ns2''" "''snap''" Everything]
    by (auto simp: sel split: sum.splits)
qed

end
