(* ===== verification/Construction.thy ===== *)
theory Construction
  imports Access Informers Shutdown
begin

text \<open>
  How the two processes put themselves together: the informers that \<open>main\<close> hands to the constructors
  (\<open>NewCSISnapshotCommonController\<close>, \<open>NewCSISnapshotSideCarController\<close>), the handlers and indices the constructors add to them,
  the informers \<open>Run\<close> waits for, and the start of the factories. What the informers read is set against the roles,
  and what they hand on against the queues that have workers.
\<close>

section \<open>Handlers\<close>

definition snapshotHandler :: "'w eventHandler" where
  "snapshotHandler =
    \<lparr>AddFunc = \<lambda>ob s. Some (enqueueSnapshotWork (InformerObj ob) s),
     UpdateFunc = \<lambda>oldObj newObj s. Some (enqueueSnapshotWork (InformerObj newObj) s),
     DeleteFunc = \<lambda>ob s. Some (enqueueSnapshotWork ob s)\<rparr>"

definition contentHandler :: "'w eventHandler" where
  "contentHandler =
    \<lparr>AddFunc = \<lambda>ob s. Some (enqueueContentWork (InformerObj ob) s),
     UpdateFunc = \<lambda>oldObj newObj s. Some (enqueueContentWork (InformerObj newObj) s),
     DeleteFunc = \<lambda>ob s. Some (enqueueContentWork ob s)\<rparr>"

definition groupSnapshotHandler :: "'w eventHandler" where
  "groupSnapshotHandler =
    \<lparr>AddFunc = \<lambda>ob s. Some (enqueueGroupSnapshotWork (InformerObj ob) s),
     UpdateFunc = \<lambda>oldObj newObj s. Some (enqueueGroupSnapshotWork (InformerObj newObj) s),
     DeleteFunc = \<lambda>ob s. Some (enqueueGroupSnapshotWork ob s)\<rparr>"

definition groupSnapshotContentHandler :: "'w eventHandler" where
  "groupSnapshotContentHandler =
    \<lparr>AddFunc = \<lambda>ob s. Some (enqueueGroupSnapshotContentWork (InformerObj ob) s),
     UpdateFunc = \<lambda>oldObj newObj s. Some (enqueueGroupSnapshotContentWork (InformerObj newObj) s),
     DeleteFunc = \<lambda>ob s. Some (enqueueGroupSnapshotContentWork ob s)\<rparr>"

text \<open>The sidecar asserts the type of both objects of an update.\<close>

fun updateOfContents :: "obj \<Rightarrow> obj \<Rightarrow> 'w st \<Rightarrow> 'w st option" where
  "updateOfContents (ObjVSC oldObj) (ObjVSC newObj) s = Some (onContentUpdate oldObj newObj s)"
| "updateOfContents _ _ s = None"

definition contentHandler_sidecar :: "'w eventHandler" where
  "contentHandler_sidecar =
    \<lparr>AddFunc = \<lambda>ob s. Some (enqueueContentWork_sidecar (InformerObj ob) s),
     UpdateFunc = updateOfContents,
     DeleteFunc = \<lambda>ob s. Some (enqueueContentWork_sidecar ob s)\<rparr>"

definition groupSnapshotContentHandler_sidecar :: "'w eventHandler" where
  "groupSnapshotContentHandler_sidecar =
    \<lparr>AddFunc = \<lambda>ob s. Some (enqueueGroupSnapshotContentWork_sidecar (InformerObj ob) s),
     UpdateFunc = \<lambda>oldObj newObj s. Some (enqueueGroupSnapshotContentWork_sidecar (InformerObj newObj) s),
     DeleteFunc = \<lambda>ob s. Some (enqueueGroupSnapshotContentWork_sidecar ob s)\<rparr>"

section \<open>Indices\<close>

text \<open>The functions of the two indices that the common controller adds, and a lookup in an index.\<close>

definition volumeHandleIndex :: "PersistentVolume \<Rightarrow> string list" where
  "volumeHandleIndex pv = (let key = PersistentVolumeKeyFunc (Some pv) in if key \<noteq> [] then [key] else [])"

definition parentGroupIndex :: "VolumeSnapshot \<Rightarrow> string list" where
  "parentGroupIndex snapshot = (let key = VolumeSnapshotParentGroupKeyFunc snapshot in if key \<noteq> [] then [key] else [])"

definition byIndex :: "('a \<Rightarrow> string list) \<Rightarrow> string \<Rightarrow> 'a list \<Rightarrow> 'a list" where
  "byIndex f key xs = filter (\<lambda>x. key \<in> set (f x)) xs"

lemma caret_split:
  assumes "CHR ''^'' \<notin> set a" "CHR ''^'' \<notin> set c" "a @ CHR ''^'' # b = c @ CHR ''^'' # d"
  shows "a = c \<and> b = d"
proof -
  have "takeWhile (\<lambda>x. x \<noteq> CHR ''^'') (a @ CHR ''^'' # b) = a"
    if "CHR ''^'' \<notin> set a" for a b :: string using that by (induction a) auto
  then have "a = c" using assms by metis
  then show ?thesis using assms(3) by simp
qed

text \<open>The lookup by the key of a group finds the members of that group, and the lookup by driver and handle the volume.\<close>

lemma members_by_index:
  assumes "\<And>x. x \<in> set xs \<Longrightarrow> CHR ''^'' \<notin> set (vs_Namespace x)" "CHR ''^'' \<notin> set ns" "name \<noteq> []"
  shows "set (byIndex parentGroupIndex (VolumeSnapshotParentGroupKeyFuncByComponents ns name) xs) =
    {x \<in> set xs. vs_Namespace x = ns \<and> getVolumeGroupSnapshotParentObjectName x = name}"
proof -
  have "VolumeSnapshotParentGroupKeyFuncByComponents ns name \<in> set (parentGroupIndex x) \<longleftrightarrow>
      vs_Namespace x = ns \<and> getVolumeGroupSnapshotParentObjectName x = name" if "x \<in> set xs" for x
    using assms(1)[OF that] assms(2,3) caret_split[of ns "vs_Namespace x" name "getVolumeGroupSnapshotParentObjectName x"]
    by (auto simp: parentGroupIndex_def VolumeSnapshotParentGroupKeyFunc_def VolumeSnapshotParentGroupKeyFuncByComponents_def Let_def)
  then show ?thesis by (auto simp: byIndex_def)
qed

lemma volumes_by_index:
  assumes "\<And>p c. p \<in> set pvs \<Longrightarrow> pv_CSI p = Some c \<Longrightarrow> CHR ''^'' \<notin> set (csi_Driver c)" "CHR ''^'' \<notin> set driver"
  shows "set (byIndex volumeHandleIndex (PersistentVolumeKeyFuncByCSIDriverHandle driver handle) pvs) =
    {p \<in> set pvs. \<exists>c. pv_CSI p = Some c \<and> csi_Driver c = driver \<and> csi_VolumeHandle c = handle}"
proof -
  have "PersistentVolumeKeyFuncByCSIDriverHandle driver handle \<in> set (volumeHandleIndex p) \<longleftrightarrow>
      (\<exists>c. pv_CSI p = Some c \<and> csi_Driver c = driver \<and> csi_VolumeHandle c = handle)" if p: "p \<in> set pvs" for p
  proof (cases "pv_CSI p")
    case (Some c)
    then show ?thesis using assms(1)[OF p] assms(2) caret_split[of driver "csi_Driver c" handle "csi_VolumeHandle c"]
      by (auto simp: volumeHandleIndex_def PersistentVolumeKeyFunc_def PersistentVolumeKeyFuncByCSIDriverHandle_def Let_def)
  qed (simp add: volumeHandleIndex_def PersistentVolumeKeyFunc_def)
  then show ?thesis by (auto simp: byIndex_def)
qed

section \<open>The common controller\<close>

text \<open>What a controller keeps of its informers: \<open>HasSynced\<close> of one is named by its factory and type; \<open>None\<close> is a nil function.\<close>

type_synonym informerRef = "factoryId \<times> objectType"

record csiSnapshotCommonController =
  cc_snapshotListerSynced :: "informerRef option"
  cc_contentListerSynced :: "informerRef option"
  cc_classListerSynced :: "informerRef option"
  cc_pvcListerSynced :: "informerRef option"
  cc_pvListerSynced :: "informerRef option"
  cc_nodeListerSynced :: "informerRef option"
  cc_groupSnapshotListerSynced :: "informerRef option"
  cc_groupSnapshotContentListerSynced :: "informerRef option"
  cc_groupSnapshotClassListerSynced :: "informerRef option"
  cc_pvIndexer :: "informerRef option"
  cc_snapshotIndexer :: "informerRef option"
  cc_queues :: "queue list"
  cc_stores :: "queue list"
  cc_resyncPeriod :: int
  cc_enableDistributedSnapshotting :: bool
  cc_preventVolumeModeConversion :: bool
  cc_enableVolumeGroupSnapshots :: bool

definition CSIDriverHandleIndexName :: string where
  "CSIDriverHandleIndexName = ''ByVolumeHandle''"

definition VolumeSnapshotParentGroupIndex :: string where
  "VolumeSnapshotParentGroupIndex = ''ByVolumeGroupSnapshotMembership''"

text \<open>A lister is asked for through its informer, which makes the informer. The node informer is nil unless snapshots are
  distributed, and its use then a panic.\<close>

definition NewCSISnapshotCommonController ::
  "informerAccess \<Rightarrow> informerAccess \<Rightarrow> informerAccess \<Rightarrow> informerAccess \<Rightarrow> informerAccess \<Rightarrow> informerAccess \<Rightarrow>
   informerAccess \<Rightarrow> informerAccess \<Rightarrow> informerAccess option \<Rightarrow> int \<Rightarrow> bool \<Rightarrow> bool \<Rightarrow> bool \<Rightarrow> 'w factories \<Rightarrow>
   (csiSnapshotCommonController \<times> 'w factories) option" where
  "NewCSISnapshotCommonController snapshots contents classes groupSnapshots groupContents groupClasses pvcs pvs nodes
     resyncPeriod distributed preventConversion groups fs =
    (let fs = snd (coreInformer ''persistentvolumeclaims'' pvcs fs);
         fs = snd (coreInformer ''persistentvolumes'' pvs fs);
         fs = onInformer (ia_factory pvs) (CoreType ''persistentvolumes'')
                (AddIndexers [(CSIDriverHandleIndexName, VolumeHandleIndexFunc)]) fs;
         fs = snd (VolumeSnapshotInformer snapshots fs);
         fs = onInformer (ia_factory snapshots) VolumeSnapshotType
                (AddEventHandlerWithResyncPeriod snapshotHandler resyncPeriod) fs;
         fs = onInformer (ia_factory snapshots) VolumeSnapshotType
                (AddIndexers [(VolumeSnapshotParentGroupIndex, ParentGroupIndexFunc)]) fs;
         fs = snd (VolumeSnapshotContentInformer contents fs);
         fs = onInformer (ia_factory contents) VolumeSnapshotContentType
                (AddEventHandlerWithResyncPeriod contentHandler resyncPeriod) fs;
         fs = snd (VolumeSnapshotClassInformer classes fs);
         ctrl = \<lparr>cc_snapshotListerSynced = Some (ia_factory snapshots, VolumeSnapshotType),
           cc_contentListerSynced = Some (ia_factory contents, VolumeSnapshotContentType),
           cc_classListerSynced = Some (ia_factory classes, VolumeSnapshotClassType),
           cc_pvcListerSynced = Some (ia_factory pvcs, CoreType ''persistentvolumeclaims''),
           cc_pvListerSynced = Some (ia_factory pvs, CoreType ''persistentvolumes''),
           cc_nodeListerSynced = None, cc_groupSnapshotListerSynced = None, cc_groupSnapshotContentListerSynced = None,
           cc_groupSnapshotClassListerSynced = None,
           cc_pvIndexer = Some (ia_factory pvs, CoreType ''persistentvolumes''),
           cc_snapshotIndexer = Some (ia_factory snapshots, VolumeSnapshotType),
           cc_queues = [QSnapshot, QContent], cc_stores = [QSnapshot, QContent], cc_resyncPeriod = resyncPeriod,
           cc_enableDistributedSnapshotting = distributed, cc_preventVolumeModeConversion = preventConversion,
           cc_enableVolumeGroupSnapshots = groups\<rparr>
     in do {
       (ctrl, fs) \<leftarrow>
         (if distributed
          then (case nodes of
              None \<Rightarrow> None
            | Some a \<Rightarrow> Some (ctrl\<lparr>cc_nodeListerSynced := Some (ia_factory a, CoreType ''nodes'')\<rparr>,
                snd (coreInformer ''nodes'' a fs)))
          else Some (ctrl, fs));
       Some (if groups
         then (let fs = snd (VolumeGroupSnapshotInformer_v1 groupSnapshots fs);
                   fs = onInformer (ia_factory groupSnapshots) (VolumeGroupSnapshotType V1)
                          (AddEventHandlerWithResyncPeriod groupSnapshotHandler resyncPeriod) fs;
                   fs = snd (VolumeGroupSnapshotContentInformer_v1 groupContents fs);
                   fs = onInformer (ia_factory groupContents) (VolumeGroupSnapshotContentType V1)
                          (AddEventHandlerWithResyncPeriod groupSnapshotContentHandler resyncPeriod) fs;
                   fs = snd (VolumeGroupSnapshotClassInformer_v1 groupClasses fs)
               in (ctrl\<lparr>cc_groupSnapshotListerSynced := Some (ia_factory groupSnapshots, VolumeGroupSnapshotType V1),
                     cc_groupSnapshotContentListerSynced := Some (ia_factory groupContents, VolumeGroupSnapshotContentType V1),
                     cc_groupSnapshotClassListerSynced := Some (ia_factory groupClasses, VolumeGroupSnapshotClassType V1),
                     cc_queues := cc_queues ctrl @ [QGroupSnapshot, QGroupContent],
                     cc_stores := cc_stores ctrl @ [QGroupSnapshot, QGroupContent]\<rparr>, fs))
         else (ctrl, fs)) })"

definition common_informersSynced :: "csiSnapshotCommonController \<Rightarrow> informerRef option list" where
  "common_informersSynced ctrl =
    [cc_snapshotListerSynced ctrl, cc_contentListerSynced ctrl, cc_classListerSynced ctrl, cc_pvcListerSynced ctrl,
     cc_pvListerSynced ctrl] @
    (if cc_enableDistributedSnapshotting ctrl then [cc_nodeListerSynced ctrl] else []) @
    (if cc_enableVolumeGroupSnapshots ctrl
     then [cc_groupSnapshotListerSynced ctrl, cc_groupSnapshotContentListerSynced ctrl, cc_groupSnapshotClassListerSynced ctrl]
     else [])"

text \<open>\<open>main\<close>, from the factories to their start, for a server and a resync period.\<close>

definition commonProcess ::
  "string list \<Rightarrow> int \<Rightarrow> bool \<Rightarrow> bool \<Rightarrow> bool \<Rightarrow> (csiSnapshotCommonController \<times> 'w factories) option" where
  "commonProcess base resyncPeriod distributed preventConversion groups =
    (let fs = (\<lambda>_. NewSharedInformerFactory base resyncPeriod);
         nodes = (if distributed then Some (coreAccess_New CoreFactory) else None)
     in do {
       (ctrl, fs) \<leftarrow> NewCSISnapshotCommonController
         (accessVolumeSnapshots (snapshot_V1 (factory_Snapshot fs SnapshotFactory)))
         (accessVolumeSnapshotContents (snapshot_V1 (factory_Snapshot fs SnapshotFactory)))
         (accessVolumeSnapshotClasses (snapshot_V1 (factory_Snapshot fs SnapshotFactory)))
         (accessVolumeGroupSnapshots_v1 (group_V1 (factory_Groupsnapshot fs SnapshotFactory)))
         (accessVolumeGroupSnapshotContents_v1 (group_V1 (factory_Groupsnapshot fs SnapshotFactory)))
         (accessVolumeGroupSnapshotClasses_v1 (group_V1 (factory_Groupsnapshot fs SnapshotFactory)))
         (coreAccess_New CoreFactory) (coreAccess_New CoreFactory) nodes
         resyncPeriod distributed preventConversion groups fs;
       let fs = fs(SnapshotFactory := factory_Start (fs SnapshotFactory));
       Some (ctrl, fs(CoreFactory := factory_Start (fs CoreFactory))) })"

section \<open>The sidecar\<close>

record csiSnapshotSideCarController =
  sc_driverName :: string
  sc_contentListerSynced :: "informerRef option"
  sc_classListerSynced :: "informerRef option"
  sc_groupSnapshotContentListerSynced :: "informerRef option"
  sc_groupSnapshotClassListerSynced :: "informerRef option"
  sc_queues :: "queue list"
  sc_stores :: "queue list"
  sc_resyncPeriod :: int
  sc_extraCreateMetadata :: bool
  sc_enableVolumeGroupSnapshots :: bool

definition NewCSISnapshotSideCarController ::
  "string \<Rightarrow> informerAccess \<Rightarrow> informerAccess \<Rightarrow> int \<Rightarrow> bool \<Rightarrow> bool \<Rightarrow> informerAccess \<Rightarrow> informerAccess \<Rightarrow> 'w factories \<Rightarrow>
   csiSnapshotSideCarController \<times> 'w factories" where
  "NewCSISnapshotSideCarController driverName contents classes resyncPeriod extraMetadata groups groupContents groupClasses fs =
    (let fs = snd (VolumeSnapshotContentInformer contents fs);
         fs = onInformer (ia_factory contents) VolumeSnapshotContentType
                (AddEventHandlerWithResyncPeriod contentHandler_sidecar resyncPeriod) fs;
         fs = snd (VolumeSnapshotClassInformer classes fs);
         ctrl = \<lparr>sc_driverName = driverName,
           sc_contentListerSynced = Some (ia_factory contents, VolumeSnapshotContentType),
           sc_classListerSynced = Some (ia_factory classes, VolumeSnapshotClassType),
           sc_groupSnapshotContentListerSynced = None, sc_groupSnapshotClassListerSynced = None,
           sc_queues = [QContent], sc_stores = [QContent], sc_resyncPeriod = resyncPeriod,
           sc_extraCreateMetadata = extraMetadata, sc_enableVolumeGroupSnapshots = groups\<rparr>
     in if groups
        then (let fs = snd (VolumeGroupSnapshotContentInformer_v1 groupContents fs);
                  fs = onInformer (ia_factory groupContents) (VolumeGroupSnapshotContentType V1)
                         (AddEventHandlerWithResyncPeriod groupSnapshotContentHandler_sidecar resyncPeriod) fs;
                  fs = snd (VolumeGroupSnapshotClassInformer_v1 groupClasses fs)
              in (ctrl\<lparr>sc_groupSnapshotContentListerSynced := Some (ia_factory groupContents, VolumeGroupSnapshotContentType V1),
                    sc_groupSnapshotClassListerSynced := Some (ia_factory groupClasses, VolumeGroupSnapshotClassType V1),
                    sc_queues := sc_queues ctrl @ [QGroupContent], sc_stores := sc_stores ctrl @ [QGroupContent]\<rparr>, fs))
        else (ctrl, fs))"

definition sidecar_informersSynced :: "csiSnapshotSideCarController \<Rightarrow> informerRef option list" where
  "sidecar_informersSynced ctrl =
    [sc_contentListerSynced ctrl, sc_classListerSynced ctrl] @
    (if sc_enableVolumeGroupSnapshots ctrl
     then [sc_groupSnapshotContentListerSynced ctrl, sc_groupSnapshotClassListerSynced ctrl] else [])"

text \<open>\<open>labels.Set{label: value}.AsSelector().String()\<close>.\<close>

definition selectorString :: "string \<times> string \<Rightarrow> string" where
  "selectorString sel = fst sel @ ''='' @ snd sel"

text \<open>On a node, contents come from a factory of their own that has the selector of the node; otherwise the two are one.\<close>

definition sidecarProcess ::
  "string list \<Rightarrow> int \<Rightarrow> (string \<times> string) option \<Rightarrow> string \<Rightarrow> bool \<Rightarrow> bool \<Rightarrow>
   csiSnapshotSideCarController \<times> 'w factories" where
  "sidecarProcess base resyncPeriod selector driverName extraMetadata groups =
    (let fs = (\<lambda>_. NewSharedInformerFactory base resyncPeriod);
         (contentFactory, fs) = (case selector of
             Some sel \<Rightarrow> (ContentFactory, fs(ContentFactory := NewSharedInformerFactoryWithOptions base resyncPeriod
               [WithTweakListOptions (\<lambda>lo. lo\<lparr>lo_LabelSelector := selectorString sel\<rparr>)]))
           | None \<Rightarrow> (SnapshotFactory, fs));
         (ctrl, fs) = NewCSISnapshotSideCarController driverName
           (accessVolumeSnapshotContents (snapshot_V1 (factory_Snapshot fs contentFactory)))
           (accessVolumeSnapshotClasses (snapshot_V1 (factory_Snapshot fs SnapshotFactory)))
           resyncPeriod extraMetadata groups
           (accessVolumeGroupSnapshotContents_v1 (group_V1 (factory_Groupsnapshot fs contentFactory)))
           (accessVolumeGroupSnapshotClasses_v1 (group_V1 (factory_Groupsnapshot fs contentFactory))) fs;
         fs = fs(contentFactory := factory_Start (fs contentFactory));
         fs = fs(SnapshotFactory := factory_Start (fs SnapshotFactory));
         fs = fs(CoreFactory := factory_Start (fs CoreFactory))
     in (ctrl, fs))"

section \<open>The informers of a process\<close>

definition startedIn :: "'w factories \<Rightarrow> informerRef list" where
  "startedIn fs = concat (map (\<lambda>f. map (Pair f) (fa_running (fs f))) [SnapshotFactory, ContentFactory, CoreFactory])"

lemma default_fields [simp]:
  "si_Indexers (defaultVolumeSnapshotInformer a c d) = [(NamespaceIndex, MetaNamespaceIndexFunc)]"
  "si_Handlers (defaultVolumeSnapshotInformer a c d) = []"
  "si_Handlers (defaultVolumeSnapshotClassInformer a c d) = []"
  "si_Handlers (defaultVolumeSnapshotContentInformer a c d) = []"
  "si_Handlers (defaultVolumeGroupSnapshotInformer_v1 a c d) = []"
  "si_Handlers (defaultVolumeGroupSnapshotClassInformer_v1 a c d) = []"
  "si_Handlers (defaultVolumeGroupSnapshotContentInformer_v1 a c d) = []"
  by (simp_all add: informer_defs)

text \<open>Factories that hold some informers and have not been started.\<close>

definition factoryWith ::
  "string list \<Rightarrow> int \<Rightarrow> TweakListOptions \<Rightarrow> (objectType \<times> 'w sharedInformer) list \<Rightarrow> 'w factory" where
  "factoryWith base resync tweak is =
    \<lparr>fa_client = base, fa_namespace = [], fa_tweakListOptions = tweak, fa_defaultResync = resync, fa_customResync = Map.empty,
     fa_transform = None, fa_informers = is, fa_startedInformers = [], fa_running = [], fa_shuttingDown = False\<rparr>"

fun holding :: "string list \<Rightarrow> int \<Rightarrow> TweakListOptions \<Rightarrow> (objectType \<times> 'w sharedInformer) list \<Rightarrow>
    (objectType \<times> 'w sharedInformer) list \<Rightarrow> (objectType \<times> 'w sharedInformer) list \<Rightarrow> 'w factories" where
  "holding base resync tweak xs ys zs SnapshotFactory = factoryWith base resync None xs"
| "holding base resync tweak xs ys zs ContentFactory = factoryWith base resync tweak ys"
| "holding base resync tweak xs ys zs CoreFactory = factoryWith base resync None zs"

lemma holding_eqI:
  "fs SnapshotFactory = factoryWith base resync None xs \<Longrightarrow> fs ContentFactory = factoryWith base resync tweak ys \<Longrightarrow>
    fs CoreFactory = factoryWith base resync None zs \<Longrightarrow> fs = holding base resync tweak xs ys zs"
proof (rule ext)
  fix f
  assume "fs SnapshotFactory = factoryWith base resync None xs" "fs ContentFactory = factoryWith base resync tweak ys"
    "fs CoreFactory = factoryWith base resync None zs"
  then show "fs f = holding base resync tweak xs ys zs f" by (cases f) simp_all
qed

lemma holding_new: "(\<lambda>_. NewSharedInformerFactory base resync) = holding base resync None [] [] []"
  "(holding base resync None [] [] [])(ContentFactory := NewSharedInformerFactoryWithOptions base resync [WithTweakListOptions tw])
    = holding base resync (Some tw) [] [] []"
  by (rule holding_eqI; simp add: NewSharedInformerFactory_def NewSharedInformerFactoryWithOptions_def factoryWith_def
      WithTweakListOptions_def)+

definition fresh :: "(string list \<Rightarrow> int \<Rightarrow> 'w sharedInformer) \<Rightarrow> string list \<Rightarrow> int \<Rightarrow> 'w sharedInformer" where
  "fresh new base resync = (new base resync)\<lparr>si_Transform := None\<rparr>"

lemma holding_informerOf:
  "ia_factory a = SnapshotFactory \<Longrightarrow> map_of xs t = None \<Longrightarrow>
    snd (informerOf a t new (holding base resync tw xs ys zs)) = holding base resync tw (xs @ [(t, fresh new base resync)]) ys zs"
  "ia_factory a = ContentFactory \<Longrightarrow> map_of ys t = None \<Longrightarrow>
    snd (informerOf a t new (holding base resync tw xs ys zs)) = holding base resync tw xs (ys @ [(t, fresh new base resync)]) zs"
  "ia_factory a = CoreFactory \<Longrightarrow> map_of zs t = None \<Longrightarrow>
    snd (informerOf a t new (holding base resync tw xs ys zs)) = holding base resync tw xs ys (zs @ [(t, fresh new base resync)])"
  by (rule holding_eqI; simp add: informerOf_def InformerFor_def fresh_def factoryWith_def Let_def)+

definition changed :: "objectType \<Rightarrow> ('w sharedInformer \<Rightarrow> 'w sharedInformer) \<Rightarrow> (objectType \<times> 'w sharedInformer) list \<Rightarrow>
    (objectType \<times> 'w sharedInformer) list" where
  "changed t g is = map (\<lambda>(t', i). (t', if t' = t then g i else i)) is"

lemma changed_simps [simp]: "changed t g [] = []" "changed t g ((t', i) # is) = (t', if t' = t then g i else i) # changed t g is"
  "changed t g (xs @ ys) = changed t g xs @ changed t g ys"
  by (simp_all add: changed_def)

lemma holding_onInformer:
  "onInformer SnapshotFactory t g (holding base resync tw xs ys zs) = holding base resync tw (changed t g xs) ys zs"
  "onInformer ContentFactory t g (holding base resync tw xs ys zs) = holding base resync tw xs (changed t g ys) zs"
  "onInformer CoreFactory t g (holding base resync tw xs ys zs) = holding base resync tw xs ys (changed t g zs)"
  by (rule holding_eqI; simp add: onInformer_def factoryWith_def changed_def)+

lemma Start_factoryWith:
  assumes "distinct (map fst is)"
  shows "factory_Start (factoryWith base resync tw is) =
    (factoryWith base resync tw is)\<lparr>fa_running := map fst is, fa_startedInformers := map fst is\<rparr>"
proof -
  have "startInformers js f = f\<lparr>fa_running := fa_running f @ map fst js, fa_startedInformers := fa_startedInformers f @ map fst js\<rparr>"
    if "distinct (map fst js)" "set (map fst js) \<inter> set (fa_startedInformers f) = {}" for js and f :: "'a factory"
    using that by (induction js f rule: startInformers.induct) auto
  then show ?thesis using assms by (simp add: factory_Start_def factoryWith_def)
qed

lemmas step_defs = coreInformer_def typedInformer_defs access_defs coreAccess_New_def factoryWith_def holding_new
  holding_informerOf holding_onInformer

text \<open>The informers that a start finds, in the order in which they were asked for.\<close>

definition commonInformers :: "string list \<Rightarrow> int \<Rightarrow> bool \<Rightarrow> (objectType \<times> 'w sharedInformer) list" where
  "commonInformers base resync groups =
    (let a = \<lparr>ia_factory = SnapshotFactory, ia_namespace = [], ia_tweakListOptions = None\<rparr> in
     [(VolumeSnapshotType, AddIndexers [(VolumeSnapshotParentGroupIndex, ParentGroupIndexFunc)]
         (AddEventHandlerWithResyncPeriod snapshotHandler resync (fresh (defaultVolumeSnapshotInformer a) base resync))),
      (VolumeSnapshotContentType,
         AddEventHandlerWithResyncPeriod contentHandler resync (fresh (defaultVolumeSnapshotContentInformer a) base resync)),
      (VolumeSnapshotClassType, fresh (defaultVolumeSnapshotClassInformer a) base resync)] @
     (if groups then
       [(VolumeGroupSnapshotType V1, AddEventHandlerWithResyncPeriod groupSnapshotHandler resync
           (fresh (defaultVolumeGroupSnapshotInformer_v1 a) base resync)),
        (VolumeGroupSnapshotContentType V1, AddEventHandlerWithResyncPeriod groupSnapshotContentHandler resync
           (fresh (defaultVolumeGroupSnapshotContentInformer_v1 a) base resync)),
        (VolumeGroupSnapshotClassType V1, fresh (defaultVolumeGroupSnapshotClassInformer_v1 a) base resync)]
      else []))"

definition coreInformerOf :: "int \<Rightarrow> string \<Rightarrow> objectType \<times> 'w sharedInformer" where
  "coreInformerOf resync res = (CoreType res, fresh (\<lambda>client resync. NewSharedIndexInformer (CoreResource res) (CoreType res) resync
      [(NamespaceIndex, MetaNamespaceIndexFunc)]) [] resync)"

definition commonCoreInformers :: "int \<Rightarrow> bool \<Rightarrow> (objectType \<times> 'w sharedInformer) list" where
  "commonCoreInformers resync distributed =
    [coreInformerOf resync ''persistentvolumeclaims'',
     map_prod id (AddIndexers [(CSIDriverHandleIndexName, VolumeHandleIndexFunc)]) (coreInformerOf resync ''persistentvolumes'')] @
    (if distributed then [coreInformerOf resync ''nodes''] else [])"

definition commonAwaited :: "bool \<Rightarrow> bool \<Rightarrow> informerRef list" where
  "commonAwaited distributed groups =
    [(SnapshotFactory, VolumeSnapshotType), (SnapshotFactory, VolumeSnapshotContentType),
     (SnapshotFactory, VolumeSnapshotClassType), (CoreFactory, CoreType ''persistentvolumeclaims''),
     (CoreFactory, CoreType ''persistentvolumes'')] @ (if distributed then [(CoreFactory, CoreType ''nodes'')] else []) @
    (if groups then [(SnapshotFactory, VolumeGroupSnapshotType V1), (SnapshotFactory, VolumeGroupSnapshotContentType V1),
       (SnapshotFactory, VolumeGroupSnapshotClassType V1)] else [])"

definition plainAccess :: informerAccess where
  "plainAccess = \<lparr>ia_factory = SnapshotFactory, ia_namespace = [], ia_tweakListOptions = None\<rparr>"

lemma plainAccess_sel [simp]: "ia_factory plainAccess = SnapshotFactory" by (simp add: plainAccess_def)

lemma NewCommon_state:
  "\<exists>ctrl. NewCSISnapshotCommonController plainAccess plainAccess plainAccess plainAccess plainAccess plainAccess
      (coreAccess_New CoreFactory) (coreAccess_New CoreFactory) (if d then Some (coreAccess_New CoreFactory) else None)
      resync d prevent g (holding base resync None [] [] []) =
    Some (ctrl, holding base resync None (commonInformers base resync g) [] (commonCoreInformers resync d)) \<and>
    common_informersSynced ctrl = map Some (commonAwaited d g) \<and>
    cc_queues ctrl = [QSnapshot, QContent] @ (if g then [QGroupSnapshot, QGroupContent] else [])"
proof -
  have core: "fresh (\<lambda>client resync. NewSharedIndexInformer (CoreResource res) (CoreType res) resync
      [(NamespaceIndex, MetaNamespaceIndexFunc)]) base r = fresh (\<lambda>client resync. NewSharedIndexInformer (CoreResource res)
      (CoreType res) resync [(NamespaceIndex, MetaNamespaceIndexFunc)]) [] r" for res r by (simp add: fresh_def)
  note d = NewCSISnapshotCommonController_def coreInformer_def typedInformer_defs coreAccess_New_def holding_informerOf
    holding_onInformer commonInformers_def commonCoreInformers_def coreInformerOf_def Let_def
    common_informersSynced_def commonAwaited_def core plainAccess_def[symmetric]
  show ?thesis by (cases d; cases g) (simp_all add: d)
qed

lemma distinct_informers:
  "distinct (map fst (commonInformers base resync g))" "distinct (map fst (commonCoreInformers resync d))"
  by (cases g; cases d; simp add: commonInformers_def commonCoreInformers_def coreInformerOf_def Let_def)+

lemma factoryWith_sel [simp]:
  "fa_informers (factoryWith base resync tw is) = is" "fa_running (factoryWith base resync tw is) = []"
  by (simp_all add: factoryWith_def)

lemma access_plain:
  "accessVolumeSnapshots (snapshot_V1 (factory_Snapshot (holding base resync tw xs ys zs) SnapshotFactory)) = plainAccess"
  "accessVolumeSnapshotContents (snapshot_V1 (factory_Snapshot (holding base resync tw xs ys zs) SnapshotFactory)) = plainAccess"
  "accessVolumeSnapshotClasses (snapshot_V1 (factory_Snapshot (holding base resync tw xs ys zs) SnapshotFactory)) = plainAccess"
  "accessVolumeGroupSnapshots_v1 (group_V1 (factory_Groupsnapshot (holding base resync tw xs ys zs) SnapshotFactory)) = plainAccess"
  "accessVolumeGroupSnapshotContents_v1 (group_V1 (factory_Groupsnapshot (holding base resync tw xs ys zs) SnapshotFactory)) =
    plainAccess"
  "accessVolumeGroupSnapshotClasses_v1 (group_V1 (factory_Groupsnapshot (holding base resync tw xs ys zs) SnapshotFactory)) =
    plainAccess"
  by (simp_all add: access_defs plainAccess_def factoryWith_def)

lemma commonProcess_state:
  obtains ctrl and fs :: "'w factories" where "commonProcess base resync d prevent g = Some (ctrl, fs)"
    "fa_informers (fs SnapshotFactory) = commonInformers base resync g"
    "fa_running (fs SnapshotFactory) = map fst (commonInformers base resync g :: (objectType \<times> 'w sharedInformer) list)"
    "fa_running (fs ContentFactory) = []" "fa_informers (fs CoreFactory) = commonCoreInformers resync d"
    "fa_running (fs CoreFactory) = map fst (commonCoreInformers resync d :: (objectType \<times> 'w sharedInformer) list)"
    "common_informersSynced ctrl = map Some (commonAwaited d g)"
    "cc_queues ctrl = [QSnapshot, QContent] @ (if g then [QGroupSnapshot, QGroupContent] else [])"
proof -
  define S :: "(objectType \<times> 'w sharedInformer) list" where "S = commonInformers base resync g"
  define C :: "(objectType \<times> 'w sharedInformer) list" where "C = commonCoreInformers resync d"
  obtain ctrl where ctrl: "NewCSISnapshotCommonController plainAccess plainAccess plainAccess plainAccess plainAccess plainAccess
      (coreAccess_New CoreFactory) (coreAccess_New CoreFactory) (if d then Some (coreAccess_New CoreFactory) else None)
      resync d prevent g (holding base resync None [] [] []) = Some (ctrl, holding base resync None S [] C)"
    "common_informersSynced ctrl = map Some (commonAwaited d g)"
    "cc_queues ctrl = [QSnapshot, QContent] @ (if g then [QGroupSnapshot, QGroupContent] else [])"
    using NewCommon_state[of d resync prevent g base] unfolding S_def C_def by blast
  let ?fs = "(holding base resync None S [] C)(SnapshotFactory := factory_Start (factoryWith base resync None S),
    CoreFactory := factory_Start (factoryWith base resync None C))"
  have "commonProcess base resync d prevent g = Some (ctrl, ?fs)"
    unfolding commonProcess_def Let_def holding_new access_plain ctrl(1) by simp
  moreover have "factory_Start (factoryWith base resync None S) =
      (factoryWith base resync None S)\<lparr>fa_running := map fst S, fa_startedInformers := map fst S\<rparr>"
    "factory_Start (factoryWith base resync None C) =
      (factoryWith base resync None C)\<lparr>fa_running := map fst C, fa_startedInformers := map fst C\<rparr>"
    unfolding S_def C_def by (rule Start_factoryWith[OF distinct_informers(1)] Start_factoryWith[OF distinct_informers(2)])+
  ultimately show thesis using ctrl(2,3) by (intro that[of ctrl ?fs]) (simp_all add: S_def C_def)
qed

section \<open>The start of the sidecar\<close>

text \<open>Of the sidecar's informers those of contents come from one factory and that of classes from another or the same.\<close>

definition contentAccess :: "(string \<times> string) option \<Rightarrow> informerAccess" where
  "contentAccess selector =
    (case selector of
       None \<Rightarrow> plainAccess
     | Some sel \<Rightarrow> \<lparr>ia_factory = ContentFactory, ia_namespace = [],
         ia_tweakListOptions = Some (\<lambda>lo. lo\<lparr>lo_LabelSelector := selectorString sel\<rparr>)\<rparr>)"

definition sidecarContentInformer ::
  "string list \<Rightarrow> int \<Rightarrow> (string \<times> string) option \<Rightarrow> objectType \<times> 'w sharedInformer" where
  "sidecarContentInformer base resync selector =
    (VolumeSnapshotContentType, AddEventHandlerWithResyncPeriod contentHandler_sidecar resync
       (fresh (defaultVolumeSnapshotContentInformer (contentAccess selector)) base resync))"

definition sidecarGroupInformers ::
  "string list \<Rightarrow> int \<Rightarrow> (string \<times> string) option \<Rightarrow> bool \<Rightarrow> (objectType \<times> 'w sharedInformer) list" where
  "sidecarGroupInformers base resync selector groups =
    (if groups then
       [(VolumeGroupSnapshotContentType V1, AddEventHandlerWithResyncPeriod groupSnapshotContentHandler_sidecar resync
           (fresh (defaultVolumeGroupSnapshotContentInformer_v1 (contentAccess selector)) base resync)),
        (VolumeGroupSnapshotClassType V1,
           fresh (defaultVolumeGroupSnapshotClassInformer_v1 (contentAccess selector)) base resync)]
     else [])"

definition sidecarInformers ::
  "string list \<Rightarrow> int \<Rightarrow> (string \<times> string) option \<Rightarrow> bool \<Rightarrow> factoryId \<Rightarrow> (objectType \<times> 'w sharedInformer) list" where
  "sidecarInformers base resync selector groups f =
    (let classes = (VolumeSnapshotClassType, fresh (defaultVolumeSnapshotClassInformer plainAccess) base resync);
         contents = sidecarContentInformer base resync selector;
         members = sidecarGroupInformers base resync selector groups
     in case f of
          SnapshotFactory \<Rightarrow> if selector = None then [contents, classes] @ members else [classes]
        | ContentFactory \<Rightarrow> if selector = None then [] else [contents] @ members
        | CoreFactory \<Rightarrow> [])"

definition sidecarAwaited :: "(string \<times> string) option \<Rightarrow> bool \<Rightarrow> informerRef list" where
  "sidecarAwaited selector groups =
    (let f = (if selector = None then SnapshotFactory else ContentFactory) in
     [(f, VolumeSnapshotContentType), (SnapshotFactory, VolumeSnapshotClassType)] @
     (if groups then [(f, VolumeGroupSnapshotContentType V1), (f, VolumeGroupSnapshotClassType V1)] else []))"

lemma Start_again: "set (map fst (fa_informers f)) \<subseteq> set (fa_startedInformers f) \<Longrightarrow> factory_Start f = f"
proof -
  have "set (map fst js) \<subseteq> set (fa_startedInformers f) \<Longrightarrow> startInformers js f = f" for js and f :: "'a factory"
    by (induction js f rule: startInformers.induct) auto
  then show "set (map fst (fa_informers f)) \<subseteq> set (fa_startedInformers f) \<Longrightarrow> ?thesis" by (simp add: factory_Start_def)
qed

lemma NewSidecar_state:
  defines "tw \<equiv> (\<lambda>sel lo. lo\<lparr>lo_LabelSelector := selectorString sel\<rparr>)"
  shows "\<exists>ctrl. NewCSISnapshotSideCarController driver (contentAccess selector) plainAccess resync extra g
      (contentAccess selector) (contentAccess selector) (holding base resync (map_option tw selector) [] [] []) =
    (ctrl, holding base resync (map_option tw selector) (sidecarInformers base resync selector g SnapshotFactory)
       (sidecarInformers base resync selector g ContentFactory) []) \<and>
    sidecar_informersSynced ctrl = map Some (sidecarAwaited selector g) \<and>
    sc_queues ctrl = [QContent] @ (if g then [QGroupContent] else [])"
proof -
  have c: "contentAccess None = plainAccess" "ia_factory (contentAccess (Some sel)) = ContentFactory" for sel
    by (simp_all add: contentAccess_def)
  note d = NewCSISnapshotSideCarController_def typedInformer_defs holding_informerOf holding_onInformer
    sidecarInformers_def sidecarContentInformer_def sidecarGroupInformers_def Let_def sidecar_informersSynced_def sidecarAwaited_def c
  show ?thesis by (cases g; cases selector) (simp_all add: d)
qed

lemma distinct_sidecarInformers: "distinct (map fst (sidecarInformers base resync selector g f))"
  by (cases g; cases f)
    (simp_all add: sidecarInformers_def sidecarContentInformer_def sidecarGroupInformers_def Let_def)

lemma sidecar_access:
  assumes "fs = holding base resync (map_option (\<lambda>sel lo. lo\<lparr>lo_LabelSelector := selectorString sel\<rparr>) selector) xs ys zs"
  defines "f \<equiv> (case selector of None \<Rightarrow> SnapshotFactory | Some sel \<Rightarrow> ContentFactory)"
  shows "accessVolumeSnapshotContents (snapshot_V1 (factory_Snapshot fs f)) = contentAccess selector"
    "accessVolumeGroupSnapshotContents_v1 (group_V1 (factory_Groupsnapshot fs f)) = contentAccess selector"
    "accessVolumeGroupSnapshotClasses_v1 (group_V1 (factory_Groupsnapshot fs f)) = contentAccess selector"
    "accessVolumeSnapshotClasses (snapshot_V1 (factory_Snapshot fs SnapshotFactory)) = plainAccess"
  using assms by (cases selector; simp add: access_defs contentAccess_def plainAccess_def factoryWith_def)+

lemma sidecarProcess_state:
  obtains ctrl and fs :: "'w factories" where "sidecarProcess base resync selector driver extra g = (ctrl, fs)"
    "\<And>f. fa_informers (fs f) = sidecarInformers base resync selector g f"
    "\<And>f. fa_running (fs f) = map fst (sidecarInformers base resync selector g f :: (objectType \<times> 'w sharedInformer) list)"
    "sidecar_informersSynced ctrl = map Some (sidecarAwaited selector g)"
    "sc_queues ctrl = [QContent] @ (if g then [QGroupContent] else [])"
proof -
  let ?tw = "map_option (\<lambda>sel lo. lo\<lparr>lo_LabelSelector := selectorString sel\<rparr>) selector"
  let ?I = "sidecarInformers base resync selector g :: factoryId \<Rightarrow> (objectType \<times> 'w sharedInformer) list"
  let ?h = "holding base resync ?tw (?I SnapshotFactory) (?I ContentFactory) []"
  let ?f = "case selector of None \<Rightarrow> SnapshotFactory | Some sel \<Rightarrow> ContentFactory"
  obtain ctrl where ctrl: "NewCSISnapshotSideCarController driver (contentAccess selector) plainAccess resync extra g
      (contentAccess selector) (contentAccess selector) (holding base resync ?tw [] [] []) = (ctrl, ?h)"
    "sidecar_informersSynced ctrl = map Some (sidecarAwaited selector g)"
    "sc_queues ctrl = [QContent] @ (if g then [QGroupContent] else [])"
    using NewSidecar_state[of driver selector resync extra g base] by blast
  have "sidecarProcess base resync selector driver extra g =
    (ctrl, let fs = ?h(?f := factory_Start (?h ?f)); fs = fs(SnapshotFactory := factory_Start (fs SnapshotFactory))
      in fs(CoreFactory := factory_Start (fs CoreFactory)))"
    using ctrl(1)
    by (cases selector)
      (simp_all add: sidecarProcess_def Let_def holding_new sidecar_access[OF refl, where selector = None, simplified]
        sidecar_access[OF refl, where selector = "Some sel" for sel, simplified])
  moreover define fs where "fs = (let fs = ?h(?f := factory_Start (?h ?f)); fs = fs(SnapshotFactory := factory_Start (fs SnapshotFactory))
      in fs(CoreFactory := factory_Start (fs CoreFactory)))"
  moreover have "fa_informers (fs f) = ?I f \<and> fa_running (fs f) = map fst (?I f)" for f
  proof -
    note S = Start_factoryWith[OF distinct_sidecarInformers, where base = base and resync = resync]
    have again: "factory_Start ((factoryWith base resync tw is)\<lparr>fa_running := map fst is, fa_startedInformers := map fst is\<rparr>)
        = (factoryWith base resync tw is)\<lparr>fa_running := map fst is, fa_startedInformers := map fst is\<rparr>"
      for tw and "is" :: "(objectType \<times> 'w sharedInformer) list"
      by (rule Start_again) simp
    have "?I CoreFactory = []" "selector = None \<Longrightarrow> ?I ContentFactory = []" by (simp_all add: sidecarInformers_def)
    then show ?thesis by (cases selector; cases f) (simp_all add: fs_def Let_def S again Start_factoryWith[of "[]"])
  qed
  ultimately show thesis using ctrl(2,3) by (intro that[of ctrl fs]) simp_all
qed

section \<open>What is started is what is waited for\<close>

fun resourceType :: "resource \<Rightarrow> objectType" where
  "resourceType VolumeSnapshots = VolumeSnapshotType"
| "resourceType VolumeSnapshotClasses = VolumeSnapshotClassType"
| "resourceType VolumeSnapshotContents = VolumeSnapshotContentType"
| "resourceType VolumeGroupSnapshots = VolumeGroupSnapshotType V1"
| "resourceType VolumeGroupSnapshotClasses = VolumeGroupSnapshotClassType V1"
| "resourceType VolumeGroupSnapshotContents = VolumeGroupSnapshotContentType V1"

text \<open>The informers that a process starts are exactly those whose first list its controller waits for, each started once, so that
  the wait can end and no informer runs for nothing; none of the functions it waits on is nil. The custom resources among them
  are those whose definitions the snapshot controller has made sure of. The controllers have a queue for each worker that they
  run, and for no other.\<close>

theorem started_informers_are_awaited:
  "(case commonProcess base resync distributed prevent groups of
      None \<Rightarrow> False
    | Some (ctrl, fs) \<Rightarrow>
        set (common_informersSynced ctrl) = Some ` set (startedIn fs) \<and> distinct (startedIn fs) \<and>
        set (fa_running (fs SnapshotFactory)) = resourceType ` set (requiredResources groups) \<and>
        set (cc_queues ctrl) = set (run_Workers (common_Run groups (Suc n)))) \<and>
   (case sidecarProcess base resync selector driver extra groups of
      (ctrl, fs) \<Rightarrow>
        set (sidecar_informersSynced ctrl) = Some ` set (startedIn fs) \<and> distinct (startedIn fs) \<and>
        set (sc_queues ctrl) = set (run_Workers (sidecar_Run groups (Suc n))))"
proof
  obtain ctrl and fs :: "'a factories" where c: "commonProcess base resync distributed prevent groups = Some (ctrl, fs)"
    "fa_informers (fs SnapshotFactory) = commonInformers base resync groups"
    "fa_running (fs SnapshotFactory) = map fst (commonInformers base resync groups :: (objectType \<times> 'a sharedInformer) list)"
    "fa_running (fs ContentFactory) = []" "fa_informers (fs CoreFactory) = commonCoreInformers resync distributed"
    "fa_running (fs CoreFactory) = map fst (commonCoreInformers resync distributed :: (objectType \<times> 'a sharedInformer) list)"
    "common_informersSynced ctrl = map Some (commonAwaited distributed groups)"
    "cc_queues ctrl = [QSnapshot, QContent] @ (if groups then [QGroupSnapshot, QGroupContent] else [])"
    using commonProcess_state[of base resync distributed prevent groups, where 'w = 'a] by blast
  show "(case commonProcess base resync distributed prevent groups of
      None \<Rightarrow> False
    | Some (ctrl, fs :: 'a factories) \<Rightarrow>
        set (common_informersSynced ctrl) = Some ` set (startedIn fs) \<and> distinct (startedIn fs) \<and>
        set (fa_running (fs SnapshotFactory)) = resourceType ` set (requiredResources groups) \<and>
        set (cc_queues ctrl) = set (run_Workers (common_Run groups (Suc n))))"
    unfolding c(1)
    by (cases distributed; cases groups)
      (auto simp: c startedIn_def commonInformers_def commonCoreInformers_def coreInformerOf_def commonAwaited_def
        requiredResources_def common_Run_def Let_def)
next
  obtain ctrl and fs :: "'b factories" where c: "sidecarProcess base resync selector driver extra groups = (ctrl, fs)"
    "\<And>f. fa_informers (fs f) = sidecarInformers base resync selector groups f"
    "\<And>f. fa_running (fs f) = map fst (sidecarInformers base resync selector groups f :: (objectType \<times> 'b sharedInformer) list)"
    "sidecar_informersSynced ctrl = map Some (sidecarAwaited selector groups)"
    "sc_queues ctrl = [QContent] @ (if groups then [QGroupContent] else [])"
    using sidecarProcess_state[of base resync selector driver extra groups, where 'w = 'b] by blast
  show "(case sidecarProcess base resync selector driver extra groups of
      (ctrl, fs :: 'b factories) \<Rightarrow>
        set (sidecar_informersSynced ctrl) = Some ` set (startedIn fs) \<and> distinct (startedIn fs) \<and>
        set (sc_queues ctrl) = set (run_Workers (sidecar_Run groups (Suc n))))"
    unfolding c(1)
    by (cases selector; cases groups)
      (auto simp: c startedIn_def sidecarInformers_def sidecarContentInformer_def sidecarGroupInformers_def sidecarAwaited_def
        sidecar_Run_def Let_def)
qed

section \<open>What the informers read\<close>

text \<open>The attributes of the requests of an informer: a list, then watches.\<close>

definition informerReads :: "'w sharedInformer \<Rightarrow> ListOptions \<Rightarrow> attributes list" where
  "informerReads i options =
    (case si_Source i of
       CoreResource res \<Rightarrow> [coreAccess ''list'' res, coreAccess ''watch'' res]
     | ApiServer lw \<Rightarrow> concat (map (\<lambda>q. case sent q of Inl err \<Rightarrow> [] | Inr r \<Rightarrow> [requestAttributes r])
         [ListWithContext lw options, WatchWithContext lw options]))"

definition readAccess :: "string \<Rightarrow> groupVersionResource \<Rightarrow> attributes" where
  "readAccess verb gvr = \<lparr>at_verb = verb, at_group = fst gvr, at_resource = snd (snd gvr)\<rparr>"

lemma readsCollection_attributes:
  assumes "readsCollection q base gvr ns options"
  shows "(case sent q of Inl err \<Rightarrow> [] | Inr r \<Rightarrow> [requestAttributes r]) =
    [readAccess (if lo_Watch options then ''watch'' else ''list'') gvr]"
  using assms
  by (cases "sent q") (simp_all add: readsCollection_def requestAttributes_def requestVerb_def readAccess_def butlast_append)

lemma informerReads_readsOnly:
  assumes "readsOnly (si_Source i) base t ns tweak" "gvrOf t = Some gvr" "\<not> lo_Watch (tweaked tweak options)"
  shows "informerReads i options = [readAccess ''list'' gvr, readAccess ''watch'' gvr]"
proof -
  obtain lw where lw: "si_Source i = ApiServer lw" using assms(1,2) by (cases "si_Source i") (auto simp: readsOnly_def)
  have "readsCollection (ListWithContext lw options) base gvr (if namespaced t then ns else []) (tweaked tweak options)"
    "readsCollection (WatchWithContext lw options) base gvr (if namespaced t then ns else []) ((tweaked tweak options)\<lparr>lo_Watch := True\<rparr>)"
    using assms(1,2) lw by (auto simp: readsOnly_def)
  from this[THEN readsCollection_attributes] show ?thesis using assms(3) lw by (simp add: informerReads_def)
qed

lemma sources [simp]:
  "si_Source (fresh new base resync) = si_Source (new base resync)"
  "si_Source (AddEventHandlerWithResyncPeriod h d i) = si_Source i"
  "si_Source (AddIndexers ix i) = si_Source i"
  by (simp_all add: fresh_def AddEventHandlerWithResyncPeriod_def AddIndexers_def)

lemma commonInformers_reads:
  assumes "(t, i) \<in> set (commonInformers base resync g)"
  shows "readsOnly (si_Source i) base t [] None \<and> gvrOf t \<noteq> None"
proof -
  have "readsOnly (si_Source (newInformer t plainAccess base resync)) base t [] None" for t
    using newInformer_reads[of plainAccess t base resync] by (simp add: plainAccess_def)
  from this[of VolumeSnapshotType] this[of VolumeSnapshotClassType] this[of VolumeSnapshotContentType]
    this[of "VolumeGroupSnapshotType V1"] this[of "VolumeGroupSnapshotClassType V1"] this[of "VolumeGroupSnapshotContentType V1"]
  show ?thesis using assms
    by (auto simp: commonInformers_def Let_def plainAccess_def split: if_splits)
qed

definition nodeOptions :: "(string \<times> string) option \<Rightarrow> factoryId \<Rightarrow> TweakListOptions" where
  "nodeOptions selector f =
    (if f = ContentFactory then map_option (\<lambda>sel lo. lo\<lparr>lo_LabelSelector := selectorString sel\<rparr>) selector else None)"

lemma sidecarInformers_reads:
  assumes "(t, i) \<in> set (sidecarInformers base resync selector g f)"
  shows "readsOnly (si_Source i) base t [] (nodeOptions selector f) \<and> gvrOf t \<noteq> None"
proof -
  have r: "readsOnly (si_Source (newInformer t a base resync)) base t [] (ia_tweakListOptions a)" if "ia_namespace a = []" for t a
    using newInformer_reads[of a t base resync] that by simp
  have c: "ia_namespace plainAccess = []" "ia_namespace (contentAccess selector) = []" "ia_tweakListOptions plainAccess = None"
    "ia_tweakListOptions (contentAccess None) = None"
    "ia_tweakListOptions (contentAccess (Some sel)) = Some (\<lambda>lo. lo\<lparr>lo_LabelSelector := selectorString sel\<rparr>)" for sel
    by (cases selector; simp add: contentAccess_def plainAccess_def)+
  note r[OF c(1), of VolumeSnapshotClassType] r[OF c(2), of VolumeSnapshotContentType]
    r[OF c(2), of "VolumeGroupSnapshotClassType V1"] r[OF c(2), of "VolumeGroupSnapshotContentType V1"]
  then show ?thesis using assms
    by (cases f; cases selector)
      (auto simp: sidecarInformers_def sidecarContentInformer_def sidecarGroupInformers_def Let_def c nodeOptions_def split: if_splits)
qed

text \<open>What the roles allow to read.\<close>

lemma read_permitted:
  "list_all (\<lambda>t. list_all (\<lambda>verb. permitted snapshotControllerRunner (readAccess verb (the (gvrOf t)))) [''list'', ''watch''])
    (map resourceType (requiredResources True))"
  "list_all (\<lambda>t. list_all (\<lambda>verb. permitted externalSnapshotterRunner (readAccess verb (the (gvrOf t)))) [''list'', ''watch''])
    [VolumeSnapshotContentType, VolumeSnapshotClassType, VolumeGroupSnapshotContentType V1, VolumeGroupSnapshotClassType V1]"
  "list_all (\<lambda>verb. permitted snapshotControllerRunner (coreAccess verb ''persistentvolumeclaims'') \<and>
     permitted snapshotControllerRunner (coreAccess verb ''persistentvolumes'') \<and>
     \<not> permitted snapshotControllerRunner (coreAccess verb ''nodes'')) [''list'', ''watch'']"
  by code_simp+

definition readsIn :: "'w factories \<Rightarrow> informerRef \<Rightarrow> ListOptions \<Rightarrow> attributes list" where
  "readsIn fs r options =
    (case map_of (fa_informers (fs (fst r))) (snd r) of None \<Rightarrow> [] | Some i \<Rightarrow> informerReads i (options\<lparr>lo_Watch := False\<rparr>))"

lemma readsIn_api:
  assumes "(t, i) \<in> set is" "fa_informers (fs f) = is" "distinct (map fst is)"
    and "readsOnly (si_Source i) base t [] tw \<and> gvrOf t \<noteq> None" "\<And>lo. lo_Watch (tweaked tw lo) = lo_Watch lo"
  shows "readsIn fs (f, t) options = map (\<lambda>verb. readAccess verb (the (gvrOf t))) [''list'', ''watch'']"
proof -
  have "map_of (fa_informers (fs f)) t = Some i" using assms(1-3) by simp
  then show ?thesis using informerReads_readsOnly[of i base t "[]" tw "the (gvrOf t)" "options\<lparr>lo_Watch := False\<rparr>"] assms(4,5)
    by (auto simp: readsIn_def)
qed

text \<open>C26: The informers of both processes start with reads that their roles permit: each lists its resource and then watches it, and
  both verbs are granted. The one exception are the nodes that a distributed snapshot controller reads, for which the
  shipped role has its rule only as a comment.\<close>

theorem reads_within_role:
  "(case commonProcess base resync distributed prevent groups of
      None \<Rightarrow> False
    | Some (ctrl, fs) \<Rightarrow>
        list_all (\<lambda>r. map at_verb (readsIn fs r options) = [''list'', ''watch''] \<and>
          list_all (\<lambda>a. permitted snapshotControllerRunner a = (snd r \<noteq> CoreType ''nodes'')) (readsIn fs r options)) (startedIn fs)) \<and>
   (case sidecarProcess base resync selector driver extra groups of
      (ctrl, fs) \<Rightarrow>
        list_all (\<lambda>r. map at_verb (readsIn fs r options) = [''list'', ''watch''] \<and>
          list_all (permitted externalSnapshotterRunner) (readsIn fs r options)) (startedIn fs))"
proof
  obtain ctrl and fs :: "'a factories" where c: "commonProcess base resync distributed prevent groups = Some (ctrl, fs)"
    "fa_informers (fs SnapshotFactory) = commonInformers base resync groups"
    "fa_running (fs SnapshotFactory) = map fst (commonInformers base resync groups :: (objectType \<times> 'a sharedInformer) list)"
    "fa_running (fs ContentFactory) = []" "fa_informers (fs CoreFactory) = commonCoreInformers resync distributed"
    "fa_running (fs CoreFactory) = map fst (commonCoreInformers resync distributed :: (objectType \<times> 'a sharedInformer) list)"
    using commonProcess_state[of base resync distributed prevent groups, where 'w = 'a] by blast
  have api: "readsIn fs (SnapshotFactory, t) options = map (\<lambda>verb. readAccess verb (the (gvrOf t))) [''list'', ''watch'']"
    "t \<in> set (map resourceType (requiredResources True))" if prem: "t \<in> set (fa_running (fs SnapshotFactory))" for t
  proof -
    obtain i where i: "(t, i) \<in> set (commonInformers base resync groups :: (objectType \<times> 'a sharedInformer) list)" using prem c(3) by auto
    show "readsIn fs (SnapshotFactory, t) options = map (\<lambda>verb. readAccess verb (the (gvrOf t))) [''list'', ''watch'']"
      by (rule readsIn_api[where fs = fs, OF i c(2) distinct_informers(1) commonInformers_reads[OF i]]) (simp add: tweaked_def)
    show "t \<in> set (map resourceType (requiredResources True))"
      using i by (auto simp: commonInformers_def Let_def requiredResources_def split: if_splits)
  qed
  have core: "readsIn fs (CoreFactory, CoreType res) options = [coreAccess ''list'' res, coreAccess ''watch'' res] \<and>
      res \<in> {''persistentvolumeclaims'', ''persistentvolumes'', ''nodes''}"
    if "CoreType res \<in> set (fa_running (fs CoreFactory))" for res
    using that unfolding readsIn_def fst_conv snd_conv c(5,6)
    by (cases distributed) (auto simp: commonCoreInformers_def coreInformerOf_def informerReads_def NewSharedIndexInformer_def)
  have "map at_verb (readsIn fs r options) = [''list'', ''watch''] \<and>
      list_all (\<lambda>a. permitted snapshotControllerRunner a = (snd r \<noteq> CoreType ''nodes'')) (readsIn fs r options)"
    if prem: "r \<in> set (startedIn fs)" for r
  proof -
    obtain f t where r: "r = (f, t)" "t \<in> set (fa_running (fs f))" using prem by (auto simp: startedIn_def)
    show ?thesis
    proof (cases f)
      case SnapshotFactory
      have "t \<noteq> CoreType ''nodes''" using api(2) r SnapshotFactory by (auto simp: requiredResources_def)
      then show ?thesis using api[of t] r SnapshotFactory read_permitted(1) by (auto simp: list_all_iff readAccess_def)
    next
      case ContentFactory
      then show ?thesis using r c(4) by simp
    next
      case CoreFactory
      then obtain res where res: "t = CoreType res" using r c(6)
        by (cases distributed) (auto simp: commonCoreInformers_def coreInformerOf_def)
      then show ?thesis using core[of res] r CoreFactory read_permitted(3) by (auto simp: coreAccess_def)
    qed
  qed
  then show "(case commonProcess base resync distributed prevent groups of
      None \<Rightarrow> False
    | Some (ctrl, fs :: 'a factories) \<Rightarrow>
        list_all (\<lambda>r. map at_verb (readsIn fs r options) = [''list'', ''watch''] \<and>
          list_all (\<lambda>a. permitted snapshotControllerRunner a = (snd r \<noteq> CoreType ''nodes'')) (readsIn fs r options)) (startedIn fs))"
    unfolding c(1) by (simp add: list_all_iff[where P = "\<lambda>r. _ r \<and> _ r"])
next
  obtain ctrl and fs :: "'b factories" where c: "sidecarProcess base resync selector driver extra groups = (ctrl, fs)"
    "\<And>f. fa_informers (fs f) = sidecarInformers base resync selector groups f"
    "\<And>f. fa_running (fs f) = map fst (sidecarInformers base resync selector groups f :: (objectType \<times> 'b sharedInformer) list)"
    by (rule sidecarProcess_state[of base resync selector driver extra groups, where 'w = 'b]) (rule that)
  have "map at_verb (readsIn fs r options) = [''list'', ''watch''] \<and>
      list_all (permitted externalSnapshotterRunner) (readsIn fs r options)" if prem: "r \<in> set (startedIn fs)" for r
  proof -
    obtain f t where r: "r = (f, t)" "t \<in> set (fa_running (fs f))" using prem by (auto simp: startedIn_def)
    then obtain i where i: "(t, i) \<in> set (sidecarInformers base resync selector groups f :: (objectType \<times> 'b sharedInformer) list)"
      using c(3) by auto
    have "readsIn fs (f, t) options = map (\<lambda>verb. readAccess verb (the (gvrOf t))) [''list'', ''watch'']"
      by (rule readsIn_api[where fs = fs, OF i c(2) distinct_sidecarInformers sidecarInformers_reads[OF i]])
        (cases selector; simp add: tweaked_def nodeOptions_def)
    moreover have "t \<in> set [VolumeSnapshotContentType, VolumeSnapshotClassType, VolumeGroupSnapshotContentType V1,
        VolumeGroupSnapshotClassType V1]"
      using i by (cases f) (auto simp: sidecarInformers_def sidecarContentInformer_def sidecarGroupInformers_def Let_def split: if_splits)
    ultimately show ?thesis using r read_permitted(2) by (auto simp: readAccess_def)
  qed
  then show "(case sidecarProcess base resync selector driver extra groups of
      (ctrl, fs :: 'b factories) \<Rightarrow>
        list_all (\<lambda>r. map at_verb (readsIn fs r options) = [''list'', ''watch''] \<and>
          list_all (permitted externalSnapshotterRunner) (readsIn fs r options)) (startedIn fs))"
    unfolding c(1) by (simp add: list_all_iff[where P = "\<lambda>r. _ r \<and> _ r"])
qed

section \<open>What the informers hand on\<close>

text \<open>A change that an informer sees, and its delivery to the handlers of the informer.\<close>

datatype change = Added obj | Updated obj obj | Deleted informer_obj

fun handle :: "'w eventHandler \<Rightarrow> change \<Rightarrow> 'w st \<Rightarrow> 'w st option" where
  "handle h (Added ob) s = AddFunc h ob s"
| "handle h (Updated oldObj newObj) s = UpdateFunc h oldObj newObj s"
| "handle h (Deleted ob) s = DeleteFunc h ob s"

definition deliver :: "'w sharedInformer \<Rightarrow> change \<Rightarrow> 'w st \<Rightarrow> 'w st option" where
  "deliver i ch s = foldl (\<lambda>r h. Option.bind r (handle (fst h) ch)) (Some s) (si_Handlers i)"

fun kindOf :: "obj \<Rightarrow> objectType" where
  "kindOf (ObjVS x) = VolumeSnapshotType"
| "kindOf (ObjVSC x) = VolumeSnapshotContentType"
| "kindOf (ObjVGS x) = VolumeGroupSnapshotType V1"
| "kindOf (ObjVGSC x) = VolumeGroupSnapshotContentType V1"

fun queueOf :: "obj \<Rightarrow> queue" where
  "queueOf (ObjVS x) = QSnapshot"
| "queueOf (ObjVSC x) = QContent"
| "queueOf (ObjVGS x) = QGroupSnapshot"
| "queueOf (ObjVGSC x) = QGroupContent"

text \<open>The object that a change is about; the two of an update are of one type. A tombstone may have lost its object.\<close>

fun changedObject :: "change \<Rightarrow> obj option" where
  "changedObject (Added ob) = Some ob"
| "changedObject (Updated oldObj newObj) = (if kindOf oldObj = kindOf newObj then Some newObj else None)"
| "changedObject (Deleted ob) = unwrapTombstone ob"

text \<open>The updates that the sidecar leaves out: of a content, of a new version, in which nothing differs but the version, the
  status, the finalizers, the managed fields and the being-created annotation.\<close>

fun quietUpdate :: "change \<Rightarrow> bool" where
  "quietUpdate (Updated (ObjVSC old) (ObjVSC new)) \<longleftrightarrow>
    ResourceVersion (vsc_meta old) \<noteq> ResourceVersion (vsc_meta new) \<and> vsc_Spec old = vsc_Spec new \<and>
    Name (vsc_meta old) = Name (vsc_meta new) \<and> Namespace (vsc_meta old) = Namespace (vsc_meta new) \<and>
    UID (vsc_meta old) = UID (vsc_meta new) \<and> DeletionTimestamp (vsc_meta old) = DeletionTimestamp (vsc_meta new) \<and>
    Labels (vsc_meta old) = Labels (vsc_meta new) \<and> OwnerReferences (vsc_meta old) = OwnerReferences (vsc_meta new) \<and>
    {(k, v). fmlookup (Annotations (vsc_meta old)) k = Some v \<and>
       k \<noteq> ''snapshot.storage.kubernetes.io/volumesnapshot-being-created''} =
    {(k, v). fmlookup (Annotations (vsc_meta new)) k = Some v \<and>
       k \<noteq> ''snapshot.storage.kubernetes.io/volumesnapshot-being-created''}"
| "quietUpdate _ \<longleftrightarrow> False"

lemma quietUpdate_filtered:
  "quietUpdate (Updated (ObjVSC old) (ObjVSC new)) \<longleftrightarrow> \<not> ShouldEnqueueContentChange old new"
  unfolding ShouldEnqueueContentChange_iff quietUpdate.simps AnnVolumeSnapshotBeingCreated_def Let_def by simp

definition enqueued :: "obj \<Rightarrow> 'w st \<Rightarrow> 'w st" where
  "enqueued x s = emit (QueueAdd (queueOf x) (keyFunc (objMeta x))) s"

lemma handlers [simp]:
  "si_Handlers (fresh new base resync) = si_Handlers (new base resync)"
  "si_Handlers (AddEventHandlerWithResyncPeriod h d i) = si_Handlers i @ [(h, d)]"
  "si_Handlers (AddIndexers ix i) = si_Handlers i"
  by (simp_all add: fresh_def AddEventHandlerWithResyncPeriod_def AddIndexers_def)

lemmas handler_defs = snapshotHandler_def contentHandler_def groupSnapshotHandler_def groupSnapshotContentHandler_def
  contentHandler_sidecar_def groupSnapshotContentHandler_sidecar_def enqueueSnapshotWork_def enqueueContentWork_def
  enqueueGroupSnapshotWork_def enqueueGroupSnapshotContentWork_def enqueueContentWork_sidecar_def
  enqueueGroupSnapshotContentWork_sidecar_def onContentUpdate_def

lemma handled:
  assumes "changedObject ch = Some x"
  shows "kindOf x = VolumeSnapshotType \<Longrightarrow> handle snapshotHandler ch s = Some (enqueued x s)"
    and "kindOf x = VolumeSnapshotContentType \<Longrightarrow> handle contentHandler ch s = Some (enqueued x s)"
    and "kindOf x = VolumeGroupSnapshotType V1 \<Longrightarrow> handle groupSnapshotHandler ch s = Some (enqueued x s)"
    and "kindOf x = VolumeGroupSnapshotContentType V1 \<Longrightarrow> handle groupSnapshotContentHandler ch s = Some (enqueued x s)"
    and "kindOf x = VolumeSnapshotContentType \<Longrightarrow>
      handle contentHandler_sidecar ch s = Some (if quietUpdate ch then s else enqueued x s)"
    and "kindOf x = VolumeGroupSnapshotContentType V1 \<Longrightarrow>
      handle groupSnapshotContentHandler_sidecar ch s = Some (if quietUpdate ch then s else enqueued x s)"
  using assms
  by (cases ch rule: quietUpdate.cases; cases x;
    auto simp: handler_defs enqueued_def quietUpdate_filtered simp del: quietUpdate.simps(1) split: if_splits)+

text \<open>C25: Whatever an informer sees of a snapshot, a content or their group counterparts, an addition, an update or a deletion, it
  puts the key of the object on the queue of its kind, and a worker serves that queue. The exception is the sidecar, which
  leaves out the updates of contents, its own and those of others, that come with a new version and change nothing but
  the status, the finalizers, the managed fields and the being-created annotation; every other update, the
  being-deleted annotation among them, reaches it. Without group snapshots no informer sees any.\<close>

theorem changes_reach_workers:
  assumes "changedObject ch = Some x"
  shows "(case commonProcess base resync distributed prevent groups of
        None \<Rightarrow> False
      | Some (ctrl, fs) \<Rightarrow>
          (case map_of (fa_informers (fs SnapshotFactory)) (kindOf x) of
             None \<Rightarrow> \<not> groups \<and> kindOf x \<notin> {VolumeSnapshotType, VolumeSnapshotContentType}
           | Some i \<Rightarrow> deliver i ch s = Some (enqueued x s) \<and> queueOf x \<in> set (run_Workers (common_Run groups (Suc n))))) \<and>
    (case sidecarProcess base resync selector driver extra groups of
        (ctrl, fs) \<Rightarrow>
          (case map_of (fa_informers (fs (if selector = None then SnapshotFactory else ContentFactory))) (kindOf x) of
             None \<Rightarrow> (if groups then kindOf x \<notin> {VolumeSnapshotContentType, VolumeGroupSnapshotContentType V1}
               else kindOf x \<noteq> VolumeSnapshotContentType)
           | Some i \<Rightarrow> deliver i ch s = Some (if quietUpdate ch then s else enqueued x s) \<and>
               queueOf x \<in> set (run_Workers (sidecar_Run groups (Suc n)))))"
proof
  note h = handled[OF assms]
  obtain ctrl and fs :: "'a factories" where c: "commonProcess base resync distributed prevent groups = Some (ctrl, fs)"
    "fa_informers (fs SnapshotFactory) = commonInformers base resync groups"
    using commonProcess_state[of base resync distributed prevent groups, where 'w = 'a] by blast
  show "(case commonProcess base resync distributed prevent groups of
        None \<Rightarrow> False
      | Some (ctrl, fs) \<Rightarrow>
          (case map_of (fa_informers (fs SnapshotFactory)) (kindOf x) of
             None \<Rightarrow> \<not> groups \<and> kindOf x \<notin> {VolumeSnapshotType, VolumeSnapshotContentType}
           | Some i \<Rightarrow> deliver i ch s = Some (enqueued x s) \<and> queueOf x \<in> set (run_Workers (common_Run groups (Suc n)))))"
    unfolding c(1) option.case prod.case c(2)
    by (cases x; cases groups) (simp_all add: commonInformers_def Let_def deliver_def common_Run_def h)
  obtain ctrl and fs :: "'a factories" where c: "sidecarProcess base resync selector driver extra groups = (ctrl, fs)"
    "\<And>f. fa_informers (fs f) = sidecarInformers base resync selector groups f"
    by (rule sidecarProcess_state[of base resync selector driver extra groups, where 'w = 'a]) (rule that)
  show "(case sidecarProcess base resync selector driver extra groups of
        (ctrl, fs) \<Rightarrow>
          (case map_of (fa_informers (fs (if selector = None then SnapshotFactory else ContentFactory))) (kindOf x) of
             None \<Rightarrow> (if groups then kindOf x \<notin> {VolumeSnapshotContentType, VolumeGroupSnapshotContentType V1}
               else kindOf x \<noteq> VolumeSnapshotContentType)
           | Some i \<Rightarrow> deliver i ch s = Some (if quietUpdate ch then s else enqueued x s) \<and>
               queueOf x \<in> set (run_Workers (sidecar_Run groups (Suc n)))))"
    unfolding c(1) prod.case c(2)
    by (cases x; cases groups; cases selector)
      (simp_all add: sidecarInformers_def sidecarContentInformer_def sidecarGroupInformers_def Let_def deliver_def sidecar_Run_def h)
qed

theorem changes_reach_workers_witness:
  "(case sidecarProcess [] 900 None ''driver'' False True of
      (ctrl, fs) \<Rightarrow>
        (case map_of (fa_informers (fs SnapshotFactory)) (VolumeGroupSnapshotContentType V1) of
           None \<Rightarrow> False
         | Some i \<Rightarrow> deliver i (Added (ObjVGSC emptyVolumeGroupSnapshotContent)) demoTwoStores =
             Some (enqueued (ObjVGSC emptyVolumeGroupSnapshotContent) demoTwoStores)))"
proof -
  have "changedObject (Added (ObjVGSC emptyVolumeGroupSnapshotContent)) = Some (ObjVGSC emptyVolumeGroupSnapshotContent)" by simp
  from changes_reach_workers[OF this, where base = "[]" and resync = 900 and selector = None and driver = "''driver''"
      and extra = False and groups = True and s = demoTwoStores]
  show ?thesis by (auto split: prod.splits option.splits)
qed

end
