(* ===== verification/GoMemory.thy ===== *)
theory GoMemory
  imports Prelude
begin

text \<open>
  A memory in which the aliasing of Go values shows: pointers, slices and maps are references to cells. It holds the steps
  that the generated deep copies (\<open>client/apis\<close>, \<open>zz_generated.deepcopy.go\<close>) are made of, the declared types of the
  objects with their JSON tags, and the contract of a deep copy. Elsewhere in the development values are immutable
  and a copy is the identity, which is what this contract justifies.
\<close>

section \<open>Memory\<close>

datatype val =
    VInt int
  | VBool bool
  | VString string
  | VNil
  | VRef nat
  | VStruct "(string \<times> val) list"

text \<open>What a reference leads to: a variable, the array behind a slice, or a map. Memory grows at its end.\<close>

datatype cell =
    Variable val
  | Backing "val list"
  | Entries "(string, string) fmap"

type_synonym memory = "cell list"

definition new :: "cell \<Rightarrow> memory \<Rightarrow> val \<times> memory" where
  "new c h = (VRef (length h), h @ [c])"

definition at :: "memory \<Rightarrow> val \<Rightarrow> cell option" where
  "at h v = (case v of VRef a \<Rightarrow> if a < length h then Some (h ! a) else None | _ \<Rightarrow> None)"

text \<open>A value without its references, as a reader of the memory sees it.\<close>

datatype data =
    DInt int
  | DBool bool
  | DString string
  | DNil
  | DPtr data
  | DSlice "data list"
  | DMap "(string, string) fmap"
  | DStruct "(string \<times> data) list"

text \<open>\<open>reads n h v d\<close>: in the memory \<open>h\<close> the value \<open>v\<close> is \<open>d\<close>, and no cell below \<open>n\<close> belongs to it.\<close>

inductive reads :: "nat \<Rightarrow> memory \<Rightarrow> val \<Rightarrow> data \<Rightarrow> bool" for n h where
  int: "reads n h (VInt i) (DInt i)"
| bool: "reads n h (VBool b) (DBool b)"
| string: "reads n h (VString s) (DString s)"
| nil: "reads n h VNil DNil"
| pointer: "n \<le> a \<Longrightarrow> a < length h \<Longrightarrow> h ! a = Variable v \<Longrightarrow> reads n h v d \<Longrightarrow> reads n h (VRef a) (DPtr d)"
| slice: "n \<le> a \<Longrightarrow> a < length h \<Longrightarrow> h ! a = Backing vs \<Longrightarrow> list_all2 (reads n h) vs ds \<Longrightarrow> reads n h (VRef a) (DSlice ds)"
| entries: "n \<le> a \<Longrightarrow> a < length h \<Longrightarrow> h ! a = Entries m \<Longrightarrow> reads n h (VRef a) (DMap m)"
| struct: "map fst vs = map fst ds \<Longrightarrow> list_all2 (reads n h) (map snd vs) (map snd ds) \<Longrightarrow> reads n h (VStruct vs) (DStruct ds)"

inductive_cases readsE [elim!]:
  "reads n h v (DInt i)" "reads n h v (DBool b)" "reads n h v (DString s)" "reads n h v DNil"
  "reads n h v (DPtr d)" "reads n h v (DSlice ds)" "reads n h v (DMap m)" "reads n h v (DStruct ds)"

text \<open>Only the cells from \<open>n\<close> on matter to such a value, and not the ones that were not there.\<close>

definition agreeFrom :: "nat \<Rightarrow> memory \<Rightarrow> memory \<Rightarrow> bool" where
  "agreeFrom n h h' \<longleftrightarrow> length h \<le> length h' \<and> (\<forall>a. n \<le> a \<and> a < length h \<longrightarrow> h' ! a = h ! a)"

lemma reads_agree:
  assumes "reads n h v d" "agreeFrom n h h'"
  shows "reads n h' v d"
  using assms
proof (induction rule: reads.induct)
  case (slice a vs ds)
  then have "list_all2 (reads n h') vs ds" by (auto elim: list_all2_mono)
  then show ?case using slice by (intro reads.slice[of n a h' vs]) (auto simp: agreeFrom_def)
next
  case (struct vs ds)
  then have "list_all2 (reads n h') (map snd vs) (map snd ds)" by (auto elim: list_all2_mono)
  then show ?case using struct by (intro reads.struct)
next
  case (pointer a v d)
  then show ?case by (intro reads.pointer[of n a h' v]) (auto simp: agreeFrom_def)
next
  case (entries a m)
  then show ?case by (intro reads.entries[of n a h' m]) (auto simp: agreeFrom_def)
qed (auto intro: reads.intros)

lemma reads_weaken:
  assumes "reads n h v d" "m \<le> n"
  shows "reads m h v d"
  using assms
proof (induction rule: reads.induct)
  case (slice a vs ds)
  then have "list_all2 (reads m h) vs ds" by (auto elim: list_all2_mono)
  then show ?case using slice by (intro reads.slice[of m a h vs]) auto
next
  case (struct vs ds)
  then have "list_all2 (reads m h) (map snd vs) (map snd ds)" by (auto elim: list_all2_mono)
  then show ?case using struct by (intro reads.struct)
qed (auto intro: reads.intros)

lemma reads_append: "reads n h v d \<Longrightarrow> reads n (h @ h') v d"
  by (rule reads_agree) (auto simp: agreeFrom_def nth_append)

section \<open>Declared types\<close>

text \<open>
  A type of the API; \<open>TLibrary\<close> is a type of a library, by its name. The fields of a struct come with their tags: the name
  in JSON, and whether an empty field is left out.
\<close>

datatype jsonTag = Inline | Tag string bool

datatype goType =
    TInt64
  | TBool
  | TString
  | TLibrary string
  | TPtr goType
  | TSlice goType
  | TStringMap
  | TStruct "(string \<times> jsonTag \<times> goType) list"

text \<open>Data without references.\<close>

fun flat :: "data \<Rightarrow> bool" and flatFields :: "(string \<times> data) list \<Rightarrow> bool" where
  "flat (DInt i) = True"
| "flat (DBool b) = True"
| "flat (DString s) = True"
| "flat (DStruct ds) = flatFields ds"
| "flat _ = False"
| "flatFields [] = True"
| "flatFields ((f, d) # ds) = (flat d \<and> flatFields ds)"

text \<open>Data of a type; the data of the types of libraries are a parameter.\<close>

fun fits :: "(string \<Rightarrow> data \<Rightarrow> bool) \<Rightarrow> goType \<Rightarrow> data \<Rightarrow> bool"
  and fitsAll :: "(string \<Rightarrow> data \<Rightarrow> bool) \<Rightarrow> goType \<Rightarrow> data list \<Rightarrow> bool"
  and fitsFields :: "(string \<Rightarrow> data \<Rightarrow> bool) \<Rightarrow> (string \<times> jsonTag \<times> goType) list \<Rightarrow> (string \<times> data) list \<Rightarrow> bool" where
  "fits lib TInt64 d = (case d of DInt i \<Rightarrow> - (2 ^ 63) \<le> i \<and> i < 2 ^ 63 | _ \<Rightarrow> False)"
| "fits lib TBool d = (case d of DBool b \<Rightarrow> True | _ \<Rightarrow> False)"
| "fits lib TString d = (case d of DString s \<Rightarrow> True | _ \<Rightarrow> False)"
| "fits lib (TLibrary name) d = lib name d"
| "fits lib (TPtr t) DNil = True"
| "fits lib (TPtr t) (DPtr d) = fits lib t d"
| "fits lib (TPtr t) _ = False"
| "fits lib (TSlice t) DNil = True"
| "fits lib (TSlice t) (DSlice ds) = fitsAll lib t ds"
| "fits lib (TSlice t) _ = False"
| "fits lib TStringMap d = (case d of DNil \<Rightarrow> True | DMap m \<Rightarrow> True | _ \<Rightarrow> False)"
| "fits lib (TStruct fs) (DStruct ds) = fitsFields lib fs ds"
| "fits lib (TStruct fs) _ = False"
| "fitsAll lib t [] = True"
| "fitsAll lib t (d # ds) = (fits lib t d \<and> fitsAll lib t ds)"
| "fitsFields lib [] ds = (ds = [])"
| "fitsFields lib ((f, tag, t) # fs) ds =
    (case ds of [] \<Rightarrow> False | (g, d) # ds' \<Rightarrow> g = f \<and> fits lib t d \<and> fitsFields lib fs ds')"

lemma fitsAll_iff [simp]: "fitsAll lib t ds \<longleftrightarrow> list_all (fits lib t) ds"
  by (induction ds) auto

lemma flatFields_iff [simp]: "flatFields ds \<longleftrightarrow> list_all (\<lambda>(f, d). flat d) ds"
  by (induction ds) auto

text \<open>A value that holds no reference is no part of the memory.\<close>

lemma flat_reads:
  assumes "reads n h v d" "flat d"
  shows "reads m h' v d"
  using assms
proof (induction rule: reads.induct)
  case (struct vs ds)
  then have "list_all flat (map snd ds)" by (simp add: list_all_iff case_prod_beta)
  then have "list_all2 (reads m h') (map snd vs) (map snd ds)"
    using struct(2) by (auto simp: list_all2_conv_all_nth list_all_length)
  then show ?case using struct(1) by (intro reads.struct)
qed (auto intro: reads.intros)

section \<open>Copies\<close>

text \<open>
  A copy of a value in the memory, which may grow; \<open>None\<close> is a panic. What \<open>DeepCopyInto\<close> writes through \<open>out\<close> is
  its result here: its first statement overwrites all of \<open>*out\<close>.
\<close>

type_synonym copier = "val \<Rightarrow> memory \<Rightarrow> (val \<times> memory) option"

text \<open>\<open>*out = *in\<close>.\<close>

definition assign :: copier where
  "assign v h = Some (v, h)"

text \<open>\<open>if in.F != nil { *out = new(T); f(*in, *out) }\<close>; the variable is there once it is filled.\<close>

definition pointer :: "copier \<Rightarrow> copier" where
  "pointer f v h =
    (if v = VNil then Some (VNil, h)
     else case at h v of
       Some (Variable w) \<Rightarrow> do { (w', h) \<leftarrow> f w h; Some (new (Variable w') h) }
     | _ \<Rightarrow> None)"

text \<open>\<open>if in.F != nil { *out = make([]T, len(*in)); for i := range *in { f((*in)[i], (*out)[i]) } }\<close>.\<close>

fun each :: "copier \<Rightarrow> val list \<Rightarrow> memory \<Rightarrow> (val list \<times> memory) option" where
  "each f [] h = Some ([], h)"
| "each f (v # vs) h = do { (v', h) \<leftarrow> f v h; (vs', h) \<leftarrow> each f vs h; Some (v' # vs', h) }"

definition slice :: "copier \<Rightarrow> copier" where
  "slice f v h =
    (if v = VNil then Some (VNil, h)
     else case at h v of
       Some (Backing vs) \<Rightarrow> do { (vs', h) \<leftarrow> each f vs h; Some (new (Backing vs') h) }
     | _ \<Rightarrow> None)"

text \<open>\<open>if in.F != nil { *out = make(map[string]string); for key, val := range *in { (*out)[key] = val } }\<close>, the keys in order.\<close>

definition insertAll :: "string list \<Rightarrow> (string, string) fmap \<Rightarrow> (string, string) fmap" where
  "insertAll keys m = fold (\<lambda>key out. case fmlookup m key of None \<Rightarrow> out | Some val \<Rightarrow> fmupd key val out) keys fmempty"

definition stringMap :: copier where
  "stringMap v h =
    (if v = VNil then Some (VNil, h)
     else case at h v of
       Some (Entries m) \<Rightarrow> Some (new (Entries (insertAll (sorted_list_of_fset (fmdom m)) m)) h)
     | _ \<Rightarrow> None)"

text \<open>The statements of a \<open>DeepCopyInto\<close> after its first, one for a field each.\<close>

fun setField :: "string \<Rightarrow> val \<Rightarrow> (string \<times> val) list \<Rightarrow> (string \<times> val) list" where
  "setField f v [] = []"
| "setField f v ((g, w) # fs) = (if g = f then (g, v) # fs else (g, w) # setField f v fs)"

fun fields :: "(string \<times> copier) list \<Rightarrow> (string \<times> val) list \<Rightarrow> memory \<Rightarrow> ((string \<times> val) list \<times> memory) option" where
  "fields [] fs h = Some (fs, h)"
| "fields ((f, c) # cs) fs h =
    (case map_of fs f of
       None \<Rightarrow> None
     | Some v \<Rightarrow> do { (v', h) \<leftarrow> c v h; fields cs (setField f v' fs) h })"

definition intoStruct :: "(string \<times> copier) list \<Rightarrow> copier" where
  "intoStruct cs v h =
    (case v of VStruct fs \<Rightarrow> do { (fs', h) \<leftarrow> fields cs fs h; Some (VStruct fs', h) } | _ \<Rightarrow> None)"

text \<open>An interface value: no type and no value, or a value with its type.\<close>

datatype interface = NilInterface | Dynamic string val

text \<open>\<open>if c := in.DeepCopy(); c != nil { return c }; return nil\<close>.\<close>

definition asObject :: "string \<Rightarrow> copier \<Rightarrow> val \<Rightarrow> memory \<Rightarrow> (interface \<times> memory) option" where
  "asObject typeName copy v h = do { (c, h) \<leftarrow> copy v h; Some (if c \<noteq> VNil then Dynamic typeName c else NilInterface, h) }"

section \<open>The contract\<close>

text \<open>A deep copy returns; the memory only grows, and the copy is equal and all of it is new.\<close>

definition copies :: "copier \<Rightarrow> (data \<Rightarrow> bool) \<Rightarrow> bool" where
  "copies f ok \<longleftrightarrow> (\<forall>n h v d. reads n h v d \<and> ok d \<longrightarrow>
    (\<exists>v' more. f v h = Some (v', h @ more) \<and> reads (length h) (h @ more) v' d))"

lemma copiesD:
  assumes "copies f ok" "reads n h v d" "ok d"
  obtains v' more where "f v h = Some (v', h @ more)" "reads (length h) (h @ more) v' d"
  using assms unfolding copies_def by blast

text \<open>
  What that is for: whatever is written to the cells that were there, the copy keeps its value, and whatever is written to
  the new cells, the original keeps its.
\<close>

definition independent :: "copier \<Rightarrow> (data \<Rightarrow> bool) \<Rightarrow> bool" where
  "independent f ok \<longleftrightarrow> (\<forall>h v d. reads 0 h v d \<and> ok d \<longrightarrow>
    (\<exists>v' more. f v h = Some (v', h @ more) \<and>
      (\<forall>old. length old = length h \<longrightarrow> reads 0 (old @ more) v' d) \<and>
      (\<forall>more'. reads 0 (h @ more') v d)))"

lemma copies_independent:
  assumes "copies f ok"
  shows "independent f ok"
  unfolding independent_def
proof (intro allI impI, elim conjE)
  fix h v d
  assume d: "reads 0 h v d" "ok d"
  then obtain v' more where c: "f v h = Some (v', h @ more)" "reads (length h) (h @ more) v' d"
    using assms by (blast elim: copiesD)
  have "reads 0 (old @ more) v' d" if "length old = length h" for old
    using reads_agree[OF c(2), of "old @ more"] reads_weaken that by (auto simp: agreeFrom_def nth_append)
  then show "\<exists>v' more. f v h = Some (v', h @ more) \<and>
      (\<forall>old. length old = length h \<longrightarrow> reads 0 (old @ more) v' d) \<and> (\<forall>more'. reads 0 (h @ more') v d)"
    using c(1) reads_append[OF d(1)] by blast
qed

section \<open>The steps keep the contract\<close>

named_theorems copy_rule \<open>the contract of the copies\<close>

lemma copies_mono: "copies f ok \<Longrightarrow> (\<And>d. ok' d \<Longrightarrow> ok d) \<Longrightarrow> copies f ok'"
  unfolding copies_def by blast

lemma copies_assign: "(\<And>d. ok d \<Longrightarrow> flat d) \<Longrightarrow> copies assign ok"
  unfolding copies_def assign_def by (metis append.right_neutral flat_reads)

lemma copies_scalar [copy_rule]:
  "copies assign (fits lib TInt64)" "copies assign (fits lib TBool)" "copies assign (fits lib TString)"
  by (rule copies_assign; auto split: data.splits)+

lemma new_read:
  "reads (length h) (h @ more) v d \<Longrightarrow>
    reads (length h) ((h @ more) @ [Variable v]) (VRef (length (h @ more))) (DPtr d)"
  by (rule reads.pointer[where v = v]) (auto simp: nth_append intro: reads_append simp del: append_assoc)

lemma at_ref: "at h (VRef a) = (if a < length h then Some (h ! a) else None)"
  by (simp add: at_def)

lemma copies_pointer [copy_rule]:
  assumes "copies f (fits lib t)"
  shows "copies (pointer f) (fits lib (TPtr t))"
  unfolding copies_def
proof (intro allI impI, elim conjE)
  fix n h v d
  assume r: "reads n h v d" and d: "fits lib (TPtr t) d"
  show "\<exists>v' more. pointer f v h = Some (v', h @ more) \<and> reads (length h) (h @ more) v' d"
  proof (cases d)
    case DNil
    then show ?thesis using r by (auto simp: pointer_def intro: reads.nil)
  next
    case (DPtr e)
    then obtain a w where a: "v = VRef a" "a < length h" "h ! a = Variable w" "reads n h w e" using r by blast
    obtain w' more where "f w h = Some (w', h @ more)" "reads (length h) (h @ more) w' e"
      using copiesD[OF assms a(4)] d DPtr by auto
    then show ?thesis using a DPtr new_read by (fastforce simp: pointer_def at_ref new_def)
  qed (use d in auto)
qed

lemma copies_each:
  assumes "copies f ok" "list_all2 (reads n h) vs ds" "list_all ok ds"
  obtains vs' more where "each f vs h = Some (vs', h @ more)" "list_all2 (reads (length h) (h @ more)) vs' ds"
  using assms(2,3)
proof (induction vs arbitrary: h ds thesis)
  case Nil
  then show ?case by (metis append.right_neutral each.simps(1) list_all2_Nil)
next
  case (Cons v vs)
  then obtain d es where d: "ds = d # es" "reads n h v d" "list_all2 (reads n h) vs es" "ok d" "list_all ok es"
    by (auto simp: list_all2_Cons1)
  obtain v' m1 where v: "f v h = Some (v', h @ m1)" "reads (length h) (h @ m1) v' d"
    using copiesD[OF assms(1) d(2,4)] by blast
  have "list_all2 (reads n (h @ m1)) vs es" using d(3) by (rule list_all2_mono) (rule reads_append)
  from Cons.IH[OF _ this d(5)] obtain vs' m2 where
    vs: "each f vs (h @ m1) = Some (vs', (h @ m1) @ m2)" "list_all2 (reads (length (h @ m1)) ((h @ m1) @ m2)) vs' es"
    by blast
  have "list_all2 (reads (length h) ((h @ m1) @ m2)) vs' es"
    using vs(2) by (rule list_all2_mono) (erule reads_weaken, simp)
  moreover have "reads (length h) ((h @ m1) @ m2) v' d" using v(2) by (rule reads_append)
  ultimately show ?case using Cons.prems(1)[of "v' # vs'" "m1 @ m2"] v(1) vs(1) d(1) by simp
qed

lemma copies_slice [copy_rule]:
  assumes "copies f (fits lib t)"
  shows "copies (slice f) (fits lib (TSlice t))"
  unfolding copies_def
proof (intro allI impI, elim conjE)
  fix n h v d
  assume r: "reads n h v d" and d: "fits lib (TSlice t) d"
  show "\<exists>v' more. slice f v h = Some (v', h @ more) \<and> reads (length h) (h @ more) v' d"
  proof (cases d)
    case DNil
    then show ?thesis using r by (auto simp: slice_def intro: reads.nil)
  next
    case (DSlice ds)
    then obtain a vs where a: "v = VRef a" "a < length h" "h ! a = Backing vs" "list_all2 (reads n h) vs ds" using r by blast
    then obtain vs' more where vs: "each f vs h = Some (vs', h @ more)" "list_all2 (reads (length h) (h @ more)) vs' ds"
      using copies_each[OF assms a(4)] d DSlice by auto
    have "list_all2 (reads (length h) ((h @ more) @ [Backing vs'])) vs' ds"
      using vs(2) by (rule list_all2_mono) (rule reads_append)
    then have "reads (length h) (h @ more @ [Backing vs']) (VRef (length (h @ more))) (DSlice ds)"
      by (intro reads.slice[where vs = vs']) (auto simp: nth_append)
    then show ?thesis using a vs(1) DSlice
      by (intro exI[of _ "VRef (length (h @ more))"] exI[of _ "more @ [Backing vs']"]) (simp add: slice_def at_ref new_def)
  qed (use d in auto)
qed

lemma insertAll_some: "fmlookup (insertAll keys m) key = (if key \<in> set keys then fmlookup m key else None)"
proof -
  have "fmlookup (fold (\<lambda>key out. case fmlookup m key of None \<Rightarrow> out | Some val \<Rightarrow> fmupd key val out) keys out) key =
      (if key \<in> set keys \<and> fmlookup m key \<noteq> None then fmlookup m key else fmlookup out key)" for out
    by (induction keys arbitrary: out) (auto split: option.splits)
  from this[of fmempty] show ?thesis by (simp add: insertAll_def)
qed

lemma insertAll_keys: "insertAll (sorted_list_of_fset (fmdom m)) m = m"
  by (rule fmap_ext) (auto simp: insertAll_some fmdom_notI fmlookup_dom_iff)

lemma copies_stringMap [copy_rule]: "copies stringMap (fits lib TStringMap)"
  unfolding copies_def
proof (intro allI impI, elim conjE)
  fix n h v d
  assume r: "reads n h v d" and d: "fits lib TStringMap d"
  show "\<exists>v' more. stringMap v h = Some (v', h @ more) \<and> reads (length h) (h @ more) v' d"
  proof (cases d)
    case DNil
    then show ?thesis using r by (auto simp: stringMap_def intro: reads.nil)
  next
    case (DMap m)
    then obtain a where a: "v = VRef a" "a < length h" "h ! a = Entries m" using r by blast
    have "reads (length h) (h @ [Entries m]) (VRef (length h)) (DMap m)" by (rule reads.entries) auto
    then show ?thesis using a DMap by (intro exI[of _ "VRef (length h)"]) (simp add: stringMap_def at_ref new_def insertAll_keys)
  qed (use d in auto)
qed

text \<open>Of a struct, a field without a statement must not hold references.\<close>

definition fieldCopied :: "(string \<Rightarrow> data \<Rightarrow> bool) \<Rightarrow> (string \<times> copier) list \<Rightarrow> string \<times> jsonTag \<times> goType \<Rightarrow> bool" where
  "fieldCopied lib cs field =
    copies (case map_of cs (fst field) of None \<Rightarrow> assign | Some c \<Rightarrow> c) (fits lib (snd (snd field)))"

lemma setField_other: "map_of (setField f v fs) g = (if g = f \<and> map_of fs f \<noteq> None then Some v else map_of fs g)"
  by (induction fs) (auto split: if_splits)

lemma setField_names [simp]: "map fst (setField f v fs) = map fst fs"
  by (induction fs) auto

lemma reads_fields:
  "map fst vs = map fst ds \<Longrightarrow> distinct (map fst ds) \<Longrightarrow>
    list_all2 (reads n h) (map snd vs) (map snd ds) \<longleftrightarrow>
    (\<forall>f d. map_of ds f = Some d \<longrightarrow> (\<exists>v. map_of vs f = Some v \<and> reads n h v d))"
proof (induction vs arbitrary: ds)
  case (Cons v vs)
  obtain f w where v: "v = (f, w)" by fastforce
  from Cons.prems obtain e es where ds: "ds = (f, e) # es" "map fst vs = map fst es" "f \<notin> set (map fst es)" "distinct (map fst es)"
    by (cases ds) (auto simp: v)
  have "map_of es f = None" using ds(3) by (simp add: map_of_eq_None_iff)
  then show ?case using Cons.IH[OF ds(2,4)] by (auto simp: v ds(1) split: if_splits)
qed simp

definition copiesValue :: "copier \<Rightarrow> data \<Rightarrow> bool" where
  "copiesValue c d \<longleftrightarrow> (\<forall>n h v. reads n h v d \<longrightarrow> (\<exists>v' more. c v h = Some (v', h @ more) \<and> reads (length h) (h @ more) v' d))"

lemma copies_value: "copies c ok \<longleftrightarrow> (\<forall>d. ok d \<longrightarrow> copiesValue c d)"
  by (auto simp: copies_def copiesValue_def)

lemma fields_copied:
  assumes "distinct (map fst cs)" "\<And>f c. (f, c) \<in> set cs \<Longrightarrow> \<exists>d. map_of ds f = Some d \<and> copiesValue c d"
    and "map fst vs = map fst ds" "m \<le> length h"
    and "\<And>f d. map_of ds f = Some d \<Longrightarrow> \<exists>v. map_of vs f = Some v \<and> reads (if f \<in> set (map fst cs) then n else m) h v d"
  shows "\<exists>vs' more. fields cs vs h = Some (vs', h @ more) \<and> map fst vs' = map fst ds \<and>
    (\<forall>f d. map_of ds f = Some d \<longrightarrow> (\<exists>v. map_of vs' f = Some v \<and> reads m (h @ more) v d))"
  using assms
proof (induction cs arbitrary: vs h)
  case Nil
  then show ?case by (intro exI[of _ vs] exI[of _ "[]"]) simp
next
  case (Cons x cs)
  obtain f c where x: "x = (f, c)" by fastforce
  obtain d where d: "map_of ds f = Some d" "copiesValue c d" using Cons.prems(2)[of f c] x by auto
  obtain v where v: "map_of vs f = Some v" "reads n h v d" using Cons.prems(5)[OF d(1)] x by auto
  obtain v' m1 where c: "c v h = Some (v', h @ m1)" "reads (length h) (h @ m1) v' d"
    using d(2) v(2) unfolding copiesValue_def by blast
  have other: "\<exists>w. map_of (setField f v' vs) g = Some w \<and> reads (if g \<in> set (map fst cs) then n else m) (h @ m1) w e"
    if e: "map_of ds g = Some e" for g e
  proof (cases "g = f")
    case True
    have "f \<notin> set (map fst cs)" using Cons.prems(1) x by simp
    then show ?thesis using True v(1) c(2) d(1) e Cons.prems(4) by (auto simp: setField_other intro: reads_weaken)
  next
    case False
    then show ?thesis using Cons.prems(5)[OF e] x by (auto simp: setField_other intro: reads_append split: if_splits)
  qed
  have "\<exists>vs' more. fields cs (setField f v' vs) (h @ m1) = Some (vs', (h @ m1) @ more) \<and> map fst vs' = map fst ds \<and>
      (\<forall>f d. map_of ds f = Some d \<longrightarrow> (\<exists>v. map_of vs' f = Some v \<and> reads m ((h @ m1) @ more) v d))"
    using Cons.prems(1-4) x other by (intro Cons.IH) auto
  then obtain vs' m2 where "fields cs (setField f v' vs) (h @ m1) = Some (vs', (h @ m1) @ m2)" "map fst vs' = map fst ds"
    "\<forall>f d. map_of ds f = Some d \<longrightarrow> (\<exists>v. map_of vs' f = Some v \<and> reads m ((h @ m1) @ m2) v d)" by blast
  then show ?case using x v(1) c(1) by (intro exI[of _ vs'] exI[of _ "m1 @ m2"]) simp
qed

lemma fitsFields_names: "fitsFields lib fs ds \<Longrightarrow> map fst ds = map fst fs"
  by (induction lib fs ds rule: fits_fitsAll_fitsFields.induct(3)[where P = "\<lambda>_ _ _. True" and Q = "\<lambda>_ _ _. True"])
    (auto split: list.splits)

lemma fitsFields_field:
  "fitsFields lib fs ds \<Longrightarrow> map_of ds f = Some d \<Longrightarrow> \<exists>tag t. (f, tag, t) \<in> set fs \<and> fits lib t d"
proof (induction fs arbitrary: ds)
  case (Cons x fs)
  obtain g tag t where x: "x = (g, tag, t)" by (cases x)
  then obtain e es where "ds = (g, e) # es" "fits lib t e" "fitsFields lib fs es" using Cons.prems(1) by (auto split: list.splits)
  then show ?case using Cons.IH[of es] Cons.prems(2) x by (auto split: if_splits)
qed simp

lemma copies_struct:
  assumes "distinct (map fst fs)" "distinct (map fst cs)" "list_all (\<lambda>f. f \<in> set (map fst fs)) (map fst cs)"
    and "list_all (fieldCopied lib cs) fs"
  shows "copies (intoStruct cs) (fits lib (TStruct fs))"
  unfolding copies_def
proof (intro allI impI, elim conjE)
  fix n h v d
  assume r: "reads n h v d" and "fits lib (TStruct fs) d"
  then obtain ds where ds: "d = DStruct ds" "fitsFields lib fs ds" by (cases d) auto
  then obtain vs where vs: "v = VStruct vs" "map fst vs = map fst ds" "list_all2 (reads n h) (map snd vs) (map snd ds)"
    using r by blast
  note names = fitsFields_names[OF ds(2)]
  have copied: "copiesValue (case map_of cs f of None \<Rightarrow> assign | Some c \<Rightarrow> c) e" if "map_of ds f = Some e" for f e
    using fitsFields_field[OF ds(2) that] assms(4) by (fastforce simp: list_all_iff fieldCopied_def copies_value)
  have read: "\<exists>w. map_of vs f = Some w \<and> reads n h w e" if "map_of ds f = Some e" for f e
    using reads_fields[OF vs(2)] assms(1) names vs(3) that by auto
  have "\<exists>w. map_of vs f = Some w \<and> reads (if f \<in> set (map fst cs) then n else length h) h w e" if e: "map_of ds f = Some e" for f e
  proof (cases "f \<in> set (map fst cs)")
    case False
    then have "map_of cs f = None" by (simp add: map_of_eq_None_iff)
    then have "copiesValue assign e" using copied[OF e] by simp
    then show ?thesis using read[OF e] False by (auto simp: copiesValue_def assign_def)
  qed (use read[OF e] in simp)
  moreover have "\<exists>e. map_of ds f = Some e \<and> copiesValue c e" if c: "(f, c) \<in> set cs" for f c
  proof -
    have "f \<in> set (map fst fs)" using c assms(3) by (force simp: list_all_iff)
    then have "f \<in> fst ` set ds" using names by (metis set_map)
    then obtain e where "map_of ds f = Some e" by (metis map_of_eq_None_iff not_None_eq)
    then show ?thesis using copied[of f e] map_of_is_SomeI[OF assms(2) c] by auto
  qed
  ultimately obtain vs' more where "fields cs vs h = Some (vs', h @ more)" "map fst vs' = map fst ds"
    "\<forall>f d. map_of ds f = Some d \<longrightarrow> (\<exists>v. map_of vs' f = Some v \<and> reads (length h) (h @ more) v d)"
    using fields_copied[of cs ds vs "length h" h n] assms(2) vs(2) by auto
  then show "\<exists>v' more. intoStruct cs v h = Some (v', h @ more) \<and> reads (length h) (h @ more) v' d"
    using vs(1) ds(1) assms(1) names reads_fields[of vs' ds "length h" "h @ more"]
    by (intro exI[of _ "VStruct vs'"] exI[of _ more]) (auto simp: intoStruct_def intro: reads.struct)
qed

text \<open>A struct whose fields are all assigned may as well be assigned as a whole.\<close>

lemma copies_assigned_struct:
  assumes "copies (intoStruct []) (fits lib (TStruct fs))"
  shows "copies assign (fits lib (TStruct fs))"
  unfolding copies_def
proof (intro allI impI, elim conjE)
  fix n h v d
  assume r: "reads n h v d" and d: "fits lib (TStruct fs) d"
  obtain v' more where c: "intoStruct [] v h = Some (v', h @ more)" "reads (length h) (h @ more) v' d"
    using copiesD[OF assms r d] by blast
  then show "\<exists>v' more. assign v h = Some (v', h @ more) \<and> reads (length h) (h @ more) v' d"
    by (intro exI[of _ v'] exI[of _ more]) (cases v; simp add: intoStruct_def assign_def)
qed

text \<open>The copies of the libraries, by the name of their type.\<close>

definition libraryCopies :: "(string \<Rightarrow> copier) \<Rightarrow> (string \<Rightarrow> data \<Rightarrow> bool) \<Rightarrow> bool" where
  "libraryCopies lib ok \<longleftrightarrow> (\<forall>name. copies (lib name) (ok name))"

lemma copies_library [copy_rule]: "libraryCopies lib ok \<Longrightarrow> copies (lib name) (fits ok (TLibrary name))"
  by (rule copies_mono[where ok = "ok name"]) (simp_all add: libraryCopies_def)

text \<open>A copy as an interface value: nil for nil, otherwise of the type of the object.\<close>

definition copiesObject :: "string \<Rightarrow> (val \<Rightarrow> memory \<Rightarrow> (interface \<times> memory) option) \<Rightarrow> (data \<Rightarrow> bool) \<Rightarrow> bool" where
  "copiesObject typeName f ok \<longleftrightarrow> (\<forall>h v d. reads 0 h v d \<and> ok d \<longrightarrow>
    (if v = VNil then f v h = Some (NilInterface, h)
     else \<exists>v' more. f v h = Some (Dynamic typeName v', h @ more) \<and>
       (\<forall>old. length old = length h \<longrightarrow> reads 0 (old @ more) v' d) \<and> (\<forall>more'. reads 0 (h @ more') v d)))"

lemma copies_object:
  assumes "copies f (fits lib t)"
  shows "copiesObject typeName (asObject typeName (pointer f)) (fits lib (TPtr t))"
  unfolding copiesObject_def
proof (intro allI impI, elim conjE)
  fix h v d
  assume r: "reads 0 h v d" and d: "fits lib (TPtr t) d"
  obtain v' more where c: "pointer f v h = Some (v', h @ more)" "\<forall>old. length old = length h \<longrightarrow> reads 0 (old @ more) v' d"
    "\<forall>more'. reads 0 (h @ more') v d"
    using copies_independent[OF copies_pointer[OF assms]] r d unfolding independent_def by blast
  have nil: "v' = VNil \<Longrightarrow> v = VNil"
    using c(1) by (auto simp: pointer_def new_def split: if_splits option.splits cell.splits bind_splits)
  show "if v = VNil then asObject typeName (pointer f) v h = Some (NilInterface, h)
     else \<exists>v' more. asObject typeName (pointer f) v h = Some (Dynamic typeName v', h @ more) \<and>
       (\<forall>old. length old = length h \<longrightarrow> reads 0 (old @ more) v' d) \<and> (\<forall>more'. reads 0 (h @ more') v d)"
  proof (cases "v = VNil")
    case True
    then show ?thesis by (simp add: asObject_def pointer_def)
  next
    case False
    then show ?thesis using c nil by (auto simp: asObject_def)
  qed
qed

end
