(* ===== verification/ApiLayouts.thy ===== *)
theory ApiLayouts
  imports GoMemory
begin

text \<open>
  The declared types of the objects, of all four versions of the API (\<open>client/apis\<close>, \<open>types.go\<close>), with the tags of their
  fields. The ending of a name is its version; a group version has its own copy of every type.
\<close>

section \<open>Structs of libraries that hold no references\<close>

definition TypeMeta_type :: goType where
  "TypeMeta_type = TStruct [(''Kind'', Tag ''kind'' True, TString), (''APIVersion'', Tag ''apiVersion'' True, TString)]"

definition ObjectReference_type :: goType where
  "ObjectReference_type = TStruct
    [(''Kind'', Tag ''kind'' True, TString),
     (''Namespace'', Tag ''namespace'' True, TString),
     (''Name'', Tag ''name'' True, TString),
     (''UID'', Tag ''uid'' True, TString),
     (''APIVersion'', Tag ''apiVersion'' True, TString),
     (''ResourceVersion'', Tag ''resourceVersion'' True, TString),
     (''FieldPath'', Tag ''fieldPath'' True, TString)]"

section \<open>Package \<open>volumesnapshot/v1\<close>\<close>

definition VolumeSnapshotSource_v1 :: goType where
  "VolumeSnapshotSource_v1 = TStruct
    [(''PersistentVolumeClaimName'', Tag ''persistentVolumeClaimName'' True, TPtr TString),
     (''VolumeSnapshotContentName'', Tag ''volumeSnapshotContentName'' True, TPtr TString)]"

definition VolumeSnapshotSpec_v1 :: goType where
  "VolumeSnapshotSpec_v1 = TStruct
    [(''Source'', Tag ''source'' False, VolumeSnapshotSource_v1),
     (''VolumeSnapshotClassName'', Tag ''volumeSnapshotClassName'' True, TPtr TString)]"

definition VolumeSnapshotError_v1 :: goType where
  "VolumeSnapshotError_v1 = TStruct
    [(''Time'', Tag ''time'' True, TPtr (TLibrary ''metav1.Time'')),
     (''Message'', Tag ''message'' True, TPtr TString)]"

definition VolumeSnapshotStatus_v1 :: goType where
  "VolumeSnapshotStatus_v1 = TStruct
    [(''BoundVolumeSnapshotContentName'', Tag ''boundVolumeSnapshotContentName'' True, TPtr TString),
     (''CreationTime'', Tag ''creationTime'' True, TPtr (TLibrary ''metav1.Time'')),
     (''ReadyToUse'', Tag ''readyToUse'' True, TPtr TBool),
     (''RestoreSize'', Tag ''restoreSize'' True, TPtr (TLibrary ''resource.Quantity'')),
     (''Error'', Tag ''error'' True, TPtr VolumeSnapshotError_v1),
     (''VolumeGroupSnapshotName'', Tag ''volumeGroupSnapshotName'' True, TPtr TString)]"

definition VolumeSnapshot_v1 :: goType where
  "VolumeSnapshot_v1 = TStruct
    [(''TypeMeta'', Inline, TypeMeta_type),
     (''ObjectMeta'', Tag ''metadata'' True, TLibrary ''metav1.ObjectMeta''),
     (''Spec'', Tag ''spec'' False, VolumeSnapshotSpec_v1),
     (''Status'', Tag ''status'' True, TPtr VolumeSnapshotStatus_v1)]"

definition VolumeSnapshotList_v1 :: goType where
  "VolumeSnapshotList_v1 = TStruct
    [(''TypeMeta'', Inline, TypeMeta_type),
     (''ListMeta'', Tag ''metadata'' True, TLibrary ''metav1.ListMeta''),
     (''Items'', Tag ''items'' False, TSlice VolumeSnapshot_v1)]"

definition DeletionPolicy_v1 :: goType where
  "DeletionPolicy_v1 = TString"

definition VolumeSnapshotClass_v1 :: goType where
  "VolumeSnapshotClass_v1 = TStruct
    [(''TypeMeta'', Inline, TypeMeta_type),
     (''ObjectMeta'', Tag ''metadata'' True, TLibrary ''metav1.ObjectMeta''),
     (''Driver'', Tag ''driver'' False, TString),
     (''Parameters'', Tag ''parameters'' True, TStringMap),
     (''DeletionPolicy'', Tag ''deletionPolicy'' False, DeletionPolicy_v1)]"

definition VolumeSnapshotClassList_v1 :: goType where
  "VolumeSnapshotClassList_v1 = TStruct
    [(''TypeMeta'', Inline, TypeMeta_type),
     (''ListMeta'', Tag ''metadata'' True, TLibrary ''metav1.ListMeta''),
     (''Items'', Tag ''items'' False, TSlice VolumeSnapshotClass_v1)]"

definition VolumeSnapshotContentSource_v1 :: goType where
  "VolumeSnapshotContentSource_v1 = TStruct
    [(''VolumeHandle'', Tag ''volumeHandle'' True, TPtr TString),
     (''SnapshotHandle'', Tag ''snapshotHandle'' True, TPtr TString)]"

definition VolumeSnapshotContentSpec_v1 :: goType where
  "VolumeSnapshotContentSpec_v1 = TStruct
    [(''VolumeSnapshotRef'', Tag ''volumeSnapshotRef'' False, ObjectReference_type),
     (''DeletionPolicy'', Tag ''deletionPolicy'' False, DeletionPolicy_v1),
     (''Driver'', Tag ''driver'' False, TString),
     (''VolumeSnapshotClassName'', Tag ''volumeSnapshotClassName'' True, TPtr TString),
     (''Source'', Tag ''source'' False, VolumeSnapshotContentSource_v1),
     (''SourceVolumeMode'', Tag ''sourceVolumeMode'' False, TPtr TString)]"

definition VolumeSnapshotContentStatus_v1 :: goType where
  "VolumeSnapshotContentStatus_v1 = TStruct
    [(''SnapshotHandle'', Tag ''snapshotHandle'' True, TPtr TString),
     (''CreationTime'', Tag ''creationTime'' True, TPtr TInt64),
     (''RestoreSize'', Tag ''restoreSize'' True, TPtr TInt64),
     (''ReadyToUse'', Tag ''readyToUse'' True, TPtr TBool),
     (''Error'', Tag ''error'' True, TPtr VolumeSnapshotError_v1),
     (''VolumeGroupSnapshotHandle'', Tag ''volumeGroupSnapshotHandle'' True, TPtr TString)]"

definition VolumeSnapshotContent_v1 :: goType where
  "VolumeSnapshotContent_v1 = TStruct
    [(''TypeMeta'', Inline, TypeMeta_type),
     (''ObjectMeta'', Tag ''metadata'' True, TLibrary ''metav1.ObjectMeta''),
     (''Spec'', Tag ''spec'' False, VolumeSnapshotContentSpec_v1),
     (''Status'', Tag ''status'' True, TPtr VolumeSnapshotContentStatus_v1)]"

definition VolumeSnapshotContentList_v1 :: goType where
  "VolumeSnapshotContentList_v1 = TStruct
    [(''TypeMeta'', Inline, TypeMeta_type),
     (''ListMeta'', Tag ''metadata'' True, TLibrary ''metav1.ListMeta''),
     (''Items'', Tag ''items'' False, TSlice VolumeSnapshotContent_v1)]"

section \<open>Package \<open>volumegroupsnapshot/v1\<close>\<close>

definition VolumeGroupSnapshotSource_v1 :: goType where
  "VolumeGroupSnapshotSource_v1 = TStruct
    [(''Selector'', Tag ''selector'' True, TPtr (TLibrary ''metav1.LabelSelector'')),
     (''VolumeGroupSnapshotContentName'', Tag ''volumeGroupSnapshotContentName'' True, TPtr TString)]"

definition VolumeGroupSnapshotSpec_v1 :: goType where
  "VolumeGroupSnapshotSpec_v1 = TStruct
    [(''Source'', Tag ''source'' False, VolumeGroupSnapshotSource_v1),
     (''VolumeGroupSnapshotClassName'', Tag ''volumeGroupSnapshotClassName'' True, TPtr TString)]"

definition VolumeGroupSnapshotStatus_v1 :: goType where
  "VolumeGroupSnapshotStatus_v1 = TStruct
    [(''BoundVolumeGroupSnapshotContentName'', Tag ''boundVolumeGroupSnapshotContentName'' True, TPtr TString),
     (''CreationTime'', Tag ''creationTime'' True, TPtr (TLibrary ''metav1.Time'')),
     (''ReadyToUse'', Tag ''readyToUse'' True, TPtr TBool),
     (''Error'', Tag ''error'' True, TPtr VolumeSnapshotError_v1)]"

definition VolumeGroupSnapshot_v1 :: goType where
  "VolumeGroupSnapshot_v1 = TStruct
    [(''TypeMeta'', Inline, TypeMeta_type),
     (''ObjectMeta'', Tag ''metadata'' True, TLibrary ''metav1.ObjectMeta''),
     (''Spec'', Tag ''spec'' False, VolumeGroupSnapshotSpec_v1),
     (''Status'', Tag ''status'' True, TPtr VolumeGroupSnapshotStatus_v1)]"

definition VolumeGroupSnapshotList_v1 :: goType where
  "VolumeGroupSnapshotList_v1 = TStruct
    [(''TypeMeta'', Inline, TypeMeta_type),
     (''ListMeta'', Tag ''metadata'' True, TLibrary ''metav1.ListMeta''),
     (''Items'', Tag ''items'' False, TSlice VolumeGroupSnapshot_v1)]"

definition VolumeGroupSnapshotClass_v1 :: goType where
  "VolumeGroupSnapshotClass_v1 = TStruct
    [(''TypeMeta'', Inline, TypeMeta_type),
     (''ObjectMeta'', Tag ''metadata'' True, TLibrary ''metav1.ObjectMeta''),
     (''Driver'', Tag ''driver'' False, TString),
     (''Parameters'', Tag ''parameters'' True, TStringMap),
     (''DeletionPolicy'', Tag ''deletionPolicy'' False, DeletionPolicy_v1)]"

definition VolumeGroupSnapshotClassList_v1 :: goType where
  "VolumeGroupSnapshotClassList_v1 = TStruct
    [(''TypeMeta'', Inline, TypeMeta_type),
     (''ListMeta'', Tag ''metadata'' True, TLibrary ''metav1.ListMeta''),
     (''Items'', Tag ''items'' False, TSlice VolumeGroupSnapshotClass_v1)]"

definition GroupSnapshotHandles_v1 :: goType where
  "GroupSnapshotHandles_v1 = TStruct
    [(''VolumeGroupSnapshotHandle'', Tag ''volumeGroupSnapshotHandle'' False, TString),
     (''VolumeSnapshotHandles'', Tag ''volumeSnapshotHandles'' False, TSlice TString)]"

definition VolumeGroupSnapshotContentSource_v1 :: goType where
  "VolumeGroupSnapshotContentSource_v1 = TStruct
    [(''VolumeHandles'', Tag ''volumeHandles'' True, TSlice TString),
     (''GroupSnapshotHandles'', Tag ''groupSnapshotHandles'' True, TPtr GroupSnapshotHandles_v1)]"

definition VolumeGroupSnapshotContentSpec_v1 :: goType where
  "VolumeGroupSnapshotContentSpec_v1 = TStruct
    [(''VolumeGroupSnapshotRef'', Tag ''volumeGroupSnapshotRef'' False, ObjectReference_type),
     (''DeletionPolicy'', Tag ''deletionPolicy'' False, DeletionPolicy_v1),
     (''Driver'', Tag ''driver'' False, TString),
     (''VolumeGroupSnapshotClassName'', Tag ''volumeGroupSnapshotClassName'' True, TPtr TString),
     (''Source'', Tag ''source'' False, VolumeGroupSnapshotContentSource_v1)]"

definition VolumeSnapshotInfo_v1 :: goType where
  "VolumeSnapshotInfo_v1 = TStruct
    [(''VolumeHandle'', Tag ''volumeHandle'' True, TString),
     (''SnapshotHandle'', Tag ''snapshotHandle'' True, TString),
     (''CreationTime'', Tag ''creationTime'' True, TPtr TInt64),
     (''ReadyToUse'', Tag ''readyToUse'' True, TPtr TBool),
     (''RestoreSize'', Tag ''restoreSize'' True, TPtr TInt64)]"

definition VolumeGroupSnapshotContentStatus_v1 :: goType where
  "VolumeGroupSnapshotContentStatus_v1 = TStruct
    [(''VolumeGroupSnapshotHandle'', Tag ''volumeGroupSnapshotHandle'' True, TPtr TString),
     (''CreationTime'', Tag ''creationTime'' True, TPtr (TLibrary ''metav1.Time'')),
     (''ReadyToUse'', Tag ''readyToUse'' True, TPtr TBool),
     (''Error'', Tag ''error'' True, TPtr VolumeSnapshotError_v1),
     (''VolumeSnapshotInfoList'', Tag ''volumeSnapshotInfoList'' True, TSlice VolumeSnapshotInfo_v1)]"

definition VolumeGroupSnapshotContent_v1 :: goType where
  "VolumeGroupSnapshotContent_v1 = TStruct
    [(''TypeMeta'', Inline, TypeMeta_type),
     (''ObjectMeta'', Tag ''metadata'' True, TLibrary ''metav1.ObjectMeta''),
     (''Spec'', Tag ''spec'' False, VolumeGroupSnapshotContentSpec_v1),
     (''Status'', Tag ''status'' True, TPtr VolumeGroupSnapshotContentStatus_v1)]"

definition VolumeGroupSnapshotContentList_v1 :: goType where
  "VolumeGroupSnapshotContentList_v1 = TStruct
    [(''TypeMeta'', Inline, TypeMeta_type),
     (''ListMeta'', Tag ''metadata'' True, TLibrary ''metav1.ListMeta''),
     (''Items'', Tag ''items'' False, TSlice VolumeGroupSnapshotContent_v1)]"

definition VolumeSnapshotHandlePair_v1 :: goType where
  "VolumeSnapshotHandlePair_v1 = TStruct
    [(''VolumeHandle'', Tag ''volumeHandle'' False, TString),
     (''SnapshotHandle'', Tag ''snapshotHandle'' False, TString)]"

section \<open>Package \<open>volumegroupsnapshot/v1beta1\<close>\<close>

definition VolumeGroupSnapshotSource_v1beta1 :: goType where
  "VolumeGroupSnapshotSource_v1beta1 = TStruct
    [(''Selector'', Tag ''selector'' True, TPtr (TLibrary ''metav1.LabelSelector'')),
     (''VolumeGroupSnapshotContentName'', Tag ''volumeGroupSnapshotContentName'' True, TPtr TString)]"

definition VolumeGroupSnapshotSpec_v1beta1 :: goType where
  "VolumeGroupSnapshotSpec_v1beta1 = TStruct
    [(''Source'', Tag ''source'' False, VolumeGroupSnapshotSource_v1beta1),
     (''VolumeGroupSnapshotClassName'', Tag ''volumeGroupSnapshotClassName'' True, TPtr TString)]"

definition VolumeGroupSnapshotStatus_v1beta1 :: goType where
  "VolumeGroupSnapshotStatus_v1beta1 = TStruct
    [(''BoundVolumeGroupSnapshotContentName'', Tag ''boundVolumeGroupSnapshotContentName'' True, TPtr TString),
     (''CreationTime'', Tag ''creationTime'' True, TPtr (TLibrary ''metav1.Time'')),
     (''ReadyToUse'', Tag ''readyToUse'' True, TPtr TBool),
     (''Error'', Tag ''error'' True, TPtr VolumeSnapshotError_v1)]"

definition VolumeGroupSnapshot_v1beta1 :: goType where
  "VolumeGroupSnapshot_v1beta1 = TStruct
    [(''TypeMeta'', Inline, TypeMeta_type),
     (''ObjectMeta'', Tag ''metadata'' True, TLibrary ''metav1.ObjectMeta''),
     (''Spec'', Tag ''spec'' False, VolumeGroupSnapshotSpec_v1beta1),
     (''Status'', Tag ''status'' True, TPtr VolumeGroupSnapshotStatus_v1beta1)]"

definition VolumeGroupSnapshotList_v1beta1 :: goType where
  "VolumeGroupSnapshotList_v1beta1 = TStruct
    [(''TypeMeta'', Inline, TypeMeta_type),
     (''ListMeta'', Tag ''metadata'' True, TLibrary ''metav1.ListMeta''),
     (''Items'', Tag ''items'' False, TSlice VolumeGroupSnapshot_v1beta1)]"

definition VolumeGroupSnapshotClass_v1beta1 :: goType where
  "VolumeGroupSnapshotClass_v1beta1 = TStruct
    [(''TypeMeta'', Inline, TypeMeta_type),
     (''ObjectMeta'', Tag ''metadata'' True, TLibrary ''metav1.ObjectMeta''),
     (''Driver'', Tag ''driver'' False, TString),
     (''Parameters'', Tag ''parameters'' True, TStringMap),
     (''DeletionPolicy'', Tag ''deletionPolicy'' False, DeletionPolicy_v1)]"

definition VolumeGroupSnapshotClassList_v1beta1 :: goType where
  "VolumeGroupSnapshotClassList_v1beta1 = TStruct
    [(''TypeMeta'', Inline, TypeMeta_type),
     (''ListMeta'', Tag ''metadata'' True, TLibrary ''metav1.ListMeta''),
     (''Items'', Tag ''items'' False, TSlice VolumeGroupSnapshotClass_v1beta1)]"

definition GroupSnapshotHandles_v1beta1 :: goType where
  "GroupSnapshotHandles_v1beta1 = TStruct
    [(''VolumeGroupSnapshotHandle'', Tag ''volumeGroupSnapshotHandle'' False, TString),
     (''VolumeSnapshotHandles'', Tag ''volumeSnapshotHandles'' False, TSlice TString)]"

definition VolumeGroupSnapshotContentSource_v1beta1 :: goType where
  "VolumeGroupSnapshotContentSource_v1beta1 = TStruct
    [(''VolumeHandles'', Tag ''volumeHandles'' True, TSlice TString),
     (''GroupSnapshotHandles'', Tag ''groupSnapshotHandles'' True, TPtr GroupSnapshotHandles_v1beta1)]"

definition VolumeGroupSnapshotContentSpec_v1beta1 :: goType where
  "VolumeGroupSnapshotContentSpec_v1beta1 = TStruct
    [(''VolumeGroupSnapshotRef'', Tag ''volumeGroupSnapshotRef'' False, ObjectReference_type),
     (''DeletionPolicy'', Tag ''deletionPolicy'' False, DeletionPolicy_v1),
     (''Driver'', Tag ''driver'' False, TString),
     (''VolumeGroupSnapshotClassName'', Tag ''volumeGroupSnapshotClassName'' True, TPtr TString),
     (''Source'', Tag ''source'' False, VolumeGroupSnapshotContentSource_v1beta1)]"

definition VolumeSnapshotHandlePair_v1beta1 :: goType where
  "VolumeSnapshotHandlePair_v1beta1 = TStruct
    [(''VolumeHandle'', Tag ''volumeHandle'' False, TString),
     (''SnapshotHandle'', Tag ''snapshotHandle'' False, TString)]"

definition VolumeGroupSnapshotContentStatus_v1beta1 :: goType where
  "VolumeGroupSnapshotContentStatus_v1beta1 = TStruct
    [(''VolumeGroupSnapshotHandle'', Tag ''volumeGroupSnapshotHandle'' True, TPtr TString),
     (''CreationTime'', Tag ''creationTime'' True, TPtr (TLibrary ''metav1.Time'')),
     (''ReadyToUse'', Tag ''readyToUse'' True, TPtr TBool),
     (''Error'', Tag ''error'' True, TPtr VolumeSnapshotError_v1),
     (''VolumeSnapshotHandlePairList'', Tag ''volumeSnapshotHandlePairList'' True, TSlice VolumeSnapshotHandlePair_v1beta1)]"

definition VolumeGroupSnapshotContent_v1beta1 :: goType where
  "VolumeGroupSnapshotContent_v1beta1 = TStruct
    [(''TypeMeta'', Inline, TypeMeta_type),
     (''ObjectMeta'', Tag ''metadata'' True, TLibrary ''metav1.ObjectMeta''),
     (''Spec'', Tag ''spec'' False, VolumeGroupSnapshotContentSpec_v1beta1),
     (''Status'', Tag ''status'' True, TPtr VolumeGroupSnapshotContentStatus_v1beta1)]"

definition VolumeGroupSnapshotContentList_v1beta1 :: goType where
  "VolumeGroupSnapshotContentList_v1beta1 = TStruct
    [(''TypeMeta'', Inline, TypeMeta_type),
     (''ListMeta'', Tag ''metadata'' True, TLibrary ''metav1.ListMeta''),
     (''Items'', Tag ''items'' False, TSlice VolumeGroupSnapshotContent_v1beta1)]"

section \<open>Package \<open>volumegroupsnapshot/v1beta2\<close>\<close>

definition VolumeGroupSnapshotSource_v1beta2 :: goType where
  "VolumeGroupSnapshotSource_v1beta2 = TStruct
    [(''Selector'', Tag ''selector'' True, TPtr (TLibrary ''metav1.LabelSelector'')),
     (''VolumeGroupSnapshotContentName'', Tag ''volumeGroupSnapshotContentName'' True, TPtr TString)]"

definition VolumeGroupSnapshotSpec_v1beta2 :: goType where
  "VolumeGroupSnapshotSpec_v1beta2 = TStruct
    [(''Source'', Tag ''source'' False, VolumeGroupSnapshotSource_v1beta2),
     (''VolumeGroupSnapshotClassName'', Tag ''volumeGroupSnapshotClassName'' True, TPtr TString)]"

definition VolumeGroupSnapshotStatus_v1beta2 :: goType where
  "VolumeGroupSnapshotStatus_v1beta2 = TStruct
    [(''BoundVolumeGroupSnapshotContentName'', Tag ''boundVolumeGroupSnapshotContentName'' True, TPtr TString),
     (''CreationTime'', Tag ''creationTime'' True, TPtr (TLibrary ''metav1.Time'')),
     (''ReadyToUse'', Tag ''readyToUse'' True, TPtr TBool),
     (''Error'', Tag ''error'' True, TPtr VolumeSnapshotError_v1)]"

definition VolumeGroupSnapshot_v1beta2 :: goType where
  "VolumeGroupSnapshot_v1beta2 = TStruct
    [(''TypeMeta'', Inline, TypeMeta_type),
     (''ObjectMeta'', Tag ''metadata'' True, TLibrary ''metav1.ObjectMeta''),
     (''Spec'', Tag ''spec'' False, VolumeGroupSnapshotSpec_v1beta2),
     (''Status'', Tag ''status'' True, TPtr VolumeGroupSnapshotStatus_v1beta2)]"

definition VolumeGroupSnapshotList_v1beta2 :: goType where
  "VolumeGroupSnapshotList_v1beta2 = TStruct
    [(''TypeMeta'', Inline, TypeMeta_type),
     (''ListMeta'', Tag ''metadata'' True, TLibrary ''metav1.ListMeta''),
     (''Items'', Tag ''items'' False, TSlice VolumeGroupSnapshot_v1beta2)]"

definition VolumeGroupSnapshotClass_v1beta2 :: goType where
  "VolumeGroupSnapshotClass_v1beta2 = TStruct
    [(''TypeMeta'', Inline, TypeMeta_type),
     (''ObjectMeta'', Tag ''metadata'' True, TLibrary ''metav1.ObjectMeta''),
     (''Driver'', Tag ''driver'' False, TString),
     (''Parameters'', Tag ''parameters'' True, TStringMap),
     (''DeletionPolicy'', Tag ''deletionPolicy'' False, DeletionPolicy_v1)]"

definition VolumeGroupSnapshotClassList_v1beta2 :: goType where
  "VolumeGroupSnapshotClassList_v1beta2 = TStruct
    [(''TypeMeta'', Inline, TypeMeta_type),
     (''ListMeta'', Tag ''metadata'' True, TLibrary ''metav1.ListMeta''),
     (''Items'', Tag ''items'' False, TSlice VolumeGroupSnapshotClass_v1beta2)]"

definition GroupSnapshotHandles_v1beta2 :: goType where
  "GroupSnapshotHandles_v1beta2 = TStruct
    [(''VolumeGroupSnapshotHandle'', Tag ''volumeGroupSnapshotHandle'' False, TString),
     (''VolumeSnapshotHandles'', Tag ''volumeSnapshotHandles'' False, TSlice TString)]"

definition VolumeGroupSnapshotContentSource_v1beta2 :: goType where
  "VolumeGroupSnapshotContentSource_v1beta2 = TStruct
    [(''VolumeHandles'', Tag ''volumeHandles'' True, TSlice TString),
     (''GroupSnapshotHandles'', Tag ''groupSnapshotHandles'' True, TPtr GroupSnapshotHandles_v1beta2)]"

definition VolumeGroupSnapshotContentSpec_v1beta2 :: goType where
  "VolumeGroupSnapshotContentSpec_v1beta2 = TStruct
    [(''VolumeGroupSnapshotRef'', Tag ''volumeGroupSnapshotRef'' False, ObjectReference_type),
     (''DeletionPolicy'', Tag ''deletionPolicy'' False, DeletionPolicy_v1),
     (''Driver'', Tag ''driver'' False, TString),
     (''VolumeGroupSnapshotClassName'', Tag ''volumeGroupSnapshotClassName'' True, TPtr TString),
     (''Source'', Tag ''source'' False, VolumeGroupSnapshotContentSource_v1beta2)]"

definition VolumeSnapshotInfo_v1beta2 :: goType where
  "VolumeSnapshotInfo_v1beta2 = TStruct
    [(''VolumeHandle'', Tag ''volumeHandle'' True, TString),
     (''SnapshotHandle'', Tag ''snapshotHandle'' True, TString),
     (''CreationTime'', Tag ''creationTime'' True, TPtr TInt64),
     (''ReadyToUse'', Tag ''readyToUse'' True, TPtr TBool),
     (''RestoreSize'', Tag ''restoreSize'' True, TPtr TInt64)]"

definition VolumeGroupSnapshotContentStatus_v1beta2 :: goType where
  "VolumeGroupSnapshotContentStatus_v1beta2 = TStruct
    [(''VolumeGroupSnapshotHandle'', Tag ''volumeGroupSnapshotHandle'' True, TPtr TString),
     (''CreationTime'', Tag ''creationTime'' True, TPtr (TLibrary ''metav1.Time'')),
     (''ReadyToUse'', Tag ''readyToUse'' True, TPtr TBool),
     (''Error'', Tag ''error'' True, TPtr VolumeSnapshotError_v1),
     (''VolumeSnapshotInfoList'', Tag ''volumeSnapshotInfoList'' True, TSlice VolumeSnapshotInfo_v1beta2)]"

definition VolumeGroupSnapshotContent_v1beta2 :: goType where
  "VolumeGroupSnapshotContent_v1beta2 = TStruct
    [(''TypeMeta'', Inline, TypeMeta_type),
     (''ObjectMeta'', Tag ''metadata'' True, TLibrary ''metav1.ObjectMeta''),
     (''Spec'', Tag ''spec'' False, VolumeGroupSnapshotContentSpec_v1beta2),
     (''Status'', Tag ''status'' True, TPtr VolumeGroupSnapshotContentStatus_v1beta2)]"

definition VolumeGroupSnapshotContentList_v1beta2 :: goType where
  "VolumeGroupSnapshotContentList_v1beta2 = TStruct
    [(''TypeMeta'', Inline, TypeMeta_type),
     (''ListMeta'', Tag ''metadata'' True, TLibrary ''metav1.ListMeta''),
     (''Items'', Tag ''items'' False, TSlice VolumeGroupSnapshotContent_v1beta2)]"

definition VolumeSnapshotHandlePair_v1beta2 :: goType where
  "VolumeSnapshotHandlePair_v1beta2 = TStruct
    [(''VolumeHandle'', Tag ''volumeHandle'' False, TString),
     (''SnapshotHandle'', Tag ''snapshotHandle'' False, TString)]"

end
