(* ===== verification/DeepCopy.thy ===== *)
theory DeepCopy
  imports ApiLayouts
begin

text \<open>
  The generated deep copies of the objects of the API (\<open>client/apis\<close>, \<open>zz_generated.deepcopy.go\<close>), function for function, and
  the check against the declared types: every field that holds a reference has its statement. The copies of
  the types of libraries are the parameter \<open>lib\<close>.
\<close>

lemma copies_TypeMeta_type [copy_rule]: "copies assign (fits ok TypeMeta_type)"
  unfolding TypeMeta_type_def by (rule copies_assigned_struct, rule copies_struct) (simp_all add: fieldCopied_def copy_rule)

lemma copies_ObjectReference_type [copy_rule]: "copies assign (fits ok ObjectReference_type)"
  unfolding ObjectReference_type_def by (rule copies_assigned_struct, rule copies_struct) (simp_all add: fieldCopied_def copy_rule)

section \<open>Package \<open>volumesnapshot/v1\<close>\<close>

definition VolumeSnapshotSource_v1_DeepCopyInto :: "(string \<Rightarrow> copier) \<Rightarrow> copier" where
  "VolumeSnapshotSource_v1_DeepCopyInto lib = intoStruct
    [(''PersistentVolumeClaimName'', pointer assign),
     (''VolumeSnapshotContentName'', pointer assign)]"

definition VolumeSnapshotSource_v1_DeepCopy :: "(string \<Rightarrow> copier) \<Rightarrow> copier" where
  "VolumeSnapshotSource_v1_DeepCopy lib = pointer (VolumeSnapshotSource_v1_DeepCopyInto lib)"

lemma copies_VolumeSnapshotSource_v1 [copy_rule]:
  "libraryCopies lib ok \<Longrightarrow> copies (VolumeSnapshotSource_v1_DeepCopyInto lib) (fits ok VolumeSnapshotSource_v1)"
  unfolding VolumeSnapshotSource_v1_DeepCopyInto_def VolumeSnapshotSource_v1_def
  by (rule copies_struct) (simp_all add: fieldCopied_def copy_rule)

definition VolumeSnapshotSpec_v1_DeepCopyInto :: "(string \<Rightarrow> copier) \<Rightarrow> copier" where
  "VolumeSnapshotSpec_v1_DeepCopyInto lib = intoStruct
    [(''Source'', VolumeSnapshotSource_v1_DeepCopyInto lib),
     (''VolumeSnapshotClassName'', pointer assign)]"

definition VolumeSnapshotSpec_v1_DeepCopy :: "(string \<Rightarrow> copier) \<Rightarrow> copier" where
  "VolumeSnapshotSpec_v1_DeepCopy lib = pointer (VolumeSnapshotSpec_v1_DeepCopyInto lib)"

lemma copies_VolumeSnapshotSpec_v1 [copy_rule]:
  "libraryCopies lib ok \<Longrightarrow> copies (VolumeSnapshotSpec_v1_DeepCopyInto lib) (fits ok VolumeSnapshotSpec_v1)"
  unfolding VolumeSnapshotSpec_v1_DeepCopyInto_def VolumeSnapshotSpec_v1_def
  by (rule copies_struct) (simp_all add: fieldCopied_def copy_rule)

definition VolumeSnapshotError_v1_DeepCopyInto :: "(string \<Rightarrow> copier) \<Rightarrow> copier" where
  "VolumeSnapshotError_v1_DeepCopyInto lib = intoStruct
    [(''Time'', pointer (lib ''metav1.Time'')),
     (''Message'', pointer assign)]"

definition VolumeSnapshotError_v1_DeepCopy :: "(string \<Rightarrow> copier) \<Rightarrow> copier" where
  "VolumeSnapshotError_v1_DeepCopy lib = pointer (VolumeSnapshotError_v1_DeepCopyInto lib)"

lemma copies_VolumeSnapshotError_v1 [copy_rule]:
  "libraryCopies lib ok \<Longrightarrow> copies (VolumeSnapshotError_v1_DeepCopyInto lib) (fits ok VolumeSnapshotError_v1)"
  unfolding VolumeSnapshotError_v1_DeepCopyInto_def VolumeSnapshotError_v1_def
  by (rule copies_struct) (simp_all add: fieldCopied_def copy_rule)

definition VolumeSnapshotStatus_v1_DeepCopyInto :: "(string \<Rightarrow> copier) \<Rightarrow> copier" where
  "VolumeSnapshotStatus_v1_DeepCopyInto lib = intoStruct
    [(''BoundVolumeSnapshotContentName'', pointer assign),
     (''CreationTime'', pointer (lib ''metav1.Time'')),
     (''ReadyToUse'', pointer assign),
     (''RestoreSize'', pointer (lib ''resource.Quantity'')),
     (''Error'', pointer (VolumeSnapshotError_v1_DeepCopyInto lib)),
     (''VolumeGroupSnapshotName'', pointer assign)]"

definition VolumeSnapshotStatus_v1_DeepCopy :: "(string \<Rightarrow> copier) \<Rightarrow> copier" where
  "VolumeSnapshotStatus_v1_DeepCopy lib = pointer (VolumeSnapshotStatus_v1_DeepCopyInto lib)"

lemma copies_VolumeSnapshotStatus_v1 [copy_rule]:
  "libraryCopies lib ok \<Longrightarrow> copies (VolumeSnapshotStatus_v1_DeepCopyInto lib) (fits ok VolumeSnapshotStatus_v1)"
  unfolding VolumeSnapshotStatus_v1_DeepCopyInto_def VolumeSnapshotStatus_v1_def
  by (rule copies_struct) (simp_all add: fieldCopied_def copy_rule)

definition VolumeSnapshot_v1_DeepCopyInto :: "(string \<Rightarrow> copier) \<Rightarrow> copier" where
  "VolumeSnapshot_v1_DeepCopyInto lib = intoStruct
    [(''TypeMeta'', assign),
     (''ObjectMeta'', lib ''metav1.ObjectMeta''),
     (''Spec'', VolumeSnapshotSpec_v1_DeepCopyInto lib),
     (''Status'', pointer (VolumeSnapshotStatus_v1_DeepCopyInto lib))]"

definition VolumeSnapshot_v1_DeepCopy :: "(string \<Rightarrow> copier) \<Rightarrow> copier" where
  "VolumeSnapshot_v1_DeepCopy lib = pointer (VolumeSnapshot_v1_DeepCopyInto lib)"

definition VolumeSnapshot_v1_DeepCopyObject :: "(string \<Rightarrow> copier) \<Rightarrow> val \<Rightarrow> memory \<Rightarrow> (interface \<times> memory) option" where
  "VolumeSnapshot_v1_DeepCopyObject lib = asObject ''volumesnapshot/v1.VolumeSnapshot'' (VolumeSnapshot_v1_DeepCopy lib)"

lemma copies_VolumeSnapshot_v1 [copy_rule]:
  "libraryCopies lib ok \<Longrightarrow> copies (VolumeSnapshot_v1_DeepCopyInto lib) (fits ok VolumeSnapshot_v1)"
  unfolding VolumeSnapshot_v1_DeepCopyInto_def VolumeSnapshot_v1_def
  by (rule copies_struct) (simp_all add: fieldCopied_def copy_rule)

definition VolumeSnapshotList_v1_DeepCopyInto :: "(string \<Rightarrow> copier) \<Rightarrow> copier" where
  "VolumeSnapshotList_v1_DeepCopyInto lib = intoStruct
    [(''TypeMeta'', assign),
     (''ListMeta'', lib ''metav1.ListMeta''),
     (''Items'', slice (VolumeSnapshot_v1_DeepCopyInto lib))]"

definition VolumeSnapshotList_v1_DeepCopy :: "(string \<Rightarrow> copier) \<Rightarrow> copier" where
  "VolumeSnapshotList_v1_DeepCopy lib = pointer (VolumeSnapshotList_v1_DeepCopyInto lib)"

definition VolumeSnapshotList_v1_DeepCopyObject :: "(string \<Rightarrow> copier) \<Rightarrow> val \<Rightarrow> memory \<Rightarrow> (interface \<times> memory) option" where
  "VolumeSnapshotList_v1_DeepCopyObject lib = asObject ''volumesnapshot/v1.VolumeSnapshotList'' (VolumeSnapshotList_v1_DeepCopy lib)"

lemma copies_VolumeSnapshotList_v1 [copy_rule]:
  "libraryCopies lib ok \<Longrightarrow> copies (VolumeSnapshotList_v1_DeepCopyInto lib) (fits ok VolumeSnapshotList_v1)"
  unfolding VolumeSnapshotList_v1_DeepCopyInto_def VolumeSnapshotList_v1_def
  by (rule copies_struct) (simp_all add: fieldCopied_def copy_rule)

lemma copies_DeletionPolicy_v1 [copy_rule]: "copies assign (fits ok DeletionPolicy_v1)"
  using copies_scalar(3) by (simp add: DeletionPolicy_v1_def)

definition VolumeSnapshotClass_v1_DeepCopyInto :: "(string \<Rightarrow> copier) \<Rightarrow> copier" where
  "VolumeSnapshotClass_v1_DeepCopyInto lib = intoStruct
    [(''TypeMeta'', assign),
     (''ObjectMeta'', lib ''metav1.ObjectMeta''),
     (''Parameters'', stringMap)]"

definition VolumeSnapshotClass_v1_DeepCopy :: "(string \<Rightarrow> copier) \<Rightarrow> copier" where
  "VolumeSnapshotClass_v1_DeepCopy lib = pointer (VolumeSnapshotClass_v1_DeepCopyInto lib)"

definition VolumeSnapshotClass_v1_DeepCopyObject :: "(string \<Rightarrow> copier) \<Rightarrow> val \<Rightarrow> memory \<Rightarrow> (interface \<times> memory) option" where
  "VolumeSnapshotClass_v1_DeepCopyObject lib = asObject ''volumesnapshot/v1.VolumeSnapshotClass'' (VolumeSnapshotClass_v1_DeepCopy lib)"

lemma copies_VolumeSnapshotClass_v1 [copy_rule]:
  "libraryCopies lib ok \<Longrightarrow> copies (VolumeSnapshotClass_v1_DeepCopyInto lib) (fits ok VolumeSnapshotClass_v1)"
  unfolding VolumeSnapshotClass_v1_DeepCopyInto_def VolumeSnapshotClass_v1_def
  by (rule copies_struct) (simp_all add: fieldCopied_def copy_rule)

definition VolumeSnapshotClassList_v1_DeepCopyInto :: "(string \<Rightarrow> copier) \<Rightarrow> copier" where
  "VolumeSnapshotClassList_v1_DeepCopyInto lib = intoStruct
    [(''TypeMeta'', assign),
     (''ListMeta'', lib ''metav1.ListMeta''),
     (''Items'', slice (VolumeSnapshotClass_v1_DeepCopyInto lib))]"

definition VolumeSnapshotClassList_v1_DeepCopy :: "(string \<Rightarrow> copier) \<Rightarrow> copier" where
  "VolumeSnapshotClassList_v1_DeepCopy lib = pointer (VolumeSnapshotClassList_v1_DeepCopyInto lib)"

definition VolumeSnapshotClassList_v1_DeepCopyObject :: "(string \<Rightarrow> copier) \<Rightarrow> val \<Rightarrow> memory \<Rightarrow> (interface \<times> memory) option" where
  "VolumeSnapshotClassList_v1_DeepCopyObject lib = asObject ''volumesnapshot/v1.VolumeSnapshotClassList'' (VolumeSnapshotClassList_v1_DeepCopy lib)"

lemma copies_VolumeSnapshotClassList_v1 [copy_rule]:
  "libraryCopies lib ok \<Longrightarrow> copies (VolumeSnapshotClassList_v1_DeepCopyInto lib) (fits ok VolumeSnapshotClassList_v1)"
  unfolding VolumeSnapshotClassList_v1_DeepCopyInto_def VolumeSnapshotClassList_v1_def
  by (rule copies_struct) (simp_all add: fieldCopied_def copy_rule)

definition VolumeSnapshotContentSource_v1_DeepCopyInto :: "(string \<Rightarrow> copier) \<Rightarrow> copier" where
  "VolumeSnapshotContentSource_v1_DeepCopyInto lib = intoStruct
    [(''VolumeHandle'', pointer assign),
     (''SnapshotHandle'', pointer assign)]"

definition VolumeSnapshotContentSource_v1_DeepCopy :: "(string \<Rightarrow> copier) \<Rightarrow> copier" where
  "VolumeSnapshotContentSource_v1_DeepCopy lib = pointer (VolumeSnapshotContentSource_v1_DeepCopyInto lib)"

lemma copies_VolumeSnapshotContentSource_v1 [copy_rule]:
  "libraryCopies lib ok \<Longrightarrow> copies (VolumeSnapshotContentSource_v1_DeepCopyInto lib) (fits ok VolumeSnapshotContentSource_v1)"
  unfolding VolumeSnapshotContentSource_v1_DeepCopyInto_def VolumeSnapshotContentSource_v1_def
  by (rule copies_struct) (simp_all add: fieldCopied_def copy_rule)

definition VolumeSnapshotContentSpec_v1_DeepCopyInto :: "(string \<Rightarrow> copier) \<Rightarrow> copier" where
  "VolumeSnapshotContentSpec_v1_DeepCopyInto lib = intoStruct
    [(''VolumeSnapshotRef'', assign),
     (''VolumeSnapshotClassName'', pointer assign),
     (''Source'', VolumeSnapshotContentSource_v1_DeepCopyInto lib),
     (''SourceVolumeMode'', pointer assign)]"

definition VolumeSnapshotContentSpec_v1_DeepCopy :: "(string \<Rightarrow> copier) \<Rightarrow> copier" where
  "VolumeSnapshotContentSpec_v1_DeepCopy lib = pointer (VolumeSnapshotContentSpec_v1_DeepCopyInto lib)"

lemma copies_VolumeSnapshotContentSpec_v1 [copy_rule]:
  "libraryCopies lib ok \<Longrightarrow> copies (VolumeSnapshotContentSpec_v1_DeepCopyInto lib) (fits ok VolumeSnapshotContentSpec_v1)"
  unfolding VolumeSnapshotContentSpec_v1_DeepCopyInto_def VolumeSnapshotContentSpec_v1_def
  by (rule copies_struct) (simp_all add: fieldCopied_def copy_rule)

definition VolumeSnapshotContentStatus_v1_DeepCopyInto :: "(string \<Rightarrow> copier) \<Rightarrow> copier" where
  "VolumeSnapshotContentStatus_v1_DeepCopyInto lib = intoStruct
    [(''SnapshotHandle'', pointer assign),
     (''CreationTime'', pointer assign),
     (''RestoreSize'', pointer assign),
     (''ReadyToUse'', pointer assign),
     (''Error'', pointer (VolumeSnapshotError_v1_DeepCopyInto lib)),
     (''VolumeGroupSnapshotHandle'', pointer assign)]"

definition VolumeSnapshotContentStatus_v1_DeepCopy :: "(string \<Rightarrow> copier) \<Rightarrow> copier" where
  "VolumeSnapshotContentStatus_v1_DeepCopy lib = pointer (VolumeSnapshotContentStatus_v1_DeepCopyInto lib)"

lemma copies_VolumeSnapshotContentStatus_v1 [copy_rule]:
  "libraryCopies lib ok \<Longrightarrow> copies (VolumeSnapshotContentStatus_v1_DeepCopyInto lib) (fits ok VolumeSnapshotContentStatus_v1)"
  unfolding VolumeSnapshotContentStatus_v1_DeepCopyInto_def VolumeSnapshotContentStatus_v1_def
  by (rule copies_struct) (simp_all add: fieldCopied_def copy_rule)

definition VolumeSnapshotContent_v1_DeepCopyInto :: "(string \<Rightarrow> copier) \<Rightarrow> copier" where
  "VolumeSnapshotContent_v1_DeepCopyInto lib = intoStruct
    [(''TypeMeta'', assign),
     (''ObjectMeta'', lib ''metav1.ObjectMeta''),
     (''Spec'', VolumeSnapshotContentSpec_v1_DeepCopyInto lib),
     (''Status'', pointer (VolumeSnapshotContentStatus_v1_DeepCopyInto lib))]"

definition VolumeSnapshotContent_v1_DeepCopy :: "(string \<Rightarrow> copier) \<Rightarrow> copier" where
  "VolumeSnapshotContent_v1_DeepCopy lib = pointer (VolumeSnapshotContent_v1_DeepCopyInto lib)"

definition VolumeSnapshotContent_v1_DeepCopyObject :: "(string \<Rightarrow> copier) \<Rightarrow> val \<Rightarrow> memory \<Rightarrow> (interface \<times> memory) option" where
  "VolumeSnapshotContent_v1_DeepCopyObject lib = asObject ''volumesnapshot/v1.VolumeSnapshotContent'' (VolumeSnapshotContent_v1_DeepCopy lib)"

lemma copies_VolumeSnapshotContent_v1 [copy_rule]:
  "libraryCopies lib ok \<Longrightarrow> copies (VolumeSnapshotContent_v1_DeepCopyInto lib) (fits ok VolumeSnapshotContent_v1)"
  unfolding VolumeSnapshotContent_v1_DeepCopyInto_def VolumeSnapshotContent_v1_def
  by (rule copies_struct) (simp_all add: fieldCopied_def copy_rule)

definition VolumeSnapshotContentList_v1_DeepCopyInto :: "(string \<Rightarrow> copier) \<Rightarrow> copier" where
  "VolumeSnapshotContentList_v1_DeepCopyInto lib = intoStruct
    [(''TypeMeta'', assign),
     (''ListMeta'', lib ''metav1.ListMeta''),
     (''Items'', slice (VolumeSnapshotContent_v1_DeepCopyInto lib))]"

definition VolumeSnapshotContentList_v1_DeepCopy :: "(string \<Rightarrow> copier) \<Rightarrow> copier" where
  "VolumeSnapshotContentList_v1_DeepCopy lib = pointer (VolumeSnapshotContentList_v1_DeepCopyInto lib)"

definition VolumeSnapshotContentList_v1_DeepCopyObject :: "(string \<Rightarrow> copier) \<Rightarrow> val \<Rightarrow> memory \<Rightarrow> (interface \<times> memory) option" where
  "VolumeSnapshotContentList_v1_DeepCopyObject lib = asObject ''volumesnapshot/v1.VolumeSnapshotContentList'' (VolumeSnapshotContentList_v1_DeepCopy lib)"

lemma copies_VolumeSnapshotContentList_v1 [copy_rule]:
  "libraryCopies lib ok \<Longrightarrow> copies (VolumeSnapshotContentList_v1_DeepCopyInto lib) (fits ok VolumeSnapshotContentList_v1)"
  unfolding VolumeSnapshotContentList_v1_DeepCopyInto_def VolumeSnapshotContentList_v1_def
  by (rule copies_struct) (simp_all add: fieldCopied_def copy_rule)

section \<open>Package \<open>volumegroupsnapshot/v1\<close>\<close>

definition VolumeGroupSnapshotSource_v1_DeepCopyInto :: "(string \<Rightarrow> copier) \<Rightarrow> copier" where
  "VolumeGroupSnapshotSource_v1_DeepCopyInto lib = intoStruct
    [(''Selector'', pointer (lib ''metav1.LabelSelector'')),
     (''VolumeGroupSnapshotContentName'', pointer assign)]"

definition VolumeGroupSnapshotSource_v1_DeepCopy :: "(string \<Rightarrow> copier) \<Rightarrow> copier" where
  "VolumeGroupSnapshotSource_v1_DeepCopy lib = pointer (VolumeGroupSnapshotSource_v1_DeepCopyInto lib)"

lemma copies_VolumeGroupSnapshotSource_v1 [copy_rule]:
  "libraryCopies lib ok \<Longrightarrow> copies (VolumeGroupSnapshotSource_v1_DeepCopyInto lib) (fits ok VolumeGroupSnapshotSource_v1)"
  unfolding VolumeGroupSnapshotSource_v1_DeepCopyInto_def VolumeGroupSnapshotSource_v1_def
  by (rule copies_struct) (simp_all add: fieldCopied_def copy_rule)

definition VolumeGroupSnapshotSpec_v1_DeepCopyInto :: "(string \<Rightarrow> copier) \<Rightarrow> copier" where
  "VolumeGroupSnapshotSpec_v1_DeepCopyInto lib = intoStruct
    [(''Source'', VolumeGroupSnapshotSource_v1_DeepCopyInto lib),
     (''VolumeGroupSnapshotClassName'', pointer assign)]"

definition VolumeGroupSnapshotSpec_v1_DeepCopy :: "(string \<Rightarrow> copier) \<Rightarrow> copier" where
  "VolumeGroupSnapshotSpec_v1_DeepCopy lib = pointer (VolumeGroupSnapshotSpec_v1_DeepCopyInto lib)"

lemma copies_VolumeGroupSnapshotSpec_v1 [copy_rule]:
  "libraryCopies lib ok \<Longrightarrow> copies (VolumeGroupSnapshotSpec_v1_DeepCopyInto lib) (fits ok VolumeGroupSnapshotSpec_v1)"
  unfolding VolumeGroupSnapshotSpec_v1_DeepCopyInto_def VolumeGroupSnapshotSpec_v1_def
  by (rule copies_struct) (simp_all add: fieldCopied_def copy_rule)

definition VolumeGroupSnapshotStatus_v1_DeepCopyInto :: "(string \<Rightarrow> copier) \<Rightarrow> copier" where
  "VolumeGroupSnapshotStatus_v1_DeepCopyInto lib = intoStruct
    [(''BoundVolumeGroupSnapshotContentName'', pointer assign),
     (''CreationTime'', pointer (lib ''metav1.Time'')),
     (''ReadyToUse'', pointer assign),
     (''Error'', pointer (VolumeSnapshotError_v1_DeepCopyInto lib))]"

definition VolumeGroupSnapshotStatus_v1_DeepCopy :: "(string \<Rightarrow> copier) \<Rightarrow> copier" where
  "VolumeGroupSnapshotStatus_v1_DeepCopy lib = pointer (VolumeGroupSnapshotStatus_v1_DeepCopyInto lib)"

lemma copies_VolumeGroupSnapshotStatus_v1 [copy_rule]:
  "libraryCopies lib ok \<Longrightarrow> copies (VolumeGroupSnapshotStatus_v1_DeepCopyInto lib) (fits ok VolumeGroupSnapshotStatus_v1)"
  unfolding VolumeGroupSnapshotStatus_v1_DeepCopyInto_def VolumeGroupSnapshotStatus_v1_def
  by (rule copies_struct) (simp_all add: fieldCopied_def copy_rule)

definition VolumeGroupSnapshot_v1_DeepCopyInto :: "(string \<Rightarrow> copier) \<Rightarrow> copier" where
  "VolumeGroupSnapshot_v1_DeepCopyInto lib = intoStruct
    [(''TypeMeta'', assign),
     (''ObjectMeta'', lib ''metav1.ObjectMeta''),
     (''Spec'', VolumeGroupSnapshotSpec_v1_DeepCopyInto lib),
     (''Status'', pointer (VolumeGroupSnapshotStatus_v1_DeepCopyInto lib))]"

definition VolumeGroupSnapshot_v1_DeepCopy :: "(string \<Rightarrow> copier) \<Rightarrow> copier" where
  "VolumeGroupSnapshot_v1_DeepCopy lib = pointer (VolumeGroupSnapshot_v1_DeepCopyInto lib)"

definition VolumeGroupSnapshot_v1_DeepCopyObject :: "(string \<Rightarrow> copier) \<Rightarrow> val \<Rightarrow> memory \<Rightarrow> (interface \<times> memory) option" where
  "VolumeGroupSnapshot_v1_DeepCopyObject lib = asObject ''volumegroupsnapshot/v1.VolumeGroupSnapshot'' (VolumeGroupSnapshot_v1_DeepCopy lib)"

lemma copies_VolumeGroupSnapshot_v1 [copy_rule]:
  "libraryCopies lib ok \<Longrightarrow> copies (VolumeGroupSnapshot_v1_DeepCopyInto lib) (fits ok VolumeGroupSnapshot_v1)"
  unfolding VolumeGroupSnapshot_v1_DeepCopyInto_def VolumeGroupSnapshot_v1_def
  by (rule copies_struct) (simp_all add: fieldCopied_def copy_rule)

definition VolumeGroupSnapshotList_v1_DeepCopyInto :: "(string \<Rightarrow> copier) \<Rightarrow> copier" where
  "VolumeGroupSnapshotList_v1_DeepCopyInto lib = intoStruct
    [(''TypeMeta'', assign),
     (''ListMeta'', lib ''metav1.ListMeta''),
     (''Items'', slice (VolumeGroupSnapshot_v1_DeepCopyInto lib))]"

definition VolumeGroupSnapshotList_v1_DeepCopy :: "(string \<Rightarrow> copier) \<Rightarrow> copier" where
  "VolumeGroupSnapshotList_v1_DeepCopy lib = pointer (VolumeGroupSnapshotList_v1_DeepCopyInto lib)"

definition VolumeGroupSnapshotList_v1_DeepCopyObject :: "(string \<Rightarrow> copier) \<Rightarrow> val \<Rightarrow> memory \<Rightarrow> (interface \<times> memory) option" where
  "VolumeGroupSnapshotList_v1_DeepCopyObject lib = asObject ''volumegroupsnapshot/v1.VolumeGroupSnapshotList'' (VolumeGroupSnapshotList_v1_DeepCopy lib)"

lemma copies_VolumeGroupSnapshotList_v1 [copy_rule]:
  "libraryCopies lib ok \<Longrightarrow> copies (VolumeGroupSnapshotList_v1_DeepCopyInto lib) (fits ok VolumeGroupSnapshotList_v1)"
  unfolding VolumeGroupSnapshotList_v1_DeepCopyInto_def VolumeGroupSnapshotList_v1_def
  by (rule copies_struct) (simp_all add: fieldCopied_def copy_rule)

definition VolumeGroupSnapshotClass_v1_DeepCopyInto :: "(string \<Rightarrow> copier) \<Rightarrow> copier" where
  "VolumeGroupSnapshotClass_v1_DeepCopyInto lib = intoStruct
    [(''TypeMeta'', assign),
     (''ObjectMeta'', lib ''metav1.ObjectMeta''),
     (''Parameters'', stringMap)]"

definition VolumeGroupSnapshotClass_v1_DeepCopy :: "(string \<Rightarrow> copier) \<Rightarrow> copier" where
  "VolumeGroupSnapshotClass_v1_DeepCopy lib = pointer (VolumeGroupSnapshotClass_v1_DeepCopyInto lib)"

definition VolumeGroupSnapshotClass_v1_DeepCopyObject :: "(string \<Rightarrow> copier) \<Rightarrow> val \<Rightarrow> memory \<Rightarrow> (interface \<times> memory) option" where
  "VolumeGroupSnapshotClass_v1_DeepCopyObject lib = asObject ''volumegroupsnapshot/v1.VolumeGroupSnapshotClass'' (VolumeGroupSnapshotClass_v1_DeepCopy lib)"

lemma copies_VolumeGroupSnapshotClass_v1 [copy_rule]:
  "libraryCopies lib ok \<Longrightarrow> copies (VolumeGroupSnapshotClass_v1_DeepCopyInto lib) (fits ok VolumeGroupSnapshotClass_v1)"
  unfolding VolumeGroupSnapshotClass_v1_DeepCopyInto_def VolumeGroupSnapshotClass_v1_def
  by (rule copies_struct) (simp_all add: fieldCopied_def copy_rule)

definition VolumeGroupSnapshotClassList_v1_DeepCopyInto :: "(string \<Rightarrow> copier) \<Rightarrow> copier" where
  "VolumeGroupSnapshotClassList_v1_DeepCopyInto lib = intoStruct
    [(''TypeMeta'', assign),
     (''ListMeta'', lib ''metav1.ListMeta''),
     (''Items'', slice (VolumeGroupSnapshotClass_v1_DeepCopyInto lib))]"

definition VolumeGroupSnapshotClassList_v1_DeepCopy :: "(string \<Rightarrow> copier) \<Rightarrow> copier" where
  "VolumeGroupSnapshotClassList_v1_DeepCopy lib = pointer (VolumeGroupSnapshotClassList_v1_DeepCopyInto lib)"

definition VolumeGroupSnapshotClassList_v1_DeepCopyObject :: "(string \<Rightarrow> copier) \<Rightarrow> val \<Rightarrow> memory \<Rightarrow> (interface \<times> memory) option" where
  "VolumeGroupSnapshotClassList_v1_DeepCopyObject lib = asObject ''volumegroupsnapshot/v1.VolumeGroupSnapshotClassList'' (VolumeGroupSnapshotClassList_v1_DeepCopy lib)"

lemma copies_VolumeGroupSnapshotClassList_v1 [copy_rule]:
  "libraryCopies lib ok \<Longrightarrow> copies (VolumeGroupSnapshotClassList_v1_DeepCopyInto lib) (fits ok VolumeGroupSnapshotClassList_v1)"
  unfolding VolumeGroupSnapshotClassList_v1_DeepCopyInto_def VolumeGroupSnapshotClassList_v1_def
  by (rule copies_struct) (simp_all add: fieldCopied_def copy_rule)

definition GroupSnapshotHandles_v1_DeepCopyInto :: "(string \<Rightarrow> copier) \<Rightarrow> copier" where
  "GroupSnapshotHandles_v1_DeepCopyInto lib = intoStruct
    [(''VolumeSnapshotHandles'', slice assign)]"

definition GroupSnapshotHandles_v1_DeepCopy :: "(string \<Rightarrow> copier) \<Rightarrow> copier" where
  "GroupSnapshotHandles_v1_DeepCopy lib = pointer (GroupSnapshotHandles_v1_DeepCopyInto lib)"

lemma copies_GroupSnapshotHandles_v1 [copy_rule]:
  "libraryCopies lib ok \<Longrightarrow> copies (GroupSnapshotHandles_v1_DeepCopyInto lib) (fits ok GroupSnapshotHandles_v1)"
  unfolding GroupSnapshotHandles_v1_DeepCopyInto_def GroupSnapshotHandles_v1_def
  by (rule copies_struct) (simp_all add: fieldCopied_def copy_rule)

definition VolumeGroupSnapshotContentSource_v1_DeepCopyInto :: "(string \<Rightarrow> copier) \<Rightarrow> copier" where
  "VolumeGroupSnapshotContentSource_v1_DeepCopyInto lib = intoStruct
    [(''VolumeHandles'', slice assign),
     (''GroupSnapshotHandles'', pointer (GroupSnapshotHandles_v1_DeepCopyInto lib))]"

definition VolumeGroupSnapshotContentSource_v1_DeepCopy :: "(string \<Rightarrow> copier) \<Rightarrow> copier" where
  "VolumeGroupSnapshotContentSource_v1_DeepCopy lib = pointer (VolumeGroupSnapshotContentSource_v1_DeepCopyInto lib)"

lemma copies_VolumeGroupSnapshotContentSource_v1 [copy_rule]:
  "libraryCopies lib ok \<Longrightarrow> copies (VolumeGroupSnapshotContentSource_v1_DeepCopyInto lib) (fits ok VolumeGroupSnapshotContentSource_v1)"
  unfolding VolumeGroupSnapshotContentSource_v1_DeepCopyInto_def VolumeGroupSnapshotContentSource_v1_def
  by (rule copies_struct) (simp_all add: fieldCopied_def copy_rule)

definition VolumeGroupSnapshotContentSpec_v1_DeepCopyInto :: "(string \<Rightarrow> copier) \<Rightarrow> copier" where
  "VolumeGroupSnapshotContentSpec_v1_DeepCopyInto lib = intoStruct
    [(''VolumeGroupSnapshotRef'', assign),
     (''VolumeGroupSnapshotClassName'', pointer assign),
     (''Source'', VolumeGroupSnapshotContentSource_v1_DeepCopyInto lib)]"

definition VolumeGroupSnapshotContentSpec_v1_DeepCopy :: "(string \<Rightarrow> copier) \<Rightarrow> copier" where
  "VolumeGroupSnapshotContentSpec_v1_DeepCopy lib = pointer (VolumeGroupSnapshotContentSpec_v1_DeepCopyInto lib)"

lemma copies_VolumeGroupSnapshotContentSpec_v1 [copy_rule]:
  "libraryCopies lib ok \<Longrightarrow> copies (VolumeGroupSnapshotContentSpec_v1_DeepCopyInto lib) (fits ok VolumeGroupSnapshotContentSpec_v1)"
  unfolding VolumeGroupSnapshotContentSpec_v1_DeepCopyInto_def VolumeGroupSnapshotContentSpec_v1_def
  by (rule copies_struct) (simp_all add: fieldCopied_def copy_rule)

definition VolumeSnapshotInfo_v1_DeepCopyInto :: "(string \<Rightarrow> copier) \<Rightarrow> copier" where
  "VolumeSnapshotInfo_v1_DeepCopyInto lib = intoStruct
    [(''CreationTime'', pointer assign),
     (''ReadyToUse'', pointer assign),
     (''RestoreSize'', pointer assign)]"

definition VolumeSnapshotInfo_v1_DeepCopy :: "(string \<Rightarrow> copier) \<Rightarrow> copier" where
  "VolumeSnapshotInfo_v1_DeepCopy lib = pointer (VolumeSnapshotInfo_v1_DeepCopyInto lib)"

lemma copies_VolumeSnapshotInfo_v1 [copy_rule]:
  "libraryCopies lib ok \<Longrightarrow> copies (VolumeSnapshotInfo_v1_DeepCopyInto lib) (fits ok VolumeSnapshotInfo_v1)"
  unfolding VolumeSnapshotInfo_v1_DeepCopyInto_def VolumeSnapshotInfo_v1_def
  by (rule copies_struct) (simp_all add: fieldCopied_def copy_rule)

definition VolumeGroupSnapshotContentStatus_v1_DeepCopyInto :: "(string \<Rightarrow> copier) \<Rightarrow> copier" where
  "VolumeGroupSnapshotContentStatus_v1_DeepCopyInto lib = intoStruct
    [(''VolumeGroupSnapshotHandle'', pointer assign),
     (''CreationTime'', pointer (lib ''metav1.Time'')),
     (''ReadyToUse'', pointer assign),
     (''Error'', pointer (VolumeSnapshotError_v1_DeepCopyInto lib)),
     (''VolumeSnapshotInfoList'', slice (VolumeSnapshotInfo_v1_DeepCopyInto lib))]"

definition VolumeGroupSnapshotContentStatus_v1_DeepCopy :: "(string \<Rightarrow> copier) \<Rightarrow> copier" where
  "VolumeGroupSnapshotContentStatus_v1_DeepCopy lib = pointer (VolumeGroupSnapshotContentStatus_v1_DeepCopyInto lib)"

lemma copies_VolumeGroupSnapshotContentStatus_v1 [copy_rule]:
  "libraryCopies lib ok \<Longrightarrow> copies (VolumeGroupSnapshotContentStatus_v1_DeepCopyInto lib) (fits ok VolumeGroupSnapshotContentStatus_v1)"
  unfolding VolumeGroupSnapshotContentStatus_v1_DeepCopyInto_def VolumeGroupSnapshotContentStatus_v1_def
  by (rule copies_struct) (simp_all add: fieldCopied_def copy_rule)

definition VolumeGroupSnapshotContent_v1_DeepCopyInto :: "(string \<Rightarrow> copier) \<Rightarrow> copier" where
  "VolumeGroupSnapshotContent_v1_DeepCopyInto lib = intoStruct
    [(''TypeMeta'', assign),
     (''ObjectMeta'', lib ''metav1.ObjectMeta''),
     (''Spec'', VolumeGroupSnapshotContentSpec_v1_DeepCopyInto lib),
     (''Status'', pointer (VolumeGroupSnapshotContentStatus_v1_DeepCopyInto lib))]"

definition VolumeGroupSnapshotContent_v1_DeepCopy :: "(string \<Rightarrow> copier) \<Rightarrow> copier" where
  "VolumeGroupSnapshotContent_v1_DeepCopy lib = pointer (VolumeGroupSnapshotContent_v1_DeepCopyInto lib)"

definition VolumeGroupSnapshotContent_v1_DeepCopyObject :: "(string \<Rightarrow> copier) \<Rightarrow> val \<Rightarrow> memory \<Rightarrow> (interface \<times> memory) option" where
  "VolumeGroupSnapshotContent_v1_DeepCopyObject lib = asObject ''volumegroupsnapshot/v1.VolumeGroupSnapshotContent'' (VolumeGroupSnapshotContent_v1_DeepCopy lib)"

lemma copies_VolumeGroupSnapshotContent_v1 [copy_rule]:
  "libraryCopies lib ok \<Longrightarrow> copies (VolumeGroupSnapshotContent_v1_DeepCopyInto lib) (fits ok VolumeGroupSnapshotContent_v1)"
  unfolding VolumeGroupSnapshotContent_v1_DeepCopyInto_def VolumeGroupSnapshotContent_v1_def
  by (rule copies_struct) (simp_all add: fieldCopied_def copy_rule)

definition VolumeGroupSnapshotContentList_v1_DeepCopyInto :: "(string \<Rightarrow> copier) \<Rightarrow> copier" where
  "VolumeGroupSnapshotContentList_v1_DeepCopyInto lib = intoStruct
    [(''TypeMeta'', assign),
     (''ListMeta'', lib ''metav1.ListMeta''),
     (''Items'', slice (VolumeGroupSnapshotContent_v1_DeepCopyInto lib))]"

definition VolumeGroupSnapshotContentList_v1_DeepCopy :: "(string \<Rightarrow> copier) \<Rightarrow> copier" where
  "VolumeGroupSnapshotContentList_v1_DeepCopy lib = pointer (VolumeGroupSnapshotContentList_v1_DeepCopyInto lib)"

definition VolumeGroupSnapshotContentList_v1_DeepCopyObject :: "(string \<Rightarrow> copier) \<Rightarrow> val \<Rightarrow> memory \<Rightarrow> (interface \<times> memory) option" where
  "VolumeGroupSnapshotContentList_v1_DeepCopyObject lib = asObject ''volumegroupsnapshot/v1.VolumeGroupSnapshotContentList'' (VolumeGroupSnapshotContentList_v1_DeepCopy lib)"

lemma copies_VolumeGroupSnapshotContentList_v1 [copy_rule]:
  "libraryCopies lib ok \<Longrightarrow> copies (VolumeGroupSnapshotContentList_v1_DeepCopyInto lib) (fits ok VolumeGroupSnapshotContentList_v1)"
  unfolding VolumeGroupSnapshotContentList_v1_DeepCopyInto_def VolumeGroupSnapshotContentList_v1_def
  by (rule copies_struct) (simp_all add: fieldCopied_def copy_rule)

definition VolumeSnapshotHandlePair_v1_DeepCopyInto :: "(string \<Rightarrow> copier) \<Rightarrow> copier" where
  "VolumeSnapshotHandlePair_v1_DeepCopyInto lib = intoStruct []"

definition VolumeSnapshotHandlePair_v1_DeepCopy :: "(string \<Rightarrow> copier) \<Rightarrow> copier" where
  "VolumeSnapshotHandlePair_v1_DeepCopy lib = pointer (VolumeSnapshotHandlePair_v1_DeepCopyInto lib)"

lemma copies_VolumeSnapshotHandlePair_v1 [copy_rule]:
  "libraryCopies lib ok \<Longrightarrow> copies (VolumeSnapshotHandlePair_v1_DeepCopyInto lib) (fits ok VolumeSnapshotHandlePair_v1)"
  unfolding VolumeSnapshotHandlePair_v1_DeepCopyInto_def VolumeSnapshotHandlePair_v1_def
  by (rule copies_struct) (simp_all add: fieldCopied_def copy_rule)

lemma copies_assigned_VolumeSnapshotHandlePair_v1 [copy_rule]: "copies assign (fits ok VolumeSnapshotHandlePair_v1)"
  unfolding VolumeSnapshotHandlePair_v1_def by (rule copies_assigned_struct, rule copies_struct) (simp_all add: fieldCopied_def copy_rule)

section \<open>Package \<open>volumegroupsnapshot/v1beta1\<close>\<close>

definition VolumeGroupSnapshotSource_v1beta1_DeepCopyInto :: "(string \<Rightarrow> copier) \<Rightarrow> copier" where
  "VolumeGroupSnapshotSource_v1beta1_DeepCopyInto lib = intoStruct
    [(''Selector'', pointer (lib ''metav1.LabelSelector'')),
     (''VolumeGroupSnapshotContentName'', pointer assign)]"

definition VolumeGroupSnapshotSource_v1beta1_DeepCopy :: "(string \<Rightarrow> copier) \<Rightarrow> copier" where
  "VolumeGroupSnapshotSource_v1beta1_DeepCopy lib = pointer (VolumeGroupSnapshotSource_v1beta1_DeepCopyInto lib)"

lemma copies_VolumeGroupSnapshotSource_v1beta1 [copy_rule]:
  "libraryCopies lib ok \<Longrightarrow> copies (VolumeGroupSnapshotSource_v1beta1_DeepCopyInto lib) (fits ok VolumeGroupSnapshotSource_v1beta1)"
  unfolding VolumeGroupSnapshotSource_v1beta1_DeepCopyInto_def VolumeGroupSnapshotSource_v1beta1_def
  by (rule copies_struct) (simp_all add: fieldCopied_def copy_rule)

definition VolumeGroupSnapshotSpec_v1beta1_DeepCopyInto :: "(string \<Rightarrow> copier) \<Rightarrow> copier" where
  "VolumeGroupSnapshotSpec_v1beta1_DeepCopyInto lib = intoStruct
    [(''Source'', VolumeGroupSnapshotSource_v1beta1_DeepCopyInto lib),
     (''VolumeGroupSnapshotClassName'', pointer assign)]"

definition VolumeGroupSnapshotSpec_v1beta1_DeepCopy :: "(string \<Rightarrow> copier) \<Rightarrow> copier" where
  "VolumeGroupSnapshotSpec_v1beta1_DeepCopy lib = pointer (VolumeGroupSnapshotSpec_v1beta1_DeepCopyInto lib)"

lemma copies_VolumeGroupSnapshotSpec_v1beta1 [copy_rule]:
  "libraryCopies lib ok \<Longrightarrow> copies (VolumeGroupSnapshotSpec_v1beta1_DeepCopyInto lib) (fits ok VolumeGroupSnapshotSpec_v1beta1)"
  unfolding VolumeGroupSnapshotSpec_v1beta1_DeepCopyInto_def VolumeGroupSnapshotSpec_v1beta1_def
  by (rule copies_struct) (simp_all add: fieldCopied_def copy_rule)

definition VolumeGroupSnapshotStatus_v1beta1_DeepCopyInto :: "(string \<Rightarrow> copier) \<Rightarrow> copier" where
  "VolumeGroupSnapshotStatus_v1beta1_DeepCopyInto lib = intoStruct
    [(''BoundVolumeGroupSnapshotContentName'', pointer assign),
     (''CreationTime'', pointer (lib ''metav1.Time'')),
     (''ReadyToUse'', pointer assign),
     (''Error'', pointer (VolumeSnapshotError_v1_DeepCopyInto lib))]"

definition VolumeGroupSnapshotStatus_v1beta1_DeepCopy :: "(string \<Rightarrow> copier) \<Rightarrow> copier" where
  "VolumeGroupSnapshotStatus_v1beta1_DeepCopy lib = pointer (VolumeGroupSnapshotStatus_v1beta1_DeepCopyInto lib)"

lemma copies_VolumeGroupSnapshotStatus_v1beta1 [copy_rule]:
  "libraryCopies lib ok \<Longrightarrow> copies (VolumeGroupSnapshotStatus_v1beta1_DeepCopyInto lib) (fits ok VolumeGroupSnapshotStatus_v1beta1)"
  unfolding VolumeGroupSnapshotStatus_v1beta1_DeepCopyInto_def VolumeGroupSnapshotStatus_v1beta1_def
  by (rule copies_struct) (simp_all add: fieldCopied_def copy_rule)

definition VolumeGroupSnapshot_v1beta1_DeepCopyInto :: "(string \<Rightarrow> copier) \<Rightarrow> copier" where
  "VolumeGroupSnapshot_v1beta1_DeepCopyInto lib = intoStruct
    [(''TypeMeta'', assign),
     (''ObjectMeta'', lib ''metav1.ObjectMeta''),
     (''Spec'', VolumeGroupSnapshotSpec_v1beta1_DeepCopyInto lib),
     (''Status'', pointer (VolumeGroupSnapshotStatus_v1beta1_DeepCopyInto lib))]"

definition VolumeGroupSnapshot_v1beta1_DeepCopy :: "(string \<Rightarrow> copier) \<Rightarrow> copier" where
  "VolumeGroupSnapshot_v1beta1_DeepCopy lib = pointer (VolumeGroupSnapshot_v1beta1_DeepCopyInto lib)"

definition VolumeGroupSnapshot_v1beta1_DeepCopyObject :: "(string \<Rightarrow> copier) \<Rightarrow> val \<Rightarrow> memory \<Rightarrow> (interface \<times> memory) option" where
  "VolumeGroupSnapshot_v1beta1_DeepCopyObject lib = asObject ''volumegroupsnapshot/v1beta1.VolumeGroupSnapshot'' (VolumeGroupSnapshot_v1beta1_DeepCopy lib)"

lemma copies_VolumeGroupSnapshot_v1beta1 [copy_rule]:
  "libraryCopies lib ok \<Longrightarrow> copies (VolumeGroupSnapshot_v1beta1_DeepCopyInto lib) (fits ok VolumeGroupSnapshot_v1beta1)"
  unfolding VolumeGroupSnapshot_v1beta1_DeepCopyInto_def VolumeGroupSnapshot_v1beta1_def
  by (rule copies_struct) (simp_all add: fieldCopied_def copy_rule)

definition VolumeGroupSnapshotList_v1beta1_DeepCopyInto :: "(string \<Rightarrow> copier) \<Rightarrow> copier" where
  "VolumeGroupSnapshotList_v1beta1_DeepCopyInto lib = intoStruct
    [(''TypeMeta'', assign),
     (''ListMeta'', lib ''metav1.ListMeta''),
     (''Items'', slice (VolumeGroupSnapshot_v1beta1_DeepCopyInto lib))]"

definition VolumeGroupSnapshotList_v1beta1_DeepCopy :: "(string \<Rightarrow> copier) \<Rightarrow> copier" where
  "VolumeGroupSnapshotList_v1beta1_DeepCopy lib = pointer (VolumeGroupSnapshotList_v1beta1_DeepCopyInto lib)"

definition VolumeGroupSnapshotList_v1beta1_DeepCopyObject :: "(string \<Rightarrow> copier) \<Rightarrow> val \<Rightarrow> memory \<Rightarrow> (interface \<times> memory) option" where
  "VolumeGroupSnapshotList_v1beta1_DeepCopyObject lib = asObject ''volumegroupsnapshot/v1beta1.VolumeGroupSnapshotList'' (VolumeGroupSnapshotList_v1beta1_DeepCopy lib)"

lemma copies_VolumeGroupSnapshotList_v1beta1 [copy_rule]:
  "libraryCopies lib ok \<Longrightarrow> copies (VolumeGroupSnapshotList_v1beta1_DeepCopyInto lib) (fits ok VolumeGroupSnapshotList_v1beta1)"
  unfolding VolumeGroupSnapshotList_v1beta1_DeepCopyInto_def VolumeGroupSnapshotList_v1beta1_def
  by (rule copies_struct) (simp_all add: fieldCopied_def copy_rule)

definition VolumeGroupSnapshotClass_v1beta1_DeepCopyInto :: "(string \<Rightarrow> copier) \<Rightarrow> copier" where
  "VolumeGroupSnapshotClass_v1beta1_DeepCopyInto lib = intoStruct
    [(''TypeMeta'', assign),
     (''ObjectMeta'', lib ''metav1.ObjectMeta''),
     (''Parameters'', stringMap)]"

definition VolumeGroupSnapshotClass_v1beta1_DeepCopy :: "(string \<Rightarrow> copier) \<Rightarrow> copier" where
  "VolumeGroupSnapshotClass_v1beta1_DeepCopy lib = pointer (VolumeGroupSnapshotClass_v1beta1_DeepCopyInto lib)"

definition VolumeGroupSnapshotClass_v1beta1_DeepCopyObject :: "(string \<Rightarrow> copier) \<Rightarrow> val \<Rightarrow> memory \<Rightarrow> (interface \<times> memory) option" where
  "VolumeGroupSnapshotClass_v1beta1_DeepCopyObject lib = asObject ''volumegroupsnapshot/v1beta1.VolumeGroupSnapshotClass'' (VolumeGroupSnapshotClass_v1beta1_DeepCopy lib)"

lemma copies_VolumeGroupSnapshotClass_v1beta1 [copy_rule]:
  "libraryCopies lib ok \<Longrightarrow> copies (VolumeGroupSnapshotClass_v1beta1_DeepCopyInto lib) (fits ok VolumeGroupSnapshotClass_v1beta1)"
  unfolding VolumeGroupSnapshotClass_v1beta1_DeepCopyInto_def VolumeGroupSnapshotClass_v1beta1_def
  by (rule copies_struct) (simp_all add: fieldCopied_def copy_rule)

definition VolumeGroupSnapshotClassList_v1beta1_DeepCopyInto :: "(string \<Rightarrow> copier) \<Rightarrow> copier" where
  "VolumeGroupSnapshotClassList_v1beta1_DeepCopyInto lib = intoStruct
    [(''TypeMeta'', assign),
     (''ListMeta'', lib ''metav1.ListMeta''),
     (''Items'', slice (VolumeGroupSnapshotClass_v1beta1_DeepCopyInto lib))]"

definition VolumeGroupSnapshotClassList_v1beta1_DeepCopy :: "(string \<Rightarrow> copier) \<Rightarrow> copier" where
  "VolumeGroupSnapshotClassList_v1beta1_DeepCopy lib = pointer (VolumeGroupSnapshotClassList_v1beta1_DeepCopyInto lib)"

definition VolumeGroupSnapshotClassList_v1beta1_DeepCopyObject :: "(string \<Rightarrow> copier) \<Rightarrow> val \<Rightarrow> memory \<Rightarrow> (interface \<times> memory) option" where
  "VolumeGroupSnapshotClassList_v1beta1_DeepCopyObject lib = asObject ''volumegroupsnapshot/v1beta1.VolumeGroupSnapshotClassList'' (VolumeGroupSnapshotClassList_v1beta1_DeepCopy lib)"

lemma copies_VolumeGroupSnapshotClassList_v1beta1 [copy_rule]:
  "libraryCopies lib ok \<Longrightarrow> copies (VolumeGroupSnapshotClassList_v1beta1_DeepCopyInto lib) (fits ok VolumeGroupSnapshotClassList_v1beta1)"
  unfolding VolumeGroupSnapshotClassList_v1beta1_DeepCopyInto_def VolumeGroupSnapshotClassList_v1beta1_def
  by (rule copies_struct) (simp_all add: fieldCopied_def copy_rule)

definition GroupSnapshotHandles_v1beta1_DeepCopyInto :: "(string \<Rightarrow> copier) \<Rightarrow> copier" where
  "GroupSnapshotHandles_v1beta1_DeepCopyInto lib = intoStruct
    [(''VolumeSnapshotHandles'', slice assign)]"

definition GroupSnapshotHandles_v1beta1_DeepCopy :: "(string \<Rightarrow> copier) \<Rightarrow> copier" where
  "GroupSnapshotHandles_v1beta1_DeepCopy lib = pointer (GroupSnapshotHandles_v1beta1_DeepCopyInto lib)"

lemma copies_GroupSnapshotHandles_v1beta1 [copy_rule]:
  "libraryCopies lib ok \<Longrightarrow> copies (GroupSnapshotHandles_v1beta1_DeepCopyInto lib) (fits ok GroupSnapshotHandles_v1beta1)"
  unfolding GroupSnapshotHandles_v1beta1_DeepCopyInto_def GroupSnapshotHandles_v1beta1_def
  by (rule copies_struct) (simp_all add: fieldCopied_def copy_rule)

definition VolumeGroupSnapshotContentSource_v1beta1_DeepCopyInto :: "(string \<Rightarrow> copier) \<Rightarrow> copier" where
  "VolumeGroupSnapshotContentSource_v1beta1_DeepCopyInto lib = intoStruct
    [(''VolumeHandles'', slice assign),
     (''GroupSnapshotHandles'', pointer (GroupSnapshotHandles_v1beta1_DeepCopyInto lib))]"

definition VolumeGroupSnapshotContentSource_v1beta1_DeepCopy :: "(string \<Rightarrow> copier) \<Rightarrow> copier" where
  "VolumeGroupSnapshotContentSource_v1beta1_DeepCopy lib = pointer (VolumeGroupSnapshotContentSource_v1beta1_DeepCopyInto lib)"

lemma copies_VolumeGroupSnapshotContentSource_v1beta1 [copy_rule]:
  "libraryCopies lib ok \<Longrightarrow> copies (VolumeGroupSnapshotContentSource_v1beta1_DeepCopyInto lib) (fits ok VolumeGroupSnapshotContentSource_v1beta1)"
  unfolding VolumeGroupSnapshotContentSource_v1beta1_DeepCopyInto_def VolumeGroupSnapshotContentSource_v1beta1_def
  by (rule copies_struct) (simp_all add: fieldCopied_def copy_rule)

definition VolumeGroupSnapshotContentSpec_v1beta1_DeepCopyInto :: "(string \<Rightarrow> copier) \<Rightarrow> copier" where
  "VolumeGroupSnapshotContentSpec_v1beta1_DeepCopyInto lib = intoStruct
    [(''VolumeGroupSnapshotRef'', assign),
     (''VolumeGroupSnapshotClassName'', pointer assign),
     (''Source'', VolumeGroupSnapshotContentSource_v1beta1_DeepCopyInto lib)]"

definition VolumeGroupSnapshotContentSpec_v1beta1_DeepCopy :: "(string \<Rightarrow> copier) \<Rightarrow> copier" where
  "VolumeGroupSnapshotContentSpec_v1beta1_DeepCopy lib = pointer (VolumeGroupSnapshotContentSpec_v1beta1_DeepCopyInto lib)"

lemma copies_VolumeGroupSnapshotContentSpec_v1beta1 [copy_rule]:
  "libraryCopies lib ok \<Longrightarrow> copies (VolumeGroupSnapshotContentSpec_v1beta1_DeepCopyInto lib) (fits ok VolumeGroupSnapshotContentSpec_v1beta1)"
  unfolding VolumeGroupSnapshotContentSpec_v1beta1_DeepCopyInto_def VolumeGroupSnapshotContentSpec_v1beta1_def
  by (rule copies_struct) (simp_all add: fieldCopied_def copy_rule)

definition VolumeSnapshotHandlePair_v1beta1_DeepCopyInto :: "(string \<Rightarrow> copier) \<Rightarrow> copier" where
  "VolumeSnapshotHandlePair_v1beta1_DeepCopyInto lib = intoStruct []"

definition VolumeSnapshotHandlePair_v1beta1_DeepCopy :: "(string \<Rightarrow> copier) \<Rightarrow> copier" where
  "VolumeSnapshotHandlePair_v1beta1_DeepCopy lib = pointer (VolumeSnapshotHandlePair_v1beta1_DeepCopyInto lib)"

lemma copies_VolumeSnapshotHandlePair_v1beta1 [copy_rule]:
  "libraryCopies lib ok \<Longrightarrow> copies (VolumeSnapshotHandlePair_v1beta1_DeepCopyInto lib) (fits ok VolumeSnapshotHandlePair_v1beta1)"
  unfolding VolumeSnapshotHandlePair_v1beta1_DeepCopyInto_def VolumeSnapshotHandlePair_v1beta1_def
  by (rule copies_struct) (simp_all add: fieldCopied_def copy_rule)

lemma copies_assigned_VolumeSnapshotHandlePair_v1beta1 [copy_rule]: "copies assign (fits ok VolumeSnapshotHandlePair_v1beta1)"
  unfolding VolumeSnapshotHandlePair_v1beta1_def by (rule copies_assigned_struct, rule copies_struct) (simp_all add: fieldCopied_def copy_rule)

definition VolumeGroupSnapshotContentStatus_v1beta1_DeepCopyInto :: "(string \<Rightarrow> copier) \<Rightarrow> copier" where
  "VolumeGroupSnapshotContentStatus_v1beta1_DeepCopyInto lib = intoStruct
    [(''VolumeGroupSnapshotHandle'', pointer assign),
     (''CreationTime'', pointer (lib ''metav1.Time'')),
     (''ReadyToUse'', pointer assign),
     (''Error'', pointer (VolumeSnapshotError_v1_DeepCopyInto lib)),
     (''VolumeSnapshotHandlePairList'', slice assign)]"

definition VolumeGroupSnapshotContentStatus_v1beta1_DeepCopy :: "(string \<Rightarrow> copier) \<Rightarrow> copier" where
  "VolumeGroupSnapshotContentStatus_v1beta1_DeepCopy lib = pointer (VolumeGroupSnapshotContentStatus_v1beta1_DeepCopyInto lib)"

lemma copies_VolumeGroupSnapshotContentStatus_v1beta1 [copy_rule]:
  "libraryCopies lib ok \<Longrightarrow> copies (VolumeGroupSnapshotContentStatus_v1beta1_DeepCopyInto lib) (fits ok VolumeGroupSnapshotContentStatus_v1beta1)"
  unfolding VolumeGroupSnapshotContentStatus_v1beta1_DeepCopyInto_def VolumeGroupSnapshotContentStatus_v1beta1_def
  by (rule copies_struct) (simp_all add: fieldCopied_def copy_rule)

definition VolumeGroupSnapshotContent_v1beta1_DeepCopyInto :: "(string \<Rightarrow> copier) \<Rightarrow> copier" where
  "VolumeGroupSnapshotContent_v1beta1_DeepCopyInto lib = intoStruct
    [(''TypeMeta'', assign),
     (''ObjectMeta'', lib ''metav1.ObjectMeta''),
     (''Spec'', VolumeGroupSnapshotContentSpec_v1beta1_DeepCopyInto lib),
     (''Status'', pointer (VolumeGroupSnapshotContentStatus_v1beta1_DeepCopyInto lib))]"

definition VolumeGroupSnapshotContent_v1beta1_DeepCopy :: "(string \<Rightarrow> copier) \<Rightarrow> copier" where
  "VolumeGroupSnapshotContent_v1beta1_DeepCopy lib = pointer (VolumeGroupSnapshotContent_v1beta1_DeepCopyInto lib)"

definition VolumeGroupSnapshotContent_v1beta1_DeepCopyObject :: "(string \<Rightarrow> copier) \<Rightarrow> val \<Rightarrow> memory \<Rightarrow> (interface \<times> memory) option" where
  "VolumeGroupSnapshotContent_v1beta1_DeepCopyObject lib = asObject ''volumegroupsnapshot/v1beta1.VolumeGroupSnapshotContent'' (VolumeGroupSnapshotContent_v1beta1_DeepCopy lib)"

lemma copies_VolumeGroupSnapshotContent_v1beta1 [copy_rule]:
  "libraryCopies lib ok \<Longrightarrow> copies (VolumeGroupSnapshotContent_v1beta1_DeepCopyInto lib) (fits ok VolumeGroupSnapshotContent_v1beta1)"
  unfolding VolumeGroupSnapshotContent_v1beta1_DeepCopyInto_def VolumeGroupSnapshotContent_v1beta1_def
  by (rule copies_struct) (simp_all add: fieldCopied_def copy_rule)

definition VolumeGroupSnapshotContentList_v1beta1_DeepCopyInto :: "(string \<Rightarrow> copier) \<Rightarrow> copier" where
  "VolumeGroupSnapshotContentList_v1beta1_DeepCopyInto lib = intoStruct
    [(''TypeMeta'', assign),
     (''ListMeta'', lib ''metav1.ListMeta''),
     (''Items'', slice (VolumeGroupSnapshotContent_v1beta1_DeepCopyInto lib))]"

definition VolumeGroupSnapshotContentList_v1beta1_DeepCopy :: "(string \<Rightarrow> copier) \<Rightarrow> copier" where
  "VolumeGroupSnapshotContentList_v1beta1_DeepCopy lib = pointer (VolumeGroupSnapshotContentList_v1beta1_DeepCopyInto lib)"

definition VolumeGroupSnapshotContentList_v1beta1_DeepCopyObject :: "(string \<Rightarrow> copier) \<Rightarrow> val \<Rightarrow> memory \<Rightarrow> (interface \<times> memory) option" where
  "VolumeGroupSnapshotContentList_v1beta1_DeepCopyObject lib = asObject ''volumegroupsnapshot/v1beta1.VolumeGroupSnapshotContentList'' (VolumeGroupSnapshotContentList_v1beta1_DeepCopy lib)"

lemma copies_VolumeGroupSnapshotContentList_v1beta1 [copy_rule]:
  "libraryCopies lib ok \<Longrightarrow> copies (VolumeGroupSnapshotContentList_v1beta1_DeepCopyInto lib) (fits ok VolumeGroupSnapshotContentList_v1beta1)"
  unfolding VolumeGroupSnapshotContentList_v1beta1_DeepCopyInto_def VolumeGroupSnapshotContentList_v1beta1_def
  by (rule copies_struct) (simp_all add: fieldCopied_def copy_rule)

section \<open>Package \<open>volumegroupsnapshot/v1beta2\<close>\<close>

definition VolumeGroupSnapshotSource_v1beta2_DeepCopyInto :: "(string \<Rightarrow> copier) \<Rightarrow> copier" where
  "VolumeGroupSnapshotSource_v1beta2_DeepCopyInto lib = intoStruct
    [(''Selector'', pointer (lib ''metav1.LabelSelector'')),
     (''VolumeGroupSnapshotContentName'', pointer assign)]"

definition VolumeGroupSnapshotSource_v1beta2_DeepCopy :: "(string \<Rightarrow> copier) \<Rightarrow> copier" where
  "VolumeGroupSnapshotSource_v1beta2_DeepCopy lib = pointer (VolumeGroupSnapshotSource_v1beta2_DeepCopyInto lib)"

lemma copies_VolumeGroupSnapshotSource_v1beta2 [copy_rule]:
  "libraryCopies lib ok \<Longrightarrow> copies (VolumeGroupSnapshotSource_v1beta2_DeepCopyInto lib) (fits ok VolumeGroupSnapshotSource_v1beta2)"
  unfolding VolumeGroupSnapshotSource_v1beta2_DeepCopyInto_def VolumeGroupSnapshotSource_v1beta2_def
  by (rule copies_struct) (simp_all add: fieldCopied_def copy_rule)

definition VolumeGroupSnapshotSpec_v1beta2_DeepCopyInto :: "(string \<Rightarrow> copier) \<Rightarrow> copier" where
  "VolumeGroupSnapshotSpec_v1beta2_DeepCopyInto lib = intoStruct
    [(''Source'', VolumeGroupSnapshotSource_v1beta2_DeepCopyInto lib),
     (''VolumeGroupSnapshotClassName'', pointer assign)]"

definition VolumeGroupSnapshotSpec_v1beta2_DeepCopy :: "(string \<Rightarrow> copier) \<Rightarrow> copier" where
  "VolumeGroupSnapshotSpec_v1beta2_DeepCopy lib = pointer (VolumeGroupSnapshotSpec_v1beta2_DeepCopyInto lib)"

lemma copies_VolumeGroupSnapshotSpec_v1beta2 [copy_rule]:
  "libraryCopies lib ok \<Longrightarrow> copies (VolumeGroupSnapshotSpec_v1beta2_DeepCopyInto lib) (fits ok VolumeGroupSnapshotSpec_v1beta2)"
  unfolding VolumeGroupSnapshotSpec_v1beta2_DeepCopyInto_def VolumeGroupSnapshotSpec_v1beta2_def
  by (rule copies_struct) (simp_all add: fieldCopied_def copy_rule)

definition VolumeGroupSnapshotStatus_v1beta2_DeepCopyInto :: "(string \<Rightarrow> copier) \<Rightarrow> copier" where
  "VolumeGroupSnapshotStatus_v1beta2_DeepCopyInto lib = intoStruct
    [(''BoundVolumeGroupSnapshotContentName'', pointer assign),
     (''CreationTime'', pointer (lib ''metav1.Time'')),
     (''ReadyToUse'', pointer assign),
     (''Error'', pointer (VolumeSnapshotError_v1_DeepCopyInto lib))]"

definition VolumeGroupSnapshotStatus_v1beta2_DeepCopy :: "(string \<Rightarrow> copier) \<Rightarrow> copier" where
  "VolumeGroupSnapshotStatus_v1beta2_DeepCopy lib = pointer (VolumeGroupSnapshotStatus_v1beta2_DeepCopyInto lib)"

lemma copies_VolumeGroupSnapshotStatus_v1beta2 [copy_rule]:
  "libraryCopies lib ok \<Longrightarrow> copies (VolumeGroupSnapshotStatus_v1beta2_DeepCopyInto lib) (fits ok VolumeGroupSnapshotStatus_v1beta2)"
  unfolding VolumeGroupSnapshotStatus_v1beta2_DeepCopyInto_def VolumeGroupSnapshotStatus_v1beta2_def
  by (rule copies_struct) (simp_all add: fieldCopied_def copy_rule)

definition VolumeGroupSnapshot_v1beta2_DeepCopyInto :: "(string \<Rightarrow> copier) \<Rightarrow> copier" where
  "VolumeGroupSnapshot_v1beta2_DeepCopyInto lib = intoStruct
    [(''TypeMeta'', assign),
     (''ObjectMeta'', lib ''metav1.ObjectMeta''),
     (''Spec'', VolumeGroupSnapshotSpec_v1beta2_DeepCopyInto lib),
     (''Status'', pointer (VolumeGroupSnapshotStatus_v1beta2_DeepCopyInto lib))]"

definition VolumeGroupSnapshot_v1beta2_DeepCopy :: "(string \<Rightarrow> copier) \<Rightarrow> copier" where
  "VolumeGroupSnapshot_v1beta2_DeepCopy lib = pointer (VolumeGroupSnapshot_v1beta2_DeepCopyInto lib)"

definition VolumeGroupSnapshot_v1beta2_DeepCopyObject :: "(string \<Rightarrow> copier) \<Rightarrow> val \<Rightarrow> memory \<Rightarrow> (interface \<times> memory) option" where
  "VolumeGroupSnapshot_v1beta2_DeepCopyObject lib = asObject ''volumegroupsnapshot/v1beta2.VolumeGroupSnapshot'' (VolumeGroupSnapshot_v1beta2_DeepCopy lib)"

lemma copies_VolumeGroupSnapshot_v1beta2 [copy_rule]:
  "libraryCopies lib ok \<Longrightarrow> copies (VolumeGroupSnapshot_v1beta2_DeepCopyInto lib) (fits ok VolumeGroupSnapshot_v1beta2)"
  unfolding VolumeGroupSnapshot_v1beta2_DeepCopyInto_def VolumeGroupSnapshot_v1beta2_def
  by (rule copies_struct) (simp_all add: fieldCopied_def copy_rule)

definition VolumeGroupSnapshotList_v1beta2_DeepCopyInto :: "(string \<Rightarrow> copier) \<Rightarrow> copier" where
  "VolumeGroupSnapshotList_v1beta2_DeepCopyInto lib = intoStruct
    [(''TypeMeta'', assign),
     (''ListMeta'', lib ''metav1.ListMeta''),
     (''Items'', slice (VolumeGroupSnapshot_v1beta2_DeepCopyInto lib))]"

definition VolumeGroupSnapshotList_v1beta2_DeepCopy :: "(string \<Rightarrow> copier) \<Rightarrow> copier" where
  "VolumeGroupSnapshotList_v1beta2_DeepCopy lib = pointer (VolumeGroupSnapshotList_v1beta2_DeepCopyInto lib)"

definition VolumeGroupSnapshotList_v1beta2_DeepCopyObject :: "(string \<Rightarrow> copier) \<Rightarrow> val \<Rightarrow> memory \<Rightarrow> (interface \<times> memory) option" where
  "VolumeGroupSnapshotList_v1beta2_DeepCopyObject lib = asObject ''volumegroupsnapshot/v1beta2.VolumeGroupSnapshotList'' (VolumeGroupSnapshotList_v1beta2_DeepCopy lib)"

lemma copies_VolumeGroupSnapshotList_v1beta2 [copy_rule]:
  "libraryCopies lib ok \<Longrightarrow> copies (VolumeGroupSnapshotList_v1beta2_DeepCopyInto lib) (fits ok VolumeGroupSnapshotList_v1beta2)"
  unfolding VolumeGroupSnapshotList_v1beta2_DeepCopyInto_def VolumeGroupSnapshotList_v1beta2_def
  by (rule copies_struct) (simp_all add: fieldCopied_def copy_rule)

definition VolumeGroupSnapshotClass_v1beta2_DeepCopyInto :: "(string \<Rightarrow> copier) \<Rightarrow> copier" where
  "VolumeGroupSnapshotClass_v1beta2_DeepCopyInto lib = intoStruct
    [(''TypeMeta'', assign),
     (''ObjectMeta'', lib ''metav1.ObjectMeta''),
     (''Parameters'', stringMap)]"

definition VolumeGroupSnapshotClass_v1beta2_DeepCopy :: "(string \<Rightarrow> copier) \<Rightarrow> copier" where
  "VolumeGroupSnapshotClass_v1beta2_DeepCopy lib = pointer (VolumeGroupSnapshotClass_v1beta2_DeepCopyInto lib)"

definition VolumeGroupSnapshotClass_v1beta2_DeepCopyObject :: "(string \<Rightarrow> copier) \<Rightarrow> val \<Rightarrow> memory \<Rightarrow> (interface \<times> memory) option" where
  "VolumeGroupSnapshotClass_v1beta2_DeepCopyObject lib = asObject ''volumegroupsnapshot/v1beta2.VolumeGroupSnapshotClass'' (VolumeGroupSnapshotClass_v1beta2_DeepCopy lib)"

lemma copies_VolumeGroupSnapshotClass_v1beta2 [copy_rule]:
  "libraryCopies lib ok \<Longrightarrow> copies (VolumeGroupSnapshotClass_v1beta2_DeepCopyInto lib) (fits ok VolumeGroupSnapshotClass_v1beta2)"
  unfolding VolumeGroupSnapshotClass_v1beta2_DeepCopyInto_def VolumeGroupSnapshotClass_v1beta2_def
  by (rule copies_struct) (simp_all add: fieldCopied_def copy_rule)

definition VolumeGroupSnapshotClassList_v1beta2_DeepCopyInto :: "(string \<Rightarrow> copier) \<Rightarrow> copier" where
  "VolumeGroupSnapshotClassList_v1beta2_DeepCopyInto lib = intoStruct
    [(''TypeMeta'', assign),
     (''ListMeta'', lib ''metav1.ListMeta''),
     (''Items'', slice (VolumeGroupSnapshotClass_v1beta2_DeepCopyInto lib))]"

definition VolumeGroupSnapshotClassList_v1beta2_DeepCopy :: "(string \<Rightarrow> copier) \<Rightarrow> copier" where
  "VolumeGroupSnapshotClassList_v1beta2_DeepCopy lib = pointer (VolumeGroupSnapshotClassList_v1beta2_DeepCopyInto lib)"

definition VolumeGroupSnapshotClassList_v1beta2_DeepCopyObject :: "(string \<Rightarrow> copier) \<Rightarrow> val \<Rightarrow> memory \<Rightarrow> (interface \<times> memory) option" where
  "VolumeGroupSnapshotClassList_v1beta2_DeepCopyObject lib = asObject ''volumegroupsnapshot/v1beta2.VolumeGroupSnapshotClassList'' (VolumeGroupSnapshotClassList_v1beta2_DeepCopy lib)"

lemma copies_VolumeGroupSnapshotClassList_v1beta2 [copy_rule]:
  "libraryCopies lib ok \<Longrightarrow> copies (VolumeGroupSnapshotClassList_v1beta2_DeepCopyInto lib) (fits ok VolumeGroupSnapshotClassList_v1beta2)"
  unfolding VolumeGroupSnapshotClassList_v1beta2_DeepCopyInto_def VolumeGroupSnapshotClassList_v1beta2_def
  by (rule copies_struct) (simp_all add: fieldCopied_def copy_rule)

definition GroupSnapshotHandles_v1beta2_DeepCopyInto :: "(string \<Rightarrow> copier) \<Rightarrow> copier" where
  "GroupSnapshotHandles_v1beta2_DeepCopyInto lib = intoStruct
    [(''VolumeSnapshotHandles'', slice assign)]"

definition GroupSnapshotHandles_v1beta2_DeepCopy :: "(string \<Rightarrow> copier) \<Rightarrow> copier" where
  "GroupSnapshotHandles_v1beta2_DeepCopy lib = pointer (GroupSnapshotHandles_v1beta2_DeepCopyInto lib)"

lemma copies_GroupSnapshotHandles_v1beta2 [copy_rule]:
  "libraryCopies lib ok \<Longrightarrow> copies (GroupSnapshotHandles_v1beta2_DeepCopyInto lib) (fits ok GroupSnapshotHandles_v1beta2)"
  unfolding GroupSnapshotHandles_v1beta2_DeepCopyInto_def GroupSnapshotHandles_v1beta2_def
  by (rule copies_struct) (simp_all add: fieldCopied_def copy_rule)

definition VolumeGroupSnapshotContentSource_v1beta2_DeepCopyInto :: "(string \<Rightarrow> copier) \<Rightarrow> copier" where
  "VolumeGroupSnapshotContentSource_v1beta2_DeepCopyInto lib = intoStruct
    [(''VolumeHandles'', slice assign),
     (''GroupSnapshotHandles'', pointer (GroupSnapshotHandles_v1beta2_DeepCopyInto lib))]"

definition VolumeGroupSnapshotContentSource_v1beta2_DeepCopy :: "(string \<Rightarrow> copier) \<Rightarrow> copier" where
  "VolumeGroupSnapshotContentSource_v1beta2_DeepCopy lib = pointer (VolumeGroupSnapshotContentSource_v1beta2_DeepCopyInto lib)"

lemma copies_VolumeGroupSnapshotContentSource_v1beta2 [copy_rule]:
  "libraryCopies lib ok \<Longrightarrow> copies (VolumeGroupSnapshotContentSource_v1beta2_DeepCopyInto lib) (fits ok VolumeGroupSnapshotContentSource_v1beta2)"
  unfolding VolumeGroupSnapshotContentSource_v1beta2_DeepCopyInto_def VolumeGroupSnapshotContentSource_v1beta2_def
  by (rule copies_struct) (simp_all add: fieldCopied_def copy_rule)

definition VolumeGroupSnapshotContentSpec_v1beta2_DeepCopyInto :: "(string \<Rightarrow> copier) \<Rightarrow> copier" where
  "VolumeGroupSnapshotContentSpec_v1beta2_DeepCopyInto lib = intoStruct
    [(''VolumeGroupSnapshotRef'', assign),
     (''VolumeGroupSnapshotClassName'', pointer assign),
     (''Source'', VolumeGroupSnapshotContentSource_v1beta2_DeepCopyInto lib)]"

definition VolumeGroupSnapshotContentSpec_v1beta2_DeepCopy :: "(string \<Rightarrow> copier) \<Rightarrow> copier" where
  "VolumeGroupSnapshotContentSpec_v1beta2_DeepCopy lib = pointer (VolumeGroupSnapshotContentSpec_v1beta2_DeepCopyInto lib)"

lemma copies_VolumeGroupSnapshotContentSpec_v1beta2 [copy_rule]:
  "libraryCopies lib ok \<Longrightarrow> copies (VolumeGroupSnapshotContentSpec_v1beta2_DeepCopyInto lib) (fits ok VolumeGroupSnapshotContentSpec_v1beta2)"
  unfolding VolumeGroupSnapshotContentSpec_v1beta2_DeepCopyInto_def VolumeGroupSnapshotContentSpec_v1beta2_def
  by (rule copies_struct) (simp_all add: fieldCopied_def copy_rule)

definition VolumeSnapshotInfo_v1beta2_DeepCopyInto :: "(string \<Rightarrow> copier) \<Rightarrow> copier" where
  "VolumeSnapshotInfo_v1beta2_DeepCopyInto lib = intoStruct
    [(''CreationTime'', pointer assign),
     (''ReadyToUse'', pointer assign),
     (''RestoreSize'', pointer assign)]"

definition VolumeSnapshotInfo_v1beta2_DeepCopy :: "(string \<Rightarrow> copier) \<Rightarrow> copier" where
  "VolumeSnapshotInfo_v1beta2_DeepCopy lib = pointer (VolumeSnapshotInfo_v1beta2_DeepCopyInto lib)"

lemma copies_VolumeSnapshotInfo_v1beta2 [copy_rule]:
  "libraryCopies lib ok \<Longrightarrow> copies (VolumeSnapshotInfo_v1beta2_DeepCopyInto lib) (fits ok VolumeSnapshotInfo_v1beta2)"
  unfolding VolumeSnapshotInfo_v1beta2_DeepCopyInto_def VolumeSnapshotInfo_v1beta2_def
  by (rule copies_struct) (simp_all add: fieldCopied_def copy_rule)

definition VolumeGroupSnapshotContentStatus_v1beta2_DeepCopyInto :: "(string \<Rightarrow> copier) \<Rightarrow> copier" where
  "VolumeGroupSnapshotContentStatus_v1beta2_DeepCopyInto lib = intoStruct
    [(''VolumeGroupSnapshotHandle'', pointer assign),
     (''CreationTime'', pointer (lib ''metav1.Time'')),
     (''ReadyToUse'', pointer assign),
     (''Error'', pointer (VolumeSnapshotError_v1_DeepCopyInto lib)),
     (''VolumeSnapshotInfoList'', slice (VolumeSnapshotInfo_v1beta2_DeepCopyInto lib))]"

definition VolumeGroupSnapshotContentStatus_v1beta2_DeepCopy :: "(string \<Rightarrow> copier) \<Rightarrow> copier" where
  "VolumeGroupSnapshotContentStatus_v1beta2_DeepCopy lib = pointer (VolumeGroupSnapshotContentStatus_v1beta2_DeepCopyInto lib)"

lemma copies_VolumeGroupSnapshotContentStatus_v1beta2 [copy_rule]:
  "libraryCopies lib ok \<Longrightarrow> copies (VolumeGroupSnapshotContentStatus_v1beta2_DeepCopyInto lib) (fits ok VolumeGroupSnapshotContentStatus_v1beta2)"
  unfolding VolumeGroupSnapshotContentStatus_v1beta2_DeepCopyInto_def VolumeGroupSnapshotContentStatus_v1beta2_def
  by (rule copies_struct) (simp_all add: fieldCopied_def copy_rule)

definition VolumeGroupSnapshotContent_v1beta2_DeepCopyInto :: "(string \<Rightarrow> copier) \<Rightarrow> copier" where
  "VolumeGroupSnapshotContent_v1beta2_DeepCopyInto lib = intoStruct
    [(''TypeMeta'', assign),
     (''ObjectMeta'', lib ''metav1.ObjectMeta''),
     (''Spec'', VolumeGroupSnapshotContentSpec_v1beta2_DeepCopyInto lib),
     (''Status'', pointer (VolumeGroupSnapshotContentStatus_v1beta2_DeepCopyInto lib))]"

definition VolumeGroupSnapshotContent_v1beta2_DeepCopy :: "(string \<Rightarrow> copier) \<Rightarrow> copier" where
  "VolumeGroupSnapshotContent_v1beta2_DeepCopy lib = pointer (VolumeGroupSnapshotContent_v1beta2_DeepCopyInto lib)"

definition VolumeGroupSnapshotContent_v1beta2_DeepCopyObject :: "(string \<Rightarrow> copier) \<Rightarrow> val \<Rightarrow> memory \<Rightarrow> (interface \<times> memory) option" where
  "VolumeGroupSnapshotContent_v1beta2_DeepCopyObject lib = asObject ''volumegroupsnapshot/v1beta2.VolumeGroupSnapshotContent'' (VolumeGroupSnapshotContent_v1beta2_DeepCopy lib)"

lemma copies_VolumeGroupSnapshotContent_v1beta2 [copy_rule]:
  "libraryCopies lib ok \<Longrightarrow> copies (VolumeGroupSnapshotContent_v1beta2_DeepCopyInto lib) (fits ok VolumeGroupSnapshotContent_v1beta2)"
  unfolding VolumeGroupSnapshotContent_v1beta2_DeepCopyInto_def VolumeGroupSnapshotContent_v1beta2_def
  by (rule copies_struct) (simp_all add: fieldCopied_def copy_rule)

definition VolumeGroupSnapshotContentList_v1beta2_DeepCopyInto :: "(string \<Rightarrow> copier) \<Rightarrow> copier" where
  "VolumeGroupSnapshotContentList_v1beta2_DeepCopyInto lib = intoStruct
    [(''TypeMeta'', assign),
     (''ListMeta'', lib ''metav1.ListMeta''),
     (''Items'', slice (VolumeGroupSnapshotContent_v1beta2_DeepCopyInto lib))]"

definition VolumeGroupSnapshotContentList_v1beta2_DeepCopy :: "(string \<Rightarrow> copier) \<Rightarrow> copier" where
  "VolumeGroupSnapshotContentList_v1beta2_DeepCopy lib = pointer (VolumeGroupSnapshotContentList_v1beta2_DeepCopyInto lib)"

definition VolumeGroupSnapshotContentList_v1beta2_DeepCopyObject :: "(string \<Rightarrow> copier) \<Rightarrow> val \<Rightarrow> memory \<Rightarrow> (interface \<times> memory) option" where
  "VolumeGroupSnapshotContentList_v1beta2_DeepCopyObject lib = asObject ''volumegroupsnapshot/v1beta2.VolumeGroupSnapshotContentList'' (VolumeGroupSnapshotContentList_v1beta2_DeepCopy lib)"

lemma copies_VolumeGroupSnapshotContentList_v1beta2 [copy_rule]:
  "libraryCopies lib ok \<Longrightarrow> copies (VolumeGroupSnapshotContentList_v1beta2_DeepCopyInto lib) (fits ok VolumeGroupSnapshotContentList_v1beta2)"
  unfolding VolumeGroupSnapshotContentList_v1beta2_DeepCopyInto_def VolumeGroupSnapshotContentList_v1beta2_def
  by (rule copies_struct) (simp_all add: fieldCopied_def copy_rule)

definition VolumeSnapshotHandlePair_v1beta2_DeepCopyInto :: "(string \<Rightarrow> copier) \<Rightarrow> copier" where
  "VolumeSnapshotHandlePair_v1beta2_DeepCopyInto lib = intoStruct []"

definition VolumeSnapshotHandlePair_v1beta2_DeepCopy :: "(string \<Rightarrow> copier) \<Rightarrow> copier" where
  "VolumeSnapshotHandlePair_v1beta2_DeepCopy lib = pointer (VolumeSnapshotHandlePair_v1beta2_DeepCopyInto lib)"

lemma copies_VolumeSnapshotHandlePair_v1beta2 [copy_rule]:
  "libraryCopies lib ok \<Longrightarrow> copies (VolumeSnapshotHandlePair_v1beta2_DeepCopyInto lib) (fits ok VolumeSnapshotHandlePair_v1beta2)"
  unfolding VolumeSnapshotHandlePair_v1beta2_DeepCopyInto_def VolumeSnapshotHandlePair_v1beta2_def
  by (rule copies_struct) (simp_all add: fieldCopied_def copy_rule)

lemma copies_assigned_VolumeSnapshotHandlePair_v1beta2 [copy_rule]: "copies assign (fits ok VolumeSnapshotHandlePair_v1beta2)"
  unfolding VolumeSnapshotHandlePair_v1beta2_def by (rule copies_assigned_struct, rule copies_struct) (simp_all add: fieldCopied_def copy_rule)

section \<open>All of them\<close>

text \<open>Every declared struct with its two copies, and every object that the API machinery copies as an interface value.\<close>

definition structCopies :: "(string \<Rightarrow> copier) \<Rightarrow> (goType \<times> copier \<times> copier) list" where
  "structCopies lib =
    [(VolumeSnapshotSource_v1, VolumeSnapshotSource_v1_DeepCopyInto lib, VolumeSnapshotSource_v1_DeepCopy lib),
     (VolumeSnapshotSpec_v1, VolumeSnapshotSpec_v1_DeepCopyInto lib, VolumeSnapshotSpec_v1_DeepCopy lib),
     (VolumeSnapshotError_v1, VolumeSnapshotError_v1_DeepCopyInto lib, VolumeSnapshotError_v1_DeepCopy lib),
     (VolumeSnapshotStatus_v1, VolumeSnapshotStatus_v1_DeepCopyInto lib, VolumeSnapshotStatus_v1_DeepCopy lib),
     (VolumeSnapshot_v1, VolumeSnapshot_v1_DeepCopyInto lib, VolumeSnapshot_v1_DeepCopy lib),
     (VolumeSnapshotList_v1, VolumeSnapshotList_v1_DeepCopyInto lib, VolumeSnapshotList_v1_DeepCopy lib),
     (VolumeSnapshotClass_v1, VolumeSnapshotClass_v1_DeepCopyInto lib, VolumeSnapshotClass_v1_DeepCopy lib),
     (VolumeSnapshotClassList_v1, VolumeSnapshotClassList_v1_DeepCopyInto lib, VolumeSnapshotClassList_v1_DeepCopy lib),
     (VolumeSnapshotContentSource_v1, VolumeSnapshotContentSource_v1_DeepCopyInto lib, VolumeSnapshotContentSource_v1_DeepCopy lib),
     (VolumeSnapshotContentSpec_v1, VolumeSnapshotContentSpec_v1_DeepCopyInto lib, VolumeSnapshotContentSpec_v1_DeepCopy lib),
     (VolumeSnapshotContentStatus_v1, VolumeSnapshotContentStatus_v1_DeepCopyInto lib, VolumeSnapshotContentStatus_v1_DeepCopy lib),
     (VolumeSnapshotContent_v1, VolumeSnapshotContent_v1_DeepCopyInto lib, VolumeSnapshotContent_v1_DeepCopy lib),
     (VolumeSnapshotContentList_v1, VolumeSnapshotContentList_v1_DeepCopyInto lib, VolumeSnapshotContentList_v1_DeepCopy lib),
     (VolumeGroupSnapshotSource_v1, VolumeGroupSnapshotSource_v1_DeepCopyInto lib, VolumeGroupSnapshotSource_v1_DeepCopy lib),
     (VolumeGroupSnapshotSpec_v1, VolumeGroupSnapshotSpec_v1_DeepCopyInto lib, VolumeGroupSnapshotSpec_v1_DeepCopy lib),
     (VolumeGroupSnapshotStatus_v1, VolumeGroupSnapshotStatus_v1_DeepCopyInto lib, VolumeGroupSnapshotStatus_v1_DeepCopy lib),
     (VolumeGroupSnapshot_v1, VolumeGroupSnapshot_v1_DeepCopyInto lib, VolumeGroupSnapshot_v1_DeepCopy lib),
     (VolumeGroupSnapshotList_v1, VolumeGroupSnapshotList_v1_DeepCopyInto lib, VolumeGroupSnapshotList_v1_DeepCopy lib),
     (VolumeGroupSnapshotClass_v1, VolumeGroupSnapshotClass_v1_DeepCopyInto lib, VolumeGroupSnapshotClass_v1_DeepCopy lib),
     (VolumeGroupSnapshotClassList_v1, VolumeGroupSnapshotClassList_v1_DeepCopyInto lib, VolumeGroupSnapshotClassList_v1_DeepCopy lib),
     (GroupSnapshotHandles_v1, GroupSnapshotHandles_v1_DeepCopyInto lib, GroupSnapshotHandles_v1_DeepCopy lib),
     (VolumeGroupSnapshotContentSource_v1, VolumeGroupSnapshotContentSource_v1_DeepCopyInto lib, VolumeGroupSnapshotContentSource_v1_DeepCopy lib),
     (VolumeGroupSnapshotContentSpec_v1, VolumeGroupSnapshotContentSpec_v1_DeepCopyInto lib, VolumeGroupSnapshotContentSpec_v1_DeepCopy lib),
     (VolumeSnapshotInfo_v1, VolumeSnapshotInfo_v1_DeepCopyInto lib, VolumeSnapshotInfo_v1_DeepCopy lib),
     (VolumeGroupSnapshotContentStatus_v1, VolumeGroupSnapshotContentStatus_v1_DeepCopyInto lib, VolumeGroupSnapshotContentStatus_v1_DeepCopy lib),
     (VolumeGroupSnapshotContent_v1, VolumeGroupSnapshotContent_v1_DeepCopyInto lib, VolumeGroupSnapshotContent_v1_DeepCopy lib),
     (VolumeGroupSnapshotContentList_v1, VolumeGroupSnapshotContentList_v1_DeepCopyInto lib, VolumeGroupSnapshotContentList_v1_DeepCopy lib),
     (VolumeSnapshotHandlePair_v1, VolumeSnapshotHandlePair_v1_DeepCopyInto lib, VolumeSnapshotHandlePair_v1_DeepCopy lib),
     (VolumeGroupSnapshotSource_v1beta1, VolumeGroupSnapshotSource_v1beta1_DeepCopyInto lib, VolumeGroupSnapshotSource_v1beta1_DeepCopy lib),
     (VolumeGroupSnapshotSpec_v1beta1, VolumeGroupSnapshotSpec_v1beta1_DeepCopyInto lib, VolumeGroupSnapshotSpec_v1beta1_DeepCopy lib),
     (VolumeGroupSnapshotStatus_v1beta1, VolumeGroupSnapshotStatus_v1beta1_DeepCopyInto lib, VolumeGroupSnapshotStatus_v1beta1_DeepCopy lib),
     (VolumeGroupSnapshot_v1beta1, VolumeGroupSnapshot_v1beta1_DeepCopyInto lib, VolumeGroupSnapshot_v1beta1_DeepCopy lib),
     (VolumeGroupSnapshotList_v1beta1, VolumeGroupSnapshotList_v1beta1_DeepCopyInto lib, VolumeGroupSnapshotList_v1beta1_DeepCopy lib),
     (VolumeGroupSnapshotClass_v1beta1, VolumeGroupSnapshotClass_v1beta1_DeepCopyInto lib, VolumeGroupSnapshotClass_v1beta1_DeepCopy lib),
     (VolumeGroupSnapshotClassList_v1beta1, VolumeGroupSnapshotClassList_v1beta1_DeepCopyInto lib, VolumeGroupSnapshotClassList_v1beta1_DeepCopy lib),
     (GroupSnapshotHandles_v1beta1, GroupSnapshotHandles_v1beta1_DeepCopyInto lib, GroupSnapshotHandles_v1beta1_DeepCopy lib),
     (VolumeGroupSnapshotContentSource_v1beta1, VolumeGroupSnapshotContentSource_v1beta1_DeepCopyInto lib, VolumeGroupSnapshotContentSource_v1beta1_DeepCopy lib),
     (VolumeGroupSnapshotContentSpec_v1beta1, VolumeGroupSnapshotContentSpec_v1beta1_DeepCopyInto lib, VolumeGroupSnapshotContentSpec_v1beta1_DeepCopy lib),
     (VolumeSnapshotHandlePair_v1beta1, VolumeSnapshotHandlePair_v1beta1_DeepCopyInto lib, VolumeSnapshotHandlePair_v1beta1_DeepCopy lib),
     (VolumeGroupSnapshotContentStatus_v1beta1, VolumeGroupSnapshotContentStatus_v1beta1_DeepCopyInto lib, VolumeGroupSnapshotContentStatus_v1beta1_DeepCopy lib),
     (VolumeGroupSnapshotContent_v1beta1, VolumeGroupSnapshotContent_v1beta1_DeepCopyInto lib, VolumeGroupSnapshotContent_v1beta1_DeepCopy lib),
     (VolumeGroupSnapshotContentList_v1beta1, VolumeGroupSnapshotContentList_v1beta1_DeepCopyInto lib, VolumeGroupSnapshotContentList_v1beta1_DeepCopy lib),
     (VolumeGroupSnapshotSource_v1beta2, VolumeGroupSnapshotSource_v1beta2_DeepCopyInto lib, VolumeGroupSnapshotSource_v1beta2_DeepCopy lib),
     (VolumeGroupSnapshotSpec_v1beta2, VolumeGroupSnapshotSpec_v1beta2_DeepCopyInto lib, VolumeGroupSnapshotSpec_v1beta2_DeepCopy lib),
     (VolumeGroupSnapshotStatus_v1beta2, VolumeGroupSnapshotStatus_v1beta2_DeepCopyInto lib, VolumeGroupSnapshotStatus_v1beta2_DeepCopy lib),
     (VolumeGroupSnapshot_v1beta2, VolumeGroupSnapshot_v1beta2_DeepCopyInto lib, VolumeGroupSnapshot_v1beta2_DeepCopy lib),
     (VolumeGroupSnapshotList_v1beta2, VolumeGroupSnapshotList_v1beta2_DeepCopyInto lib, VolumeGroupSnapshotList_v1beta2_DeepCopy lib),
     (VolumeGroupSnapshotClass_v1beta2, VolumeGroupSnapshotClass_v1beta2_DeepCopyInto lib, VolumeGroupSnapshotClass_v1beta2_DeepCopy lib),
     (VolumeGroupSnapshotClassList_v1beta2, VolumeGroupSnapshotClassList_v1beta2_DeepCopyInto lib, VolumeGroupSnapshotClassList_v1beta2_DeepCopy lib),
     (GroupSnapshotHandles_v1beta2, GroupSnapshotHandles_v1beta2_DeepCopyInto lib, GroupSnapshotHandles_v1beta2_DeepCopy lib),
     (VolumeGroupSnapshotContentSource_v1beta2, VolumeGroupSnapshotContentSource_v1beta2_DeepCopyInto lib, VolumeGroupSnapshotContentSource_v1beta2_DeepCopy lib),
     (VolumeGroupSnapshotContentSpec_v1beta2, VolumeGroupSnapshotContentSpec_v1beta2_DeepCopyInto lib, VolumeGroupSnapshotContentSpec_v1beta2_DeepCopy lib),
     (VolumeSnapshotInfo_v1beta2, VolumeSnapshotInfo_v1beta2_DeepCopyInto lib, VolumeSnapshotInfo_v1beta2_DeepCopy lib),
     (VolumeGroupSnapshotContentStatus_v1beta2, VolumeGroupSnapshotContentStatus_v1beta2_DeepCopyInto lib, VolumeGroupSnapshotContentStatus_v1beta2_DeepCopy lib),
     (VolumeGroupSnapshotContent_v1beta2, VolumeGroupSnapshotContent_v1beta2_DeepCopyInto lib, VolumeGroupSnapshotContent_v1beta2_DeepCopy lib),
     (VolumeGroupSnapshotContentList_v1beta2, VolumeGroupSnapshotContentList_v1beta2_DeepCopyInto lib, VolumeGroupSnapshotContentList_v1beta2_DeepCopy lib),
     (VolumeSnapshotHandlePair_v1beta2, VolumeSnapshotHandlePair_v1beta2_DeepCopyInto lib, VolumeSnapshotHandlePair_v1beta2_DeepCopy lib)]"

definition objectCopies :: "(string \<Rightarrow> copier) \<Rightarrow> (goType \<times> string \<times> (val \<Rightarrow> memory \<Rightarrow> (interface \<times> memory) option)) list" where
  "objectCopies lib =
    [(VolumeSnapshot_v1, ''volumesnapshot/v1.VolumeSnapshot'', VolumeSnapshot_v1_DeepCopyObject lib),
     (VolumeSnapshotList_v1, ''volumesnapshot/v1.VolumeSnapshotList'', VolumeSnapshotList_v1_DeepCopyObject lib),
     (VolumeSnapshotClass_v1, ''volumesnapshot/v1.VolumeSnapshotClass'', VolumeSnapshotClass_v1_DeepCopyObject lib),
     (VolumeSnapshotClassList_v1, ''volumesnapshot/v1.VolumeSnapshotClassList'', VolumeSnapshotClassList_v1_DeepCopyObject lib),
     (VolumeSnapshotContent_v1, ''volumesnapshot/v1.VolumeSnapshotContent'', VolumeSnapshotContent_v1_DeepCopyObject lib),
     (VolumeSnapshotContentList_v1, ''volumesnapshot/v1.VolumeSnapshotContentList'', VolumeSnapshotContentList_v1_DeepCopyObject lib),
     (VolumeGroupSnapshot_v1, ''volumegroupsnapshot/v1.VolumeGroupSnapshot'', VolumeGroupSnapshot_v1_DeepCopyObject lib),
     (VolumeGroupSnapshotList_v1, ''volumegroupsnapshot/v1.VolumeGroupSnapshotList'', VolumeGroupSnapshotList_v1_DeepCopyObject lib),
     (VolumeGroupSnapshotClass_v1, ''volumegroupsnapshot/v1.VolumeGroupSnapshotClass'', VolumeGroupSnapshotClass_v1_DeepCopyObject lib),
     (VolumeGroupSnapshotClassList_v1, ''volumegroupsnapshot/v1.VolumeGroupSnapshotClassList'', VolumeGroupSnapshotClassList_v1_DeepCopyObject lib),
     (VolumeGroupSnapshotContent_v1, ''volumegroupsnapshot/v1.VolumeGroupSnapshotContent'', VolumeGroupSnapshotContent_v1_DeepCopyObject lib),
     (VolumeGroupSnapshotContentList_v1, ''volumegroupsnapshot/v1.VolumeGroupSnapshotContentList'', VolumeGroupSnapshotContentList_v1_DeepCopyObject lib),
     (VolumeGroupSnapshot_v1beta1, ''volumegroupsnapshot/v1beta1.VolumeGroupSnapshot'', VolumeGroupSnapshot_v1beta1_DeepCopyObject lib),
     (VolumeGroupSnapshotList_v1beta1, ''volumegroupsnapshot/v1beta1.VolumeGroupSnapshotList'', VolumeGroupSnapshotList_v1beta1_DeepCopyObject lib),
     (VolumeGroupSnapshotClass_v1beta1, ''volumegroupsnapshot/v1beta1.VolumeGroupSnapshotClass'', VolumeGroupSnapshotClass_v1beta1_DeepCopyObject lib),
     (VolumeGroupSnapshotClassList_v1beta1, ''volumegroupsnapshot/v1beta1.VolumeGroupSnapshotClassList'', VolumeGroupSnapshotClassList_v1beta1_DeepCopyObject lib),
     (VolumeGroupSnapshotContent_v1beta1, ''volumegroupsnapshot/v1beta1.VolumeGroupSnapshotContent'', VolumeGroupSnapshotContent_v1beta1_DeepCopyObject lib),
     (VolumeGroupSnapshotContentList_v1beta1, ''volumegroupsnapshot/v1beta1.VolumeGroupSnapshotContentList'', VolumeGroupSnapshotContentList_v1beta1_DeepCopyObject lib),
     (VolumeGroupSnapshot_v1beta2, ''volumegroupsnapshot/v1beta2.VolumeGroupSnapshot'', VolumeGroupSnapshot_v1beta2_DeepCopyObject lib),
     (VolumeGroupSnapshotList_v1beta2, ''volumegroupsnapshot/v1beta2.VolumeGroupSnapshotList'', VolumeGroupSnapshotList_v1beta2_DeepCopyObject lib),
     (VolumeGroupSnapshotClass_v1beta2, ''volumegroupsnapshot/v1beta2.VolumeGroupSnapshotClass'', VolumeGroupSnapshotClass_v1beta2_DeepCopyObject lib),
     (VolumeGroupSnapshotClassList_v1beta2, ''volumegroupsnapshot/v1beta2.VolumeGroupSnapshotClassList'', VolumeGroupSnapshotClassList_v1beta2_DeepCopyObject lib),
     (VolumeGroupSnapshotContent_v1beta2, ''volumegroupsnapshot/v1beta2.VolumeGroupSnapshotContent'', VolumeGroupSnapshotContent_v1beta2_DeepCopyObject lib),
     (VolumeGroupSnapshotContentList_v1beta2, ''volumegroupsnapshot/v1beta2.VolumeGroupSnapshotContentList'', VolumeGroupSnapshotContentList_v1beta2_DeepCopyObject lib)]"

lemmas DeepCopy_defs =
  VolumeSnapshotSource_v1_DeepCopy_def
  VolumeSnapshotSpec_v1_DeepCopy_def
  VolumeSnapshotError_v1_DeepCopy_def
  VolumeSnapshotStatus_v1_DeepCopy_def
  VolumeSnapshot_v1_DeepCopy_def
  VolumeSnapshotList_v1_DeepCopy_def
  VolumeSnapshotClass_v1_DeepCopy_def
  VolumeSnapshotClassList_v1_DeepCopy_def
  VolumeSnapshotContentSource_v1_DeepCopy_def
  VolumeSnapshotContentSpec_v1_DeepCopy_def
  VolumeSnapshotContentStatus_v1_DeepCopy_def
  VolumeSnapshotContent_v1_DeepCopy_def
  VolumeSnapshotContentList_v1_DeepCopy_def
  VolumeGroupSnapshotSource_v1_DeepCopy_def
  VolumeGroupSnapshotSpec_v1_DeepCopy_def
  VolumeGroupSnapshotStatus_v1_DeepCopy_def
  VolumeGroupSnapshot_v1_DeepCopy_def
  VolumeGroupSnapshotList_v1_DeepCopy_def
  VolumeGroupSnapshotClass_v1_DeepCopy_def
  VolumeGroupSnapshotClassList_v1_DeepCopy_def
  GroupSnapshotHandles_v1_DeepCopy_def
  VolumeGroupSnapshotContentSource_v1_DeepCopy_def
  VolumeGroupSnapshotContentSpec_v1_DeepCopy_def
  VolumeSnapshotInfo_v1_DeepCopy_def
  VolumeGroupSnapshotContentStatus_v1_DeepCopy_def
  VolumeGroupSnapshotContent_v1_DeepCopy_def
  VolumeGroupSnapshotContentList_v1_DeepCopy_def
  VolumeSnapshotHandlePair_v1_DeepCopy_def
  VolumeGroupSnapshotSource_v1beta1_DeepCopy_def
  VolumeGroupSnapshotSpec_v1beta1_DeepCopy_def
  VolumeGroupSnapshotStatus_v1beta1_DeepCopy_def
  VolumeGroupSnapshot_v1beta1_DeepCopy_def
  VolumeGroupSnapshotList_v1beta1_DeepCopy_def
  VolumeGroupSnapshotClass_v1beta1_DeepCopy_def
  VolumeGroupSnapshotClassList_v1beta1_DeepCopy_def
  GroupSnapshotHandles_v1beta1_DeepCopy_def
  VolumeGroupSnapshotContentSource_v1beta1_DeepCopy_def
  VolumeGroupSnapshotContentSpec_v1beta1_DeepCopy_def
  VolumeSnapshotHandlePair_v1beta1_DeepCopy_def
  VolumeGroupSnapshotContentStatus_v1beta1_DeepCopy_def
  VolumeGroupSnapshotContent_v1beta1_DeepCopy_def
  VolumeGroupSnapshotContentList_v1beta1_DeepCopy_def
  VolumeGroupSnapshotSource_v1beta2_DeepCopy_def
  VolumeGroupSnapshotSpec_v1beta2_DeepCopy_def
  VolumeGroupSnapshotStatus_v1beta2_DeepCopy_def
  VolumeGroupSnapshot_v1beta2_DeepCopy_def
  VolumeGroupSnapshotList_v1beta2_DeepCopy_def
  VolumeGroupSnapshotClass_v1beta2_DeepCopy_def
  VolumeGroupSnapshotClassList_v1beta2_DeepCopy_def
  GroupSnapshotHandles_v1beta2_DeepCopy_def
  VolumeGroupSnapshotContentSource_v1beta2_DeepCopy_def
  VolumeGroupSnapshotContentSpec_v1beta2_DeepCopy_def
  VolumeSnapshotInfo_v1beta2_DeepCopy_def
  VolumeGroupSnapshotContentStatus_v1beta2_DeepCopy_def
  VolumeGroupSnapshotContent_v1beta2_DeepCopy_def
  VolumeGroupSnapshotContentList_v1beta2_DeepCopy_def
  VolumeSnapshotHandlePair_v1beta2_DeepCopy_def

lemmas DeepCopyObject_defs =
  VolumeSnapshot_v1_DeepCopyObject_def
  VolumeSnapshotList_v1_DeepCopyObject_def
  VolumeSnapshotClass_v1_DeepCopyObject_def
  VolumeSnapshotClassList_v1_DeepCopyObject_def
  VolumeSnapshotContent_v1_DeepCopyObject_def
  VolumeSnapshotContentList_v1_DeepCopyObject_def
  VolumeGroupSnapshot_v1_DeepCopyObject_def
  VolumeGroupSnapshotList_v1_DeepCopyObject_def
  VolumeGroupSnapshotClass_v1_DeepCopyObject_def
  VolumeGroupSnapshotClassList_v1_DeepCopyObject_def
  VolumeGroupSnapshotContent_v1_DeepCopyObject_def
  VolumeGroupSnapshotContentList_v1_DeepCopyObject_def
  VolumeGroupSnapshot_v1beta1_DeepCopyObject_def
  VolumeGroupSnapshotList_v1beta1_DeepCopyObject_def
  VolumeGroupSnapshotClass_v1beta1_DeepCopyObject_def
  VolumeGroupSnapshotClassList_v1beta1_DeepCopyObject_def
  VolumeGroupSnapshotContent_v1beta1_DeepCopyObject_def
  VolumeGroupSnapshotContentList_v1beta1_DeepCopyObject_def
  VolumeGroupSnapshot_v1beta2_DeepCopyObject_def
  VolumeGroupSnapshotList_v1beta2_DeepCopyObject_def
  VolumeGroupSnapshotClass_v1beta2_DeepCopyObject_def
  VolumeGroupSnapshotClassList_v1beta2_DeepCopyObject_def
  VolumeGroupSnapshotContent_v1beta2_DeepCopyObject_def
  VolumeGroupSnapshotContentList_v1beta2_DeepCopyObject_def

lemma all_structs: "libraryCopies lib ok \<Longrightarrow>
    list_all (\<lambda>(t, deepCopyInto, deepCopy). copies deepCopyInto (fits ok t) \<and> copies deepCopy (fits ok (TPtr t))) (structCopies lib)"
  by (simp add: structCopies_def DeepCopy_defs copy_rule)

lemma all_objects: "libraryCopies lib ok \<Longrightarrow>
    list_all (\<lambda>(t, typeName, deepCopyObject). copiesObject typeName deepCopyObject (fits ok (TPtr t))) (objectCopies lib)"
  by (simp add: objectCopies_def DeepCopyObject_defs DeepCopy_defs copies_object copy_rule)

text \<open>C27: For every struct type of the API in all its versions, DeepCopyInto and DeepCopy return an equal value that shares no
  memory with the original, provided the copies of library types do: the copy keeps its value whatever is written to the memory
  there was before, the original keeps its value whatever is written to the new memory. DeepCopyObject gives
  such a copy under the name of its type, and a nil interface for nil.\<close>

theorem deep_copies_are_independent:
  assumes "libraryCopies lib ok"
  shows "list_all (\<lambda>(t, deepCopyInto, deepCopy). independent deepCopyInto (fits ok t) \<and> independent deepCopy (fits ok (TPtr t)))
      (structCopies lib) \<and>
    list_all (\<lambda>(t, typeName, deepCopyObject). copiesObject typeName deepCopyObject (fits ok (TPtr t))) (objectCopies lib)"
  using all_structs[OF assms] all_objects[OF assms] by (auto simp: list_all_iff copies_independent)

text \<open>The spec of a snapshot with a class: after the copy, the name of the class is overwritten in the original's memory. Values of
  libraries are strings here.\<close>

definition demoMemory :: "string \<Rightarrow> memory" where
  "demoMemory className = [Variable (VString className)]"

definition demoSpec :: val where
  "demoSpec = VStruct
    [(''Source'', VStruct [(''PersistentVolumeClaimName'', VNil), (''VolumeSnapshotContentName'', VNil)]),
     (''VolumeSnapshotClassName'', VRef 0)]"

definition demoData :: data where
  "demoData = DStruct
    [(''Source'', DStruct [(''PersistentVolumeClaimName'', DNil), (''VolumeSnapshotContentName'', DNil)]),
     (''VolumeSnapshotClassName'', DPtr (DString ''gold''))]"

theorem deep_copies_are_independent_witness:
  "\<exists>copy more. VolumeSnapshotSpec_v1_DeepCopyInto (\<lambda>name. assign) demoSpec (demoMemory ''gold'') = Some (copy, demoMemory ''gold'' @ more) \<and>
    reads 0 (demoMemory ''silver'' @ more) copy demoData \<and> \<not> reads 0 (demoMemory ''silver'' @ more) demoSpec demoData"
proof -
  let ?ok = "\<lambda>name. flat"
  have lib: "libraryCopies (\<lambda>name. assign) ?ok" by (simp add: libraryCopies_def copies_assign)
  have "(VolumeSnapshotSpec_v1, VolumeSnapshotSpec_v1_DeepCopyInto (\<lambda>name. assign), VolumeSnapshotSpec_v1_DeepCopy (\<lambda>name. assign))
      \<in> set (structCopies (\<lambda>name. assign))" by (simp add: structCopies_def)
  then have "independent (VolumeSnapshotSpec_v1_DeepCopyInto (\<lambda>name. assign)) (fits ?ok VolumeSnapshotSpec_v1)"
    using deep_copies_are_independent[OF lib] by (fastforce simp: list_all_iff)
  moreover have "reads 0 (demoMemory ''gold'') demoSpec demoData"
    unfolding demoSpec_def demoData_def by (auto intro!: reads.intros simp: demoMemory_def)
  moreover have "fits ?ok VolumeSnapshotSpec_v1 demoData"
    by (simp add: VolumeSnapshotSpec_v1_def VolumeSnapshotSource_v1_def demoData_def)
  ultimately obtain copy more where c: "VolumeSnapshotSpec_v1_DeepCopyInto (\<lambda>name. assign) demoSpec (demoMemory ''gold'') =
      Some (copy, demoMemory ''gold'' @ more)"
    "\<And>old. length old = length (demoMemory ''gold'') \<Longrightarrow> reads 0 (old @ more) copy demoData"
    unfolding independent_def by blast
  have "reads 0 (demoMemory ''silver'' @ more) copy demoData" by (rule c(2)) (simp add: demoMemory_def)
  moreover have "\<not> reads 0 (demoMemory ''silver'' @ more) demoSpec demoData"
    by (auto simp: demoSpec_def demoData_def demoMemory_def)
  ultimately show ?thesis using c(1) by blast
qed

end
