(* ===== verification/ApiVersions.thy ===== *)
theory ApiVersions
  imports Construction Webhook
begin

text \<open>
  The versions of group contents: those that the definition of the resource serves and stores
  (\<open>client/config/crd\<close>), those that the webhook converts, and the one that the informers of both processes read.
\<close>

section \<open>The definition of the resource\<close>

record crdVersion =
  ver_Name :: string
  ver_Served :: bool
  ver_Storage :: bool

definition groupContentVersions :: "crdVersion list" where
  "groupContentVersions =
    [\<lparr>ver_Name = ''v1'', ver_Served = True, ver_Storage = False\<rparr>,
     \<lparr>ver_Name = ''v1beta1'', ver_Served = True, ver_Storage = False\<rparr>,
     \<lparr>ver_Name = ''v1beta2'', ver_Served = True, ver_Storage = True\<rparr>]"

definition apiVersionOf :: "crdVersion \<Rightarrow> string" where
  "apiVersionOf v = ''groupsnapshot.storage.k8s.io/'' @ ver_Name v"

definition servedVersions :: "string list" where
  "servedVersions = map apiVersionOf (filter ver_Served groupContentVersions)"

definition storedVersions :: "string list" where
  "storedVersions = map apiVersionOf (filter ver_Storage groupContentVersions)"

lemma versions [simp]:
  "servedVersions = [''groupsnapshot.storage.k8s.io/v1'', v1beta1Version, v1beta2Version]"
  "storedVersions = [v1beta2Version]"
  by code_simp+

section \<open>The versions that are read\<close>

text \<open>The group and version in the path of the requests of an informer: its list, then its watches.\<close>

definition versionOf :: "restRequest \<Rightarrow> string" where
  "versionOf r = last (butlast (r_pathPrefix r)) @ ''/'' @ last (r_pathPrefix r)"

definition versionsRead :: "'w sharedInformer \<Rightarrow> ListOptions \<Rightarrow> string list" where
  "versionsRead i options =
    (case si_Source i of
       CoreResource res \<Rightarrow> []
     | ApiServer lw \<Rightarrow> concat (map (\<lambda>q. case sent q of Inl err \<Rightarrow> [] | Inr r \<Rightarrow> [versionOf r])
         [ListWithContext lw options, WatchWithContext lw options]))"

fun isGroupContentType :: "objectType \<Rightarrow> bool" where
  "isGroupContentType (VolumeGroupSnapshotContentType v) = True"
| "isGroupContentType _ = False"

definition groupContentVersionsRead :: "'w factories \<Rightarrow> ListOptions \<Rightarrow> string list" where
  "groupContentVersionsRead fs options =
    concat (map (\<lambda>r. case map_of (fa_informers (fs (fst r))) (snd r) of None \<Rightarrow> [] | Some i \<Rightarrow> versionsRead i options)
      (filter (\<lambda>r. isGroupContentType (snd r)) (startedIn fs)))"

lemma readsCollection_version:
  assumes "readsCollection q base gvr ns options"
  shows "(case sent q of Inl err \<Rightarrow> [] | Inr r \<Rightarrow> [versionOf r]) = [fst gvr @ ''/'' @ fst (snd gvr)]"
  using assms by (cases "sent q") (simp_all add: readsCollection_def versionOf_def butlast_append)

lemma versionsRead_readsOnly:
  assumes "readsOnly (si_Source i) base (VolumeGroupSnapshotContentType v) ns tweak"
  shows "versionsRead i options = replicate 2 (''groupsnapshot.storage.k8s.io/'' @ versionName v)"
proof -
  obtain lw where lw: "si_Source i = ApiServer lw" using assms by (cases "si_Source i") (auto simp: readsOnly_def)
  let ?gvr = "(''groupsnapshot.storage.k8s.io'', versionName v, ''volumegroupsnapshotcontents'')"
  have "readsCollection (ListWithContext lw options) base ?gvr [] (tweaked tweak options)"
    "readsCollection (WatchWithContext lw options) base ?gvr [] ((tweaked tweak options)\<lparr>lo_Watch := True\<rparr>)"
    using assms lw by (auto simp: readsOnly_def)
  from this[THEN readsCollection_version] show ?thesis using lw by (simp add: versionsRead_def numeral_2_eq_2)
qed

lemma versionsRead_common:
  assumes "commonProcess base resync distributed prevent True = Some (ctrl, fs)"
  shows "groupContentVersionsRead fs options = replicate 2 ''groupsnapshot.storage.k8s.io/v1''"
proof -
  obtain ctrl' and fs' :: "'a factories" where c: "commonProcess base resync distributed prevent True = Some (ctrl', fs')"
    "fa_informers (fs' SnapshotFactory) = commonInformers base resync True"
    "fa_running (fs' SnapshotFactory) = map fst (commonInformers base resync True :: (objectType \<times> 'a sharedInformer) list)"
    "fa_running (fs' ContentFactory) = []" "fa_informers (fs' CoreFactory) = commonCoreInformers resync distributed"
    "fa_running (fs' CoreFactory) = map fst (commonCoreInformers resync distributed :: (objectType \<times> 'a sharedInformer) list)"
    using commonProcess_state[of base resync distributed prevent True, where 'w = 'a] by blast
  have fs: "fs' = fs" using assms c(1) by simp
  obtain i where i: "(VolumeGroupSnapshotContentType V1, i) \<in> set (commonInformers base resync True :: (objectType \<times> 'a sharedInformer) list)"
    by (simp add: commonInformers_def Let_def)
  then have "map_of (fa_informers (fs SnapshotFactory)) (VolumeGroupSnapshotContentType V1) = Some i"
    unfolding c(2)[unfolded fs] by (intro map_of_is_SomeI distinct_informers)
  moreover have "map fst (commonInformers base resync True :: (objectType \<times> 'a sharedInformer) list) =
      [VolumeSnapshotType, VolumeSnapshotContentType, VolumeSnapshotClassType, VolumeGroupSnapshotType V1,
       VolumeGroupSnapshotContentType V1, VolumeGroupSnapshotClassType V1]" by (simp add: commonInformers_def Let_def)
  moreover have "list_all (\<lambda>t. \<not> isGroupContentType t)
      (map fst (commonCoreInformers resync distributed :: (objectType \<times> 'a sharedInformer) list))"
    by (simp add: commonCoreInformers_def coreInformerOf_def)
  ultimately have "filter (\<lambda>r. isGroupContentType (snd r)) (startedIn fs) = [(SnapshotFactory, VolumeGroupSnapshotContentType V1)]"
    "map_of (fa_informers (fs SnapshotFactory)) (VolumeGroupSnapshotContentType V1) = Some i"
    unfolding startedIn_def c(3,4,6)[unfolded fs] by (simp_all add: c(3,4,6)[unfolded fs] filter_empty_conv list_all_iff)
  then show ?thesis
    using versionsRead_readsOnly[of i base V1 "[]" None options] commonInformers_reads[OF i]
    by (simp add: groupContentVersionsRead_def)
qed

lemma versionsRead_sidecar:
  assumes "sidecarProcess base resync selector driver extra True = (ctrl, fs)"
  shows "groupContentVersionsRead fs options = replicate 2 ''groupsnapshot.storage.k8s.io/v1''"
proof -
  obtain ctrl' and fs' :: "'a factories" where c: "sidecarProcess base resync selector driver extra True = (ctrl', fs')"
    "\<And>f. fa_informers (fs' f) = sidecarInformers base resync selector True f"
    "\<And>f. fa_running (fs' f) = map fst (sidecarInformers base resync selector True f :: (objectType \<times> 'a sharedInformer) list)"
    by (rule sidecarProcess_state[of base resync selector driver extra True, where 'w = 'a]) (rule that)
  have fs: "fs' = fs" using assms c(1) by simp
  let ?f = "if selector = None then SnapshotFactory else ContentFactory"
  obtain i where i: "(VolumeGroupSnapshotContentType V1, i) \<in>
      set (sidecarInformers base resync selector True ?f :: (objectType \<times> 'a sharedInformer) list)"
    by (cases "selector = None") (auto simp: sidecarInformers_def sidecarGroupInformers_def Let_def)
  then have "map_of (fa_informers (fs ?f)) (VolumeGroupSnapshotContentType V1) = Some i"
    unfolding c(2)[unfolded fs] by (intro map_of_is_SomeI distinct_sidecarInformers)
  moreover have "map fst (sidecarInformers base resync selector True f :: (objectType \<times> 'a sharedInformer) list) =
      (case f of
         SnapshotFactory \<Rightarrow> if selector = None
           then [VolumeSnapshotContentType, VolumeSnapshotClassType, VolumeGroupSnapshotContentType V1, VolumeGroupSnapshotClassType V1]
           else [VolumeSnapshotClassType]
       | ContentFactory \<Rightarrow> if selector = None then []
           else [VolumeSnapshotContentType, VolumeGroupSnapshotContentType V1, VolumeGroupSnapshotClassType V1]
       | CoreFactory \<Rightarrow> [])" for f
    by (cases f) (simp_all add: sidecarInformers_def sidecarContentInformer_def sidecarGroupInformers_def Let_def)
  then have "filter (\<lambda>r. isGroupContentType (snd r)) (startedIn fs) = [(?f, VolumeGroupSnapshotContentType V1)]"
    using c(3)[unfolded fs] by (cases "selector = None") (simp_all add: startedIn_def)
  ultimately show ?thesis
    using versionsRead_readsOnly[of i base V1 "[]" "nodeOptions selector ?f" options] sidecarInformers_reads[OF i]
    by (simp add: groupContentVersionsRead_def)
qed

section \<open>What the webhook converts\<close>

text \<open>Between two versions there is a conversion of some group content.\<close>

definition convertible :: "(string \<Rightarrow> string) \<Rightarrow> string \<Rightarrow> string \<Rightarrow> bool" where
  "convertible syntaxText v w \<longleftrightarrow>
    (\<exists>obj out. GetAPIVersion obj = v \<and> GetKind obj = ''VolumeGroupSnapshotContent'' \<and>
      convertGroupSnapshotCRD syntaxText obj w = Some (Inr out))"

definition bareContent :: "string \<Rightarrow> object" where
  "bareContent v = fmap_of_list [(''apiVersion'', JString v), (''kind'', JString ''VolumeGroupSnapshotContent'')]"

lemma bareContent_simps [simp]:
  "GetAPIVersion (bareContent v) = v" "GetKind (bareContent v) = ''VolumeGroupSnapshotContent''"
  by (simp_all add: bareContent_def GetAPIVersion_def GetKind_def getNestedString_def)

lemma versions_distinct: "v1beta1Version \<noteq> v1beta2Version"
  "v1beta1Version \<noteq> ''groupsnapshot.storage.k8s.io/v1''" "v1beta2Version \<noteq> ''groupsnapshot.storage.k8s.io/v1''"
  by code_simp+

lemma bare_conversion:
  "convertGroupSnapshotCRD syntaxText (bareContent v1beta1Version) v1beta2Version = Some (Inr (bareContent v1beta1Version))"
  "convertGroupSnapshotCRD syntaxText (bareContent v1beta2Version) v1beta1Version = Some (Inr (bareContent v1beta2Version))"
proof -
  have "fmlookup (bareContent v) ''metadata'' = None" "fmlookup (bareContent v) ''status'' = None" for v
    by (simp_all add: bareContent_def)
  then show "convertGroupSnapshotCRD syntaxText (bareContent v1beta1Version) v1beta2Version = Some (Inr (bareContent v1beta1Version))"
    "convertGroupSnapshotCRD syntaxText (bareContent v1beta2Version) v1beta1Version = Some (Inr (bareContent v1beta2Version))"
    using versions_distinct
    by (simp_all add: convertGroupSnapshotCRD_def Let_def convertVolumeGroupSnapshotContentFromV1beta1ToV1beta2_def
        convertVolumeGroupSnapshotContentFromV1beta2ToV1beta1_def GetAnnotations_def NestedSlice_def path_defs)
qed

lemma convertible_iff:
  "convertible syntaxText v w \<longleftrightarrow>
    (v, w) \<in> {(v1beta1Version, v1beta2Version), (v1beta2Version, v1beta1Version)}"
proof
  show "(v, w) \<in> {(v1beta1Version, v1beta2Version), (v1beta2Version, v1beta1Version)}" if "convertible syntaxText v w"
    using that by (auto simp: convertible_def convertGroupSnapshotCRD_def Let_def split: if_splits)
  show "convertible syntaxText v w" if "(v, w) \<in> {(v1beta1Version, v1beta2Version), (v1beta2Version, v1beta1Version)}"
    using that bare_conversion[of syntaxText] bareContent_simps unfolding convertible_def by blast
qed

lemma refused:
  assumes "UnmarshalJSON syntaxText raw = Inr obj" "GetAPIVersion obj = v1beta2Version" "raw \<in> set raws"
  shows "case doConversionV1 syntaxText (convertGroupSnapshotCRD syntaxText)
      \<lparr>req_UID = uid, req_DesiredAPIVersion = ''groupsnapshot.storage.k8s.io/v1'', req_Objects = raws\<rparr> of
      None \<Rightarrow> False | Some resp \<Rightarrow> resp_Failure resp \<noteq> None \<and> resp_ConvertedObjects resp = []"
proof -
  let ?w = "''groupsnapshot.storage.k8s.io/v1''" and ?c = "convertGroupSnapshotCRD syntaxText"
  have total: "?c o1 ?w \<noteq> None" for o1
    using versions_distinct by (simp add: convertGroupSnapshotCRD_def Let_def)
  have "\<exists>message. ?c obj ?w = Some (Inl message)"
    using assms(2) versions_distinct by (auto simp: convertGroupSnapshotCRD_def Let_def)
  then have bad: "\<not> convertsTo syntaxText ?c ?w raw out" for out using assms(1) by (auto simp: convertsTo_iff)
  have "convertObjects syntaxText ?c ?w [] raws \<noteq> Some (Inr outs)" for outs
    using bad assms(3) by (auto simp: convertObjects_ok list_all2_conv_all_nth in_set_conv_nth)
  moreover have "convertObjects syntaxText ?c ?w [] raws \<noteq> None" using total by (auto simp: convertObjects_panic)
  ultimately obtain message where "convertObjects syntaxText ?c ?w [] raws = Some (Inl message)"
    by (metis option.exhaust sum.exhaust)
  then show ?thesis by (simp add: doConversionV1_def)
qed

text \<open>A stored object, as the API server sends it.\<close>

definition storedContentText :: string where
  "storedContentText = json_Marshal (JObject (bareContent v1beta2Version))"

lemma storedContent_unmarshals: "UnmarshalJSON syntaxText storedContentText = Inr (bareContent v1beta2Version)"
proof -
  let ?m = "bareContent v1beta2Version"
  have valid: "validUtf8 ''apiVersion''" "validUtf8 ''kind''" "validUtf8 v1beta2Version" "validUtf8 ''VolumeGroupSnapshotContent''"
    "length (splitOn (CHR ''/'') v1beta2Version) = 2"
    by code_simp+
  have "storable intNumber (Suc 9999) (JObject ?m)"
    using valid unfolding bareContent_def by (intro storable.intros) (auto split: if_splits intro: storable.intros)
  moreover have "renumber intNumber (JObject ?m) = JObject ?m" by (auto simp: bareContent_def intro!: fmap_ext)
  ultimately have "utiljson_Unmarshal storedContentText = Some (JObject ?m)"
    using unmarshalWith_marshal[of intNumber "JObject ?m"] by (simp add: utiljson_Unmarshal_def storedContentText_def)
  then show ?thesis using valid(5) by (simp add: UnmarshalJSON_def)
qed

text \<open>C21: The definition of the resource serves group contents in three versions and stores them in the last. Of the conversions
  between different versions that the API server can then ask for, the webhook has the two between v1beta1 and v1beta2, and none
  to or from v1. But both processes list and watch group contents in v1: with the webhook in place every such read
  that meets a stored object is a conversion request that fails for all its objects.\<close>

theorem group_contents_unreadable_in_v1:
  assumes "UnmarshalJSON syntaxText raw = Inr obj" "GetAPIVersion obj \<in> set storedVersions" "raw \<in> set raws"
  shows "{(v, w). v \<in> set servedVersions \<and> w \<in> set servedVersions \<and> convertible syntaxText v w} =
      {(v1beta1Version, v1beta2Version), (v1beta2Version, v1beta1Version)} \<and>
    (\<exists>v1 ctrl (fs :: 'w factories) ctrl' (fs' :: 'w factories). v1 \<in> set servedVersions \<and>
      commonProcess base resync distributed prevent True = Some (ctrl, fs) \<and> groupContentVersionsRead fs options = [v1, v1] \<and>
      sidecarProcess base resync selector driver extra True = (ctrl', fs') \<and> groupContentVersionsRead fs' options = [v1, v1] \<and>
      (case doConversionV1 syntaxText (convertGroupSnapshotCRD syntaxText)
          \<lparr>req_UID = uid, req_DesiredAPIVersion = v1, req_Objects = raws\<rparr> of
         None \<Rightarrow> False
       | Some resp \<Rightarrow> resp_Failure resp \<noteq> None \<and> resp_ConvertedObjects resp = []))"
proof -
  let ?v1 = "''groupsnapshot.storage.k8s.io/v1''"
  obtain ctrl and fs :: "'w factories" where c: "commonProcess base resync distributed prevent True = Some (ctrl, fs)"
    using commonProcess_state[of base resync distributed prevent True, where 'w = 'w] by blast
  obtain ctrl' and fs' :: "'w factories" where s: "sidecarProcess base resync selector driver extra True = (ctrl', fs')" by fastforce
  have "groupContentVersionsRead fs options = [?v1, ?v1]" "groupContentVersionsRead fs' options = [?v1, ?v1]"
    using versionsRead_common[OF c] versionsRead_sidecar[OF s] by (simp_all add: numeral_2_eq_2)
  moreover have "case doConversionV1 syntaxText (convertGroupSnapshotCRD syntaxText)
      \<lparr>req_UID = uid, req_DesiredAPIVersion = ?v1, req_Objects = raws\<rparr> of
      None \<Rightarrow> False | Some resp \<Rightarrow> resp_Failure resp \<noteq> None \<and> resp_ConvertedObjects resp = []"
    by (rule refused[OF assms(1) _ assms(3)]) (use assms(2) in simp)
  moreover have "{(v, w). v \<in> set servedVersions \<and> w \<in> set servedVersions \<and> convertible syntaxText v w} =
      {(v1beta1Version, v1beta2Version), (v1beta2Version, v1beta1Version)}"
    by (auto simp: convertible_iff)
  moreover have "?v1 \<in> set servedVersions" by simp
  ultimately show ?thesis using c s
    by (intro conjI exI[of _ ?v1] exI[of _ ctrl] exI[of _ fs] exI[of _ ctrl'] exI[of _ fs']) assumption+
qed

text \<open>The review of a list that holds one stored object.\<close>

theorem group_contents_unreadable_in_v1_witness:
  "\<exists>v1. v1 \<in> {''groupsnapshot.storage.k8s.io/v1'', v1beta1Version, v1beta2Version} \<and>
    (case doConversionV1 id (convertGroupSnapshotCRD id)
        \<lparr>req_UID = ''u'', req_DesiredAPIVersion = v1, req_Objects = [storedContentText]\<rparr> of
       None \<Rightarrow> False
     | Some resp \<Rightarrow> resp_Failure resp \<noteq> None \<and> resp_ConvertedObjects resp = [])"
proof -
  have "GetAPIVersion (bareContent v1beta2Version) \<in> set storedVersions" "storedContentText \<in> set [storedContentText]" by simp_all
  from group_contents_unreadable_in_v1[OF storedContent_unmarshals[of id] this, where uid = "''u''" and base = "[]" and resync = 900
      and distributed = False and prevent = False and options = "undefined" and selector = None and driver = "''d''" and extra = False]
  obtain v1 where "v1 \<in> set servedVersions" "case doConversionV1 id (convertGroupSnapshotCRD id)
        \<lparr>req_UID = ''u'', req_DesiredAPIVersion = v1, req_Objects = [storedContentText]\<rparr> of
       None \<Rightarrow> False | Some resp \<Rightarrow> resp_Failure resp \<noteq> None \<and> resp_ConvertedObjects resp = []"
    by (elim conjE exE) (rule that; assumption)
  then show ?thesis by auto
qed

end
