(* ===== verification/Clientset.thy ===== *)
theory Clientset
  imports Complex_Main Clients
begin

text \<open>
  How the clients of all groups and versions come from one configuration (\<open>client/clientset/versioned/clientset.go\<close> and the
  \<open>_client.go\<close> of each version): their defaults, their paths, the shared transport and the limits on their requests. Of
  client-go the theory has \<open>RESTClientForConfigAndClient\<close>; the transport, the URL of the server and the discovery client are
  parameters.
\<close>

section \<open>Configurations\<close>

text \<open>A limiter is an object of its own, so it has an identity besides its rates.\<close>

datatype rateLimiter = TokenBucket (limiterId: nat) (limiterQPS: rat) (limiterBurst: int)

text \<open>\<open>NewTokenBucketRateLimiter\<close>; the number counts the limiters there are.\<close>

definition NewTokenBucketRateLimiter :: "rat \<Rightarrow> int \<Rightarrow> nat \<Rightarrow> rateLimiter \<times> nat" where
  "NewTokenBucketRateLimiter qps burst n = (TokenBucket n qps burst, Suc n)"

text \<open>\<open>rest.Config\<close>: the host, the credentials and the rest of what only the transport reads are one value.\<close>

record 'c restConfig =
  cfg_Connection :: 'c
  cfg_UserAgent :: string
  cfg_QPS :: rat
  cfg_Burst :: int
  cfg_RateLimiter :: "rateLimiter option"
  cfg_APIPath :: string
  cfg_GroupVersion :: "(string \<times> string) option"
  cfg_NegotiatedSerializer :: bool

text \<open>A REST client with its limiter and its transport.\<close>

record 'h apiClient =
  ac_client :: restClient
  ac_APIPath :: string
  ac_limiter :: "rateLimiter option"
  ac_http :: 'h

record ('c, 'h, 'd) restLibrary =
  lib_DefaultUserAgent :: string
  lib_HTTPClientFor :: "'c restConfig \<Rightarrow> goerr + 'h"
  lib_DefaultServerUrlFor :: "'c restConfig \<Rightarrow> goerr + string list"
  lib_DiscoveryFor :: "'c restConfig \<Rightarrow> 'h \<Rightarrow> goerr + 'd"
  lib_NewDiscoveryClient :: "'h apiClient \<Rightarrow> 'd"

text \<open>Without a limiter of the configuration a client makes its own, unless the rate is negative.\<close>

definition limiterFor :: "'c restConfig \<Rightarrow> nat \<Rightarrow> rateLimiter option \<times> nat" where
  "limiterFor config n =
    (case cfg_RateLimiter config of
       Some limiter \<Rightarrow> (Some limiter, n)
     | None \<Rightarrow>
        (let qps = (if cfg_QPS config = 0 then 5 else cfg_QPS config);
             burst = (if cfg_Burst config = 0 then 10 else cfg_Burst config)
         in if qps > 0 then map_prod Some id (NewTokenBucketRateLimiter qps burst n) else (None, n)))"

definition RESTClientForConfigAndClient ::
  "('c, 'h, 'd) restLibrary \<Rightarrow> 'c restConfig \<Rightarrow> 'h \<Rightarrow> nat \<Rightarrow> (goerr + 'h apiClient) \<times> nat" where
  "RESTClientForConfigAndClient lib config h n =
    (case cfg_GroupVersion config of
       None \<Rightarrow> (Inl (Errorf ''GroupVersion is required when initializing a RESTClient''), n)
     | Some gv \<Rightarrow>
        if \<not> cfg_NegotiatedSerializer config
        then (Inl (Errorf ''NegotiatedSerializer is required when initializing a RESTClient''), n)
        else case lib_DefaultServerUrlFor lib config of
          Inl err \<Rightarrow> (Inl err, n)
        | Inr base \<Rightarrow>
           (let (limiter, n) = limiterFor config n
            in (Inr \<lparr>ac_client = \<lparr>rc_Base = base, rc_Group = fst gv, rc_Version = snd gv\<rparr>, ac_APIPath = cfg_APIPath config,
                  ac_limiter = limiter, ac_http = h\<rparr>, n)))"

text \<open>What the \<open>setConfigDefaults\<close> of all versions have in common.\<close>

definition withDefaults :: "('c, 'h, 'd) restLibrary \<Rightarrow> string \<times> string \<Rightarrow> 'c restConfig \<Rightarrow> 'c restConfig" where
  "withDefaults lib gv config = config\<lparr>cfg_GroupVersion := Some gv, cfg_APIPath := ''/apis'', cfg_NegotiatedSerializer := True,
     cfg_UserAgent := (if cfg_UserAgent config = [] then lib_DefaultUserAgent lib else cfg_UserAgent config)\<rparr>"

text \<open>The constructors ending in \<open>OrDie\<close> panic on an error.\<close>

definition orDie :: "(goerr + 'a) \<times> nat \<Rightarrow> ('a \<times> nat) option" where
  "orDie r = (case r of (Inl err, n) \<Rightarrow> None | (Inr client, n) \<Rightarrow> Some (client, n))"

section \<open>The client of version v1 of the snapshot group\<close>

definition SchemeGroupVersion_snapshot_v1 :: "string \<times> string" where
  "SchemeGroupVersion_snapshot_v1 = (''snapshot.storage.k8s.io'', ''v1'')"

definition setConfigDefaults_snapshot_v1 :: "('c, 'h, 'd) restLibrary \<Rightarrow> 'c restConfig \<Rightarrow> 'c restConfig" where
  "setConfigDefaults_snapshot_v1 lib config = withDefaults lib SchemeGroupVersion_snapshot_v1 config"

definition NewForConfigAndClient_snapshot_v1 ::
  "('c, 'h, 'd) restLibrary \<Rightarrow> 'c restConfig \<Rightarrow> 'h \<Rightarrow> nat \<Rightarrow> (goerr + 'h apiClient) \<times> nat" where
  "NewForConfigAndClient_snapshot_v1 lib c h n = RESTClientForConfigAndClient lib (setConfigDefaults_snapshot_v1 lib c) h n"

definition NewForConfig_snapshot_v1 :: "('c, 'h, 'd) restLibrary \<Rightarrow> 'c restConfig \<Rightarrow> nat \<Rightarrow> (goerr + 'h apiClient) \<times> nat" where
  "NewForConfig_snapshot_v1 lib c n =
    (let config = setConfigDefaults_snapshot_v1 lib c in
     case lib_HTTPClientFor lib config of
       Inl err \<Rightarrow> (Inl err, n)
     | Inr h \<Rightarrow> NewForConfigAndClient_snapshot_v1 lib config h n)"

definition NewForConfigOrDie_snapshot_v1 :: "('c, 'h, 'd) restLibrary \<Rightarrow> 'c restConfig \<Rightarrow> nat \<Rightarrow> ('h apiClient \<times> nat) option" where
  "NewForConfigOrDie_snapshot_v1 lib c n = orDie (NewForConfig_snapshot_v1 lib c n)"

definition New_snapshot_v1 :: "'h apiClient \<Rightarrow> 'h apiClient" where
  "New_snapshot_v1 c = c"

definition RESTClient_snapshot_v1 :: "'h apiClient option \<Rightarrow> 'h apiClient option" where
  "RESTClient_snapshot_v1 c = c"

definition VolumeSnapshots_snapshot_v1 :: "'h apiClient \<Rightarrow> string \<Rightarrow> typedClient" where
  "VolumeSnapshots_snapshot_v1 c namespace = newVolumeSnapshots (ac_client c) namespace"

definition VolumeSnapshotClasses_snapshot_v1 :: "'h apiClient \<Rightarrow> typedClient" where
  "VolumeSnapshotClasses_snapshot_v1 c = newVolumeSnapshotClasses (ac_client c)"

definition VolumeSnapshotContents_snapshot_v1 :: "'h apiClient \<Rightarrow> typedClient" where
  "VolumeSnapshotContents_snapshot_v1 c = newVolumeSnapshotContents (ac_client c)"

section \<open>The client of version v1 of the group snapshot group\<close>

definition SchemeGroupVersion_groupsnapshot_v1 :: "string \<times> string" where
  "SchemeGroupVersion_groupsnapshot_v1 = (''groupsnapshot.storage.k8s.io'', ''v1'')"

definition setConfigDefaults_groupsnapshot_v1 :: "('c, 'h, 'd) restLibrary \<Rightarrow> 'c restConfig \<Rightarrow> 'c restConfig" where
  "setConfigDefaults_groupsnapshot_v1 lib config = withDefaults lib SchemeGroupVersion_groupsnapshot_v1 config"

definition NewForConfigAndClient_groupsnapshot_v1 ::
  "('c, 'h, 'd) restLibrary \<Rightarrow> 'c restConfig \<Rightarrow> 'h \<Rightarrow> nat \<Rightarrow> (goerr + 'h apiClient) \<times> nat" where
  "NewForConfigAndClient_groupsnapshot_v1 lib c h n = RESTClientForConfigAndClient lib (setConfigDefaults_groupsnapshot_v1 lib c) h n"

definition NewForConfig_groupsnapshot_v1 :: "('c, 'h, 'd) restLibrary \<Rightarrow> 'c restConfig \<Rightarrow> nat \<Rightarrow> (goerr + 'h apiClient) \<times> nat" where
  "NewForConfig_groupsnapshot_v1 lib c n =
    (let config = setConfigDefaults_groupsnapshot_v1 lib c in
     case lib_HTTPClientFor lib config of
       Inl err \<Rightarrow> (Inl err, n)
     | Inr h \<Rightarrow> NewForConfigAndClient_groupsnapshot_v1 lib config h n)"

definition NewForConfigOrDie_groupsnapshot_v1 :: "('c, 'h, 'd) restLibrary \<Rightarrow> 'c restConfig \<Rightarrow> nat \<Rightarrow> ('h apiClient \<times> nat) option" where
  "NewForConfigOrDie_groupsnapshot_v1 lib c n = orDie (NewForConfig_groupsnapshot_v1 lib c n)"

definition New_groupsnapshot_v1 :: "'h apiClient \<Rightarrow> 'h apiClient" where
  "New_groupsnapshot_v1 c = c"

definition RESTClient_groupsnapshot_v1 :: "'h apiClient option \<Rightarrow> 'h apiClient option" where
  "RESTClient_groupsnapshot_v1 c = c"

definition VolumeGroupSnapshots_groupsnapshot_v1 :: "'h apiClient \<Rightarrow> string \<Rightarrow> gentypeClient" where
  "VolumeGroupSnapshots_groupsnapshot_v1 c namespace = newVolumeGroupSnapshots_v1 (ac_client c) namespace"

definition VolumeGroupSnapshotClasses_groupsnapshot_v1 :: "'h apiClient \<Rightarrow> gentypeClient" where
  "VolumeGroupSnapshotClasses_groupsnapshot_v1 c = newVolumeGroupSnapshotClasses_v1 (ac_client c)"

definition VolumeGroupSnapshotContents_groupsnapshot_v1 :: "'h apiClient \<Rightarrow> gentypeClient" where
  "VolumeGroupSnapshotContents_groupsnapshot_v1 c = newVolumeGroupSnapshotContents_v1 (ac_client c)"

section \<open>The client of version v1beta1 of the group snapshot group\<close>

definition SchemeGroupVersion_groupsnapshot_v1beta1 :: "string \<times> string" where
  "SchemeGroupVersion_groupsnapshot_v1beta1 = (''groupsnapshot.storage.k8s.io'', ''v1beta1'')"

definition setConfigDefaults_groupsnapshot_v1beta1 :: "('c, 'h, 'd) restLibrary \<Rightarrow> 'c restConfig \<Rightarrow> 'c restConfig" where
  "setConfigDefaults_groupsnapshot_v1beta1 lib config = withDefaults lib SchemeGroupVersion_groupsnapshot_v1beta1 config"

definition NewForConfigAndClient_groupsnapshot_v1beta1 ::
  "('c, 'h, 'd) restLibrary \<Rightarrow> 'c restConfig \<Rightarrow> 'h \<Rightarrow> nat \<Rightarrow> (goerr + 'h apiClient) \<times> nat" where
  "NewForConfigAndClient_groupsnapshot_v1beta1 lib c h n = RESTClientForConfigAndClient lib (setConfigDefaults_groupsnapshot_v1beta1 lib c) h n"

definition NewForConfig_groupsnapshot_v1beta1 :: "('c, 'h, 'd) restLibrary \<Rightarrow> 'c restConfig \<Rightarrow> nat \<Rightarrow> (goerr + 'h apiClient) \<times> nat" where
  "NewForConfig_groupsnapshot_v1beta1 lib c n =
    (let config = setConfigDefaults_groupsnapshot_v1beta1 lib c in
     case lib_HTTPClientFor lib config of
       Inl err \<Rightarrow> (Inl err, n)
     | Inr h \<Rightarrow> NewForConfigAndClient_groupsnapshot_v1beta1 lib config h n)"

definition NewForConfigOrDie_groupsnapshot_v1beta1 :: "('c, 'h, 'd) restLibrary \<Rightarrow> 'c restConfig \<Rightarrow> nat \<Rightarrow> ('h apiClient \<times> nat) option" where
  "NewForConfigOrDie_groupsnapshot_v1beta1 lib c n = orDie (NewForConfig_groupsnapshot_v1beta1 lib c n)"

definition New_groupsnapshot_v1beta1 :: "'h apiClient \<Rightarrow> 'h apiClient" where
  "New_groupsnapshot_v1beta1 c = c"

definition RESTClient_groupsnapshot_v1beta1 :: "'h apiClient option \<Rightarrow> 'h apiClient option" where
  "RESTClient_groupsnapshot_v1beta1 c = c"

definition VolumeGroupSnapshots_groupsnapshot_v1beta1 :: "'h apiClient \<Rightarrow> string \<Rightarrow> gentypeClient" where
  "VolumeGroupSnapshots_groupsnapshot_v1beta1 c namespace = newVolumeGroupSnapshots_v1beta1 (ac_client c) namespace"

definition VolumeGroupSnapshotClasses_groupsnapshot_v1beta1 :: "'h apiClient \<Rightarrow> gentypeClient" where
  "VolumeGroupSnapshotClasses_groupsnapshot_v1beta1 c = newVolumeGroupSnapshotClasses_v1beta1 (ac_client c)"

definition VolumeGroupSnapshotContents_groupsnapshot_v1beta1 :: "'h apiClient \<Rightarrow> gentypeClient" where
  "VolumeGroupSnapshotContents_groupsnapshot_v1beta1 c = newVolumeGroupSnapshotContents_v1beta1 (ac_client c)"

section \<open>The client of version v1beta2 of the group snapshot group\<close>

definition SchemeGroupVersion_groupsnapshot_v1beta2 :: "string \<times> string" where
  "SchemeGroupVersion_groupsnapshot_v1beta2 = (''groupsnapshot.storage.k8s.io'', ''v1beta2'')"

definition setConfigDefaults_groupsnapshot_v1beta2 :: "('c, 'h, 'd) restLibrary \<Rightarrow> 'c restConfig \<Rightarrow> 'c restConfig" where
  "setConfigDefaults_groupsnapshot_v1beta2 lib config = withDefaults lib SchemeGroupVersion_groupsnapshot_v1beta2 config"

definition NewForConfigAndClient_groupsnapshot_v1beta2 ::
  "('c, 'h, 'd) restLibrary \<Rightarrow> 'c restConfig \<Rightarrow> 'h \<Rightarrow> nat \<Rightarrow> (goerr + 'h apiClient) \<times> nat" where
  "NewForConfigAndClient_groupsnapshot_v1beta2 lib c h n = RESTClientForConfigAndClient lib (setConfigDefaults_groupsnapshot_v1beta2 lib c) h n"

definition NewForConfig_groupsnapshot_v1beta2 :: "('c, 'h, 'd) restLibrary \<Rightarrow> 'c restConfig \<Rightarrow> nat \<Rightarrow> (goerr + 'h apiClient) \<times> nat" where
  "NewForConfig_groupsnapshot_v1beta2 lib c n =
    (let config = setConfigDefaults_groupsnapshot_v1beta2 lib c in
     case lib_HTTPClientFor lib config of
       Inl err \<Rightarrow> (Inl err, n)
     | Inr h \<Rightarrow> NewForConfigAndClient_groupsnapshot_v1beta2 lib config h n)"

definition NewForConfigOrDie_groupsnapshot_v1beta2 :: "('c, 'h, 'd) restLibrary \<Rightarrow> 'c restConfig \<Rightarrow> nat \<Rightarrow> ('h apiClient \<times> nat) option" where
  "NewForConfigOrDie_groupsnapshot_v1beta2 lib c n = orDie (NewForConfig_groupsnapshot_v1beta2 lib c n)"

definition New_groupsnapshot_v1beta2 :: "'h apiClient \<Rightarrow> 'h apiClient" where
  "New_groupsnapshot_v1beta2 c = c"

definition RESTClient_groupsnapshot_v1beta2 :: "'h apiClient option \<Rightarrow> 'h apiClient option" where
  "RESTClient_groupsnapshot_v1beta2 c = c"

definition VolumeGroupSnapshots_groupsnapshot_v1beta2 :: "'h apiClient \<Rightarrow> string \<Rightarrow> gentypeClient" where
  "VolumeGroupSnapshots_groupsnapshot_v1beta2 c namespace = newVolumeGroupSnapshots_v1beta2 (ac_client c) namespace"

definition VolumeGroupSnapshotClasses_groupsnapshot_v1beta2 :: "'h apiClient \<Rightarrow> gentypeClient" where
  "VolumeGroupSnapshotClasses_groupsnapshot_v1beta2 c = newVolumeGroupSnapshotClasses_v1beta2 (ac_client c)"

definition VolumeGroupSnapshotContents_groupsnapshot_v1beta2 :: "'h apiClient \<Rightarrow> gentypeClient" where
  "VolumeGroupSnapshotContents_groupsnapshot_v1beta2 c = newVolumeGroupSnapshotContents_v1beta2 (ac_client c)"

section \<open>The set of clients\<close>

record ('h, 'd) clientset =
  cs_DiscoveryClient :: 'd
  cs_groupsnapshotV1 :: "'h apiClient"
  cs_groupsnapshotV1beta1 :: "'h apiClient"
  cs_groupsnapshotV1beta2 :: "'h apiClient"
  cs_snapshotV1 :: "'h apiClient"

definition GroupsnapshotV1 :: "('h, 'd) clientset \<Rightarrow> 'h apiClient" where
  "GroupsnapshotV1 c = cs_groupsnapshotV1 c"

definition GroupsnapshotV1beta1 :: "('h, 'd) clientset \<Rightarrow> 'h apiClient" where
  "GroupsnapshotV1beta1 c = cs_groupsnapshotV1beta1 c"

definition GroupsnapshotV1beta2 :: "('h, 'd) clientset \<Rightarrow> 'h apiClient" where
  "GroupsnapshotV1beta2 c = cs_groupsnapshotV1beta2 c"

definition SnapshotV1 :: "('h, 'd) clientset \<Rightarrow> 'h apiClient" where
  "SnapshotV1 c = cs_snapshotV1 c"

text \<open>A nil set has no discovery client.\<close>

definition clientset_Discovery :: "('h, 'd) clientset option \<Rightarrow> 'd option" where
  "clientset_Discovery c = map_option cs_DiscoveryClient c"

text \<open>A step that may fail and may make a limiter; the first error ends the construction.\<close>

definition andThen :: "(goerr + 'a) \<times> nat \<Rightarrow> ('a \<Rightarrow> nat \<Rightarrow> (goerr + 'b) \<times> nat) \<Rightarrow> (goerr + 'b) \<times> nat" where
  "andThen r f = (case r of (Inl err, n) \<Rightarrow> (Inl err, n) | (Inr x, n) \<Rightarrow> f x n)"

definition burstError :: goerr where
  "burstError = Errorf ''burst is required to be greater than 0 when RateLimiter is not set and QPS is set to greater than 0''"

definition clientset_NewForConfigAndClient ::
  "('c, 'h, 'd) restLibrary \<Rightarrow> 'c restConfig \<Rightarrow> 'h \<Rightarrow> nat \<Rightarrow> (goerr + ('h, 'd) clientset) \<times> nat" where
  "clientset_NewForConfigAndClient lib c h n =
    (if cfg_RateLimiter c = None \<and> cfg_QPS c > 0 \<and> cfg_Burst c \<le> 0 then (Inl burstError, n)
     else
       let (config, n) =
         (if cfg_RateLimiter c = None \<and> cfg_QPS c > 0
          then (let (limiter, n) = NewTokenBucketRateLimiter (cfg_QPS c) (cfg_Burst c) n in (c\<lparr>cfg_RateLimiter := Some limiter\<rparr>, n))
          else (c, n))
       in andThen (NewForConfigAndClient_groupsnapshot_v1 lib config h n) (\<lambda>g1 n.
          andThen (NewForConfigAndClient_groupsnapshot_v1beta1 lib config h n) (\<lambda>g2 n.
          andThen (NewForConfigAndClient_groupsnapshot_v1beta2 lib config h n) (\<lambda>g3 n.
          andThen (NewForConfigAndClient_snapshot_v1 lib config h n) (\<lambda>s1 n.
          case lib_DiscoveryFor lib config h of
            Inl err \<Rightarrow> (Inl err, n)
          | Inr d \<Rightarrow> (Inr \<lparr>cs_DiscoveryClient = d, cs_groupsnapshotV1 = g1, cs_groupsnapshotV1beta1 = g2,
              cs_groupsnapshotV1beta2 = g3, cs_snapshotV1 = s1\<rparr>, n))))))"

definition clientset_NewForConfig ::
  "('c, 'h, 'd) restLibrary \<Rightarrow> 'c restConfig \<Rightarrow> nat \<Rightarrow> (goerr + ('h, 'd) clientset) \<times> nat" where
  "clientset_NewForConfig lib c n =
    (let config = (if cfg_UserAgent c = [] then c\<lparr>cfg_UserAgent := lib_DefaultUserAgent lib\<rparr> else c) in
     case lib_HTTPClientFor lib config of
       Inl err \<Rightarrow> (Inl err, n)
     | Inr h \<Rightarrow> clientset_NewForConfigAndClient lib config h n)"

definition clientset_NewForConfigOrDie ::
  "('c, 'h, 'd) restLibrary \<Rightarrow> 'c restConfig \<Rightarrow> nat \<Rightarrow> (('h, 'd) clientset \<times> nat) option" where
  "clientset_NewForConfigOrDie lib c n = orDie (clientset_NewForConfig lib c n)"

definition clientset_New :: "('c, 'h, 'd) restLibrary \<Rightarrow> 'h apiClient \<Rightarrow> ('h, 'd) clientset" where
  "clientset_New lib c =
    \<lparr>cs_DiscoveryClient = lib_NewDiscoveryClient lib c, cs_groupsnapshotV1 = New_groupsnapshot_v1 c,
     cs_groupsnapshotV1beta1 = New_groupsnapshot_v1beta1 c, cs_groupsnapshotV1beta2 = New_groupsnapshot_v1beta2 c,
     cs_snapshotV1 = New_snapshot_v1 c\<rparr>"

section \<open>What a set of clients is\<close>

definition clientsOf :: "('h, 'd) clientset \<Rightarrow> 'h apiClient list" where
  "clientsOf cs = [SnapshotV1 cs, GroupsnapshotV1 cs, GroupsnapshotV1beta1 cs, GroupsnapshotV1beta2 cs]"

text \<open>The limiters of the clients, for a configuration that has none of its own.\<close>

definition limitersFor :: "'c restConfig \<Rightarrow> nat \<Rightarrow> rateLimiter option list" where
  "limitersFor c n =
    (let q = cfg_QPS c; b = (if cfg_Burst c = 0 then 10 else cfg_Burst c) in
     case cfg_RateLimiter c of
       Some limiter \<Rightarrow> replicate 4 (Some limiter)
     | None \<Rightarrow>
        if q > 0 then replicate 4 (Some (TokenBucket n q (cfg_Burst c)))
        else if q = 0 then map (\<lambda>k. Some (TokenBucket (n + k) 5 b)) [3, 0, 1, 2]
        else replicate 4 None)"

lemmas version_defs = setConfigDefaults_snapshot_v1_def setConfigDefaults_groupsnapshot_v1_def
  setConfigDefaults_groupsnapshot_v1beta1_def setConfigDefaults_groupsnapshot_v1beta2_def withDefaults_def
  SchemeGroupVersion_snapshot_v1_def SchemeGroupVersion_groupsnapshot_v1_def
  SchemeGroupVersion_groupsnapshot_v1beta1_def SchemeGroupVersion_groupsnapshot_v1beta2_def

lemmas constructor_defs = NewForConfigAndClient_snapshot_v1_def NewForConfigAndClient_groupsnapshot_v1_def
  NewForConfigAndClient_groupsnapshot_v1beta1_def NewForConfigAndClient_groupsnapshot_v1beta2_def

text \<open>One version, where the server has a URL.\<close>

lemma RESTClient_withDefaults:
  assumes "\<And>config. lib_DefaultServerUrlFor lib config = Inr base"
  shows "RESTClientForConfigAndClient lib (withDefaults lib gv c) h n =
    (case limiterFor c n of (limiter, n) \<Rightarrow>
       (Inr \<lparr>ac_client = \<lparr>rc_Base = base, rc_Group = fst gv, rc_Version = snd gv\<rparr>, ac_APIPath = ''/apis'',
          ac_limiter = limiter, ac_http = h\<rparr>, n))"
  using assms by (simp add: RESTClientForConfigAndClient_def withDefaults_def limiterFor_def Let_def split: option.split)

text \<open>Where the transport, the URL of the server and the discovery client can be made, the set of clients fails
  exactly for a rate above 0 with a burst that is not, and without a limiter. Otherwise its four clients address their own group and
  version on that server, over one shared transport. They share one limiter when the configuration has one or a
  rate above 0; with a rate of 0 each of them makes a limiter of its own, and with a negative rate there is none.\<close>

theorem clientset_addresses_and_limits:
  assumes "\<And>config. lib_HTTPClientFor lib config = Inr h" "\<And>config. lib_DefaultServerUrlFor lib config = Inr base"
    and "\<And>config. lib_DiscoveryFor lib config h = Inr d"
  shows "case fst (clientset_NewForConfig lib c n) of
      Inl err \<Rightarrow> cfg_RateLimiter c = None \<and> cfg_QPS c > 0 \<and> cfg_Burst c \<le> 0 \<and> err = burstError
    | Inr cs \<Rightarrow> \<not> (cfg_RateLimiter c = None \<and> cfg_QPS c > 0 \<and> cfg_Burst c \<le> 0) \<and>
        map ac_client (clientsOf cs) =
          [SnapshotV1Client base, GroupsnapshotV1Client base, GroupsnapshotV1beta1Client base, GroupsnapshotV1beta2Client base] \<and>
        map ac_http (clientsOf cs) = replicate 4 h \<and> map ac_APIPath (clientsOf cs) = replicate 4 ''/apis'' \<and>
        map ac_limiter (clientsOf cs) = limitersFor c n"
proof -
  define e where "e = (if cfg_UserAgent c = [] then c\<lparr>cfg_UserAgent := lib_DefaultUserAgent lib\<rparr> else c)"
  have e: "cfg_RateLimiter e = cfg_RateLimiter c" "cfg_QPS e = cfg_QPS c" "cfg_Burst e = cfg_Burst c" by (simp_all add: e_def)
  have new: "clientset_NewForConfig lib c n = clientset_NewForConfigAndClient lib e h n"
    by (simp add: clientset_NewForConfig_def assms(1) e_def Let_def)
  note d = clientset_NewForConfigAndClient_def constructor_defs setConfigDefaults_snapshot_v1_def
    setConfigDefaults_groupsnapshot_v1_def setConfigDefaults_groupsnapshot_v1beta1_def setConfigDefaults_groupsnapshot_v1beta2_def
    RESTClient_withDefaults[OF assms(2)] andThen_def assms(3) limiterFor_def NewTokenBucketRateLimiter_def Let_def
    clientsOf_def SnapshotV1_def GroupsnapshotV1_def GroupsnapshotV1beta1_def GroupsnapshotV1beta2_def limitersFor_def
    SchemeGroupVersion_snapshot_v1_def SchemeGroupVersion_groupsnapshot_v1_def SchemeGroupVersion_groupsnapshot_v1beta1_def
    SchemeGroupVersion_groupsnapshot_v1beta2_def SnapshotV1Client_def GroupsnapshotV1Client_def GroupsnapshotV1beta1Client_def
    GroupsnapshotV1beta2Client_def numeral_eq_Suc
  show ?thesis
  proof (cases "cfg_RateLimiter c")
    case None
    then consider "cfg_QPS c > 0" "cfg_Burst c \<le> 0" | "cfg_QPS c > 0" "cfg_Burst c > 0" | "cfg_QPS c = 0" | "cfg_QPS c < 0"
      by linarith
    then show ?thesis unfolding new by cases (simp_all add: d e None)
  next
    case (Some limiter)
    then show ?thesis unfolding new by (simp add: d e)
  qed
qed

end
