(* ===== verification/TypedConversion.thy ===== *)
theory TypedConversion
  imports Webhook ApiLayouts
begin

text \<open>
  The conversions of the webhook, which work on documents, against the declared types of both versions: what a typed reader
  finds in the document before and after.
\<close>

section \<open>Reading a document as a type\<close>

text \<open>The value of a field that is missing; those of the types of libraries are a parameter.\<close>

fun zero :: "(string \<Rightarrow> data) \<Rightarrow> goType \<Rightarrow> data" and zeroFields :: "(string \<Rightarrow> data) \<Rightarrow> (string \<times> jsonTag \<times> goType) list \<Rightarrow> (string \<times> data) list" where
  "zero z TInt64 = DInt 0"
| "zero z TBool = DBool False"
| "zero z TString = DString []"
| "zero z (TLibrary name) = z name"
| "zero z (TPtr t) = DNil"
| "zero z (TSlice t) = DNil"
| "zero z TStringMap = DNil"
| "zero z (TStruct fs) = DStruct (zeroFields z fs)"
| "zeroFields z [] = []"
| "zeroFields z ((f, tag, t) # fs) = (f, zero z t) # zeroFields z fs"

fun decodeInt :: "json \<Rightarrow> data option" where
  "decodeInt JNull = Some (DInt 0)"
| "decodeInt (JInt i) = (if - (2 ^ 63) \<le> i \<and> i < 2 ^ 63 then Some (DInt i) else None)"
| "decodeInt (JFloat x) =
    (case doubleInt x of None \<Rightarrow> None | Some i \<Rightarrow> if - (2 ^ 63) \<le> i \<and> i < 2 ^ 63 then Some (DInt i) else None)"
| "decodeInt _ = None"

fun decodeBool :: "json \<Rightarrow> data option" where
  "decodeBool JNull = Some (DBool False)"
| "decodeBool (JBool b) = Some (DBool b)"
| "decodeBool _ = None"

fun decodeString :: "json \<Rightarrow> data option" where
  "decodeString JNull = Some (DString [])"
| "decodeString (JString s) = Some (DString s)"
| "decodeString _ = None"

fun decodeMap :: "json \<Rightarrow> data option" where
  "decodeMap JNull = Some DNil"
| "decodeMap (JObject m) = (if fmpred (\<lambda>_. coercible) m then Some (DMap (fmmap coerced m)) else None)"
| "decodeMap _ = None"

text \<open>
  \<open>encoding/json\<close> into a variable of the type that is zero, with exact names as the API machinery reads: a null leaves the zero
  value, fields that the type does not have are skipped. \<open>lib\<close> reads the types of libraries.
\<close>

type_synonym library = "(string \<Rightarrow> data) \<times> (string \<Rightarrow> json \<Rightarrow> data option)"

function (sequential) decode :: "library \<Rightarrow> goType \<Rightarrow> json \<Rightarrow> data option"
  and decodeFields :: "library \<Rightarrow> (string \<times> jsonTag \<times> goType) list \<Rightarrow> (string, json) fmap \<Rightarrow> (string \<times> data) list option"
  and decodeAll :: "library \<Rightarrow> goType \<Rightarrow> json list \<Rightarrow> data list option" where
  "decode lib TInt64 j = decodeInt j"
| "decode lib TBool j = decodeBool j"
| "decode lib TString j = decodeString j"
| "decode lib TStringMap j = decodeMap j"
| "decode lib (TLibrary name) j = snd lib name j"
| "decode lib (TPtr t) JNull = Some DNil"
| "decode lib (TPtr t) j = map_option DPtr (decode lib t j)"
| "decode lib (TSlice t) JNull = Some DNil"
| "decode lib (TSlice t) (JArray xs) = map_option DSlice (decodeAll lib t xs)"
| "decode lib (TSlice t) _ = None"
| "decode lib (TStruct fs) JNull = Some (zero (fst lib) (TStruct fs))"
| "decode lib (TStruct fs) (JObject m) = map_option DStruct (decodeFields lib fs m)"
| "decode lib (TStruct fs) _ = None"
| "decodeFields lib [] m = Some []"
| "decodeFields lib ((f, tag, t) # fs) m =
    do { d \<leftarrow> (case tag of
           Inline \<Rightarrow> decode lib t (JObject m)
         | Tag name omitempty \<Rightarrow> (case fmlookup m name of None \<Rightarrow> Some (zero (fst lib) t) | Some j \<Rightarrow> decode lib t j));
         ds \<leftarrow> decodeFields lib fs m;
         Some ((f, d) # ds) }"
| "decodeAll lib t [] = Some []"
| "decodeAll lib t (j # js) = do { d \<leftarrow> decode lib t j; ds \<leftarrow> decodeAll lib t js; Some (d # ds) }"
  by pat_completeness auto

termination
  by (relation "measures
      [\<lambda>x. case x of Inl (_, t, _) \<Rightarrow> 2 * size t
         | Inr (Inl (_, fs, _)) \<Rightarrow> 2 * size_list (size_prod (\<lambda>_. 0) (size_prod (\<lambda>_. 0) size)) fs
         | Inr (Inr (_, t, _)) \<Rightarrow> Suc (2 * size t),
       \<lambda>x. case x of Inr (Inr (_, _, js)) \<Rightarrow> length js | _ \<Rightarrow> 0]") auto

section \<open>Contents in both versions\<close>

definition contentData :: "data \<Rightarrow> data \<Rightarrow> data \<Rightarrow> data \<Rightarrow> data" where
  "contentData typeMeta objectMeta spec status =
    DStruct [(''TypeMeta'', typeMeta), (''ObjectMeta'', objectMeta), (''Spec'', spec), (''Status'', DPtr status)]"

definition typeMetaData :: "string \<Rightarrow> data" where
  "typeMetaData version = DStruct [(''Kind'', DString ''VolumeGroupSnapshotContent''), (''APIVersion'', DString version)]"

text \<open>The four fields that the versions share, then the list in which they differ.\<close>

definition statusData :: "data list \<Rightarrow> string \<Rightarrow> data list \<Rightarrow> data" where
  "statusData shared name members =
    DStruct (zip [''VolumeGroupSnapshotHandle'', ''CreationTime'', ''ReadyToUse'', ''Error''] shared @ [(name, DSlice members)])"

definition infoData :: "string \<Rightarrow> string \<Rightarrow> data \<Rightarrow> data \<Rightarrow> data \<Rightarrow> data" where
  "infoData volume snapshot creationTime readyToUse restoreSize = DStruct
    [(''VolumeHandle'', DString volume), (''SnapshotHandle'', DString snapshot), (''CreationTime'', creationTime),
     (''ReadyToUse'', readyToUse), (''RestoreSize'', restoreSize)]"

text \<open>An info as a pair, and a pair as an info.\<close>

fun pairOf :: "data \<Rightarrow> data" where
  "pairOf (DStruct [(v, volume), (s, snapshot), c, r, z]) = DStruct [(v, volume), (s, snapshot)]"
| "pairOf d = d"

fun infoOf :: "data \<Rightarrow> data" where
  "infoOf (DStruct [(v, volume), (s, snapshot)]) =
    DStruct [(v, volume), (s, snapshot), (''CreationTime'', DNil), (''ReadyToUse'', DNil), (''RestoreSize'', DNil)]"
| "infoOf d = d"

section \<open>The members\<close>

lemmas member_layouts = VolumeSnapshotInfo_v1beta2_def VolumeSnapshotHandlePair_v1beta1_def

lemma decode_pair:
  assumes "isMap x" "decode lib VolumeSnapshotInfo_v1beta2 x = Some d"
  shows "decode lib VolumeSnapshotHandlePair_v1beta1 (toPair x) = Some (pairOf d)"
proof (cases x)
  case (JObject m)
  then show ?thesis using assms(2) by (auto simp: member_layouts split: bind_splits)
qed (use assms(1) in auto)

lemma decode_pairs:
  "list_all isMap xs \<Longrightarrow> decodeAll lib VolumeSnapshotInfo_v1beta2 xs = Some ds \<Longrightarrow>
    decodeAll lib VolumeSnapshotHandlePair_v1beta1 (map toPair xs) = Some (map pairOf ds)"
proof (induction xs arbitrary: ds)
  case (Cons x xs)
  then show ?case using decode_pair[of x lib] by (auto split: bind_splits)
qed simp

lemma decode_info:
  assumes "isMap x" "toPair x = x" "decode lib VolumeSnapshotHandlePair_v1beta1 x = Some d"
  shows "decode lib VolumeSnapshotInfo_v1beta2 x = Some (infoOf d)"
proof (cases x)
  case (JObject m)
  then have m: "m = fmdrop ''restoreSize'' (fmdrop ''readyToUse'' (fmdrop ''creationTime'' m))" using assms(2) by simp
  have "fmlookup m ''restoreSize'' = None" "fmlookup m ''readyToUse'' = None" "fmlookup m ''creationTime'' = None"
    by (subst m, simp)+
  then show ?thesis using assms(3) unfolding JObject by (auto simp: member_layouts split: bind_splits)
qed (use assms(1) in auto)

lemma decode_infos:
  "list_all (\<lambda>x. isMap x \<and> toPair x = x) xs \<Longrightarrow> decodeAll lib VolumeSnapshotHandlePair_v1beta1 xs = Some ds \<Longrightarrow>
    decodeAll lib VolumeSnapshotInfo_v1beta2 xs = Some (map infoOf ds)"
proof (induction xs arbitrary: ds)
  case (Cons x xs)
  then show ?case using decode_info[of x lib] by (auto split: bind_splits)
qed simp

section \<open>The contents\<close>

lemmas content_layouts = VolumeGroupSnapshotContent_v1beta1_def VolumeGroupSnapshotContent_v1beta2_def TypeMeta_type_def

lemmas status_layouts = VolumeGroupSnapshotContentStatus_v1beta1_def VolumeGroupSnapshotContentStatus_v1beta2_def

lemma spec_layouts: "VolumeGroupSnapshotContentSpec_v1beta1 = VolumeGroupSnapshotContentSpec_v1beta2"
  by (simp add: VolumeGroupSnapshotContentSpec_v1beta1_def VolumeGroupSnapshotContentSpec_v1beta2_def
      VolumeGroupSnapshotContentSource_v1beta1_def VolumeGroupSnapshotContentSource_v1beta2_def
      GroupSnapshotHandles_v1beta1_def GroupSnapshotHandles_v1beta2_def)

lemma GetKind_stored: "GetKind obj = k \<Longrightarrow> k \<noteq> [] \<Longrightarrow> fmlookup obj ''kind'' = Some (JString k)"
  by (auto simp: GetKind_def getNestedString_def split: sum.splits option.splits json.splits)

lemma length_four: "length xs = 4 \<longleftrightarrow> (\<exists>a b c d. xs = [a, b, c, d])"
  by (auto simp: numeral_eq_Suc length_Suc_conv)

text \<open>The status on its own.\<close>

lemma decode_status:
  assumes "fmlookup st ''volumeSnapshotInfoList'' = Some (JArray xs)" "list_all isMap xs" "length shared = 4"
    and "decode lib VolumeGroupSnapshotContentStatus_v1beta2 (JObject st) = Some (statusData shared ''VolumeSnapshotInfoList'' infos)"
  shows "decode lib VolumeGroupSnapshotContentStatus_v1beta1
      (JObject (fmdrop ''volumeSnapshotInfoList'' (fmupd ''volumeSnapshotHandlePairList'' (JArray (map toPair xs)) st))) =
    Some (statusData shared ''VolumeSnapshotHandlePairList'' (map pairOf infos))"
  using assms(1,3,4) decode_pairs[OF assms(2)]
  by (auto simp: status_layouts statusData_def length_four split: bind_splits)

text \<open>C12: The conversion of a content from version v1beta2 to v1beta1 keeps what a typed reader finds: where the document holds an
  object of the newer type, its conversion holds one of the older type with the same spec and status, every info as
  the pair of its two handles in the same order, and the metadata with the annotation that keeps the infos.\<close>

theorem downgrade_keeps_typed_content:
  assumes "holdsInfos obj meta st xs" "list_all isMap xs" "length shared = 4"
    and "GetAPIVersion obj = v1beta2Version" "GetKind obj = ''VolumeGroupSnapshotContent''"
    and "decode lib VolumeGroupSnapshotContent_v1beta2 (JObject obj) =
      Some (contentData tm om sp (statusData shared ''VolumeSnapshotInfoList'' infos))"
    and "\<And>a. snd lib ''metav1.ObjectMeta'' (JObject (fmupd ''annotations'' (JObject (fmmap JString a)) meta)) = Some (readMeta a)"
  shows "\<exists>obj'. convertGroupSnapshotCRD syntaxText obj v1beta1Version = Some (Inr obj') \<and>
    decode lib VolumeGroupSnapshotContent_v1beta1 (JObject (SetAPIVersion v1beta1Version obj')) =
      Some (contentData (typeMetaData v1beta1Version)
        (readMeta (fmupd volumeSnapshotInfoAnnotationName (json_Marshal (JArray xs)) (annotationsOf obj)))
        sp (statusData shared ''VolumeSnapshotHandlePairList'' (map pairOf infos)))"
proof -
  have v: "v1beta1Version \<noteq> v1beta2Version" by code_simp
  let ?obj = "downgraded obj meta st xs (map toPair xs)"
  have look: "fmlookup obj ''metadata'' = Some (JObject meta)" "fmlookup obj ''status'' = Some (JObject st)"
    "fmlookup st ''volumeSnapshotInfoList'' = Some (JArray xs)" "fmlookup obj ''kind'' = Some (JString ''VolumeGroupSnapshotContent'')"
    using assms(1) GetKind_stored[OF assms(5)] by (simp_all add: holdsInfos_def)
  have "convertGroupSnapshotCRD syntaxText obj v1beta1Version = Some (Inr ?obj)"
    using downgrade[OF assms(1), of "map toPair xs"] assms(2,4,5) v by (simp add: convertGroupSnapshotCRD_def Let_def toPairs_ok)
  moreover have "decode lib VolumeGroupSnapshotContentStatus_v1beta2 (JObject st) =
      Some (statusData shared ''VolumeSnapshotInfoList'' infos)"
    "(case fmlookup obj ''spec'' of None \<Rightarrow> Some (zero (fst lib) VolumeGroupSnapshotContentSpec_v1beta2)
      | Some j \<Rightarrow> decode lib VolumeGroupSnapshotContentSpec_v1beta2 j) = Some sp"
    using assms(6) look by (auto simp: content_layouts contentData_def split: bind_splits)
  moreover note decode_status[OF look(3) assms(2,3) this(1)]
  ultimately show ?thesis using look assms(7)
    by (intro exI[of _ ?obj]) (simp add: downgraded_def SetAPIVersion_def content_layouts contentData_def typeMetaData_def spec_layouts)
qed

text \<open>
  The content of the example, for a reader to whom the types of libraries are nothing; it has one info with a creation time and a
  snapshot handle.
\<close>

definition demoLibrary :: library where
  "demoLibrary = (\<lambda>name. DNil, \<lambda>name j. Some DNil)"

theorem downgrade_keeps_typed_content_witness:
  "\<exists>obj'. convertGroupSnapshotCRD id (exampleContent 7) v1beta1Version = Some (Inr obj') \<and>
    decode demoLibrary VolumeGroupSnapshotContent_v1beta1 (JObject (SetAPIVersion v1beta1Version obj')) =
      Some (contentData (typeMetaData v1beta1Version) DNil (zero (fst demoLibrary) VolumeGroupSnapshotContentSpec_v1beta2)
        (statusData [DNil, DNil, DNil, DNil] ''VolumeSnapshotHandlePairList''
          [DStruct [(''VolumeHandle'', DString []), (''SnapshotHandle'', DString ''s1'')]]))"
proof -
  let ?meta = "fmap_of_list [(''annotations'', JObject (fmap_of_list [(''a'', JString ''b'')]))]"
    and ?xs = "[JObject (fmap_of_list [(''creationTime'', JInt 7), (''snapshotHandle'', JString ''s1'')])]"
    and ?infos = "[infoData [] ''s1'' (DPtr (DInt 7)) DNil DNil]"
  have "decode demoLibrary VolumeGroupSnapshotContent_v1beta2 (JObject (exampleContent 7)) =
      Some (contentData (typeMetaData v1beta2Version) DNil (zero (fst demoLibrary) VolumeGroupSnapshotContentSpec_v1beta2)
        (statusData [DNil, DNil, DNil, DNil] ''VolumeSnapshotInfoList'' ?infos))"
    by (simp add: exampleContent_def content_layouts status_layouts member_layouts contentData_def typeMetaData_def statusData_def
        infoData_def demoLibrary_def)
  from downgrade_keeps_typed_content[OF _ _ _ _ _ this, of ?meta "fmap_of_list [(''volumeSnapshotInfoList'', JArray ?xs)]" ?xs
      "\<lambda>a. DNil" id]
  show ?thesis
    by (simp add: holdsInfos_def exampleContent_def GetAPIVersion_def GetKind_def getNestedString_def demoLibrary_def infoData_def)
qed

section \<open>Back from the older version\<close>

lemma decode_status_back:
  assumes "fmlookup st ''volumeSnapshotHandlePairList'' = Some (JArray xs)" "list_all (\<lambda>x. isMap x \<and> toPair x = x) xs"
    and "length shared = 4"
    and "decode lib VolumeGroupSnapshotContentStatus_v1beta1 (JObject st) = Some (statusData shared ''VolumeSnapshotHandlePairList'' pairs)"
  shows "decode lib VolumeGroupSnapshotContentStatus_v1beta2
      (JObject (fmdrop ''volumeSnapshotHandlePairList'' (fmupd ''volumeSnapshotInfoList'' (JArray xs) st))) =
    Some (statusData shared ''VolumeSnapshotInfoList'' (map infoOf pairs))"
  using assms(1,3,4) decode_infos[OF assms(2)]
  by (auto simp: status_layouts statusData_def length_four split: bind_splits)

text \<open>
  A content that was created in the older version has pairs and no annotation; the newer version finds each pair as an info with its
  handles and nothing else.
\<close>

theorem upgrade_keeps_typed_content:
  assumes "fmlookup obj ''status'' = Some (JObject st)" "fmlookup st ''volumeSnapshotHandlePairList'' = Some (JArray xs)"
    and "fmlookup (annotationsOf obj) volumeSnapshotInfoAnnotationName = None"
    and "list_all (\<lambda>x. isMap x \<and> toPair x = x) xs" "length shared = 4"
    and "GetAPIVersion obj = v1beta1Version" "GetKind obj = ''VolumeGroupSnapshotContent''"
    and "decode lib VolumeGroupSnapshotContent_v1beta1 (JObject obj) =
      Some (contentData tm om sp (statusData shared ''VolumeSnapshotHandlePairList'' pairs))"
  shows "\<exists>obj'. convertGroupSnapshotCRD syntaxText obj v1beta2Version = Some (Inr obj') \<and>
    decode lib VolumeGroupSnapshotContent_v1beta2 (JObject (SetAPIVersion v1beta2Version obj')) =
      Some (contentData (typeMetaData v1beta2Version) om sp (statusData shared ''VolumeSnapshotInfoList'' (map infoOf pairs)))"
proof -
  have v: "v1beta1Version \<noteq> v1beta2Version" by code_simp
  let ?obj = "fmupd ''status'' (JObject (fmdrop ''volumeSnapshotHandlePairList'' (fmupd ''volumeSnapshotInfoList'' (JArray xs) st))) obj"
  note look = assms(1,2) GetKind_stored[OF assms(7), simplified]
  have "convertVolumeGroupSnapshotContentFromV1beta1ToV1beta2 syntaxText obj = Some (Inr ?obj)"
    using assms(3) look
    by (auto simp: convertVolumeGroupSnapshotContentFromV1beta1ToV1beta2_def path_defs NestedSlice_two setInfoList_def annotationsOf_def
        split: option.splits)
  then have "convertGroupSnapshotCRD syntaxText obj v1beta2Version = Some (Inr ?obj)"
    using assms(6,7) v by (simp add: convertGroupSnapshotCRD_def Let_def)
  moreover have "decode lib VolumeGroupSnapshotContentStatus_v1beta1 (JObject st) =
      Some (statusData shared ''VolumeSnapshotHandlePairList'' pairs)"
    "(case fmlookup obj ''spec'' of None \<Rightarrow> Some (zero (fst lib) VolumeGroupSnapshotContentSpec_v1beta2)
      | Some j \<Rightarrow> decode lib VolumeGroupSnapshotContentSpec_v1beta2 j) = Some sp"
    "(case fmlookup obj ''metadata'' of None \<Rightarrow> Some (zero (fst lib) (TLibrary ''metav1.ObjectMeta''))
      | Some j \<Rightarrow> decode lib (TLibrary ''metav1.ObjectMeta'') j) = Some om"
    using assms(8) look by (auto simp: content_layouts contentData_def spec_layouts split: bind_splits)
  moreover note decode_status_back[OF look(2) assms(4,5) this(1)]
  ultimately show ?thesis using look
    by (intro exI[of _ ?obj]) (simp add: SetAPIVersion_def content_layouts contentData_def typeMetaData_def)
qed

end
