(* ===== verification/MetricsLoop.thy ===== *)
theory MetricsLoop
  imports Metrics
begin

text \<open>
  The rest of \<open>pkg/metrics/metrics.go\<close>: the routine that \<open>init\<close> starts to refresh the gauge of operations in flight, as a
  step relation with the calls of the controllers, the path of the metrics, and the statuses of operations.
\<close>

section \<open>The refreshing routine\<close>

text \<open>
  The routine looks at its context, then takes the ticks of a ticker. The context is cancelled when \<open>init\<close> returns; only then
  the controllers have the manager.
\<close>

datatype routinePhase = AtSelect | InTicks | Returned

record metricsRun =
  mr_manager :: operationMetricsManager
  mr_cancelled :: bool
  mr_phase :: routinePhase

definition init_started :: metricsRun where
  "init_started = \<lparr>mr_manager = NewMetricsManager, mr_cancelled = False, mr_phase = AtSelect\<rparr>"

inductive runStep :: "metricsRun \<Rightarrow> metricsRun \<Rightarrow> bool" where
  initReturns: "\<not> mr_cancelled p \<Longrightarrow> runStep p (p\<lparr>mr_cancelled := True\<rparr>)"
| selectDone: "mr_phase p = AtSelect \<Longrightarrow> mr_cancelled p \<Longrightarrow> runStep p (p\<lparr>mr_phase := Returned\<rparr>)"
| selectDefault: "mr_phase p = AtSelect \<Longrightarrow> \<not> mr_cancelled p \<Longrightarrow> runStep p (p\<lparr>mr_phase := InTicks\<rparr>)"
| tick: "mr_phase p = InTicks \<Longrightarrow> runStep p (p\<lparr>mr_manager := setInFlight (mr_manager p)\<rparr>)"
| managerCall: "mr_cancelled p \<Longrightarrow> runStep p (p\<lparr>mr_manager := metricsStep c (mr_manager p)\<rparr>)"

inductive_cases runStep_cases: "runStep p q"

lemma gauge_setInFlight: "opInFlight m = fcard (fmdom (op_cache m)) \<Longrightarrow> setInFlight m = m"
  by (simp add: setInFlight_def)

lemma run_gauge:
  assumes "runStep\<^sup>*\<^sup>* p q" "opInFlight (mr_manager p) = fcard (fmdom (op_cache (mr_manager p)))"
  shows "opInFlight (mr_manager q) = fcard (fmdom (op_cache (mr_manager q)))"
  using assms
proof (induction rule: rtranclp_induct)
  case (step q r)
  have "opInFlight (mr_manager q) = fcard (fmdom (op_cache (mr_manager q)))" by (rule step.IH[OF step.prems])
  then show ?case using step.hyps(2) by (elim runStep_cases) (simp_all add: gauge_step gauge_setInFlight)
qed simp

lemma run_phase:
  assumes "runStep\<^sup>*\<^sup>* p q"
  shows "(mr_cancelled p \<longrightarrow> mr_cancelled q) \<and>
    (mr_phase p = InTicks \<longrightarrow> mr_phase q = InTicks) \<and>
    (mr_cancelled p \<and> mr_phase p \<noteq> InTicks \<longrightarrow> mr_phase q \<noteq> InTicks)"
  using assms
proof (induction rule: rtranclp_induct)
  case (step q r)
  from step.hyps(2) step.IH show ?case by (elim runStep_cases) auto
qed simp

text \<open>
  The cancellation of \<open>init\<close> has the routine either end before its first tick or never: a routine that has passed its select when
  \<open>init\<close> returns ticks for ever, although its context is cancelled. Neither does harm, as a tick never changes anything.
\<close>

theorem refresh_ends_at_once_or_never:
  assumes "runStep\<^sup>*\<^sup>* init_started p" "mr_cancelled p" "runStep\<^sup>*\<^sup>* p q"
  shows "(if mr_phase p = InTicks then mr_phase q = InTicks else mr_phase q \<noteq> InTicks) \<and>
    setInFlight (mr_manager q) = mr_manager q"
proof -
  have "opInFlight (mr_manager init_started) = fcard (fmdom (op_cache (mr_manager init_started)))"
    by (simp add: init_started_def NewMetricsManager_def)
  then show ?thesis using run_phase[OF assms(3)] run_gauge[OF assms(1)] run_gauge[OF assms(3)] assms(2)
    by (simp add: gauge_setInFlight)
qed

section \<open>The path of the metrics\<close>

text \<open>The patterns of a \<open>ServeMux\<close>; registering an empty pattern or one that is there is a panic.\<close>

type_synonym serveMux = "string list"

definition mux_Handle :: "serveMux \<Rightarrow> string \<Rightarrow> serveMux option" where
  "mux_Handle mux pattern = (if pattern = [] \<or> pattern \<in> set mux then None else Some (mux @ [pattern]))"

definition PrepareMetricsPath :: "serveMux \<Rightarrow> string \<Rightarrow> (goerr option \<times> serveMux) option" where
  "PrepareMetricsPath mux pattern = map_option (\<lambda>mux. (None, mux)) (mux_Handle mux pattern)"

text \<open>The part of \<open>main\<close> that prepares the endpoint: nothing without an address.\<close>

definition prepareEndpoint :: "string \<Rightarrow> string \<Rightarrow> serveMux option" where
  "prepareEndpoint httpEndpoint metricsPath =
    (if httpEndpoint \<noteq> [] then map_option snd (PrepareMetricsPath [] metricsPath) else Some [])"

theorem empty_metrics_path_panics:
  "prepareEndpoint httpEndpoint metricsPath = None \<longleftrightarrow> httpEndpoint \<noteq> [] \<and> metricsPath = []"
  by (simp add: prepareEndpoint_def PrepareMetricsPath_def mux_Handle_def)

section \<open>Statuses\<close>

record SnapshotOperationStatus =
  sos_status :: string

definition NewSnapshotOperationStatus :: "string \<Rightarrow> SnapshotOperationStatus" where
  "NewSnapshotOperationStatus status = \<lparr>sos_status = status\<rparr>"

definition SnapshotOperationStatus_String :: "SnapshotOperationStatus \<Rightarrow> string" where
  "SnapshotOperationStatus_String sos = sos_status sos"

end
