(* ===== verification/Spec2Isabelle.thy ===== *)
theory Spec2Isabelle
  imports System Caches Webhook Certs Shutdown Commands Clients Provisioning Access Informers Listers Construction DeepCopy ApiVersions Clientset TypedConversion MetricsLoop
begin

text \<open>
  Verification of the external-snapshotter controllers.

  The program. Users create \<open>VolumeSnapshot\<close> and \<open>VolumeGroupSnapshot\<close> objects; two controllers that
  only meet through the API server turn them into snapshots on a storage system. The common controller
  (\<open>pkg/common-controller\<close>, one per cluster) creates a cluster-wide content object for each snapshot, binds
  the two, keeps the user's status in step with the content, protects claims and objects with finalizers, and
  carries deletions over to the contents. A sidecar (\<open>pkg/sidecar-controller\<close>, one per CSI driver) works
  on the contents of its driver: it calls the driver over gRPC (\<open>pkg/snapshotter\<close>,
  \<open>pkg/group_snapshotter\<close>), records handles and readiness in the status of the content, and deletes on the
  storage system. Both are informer loops: events put keys on queues, a worker takes a key, stores the newest
  object in a versioned cache and synchronizes it; an error puts the key back on the queue.
  A webhook (\<open>pkg/webhook\<close>) converts stored group contents between two versions of the API for the API server.

  The model. An operation takes the environment, its arguments and the state \<open>'w st\<close> (\<open>Runtime\<close>): the world,
  the four object caches, the metrics cache and a log of effects. The result is an option: \<open>None\<close> is a run-time
  panic (nil dereference, index or slice out of range), \<open>Some (r, s)\<close> a return. Go errors are values of
  \<open>goerr\<close>, a result with an error is a sum. The record \<open>'w env\<close> holds what is not code of this repository:
  the API server behind the generated clients, the listers and indexers, the driver, the clock, the order of a
  range over a map, and the command-line options. Each of its functions reads and changes the world of
  arbitrary type \<open>'w\<close>, and nothing is assumed of them, except in the hypotheses a theorem states; so every
  theorem holds for every interleaving with other writers between the calls of an operation. Every write, driver
  call, event and queue operation is an entry of the log, and most properties speak about the entries an
  operation adds. Values are immutable in HOL, so deep copies are the identity, which \<open>DeepCopy\<close> justifies; where the code
  writes through a pointer into a cached object, the model has the write (\<open>writeThroughVSC\<close>, \<open>writeThroughVGSC\<close>).

  The theories and the code.
  \<^item> \<open>Prelude\<close>: Go strings, maps, results with panics and their weakest preconditions; \<open>ApiTypes\<close>: the
    objects of \<open>client/apis\<close> as records; \<open>Utils\<close>: \<open>pkg/utils\<close>; \<open>Metrics\<close>, \<open>MetricsLoop\<close>: \<open>pkg/metrics\<close>;
    \<open>Sha256\<close>: the hash the member names are built from, its constants computed from the primes.
  \<^item> \<open>Runtime\<close>: state, environment, log, conflicts and retries, the caches with their contract (locale
    \<open>versioned_cache\<close>), patches, credentials, and the locale \<open>effects\<close> in which the invariant lemmas of all
    operations are proved once; \<open>Caches\<close>: the refinement of the caches.
  \<^item> \<open>CommonFinalizers\<close>, \<open>CommonStatus\<close>, \<open>CommonContent\<close>, \<open>CommonSync\<close>:
    \<open>common-controller/snapshot_controller.go\<close>; \<open>CommonBase\<close>: the work loop of
    \<open>snapshot_controller_base.go\<close>.
  \<^item> \<open>CommonGroup\<close>, \<open>CommonGroupSync\<close>, \<open>CommonGroupProps\<close>: the operations of
    \<open>groupsnapshot_controller_helper.go\<close>, the group half of the work loop, and their properties.
  \<^item> \<open>CsiHandler\<close>, \<open>GroupHandler\<close>: \<open>sidecar-controller/csi_handler.go\<close> and the two clients of the
    driver, with the contract the reconcilers rely on (locales \<open>handler_client\<close>, \<open>group_handler_client\<close>) and
    its interpretation on the code's handler.
  \<^item> \<open>Sidecar\<close>, \<open>SidecarBase\<close>: \<open>sidecar-controller/snapshot_controller.go\<close> and its work loop;
    \<open>SidecarGroup\<close>: \<open>groupsnapshot_helper.go\<close>.
  \<^item> \<open>Json\<close>: documents as the webhook reads and writes them, with \<open>encoding/json\<close> down to strings and float64;
    \<open>Webhook\<close>: \<open>webhook/convert.go\<close> and \<open>framework.go\<close>; \<open>Certs\<close>: \<open>webhook/certwatcher.go\<close> and the start of
    the webhook.
  \<^item> \<open>Commands\<close>: the checks and the configuration of the two \<open>main\<close> functions and \<open>pkg/features\<close>;
    \<open>Shutdown\<close>: \<open>Run\<close> of the controllers, their workers and the end of a process, as a step relation, with the
    locale \<open>draining\<close> for the controllers that shut down the queues of all their workers.
  \<^item> \<open>System\<close>: the two processes, the world between them, and the steps they take, as a step relation with
    the invariants of its reachable states; \<open>Provisioning\<close>: a run of both processes from the creation of a snapshot
    to its use, on a cluster in which nothing fails.
  \<^item> \<open>Clients\<close>: the typed clients of \<open>client/clientset/versioned\<close> down to the requests they send; \<open>Clientset\<close>: how
    they come from one configuration, with their transport and the limits on their requests; \<open>Informers\<close>: the shared
    informers of \<open>client/informers\<close>, with the factory that keeps them; \<open>Listers\<close>: the listers of \<open>client/listers\<close> over the objects an informer holds.
  \<^item> \<open>Construction\<close>: the constructors of both controllers with the handlers and indices they give their informers, \<open>main\<close>
    up to the start of the factories; \<open>Access\<close>: the roles of \<open>deploy/kubernetes\<close> and what the writes of the two processes
    ask of them; \<open>ApiVersions\<close>: the versions of group contents in \<open>client/config/crd\<close>, in the webhook and in the informers.
  \<^item> \<open>GoMemory\<close>: values with references, in a memory where their aliasing shows, and the contract of a deep copy;
    \<open>ApiLayouts\<close>: the types of \<open>client/apis\<close> as they are declared, in all versions; \<open>DeepCopy\<close>: their generated copies;
    \<open>TypedConversion\<close>: the conversions of the webhook against these types.

  The properties. Liveness: a snapshot that a user creates becomes ready, one step of the protocol after the other; every
  change an informer sees, but for quiet updates in the sidecar, reaches a queue that has a worker.
  Safety: contents, group contents and members are deleted only after the checks of owner, policy, restores and group
  have passed, a finalizer is released only after the driver confirmed the deletion, creations happen under their
  annotation and for the right object, bindings are never stolen, reads and writes stay within the role of the process,
  different objects have different paths at the server, a deep copy shares no memory with its original. Functional
  behaviour: informers, lookups, bindings, statuses, names and driver requests, on all branches. Invariants: keys are
  requeued exactly on errors, each process keeps to its part, caches keep their kinds, the webhook serves the last good certificate. Termination:
  the recursive group sync of the sidecar returns, a signalled snapshot controller ends. Round trip: a group content
  comes back from the older version, up to the precision of its numbers. Errors: what gets stuck, leaks or is forgotten, with the reason.

  Bounds and recursion. \<open>RetryOnConflict\<close> makes the five attempts of \<open>retry.DefaultRetry\<close>; the loops are
  over finite lists. The deletion of a group content calls the sync of the same content again, which is a
  \<open>partial_function\<close> whose value \<open>None\<close> also covers a run that does not end; \<open>group_sync_returns\<close> states
  when it returns. A turn of a worker is one step of \<open>System\<close>; several workers of one process are serialized
  there, as their queues serialize the work on one key, but not the access of different keys to the shared cache.

  The reader of JSON is bounded by the nesting depth of 10000 of \<open>encoding/json\<close>; \<open>ExponentialBackoffWithContext\<close> counts
  the steps of its argument, of which the caller gives \<open>2^31 - 1\<close>. \<open>Shutdown\<close> has no bound: a measure goes down with
  every move of a process.

  Parameters beyond \<open>'w env\<close>. In \<open>Webhook\<close> the serializers of the API machinery, the parser of the \<open>Accept\<close> header, the
  order of the range over the serializers and the texts of syntax errors; in \<open>Certs\<close> what loading a key pair and adding a
  watch give; in \<open>Commands\<close> the record \<open>'w platform\<close>. No hypothesis is made about them. In \<open>DeepCopy\<close> the copies of the types of libraries,
  with the hypothesis that they keep the contract of a deep copy; in \<open>Clientset\<close> the transport and the URL of the server; in
  \<open>TypedConversion\<close> how the types of libraries are read.

  Not modelled. Flag parsing, the leader election of client-go, the HTTP and TLS servers and the Prometheus endpoint; of
  client-go the reflectors, the indexers and the transport; the fake clients, and the registration of the types with a scheme. Log
  lines are left out. Durations of operations are numbers the metrics
  receive, their buckets are not modelled. Time stamps and resource quantities are integers; label selectors are
  tested by the API server, so they are passed on as they are.
\<close>

end
